(* ===== verification/Prelude.thy ===== *)
theory Prelude
  imports Main "HOL-Library.List_Lexorder" "HOL-Library.Char_ord" "HOL-Library.Product_Lexorder"
    "HOL-Library.Multiset" "HOL-Library.AList"
begin

text \<open>
  Shared vocabulary of the development.
  \<^item> \<open>go_error\<close> is a Go \<^verbatim>\<open>error\<close> value: the format string of \<^verbatim>\<open>fmt.Errorf\<close> with its rendered
    arguments, an error wrapped with \<^verbatim>\<open>%w\<close>, or a run-time panic. A fallible function returns
    \<open>go_error + 'a\<close> (\<open>Inl\<close> for the error); a validator returns \<open>go_error option\<close>, where
    \<open>None\<close> is \<^verbatim>\<open>nil\<close>. \<open>and_then\<close> is the early return \<^verbatim>\<open>if err != nil { return err }\<close>.
  \<^item> \<open>first_error\<close> is the validation loop \<^verbatim>\<open>for _, x := range xs { if err := f(x) ... }\<close>.
  \<^item> A Go map is an association list (\<open>gomap\<close>) read with \<open>map_of\<close> and written with
    \<open>AList.update\<close>; loops over a map whose result does not depend on the iteration order are
    written over the list.
  \<^item> \<^verbatim>\<open>time.Time\<close> is the number of nanoseconds since Go's zero time, so \<^verbatim>\<open>IsZero\<close> is \<open>t = 0\<close>,
    \<^verbatim>\<open>Before\<close>/\<^verbatim>\<open>After\<close>/\<^verbatim>\<open>Equal\<close> compare the numbers and \<^verbatim>\<open>UTC()\<close> is the identity.
  \<^item> \<open>quo\<close>/\<open>remt\<close> are \<^verbatim>\<open>big.Int.QuoRem\<close> (truncation towards zero).
\<close>

section \<open>Collections of facts\<close>

named_theorems result_simps \<open>unfolding of the error monad and of validation loops\<close>
named_theorems order_simps \<open>stable sorting by a key\<close>

section \<open>Errors as values\<close>

datatype go_error =
    Errorf string "string list"
  | Wrapf string "string list" go_error
  | Panic string

type_synonym 'a result = "go_error + 'a"
type_synonym validation = "go_error option"

definition and_then :: "'e + 'a \<Rightarrow> ('a \<Rightarrow> 'e + 'b) \<Rightarrow> 'e + 'b" where
  "and_then m f = (case m of Inl e \<Rightarrow> Inl e | Inr x \<Rightarrow> f x)"

lemma and_then_simps [simp]:
  "and_then (Inl e) f = Inl e"
  "and_then (Inr x) f = f x"
  by (simp_all add: and_then_def)

lemma and_then_eq_Inr [result_simps]:
  "and_then m f = Inr y \<longleftrightarrow> (\<exists>x. m = Inr x \<and> f x = Inr y)"
  by (cases m) auto

lemma and_then_eq_Inl [result_simps]:
  "and_then m f = Inl e \<longleftrightarrow> m = Inl e \<or> (\<exists>x. m = Inr x \<and> f x = Inl e)"
  by (cases m) auto

lemma and_then_cong [fundef_cong]:
  "m = m' \<Longrightarrow> (\<And>x. m' = Inr x \<Longrightarrow> f x = g x) \<Longrightarrow> and_then m f = and_then m' g"
  by (cases m') auto

text \<open>The validator of a constructor: pass the value on unless the check fails.\<close>

definition checked :: "'e option \<Rightarrow> 'a \<Rightarrow> 'e + 'a" where
  "checked v x = (case v of None \<Rightarrow> Inr x | Some e \<Rightarrow> Inl e)"

lemma checked_simps [simp]:
  "checked None x = Inr x"
  "checked (Some e) x = Inl e"
  by (simp_all add: checked_def)

lemma checked_eq_Inr [result_simps]: "checked v x = Inr y \<longleftrightarrow> v = None \<and> x = y"
  by (cases v) auto

definition the_ok :: "'a \<Rightarrow> 'e + 'a \<Rightarrow> 'a" where
  "the_ok zero m = (case m of Inl _ \<Rightarrow> zero | Inr x \<Rightarrow> x)"

lemma the_ok_simps [simp]:
  "the_ok z (Inl e) = z"
  "the_ok z (Inr x) = x"
  by (simp_all add: the_ok_def)

lemma guard_None [result_simps]: "((if c then Some e else x) = None) = (\<not> c \<and> x = None)"
  by simp

lemma guard_Inr [result_simps]: "((if c then Inl e else x) = Inr y) = (\<not> c \<and> x = Inr y)"
  by simp

fun first_error :: "('a \<Rightarrow> 'e option) \<Rightarrow> 'a list \<Rightarrow> 'e option" where
  "first_error f [] = None"
| "first_error f (x # xs) = (case f x of Some e \<Rightarrow> Some e | None \<Rightarrow> first_error f xs)"

lemma first_error_None [simp]: "first_error f xs = None \<longleftrightarrow> (\<forall>x \<in> set xs. f x = None)"
  by (induction xs) (auto split: option.splits)

lemma first_error_Some: "first_error f xs = Some e \<Longrightarrow> \<exists>x \<in> set xs. f x = Some e"
  by (induction xs) (auto split: option.splits)

section \<open>Go maps\<close>

type_synonym ('k, 'v) gomap = "('k \<times> 'v) list"

definition map_has :: "('k, 'v) gomap \<Rightarrow> 'k \<Rightarrow> bool" where
  "map_has m k = (map_of m k \<noteq> None)"

text \<open>Reading a missing key of a map of strings gives the empty string.\<close>

definition str_at :: "(string, string) gomap \<Rightarrow> string \<Rightarrow> string" where
  "str_at m k = (case map_of m k of None \<Rightarrow> '''' | Some v \<Rightarrow> v)"

lemma str_at_update [simp]:
  "str_at (AList.update k v m) k' = (if k' = k then v else str_at m k')"
  by (simp add: str_at_def update_conv)

section \<open>Stable sorting\<close>

text \<open>
  \<^verbatim>\<open>sort.SliceStable\<close> with a comparator derived from a key is the library's stable
  \<open>sort_key\<close>; strings compare byte by byte, as Go compares them.
\<close>

lemma sort_key_idem [simp, order_simps]: "sort_key f (sort_key f xs) = sort_key f xs"
  by (rule sort_key_id_if_sorted) simp

lemma sort_key_Nil_iff: "sort_key f xs = [] \<longleftrightarrow> xs = []"
  by (metis set_empty set_sort)

lemma sort_key_perm:
  assumes "mset xs = mset ys" and "inj_on f (set xs)"
  shows "sort_key f xs = sort_key f ys"
proof (rule properties_for_sort_key)
  have inj: "inj_on f (set (sort_key f ys))" using assms by (metis set_mset_mset set_sort)
  have occ: "filter (\<lambda>x. k = x) zs = replicate (count (mset zs) k) k" for k and zs :: "'a list"
    by (induction zs) auto
  show "mset (sort_key f ys) = mset xs" using assms(1) by simp
  show "sorted (map f (sort_key f ys))" by simp
  fix k
  assume k: "k \<in> set (sort_key f ys)"
  then have kx: "k \<in> set xs" using assms(1) by (metis set_mset_mset set_sort)
  have "filter (\<lambda>x. f k = f x) xs = filter (\<lambda>x. k = x) xs"
    by (rule filter_cong) (use assms(2) kx in \<open>auto dest: inj_onD\<close>)
  moreover have "filter (\<lambda>x. f k = f x) (sort_key f ys) = filter (\<lambda>x. k = x) (sort_key f ys)"
    by (rule filter_cong) (use inj k in \<open>auto dest: inj_onD\<close>)
  ultimately show "filter (\<lambda>x. f k = f x) (sort_key f ys) = filter (\<lambda>x. f k = f x) xs"
    using assms(1) by (simp add: occ)
qed

lemma sum_list_perm:
  fixes f :: "'a \<Rightarrow> 'b::comm_monoid_add"
  assumes "mset xs = mset ys"
  shows "(\<Sum>x\<leftarrow>xs. f x) = (\<Sum>x\<leftarrow>ys. f x)"
proof -
  have "mset (map f xs) = mset (map f ys)" using assms by simp
  then have "sum_mset (mset (map f xs)) = sum_mset (mset (map f ys))" by (rule arg_cong)
  then show ?thesis by (simp only: sum_mset_sum_list)
qed

text \<open>
  The interface of every immutable, canonically ordered collection of the trading core
  (decision batches, bar series, universe candidates, ledger batches): a constructor that
  validates the elements and keeps them sorted by a key, and an accessor.
\<close>

locale ordered_collection =
  fixes key :: "'a \<Rightarrow> 'k::linorder"
    and ok :: "'a list \<Rightarrow> bool"
    and build :: "'a list \<Rightarrow> go_error + 'c"
    and items :: "'c \<Rightarrow> 'a list"
  assumes build_items: "build xs = Inr c \<Longrightarrow> items c = sort_key key xs"
    and build_iff: "(\<exists>c. build xs = Inr c) \<longleftrightarrow> ok xs"
    and ok_perm: "mset xs = mset ys \<Longrightarrow> ok xs = ok ys"
    and items_inject: "build xs = Inr c \<Longrightarrow> build ys = Inr d \<Longrightarrow> items c = items d \<Longrightarrow> c = d"
begin

lemma mset_items: "build xs = Inr c \<Longrightarrow> mset (items c) = mset xs"
  by (simp add: build_items)

lemma set_items: "build xs = Inr c \<Longrightarrow> set (items c) = set xs"
  by (simp add: build_items)

lemma sorted_items: "build xs = Inr c \<Longrightarrow> sorted (map key (items c))"
  by (simp add: build_items)

lemma build_total: "ok xs \<Longrightarrow> \<exists>c. build xs = Inr c \<and> items c = sort_key key xs"
  using build_iff build_items by blast

text \<open>Rebuilding a collection from its own items gives the same collection.\<close>

lemma rebuild: "build xs = Inr c \<Longrightarrow> build (items c) = Inr c"
proof -
  assume c: "build xs = Inr c"
  then have "ok (items c)" using build_iff mset_items ok_perm by blast
  then obtain d where d: "build (items c) = Inr d" using build_iff by blast
  then have "items d = items c" using c by (simp add: build_items)
  with d c have "d = c" using items_inject by blast
  with d show ?thesis by simp
qed

text \<open>The input order does not matter as long as the keys tell the elements apart.\<close>

lemma build_order_independent:
  assumes "mset xs = mset ys" and "inj_on key (set xs)" and "build xs = Inr c"
  shows "build ys = Inr c"
proof -
  from assms have "ok ys" using build_iff ok_perm by blast
  then obtain d where d: "build ys = Inr d" using build_iff by blast
  then have "items d = items c"
    using assms by (simp add: build_items sort_key_perm)
  with d assms(3) have "d = c" using items_inject by blast
  with d show ?thesis by simp
qed

end

section \<open>Time and truncating division\<close>

type_synonym time = int
type_synonym duration = int

text \<open>\<^verbatim>\<open>time.Time.Sub\<close> saturates at the ends of the 64-bit duration range.\<close>

definition time_sub :: "time \<Rightarrow> time \<Rightarrow> duration" where
  "time_sub t u = max (- (2 ^ 63)) (min (2 ^ 63 - 1) (t - u))"

definition quo :: "int \<Rightarrow> int \<Rightarrow> int" where
  "quo a b = sgn a * sgn b * (\<bar>a\<bar> div \<bar>b\<bar>)"

definition remt :: "int \<Rightarrow> int \<Rightarrow> int" where
  "remt a b = a - b * quo a b"

lemma abs_quo_div: "\<bar>b\<bar> * (\<bar>a\<bar> div \<bar>b\<bar>) + \<bar>a\<bar> mod \<bar>b\<bar> = \<bar>a\<bar>" for a b :: int
  by (simp add: mult.commute)

lemma quo_nonneg: "0 \<le> a \<Longrightarrow> 0 < b \<Longrightarrow> quo a b = a div b"
  by (cases "a = 0") (simp_all add: quo_def)

lemma quo_uminus: "quo (- a) b = - quo a b"
  by (simp add: quo_def)

lemma remt_nonneg: "0 \<le> a \<Longrightarrow> 0 < b \<Longrightarrow> remt a b = a mod b"
  by (simp add: remt_def quo_nonneg minus_mult_div_eq_mod)

lemma remt_uminus: "remt (- a) b = - remt a b"
  by (simp add: remt_def quo_uminus)

end
