(* ===== verification/Go_Strings.thy ===== *)
theory Go_Strings
  imports Prelude
begin

text \<open>
  The part of Go's \<^verbatim>\<open>strings\<close>, \<^verbatim>\<open>strconv\<close> and \<^verbatim>\<open>math/big\<close> packages the sources use on text.
  A Go string is its list of bytes.
  \<^item> \<open>trim_space\<close> is \<^verbatim>\<open>strings.TrimSpace\<close>: it strips the UTF-8 encodings of the Unicode white
    space code points (\<open>space_runes\<close>) from both ends.
  \<^item> \<open>to_lower\<close>/\<open>to_upper\<close> are \<^verbatim>\<open>strings.ToLower\<close>/\<^verbatim>\<open>ToUpper\<close> as far as a comparison of their
    result with an ASCII literal can see: ASCII letters, and the non-ASCII letters whose case
    mapping is ASCII (Kelvin sign, dotted capital I; dotless i, long s).
  \<^item> \<open>equal_fold\<close> is \<^verbatim>\<open>strings.EqualFold\<close> on ASCII, Kelvin sign and long s.
  \<^item> \<open>nat_of_digits\<close>, \<open>show_nat\<close>, \<open>big_set_string\<close>, \<open>big_string\<close> are decimal parsing and printing
    of unbounded integers (\<^verbatim>\<open>big.Int.SetString(s, 10)\<close>, \<^verbatim>\<open>big.Int.String\<close>).
  The lemmas are the round trips between the two directions and the effect of padding with and
  trimming of zeros, on which the decimal packages rest.
\<close>

section \<open>White space\<close>

definition space_runes :: "string list" where
  "space_runes =
    [[CHR 0x09], [CHR 0x0A], [CHR 0x0B], [CHR 0x0C], [CHR 0x0D], [CHR 0x20],
     [CHR 0xC2, CHR 0x85], [CHR 0xC2, CHR 0xA0], [CHR 0xE1, CHR 0x9A, CHR 0x80],
     [CHR 0xE2, CHR 0x80, CHR 0x80], [CHR 0xE2, CHR 0x80, CHR 0x81],
     [CHR 0xE2, CHR 0x80, CHR 0x82], [CHR 0xE2, CHR 0x80, CHR 0x83],
     [CHR 0xE2, CHR 0x80, CHR 0x84], [CHR 0xE2, CHR 0x80, CHR 0x85],
     [CHR 0xE2, CHR 0x80, CHR 0x86], [CHR 0xE2, CHR 0x80, CHR 0x87],
     [CHR 0xE2, CHR 0x80, CHR 0x88], [CHR 0xE2, CHR 0x80, CHR 0x89],
     [CHR 0xE2, CHR 0x80, CHR 0x8A], [CHR 0xE2, CHR 0x80, CHR 0xA8],
     [CHR 0xE2, CHR 0x80, CHR 0xA9], [CHR 0xE2, CHR 0x80, CHR 0xAF],
     [CHR 0xE2, CHR 0x81, CHR 0x9F], [CHR 0xE3, CHR 0x80, CHR 0x80]]"

function trim_front :: "string list \<Rightarrow> string \<Rightarrow> string" where
  "trim_front ws s =
     (case find (\<lambda>w. w \<noteq> [] \<and> take (length w) s = w) ws of
        None \<Rightarrow> s
      | Some w \<Rightarrow> trim_front ws (drop (length w) s))"
  by pat_completeness auto
termination
proof (relation "measure (\<lambda>(ws, s). length s)")
  fix ws s w
  assume "find (\<lambda>w. w \<noteq> [] \<and> take (length w) s = w) ws = Some w"
  then have "w \<noteq> [] \<and> take (length w) s = w" by (auto simp: find_Some_iff)
  then have "s \<noteq> []" and "0 < length w" by auto
  then show "((ws, drop (length w) s), ws, s) \<in> measure (\<lambda>(ws, s). length s)" by simp
qed simp

declare trim_front.simps [simp del]

definition trim_space :: "string \<Rightarrow> string" where
  "trim_space s = rev (trim_front (map rev space_runes) (rev (trim_front space_runes s)))"

definition printable :: "char \<Rightarrow> bool" where
  "printable c \<longleftrightarrow> 0x21 \<le> (of_char c :: nat) \<and> (of_char c :: nat) \<le> 0x7E"

lemma trim_front_id:
  assumes "s = [] \<or> (\<forall>w \<in> set ws. w \<noteq> [] \<longrightarrow> hd w \<noteq> hd s)"
  shows "trim_front ws s = s"
proof -
  have "find (\<lambda>w. w \<noteq> [] \<and> take (length w) s = w) ws = None"
    using assms by (auto simp: find_None_iff) (metis hd_take length_greater_0_conv)
  then show ?thesis by (simp add: trim_front.simps)
qed

lemma space_runes_edges:
  "\<forall>w \<in> set space_runes. w \<noteq> [] \<and> \<not> printable (hd w) \<and> \<not> printable (last w)"
  by (simp add: space_runes_def printable_def)

lemma trim_space_id:
  assumes "s = [] \<or> printable (hd s) \<and> printable (last s)"
  shows "trim_space s = s"
proof -
  have "trim_front space_runes s = s"
    by (rule trim_front_id) (use assms space_runes_edges in auto)
  moreover have "trim_front (map rev space_runes) (rev s) = rev s"
    by (rule trim_front_id) (use assms space_runes_edges in \<open>auto simp: hd_rev\<close>)
  ultimately show ?thesis by (simp add: trim_space_def)
qed

lemma trim_space_printable: "list_all printable s \<Longrightarrow> trim_space s = s"
  by (rule trim_space_id) (auto simp: list_all_iff)

lemma trim_space_Nil [simp]: "trim_space '''' = ''''"
  by (rule trim_space_id) simp

section \<open>Prefixes, splitting, case\<close>

definition has_prefix :: "string \<Rightarrow> string \<Rightarrow> bool" where
  "has_prefix s p \<longleftrightarrow> take (length p) s = p"

definition contains_any :: "string \<Rightarrow> string \<Rightarrow> bool" where
  "contains_any s cs \<longleftrightarrow> list_ex (\<lambda>c. c \<in> set cs) s"

fun split_on :: "char \<Rightarrow> string \<Rightarrow> string list" where
  "split_on d [] = [[]]"
| "split_on d (c # s) =
     (if c = d then [] # split_on d s
      else (case split_on d s of [] \<Rightarrow> [[c]] | p # ps \<Rightarrow> (c # p) # ps))"

lemma split_on_no_sep [simp]: "d \<notin> set s \<Longrightarrow> split_on d s = [s]"
  by (induction s) auto

lemma split_on_append_sep: "d \<notin> set s \<Longrightarrow> split_on d (s @ d # t) = s # split_on d t"
  by (induction s) auto

definition trim_left_char :: "char \<Rightarrow> string \<Rightarrow> string" where
  "trim_left_char c s = dropWhile (\<lambda>x. x = c) s"

definition trim_right_char :: "char \<Rightarrow> string \<Rightarrow> string" where
  "trim_right_char c s = rev (dropWhile (\<lambda>x. x = c) (rev s))"

definition lower_char :: "char \<Rightarrow> char" where
  "lower_char c = (if 65 \<le> (of_char c :: nat) \<and> (of_char c :: nat) \<le> 90
                   then char_of ((of_char c :: nat) + 32) else c)"

definition upper_char :: "char \<Rightarrow> char" where
  "upper_char c = (if 97 \<le> (of_char c :: nat) \<and> (of_char c :: nat) \<le> 122
                   then char_of ((of_char c :: nat) - 32) else c)"

fun to_lower :: "string \<Rightarrow> string" where
  "to_lower [] = []"
| "to_lower (c # s) =
     (if c = CHR 0xC4 \<and> take 1 s = [CHR 0xB0] then CHR ''i'' # to_lower (drop 1 s)
      else if c = CHR 0xE2 \<and> take 2 s = [CHR 0x84, CHR 0xAA] then CHR ''k'' # to_lower (drop 2 s)
      else lower_char c # to_lower s)"

fun to_upper :: "string \<Rightarrow> string" where
  "to_upper [] = []"
| "to_upper (c # s) =
     (if c = CHR 0xC4 \<and> take 1 s = [CHR 0xB1] then CHR ''I'' # to_upper (drop 1 s)
      else if c = CHR 0xC5 \<and> take 1 s = [CHR 0xBF] then CHR ''S'' # to_upper (drop 1 s)
      else upper_char c # to_upper s)"

fun fold_case :: "string \<Rightarrow> string" where
  "fold_case [] = []"
| "fold_case (c # s) =
     (if c = CHR 0xC5 \<and> take 1 s = [CHR 0xBF] then CHR ''s'' # fold_case (drop 1 s)
      else if c = CHR 0xE2 \<and> take 2 s = [CHR 0x84, CHR 0xAA] then CHR ''k'' # fold_case (drop 2 s)
      else lower_char c # fold_case s)"

definition equal_fold :: "string \<Rightarrow> string \<Rightarrow> bool" where
  "equal_fold s t \<longleftrightarrow> fold_case s = fold_case t"

lemma equal_fold_refl [simp]: "equal_fold s s"
  by (simp add: equal_fold_def)

section \<open>Decimal digits\<close>

definition is_digit :: "char \<Rightarrow> bool" where
  "is_digit c \<longleftrightarrow> 48 \<le> (of_char c :: nat) \<and> (of_char c :: nat) \<le> 57"

definition digit_val :: "char \<Rightarrow> nat" where
  "digit_val c = of_char c - 48"

definition digit_char :: "nat \<Rightarrow> char" where
  "digit_char n = char_of (n + 48)"

definition nat_of_digits :: "string \<Rightarrow> nat" where
  "nat_of_digits s = foldl (\<lambda>n c. 10 * n + digit_val c) 0 s"

fun show_nat :: "nat \<Rightarrow> string" where
  "show_nat n = (if n < 10 then [digit_char n] else show_nat (n div 10) @ [digit_char (n mod 10)])"

declare show_nat.simps [simp del]

definition big_string :: "int \<Rightarrow> string" where
  "big_string i = (if i < 0 then CHR ''-'' # show_nat (nat (- i)) else show_nat (nat i))"

text \<open>\<^verbatim>\<open>big.Int.SetString(s, 10)\<close>: an optional sign and at least one digit.\<close>

definition big_set_string :: "string \<Rightarrow> int option" where
  "big_set_string s =
     (let neg = has_prefix s ''-'';
          body = (if neg \<or> has_prefix s ''+'' then drop 1 s else s)
      in if body = [] \<or> \<not> list_all is_digit body then None
         else Some (if neg then - int (nat_of_digits body) else int (nat_of_digits body)))"

abbreviation zero_char :: char where
  "zero_char \<equiv> CHR ''0''"

lemma digit_char_props [simp]:
  assumes "n < 10"
  shows "is_digit (digit_char n)" and "digit_val (digit_char n) = n"
  using assms by (simp_all add: is_digit_def digit_char_def digit_val_def)

lemma digit_char_val [simp]: "is_digit c \<Longrightarrow> digit_char (digit_val c) = c"
  by (simp add: is_digit_def digit_char_def digit_val_def)

lemma digit_val_lt: "is_digit c \<Longrightarrow> digit_val c < 10"
  by (auto simp: is_digit_def digit_val_def)

lemma digit_val_zero [simp]: "digit_val zero_char = 0"
  by (simp add: digit_val_def)

lemma is_digit_zero [simp]: "is_digit zero_char"
  by (simp add: is_digit_def)

lemma digit_char_0 [simp]: "digit_char 0 = zero_char"
  by code_simp

lemma is_digit_printable: "is_digit c \<Longrightarrow> printable c"
  by (simp add: is_digit_def printable_def)

lemma digits_printable: "list_all is_digit s \<Longrightarrow> list_all printable s"
  by (auto simp: list_all_iff is_digit_printable)

lemma printable_signs [simp]:
  "printable (CHR ''-'')" "printable (CHR ''+'')" "printable (CHR ''.'')"
  by (simp_all add: printable_def)

lemma not_digit_signs [simp]:
  "\<not> is_digit (CHR ''-'')" "\<not> is_digit (CHR ''+'')" "\<not> is_digit (CHR ''.'')"
  "\<not> is_digit (CHR ''e'')" "\<not> is_digit (CHR ''E'')"
  by (simp_all add: is_digit_def)

lemma nat_of_digits_Nil [simp]: "nat_of_digits [] = 0"
  by (simp add: nat_of_digits_def)

lemma nat_of_digits_snoc [simp]: "nat_of_digits (s @ [c]) = 10 * nat_of_digits s + digit_val c"
  by (simp add: nat_of_digits_def)

lemma nat_of_digits_append:
  "nat_of_digits (s @ t) = nat_of_digits s * 10 ^ length t + nat_of_digits t"
  by (induction t rule: rev_induct)
    (simp_all add: append_assoc [symmetric] algebra_simps del: append_assoc)

lemma nat_of_digits_Cons:
  "nat_of_digits (c # s) = digit_val c * 10 ^ length s + nat_of_digits s"
  using nat_of_digits_append [of "[c]" s] by (simp add: nat_of_digits_def)

lemma nat_of_digits_zeros [simp]: "nat_of_digits (replicate k zero_char) = 0"
  by (induction k) (simp_all add: nat_of_digits_Cons)

lemma zeros_are_digits [simp]: "list_all is_digit (replicate k zero_char)"
  by (induction k) simp_all

lemma nat_of_digits_lt: "list_all is_digit s \<Longrightarrow> nat_of_digits s < 10 ^ length s"
proof (induction s rule: rev_induct)
  case (snoc c s)
  then have "nat_of_digits s + 1 \<le> 10 ^ length s" and "digit_val c < 10"
    by (auto simp: digit_val_lt)
  then show ?case by simp
qed simp

lemma nat_of_digits_trim_left [simp]:
  "nat_of_digits (trim_left_char zero_char s) = nat_of_digits s"
  by (induction s) (auto simp: trim_left_char_def nat_of_digits_Cons)

lemma show_nat_digits: "list_all is_digit (show_nat n)"
proof (induction n rule: show_nat.induct)
  case (1 n)
  then show ?case by (cases "n < 10") (simp_all add: show_nat.simps [of n])
qed

lemma show_nat_nonempty [simp]: "show_nat n \<noteq> []"
  by (simp add: show_nat.simps)

lemma nat_of_show_nat [simp]: "nat_of_digits (show_nat n) = n"
proof (induction n rule: show_nat.induct)
  case (1 n)
  show ?case
  proof (cases "n < 10")
    case True
    then show ?thesis by (simp add: show_nat.simps [of n] nat_of_digits_Cons)
  next
    case False
    with 1 have "nat_of_digits (show_nat (n div 10)) = n div 10" by simp
    with False show ?thesis by (simp add: show_nat.simps [of n])
  qed
qed

lemma show_nat_hd: "0 < n \<Longrightarrow> hd (show_nat n) \<noteq> zero_char"
proof (induction n rule: show_nat.induct)
  case (1 n)
  show ?case
  proof (cases "n < 10")
    case True
    with "1.prems" show ?thesis
      by (metis digit_char_props(2) digit_val_zero list.sel(1) not_less_zero show_nat.simps)
  next
    case False
    with 1 have "hd (show_nat (n div 10)) \<noteq> zero_char" by simp
    with False show ?thesis by (simp add: show_nat.simps [of n])
  qed
qed

text \<open>A digit string without a leading zero is the printed form of its value.\<close>

lemma show_nat_of_digits:
  "list_all is_digit s \<Longrightarrow> s \<noteq> [] \<Longrightarrow> hd s \<noteq> zero_char \<Longrightarrow> show_nat (nat_of_digits s) = s"
proof (induction s rule: rev_induct)
  case (snoc c s)
  show ?case
  proof (cases "s = []")
    case True
    with snoc show ?thesis by (simp add: show_nat.simps digit_val_lt nat_of_digits_Cons)
  next
    case False
    with snoc have IH: "show_nat (nat_of_digits s) = s" and d: "digit_val c < 10" "is_digit c"
      by (simp_all add: digit_val_lt)
    moreover have "0 < nat_of_digits s"
    proof (rule ccontr)
      assume "\<not> 0 < nat_of_digits s"
      with IH have "s = show_nat 0" by simp
      with snoc.prems False show False by (simp add: show_nat.simps)
    qed
    ultimately show ?thesis
      by (simp add: show_nat.simps [of "10 * nat_of_digits s + digit_val c"])
  qed
qed simp

lemma show_nat_0 [simp]: "show_nat 0 = [zero_char]"
  by (simp add: show_nat.simps)

lemma trim_left_show_nat:
  "trim_left_char zero_char (show_nat n) = (if n = 0 then [] else show_nat n)"
proof (cases "n = 0")
  case False
  then have "hd (show_nat n) \<noteq> zero_char" by (simp add: show_nat_hd)
  with False show ?thesis by (cases "show_nat n") (simp_all add: trim_left_char_def)
qed (simp add: trim_left_char_def)

lemma trim_left_replicate [simp]:
  "trim_left_char c (replicate k c @ s) = trim_left_char c s"
  by (induction k) (simp_all add: trim_left_char_def)

lemma big_set_string_digits:
  "list_all is_digit s \<Longrightarrow> s \<noteq> [] \<Longrightarrow> big_set_string s = Some (int (nat_of_digits s))"
  by (cases s) (auto simp: big_set_string_def has_prefix_def Let_def is_digit_def)

lemma big_set_string_neg:
  "list_all is_digit s \<Longrightarrow> s \<noteq> [] \<Longrightarrow>
   big_set_string (CHR ''-'' # s) = Some (- int (nat_of_digits s))"
  by (simp add: big_set_string_def has_prefix_def)

lemma big_set_string_big_string [simp]: "big_set_string (big_string i) = Some i"
  by (simp add: big_string_def big_set_string_digits big_set_string_neg show_nat_digits)

lemma big_string_inject [simp]: "big_string i = big_string j \<longleftrightarrow> i = j"
  by (metis big_set_string_big_string option.inject)

text \<open>The padding loop \<^verbatim>\<open>for len(digits) <= scale { digits = "0" + digits }\<close> of both decimal packages.\<close>

function pad_digits :: "nat \<Rightarrow> string \<Rightarrow> string" where
  "pad_digits scale digits =
     (if length digits \<le> scale then pad_digits scale (zero_char # digits) else digits)"
  by pat_completeness auto
termination
  by (relation "measure (\<lambda>(scale, digits). Suc scale - length digits)") auto

declare pad_digits.simps [simp del]

lemma pad_digits_eq: "pad_digits scale digits = replicate (Suc scale - length digits) zero_char @ digits"
proof (induction scale digits rule: pad_digits.induct)
  case (1 scale digits)
  show ?case
  proof (cases "length digits \<le> scale")
    case True
    then have "Suc scale - length digits = Suc (scale - length digits)" by simp
    then have "replicate (Suc scale - length digits) zero_char @ digits
        = replicate (scale - length digits) zero_char @ zero_char # digits"
      by (simp add: replicate_app_Cons_same)
    with True 1 show ?thesis by (simp add: pad_digits.simps [of scale digits])
  next
    case False
    then show ?thesis by (simp add: pad_digits.simps [of scale digits])
  qed
qed

lemma pad_digits_props:
  assumes "list_all is_digit s"
  shows "list_all is_digit (pad_digits n s)" and "nat_of_digits (pad_digits n s) = nat_of_digits s"
    and "n < length (pad_digits n s)"
  using assms by (simp_all add: pad_digits_eq nat_of_digits_append)

end
