(* ===== verification/Rounding.thy ===== *)
theory Rounding
  imports Complex_Main Prelude
begin

text \<open>
  Rounding half away from zero, the rule both decimal packages of the repository use. The locale
  \<open>rounding_division\<close> is the interface the packages rely on: an integer division
  that rounds the exact quotient half away from zero. Its lemmas (error of at most half a unit,
  exactness on the grid, monotonicity, the bounds of a proportional share) are proved once and
  reach \<^verbatim>\<open>internal/accounting\<close> and \<^verbatim>\<open>internal/tradingcore\<close> through two interpretations.
\<close>

definition half_away :: "rat \<Rightarrow> int" where
  "half_away y = (if 0 \<le> y then \<lfloor>y + 1/2\<rfloor> else - \<lfloor>- y + 1/2\<rfloor>)"

lemma half_floor_0: "\<lfloor>1/2 :: rat\<rfloor> = 0"
  by (simp add: floor_eq_iff)

lemma half_away_uminus: "half_away (- y) = - half_away y"
  by (auto simp: half_away_def half_floor_0)

lemma half_away_of_int [simp]: "half_away (of_int n) = n"
proof -
  have "\<lfloor>(of_int n :: rat) + 1/2\<rfloor> = n" for n
    by (simp add: floor_eq_iff)
  from this [of n] this [of "- n"] show ?thesis by (simp add: half_away_def)
qed

lemma half_away_error: "\<bar>of_int (half_away y) - y\<bar> \<le> 1/2"
proof (cases "0 \<le> y")
  case True
  have "of_int \<lfloor>y + 1/2\<rfloor> \<le> y + 1/2 \<and> y + 1/2 < of_int \<lfloor>y + 1/2\<rfloor> + 1"
    using of_int_floor_le [of "y + 1/2"] floor_less_iff [of "y + 1/2" "\<lfloor>y + 1/2\<rfloor> + 1"] by simp
  with True show ?thesis by (simp only: half_away_def if_True abs_le_iff) linarith
next
  case False
  have "of_int \<lfloor>- y + 1/2\<rfloor> \<le> - y + 1/2 \<and> - y + 1/2 < of_int \<lfloor>- y + 1/2\<rfloor> + 1"
    using of_int_floor_le [of "- y + 1/2"] floor_less_iff [of "- y + 1/2" "\<lfloor>- y + 1/2\<rfloor> + 1"]
    by simp
  with False show ?thesis by (simp only: half_away_def if_False abs_le_iff of_int_minus) linarith
qed

lemma half_away_nonneg: "0 \<le> y \<Longrightarrow> 0 \<le> half_away y"
  by (simp add: half_away_def)

lemma half_away_nonpos: "y \<le> 0 \<Longrightarrow> half_away y \<le> 0"
  using half_away_nonneg [of "- y"] half_away_uminus [of y] by simp

lemma half_away_mono: "x \<le> y \<Longrightarrow> half_away x \<le> half_away y"
proof -
  assume le: "x \<le> y"
  consider "0 \<le> x" | "x < 0" "0 \<le> y" | "y < 0" using le by linarith
  then show ?thesis
  proof cases
    case 1
    then show ?thesis using le by (auto simp: half_away_def intro!: floor_mono)
  next
    case 2
    then show ?thesis using half_away_nonpos [of x] half_away_nonneg [of y] by linarith
  next
    case 3
    then have "\<lfloor>- y + 1/2\<rfloor> \<le> \<lfloor>- x + 1/2\<rfloor>" using le by (intro floor_mono) simp
    then show ?thesis using 3 le by (simp add: half_away_def)
  qed
qed

lemma half_away_le_of_int: "y \<le> of_int n \<Longrightarrow> half_away y \<le> n"
  using half_away_mono [of y "of_int n"] by simp

lemma half_away_ge_of_int: "of_int n \<le> y \<Longrightarrow> n \<le> half_away y"
  using half_away_mono [of "of_int n" y] by simp

text \<open>
  The way both packages compute it: truncate, then step away from zero when twice the
  remainder reaches the divisor.
\<close>

lemma floor_plus_half: "0 \<le> f \<Longrightarrow> f < 1 \<Longrightarrow> \<lfloor>f + 1/2\<rfloor> = (if 1/2 \<le> f then 1 else 0)"
  for f :: rat
  by (auto simp: floor_eq_iff)

lemma half_away_div_nonneg:
  assumes "0 \<le> a" and "0 < b"
  shows "half_away (of_int a / of_int b) = (if b \<le> 2 * (a mod b) then a div b + 1 else a div b)"
proof -
  have split: "(of_int a :: rat) / of_int b = of_int (a div b) + of_int (a mod b) / of_int b"
  proof -
    have "(of_int a :: rat) = of_int (a div b * b + a mod b)" by simp
    also have "\<dots> = of_int (a div b) * of_int b + of_int (a mod b)" by (simp only: of_int_add of_int_mult)
    finally show ?thesis using assms(2) by (simp add: field_simps)
  qed
  have m: "0 \<le> a mod b" "a mod b < b" using assms by simp_all
  have frac: "0 \<le> (of_int (a mod b) :: rat) / of_int b" "(of_int (a mod b) :: rat) / of_int b < 1"
    using m assms(2) by (simp_all add: field_simps)
  have half: "(1/2 \<le> (of_int (a mod b) :: rat) / of_int b) = (b \<le> 2 * (a mod b))"
  proof -
    have "(1/2 \<le> (of_int (a mod b) :: rat) / of_int b) = ((of_int b :: rat) \<le> of_int (2 * (a mod b)))"
      using assms(2) by (simp add: field_simps)
    then show ?thesis by (simp only: of_int_le_iff)
  qed
  have "0 \<le> (of_int a :: rat) / of_int b" using assms by simp
  then have "half_away (of_int a / of_int b)
      = \<lfloor>of_int (a div b) + ((of_int (a mod b) :: rat) / of_int b + 1/2)\<rfloor>"
    by (simp add: half_away_def split add.assoc)
  also have "\<dots> = a div b + \<lfloor>(of_int (a mod b) :: rat) / of_int b + 1/2\<rfloor>"
    by (rule int_add_floor [symmetric])
  also have "\<lfloor>(of_int (a mod b) :: rat) / of_int b + 1/2\<rfloor> = (if b \<le> 2 * (a mod b) then 1 else 0)"
    using floor_plus_half [OF frac] by (simp only: half)
  finally show ?thesis by simp
qed

locale rounding_division =
  fixes rdiv :: "int \<Rightarrow> int \<Rightarrow> int"
  assumes rdiv_half_away: "0 < b \<Longrightarrow> rdiv a b = half_away (of_int a / of_int b)"
begin

lemma rdiv_error: "0 < b \<Longrightarrow> \<bar>of_int (rdiv a b) - of_int a / of_int b\<bar> \<le> (1/2 :: rat)"
  using half_away_error by (simp only: rdiv_half_away)

lemma rdiv_exact: "0 < b \<Longrightarrow> rdiv (n * b) b = n"
  by (simp add: rdiv_half_away)

lemma rdiv_mono: "0 < b \<Longrightarrow> a \<le> a' \<Longrightarrow> rdiv a b \<le> rdiv a' b"
  by (simp add: rdiv_half_away half_away_mono divide_right_mono)

lemma rdiv_uminus: "0 < b \<Longrightarrow> rdiv (- a) b = - rdiv a b"
  by (simp add: rdiv_half_away half_away_uminus)

lemma rdiv_nonneg: "0 < b \<Longrightarrow> 0 \<le> a \<Longrightarrow> 0 \<le> rdiv a b"
  by (simp add: rdiv_half_away half_away_nonneg)

lemma rdiv_nonpos: "0 < b \<Longrightarrow> a \<le> 0 \<Longrightarrow> rdiv a b \<le> 0"
  by (simp add: rdiv_half_away half_away_nonpos divide_nonpos_pos)

lemma rdiv_scale: "0 < b \<Longrightarrow> 0 < k \<Longrightarrow> rdiv (k * a) (k * b) = rdiv a b"
  by (simp add: rdiv_half_away)

text \<open>A proportional share of a non-negative amount lies between nothing and the whole.\<close>

lemma rdiv_share:
  assumes "0 \<le> a" and "0 \<le> q" and "q \<le> b" and "0 < b"
  shows "0 \<le> rdiv (a * q) b" and "rdiv (a * q) b \<le> a"
proof -
  show "0 \<le> rdiv (a * q) b" using assms by (simp add: rdiv_nonneg)
  have "rdiv (a * q) b \<le> rdiv (a * b) b"
    using assms by (intro rdiv_mono) (simp_all add: mult_left_mono)
  then show "rdiv (a * q) b \<le> a" using assms by (simp add: rdiv_exact)
qed

end

end
