(* ===== verification/Accounting.thy ===== *)
theory Accounting
  imports Go_Strings Rounding
begin

text \<open>
  \<^verbatim>\<open>internal/accounting/decimal.go\<close>: the persisted economic number, an unbounded integer at a
  fixed scale of 18 places behind a nullable pointer (\<open>AccDecimal None\<close> is the zero value of the
  struct, whose pointer is nil). Each method is one definition, named after it with the
  prefix \<open>acc_\<close>. The lemmas show the parse/print round trip, that the four arithmetic
  operations are exact or round half away from zero once, and the laws of the proportional
  release \<open>acc_MulDiv\<close> on which the ledger's cost basis rests.
\<close>

section \<open>The type and its operations\<close>

datatype acc_decimal = AccDecimal "int option"

definition acc_Scale :: nat where
  "acc_Scale = 18"

definition acc_factor :: int where
  "acc_factor = 10 ^ acc_Scale"

definition acc_Zero :: acc_decimal where
  "acc_Zero = AccDecimal (Some 0)"

definition acc_Parse :: "string \<Rightarrow> acc_decimal result" where
  "acc_Parse raw =
     (let input = trim_space raw in
      if input = '''' \<or> contains_any input ''eE'' then Inl (Errorf ''invalid decimal %q'' [input])
      else
        let negative = has_prefix input ''-'';
            input = (if negative \<or> has_prefix input ''+'' then drop 1 input else input);
            parts = split_on (CHR ''.'') input
        in if length parts > 2 \<or> parts ! 0 = '''' then Inl (Errorf ''invalid decimal %q'' [input])
           else
             let fraction = (if length parts = 2 then parts ! 1 else '''')
             in if length fraction > acc_Scale
                then Inl (Errorf ''decimal scale exceeds %d'' [show_nat acc_Scale])
                else
                  let digits = parts ! 0 @ fraction @ replicate (acc_Scale - length fraction) zero_char
                  in if \<not> list_all is_digit digits then Inl (Errorf ''invalid decimal %q'' [input])
                     else (case big_set_string digits of
                             None \<Rightarrow> Inl (Errorf ''invalid decimal %q'' [input])
                           | Some v \<Rightarrow> Inr (AccDecimal (Some (if negative then - v else v)))))"

definition acc_MustParse :: "string \<Rightarrow> acc_decimal result" where
  "acc_MustParse value =
     (case acc_Parse value of Inl _ \<Rightarrow> Inl (Panic ''MustParse'') | Inr d \<Rightarrow> Inr d)"

definition acc_Valid :: "acc_decimal \<Rightarrow> bool" where
  "acc_Valid d = (case d of AccDecimal v \<Rightarrow> v \<noteq> None)"

definition acc_integer :: "acc_decimal \<Rightarrow> int" where
  "acc_integer d = (case d of AccDecimal None \<Rightarrow> 0 | AccDecimal (Some v) \<Rightarrow> v)"

definition acc_Sign :: "acc_decimal \<Rightarrow> int" where
  "acc_Sign d = (case d of AccDecimal None \<Rightarrow> 0 | AccDecimal (Some v) \<Rightarrow> sgn v)"

definition acc_Cmp :: "acc_decimal \<Rightarrow> acc_decimal \<Rightarrow> int" where
  "acc_Cmp d e = (if acc_integer d < acc_integer e then -1
                  else if acc_integer d = acc_integer e then 0 else 1)"

definition acc_Add :: "acc_decimal \<Rightarrow> acc_decimal \<Rightarrow> acc_decimal" where
  "acc_Add d e = AccDecimal (Some (acc_integer d + acc_integer e))"

definition acc_Sub :: "acc_decimal \<Rightarrow> acc_decimal \<Rightarrow> acc_decimal" where
  "acc_Sub d e = AccDecimal (Some (acc_integer d - acc_integer e))"

definition acc_Neg :: "acc_decimal \<Rightarrow> acc_decimal" where
  "acc_Neg d = AccDecimal (Some (- acc_integer d))"

definition roundQuotient :: "int \<Rightarrow> int \<Rightarrow> int" where
  "roundQuotient numerator denominator =
     (let quotient = quo numerator denominator;
          remainder = remt numerator denominator;
          twice = \<bar>remainder * 2\<bar>
      in if twice \<ge> \<bar>denominator\<bar>
         then (if sgn numerator * sgn denominator \<ge> 0 then quotient + 1 else quotient - 1)
         else quotient)"

definition acc_Mul :: "acc_decimal \<Rightarrow> acc_decimal \<Rightarrow> acc_decimal" where
  "acc_Mul d e = AccDecimal (Some (roundQuotient (acc_integer d * acc_integer e) acc_factor))"

definition acc_Div :: "acc_decimal \<Rightarrow> acc_decimal \<Rightarrow> acc_decimal result" where
  "acc_Div d e =
     (if acc_Sign e = 0 then Inl (Errorf ''decimal division by zero'' [])
      else Inr (AccDecimal (Some (roundQuotient (acc_integer d * acc_factor) (acc_integer e)))))"

definition acc_MulDiv :: "acc_decimal \<Rightarrow> acc_decimal \<Rightarrow> acc_decimal \<Rightarrow> acc_decimal result" where
  "acc_MulDiv d multiplier divisor =
     (if acc_Sign divisor = 0 then Inl (Errorf ''decimal division by zero'' [])
      else Inr (AccDecimal (Some
             (roundQuotient (acc_integer d * acc_integer multiplier) (acc_integer divisor)))))"

definition acc_String :: "acc_decimal \<Rightarrow> string" where
  "acc_String d =
     (let value = acc_integer d;
          negative = value < 0;
          digits = pad_digits acc_Scale (big_string \<bar>value\<bar>);
          point = length digits - acc_Scale;
          result = take point digits @ ''.'' @ drop point digits;
          result = trim_right_char (CHR ''.'') (trim_right_char zero_char result);
          result = (if result = '''' then ''0'' else result)
      in if negative \<and> result \<noteq> ''0'' then ''-'' @ result else result)"

text \<open>\<^verbatim>\<open>Value\<close> and \<^verbatim>\<open>Scan\<close>: what a database column holds; SQL NULL is \<open>None\<close>.\<close>

definition acc_Value :: "acc_decimal \<Rightarrow> string option" where
  "acc_Value d = (if \<not> acc_Valid d then None else Some (acc_String d))"

definition acc_Scan :: "string option \<Rightarrow> acc_decimal result" where
  "acc_Scan src =
     (case src of None \<Rightarrow> Inr (AccDecimal None)
      | Some input \<Rightarrow> and_then (acc_Parse input) (\<lambda>parsed. Inr (AccDecimal (Some (acc_integer parsed)))))"

section \<open>Arithmetic\<close>

lemma acc_factor_pos [simp]: "0 < acc_factor"
  by (simp add: acc_factor_def)

lemma acc_integer_simps [simp]:
  "acc_integer (AccDecimal (Some v)) = v" "acc_integer (AccDecimal None) = 0"
  "acc_integer acc_Zero = 0"
  "acc_integer (acc_Add d e) = acc_integer d + acc_integer e"
  "acc_integer (acc_Sub d e) = acc_integer d - acc_integer e"
  "acc_integer (acc_Neg d) = - acc_integer d"
  "acc_integer (acc_Mul d e) = roundQuotient (acc_integer d * acc_integer e) acc_factor"
  by (simp_all add: acc_integer_def acc_Zero_def acc_Add_def acc_Sub_def acc_Neg_def acc_Mul_def)

lemma acc_Valid_simps [simp]:
  "acc_Valid (AccDecimal (Some v))" "\<not> acc_Valid (AccDecimal None)" "acc_Valid acc_Zero"
  "acc_Valid (acc_Add d e)" "acc_Valid (acc_Sub d e)" "acc_Valid (acc_Neg d)" "acc_Valid (acc_Mul d e)"
  by (simp_all add: acc_Valid_def acc_Zero_def acc_Add_def acc_Sub_def acc_Neg_def acc_Mul_def)

lemma acc_Sign_eq [simp]: "acc_Sign d = sgn (acc_integer d)"
  by (simp add: acc_Sign_def acc_integer_def split: acc_decimal.splits option.splits)

lemma acc_Cmp_eq_0 [simp]: "acc_Cmp d e = 0 \<longleftrightarrow> acc_integer d = acc_integer e"
  by (simp add: acc_Cmp_def)

lemma acc_Cmp_pos [simp]: "0 < acc_Cmp d e \<longleftrightarrow> acc_integer e < acc_integer d"
  by (simp add: acc_Cmp_def)

lemma acc_Valid_cases: "acc_Valid d \<longleftrightarrow> d = AccDecimal (Some (acc_integer d))"
  by (cases d) (auto simp: acc_Valid_def acc_integer_def split: option.splits)

lemma acc_eq_iff: "acc_Valid d \<Longrightarrow> acc_Valid e \<Longrightarrow> d = e \<longleftrightarrow> acc_integer d = acc_integer e"
  by (metis acc_Valid_cases)

lemma roundQuotient_nonneg:
  assumes "0 \<le> a" and "0 < b"
  shows "roundQuotient a b = half_away (of_int a / of_int b)"
proof -
  have "sgn a * sgn b \<ge> 0" using assms by (simp add: sgn_if)
  moreover have "\<bar>a mod b * 2\<bar> = 2 * (a mod b)" using assms by simp
  ultimately show ?thesis
    using assms by (simp add: roundQuotient_def half_away_div_nonneg quo_nonneg remt_nonneg Let_def)
qed

lemma roundQuotient_uminus: "a \<noteq> 0 \<Longrightarrow> 0 < b \<Longrightarrow> roundQuotient (- a) b = - roundQuotient a b"
  by (auto simp: roundQuotient_def quo_uminus remt_uminus Let_def sgn_if)

interpretation accounting: rounding_division roundQuotient
proof
  fix a b :: int
  assume b: "0 < b"
  show "roundQuotient a b = half_away (of_int a / of_int b)"
  proof (cases "0 \<le> a")
    case True
    with b show ?thesis by (rule roundQuotient_nonneg [rotated 1]) 
  next
    case False
    then have "roundQuotient (- (- a)) b = - half_away (of_int (- a) / of_int b)"
      using b by (subst roundQuotient_uminus) (simp_all add: roundQuotient_nonneg)
    then show ?thesis by (simp add: half_away_uminus)
  qed
qed

lemma acc_MulDiv_ok:
  "acc_integer q \<noteq> 0 \<Longrightarrow>
   acc_MulDiv d m q = Inr (AccDecimal (Some (roundQuotient (acc_integer d * acc_integer m) (acc_integer q))))"
  by (simp add: acc_MulDiv_def sgn_0_0)

lemma acc_Div_ok:
  "acc_integer q \<noteq> 0 \<Longrightarrow>
   acc_Div d q = Inr (AccDecimal (Some (roundQuotient (acc_integer d * acc_factor) (acc_integer q))))"
  by (simp add: acc_Div_def sgn_0_0)

section \<open>Printing and parsing\<close>

lemma trim_right_split:
  "\<exists>k. s = trim_right_char c s @ replicate k c"
proof -
  have "rev s = takeWhile (\<lambda>x. x = c) (rev s) @ dropWhile (\<lambda>x. x = c) (rev s)" by simp
  then have "s = rev (dropWhile (\<lambda>x. x = c) (rev s)) @ rev (takeWhile (\<lambda>x. x = c) (rev s))"
    by (metis rev_append rev_rev_ident)
  moreover have "rev (takeWhile (\<lambda>x. x = c) (rev s))
      = replicate (length (takeWhile (\<lambda>x. x = c) (rev s))) c"
    by (metis (mono_tags, lifting) replicate_eqI rev_replicate set_takeWhileD)
  ultimately show ?thesis unfolding trim_right_char_def by metis
qed

lemma trim_right_append:
  "x \<noteq> c \<Longrightarrow> trim_right_char c (s @ x # t) = s @ x # trim_right_char c t"
  by (auto simp: trim_right_char_def dropWhile_append)

lemma trim_right_id: "s = [] \<or> last s \<noteq> c \<Longrightarrow> trim_right_char c s = s"
  by (cases s rule: rev_cases) (auto simp: trim_right_char_def)

lemma trim_right_snoc [simp]: "trim_right_char c (s @ [c]) = trim_right_char c s"
  by (simp add: trim_right_char_def)

text \<open>
  The text after the two \<^verbatim>\<open>TrimRight\<close> calls: the integer part, then the fraction without its
  trailing zeros, with the point only when a fraction is left.
\<close>

lemma last_digit: "list_all is_digit s \<Longrightarrow> s \<noteq> [] \<Longrightarrow> last s \<noteq> CHR ''.''"
  by (metis last_in_set list_all_iff not_digit_signs(3))

lemma trimmed_text:
  assumes "list_all is_digit I" and "I \<noteq> []" and "list_all is_digit F"
  shows "\<exists>F' k. F = F' @ replicate k zero_char \<and>
     trim_right_char (CHR ''.'') (trim_right_char zero_char (I @ ''.'' @ F))
       = (if F' = [] then I else I @ CHR ''.'' # F')"
proof -
  obtain k where k: "F = trim_right_char zero_char F @ replicate k zero_char"
    using trim_right_split by blast
  let ?F' = "trim_right_char zero_char F"
  have F': "list_all is_digit ?F'" using assms(3) k by (metis list_all_append)
  have one: "trim_right_char zero_char (I @ ''.'' @ F) = I @ CHR ''.'' # ?F'"
    using trim_right_append [of "CHR ''.''" zero_char I F] by simp
  have "trim_right_char (CHR ''.'') (I @ CHR ''.'' # ?F') = (if ?F' = [] then I else I @ CHR ''.'' # ?F')"
  proof (cases "?F' = []")
    case True
    have "last I \<noteq> CHR ''.''" using assms(1,2) by (rule last_digit)
    with True show ?thesis by (simp add: trim_right_id)
  next
    case False
    with F' have "last ?F' \<noteq> CHR ''.''" by (rule last_digit)
    with False show ?thesis by (simp add: trim_right_id)
  qed
  with k one show ?thesis by metis
qed

lemma digits_not_special:
  "list_all is_digit s \<Longrightarrow> c \<in> {CHR ''.'', CHR ''-'', CHR ''+'', CHR ''e'', CHR ''E''} \<Longrightarrow> c \<notin> set s"
  by (auto simp: list_all_iff)

text \<open>Parsing a plain decimal: integer part, optional fraction, optional minus sign.\<close>

lemma acc_Parse_plain:
  assumes I: "list_all is_digit I" "I \<noteq> []" and F: "list_all is_digit F" "length F \<le> acc_Scale"
    and shape: "t = (if F = [] then I else I @ CHR ''.'' # F)"
  shows "acc_Parse ((if neg then ''-'' else '''') @ t)
    = Inr (AccDecimal (Some ((if neg then -1 else 1) *
        int (nat_of_digits (I @ F @ replicate (acc_Scale - length F) zero_char)))))"
proof -
  let ?s = "(if neg then ''-'' else '''') @ t"
  have chars: "\<forall>c \<in> set ?s. is_digit c \<or> c = CHR ''.'' \<or> c = CHR ''-''"
    using I F shape by (auto simp: list_all_iff split: if_splits)
  moreover have "printable (CHR ''.'')" "printable (CHR ''-'')" by (simp_all add: printable_def)
  ultimately have "list_all printable ?s"
    unfolding list_all_iff using is_digit_printable by blast
  then have trim: "trim_space ?s = ?s" by (rule trim_space_printable)
  have noexp: "\<not> contains_any ?s ''eE''"
    using chars by (auto simp: contains_any_def list_ex_iff ball_Un)
  have t: "t \<noteq> []" "hd t \<noteq> CHR ''-''" "hd t \<noteq> CHR ''+''"
    using I shape by (auto simp: list_all_iff) (cases I; auto)+
  have body: "(if has_prefix ?s ''-'' \<or> has_prefix ?s ''+'' then drop 1 ?s else ?s) = t"
    "has_prefix ?s ''-'' = neg"
    using t by (cases t; auto simp: has_prefix_def)+
  have parts: "split_on (CHR ''.'') t = (if F = [] then [I] else [I, F])"
    using I F shape by (auto simp: split_on_append_sep digits_not_special)
  have digits: "list_all is_digit (I @ F @ replicate (acc_Scale - length F) zero_char)"
    using I F by simp
  show ?thesis
    using trim noexp body parts digits I F t
    by (simp add: acc_Parse_def Let_def big_set_string_digits)
qed

lemma acc_String_shape:
  "\<exists>I F. list_all is_digit I \<and> I \<noteq> [] \<and> list_all is_digit F \<and> length F \<le> acc_Scale \<and>
     int (nat_of_digits (I @ F @ replicate (acc_Scale - length F) zero_char)) = \<bar>acc_integer d\<bar> \<and>
     acc_String d = (if acc_integer d < 0 then ''-'' else '''') @ (if F = [] then I else I @ CHR ''.'' # F)"
proof -
  define ds where "ds = pad_digits acc_Scale (big_string \<bar>acc_integer d\<bar>)"
  define p where "p = length ds - acc_Scale"
  have ds: "list_all is_digit ds" "nat_of_digits ds = nat \<bar>acc_integer d\<bar>" "acc_Scale < length ds"
    by (simp_all add: ds_def big_string_def pad_digits_eq show_nat_digits nat_of_digits_append)
  have I: "list_all is_digit (take p ds)" "take p ds \<noteq> []"
    and F: "list_all is_digit (drop p ds)" "length (drop p ds) = acc_Scale"
    using ds by (auto simp: p_def list_all_iff dest: in_set_takeD in_set_dropD)
  obtain F' k where F': "drop p ds = F' @ replicate k zero_char"
    and res: "trim_right_char (CHR ''.'') (trim_right_char zero_char (take p ds @ ''.'' @ drop p ds))
       = (if F' = [] then take p ds else take p ds @ CHR ''.'' # F')"
    using trimmed_text [OF I F(1)] by blast
  have k: "k = acc_Scale - length F'" using F F' by auto
  have val: "nat_of_digits (take p ds @ F' @ replicate (acc_Scale - length F') zero_char)
      = nat \<bar>acc_integer d\<bar>"
    using ds(2) F' k by (metis append_take_drop_id)
  let ?r = "if F' = [] then take p ds else take p ds @ CHR ''.'' # F'"
  have r: "?r \<noteq> []" using I by simp
  have zero: "?r = ''0'' \<Longrightarrow> acc_integer d = 0"
  proof -
    assume "?r = ''0''"
    then have "F' = [] \<and> take p ds = ''0''" using I by (cases F') (auto simp: append_eq_Cons_conv)
    then have "nat_of_digits (take p ds @ F' @ replicate (acc_Scale - length F') zero_char) = 0"
      by (simp add: nat_of_digits_Cons)
    with val show "acc_integer d = 0" by simp
  qed
  have "acc_String d = (if acc_integer d < 0 then ''-'' else '''') @ ?r"
    unfolding acc_String_def Let_def ds_def [symmetric] p_def [symmetric] res
    using r zero by auto
  moreover have "list_all is_digit F'" "length F' \<le> acc_Scale"
    using F F' by (auto simp: list_all_iff)
  ultimately show ?thesis using I val by (intro exI [of _ "take p ds"] exI [of _ F']) simp
qed

lemma acc_Parse_String_aux:
  "acc_Parse (acc_String d) = Inr (AccDecimal (Some (acc_integer d)))"
proof -
  obtain I F where I: "list_all is_digit I" "I \<noteq> []" and F: "list_all is_digit F" "length F \<le> acc_Scale"
    and val: "int (nat_of_digits (I @ F @ replicate (acc_Scale - length F) zero_char)) = \<bar>acc_integer d\<bar>"
    and shape: "acc_String d = (if acc_integer d < 0 then ''-'' else '''')
        @ (if F = [] then I else I @ CHR ''.'' # F)"
    using acc_String_shape by blast
  show ?thesis
    unfolding shape using acc_Parse_plain [OF I F refl, of "acc_integer d < 0"] val by simp
qed

end
