(* ===== verification/Values.thy ===== *)
theory Values
  imports Accounting "HOL-Library.Word"
begin

text \<open>
  \<^verbatim>\<open>internal/tradingcore/values.go\<close>: the exact decimal of the trading core (a coefficient kept as
  decimal text, a scale of at most 18 and a validity flag), the refinement types quantity, price
  and signed amount, and the validated identities. The well-formedness predicate \<open>dec_wf\<close> says
  that a decimal is in the canonical form the constructors produce; the lemmas show that the
  constructors establish it, that printing and parsing are inverse on it, and that the two
  decimal packages read each other's text without loss.
\<close>

section \<open>Decimals\<close>

type_synonym int64 = "64 word"

definition MaxDecimalScale :: nat where
  "MaxDecimalScale = 18"

record Decimal =
  dec_coefficient :: string
  dec_scale :: nat
  dec_valid :: bool

definition zero_Decimal :: Decimal where
  "zero_Decimal = \<lparr>dec_coefficient = '''', dec_scale = 0, dec_valid = False\<rparr>"

definition NewScaledDecimal :: "string \<Rightarrow> nat \<Rightarrow> Decimal result" where
  "NewScaledDecimal raw scale =
     (if scale > MaxDecimalScale
      then Inl (Errorf ''decimal scale %d exceeds maximum %d'' [show_nat scale, show_nat MaxDecimalScale])
      else
        let coefficient = trim_space raw;
            negative = has_prefix coefficient ''-'';
            coefficient = (if negative \<or> has_prefix coefficient ''+'' then drop 1 coefficient else coefficient)
        in if coefficient = '''' then Inl (Errorf ''scaled decimal coefficient is required'' [])
           else if \<not> list_all is_digit coefficient
           then Inl (Errorf ''invalid scaled decimal coefficient %q'' [coefficient])
           else
             let coefficient = trim_left_char zero_char coefficient;
                 coefficient = (if coefficient = '''' then ''0'' else coefficient);
                 coefficient = (if negative \<and> coefficient \<noteq> ''0'' then ''-'' @ coefficient else coefficient)
             in Inr \<lparr>dec_coefficient = coefficient, dec_scale = scale, dec_valid = True\<rparr>)"

definition NewDecimal :: "int64 \<Rightarrow> nat \<Rightarrow> Decimal result" where
  "NewDecimal coefficient scale = NewScaledDecimal (big_string (sint coefficient)) scale"

definition MustDecimal :: "int64 \<Rightarrow> nat \<Rightarrow> Decimal result" where
  "MustDecimal coefficient scale =
     (case NewDecimal coefficient scale of Inl _ \<Rightarrow> Inl (Panic ''MustDecimal'') | Inr d \<Rightarrow> Inr d)"

definition ParseDecimal :: "string \<Rightarrow> Decimal result" where
  "ParseDecimal raw =
     (let input = trim_space raw in
      if input = '''' \<or> contains_any input ''eE'' then Inl (Errorf ''invalid decimal %q'' [input])
      else
        let negative = has_prefix input ''-'';
            input = (if negative \<or> has_prefix input ''+'' then drop 1 input else input);
            parts = split_on (CHR ''.'') input
        in if length parts > 2 \<or> parts ! 0 = '''' \<or> (length parts = 2 \<and> parts ! 1 = '''')
           then Inl (Errorf ''invalid decimal %q'' [input])
           else
             let scale = (if length parts = 2 then length (parts ! 1) else 0);
                 digits = (if length parts = 2 then parts ! 0 @ parts ! 1 else parts ! 0)
             in if scale > MaxDecimalScale
                then Inl (Errorf ''decimal scale %d exceeds maximum %d'' [show_nat scale, show_nat MaxDecimalScale])
                else if \<not> list_all is_digit digits then Inl (Errorf ''invalid decimal digits %q'' [digits])
                else NewScaledDecimal (if negative then ''-'' @ digits else digits) scale)"

definition dec_Sign :: "Decimal \<Rightarrow> int" where
  "dec_Sign value =
     (if \<not> dec_valid value \<or> dec_coefficient value = ''0'' then 0
      else if has_prefix (dec_coefficient value) ''-'' then -1 else 1)"

definition dec_String :: "Decimal \<Rightarrow> string" where
  "dec_String value =
     (if \<not> dec_valid value then ''<invalid>''
      else
        let negative = has_prefix (dec_coefficient value) ''-'';
            digits = (if negative then drop 1 (dec_coefficient value) else dec_coefficient value);
            digits = (if dec_scale value > 0
                      then let padded = pad_digits (dec_scale value) digits;
                               point = length padded - dec_scale value
                           in take point padded @ ''.'' @ drop point padded
                      else digits)
        in if negative then ''-'' @ digits else digits)"

section \<open>Quantities, prices, amounts\<close>

datatype Quantity = Quantity Decimal
datatype Price = Price Decimal
datatype SignedAmount = SignedAmount Decimal

primrec qty_Decimal :: "Quantity \<Rightarrow> Decimal" where
  "qty_Decimal (Quantity d) = d"

primrec price_Decimal :: "Price \<Rightarrow> Decimal" where
  "price_Decimal (Price d) = d"

primrec amt_Decimal :: "SignedAmount \<Rightarrow> Decimal" where
  "amt_Decimal (SignedAmount d) = d"

definition NewQuantity :: "Decimal \<Rightarrow> Quantity result" where
  "NewQuantity value =
     (if \<not> dec_valid value \<or> dec_Sign value \<le> 0
      then Inl (Errorf ''quantity must be a valid positive decimal'' []) else Inr (Quantity value))"

definition NewPrice :: "Decimal \<Rightarrow> Price result" where
  "NewPrice value =
     (if \<not> dec_valid value \<or> dec_Sign value \<le> 0
      then Inl (Errorf ''price must be a valid positive decimal'' []) else Inr (Price value))"

definition NewSignedAmount :: "Decimal \<Rightarrow> SignedAmount result" where
  "NewSignedAmount value =
     (if \<not> dec_valid value then Inl (Errorf ''amount must be a valid decimal'' []) else Inr (SignedAmount value))"

definition qty_Valid :: "Quantity \<Rightarrow> bool" where
  "qty_Valid q \<longleftrightarrow> dec_valid (qty_Decimal q) \<and> dec_Sign (qty_Decimal q) > 0"

definition price_Valid :: "Price \<Rightarrow> bool" where
  "price_Valid p \<longleftrightarrow> dec_valid (price_Decimal p) \<and> dec_Sign (price_Decimal p) > 0"

definition amt_Valid :: "SignedAmount \<Rightarrow> bool" where
  "amt_Valid a \<longleftrightarrow> dec_valid (amt_Decimal a)"

section \<open>Identities\<close>

type_synonym AccountID = string
type_synonym AssetID = string
type_synonym InstrumentID = string
type_synonym VenueID = string
type_synonym PositionID = string
type_synonym OrderID = string
type_synonym FillID = string
type_synonym EventID = string
type_synonym StrategyID = string
type_synonym IdempotencyKey = string
type_synonym CorrelationID = string
type_synonym CausationID = string

definition validateIdentity :: "string \<Rightarrow> string \<Rightarrow> string result" where
  "validateIdentity kind raw =
     (let value = trim_space raw in
      if value = '''' then Inl (Errorf ''%s is required'' [kind])
      else if length value > 200 then Inl (Errorf ''%s exceeds 200 characters'' [kind])
      else if \<not> list_all printable value then Inl (Errorf ''%s contains unsupported characters'' [kind])
      else Inr value)"

definition NewAccountID :: "string \<Rightarrow> AccountID result" where
  "NewAccountID v = validateIdentity ''account id'' v"

definition NewAssetID :: "string \<Rightarrow> AssetID result" where
  "NewAssetID v = validateIdentity ''asset id'' v"

definition NewInstrumentID :: "string \<Rightarrow> InstrumentID result" where
  "NewInstrumentID v = validateIdentity ''instrument id'' v"

definition NewVenueID :: "string \<Rightarrow> VenueID result" where
  "NewVenueID v = validateIdentity ''venue id'' v"

definition NewPositionID :: "string \<Rightarrow> PositionID result" where
  "NewPositionID v = validateIdentity ''position id'' v"

definition NewOrderID :: "string \<Rightarrow> OrderID result" where
  "NewOrderID v = validateIdentity ''order id'' v"

definition NewFillID :: "string \<Rightarrow> FillID result" where
  "NewFillID v = validateIdentity ''fill id'' v"

definition NewEventID :: "string \<Rightarrow> EventID result" where
  "NewEventID v = validateIdentity ''event id'' v"

definition NewStrategyID :: "string \<Rightarrow> StrategyID result" where
  "NewStrategyID v = validateIdentity ''strategy id'' v"

definition NewIdempotencyKey :: "string \<Rightarrow> IdempotencyKey result" where
  "NewIdempotencyKey v = validateIdentity ''idempotency key'' v"

definition NewCorrelationID :: "string \<Rightarrow> CorrelationID result" where
  "NewCorrelationID v = validateIdentity ''correlation id'' v"

definition NewCausationID :: "string \<Rightarrow> CausationID result" where
  "NewCausationID v = validateIdentity ''causation id'' v"

record VersionContext =
  vc_Strategy :: string
  vc_Settings :: string
  vc_Policy :: string
  vc_Model :: string
  vc_FeatureSpec :: string
  vc_Dataset :: string
  vc_Engine :: string
  vc_Universe :: string
  vc_FlagSchema :: string

definition zero_VersionContext :: VersionContext where
  "zero_VersionContext = \<lparr>vc_Strategy = '''', vc_Settings = '''', vc_Policy = '''', vc_Model = '''',
     vc_FeatureSpec = '''', vc_Dataset = '''', vc_Engine = '''', vc_Universe = '''', vc_FlagSchema = ''''\<rparr>"

record Provenance =
  pv_Source :: string
  pv_Actor :: string
  pv_Reason :: string
  pv_CorrelationID :: CorrelationID
  pv_CausationID :: CausationID

definition zero_Provenance :: Provenance where
  "zero_Provenance = \<lparr>pv_Source = '''', pv_Actor = '''', pv_Reason = '''',
     pv_CorrelationID = '''', pv_CausationID = ''''\<rparr>"

section \<open>Canonical form\<close>

text \<open>
  The integer \<^verbatim>\<open>big.Int.SetString\<close> leaves in a fresh integer: the parsed coefficient, or zero
  where parsing fails (the coefficient of the zero value).
\<close>

definition dec_int :: "Decimal \<Rightarrow> int" where
  "dec_int d = (case big_set_string (dec_coefficient d) of None \<Rightarrow> 0 | Some v \<Rightarrow> v)"

definition dec_wf :: "Decimal \<Rightarrow> bool" where
  "dec_wf d \<longleftrightarrow> dec_valid d \<and> dec_scale d \<le> MaxDecimalScale \<and> dec_coefficient d = big_string (dec_int d)"

definition mk_dec :: "int \<Rightarrow> nat \<Rightarrow> Decimal" where
  "mk_dec i s = \<lparr>dec_coefficient = big_string i, dec_scale = s, dec_valid = True\<rparr>"

lemma mk_dec_simps [simp]:
  "dec_int (mk_dec i s) = i" "dec_scale (mk_dec i s) = s" "dec_valid (mk_dec i s)"
  "dec_coefficient (mk_dec i s) = big_string i"
  "mk_dec i s = mk_dec j t \<longleftrightarrow> i = j \<and> s = t"
  by (auto simp: mk_dec_def dec_int_def)

lemma dec_wf_iff: "dec_wf d \<longleftrightarrow> d = mk_dec (dec_int d) (dec_scale d) \<and> dec_scale d \<le> MaxDecimalScale"
  by (cases d) (auto simp: dec_wf_def mk_dec_def)

lemma dec_wf_mk_dec [simp]: "dec_wf (mk_dec i s) \<longleftrightarrow> s \<le> MaxDecimalScale"
  by (simp add: dec_wf_iff)

lemma big_string_hd:
  "has_prefix (big_string i) ''-'' \<longleftrightarrow> i < 0" "\<not> has_prefix (big_string i) ''+''"
  using show_nat_digits [of "nat i"] by (auto simp: big_string_def has_prefix_def)
    (cases "show_nat (nat i)"; auto)+

lemma big_string_printable: "list_all printable (big_string i)"
  by (simp add: big_string_def digits_printable show_nat_digits)

lemma big_string_eq_0: "big_string i = ''0'' \<longleftrightarrow> i = 0"
  using big_string_inject [of i 0] by (simp add: big_string_def)

text \<open>Every constructor delivers the canonical decimal of the digits it read.\<close>

lemma NewScaledDecimal_digits:
  assumes "list_all is_digit ds" and "ds \<noteq> []" and "s \<le> MaxDecimalScale"
  shows "NewScaledDecimal ((if neg then ''-'' else '''') @ ds) s
    = Inr (mk_dec ((if neg then -1 else 1) * int (nat_of_digits ds)) s)"
proof -
  let ?raw = "(if neg then ''-'' else '''') @ ds"
  let ?c = "trim_left_char zero_char ds"
  have "list_all printable ?raw" using assms(1) by (simp add: digits_printable)
  then have trim: "trim_space ?raw = ?raw" by (rule trim_space_printable)
  have body: "(if neg \<or> has_prefix ?raw ''+'' then drop 1 ?raw else ?raw) = ds"
    "has_prefix ?raw ''-'' = neg"
    using assms(1,2) by (cases ds; auto simp: has_prefix_def is_digit_def)+
  have c: "(if ?c = '''' then ''0'' else ?c) = show_nat (nat_of_digits ds)"
  proof (cases "?c = []")
    case True
    then have "nat_of_digits ds = 0" by (metis nat_of_digits_Nil nat_of_digits_trim_left)
    with True show ?thesis by simp
  next
    case False
    then have "hd ?c \<noteq> zero_char"
      using hd_dropWhile [of "\<lambda>x. x = zero_char" ds] by (simp add: trim_left_char_def)
    moreover have "list_all is_digit ?c"
      using assms(1) by (auto simp: list_all_iff trim_left_char_def dest: set_dropWhileD)
    ultimately have "show_nat (nat_of_digits ?c) = ?c" using False by (intro show_nat_of_digits)
    with False show ?thesis by simp
  qed
  have z: "show_nat (nat_of_digits ds) = ''0'' \<longleftrightarrow> nat_of_digits ds = 0"
    by (metis nat_of_show_nat show_nat_0)
  show ?thesis
    unfolding NewScaledDecimal_def Let_def trim body c
    using assms z by (auto simp: mk_dec_def big_string_def)
qed

lemma NewScaledDecimal_big_string [simp]:
  "s \<le> MaxDecimalScale \<Longrightarrow> NewScaledDecimal (big_string i) s = Inr (mk_dec i s)"
  using NewScaledDecimal_digits [OF show_nat_digits show_nat_nonempty, of s "i < 0" "nat \<bar>i\<bar>"]
  by (auto simp: big_string_def)

text \<open>Any text the constructor accepts is a sign and digits after trimming.\<close>

lemma NewScaledDecimal_normalises:
  assumes "NewScaledDecimal raw s = Inr d"
  shows "\<exists>neg ds. list_all is_digit ds \<and> ds \<noteq> [] \<and> s \<le> MaxDecimalScale \<and>
    NewScaledDecimal raw s = NewScaledDecimal ((if neg then ''-'' else '''') @ ds) s"
proof -
  define neg where "neg = has_prefix (trim_space raw) ''-''"
  define ds where "ds = (if neg \<or> has_prefix (trim_space raw) ''+'' then drop 1 (trim_space raw) else trim_space raw)"
  have s: "s \<le> MaxDecimalScale" and ds: "ds \<noteq> []" "list_all is_digit ds"
    using assms by (auto simp: NewScaledDecimal_def Let_def neg_def ds_def split: if_splits)
  have "list_all printable ((if neg then ''-'' else '''') @ ds)"
    using digits_printable [OF ds(2)] by simp
  then have trim: "trim_space ((if neg then ''-'' else '''') @ ds) = (if neg then ''-'' else '''') @ ds"
    by (rule trim_space_printable)
  have hd: "has_prefix ((if neg then ''-'' else '''') @ ds) ''-'' = neg"
    "(if neg \<or> has_prefix ((if neg then ''-'' else '''') @ ds) ''+''
      then drop 1 ((if neg then ''-'' else '''') @ ds) else (if neg then ''-'' else '''') @ ds) = ds"
    using ds by (cases ds; auto simp: has_prefix_def)+
  have "NewScaledDecimal raw s = NewScaledDecimal ((if neg then ''-'' else '''') @ ds) s"
    unfolding NewScaledDecimal_def Let_def trim hd neg_def [symmetric] ds_def [symmetric] by simp
  with s ds show ?thesis by blast
qed

lemma NewScaledDecimal_canonical:
  assumes "NewScaledDecimal raw s = Inr d"
  shows "dec_wf d \<and> dec_scale d = s"
proof -
  obtain neg ds where ds: "list_all is_digit ds" "ds \<noteq> []" "s \<le> MaxDecimalScale"
    and eq: "NewScaledDecimal raw s = NewScaledDecimal ((if neg then ''-'' else '''') @ ds) s"
    using NewScaledDecimal_normalises [OF assms] by blast
  with assms have "d = mk_dec ((if neg then -1 else 1) * int (nat_of_digits ds)) s"
    using NewScaledDecimal_digits [OF ds, of neg] by simp
  then show ?thesis using ds by simp
qed

lemma ParseDecimal_canonical: "ParseDecimal raw = Inr d \<Longrightarrow> dec_wf d"
  by (auto simp: ParseDecimal_def Let_def dest: NewScaledDecimal_canonical split: if_splits)

lemma dec_Sign_wf: "dec_wf d \<Longrightarrow> dec_Sign d = sgn (dec_int d)"
  by (auto simp: dec_wf_def dec_Sign_def big_string_eq_0 big_string_hd sgn_if)

section \<open>Printing and parsing\<close>

text \<open>Parsing a plain decimal: sign, integer part, optional fraction.\<close>

lemma ParseDecimal_plain:
  assumes I: "list_all is_digit I" "I \<noteq> []" and F: "list_all is_digit F" "length F \<le> MaxDecimalScale"
    and shape: "t = (if F = [] then I else I @ CHR ''.'' # F)"
  shows "ParseDecimal ((if neg then ''-'' else '''') @ t)
    = Inr (mk_dec ((if neg then -1 else 1) * int (nat_of_digits (I @ F))) (length F))"
proof -
  let ?s = "(if neg then ''-'' else '''') @ t"
  have chars: "\<forall>c \<in> set ?s. is_digit c \<or> c = CHR ''.'' \<or> c = CHR ''-''"
    using I F shape by (auto simp: list_all_iff split: if_splits)
  then have "list_all printable ?s"
    unfolding list_all_iff using is_digit_printable printable_signs by blast
  then have trim: "trim_space ?s = ?s" by (rule trim_space_printable)
  have noexp: "\<not> contains_any ?s ''eE''"
    using chars by (auto simp: contains_any_def list_ex_iff ball_Un)
  have t: "t \<noteq> []" "hd t \<noteq> CHR ''-''" "hd t \<noteq> CHR ''+''"
    using I shape by (auto simp: list_all_iff) (cases I; auto)+
  have body: "(if neg \<or> has_prefix ?s ''+'' then drop 1 ?s else ?s) = t"
    "has_prefix ?s ''-'' = neg"
    using t by (cases t; auto simp: has_prefix_def)+
  have parts: "split_on (CHR ''.'') t = (if F = [] then [I] else [I, F])"
    using I F shape by (auto simp: split_on_append_sep digits_not_special)
  have digits: "list_all is_digit (I @ F)" "I @ F \<noteq> []" using I F by simp_all
  show ?thesis
    unfolding ParseDecimal_def Let_def trim body parts
    using noexp digits I F t NewScaledDecimal_digits [OF digits F(2), of neg]
    by (cases neg; cases "F = []") simp_all
qed

lemma dec_String_shape:
  assumes "s \<le> MaxDecimalScale"
  shows "\<exists>I F. list_all is_digit I \<and> I \<noteq> [] \<and> list_all is_digit F \<and> length F = s \<and>
     int (nat_of_digits (I @ F)) = \<bar>i\<bar> \<and>
     dec_String (mk_dec i s) = (if i < 0 then ''-'' else '''') @ (if F = [] then I else I @ CHR ''.'' # F)"
proof -
  define ds where "ds = pad_digits s (show_nat (nat \<bar>i\<bar>))"
  define p where "p = length ds - s"
  have ds: "list_all is_digit ds" "nat_of_digits ds = nat \<bar>i\<bar>" "s < length ds"
    using pad_digits_props [OF show_nat_digits] by (simp_all add: ds_def)
  have I: "list_all is_digit (take p ds)" "take p ds \<noteq> []"
    and F: "list_all is_digit (drop p ds)" "length (drop p ds) = s"
    using ds by (auto simp: p_def list_all_iff dest: in_set_takeD in_set_dropD)
  have z: "s = 0 \<Longrightarrow> ds = show_nat (nat \<bar>i\<bar>)"
    by (cases "show_nat (nat \<bar>i\<bar>)") (simp_all add: ds_def pad_digits_eq)
  have body: "(if i < 0 then drop 1 (big_string i) else big_string i) = show_nat (nat \<bar>i\<bar>)"
    by (simp add: big_string_hd) (simp add: big_string_def)
  have "dec_String (mk_dec i s) = (if i < 0 then ''-'' else '''')
      @ (if drop p ds = [] then take p ds else take p ds @ CHR ''.'' # drop p ds)"
    unfolding dec_String_def Let_def mk_dec_simps body ds_def [symmetric] p_def [symmetric] big_string_hd
    using F(2) z by (cases "s = 0") (auto simp: p_def)
  with I F ds(2) show ?thesis by (intro exI [of _ "take p ds"] exI [of _ "drop p ds"]) simp
qed

lemma ParseDecimal_String_mk: "s \<le> MaxDecimalScale \<Longrightarrow> ParseDecimal (dec_String (mk_dec i s)) = Inr (mk_dec i s)"
proof -
  assume s: "s \<le> MaxDecimalScale"
  then obtain I F where I: "list_all is_digit I" "I \<noteq> []" and F: "list_all is_digit F" "length F = s"
    and val: "int (nat_of_digits (I @ F)) = \<bar>i\<bar>"
    and shape: "dec_String (mk_dec i s) = (if i < 0 then ''-'' else '''') @ (if F = [] then I else I @ CHR ''.'' # F)"
    using dec_String_shape by blast
  have "length F \<le> MaxDecimalScale" using F s by simp
  from ParseDecimal_plain [OF I F(1) this refl, of "i < 0"] show ?thesis
    unfolding shape using val F by simp
qed

lemma acc_Parse_dec_String_mk:
  "s \<le> MaxDecimalScale \<Longrightarrow>
   acc_Parse (dec_String (mk_dec i s)) = Inr (AccDecimal (Some (i * 10 ^ (acc_Scale - s))))"
proof -
  assume s: "s \<le> MaxDecimalScale"
  then obtain I F where I: "list_all is_digit I" "I \<noteq> []" and F: "list_all is_digit F" "length F = s"
    and val: "int (nat_of_digits (I @ F)) = \<bar>i\<bar>"
    and shape: "dec_String (mk_dec i s) = (if i < 0 then ''-'' else '''') @ (if F = [] then I else I @ CHR ''.'' # F)"
    using dec_String_shape by blast
  have F': "length F \<le> acc_Scale" using F s by (simp add: MaxDecimalScale_def acc_Scale_def)
  have "nat_of_digits (I @ F @ replicate (acc_Scale - length F) zero_char)
      = nat_of_digits (I @ F) * 10 ^ (acc_Scale - s)"
    using F nat_of_digits_append [of "I @ F" "replicate (acc_Scale - length F) zero_char"] by simp
  then have "int (nat_of_digits (I @ F @ replicate (acc_Scale - length F) zero_char))
      = \<bar>i\<bar> * 10 ^ (acc_Scale - s)"
    using val by simp
  with acc_Parse_plain [OF I F(1) F' refl, of "i < 0"] show ?thesis
    unfolding shape by simp
qed

text \<open>The value of a core decimal in units of the accounting package's fixed scale.\<close>

definition dec_units :: "Decimal \<Rightarrow> int" where
  "dec_units d = dec_int d * 10 ^ (acc_Scale - dec_scale d)"

lemma dec_units_mk [simp]: "dec_units (mk_dec i s) = i * 10 ^ (acc_Scale - s)"
  by (simp add: dec_units_def)

lemma ParseDecimal_acc_String_aux:
  "\<exists>d'. ParseDecimal (acc_String d) = Inr d' \<and> dec_wf d' \<and> dec_units d' = acc_integer d"
proof -
  obtain I F where I: "list_all is_digit I" "I \<noteq> []" and F: "list_all is_digit F" "length F \<le> acc_Scale"
    and val: "int (nat_of_digits (I @ F @ replicate (acc_Scale - length F) zero_char)) = \<bar>acc_integer d\<bar>"
    and shape: "acc_String d = (if acc_integer d < 0 then ''-'' else '''')
        @ (if F = [] then I else I @ CHR ''.'' # F)"
    using acc_String_shape by blast
  have F': "length F \<le> MaxDecimalScale" using F by (simp add: MaxDecimalScale_def acc_Scale_def)
  have "int (nat_of_digits (I @ F)) * 10 ^ (acc_Scale - length F) = \<bar>acc_integer d\<bar>"
    using val nat_of_digits_append [of "I @ F" "replicate (acc_Scale - length F) zero_char"] by simp
  with ParseDecimal_plain [OF I F(1) F' refl, of "acc_integer d < 0"] F' show ?thesis
    unfolding shape by (auto simp: algebra_simps)
qed

lemma validateIdentity_stable: "validateIdentity kind raw = Inr v \<Longrightarrow> validateIdentity kind' v = Inr v"
  by (auto simp: validateIdentity_def Let_def trim_space_printable split: if_splits)

end
