(* ===== verification/Exact.thy ===== *)
theory Exact
  imports Values
begin

text \<open>
  \<^verbatim>\<open>internal/tradingcore/exact.go\<close>: exact rational arithmetic on core decimals. \<^verbatim>\<open>*big.Rat\<close> is the
  type \<^typ>\<open>rat\<close> (numerator and denominator read with \<open>quotient_of\<close>), \<^verbatim>\<open>big.Rat.Quo\<close> panics on a
  zero divisor. The lemmas show that the conversion back to a decimal rounds half away
  from zero at 18 places (so it is the identity on values that have such a decimal), and that
  the lot normalisation returns the largest multiple of the lot not above the quantity.
\<close>

section \<open>Operations\<close>

definition rat_quo :: "rat \<Rightarrow> rat \<Rightarrow> rat result" where
  "rat_quo x y = (if y = 0 then Inl (Panic ''division by zero'') else Inr (x / y))"

definition rat_num :: "rat \<Rightarrow> int" where
  "rat_num x = fst (quotient_of x)"

definition rat_denom :: "rat \<Rightarrow> int" where
  "rat_denom x = snd (quotient_of x)"

text \<open>A Go map is a reference; the model's maps are values, so a defensive copy is the value itself.\<close>

definition cloneStrings :: "(string, string) gomap option \<Rightarrow> (string, string) gomap option" where
  "cloneStrings input = (case input of None \<Rightarrow> None | Some m \<Rightarrow> Some m)"

definition decimalRat :: "Decimal \<Rightarrow> rat" where
  "decimalRat value = of_int (dec_int value) / of_int (10 ^ dec_scale value)"

text \<open>The truncated quotient, moved away from zero when twice the remainder reaches the divisor.\<close>

definition ratQuotient :: "int \<Rightarrow> int \<Rightarrow> int \<Rightarrow> int" where
  "ratQuotient sign numerator denom =
     (let quotient = quo numerator denom; remainder = remt numerator denom
      in if \<bar>remainder\<bar> * 2 \<ge> \<bar>denom\<bar>
         then (if sign < 0 then quotient - 1 else quotient + 1)
         else quotient)"

definition ratDecimal :: "rat \<Rightarrow> Decimal result" where
  "ratDecimal value =
     (let scale = MaxDecimalScale;
          multiplier = 10 ^ scale;
          numerator = rat_num value * multiplier
      in NewScaledDecimal (big_string (ratQuotient (sgn (rat_num value)) numerator (rat_denom value))) scale)"

definition amountFromRat :: "rat \<Rightarrow> SignedAmount result" where
  "amountFromRat value = and_then (ratDecimal value) NewSignedAmount"

definition quantityFromRat :: "rat \<Rightarrow> Quantity result" where
  "quantityFromRat value = and_then (ratDecimal value) NewQuantity"

definition notional :: "Quantity \<Rightarrow> Price \<Rightarrow> rat" where
  "notional quantity price = decimalRat (qty_Decimal quantity) * decimalRat (price_Decimal price)"

definition normalizedQuantity :: "rat \<Rightarrow> Quantity \<Rightarrow> rat result" where
  "normalizedQuantity value lot =
     (if value \<le> 0 then Inl (Errorf ''quantity is not positive'' [])
      else if \<not> qty_Valid lot then Inr value
      else
        let step = decimalRat (qty_Decimal lot) in
        and_then (rat_quo value step) (\<lambda>units.
          let whole = quo (rat_num units) (rat_denom units);
              res = of_int whole * step
          in if res \<le> 0 then Inl (Errorf ''quantity_below_lot_size'' []) else Inr res))"

section \<open>Rounding of the core\<close>

lemma rat_denom_pos [simp]: "0 < rat_denom x"
  by (simp add: rat_denom_def quotient_of_denom_pos')

lemma rat_num_denom: "of_int (rat_num x) / of_int (rat_denom x) = x"
  unfolding rat_num_def rat_denom_def using quotient_of_div [of x] by (metis prod.collapse)

lemma sgn_rat_num: "sgn (rat_num x) = (if x < 0 then -1 else if x = 0 then 0 else 1)"
proof -
  have "(x < 0) = (rat_num x < 0)" "(x = 0) = (rat_num x = 0)"
    using rat_num_denom [of x] rat_denom_pos [of x]
    by (metis divide_less_0_iff of_int_0_less_iff of_int_less_0_iff order_less_asym,
        metis divide_eq_0_iff of_int_eq_0_iff order_less_irrefl)
  then show ?thesis by (auto simp: sgn_if)
qed

lemma ratQuotient_nonneg:
  "0 \<le> a \<Longrightarrow> 0 < b \<Longrightarrow> ratQuotient (sgn a) a b = half_away (of_int a / of_int b)"
  by (simp add: ratQuotient_def half_away_div_nonneg quo_nonneg remt_nonneg Let_def sgn_if mult.commute)

lemma ratQuotient_uminus:
  "a \<noteq> 0 \<Longrightarrow> ratQuotient (sgn (- a)) (- a) b = - ratQuotient (sgn a) a b"
  by (auto simp: ratQuotient_def quo_uminus remt_uminus Let_def sgn_if)

interpretation core: rounding_division "\<lambda>a b. ratQuotient (sgn a) a b"
proof unfold_locales
  fix a b :: int
  assume b: "0 < b"
  show "ratQuotient (sgn a) a b = half_away (of_int a / of_int b)"
  proof (cases "0 \<le> a")
    case True
    then show ?thesis using b by (rule ratQuotient_nonneg)
  next
    case False
    then have "ratQuotient (sgn (- a)) (- a) b = half_away (of_int (- a) / of_int b)"
      using b by (intro ratQuotient_nonneg) simp_all
    moreover have "(of_int (- a) / of_int b :: rat) = - (of_int a / of_int b)" by simp
    ultimately show ?thesis
      using False ratQuotient_uminus [of a b] by (simp only: half_away_uminus)
  qed
qed

text \<open>The unit of the last place.\<close>

definition ulps :: rat where
  "ulps = 10 ^ MaxDecimalScale"

lemma ulps_pos [simp]: "0 < ulps" "ulps \<noteq> 0"
  by (simp_all add: ulps_def)

lemma ratDecimal_eq: "ratDecimal v = Inr (mk_dec (half_away (v * ulps)) MaxDecimalScale)"
proof -
  let ?n = "rat_num v * 10 ^ MaxDecimalScale"
  have s: "sgn (rat_num v) = sgn ?n" by (simp add: sgn_mult)
  have "ratQuotient (sgn ?n) ?n (rat_denom v) = half_away (of_int ?n / of_int (rat_denom v))"
    by (rule core.rdiv_half_away) simp
  also have "of_int ?n / of_int (rat_denom v) = (of_int (rat_num v) / of_int (rat_denom v)) * ulps"
    by (simp add: ulps_def)
  also have "\<dots> = v * ulps" by (simp only: rat_num_denom)
  finally show ?thesis by (simp add: ratDecimal_def Let_def s)
qed

lemma decimalRat_mk: "decimalRat (mk_dec i s) = of_int i / 10 ^ s"
  by (simp add: decimalRat_def)

lemma decimalRat_units: "dec_wf d \<Longrightarrow> decimalRat d = of_int (dec_units d) / ulps"
proof -
  assume wf: "dec_wf d"
  then have "ulps = 10 ^ (MaxDecimalScale - dec_scale d) * 10 ^ dec_scale d"
    by (simp add: ulps_def power_add [symmetric] dec_wf_def)
  then have "of_int (dec_units d) / ulps
      = (of_int (dec_int d) * 10 ^ (18 - dec_scale d)) / (10 ^ (18 - dec_scale d) * 10 ^ dec_scale d)"
    by (simp add: dec_units_def acc_Scale_def MaxDecimalScale_def)
  then show ?thesis by (simp add: decimalRat_def)
qed

lemma decimalRat_Sign: "dec_wf d \<Longrightarrow> dec_Sign d = (if decimalRat d < 0 then -1 else if decimalRat d = 0 then 0 else 1)"
  by (auto simp: dec_Sign_wf decimalRat_def sgn_if divide_less_0_iff)

lemma ratDecimal_error:
  assumes "ratDecimal v = Inr d"
  shows "dec_wf d" and "\<bar>decimalRat d - v\<bar> \<le> 1 / (2 * ulps)"
proof -
  have d: "d = mk_dec (half_away (v * ulps)) MaxDecimalScale" using assms by (simp add: ratDecimal_eq)
  then show "dec_wf d" by simp
  have "\<bar>of_int (half_away (v * ulps)) - v * ulps\<bar> \<le> 1/2" by (rule half_away_error)
  moreover have "decimalRat d - v = (of_int (half_away (v * ulps)) - v * ulps) / ulps"
    by (simp add: d decimalRat_mk ulps_def [symmetric] diff_divide_distrib)
  ultimately show "\<bar>decimalRat d - v\<bar> \<le> 1 / (2 * ulps)"
    using divide_right_mono [of "\<bar>of_int (half_away (v * ulps)) - v * ulps\<bar>" "1/2" ulps]
    by (simp only: abs_divide abs_of_pos ulps_pos less_imp_le divide_divide_eq_left)
qed

lemma ratDecimal_grid:
  assumes "ratDecimal v = Inr d" and "v * ulps = of_int n"
  shows "decimalRat d = v"
proof -
  have "d = mk_dec n MaxDecimalScale" using assms by (simp add: ratDecimal_eq)
  then show ?thesis by (simp add: decimalRat_mk ulps_def [symmetric] assms(2) [symmetric])
qed

lemma decimalRat_grid: "dec_wf d \<Longrightarrow> decimalRat d * ulps = of_int (dec_units d)"
  by (simp add: decimalRat_units)

lemma quantityFromRat_Inr:
  assumes "quantityFromRat v = Inr q"
  shows "dec_wf (qty_Decimal q)" and "qty_Valid q" and "0 < decimalRat (qty_Decimal q)"
    and "ratDecimal v = Inr (qty_Decimal q)"
proof -
  from assms obtain d where d: "ratDecimal v = Inr d" "NewQuantity d = Inr q"
    by (auto simp: quantityFromRat_def result_simps)
  then have q: "q = Quantity d" "dec_valid d" "0 < dec_Sign d" by (auto simp: NewQuantity_def split: if_splits)
  with d show "ratDecimal v = Inr (qty_Decimal q)" by simp
  show wf: "dec_wf (qty_Decimal q)" using ratDecimal_error(1) [OF d(1)] q by simp
  show "qty_Valid q" using q by (simp add: qty_Valid_def)
  show "0 < decimalRat (qty_Decimal q)"
    using decimalRat_Sign [OF wf] q by (auto split: if_splits)
qed

lemma quantityFromRat_pos:
  assumes "0 < v" and "v * ulps = of_int n"
  shows "\<exists>q. quantityFromRat v = Inr q \<and> decimalRat (qty_Decimal q) = v"
proof -
  let ?d = "mk_dec n MaxDecimalScale"
  have r: "ratDecimal v = Inr ?d" using assms(2) by (simp add: ratDecimal_eq)
  have v: "decimalRat ?d = v" using ratDecimal_grid [OF r assms(2)] .
  have "dec_Sign ?d = 1" using decimalRat_Sign [of ?d] v assms(1) by simp
  then have "NewQuantity ?d = Inr (Quantity ?d)" by (simp add: NewQuantity_def)
  with r v show ?thesis by (simp add: quantityFromRat_def)
qed

section \<open>Lot normalisation\<close>

definition qty_wf :: "Quantity \<Rightarrow> bool" where
  "qty_wf q \<longleftrightarrow> qty_Valid q \<and> dec_wf (qty_Decimal q)"

definition price_wf :: "Price \<Rightarrow> bool" where
  "price_wf p \<longleftrightarrow> price_Valid p \<and> dec_wf (price_Decimal p)"

abbreviation qty_rat :: "Quantity \<Rightarrow> rat" where
  "qty_rat q \<equiv> decimalRat (qty_Decimal q)"

abbreviation price_rat :: "Price \<Rightarrow> rat" where
  "price_rat p \<equiv> decimalRat (price_Decimal p)"

lemma qty_wf_pos: "qty_wf q \<Longrightarrow> 0 < qty_rat q"
  using decimalRat_Sign [of "qty_Decimal q"] by (auto simp: qty_wf_def qty_Valid_def split: if_splits)

lemma price_wf_pos: "price_wf p \<Longrightarrow> 0 < price_rat p"
  using decimalRat_Sign [of "price_Decimal p"] by (auto simp: price_wf_def price_Valid_def split: if_splits)

lemma quo_floor: "0 \<le> x \<Longrightarrow> quo (rat_num x) (rat_denom x) = \<lfloor>x\<rfloor>"
proof -
  assume x: "0 \<le> x"
  then have "0 \<le> rat_num x" using sgn_rat_num [of x] by (auto simp: sgn_if split: if_splits)
  then have "quo (rat_num x) (rat_denom x) = rat_num x div rat_denom x" by (simp add: quo_nonneg)
  also have "\<dots> = \<lfloor>x\<rfloor>"
    using floor_divide_of_int_eq [where 'a = rat, of "rat_num x" "rat_denom x"] by (simp add: rat_num_denom)
  finally show ?thesis .
qed

lemma normalizedQuantity_lot:
  assumes "qty_wf lot" and "0 < v"
  shows "normalizedQuantity v lot =
    (if v < qty_rat lot then Inl (Errorf ''quantity_below_lot_size'' [])
     else Inr (of_int \<lfloor>v / qty_rat lot\<rfloor> * qty_rat lot))"
proof -
  have s: "0 < qty_rat lot" using assms(1) by (rule qty_wf_pos)
  have q: "quo (rat_num (v / qty_rat lot)) (rat_denom (v / qty_rat lot)) = \<lfloor>v / qty_rat lot\<rfloor>"
    using assms(2) s by (intro quo_floor) simp
  have "(of_int \<lfloor>v / qty_rat lot\<rfloor> * qty_rat lot \<le> 0) = (v < qty_rat lot)"
    using s by (simp add: mult_le_0_iff floor_less_iff not_le field_simps)
  then show ?thesis
    using assms s by (simp add: normalizedQuantity_def rat_quo_def qty_wf_def Let_def q)
qed

lemma normalizedQuantity_bounds:
  assumes "qty_wf lot" and "0 < v" and "normalizedQuantity v lot = Inr r"
  shows "r \<le> v" and "v < r + qty_rat lot" and "\<exists>k > 0. r = of_int k * qty_rat lot"
proof -
  have s: "0 < qty_rat lot" using assms(1) by (rule qty_wf_pos)
  have r: "r = of_int \<lfloor>v / qty_rat lot\<rfloor> * qty_rat lot" and ge: "qty_rat lot \<le> v"
    using assms by (auto simp: normalizedQuantity_lot split: if_splits)
  have fl: "of_int \<lfloor>v / qty_rat lot\<rfloor> \<le> v / qty_rat lot" "v / qty_rat lot < of_int \<lfloor>v / qty_rat lot\<rfloor> + 1"
    using of_int_floor_le [of "v / qty_rat lot"] floor_less_iff [of "v / qty_rat lot" "\<lfloor>v / qty_rat lot\<rfloor> + 1"]
    by simp_all
  show "r \<le> v" using fl(1) s unfolding r by (simp only: pos_le_divide_eq)
  show "v < r + qty_rat lot" using fl(2) s unfolding r by (simp only: pos_divide_less_eq) (simp add: algebra_simps)
  have "1 \<le> \<lfloor>v / qty_rat lot\<rfloor>" using ge s by (simp add: le_floor_iff)
  then show "\<exists>k > 0. r = of_int k * qty_rat lot" using r by (intro exI [of _ "\<lfloor>v / qty_rat lot\<rfloor>"]) simp
qed

text \<open>A whole number of lots has an exact decimal.\<close>

lemma lots_on_grid: "dec_wf d \<Longrightarrow> \<exists>n. (of_int k * decimalRat d) * ulps = of_int n"
  by (rule exI [of _ "k * dec_units d"]) (simp add: decimalRat_units)

end
