(* ===== verification/Snapshots.thy ===== *)
theory Snapshots
  imports Exact
begin

text \<open>
  \<^verbatim>\<open>internal/tradingcore/snapshots.go\<close>: instruments, bars, universe and portfolio snapshots and the
  decision context a strategy reads. Constructors validate and keep their elements in canonical
  order. Accessors that hand out a defensive copy return the stored value; the accessors that
  rebuild a snapshot (\<^verbatim>\<open>DecisionContext.Universe\<close>, \<^verbatim>\<open>Portfolio\<close>) are modelled with the
  constructor call they make and its ignored error. Where a loop over a Go map can fail on
  several entries, the model reports the first one of the association list. Bar series
  and universe snapshots interpret \<open>ordered_collection\<close>.
\<close>

section \<open>Instruments, bars, quotes\<close>

record Instrument =
  inst_ID :: InstrumentID
  inst_BaseAsset :: AssetID
  inst_QuoteAsset :: AssetID
  inst_Venue :: VenueID
  inst_VenueSymbol :: string

definition inst_Validate :: "Instrument \<Rightarrow> validation" where
  "inst_Validate i =
     (if inst_ID i = '''' \<or> inst_BaseAsset i = '''' \<or> inst_QuoteAsset i = '''' \<or> inst_Venue i = ''''
      then Some (Errorf ''instrument id, assets, venue, and venue symbol are required'' [])
      else case validateIdentity ''venue symbol'' (inst_VenueSymbol i) of
             Inl err \<Rightarrow> Some err
           | Inr _ \<Rightarrow>
               if inst_BaseAsset i = inst_QuoteAsset i
               then Some (Errorf ''base and quote asset must differ'' []) else None)"

definition NewInstrument ::
  "InstrumentID \<Rightarrow> AssetID \<Rightarrow> AssetID \<Rightarrow> VenueID \<Rightarrow> string \<Rightarrow> Instrument result" where
  "NewInstrument instrumentID baseAsset quoteAsset venue venueSymbol =
     and_then (validateIdentity ''venue symbol'' venueSymbol) (\<lambda>symbol.
       let instrument = \<lparr>inst_ID = instrumentID, inst_BaseAsset = baseAsset, inst_QuoteAsset = quoteAsset,
                         inst_Venue = venue, inst_VenueSymbol = symbol\<rparr>
       in checked (inst_Validate instrument) instrument)"

record Bar =
  bar_Instrument :: Instrument
  bar_Interval :: duration
  bar_OpenTime :: time
  bar_CloseTime :: time
  bar_Open :: Price
  bar_High :: Price
  bar_Low :: Price
  bar_Close :: Price
  bar_Volume :: Quantity

definition bar_Validate :: "Bar \<Rightarrow> validation" where
  "bar_Validate bar =
     (case inst_Validate (bar_Instrument bar) of Some err \<Rightarrow> Some err
      | None \<Rightarrow>
         if bar_Interval bar \<le> 0 \<or> bar_OpenTime bar = 0 \<or> \<not> bar_CloseTime bar > bar_OpenTime bar
            \<or> time_sub (bar_CloseTime bar) (bar_OpenTime bar) \<noteq> bar_Interval bar
         then Some (Errorf ''bar timestamps must align to its positive interval'' [])
         else if \<not> price_Valid (bar_Open bar) \<or> \<not> price_Valid (bar_High bar) \<or> \<not> price_Valid (bar_Low bar)
            \<or> \<not> price_Valid (bar_Close bar) \<or> \<not> qty_Valid (bar_Volume bar)
         then Some (Errorf ''bar prices and volume must be positive exact values'' [])
         else None)"

record Quote =
  quote_Instrument :: Instrument
  quote_Bid :: Price
  quote_Ask :: Price
  quote_Last :: Price
  quote_ObservedAt :: time

record Coverage =
  cov_Instrument :: Instrument
  cov_From :: time
  cov_Through :: time
  cov_ExpectedObservations :: int
  cov_ActualObservations :: int
  cov_Complete :: bool
  cov_Source :: string
  cov_DatasetVersion :: string

record BarsRequest =
  req_Instrument :: Instrument
  req_Interval :: duration
  req_From :: time
  req_Through :: time

definition req_Validate :: "BarsRequest \<Rightarrow> validation" where
  "req_Validate request =
     (if inst_ID (req_Instrument request) = '''' then Some (Errorf ''instrument is required'' [])
      else if req_Interval request \<le> 0 then Some (Errorf ''interval must be positive'' [])
      else if req_From request = 0 \<or> \<not> req_Through request > req_From request
      then Some (Errorf ''invalid coverage interval'' [])
      else None)"

datatype BarSeries = BarSeries "Bar list"

primrec series_Bars :: "BarSeries \<Rightarrow> Bar list" where
  "series_Bars (BarSeries bars) = bars"

definition series_Len :: "BarSeries \<Rightarrow> nat" where
  "series_Len series = length (series_Bars series)"

definition NewBarSeries :: "Bar list \<Rightarrow> BarSeries result" where
  "NewBarSeries bars =
     checked (first_error bar_Validate bars) (BarSeries (sort_key bar_OpenTime bars))"

section \<open>Universe snapshots\<close>

record UniverseCandidate =
  uc_Instrument :: Instrument
  uc_Rank :: int
  uc_Score :: Decimal
  uc_Eligible :: bool
  uc_RejectionReason :: string
  uc_MembershipSource :: string
  uc_MembershipVersion :: string

record UniverseSnapshot =
  us_AsOf :: time
  us_PolicyVersion :: string
  us_Source :: string
  us_Candidates :: "UniverseCandidate list"

definition zero_UniverseSnapshot :: UniverseSnapshot where
  "zero_UniverseSnapshot = \<lparr>us_AsOf = 0, us_PolicyVersion = '''', us_Source = '''', us_Candidates = []\<rparr>"

text \<open>The body of the candidate loop and the order of the comparator in \<^verbatim>\<open>NewUniverseSnapshot\<close>.\<close>

definition candidate_error :: "UniverseCandidate \<Rightarrow> validation" where
  "candidate_error candidate =
     (case inst_Validate (uc_Instrument candidate) of Some err \<Rightarrow> Some err
      | None \<Rightarrow>
         if uc_Rank candidate < 0 then Some (Errorf ''candidate rank cannot be negative'' [])
         else if \<not> dec_valid (uc_Score candidate) then Some (Errorf ''candidate score must be an exact decimal'' [])
         else None)"

definition candidate_key :: "UniverseCandidate \<Rightarrow> int \<times> string" where
  "candidate_key candidate = (uc_Rank candidate, inst_ID (uc_Instrument candidate))"

definition NewUniverseSnapshot ::
  "time \<Rightarrow> string \<Rightarrow> string \<Rightarrow> UniverseCandidate list \<Rightarrow> UniverseSnapshot result" where
  "NewUniverseSnapshot asOf policyVersion source candidates =
     (if asOf = 0 then Inl (Errorf ''universe as-of time is required'' [])
      else checked (first_error candidate_error candidates)
             \<lparr>us_AsOf = asOf, us_PolicyVersion = policyVersion, us_Source = source,
              us_Candidates = sort_key candidate_key candidates\<rparr>)"

section \<open>Portfolio snapshots\<close>

type_synonym OrderSide = string

definition Buy :: OrderSide where
  "Buy = ''buy''"

definition Sell :: OrderSide where
  "Sell = ''sell''"

lemma sides_differ [simp]: "Buy \<noteq> Sell" "Sell \<noteq> Buy"
  by (simp_all add: Buy_def Sell_def)

record CorePosition =
  cp_ID :: PositionID
  cp_Instrument :: Instrument
  cp_Quantity :: Quantity
  cp_AveragePrice :: Price
  cp_MarkPrice :: Price
  cp_OpenedAt :: time
  cp_RealizedPnL :: SignedAmount
  cp_PyramidLayers :: int

type_synonym ExecutionMode = string

definition ExecutionResearch :: ExecutionMode where "ExecutionResearch = ''research''"

definition ExecutionShadow :: ExecutionMode where "ExecutionShadow = ''shadow''"

definition ExecutionBacktest :: ExecutionMode where "ExecutionBacktest = ''backtest_simulation''"

definition ExecutionLiveDryRun :: ExecutionMode where "ExecutionLiveDryRun = ''live_dry_run''"

definition ExecutionPaper :: ExecutionMode where "ExecutionPaper = ''paper''"

definition ExecutionLimitedLive :: ExecutionMode where "ExecutionLimitedLive = ''limited_live''"

definition ExecutionFullLive :: ExecutionMode where "ExecutionFullLive = ''full_live''"

lemmas execution_modes = ExecutionResearch_def ExecutionShadow_def ExecutionBacktest_def
  ExecutionLiveDryRun_def ExecutionPaper_def ExecutionLimitedLive_def ExecutionFullLive_def

definition supported_mode :: "ExecutionMode \<Rightarrow> bool" where
  "supported_mode mode \<longleftrightarrow> mode \<in> {ExecutionResearch, ExecutionShadow, ExecutionBacktest,
     ExecutionLiveDryRun, ExecutionPaper, ExecutionLimitedLive, ExecutionFullLive}"

record PendingOrder =
  po_ID :: OrderID
  po_Instrument :: Instrument
  po_Side :: OrderSide
  po_Remaining :: Quantity
  po_SubmittedAt :: time

record RiskState =
  rs_known :: bool
  rs_grossExposure :: SignedAmount
  rs_realizedPnL :: SignedAmount
  rs_dailyLoss :: SignedAmount
  rs_openRisk :: SignedAmount
  rs_turnover :: SignedAmount

definition NewRiskStateWithTurnover ::
  "SignedAmount \<Rightarrow> SignedAmount \<Rightarrow> SignedAmount \<Rightarrow> SignedAmount \<Rightarrow> SignedAmount \<Rightarrow> RiskState result" where
  "NewRiskStateWithTurnover grossExposure realizedPnL dailyLoss openRisk turnover =
     (if list_all amt_Valid [grossExposure, realizedPnL, dailyLoss, openRisk, turnover]
      then Inr \<lparr>rs_known = True, rs_grossExposure = grossExposure, rs_realizedPnL = realizedPnL,
               rs_dailyLoss = dailyLoss, rs_openRisk = openRisk, rs_turnover = turnover\<rparr>
      else Inl (Errorf ''risk values must be exact signed amounts'' []))"

definition NewRiskState ::
  "SignedAmount \<Rightarrow> SignedAmount \<Rightarrow> SignedAmount \<Rightarrow> SignedAmount \<Rightarrow> RiskState result" where
  "NewRiskState grossExposure realizedPnL dailyLoss openRisk =
     and_then (MustDecimal 0 0) (\<lambda>zero.
       NewRiskStateWithTurnover grossExposure realizedPnL dailyLoss openRisk
         (the_ok (SignedAmount zero_Decimal) (NewSignedAmount zero)))"

record PortfolioSnapshot =
  ps_AsOf :: time
  ps_AccountID :: AccountID
  ps_ExecutionMode :: ExecutionMode
  ps_Cash :: "(AssetID, SignedAmount) gomap"
  ps_Positions :: "CorePosition list"
  ps_PendingOrders :: "PendingOrder list"
  ps_RiskState :: RiskState

definition zero_amount :: SignedAmount where
  "zero_amount = SignedAmount zero_Decimal"

definition zero_RiskState :: RiskState where
  "zero_RiskState = \<lparr>rs_known = False, rs_grossExposure = zero_amount, rs_realizedPnL = zero_amount,
     rs_dailyLoss = zero_amount, rs_openRisk = zero_amount, rs_turnover = zero_amount\<rparr>"

definition zero_PortfolioSnapshot :: PortfolioSnapshot where
  "zero_PortfolioSnapshot = \<lparr>ps_AsOf = 0, ps_AccountID = '''', ps_ExecutionMode = '''', ps_Cash = [],
     ps_Positions = [], ps_PendingOrders = [], ps_RiskState = zero_RiskState\<rparr>"

definition cash_error :: "AssetID \<times> SignedAmount \<Rightarrow> validation" where
  "cash_error entry =
     (if fst entry = '''' \<or> \<not> amt_Valid (snd entry)
      then Some (Errorf ''cash requires valid asset and exact amount'' []) else None)"

definition position_error :: "CorePosition \<Rightarrow> validation" where
  "position_error position =
     (if cp_ID position = '''' \<or> inst_Validate (cp_Instrument position) \<noteq> None
         \<or> \<not> qty_Valid (cp_Quantity position) \<or> \<not> price_Valid (cp_AveragePrice position)
         \<or> \<not> price_Valid (cp_MarkPrice position) \<or> cp_OpenedAt position = 0 \<or> cp_PyramidLayers position < 0
      then Some (Errorf ''position contains invalid identity, value, or time'' []) else None)"

definition pending_error :: "PendingOrder \<Rightarrow> validation" where
  "pending_error order =
     (if po_ID order = '''' \<or> inst_Validate (po_Instrument order) \<noteq> None
         \<or> (po_Side order \<noteq> Buy \<and> po_Side order \<noteq> Sell)
         \<or> \<not> qty_Valid (po_Remaining order) \<or> po_SubmittedAt order = 0
      then Some (Errorf ''pending order contains invalid identity, value, side, or time'' []) else None)"

definition NewPortfolioSnapshot ::
  "time \<Rightarrow> AccountID \<Rightarrow> ExecutionMode \<Rightarrow> (AssetID, SignedAmount) gomap \<Rightarrow> CorePosition list
   \<Rightarrow> PendingOrder list \<Rightarrow> RiskState \<Rightarrow> PortfolioSnapshot result" where
  "NewPortfolioSnapshot asOf accountID mode cash positions pending risk =
     (if asOf = 0 then Inl (Errorf ''portfolio as-of time is required'' [])
      else if accountID = '''' then Inl (Errorf ''account id is required'' [])
      else if \<not> supported_mode mode then Inl (Errorf ''unsupported execution mode %q'' [mode])
      else case first_error cash_error cash of Some e \<Rightarrow> Inl e | None \<Rightarrow>
           case first_error position_error positions of Some e \<Rightarrow> Inl e | None \<Rightarrow>
           case first_error pending_error pending of Some e \<Rightarrow> Inl e | None \<Rightarrow>
           Inr \<lparr>ps_AsOf = asOf, ps_AccountID = accountID, ps_ExecutionMode = mode, ps_Cash = cash,
                ps_Positions = sort_key cp_ID positions,
                ps_PendingOrders = sort_key po_ID pending, ps_RiskState = risk\<rparr>)"

definition ps_CashAssets :: "PortfolioSnapshot \<Rightarrow> AssetID list" where
  "ps_CashAssets snapshot = sort (map fst (ps_Cash snapshot))"

definition ps_CashAmount :: "PortfolioSnapshot \<Rightarrow> AssetID \<Rightarrow> SignedAmount option" where
  "ps_CashAmount snapshot asset = map_of (ps_Cash snapshot) asset"

section \<open>Decision contexts\<close>

record DecisionContext =
  dc_marketObservedAt :: time
  dc_signalAt :: time
  dc_decisionAt :: time
  dc_bars :: "(InstrumentID, BarSeries) gomap"
  dc_quotes :: "(InstrumentID, Quote) gomap"
  dc_universe :: UniverseSnapshot
  dc_portfolio :: PortfolioSnapshot
  dc_settings :: "(string, string) gomap"
  dc_versions :: VersionContext

record DecisionContextInput =
  dci_MarketObservedAt :: time
  dci_SignalAt :: time
  dci_DecisionAt :: time
  dci_Bars :: "(InstrumentID, Bar list) gomap"
  dci_Quotes :: "(InstrumentID, Quote) gomap"
  dci_Universe :: UniverseSnapshot
  dci_Portfolio :: PortfolioSnapshot
  dci_Settings :: "(string, string) gomap"
  dci_Versions :: VersionContext

text \<open>The loop over \<^verbatim>\<open>input.Bars\<close>, the rebuilding calls and the constructor that makes them.\<close>

fun build_bars :: "(InstrumentID, Bar list) gomap \<Rightarrow> (InstrumentID, BarSeries) gomap result" where
  "build_bars [] = Inr []"
| "build_bars ((instrumentID, values) # rest) =
     and_then (NewBarSeries values) (\<lambda>series. and_then (build_bars rest) (\<lambda>bars. Inr ((instrumentID, series) # bars)))"

definition rebuild_universe :: "UniverseSnapshot \<Rightarrow> UniverseSnapshot result" where
  "rebuild_universe u = NewUniverseSnapshot (us_AsOf u) (us_PolicyVersion u) (us_Source u) (us_Candidates u)"

definition rebuild_portfolio :: "PortfolioSnapshot \<Rightarrow> PortfolioSnapshot result" where
  "rebuild_portfolio p = NewPortfolioSnapshot (ps_AsOf p) (ps_AccountID p) (ps_ExecutionMode p) (ps_Cash p)
     (ps_Positions p) (ps_PendingOrders p) (ps_RiskState p)"

definition NewDecisionContext :: "DecisionContextInput \<Rightarrow> DecisionContext result" where
  "NewDecisionContext input =
     (if dci_MarketObservedAt input = 0 \<or> dci_SignalAt input = 0 \<or> dci_DecisionAt input = 0
      then Inl (Errorf ''market, signal, and decision timestamps are required'' [])
      else if dci_SignalAt input < dci_MarketObservedAt input \<or> dci_DecisionAt input < dci_SignalAt input
      then Inl (Errorf ''decision timestamps must be ordered market <= signal <= decision'' [])
      else
        and_then (build_bars (dci_Bars input)) (\<lambda>bars.
        and_then (rebuild_universe (dci_Universe input)) (\<lambda>universe.
        and_then (rebuild_portfolio (dci_Portfolio input)) (\<lambda>portfolio.
        Inr \<lparr>dc_marketObservedAt = dci_MarketObservedAt input, dc_signalAt = dci_SignalAt input,
             dc_decisionAt = dci_DecisionAt input, dc_bars = bars, dc_quotes = dci_Quotes input,
             dc_universe = universe, dc_portfolio = portfolio, dc_settings = dci_Settings input,
             dc_versions = dci_Versions input\<rparr>))))"

definition dc_Bars :: "DecisionContext \<Rightarrow> InstrumentID \<Rightarrow> Bar list" where
  "dc_Bars context i = (case map_of (dc_bars context) i of None \<Rightarrow> [] | Some series \<Rightarrow> series_Bars series)"

definition dc_Quote :: "DecisionContext \<Rightarrow> InstrumentID \<Rightarrow> Quote option" where
  "dc_Quote context i = map_of (dc_quotes context) i"

definition dc_QuoteInstruments :: "DecisionContext \<Rightarrow> InstrumentID list" where
  "dc_QuoteInstruments context = sort (map fst (dc_quotes context))"

definition dc_Universe :: "DecisionContext \<Rightarrow> UniverseSnapshot" where
  "dc_Universe context = the_ok zero_UniverseSnapshot (rebuild_universe (dc_universe context))"

definition dc_Portfolio :: "DecisionContext \<Rightarrow> PortfolioSnapshot" where
  "dc_Portfolio context = the_ok zero_PortfolioSnapshot (rebuild_portfolio (dc_portfolio context))"

definition dc_Setting :: "DecisionContext \<Rightarrow> string \<Rightarrow> string option" where
  "dc_Setting context key = map_of (dc_settings context) key"

definition dc_SettingKeys :: "DecisionContext \<Rightarrow> string list" where
  "dc_SettingKeys context = sort (map fst (dc_settings context))"

section \<open>Laws\<close>

interpretation bar_series: ordered_collection bar_OpenTime
    "\<lambda>bars. \<forall>b \<in> set bars. bar_Validate b = None" NewBarSeries series_Bars
proof unfold_locales
  fix c d
  show "series_Bars c = series_Bars d \<Longrightarrow> c = d" by (cases c; cases d) simp
qed (auto simp: NewBarSeries_def result_simps dest: mset_eq_setD)

interpretation universe_snapshot: ordered_collection candidate_key
    "\<lambda>cs. asOf \<noteq> 0 \<and> (\<forall>c \<in> set cs. candidate_error c = None)"
    "NewUniverseSnapshot asOf policyVersion source" us_Candidates
  for asOf policyVersion source
  by unfold_locales (auto simp: NewUniverseSnapshot_def result_simps dest: mset_eq_setD split: if_splits)

lemma NewUniverseSnapshot_fields:
  "NewUniverseSnapshot t p s cs = Inr u \<Longrightarrow> us_AsOf u = t \<and> us_PolicyVersion u = p \<and> us_Source u = s"
  by (auto simp: NewUniverseSnapshot_def result_simps split: if_splits)

lemma rebuild_universe_id: "NewUniverseSnapshot t p s cs = Inr u \<Longrightarrow> rebuild_universe u = Inr u"
  using universe_snapshot.rebuild NewUniverseSnapshot_fields by (simp add: rebuild_universe_def)

lemma NewPortfolioSnapshot_Inr:
  "NewPortfolioSnapshot t a m cash pos pend risk = Inr p \<longleftrightarrow>
     t \<noteq> 0 \<and> a \<noteq> '''' \<and> supported_mode m \<and> (\<forall>c \<in> set cash. cash_error c = None) \<and>
     (\<forall>x \<in> set pos. position_error x = None) \<and> (\<forall>x \<in> set pend. pending_error x = None) \<and>
     p = \<lparr>ps_AsOf = t, ps_AccountID = a, ps_ExecutionMode = m, ps_Cash = cash,
          ps_Positions = sort_key cp_ID pos, ps_PendingOrders = sort_key po_ID pend, ps_RiskState = risk\<rparr>"
  using first_error_None [of cash_error cash] first_error_None [of position_error pos]
    first_error_None [of pending_error pend]
  by (auto simp: NewPortfolioSnapshot_def simp del: first_error_None split: option.splits)

lemma rebuild_portfolio_id:
  "NewPortfolioSnapshot t a m cash pos pend risk = Inr p \<Longrightarrow> rebuild_portfolio p = Inr p"
  by (simp add: NewPortfolioSnapshot_Inr rebuild_portfolio_def)

text \<open>
  The accessors of a decision context return the snapshot the context was built with, never the
  zero value of their ignored error branch.
\<close>

lemma NewDecisionContext_Inr:
  assumes "NewDecisionContext input = Inr c"
  shows "0 \<noteq> dc_marketObservedAt c \<and> dc_marketObservedAt c \<le> dc_signalAt c \<and> dc_signalAt c \<le> dc_decisionAt c"
    and "dc_Universe c = dc_universe c" and "dc_Portfolio c = dc_portfolio c"
    and "rebuild_portfolio (dc_portfolio c) = Inr (dc_portfolio c)"
proof -
  from assms obtain u p where u: "rebuild_universe (dci_Universe input) = Inr u" "dc_universe c = u"
    and p: "rebuild_portfolio (dci_Portfolio input) = Inr p" "dc_portfolio c = p"
    and t: "0 \<noteq> dc_marketObservedAt c \<and> dc_marketObservedAt c \<le> dc_signalAt c \<and> dc_signalAt c \<le> dc_decisionAt c"
    by (auto simp: NewDecisionContext_def result_simps split: if_splits)
  show "0 \<noteq> dc_marketObservedAt c \<and> dc_marketObservedAt c \<le> dc_signalAt c \<and> dc_signalAt c \<le> dc_decisionAt c"
    by (rule t)
  have "rebuild_universe u = Inr u" using u rebuild_universe_id by (simp add: rebuild_universe_def [of "dci_Universe input"])
  then show "dc_Universe c = dc_universe c" using u by (simp add: dc_Universe_def)
  show rp: "rebuild_portfolio (dc_portfolio c) = Inr (dc_portfolio c)"
    using p rebuild_portfolio_id by (simp add: rebuild_portfolio_def [of "dci_Portfolio input"])
  then show "dc_Portfolio c = dc_portfolio c" by (simp add: dc_Portfolio_def)
qed

lemma build_bars_lookup:
  "build_bars bs = Inr cs \<Longrightarrow>
   (case map_of bs i of None \<Rightarrow> map_of cs i = None
    | Some values \<Rightarrow> \<exists>series. map_of cs i = Some series \<and> NewBarSeries values = Inr series)"
  by (induction bs arbitrary: cs) (auto simp: result_simps split: option.splits)

text \<open>A bar of a context is one of the input bars of its instrument, in time order.\<close>

lemma dc_Bars_input:
  assumes "NewDecisionContext input = Inr c" and "map_of (dci_Bars input) i = Some values"
  shows "dc_Bars c i = sort_key bar_OpenTime values \<and> (\<forall>b \<in> set values. bar_Validate b = None)"
proof -
  have "build_bars (dci_Bars input) = Inr (dc_bars c)"
    using assms(1) by (auto simp: NewDecisionContext_def result_simps split: if_splits)
  from build_bars_lookup [OF this, of i] obtain series where
    s: "map_of (dc_bars c) i = Some series" "NewBarSeries values = Inr series"
    using assms(2) by auto
  then have "series_Bars series = sort_key bar_OpenTime values" using bar_series.build_items by blast
  moreover have "\<forall>b \<in> set values. bar_Validate b = None" using s bar_series.build_iff by blast
  ultimately show ?thesis using s by (simp add: dc_Bars_def)
qed

lemma NewInstrument_Validate: "NewInstrument i b q v s = Inr x \<Longrightarrow> inst_Validate x = None"
  by (auto simp: NewInstrument_def result_simps Let_def)

end
