(* ===== verification/Contracts.thy ===== *)
theory Contracts
  imports Snapshots
begin

text \<open>
  \<^verbatim>\<open>internal/tradingcore/contracts.go\<close>: the exchange formats between strategy, risk engine,
  broker and ledger: order intents and decision batches, risk policies and decisions, fills and
  broker outcomes, ledger events, batches and reports. A string-based enumeration of the source stays a
  string, so that the validators have something to reject. Decision batches, broker outcomes and
  ledger batches are canonically ordered; decision batches and ledger batches interpret
  \<open>ordered_collection\<close>. The Go interfaces of the file become the locales of the theories
  that rely on them (\<open>Brokers\<close>, \<open>Orchestrator\<close>).
\<close>

section \<open>Order intents and decision batches\<close>

type_synonym OrderType = string
type_synonym QuantitySemantics = string
type_synonym OptionalPrice = "Price option"
type_synonym OptionalQuantity = "Quantity option"

definition MarketOrder :: OrderType where "MarketOrder = ''market''"

definition LimitOrder :: OrderType where "LimitOrder = ''limit''"

definition SomePrice :: "Price \<Rightarrow> OptionalPrice" where "SomePrice p = Some p"

definition SomeQuantity :: "Quantity \<Rightarrow> OptionalQuantity" where "SomeQuantity q = Some q"

definition QuantityExact :: QuantitySemantics where "QuantityExact = ''exact_quantity''"

definition QuantityCashCapped :: QuantitySemantics where "QuantityCashCapped = ''cash_capped''"

definition QuantityExitAll :: QuantitySemantics where "QuantityExitAll = ''exit_all''"

record OrderIntent =
  oi_ID :: OrderID
  oi_IdempotencyKey :: IdempotencyKey
  oi_AccountID :: AccountID
  oi_Instrument :: Instrument
  oi_Side :: OrderSide
  oi_Type :: OrderType
  oi_Quantity :: Quantity
  oi_LimitPrice :: OptionalPrice
  oi_ReferencePrice :: OptionalPrice
  oi_SignalAt :: time
  oi_DecisionAt :: time
  oi_CreatedAt :: time
  oi_ExecutionMode :: ExecutionMode
  oi_QuantitySemantics :: QuantitySemantics
  oi_Priority :: int
  oi_Reason :: string
  oi_Horizon :: string
  oi_Versions :: VersionContext
  oi_Provenance :: Provenance
  oi_metadata :: "(string, string) gomap option"

definition oi_Metadata :: "OrderIntent \<Rightarrow> (string, string) gomap option" where
  "oi_Metadata intent = cloneStrings (oi_metadata intent)"

text \<open>Reading a key of a nil map gives the zero value, as for a missing key.\<close>

definition meta_at :: "(string, string) gomap option \<Rightarrow> string \<Rightarrow> string" where
  "meta_at m k = (case m of None \<Rightarrow> '''' | Some entries \<Rightarrow> str_at entries k)"

definition oi_Validate :: "OrderIntent \<Rightarrow> validation" where
  "oi_Validate intent =
     (if oi_ID intent = '''' \<or> oi_IdempotencyKey intent = '''' \<or> oi_AccountID intent = ''''
         \<or> inst_ID (oi_Instrument intent) = ''''
      then Some (Errorf ''order identity fields are required'' [])
      else if oi_Side intent \<noteq> Buy \<and> oi_Side intent \<noteq> Sell
      then Some (Errorf ''unsupported order side %q'' [oi_Side intent])
      else if oi_Type intent \<noteq> MarketOrder \<and> oi_Type intent \<noteq> LimitOrder
      then Some (Errorf ''unsupported order type %q'' [oi_Type intent])
      else if \<not> qty_Valid (oi_Quantity intent) then Some (Errorf ''positive quantity is required'' [])
      else if oi_Priority intent < 0 then Some (Errorf ''order priority cannot be negative'' [])
      else if oi_QuantitySemantics intent \<notin> {'''', QuantityExact, QuantityCashCapped, QuantityExitAll}
      then Some (Errorf ''unsupported quantity semantics %q'' [oi_QuantitySemantics intent])
      else if \<not> supported_mode (oi_ExecutionMode intent)
      then Some (Errorf ''unsupported execution mode %q'' [oi_ExecutionMode intent])
      else if oi_SignalAt intent = 0 \<or> oi_DecisionAt intent < oi_SignalAt intent
         \<or> oi_CreatedAt intent < oi_DecisionAt intent
      then Some (Errorf ''order timestamps must be ordered signal <= decision <= created'' [])
      else if oi_Type intent = LimitOrder
         \<and> (case oi_LimitPrice intent of None \<Rightarrow> True | Some price \<Rightarrow> \<not> price_Valid price)
      then Some (Errorf ''limit order requires a positive limit price'' [])
      else None)"

definition NewOrderIntent :: "OrderIntent \<Rightarrow> (string, string) gomap option \<Rightarrow> OrderIntent result" where
  "NewOrderIntent intent0 metadata =
     (let intent = intent0\<lparr>oi_metadata := cloneStrings metadata\<rparr>;
          intent = (if oi_QuantitySemantics intent = ''''
                    then intent\<lparr>oi_QuantitySemantics := QuantityExact\<rparr> else intent)
      in checked (oi_Validate intent) intent)"

datatype DecisionBatch = DecisionBatch "OrderIntent list"

primrec db_Intents :: "DecisionBatch \<Rightarrow> OrderIntent list" where
  "db_Intents (DecisionBatch intents) = intents"

definition intent_key :: "OrderIntent \<Rightarrow> int \<times> string \<times> string \<times> string" where
  "intent_key i = (oi_Priority i, inst_ID (oi_Instrument i), oi_Side i, oi_ID i)"

definition NewDecisionBatch :: "OrderIntent list \<Rightarrow> DecisionBatch result" where
  "NewDecisionBatch intents =
     checked (first_error oi_Validate intents) (DecisionBatch (sort_key intent_key intents))"

record NoAction =
  na_Instrument :: Instrument
  na_Code :: string
  na_Reason :: string
  na_ObservedScore :: Decimal

record StrategyResult =
  sr_intents :: DecisionBatch
  sr_noActions :: "NoAction list"

definition NewStrategyResult :: "DecisionBatch \<Rightarrow> NoAction list \<Rightarrow> StrategyResult" where
  "NewStrategyResult intents noActions =
     \<lparr>sr_intents = intents, sr_noActions = sort_key (\<lambda>n. inst_ID (na_Instrument n)) noActions\<rparr>"

definition sr_Intents :: "StrategyResult \<Rightarrow> DecisionBatch" where
  "sr_Intents r = the_ok (DecisionBatch []) (NewDecisionBatch (db_Intents (sr_intents r)))"

section \<open>Risk policies and decisions\<close>

record ExecutionCostPolicy =
  ecp_Version :: string
  ecp_FeeBPS :: int64
  ecp_AdverseSlippageBPS :: int64

definition ecp_Validate :: "ExecutionCostPolicy \<Rightarrow> validation" where
  "ecp_Validate policy =
     (if ecp_Version policy = '''' then Some (Errorf ''execution cost policy version is required'' [])
      else if sint (ecp_FeeBPS policy) < 0 \<or> sint (ecp_AdverseSlippageBPS policy) < 0
         \<or> sint (ecp_FeeBPS policy + ecp_AdverseSlippageBPS policy) \<ge> 10000
      then Some (Errorf ''invalid execution cost basis points'' [])
      else None)"

record RiskPolicy =
  rp_Version :: string
  rp_MaxPositions :: int
  rp_MaxGrossExposure :: SignedAmount
  rp_MaxPositionValue :: SignedAmount
  rp_MaxTurnover :: SignedAmount
  rp_CashReserve :: SignedAmount
  rp_MaxConcurrentOrders :: int
  rp_PyramidingEnabled :: bool
  rp_MaxPyramidLayers :: int
  rp_LotSize :: Quantity
  rp_ExecutionCosts :: ExecutionCostPolicy

definition rp_Validate :: "RiskPolicy \<Rightarrow> validation" where
  "rp_Validate policy =
     (if rp_Version policy = '''' \<or> rp_MaxPositions policy < 0
      then Some (Errorf ''risk policy version is required and max positions cannot be negative'' [])
      else if \<not> amt_Valid (rp_MaxGrossExposure policy) \<or> \<not> amt_Valid (rp_MaxPositionValue policy)
         \<or> dec_Sign (amt_Decimal (rp_MaxGrossExposure policy)) < 0
         \<or> dec_Sign (amt_Decimal (rp_MaxPositionValue policy)) < 0
      then Some (Errorf ''risk limits must be valid non-negative exact amounts'' [])
      else if amt_Valid (rp_MaxTurnover policy) \<and> dec_Sign (amt_Decimal (rp_MaxTurnover policy)) < 0
         \<or> amt_Valid (rp_CashReserve policy) \<and> dec_Sign (amt_Decimal (rp_CashReserve policy)) < 0
      then Some (Errorf ''turnover and cash reserve must be non-negative'' [])
      else if rp_MaxConcurrentOrders policy < 0 \<or> rp_MaxPyramidLayers policy < 0
      then Some (Errorf ''concurrency and pyramid limits cannot be negative'' [])
      else ecp_Validate (rp_ExecutionCosts policy))"

type_synonym RejectionCode = string

record OrderRejection =
  or_OrderID :: OrderID
  or_Code :: RejectionCode
  or_Message :: string
  or_EvaluatedAt :: time
  or_PolicyVersion :: string

record RiskTrace =
  rt_OrderID :: string
  rt_PolicyVersion :: string
  rt_Checks :: "string list"
  rt_RequestedQuantity :: string
  rt_ApprovedQuantity :: string
  rt_RequestedNotional :: string
  rt_ApprovedNotional :: string
  rt_Priority :: int
  rt_CostPolicyVersion :: string
  rt_ReservedFee :: string
  rt_ReservedSlippage :: string
  rt_PreCash :: string
  rt_PostCash :: string
  rt_PreGrossExposure :: string
  rt_PostGrossExposure :: string
  rt_PreTurnover :: string
  rt_PostTurnover :: string

record RiskDecision =
  rd_approved :: DecisionBatch
  rd_rejected :: "OrderRejection list"
  rd_trace :: "RiskTrace list"

definition cloneRiskTraces :: "RiskTrace list \<Rightarrow> RiskTrace list" where
  "cloneRiskTraces values = map (\<lambda>t. t\<lparr>rt_Checks := rt_Checks t\<rparr>) values"

definition NewRiskDecision :: "DecisionBatch \<Rightarrow> OrderRejection list \<Rightarrow> RiskDecision" where
  "NewRiskDecision approved rejected =
     \<lparr>rd_approved = approved, rd_rejected = sort_key or_OrderID rejected, rd_trace = []\<rparr>"

definition NewRiskDecisionWithTrace ::
  "DecisionBatch \<Rightarrow> OrderRejection list \<Rightarrow> RiskTrace list \<Rightarrow> RiskDecision" where
  "NewRiskDecisionWithTrace approved rejected trace =
     (NewRiskDecision approved rejected)\<lparr>rd_trace := cloneRiskTraces trace\<rparr>"

definition rd_Approved :: "RiskDecision \<Rightarrow> DecisionBatch" where
  "rd_Approved d = the_ok (DecisionBatch []) (NewDecisionBatch (db_Intents (rd_approved d)))"

definition rd_Rejected :: "RiskDecision \<Rightarrow> OrderRejection list" where
  "rd_Rejected d = rd_rejected d"

definition rd_Trace :: "RiskDecision \<Rightarrow> RiskTrace list" where
  "rd_Trace d = cloneRiskTraces (rd_trace d)"

section \<open>Fills and broker outcomes\<close>

record CoreFill =
  cf_ID :: FillID
  cf_OrderID :: OrderID
  cf_ProviderFillID :: string
  cf_Instrument :: Instrument
  cf_Side :: OrderSide
  cf_Quantity :: Quantity
  cf_Price :: Price
  cf_Fee :: SignedAmount
  cf_FeeAsset :: AssetID
  cf_OrderedAt :: time
  cf_SubmittedAt :: time
  cf_AcceptedAt :: time
  cf_FilledAt :: time
  cf_Versions :: VersionContext
  cf_Provenance :: Provenance
  cf_CostModelVersion :: string

definition cf_Validate :: "CoreFill \<Rightarrow> validation" where
  "cf_Validate fill =
     (if cf_ID fill = '''' \<or> cf_OrderID fill = '''' \<or> cf_ProviderFillID fill = ''''
         \<or> inst_Validate (cf_Instrument fill) \<noteq> None
      then Some (Errorf ''fill identity fields are required'' [])
      else if cf_Side fill \<noteq> Buy \<and> cf_Side fill \<noteq> Sell
      then Some (Errorf ''unsupported fill side %q'' [cf_Side fill])
      else if \<not> qty_Valid (cf_Quantity fill) \<or> \<not> price_Valid (cf_Price fill) \<or> \<not> amt_Valid (cf_Fee fill)
         \<or> cf_FeeAsset fill = ''''
      then Some (Errorf ''fill quantity, price, and fee must be exact valid values'' [])
      else if cf_CostModelVersion fill = '''' then Some (Errorf ''fill cost model version is required'' [])
      else if cf_OrderedAt fill = 0 \<or> cf_SubmittedAt fill < cf_OrderedAt fill
         \<or> cf_AcceptedAt fill < cf_SubmittedAt fill \<or> cf_FilledAt fill < cf_AcceptedAt fill
      then Some (Errorf ''fill timestamps must be ordered order <= submit <= accept <= fill'' [])
      else None)"

type_synonym BrokerOrderStatus = string

definition BrokerAccepted :: BrokerOrderStatus where "BrokerAccepted = ''accepted''"

definition BrokerPartiallyFilled :: BrokerOrderStatus where "BrokerPartiallyFilled = ''partially_filled''"

definition BrokerFilled :: BrokerOrderStatus where "BrokerFilled = ''filled''"

record AcceptedOrder =
  ao_OrderID :: OrderID
  ao_ProviderOrderID :: string
  ao_Status :: BrokerOrderStatus
  ao_AcceptedAt :: time
  ao_Remaining :: OptionalQuantity
  ao_fills :: "CoreFill list"

definition ao_Validate :: "AcceptedOrder \<Rightarrow> validation" where
  "ao_Validate order =
     (if ao_OrderID order = '''' \<or> ao_ProviderOrderID order = '''' \<or> ao_AcceptedAt order = 0
      then Some (Errorf ''accepted order identity and timestamp are required'' [])
      else if ao_Status order = BrokerAccepted then None
      else if ao_Status order = BrokerPartiallyFilled then
        (if ao_fills order = [] then Some (Errorf ''partial order requires at least one fill'' [])
         else case ao_Remaining order of
                None \<Rightarrow> Some (Errorf ''partial order requires positive remaining quantity'' [])
              | Some remaining \<Rightarrow>
                  if \<not> qty_Valid remaining
                  then Some (Errorf ''partial order requires positive remaining quantity'' []) else None)
      else if ao_Status order = BrokerFilled then
        (if ao_fills order = [] then Some (Errorf ''filled order requires at least one fill'' [])
         else if ao_Remaining order \<noteq> None then Some (Errorf ''filled order cannot have remaining quantity'' [])
         else None)
      else Some (Errorf ''unsupported broker order status %q'' [ao_Status order]))"

definition NewAcceptedOrder :: "AcceptedOrder \<Rightarrow> CoreFill list \<Rightarrow> AcceptedOrder result" where
  "NewAcceptedOrder order fills =
     (case first_error (\<lambda>fill. case cf_Validate fill of Some err \<Rightarrow> Some err
                          | None \<Rightarrow> if cf_OrderID fill \<noteq> ao_OrderID order
                                    then Some (Errorf ''fill order id does not match accepted order'' [])
                                    else None) fills of
        Some err \<Rightarrow> Inl err
      | None \<Rightarrow> let order = order\<lparr>ao_fills := sort_key cf_ID fills\<rparr> in checked (ao_Validate order) order)"

definition ao_Fills :: "AcceptedOrder \<Rightarrow> CoreFill list" where
  "ao_Fills order = ao_fills order"

type_synonym OutcomeCompleteness = string

definition OutcomeComplete :: OutcomeCompleteness where "OutcomeComplete = ''complete''"

definition OutcomeIndeterminate :: OutcomeCompleteness where "OutcomeIndeterminate = ''indeterminate''"

record BrokerBatchOutcome =
  bo_Completeness :: OutcomeCompleteness
  bo_Accepted :: "AcceptedOrder list"
  bo_Rejected :: "OrderRejection list"

definition rejection_error :: "OrderRejection \<Rightarrow> validation" where
  "rejection_error rejection =
     (if or_OrderID rejection = '''' \<or> or_Code rejection = '''' \<or> or_EvaluatedAt rejection = 0
      then Some (Errorf ''rejection requires order id, code, and evaluation time'' []) else None)"

definition NewBrokerBatchOutcome ::
  "OutcomeCompleteness \<Rightarrow> AcceptedOrder list \<Rightarrow> OrderRejection list \<Rightarrow> BrokerBatchOutcome result" where
  "NewBrokerBatchOutcome completeness accepted rejected =
     (if completeness \<noteq> OutcomeComplete \<and> completeness \<noteq> OutcomeIndeterminate
      then Inl (Errorf ''unsupported outcome completeness %q'' [completeness])
      else case first_error ao_Validate accepted of Some err \<Rightarrow> Inl err
           | None \<Rightarrow> checked (first_error rejection_error rejected)
               \<lparr>bo_Completeness = completeness, bo_Accepted = sort_key ao_OrderID accepted,
                bo_Rejected = sort_key or_OrderID rejected\<rparr>)"

section \<open>Ledger events, batches, outcomes, reports\<close>

type_synonym LedgerEventType = string
type_synonym PostingDimension = string
type_synonym LedgerAppendStatus = string

definition core_event_types :: "LedgerEventType list" where
  "core_event_types = [''cash_adjusted'', ''trade_filled'', ''fee_charged'', ''capital_deposit'',
     ''capital_withdrawal'', ''buy_fill'', ''sell_fill'', ''trading_fee'', ''exchange_fee'',
     ''funding_interest'', ''administrative_correction'', ''reversal'']"

definition PostingCash :: PostingDimension where "PostingCash = ''cash''"

definition PostingAsset :: PostingDimension where "PostingAsset = ''asset''"

record LedgerPosting =
  lp_Dimension :: PostingDimension
  lp_AssetID :: AssetID
  lp_InstrumentID :: InstrumentID
  lp_Amount :: SignedAmount

record CoreLedgerEvent =
  ce_ID :: EventID
  ce_IdempotencyKey :: IdempotencyKey
  ce_Type :: LedgerEventType
  ce_AccountID :: AccountID
  ce_OrderID :: OrderID
  ce_FillID :: FillID
  ce_PositionID :: PositionID
  ce_VenueID :: VenueID
  ce_OccurredAt :: time
  ce_RecordedAt :: time
  ce_Versions :: VersionContext
  ce_Provenance :: Provenance
  ce_ReversesEventID :: EventID
  ce_postings :: "LedgerPosting list"

definition posting_error :: "LedgerPosting \<Rightarrow> validation" where
  "posting_error posting =
     (if \<not> amt_Valid (lp_Amount posting) then Some (Errorf ''ledger posting amount must be exact'' [])
      else if lp_Dimension posting = PostingCash then
        (if lp_AssetID posting = '''' then Some (Errorf ''cash posting requires asset id'' []) else None)
      else if lp_Dimension posting = PostingAsset then
        (if lp_AssetID posting = '''' \<or> lp_InstrumentID posting = ''''
         then Some (Errorf ''asset posting requires asset and instrument ids'' []) else None)
      else Some (Errorf ''unsupported posting dimension %q'' [lp_Dimension posting]))"

definition NewLedgerEvent :: "CoreLedgerEvent \<Rightarrow> LedgerPosting list \<Rightarrow> CoreLedgerEvent result" where
  "NewLedgerEvent event postings =
     (if ce_ID event = '''' \<or> ce_IdempotencyKey event = '''' \<or> ce_AccountID event = ''''
      then Inl (Errorf ''ledger event identity fields are required'' [])
      else if ce_OccurredAt event = 0 \<or> ce_RecordedAt event < ce_OccurredAt event
      then Inl (Errorf ''ledger timestamps must be ordered occurred <= recorded'' [])
      else if postings = [] then Inl (Errorf ''ledger event requires postings'' [])
      else if ce_Type event \<notin> set core_event_types
      then Inl (Errorf ''unsupported ledger event type %q'' [ce_Type event])
      else checked (first_error posting_error postings) (event\<lparr>ce_postings := postings\<rparr>))"

record CoreLedgerBatch =
  lb_IdempotencyKey :: IdempotencyKey
  lb_Events :: "CoreLedgerEvent list"

fun batch_error :: "EventID list \<Rightarrow> CoreLedgerEvent list \<Rightarrow> validation" where
  "batch_error seen [] = None"
| "batch_error seen (event # events) =
     (if ce_ID event = '''' \<or> ce_postings event = []
      then Some (Errorf ''ledger batch contains unvalidated event'' [])
      else if ce_ID event \<in> set seen
      then Some (Errorf ''ledger batch contains duplicate event id %s'' [ce_ID event])
      else batch_error (ce_ID event # seen) events)"

definition NewLedgerBatch :: "IdempotencyKey \<Rightarrow> CoreLedgerEvent list \<Rightarrow> CoreLedgerBatch result" where
  "NewLedgerBatch key events =
     (if key = '''' then Inl (Errorf ''ledger batch idempotency key is required'' [])
      else if events = [] then Inl (Errorf ''ledger batch requires events'' [])
      else checked (batch_error [] events)
             \<lparr>lb_IdempotencyKey = key, lb_Events = sort_key ce_ID events\<rparr>)"

definition LedgerAppended :: LedgerAppendStatus where "LedgerAppended = ''appended''"

definition LedgerAlreadyApplied :: LedgerAppendStatus where "LedgerAlreadyApplied = ''already_applied''"

definition LedgerRejected :: LedgerAppendStatus where "LedgerRejected = ''rejected''"

definition LedgerAppendIndeterminate :: LedgerAppendStatus where
  "LedgerAppendIndeterminate = ''indeterminate''"

record LedgerAppendOutcome =
  lao_Status :: LedgerAppendStatus
  lao_BatchKey :: IdempotencyKey
  lao_EventIDs :: "EventID list"
  lao_rejectionCode :: string
  lao_message :: string

definition NewLedgerAppendOutcome ::
  "LedgerAppendStatus \<Rightarrow> IdempotencyKey \<Rightarrow> EventID list \<Rightarrow> string \<Rightarrow> string \<Rightarrow> LedgerAppendOutcome result" where
  "NewLedgerAppendOutcome status batchKey eventIDs rejectionCode message =
     (if batchKey = '''' then Inl (Errorf ''ledger append outcome requires batch key'' [])
      else if (status = LedgerAppended \<or> status = LedgerAlreadyApplied) \<and> eventIDs = []
      then Inl (Errorf ''successful ledger append outcome requires event ids'' [])
      else if status = LedgerRejected \<and> rejectionCode = ''''
      then Inl (Errorf ''rejected ledger append outcome requires code'' [])
      else if status \<notin> {LedgerAppended, LedgerAlreadyApplied, LedgerRejected, LedgerAppendIndeterminate}
      then Inl (Errorf ''unsupported ledger append status %q'' [status])
      else if '''' \<in> set eventIDs then Inl (Errorf ''ledger append outcome contains invalid event id'' [])
      else Inr \<lparr>lao_Status = status, lao_BatchKey = batchKey, lao_EventIDs = sort eventIDs,
                lao_rejectionCode = rejectionCode, lao_message = message\<rparr>)"

record ReconciliationReport =
  rr_asOf :: time
  rr_accountID :: AccountID
  rr_balanced :: bool
  rr_cashDifferences :: "(AssetID, SignedAmount) gomap"
  rr_positionDifferences :: "(InstrumentID, SignedAmount) gomap"
  rr_issues :: "string list"

definition NewReconciliationReport ::
  "time \<Rightarrow> AccountID \<Rightarrow> bool \<Rightarrow> (AssetID, SignedAmount) gomap \<Rightarrow> (InstrumentID, SignedAmount) gomap
   \<Rightarrow> string list \<Rightarrow> ReconciliationReport" where
  "NewReconciliationReport asOf accountID balanced cash positions issues =
     \<lparr>rr_asOf = asOf, rr_accountID = accountID, rr_balanced = balanced, rr_cashDifferences = cash,
      rr_positionDifferences = positions, rr_issues = issues\<rparr>"

section \<open>Laws\<close>

lemma cloneStrings_id [simp]: "cloneStrings m = m"
  by (simp add: cloneStrings_def split: option.splits)

lemma cloneRiskTraces_id [simp]: "cloneRiskTraces ts = ts"
  by (simp add: cloneRiskTraces_def)

interpretation decision_batch: ordered_collection intent_key
    "\<lambda>is. \<forall>i \<in> set is. oi_Validate i = None" NewDecisionBatch db_Intents
proof unfold_locales
  fix c d
  show "db_Intents c = db_Intents d \<Longrightarrow> c = d" by (cases c; cases d) simp
qed (auto simp: NewDecisionBatch_def result_simps dest: mset_eq_setD)

lemma batch_error_None:
  "batch_error seen es = None \<longleftrightarrow>
     (\<forall>e \<in> set es. ce_ID e \<noteq> '''' \<and> ce_postings e \<noteq> []) \<and> distinct (map ce_ID es) \<and>
     set seen \<inter> ce_ID ` set es = {}"
  by (induction seen es rule: batch_error.induct) auto

lemma distinct_map_perm: "mset xs = mset ys \<Longrightarrow> distinct (map f xs) = distinct (map f ys)"
  by (metis mset_eq_imp_distinct_iff mset_map)

interpretation ledger_batch: ordered_collection ce_ID
    "\<lambda>es. key \<noteq> '''' \<and> es \<noteq> [] \<and> (\<forall>e \<in> set es. ce_ID e \<noteq> '''' \<and> ce_postings e \<noteq> []) \<and> distinct (map ce_ID es)"
    "NewLedgerBatch key" lb_Events
  for key
proof unfold_locales
  fix xs ys :: "CoreLedgerEvent list"
  assume "mset xs = mset ys"
  then show "(key \<noteq> '''' \<and> xs \<noteq> [] \<and> (\<forall>e \<in> set xs. ce_ID e \<noteq> '''' \<and> ce_postings e \<noteq> []) \<and> distinct (map ce_ID xs))
    = (key \<noteq> '''' \<and> ys \<noteq> [] \<and> (\<forall>e \<in> set ys. ce_ID e \<noteq> '''' \<and> ce_postings e \<noteq> []) \<and> distinct (map ce_ID ys))"
    using distinct_map_perm mset_eq_setD by (metis mset_zero_iff)
qed (auto simp: NewLedgerBatch_def result_simps batch_error_None split: if_splits)

text \<open>The copies a strategy result and a risk decision hand out are the batch itself.\<close>

lemma NewDecisionBatch_again: "NewDecisionBatch is = Inr b \<Longrightarrow> NewDecisionBatch (db_Intents b) = Inr b"
  by (rule decision_batch.rebuild)

lemma rd_Approved_id: "NewDecisionBatch is = Inr b \<Longrightarrow> rd_approved d = b \<Longrightarrow> rd_Approved d = b"
  by (auto simp: rd_Approved_def dest: NewDecisionBatch_again)

lemma sr_Intents_id: "NewDecisionBatch is = Inr b \<Longrightarrow> sr_intents r = b \<Longrightarrow> sr_Intents r = b"
  by (auto simp: sr_Intents_def dest: NewDecisionBatch_again)

lemma sr_Intents_valid: "\<forall>i \<in> set (db_Intents (sr_Intents r)). oi_Validate i = None"
proof (cases "NewDecisionBatch (db_Intents (sr_intents r))")
  case (Inr b)
  then show ?thesis
    using decision_batch.set_items [OF Inr] decision_batch.build_iff by (auto simp: sr_Intents_def)
qed (simp add: sr_Intents_def)

lemma sr_Intents_rebuilt: "\<exists>is. NewDecisionBatch is = Inr (sr_Intents r) \<and> mset (map oi_ID is) = mset (map oi_ID (db_Intents (sr_Intents r)))"
proof (cases "NewDecisionBatch (db_Intents (sr_intents r))")
  case (Inr b)
  then show ?thesis
    using decision_batch.mset_items [OF Inr] by (intro exI [of _ "db_Intents (sr_intents r)"]) (simp add: sr_Intents_def)
next
  case (Inl e)
  then show ?thesis by (intro exI [of _ "[]"]) (simp add: sr_Intents_def NewDecisionBatch_def)
qed

lemma oi_Validate_iff:
  "oi_Validate i = None \<longleftrightarrow>
     oi_ID i \<noteq> '''' \<and> oi_IdempotencyKey i \<noteq> '''' \<and> oi_AccountID i \<noteq> '''' \<and> inst_ID (oi_Instrument i) \<noteq> '''' \<and>
     oi_Side i \<in> {Buy, Sell} \<and> oi_Type i \<in> {MarketOrder, LimitOrder} \<and> qty_Valid (oi_Quantity i) \<and>
     0 \<le> oi_Priority i \<and> oi_QuantitySemantics i \<in> {'''', QuantityExact, QuantityCashCapped, QuantityExitAll} \<and>
     supported_mode (oi_ExecutionMode i) \<and> oi_SignalAt i \<noteq> 0 \<and> oi_SignalAt i \<le> oi_DecisionAt i \<and>
     oi_DecisionAt i \<le> oi_CreatedAt i \<and>
     (oi_Type i = LimitOrder \<longrightarrow> (\<exists>p. oi_LimitPrice i = Some p \<and> price_Valid p))"
  unfolding oi_Validate_def guard_None by (cases "oi_LimitPrice i") (auto simp: not_less)

lemma oi_Validate_None:
  assumes "oi_Validate i = None"
  shows "oi_ID i \<noteq> ''''" and "oi_Side i = Buy \<or> oi_Side i = Sell" and "qty_Valid (oi_Quantity i)"
    and "oi_SignalAt i \<noteq> 0" and "oi_SignalAt i \<le> oi_DecisionAt i" and "oi_DecisionAt i \<le> oi_CreatedAt i"
    and "supported_mode (oi_ExecutionMode i)" and "oi_IdempotencyKey i \<noteq> ''''"
  using assms unfolding oi_Validate_iff by auto

lemma ao_Validate_None:
  assumes "ao_Validate a = None"
  shows "ao_OrderID a \<noteq> ''''"
    and "ao_Status a \<noteq> BrokerAccepted \<Longrightarrow> ao_fills a \<noteq> []"
    and "ao_Status a = BrokerFilled \<Longrightarrow> ao_Remaining a = None"
    and "ao_Status a = BrokerPartiallyFilled \<Longrightarrow> \<exists>q. ao_Remaining a = Some q \<and> qty_Valid q"
  using assms unfolding ao_Validate_def
  by (auto simp: BrokerAccepted_def BrokerFilled_def BrokerPartiallyFilled_def split: if_splits option.splits)

lemma NewBrokerBatchOutcome_Inr:
  "NewBrokerBatchOutcome c a r = Inr b \<longleftrightarrow>
     (c = OutcomeComplete \<or> c = OutcomeIndeterminate) \<and> (\<forall>x \<in> set a. ao_Validate x = None) \<and>
     (\<forall>x \<in> set r. rejection_error x = None) \<and>
     b = \<lparr>bo_Completeness = c, bo_Accepted = sort_key ao_OrderID a, bo_Rejected = sort_key or_OrderID r\<rparr>"
  using first_error_None [of ao_Validate a] first_error_None [of rejection_error r]
  by (auto simp: NewBrokerBatchOutcome_def checked_def simp del: first_error_None split: option.splits)

text \<open>The two costs of an accepted policy, provided their sum does not wrap around.\<close>

lemma ecp_Validate_None:
  assumes "ecp_Validate p = None" and "sint (ecp_FeeBPS p) < 2 ^ 62" and "sint (ecp_AdverseSlippageBPS p) < 2 ^ 62"
  shows "0 \<le> sint (ecp_FeeBPS p)" and "0 \<le> sint (ecp_AdverseSlippageBPS p)"
    and "sint (ecp_FeeBPS p) + sint (ecp_AdverseSlippageBPS p) < 10000"
proof -
  from assms(1) have nn: "0 \<le> sint (ecp_FeeBPS p)" "0 \<le> sint (ecp_AdverseSlippageBPS p)"
    and s: "sint (ecp_FeeBPS p + ecp_AdverseSlippageBPS p) < 10000"
    by (auto simp: ecp_Validate_def split: if_splits)
  then show "0 \<le> sint (ecp_FeeBPS p)" "0 \<le> sint (ecp_AdverseSlippageBPS p)" by simp_all
  have "sint (ecp_FeeBPS p + ecp_AdverseSlippageBPS p) = sint (ecp_FeeBPS p) + sint (ecp_AdverseSlippageBPS p)"
    unfolding sint_word_ariths
    using nn assms(2,3) by (intro signed_take_bit_int_eq_self) simp_all
  with s show "sint (ecp_FeeBPS p) + sint (ecp_AdverseSlippageBPS p) < 10000" by simp
qed

end
