(* ===== verification/Risk.thy ===== *)
theory Risk
  imports Contracts
begin

text \<open>
  \<^verbatim>\<open>internal/tradingcore/risk.go\<close>: the portfolio risk engine. \<open>Evaluate\<close> folds \<open>evaluate_intent\<close>
  (the loop body) over the batch, threading the running gross exposure, turnover and cash and
  the lists of approved intents, rejections and traces (\<open>risk_acc\<close>). Arithmetic is exact; the
  basis points are 64-bit integers. Dividing by a zero price panics, as \<^verbatim>\<open>big.Rat.Quo\<close> does,
  and so does writing through a nil cash entry.
\<close>

section \<open>Rejection codes\<close>

definition RiskExecutionNotAuthorized :: RejectionCode where
  "RiskExecutionNotAuthorized = ''execution_not_authorized''"

definition RiskMissingPrice :: RejectionCode where "RiskMissingPrice = ''valuation_price_required''"

definition RiskPendingConflict :: RejectionCode where "RiskPendingConflict = ''pending_order_conflict''"

definition RiskPositionExists :: RejectionCode where "RiskPositionExists = ''position_exists''"

definition RiskPyramidLayers :: RejectionCode where "RiskPyramidLayers = ''max_pyramid_layers_reached''"

definition RiskMaxPositions :: RejectionCode where "RiskMaxPositions = ''max_positions_reached''"

definition RiskMaxConcurrency :: RejectionCode where "RiskMaxConcurrency = ''max_concurrent_orders_reached''"

definition RiskPositionExposure :: RejectionCode where
  "RiskPositionExposure = ''per_position_exposure_exceeded''"

definition RiskTotalExposure :: RejectionCode where "RiskTotalExposure = ''total_exposure_exceeded''"

definition RiskTurnover :: RejectionCode where "RiskTurnover = ''turnover_exceeded''"

definition RiskInsufficientCash :: RejectionCode where "RiskInsufficientCash = ''insufficient_cash''"

definition RiskQuantityBelowLot :: RejectionCode where "RiskQuantityBelowLot = ''quantity_below_lot_size''"

definition RiskInsufficientAsset :: RejectionCode where "RiskInsufficientAsset = ''insufficient_asset''"

lemmas risk_codes = RiskExecutionNotAuthorized_def RiskMissingPrice_def RiskPendingConflict_def
  RiskPositionExists_def RiskPyramidLayers_def RiskMaxPositions_def RiskMaxConcurrency_def
  RiskPositionExposure_def RiskTotalExposure_def RiskTurnover_def RiskInsufficientCash_def
  RiskQuantityBelowLot_def RiskInsufficientAsset_def

section \<open>Measures of the portfolio\<close>

text \<open>\<^verbatim>\<open>big.NewRat(bps, 10000)\<close> of a 64-bit number of basis points.\<close>

definition bps_rat :: "int64 \<Rightarrow> rat" where
  "bps_rat bps = of_int (sint bps) / 10000"

definition portfolioGross :: "CorePosition list \<Rightarrow> rat" where
  "portfolioGross values = foldl (\<lambda>total value. total + notional (cp_Quantity value) (cp_MarkPrice value)) 0 values"

definition intentPrice :: "OrderIntent \<Rightarrow> PortfolioSnapshot \<Rightarrow> Price option" where
  "intentPrice intent portfolio =
     (case oi_ReferencePrice intent of Some p \<Rightarrow> Some p
      | None \<Rightarrow> case oi_LimitPrice intent of Some p \<Rightarrow> Some p
        | None \<Rightarrow> map_option cp_MarkPrice
            (find (\<lambda>position. inst_ID (cp_Instrument position) = inst_ID (oi_Instrument intent))
               (ps_Positions portfolio)))"

definition pendingConflict :: "PendingOrder list \<Rightarrow> OrderIntent \<Rightarrow> bool" where
  "pendingConflict values intent \<longleftrightarrow>
     list_ex (\<lambda>value. inst_ID (po_Instrument value) = inst_ID (oi_Instrument intent)) values"

fun existingCount :: "CorePosition list \<Rightarrow> Instrument \<Rightarrow> int" where
  "existingCount [] instrument = 0"
| "existingCount (value # values) instrument =
     (if inst_ID (cp_Instrument value) = inst_ID instrument then 1 else 0) + existingCount values instrument"

fun pyramidLayers :: "CorePosition list \<Rightarrow> Instrument \<Rightarrow> int" where
  "pyramidLayers [] instrument = 0"
| "pyramidLayers (value # values) instrument =
     (if inst_ID (cp_Instrument value) = inst_ID instrument
      then (if cp_PyramidLayers value = 0 then 1 else cp_PyramidLayers value) else 0)
     + pyramidLayers values instrument"

fun positionQuantity :: "CorePosition list \<Rightarrow> Instrument \<Rightarrow> rat" where
  "positionQuantity [] instrument = 0"
| "positionQuantity (value # values) instrument =
     (if inst_ID (cp_Instrument value) = inst_ID instrument then qty_rat (cp_Quantity value) else 0)
     + positionQuantity values instrument"

fun countNewBuys :: "OrderIntent list \<Rightarrow> CorePosition list \<Rightarrow> int" where
  "countNewBuys [] positions = 0"
| "countNewBuys (intent # intents) positions =
     (if oi_Side intent = Buy \<and> existingCount positions (oi_Instrument intent) = 0 then 1 else 0)
     + countNewBuys intents positions"

fun instrumentExposure :: "CorePosition list \<Rightarrow> Instrument \<Rightarrow> rat" where
  "instrumentExposure [] instrument = 0"
| "instrumentExposure (value # values) instrument =
     (if inst_ID (cp_Instrument value) = inst_ID instrument
      then notional (cp_Quantity value) (cp_MarkPrice value) else 0)
     + instrumentExposure values instrument"

definition ratString :: "rat \<Rightarrow> string" where
  "ratString value = dec_String (the_ok zero_Decimal (ratDecimal value))"

definition valueOrZero :: "rat option \<Rightarrow> rat \<Rightarrow> rat" where
  "valueOrZero value fallback = (case value of None \<Rightarrow> fallback | Some v \<Rightarrow> v)"

section \<open>Caps and reservations\<close>

definition adverse_bps :: "OrderSide \<Rightarrow> ExecutionCostPolicy \<Rightarrow> int64" where
  "adverse_bps side policy =
     (if side = Sell then 10000 - ecp_AdverseSlippageBPS policy else 10000 + ecp_AdverseSlippageBPS policy)"

definition costReservation ::
  "rat \<Rightarrow> Price \<Rightarrow> OrderSide \<Rightarrow> ExecutionCostPolicy \<Rightarrow> rat \<times> rat \<times> rat" where
  "costReservation quantity price side policy =
     (let reference = quantity * price_rat price;
          gross = reference * bps_rat (adverse_bps side policy);
          slippage = gross - reference;
          slippage = (if slippage < 0 then - slippage else slippage);
          fee = gross * bps_rat (ecp_FeeBPS policy)
      in (gross, slippage, fee))"

text \<open>The closure \<^verbatim>\<open>capBy\<close> of \<^verbatim>\<open>capIntent\<close>: lowers the running result to what the limit leaves.\<close>

definition capBy ::
  "SignedAmount \<Rightarrow> rat \<Rightarrow> rat \<Rightarrow> RejectionCode \<Rightarrow> rat \<Rightarrow> (rat \<times> RejectionCode) result" where
  "capBy limit used unit code res =
     (if \<not> amt_Valid limit \<or> dec_Sign (amt_Decimal limit) = 0 then Inr (res, '''')
      else
        let remaining = decimalRat (amt_Decimal limit) - used in
        if remaining \<le> 0 then Inr (res, code)
        else and_then (rat_quo remaining unit) (\<lambda>candidate.
               Inr (if res > candidate then candidate else res, '''')))"

text \<open>\<^verbatim>\<open>if code := ...; code != "" { return result, code }\<close>\<close>

definition unless_code ::
  "(rat \<times> RejectionCode) result \<Rightarrow> (rat \<Rightarrow> (rat \<times> RejectionCode) result) \<Rightarrow> (rat \<times> RejectionCode) result" where
  "unless_code m f = and_then m (\<lambda>(res, code). if code \<noteq> '''' then Inr (res, code) else f res)"

definition capIntent ::
  "rat \<Rightarrow> OrderIntent \<Rightarrow> Price \<Rightarrow> CorePosition list \<Rightarrow> rat \<Rightarrow> rat \<Rightarrow> rat option \<Rightarrow> RiskPolicy
   \<Rightarrow> (rat \<times> RejectionCode) result" where
  "capIntent quantity intent price positions gross turnover cash policy =
     (let referencePrice = price_rat price;
          adversePrice = referencePrice * bps_rat (adverse_bps (oi_Side intent) (rp_ExecutionCosts policy));
          feeFactor = bps_rat (10000 + ecp_FeeBPS (rp_ExecutionCosts policy));
          cashUnit = adversePrice * feeFactor
      in
      unless_code
        (if oi_Side intent = Buy then
           unless_code (capBy (rp_MaxPositionValue policy) (instrumentExposure positions (oi_Instrument intent))
                          referencePrice RiskPositionExposure quantity)
             (capBy (rp_MaxGrossExposure policy) gross referencePrice RiskTotalExposure)
         else Inr (quantity, ''''))
        (\<lambda>res.
      unless_code (capBy (rp_MaxTurnover policy) turnover adversePrice RiskTurnover res)
        (\<lambda>res.
      if oi_Side intent = Buy then
        (case cash of
           None \<Rightarrow> Inr (res, RiskInsufficientCash)
         | Some c \<Rightarrow>
             if c \<le> 0 then Inr (res, RiskInsufficientCash)
             else and_then (rat_quo c cashUnit) (\<lambda>candidate.
                    let res = (if res > candidate then candidate else res)
                    in Inr (res, if res \<le> 0 then RiskInsufficientCash else '''')))
      else
        let available = positionQuantity positions (oi_Instrument intent);
            res = (if res > available then available else res)
        in Inr (res, if res \<le> 0 then RiskInsufficientAsset else ''''))))"

section \<open>The evaluation loop\<close>

record risk_acc =
  ra_gross :: rat
  ra_turnover :: rat
  ra_cash :: "(AssetID, rat) gomap"
  ra_approved :: "OrderIntent list"
  ra_rejected :: "OrderRejection list"
  ra_traces :: "RiskTrace list"

definition zero_OrderIntent :: OrderIntent where
  "zero_OrderIntent = \<lparr>oi_ID = '''', oi_IdempotencyKey = '''', oi_AccountID = '''',
     oi_Instrument = \<lparr>inst_ID = '''', inst_BaseAsset = '''', inst_QuoteAsset = '''', inst_Venue = '''',
       inst_VenueSymbol = ''''\<rparr>,
     oi_Side = '''', oi_Type = '''', oi_Quantity = Quantity zero_Decimal, oi_LimitPrice = None,
     oi_ReferencePrice = None, oi_SignalAt = 0, oi_DecisionAt = 0, oi_CreatedAt = 0,
     oi_ExecutionMode = '''', oi_QuantitySemantics = '''', oi_Priority = 0, oi_Reason = '''',
     oi_Horizon = '''', oi_Versions = zero_VersionContext, oi_Provenance = zero_Provenance,
     oi_metadata = None\<rparr>"

text \<open>The authority and limit checks of the \<^verbatim>\<open>switch\<close>: the checks recorded and the code chosen.\<close>

definition gate_intent ::
  "OrderIntent \<Rightarrow> PortfolioSnapshot \<Rightarrow> RiskPolicy \<Rightarrow> OrderIntent list \<Rightarrow> string list \<times> RejectionCode" where
  "gate_intent intent portfolio policy approved =
     (let positions = ps_Positions portfolio; pending = ps_PendingOrders portfolio;
          checks = [''execution_authority'']
      in
      if oi_ExecutionMode intent = ExecutionResearch \<or> oi_ExecutionMode intent = ExecutionShadow
         \<or> oi_ExecutionMode intent = ExecutionLiveDryRun
      then (checks, RiskExecutionNotAuthorized)
      else if intentPrice intent portfolio = None then (checks, RiskMissingPrice)
      else if pendingConflict pending intent then (checks @ [''pending_conflict''], RiskPendingConflict)
      else if oi_Side intent = Buy \<and> existingCount positions (oi_Instrument intent) > 0
         \<and> \<not> rp_PyramidingEnabled policy
      then (checks @ [''pyramiding''], RiskPositionExists)
      else if oi_Side intent = Buy \<and> rp_PyramidingEnabled policy \<and> rp_MaxPyramidLayers policy > 0
         \<and> pyramidLayers positions (oi_Instrument intent) \<ge> rp_MaxPyramidLayers policy
      then (checks @ [''pyramid_layers''], RiskPyramidLayers)
      else if rp_MaxConcurrentOrders policy > 0
         \<and> int (length pending) + int (length approved) \<ge> rp_MaxConcurrentOrders policy
      then (checks @ [''concurrency''], RiskMaxConcurrency)
      else if oi_Side intent = Buy \<and> existingCount positions (oi_Instrument intent) = 0
         \<and> rp_MaxPositions policy > 0
         \<and> int (length positions) + countNewBuys approved positions \<ge> rp_MaxPositions policy
      then (checks @ [''positions''], RiskMaxPositions)
      else (checks, ''''))"

text \<open>\<^verbatim>\<open>normalizedQuantity\<close> as the engine calls it: an error becomes a code, a panic stays one.\<close>

definition normalize_or_code :: "rat \<Rightarrow> Quantity \<Rightarrow> (rat \<times> RejectionCode) result" where
  "normalize_or_code quantity lot =
     (case normalizedQuantity quantity lot of
        Inl (Panic m) \<Rightarrow> Inl (Panic m)
      | Inl _ \<Rightarrow> Inr (quantity, RiskQuantityBelowLot)
      | Inr normalized \<Rightarrow> Inr (normalized, ''''))"

text \<open>The intent as approved: capped quantity, policy version and the reserved costs as metadata.\<close>

definition approved_intent :: "OrderIntent \<Rightarrow> Quantity \<Rightarrow> RiskPolicy \<Rightarrow> OrderIntent" where
  "approved_intent intent approvedQuantity policy =
     (let costs = rp_ExecutionCosts policy;
          intent = intent\<lparr>oi_Quantity := approvedQuantity,
                          oi_Versions := (oi_Versions intent)\<lparr>vc_Policy := rp_Version policy\<rparr>\<rparr>;
          metadata = (case oi_Metadata intent of None \<Rightarrow> [] | Some m \<Rightarrow> m);
          metadata = AList.update ''cost_policy_version'' (ecp_Version costs) metadata;
          metadata = AList.update ''fee_bps'' (big_string (sint (ecp_FeeBPS costs))) metadata;
          metadata = AList.update ''slippage_bps'' (big_string (sint (ecp_AdverseSlippageBPS costs))) metadata
      in the_ok zero_OrderIntent (NewOrderIntent intent (Some metadata)))"

text \<open>The bookkeeping of an approval: \<^verbatim>\<open>turnover\<close>, \<^verbatim>\<open>gross\<close> and the cash entry, updated in place.\<close>

definition book_approval ::
  "OrderIntent \<Rightarrow> rat \<Rightarrow> Price \<Rightarrow> rat \<Rightarrow> rat \<Rightarrow> risk_acc \<Rightarrow> risk_acc result" where
  "book_approval intent quantity price approvedNotional reservedFee acc =
     (let acc = acc\<lparr>ra_approved := ra_approved acc @ [intent],
                    ra_turnover := ra_turnover acc + approvedNotional\<rparr>;
          referenceNotional = quantity * price_rat price;
          quoteAsset = inst_QuoteAsset (oi_Instrument intent)
      in if oi_Side intent = Buy then
           (case map_of (ra_cash acc) quoteAsset of
              None \<Rightarrow> Inl (Panic ''nil pointer dereference'')
            | Some c \<Rightarrow> Inr (acc\<lparr>ra_gross := ra_gross acc + referenceNotional,
                 ra_cash := AList.update quoteAsset (c - (approvedNotional + reservedFee)) (ra_cash acc)\<rparr>))
         else Inr (acc\<lparr>ra_gross := ra_gross acc - referenceNotional\<rparr>))"

text \<open>Quantity, code and checks of an intent before anything is booked.\<close>

definition size_intent ::
  "PortfolioSnapshot \<Rightarrow> RiskPolicy \<Rightarrow> risk_acc \<Rightarrow> OrderIntent \<Rightarrow> (rat \<times> RejectionCode \<times> string list) result" where
  "size_intent portfolio policy acc intent =
     (let requested = qty_rat (oi_Quantity intent);
          (checks, code) = gate_intent intent portfolio policy (ra_approved acc)
      in
      if code \<noteq> '''' then Inr (requested, code, checks)
      else
        let checks = checks @ [''position_exposure'', ''gross_exposure'', ''turnover'', ''cash'', ''lot_size'']
        in case intentPrice intent portfolio of
             None \<Rightarrow> Inr (requested, code, checks)
           | Some price \<Rightarrow>
               and_then (unless_code
                   (capIntent requested intent price (ps_Positions portfolio) (ra_gross acc) (ra_turnover acc)
                      (map_of (ra_cash acc) (inst_QuoteAsset (oi_Instrument intent))) policy)
                   (\<lambda>quantity. normalize_or_code quantity (rp_LotSize policy)))
                 (\<lambda>(quantity, code). Inr (quantity, code, checks)))"

definition evaluate_intent ::
  "PortfolioSnapshot \<Rightarrow> RiskPolicy \<Rightarrow> risk_acc \<Rightarrow> OrderIntent \<Rightarrow> risk_acc result" where
  "evaluate_intent portfolio policy acc intent =
     (let preCash = valueOrZero (map_of (ra_cash acc) (inst_QuoteAsset (oi_Instrument intent))) 0;
          trace = \<lparr>rt_OrderID = oi_ID intent, rt_PolicyVersion = rp_Version policy, rt_Checks = [],
             rt_RequestedQuantity = dec_String (qty_Decimal (oi_Quantity intent)), rt_ApprovedQuantity = '''',
             rt_RequestedNotional = '''', rt_ApprovedNotional = '''', rt_Priority = oi_Priority intent,
             rt_CostPolicyVersion = ecp_Version (rp_ExecutionCosts policy), rt_ReservedFee = '''',
             rt_ReservedSlippage = '''', rt_PreCash = ratString preCash, rt_PostCash = '''',
             rt_PreGrossExposure = ratString (ra_gross acc), rt_PostGrossExposure = '''',
             rt_PreTurnover = ratString (ra_turnover acc), rt_PostTurnover = ''''\<rparr>
      in
      and_then (size_intent portfolio policy acc intent) (\<lambda>(quantity, code, checks).
        let price = intentPrice intent portfolio;
            (approvedNotional, reservedSlip, reservedFee) =
              (case price of
                 Some p \<Rightarrow> if quantity > 0 then costReservation quantity p (oi_Side intent) (rp_ExecutionCosts policy)
                           else (0, 0, 0)
               | None \<Rightarrow> (0, 0, 0));
            trace = (case price of
                 Some p \<Rightarrow> if quantity > 0
                   then trace\<lparr>rt_RequestedNotional := ratString (qty_rat (oi_Quantity intent) * price_rat p),
                              rt_ApprovedNotional := ratString approvedNotional,
                              rt_ReservedSlippage := ratString reservedSlip,
                              rt_ReservedFee := ratString reservedFee\<rparr>
                   else trace
               | None \<Rightarrow> trace);
            (final, code) =
              (if code \<noteq> '''' then (intent, code)
               else case quantityFromRat quantity of
                      Inl _ \<Rightarrow> (intent, RiskQuantityBelowLot)
                    | Inr approvedQuantity \<Rightarrow> (approved_intent intent approvedQuantity policy, ''''))
        in
        and_then
          (if code = ''''
           then book_approval final quantity (case price of Some p \<Rightarrow> p | None \<Rightarrow> Price zero_Decimal)
                  approvedNotional reservedFee acc
           else Inr (acc\<lparr>ra_rejected := ra_rejected acc @
                  [\<lparr>or_OrderID = oi_ID final, or_Code = code, or_Message = code,
                    or_EvaluatedAt = ps_AsOf portfolio, or_PolicyVersion = rp_Version policy\<rparr>]\<rparr>))
          (\<lambda>acc.
            let trace = trace\<lparr>rt_Checks := checks, rt_ApprovedQuantity := ratString quantity,
                  rt_PostCash := ratString (valueOrZero
                    (map_of (ra_cash acc) (inst_QuoteAsset (oi_Instrument final))) preCash),
                  rt_PostGrossExposure := ratString (ra_gross acc),
                  rt_PostTurnover := ratString (ra_turnover acc)\<rparr>
            in Inr (acc\<lparr>ra_traces := ra_traces acc @ [trace]\<rparr>))))"

fun evaluate_all :: "PortfolioSnapshot \<Rightarrow> RiskPolicy \<Rightarrow> OrderIntent list \<Rightarrow> risk_acc \<Rightarrow> risk_acc result" where
  "evaluate_all portfolio policy [] acc = Inr acc"
| "evaluate_all portfolio policy (intent # intents) acc =
     and_then (evaluate_intent portfolio policy acc intent) (evaluate_all portfolio policy intents)"

definition initial_acc :: "PortfolioSnapshot \<Rightarrow> RiskPolicy \<Rightarrow> risk_acc" where
  "initial_acc portfolio policy =
     (let state = ps_RiskState portfolio in
      \<lparr>ra_gross = (if rs_known state then decimalRat (amt_Decimal (rs_grossExposure state))
                   else portfolioGross (ps_Positions portfolio)),
       ra_turnover = (if rs_known state then decimalRat (amt_Decimal (rs_turnover state)) else 0),
       ra_cash = map (\<lambda>(asset, amount).
          (asset, if amt_Valid (rp_CashReserve policy)
                  then decimalRat (amt_Decimal amount) - decimalRat (amt_Decimal (rp_CashReserve policy))
                  else decimalRat (amt_Decimal amount))) (ps_Cash portfolio),
       ra_approved = [], ra_rejected = [], ra_traces = []\<rparr>)"

definition Evaluate :: "DecisionBatch \<Rightarrow> PortfolioSnapshot \<Rightarrow> RiskPolicy \<Rightarrow> RiskDecision result" where
  "Evaluate batch portfolio policy =
     (case rp_Validate policy of Some err \<Rightarrow> Inl err
      | None \<Rightarrow>
         and_then (evaluate_all portfolio policy (db_Intents batch) (initial_acc portfolio policy)) (\<lambda>acc.
         and_then (NewDecisionBatch (ra_approved acc)) (\<lambda>approvedBatch.
         Inr (NewRiskDecisionWithTrace approvedBatch (ra_rejected acc) (ra_traces acc)))))"

end
