(* ===== verification/Risk_Laws.thy ===== *)
theory Risk_Laws
  imports Risk
begin

text \<open>
  What the risk engine guarantees. The laws of the parts come first (the cap closure, \<open>capIntent\<close>,
  the sizing of one intent, the approved intent), then the two outcomes of the loop body, then
  the invariant \<open>within_limits\<close> of the loop: the running totals are the sums over the approved
  intents and stay inside every limit of the policy. The limits need exact inputs
  (\<open>exact_inputs\<close>): a lot size, prices in canonical form and cost basis points small enough not
  to wrap around.
\<close>

section \<open>Costs\<close>

lemma sint_10000_plus:
  assumes "0 \<le> sint (w :: int64)" and "sint w < 2 ^ 62"
  shows "sint (10000 + w) = 10000 + sint w" and "sint (10000 - w) = 10000 - sint w"
  unfolding sint_word_ariths using assms by (simp_all add: signed_take_bit_int_eq_self)

definition sane_costs :: "ExecutionCostPolicy \<Rightarrow> bool" where
  "sane_costs c \<longleftrightarrow> ecp_Validate c = None \<and> sint (ecp_FeeBPS c) < 2 ^ 62 \<and> sint (ecp_AdverseSlippageBPS c) < 2 ^ 62"

lemma sane_costs_bounds:
  assumes "sane_costs c"
  shows "0 \<le> sint (ecp_FeeBPS c)" and "0 \<le> sint (ecp_AdverseSlippageBPS c)"
    and "sint (ecp_FeeBPS c) + sint (ecp_AdverseSlippageBPS c) < 10000"
  using assms ecp_Validate_None by (auto simp: sane_costs_def)

lemma adverse_factor:
  assumes "sane_costs c"
  shows "bps_rat (adverse_bps side c) =
    (if side = Sell then 1 - bps_rat (ecp_AdverseSlippageBPS c) else 1 + bps_rat (ecp_AdverseSlippageBPS c))"
  using assms sane_costs_bounds(2) [OF assms]
  by (simp add: bps_rat_def adverse_bps_def sint_10000_plus sane_costs_def add_divide_distrib diff_divide_distrib
      del: of_int_sint)

lemma adverse_factor_pos: "sane_costs c \<Longrightarrow> 0 < bps_rat (adverse_bps side c)"
  using sane_costs_bounds [of c] by (simp add: adverse_factor) (simp add: bps_rat_def add_pos_nonneg del: of_int_sint)

lemma fee_factor: "sane_costs c \<Longrightarrow> bps_rat (10000 + ecp_FeeBPS c) = 1 + bps_rat (ecp_FeeBPS c)"
  using sane_costs_bounds(1) [of c] by (simp add: bps_rat_def sint_10000_plus sane_costs_def add_divide_distrib del: of_int_sint)

lemma fee_factor_pos: "sane_costs c \<Longrightarrow> 0 < 1 + bps_rat (ecp_FeeBPS c)"
  using sane_costs_bounds(1) [of c] by (simp add: bps_rat_def add_pos_nonneg del: of_int_sint)

section \<open>Caps\<close>

definition active :: "SignedAmount \<Rightarrow> bool" where
  "active limit \<longleftrightarrow> amt_Valid limit \<and> dec_Sign (amt_Decimal limit) \<noteq> 0"

abbreviation limit_rat :: "SignedAmount \<Rightarrow> rat" where
  "limit_rat limit \<equiv> decimalRat (amt_Decimal limit)"

lemma capBy_total: "0 < u \<Longrightarrow> code \<noteq> '''' \<Longrightarrow> \<exists>r c. capBy limit used u code res = Inr (r, c) \<and> r \<le> res"
  by (auto simp: capBy_def rat_quo_def Let_def)

lemma capBy_ok:
  assumes "capBy limit used u code res = Inr (r, '''')" and "0 < u" and "code \<noteq> ''''"
  shows "r \<le> res" and "active limit \<Longrightarrow> used + r * u \<le> limit_rat limit"
    and "0 < res \<Longrightarrow> 0 < r"
proof -
  have cand: "active limit \<Longrightarrow> r \<le> (limit_rat limit - used) / u" and le: "r \<le> res"
    and pos: "0 < res \<Longrightarrow> 0 < r"
    using assms by (auto simp: capBy_def rat_quo_def Let_def active_def split: if_splits)
  show "r \<le> res" "0 < res \<Longrightarrow> 0 < r" using le pos by blast+
  show "active limit \<Longrightarrow> used + r * u \<le> limit_rat limit"
    using cand assms(2) by (simp add: pos_le_divide_eq le_diff_eq add.commute)
qed

lemma unless_code_Inr [result_simps]:
  "unless_code m f = Inr (r, '''') \<longleftrightarrow> (\<exists>x. m = Inr (x, '''') \<and> f x = Inr (r, ''''))"
  by (auto simp: unless_code_def result_simps split: prod.splits if_splits)

lemma unless_code_total:
  assumes "\<exists>r c. m = Inr (r, c) \<and> P r" and "\<And>r. P r \<Longrightarrow> m = Inr (r, '''') \<Longrightarrow> \<exists>r' c. f r = Inr (r', c) \<and> Q r'"
    and "\<And>r. P r \<Longrightarrow> Q r"
  shows "\<exists>r c. unless_code m f = Inr (r, c) \<and> Q r"
  using assms by (fastforce simp: unless_code_def)

lemmas code_nonempty = risk_codes

lemma capIntent_ok:
  assumes cap: "capIntent q i p pos gross turnover cash policy = Inr (r, '''')"
    and p: "price_wf p" and costs: "sane_costs (rp_ExecutionCosts policy)" and q: "0 < q"
  defines "adverse \<equiv> price_rat p * bps_rat (adverse_bps (oi_Side i) (rp_ExecutionCosts policy))"
  shows "0 < r" and "r \<le> q"
    and "active (rp_MaxTurnover policy) \<Longrightarrow> turnover + r * adverse \<le> limit_rat (rp_MaxTurnover policy)"
    and "oi_Side i = Buy \<Longrightarrow> active (rp_MaxGrossExposure policy) \<Longrightarrow>
           gross + r * price_rat p \<le> limit_rat (rp_MaxGrossExposure policy)"
    and "oi_Side i = Buy \<Longrightarrow> active (rp_MaxPositionValue policy) \<Longrightarrow>
           instrumentExposure pos (oi_Instrument i) + r * price_rat p \<le> limit_rat (rp_MaxPositionValue policy)"
    and "oi_Side i = Buy \<Longrightarrow> \<exists>c. cash = Some c \<and>
           r * adverse * (1 + bps_rat (ecp_FeeBPS (rp_ExecutionCosts policy))) \<le> c"
    and "oi_Side i \<noteq> Buy \<Longrightarrow> r \<le> positionQuantity pos (oi_Instrument i)"
proof -
  let ?costs = "rp_ExecutionCosts policy"
  have u: "0 < price_rat p" using p by (rule price_wf_pos)
  have a: "0 < adverse" unfolding adverse_def using u adverse_factor_pos [OF costs] by simp
  have cu: "0 < adverse * bps_rat (10000 + ecp_FeeBPS ?costs)"
    using a fee_factor_pos [OF costs] by (simp add: fee_factor [OF costs])
  obtain x y where x: "(if oi_Side i = Buy then
           unless_code (capBy (rp_MaxPositionValue policy) (instrumentExposure pos (oi_Instrument i))
                          (price_rat p) RiskPositionExposure q)
             (capBy (rp_MaxGrossExposure policy) gross (price_rat p) RiskTotalExposure)
         else Inr (q, '''')) = Inr (x, '''')"
    and y: "capBy (rp_MaxTurnover policy) turnover adverse RiskTurnover x = Inr (y, '''')"
    and rest: "(if oi_Side i = Buy then
        (case cash of None \<Rightarrow> Inr (y, RiskInsufficientCash)
         | Some c \<Rightarrow>
             if c \<le> 0 then Inr (y, RiskInsufficientCash)
             else and_then (rat_quo c (adverse * bps_rat (10000 + ecp_FeeBPS ?costs))) (\<lambda>candidate.
                    let res = (if y > candidate then candidate else y)
                    in Inr (res, if res \<le> 0 then RiskInsufficientCash else '''')))
      else let available = positionQuantity pos (oi_Instrument i);
            res = (if y > available then available else y)
        in Inr (res, if res \<le> 0 then RiskInsufficientAsset else '''')) = (Inr (r, '''') :: (rat \<times> RejectionCode) result)"
    using cap unfolding capIntent_def Let_def adverse_def by (simp only: result_simps) blast
  have rt: "RiskTurnover \<noteq> ''''" "RiskPositionExposure \<noteq> ''''" "RiskTotalExposure \<noteq> ''''"
    "RiskInsufficientCash \<noteq> ''''" "RiskInsufficientAsset \<noteq> ''''"
    by (simp_all add: risk_codes)
  have yx: "y \<le> x" and ty: "active (rp_MaxTurnover policy) \<Longrightarrow> turnover + y * adverse \<le> limit_rat (rp_MaxTurnover policy)"
    using capBy_ok(1,2) [OF y a rt(1)] by blast+
  have r: "0 < r" "r \<le> y"
    using rest rt(4,5) by (auto simp: Let_def rat_quo_def split: if_splits option.splits)
  have xq: "x \<le> q"
    and g: "oi_Side i = Buy \<Longrightarrow> active (rp_MaxGrossExposure policy) \<Longrightarrow> gross + x * price_rat p \<le> limit_rat (rp_MaxGrossExposure policy)"
    and pv: "oi_Side i = Buy \<Longrightarrow> active (rp_MaxPositionValue policy) \<Longrightarrow>
       instrumentExposure pos (oi_Instrument i) + x * price_rat p \<le> limit_rat (rp_MaxPositionValue policy)"
  proof (atomize (full), cases "oi_Side i = Buy")
    case True
    with x obtain z where z: "capBy (rp_MaxPositionValue policy) (instrumentExposure pos (oi_Instrument i))
        (price_rat p) RiskPositionExposure q = Inr (z, '''')"
      and zx: "capBy (rp_MaxGrossExposure policy) gross (price_rat p) RiskTotalExposure z = Inr (x, '''')"
      by (auto simp: result_simps)
    note 1 = capBy_ok [OF z u rt(2)] and 2 = capBy_ok [OF zx u rt(3)]
    have "x * price_rat p \<le> z * price_rat p" using 2(1) u by (simp add: mult_right_mono)
    then show "x \<le> q \<and> (oi_Side i = Buy \<longrightarrow> active (rp_MaxGrossExposure policy) \<longrightarrow>
        gross + x * price_rat p \<le> limit_rat (rp_MaxGrossExposure policy)) \<and>
      (oi_Side i = Buy \<longrightarrow> active (rp_MaxPositionValue policy) \<longrightarrow>
        instrumentExposure pos (oi_Instrument i) + x * price_rat p \<le> limit_rat (rp_MaxPositionValue policy))"
      using 1 2 by fastforce
  qed (use x in auto)
  have mono: "r * w \<le> y * w" "r * w \<le> x * w" if "0 < w" for w
    using r yx that by (simp_all add: mult_right_mono)
  show "0 < r" "r \<le> q" using r yx xq by simp_all
  show "active (rp_MaxTurnover policy) \<Longrightarrow> turnover + r * adverse \<le> limit_rat (rp_MaxTurnover policy)"
    using ty mono(1) [OF a] by fastforce
  show "oi_Side i = Buy \<Longrightarrow> active (rp_MaxGrossExposure policy) \<Longrightarrow>
      gross + r * price_rat p \<le> limit_rat (rp_MaxGrossExposure policy)"
    using g mono(2) [OF u] by fastforce
  show "oi_Side i = Buy \<Longrightarrow> active (rp_MaxPositionValue policy) \<Longrightarrow>
      instrumentExposure pos (oi_Instrument i) + r * price_rat p \<le> limit_rat (rp_MaxPositionValue policy)"
    using pv mono(2) [OF u] by fastforce
  show "oi_Side i = Buy \<Longrightarrow> \<exists>c. cash = Some c \<and> r * adverse * (1 + bps_rat (ecp_FeeBPS ?costs)) \<le> c"
  proof -
    assume "oi_Side i = Buy"
    then obtain c where c: "cash = Some c" "r \<le> c / (adverse * bps_rat (10000 + ecp_FeeBPS ?costs))"
      using rest rt(4) by (auto simp: Let_def rat_quo_def split: if_splits option.splits)
    then show ?thesis using cu by (simp add: pos_le_divide_eq fee_factor [OF costs] mult.assoc)
  qed
  show "oi_Side i \<noteq> Buy \<Longrightarrow> r \<le> positionQuantity pos (oi_Instrument i)"
    using rest by (auto simp: Let_def split: if_splits)
qed

lemma capIntent_total:
  assumes p: "price_wf p" and costs: "sane_costs (rp_ExecutionCosts policy)"
  shows "\<exists>r c. capIntent q i p pos gross turnover cash policy = Inr (r, c)"
proof -
  let ?costs = "rp_ExecutionCosts policy"
  have u: "0 < price_rat p" using p by (rule price_wf_pos)
  have a: "0 < price_rat p * bps_rat (adverse_bps (oi_Side i) ?costs)"
    using u adverse_factor_pos [OF costs] by simp
  have cu: "bps_rat (10000 + ecp_FeeBPS ?costs) \<noteq> 0"
    using fee_factor_pos [OF costs] by (simp add: fee_factor [OF costs])
  have total: "\<exists>r c. unless_code m f = Inr (r, c)"
    if "\<exists>r c. m = Inr (r, c)" and "\<And>r. \<exists>r' c. f r = Inr (r', c)" for m f
    using unless_code_total [of m "\<lambda>_. True" f "\<lambda>_. True"] that by simp
  have cap: "\<exists>r c. capBy l used w code res = Inr (r, c)" if "0 < w" for l used w code res
    using that by (auto simp: capBy_def rat_quo_def Let_def)
  show ?thesis
    unfolding capIntent_def Let_def
    by (intro total cap a u allI) (use a cu u in \<open>auto simp: rat_quo_def total cap split: option.splits\<close>)
qed

section \<open>Sizing one intent\<close>

lemma normalize_or_code_total: "qty_wf lot \<Longrightarrow> \<exists>r c. normalize_or_code q lot = Inr (r, c)"
proof (cases "0 < q")
  case True
  then show "qty_wf lot \<Longrightarrow> ?thesis" by (simp add: normalize_or_code_def normalizedQuantity_lot)
qed (simp add: normalize_or_code_def normalizedQuantity_def)

lemma normalize_or_code_ok:
  assumes "normalize_or_code q lot = Inr (r, '''')" and "qty_wf lot" and "0 < q"
  shows "0 < r" and "r \<le> q" and "\<exists>n. r * ulps = of_int n"
proof -
  have n: "normalizedQuantity q lot = Inr r"
    using assms(1) by (auto simp: normalize_or_code_def risk_codes split: sum.splits go_error.splits)
  show "r \<le> q" using normalizedQuantity_bounds(1) [OF assms(2,3) n] .
  obtain k where k: "0 < k" "r = of_int k * qty_rat lot"
    using normalizedQuantity_bounds(3) [OF assms(2,3) n] by blast
  then show "0 < r" using qty_wf_pos [OF assms(2)] by simp
  show "\<exists>n. r * ulps = of_int n"
    unfolding k(2) using assms(2) by (intro lots_on_grid) (simp add: qty_wf_def)
qed

text \<open>The conditions under which the loop works with exact values only.\<close>

definition exact_inputs :: "PortfolioSnapshot \<Rightarrow> RiskPolicy \<Rightarrow> OrderIntent list \<Rightarrow> bool" where
  "exact_inputs portfolio policy intents \<longleftrightarrow>
     qty_wf (rp_LotSize policy) \<and> sane_costs (rp_ExecutionCosts policy) \<and>
     list_all (\<lambda>i. oi_Validate i = None \<and> qty_wf (oi_Quantity i) \<and>
        (case intentPrice i portfolio of None \<Rightarrow> True | Some p \<Rightarrow> price_wf p)) intents"

lemma gate_intent_ok:
  assumes "gate_intent i portfolio policy approved = (checks, '''')"
  shows "oi_ExecutionMode i \<notin> {ExecutionResearch, ExecutionShadow, ExecutionLiveDryRun}"
    and "intentPrice i portfolio \<noteq> None" and "\<not> pendingConflict (ps_PendingOrders portfolio) i"
    and "oi_Side i = Buy \<Longrightarrow> \<not> rp_PyramidingEnabled policy \<Longrightarrow>
          existingCount (ps_Positions portfolio) (oi_Instrument i) \<le> 0"
    and "0 < rp_MaxConcurrentOrders policy \<Longrightarrow>
          int (length (ps_PendingOrders portfolio)) + int (length approved) < rp_MaxConcurrentOrders policy"
    and "oi_Side i = Buy \<Longrightarrow> existingCount (ps_Positions portfolio) (oi_Instrument i) = 0 \<Longrightarrow>
          0 < rp_MaxPositions policy \<Longrightarrow>
          int (length (ps_Positions portfolio)) + countNewBuys approved (ps_Positions portfolio) < rp_MaxPositions policy"
  using assms by (auto simp: gate_intent_def Let_def risk_codes split: if_splits)

abbreviation quote_of :: "OrderIntent \<Rightarrow> AssetID" where
  "quote_of i \<equiv> inst_QuoteAsset (oi_Instrument i)"

lemma size_intent_total:
  assumes "exact_inputs portfolio policy [i]"
  shows "\<exists>q c ch. size_intent portfolio policy acc i = Inr (q, c, ch)"
proof (cases "gate_intent i portfolio policy (ra_approved acc)")
  case (Pair checks code)
  show ?thesis
  proof (cases "intentPrice i portfolio")
    case None
    then show ?thesis using Pair by (simp add: size_intent_def Let_def)
  next
    case (Some p)
    with assms have p: "price_wf p" and c: "sane_costs (rp_ExecutionCosts policy)" and l: "qty_wf (rp_LotSize policy)"
      by (simp_all add: exact_inputs_def)
    obtain r c where cap: "capIntent (qty_rat (oi_Quantity i)) i p (ps_Positions portfolio) (ra_gross acc)
        (ra_turnover acc) (map_of (ra_cash acc) (quote_of i)) policy = Inr (r, c)"
      using capIntent_total [OF p c] by blast
    show ?thesis using Pair Some cap normalize_or_code_total [OF l, of r]
      by (auto simp: size_intent_def Let_def unless_code_def)
  qed
qed

lemma size_intent_ok:
  assumes size: "size_intent portfolio policy acc i = Inr (q, '''', checks)"
    and ex: "exact_inputs portfolio policy [i]"
  shows "\<exists>p r n ch. gate_intent i portfolio policy (ra_approved acc) = (ch, '''') \<and>
    intentPrice i portfolio = Some p \<and> price_wf p \<and> 0 < q \<and> q \<le> r \<and> q * ulps = of_int n \<and>
    capIntent (qty_rat (oi_Quantity i)) i p (ps_Positions portfolio) (ra_gross acc)
        (ra_turnover acc) (map_of (ra_cash acc) (quote_of i)) policy = Inr (r, '''')"
proof -
  obtain ch where g: "gate_intent i portfolio policy (ra_approved acc) = (ch, '''')"
    using size by (cases "gate_intent i portfolio policy (ra_approved acc)")
      (auto simp: size_intent_def Let_def split: if_splits)
  then obtain p where p: "intentPrice i portfolio = Some p" using gate_intent_ok(2) by blast
  with ex have pw: "price_wf p" and c: "sane_costs (rp_ExecutionCosts policy)" and l: "qty_wf (rp_LotSize policy)"
    and iq: "0 < qty_rat (oi_Quantity i)"
    by (simp_all add: exact_inputs_def qty_wf_pos)
  from size g p obtain r where cap: "capIntent (qty_rat (oi_Quantity i)) i p (ps_Positions portfolio) (ra_gross acc)
        (ra_turnover acc) (map_of (ra_cash acc) (quote_of i)) policy = Inr (r, '''')"
    and norm: "normalize_or_code r (rp_LotSize policy) = Inr (q, '''')"
    by (auto simp: size_intent_def Let_def result_simps)
  have "0 < r" using capIntent_ok(1) [OF cap pw c iq] .
  from normalize_or_code_ok [OF norm l this] g p pw cap show ?thesis by blast
qed

section \<open>The approved intent\<close>

lemma NewOrderIntent_eq:
  assumes "s = (if oi_QuantitySemantics i = '''' then QuantityExact else oi_QuantitySemantics i)"
  shows "NewOrderIntent i m = checked (oi_Validate (i\<lparr>oi_metadata := m, oi_QuantitySemantics := s\<rparr>))
     (i\<lparr>oi_metadata := m, oi_QuantitySemantics := s\<rparr>)"
  using assms by (cases i) (simp add: NewOrderIntent_def Let_def)

lemma approved_intent_eq:
  assumes "oi_Validate i = None" and "qty_Valid q"
  shows "\<exists>m s. approved_intent i q policy = i\<lparr>oi_Quantity := q,
      oi_Versions := (oi_Versions i)\<lparr>vc_Policy := rp_Version policy\<rparr>, oi_metadata := Some m,
      oi_QuantitySemantics := s\<rparr> \<and> oi_Validate (approved_intent i q policy) = None \<and>
    str_at m ''cost_policy_version'' = ecp_Version (rp_ExecutionCosts policy) \<and>
    str_at m ''fee_bps'' = big_string (sint (ecp_FeeBPS (rp_ExecutionCosts policy))) \<and>
    str_at m ''slippage_bps'' = big_string (sint (ecp_AdverseSlippageBPS (rp_ExecutionCosts policy)))"
proof -
  define m where "m = AList.update ''slippage_bps'' (big_string (sint (ecp_AdverseSlippageBPS (rp_ExecutionCosts policy))))
     (AList.update ''fee_bps'' (big_string (sint (ecp_FeeBPS (rp_ExecutionCosts policy))))
     (AList.update ''cost_policy_version'' (ecp_Version (rp_ExecutionCosts policy))
       (case oi_metadata i of None \<Rightarrow> [] | Some m \<Rightarrow> m)))"
  define s where "s = (if oi_QuantitySemantics i = '''' then QuantityExact else oi_QuantitySemantics i)"
  define v where "v = (oi_Versions i)\<lparr>vc_Policy := rp_Version policy\<rparr>"
  let ?i = "i\<lparr>oi_Quantity := q, oi_Versions := v, oi_metadata := Some m, oi_QuantitySemantics := s\<rparr>"
  have ok: "oi_Validate ?i = None"
    using assms by (auto simp: oi_Validate_iff s_def)
  have "NewOrderIntent (i\<lparr>oi_Quantity := q, oi_Versions := v\<rparr>) (Some m) = Inr ?i"
    by (subst NewOrderIntent_eq [of s]) (use ok in \<open>simp_all add: s_def\<close>)
  then have a: "approved_intent i q policy = ?i"
    by (simp add: approved_intent_def Let_def oi_Metadata_def m_def v_def)
  have "str_at m ''cost_policy_version'' = ecp_Version (rp_ExecutionCosts policy)"
    "str_at m ''fee_bps'' = big_string (sint (ecp_FeeBPS (rp_ExecutionCosts policy)))"
    "str_at m ''slippage_bps'' = big_string (sint (ecp_AdverseSlippageBPS (rp_ExecutionCosts policy)))"
    by (simp_all add: m_def)
  with a ok show ?thesis unfolding v_def by (intro exI [of _ m] exI [of _ s]) simp
qed

lemma approved_intent_fields:
  assumes "oi_Validate i = None" and "qty_Valid q"
  shows "oi_Validate (approved_intent i q policy) = None" "oi_ID (approved_intent i q policy) = oi_ID i"
    "oi_Instrument (approved_intent i q policy) = oi_Instrument i"
    "oi_Side (approved_intent i q policy) = oi_Side i" "oi_Quantity (approved_intent i q policy) = q"
    "oi_ExecutionMode (approved_intent i q policy) = oi_ExecutionMode i"
    "intentPrice (approved_intent i q policy) portfolio = intentPrice i portfolio"
    "vc_Policy (oi_Versions (approved_intent i q policy)) = rp_Version policy"
    "meta_at (oi_metadata (approved_intent i q policy)) ''cost_policy_version'' = ecp_Version (rp_ExecutionCosts policy)"
    "meta_at (oi_metadata (approved_intent i q policy)) ''fee_bps'' = big_string (sint (ecp_FeeBPS (rp_ExecutionCosts policy)))"
    "meta_at (oi_metadata (approved_intent i q policy)) ''slippage_bps'' = big_string (sint (ecp_AdverseSlippageBPS (rp_ExecutionCosts policy)))"
    "oi_AccountID (approved_intent i q policy) = oi_AccountID i"
  using approved_intent_eq [OF assms, of policy] by (auto simp: intentPrice_def meta_at_def split: option.splits)

section \<open>One step of the loop\<close>

lemma size_intent_code:
  assumes "size_intent portfolio policy acc i = Inr (q, '''', checks)"
  shows "\<exists>ch p. gate_intent i portfolio policy (ra_approved acc) = (ch, '''') \<and> intentPrice i portfolio = Some p"
proof -
  obtain ch where "gate_intent i portfolio policy (ra_approved acc) = (ch, '''')"
    using assms by (cases "gate_intent i portfolio policy (ra_approved acc)")
      (auto simp: size_intent_def Let_def split: if_splits)
  then show ?thesis using gate_intent_ok(2) by blast
qed

lemma quantityFromRat_positive: "quantityFromRat q = Inr aq \<Longrightarrow> 0 < q"
proof (rule ccontr)
  assume a: "quantityFromRat q = Inr aq" "\<not> 0 < q"
  have "0 < decimalRat (qty_Decimal aq)" using quantityFromRat_Inr(3) [OF a(1)] .
  moreover have "qty_Decimal aq = mk_dec (half_away (q * ulps)) MaxDecimalScale"
    using quantityFromRat_Inr(4) [OF a(1)] by (simp add: ratDecimal_eq)
  moreover have "half_away (q * ulps) \<le> 0"
    using a(2) mult_nonpos_nonneg [of q ulps] by (intro half_away_nonpos) (simp add: less_imp_le)
  ultimately show False by (simp add: decimalRat_mk divide_le_0_iff zero_less_divide_iff)
qed

definition rejection_of :: "PortfolioSnapshot \<Rightarrow> RiskPolicy \<Rightarrow> OrderIntent \<Rightarrow> RejectionCode \<Rightarrow> OrderRejection" where
  "rejection_of portfolio policy i code = \<lparr>or_OrderID = oi_ID i, or_Code = code, or_Message = code,
     or_EvaluatedAt = ps_AsOf portfolio, or_PolicyVersion = rp_Version policy\<rparr>"

lemma evaluate_intent_cases:
  assumes ev: "evaluate_intent portfolio policy acc i = Inr acc'"
  obtains (rejected) code t where "code \<noteq> ''''"
      "acc' = acc\<lparr>ra_rejected := ra_rejected acc @ [rejection_of portfolio policy i code], ra_traces := ra_traces acc @ [t]\<rparr>"
  | (approved) q checks aq p n sl f acc1 t where
      "size_intent portfolio policy acc i = Inr (q, '''', checks)" "quantityFromRat q = Inr aq"
      "intentPrice i portfolio = Some p" "0 < q"
      "costReservation q p (oi_Side i) (rp_ExecutionCosts policy) = (n, sl, f)"
      "book_approval (approved_intent i aq policy) q p n f acc = Inr acc1"
      "acc' = acc1\<lparr>ra_traces := ra_traces acc1 @ [t]\<rparr>"
proof -
  from ev obtain q code checks where size: "size_intent portfolio policy acc i = Inr (q, code, checks)"
    by (auto simp: evaluate_intent_def Let_def result_simps)
  show ?thesis
  proof (cases "code = ''''")
    case False
    obtain n sl f where c: "(case intentPrice i portfolio of
          Some p \<Rightarrow> if q > 0 then costReservation q p (oi_Side i) (rp_ExecutionCosts policy) else (0, 0, 0)
        | None \<Rightarrow> (0, 0, 0)) = (n, sl, f)"
      by (metis prod_cases3)
    have "\<exists>t. acc' = acc\<lparr>ra_rejected := ra_rejected acc @ [rejection_of portfolio policy i code],
        ra_traces := ra_traces acc @ [t]\<rparr>"
      using ev False size unfolding evaluate_intent_def Let_def
      by (simp add: c rejection_of_def) blast
    with False show ?thesis using rejected by blast
  next
    case True
    note size = size [unfolded True]
    obtain p where p: "intentPrice i portfolio = Some p" using size_intent_code [OF size] by blast
    show ?thesis
    proof (cases "quantityFromRat q")
      case (Inl e)
      obtain n sl f where c: "(if q > 0 then costReservation q p (oi_Side i) (rp_ExecutionCosts policy)
          else (0, 0, 0)) = (n, sl, f)"
        by (metis prod_cases3)
      have code: "RiskQuantityBelowLot \<noteq> ''''" by (simp add: risk_codes)
      have "\<exists>t. acc' = acc\<lparr>ra_rejected := ra_rejected acc @ [rejection_of portfolio policy i RiskQuantityBelowLot],
          ra_traces := ra_traces acc @ [t]\<rparr>"
        using ev size p Inl code unfolding evaluate_intent_def Let_def
        by (simp add: c rejection_of_def) blast
      with code show ?thesis using rejected by blast
    next
      case (Inr aq)
      then have q: "0 < q" by (rule quantityFromRat_positive)
      obtain n sl f where c: "costReservation q p (oi_Side i) (rp_ExecutionCosts policy) = (n, sl, f)"
        by (metis prod_cases3)
      from ev size p Inr q c obtain acc1 where
        b: "book_approval (approved_intent i aq policy) q p n f acc = Inr acc1"
        and "\<exists>t. acc' = acc1\<lparr>ra_traces := ra_traces acc1 @ [t]\<rparr>"
        by (auto simp: evaluate_intent_def Let_def result_simps)
      with approved [OF size Inr p q c b] show ?thesis by blast
    qed
  qed
qed

text \<open>Each intent ends up approved or rejected, and an approval keeps its identity.\<close>

lemma evaluate_intent_partition:
  assumes "evaluate_intent portfolio policy acc i = Inr acc'" and "oi_Validate i = None"
  shows "(\<exists>aq. ra_approved acc' = ra_approved acc @ [approved_intent i aq policy] \<and> qty_Valid aq \<and>
            ra_rejected acc' = ra_rejected acc \<and>
            (\<exists>ch. gate_intent i portfolio policy (ra_approved acc) = (ch, '''')) \<and> dec_wf (qty_Decimal aq)) \<or>
         (\<exists>code. code \<noteq> '''' \<and> ra_approved acc' = ra_approved acc \<and>
            ra_rejected acc' = ra_rejected acc @ [rejection_of portfolio policy i code])"
  using assms(1)
proof (cases rule: evaluate_intent_cases)
  case (approved q checks aq p n sl f acc1 t)
  have "ra_approved acc' = ra_approved acc @ [approved_intent i aq policy]" "ra_rejected acc' = ra_rejected acc"
    using approved by (auto simp: book_approval_def Let_def split: if_splits option.splits)
  moreover have "qty_Valid aq" "dec_wf (qty_Decimal aq)" using quantityFromRat_Inr(1,2) approved(2) by blast+
  ultimately show ?thesis using size_intent_code [OF approved(1)] by blast
qed auto

lemma evaluate_all_partition:
  assumes "evaluate_all portfolio policy is acc = Inr acc'" and "\<forall>i \<in> set is. oi_Validate i = None"
    and "\<forall>a \<in> set (ra_approved acc). oi_Validate a = None"
  shows "mset (map oi_ID (ra_approved acc')) + mset (map or_OrderID (ra_rejected acc'))
      = mset (map oi_ID (ra_approved acc)) + mset (map or_OrderID (ra_rejected acc)) + mset (map oi_ID is) \<and>
    (\<forall>a \<in> set (ra_approved acc'). oi_Validate a = None)"
  using assms
proof (induction "is" arbitrary: acc)
  case (Cons i "is")
  from Cons.prems(1) obtain acc1 where s: "evaluate_intent portfolio policy acc i = Inr acc1"
    and r: "evaluate_all portfolio policy is acc1 = Inr acc'" by (auto simp: result_simps)
  have v: "oi_Validate i = None" using Cons.prems(2) by simp
  have 1: "mset (map oi_ID (ra_approved acc1)) + mset (map or_OrderID (ra_rejected acc1))
      = mset (map oi_ID (ra_approved acc)) + mset (map or_OrderID (ra_rejected acc)) + {#oi_ID i#}"
    and 2: "\<forall>a \<in> set (ra_approved acc1). oi_Validate a = None"
    using evaluate_intent_partition [OF s v] Cons.prems(3)
    by (auto simp: approved_intent_fields [OF v] rejection_of_def)
  show ?case using Cons.IH [OF r _ 2] Cons.prems(2) 1 by simp
qed simp

section \<open>The limits\<close>

text \<open>What one approved intent uses, valued at the price the engine took for it.\<close>

definition price_of :: "PortfolioSnapshot \<Rightarrow> OrderIntent \<Rightarrow> rat" where
  "price_of portfolio i = (case intentPrice i portfolio of None \<Rightarrow> 0 | Some p \<Rightarrow> price_rat p)"

definition ref_notional :: "PortfolioSnapshot \<Rightarrow> OrderIntent \<Rightarrow> rat" where
  "ref_notional portfolio i = qty_rat (oi_Quantity i) * price_of portfolio i"

definition adverse_notional :: "PortfolioSnapshot \<Rightarrow> RiskPolicy \<Rightarrow> OrderIntent \<Rightarrow> rat" where
  "adverse_notional portfolio policy i =
     ref_notional portfolio i * bps_rat (adverse_bps (oi_Side i) (rp_ExecutionCosts policy))"

definition cash_need :: "PortfolioSnapshot \<Rightarrow> RiskPolicy \<Rightarrow> AssetID \<Rightarrow> OrderIntent \<Rightarrow> rat" where
  "cash_need portfolio policy a i =
     (if oi_Side i = Buy \<and> quote_of i = a
      then adverse_notional portfolio policy i * (1 + bps_rat (ecp_FeeBPS (rp_ExecutionCosts policy))) else 0)"

definition exposure_change :: "PortfolioSnapshot \<Rightarrow> OrderIntent \<Rightarrow> rat" where
  "exposure_change portfolio i =
     (if oi_Side i = Buy then ref_notional portfolio i else - ref_notional portfolio i)"

text \<open>The running totals are the sums over the approved intents.\<close>

definition totals_match :: "PortfolioSnapshot \<Rightarrow> RiskPolicy \<Rightarrow> risk_acc \<Rightarrow> bool" where
  "totals_match portfolio policy acc \<longleftrightarrow>
     (let init = initial_acc portfolio policy in
      ra_gross acc = ra_gross init + (\<Sum>i\<leftarrow>ra_approved acc. exposure_change portfolio i) \<and>
      ra_turnover acc = ra_turnover init + (\<Sum>i\<leftarrow>ra_approved acc. adverse_notional portfolio policy i) \<and>
      (\<forall>a. map_of (ra_cash acc) a = map_option (\<lambda>c. c - (\<Sum>i\<leftarrow>ra_approved acc. cash_need portfolio policy a i))
             (map_of (ra_cash init) a)) \<and>
      (\<forall>a. map_of (ra_cash init) a = None \<longrightarrow> (\<Sum>i\<leftarrow>ra_approved acc. cash_need portfolio policy a i) = 0))"

definition within_limits :: "PortfolioSnapshot \<Rightarrow> RiskPolicy \<Rightarrow> risk_acc \<Rightarrow> bool" where
  "within_limits portfolio policy acc \<longleftrightarrow>
     (let init = initial_acc portfolio policy in
      (active (rp_MaxGrossExposure policy) \<longrightarrow> ra_gross acc \<le> max (ra_gross init) (limit_rat (rp_MaxGrossExposure policy))) \<and>
      (active (rp_MaxTurnover policy) \<longrightarrow> ra_turnover acc \<le> max (ra_turnover init) (limit_rat (rp_MaxTurnover policy))) \<and>
      (\<forall>a c. map_of (ra_cash init) a = Some c \<longrightarrow>
         (\<Sum>i\<leftarrow>ra_approved acc. cash_need portfolio policy a i) \<le> max 0 c) \<and>
      (0 < rp_MaxConcurrentOrders policy \<longrightarrow>
         int (length (ps_PendingOrders portfolio)) + int (length (ra_approved acc))
           \<le> max (int (length (ps_PendingOrders portfolio))) (rp_MaxConcurrentOrders policy)) \<and>
      (0 < rp_MaxPositions policy \<longrightarrow>
         int (length (ps_Positions portfolio)) + countNewBuys (ra_approved acc) (ps_Positions portfolio)
           \<le> max (int (length (ps_Positions portfolio))) (rp_MaxPositions policy)))"

lemma countNewBuys_append: "countNewBuys (xs @ ys) pos = countNewBuys xs pos + countNewBuys ys pos"
  by (induction xs) simp_all

lemma evaluate_intent_exact:
  assumes ev: "evaluate_intent portfolio policy acc i = Inr acc'" and ex: "exact_inputs portfolio policy [i]"
    and approved: "ra_approved acc' \<noteq> ra_approved acc"
  obtains a p r ch where "ra_approved acc' = ra_approved acc @ [a]" "oi_Side a = oi_Side i"
    "oi_Instrument a = oi_Instrument i" "price_of portfolio a = price_rat p" "price_wf p"
    "0 < qty_rat (oi_Quantity a)" "qty_rat (oi_Quantity a) \<le> r"
    "gate_intent i portfolio policy (ra_approved acc) = (ch, '''')"
    "capIntent (qty_rat (oi_Quantity i)) i p (ps_Positions portfolio) (ra_gross acc)
        (ra_turnover acc) (map_of (ra_cash acc) (quote_of i)) policy = Inr (r, '''')"
    "ra_turnover acc' = ra_turnover acc + adverse_notional portfolio policy a"
    "ra_gross acc' = ra_gross acc + exposure_change portfolio a"
    "\<And>b. map_of (ra_cash acc') b = map_option (\<lambda>c. c - cash_need portfolio policy b a) (map_of (ra_cash acc) b)"
  using ev
proof (cases rule: evaluate_intent_cases)
  case (rejected code t)
  then show ?thesis using approved by simp
next
  case ok: (approved q checks aq p n sl f acc1 t)
  have v: "oi_Validate i = None" using ex by (simp add: exact_inputs_def)
  obtain p' r k ch where s: "gate_intent i portfolio policy (ra_approved acc) = (ch, '''')"
    "intentPrice i portfolio = Some p'" "price_wf p'" "q \<le> r" "q * ulps = of_int k"
    "capIntent (qty_rat (oi_Quantity i)) i p' (ps_Positions portfolio) (ra_gross acc)
        (ra_turnover acc) (map_of (ra_cash acc) (quote_of i)) policy = Inr (r, '''')"
    using size_intent_ok [OF ok(1) ex] by blast
  have pp: "p' = p" using s(2) ok(3) by simp
  define a where "a = approved_intent i aq policy"
  have aq: "qty_rat aq = q" using quantityFromRat_pos [OF ok(4) s(5)] ok(2) by auto
  note f = approved_intent_fields [OF v quantityFromRat_Inr(2) [OF ok(2)], of policy, folded a_def]
  have pr: "price_of portfolio a = price_rat p" using ok(3) f(7) by (simp add: price_of_def)
  have q: "qty_rat (oi_Quantity a) = q" using f(5) aq by simp
  have n: "n = adverse_notional portfolio policy a" and fee: "f = n * bps_rat (ecp_FeeBPS (rp_ExecutionCosts policy))"
    using ok(5) q pr f(4) by (auto simp: costReservation_def Let_def adverse_notional_def ref_notional_def)
  have need: "cash_need portfolio policy b a = (if oi_Side i = Buy \<and> quote_of i = b then n + f else 0)" for b
    using f(3,4) by (simp add: cash_need_def n fee algebra_simps)
  have cash: "map_of (ra_cash acc') b = map_option (\<lambda>c. c - cash_need portfolio policy b a) (map_of (ra_cash acc) b)" for b
    using ok(6,7) f(3,4) unfolding a_def [symmetric] need
    by (auto simp: book_approval_def Let_def update_conv option.map_ident split: if_splits option.splits)
  have sums: "ra_approved acc' = ra_approved acc @ [a]" "ra_turnover acc' = ra_turnover acc + adverse_notional portfolio policy a"
    "ra_gross acc' = ra_gross acc + exposure_change portfolio a"
    using ok(6,7) f(3,4) q pr unfolding a_def [symmetric] n
    by (auto simp: book_approval_def Let_def exposure_change_def ref_notional_def split: if_splits option.splits)
  show ?thesis
    using that [OF sums(1) f(4,3) pr s(3) [unfolded pp] _ _ s(1) s(6) [unfolded pp] sums(2,3) cash] q ok(4) s(4) by simp
qed

lemma totals_match_step:
  assumes "evaluate_intent portfolio policy acc i = Inr acc'" and "exact_inputs portfolio policy [i]"
    and "totals_match portfolio policy acc"
  shows "totals_match portfolio policy acc'"
  using assms(1)
proof (cases rule: evaluate_intent_cases)
  case (rejected code t)
  then show ?thesis using assms(3) by (simp add: totals_match_def Let_def)
next
  case (approved q checks aq p n sl f acc1 t)
  have "ra_approved acc' \<noteq> ra_approved acc"
    using approved by (auto simp: book_approval_def Let_def split: if_splits option.splits)
  from assms(1,2) this show ?thesis
  proof (cases rule: evaluate_intent_exact)
    case (1 a p r ch)
    have none: "cash_need portfolio policy b a = 0" if b: "map_of (ra_cash (initial_acc portfolio policy)) b = None" for b
    proof (cases "oi_Side i = Buy \<and> quote_of i = b")
      case True
      have "map_of (ra_cash acc) b = None" using assms(3) b by (simp add: totals_match_def Let_def)
      moreover have "0 < qty_rat (oi_Quantity i)" "sane_costs (rp_ExecutionCosts policy)"
        using assms(2) by (simp_all add: exact_inputs_def qty_wf_pos)
      ultimately show ?thesis using capIntent_ok(6) [OF 1(9) 1(5)] True by auto
    qed (use 1 in \<open>auto simp: cash_need_def\<close>)
    show ?thesis
      using assms(3) 1 none by (auto simp: totals_match_def Let_def option.map_comp comp_def algebra_simps)
  qed
qed

lemma within_limits_step:
  assumes ev: "evaluate_intent portfolio policy acc i = Inr acc'" and ex: "exact_inputs portfolio policy [i]"
    and tm: "totals_match portfolio policy acc" and wl: "within_limits portfolio policy acc"
  shows "within_limits portfolio policy acc'"
proof (cases "ra_approved acc' = ra_approved acc")
  case True
  from ev show ?thesis
  proof (cases rule: evaluate_intent_cases)
    case (rejected code t)
    then show ?thesis using wl by (simp add: within_limits_def Let_def)
  next
    case (approved q checks aq p n sl f acc1 t)
    then show ?thesis using True by (auto simp: book_approval_def Let_def split: if_splits option.splits)
  qed
next
  case False
  with ev ex show ?thesis
  proof (cases rule: evaluate_intent_exact)
    case (1 a p r ch)
    have pos: "0 < qty_rat (oi_Quantity i)" and costs: "sane_costs (rp_ExecutionCosts policy)"
      using ex by (simp_all add: exact_inputs_def qty_wf_pos)
    note cap = capIntent_ok [OF 1(9,5) costs pos] and gate = gate_intent_ok [OF 1(8)]
    let ?adv = "price_rat p * bps_rat (adverse_bps (oi_Side i) (rp_ExecutionCosts policy))"
    let ?fee = "1 + bps_rat (ecp_FeeBPS (rp_ExecutionCosts policy))"
    have u: "0 < price_rat p" using 1(5) by (rule price_wf_pos)
    have adv: "0 < ?adv" using u adverse_factor_pos [OF costs] by simp
    have ref: "ref_notional portfolio a \<le> r * price_rat p" "0 < ref_notional portfolio a"
      using 1(4,6,7) u by (simp_all add: ref_notional_def mult_right_mono)
    have an: "adverse_notional portfolio policy a \<le> r * ?adv"
    proof -
      have "adverse_notional portfolio policy a = qty_rat (oi_Quantity a) * ?adv"
        using 1(2,4) by (simp add: adverse_notional_def ref_notional_def)
      then show ?thesis using 1(7) adv by (simp add: mult_right_mono)
    qed
    have need: "adverse_notional portfolio policy a * ?fee \<le> r * ?adv * ?fee"
      using an fee_factor_pos [OF costs] by (simp add: mult_right_mono)
    have turnover: "active (rp_MaxTurnover policy) \<Longrightarrow> ra_turnover acc' \<le> limit_rat (rp_MaxTurnover policy)"
      using cap(3) an 1(10) by fastforce
    have gross: "active (rp_MaxGrossExposure policy) \<Longrightarrow> ra_gross acc' \<le> max (ra_gross acc) (limit_rat (rp_MaxGrossExposure policy))"
      using cap(4) ref 1(2,11) by (cases "oi_Side i = Buy") (fastforce simp: exposure_change_def)+
    have cash: "(\<Sum>j\<leftarrow>ra_approved acc'. cash_need portfolio policy b j) \<le> max 0 c"
      if b: "map_of (ra_cash (initial_acc portfolio policy)) b = Some c" for b c
    proof (cases "oi_Side i = Buy \<and> quote_of i = b")
      case True
      have "map_of (ra_cash acc) b = Some (c - (\<Sum>j\<leftarrow>ra_approved acc. cash_need portfolio policy b j))"
        using tm b by (simp add: totals_match_def Let_def)
      with cap(6) True need have "cash_need portfolio policy b a \<le> c - (\<Sum>j\<leftarrow>ra_approved acc. cash_need portfolio policy b j)"
        using 1(2,3) by (auto simp: cash_need_def)
      then show ?thesis using 1(1) by simp
    next
      case False
      then have "cash_need portfolio policy b a = 0" using 1(2,3) by (auto simp: cash_need_def)
      then show ?thesis using 1(1) wl b by (simp add: within_limits_def Let_def)
    qed
    have pos: "countNewBuys (ra_approved acc') (ps_Positions portfolio) = countNewBuys (ra_approved acc) (ps_Positions portfolio)
       + (if oi_Side i = Buy \<and> existingCount (ps_Positions portfolio) (oi_Instrument i) = 0 then 1 else 0)"
      using 1(1,2,3) by (simp add: countNewBuys_append)
    show ?thesis
      using wl cash turnover gross gate(5,6) pos 1(1) unfolding within_limits_def Let_def
      by (auto split: if_splits)
  qed
qed

lemma evaluate_all_limits:
  assumes "evaluate_all portfolio policy is acc = Inr acc'" and "exact_inputs portfolio policy is"
    and "totals_match portfolio policy acc" and "within_limits portfolio policy acc"
  shows "totals_match portfolio policy acc' \<and> within_limits portfolio policy acc'"
  using assms
proof (induction "is" arbitrary: acc)
  case (Cons i "is")
  from Cons.prems(1) obtain acc1 where s: "evaluate_intent portfolio policy acc i = Inr acc1"
    and r: "evaluate_all portfolio policy is acc1 = Inr acc'" by (auto simp: result_simps)
  have ex: "exact_inputs portfolio policy [i]" "exact_inputs portfolio policy is"
    using Cons.prems(2) by (auto simp: exact_inputs_def)
  show ?case
    using Cons.IH [OF r ex(2) totals_match_step [OF s ex(1) Cons.prems(3)] within_limits_step [OF s ex(1) Cons.prems(3,4)]] .
qed simp

lemma initial_within: "totals_match portfolio policy (initial_acc portfolio policy)"
    "within_limits portfolio policy (initial_acc portfolio policy)"
proof -
  have [simp]: "ra_approved (initial_acc portfolio policy) = []" by (simp add: initial_acc_def Let_def)
  show "totals_match portfolio policy (initial_acc portfolio policy)"
    by (simp add: totals_match_def Let_def option.map_ident)
  show "within_limits portfolio policy (initial_acc portfolio policy)"
    by (simp add: within_limits_def Let_def)
qed

section \<open>The engine\<close>

lemma Evaluate_Inr:
  assumes "Evaluate batch portfolio policy = Inr d"
  obtains acc where "evaluate_all portfolio policy (db_Intents batch) (initial_acc portfolio policy) = Inr acc"
    "NewDecisionBatch (ra_approved acc) = Inr (rd_approved d)" "rd_rejected d = sort_key or_OrderID (ra_rejected acc)"
    "rd_trace d = ra_traces acc" "rp_Validate policy = None"
  using assms by (auto simp: Evaluate_def result_simps NewRiskDecisionWithTrace_def NewRiskDecision_def split: option.splits)

lemma evaluate_all_total:
  "exact_inputs portfolio policy is \<Longrightarrow> totals_match portfolio policy acc \<Longrightarrow>
   \<exists>acc'. evaluate_all portfolio policy is acc = Inr acc'"
proof (induction "is" arbitrary: acc)
  case (Cons i "is")
  have ex: "exact_inputs portfolio policy [i]" "exact_inputs portfolio policy is"
    using Cons.prems(1) by (auto simp: exact_inputs_def)
  have "\<exists>acc1. evaluate_intent portfolio policy acc i = Inr acc1"
  proof -
    obtain q c ch where size: "size_intent portfolio policy acc i = Inr (q, c, ch)"
      using size_intent_total [OF ex(1)] by blast
    have v: "oi_Validate i = None" using ex(1) by (simp add: exact_inputs_def)
    show ?thesis
    proof (cases "c = '''' \<and> (\<exists>aq. quantityFromRat q = Inr aq)")
      case True
      then obtain aq where aq: "quantityFromRat q = Inr aq" and c: "c = ''''" by blast
      obtain p r n where s: "intentPrice i portfolio = Some p" "price_wf p" "q \<le> r"
        "capIntent (qty_rat (oi_Quantity i)) i p (ps_Positions portfolio) (ra_gross acc)
        (ra_turnover acc) (map_of (ra_cash acc) (quote_of i)) policy = Inr (r, '''')"
        using size_intent_ok [OF size [unfolded c] ex(1)] by blast
      have "0 < qty_rat (oi_Quantity i)" "sane_costs (rp_ExecutionCosts policy)"
        using ex(1) by (simp_all add: exact_inputs_def qty_wf_pos)
      then have "oi_Side i = Buy \<Longrightarrow> \<exists>c. map_of (ra_cash acc) (quote_of i) = Some c"
        using capIntent_ok(6) [OF s(4,2)] by blast
      then show ?thesis
        using size c aq s(1) approved_intent_fields [OF v quantityFromRat_Inr(2) [OF aq], of policy]
          quantityFromRat_positive [OF aq]
        by (auto simp: evaluate_intent_def Let_def book_approval_def split: prod.splits)
    next
      case False
      then show ?thesis using size
        by (auto simp: evaluate_intent_def Let_def risk_codes split: prod.splits sum.splits)
    qed
  qed
  then obtain acc1 where s: "evaluate_intent portfolio policy acc i = Inr acc1" by blast
  show ?case
    using Cons.IH [OF ex(2) totals_match_step [OF s ex(1) Cons.prems(2)]] s by simp
qed simp

lemma Evaluate_approved_sum:
  fixes f :: "OrderIntent \<Rightarrow> rat"
  assumes "NewDecisionBatch xs = Inr b"
  shows "(\<Sum>i\<leftarrow>db_Intents b. f i) = (\<Sum>i\<leftarrow>xs. f i)"
  using decision_batch.mset_items [OF assms] by (rule sum_list_perm)

lemma countNewBuys_perm:
  assumes "mset xs = mset ys"
  shows "countNewBuys xs pos = countNewBuys ys pos"
proof -
  have "countNewBuys zs pos = (\<Sum>i\<leftarrow>zs. if oi_Side i = Buy \<and> existingCount pos (oi_Instrument i) = 0 then 1 else 0)" for zs
    by (induction zs) simp_all
  then show ?thesis using sum_list_perm [OF assms] by simp
qed

end
