(* ===== verification/Samples.thy ===== *)
theory Samples
  imports Contracts
begin

text \<open>
  A small concrete trading situation on which the witnesses of the trading core evaluate the model: one
  instrument, two order intents, a portfolio with cash and a policy with every limit set.
\<close>

definition sample_instrument :: Instrument where
  "sample_instrument = \<lparr>inst_ID = ''BTCUSDT'', inst_BaseAsset = ''BTC'', inst_QuoteAsset = ''USDT'',
     inst_Venue = ''binance'', inst_VenueSymbol = ''BTCUSDT''\<rparr>"

definition sample_intent :: "OrderID \<Rightarrow> OrderSide \<Rightarrow> int \<Rightarrow> OrderIntent" where
  "sample_intent orderID side priority = \<lparr>oi_ID = orderID, oi_IdempotencyKey = ''key-'' @ orderID, oi_AccountID = ''acct'',
     oi_Instrument = sample_instrument, oi_Side = side, oi_Type = MarketOrder,
     oi_Quantity = Quantity (mk_dec 25 1), oi_LimitPrice = None,
     oi_ReferencePrice = Some (Price (mk_dec 100 0)), oi_SignalAt = 1, oi_DecisionAt = 2, oi_CreatedAt = 3,
     oi_ExecutionMode = ExecutionPaper, oi_QuantitySemantics = QuantityExact, oi_Priority = priority,
     oi_Reason = ''signal'', oi_Horizon = '''', oi_Versions = zero_VersionContext,
     oi_Provenance = zero_Provenance, oi_metadata = None\<rparr>"

definition sample_batch :: DecisionBatch where
  "sample_batch = DecisionBatch [sample_intent ''a'' Buy 1, sample_intent ''b'' Sell 2]"

definition sample_portfolio :: PortfolioSnapshot where
  "sample_portfolio = \<lparr>ps_AsOf = 5, ps_AccountID = ''acct'', ps_ExecutionMode = ExecutionPaper,
     ps_Cash = [(''USDT'', SignedAmount (mk_dec 120 0))], ps_Positions = [], ps_PendingOrders = [],
     ps_RiskState = zero_RiskState\<rparr>"

definition sample_costs :: ExecutionCostPolicy where
  "sample_costs = \<lparr>ecp_Version = ''costs-v1'', ecp_FeeBPS = 10, ecp_AdverseSlippageBPS = 5\<rparr>"

definition sample_policy :: RiskPolicy where
  "sample_policy = \<lparr>rp_Version = ''policy-v1'', rp_MaxPositions = 3,
     rp_MaxGrossExposure = SignedAmount (mk_dec 1000 0), rp_MaxPositionValue = SignedAmount (mk_dec 500 0),
     rp_MaxTurnover = SignedAmount (mk_dec 800 0), rp_CashReserve = SignedAmount (mk_dec 0 0),
     rp_MaxConcurrentOrders = 4, rp_PyramidingEnabled = False, rp_MaxPyramidLayers = 0,
     rp_LotSize = Quantity (mk_dec 1 3), rp_ExecutionCosts = sample_costs\<rparr>"

end
