(* ===== verification/Risk_Properties.thy ===== *)
theory Risk_Properties
  imports Risk_Laws Samples
begin

text \<open>
  The properties of the risk engine: every intent is decided exactly once, nothing is approved
  without execution authority, approved sizes and totals respect every limit of the policy, and
  the engine returns a decision on exact inputs. Two closed theorems record where it does not.
\<close>

section \<open>Origin of an approval\<close>

lemma evaluate_all_origin:
  assumes "evaluate_all portfolio policy is acc = Inr acc'" and "\<forall>i \<in> set is. oi_Validate i = None"
    and "a \<in> set (ra_approved acc')" and "a \<notin> set (ra_approved acc)"
  shows "\<exists>i \<in> set is. \<exists>aq apps ch. a = approved_intent i aq policy \<and> qty_Valid aq \<and>
     gate_intent i portfolio policy apps = (ch, '''') \<and> dec_wf (qty_Decimal aq)"
  using assms
proof (induction "is" arbitrary: acc)
  case (Cons i "is")
  from Cons.prems(1) obtain acc1 where s: "evaluate_intent portfolio policy acc i = Inr acc1"
    and r: "evaluate_all portfolio policy is acc1 = Inr acc'" by (auto simp: result_simps)
  have v: "oi_Validate i = None" and v': "\<forall>i \<in> set is. oi_Validate i = None" using Cons.prems(2) by simp_all
  show ?case
  proof (cases "a \<in> set (ra_approved acc1)")
    case True
    then obtain aq ch where "a = approved_intent i aq policy" "qty_Valid aq" "dec_wf (qty_Decimal aq)"
      "gate_intent i portfolio policy (ra_approved acc) = (ch, '''')"
      using evaluate_intent_partition [OF s v] Cons.prems(4) by auto
    then show ?thesis by auto
  next
    case False
    then show ?thesis using Cons.IH [OF r v' Cons.prems(3)] by auto
  qed
qed simp

lemma evaluate_all_sizes:
  assumes "evaluate_all portfolio policy is acc = Inr acc'" and "exact_inputs portfolio policy is"
    and "a \<in> set (ra_approved acc')" and "a \<notin> set (ra_approved acc)"
  shows "\<exists>i \<in> set is. oi_ID a = oi_ID i \<and> oi_Side a = oi_Side i \<and> 0 < qty_rat (oi_Quantity a) \<and>
     qty_rat (oi_Quantity a) \<le> qty_rat (oi_Quantity i) \<and>
     (oi_Side i = Sell \<longrightarrow> qty_rat (oi_Quantity a) \<le> positionQuantity (ps_Positions portfolio) (oi_Instrument i)) \<and>
     (oi_Side i = Buy \<longrightarrow> active (rp_MaxPositionValue policy) \<longrightarrow>
        instrumentExposure (ps_Positions portfolio) (oi_Instrument i) + ref_notional portfolio a
          \<le> limit_rat (rp_MaxPositionValue policy))"
  using assms
proof (induction "is" arbitrary: acc)
  case (Cons i "is")
  from Cons.prems(1) obtain acc1 where s: "evaluate_intent portfolio policy acc i = Inr acc1"
    and r: "evaluate_all portfolio policy is acc1 = Inr acc'" by (auto simp: result_simps)
  have ex: "exact_inputs portfolio policy [i]" "exact_inputs portfolio policy is"
    using Cons.prems(2) by (auto simp: exact_inputs_def)
  show ?case
  proof (cases "a \<in> set (ra_approved acc1)")
    case False
    then show ?thesis using Cons.IH [OF r ex(2) Cons.prems(3)] by auto
  next
    case True
    have v: "oi_Validate i = None" using ex(1) by (simp add: exact_inputs_def)
    have new: "ra_approved acc1 \<noteq> ra_approved acc" using True Cons.prems(4) by auto
    have ID: "oi_ID a = oi_ID i"
      using evaluate_intent_partition [OF s v] True Cons.prems(4) by (auto simp: approved_intent_fields [OF v])
    from s ex(1) new show ?thesis
    proof (cases rule: evaluate_intent_exact)
      case (1 b p rr ch)
      then have ab: "b = a" using True Cons.prems(4) by auto
      have pos: "0 < qty_rat (oi_Quantity i)" and costs: "sane_costs (rp_ExecutionCosts policy)"
        using ex(1) by (simp_all add: exact_inputs_def qty_wf_pos)
      note cap = capIntent_ok [OF 1(9,5) costs pos]
      have "ref_notional portfolio a \<le> rr * price_rat p"
        using 1(4,7) price_wf_pos [OF 1(5)] ab by (simp add: ref_notional_def mult_right_mono)
      then show ?thesis
        using 1 cap(2,5,7) ID ab by (intro bexI [of _ i]) fastforce+
    qed
  qed
qed simp

lemma Evaluate_returns:
  assumes "exact_inputs portfolio policy (db_Intents batch)" and "rp_Validate policy = None"
  shows "\<exists>d. Evaluate batch portfolio policy = Inr d"
proof -
  obtain acc where acc: "evaluate_all portfolio policy (db_Intents batch) (initial_acc portfolio policy) = Inr acc"
    using evaluate_all_total [OF assms(1) initial_within(1)] by blast
  have "\<forall>i \<in> set (db_Intents batch). oi_Validate i = None"
    using assms(1) by (auto simp: exact_inputs_def list_all_iff)
  then have "\<forall>a \<in> set (ra_approved acc). oi_Validate a = None"
    using evaluate_all_partition [OF acc] by (simp add: initial_acc_def Let_def)
  then obtain b where "NewDecisionBatch (ra_approved acc) = Inr b" using decision_batch.build_total by blast
  with acc assms(2) show ?thesis by (simp add: Evaluate_def)
qed

lemma batch_valid: "NewDecisionBatch is = Inr b \<Longrightarrow> \<forall>i \<in> set (db_Intents b). oi_Validate i = None"
  using decision_batch.build_iff decision_batch.set_items by blast

lemma sample_risk:
  "rp_Validate sample_policy = None"
  "exact_inputs sample_portfolio sample_policy (db_Intents sample_batch)"
  "NewDecisionBatch (db_Intents sample_batch) = Inr sample_batch"
  by code_simp+

lemma Evaluate_decides_once:
  assumes "NewDecisionBatch is = Inr batch" and "Evaluate batch portfolio policy = Inr d"
  shows "mset (map oi_ID (db_Intents (rd_Approved d))) + mset (map or_OrderID (rd_Rejected d)) = mset (map oi_ID is)"
proof -
  from assms(2) obtain acc where acc: "evaluate_all portfolio policy (db_Intents batch) (initial_acc portfolio policy) = Inr acc"
    and ap: "NewDecisionBatch (ra_approved acc) = Inr (rd_approved d)" and rej: "rd_rejected d = sort_key or_OrderID (ra_rejected acc)"
    by (rule Evaluate_Inr)
  have batch: "mset (db_Intents batch) = mset is" using assms(1) by (rule decision_batch.mset_items)
  have valid: "\<forall>i \<in> set (db_Intents batch). oi_Validate i = None"
    using assms(1) by (rule batch_valid)
  have "mset (map oi_ID (ra_approved acc)) + mset (map or_OrderID (ra_rejected acc)) = mset (map oi_ID (db_Intents batch))"
    using evaluate_all_partition [OF acc valid] by (simp add: initial_acc_def Let_def)
  moreover have "rd_Approved d = rd_approved d" using rd_Approved_id [OF ap] by simp
  ultimately show ?thesis
    using rej batch decision_batch.mset_items [OF ap] by (simp add: rd_Rejected_def)
qed

definition unpriced_intent :: OrderIntent where
  "unpriced_intent = (sample_intent ''a'' Buy 1)\<lparr>oi_ReferencePrice := Some (Price zero_Decimal)\<rparr>"

section \<open>Properties\<close>

text \<open>The risk engine decides every intent of a batch exactly once: the identifiers of the approved
  intents together with those of the rejections are, as a multiset, the identifiers of the batch.\<close>

theorem Evaluate_partition:
  assumes "NewDecisionBatch is = Inr batch" and "Evaluate batch portfolio policy = Inr d"
  shows "mset (map oi_ID (db_Intents (rd_Approved d))) + mset (map or_OrderID (rd_Rejected d)) = mset (map oi_ID is)"
  using assms by (rule Evaluate_decides_once)

theorem Evaluate_partition_witness:
  "\<exists>d. Evaluate sample_batch sample_portfolio sample_policy = Inr d \<and>
     mset (map oi_ID (db_Intents (rd_Approved d))) + mset (map or_OrderID (rd_Rejected d)) = {#''a'', ''b''#}"
proof -
  obtain d where d: "Evaluate sample_batch sample_portfolio sample_policy = Inr d"
    using Evaluate_returns [OF sample_risk(2,1)] by blast
  with Evaluate_partition [OF sample_risk(3) d] show ?thesis by (auto simp: sample_batch_def sample_intent_def)
qed

text \<open>Nothing is approved without authority: an approved intent comes from an intent of the batch whose
  mode is none of research, shadow and live dry run, whose instrument has no pending order, and
  which does not add to an existing position unless the policy allows pyramiding; it carries the
  policy version and the cost reservation the brokers check.\<close>

theorem Evaluate_authority:
  assumes "NewDecisionBatch is = Inr batch" and "Evaluate batch portfolio policy = Inr d"
    and "a \<in> set (db_Intents (rd_Approved d))"
  shows "oi_ExecutionMode a \<notin> {ExecutionResearch, ExecutionShadow, ExecutionLiveDryRun} \<and>
    \<not> pendingConflict (ps_PendingOrders portfolio) a \<and>
    (oi_Side a = Buy \<longrightarrow> \<not> rp_PyramidingEnabled policy \<longrightarrow>
       existingCount (ps_Positions portfolio) (oi_Instrument a) \<le> 0) \<and>
    vc_Policy (oi_Versions a) = rp_Version policy \<and>
    meta_at (oi_Metadata a) ''cost_policy_version'' = ecp_Version (rp_ExecutionCosts policy) \<and>
    meta_at (oi_Metadata a) ''fee_bps'' = big_string (sint (ecp_FeeBPS (rp_ExecutionCosts policy))) \<and>
    meta_at (oi_Metadata a) ''slippage_bps'' = big_string (sint (ecp_AdverseSlippageBPS (rp_ExecutionCosts policy)))"
proof -
  from assms(2) obtain acc where acc: "evaluate_all portfolio policy (db_Intents batch) (initial_acc portfolio policy) = Inr acc"
    and ap: "NewDecisionBatch (ra_approved acc) = Inr (rd_approved d)" by (rule Evaluate_Inr)
  have valid: "\<forall>i \<in> set (db_Intents batch). oi_Validate i = None" using batch_valid [OF assms(1)] .
  have "a \<in> set (ra_approved acc)"
    using assms(3) decision_batch.set_items [OF ap] rd_Approved_id [OF ap] by simp
  then obtain i aq apps ch where i: "i \<in> set (db_Intents batch)" "a = approved_intent i aq policy" "qty_Valid aq"
    and g: "gate_intent i portfolio policy apps = (ch, '''')"
    using evaluate_all_origin [OF acc valid, of a] by (auto simp: initial_acc_def Let_def)
  have v: "oi_Validate i = None" using valid i(1) by blast
  note f = approved_intent_fields [OF v i(3), of policy]
  show ?thesis
    unfolding i(2) oi_Metadata_def
    using gate_intent_ok(1,3,4) [OF g] by (simp add: f pendingConflict_def)
qed

theorem Evaluate_authority_witness:
  "\<exists>d. Evaluate sample_batch sample_portfolio sample_policy = Inr d \<and>
     (\<forall>a \<in> set (db_Intents (rd_Approved d)). oi_ExecutionMode a \<noteq> ExecutionShadow \<and>
        vc_Policy (oi_Versions a) = ''policy-v1'')"
proof -
  obtain d where d: "Evaluate sample_batch sample_portfolio sample_policy = Inr d"
    using Evaluate_returns [OF sample_risk(2,1)] by blast
  show ?thesis
    by (rule exI [of _ d]) (use d Evaluate_authority [OF sample_risk(3) d] in \<open>auto simp: sample_policy_def\<close>)
qed

text \<open>Sizes: on exact inputs an approved intent has the identifier and side of a requested one and a
  positive quantity not above the requested one; a sale does not exceed the position, and a buy
  keeps the instrument's exposure within the position limit.\<close>

theorem Evaluate_sizes:
  assumes "Evaluate batch portfolio policy = Inr d" and "exact_inputs portfolio policy (db_Intents batch)"
    and "a \<in> set (db_Intents (rd_Approved d))"
  shows "\<exists>i \<in> set (db_Intents batch). oi_ID a = oi_ID i \<and> oi_Side a = oi_Side i \<and> 0 < qty_rat (oi_Quantity a) \<and>
     qty_rat (oi_Quantity a) \<le> qty_rat (oi_Quantity i) \<and>
     (oi_Side i = Sell \<longrightarrow> qty_rat (oi_Quantity a) \<le> positionQuantity (ps_Positions portfolio) (oi_Instrument i)) \<and>
     (oi_Side i = Buy \<longrightarrow> active (rp_MaxPositionValue policy) \<longrightarrow>
        instrumentExposure (ps_Positions portfolio) (oi_Instrument i) + ref_notional portfolio a
          \<le> limit_rat (rp_MaxPositionValue policy))"
proof -
  from assms(1) obtain acc where acc: "evaluate_all portfolio policy (db_Intents batch) (initial_acc portfolio policy) = Inr acc"
    and ap: "NewDecisionBatch (ra_approved acc) = Inr (rd_approved d)" by (rule Evaluate_Inr)
  have "a \<in> set (ra_approved acc)"
    using assms(3) decision_batch.set_items [OF ap] rd_Approved_id [OF ap] by simp
  then show ?thesis
    using evaluate_all_sizes [OF acc assms(2)] by (simp add: initial_acc_def Let_def)
qed

theorem Evaluate_sizes_witness:
  "\<exists>d. Evaluate sample_batch sample_portfolio sample_policy = Inr d \<and>
     (\<forall>a \<in> set (db_Intents (rd_Approved d)). 0 < qty_rat (oi_Quantity a) \<and> qty_rat (oi_Quantity a) \<le> 5/2)"
proof -
  obtain d where d: "Evaluate sample_batch sample_portfolio sample_policy = Inr d"
    using Evaluate_returns [OF sample_risk(2,1)] by blast
  have q: "\<forall>i \<in> set (db_Intents sample_batch). qty_rat (oi_Quantity i) = 5/2"
    by (simp add: sample_batch_def sample_intent_def decimalRat_mk)
  have "0 < qty_rat (oi_Quantity a) \<and> qty_rat (oi_Quantity a) \<le> 5/2" if "a \<in> set (db_Intents (rd_Approved d))" for a
    using Evaluate_sizes [OF d sample_risk(2) that] q by auto
  with d show ?thesis by blast
qed

text \<open>C3: Limits: on exact inputs the approved intents together stay within the policy. The cash the buys
  of a quote asset need (adverse price and fee included) is at most the cash above the reserve;
  gross exposure and turnover end at most at their limit, or where they started when they were already above
  it; the numbers of orders and of positions likewise.\<close>

theorem Evaluate_limits:
  assumes "Evaluate batch portfolio policy = Inr d" and "exact_inputs portfolio policy (db_Intents batch)"
  defines "approved \<equiv> db_Intents (rd_Approved d)" and "init \<equiv> initial_acc portfolio policy"
  shows "(\<forall>a. (\<Sum>i\<leftarrow>approved. cash_need portfolio policy a i)
       \<le> (case map_of (ra_cash init) a of None \<Rightarrow> 0 | Some c \<Rightarrow> max 0 c)) \<and>
    (active (rp_MaxGrossExposure policy) \<longrightarrow>
       ra_gross init + (\<Sum>i\<leftarrow>approved. exposure_change portfolio i)
         \<le> max (ra_gross init) (limit_rat (rp_MaxGrossExposure policy))) \<and>
    (active (rp_MaxTurnover policy) \<longrightarrow>
       ra_turnover init + (\<Sum>i\<leftarrow>approved. adverse_notional portfolio policy i)
         \<le> max (ra_turnover init) (limit_rat (rp_MaxTurnover policy))) \<and>
    (0 < rp_MaxConcurrentOrders policy \<longrightarrow>
       int (length (ps_PendingOrders portfolio)) + int (length approved)
         \<le> max (int (length (ps_PendingOrders portfolio))) (rp_MaxConcurrentOrders policy)) \<and>
    (0 < rp_MaxPositions policy \<longrightarrow>
       int (length (ps_Positions portfolio)) + countNewBuys approved (ps_Positions portfolio)
         \<le> max (int (length (ps_Positions portfolio))) (rp_MaxPositions policy))"
proof -
  from assms(1) obtain acc where acc: "evaluate_all portfolio policy (db_Intents batch) init = Inr acc"
    and ap: "NewDecisionBatch (ra_approved acc) = Inr (rd_approved d)" unfolding init_def by (rule Evaluate_Inr)
  have inv: "totals_match portfolio policy acc" "within_limits portfolio policy acc"
    using evaluate_all_limits [OF acc assms(2)] initial_within by (auto simp: init_def)
  have m: "mset approved = mset (ra_approved acc)"
    using decision_batch.mset_items [OF ap] rd_Approved_id [OF ap] by (simp add: approved_def)
  have sums: "(\<Sum>i\<leftarrow>approved. f i) = (\<Sum>i\<leftarrow>ra_approved acc. f i)" for f :: "OrderIntent \<Rightarrow> rat"
    using m by (rule sum_list_perm)
  have len: "length approved = length (ra_approved acc)" using m by (rule mset_eq_length)
  show ?thesis
    using inv unfolding totals_match_def within_limits_def Let_def init_def [symmetric] sums len
      countNewBuys_perm [OF m]
    by (auto split: option.splits)
qed

theorem Evaluate_limits_witness:
  "\<exists>d. Evaluate sample_batch sample_portfolio sample_policy = Inr d \<and>
     (\<Sum>i\<leftarrow>db_Intents (rd_Approved d). cash_need sample_portfolio sample_policy ''USDT'' i) \<le> 120"
proof -
  obtain d where d: "Evaluate sample_batch sample_portfolio sample_policy = Inr d"
    using Evaluate_returns [OF sample_risk(2,1)] by blast
  have c: "map_of (ra_cash (initial_acc sample_portfolio sample_policy)) ''USDT'' = Some 120" by code_simp
  have "(\<Sum>i\<leftarrow>db_Intents (rd_Approved d). cash_need sample_portfolio sample_policy ''USDT'' i)
      \<le> (case map_of (ra_cash (initial_acc sample_portfolio sample_policy)) ''USDT'' of None \<Rightarrow> 0 | Some c \<Rightarrow> max 0 c)"
    using Evaluate_limits [OF d sample_risk(2)] by blast
  with d c show ?thesis by auto
qed

text \<open>C14: The engine returns: a valid policy and exact inputs always give a decision, never an error or a panic.\<close>

theorem Evaluate_total:
  assumes "rp_Validate policy = None" and "exact_inputs portfolio policy (db_Intents batch)"
  shows "\<exists>d. Evaluate batch portfolio policy = Inr d"
  using assms(2,1) by (rule Evaluate_returns)

theorem Evaluate_total_witness: "\<exists>d. Evaluate sample_batch sample_portfolio sample_policy = Inr d"
  using Evaluate_total [OF sample_risk(1,2)] .

text \<open>A validated batch can still make the engine panic: the reference price of a market order is not
  validated, and a zero price is a divisor of the caps.\<close>

theorem Evaluate_zero_price_panics:
  "NewDecisionBatch [unpriced_intent] = Inr (DecisionBatch [unpriced_intent]) \<and>
   Evaluate (DecisionBatch [unpriced_intent]) sample_portfolio sample_policy = Inl (Panic ''division by zero'')"
proof
  show "NewDecisionBatch [unpriced_intent] = Inr (DecisionBatch [unpriced_intent])" by code_simp
  have "size_intent sample_portfolio sample_policy (initial_acc sample_portfolio sample_policy) unpriced_intent
      = Inl (Panic ''division by zero'')"
    by code_simp
  then show "Evaluate (DecisionBatch [unpriced_intent]) sample_portfolio sample_policy = Inl (Panic ''division by zero'')"
    by (simp add: Evaluate_def evaluate_intent_def Let_def sample_risk(1))
qed

text \<open>The bound on the basis points is computed in 64 bits: two costs of 2^62 basis points sum to a
  negative number and the policy passes.\<close>

theorem ecp_Validate_overflow:
  "ecp_Validate \<lparr>ecp_Version = ''v'', ecp_FeeBPS = 2 ^ 62, ecp_AdverseSlippageBPS = 2 ^ 62\<rparr> = None"
  by code_simp

end
