(* ===== verification/Risk_Liveness.thy ===== *)
theory Risk_Liveness
  imports Risk_Properties
begin

text \<open>
  The other direction of the risk engine's limits: an intent that passes the gates and for which every limit leaves room
  (\<open>has_room\<close>) is approved with exactly its requested quantity. So the engine refuses or shrinks an order only when it
  must.
\<close>

section \<open>Room under every limit\<close>

definition room :: "SignedAmount \<Rightarrow> rat \<Rightarrow> rat \<Rightarrow> bool" where
  "room limit used need \<longleftrightarrow> (active limit \<longrightarrow> used + need \<le> limit_rat limit)"

definition has_room :: "PortfolioSnapshot \<Rightarrow> RiskPolicy \<Rightarrow> risk_acc \<Rightarrow> OrderIntent \<Rightarrow> bool" where
  "has_room portfolio policy acc i \<longleftrightarrow>
     (let q = qty_rat (oi_Quantity i); value = q * price_of portfolio i; costs = rp_ExecutionCosts policy;
          adverse = value * bps_rat (adverse_bps (oi_Side i) costs)
      in (if oi_Side i = Buy
          then room (rp_MaxPositionValue policy) (instrumentExposure (ps_Positions portfolio) (oi_Instrument i)) value \<and>
               room (rp_MaxGrossExposure policy) (ra_gross acc) value \<and>
               (\<exists>c. map_of (ra_cash acc) (quote_of i) = Some c \<and> adverse * bps_rat (10000 + ecp_FeeBPS costs) \<le> c)
          else q \<le> positionQuantity (ps_Positions portfolio) (oi_Instrument i)) \<and>
         room (rp_MaxTurnover policy) (ra_turnover acc) adverse \<and>
         (\<exists>k. q = of_int k * qty_rat (rp_LotSize policy)))"

lemma capBy_room:
  assumes "room limit used (q * u)" and "0 < u" and "0 < q"
  shows "capBy limit used u code q = Inr (q, '''')"
proof (cases "active limit")
  case True
  then have le: "q * u \<le> limit_rat limit - used" using assms(1) by (simp add: room_def)
  have "0 < q * u" using assms(2,3) by simp
  then have "0 < limit_rat limit - used" using le by linarith
  moreover have "q \<le> (limit_rat limit - used) / u" using le assms(2) by (simp only: pos_le_divide_eq)
  ultimately show ?thesis using True assms(2) by (simp add: capBy_def rat_quo_def active_def Let_def)
qed (simp add: capBy_def active_def)

lemma capIntent_room:
  assumes room: "has_room portfolio policy acc i" and p: "intentPrice i portfolio = Some p" "price_wf p"
    and c: "sane_costs (rp_ExecutionCosts policy)" and q: "0 < qty_rat (oi_Quantity i)"
  shows "capIntent (qty_rat (oi_Quantity i)) i p (ps_Positions portfolio) (ra_gross acc) (ra_turnover acc)
    (map_of (ra_cash acc) (quote_of i)) policy = Inr (qty_rat (oi_Quantity i), '''')"
proof -
  let ?q = "qty_rat (oi_Quantity i)" and ?costs = "rp_ExecutionCosts policy"
  let ?adverse = "price_rat p * bps_rat (adverse_bps (oi_Side i) ?costs)"
  have price: "price_of portfolio i = price_rat p" using p(1) by (simp add: price_of_def)
  have pos: "0 < price_rat p" "0 < ?adverse" "0 < ?adverse * bps_rat (10000 + ecp_FeeBPS ?costs)"
    using price_wf_pos [OF p(2)] adverse_factor_pos [OF c, of "oi_Side i"] fee_factor_pos [OF c] fee_factor [OF c] by simp_all
  have turnover: "capBy (rp_MaxTurnover policy) (ra_turnover acc) ?adverse RiskTurnover ?q = Inr (?q, '''')"
    using room pos(2) q by (intro capBy_room) (simp_all add: has_room_def Let_def price mult.assoc)
  show ?thesis
  proof (cases "oi_Side i = Buy")
    case True
    have caps: "capBy (rp_MaxPositionValue policy) (instrumentExposure (ps_Positions portfolio) (oi_Instrument i))
        (price_rat p) RiskPositionExposure ?q = Inr (?q, '''')"
      "capBy (rp_MaxGrossExposure policy) (ra_gross acc) (price_rat p) RiskTotalExposure ?q = Inr (?q, '''')"
      using room pos(1) q True by (intro capBy_room; simp add: has_room_def Let_def price)+
    obtain cash where cash: "map_of (ra_cash acc) (quote_of i) = Some cash"
      and need: "?q * (?adverse * bps_rat (10000 + ecp_FeeBPS ?costs)) \<le> cash"
      using room True by (auto simp: has_room_def Let_def price mult.assoc)
    have "0 < ?q * (?adverse * bps_rat (10000 + ecp_FeeBPS ?costs))" using q pos(3) by (rule mult_pos_pos)
    then have "0 < cash" using need by linarith
    moreover have "?q \<le> cash / (?adverse * bps_rat (10000 + ecp_FeeBPS ?costs))"
      using need pos(3) by (simp only: pos_le_divide_eq)
    moreover have "?adverse * bps_rat (10000 + ecp_FeeBPS ?costs) \<noteq> 0" using pos(3) by (rule less_imp_neq [symmetric])
    ultimately show ?thesis
      using True caps turnover cash q
      by (simp add: capIntent_def unless_code_def Let_def rat_quo_def mult.assoc)
  next
    case False
    then show ?thesis
      using room turnover q by (simp add: capIntent_def unless_code_def Let_def has_room_def)
  qed
qed

lemma lots_normalized:
  assumes "qty_wf lot" and "0 < q" and "q = of_int k * qty_rat lot"
  shows "normalize_or_code q lot = Inr (q, '''')"
proof -
  have lot: "0 < qty_rat lot" using assms(1) by (rule qty_wf_pos)
  have "q / qty_rat lot = of_int k" using assms(3) lot by simp
  moreover have "1 \<le> k"
    using assms(2,3) lot by (simp add: zero_less_mult_iff)
  then have "qty_rat lot \<le> q" using lot unfolding assms(3) by simp
  ultimately have "normalizedQuantity q lot = Inr q"
    using normalizedQuantity_lot [OF assms(1,2)] assms(3) by simp
  then show ?thesis by (simp add: normalize_or_code_def)
qed

lemma evaluate_intent_room:
  assumes ex: "exact_inputs portfolio policy [i]" and gate: "gate_intent i portfolio policy (ra_approved acc) = (ch, '''')"
    and room: "has_room portfolio policy acc i"
  shows "\<exists>acc' aq. evaluate_intent portfolio policy acc i = Inr acc' \<and> ra_rejected acc' = ra_rejected acc
    \<and> ra_approved acc' = ra_approved acc @ [approved_intent i aq policy] \<and> qty_wf aq \<and> qty_rat aq = qty_rat (oi_Quantity i)"
proof -
  let ?q = "qty_rat (oi_Quantity i)"
  obtain p where p: "intentPrice i portfolio = Some p" using gate_intent_ok(2) [OF gate] by blast
  have in_: "price_wf p" "sane_costs (rp_ExecutionCosts policy)" "qty_wf (rp_LotSize policy)" "0 < ?q"
    "qty_wf (oi_Quantity i)" "oi_Validate i = None"
    using ex p qty_wf_pos by (simp_all add: exact_inputs_def)
  obtain k where k: "?q = of_int k * qty_rat (rp_LotSize policy)" using room by (auto simp: has_room_def Let_def)
  have size: "\<exists>checks. size_intent portfolio policy acc i = Inr (?q, '''', checks)"
    using capIntent_room [OF room p in_(1,2,4)] lots_normalized [OF in_(3,4) k]
    by (simp add: size_intent_def gate p unless_code_def Let_def)
  obtain n where n: "?q * ulps = of_int n" using in_(5) decimalRat_grid by (auto simp: qty_wf_def)
  obtain aq where aq: "quantityFromRat ?q = Inr aq" "qty_rat aq = ?q" using quantityFromRat_pos [OF in_(4) n] by blast
  have wf: "qty_wf aq" using quantityFromRat_Inr(1,2) [OF aq(1)] by (simp add: qty_wf_def)
  have "qty_Valid aq" using wf by (simp add: qty_wf_def)
  note f = approved_intent_fields [OF in_(6) this, of policy]
  have cash: "oi_Side i = Buy \<Longrightarrow> \<exists>c. map_of (ra_cash acc) (quote_of i) = Some c"
    using room by (auto simp: has_room_def Let_def)
  have "\<exists>acc'. evaluate_intent portfolio policy acc i = Inr acc' \<and> ra_rejected acc' = ra_rejected acc
    \<and> ra_approved acc' = ra_approved acc @ [approved_intent i aq policy]"
    using size cash
    by (auto simp: evaluate_intent_def Let_def aq(1) p in_(4) book_approval_def f split: prod.splits)
  then show ?thesis using wf aq(2) by blast
qed

lemma Evaluate_room:
  assumes "rp_Validate policy = None" and "exact_inputs portfolio policy [i]"
    and "gate_intent i portfolio policy [] = (ch, [])" and "has_room portfolio policy (initial_acc portfolio policy) i"
  obtains d aq where "Evaluate (DecisionBatch [i]) portfolio policy = Inr d" "db_Intents (rd_Approved d) = [approved_intent i aq policy]"
    "rd_Rejected d = []" "qty_wf aq" "qty_rat aq = qty_rat (oi_Quantity i)" "oi_Validate i = None" "qty_Valid aq"
proof -
  have start: "ra_approved (initial_acc portfolio policy) = []" "ra_rejected (initial_acc portfolio policy) = []"
    by (simp_all add: initial_acc_def Let_def)
  obtain acc aq where acc: "evaluate_intent portfolio policy (initial_acc portfolio policy) i = Inr acc" "ra_rejected acc = []"
    "ra_approved acc = [approved_intent i aq policy]" and aq: "qty_wf aq" "qty_rat aq = qty_rat (oi_Quantity i)"
    using evaluate_intent_room [OF assms(2) _ assms(4), of ch] assms(3) start by auto
  have v: "oi_Validate i = None" "qty_Valid aq" using assms(2) aq(1) by (simp_all add: exact_inputs_def qty_wf_def)
  have "NewDecisionBatch [approved_intent i aq policy] = Inr (DecisionBatch [approved_intent i aq policy])"
    using approved_intent_fields(1) [OF v, of policy] by (simp add: NewDecisionBatch_def)
  then show thesis
    using acc assms(1) that [OF _ _ _ aq v]
    by (simp add: Evaluate_def NewRiskDecisionWithTrace_def NewRiskDecision_def rd_Approved_def rd_Rejected_def)
qed


definition small_intent :: OrderIntent where
  "small_intent = (sample_intent ''a'' Buy 1)\<lparr>oi_Quantity := Quantity (mk_dec 1 0), oi_AccountID := ''primary''\<rparr>"

lemma small_intent_room:
  "exact_inputs sample_portfolio sample_policy [small_intent]"
  "gate_intent small_intent sample_portfolio sample_policy [] = ([''execution_authority''], '''')"
  "has_room sample_portfolio sample_policy (initial_acc sample_portfolio sample_policy) small_intent"
proof -
  show "exact_inputs sample_portfolio sample_policy [small_intent]" by code_simp
  show "gate_intent small_intent sample_portfolio sample_policy [] = ([''execution_authority''], '''')" by code_simp
  have sint: "sint (adverse_bps Buy sample_costs) = 10005" "sint (10000 + ecp_FeeBPS sample_costs) = 10010" by code_simp+
  have bps: "bps_rat (adverse_bps Buy sample_costs) = 10005 / 10000" "bps_rat (10000 + ecp_FeeBPS sample_costs) = 10010 / 10000"
    unfolding bps_rat_def sint by simp_all
  have price: "price_of sample_portfolio small_intent = 100"
    by (simp add: price_of_def intentPrice_def small_intent_def sample_intent_def decimalRat_mk)
  have empty: "ps_Positions sample_portfolio = []" by (simp add: sample_portfolio_def)
  have acc: "ra_gross (initial_acc sample_portfolio sample_policy) = 0" "ra_turnover (initial_acc sample_portfolio sample_policy) = 0"
    "map_of (ra_cash (initial_acc sample_portfolio sample_policy)) ''USDT'' = Some 120"
    by (simp_all add: initial_acc_def sample_portfolio_def zero_RiskState_def sample_policy_def decimalRat_mk portfolioGross_def Let_def)
  have limits: "limit_rat (rp_MaxPositionValue sample_policy) = 500" "limit_rat (rp_MaxGrossExposure sample_policy) = 1000"
    "limit_rat (rp_MaxTurnover sample_policy) = 800" "qty_rat (rp_LotSize sample_policy) = 1 / 1000"
    "rp_ExecutionCosts sample_policy = sample_costs"
    by (simp_all add: sample_policy_def decimalRat_mk)
  have fields: "oi_Side small_intent = Buy" "qty_rat (oi_Quantity small_intent) = 1" "quote_of small_intent = ''USDT''"
    by (simp_all add: small_intent_def sample_intent_def sample_instrument_def decimalRat_mk)
  have lots: "\<exists>k. (1::rat) = of_int k / 1000" by (rule exI [of _ 1000]) simp
  show "has_room sample_portfolio sample_policy (initial_acc sample_portfolio sample_policy) small_intent"
    using lots unfolding has_room_def Let_def fields price empty acc limits bps room_def by simp
qed


end
