(* ===== verification/Exits.thy ===== *)
theory Exits
  imports Snapshots
begin

text \<open>
  \<^verbatim>\<open>internal/tradingcore/exits.go\<close> and \<^verbatim>\<open>rollout.go\<close>: the precedence of exit triggers shared by every
  execution mode, and the authority of a model in a mode and rollout state.
\<close>

section \<open>Exit lifecycle\<close>

record ExitTriggerInput =
  et_HardStop :: bool
  et_TakeProfit :: bool
  et_ATRTrailing :: bool
  et_PercentTrailing :: bool
  et_FallbackStop :: bool
  et_FallbackTakeProfit :: bool
  et_TimeStop :: bool
  et_Signal :: bool
  et_AtLoss :: bool
  et_AllowSellAtLoss :: bool

record ExitDecision =
  ed_Exit :: bool
  ed_Reason :: string
  ed_Simultaneous :: "string list"

text \<open>The table of triggers: active flag, reason, protective flag.\<close>

definition exit_triggers :: "ExitTriggerInput \<Rightarrow> (bool \<times> string \<times> bool) list" where
  "exit_triggers input =
     [(et_HardStop input, ''stop_loss'', True), (et_TakeProfit input, ''take_profit'', True),
      (et_ATRTrailing input, ''atr_trailing_stop'', True), (et_PercentTrailing input, ''trailing_stop'', True),
      (et_FallbackStop input, ''stop_loss'', True), (et_FallbackTakeProfit input, ''take_profit'', True),
      (et_TimeStop input, ''time_stop'', False), (et_Signal input, ''signal_exit'', False)]"

definition exit_step :: "ExitTriggerInput \<Rightarrow> ExitDecision \<Rightarrow> bool \<times> string \<times> bool \<Rightarrow> ExitDecision" where
  "exit_step input res trigger =
     (case trigger of (active, reason, protective) \<Rightarrow>
      if \<not> active \<or> (\<not> protective \<and> et_AtLoss input \<and> \<not> et_AllowSellAtLoss input) then res
      else
        let res = res\<lparr>ed_Simultaneous := ed_Simultaneous res @ [reason]\<rparr>
        in if \<not> ed_Exit res then res\<lparr>ed_Exit := True, ed_Reason := reason\<rparr> else res)"

definition EvaluateExitLifecycle :: "ExitTriggerInput \<Rightarrow> ExitDecision" where
  "EvaluateExitLifecycle input =
     foldl (exit_step input) \<lparr>ed_Exit = False, ed_Reason = '''', ed_Simultaneous = []\<rparr> (exit_triggers input)"

section \<open>Model authority\<close>

record ModelAuthority =
  ma_UseModel :: bool
  ma_Observe :: bool
  ma_Blocked :: bool
  ma_Reason :: string

definition ResolveModelAuthority :: "ExecutionMode \<Rightarrow> string \<Rightarrow> string \<Rightarrow> bool \<Rightarrow> ModelAuthority" where
  "ResolveModelAuthority mode rolloutState fallback0 modelAvailable =
     (let state = to_lower (trim_space rolloutState);
          fallback = to_lower (trim_space fallback0);
          res = \<lparr>ma_UseModel = False, ma_Observe = modelAvailable, ma_Blocked = False, ma_Reason = ''''\<rparr>;
          authorized =
            (if mode = ExecutionResearch \<or> mode = ExecutionShadow then False
             else if mode = ExecutionPaper
             then state = ''paper'' \<or> state = ''limited_live'' \<or> state = ''full_live''
             else if mode = ExecutionLimitedLive then state = ''limited_live'' \<or> state = ''full_live''
             else if mode = ExecutionFullLive then state = ''full_live''
             else False)
      in
      if authorized \<and> modelAvailable then res\<lparr>ma_UseModel := True\<rparr>
      else if authorized \<and> \<not> modelAvailable \<and> fallback \<noteq> ''rule_based''
      then res\<lparr>ma_Blocked := True, ma_Reason := ''model_unavailable_no_fallback''\<rparr>
      else if \<not> authorized \<and> fallback \<noteq> ''rule_based''
      then res\<lparr>ma_Blocked := True, ma_Reason := ''rollout_not_authorized_no_fallback''\<rparr>
      else res)"

section \<open>Laws\<close>

text \<open>Specification: the reasons of the triggers that count, in the order of the table.\<close>

definition counts :: "ExitTriggerInput \<Rightarrow> bool \<times> string \<times> bool \<Rightarrow> bool" where
  "counts input trigger \<longleftrightarrow> fst trigger \<and> (snd (snd trigger) \<or> \<not> et_AtLoss input \<or> et_AllowSellAtLoss input)"

lemma exit_step_counts:
  "exit_step input res t =
     (if counts input t
      then \<lparr>ed_Exit = True, ed_Reason = (if ed_Exit res then ed_Reason res else fst (snd t)),
            ed_Simultaneous = ed_Simultaneous res @ [fst (snd t)]\<rparr>
      else res)"
  by (cases res) (auto simp: exit_step_def counts_def Let_def split: prod.splits)

lemma exit_fold:
  "foldl (exit_step input) res ts =
     (let hits = map (fst \<circ> snd) (filter (counts input) ts) in
      if hits = [] then res
      else \<lparr>ed_Exit = True, ed_Reason = (if ed_Exit res then ed_Reason res else hd hits),
            ed_Simultaneous = ed_Simultaneous res @ hits\<rparr>)"
  by (induction ts arbitrary: res) (simp_all add: exit_step_counts Let_def)

lemma EvaluateExitLifecycle_eq:
  "EvaluateExitLifecycle input =
     (let hits = map (fst \<circ> snd) (filter (counts input) (exit_triggers input)) in
      \<lparr>ed_Exit = (hits \<noteq> []), ed_Reason = (if hits = [] then '''' else hd hits), ed_Simultaneous = hits\<rparr>)"
  by (simp add: EvaluateExitLifecycle_def exit_fold Let_def)

text \<open>Exit precedence: an exit happens exactly when some trigger counts (active, and for the
  non-protective time stop and signal exit not vetoed by a loss), its reason is the first counting
  trigger of the protective-first table, all counting triggers are kept for audit, and an
  active protective trigger can never be masked.\<close>

theorem exit_precedence:
  "let d = EvaluateExitLifecycle input;
       hits = map (fst \<circ> snd) (filter (counts input) (exit_triggers input)) in
   ed_Exit d = (hits \<noteq> []) \<and> ed_Simultaneous d = hits \<and> (ed_Exit d \<longrightarrow> ed_Reason d = hd hits) \<and>
   (et_HardStop input \<longrightarrow> ed_Exit d \<and> ed_Reason d = ''stop_loss'') \<and>
   (et_AtLoss input \<and> \<not> et_AllowSellAtLoss input \<longrightarrow>
      ed_Reason d \<notin> {''time_stop'', ''signal_exit''} \<and> set (ed_Simultaneous d) \<inter> {''time_stop'', ''signal_exit''} = {})"
proof -
  have hard: "et_HardStop input \<Longrightarrow> \<exists>rest. map (fst \<circ> snd) (filter (counts input) (exit_triggers input)) = ''stop_loss'' # rest"
    by (simp add: exit_triggers_def counts_def)
  have loss: "et_AtLoss input \<and> \<not> et_AllowSellAtLoss input \<Longrightarrow>
      set (map (fst \<circ> snd) (filter (counts input) (exit_triggers input)))
        \<subseteq> {''stop_loss'', ''take_profit'', ''atr_trailing_stop'', ''trailing_stop''}"
    by (auto simp: exit_triggers_def counts_def)
  show ?thesis
    unfolding EvaluateExitLifecycle_eq Let_def
    using hard loss by (cases "map (fst \<circ> snd) (filter (counts input) (exit_triggers input))") auto
qed

text \<open>The witness applies it to a stop at a loss together with a signal.\<close>

theorem exit_precedence_witness:
  "ed_Reason (EvaluateExitLifecycle \<lparr>et_HardStop = True, et_TakeProfit = False, et_ATRTrailing = False,
     et_PercentTrailing = True, et_FallbackStop = False, et_FallbackTakeProfit = False, et_TimeStop = False,
     et_Signal = True, et_AtLoss = True, et_AllowSellAtLoss = False\<rparr>) = ''stop_loss''"
  using exit_precedence [of "\<lparr>et_HardStop = True, et_TakeProfit = False, et_ATRTrailing = False,
     et_PercentTrailing = True, et_FallbackStop = False, et_FallbackTakeProfit = False, et_TimeStop = False,
     et_Signal = True, et_AtLoss = True, et_AllowSellAtLoss = False\<rparr>"]
  by (simp add: Let_def)

text \<open>Model authority: a model decides only when it is available and the mode's rollout state grants it,
  so never in research, shadow, backtest or dry-run mode; a missing authority or model blocks unless the
  fallback is rule based; using the model and being blocked exclude each other.\<close>

theorem model_authority:
  "let a = ResolveModelAuthority mode state fallback available in
   (ma_UseModel a \<longrightarrow> available \<and> mode \<in> {ExecutionPaper, ExecutionLimitedLive, ExecutionFullLive} \<and>
      to_lower (trim_space state) \<in> {''paper'', ''limited_live'', ''full_live''} \<and>
      (mode = ExecutionFullLive \<longrightarrow> to_lower (trim_space state) = ''full_live'')) \<and>
   ma_Observe a = available \<and> \<not> (ma_UseModel a \<and> ma_Blocked a) \<and>
   (\<not> ma_UseModel a \<longrightarrow> ma_Blocked a = (to_lower (trim_space fallback) \<noteq> ''rule_based'')) \<and>
   (ma_Blocked a \<longleftrightarrow> ma_Reason a \<noteq> '''')"
  by (simp add: ResolveModelAuthority_def Let_def execution_modes)

theorem model_authority_witness:
  "ma_UseModel (ResolveModelAuthority ExecutionPaper ''paper'' ''none'' True) \<and>
   ma_Observe (ResolveModelAuthority ExecutionPaper ''paper'' ''none'' True)"
proof -
  have "ma_UseModel (ResolveModelAuthority ExecutionPaper ''paper'' ''none'' True)" by code_simp
  with model_authority [of ExecutionPaper "''paper''" "''none''" True] show ?thesis by (simp add: Let_def)
qed

end
