(* ===== verification/Brokers.thy ===== *)
theory Brokers
  imports Risk
begin

text \<open>
  \<^verbatim>\<open>internal/tradingcore/brokers.go\<close> and the clocks and identifier generators of \<^verbatim>\<open>determinism.go\<close>.
  \<^verbatim>\<open>Clock\<close> and \<^verbatim>\<open>IDGenerator\<close> are interfaces whose implementations may keep state: a clock is a
  function \<open>'s \<Rightarrow> time \<times> 's\<close>, a generator a function \<open>'s \<Rightarrow> string result \<times> 's\<close> on an environment
  state \<open>'s\<close>, and \<open>None\<close> is the nil interface. A \<^verbatim>\<open>Submit\<close> method threads that state and returns it next
  to its result, errors included. The loop body of \<^verbatim>\<open>SimulationBroker.Submit\<close> is split into the price, the quantity,
  the minimums and the booking of a fill. Identity strings are printable ASCII, so a byte
  is a rune in \<open>stableClientOrderID\<close>.
\<close>

section \<open>Clocks and identifiers\<close>

type_synonym 's Clock = "'s \<Rightarrow> time \<times> 's"
type_synonym 's IDGenerator = "'s \<Rightarrow> string result \<times> 's"

datatype FixedClock = FixedClock time

primrec NewFixedClock_Now :: "FixedClock \<Rightarrow> 's Clock" where
  "NewFixedClock_Now (FixedClock instant) s = (instant, s)"

text \<open>The sequence generator: the prefix is fixed, the state is the 64-bit counter.\<close>

definition SequenceIDGenerator_NewID :: "string \<Rightarrow> 64 word IDGenerator" where
  "SequenceIDGenerator_NewID prefix next =
     (if prefix = '''' then (Inr (show_nat (unat next)), next + 1)
      else (Inr (prefix @ ''-'' @ show_nat (unat next)), next + 1))"

section \<open>Cost model and brokers\<close>

definition ExchangeExecutionFenced :: RejectionCode where "ExchangeExecutionFenced = ''exchange_execution_fenced''"

definition BelowMinimumQuantity :: RejectionCode where "BelowMinimumQuantity = ''below_minimum_quantity''"

definition BelowMinimumNotional :: RejectionCode where "BelowMinimumNotional = ''below_minimum_notional''"

definition SimulatedNoFillZeroTrades :: RejectionCode where
  "SimulatedNoFillZeroTrades = ''simulated_no_fill_zero_trades''"

record CostModel =
  cm_FeeBPS :: int64
  cm_SlippageBPS :: int64
  cm_FillBPS :: int64
  cm_RejectCode :: RejectionCode
  cm_Version :: string
  cm_ExecutionPrice :: OptionalPrice
  cm_PriceTick :: string
  cm_MinQuantity :: string
  cm_MinNotional :: string
  cm_SubmittedAt :: time

record 's SimulationBroker =
  sb_Clock :: "'s Clock option"
  sb_IDs :: "'s IDGenerator option"
  sb_Costs :: CostModel
  sb_Name :: string

record 's BacktestBroker =
  bb_SimulationBroker :: "'s SimulationBroker"
  bb_zeroVolumeInstrument :: InstrumentID
  bb_zeroVolumeOpen :: time
  bb_zeroVolumeClose :: time

datatype 's PaperBroker = PaperBroker "'s SimulationBroker"

definition NewBacktestBroker :: "'s Clock option \<Rightarrow> 's IDGenerator option \<Rightarrow> CostModel \<Rightarrow> 's BacktestBroker" where
  "NewBacktestBroker clock ids costs =
     \<lparr>bb_SimulationBroker = \<lparr>sb_Clock = clock, sb_IDs = ids, sb_Costs = costs, sb_Name = ''backtest''\<rparr>,
      bb_zeroVolumeInstrument = '''', bb_zeroVolumeOpen = 0, bb_zeroVolumeClose = 0\<rparr>"

definition NewPaperBroker :: "'s Clock option \<Rightarrow> 's IDGenerator option \<Rightarrow> CostModel \<Rightarrow> 's PaperBroker" where
  "NewPaperBroker clock ids costs =
     PaperBroker \<lparr>sb_Clock = clock, sb_IDs = ids, sb_Costs = costs, sb_Name = ''paper''\<rparr>"

definition WithZeroVolumeWindow ::
  "'s BacktestBroker \<Rightarrow> InstrumentID \<Rightarrow> time \<Rightarrow> time \<Rightarrow> 's BacktestBroker" where
  "WithZeroVolumeWindow broker instrument openAt closeAt =
     broker\<lparr>bb_zeroVolumeInstrument := instrument, bb_zeroVolumeOpen := openAt, bb_zeroVolumeClose := closeAt\<rparr>"

section \<open>Prices\<close>

definition applyBPS :: "Price \<Rightarrow> int64 \<Rightarrow> bool \<Rightarrow> Price result" where
  "applyBPS price bps add =
     (let factor = (if \<not> add then bps_rat (10000 - bps) else bps_rat (10000 + bps))
      in and_then (ratDecimal (price_rat price * factor)) NewPrice)"

definition newRatBPS :: "rat \<Rightarrow> int64 \<Rightarrow> rat" where
  "newRatBPS value bps = value * bps_rat bps"

definition roundPriceAdverse :: "Price \<Rightarrow> string \<Rightarrow> OrderSide \<Rightarrow> Price result" where
  "roundPriceAdverse price tickRaw side =
     (case ParseDecimal tickRaw of
        Inl _ \<Rightarrow> Inl (Errorf ''invalid price tick %q'' [tickRaw])
      | Inr tick \<Rightarrow>
          if dec_Sign tick \<le> 0 then Inl (Errorf ''invalid price tick %q'' [tickRaw])
          else
            let value = price_rat price; quantum = decimalRat tick in
            and_then (rat_quo value quantum) (\<lambda>ratio.
              let units = quo (rat_num ratio) (rat_denom ratio);
                  units = (if side = Buy \<and> of_int units < ratio then units + 1 else units)
              in and_then (ratDecimal (of_int units * quantum)) NewPrice))"

definition cost_mismatch :: "CostModel \<Rightarrow> OrderIntent \<Rightarrow> bool" where
  "cost_mismatch costs intent \<longleftrightarrow>
     (let metadata = oi_Metadata intent in
      meta_at metadata ''cost_policy_version'' \<noteq> cm_Version costs \<or>
      meta_at metadata ''fee_bps'' \<noteq> big_string (sint (cm_FeeBPS costs)) \<or>
      meta_at metadata ''slippage_bps'' \<noteq> big_string (sint (cm_SlippageBPS costs)))"

definition cost_mismatch_error :: "OrderIntent \<Rightarrow> go_error" where
  "cost_mismatch_error intent =
     Errorf ''intent %s cost reservation does not match broker cost model'' [oi_ID intent]"

text \<open>Execution price, slippage and tick.\<close>

definition fill_price :: "CostModel \<Rightarrow> OrderIntent \<Rightarrow> Price result" where
  "fill_price costs intent =
     (let price = (case cm_ExecutionPrice costs of Some p \<Rightarrow> Some p
                   | None \<Rightarrow> case oi_ReferencePrice intent of Some p \<Rightarrow> Some p
                     | None \<Rightarrow> oi_LimitPrice intent)
      in case price of
           None \<Rightarrow> Inl (Errorf ''intent %s has no execution reference price'' [oi_ID intent])
         | Some p \<Rightarrow>
             and_then (applyBPS p (cm_SlippageBPS costs) (oi_Side intent = Buy)) (\<lambda>fillPrice.
               if cm_PriceTick costs \<noteq> '''' then roundPriceAdverse fillPrice (cm_PriceTick costs) (oi_Side intent)
               else Inr fillPrice))"

text \<open>The fill ratio in basis points (zero means a complete fill) and the quantity it gives.\<close>

definition fill_bps :: "CostModel \<Rightarrow> int64" where
  "fill_bps costs = (if cm_FillBPS costs = 0 then 10000 else cm_FillBPS costs)"

definition fill_quantity :: "CostModel \<Rightarrow> OrderIntent \<Rightarrow> Quantity result" where
  "fill_quantity costs intent =
     (if sint (fill_bps costs) < 0 \<or> sint (fill_bps costs) > 10000
      then Inl (Errorf ''fill bps must be between 0 and 10000'' [])
      else if sint (fill_bps costs) < 10000
      then quantityFromRat (newRatBPS (qty_rat (oi_Quantity intent)) (fill_bps costs))
      else Inr (oi_Quantity intent))"

text \<open>The two minimum checks: the code and message of the rejection, if any.\<close>

definition below_minimum :: "CostModel \<Rightarrow> Quantity \<Rightarrow> Price \<Rightarrow> (RejectionCode \<times> string) option result" where
  "below_minimum costs fillQuantity fillPrice =
     and_then
       (if cm_MinQuantity costs \<noteq> ''''
        then and_then (ParseDecimal (cm_MinQuantity costs)) (\<lambda>minimum.
               Inr (if qty_rat fillQuantity < decimalRat minimum
                    then Some (BelowMinimumQuantity, ''quantity below symbol minimum'') else None))
        else Inr None)
       (\<lambda>low. case low of Some r \<Rightarrow> Inr (Some r)
         | None \<Rightarrow>
             if cm_MinNotional costs \<noteq> ''''
             then and_then (ParseDecimal (cm_MinNotional costs)) (\<lambda>minimum.
                    Inr (if notional fillQuantity fillPrice < decimalRat minimum
                         then Some (BelowMinimumNotional, ''fill notional below symbol minimum'') else None))
             else Inr None)"

section \<open>The simulation broker\<close>

definition broker_rejection :: "OrderIntent \<Rightarrow> RejectionCode \<Rightarrow> string \<Rightarrow> time \<Rightarrow> OrderRejection" where
  "broker_rejection intent code message nowAt =
     \<lparr>or_OrderID = oi_ID intent, or_Code = code, or_Message = message, or_EvaluatedAt = nowAt,
      or_PolicyVersion = vc_Policy (oi_Versions intent)\<rparr>"

text \<open>From the fee to the accepted order: everything after the minimum checks.\<close>

definition book_fill ::
  "CostModel \<Rightarrow> string \<Rightarrow> OrderIntent \<Rightarrow> Quantity \<Rightarrow> Price \<Rightarrow> string \<Rightarrow> time \<Rightarrow> AcceptedOrder result" where
  "book_fill costs name intent fillQuantity fillPrice fillRaw nowAt =
     and_then (amountFromRat (newRatBPS (notional fillQuantity fillPrice) (cm_FeeBPS costs))) (\<lambda>fee.
     let fillID = the_ok '''' (NewFillID (''fill-'' @ fillRaw));
         submittedAt = (if cm_SubmittedAt costs \<noteq> 0 then cm_SubmittedAt costs else nowAt)
     in
     if cm_SubmittedAt costs \<noteq> 0 \<and> (submittedAt < oi_CreatedAt intent \<or> submittedAt > nowAt)
     then Inl (Errorf ''intent %s simulated submission lies outside order/fill interval'' [oi_ID intent])
     else
       let fill = \<lparr>cf_ID = fillID, cf_OrderID = oi_ID intent, cf_ProviderFillID = name @ ''-'' @ fillRaw,
             cf_Instrument = oi_Instrument intent, cf_Side = oi_Side intent, cf_Quantity = fillQuantity,
             cf_Price = fillPrice, cf_Fee = fee, cf_FeeAsset = inst_QuoteAsset (oi_Instrument intent),
             cf_OrderedAt = oi_CreatedAt intent, cf_SubmittedAt = submittedAt, cf_AcceptedAt = submittedAt,
             cf_FilledAt = nowAt, cf_Versions = oi_Versions intent,
             cf_Provenance = \<lparr>pv_Source = name @ ''_broker'', pv_Actor = cm_Version costs,
               pv_Reason = oi_Reason intent, pv_CorrelationID = '''', pv_CausationID = ''''\<rparr>,
             cf_CostModelVersion = cm_Version costs\<rparr>;
           partialFill = sint (fill_bps costs) < 10000
       in
       and_then
         (if partialFill
          then and_then (quantityFromRat (qty_rat (oi_Quantity intent) - qty_rat fillQuantity))
                 (\<lambda>remaining. Inr (SomeQuantity remaining))
          else Inr None)
         (\<lambda>remaining.
           NewAcceptedOrder
             \<lparr>ao_OrderID = oi_ID intent,
              ao_ProviderOrderID = name @ ''-order-'' @ oi_IdempotencyKey intent,
              ao_Status = (if partialFill then BrokerPartiallyFilled else BrokerFilled),
              ao_AcceptedAt = submittedAt, ao_Remaining = remaining, ao_fills = []\<rparr> [fill]))"

text \<open>The fee is computed before the identifier is drawn; it cannot fail (\<open>ratDecimal\<close> is total).\<close>

definition simulate_intent ::
  "'s Clock \<Rightarrow> 's IDGenerator \<Rightarrow> CostModel \<Rightarrow> string \<Rightarrow> OrderIntent \<Rightarrow> 's
   \<Rightarrow> (AcceptedOrder + OrderRejection) result \<times> 's" where
  "simulate_intent now newID costs name intent s =
     (if cost_mismatch costs intent then (Inl (cost_mismatch_error intent), s)
      else if cm_RejectCode costs \<noteq> '''' then
        (let (nowAt, s) = now s
         in (Inr (Inr (broker_rejection intent (cm_RejectCode costs) (cm_RejectCode costs) nowAt)), s))
      else case and_then (fill_price costs intent) (\<lambda>fillPrice.
                and_then (fill_quantity costs intent) (\<lambda>fillQuantity.
                and_then (below_minimum costs fillQuantity fillPrice) (\<lambda>low. Inr (fillPrice, fillQuantity, low)))) of
          Inl err \<Rightarrow> (Inl err, s)
        | Inr (fillPrice, fillQuantity, Some (code, message)) \<Rightarrow>
            (let (nowAt, s) = now s in (Inr (Inr (broker_rejection intent code message nowAt)), s))
        | Inr (fillPrice, fillQuantity, None) \<Rightarrow>
            (let (fillRaw, s) = newID s in
             case fillRaw of
               Inl err \<Rightarrow> (Inl err, s)
             | Inr raw \<Rightarrow>
                 (let (nowAt, s) = now s in
                  (and_then (book_fill costs name intent fillQuantity fillPrice raw nowAt) (\<lambda>order. Inr (Inl order)), s))))"

fun simulate_all ::
  "'s Clock \<Rightarrow> 's IDGenerator \<Rightarrow> CostModel \<Rightarrow> string \<Rightarrow> OrderIntent list
   \<Rightarrow> AcceptedOrder list \<Rightarrow> OrderRejection list \<Rightarrow> 's \<Rightarrow> (AcceptedOrder list \<times> OrderRejection list) result \<times> 's" where
  "simulate_all now newID costs name [] accepted rejected s = (Inr (accepted, rejected), s)"
| "simulate_all now newID costs name (intent # intents) accepted rejected s =
     (case simulate_intent now newID costs name intent s of
        (Inl err, s) \<Rightarrow> (Inl err, s)
      | (Inr (Inl order), s) \<Rightarrow> simulate_all now newID costs name intents (accepted @ [order]) rejected s
      | (Inr (Inr rejection), s) \<Rightarrow> simulate_all now newID costs name intents accepted (rejected @ [rejection]) s)"

definition Simulation_Submit :: "'s SimulationBroker \<Rightarrow> DecisionBatch \<Rightarrow> 's \<Rightarrow> BrokerBatchOutcome result \<times> 's" where
  "Simulation_Submit broker batch s =
     (case (sb_Clock broker, sb_IDs broker) of
        (Some now, Some newID) \<Rightarrow>
          (case simulate_all now newID (sb_Costs broker) (sb_Name broker) (db_Intents batch) [] [] s of
             (Inl err, s) \<Rightarrow> (Inl err, s)
           | (Inr (accepted, rejected), s) \<Rightarrow> (NewBrokerBatchOutcome OutcomeComplete accepted rejected, s))
      | _ \<Rightarrow> (Inl (Errorf ''simulation broker dependencies are required'' []), s))"

definition Paper_Submit :: "'s PaperBroker \<Rightarrow> DecisionBatch \<Rightarrow> 's \<Rightarrow> BrokerBatchOutcome result \<times> 's" where
  "Paper_Submit broker = (case broker of PaperBroker sim \<Rightarrow> Simulation_Submit sim)"

section \<open>Backtest, shadow and live brokers\<close>

text \<open>The loop of \<^verbatim>\<open>BacktestBroker.Submit\<close>: intents of the zero-volume instrument are rejected, the others kept.\<close>

fun zero_volume_split ::
  "CostModel \<Rightarrow> InstrumentID \<Rightarrow> time \<Rightarrow> time \<Rightarrow> OrderIntent list
   \<Rightarrow> OrderRejection list \<Rightarrow> OrderIntent list \<Rightarrow> (OrderRejection list \<times> OrderIntent list) result" where
  "zero_volume_split costs instrument openAt closeAt [] rejected other = Inr (rejected, other)"
| "zero_volume_split costs instrument openAt closeAt (intent # intents) rejected other =
     (if inst_ID (oi_Instrument intent) \<noteq> instrument
      then zero_volume_split costs instrument openAt closeAt intents rejected (other @ [intent])
      else if oi_DecisionAt intent > openAt \<or> oi_CreatedAt intent > openAt
      then Inl (Errorf ''intent %s occurs after selected zero-volume open'' [oi_ID intent])
      else if cost_mismatch costs intent then Inl (cost_mismatch_error intent)
      else zero_volume_split costs instrument openAt closeAt intents
             (rejected @ [broker_rejection intent SimulatedNoFillZeroTrades
                ''simulated zero-fill/cancel: selected execution bar has zero reported base volume'' closeAt]) other)"

definition Backtest_Submit :: "'s BacktestBroker \<Rightarrow> DecisionBatch \<Rightarrow> 's \<Rightarrow> BrokerBatchOutcome result \<times> 's" where
  "Backtest_Submit broker batch s =
     (let sim = bb_SimulationBroker broker; openAt = bb_zeroVolumeOpen broker; closeAt = bb_zeroVolumeClose broker;
          invalid = Inl (Errorf ''invalid selected zero-volume execution window'' [])
      in
      if closeAt = 0 then Simulation_Submit sim batch s
      else case (sb_Clock sim, sb_IDs sim) of
        (Some now, Some newID) \<Rightarrow>
          if bb_zeroVolumeInstrument broker = '''' \<or> openAt = 0 \<or> \<not> closeAt > openAt then (invalid, s)
          else
            (let (nowAt, s) = now s in
             if nowAt \<noteq> openAt then (invalid, s)
             else
               case zero_volume_split (sb_Costs sim) (bb_zeroVolumeInstrument broker) openAt closeAt (db_Intents batch) [] [] of
                 Inl err \<Rightarrow> (Inl err, s)
               | Inr (rejected, other) \<Rightarrow>
                   (case NewDecisionBatch other of
                      Inl err \<Rightarrow> (Inl err, s)
                    | Inr otherBatch \<Rightarrow>
                        (case Simulation_Submit sim otherBatch s of
                           (Inl err, s) \<Rightarrow> (Inl err, s)
                         | (Inr filled, s) \<Rightarrow>
                             (NewBrokerBatchOutcome OutcomeComplete (bo_Accepted filled) (rejected @ bo_Rejected filled), s))))
      | _ \<Rightarrow> (Inl (Errorf ''simulation broker dependencies are required'' []), s))"

definition Shadow_Submit :: "DecisionBatch \<Rightarrow> BrokerBatchOutcome result" where
  "Shadow_Submit batch =
     (if length (db_Intents batch) \<noteq> 0
      then Inl (Errorf ''shadow_execution_forbidden: broker received %d approved intents''
                  [show_nat (length (db_Intents batch))])
      else NewBrokerBatchOutcome OutcomeComplete [] [])"

record LiveOrderRequest =
  lo_ClientOrderID :: string
  lo_Symbol :: string
  lo_Side :: string
  lo_Type :: string
  lo_Quantity :: string
  lo_LimitPrice :: string
  lo_PolicyVersion :: string

definition stableClientOrderID :: "string \<Rightarrow> string" where
  "stableClientOrderID value =
     take 32 (map (\<lambda>r. if (CHR ''a'' \<le> r \<and> r \<le> CHR ''z'') \<or> (CHR ''A'' \<le> r \<and> r \<le> CHR ''Z'')
                        \<or> (CHR ''0'' \<le> r \<and> r \<le> CHR ''9'') \<or> r = CHR ''-''
                      then r else CHR ''-'') value)"

definition Live_BuildRequests :: "DecisionBatch \<Rightarrow> LiveOrderRequest list result" where
  "Live_BuildRequests batch =
     Inr (map (\<lambda>intent.
       \<lparr>lo_ClientOrderID = stableClientOrderID (oi_IdempotencyKey intent),
        lo_Symbol = inst_VenueSymbol (oi_Instrument intent), lo_Side = to_upper (oi_Side intent),
        lo_Type = to_upper (oi_Type intent), lo_Quantity = dec_String (qty_Decimal (oi_Quantity intent)),
        lo_LimitPrice = (case oi_LimitPrice intent of None \<Rightarrow> '''' | Some price \<Rightarrow> dec_String (price_Decimal price)),
        lo_PolicyVersion = vc_Policy (oi_Versions intent)\<rparr>) (db_Intents batch))"

definition Live_Submit :: "DecisionBatch \<Rightarrow> BrokerBatchOutcome result" where
  "Live_Submit batch =
     NewBrokerBatchOutcome OutcomeComplete []
       (map (\<lambda>intent. broker_rejection intent ExchangeExecutionFenced
          ''durable live submission recovery is not available'' (oi_DecisionAt intent)) (db_Intents batch))"

end
