(* ===== verification/Broker_Laws.thy ===== *)
theory Broker_Laws
  imports Brokers Risk_Laws Samples
begin

text \<open>
  The contract of the \<^verbatim>\<open>Broker\<close> interface as the locale \<open>broker\<close>: a successful submission resolves every
  order of the batch exactly once, is complete, and its accepted orders are valid and own their fills. The
  simulation, paper, backtest, shadow and live brokers interpret it. Further laws: fill
  prices are adverse to the order, and the filled and remaining quantities add up to the order.
\<close>

section \<open>The broker contract\<close>

locale broker =
  fixes submit :: "DecisionBatch \<Rightarrow> 's \<Rightarrow> BrokerBatchOutcome result \<times> 's"
  assumes resolves: "submit b s = (Inr out, s') \<Longrightarrow>
      mset (map ao_OrderID (bo_Accepted out)) + mset (map or_OrderID (bo_Rejected out)) = mset (map oi_ID (db_Intents b))"
    and complete: "submit b s = (Inr out, s') \<Longrightarrow> bo_Completeness out = OutcomeComplete"
    and accepted_valid: "submit b s = (Inr out, s') \<Longrightarrow> a \<in> set (bo_Accepted out) \<Longrightarrow>
      ao_Validate a = None \<and> (\<forall>f \<in> set (ao_fills a). cf_Validate f = None \<and> cf_OrderID f = ao_OrderID a)"
begin

lemma outcome_ids:
  assumes "submit b s = (Inr out, s')"
  shows "set (map ao_OrderID (bo_Accepted out)) \<union> set (map or_OrderID (bo_Rejected out)) = set (map oi_ID (db_Intents b))"
proof -
  have "set_mset (mset (map ao_OrderID (bo_Accepted out)) + mset (map or_OrderID (bo_Rejected out)))
      = set_mset (mset (map oi_ID (db_Intents b)))"
    using resolves [OF assms] by (rule arg_cong)
  then show ?thesis by simp
qed

text \<open>With distinct order identifiers an order is accepted or rejected, never both.\<close>

lemma exclusive:
  assumes "submit b s = (Inr out, s')" and "distinct (map oi_ID (db_Intents b))"
  shows "distinct (map ao_OrderID (bo_Accepted out))" and "distinct (map or_OrderID (bo_Rejected out))"
    and "set (map ao_OrderID (bo_Accepted out)) \<inter> set (map or_OrderID (bo_Rejected out)) = {}"
proof -
  have "mset (map ao_OrderID (bo_Accepted out) @ map or_OrderID (bo_Rejected out)) = mset (map oi_ID (db_Intents b))"
    using resolves [OF assms(1)] by simp
  then have "distinct (map ao_OrderID (bo_Accepted out) @ map or_OrderID (bo_Rejected out))"
    using assms(2) mset_eq_imp_distinct_iff by blast
  then show "distinct (map ao_OrderID (bo_Accepted out))" "distinct (map or_OrderID (bo_Rejected out))"
    "set (map ao_OrderID (bo_Accepted out)) \<inter> set (map or_OrderID (bo_Rejected out)) = {}"
    by simp_all
qed

lemma nothing_in_nothing_out:
  assumes "submit b s = (Inr out, s')" and "db_Intents b = []"
  shows "bo_Accepted out = [] \<and> bo_Rejected out = []"
  using resolves [OF assms(1)] assms(2) by simp

end

section \<open>The simulation broker meets it\<close>

lemma NewAcceptedOrder_Inr:
  assumes "NewAcceptedOrder o0 fs = Inr a"
  shows "ao_Validate a = None \<and> ao_OrderID a = ao_OrderID o0 \<and> ao_Status a = ao_Status o0 \<and>
    ao_Remaining a = ao_Remaining o0 \<and> ao_fills a = sort_key cf_ID fs \<and>
    (\<forall>f \<in> set fs. cf_Validate f = None \<and> cf_OrderID f = ao_OrderID o0)"
proof -
  let ?e = "\<lambda>fill. case cf_Validate fill of Some err \<Rightarrow> Some err
     | None \<Rightarrow> if cf_OrderID fill \<noteq> ao_OrderID o0 then Some (Errorf ''fill order id does not match accepted order'' []) else None"
  have none: "first_error ?e fs = None" and a: "a = o0\<lparr>ao_fills := sort_key cf_ID fs\<rparr>" and v: "ao_Validate a = None"
    using assms by (auto simp: NewAcceptedOrder_def Let_def result_simps simp del: first_error_None split: option.splits)
  have "\<forall>f \<in> set fs. cf_Validate f = None \<and> cf_OrderID f = ao_OrderID o0"
    using none by (auto split: option.splits if_splits)
  with a v show ?thesis by simp
qed

definition order_ok :: "AcceptedOrder \<Rightarrow> bool" where
  "order_ok a \<longleftrightarrow> ao_Validate a = None \<and> (\<forall>f \<in> set (ao_fills a). cf_Validate f = None \<and> cf_OrderID f = ao_OrderID a)"

lemma book_fill_ok:
  assumes "book_fill costs name intent q p raw at0 = Inr a"
  shows "order_ok a \<and> ao_OrderID a = oi_ID intent"
  using assms
  by (auto simp: book_fill_def Let_def result_simps order_ok_def split: if_splits dest!: NewAcceptedOrder_Inr)

lemma simulate_intent_ok:
  assumes "simulate_intent now newID costs name intent s = (Inr r, s')"
  shows "case r of Inl a \<Rightarrow> order_ok a \<and> ao_OrderID a = oi_ID intent | Inr x \<Rightarrow> or_OrderID x = oi_ID intent"
  using assms unfolding simulate_intent_def
  by (auto simp: broker_rejection_def result_simps Let_def dest!: book_fill_ok
      split: if_splits sum.splits option.splits prod.splits)

lemma simulate_all_ok:
  assumes "simulate_all now newID costs name is acc rej s = (Inr (acc', rej'), s')"
    and "\<forall>a \<in> set acc. order_ok a"
  shows "mset (map ao_OrderID acc') + mset (map or_OrderID rej')
      = mset (map ao_OrderID acc) + mset (map or_OrderID rej) + mset (map oi_ID is) \<and> (\<forall>a \<in> set acc'. order_ok a)"
  using assms
proof (induction now newID costs name "is" acc rej s rule: simulate_all.induct)
  case (2 now newID costs name i "is" acc rej s)
  obtain r s1 where r: "simulate_intent now newID costs name i s = (Inr r, s1)"
    using "2.prems"(1) by (auto split: prod.splits sum.splits)
  note ok = simulate_intent_ok [OF r]
  show ?case
  proof (cases r)
    case (Inl a)
    then show ?thesis using "2.IH"(1) [OF r [symmetric, unfolded Inl]] "2.prems" r ok by simp
  next
    case (Inr x)
    then show ?thesis using "2.IH"(2) [OF r [symmetric, unfolded Inr]] "2.prems" r ok by simp
  qed
qed simp

lemma Simulation_Submit_Inr:
  assumes "Simulation_Submit br b s = (Inr out, s')"
  shows "mset (map ao_OrderID (bo_Accepted out)) + mset (map or_OrderID (bo_Rejected out)) = mset (map oi_ID (db_Intents b)) \<and>
    bo_Completeness out = OutcomeComplete \<and> (\<forall>a \<in> set (bo_Accepted out). order_ok a)"
proof -
  from assms obtain now newID acc rej where
    sim: "simulate_all now newID (sb_Costs br) (sb_Name br) (db_Intents b) [] [] s = (Inr (acc, rej), s')"
    and out: "NewBrokerBatchOutcome OutcomeComplete acc rej = Inr out"
    by (auto simp: Simulation_Submit_def split: option.splits prod.splits sum.splits)
  from simulate_all_ok [OF sim] out show ?thesis by (auto simp: NewBrokerBatchOutcome_Inr)
qed

interpretation simulation: broker "Simulation_Submit br" for br :: "'s SimulationBroker"
  by unfold_locales (auto dest!: Simulation_Submit_Inr simp: order_ok_def)

interpretation paper: broker "Paper_Submit br" for br :: "'s PaperBroker"
  by unfold_locales (auto dest!: Simulation_Submit_Inr simp: order_ok_def Paper_Submit_def split: PaperBroker.splits)

section \<open>Backtest, shadow and live brokers meet it\<close>

lemma zero_volume_split_ok:
  assumes "zero_volume_split costs inst o0 c0 is rej oth = Inr (rej', oth')"
  shows "mset (map or_OrderID rej') + mset (map oi_ID oth')
     = mset (map or_OrderID rej) + mset (map oi_ID oth) + mset (map oi_ID is)"
  using assms
  by (induction costs inst o0 c0 "is" rej oth rule: zero_volume_split.induct)
    (auto simp: broker_rejection_def split: if_splits)

lemma Backtest_Submit_Inr:
  assumes "Backtest_Submit br b s = (Inr out, s')"
  shows "mset (map ao_OrderID (bo_Accepted out)) + mset (map or_OrderID (bo_Rejected out)) = mset (map oi_ID (db_Intents b)) \<and>
    bo_Completeness out = OutcomeComplete \<and> (\<forall>a \<in> set (bo_Accepted out). order_ok a)"
proof (cases "bb_zeroVolumeClose br = 0")
  case True
  then have "Simulation_Submit (bb_SimulationBroker br) b s = (Inr out, s')"
    using assms by (simp add: Backtest_Submit_def)
  then show ?thesis by (rule Simulation_Submit_Inr)
next
  case False
  with assms obtain rej oth ob s1 filled where
    split: "zero_volume_split (sb_Costs (bb_SimulationBroker br)) (bb_zeroVolumeInstrument br) (bb_zeroVolumeOpen br)
        (bb_zeroVolumeClose br) (db_Intents b) [] [] = Inr (rej, oth)"
    and ob: "NewDecisionBatch oth = Inr ob" and sim: "Simulation_Submit (bb_SimulationBroker br) ob s1 = (Inr filled, s')"
    and out: "NewBrokerBatchOutcome OutcomeComplete (bo_Accepted filled) (rej @ bo_Rejected filled) = Inr out"
    by (auto simp: Backtest_Submit_def Let_def split: if_splits option.splits prod.splits sum.splits)
  have ids: "mset (map oi_ID (db_Intents ob)) = mset (map oi_ID oth)" using decision_batch.mset_items [OF ob] by simp
  show ?thesis
    using zero_volume_split_ok [OF split] Simulation_Submit_Inr [OF sim] out ids
    by (auto simp: NewBrokerBatchOutcome_Inr ac_simps)
qed

interpretation backtest: broker "Backtest_Submit br" for br :: "'s BacktestBroker"
  by unfold_locales (auto dest!: Backtest_Submit_Inr simp: order_ok_def)

interpretation shadow: broker "\<lambda>b (s :: unit). (Shadow_Submit b, s)"
  by unfold_locales (auto simp: Shadow_Submit_def NewBrokerBatchOutcome_Inr split: if_splits)

interpretation live: broker "\<lambda>b (s :: unit). (Live_Submit b, s)"
  by unfold_locales (auto simp: Live_Submit_def NewBrokerBatchOutcome_Inr broker_rejection_def
      multiset.map_comp comp_def)

section \<open>Adverse prices\<close>

lemma price_from_rat:
  assumes "and_then (ratDecimal v) NewPrice = Inr f"
  shows "price_wf f" and "price_rat f = of_int (half_away (v * ulps)) / ulps"
proof -
  let ?d = "mk_dec (half_away (v * ulps)) MaxDecimalScale"
  have f: "NewPrice ?d = Inr f" using assms by (simp add: ratDecimal_eq)
  then have p: "f = Price ?d" "0 < dec_Sign ?d" by (auto simp: NewPrice_def split: if_splits)
  then show "price_wf f" by (simp add: price_wf_def price_Valid_def)
  show "price_rat f = of_int (half_away (v * ulps)) / ulps" using p by (simp add: decimalRat_mk ulps_def)
qed

lemma price_rat_grid: "price_wf p \<Longrightarrow> \<exists>n. price_rat p * ulps = of_int n"
  using decimalRat_grid by (auto simp: price_wf_def)

lemma applyBPS_adverse:
  assumes ap: "applyBPS p bps add = Inr f" and p: "price_wf p" and b: "0 \<le> sint bps" "sint bps < 2 ^ 62"
  shows "price_wf f" and "add \<Longrightarrow> price_rat p \<le> price_rat f" and "\<not> add \<Longrightarrow> price_rat f \<le> price_rat p"
proof -
  let ?factor = "if \<not> add then bps_rat (10000 - bps) else bps_rat (10000 + bps)"
  let ?v = "price_rat p * ?factor"
  have ap: "and_then (ratDecimal ?v) NewPrice = Inr f" using ap by (simp add: applyBPS_def Let_def)
  note f = price_from_rat [OF ap]
  show "price_wf f" by (rule f(1))
  obtain n where n: "price_rat p * ulps = of_int n" using price_rat_grid [OF p] by blast
  have pr: "price_rat p = of_int n / ulps" using n by (simp add: eq_divide_eq)
  have pos: "0 \<le> price_rat p * ulps" using price_wf_pos [OF p] by (simp add: less_imp_le)
  have fac: "bps_rat (10000 - bps) \<le> 1" "1 \<le> bps_rat (10000 + bps)"
    using b by (simp_all add: bps_rat_def sint_10000_plus del: of_int_sint)
  show "price_rat p \<le> price_rat f" if add
  proof -
    have "of_int n = price_rat p * ulps * 1" using n by simp
    also have "\<dots> \<le> price_rat p * ulps * bps_rat (10000 + bps)" by (rule mult_left_mono [OF fac(2) pos])
    also have "\<dots> = ?v * ulps" using that by simp
    finally have "of_int n \<le> ?v * ulps" .
    then have "n \<le> half_away (?v * ulps)" by (rule half_away_ge_of_int)
    then show ?thesis by (simp add: f(2) pr divide_right_mono less_imp_le)
  qed
  show "price_rat f \<le> price_rat p" if "\<not> add"
  proof -
    have "?v * ulps = price_rat p * ulps * bps_rat (10000 - bps)" using that by simp
    also have "\<dots> \<le> price_rat p * ulps * 1" by (rule mult_left_mono [OF fac(1) pos])
    also have "\<dots> = of_int n" using n by simp
    finally have "?v * ulps \<le> of_int n" .
    then have "half_away (?v * ulps) \<le> n" by (rule half_away_le_of_int)
    then show ?thesis by (simp add: f(2) pr divide_right_mono less_imp_le)
  qed
qed

lemma roundPriceAdverse_tick:
  assumes r: "roundPriceAdverse p raw side = Inr f" and p: "price_wf p"
  shows "\<exists>tick k. ParseDecimal raw = Inr tick \<and> 0 < decimalRat tick \<and> price_rat f = of_int k * decimalRat tick \<and>
     k = (if side = Buy then \<lceil>price_rat p / decimalRat tick\<rceil> else \<lfloor>price_rat p / decimalRat tick\<rfloor>)"
    and "price_wf f"
proof -
  obtain tick where t: "ParseDecimal raw = Inr tick" "0 < dec_Sign tick"
    using r by (auto simp: roundPriceAdverse_def split: sum.splits if_splits)
  have wf: "dec_wf tick" using t(1) by (rule ParseDecimal_canonical)
  have q: "0 < decimalRat tick" using decimalRat_Sign [OF wf] t(2) by (auto split: if_splits)
  define ratio where "ratio = price_rat p / decimalRat tick"
  define k where "k = (if side = Buy then \<lceil>ratio\<rceil> else \<lfloor>ratio\<rfloor>)"
  have "0 \<le> ratio" using price_wf_pos [OF p] q by (simp add: ratio_def)
  then have fl: "quo (rat_num ratio) (rat_denom ratio) = \<lfloor>ratio\<rfloor>" by (rule quo_floor)
  have ceil: "(if of_int \<lfloor>ratio\<rfloor> < ratio then \<lfloor>ratio\<rfloor> + 1 else \<lfloor>ratio\<rfloor>) = \<lceil>ratio\<rceil>"
    by (simp add: ceiling_altdef) linarith
  have "and_then (ratDecimal (of_int k * decimalRat tick)) NewPrice = Inr f"
    using r t q fl ceil by (auto simp: roundPriceAdverse_def Let_def rat_quo_def ratio_def k_def split: if_splits)
  note f = price_from_rat [OF this]
  show "price_wf f" by (rule f(1))
  obtain n where n: "(of_int k * decimalRat tick) * ulps = of_int n" using lots_on_grid [OF wf] by blast
  have "price_rat f = of_int n / ulps" using f(2) n by simp
  also have "\<dots> = of_int k * decimalRat tick * ulps / ulps" by (simp only: n)
  finally have "price_rat f = of_int k * decimalRat tick" by simp
  with t q show "\<exists>tick k. ParseDecimal raw = Inr tick \<and> 0 < decimalRat tick \<and> price_rat f = of_int k * decimalRat tick \<and>
     k = (if side = Buy then \<lceil>price_rat p / decimalRat tick\<rceil> else \<lfloor>price_rat p / decimalRat tick\<rfloor>)"
    by (auto simp: k_def ratio_def)
qed

lemma roundPriceAdverse_adverse:
  assumes r: "roundPriceAdverse p raw side = Inr f" and p: "price_wf p"
  shows "side = Buy \<Longrightarrow> price_rat p \<le> price_rat f" and "side \<noteq> Buy \<Longrightarrow> price_rat f \<le> price_rat p"
proof -
  obtain tick k where t: "0 < decimalRat tick" "price_rat f = of_int k * decimalRat tick"
     "k = (if side = Buy then \<lceil>price_rat p / decimalRat tick\<rceil> else \<lfloor>price_rat p / decimalRat tick\<rfloor>)"
    using roundPriceAdverse_tick(1) [OF r p] by blast
  have "price_rat p \<le> of_int \<lceil>price_rat p / decimalRat tick\<rceil> * decimalRat tick"
    using le_of_int_ceiling [of "price_rat p / decimalRat tick"] t(1) by (simp only: pos_divide_le_eq)
  then show "side = Buy \<Longrightarrow> price_rat p \<le> price_rat f" using t by simp
  have "of_int \<lfloor>price_rat p / decimalRat tick\<rfloor> * decimalRat tick \<le> price_rat p"
    using of_int_floor_le [of "price_rat p / decimalRat tick"] t(1) by (simp only: pos_le_divide_eq)
  then show "side \<noteq> Buy \<Longrightarrow> price_rat f \<le> price_rat p" using t by simp
qed

section \<open>Conservation\<close>

lemma fill_quantity_wf:
  assumes "fill_quantity costs intent = Inr q" and "qty_wf (oi_Quantity intent)"
  shows "qty_wf q"
  using assms quantityFromRat_Inr(1,2) by (auto simp: fill_quantity_def qty_wf_def split: if_splits)

lemma quantityFromRat_exact:
  assumes "quantityFromRat v = Inr r" and "v * ulps = of_int n"
  shows "qty_rat r = v"
  using ratDecimal_grid [OF quantityFromRat_Inr(4) [OF assms(1)] assms(2)] .

lemma book_fill_conserves:
  assumes bf: "book_fill costs name intent q p raw at0 = Inr a" and q: "fill_quantity costs intent = Inr q"
    and wf: "qty_wf (oi_Quantity intent)"
  shows "\<exists>f. ao_fills a = [f] \<and> cf_Quantity f = q \<and> cf_Price f = p \<and> cf_Side f = oi_Side intent \<and>
    qty_rat q + (case ao_Remaining a of None \<Rightarrow> 0 | Some r \<Rightarrow> qty_rat r) = qty_rat (oi_Quantity intent)"
proof (cases "sint (fill_bps costs) < 10000")
  case True
  with bf obtain fee rem fill where rem: "quantityFromRat (qty_rat (oi_Quantity intent) - qty_rat q) = Inr rem"
    and fill: "cf_Quantity fill = q" "cf_Price fill = p" "cf_Side fill = oi_Side intent"
    and a: "ao_fills a = [fill]" "ao_Remaining a = Some rem"
    by (fastforce simp: book_fill_def Let_def result_simps SomeQuantity_def split: if_splits dest!: NewAcceptedOrder_Inr)
  have "\<exists>n. (qty_rat (oi_Quantity intent) - qty_rat q) * ulps = of_int n"
    using wf fill_quantity_wf [OF q wf]
    by (intro exI [of _ "dec_units (qty_Decimal (oi_Quantity intent)) - dec_units (qty_Decimal q)"])
      (simp add: left_diff_distrib decimalRat_grid qty_wf_def)
  then have "qty_rat rem = qty_rat (oi_Quantity intent) - qty_rat q"
    using quantityFromRat_exact [OF rem] by blast
  with a fill show ?thesis by simp
next
  case False
  then have "q = oi_Quantity intent" using q by (auto simp: fill_quantity_def split: if_splits)
  with False bf show ?thesis
    by (fastforce simp: book_fill_def Let_def result_simps split: if_splits dest!: NewAcceptedOrder_Inr)
qed

section \<open>Properties\<close>

definition execution_reference :: "CostModel \<Rightarrow> OrderIntent \<Rightarrow> Price option" where
  "execution_reference costs intent =
     (case cm_ExecutionPrice costs of Some p \<Rightarrow> Some p
      | None \<Rightarrow> case oi_ReferencePrice intent of Some p \<Rightarrow> Some p | None \<Rightarrow> oi_LimitPrice intent)"

lemma fill_price_adverse:
  assumes "fill_price costs intent = Inr f" and "execution_reference costs intent = Some p" and p: "price_wf p"
    and b: "0 \<le> sint (cm_SlippageBPS costs)" "sint (cm_SlippageBPS costs) < 2 ^ 62"
  shows "price_wf f" and "oi_Side intent = Buy \<Longrightarrow> price_rat p \<le> price_rat f"
    and "oi_Side intent \<noteq> Buy \<Longrightarrow> price_rat f \<le> price_rat p"
proof -
  from assms(1,2) obtain g where g: "applyBPS p (cm_SlippageBPS costs) (oi_Side intent = Buy) = Inr g"
    and f: "(if cm_PriceTick costs \<noteq> '''' then roundPriceAdverse g (cm_PriceTick costs) (oi_Side intent) else Inr g) = Inr f"
    by (auto simp: fill_price_def execution_reference_def Let_def result_simps split: option.splits)
  note 1 = applyBPS_adverse [OF g p b]
  show "price_wf f" "oi_Side intent = Buy \<Longrightarrow> price_rat p \<le> price_rat f"
    "oi_Side intent \<noteq> Buy \<Longrightarrow> price_rat f \<le> price_rat p"
    using f 1 roundPriceAdverse_tick(2) [OF _ 1(1)] roundPriceAdverse_adverse [OF _ 1(1)]
    by (fastforce split: if_splits)+
qed

definition sample_cost_model :: CostModel where
  "sample_cost_model = \<lparr>cm_FeeBPS = 10, cm_SlippageBPS = 5, cm_FillBPS = 0, cm_RejectCode = '''',
     cm_Version = ''costs-v1'', cm_ExecutionPrice = None, cm_PriceTick = '''', cm_MinQuantity = '''',
     cm_MinNotional = '''', cm_SubmittedAt = 0\<rparr>"

definition sample_reserved_intent :: "OrderID \<Rightarrow> OrderSide \<Rightarrow> OrderIntent" where
  "sample_reserved_intent orderID side = (sample_intent orderID side 1)\<lparr>oi_metadata := Some
     [(''cost_policy_version'', ''costs-v1''), (''fee_bps'', ''10''), (''slippage_bps'', ''5'')]\<rparr>"

definition sample_backtest :: "64 word BacktestBroker" where
  "sample_backtest = NewBacktestBroker (Some (NewFixedClock_Now (FixedClock 9))) (Some (SequenceIDGenerator_NewID ''s'')) sample_cost_model"

text \<open>A buy with a matching reservation and nothing against it is filled.\<close>

lemma applyBPS_buy_total:
  assumes p: "price_wf p" and b: "0 \<le> sint bps" "sint bps < 2 ^ 62"
  shows "\<exists>f. applyBPS p bps True = Inr f"
proof -
  obtain n where n: "price_rat p * ulps = of_int n" using price_rat_grid [OF p] by blast
  have "0 < price_rat p * ulps" using price_wf_pos [OF p] by simp
  then have n0: "0 < n" using n by simp
  have "1 \<le> bps_rat (10000 + bps)"
    using b by (simp add: bps_rat_def sint_10000_plus del: of_int_sint)
  then have "of_int n * 1 \<le> (of_int n :: rat) * bps_rat (10000 + bps)"
    using n0 by (intro mult_left_mono) simp_all
  then have "n \<le> half_away (of_int n * bps_rat (10000 + bps))" by (intro half_away_ge_of_int) simp
  moreover have "of_int n * bps_rat (10000 + bps) = price_rat p * bps_rat (10000 + bps) * ulps"
    using n by (simp add: mult.commute mult.left_commute flip: n)
  ultimately have h: "0 < half_away (price_rat p * bps_rat (10000 + bps) * ulps)" using n0 by simp
  then have "dec_Sign (mk_dec (half_away (price_rat p * bps_rat (10000 + bps) * ulps)) MaxDecimalScale) = 1"
    by (simp add: dec_Sign_wf)
  then show ?thesis by (simp add: applyBPS_def Let_def ratDecimal_eq NewPrice_def)
qed

lemma book_fill_total:
  assumes "cm_SubmittedAt costs = 0" and "sint (fill_bps costs) = 10000" and v: "oi_Validate i = None"
    and "inst_Validate (oi_Instrument i) = None" and "qty_Valid q" and "price_Valid p" and "cm_Version costs \<noteq> ''''"
    and "0 < oi_CreatedAt i" and "oi_CreatedAt i \<le> t" and "NewFillID (''fill-'' @ raw) = Inr fid" and "fid \<noteq> ''''"
  shows "\<exists>a. book_fill costs name i q p raw t = Inr a \<and> ao_Status a = BrokerFilled"
proof -
  have quote: "inst_QuoteAsset (oi_Instrument i) \<noteq> ''''" using assms(4) by (auto simp: inst_Validate_def split: if_splits)
  have side: "oi_Side i = Buy \<or> oi_Side i = Sell" and oid: "oi_ID i \<noteq> ''''" using oi_Validate_None [OF v] by blast+
  obtain fee where fee: "amountFromRat (newRatBPS (notional q p) (cm_FeeBPS costs)) = Inr fee" "amt_Valid fee"
    by (simp add: amountFromRat_def ratDecimal_eq NewSignedAmount_def amt_Valid_def)
  show ?thesis
    using assms quote side oid fee
    by (auto simp: book_fill_def Let_def NewAcceptedOrder_def cf_Validate_def ao_Validate_def
        BrokerFilled_def BrokerAccepted_def BrokerPartiallyFilled_def)
qed

lemma simulate_buy_returns:
  assumes "oi_Validate i = None" and "oi_Side i = Buy" and "inst_Validate (oi_Instrument i) = None"
    and "\<not> cost_mismatch costs i" and "cm_RejectCode costs = ''''" and "execution_reference costs i = Some p"
    and "price_wf p" and "0 \<le> sint (cm_SlippageBPS costs)" and "sint (cm_SlippageBPS costs) < 2 ^ 62"
    and "cm_PriceTick costs = ''''" and "cm_FillBPS costs = 0" and "cm_MinQuantity costs = ''''"
    and "cm_MinNotional costs = ''''" and "cm_SubmittedAt costs = 0" and "cm_Version costs \<noteq> ''''"
    and "newID s = (Inr raw, s1)" and "NewFillID (''fill-'' @ raw) = Inr fid"
    and "now s1 = (t, s2)" and "0 < oi_CreatedAt i" and "oi_CreatedAt i \<le> t"
  shows "\<exists>a. simulate_intent now newID costs name i s = (Inr (Inl a), s2) \<and> ao_Status a = BrokerFilled"
proof -
  obtain f where f: "applyBPS p (cm_SlippageBPS costs) True = Inr f"
    using applyBPS_buy_total [OF assms(7-9)] by blast
  have fp: "fill_price costs i = Inr f"
    using f assms(2,6,10) by (auto simp: fill_price_def execution_reference_def Let_def split: option.splits)
  have pv: "price_Valid f" using applyBPS_adverse(1) [OF f assms(7-9)] by (simp add: price_wf_def)
  have bps: "sint (fill_bps costs) = 10000" using assms(11) by (simp add: fill_bps_def)
  have fq: "fill_quantity costs i = Inr (oi_Quantity i)" using bps by (simp add: fill_quantity_def)
  have fid: "fid \<noteq> ''''" using assms(17) by (auto simp: NewFillID_def validateIdentity_def Let_def split: if_splits)
  obtain a where "book_fill costs name i (oi_Quantity i) f raw t = Inr a \<and> ao_Status a = BrokerFilled"
    using book_fill_total [OF assms(14) bps assms(1,3) oi_Validate_None(3) [OF assms(1)] pv assms(15,19,20,17) fid] by blast
  then show ?thesis
    using assms fp fq by (simp add: simulate_intent_def below_minimum_def)
qed

lemma sample_fill_facts:
  "oi_Validate (sample_reserved_intent ''a'' Buy) = None" "oi_Side (sample_reserved_intent ''a'' Buy) = Buy"
  "inst_Validate (oi_Instrument (sample_reserved_intent ''a'' Buy)) = None"
  "\<not> cost_mismatch sample_cost_model (sample_reserved_intent ''a'' Buy)" "cm_RejectCode sample_cost_model = ''''"
  "execution_reference sample_cost_model (sample_reserved_intent ''a'' Buy) = Some (Price (mk_dec 100 0))"
  "price_wf (Price (mk_dec 100 0))" "0 \<le> sint (cm_SlippageBPS sample_cost_model)"
  "sint (cm_SlippageBPS sample_cost_model) < 2 ^ 62" "cm_PriceTick sample_cost_model = ''''"
  "cm_FillBPS sample_cost_model = 0" "cm_MinQuantity sample_cost_model = ''''" "cm_MinNotional sample_cost_model = ''''"
  "cm_SubmittedAt sample_cost_model = 0" "cm_Version sample_cost_model \<noteq> ''''"
  "SequenceIDGenerator_NewID ''s'' 1 = (Inr ''s-1'', 2)" "NewFillID (''fill-'' @ ''s-1'') = Inr ''fill-s-1''"
  "NewFixedClock_Now (FixedClock 9) (2 :: 64 word) = (9, 2)"
  "0 < oi_CreatedAt (sample_reserved_intent ''a'' Buy)" "oi_CreatedAt (sample_reserved_intent ''a'' Buy) \<le> 9"
  by code_simp+

lemma sample_fill_returns:
  "\<exists>a. simulate_intent (NewFixedClock_Now (FixedClock 9)) (SequenceIDGenerator_NewID ''s'') sample_cost_model name
     (sample_reserved_intent ''a'' Buy) 1 = (Inr (Inl a), 2)"
  using simulate_buy_returns
    [where newID = "SequenceIDGenerator_NewID ''s''" and s = 1 and now = "NewFixedClock_Now (FixedClock 9)" and ?s1.0 = 2 and ?s2.0 = 2 and i = "sample_reserved_intent ''a'' Buy" and costs = sample_cost_model, OF sample_fill_facts] by blast

text \<open>Simulated buys complete: a validated buy whose reservation matches the cost model, with a
  well-formed reference price, no forced rejection, tick, minimum or partial fill, and a clock that does not run
  before the order, is accepted and completely filled.\<close>

theorem simulated_buy_fills:
  assumes "oi_Validate i = None" and "oi_Side i = Buy" and "inst_Validate (oi_Instrument i) = None"
    and "\<not> cost_mismatch costs i" and "cm_RejectCode costs = ''''" and "execution_reference costs i = Some p"
    and "price_wf p" and "0 \<le> sint (cm_SlippageBPS costs)" and "sint (cm_SlippageBPS costs) < 2 ^ 62"
    and "cm_PriceTick costs = ''''" and "cm_FillBPS costs = 0" and "cm_MinQuantity costs = ''''"
    and "cm_MinNotional costs = ''''" and "cm_SubmittedAt costs = 0" and "cm_Version costs \<noteq> ''''"
    and "newID s = (Inr raw, s1)" and "NewFillID (''fill-'' @ raw) = Inr fid"
    and "now s1 = (t, s2)" and "0 < oi_CreatedAt i" and "oi_CreatedAt i \<le> t"
  shows "\<exists>a. simulate_intent now newID costs name i s = (Inr (Inl a), s2) \<and> ao_Status a = BrokerFilled"
  using assms by (rule simulate_buy_returns)

theorem simulated_buy_fills_witness:
  "\<exists>a. simulate_intent (NewFixedClock_Now (FixedClock 9)) (SequenceIDGenerator_NewID ''s'') sample_cost_model ''paper''
     (sample_reserved_intent ''a'' Buy) 1 = (Inr (Inl a), 2) \<and> ao_Status a = BrokerFilled"
  by (rule simulated_buy_fills
    [where newID = "SequenceIDGenerator_NewID ''s''" and s = 1 and now = "NewFixedClock_Now (FixedClock 9)" and ?s1.0 = 2 and ?s2.0 = 2 and i = "sample_reserved_intent ''a'' Buy" and costs = sample_cost_model, OF sample_fill_facts])

text \<open>A simulated fill is adverse and conserves quantity: an accepted order has one fill at a price not
  better than the execution reference (at least it for a buy, at most it for a sale, after slippage and tick
  rounding), and the filled plus the remaining quantity is exactly the ordered quantity.\<close>

theorem simulated_fill_sound:
  assumes "simulate_intent now newID costs name intent s = (Inr (Inl a), s')"
    and "qty_wf (oi_Quantity intent)" and "execution_reference costs intent = Some p" and "price_wf p"
    and "0 \<le> sint (cm_SlippageBPS costs)" and "sint (cm_SlippageBPS costs) < 2 ^ 62"
  shows "\<exists>f. ao_Fills a = [f] \<and> ao_OrderID a = oi_ID intent \<and> cf_Side f = oi_Side intent \<and>
    (if oi_Side intent = Buy then price_rat p \<le> price_rat (cf_Price f) else price_rat (cf_Price f) \<le> price_rat p) \<and>
    qty_rat (cf_Quantity f) + (case ao_Remaining a of None \<Rightarrow> 0 | Some r \<Rightarrow> qty_rat r) = qty_rat (oi_Quantity intent)"
proof -
  from assms(1) obtain fp fq raw at0 where fp: "fill_price costs intent = Inr fp"
    and fq: "fill_quantity costs intent = Inr fq" and b: "book_fill costs name intent fq fp raw at0 = Inr a"
    by (auto simp: simulate_intent_def result_simps Let_def split: if_splits sum.splits option.splits prod.splits)
  from book_fill_conserves [OF b fq assms(2)] book_fill_ok [OF b] fill_price_adverse [OF fp assms(3-6)]
  show ?thesis by (auto simp: ao_Fills_def)
qed

theorem simulated_fill_sound_witness:
  "\<exists>a. simulate_intent (NewFixedClock_Now (FixedClock 9)) (SequenceIDGenerator_NewID ''s'') sample_cost_model ''paper''
       (sample_reserved_intent ''a'' Buy) 1 = (Inr (Inl a), 2) \<and>
     (\<exists>f. ao_Fills a = [f] \<and> 100 \<le> price_rat (cf_Price f) \<and>
        qty_rat (cf_Quantity f) + (case ao_Remaining a of None \<Rightarrow> 0 | Some r \<Rightarrow> qty_rat r) = 5/2)"
proof -
  obtain a where r: "simulate_intent (NewFixedClock_Now (FixedClock 9)) (SequenceIDGenerator_NewID ''s'') sample_cost_model
      ''paper'' (sample_reserved_intent ''a'' Buy) 1 = (Inr (Inl a), 2)"
    using sample_fill_returns by blast
  have q: "qty_wf (oi_Quantity (sample_reserved_intent ''a'' Buy))" by code_simp
  have v: "qty_rat (oi_Quantity (sample_reserved_intent ''a'' Buy)) = 5/2" "price_rat (Price (mk_dec 100 0)) = 100"
    by (simp_all add: sample_reserved_intent_def sample_intent_def decimalRat_mk)
  from simulated_fill_sound [OF r q sample_fill_facts(6-9)] have
    "\<exists>f. ao_Fills a = [f] \<and> 100 \<le> price_rat (cf_Price f) \<and>
        qty_rat (cf_Quantity f) + (case ao_Remaining a of None \<Rightarrow> 0 | Some r \<Rightarrow> qty_rat r) = 5/2"
    unfolding sample_fill_facts(2) v by auto
  with r show ?thesis by blast
qed

text \<open>A broker resolves every order exactly once: when the backtest broker (with or without a zero-volume
  window) returns an outcome for a batch with distinct order identifiers, the outcome is complete,
  accepted and rejected identifiers partition those of the batch, and accepted orders and their fills are valid.\<close>

theorem broker_resolves_once:
  assumes "Backtest_Submit br b s = (Inr out, s')" and "distinct (map oi_ID (db_Intents b))"
  shows "bo_Completeness out = OutcomeComplete \<and>
    set (map ao_OrderID (bo_Accepted out)) \<union> set (map or_OrderID (bo_Rejected out)) = set (map oi_ID (db_Intents b)) \<and>
    set (map ao_OrderID (bo_Accepted out)) \<inter> set (map or_OrderID (bo_Rejected out)) = {} \<and>
    distinct (map ao_OrderID (bo_Accepted out)) \<and> distinct (map or_OrderID (bo_Rejected out)) \<and>
    (\<forall>a \<in> set (bo_Accepted out). ao_Validate a = None \<and> (\<forall>f \<in> set (ao_Fills a). cf_Validate f = None \<and> cf_OrderID f = ao_OrderID a))"
  using backtest.complete [OF assms(1)] backtest.outcome_ids [OF assms(1)] backtest.exclusive [OF assms]
    backtest.accepted_valid [OF assms(1)] by (simp add: ao_Fills_def)

theorem broker_resolves_once_witness:
  "\<exists>out. Backtest_Submit sample_backtest (DecisionBatch [sample_reserved_intent ''a'' Buy]) 1 = (Inr out, 2) \<and>
     set (map ao_OrderID (bo_Accepted out)) \<union> set (map or_OrderID (bo_Rejected out)) = {''a''}"
proof -
  obtain a where "simulate_intent (NewFixedClock_Now (FixedClock 9)) (SequenceIDGenerator_NewID ''s'') sample_cost_model
      ''backtest'' (sample_reserved_intent ''a'' Buy) 1 = (Inr (Inl a), 2)"
    using sample_fill_returns by blast
  moreover from simulate_intent_ok [OF this] have "ao_Validate a = None" by (simp add: order_ok_def)
  ultimately obtain out where r: "Backtest_Submit sample_backtest (DecisionBatch [sample_reserved_intent ''a'' Buy]) 1 = (Inr out, 2)"
    by (simp add: Backtest_Submit_def Simulation_Submit_def sample_backtest_def NewBacktestBroker_def NewBrokerBatchOutcome_def)
  from broker_resolves_once [OF r] have
    "set (map ao_OrderID (bo_Accepted out)) \<union> set (map or_OrderID (bo_Rejected out)) = {''a''}"
    by (simp add: sample_reserved_intent_def sample_intent_def)
  with r show ?thesis by blast
qed

text \<open>Live execution is fenced and shadow execution forbidden: the live broker rejects every order of a
  validated batch with the fence code and accepts none, and the shadow broker succeeds only on an empty batch.\<close>

theorem live_fenced_shadow_forbidden:
  assumes "NewDecisionBatch is = Inr b" and "\<forall>i \<in> set is. oi_DecisionAt i \<noteq> 0"
  shows "(\<exists>out. Live_Submit b = Inr out \<and> bo_Accepted out = [] \<and>
      mset (map or_OrderID (bo_Rejected out)) = mset (map oi_ID is) \<and>
      (\<forall>r \<in> set (bo_Rejected out). or_Code r = ExchangeExecutionFenced)) \<and>
    ((\<exists>out. Shadow_Submit b = Inr out) \<longleftrightarrow> is = [])"
proof -
  have valid: "\<forall>i \<in> set (db_Intents b). oi_Validate i = None" and t: "\<forall>i \<in> set (db_Intents b). oi_DecisionAt i \<noteq> 0"
    and m: "mset (db_Intents b) = mset is"
    using assms decision_batch.build_iff decision_batch.set_items [OF assms(1)] decision_batch.mset_items [OF assms(1)] by blast+
  let ?rej = "map (\<lambda>intent. broker_rejection intent ExchangeExecutionFenced
          ''durable live submission recovery is not available'' (oi_DecisionAt intent)) (db_Intents b)"
  have "\<forall>r \<in> set ?rej. rejection_error r = None"
    using valid t by (auto simp: broker_rejection_def rejection_error_def ExchangeExecutionFenced_def dest: oi_Validate_None)
  then have "Live_Submit b = Inr \<lparr>bo_Completeness = OutcomeComplete, bo_Accepted = [], bo_Rejected = sort_key or_OrderID ?rej\<rparr>"
    by (simp add: Live_Submit_def NewBrokerBatchOutcome_Inr)
  moreover have "mset (map or_OrderID (sort_key or_OrderID ?rej)) = mset (map oi_ID is)"
    using m by (simp add: multiset.map_comp comp_def broker_rejection_def)
  moreover have "(\<exists>out. Shadow_Submit b = Inr out) \<longleftrightarrow> db_Intents b = []"
    by (auto simp: Shadow_Submit_def NewBrokerBatchOutcome_Inr)
  ultimately show ?thesis using m by (auto simp: broker_rejection_def)
qed

theorem live_fenced_shadow_forbidden_witness:
  "(\<exists>out. Live_Submit sample_batch = Inr out \<and> bo_Accepted out = []) \<and> \<not> (\<exists>out. Shadow_Submit sample_batch = Inr out)"
proof -
  have "NewDecisionBatch (db_Intents sample_batch) = Inr sample_batch" by code_simp
  from live_fenced_shadow_forbidden [OF this] show ?thesis by (auto simp: sample_batch_def sample_intent_def)
qed

text \<open>The sequence generator never repeats an identifier before its 64-bit counter wraps: two
  counters give the same identifier only when they are equal.\<close>

theorem sequence_ids_unique:
  "fst (SequenceIDGenerator_NewID prefix n) = fst (SequenceIDGenerator_NewID prefix m) \<longleftrightarrow> n = m"
proof -
  have "show_nat a = show_nat b \<longleftrightarrow> a = b" for a b by (metis nat_of_show_nat)
  then show ?thesis by (simp add: SequenceIDGenerator_NewID_def word_unat_eq_iff)
qed

end
