(* ===== verification/Orchestrator.thy ===== *)
theory Orchestrator
  imports Brokers
begin

text \<open>
  \<^verbatim>\<open>internal/tradingcore/orchestrator.go\<close>: one run of source, strategy, risk engine, broker and ledger. The
  dependencies are Go interfaces with effects of their own, so each is a function that threads
  an environment state \<open>'s\<close>; a nil dependency is \<open>None\<close>, the observer's error is ignored. \<open>Run\<close> returns
  its result or failure with the state it leaves. The run trace is built as the record the code marshals;
  \<^verbatim>\<open>json.Marshal\<close> and the RFC 3339 rendering of a time are parameters (\<open>trace_codec\<close>).
\<close>

section \<open>Interfaces, failures, results\<close>

record Observation =
  ob_Stage :: string
  ob_Code :: string
  ob_OrderID :: OrderID
  ob_Metadata :: "(string, string) gomap option"

type_synonym RunStage = string

definition RunStageSource :: RunStage where "RunStageSource = ''source''"

definition RunStageStrategy :: RunStage where "RunStageStrategy = ''strategy''"

definition RunStageRisk :: RunStage where "RunStageRisk = ''risk''"

definition RunStageBroker :: RunStage where "RunStageBroker = ''broker''"

definition RunStageLedger :: RunStage where "RunStageLedger = ''ledger''"

definition RunStageTrace :: RunStage where "RunStageTrace = ''trace''"

lemmas run_stages = RunStageSource_def RunStageStrategy_def RunStageRisk_def RunStageBroker_def
  RunStageLedger_def RunStageTrace_def

record RunError =
  re_Stage :: RunStage
  re_SideEffectsPossible :: bool
  re_Err :: go_error

text \<open>An error as callers see it: plain, a run error, or one of them wrapped once more with \<^verbatim>\<open>%w\<close>.\<close>

datatype run_failure =
    PlainFailure go_error
  | RunFailure RunError
  | WrappedFailure string run_failure

text \<open>\<^verbatim>\<open>errors.As\<close> finds the outermost run error of the chain.\<close>

fun as_RunError :: "run_failure \<Rightarrow> RunError option" where
  "as_RunError (PlainFailure e) = None"
| "as_RunError (RunFailure e) = Some e"
| "as_RunError (WrappedFailure context f) = as_RunError f"

definition IsPreSubmissionFailure :: "run_failure \<Rightarrow> bool" where
  "IsPreSubmissionFailure err =
     (case as_RunError err of
        None \<Rightarrow> False
      | Some runErr \<Rightarrow> \<not> re_SideEffectsPossible runErr \<and>
          (re_Stage runErr = RunStageSource \<or> re_Stage runErr = RunStageStrategy \<or> re_Stage runErr = RunStageRisk))"

definition runError :: "RunStage \<Rightarrow> bool \<Rightarrow> go_error \<Rightarrow> run_failure" where
  "runError stage sideEffects err =
     RunFailure \<lparr>re_Stage = stage, re_SideEffectsPossible = sideEffects, re_Err = err\<rparr>"

section \<open>The run trace\<close>

record traceIntent =
  ti_ID :: string
  ti_Symbol :: string
  ti_Side :: string
  ti_Quantity :: string
  ti_Reason :: string
  ti_Engine :: string
  ti_Strategy :: string
  ti_Policy :: string
  ti_Model :: string
  ti_Dataset :: string
  ti_Universe :: string
  ti_FlagSchema :: string
  ti_SignalAt :: string
  ti_DecisionAt :: string
  ti_OrderAt :: string

record traceRejection =
  tj_ID :: string
  tj_Code :: string
  tj_Policy :: string

record traceNoAction =
  tn_Symbol :: string
  tn_Code :: string
  tn_Reason :: string
  tn_Score :: string

record traceFill =
  tf_ID :: string
  tf_OrderID :: string
  tf_ProviderFillID :: string
  tf_Quantity :: string
  tf_Price :: string
  tf_Fee :: string
  tf_FeeAsset :: string
  tf_CostModelVersion :: string
  tf_OrderedAt :: string
  tf_SubmittedAt :: string
  tf_AcceptedAt :: string
  tf_FilledAt :: string

record traceAccepted =
  ta_OrderID :: string
  ta_ProviderOrderID :: string
  ta_Status :: string
  ta_Remaining :: string
  ta_Fills :: "traceFill list"

record runTrace =
  tr_DecisionAt :: string
  tr_Strategy :: "traceIntent list"
  tr_NoActions :: "traceNoAction list"
  tr_RiskApproved :: "traceIntent list"
  tr_RiskRejected :: "traceRejection list"
  tr_RiskTrace :: "RiskTrace list"
  tr_BrokerCompleteness :: OutcomeCompleteness
  tr_BrokerAccepted :: "traceAccepted list"
  tr_BrokerRejected :: "traceRejection list"

record trace_codec =
  codec_time :: "time \<Rightarrow> string"
  codec_marshal :: "runTrace \<Rightarrow> string result"

definition intentTrace :: "trace_codec \<Rightarrow> OrderIntent \<Rightarrow> traceIntent" where
  "intentTrace codec intent =
     \<lparr>ti_ID = oi_ID intent, ti_Symbol = inst_VenueSymbol (oi_Instrument intent), ti_Side = oi_Side intent,
      ti_Quantity = dec_String (qty_Decimal (oi_Quantity intent)), ti_Reason = oi_Reason intent,
      ti_Engine = vc_Engine (oi_Versions intent), ti_Strategy = vc_Strategy (oi_Versions intent),
      ti_Policy = vc_Policy (oi_Versions intent), ti_Model = vc_Model (oi_Versions intent),
      ti_Dataset = vc_Dataset (oi_Versions intent), ti_Universe = vc_Universe (oi_Versions intent),
      ti_FlagSchema = vc_FlagSchema (oi_Versions intent), ti_SignalAt = codec_time codec (oi_SignalAt intent),
      ti_DecisionAt = codec_time codec (oi_DecisionAt intent), ti_OrderAt = codec_time codec (oi_CreatedAt intent)\<rparr>"

definition rejectionTrace :: "OrderRejection \<Rightarrow> traceRejection" where
  "rejectionTrace rejected =
     \<lparr>tj_ID = or_OrderID rejected, tj_Code = or_Code rejected, tj_Policy = or_PolicyVersion rejected\<rparr>"

definition fillTrace :: "trace_codec \<Rightarrow> CoreFill \<Rightarrow> traceFill" where
  "fillTrace codec fill =
     \<lparr>tf_ID = cf_ID fill, tf_OrderID = cf_OrderID fill, tf_ProviderFillID = cf_ProviderFillID fill,
      tf_Quantity = dec_String (qty_Decimal (cf_Quantity fill)), tf_Price = dec_String (price_Decimal (cf_Price fill)),
      tf_Fee = dec_String (amt_Decimal (cf_Fee fill)), tf_FeeAsset = cf_FeeAsset fill,
      tf_CostModelVersion = cf_CostModelVersion fill, tf_OrderedAt = codec_time codec (cf_OrderedAt fill),
      tf_SubmittedAt = codec_time codec (cf_SubmittedAt fill), tf_AcceptedAt = codec_time codec (cf_AcceptedAt fill),
      tf_FilledAt = codec_time codec (cf_FilledAt fill)\<rparr>"

definition acceptedTrace :: "trace_codec \<Rightarrow> AcceptedOrder \<Rightarrow> traceAccepted" where
  "acceptedTrace codec accepted =
     \<lparr>ta_OrderID = ao_OrderID accepted, ta_ProviderOrderID = ao_ProviderOrderID accepted,
      ta_Status = ao_Status accepted,
      ta_Remaining = (case ao_Remaining accepted of None \<Rightarrow> '''' | Some remaining \<Rightarrow> dec_String (qty_Decimal remaining)),
      ta_Fills = map (fillTrace codec) (ao_Fills accepted)\<rparr>"

definition stableRunTrace ::
  "trace_codec \<Rightarrow> DecisionContext \<Rightarrow> StrategyResult \<Rightarrow> RiskDecision \<Rightarrow> BrokerBatchOutcome \<Rightarrow> string result" where
  "stableRunTrace codec snapshot strategy risk broker =
     codec_marshal codec
       \<lparr>tr_DecisionAt = codec_time codec (dc_decisionAt snapshot),
        tr_Strategy = map (intentTrace codec) (db_Intents (sr_Intents strategy)),
        tr_NoActions = map (\<lambda>n. \<lparr>tn_Symbol = inst_VenueSymbol (na_Instrument n), tn_Code = na_Code n,
          tn_Reason = na_Reason n, tn_Score = dec_String (na_ObservedScore n)\<rparr>) (sr_noActions strategy),
        tr_RiskApproved = map (intentTrace codec) (db_Intents (rd_Approved risk)),
        tr_RiskRejected = map rejectionTrace (rd_Rejected risk), tr_RiskTrace = rd_Trace risk,
        tr_BrokerCompleteness = bo_Completeness broker,
        tr_BrokerAccepted = map (acceptedTrace codec) (bo_Accepted broker),
        tr_BrokerRejected = map rejectionTrace (bo_Rejected broker)\<rparr>"

section \<open>A run\<close>

record RunResult =
  run_Strategy :: StrategyResult
  run_Risk :: RiskDecision
  run_Broker :: BrokerBatchOutcome
  run_Trace :: string

record 's Orchestrator =
  orch_Source :: "('s \<Rightarrow> (DecisionContext \<times> RiskPolicy) result \<times> 's) option"
  orch_Strategy :: "(DecisionContext \<Rightarrow> 's \<Rightarrow> StrategyResult result \<times> 's) option"
  orch_Risk :: "(DecisionBatch \<Rightarrow> PortfolioSnapshot \<Rightarrow> RiskPolicy \<Rightarrow> 's \<Rightarrow> RiskDecision result \<times> 's) option"
  orch_Broker :: "(DecisionBatch \<Rightarrow> 's \<Rightarrow> BrokerBatchOutcome result \<times> 's) option"
  orch_Ledger :: "(DecisionBatch \<Rightarrow> BrokerBatchOutcome \<Rightarrow> 's \<Rightarrow> validation \<times> 's) option"
  orch_Observer :: "(Observation \<Rightarrow> 's \<Rightarrow> validation \<times> 's) option"

definition observe :: "'s Orchestrator \<Rightarrow> Observation \<Rightarrow> 's \<Rightarrow> 's" where
  "observe runner observation s =
     (case orch_Observer runner of
        None \<Rightarrow> s
      | Some obs \<Rightarrow> snd (obs (observation\<lparr>ob_Metadata := cloneStrings (ob_Metadata observation)\<rparr>) s))"

definition observe_noActions :: "'s Orchestrator \<Rightarrow> NoAction list \<Rightarrow> 's \<Rightarrow> 's" where
  "observe_noActions runner = fold (\<lambda>n. observe runner \<lparr>ob_Stage = ''strategy'', ob_Code = na_Code n, ob_OrderID = '''',
     ob_Metadata = Some [(''instrument'', inst_ID (na_Instrument n))]\<rparr>)"

definition observe_rejections :: "'s Orchestrator \<Rightarrow> string \<Rightarrow> OrderRejection list \<Rightarrow> 's \<Rightarrow> 's" where
  "observe_rejections runner stage = fold (\<lambda>r. observe runner \<lparr>ob_Stage = stage, ob_Code = or_Code r,
     ob_OrderID = or_OrderID r, ob_Metadata = None\<rparr>)"

definition Run :: "trace_codec \<Rightarrow> 's Orchestrator \<Rightarrow> 's \<Rightarrow> (run_failure + RunResult) \<times> 's" where
  "Run codec runner s =
     (case (orch_Source runner, orch_Strategy runner, orch_Risk runner, orch_Broker runner, orch_Ledger runner) of
        (Some source, Some strategy, Some risk, Some broker, Some ledger) \<Rightarrow>
          (case source s of
             (Inl err, s) \<Rightarrow> (Inl (runError RunStageSource False err), s)
           | (Inr (snapshot, policy), s) \<Rightarrow>
          (case strategy snapshot s of
             (Inl err, s) \<Rightarrow> (Inl (runError RunStageStrategy False err), s)
           | (Inr strategyResult, s) \<Rightarrow>
          (let s = observe_noActions runner (sr_noActions strategyResult) s in
          case risk (sr_Intents strategyResult) (dc_Portfolio snapshot) policy s of
             (Inl err, s) \<Rightarrow> (Inl (runError RunStageRisk False err), s)
           | (Inr riskResult, s) \<Rightarrow>
          (let s = observe_rejections runner ''risk'' (rd_Rejected riskResult) s in
          case broker (rd_Approved riskResult) s of
             (Inl err, s) \<Rightarrow> (Inl (runError RunStageBroker True err), s)
           | (Inr brokerResult, s) \<Rightarrow>
          (let s = observe_rejections runner ''broker'' (bo_Rejected brokerResult) s in
          case ledger (rd_Approved riskResult) brokerResult s of
             (Some err, s) \<Rightarrow> (Inl (runError RunStageLedger True err), s)
           | (None, s) \<Rightarrow>
          (case stableRunTrace codec snapshot strategyResult riskResult brokerResult of
             Inl err \<Rightarrow> (Inl (runError RunStageTrace True err), s)
           | Inr trace \<Rightarrow> (Inr \<lparr>run_Strategy = strategyResult, run_Risk = riskResult, run_Broker = brokerResult,
               run_Trace = trace\<rparr>, s)))))))
      | _ \<Rightarrow> (Inl (PlainFailure (Errorf ''orchestrator dependencies are required'' [])), s))"

section \<open>Laws\<close>

lemma observe_keeps:
  assumes "\<And>ob f s. orch_Observer runner = Some f \<Longrightarrow> obs (snd (f ob s)) = obs s"
  shows "obs (observe runner ob s) = obs s"
    and "obs (observe_noActions runner ns s) = obs s"
    and "obs (observe_rejections runner stage rs s) = obs s"
proof -
  show o: "obs (observe runner ob s) = obs s" for ob s
    using assms by (auto simp: observe_def split: option.splits)
  have "obs (fold (\<lambda>x. observe runner (g x)) xs s) = obs s" for g :: "'x \<Rightarrow> Observation" and xs s
    by (induction xs arbitrary: s) (simp_all add: o)
  then show "obs (observe_noActions runner ns s) = obs s" "obs (observe_rejections runner stage rs s) = obs s"
    by (simp_all add: observe_noActions_def observe_rejections_def)
qed

end
