(* ===== verification/Orchestrator_Laws.thy ===== *)
theory Orchestrator_Laws
  imports Orchestrator Risk_Properties Broker_Laws
begin

text \<open>
  What a run guarantees: a failure reported as pre-submission has touched neither broker nor ledger, the side
  effect flag of a run error is exact, and with the portfolio risk engine and a broker that meets the
  contract of \<open>Broker_Laws\<close> no intent of the strategy is lost or decided twice.
\<close>

section \<open>Stages\<close>

lemma Run_Inr_stages:
  assumes "Run codec runner s = (Inr res, s')"
  obtains source strategy risk broker ledger snapshot policy s1 s2 s3 s4 s5 where
    "orch_Source runner = Some source" "orch_Strategy runner = Some strategy" "orch_Risk runner = Some risk"
    "orch_Broker runner = Some broker" "orch_Ledger runner = Some ledger"
    "source s = (Inr (snapshot, policy), s1)" "strategy snapshot s1 = (Inr (run_Strategy res), s2)"
    "risk (sr_Intents (run_Strategy res)) (dc_Portfolio snapshot) policy
       (observe_noActions runner (sr_noActions (run_Strategy res)) s2) = (Inr (run_Risk res), s3)"
    "broker (rd_Approved (run_Risk res)) (observe_rejections runner ''risk'' (rd_Rejected (run_Risk res)) s3)
       = (Inr (run_Broker res), s4)"
    "ledger (rd_Approved (run_Risk res)) (run_Broker res)
       (observe_rejections runner ''broker'' (bo_Rejected (run_Broker res)) s4) = (None, s')"
  using assms
  by (auto simp: Run_def Let_def split: option.splits prod.splits sum.splits)

lemma Run_Inl_flag:
  assumes "Run codec runner s = (Inl e, s')"
  shows "(\<exists>m. e = PlainFailure m) \<or> (\<exists>err. e = RunFailure err \<and>
    (if re_SideEffectsPossible err then re_Stage err \<in> {RunStageBroker, RunStageLedger, RunStageTrace}
     else re_Stage err \<in> {RunStageSource, RunStageStrategy, RunStageRisk}))"
  using assms
  by (auto simp: Run_def Let_def runError_def split: option.splits prod.splits sum.splits)

lemma Run_safe:
  assumes run: "Run codec runner s = (Inl e, s')" and pre: "IsPreSubmissionFailure e"
    and source: "\<And>f s. orch_Source runner = Some f \<Longrightarrow> obs (snd (f s)) = obs s"
    and strategy: "\<And>f c s. orch_Strategy runner = Some f \<Longrightarrow> obs (snd (f c s)) = obs s"
    and risk: "\<And>f b p q s. orch_Risk runner = Some f \<Longrightarrow> obs (snd (f b p q s)) = obs s"
    and observer: "\<And>f ob s. orch_Observer runner = Some f \<Longrightarrow> obs (snd (f ob s)) = obs s"
  shows "obs s' = obs s"
proof -
  have keep: "obs (observe_noActions runner ns s) = obs s" for ns s using observer by (rule observe_keeps(2))
  have stage: "as_RunError e = Some r \<Longrightarrow> re_SideEffectsPossible r = False" for r
    using pre by (auto simp: IsPreSubmissionFailure_def)
  show ?thesis
    using run
  proof (cases "orch_Source runner = None \<or> orch_Strategy runner = None \<or> orch_Risk runner = None \<or>
      orch_Broker runner = None \<or> orch_Ledger runner = None")
    case True
    then show ?thesis using run by (auto simp: Run_def split: option.splits)
  next
    case False
    then obtain f1 f2 f3 f4 f5 where f: "orch_Source runner = Some f1" "orch_Strategy runner = Some f2"
      "orch_Risk runner = Some f3" "orch_Broker runner = Some f4" "orch_Ledger runner = Some f5" by auto
    obtain r1 s1 where 1: "f1 s = (r1, s1)" by (cases "f1 s")
    have o1: "obs s1 = obs s" using source [OF f(1), of s] 1 by simp
    show ?thesis
    proof (cases r1)
      case (Inl err)
      then show ?thesis using run f 1 o1 by (simp add: Run_def)
    next
      case (Inr sp)
      obtain snapshot policy where sp: "sp = (snapshot, policy)" by (cases sp)
      obtain r2 s2 where 2: "f2 snapshot s1 = (r2, s2)" by (cases "f2 snapshot s1")
      have o2: "obs s2 = obs s" using strategy [OF f(2), of snapshot s1] 2 o1 by simp
      show ?thesis
      proof (cases r2)
        case (Inl err)
        then show ?thesis using run f 1 2 o2 Inr sp by (simp add: Run_def)
      next
        case r2: (Inr sr)
        obtain r3 s3 where 3: "f3 (sr_Intents sr) (dc_Portfolio snapshot) policy
            (observe_noActions runner (sr_noActions sr) s2) = (r3, s3)" by fastforce
        have o3: "obs s3 = obs s"
          using risk [OF f(3), of "sr_Intents sr" "dc_Portfolio snapshot" policy] 3 o2 keep by (metis snd_conv)
        show ?thesis
        proof (cases r3)
          case (Inl err)
          then show ?thesis using run f 1 2 3 o3 Inr sp r2 by (simp add: Run_def Let_def)
        next
          case r3: (Inr rr)
          then show ?thesis using run f 1 2 3 Inr sp r2 stage
            by (auto simp: Run_def Let_def runError_def split: prod.splits sum.splits option.splits)
        qed
      qed
    qed
  qed
qed

text \<open>Every approved intent comes from an intent of the batch in a mode with execution authority.\<close>

lemma Evaluate_modes:
  assumes "NewDecisionBatch is = Inr batch" and "Evaluate batch portfolio policy = Inr d"
    and "a \<in> set (db_Intents (rd_Approved d))"
  shows "\<exists>i \<in> set (db_Intents batch). oi_ID a = oi_ID i \<and>
    oi_ExecutionMode i \<notin> {ExecutionResearch, ExecutionShadow, ExecutionLiveDryRun}"
proof -
  from assms(2) obtain acc where acc: "evaluate_all portfolio policy (db_Intents batch) (initial_acc portfolio policy) = Inr acc"
    and ap: "NewDecisionBatch (ra_approved acc) = Inr (rd_approved d)" by (rule Evaluate_Inr)
  have "a \<in> set (ra_approved acc)"
    using assms(3) decision_batch.set_items [OF ap] rd_Approved_id [OF ap] by simp
  then obtain i aq apps ch where i: "i \<in> set (db_Intents batch)" "a = approved_intent i aq policy" "qty_Valid aq"
    and g: "gate_intent i portfolio policy apps = (ch, '''')"
    using evaluate_all_origin [OF acc batch_valid [OF assms(1)], of a] by (auto simp: initial_acc_def Let_def)
  have "oi_ID a = oi_ID i"
    using approved_intent_fields(2) [OF _ i(3)] batch_valid [OF assms(1)] i(1,2) by blast
  then show ?thesis using gate_intent_ok(1) [OF g] i(1) by blast
qed

lemma observe_idle:
  assumes "orch_Observer runner = None"
  shows "observe_noActions runner ns s = s" and "observe_rejections runner stage rs s = s"
proof -
  have "fold (\<lambda>x. observe runner (g x)) xs s = s" for g :: "'x \<Rightarrow> Observation" and xs s
    by (induction xs) (simp_all add: observe_def assms)
  then show "observe_noActions runner ns s = s" "observe_rejections runner stage rs s = s"
    by (simp_all add: observe_noActions_def observe_rejections_def)
qed

section \<open>Properties\<close>

text \<open>C15: A failure that reports itself as pre-submission is safe to retry: whatever source, strategy, risk engine
  and observer leave unchanged (the broker's and the ledger's state in particular) is unchanged
  after the run, whatever broker and ledger would have done.\<close>

theorem Run_pre_submission_safe:
  assumes "Run codec runner s = (Inl e, s')" and "IsPreSubmissionFailure e"
    and "\<And>f s. orch_Source runner = Some f \<Longrightarrow> obs (snd (f s)) = obs s"
    and "\<And>f c s. orch_Strategy runner = Some f \<Longrightarrow> obs (snd (f c s)) = obs s"
    and "\<And>f b p q s. orch_Risk runner = Some f \<Longrightarrow> obs (snd (f b p q s)) = obs s"
    and "\<And>f ob s. orch_Observer runner = Some f \<Longrightarrow> obs (snd (f ob s)) = obs s"
  shows "obs s' = obs s"
  using assms by (rule Run_safe)

text \<open>A run on a world of two counters (decisions made, orders submitted): the strategy fails.\<close>

definition sample_runner :: "(nat \<times> nat) Orchestrator" where
  "sample_runner = \<lparr>
     orch_Source = Some (\<lambda>(n, m). (Inl (Errorf ''no market data'' []), (n + 1, m))),
     orch_Strategy = Some (\<lambda>c s. (Inl (Errorf ''none'' []), s)),
     orch_Risk = Some (\<lambda>b p q s. (Evaluate b p q, s)),
     orch_Broker = Some (\<lambda>b (n, m). (Live_Submit b, (n, m + 1))),
     orch_Ledger = Some (\<lambda>b out (n, m). (None, (n, m + 1))), orch_Observer = None\<rparr>"

definition sample_codec :: trace_codec where
  "sample_codec = \<lparr>codec_time = big_string, codec_marshal = (\<lambda>t. Inr (tr_DecisionAt t))\<rparr>"

theorem Run_pre_submission_safe_witness:
  "\<exists>e s'. Run sample_codec sample_runner (0, 7) = (Inl e, s') \<and> IsPreSubmissionFailure e \<and> snd s' = 7"
proof -
  have r: "Run sample_codec sample_runner (0, 7) =
      (Inl (runError RunStageSource False (Errorf ''no market data'' [])), (1, 7))"
    by (simp add: Run_def sample_runner_def)
  have pre: "IsPreSubmissionFailure (runError RunStageSource False (Errorf ''no market data'' []))"
    by (simp add: IsPreSubmissionFailure_def runError_def)
  have "snd (1 :: nat, 7 :: nat) = snd (0 :: nat, 7 :: nat)"
    by (rule Run_pre_submission_safe [OF r pre]) (auto simp: sample_runner_def)
  with r pre show ?thesis by auto
qed

text \<open>The side effect flag is exact: a run error of the source, strategy or risk stage is a pre-submission
  failure and one of the broker, ledger or trace stage is not, also when it is wrapped further.\<close>

theorem Run_failure_classified:
  assumes "Run codec runner s = (Inl (RunFailure err), s')"
  shows "(IsPreSubmissionFailure (RunFailure err) \<longleftrightarrow> re_Stage err \<in> {RunStageSource, RunStageStrategy, RunStageRisk}) \<and>
    (re_SideEffectsPossible err \<longleftrightarrow> re_Stage err \<in> {RunStageBroker, RunStageLedger, RunStageTrace}) \<and>
    (IsPreSubmissionFailure (WrappedFailure context (RunFailure err)) \<longleftrightarrow> IsPreSubmissionFailure (RunFailure err))"
  using Run_Inl_flag [OF assms] by (auto simp: IsPreSubmissionFailure_def run_stages split: if_splits)

theorem Run_failure_classified_witness:
  "\<exists>err s'. Run sample_codec sample_runner (0, 7) = (Inl (RunFailure err), s') \<and>
     IsPreSubmissionFailure (RunFailure err) \<and> \<not> re_SideEffectsPossible err"
proof -
  let ?err = "\<lparr>re_Stage = RunStageSource, re_SideEffectsPossible = False, re_Err = Errorf ''no market data'' []\<rparr>"
  have r: "Run sample_codec sample_runner (0, 7) = (Inl (RunFailure ?err), (1, 7))"
    by (simp add: Run_def sample_runner_def runError_def)
  have "IsPreSubmissionFailure (RunFailure ?err) \<and> \<not> re_SideEffectsPossible ?err"
    using Run_failure_classified [OF r] by simp
  with r show ?thesis by blast
qed

text \<open>No intent is lost between strategy and ledger: in a successful run with the portfolio risk engine and
  the backtest broker, the identifiers of the strategy's intents are, as a multiset, those the risk engine
  rejected, those the broker rejected and those the broker accepted; accepted orders are valid.\<close>

theorem Run_conserves_intents:
  assumes "Run codec runner s = (Inr res, s')"
    and "orch_Risk runner = Some (\<lambda>b p q s. (Evaluate b p q, s))"
    and "orch_Broker runner = Some (Backtest_Submit br)"
  shows "mset (map oi_ID (db_Intents (sr_Intents (run_Strategy res)))) =
      mset (map or_OrderID (rd_Rejected (run_Risk res))) + mset (map or_OrderID (bo_Rejected (run_Broker res))) +
      mset (map ao_OrderID (bo_Accepted (run_Broker res))) \<and>
    (\<forall>a \<in> set (bo_Accepted (run_Broker res)). ao_Validate a = None)"
proof -
  from assms(1) obtain risk broker snapshot policy s2 s3 s4 where
    "orch_Risk runner = Some risk" "orch_Broker runner = Some broker"
    and r: "risk (sr_Intents (run_Strategy res)) (dc_Portfolio snapshot) policy
       (observe_noActions runner (sr_noActions (run_Strategy res)) s2) = (Inr (run_Risk res), s3)"
    and b: "broker (rd_Approved (run_Risk res)) (observe_rejections runner ''risk'' (rd_Rejected (run_Risk res)) s3)
       = (Inr (run_Broker res), s4)"
    by (rule Run_Inr_stages)
  with assms(2,3) have ev: "Evaluate (sr_Intents (run_Strategy res)) (dc_Portfolio snapshot) policy = Inr (run_Risk res)"
    and sub: "Backtest_Submit br (rd_Approved (run_Risk res))
       (observe_rejections runner ''risk'' (rd_Rejected (run_Risk res)) s3) = (Inr (run_Broker res), s4)"
    by auto
  obtain "is" where "NewDecisionBatch is = Inr (sr_Intents (run_Strategy res)) \<and>
      mset (map oi_ID is) = mset (map oi_ID (db_Intents (sr_Intents (run_Strategy res))))"
    using sr_Intents_rebuilt by blast
  with Evaluate_decides_once [OF _ ev] have 1: "mset (map oi_ID (db_Intents (sr_Intents (run_Strategy res)))) =
      mset (map oi_ID (db_Intents (rd_Approved (run_Risk res)))) + mset (map or_OrderID (rd_Rejected (run_Risk res)))"
    by metis
  have 2: "mset (map oi_ID (db_Intents (rd_Approved (run_Risk res)))) =
      mset (map ao_OrderID (bo_Accepted (run_Broker res))) + mset (map or_OrderID (bo_Rejected (run_Broker res)))"
    using backtest.resolves [OF sub] by (rule sym)
  show ?thesis
    using backtest.accepted_valid [OF sub] unfolding 1 2 by (auto simp: ac_simps)
qed


definition research_intent :: OrderIntent where
  "research_intent = (sample_intent ''r'' Buy 1)\<lparr>oi_ExecutionMode := ExecutionResearch\<rparr>"

definition sample_context :: DecisionContext where
  "sample_context = \<lparr>dc_marketObservedAt = 1, dc_signalAt = 2, dc_decisionAt = 3, dc_bars = [], dc_quotes = [],
     dc_universe = zero_UniverseSnapshot, dc_portfolio = sample_portfolio, dc_settings = [],
     dc_versions = zero_VersionContext\<rparr>"

definition sample_paper_runner :: "64 word Orchestrator" where
  "sample_paper_runner = \<lparr>
     orch_Source = Some (\<lambda>s. (Inr (sample_context, sample_policy), s)),
     orch_Strategy = Some (\<lambda>c s. (Inr (NewStrategyResult (DecisionBatch [research_intent]) []), s)),
     orch_Risk = Some (\<lambda>b p q s. (Evaluate b p q, s)),
     orch_Broker = Some (Backtest_Submit sample_backtest),
     orch_Ledger = Some (\<lambda>b out s. (None, s)), orch_Observer = None\<rparr>"

lemma sample_paper_select:
  "orch_Source sample_paper_runner = Some (\<lambda>s. (Inr (sample_context, sample_policy), s))"
  "orch_Strategy sample_paper_runner = Some (\<lambda>c s. (Inr (NewStrategyResult (DecisionBatch [research_intent]) []), s))"
  "orch_Risk sample_paper_runner = Some (\<lambda>b p q s. (Evaluate b p q, s))"
  "orch_Broker sample_paper_runner = Some (Backtest_Submit sample_backtest)"
  "orch_Ledger sample_paper_runner = Some (\<lambda>b out s. (None, s))" "orch_Observer sample_paper_runner = None"
  by (simp_all add: sample_paper_runner_def)

theorem Run_conserves_intents_witness:
  "\<exists>res s'. Run sample_codec sample_paper_runner 1 = (Inr res, s') \<and>
     mset (map oi_ID (db_Intents (sr_Intents (run_Strategy res)))) =
      mset (map or_OrderID (rd_Rejected (run_Risk res))) + mset (map or_OrderID (bo_Rejected (run_Broker res))) +
      mset (map ao_OrderID (bo_Accepted (run_Broker res)))"
proof -
  have si: "sr_Intents (NewStrategyResult (DecisionBatch [research_intent]) []) = DecisionBatch [research_intent]"
    and p: "dc_Portfolio sample_context = sample_portfolio"
    and ex: "exact_inputs sample_portfolio sample_policy (db_Intents (DecisionBatch [research_intent]))"
    and b: "NewDecisionBatch [research_intent] = Inr (DecisionBatch [research_intent])"
    by code_simp+
  obtain d where d: "Evaluate (DecisionBatch [research_intent]) sample_portfolio sample_policy = Inr d"
    using Evaluate_returns [OF ex sample_risk(1)] by blast
  have "db_Intents (rd_Approved d) = []"
    using Evaluate_modes [OF b d] by (cases "db_Intents (rd_Approved d)") (auto simp: research_intent_def)
  then have "rd_Approved d = DecisionBatch []" by (cases "rd_Approved d") simp
  moreover have "Backtest_Submit sample_backtest (DecisionBatch []) s =
      (Inr \<lparr>bo_Completeness = OutcomeComplete, bo_Accepted = [], bo_Rejected = []\<rparr>, s)" for s
    by (simp add: Backtest_Submit_def Simulation_Submit_def sample_backtest_def NewBacktestBroker_def
        NewBrokerBatchOutcome_def)
  moreover have "stableRunTrace sample_codec c x y z \<noteq> Inl e" for c x y z e
    by (simp add: stableRunTrace_def sample_codec_def)
  ultimately have "\<not> isl (fst (Run sample_codec sample_paper_runner 1))"
    using d by (simp add: Run_def sample_paper_select si p Let_def observe_idle split: sum.splits)
  then obtain res s' where r: "Run sample_codec sample_paper_runner 1 = (Inr res, s')"
    by (metis prod.collapse sum.collapse(2))
  from Run_conserves_intents [OF r sample_paper_select(3,4)] r show ?thesis by blast
qed

end
