(* ===== verification/Cutover.thy ===== *)
theory Cutover
  imports Go_Strings
begin

text \<open>
  \<^verbatim>\<open>internal/cutover/flags.go\<close>: the validated startup envelope. \<open>Flags\<close> is the struct, \<open>Parse\<close> reads it
  from the environment, \<open>flags_Validate\<close> accepts only the combinations with enough authority, and
  \<open>active_state\<close> is the package's process-wide variable with its operations. JSON text and SHA-256 are outside the
  sources: the record \<open>codec\<close> holds them. A JSON value is a \<open>json\<close>: \<open>JObject\<close> lists the members in the order they
  are written, so a struct keeps its field order and a Go map is sorted by key (\<open>json_map\<close>).
\<close>

section \<open>JSON and digests\<close>

datatype json =
    JNull
  | JBool bool
  | JNumber string
  | JString string
  | JArray "json list"
  | JObject "(string \<times> json) list"

record codec =
  cd_Marshal :: "json \<Rightarrow> string result"
  cd_sha256hex :: "string \<Rightarrow> string"

definition json_map :: "(string, json) gomap \<Rightarrow> json" where
  "json_map m = JObject (sort_key fst m)"

section \<open>Flags\<close>

definition FlagSchemaVersion :: string where
  "FlagSchemaVersion = ''stage08-flags-v1''"

record Flags =
  fl_SchemaVersion :: string
  fl_LedgerAuthority :: string
  fl_SharedEngine :: string
  fl_NewBacktest :: string
  fl_PointInTime :: string
  fl_CandidateStrategy :: string
  fl_DualRun :: string
  fl_Stage07Context :: string

definition zero_Flags :: Flags where
  "zero_Flags = \<lparr>fl_SchemaVersion = '''', fl_LedgerAuthority = '''', fl_SharedEngine = '''', fl_NewBacktest = '''',
     fl_PointInTime = '''', fl_CandidateStrategy = '''', fl_DualRun = '''', fl_Stage07Context = ''''\<rparr>"

definition SafeFlags :: Flags where
  "SafeFlags = \<lparr>fl_SchemaVersion = FlagSchemaVersion, fl_LedgerAuthority = ''legacy'', fl_SharedEngine = ''off'',
     fl_NewBacktest = ''off'', fl_PointInTime = ''off'', fl_CandidateStrategy = ''off'', fl_DualRun = ''off'',
     fl_Stage07Context = ''''\<rparr>"

definition IsLive :: "Flags \<Rightarrow> bool" where
  "IsLive f \<longleftrightarrow> fl_SharedEngine f = ''limited_live'' \<or> fl_SharedEngine f = ''full_live''
     \<or> fl_CandidateStrategy f = ''limited_live'' \<or> fl_CandidateStrategy f = ''full_live''"

definition CapitalEnabled :: "Flags \<Rightarrow> bool" where
  "CapitalEnabled f \<longleftrightarrow> fl_SharedEngine f = ''paper'' \<or> IsLive f"

text \<open>The table of \<^verbatim>\<open>Validate\<close>: name, value, allowed values.\<close>

definition flag_checks :: "Flags \<Rightarrow> (string \<times> string \<times> string list) list" where
  "flag_checks f =
     [(''STAGE08_LEDGER_AUTHORITY'', fl_LedgerAuthority f, [''legacy'', ''compare'', ''authoritative'']),
      (''STAGE08_SHARED_ENGINE'', fl_SharedEngine f, [''off'', ''shadow'', ''paper'', ''limited_live'', ''full_live'']),
      (''STAGE08_NEW_BACKTEST'', fl_NewBacktest f, [''off'', ''research'']),
      (''STAGE08_POINT_IN_TIME_UNIVERSE'', fl_PointInTime f, [''off'', ''research'', ''authoritative'']),
      (''STAGE08_CANDIDATE_STRATEGY'', fl_CandidateStrategy f,
         [''off'', ''research'', ''shadow'', ''paper'', ''limited_live'', ''full_live'']),
      (''STAGE08_DUAL_RUN'', fl_DualRun f, [''off'', ''observe''])]"

definition check_flag :: "string \<times> string \<times> string list \<Rightarrow> validation" where
  "check_flag c = (case c of (name, v, allowed) \<Rightarrow>
     if v \<in> set allowed then None
     else Some (Errorf ''unknown or malformed %s=%q (allowed: %s)'' (name # v # allowed)))"

definition flags_Validate :: "Flags \<Rightarrow> validation" where
  "flags_Validate f =
     (if fl_SchemaVersion f \<noteq> FlagSchemaVersion
      then Some (Errorf ''unsupported STAGE08_FLAG_SCHEMA_VERSION %q (required %q)'' [fl_SchemaVersion f, FlagSchemaVersion])
      else case first_error check_flag (flag_checks f) of Some e \<Rightarrow> Some e
      | None \<Rightarrow>
     if fl_DualRun f = ''observe'' \<and> fl_SharedEngine f = ''off''
     then Some (Errorf ''STAGE08_DUAL_RUN=observe requires STAGE08_SHARED_ENGINE=shadow or stronger'' [])
     else if fl_CandidateStrategy f \<noteq> ''off'' \<and> fl_CandidateStrategy f \<noteq> ''research''
             \<and> (fl_SharedEngine f = ''off'' \<or> fl_PointInTime f = ''off'')
     then Some (Errorf ''candidate strategy shadow/capital modes require shared engine and point-in-time universe'' [])
     else if fl_CandidateStrategy f = ''paper'' \<and> fl_SharedEngine f \<noteq> ''paper''
     then Some (Errorf ''candidate paper requires STAGE08_SHARED_ENGINE=paper'' [])
     else if fl_SharedEngine f = ''paper'' \<and> fl_LedgerAuthority f \<noteq> ''authoritative''
     then Some (Errorf ''new paper requires authoritative ledger'' [])
     else if fl_PointInTime f = ''authoritative'' \<and> fl_SharedEngine f = ''off''
     then Some (Errorf ''authoritative point-in-time universe requires shared engine'' [])
     else if IsLive f \<and> (fl_LedgerAuthority f \<noteq> ''authoritative'' \<or> fl_PointInTime f \<noteq> ''authoritative''
             \<or> fl_Stage07Context f = '''')
     then Some (Errorf ''live modes require authoritative ledger/PIT universe and exact STAGE08_STAGE07_CONTEXT'' [])
     else if IsLive f \<and> fl_SharedEngine f \<noteq> fl_CandidateStrategy f
     then Some (Errorf ''live shared-engine and candidate modes must match exactly'' [])
     else None)"

definition assign :: "(string, string) gomap \<Rightarrow> string \<Rightarrow> string \<Rightarrow> string" where
  "assign vals key target = (case map_of vals key of Some v \<Rightarrow> trim_space (to_lower v) | None \<Rightarrow> target)"

definition Parse :: "(string, string) gomap \<Rightarrow> Flags \<times> validation" where
  "Parse vals =
     (let f = SafeFlags;
          f = f\<lparr>fl_SchemaVersion := assign vals ''STAGE08_FLAG_SCHEMA_VERSION'' (fl_SchemaVersion f)\<rparr>;
          f = f\<lparr>fl_LedgerAuthority := assign vals ''STAGE08_LEDGER_AUTHORITY'' (fl_LedgerAuthority f)\<rparr>;
          f = f\<lparr>fl_SharedEngine := assign vals ''STAGE08_SHARED_ENGINE'' (fl_SharedEngine f)\<rparr>;
          f = f\<lparr>fl_NewBacktest := assign vals ''STAGE08_NEW_BACKTEST'' (fl_NewBacktest f)\<rparr>;
          f = f\<lparr>fl_PointInTime := assign vals ''STAGE08_POINT_IN_TIME_UNIVERSE'' (fl_PointInTime f)\<rparr>;
          f = f\<lparr>fl_CandidateStrategy := assign vals ''STAGE08_CANDIDATE_STRATEGY'' (fl_CandidateStrategy f)\<rparr>;
          f = f\<lparr>fl_DualRun := assign vals ''STAGE08_DUAL_RUN'' (fl_DualRun f)\<rparr>;
          f = (case map_of vals ''STAGE08_STAGE07_CONTEXT'' of
                 Some v \<Rightarrow> f\<lparr>fl_Stage07Context := trim_space v\<rparr> | None \<Rightarrow> f)
      in (f, flags_Validate f))"

definition flags_json :: "Flags \<Rightarrow> json" where
  "flags_json f = JObject
     ([(''schema_version'', JString (fl_SchemaVersion f)), (''ledger_authority'', JString (fl_LedgerAuthority f)),
       (''shared_engine'', JString (fl_SharedEngine f)), (''new_backtest'', JString (fl_NewBacktest f)),
       (''point_in_time_universe'', JString (fl_PointInTime f)),
       (''candidate_strategy'', JString (fl_CandidateStrategy f)), (''dual_run'', JString (fl_DualRun f))]
      @ (if fl_Stage07Context f = '''' then [] else [(''stage07_context'', JString (fl_Stage07Context f))]))"

definition flags_Canonical :: "codec \<Rightarrow> Flags \<Rightarrow> (string \<times> string) result" where
  "flags_Canonical cd f =
     and_then (cd_Marshal cd (flags_json f)) (\<lambda>data. Inr (data, cd_sha256hex cd data))"

text \<open>\<^verbatim>\<open>AuthorizeRuntimeSetting\<close>: may the persisted setting select this engine mode?\<close>

definition AuthorizeRuntimeSetting :: "Flags \<Rightarrow> string \<Rightarrow> validation" where
  "AuthorizeRuntimeSetting f engineMode =
     (let mode = to_lower (trim_space engineMode);
          exceeds = Some (Errorf ''trading_engine_mode %q exceeds validated Stage 08 authority'' [engineMode])
      in if mode = ''legacy'' then None
         else if mode = ''shadow_compare''
         then (if fl_DualRun f = ''observe'' \<and> fl_SharedEngine f \<noteq> ''off'' then None else exceeds)
         else if mode = ''shared''
         then (if fl_SharedEngine f = ''paper'' \<and> fl_LedgerAuthority f = ''authoritative'' then None else exceeds)
         else Some (Errorf ''unknown trading_engine_mode %q'' [engineMode]))"

section \<open>The active state\<close>

record active_state =
  as_flags :: Flags
  as_snapshotID :: string
  as_authority :: string
  as_initialized :: bool

definition ActivateVerified :: "codec \<Rightarrow> Flags \<Rightarrow> string \<Rightarrow> string \<Rightarrow> active_state \<Rightarrow> validation \<times> active_state" where
  "ActivateVerified cd f snapshotID authority s =
     (case flags_Validate f of Some e \<Rightarrow> (Some e, s)
      | None \<Rightarrow>
        if snapshotID \<noteq> '''' \<and>
           (case flags_Canonical cd f of Inl _ \<Rightarrow> True | Inr (_, digest) \<Rightarrow> digest \<noteq> snapshotID)
        then (Some (Errorf ''verified flag snapshot digest mismatch'' []), s)
        else (None, \<lparr>as_flags = f, as_snapshotID = snapshotID, as_authority = authority, as_initialized = True\<rparr>))"

definition Activate :: "codec \<Rightarrow> Flags \<Rightarrow> active_state \<Rightarrow> validation \<times> active_state" where
  "Activate cd f s = ActivateVerified cd f '''' ''unverified'' s"

definition ActiveEvidence :: "active_state \<Rightarrow> Flags \<times> string \<times> string \<times> bool" where
  "ActiveEvidence s = (as_flags s, as_snapshotID s, as_authority s, as_initialized s)"

definition Active :: "active_state \<Rightarrow> Flags \<times> bool" where
  "Active s = (as_flags s, as_initialized s)"

definition ResetForTest :: "active_state \<Rightarrow> active_state" where
  "ResetForTest s = \<lparr>as_flags = zero_Flags, as_snapshotID = '''', as_authority = '''', as_initialized = False\<rparr>"

definition string_map :: "(string, string) gomap \<Rightarrow> json" where
  "string_map m = json_map (map (\<lambda>(k, v). (k, JString v)) (fold (\<lambda>(k, v). AList.update k v) (rev m) []))"

definition ObservationContext ::
  "codec \<Rightarrow> active_state \<Rightarrow> Flags \<Rightarrow> string \<Rightarrow> (string, string) gomap \<Rightarrow> string" where
  "ObservationContext cd s f activePath versions =
     (let flagID = snd (the_ok ('''', '''') (flags_Canonical cd f));
          flagID = (if as_initialized s \<and> as_snapshotID s \<noteq> '''' then as_snapshotID s else flagID);
          members = [(''schema_version'', JString ''stage08-observation-context-v2''),
                     (''flag_snapshot_id'', JString flagID), (''active_path'', JString activePath),
                     (''flags'', flags_json f), (''versions'', string_map versions)];
          canonical = the_ok '''' (cd_Marshal cd (JObject members));
          digest = cd_sha256hex cd canonical
      in the_ok '''' (cd_Marshal cd (JObject (members @ [(''content_digest'', JString digest)]))))"

section \<open>Laws\<close>

lemma flags_Validate_None:
  "flags_Validate f = None \<longleftrightarrow>
     fl_SchemaVersion f = FlagSchemaVersion \<and> (\<forall>c \<in> set (flag_checks f). check_flag c = None) \<and>
     (fl_DualRun f = ''observe'' \<longrightarrow> fl_SharedEngine f \<noteq> ''off'') \<and>
     (fl_CandidateStrategy f \<noteq> ''off'' \<and> fl_CandidateStrategy f \<noteq> ''research'' \<longrightarrow>
        fl_SharedEngine f \<noteq> ''off'' \<and> fl_PointInTime f \<noteq> ''off'') \<and>
     (fl_CandidateStrategy f = ''paper'' \<longrightarrow> fl_SharedEngine f = ''paper'') \<and>
     (fl_SharedEngine f = ''paper'' \<longrightarrow> fl_LedgerAuthority f = ''authoritative'') \<and>
     (fl_PointInTime f = ''authoritative'' \<longrightarrow> fl_SharedEngine f \<noteq> ''off'') \<and>
     (IsLive f \<longrightarrow> fl_LedgerAuthority f = ''authoritative'' \<and> fl_PointInTime f = ''authoritative''
        \<and> fl_Stage07Context f \<noteq> '''' \<and> fl_SharedEngine f = fl_CandidateStrategy f)"
proof (cases "first_error check_flag (flag_checks f)")
  case None
  then have "\<forall>c \<in> set (flag_checks f). check_flag c = None" by simp
  with None show ?thesis
    unfolding flags_Validate_def by (simp only: option.case if_split guard_None) argo
next
  case (Some e)
  then have "\<not> (\<forall>c \<in> set (flag_checks f). check_flag c = None)"
    by (metis first_error_None option.distinct(1))
  with Some show ?thesis unfolding flags_Validate_def by (simp only: option.case guard_None) simp
qed

lemma Parse_fields:
  "fl_SharedEngine (fst (Parse vals)) = assign vals ''STAGE08_SHARED_ENGINE'' ''off''"
  "fl_CandidateStrategy (fst (Parse vals)) = assign vals ''STAGE08_CANDIDATE_STRATEGY'' ''off''"
  "fl_LedgerAuthority (fst (Parse vals)) = assign vals ''STAGE08_LEDGER_AUTHORITY'' ''legacy''"
  "snd (Parse vals) = flags_Validate (fst (Parse vals))"
  by (simp_all add: Parse_def SafeFlags_def Let_def split: option.splits)

lemma assign_changed: "assign vals key d \<noteq> d \<Longrightarrow> map_has vals key"
  by (auto simp: assign_def map_has_def split: option.splits)

section \<open>Properties\<close>

lemma checked_values:
  assumes "flags_Validate f = None"
  shows "fl_SharedEngine f \<in> {''off'', ''shadow'', ''paper'', ''limited_live'', ''full_live''}"
    and "fl_CandidateStrategy f \<in> {''off'', ''research'', ''shadow'', ''paper'', ''limited_live'', ''full_live''}"
proof -
  have ok: "check_flag c = None" if "c \<in> set (flag_checks f)" for c
    using assms that by (simp only: flags_Validate_None)
  have "check_flag (''STAGE08_SHARED_ENGINE'', fl_SharedEngine f,
      [''off'', ''shadow'', ''paper'', ''limited_live'', ''full_live'']) = None"
    by (rule ok) (simp add: flag_checks_def)
  then show "fl_SharedEngine f \<in> {''off'', ''shadow'', ''paper'', ''limited_live'', ''full_live''}"
    by (auto simp: check_flag_def split: if_splits)
  have "check_flag (''STAGE08_CANDIDATE_STRATEGY'', fl_CandidateStrategy f,
      [''off'', ''research'', ''shadow'', ''paper'', ''limited_live'', ''full_live'']) = None"
    by (rule ok) (simp add: flag_checks_def)
  then show "fl_CandidateStrategy f \<in> {''off'', ''research'', ''shadow'', ''paper'', ''limited_live'', ''full_live''}"
    by (auto simp: check_flag_def split: if_splits)
qed

lemma live_flags:
  assumes "flags_Validate f = None" and "IsLive f"
  shows "fl_LedgerAuthority f = ''authoritative''" "fl_PointInTime f = ''authoritative''"
    "fl_Stage07Context f \<noteq> ''''" "fl_SharedEngine f = fl_CandidateStrategy f"
    "fl_SharedEngine f \<in> {''limited_live'', ''full_live''}"
proof -
  have "fl_LedgerAuthority f = ''authoritative'' \<and> fl_PointInTime f = ''authoritative''
      \<and> fl_Stage07Context f \<noteq> '''' \<and> fl_SharedEngine f = fl_CandidateStrategy f"
    using assms unfolding flags_Validate_None by blast
  moreover from this have "fl_SharedEngine f \<in> {''limited_live'', ''full_live''}"
    using assms(2) unfolding IsLive_def by (metis insertCI)
  ultimately show "fl_LedgerAuthority f = ''authoritative''" "fl_PointInTime f = ''authoritative''"
    "fl_Stage07Context f \<noteq> ''''" "fl_SharedEngine f = fl_CandidateStrategy f"
    "fl_SharedEngine f \<in> {''limited_live'', ''full_live''}" by blast+
qed

lemma paper_flags:
  assumes "flags_Validate f = None" and "fl_SharedEngine f = ''paper''"
  shows "fl_LedgerAuthority f = ''authoritative''" "\<not> IsLive f"
proof -
  show "fl_LedgerAuthority f = ''authoritative''" using assms unfolding flags_Validate_None by blast
  show "\<not> IsLive f" using live_flags(5) [OF assms(1)] assms(2) by auto
qed

text \<open>C16: Capital needs explicit consent: when the environment parses into flags that pass validation and enable capital,
  the ledger authority and the shared engine were both set explicitly, the ledger is authoritative and the engine is in a
  paper or live mode; in a live mode the point-in-time universe is authoritative, the approved context is present, and the
  candidate strategy was set to exactly the engine's mode. An environment without these keys never enables capital.\<close>

theorem capital_needs_explicit_flags:
  assumes "Parse vals = (f, None)" and "CapitalEnabled f"
  shows "map_has vals ''STAGE08_LEDGER_AUTHORITY'' \<and> map_has vals ''STAGE08_SHARED_ENGINE''
    \<and> fl_LedgerAuthority f = ''authoritative''
    \<and> fl_SharedEngine f \<in> {''paper'', ''limited_live'', ''full_live''}
    \<and> (IsLive f \<longrightarrow> map_has vals ''STAGE08_CANDIDATE_STRATEGY'' \<and> fl_CandidateStrategy f = fl_SharedEngine f
         \<and> fl_PointInTime f = ''authoritative'' \<and> fl_Stage07Context f \<noteq> '''')"
proof -
  have f: "f = fst (Parse vals)" and valid: "flags_Validate f = None"
    using assms(1) Parse_fields(4) [of vals] by simp_all
  have authority: "fl_LedgerAuthority f = ''authoritative''"
    using valid assms(2) live_flags(1) paper_flags(1) unfolding CapitalEnabled_def by blast
  have engine: "fl_SharedEngine f \<in> {''paper'', ''limited_live'', ''full_live''}"
    using valid assms(2) live_flags(5) unfolding CapitalEnabled_def by blast
  have "fl_LedgerAuthority f \<noteq> ''legacy''" using authority by simp
  then have "map_has vals ''STAGE08_LEDGER_AUTHORITY''" unfolding f Parse_fields by (rule assign_changed)
  moreover have "fl_SharedEngine f \<noteq> ''off''" using engine by auto
  then have "map_has vals ''STAGE08_SHARED_ENGINE''" unfolding f Parse_fields by (rule assign_changed)
  moreover have "map_has vals ''STAGE08_CANDIDATE_STRATEGY''" if "IsLive f"
  proof -
    have "fl_CandidateStrategy f \<noteq> ''off''" using live_flags(4,5) [OF valid that] by auto
    then show ?thesis unfolding f Parse_fields by (rule assign_changed)
  qed
  ultimately show ?thesis using authority engine live_flags [OF valid] by auto
qed

definition live_environment :: "(string, string) gomap" where
  "live_environment =
     [(''STAGE08_LEDGER_AUTHORITY'', '' Authoritative ''), (''STAGE08_SHARED_ENGINE'', ''LIMITED_LIVE''),
      (''STAGE08_POINT_IN_TIME_UNIVERSE'', ''authoritative''), (''STAGE08_CANDIDATE_STRATEGY'', ''limited_live''),
      (''STAGE08_STAGE07_CONTEXT'', ''approval-7'')]"

lemma live_environment_parses:
  "Parse live_environment = (fst (Parse live_environment), None)" "CapitalEnabled (fst (Parse live_environment))"
  by code_simp+

lemma capital_needs_explicit_flags_witness:
  "fl_LedgerAuthority (fst (Parse live_environment)) = ''authoritative''
   \<and> map_has live_environment ''STAGE08_SHARED_ENGINE''"
  using capital_needs_explicit_flags [OF live_environment_parses] by simp

text \<open>A persisted setting cannot exceed the startup envelope: an engine mode is authorized only if it is the legacy
  mode, the shadow comparison under dual run with the shared engine on, or the shared engine in paper mode on an
  authoritative ledger; validated live flags never authorize the shared mode through a setting, and the legacy mode is
  always authorized.\<close>

theorem runtime_setting_within_envelope:
  assumes "flags_Validate f = None"
  shows "AuthorizeRuntimeSetting f mode = None \<longleftrightarrow>
      to_lower (trim_space mode) = ''legacy''
      \<or> to_lower (trim_space mode) = ''shadow_compare'' \<and> fl_DualRun f = ''observe''
      \<or> to_lower (trim_space mode) = ''shared'' \<and> fl_SharedEngine f = ''paper'' \<and> \<not> IsLive f"
proof -
  have observe: "fl_DualRun f = ''observe'' \<Longrightarrow> fl_SharedEngine f \<noteq> ''off''"
    using assms unfolding flags_Validate_None by blast
  show ?thesis
    using observe paper_flags [OF assms] by (auto simp: AuthorizeRuntimeSetting_def Let_def)
qed

lemma runtime_setting_within_envelope_witness:
  "AuthorizeRuntimeSetting (fst (Parse live_environment)) '' Shared'' \<noteq> None"
proof -
  have valid: "flags_Validate (fst (Parse live_environment)) = None" by code_simp
  have mode: "to_lower (trim_space '' Shared'') = ''shared''" by code_simp
  have engine: "fl_SharedEngine (fst (Parse live_environment)) \<noteq> ''paper''" by code_simp
  show ?thesis using runtime_setting_within_envelope [OF valid, of "'' Shared''"] mode engine by simp
qed

text \<open>Activation is all or nothing: a refused activation leaves the active flags as they were, and an accepted one
  installs exactly the given flags, which passed validation and, where a persisted snapshot is named, whose canonical
  digest is that snapshot.\<close>

theorem activation_verified:
  "case ActivateVerified cd f snapshot authority s of
     (Some e, s') \<Rightarrow> s' = s
   | (None, s') \<Rightarrow> flags_Validate f = None \<and> ActiveEvidence s' = (f, snapshot, authority, True) \<and> Active s' = (f, True)
       \<and> (snapshot = '''' \<or> (\<exists>data. flags_Canonical cd f = Inr (data, snapshot)))"
  by (auto simp: ActivateVerified_def ActiveEvidence_def Active_def split: option.splits sum.splits)

end
