(* ===== verification/Store.thy ===== *)
theory Store
  imports Values Cutover "HOL-Library.Word"
begin

text \<open>
  The persisted rows of \<^verbatim>\<open>internal/database/models.go\<close> the ledger works on, the ledger's commands, and the database as
  the ledger service sees it. A table is the list of its rows in insertion order; primary keys, unique indexes, NOT NULL
  columns and column defaults of the models are part of the inserts. A \<^verbatim>\<open>float64\<close> column is its IEEE bit pattern.
  PostgreSQL, GORM, the clock, hashing, JSON text and binary floating point are outside the model: the record
  \<open>ledger_env\<close> holds them as functions, and every law of the ledger holds for all of them.
  \<^item> \<open>env_db\<close> says whether a call to the database (a statement, a read, a write of a table, the commit with its
    deferred constraints) fails in the given state, and with which error;
  \<^item> \<open>env_now\<close> is the clock as read at a call site for a key, \<open>env_after_write\<close> the service's rollback seam;
  \<^item> the JSON encoders, digests and the parsing and printing of floats (\<^verbatim>\<open>strconv\<close>) are functions of what they read.
  A transaction returns the old state unless its body and its commit succeed; a nested one
  (\<^verbatim>\<open>DisableNestedTransaction\<close>) runs in the caller's transaction, without a commit of its own.
\<close>

section \<open>Rows\<close>

type_synonym float64 = "64 word"
type_synonym uint = nat

record Wallet =
  w_ID :: uint
  w_Balance :: float64
  w_BalanceExact :: "acc_decimal option"
  w_Currency :: string
  w_AccountID :: string
  w_CreatedAt :: time
  w_UpdatedAt :: time

record Position =
  p_ID :: uint
  p_Symbol :: string
  p_AccountID :: string
  p_Amount :: float64
  p_AmountExact :: "acc_decimal option"
  p_CostBasisExact :: "acc_decimal option"
  p_RealizedPnLExact :: "acc_decimal option"
  p_FeesExact :: "acc_decimal option"
  p_AvgPrice :: float64
  p_EntryPrice :: "float64 option"
  p_CurrentPrice :: "float64 option"
  p_ExecutionMode :: string
  p_EntrySource :: string
  p_ExitPending :: bool
  p_LastMarkPrice :: "float64 option"
  p_LastMarkAt :: "time option"
  p_ClientPositionID :: "string option"
  p_DecisionTimeframe :: string
  p_ModelVersion :: string
  p_StrategyVersion :: string
  p_PolicyVersion :: string
  p_UniverseMode :: string
  p_RolloutState :: string
  p_ExperimentID :: "string option"
  p_PredictionLogID :: "uint option"
  p_DecisionContextJSON :: string
  p_StopPrice :: "float64 option"
  p_TakeProfitPrice :: "float64 option"
  p_TrailingStopPrice :: "float64 option"
  p_LastAtrValue :: "float64 option"
  p_MaxBarsHeld :: "int option"
  p_Pnl :: float64
  p_PnlPercent :: float64
  p_Status :: string
  p_OpenedAt :: time
  p_ClosedAt :: "time option"
  p_CloseReason :: "string option"

record Order =
  o_ID :: uint
  o_OrderType :: string
  o_AccountID :: string
  o_Symbol :: string
  o_AmountCrypto :: float64
  o_AmountUsdt :: float64
  o_AmountCryptoExact :: "acc_decimal option"
  o_RequestedQuantityExact :: "acc_decimal option"
  o_ExecutedQuantityExact :: "acc_decimal option"
  o_RemainingQuantityExact :: "acc_decimal option"
  o_AmountUsdtExact :: "acc_decimal option"
  o_Price :: float64
  o_Fee :: float64
  o_FeeExact :: "acc_decimal option"
  o_LedgerBatchID :: "string option"
  o_ExchangeOrderID :: "string option"
  o_ClientOrderID :: "string option"
  o_Status :: string
  o_ExecutionMode :: string
  o_ModelVersion :: string
  o_PolicyVersion :: string
  o_UniverseMode :: string
  o_RolloutState :: string
  o_ExperimentID :: "string option"
  o_PredictionLogID :: "uint option"
  o_DecisionContextJSON :: string
  o_Stage08ContextJSON :: string
  o_TriggerReason :: "string option"
  o_RequestedPrice :: "float64 option"
  o_FillPrice :: "float64 option"
  o_ExecutedQty :: "float64 option"
  o_ExchangeFee :: "float64 option"
  o_SubmittedAt :: "time option"
  o_FilledAt :: "time option"
  o_ExecutedAt :: time

record LedgerBatch =
  b_ID :: string
  b_AccountID :: string
  b_PayloadHash :: string
  b_CreatedAt :: time

record BrokerOutcomeIngestion =
  bi_ID :: string
  bi_AccountID :: string
  bi_PayloadHash :: string
  bi_CreatedAt :: time

record Fill =
  f_ID :: string
  f_LedgerBatchID :: string
  f_AccountID :: string
  f_OrderID :: uint
  f_VenueID :: string
  f_ProviderFillID :: "string option"
  f_PositionID :: uint
  f_Symbol :: string
  f_Side :: string
  f_Quantity :: acc_decimal
  f_RequestedPrice :: acc_decimal
  f_FillPrice :: acc_decimal
  f_GrossAmount :: acc_decimal
  f_FeeAmount :: acc_decimal
  f_FeeType :: string
  f_FeeCurrency :: string
  f_ExecutionMode :: string
  f_StrategyVersion :: string
  f_PolicyVersion :: string
  f_CostModelVersion :: string
  f_Stage08ContextJSON :: string
  f_OccurredAt :: time
  f_CreatedAt :: time

record LedgerEvent =
  e_ID :: string
  e_LedgerBatchID :: string
  e_Sequence :: int
  e_IdempotencyKey :: string
  e_EventType :: string
  e_AccountID :: string
  e_VenueID :: string
  e_Currency :: string
  e_Symbol :: string
  e_CashDelta :: acc_decimal
  e_AssetDelta :: acc_decimal
  e_OrderID :: "uint option"
  e_FillID :: "string option"
  e_PositionID :: "uint option"
  e_ExecutionMode :: string
  e_StrategyVersion :: string
  e_PolicyVersion :: string
  e_Actor :: string
  e_Reason :: string
  e_ReversesEventID :: "string option"
  e_RealizedPnL :: acc_decimal
  e_CostBasisDelta :: acc_decimal
  e_FeeDelta :: acc_decimal
  e_MetadataJSON :: string
  e_Stage08ContextJSON :: string
  e_OccurredAt :: time
  e_RecordedAt :: time

record LedgerMigrationState =
  ms_AccountID :: string
  ms_Status :: string
  ms_OpeningEventID :: "string option"
  ms_UnresolvedJSON :: string
  ms_ApprovedBy :: "string option"
  ms_ApprovedAt :: "time option"
  ms_CreatedAt :: time
  ms_UpdatedAt :: time

record store =
  st_wallets :: "Wallet list"
  st_positions :: "Position list"
  st_orders :: "Order list"
  st_batches :: "LedgerBatch list"
  st_ingestions :: "BrokerOutcomeIngestion list"
  st_fills :: "Fill list"
  st_events :: "LedgerEvent list"
  st_states :: "LedgerMigrationState list"
  st_next_position :: uint
  st_next_order :: uint

section \<open>Errors\<close>

text \<open>
  An error of the ledger package: its typed error (kind, code, message, cause), an error of the database driver (code and
  constraint name), GORM's record-not-found, or a plain error.
\<close>

type_synonym ErrorKind = string

datatype ledger_error =
    LedgerError ErrorKind string string "ledger_error option"
  | PgError string string
  | RecordNotFound
  | PlainError go_error

type_synonym 'a lresult = "ledger_error + 'a"

section \<open>Commands\<close>

record FillCommand =
  fc_IdempotencyKey :: string
  fc_AccountID :: string
  fc_Symbol :: string
  fc_Side :: string
  fc_Quantity :: acc_decimal
  fc_RequestedPrice :: acc_decimal
  fc_FillPrice :: acc_decimal
  fc_Fee :: acc_decimal
  fc_FeeType :: string
  fc_Currency :: string
  fc_ExecutionMode :: string
  fc_ProviderFillID :: string
  fc_ProviderOrderID :: string
  fc_VenueID :: string
  fc_FeeCurrency :: string
  fc_OrderStatus :: string
  fc_ExistingOrderID :: uint
  fc_ClientOrderID :: string
  fc_OccurredAt :: time
  fc_Actor :: string
  fc_Reason :: string
  fc_StrategyVersion :: string
  fc_PolicyVersion :: string
  fc_CostModelVersion :: string
  fc_Metadata :: "(string, json) gomap option"
  fc_EntrySource :: string
  fc_DecisionTimeframe :: string
  fc_ModelVersion :: string
  fc_UniverseMode :: string
  fc_RolloutState :: string
  fc_ExperimentID :: "string option"
  fc_PredictionLogID :: "uint option"
  fc_DecisionContextJSON :: string
  fc_StopPrice :: "float64 option"
  fc_TakeProfitPrice :: "float64 option"
  fc_TrailingStopPrice :: "float64 option"
  fc_LastAtrValue :: "float64 option"
  fc_MaxBarsHeld :: "int option"

record AdjustmentCommand =
  ac_EventID :: string
  ac_IdempotencyKey :: string
  ac_AccountID :: string
  ac_Type :: string
  ac_Amount :: acc_decimal
  ac_Currency :: string
  ac_Actor :: string
  ac_Reason :: string
  ac_OccurredAt :: time

record ReversalCommand =
  rc_IdempotencyKey :: string
  rc_OriginalEventID :: string
  rc_Actor :: string
  rc_Reason :: string
  rc_OccurredAt :: time

record AssetCorrectionCommand =
  cc_IdempotencyKey :: string
  cc_AccountID :: string
  cc_Symbol :: string
  cc_Quantity :: acc_decimal
  cc_CostBasis :: acc_decimal
  cc_Currency :: string
  cc_Actor :: string
  cc_Reason :: string
  cc_Evidence :: "(string, json) gomap option"
  cc_OccurredAt :: time

text \<open>One entry of the payload a broker outcome is identified by: an accepted or a rejected order.\<close>

datatype outcome_payload =
    AcceptedPayload string string string string string string "FillCommand list"
  | RejectedPayload string string

section \<open>The database\<close>

datatype db_call = ExecCall string | ReadCall string | WriteCall string | CommitCall

record ledger_env =
  env_db :: "db_call \<Rightarrow> store \<Rightarrow> ledger_error option"
  env_connected :: bool
  env_now :: "string \<Rightarrow> string \<Rightarrow> time"
  env_after_write :: "string \<Rightarrow> ledger_error option"
  env_codec :: codec
  env_active :: active_state
  env_MarshalFill :: "FillCommand \<Rightarrow> string lresult"
  env_MarshalAdjustment :: "AdjustmentCommand \<Rightarrow> string lresult"
  env_MarshalReversal :: "ReversalCommand \<Rightarrow> string lresult"
  env_MarshalCorrection :: "AssetCorrectionCommand \<Rightarrow> string lresult"
  env_MarshalOutcome :: "outcome_payload list \<Rightarrow> string"
  env_Error :: "ledger_error \<Rightarrow> string"
  env_ParseFloat :: "string \<Rightarrow> float64 \<times> bool"
  env_FormatFloat :: "float64 \<Rightarrow> string"
  env_fsub_mul :: "float64 \<Rightarrow> float64 \<Rightarrow> float64 \<Rightarrow> float64"
  env_fpositive :: "float64 \<Rightarrow> bool"
  env_UnmarshalStrings :: "string \<Rightarrow> string list option"

text \<open>\<^verbatim>\<open>Float64\<close> and \<^verbatim>\<open>FromFloat\<close> go through the text of the number.\<close>

definition acc_Float64 :: "ledger_env \<Rightarrow> acc_decimal \<Rightarrow> float64" where
  "acc_Float64 env d = fst (env_ParseFloat env (acc_String d))"

definition acc_FromFloat :: "ledger_env \<Rightarrow> float64 \<Rightarrow> acc_decimal result" where
  "acc_FromFloat env v = acc_Parse (env_FormatFloat env v)"

definition dec_Float64 :: "ledger_env \<Rightarrow> Decimal \<Rightarrow> float64" where
  "dec_Float64 env d = fst (env_ParseFloat env (dec_String d))"

definition db_exec :: "ledger_env \<Rightarrow> db_call \<Rightarrow> store \<Rightarrow> unit lresult" where
  "db_exec env call st = checked (env_db env call st) ()"

text \<open>\<^verbatim>\<open>tx.First\<close>: the matching row with the smallest primary key, if any.\<close>

definition db_first ::
  "ledger_env \<Rightarrow> string \<Rightarrow> ('r \<Rightarrow> 'k::linorder) \<Rightarrow> ('r \<Rightarrow> bool) \<Rightarrow> 'r list \<Rightarrow> store \<Rightarrow> 'r option lresult" where
  "db_first env table key P rows st =
     and_then (db_exec env (ReadCall table) st) (\<lambda>_. Inr (find P (sort_key key rows)))"

text \<open>The same where an absent row is an error.\<close>

definition db_require ::
  "ledger_env \<Rightarrow> string \<Rightarrow> ('r \<Rightarrow> 'k::linorder) \<Rightarrow> ('r \<Rightarrow> bool) \<Rightarrow> 'r list \<Rightarrow> store \<Rightarrow> 'r lresult" where
  "db_require env table key P rows st =
     and_then (db_first env table key P rows st) (\<lambda>r. case r of None \<Rightarrow> Inl RecordNotFound | Some row \<Rightarrow> Inr row)"

text \<open>A write: refused by the database, or by a constraint of the table (\<open>violation\<close>), or done.\<close>

definition db_write :: "ledger_env \<Rightarrow> string \<Rightarrow> ledger_error option \<Rightarrow> store \<Rightarrow> store \<Rightarrow> store lresult" where
  "db_write env table violation st' st =
     and_then (db_exec env (WriteCall table) st) (\<lambda>_. checked violation st')"

definition unique_violation :: "string \<Rightarrow> ledger_error" where
  "unique_violation index = PgError ''23505'' index"

definition not_null_violation :: "string \<Rightarrow> ledger_error" where
  "not_null_violation column = PgError ''23502'' column"

definition with_default :: "string \<Rightarrow> string \<Rightarrow> string" where
  "with_default v d = (if v = '''' then d else v)"

text \<open>\<^verbatim>\<open>tx.Save\<close> of a loaded row replaces the row with its primary key.\<close>

definition replace_row :: "('r \<Rightarrow> 'k) \<Rightarrow> 'r \<Rightarrow> 'r list \<Rightarrow> 'r list" where
  "replace_row key row rows = map (\<lambda>r. if key r = key row then row else r) rows"

definition transaction :: "ledger_env \<Rightarrow> (store \<Rightarrow> ('a \<times> store) lresult) \<Rightarrow> store \<Rightarrow> 'a lresult \<times> store" where
  "transaction env body st =
     (case body st of
        Inl e \<Rightarrow> (Inl e, st)
      | Inr (x, st') \<Rightarrow> (case env_db env CommitCall st' of Some e \<Rightarrow> (Inl e, st) | None \<Rightarrow> (Inr x, st')))"

definition nested :: "(store \<Rightarrow> ('a \<times> store) lresult) \<Rightarrow> store \<Rightarrow> 'a lresult \<times> store" where
  "nested body st = (case body st of Inl e \<Rightarrow> (Inl e, st) | Inr (x, st') \<Rightarrow> (Inr x, st'))"

section \<open>Inserts\<close>

definition batch_violation :: "LedgerBatch list \<Rightarrow> LedgerBatch \<Rightarrow> ledger_error option" where
  "batch_violation rows b = (if b_ID b \<in> b_ID ` set rows then Some (unique_violation ''ledger_batches_pkey'') else None)"

definition ingestion_violation :: "BrokerOutcomeIngestion list \<Rightarrow> BrokerOutcomeIngestion \<Rightarrow> ledger_error option" where
  "ingestion_violation rows b =
     (if bi_ID b \<in> bi_ID ` set rows then Some (unique_violation ''broker_outcome_ingestions_pkey'') else None)"

definition fill_violation :: "Fill list \<Rightarrow> Fill \<Rightarrow> ledger_error option" where
  "fill_violation rows f =
     (if \<not> acc_Valid (f_FeeAmount f) then Some (not_null_violation ''fee_amount'')
      else if f_ID f \<in> f_ID ` set rows then Some (unique_violation ''fills_pkey'')
      else if f_LedgerBatchID f \<in> f_LedgerBatchID ` set rows then Some (unique_violation ''idx_fills_ledger_batch_id'')
      else if f_ProviderFillID f \<noteq> None \<and>
              list_ex (\<lambda>g. f_ProviderFillID g = f_ProviderFillID f \<and> f_AccountID g = f_AccountID f
                           \<and> f_VenueID g = f_VenueID f) rows
      then Some (unique_violation ''idx_fills_provider_identity'')
      else None)"

definition event_violation :: "LedgerEvent list \<Rightarrow> LedgerEvent \<Rightarrow> ledger_error option" where
  "event_violation rows e =
     (if e_ID e \<in> e_ID ` set rows then Some (unique_violation ''ledger_events_pkey'')
      else if e_IdempotencyKey e \<in> e_IdempotencyKey ` set rows
      then Some (unique_violation ''idx_ledger_events_idempotency_key'')
      else if list_ex (\<lambda>x. e_LedgerBatchID x = e_LedgerBatchID e \<and> e_Sequence x = e_Sequence e) rows
      then Some (unique_violation ''idx_ledger_batch_sequence'')
      else if e_ReversesEventID e \<noteq> None \<and> e_ReversesEventID e \<in> e_ReversesEventID ` set rows
      then Some (unique_violation ''idx_ledger_events_reverses_event_id'')
      else None)"

fun events_violation :: "LedgerEvent list \<Rightarrow> LedgerEvent list \<Rightarrow> ledger_error option" where
  "events_violation rows [] = None"
| "events_violation rows (e # es) =
     (case event_violation rows e of Some v \<Rightarrow> Some v | None \<Rightarrow> events_violation (rows @ [e]) es)"

text \<open>The column defaults a fresh row takes where the field is the zero value.\<close>

definition event_defaults :: "LedgerEvent \<Rightarrow> LedgerEvent" where
  "event_defaults e = e\<lparr>
     e_VenueID := with_default (e_VenueID e) ''internal'',
     e_CostBasisDelta := (if acc_Valid (e_CostBasisDelta e) then e_CostBasisDelta e else acc_Zero),
     e_FeeDelta := (if acc_Valid (e_FeeDelta e) then e_FeeDelta e else acc_Zero),
     e_MetadataJSON := with_default (e_MetadataJSON e) ''{}'',
     e_Stage08ContextJSON := with_default (e_Stage08ContextJSON e) ''{}''\<rparr>"

definition create_events ::
  "ledger_env \<Rightarrow> LedgerEvent list \<Rightarrow> store \<Rightarrow> (LedgerEvent list \<times> store) lresult" where
  "create_events env es st =
     (let rows = map event_defaults es
      in and_then (db_write env ''ledger_events'' (events_violation (st_events st) rows)
                     (st\<lparr>st_events := st_events st @ rows\<rparr>) st) (\<lambda>st'. Inr (rows, st')))"

definition create_event :: "ledger_env \<Rightarrow> LedgerEvent \<Rightarrow> store \<Rightarrow> (LedgerEvent \<times> store) lresult" where
  "create_event env e st = and_then (create_events env [e] st) (\<lambda>(rows, st'). Inr (hd rows, st'))"

definition create_batch :: "ledger_env \<Rightarrow> LedgerBatch \<Rightarrow> store \<Rightarrow> store lresult" where
  "create_batch env b st =
     db_write env ''ledger_batches'' (batch_violation (st_batches st) b) (st\<lparr>st_batches := st_batches st @ [b]\<rparr>) st"

definition create_ingestion :: "ledger_env \<Rightarrow> BrokerOutcomeIngestion \<Rightarrow> store \<Rightarrow> store lresult" where
  "create_ingestion env b st =
     db_write env ''broker_outcome_ingestions'' (ingestion_violation (st_ingestions st) b)
       (st\<lparr>st_ingestions := st_ingestions st @ [b]\<rparr>) st"

definition create_fill :: "ledger_env \<Rightarrow> Fill \<Rightarrow> store \<Rightarrow> (Fill \<times> store) lresult" where
  "create_fill env f st =
     (let row = f\<lparr>f_VenueID := with_default (f_VenueID f) ''internal'',
                  f_CostModelVersion := with_default (f_CostModelVersion f) ''unknown'',
                  f_Stage08ContextJSON := with_default (f_Stage08ContextJSON f) ''{}''\<rparr>
      in and_then (db_write env ''fills'' (fill_violation (st_fills st) row) (st\<lparr>st_fills := st_fills st @ [row]\<rparr>) st)
           (\<lambda>st'. Inr (row, st')))"

text \<open>A decimal column holds NULL where the decimal has no value.\<close>

definition nullable :: "acc_decimal option \<Rightarrow> acc_decimal option" where
  "nullable v = (case v of None \<Rightarrow> None | Some d \<Rightarrow> if acc_Valid d then Some d else None)"

definition position_row :: "Position \<Rightarrow> Position" where
  "position_row p = p\<lparr>p_AmountExact := nullable (p_AmountExact p), p_CostBasisExact := nullable (p_CostBasisExact p),
     p_RealizedPnLExact := nullable (p_RealizedPnLExact p), p_FeesExact := nullable (p_FeesExact p)\<rparr>"

definition create_position :: "ledger_env \<Rightarrow> Position \<Rightarrow> store \<Rightarrow> (Position \<times> store) lresult" where
  "create_position env p st =
     (let row = p\<lparr>p_ID := st_next_position st, p_ExecutionMode := with_default (p_ExecutionMode p) ''paper'',
                  p_EntrySource := with_default (p_EntrySource p) ''manual'',
                  p_DecisionTimeframe := with_default (p_DecisionTimeframe p) ''15m''\<rparr>;
          violation = (if p_Symbol p \<in> p_Symbol ` set (st_positions st)
                       then Some (unique_violation ''idx_positions_symbol'') else None)
      in and_then (db_write env ''positions'' violation
                     (st\<lparr>st_positions := st_positions st @ [position_row row], st_next_position := Suc (st_next_position st)\<rparr>) st)
           (\<lambda>st'. Inr (row, st')))"

definition create_order :: "ledger_env \<Rightarrow> Order \<Rightarrow> store \<Rightarrow> (Order \<times> store) lresult" where
  "create_order env o' st =
     (let row = o'\<lparr>o_ID := st_next_order st, o_Status := with_default (o_Status o') ''filled'',
                   o_ExecutionMode := with_default (o_ExecutionMode o') ''paper'',
                   o_Stage08ContextJSON := with_default (o_Stage08ContextJSON o') ''{}''\<rparr>
      in and_then (db_write env ''orders'' None
                     (st\<lparr>st_orders := st_orders st @ [row], st_next_order := Suc (st_next_order st)\<rparr>) st)
           (\<lambda>st'. Inr (row, st')))"

section \<open>Saves\<close>

definition save_wallet :: "ledger_env \<Rightarrow> Wallet \<Rightarrow> store \<Rightarrow> (Wallet \<times> store) lresult" where
  "save_wallet env w st =
     (let row = w\<lparr>w_UpdatedAt := env_now env ''save'' ''wallets''\<rparr>
      in and_then (db_write env ''wallets'' None (st\<lparr>st_wallets := replace_row w_ID row (st_wallets st)\<rparr>) st)
           (\<lambda>st'. Inr (row, st')))"

definition save_position :: "ledger_env \<Rightarrow> Position \<Rightarrow> store \<Rightarrow> store lresult" where
  "save_position env p st =
     db_write env ''positions'' None (st\<lparr>st_positions := replace_row p_ID (position_row p) (st_positions st)\<rparr>) st"

definition save_order :: "ledger_env \<Rightarrow> Order \<Rightarrow> store \<Rightarrow> store lresult" where
  "save_order env o' st =
     db_write env ''orders'' None (st\<lparr>st_orders := replace_row o_ID o' (st_orders st)\<rparr>) st"

definition save_state :: "ledger_env \<Rightarrow> LedgerMigrationState \<Rightarrow> store \<Rightarrow> store lresult" where
  "save_state env m st =
     (let row = m\<lparr>ms_UpdatedAt := env_now env ''save'' ''ledger_migration_states''\<rparr>
      in db_write env ''ledger_migration_states'' None
           (st\<lparr>st_states := replace_row ms_AccountID row (st_states st)\<rparr>) st)"

section \<open>Laws\<close>

lemma db_first_Inr: "db_first env table key P rows st = Inr r \<Longrightarrow> r = find P (sort_key key rows)"
  by (auto simp: db_first_def result_simps)

lemma find_Some_in: "find P xs = Some x \<Longrightarrow> x \<in> set xs \<and> P x"
  by (auto simp: find_Some_iff)

lemma db_require_Inr: "db_require env table key P rows st = Inr r \<Longrightarrow> r \<in> set rows \<and> P r"
  using find_Some_in [of P "sort_key key rows" r]
  by (auto simp: db_require_def db_first_def result_simps split: option.splits)

lemma db_require_singleton:
  "db_require env table key P [x] st = Inr r \<Longrightarrow> r = x"
  by (auto dest: db_require_Inr)

lemma db_write_Inr [result_simps]:
  "db_write env table v st' st = Inr x \<longleftrightarrow> db_exec env (WriteCall table) st = Inr () \<and> v = None \<and> x = st'"
  by (auto simp: db_write_def result_simps)

lemma replace_row_keys [simp]: "map key (replace_row key row rows) = map key rows"
  by (induction rows) (auto simp: replace_row_def)

lemma replace_row_set: "row' \<in> set (replace_row key row rows) \<Longrightarrow> row' = row \<or> row' \<in> set rows \<and> key row' \<noteq> key row"
  by (auto simp: replace_row_def split: if_splits)

lemma transaction_cases:
  "(\<exists>e. transaction env body st = (Inl e, st)) \<or>
   (\<exists>x st'. body st = Inr (x, st') \<and> env_db env CommitCall st' = None \<and> transaction env body st = (Inr x, st'))"
  by (auto simp: transaction_def split: sum.splits option.splits prod.splits)

text \<open>A failed transaction leaves the store as it was.\<close>

lemma transaction_atomic: "transaction env body st = (Inl e, st') \<Longrightarrow> st' = st"
  using transaction_cases [of env body st] by auto

lemma transaction_Inr:
  "transaction env body st = (Inr x, st') \<Longrightarrow> body st = Inr (x, st')"
  using transaction_cases [of env body st] by auto

lemma nested_cases:
  "(\<exists>e. body st = Inl e \<and> nested body st = (Inl e, st)) \<or> (\<exists>x st'. body st = Inr (x, st') \<and> nested body st = (Inr x, st'))"
  by (auto simp: nested_def split: sum.splits prod.splits)

lemma event_defaults_simps [simp]:
  "acc_integer (e_CostBasisDelta (event_defaults e)) = acc_integer (e_CostBasisDelta e)"
  "acc_integer (e_FeeDelta (event_defaults e)) = acc_integer (e_FeeDelta e)"
  "e_CashDelta (event_defaults e) = e_CashDelta e" "e_AssetDelta (event_defaults e) = e_AssetDelta e"
  "e_RealizedPnL (event_defaults e) = e_RealizedPnL e" "e_Symbol (event_defaults e) = e_Symbol e"
  "e_AccountID (event_defaults e) = e_AccountID e" "e_FillID (event_defaults e) = e_FillID e"
  "e_EventType (event_defaults e) = e_EventType e" "e_Currency (event_defaults e) = e_Currency e"
  "e_ID (event_defaults e) = e_ID e" "e_LedgerBatchID (event_defaults e) = e_LedgerBatchID e"
  "e_OccurredAt (event_defaults e) = e_OccurredAt e"
  by (auto simp: event_defaults_def acc_Zero_def acc_Valid_def acc_integer_def split: acc_decimal.splits option.splits)

end
