(* ===== verification/Ledger.thy ===== *)
theory Ledger
  imports Store
begin

text \<open>
  \<^verbatim>\<open>internal/ledger/errors.go\<close> and \<^verbatim>\<open>internal/ledger/service.go\<close>: the errors of the ledger, and the fill, the operation that
  books an execution. A fill is prepared (defaults, validation, clock, payload digest) and then runs in one
  transaction: lock the account, claim the idempotency key, check readiness and cash, update the position, the
  wallet and the order, and append the immutable fill and its events. Each step of the transaction is a function
  from the store to an error or a result with the new store, composed by \<open>and_then\<close> in the order of the code.
  The other three operations are in \<open>Ledger_Admin\<close>, the invariant and the proofs in \<open>Ledger_Laws\<close>.
\<close>

section \<open>Errors\<close>

definition KindValidation :: ErrorKind where
  "KindValidation = ''validation''"

definition KindConflict :: ErrorKind where
  "KindConflict = ''conflict''"

definition KindUnavailable :: ErrorKind where
  "KindUnavailable = ''unavailable''"

definition KindIndeterminate :: ErrorKind where
  "KindIndeterminate = ''indeterminate''"

definition KindInternal :: ErrorKind where
  "KindInternal = ''internal''"

definition newError :: "ErrorKind \<Rightarrow> string \<Rightarrow> string \<Rightarrow> ledger_error option \<Rightarrow> ledger_error" where
  "newError kind code message cause = LedgerError kind code message cause"

definition validation_error :: "string \<Rightarrow> string \<Rightarrow> ledger_error" where
  "validation_error code message = newError KindValidation code message None"

definition conflict :: "string \<Rightarrow> string \<Rightarrow> ledger_error option \<Rightarrow> ledger_error" where
  "conflict code message cause = newError KindConflict code message cause"

definition unavailable :: "string \<Rightarrow> string \<Rightarrow> ledger_error" where
  "unavailable code message = newError KindUnavailable code message None"

definition internal :: "string \<Rightarrow> ledger_error \<Rightarrow> ledger_error" where
  "internal code cause = newError KindInternal code ''ledger persistence failed'' (Some cause)"

text \<open>\<^verbatim>\<open>Error()\<close>: what a typed error prints, and what its cause is.\<close>

definition error_text :: "ledger_env \<Rightarrow> ledger_error \<Rightarrow> string" where
  "error_text env e =
     (case e of LedgerError _ code message _ \<Rightarrow> if message \<noteq> '''' then message else code | _ \<Rightarrow> env_Error env e)"

definition error_Unwrap :: "ledger_error \<Rightarrow> ledger_error option" where
  "error_Unwrap e = (case e of LedgerError _ _ _ cause \<Rightarrow> cause | _ \<Rightarrow> None)"

definition ErrorDetails :: "ledger_error \<Rightarrow> ErrorKind \<times> string" where
  "ErrorDetails err =
     (case err of LedgerError kind code _ _ \<Rightarrow> (kind, code) | _ \<Rightarrow> (KindInternal, ''internal_error''))"

text \<open>\<^verbatim>\<open>errors.As(err, &pg)\<close>: the first database error along the chain of causes.\<close>

fun pg_cause :: "ledger_error \<Rightarrow> (string \<times> string) option" where
  "pg_cause (PgError code constraint) = Some (code, constraint)"
| "pg_cause (LedgerError _ _ _ (Some cause)) = pg_cause cause"
| "pg_cause _ = None"

definition normalizePersistenceError :: "ledger_error \<Rightarrow> ledger_error" where
  "normalizePersistenceError err =
     (let typed = (case err of LedgerError _ _ _ _ \<Rightarrow> err | _ \<Rightarrow> internal ''persistence_failure'' err) in
      case pg_cause err of
        None \<Rightarrow> typed
      | Some (code, constraint) \<Rightarrow>
          if code = ''23505''
          then conflict ''duplicate_identity'' ''provider or ledger identity already exists'' (Some err)
          else if code = ''23503'' \<or> code = ''23514'' then conflict ''ledger_constraint'' constraint (Some err)
          else typed)"

definition normalized :: "'a lresult \<times> store \<Rightarrow> 'a lresult \<times> store" where
  "normalized r = (case r of (Inl e, st) \<Rightarrow> (Inl (normalizePersistenceError e), st) | (Inr x, st) \<Rightarrow> (Inr x, st))"

definition DefaultAccountID :: string where
  "DefaultAccountID = ''primary''"

definition quoted :: "string \<Rightarrow> string" where
  "quoted s = CHR 0x22 # s @ [CHR 0x22]"

definition requirePrimaryAccount :: "string \<Rightarrow> ledger_error option" where
  "requirePrimaryAccount account =
     (if account = '''' \<or> account = DefaultAccountID then None
      else Some (validation_error ''unsupported_account'' (''only account '' @ quoted DefaultAccountID @ '' is supported'')))"

definition EventCapitalDeposit :: string where "EventCapitalDeposit = ''capital_deposit''"
definition EventCapitalWithdrawal :: string where "EventCapitalWithdrawal = ''capital_withdrawal''"
definition EventBuyFill :: string where "EventBuyFill = ''buy_fill''"
definition EventSellFill :: string where "EventSellFill = ''sell_fill''"
definition EventTradingFee :: string where "EventTradingFee = ''trading_fee''"
definition EventExchangeFee :: string where "EventExchangeFee = ''exchange_fee''"
definition EventFundingInterest :: string where "EventFundingInterest = ''funding_interest''"
definition EventAdminCorrection :: string where "EventAdminCorrection = ''administrative_correction''"
definition EventReversal :: string where "EventReversal = ''reversal''"

definition ErrUnreconciledLegacyState :: ledger_error where
  "ErrUnreconciledLegacyState =
     unavailable ''ledger_not_ready'' ''ledger migration or exposure resolution required''"

definition ErrInsufficientCash :: ledger_error where
  "ErrInsufficientCash = conflict ''insufficient_cash'' ''insufficient cash'' None"

definition ErrInsufficientAsset :: ledger_error where
  "ErrInsufficientAsset = conflict ''insufficient_asset'' ''insufficient position quantity'' None"

definition ErrIdempotencyConflict :: ledger_error where
  "ErrIdempotencyConflict =
     conflict ''idempotency_conflict'' ''idempotency key reused with different payload'' None"

definition ErrProjectionUnavailable :: ledger_error where
  "ErrProjectionUnavailable = unavailable ''projection_unavailable'' ''exact ledger projection unavailable''"

definition ErrExchangeExecutionFenced :: ledger_error where
  "ErrExchangeExecutionFenced =
     unavailable ''exchange_execution_fenced''
       ''exchange execution is disabled until durable Stage 02 broker recovery is available''"

definition ErrHistoricalReconciliationUnsupported :: ledger_error where
  "ErrHistoricalReconciliationUnsupported =
     validation_error ''historical_reconciliation_unsupported''
       ''historical as_of reconciliation is not supported by current projections''"

section \<open>Small helpers\<close>

definition stringPtrOrNil :: "string \<Rightarrow> string option" where
  "stringPtrOrNil v = (if trim_space v = '''' then None else Some v)"

definition nonempty :: "string \<Rightarrow> string \<Rightarrow> string" where
  "nonempty v fallback = (if trim_space v = '''' then fallback else v)"

definition opt0 :: "acc_decimal option \<Rightarrow> acc_decimal" where
  "opt0 v = (case v of None \<Rightarrow> acc_Zero | Some d \<Rightarrow> d)"

text \<open>Reading a missing key of a map of decimals gives the zero value of the struct.\<close>

definition acc_at :: "('k, acc_decimal) gomap \<Rightarrow> 'k \<Rightarrow> acc_decimal" where
  "acc_at m k = (case map_of m k of None \<Rightarrow> AccDecimal None | Some v \<Rightarrow> v)"

definition must_parse :: "string \<Rightarrow> acc_decimal" where
  "must_parse v = the_ok acc_Zero (acc_MustParse v)"

definition div_or_zero :: "acc_decimal \<Rightarrow> acc_decimal \<Rightarrow> acc_decimal" where
  "div_or_zero d e = the_ok (AccDecimal None) (acc_Div d e)"

definition hex_sha256 :: "ledger_env \<Rightarrow> string \<Rightarrow> string" where
  "hex_sha256 env payload = cd_sha256hex (env_codec env) payload"

definition stableID :: "ledger_env \<Rightarrow> string \<Rightarrow> string \<Rightarrow> string" where
  "stableID env kind key = kind @ ''_'' @ take 32 (hex_sha256 env (kind @ '':'' @ key))"

definition marshal :: "ledger_env \<Rightarrow> json \<Rightarrow> string lresult" where
  "marshal env v = (case cd_Marshal (env_codec env) v of Inl e \<Rightarrow> Inl (PlainError e) | Inr s \<Rightarrow> Inr s)"

text \<open>\<^verbatim>\<open>hashPayload\<close> of a fill: the digest of the command without its time, and its metadata as JSON.\<close>

definition hashPayload_fill :: "ledger_env \<Rightarrow> FillCommand \<Rightarrow> (string \<times> string) lresult" where
  "hashPayload_fill env command =
     and_then (env_MarshalFill env (command\<lparr>fc_OccurredAt := 0\<rparr>)) (\<lambda>payload.
       case fc_Metadata command of
         None \<Rightarrow> Inr (hex_sha256 env payload, ''{}'')
       | Some m \<Rightarrow> and_then (marshal env (json_map m)) (\<lambda>metadata. Inr (hex_sha256 env payload, metadata)))"

definition metadataJSONForCommand :: "ledger_env \<Rightarrow> FillCommand \<Rightarrow> string" where
  "metadataJSONForCommand env command =
     (let metadata = (case fc_Metadata command of None \<Rightarrow> [] | Some m \<Rightarrow> m);
          dataset = (case map_of metadata ''dataset_version'' of None \<Rightarrow> JNull | Some v \<Rightarrow> v);
          metadata = AList.update ''active_path'' (JString (fc_ExecutionMode command)) metadata;
          metadata = AList.update ''strategy_version'' (JString (fc_StrategyVersion command)) metadata;
          metadata = AList.update ''policy_version'' (JString (fc_PolicyVersion command)) metadata;
          metadata = AList.update ''model_version'' (JString (fc_ModelVersion command)) metadata;
          metadata = AList.update ''dataset_version'' dataset metadata;
          metadata = AList.update ''universe_version'' (JString (fc_UniverseMode command)) metadata;
          metadata = AList.update ''schema_version'' (JString ''stage08-observation-context-v2'') metadata;
          (flags, active) = Active (env_active env);
          metadata =
            (if \<not> active then metadata
             else
               let metadata = AList.update ''flag_schema_version'' (JString (fl_SchemaVersion flags)) metadata;
                   flagID = snd (the_ok ('''', '''') (flags_Canonical (env_codec env) flags));
                   metadata = AList.update ''flag_snapshot_id'' (JString flagID) metadata;
                   metadata = AList.update ''ledger_authority'' (JString (fl_LedgerAuthority flags)) metadata;
                   metadata = AList.update ''engine_mode'' (JString (fl_SharedEngine flags)) metadata;
                   metadata = AList.update ''candidate_strategy_mode'' (JString (fl_CandidateStrategy flags)) metadata;
                   (_, verifiedID, authority, verified) = ActiveEvidence (env_active env)
               in if verified \<and> verifiedID \<noteq> ''''
                  then AList.update ''effective_authority'' (JString authority)
                         (AList.update ''flag_snapshot_id'' (JString verifiedID) metadata)
                  else metadata);
          metadata =
            (case marshal env (json_map metadata) of Inl _ \<Rightarrow> metadata
             | Inr base \<Rightarrow> AList.update ''content_digest'' (JString (hex_sha256 env base)) metadata)
      in the_ok ''{}'' (marshal env (json_map metadata)))"

section \<open>Locks, readiness, idempotency\<close>

definition allowLedgerProjectionWrites :: "ledger_env \<Rightarrow> store \<Rightarrow> unit lresult" where
  "allowLedgerProjectionWrites env st = db_exec env (ExecCall ''SET LOCAL ROLE trading_bot_ledger_writer'') st"

definition lockAccount :: "ledger_env \<Rightarrow> string \<Rightarrow> store \<Rightarrow> unit lresult" where
  "lockAccount env account st =
     db_exec env (ExecCall (''SELECT pg_advisory_xact_lock(hashtext(?)) ledger:'' @ account)) st"

definition find_state :: "ledger_env \<Rightarrow> string \<Rightarrow> store \<Rightarrow> LedgerMigrationState option lresult" where
  "find_state env account st =
     db_first env ''ledger_migration_states'' ms_AccountID (\<lambda>m. ms_AccountID m = account) (st_states st) st"

definition requireReady :: "ledger_env \<Rightarrow> string \<Rightarrow> store \<Rightarrow> unit lresult" where
  "requireReady env account st =
     (case find_state env account st of
        Inr (Some state) \<Rightarrow> if ms_Status state = ''ready'' then Inr () else Inl ErrUnreconciledLegacyState
      | _ \<Rightarrow> Inl ErrUnreconciledLegacyState)"

definition first_wallet :: "ledger_env \<Rightarrow> store \<Rightarrow> Wallet lresult" where
  "first_wallet env st = db_require env ''wallets'' w_ID (\<lambda>_. True) (st_wallets st) st"

definition account_wallet :: "ledger_env \<Rightarrow> string \<Rightarrow> store \<Rightarrow> Wallet lresult" where
  "account_wallet env account st =
     db_require env ''wallets'' w_ID (\<lambda>w. w_AccountID w = account) (st_wallets st) st"

definition CheckReady :: "ledger_env \<Rightarrow> string \<Rightarrow> store \<Rightarrow> unit lresult \<times> store" where
  "CheckReady env account st =
     (case requirePrimaryAccount account of Some e \<Rightarrow> (Inl e, st)
      | None \<Rightarrow>
        let account = (if account = '''' then DefaultAccountID else account) in
        if \<not> env_connected env then (Inl ErrUnreconciledLegacyState, st)
        else transaction env (\<lambda>st.
          case allowLedgerProjectionWrites env st of
            Inl _ \<Rightarrow> Inl ErrUnreconciledLegacyState
          | Inr _ \<Rightarrow>
              and_then (requireReady env account st) (\<lambda>_.
              and_then (account_wallet env account st) (\<lambda>wallet.
              if w_BalanceExact wallet = None then Inl ErrProjectionUnavailable else Inr ((), st)))) st)"

definition beginBatch :: "ledger_env \<Rightarrow> string \<Rightarrow> string \<Rightarrow> string \<Rightarrow> time \<Rightarrow> store \<Rightarrow> (bool \<times> store) lresult" where
  "beginBatch env batch account payloadHash at' st =
     and_then (db_first env ''ledger_batches'' b_ID (\<lambda>b. b_ID b = batch) (st_batches st) st) (\<lambda>existing.
       case existing of
         Some b \<Rightarrow> if b_PayloadHash b \<noteq> payloadHash then Inl ErrIdempotencyConflict else Inr (True, st)
       | None \<Rightarrow>
           and_then (create_batch env
             \<lparr>b_ID = batch, b_AccountID = account, b_PayloadHash = payloadHash, b_CreatedAt = at'\<rparr> st)
             (\<lambda>st'. Inr (False, st')))"

section \<open>Validation of a fill\<close>

definition validateFill :: "FillCommand \<Rightarrow> ledger_error option" where
  "validateFill command =
     (if trim_space (fc_IdempotencyKey command) = '''' \<or> trim_space (fc_Symbol command) = ''''
      then Some (validation_error ''invalid_fill'' ''idempotency key and symbol are required'')
      else if fc_Side command \<noteq> ''buy'' \<and> fc_Side command \<noteq> ''sell''
      then Some (validation_error ''invalid_side'' ''side must be buy or sell'')
      else if acc_Sign (fc_Quantity command) \<le> 0 \<or> acc_Sign (fc_RequestedPrice command) \<le> 0
              \<or> acc_Sign (fc_FillPrice command) \<le> 0 \<or> acc_Sign (fc_Fee command) < 0
      then Some (validation_error ''invalid_amount'' ''quantity/prices must be positive and fee non-negative'')
      else if fc_Currency command = '''' \<or> fc_ExecutionMode command = '''' \<or> fc_FeeType command = ''''
      then Some (validation_error ''invalid_dimensions'' ''currency, execution mode, and fee type are required'')
      else if fc_CostModelVersion command = ''''
      then Some (validation_error ''invalid_cost_model_version'' ''cost model version is required'')
      else None)"

text \<open>What \<^verbatim>\<open>ApplyFill\<close> does before its transaction: the completed command, digest, metadata, time.\<close>

definition prepare_fill :: "ledger_env \<Rightarrow> FillCommand \<Rightarrow> (FillCommand \<times> string \<times> string \<times> time) lresult" where
  "prepare_fill env command =
     (case requirePrimaryAccount (fc_AccountID command) of Some e \<Rightarrow> Inl e
      | None \<Rightarrow>
        let command = command\<lparr>fc_CostModelVersion := with_default (fc_CostModelVersion command) ''legacy-cost-v1''\<rparr> in
        case validateFill command of Some e \<Rightarrow> Inl e
      | None \<Rightarrow>
        let command = command\<lparr>fc_AccountID := with_default (fc_AccountID command) DefaultAccountID\<rparr>;
            command = command\<lparr>fc_VenueID := with_default (fc_VenueID command) ''internal''\<rparr>;
            command = command\<lparr>fc_FeeCurrency := with_default (fc_FeeCurrency command) (fc_Currency command)\<rparr>
        in if fc_FeeCurrency command \<noteq> fc_Currency command
           then Inl (validation_error ''unsupported_fee_asset'' ''fees must use the settlement currency'')
           else if fc_ExecutionMode command = ''exchange'' \<and>
                   (fc_VenueID command = ''internal'' \<or> fc_ProviderFillID command = '''' \<or> fc_ProviderOrderID command = '''')
           then Inl (validation_error ''provider_identity_required''
                  ''exchange fills require venue, provider order id, and genuine provider fill id'')
           else
             let command = (if fc_OccurredAt command = 0
                            then command\<lparr>fc_OccurredAt := env_now env ''occurred_at'' (fc_IdempotencyKey command)\<rparr>
                            else command);
                 recordedAt = env_now env ''recorded_at'' (fc_IdempotencyKey command)
             in if recordedAt < fc_OccurredAt command
                then Inl (validation_error ''future_occurred_at'' ''occurred_at must be no later than recorded_at'')
                else and_then (hashPayload_fill env command) (\<lambda>(payloadHash, metadataJSON).
                       Inr (command, payloadHash, metadataJSON, recordedAt)))"

section \<open>The position\<close>

definition zero_Position :: Position where
  "zero_Position = \<lparr>p_ID = 0, p_Symbol = '''', p_AccountID = '''', p_Amount = 0, p_AmountExact = None,
     p_CostBasisExact = None, p_RealizedPnLExact = None, p_FeesExact = None, p_AvgPrice = 0, p_EntryPrice = None,
     p_CurrentPrice = None, p_ExecutionMode = '''', p_EntrySource = '''', p_ExitPending = False,
     p_LastMarkPrice = None, p_LastMarkAt = None, p_ClientPositionID = None, p_DecisionTimeframe = '''',
     p_ModelVersion = '''', p_StrategyVersion = '''', p_PolicyVersion = '''', p_UniverseMode = '''',
     p_RolloutState = '''', p_ExperimentID = None, p_PredictionLogID = None, p_DecisionContextJSON = '''',
     p_StopPrice = None, p_TakeProfitPrice = None, p_TrailingStopPrice = None, p_LastAtrValue = None,
     p_MaxBarsHeld = None, p_Pnl = 0, p_PnlPercent = 0, p_Status = '''', p_OpenedAt = 0, p_ClosedAt = None,
     p_CloseReason = None\<rparr>"

text \<open>The position a buy starts from: a fresh one, a closed one that opens a new cycle, or the open one.\<close>

definition buy_base :: "FillCommand \<Rightarrow> Position option \<Rightarrow> Position lresult" where
  "buy_base command found =
     (case found of
        None \<Rightarrow> Inr (zero_Position\<lparr>p_AccountID := fc_AccountID command, p_Symbol := fc_Symbol command,
                       p_Status := ''open'', p_OpenedAt := fc_OccurredAt command\<rparr>)
      | Some p \<Rightarrow>
          if p_AmountExact p = None \<or> p_CostBasisExact p = None then Inl ErrProjectionUnavailable
          else if p_Status p \<noteq> ''open''
          then Inr (p\<lparr>p_Status := ''open'', p_OpenedAt := fc_OccurredAt command, p_ClosedAt := None,
                      p_CloseReason := None, p_AmountExact := None, p_CostBasisExact := None\<rparr>)
          else Inr p)"

definition buy_update :: "ledger_env \<Rightarrow> FillCommand \<Rightarrow> acc_decimal \<Rightarrow> bool \<Rightarrow> Position \<Rightarrow> Position" where
  "buy_update env command gross openingCycle p =
     (let newQuantity = acc_Add (opt0 (p_AmountExact p)) (fc_Quantity command);
          newBasis = acc_Add (opt0 (p_CostBasisExact p)) gross;
          average = acc_Float64 env (div_or_zero newBasis newQuantity);
          mark = acc_Float64 env (fc_FillPrice command)
      in p\<lparr>p_AmountExact := Some newQuantity, p_CostBasisExact := Some newBasis,
           p_Amount := acc_Float64 env newQuantity, p_AvgPrice := average, p_EntryPrice := Some average,
           p_ExecutionMode := fc_ExecutionMode command, p_EntrySource := fc_EntrySource command,
           p_DecisionTimeframe := fc_DecisionTimeframe command,
           p_ModelVersion := fc_ModelVersion command, p_PolicyVersion := fc_PolicyVersion command,
           p_StrategyVersion :=
             (if openingCycle
              then nonempty (fc_StrategyVersion command) (nonempty (fc_ModelVersion command) ''manual-execution'')
              else p_StrategyVersion p),
           p_UniverseMode := fc_UniverseMode command, p_RolloutState := fc_RolloutState command,
           p_ExperimentID := fc_ExperimentID command, p_PredictionLogID := fc_PredictionLogID command,
           p_DecisionContextJSON := fc_DecisionContextJSON command,
           p_StopPrice := fc_StopPrice command, p_TakeProfitPrice := fc_TakeProfitPrice command,
           p_TrailingStopPrice := fc_TrailingStopPrice command, p_LastAtrValue := fc_LastAtrValue command,
           p_MaxBarsHeld := fc_MaxBarsHeld command, p_ExitPending := False,
           p_CurrentPrice := Some mark, p_LastMarkPrice := Some mark, p_LastMarkAt := Some (fc_OccurredAt command),
           p_RealizedPnLExact := Some (acc_Sub (opt0 (p_RealizedPnLExact p)) (fc_Fee command)),
           p_FeesExact := Some (acc_Add (opt0 (p_FeesExact p)) (fc_Fee command))\<rparr>)"

definition sell_update ::
  "ledger_env \<Rightarrow> FillCommand \<Rightarrow> acc_decimal \<Rightarrow> acc_decimal \<Rightarrow> acc_decimal \<Rightarrow> Position \<Rightarrow> Position" where
  "sell_update env command realized releasedBasis newQuantity p =
     (let newBasis = acc_Sub (opt0 (p_CostBasisExact p)) releasedBasis;
          priorRealized = opt0 (p_RealizedPnLExact p);
          netRealized = acc_Sub realized (fc_Fee command);
          mark = acc_Float64 env (fc_FillPrice command);
          p = p\<lparr>p_AmountExact := Some newQuantity, p_CostBasisExact := Some newBasis,
                p_Amount := acc_Float64 env newQuantity,
                p_RealizedPnLExact := Some (acc_Add priorRealized netRealized),
                p_FeesExact := Some (acc_Add (opt0 (p_FeesExact p)) (fc_Fee command)),
                p_Pnl := acc_Float64 env (acc_Add priorRealized netRealized)\<rparr>;
          p = (if 0 < acc_Sign releasedBasis
               then p\<lparr>p_PnlPercent := acc_Float64 env
                        (acc_Mul (div_or_zero netRealized releasedBasis) (must_parse ''100''))\<rparr>
               else p);
          p = p\<lparr>p_CurrentPrice := Some mark, p_LastMarkPrice := Some mark,
                p_LastMarkAt := Some (fc_OccurredAt command), p_ExitPending := False\<rparr>
      in if acc_Sign newQuantity = 0
         then p\<lparr>p_Status := ''closed'', p_ClosedAt := Some (fc_OccurredAt command),
                p_CloseReason := stringPtrOrNil (fc_Reason command)\<rparr>
         else p\<lparr>p_AvgPrice := acc_Float64 env (div_or_zero newBasis newQuantity)\<rparr>)"

text \<open>
  \<^verbatim>\<open>applyPosition\<close> returns the position, the realized result and the change of the cost basis; its two branches are
  \<open>applyBuy\<close> and \<open>applySell\<close>.
\<close>

definition applyBuy ::
  "ledger_env \<Rightarrow> FillCommand \<Rightarrow> acc_decimal \<Rightarrow> Position option \<Rightarrow> store
   \<Rightarrow> ((Position \<times> acc_decimal \<times> acc_decimal) \<times> store) lresult" where
  "applyBuy env command gross found st =
     and_then (buy_base command found) (\<lambda>base.
       let openingCycle = (case found of None \<Rightarrow> True | Some p \<Rightarrow> p_Status p \<noteq> ''open'');
           position = buy_update env command gross openingCycle base
       in if p_ID position = 0
          then and_then (create_position env position st) (\<lambda>(row, st'). Inr ((row, acc_Zero, gross), st'))
          else and_then (save_position env position st) (\<lambda>st'. Inr ((position, acc_Zero, gross), st')))"

definition applySell ::
  "ledger_env \<Rightarrow> FillCommand \<Rightarrow> acc_decimal \<Rightarrow> Position option \<Rightarrow> store
   \<Rightarrow> ((Position \<times> acc_decimal \<times> acc_decimal) \<times> store) lresult" where
  "applySell env command gross found st =
     (case found of
        None \<Rightarrow> Inl ErrProjectionUnavailable
      | Some p \<Rightarrow>
          if p_Status p \<noteq> ''open'' \<or> p_AmountExact p = None \<or> p_CostBasisExact p = None
          then Inl ErrProjectionUnavailable
          else if 0 < acc_Cmp (fc_Quantity command) (opt0 (p_AmountExact p)) then Inl ErrInsufficientAsset
          else
            let oldQuantity = opt0 (p_AmountExact p);
                oldBasis = opt0 (p_CostBasisExact p);
                releasedBasis = the_ok (AccDecimal None) (acc_MulDiv oldBasis (fc_Quantity command) oldQuantity);
                realized = acc_Sub gross releasedBasis;
                position = sell_update env command realized releasedBasis (acc_Sub oldQuantity (fc_Quantity command)) p
            in and_then (save_position env position st)
                 (\<lambda>st'. Inr ((position, realized, acc_Neg releasedBasis), st')))"

definition applyPosition ::
  "ledger_env \<Rightarrow> FillCommand \<Rightarrow> acc_decimal \<Rightarrow> store \<Rightarrow> ((Position \<times> acc_decimal \<times> acc_decimal) \<times> store) lresult" where
  "applyPosition env command gross st =
     and_then (db_first env ''positions'' p_ID
                 (\<lambda>p. p_AccountID p = fc_AccountID command \<and> p_Symbol p = fc_Symbol command) (st_positions st) st)
       (\<lambda>found. if fc_Side command = ''buy'' then applyBuy env command gross found st
                else applySell env command gross found st)"

section \<open>The order\<close>

definition zero_Order :: Order where
  "zero_Order = \<lparr>o_ID = 0, o_OrderType = '''', o_AccountID = '''', o_Symbol = '''', o_AmountCrypto = 0,
     o_AmountUsdt = 0, o_AmountCryptoExact = None, o_RequestedQuantityExact = None, o_ExecutedQuantityExact = None,
     o_RemainingQuantityExact = None, o_AmountUsdtExact = None, o_Price = 0, o_Fee = 0, o_FeeExact = None,
     o_LedgerBatchID = None, o_ExchangeOrderID = None, o_ClientOrderID = None, o_Status = '''', o_ExecutionMode = '''',
     o_ModelVersion = '''', o_PolicyVersion = '''', o_UniverseMode = '''', o_RolloutState = '''', o_ExperimentID = None,
     o_PredictionLogID = None, o_DecisionContextJSON = '''', o_Stage08ContextJSON = '''', o_TriggerReason = None,
     o_RequestedPrice = None, o_FillPrice = None, o_ExecutedQty = None, o_ExchangeFee = None, o_SubmittedAt = None,
     o_FilledAt = None, o_ExecutedAt = 0\<rparr>"

text \<open>The order a fill belongs to: the reserved one, or a fresh one.\<close>

definition base_order :: "ledger_env \<Rightarrow> FillCommand \<Rightarrow> store \<Rightarrow> Order lresult" where
  "base_order env command st =
     (if 0 < fc_ExistingOrderID command
      then and_then (db_require env ''orders'' o_ID (\<lambda>r. o_ID r = fc_ExistingOrderID command) (st_orders st) st) (\<lambda>r.
             if o_AccountID r \<noteq> fc_AccountID command \<or> o_Symbol r \<noteq> fc_Symbol command \<or> o_OrderType r \<noteq> fc_Side command
             then Inl (conflict ''order_fill_mismatch'' ''fill does not match reserved order dimensions'' None)
             else Inr r)
      else Inr (zero_Order\<lparr>o_AccountID := fc_AccountID command, o_LedgerBatchID := Some (fc_IdempotencyKey command),
             o_OrderType := fc_Side command, o_Symbol := fc_Symbol command, o_ExecutedAt := fc_OccurredAt command,
             o_ClientOrderID := (if fc_ClientOrderID command \<noteq> '''' then stringPtrOrNil (fc_ClientOrderID command) else None)\<rparr>))"

text \<open>Quantity, gross amount and fee of the order with this fill included.\<close>

definition order_totals :: "FillCommand \<Rightarrow> acc_decimal \<Rightarrow> Order \<Rightarrow> acc_decimal \<times> acc_decimal \<times> acc_decimal" where
  "order_totals command gross r =
     (case (o_AmountCryptoExact r, o_AmountUsdtExact r, o_FeeExact r) of
        (Some quantity, Some amount, Some fee) \<Rightarrow>
          (acc_Add quantity (fc_Quantity command), acc_Add amount gross, acc_Add fee (fc_Fee command))
      | _ \<Rightarrow> (fc_Quantity command, gross, fc_Fee command))"

definition update_order :: "ledger_env \<Rightarrow> FillCommand \<Rightarrow> acc_decimal \<Rightarrow> Order \<Rightarrow> Order lresult" where
  "update_order env command gross r =
     (let (totalQuantity, totalGross, totalFee) = order_totals command gross r;
          requested = acc_Float64 env (fc_RequestedPrice command);
          fill = acc_Float64 env (div_or_zero totalGross totalQuantity);
          qty = acc_Float64 env totalQuantity;
          fee = acc_Float64 env totalFee;
          orderStatus = with_default (fc_OrderStatus command) ''filled'';
          r = r\<lparr>o_OrderType := fc_Side command, o_Symbol := fc_Symbol command, o_Status := orderStatus,
                o_ExecutionMode := fc_ExecutionMode command,
                o_AmountCrypto := qty, o_AmountUsdt := acc_Float64 env totalGross, o_Price := fill, o_Fee := fee,
                o_AmountCryptoExact := Some totalQuantity, o_AmountUsdtExact := Some totalGross,
                o_FeeExact := Some totalFee, o_ExecutedQuantityExact := Some totalQuantity\<rparr>;
          r = (if o_RequestedQuantityExact r = None \<and> fc_OrderStatus command = ''filled''
               then r\<lparr>o_RequestedQuantityExact := Some totalQuantity\<rparr> else r);
          remaining = map_option (\<lambda>q. acc_Sub q totalQuantity) (o_RequestedQuantityExact r)
      in if remaining \<noteq> None \<and> acc_Sign (opt0 remaining) < 0
         then Inl (conflict ''order_overfill'' ''executed quantity exceeds requested quantity'' None)
         else
           let r = (if remaining \<noteq> None then r\<lparr>o_RemainingQuantityExact := remaining\<rparr> else r)
           in Inr (r\<lparr>o_RequestedPrice := Some requested, o_FillPrice := Some fill, o_ExecutedQty := Some qty,
                o_ExchangeFee := Some fee, o_ModelVersion := fc_ModelVersion command,
                o_PolicyVersion := fc_PolicyVersion command,
                o_Stage08ContextJSON := metadataJSONForCommand env command,
                o_UniverseMode := fc_UniverseMode command, o_RolloutState := fc_RolloutState command,
                o_ExperimentID := fc_ExperimentID command, o_PredictionLogID := fc_PredictionLogID command,
                o_DecisionContextJSON := fc_DecisionContextJSON command,
                o_TriggerReason := stringPtrOrNil (fc_Reason command), o_SubmittedAt := Some (fc_OccurredAt command),
                o_FilledAt := (if orderStatus = ''filled'' then Some (fc_OccurredAt command) else None),
                o_ExchangeOrderID := (if fc_ProviderOrderID command \<noteq> '''' then Some (fc_ProviderOrderID command)
                                      else o_ExchangeOrderID r)\<rparr>))"

definition upsertFilledOrder ::
  "ledger_env \<Rightarrow> FillCommand \<Rightarrow> acc_decimal \<Rightarrow> store \<Rightarrow> (Order \<times> store) lresult" where
  "upsertFilledOrder env command gross st =
     and_then (base_order env command st) (\<lambda>r.
     and_then (update_order env command gross r) (\<lambda>r.
       if o_ID r = 0 then create_order env r st
       else and_then (save_order env r st) (\<lambda>st'. Inr (r, st'))))"

section \<open>Fills\<close>

record FillResult =
  fr_AlreadyApplied :: bool
  fr_Wallet :: Wallet
  fr_Position :: Position
  fr_Order :: Order
  fr_Fill :: Fill

definition loadFillResult :: "ledger_env \<Rightarrow> string \<Rightarrow> store \<Rightarrow> FillResult lresult" where
  "loadFillResult env batch st =
     and_then (db_require env ''fills'' f_ID (\<lambda>f. f_LedgerBatchID f = batch) (st_fills st) st) (\<lambda>fill.
     and_then (db_require env ''orders'' o_ID (\<lambda>r. o_ID r = f_OrderID fill) (st_orders st) st) (\<lambda>order.
     and_then (db_require env ''positions'' p_ID (\<lambda>p. p_ID p = f_PositionID fill) (st_positions st) st) (\<lambda>position.
     and_then (first_wallet env st) (\<lambda>wallet.
       Inr \<lparr>fr_AlreadyApplied = False, fr_Wallet = wallet, fr_Position = position, fr_Order = order, fr_Fill = fill\<rparr>))))"

definition fill_row ::
  "ledger_env \<Rightarrow> FillCommand \<Rightarrow> acc_decimal \<Rightarrow> time \<Rightarrow> Order \<Rightarrow> Position \<Rightarrow> Fill" where
  "fill_row env command gross recordedAt order position =
     \<lparr>f_ID = stableID env ''fill'' (fc_IdempotencyKey command), f_LedgerBatchID = fc_IdempotencyKey command,
      f_AccountID = fc_AccountID command, f_OrderID = o_ID order, f_VenueID = fc_VenueID command,
      f_ProviderFillID = stringPtrOrNil (fc_ProviderFillID command), f_PositionID = p_ID position,
      f_Symbol = fc_Symbol command, f_Side = fc_Side command, f_Quantity = fc_Quantity command,
      f_RequestedPrice = fc_RequestedPrice command, f_FillPrice = fc_FillPrice command, f_GrossAmount = gross,
      f_FeeAmount = fc_Fee command, f_FeeType = fc_FeeType command, f_FeeCurrency = fc_FeeCurrency command,
      f_ExecutionMode = fc_ExecutionMode command, f_StrategyVersion = fc_StrategyVersion command,
      f_PolicyVersion = fc_PolicyVersion command, f_CostModelVersion = fc_CostModelVersion command,
      f_Stage08ContextJSON = metadataJSONForCommand env command, f_OccurredAt = fc_OccurredAt command,
      f_CreatedAt = recordedAt\<rparr>"

definition fill_event ::
  "ledger_env \<Rightarrow> FillCommand \<Rightarrow> acc_decimal \<Rightarrow> acc_decimal \<Rightarrow> acc_decimal \<Rightarrow> acc_decimal \<Rightarrow> string \<Rightarrow> time
   \<Rightarrow> Order \<Rightarrow> Position \<Rightarrow> LedgerEvent" where
  "fill_event env command cashDelta assetDelta realized basisDelta metadataJSON recordedAt order position =
     \<lparr>e_ID = stableID env ''event-fill'' (fc_IdempotencyKey command), e_LedgerBatchID = fc_IdempotencyKey command,
      e_Sequence = 1, e_IdempotencyKey = fc_IdempotencyKey command @ '':fill'',
      e_EventType = (if fc_Side command = ''sell'' then EventSellFill else EventBuyFill),
      e_AccountID = fc_AccountID command, e_VenueID = fc_VenueID command, e_Currency = fc_Currency command,
      e_Symbol = fc_Symbol command, e_CashDelta = cashDelta, e_AssetDelta = assetDelta,
      e_OrderID = Some (o_ID order), e_FillID = Some (stableID env ''fill'' (fc_IdempotencyKey command)),
      e_PositionID = Some (p_ID position), e_ExecutionMode = fc_ExecutionMode command,
      e_StrategyVersion = fc_StrategyVersion command, e_PolicyVersion = fc_PolicyVersion command,
      e_Actor = nonempty (fc_Actor command) ''execution_adapter'', e_Reason = fc_Reason command,
      e_ReversesEventID = None, e_RealizedPnL = realized, e_CostBasisDelta = basisDelta, e_FeeDelta = acc_Zero,
      e_MetadataJSON = metadataJSON, e_Stage08ContextJSON = metadataJSONForCommand env command,
      e_OccurredAt = fc_OccurredAt command, e_RecordedAt = recordedAt\<rparr>"

definition fee_event ::
  "ledger_env \<Rightarrow> FillCommand \<Rightarrow> string \<Rightarrow> time \<Rightarrow> Order \<Rightarrow> Position \<Rightarrow> LedgerEvent" where
  "fee_event env command metadataJSON recordedAt order position =
     \<lparr>e_ID = stableID env ''event-fee'' (fc_IdempotencyKey command), e_LedgerBatchID = fc_IdempotencyKey command,
      e_Sequence = 2, e_IdempotencyKey = fc_IdempotencyKey command @ '':fee'',
      e_EventType = (if fc_FeeType command = EventExchangeFee \<or> fc_ExecutionMode command = ''exchange''
                     then EventExchangeFee else EventTradingFee),
      e_AccountID = fc_AccountID command, e_VenueID = fc_VenueID command, e_Currency = fc_Currency command,
      e_Symbol = fc_Symbol command, e_CashDelta = acc_Neg (fc_Fee command), e_AssetDelta = acc_Zero,
      e_OrderID = Some (o_ID order), e_FillID = Some (stableID env ''fill'' (fc_IdempotencyKey command)),
      e_PositionID = Some (p_ID position), e_ExecutionMode = fc_ExecutionMode command,
      e_StrategyVersion = fc_StrategyVersion command, e_PolicyVersion = fc_PolicyVersion command,
      e_Actor = nonempty (fc_Actor command) ''execution_adapter'', e_Reason = fc_Reason command,
      e_ReversesEventID = None, e_RealizedPnL = acc_Neg (fc_Fee command), e_CostBasisDelta = acc_Zero,
      e_FeeDelta = fc_Fee command, e_MetadataJSON = metadataJSON,
      e_Stage08ContextJSON = metadataJSONForCommand env command,
      e_OccurredAt = fc_OccurredAt command, e_RecordedAt = recordedAt\<rparr>"

definition fail :: "ledger_env \<Rightarrow> string \<Rightarrow> unit lresult" where
  "fail env stage = checked (env_after_write env stage) ()"

text \<open>The events of a fill: the fill itself and, where a fee was paid, the fee.\<close>

definition fill_events ::
  "ledger_env \<Rightarrow> FillCommand \<Rightarrow> acc_decimal \<Rightarrow> acc_decimal \<Rightarrow> acc_decimal \<Rightarrow> acc_decimal \<Rightarrow> string \<Rightarrow> time
   \<Rightarrow> Order \<Rightarrow> Position \<Rightarrow> LedgerEvent list" where
  "fill_events env command cashDelta assetDelta realized basisDelta metadataJSON recordedAt order position =
     fill_event env command cashDelta assetDelta realized basisDelta metadataJSON recordedAt order position
     # (if 0 < acc_Sign (fc_Fee command) then [fee_event env command metadataJSON recordedAt order position] else [])"

definition cash_delta :: "FillCommand \<Rightarrow> acc_decimal \<Rightarrow> acc_decimal" where
  "cash_delta command gross = (if fc_Side command = ''buy'' then acc_Neg gross else gross)"

definition asset_delta :: "FillCommand \<Rightarrow> acc_decimal" where
  "asset_delta command = (if fc_Side command = ''buy'' then fc_Quantity command else acc_Neg (fc_Quantity command))"

text \<open>The writes of a fill, with the hook of the rollback tests after each of them.\<close>

definition write_fill ::
  "ledger_env \<Rightarrow> FillCommand \<Rightarrow> string \<Rightarrow> time \<Rightarrow> Wallet \<Rightarrow> acc_decimal \<Rightarrow> acc_decimal \<Rightarrow> store
   \<Rightarrow> (FillResult \<times> store) lresult" where
  "write_fill env command metadataJSON recordedAt wallet gross newCash st =
     and_then (applyPosition env command gross st) (\<lambda>((position, realized, basisDelta), st).
     and_then (save_wallet env
                 (wallet\<lparr>w_BalanceExact := Some newCash, w_Balance := acc_Float64 env newCash\<rparr>) st) (\<lambda>(wallet, st).
     and_then (fail env ''projection'') (\<lambda>_.
     and_then (upsertFilledOrder env command gross st) (\<lambda>(order, st).
     and_then (fail env ''order'') (\<lambda>_.
     and_then (create_fill env (fill_row env command gross recordedAt order position) st) (\<lambda>(fill, st).
     and_then (fail env ''fill'') (\<lambda>_.
     and_then (create_events env
                 (fill_events env command (cash_delta command gross) (asset_delta command) realized basisDelta
                    metadataJSON recordedAt order position) st) (\<lambda>(_, st).
     and_then (fail env ''ledger'') (\<lambda>_.
       Inr (\<lparr>fr_AlreadyApplied = False, fr_Wallet = wallet, fr_Position = position, fr_Order = order,
             fr_Fill = fill\<rparr>, st))))))))))"

text \<open>The part of the transaction that runs once the batch is claimed and the account is ready.\<close>

definition post_fill :: "ledger_env \<Rightarrow> FillCommand \<Rightarrow> string \<Rightarrow> time \<Rightarrow> store \<Rightarrow> (FillResult \<times> store) lresult" where
  "post_fill env command metadataJSON recordedAt st =
     and_then (first_wallet env st) (\<lambda>wallet.
       if w_BalanceExact wallet = None then Inl ErrProjectionUnavailable
       else if \<not> equal_fold (w_Currency wallet) (fc_Currency command)
       then Inl (validation_error ''unsupported_currency''
              (''fill currency '' @ fc_Currency command @ '' does not match wallet currency '' @ w_Currency wallet))
       else
         let gross = acc_Mul (fc_Quantity command) (fc_FillPrice command);
             newCash = acc_Sub (acc_Add (opt0 (w_BalanceExact wallet)) (cash_delta command gross)) (fc_Fee command)
         in if acc_Sign newCash < 0 then Inl ErrInsufficientCash
            else write_fill env command metadataJSON recordedAt wallet gross newCash st)"

text \<open>The shape every ledger transaction shares: claim the batch, replay it or post it.\<close>

definition claim_or_replay ::
  "ledger_env \<Rightarrow> string \<Rightarrow> string \<Rightarrow> string \<Rightarrow> time \<Rightarrow> (store \<Rightarrow> 'a lresult) \<Rightarrow> (store \<Rightarrow> ('a \<times> store) lresult)
   \<Rightarrow> store \<Rightarrow> ('a \<times> store) lresult" where
  "claim_or_replay env key account payloadHash at' replay post st =
     and_then (lockAccount env account st) (\<lambda>_.
     and_then (beginBatch env key account payloadHash at' st) (\<lambda>(already, st).
       if already then and_then (replay st) (\<lambda>r. Inr (r, st)) else post st))"

definition fill_body ::
  "ledger_env \<Rightarrow> FillCommand \<Rightarrow> string \<Rightarrow> string \<Rightarrow> time \<Rightarrow> store \<Rightarrow> (FillResult \<times> store) lresult" where
  "fill_body env command payloadHash metadataJSON recordedAt st =
     and_then (allowLedgerProjectionWrites env st) (\<lambda>_.
       claim_or_replay env (fc_IdempotencyKey command) (fc_AccountID command) payloadHash (fc_OccurredAt command)
         (\<lambda>st. and_then (loadFillResult env (fc_IdempotencyKey command) st) (\<lambda>r. Inr (r\<lparr>fr_AlreadyApplied := True\<rparr>)))
         (\<lambda>st. and_then (requireReady env (fc_AccountID command) st)
                 (\<lambda>_. post_fill env command metadataJSON recordedAt st)) st)"

text \<open>\<^verbatim>\<open>ApplyFill\<close> in a transaction of its own (\<open>run = transaction env\<close>) or in its caller's (\<open>run = nested\<close>).\<close>

definition ApplyFill_with ::
  "((store \<Rightarrow> (FillResult \<times> store) lresult) \<Rightarrow> store \<Rightarrow> FillResult lresult \<times> store)
   \<Rightarrow> ledger_env \<Rightarrow> FillCommand \<Rightarrow> store \<Rightarrow> FillResult lresult \<times> store" where
  "ApplyFill_with run env command st =
     (case prepare_fill env command of
        Inl e \<Rightarrow> (Inl e, st)
      | Inr (command, payloadHash, metadataJSON, recordedAt) \<Rightarrow>
          normalized (run (fill_body env command payloadHash metadataJSON recordedAt) st))"

definition ApplyFill :: "ledger_env \<Rightarrow> FillCommand \<Rightarrow> store \<Rightarrow> FillResult lresult \<times> store" where
  "ApplyFill env = ApplyFill_with (transaction env) env"

definition CostedPaperFill ::
  "string \<Rightarrow> acc_decimal \<Rightarrow> acc_decimal \<Rightarrow> int64 \<Rightarrow> int64 \<Rightarrow> (acc_decimal \<times> acc_decimal) lresult" where
  "CostedPaperFill side quantity requested feeBPS slippageBPS =
     (if feeBPS <s 0 \<or> slippageBPS <s 0
      then Inl (validation_error ''invalid_fee_bps'' ''basis points must be non-negative'')
      else
        let bps = must_parse ''10000'';
            slip = div_or_zero (must_parse (big_string (sint slippageBPS))) bps;
            multiplier = (if side = ''sell'' then acc_Sub (must_parse ''1'') slip else acc_Add (must_parse ''1'') slip);
            fill = acc_Mul requested multiplier;
            feeRate = div_or_zero (must_parse (big_string (sint feeBPS))) bps;
            fee = acc_Mul (acc_Mul quantity fill) feeRate
        in Inr (fill, fee))"

end
