(* ===== verification/Ledger_Admin.thy ===== *)
theory Ledger_Admin
  imports Ledger
begin

text \<open>
  \<^verbatim>\<open>internal/ledger/adjustment.go\<close> and \<^verbatim>\<open>internal/ledger/correction.go\<close>: the administrative operations of the ledger, a cash
  adjustment, the reversal of a cash event or of an asset correction, and the asset correction that gives a
  legacy position its first exact projection. Each is modelled as its prelude (validation, clock, digest) followed by the body of its
  transaction, in the shape of \<open>Ledger.fill_body\<close>.
\<close>

section \<open>Cash adjustments\<close>

record AdjustmentResult =
  ar_AlreadyApplied :: bool
  ar_Wallet :: Wallet
  ar_Event :: LedgerEvent

definition batch_event :: "ledger_env \<Rightarrow> string \<Rightarrow> store \<Rightarrow> LedgerEvent lresult" where
  "batch_event env key st =
     db_require env ''ledger_events'' e_ID (\<lambda>e. e_LedgerBatchID e = key) (st_events st) st"

definition hashPayload_adjustment :: "ledger_env \<Rightarrow> AdjustmentCommand \<Rightarrow> string lresult" where
  "hashPayload_adjustment env command =
     and_then (env_MarshalAdjustment env (command\<lparr>ac_OccurredAt := 0\<rparr>)) (\<lambda>payload. Inr (hex_sha256 env payload))"

definition prepare_adjustment ::
  "ledger_env \<Rightarrow> AdjustmentCommand \<Rightarrow> (AdjustmentCommand \<times> string \<times> time) lresult" where
  "prepare_adjustment env command =
     (case requirePrimaryAccount (ac_AccountID command) of Some e \<Rightarrow> Inl e
      | None \<Rightarrow>
        let command = command\<lparr>ac_AccountID := with_default (ac_AccountID command) DefaultAccountID\<rparr>;
            command = (if ac_OccurredAt command = 0
                       then command\<lparr>ac_OccurredAt := env_now env ''occurred_at'' (ac_IdempotencyKey command)\<rparr>
                       else command);
            recordedAt = env_now env ''recorded_at'' (ac_IdempotencyKey command)
        in if recordedAt < ac_OccurredAt command
           then Inl (validation_error ''future_occurred_at'' ''occurred_at must be no later than recorded_at'')
           else if ac_IdempotencyKey command = '''' \<or> ac_Currency command = '''' \<or> ac_Actor command = ''''
                   \<or> trim_space (ac_Reason command) = '''' \<or> acc_Sign (ac_Amount command) = 0
           then Inl (validation_error ''invalid_adjustment''
                  ''idempotency key, non-zero amount, currency, actor, and reason are required'')
           else if ac_Type command \<noteq> EventCapitalDeposit \<and> ac_Type command \<noteq> EventCapitalWithdrawal
                   \<and> ac_Type command \<noteq> EventFundingInterest \<and> ac_Type command \<noteq> EventAdminCorrection
           then Inl (validation_error ''unsupported_adjustment_type''
                  (''unsupported adjustment type '' @ quoted (ac_Type command)))
           else if (ac_Type command = EventCapitalDeposit \<or> ac_Type command = EventCapitalWithdrawal)
                   \<and> acc_Sign (ac_Amount command) < 0
           then Inl (validation_error ''invalid_adjustment_amount'' ''capital deposit/withdrawal amount must be positive'')
           else and_then (hashPayload_adjustment env command) (\<lambda>payloadHash. Inr (command, payloadHash, recordedAt)))"

definition adjustment_event ::
  "ledger_env \<Rightarrow> AdjustmentCommand \<Rightarrow> acc_decimal \<Rightarrow> time \<Rightarrow> LedgerEvent" where
  "adjustment_event env command delta recordedAt =
     \<lparr>e_ID = with_default (ac_EventID command) (stableID env ''event-adjustment'' (ac_IdempotencyKey command)),
      e_LedgerBatchID = ac_IdempotencyKey command, e_Sequence = 1,
      e_IdempotencyKey = ac_IdempotencyKey command @ '':adjustment'', e_EventType = ac_Type command,
      e_AccountID = ac_AccountID command, e_VenueID = ''internal'', e_Currency = ac_Currency command, e_Symbol = '''',
      e_CashDelta = delta, e_AssetDelta = acc_Zero, e_OrderID = None, e_FillID = None, e_PositionID = None,
      e_ExecutionMode = ''administrative'', e_StrategyVersion = '''', e_PolicyVersion = '''',
      e_Actor = ac_Actor command, e_Reason = ac_Reason command, e_ReversesEventID = None, e_RealizedPnL = acc_Zero,
      e_CostBasisDelta = AccDecimal None, e_FeeDelta = AccDecimal None, e_MetadataJSON = ''{}'',
      e_Stage08ContextJSON = '''', e_OccurredAt = ac_OccurredAt command, e_RecordedAt = recordedAt\<rparr>"

definition post_adjustment ::
  "ledger_env \<Rightarrow> AdjustmentCommand \<Rightarrow> time \<Rightarrow> store \<Rightarrow> (AdjustmentResult \<times> store) lresult" where
  "post_adjustment env command recordedAt st =
     and_then (first_wallet env st) (\<lambda>wallet.
       if w_BalanceExact wallet = None then Inl ErrProjectionUnavailable
       else if \<not> equal_fold (w_Currency wallet) (ac_Currency command)
       then Inl (validation_error ''unsupported_currency''
              (''adjustment currency '' @ ac_Currency command @ '' does not match wallet currency '' @ w_Currency wallet))
       else
         let delta = (if ac_Type command = EventCapitalWithdrawal then acc_Neg (ac_Amount command) else ac_Amount command);
             balance = acc_Add (opt0 (w_BalanceExact wallet)) delta
         in if acc_Sign balance < 0 then Inl ErrInsufficientCash
         else
           and_then (save_wallet env
                       (wallet\<lparr>w_BalanceExact := Some balance, w_Balance := acc_Float64 env balance\<rparr>) st) (\<lambda>(wallet, st).
           and_then (create_event env (adjustment_event env command delta recordedAt) st) (\<lambda>(event, st).
           and_then (fail env ''ledger'') (\<lambda>_.
             Inr (\<lparr>ar_AlreadyApplied = False, ar_Wallet = wallet, ar_Event = event\<rparr>, st)))))"

definition adjustment_body ::
  "ledger_env \<Rightarrow> AdjustmentCommand \<Rightarrow> string \<Rightarrow> time \<Rightarrow> store \<Rightarrow> (AdjustmentResult \<times> store) lresult" where
  "adjustment_body env command payloadHash recordedAt st =
     and_then (allowLedgerProjectionWrites env st) (\<lambda>_.
       claim_or_replay env (ac_IdempotencyKey command) (ac_AccountID command) payloadHash (ac_OccurredAt command)
         (\<lambda>st. and_then (batch_event env (ac_IdempotencyKey command) st) (\<lambda>event.
                and_then (first_wallet env st) (\<lambda>wallet.
                  Inr \<lparr>ar_AlreadyApplied = True, ar_Wallet = wallet, ar_Event = event\<rparr>)))
         (\<lambda>st. and_then (requireReady env (ac_AccountID command) st) (\<lambda>_. post_adjustment env command recordedAt st)) st)"

definition ApplyAdjustment ::
  "ledger_env \<Rightarrow> AdjustmentCommand \<Rightarrow> store \<Rightarrow> AdjustmentResult lresult \<times> store" where
  "ApplyAdjustment env command st =
     (case prepare_adjustment env command of
        Inl e \<Rightarrow> (Inl e, st)
      | Inr (command, payloadHash, recordedAt) \<Rightarrow>
          normalized (transaction env (adjustment_body env command payloadHash recordedAt) st))"

definition IsConflict :: "ledger_error \<Rightarrow> bool" where
  "IsConflict err = (let kind = fst (ErrorDetails err) in kind = KindConflict \<or> kind = KindUnavailable)"

section \<open>Reversals\<close>

definition hashPayload_reversal :: "ledger_env \<Rightarrow> ReversalCommand \<Rightarrow> string" where
  "hashPayload_reversal env command =
     the_ok '''' (and_then (env_MarshalReversal env (command\<lparr>rc_OccurredAt := 0\<rparr>)) (\<lambda>payload. Inr (hex_sha256 env payload)))"

definition prepare_reversal :: "ledger_env \<Rightarrow> ReversalCommand \<Rightarrow> (ReversalCommand \<times> time) lresult" where
  "prepare_reversal env command =
     (if rc_IdempotencyKey command = '''' \<or> rc_OriginalEventID command = '''' \<or> rc_Actor command = '''' \<or> rc_Reason command = ''''
      then Inl (validation_error ''invalid_reversal'' ''all reversal fields are required'')
      else
        let command = (if rc_OccurredAt command = 0
                       then command\<lparr>rc_OccurredAt := env_now env ''occurred_at'' (rc_IdempotencyKey command)\<rparr>
                       else command);
            recordedAt = env_now env ''recorded_at'' (rc_IdempotencyKey command)
        in if recordedAt < rc_OccurredAt command
           then Inl (validation_error ''future_occurred_at'' ''occurred_at must be no later than recorded_at'')
           else Inr (command, recordedAt))"

definition reversal_event :: "ledger_env \<Rightarrow> ReversalCommand \<Rightarrow> LedgerEvent \<Rightarrow> time \<Rightarrow> LedgerEvent" where
  "reversal_event env command original recordedAt =
     \<lparr>e_ID = stableID env ''event-reversal'' (rc_IdempotencyKey command), e_LedgerBatchID = rc_IdempotencyKey command,
      e_Sequence = 1, e_IdempotencyKey = rc_IdempotencyKey command @ '':reversal'', e_EventType = EventReversal,
      e_AccountID = e_AccountID original, e_VenueID = e_VenueID original, e_Currency = e_Currency original,
      e_Symbol = e_Symbol original, e_CashDelta = acc_Neg (e_CashDelta original),
      e_AssetDelta = acc_Neg (e_AssetDelta original), e_OrderID = None, e_FillID = None,
      e_PositionID = e_PositionID original, e_ExecutionMode = ''administrative'', e_StrategyVersion = '''',
      e_PolicyVersion = '''', e_Actor = rc_Actor command, e_Reason = rc_Reason command,
      e_ReversesEventID = Some (e_ID original), e_RealizedPnL = acc_Neg (e_RealizedPnL original),
      e_CostBasisDelta = acc_Neg (e_CostBasisDelta original), e_FeeDelta = acc_Neg (e_FeeDelta original),
      e_MetadataJSON = ''{}'', e_Stage08ContextJSON = '''', e_OccurredAt = rc_OccurredAt command,
      e_RecordedAt = recordedAt\<rparr>"

text \<open>The projection of the asset side of a reversal.\<close>

definition reverse_position :: "ledger_env \<Rightarrow> ReversalCommand \<Rightarrow> LedgerEvent \<Rightarrow> Position \<Rightarrow> Position lresult" where
  "reverse_position env command original position =
     (if p_AmountExact position = None \<or> p_CostBasisExact position = None then Inl ErrProjectionUnavailable
      else
        let quantity = acc_Sub (opt0 (p_AmountExact position)) (e_AssetDelta original);
            basis = acc_Sub (opt0 (p_CostBasisExact position)) (e_CostBasisDelta original)
        in if acc_Sign quantity < 0 \<or> acc_Sign basis < 0
           then Inl (conflict ''reversal_projection_conflict'' ''correction reversal would make projection negative'' None)
           else
             let position = position\<lparr>p_AmountExact := Some quantity, p_CostBasisExact := Some basis,
                                     p_Amount := acc_Float64 env quantity\<rparr>
             in Inr (if acc_Sign quantity = 0
                     then position\<lparr>p_Status := ''closed'', p_ClosedAt := Some (rc_OccurredAt command),
                                   p_CloseReason := stringPtrOrNil ''administrative_reversal''\<rparr>
                     else position\<lparr>p_AvgPrice := acc_Float64 env (div_or_zero basis quantity)\<rparr>))"

definition reverse_asset :: "ledger_env \<Rightarrow> ReversalCommand \<Rightarrow> LedgerEvent \<Rightarrow> store \<Rightarrow> store lresult" where
  "reverse_asset env command original st =
     (if acc_Sign (e_AssetDelta original) = 0 then Inr st
      else
        and_then (db_require env ''positions'' p_ID
                    (\<lambda>p. p_AccountID p = e_AccountID original \<and> p_Symbol p = e_Symbol original) (st_positions st) st) (\<lambda>p.
        and_then (reverse_position env command original p) (\<lambda>position. save_position env position st)))"

definition post_reversal ::
  "ledger_env \<Rightarrow> ReversalCommand \<Rightarrow> LedgerEvent \<Rightarrow> time \<Rightarrow> store \<Rightarrow> (LedgerEvent \<times> store) lresult" where
  "post_reversal env command original recordedAt st =
     and_then (first_wallet env st) (\<lambda>wallet.
       if w_BalanceExact wallet = None then Inl ErrProjectionUnavailable
       else
         let balance = acc_Sub (opt0 (w_BalanceExact wallet)) (e_CashDelta original) in
         if acc_Sign balance < 0 then Inl ErrInsufficientCash
         else
           and_then (save_wallet env
                       (wallet\<lparr>w_BalanceExact := Some balance, w_Balance := acc_Float64 env balance\<rparr>) st) (\<lambda>(_, st).
           and_then (reverse_asset env command original st) (\<lambda>st.
             create_event env (reversal_event env command original recordedAt) st)))"

definition reversal_body ::
  "ledger_env \<Rightarrow> ReversalCommand \<Rightarrow> time \<Rightarrow> store \<Rightarrow> (LedgerEvent \<times> store) lresult" where
  "reversal_body env command recordedAt st =
     and_then (allowLedgerProjectionWrites env st) (\<lambda>_.
     and_then (db_require env ''ledger_events'' e_ID (\<lambda>e. e_ID e = rc_OriginalEventID command) (st_events st) st) (\<lambda>original.
       if e_FillID original \<noteq> None \<or>
          acc_Sign (e_AssetDelta original) \<noteq> 0 \<and> e_EventType original \<noteq> EventAdminCorrection
       then Inl (validation_error ''unsupported_reversal'' ''fill reversals require a compensating fill'')
       else
         claim_or_replay env (rc_IdempotencyKey command) (e_AccountID original) (hashPayload_reversal env command)
           (rc_OccurredAt command)
           (batch_event env (rc_IdempotencyKey command))
           (\<lambda>st. and_then (requireReady env (e_AccountID original) st)
                   (\<lambda>_. post_reversal env command original recordedAt st)) st))"

definition ReverseCashEvent :: "ledger_env \<Rightarrow> ReversalCommand \<Rightarrow> store \<Rightarrow> LedgerEvent lresult \<times> store" where
  "ReverseCashEvent env command st =
     (case prepare_reversal env command of
        Inl e \<Rightarrow> (Inl e, st)
      | Inr (command, recordedAt) \<Rightarrow> normalized (transaction env (reversal_body env command recordedAt) st))"

section \<open>Asset corrections\<close>

definition hashPayload_correction :: "ledger_env \<Rightarrow> AssetCorrectionCommand \<Rightarrow> string lresult" where
  "hashPayload_correction env command =
     and_then (env_MarshalCorrection env (command\<lparr>cc_OccurredAt := 0\<rparr>)) (\<lambda>payload. Inr (hex_sha256 env payload))"

definition prepare_correction ::
  "ledger_env \<Rightarrow> AssetCorrectionCommand \<Rightarrow> (AssetCorrectionCommand \<times> string \<times> string \<times> time) lresult" where
  "prepare_correction env command =
     (case requirePrimaryAccount (cc_AccountID command) of Some e \<Rightarrow> Inl e
      | None \<Rightarrow>
        let command = command\<lparr>cc_AccountID := with_default (cc_AccountID command) DefaultAccountID\<rparr> in
        if cc_IdempotencyKey command = '''' \<or> cc_Symbol command = '''' \<or> acc_Sign (cc_Quantity command) \<le> 0
           \<or> acc_Sign (cc_CostBasis command) < 0 \<or> cc_Actor command = '''' \<or> cc_Reason command = ''''
        then Inl (validation_error ''invalid_asset_correction''
               ''idempotency key, symbol, positive quantity, non-negative basis, actor and reason are required'')
        else
          let command = (if cc_OccurredAt command = 0
                         then command\<lparr>cc_OccurredAt := env_now env ''occurred_at'' (cc_IdempotencyKey command)\<rparr>
                         else command);
              recordedAt = env_now env ''recorded_at'' (cc_IdempotencyKey command)
          in if recordedAt < cc_OccurredAt command
             then Inl (validation_error ''future_occurred_at'' ''occurred_at must be no later than recorded_at'')
             else and_then (hashPayload_correction env command) (\<lambda>hash.
               let metadata = the_ok '''' (marshal env (case cc_Evidence command of None \<Rightarrow> JNull | Some m \<Rightarrow> json_map m));
                   metadata = (if metadata = '''' then ''{}'' else metadata)
               in Inr (command, hash, metadata, recordedAt)))"

definition correction_event ::
  "ledger_env \<Rightarrow> AssetCorrectionCommand \<Rightarrow> string \<Rightarrow> uint \<Rightarrow> time \<Rightarrow> LedgerEvent" where
  "correction_event env command metadata position recordedAt =
     \<lparr>e_ID = stableID env ''event-asset-correction'' (cc_IdempotencyKey command),
      e_LedgerBatchID = cc_IdempotencyKey command, e_Sequence = 1,
      e_IdempotencyKey = cc_IdempotencyKey command @ '':asset'', e_EventType = EventAdminCorrection,
      e_AccountID = cc_AccountID command, e_VenueID = ''internal'', e_Currency = cc_Currency command,
      e_Symbol = cc_Symbol command, e_CashDelta = acc_Zero, e_AssetDelta = cc_Quantity command, e_OrderID = None,
      e_FillID = None, e_PositionID = Some position, e_ExecutionMode = ''administrative'', e_StrategyVersion = '''',
      e_PolicyVersion = '''', e_Actor = cc_Actor command, e_Reason = cc_Reason command, e_ReversesEventID = None,
      e_RealizedPnL = acc_Zero, e_CostBasisDelta = cc_CostBasis command, e_FeeDelta = acc_Zero,
      e_MetadataJSON = metadata, e_Stage08ContextJSON = '''', e_OccurredAt = cc_OccurredAt command,
      e_RecordedAt = recordedAt\<rparr>"

definition correct_position :: "ledger_env \<Rightarrow> AssetCorrectionCommand \<Rightarrow> Position \<Rightarrow> Position lresult" where
  "correct_position env command position =
     (if p_AmountExact position \<noteq> None \<or> p_CostBasisExact position \<noteq> None
      then Inl (conflict ''already_reconciled'' ''position already has an exact projection'' None)
      else if (case acc_FromFloat env (p_Amount position) of
                 Inl _ \<Rightarrow> True | Inr legacyQty \<Rightarrow> acc_Cmp legacyQty (cc_Quantity command) \<noteq> 0)
      then Inl (validation_error ''legacy_quantity_mismatch''
             ''correction quantity must equal the observed legacy position quantity'')
      else Inr (position\<lparr>p_AmountExact := Some (cc_Quantity command), p_CostBasisExact := Some (cc_CostBasis command),
                         p_RealizedPnLExact := Some acc_Zero, p_FeesExact := Some acc_Zero,
                         p_AvgPrice := acc_Float64 env (div_or_zero (cc_CostBasis command) (cc_Quantity command))\<rparr>))"

text \<open>Open positions of the account still without an exact projection.\<close>

definition unreconciled :: "string \<Rightarrow> store \<Rightarrow> Position list" where
  "unreconciled account st =
     filter (\<lambda>p. p_AccountID p = account \<and> p_Status p = ''open''
                 \<and> (p_AmountExact p = None \<or> p_CostBasisExact p = None)) (st_positions st)"

text \<open>The account becomes ready with its last open position reconciled.\<close>

definition settle_state :: "ledger_env \<Rightarrow> string \<Rightarrow> LedgerMigrationState \<Rightarrow> store \<Rightarrow> store lresult" where
  "settle_state env account state st =
     and_then (db_exec env (ReadCall ''positions'') st) (\<lambda>_.
       if unreconciled account st = []
       then save_state env
              (state\<lparr>ms_Status := ''ready'',
                     ms_UnresolvedJSON := [CHR ''['', CHR 0x22] @ ''legacy historical orders/fills remain unreconstructed''
                                          @ [CHR 0x22, CHR '']'']\<rparr>) st
       else Inr st)"

definition write_correction ::
  "ledger_env \<Rightarrow> AssetCorrectionCommand \<Rightarrow> string \<Rightarrow> time \<Rightarrow> LedgerMigrationState \<Rightarrow> Position \<Rightarrow> store
   \<Rightarrow> (LedgerEvent \<times> store) lresult" where
  "write_correction env command metadata recordedAt state p st =
     and_then (correct_position env command p) (\<lambda>position.
     and_then (save_position env position st) (\<lambda>st.
     and_then (create_event env (correction_event env command metadata (p_ID position) recordedAt) st) (\<lambda>(event, st).
     and_then (settle_state env (cc_AccountID command) state st) (\<lambda>st. Inr (event, st)))))"

definition post_correction ::
  "ledger_env \<Rightarrow> AssetCorrectionCommand \<Rightarrow> string \<Rightarrow> time \<Rightarrow> store \<Rightarrow> (LedgerEvent \<times> store) lresult" where
  "post_correction env command metadata recordedAt st =
     and_then (db_require env ''ledger_migration_states'' ms_AccountID
                 (\<lambda>m. ms_AccountID m = cc_AccountID command) (st_states st) st) (\<lambda>state.
       if ms_Status state \<noteq> ''pending_resolution'' \<and> ms_Status state \<noteq> ''ready'' then Inl ErrUnreconciledLegacyState
       else
     and_then (first_wallet env st) (\<lambda>wallet.
       if w_Currency wallet \<noteq> cc_Currency command
       then Inl (validation_error ''unsupported_currency'' (''correction currency must be '' @ w_Currency wallet))
       else
     and_then (db_require env ''positions'' p_ID
                 (\<lambda>p. p_AccountID p = cc_AccountID command \<and> p_Symbol p = cc_Symbol command \<and> p_Status p = ''open'')
                 (st_positions st) st) (\<lambda>p. write_correction env command metadata recordedAt state p st)))"

definition correction_body ::
  "ledger_env \<Rightarrow> AssetCorrectionCommand \<Rightarrow> string \<Rightarrow> string \<Rightarrow> time \<Rightarrow> store \<Rightarrow> (LedgerEvent \<times> store) lresult" where
  "correction_body env command hash metadata recordedAt st =
     and_then (allowLedgerProjectionWrites env st) (\<lambda>_.
       claim_or_replay env (cc_IdempotencyKey command) (cc_AccountID command) hash (cc_OccurredAt command)
         (batch_event env (cc_IdempotencyKey command))
         (post_correction env command metadata recordedAt) st)"

definition ApplyAssetCorrection ::
  "ledger_env \<Rightarrow> AssetCorrectionCommand \<Rightarrow> store \<Rightarrow> LedgerEvent lresult \<times> store" where
  "ApplyAssetCorrection env command st =
     (case prepare_correction env command of
        Inl e \<Rightarrow> (Inl e, st)
      | Inr (command, hash, metadata, recordedAt) \<Rightarrow>
          normalized (transaction env (correction_body env command hash metadata recordedAt) st))"

end
