(* ===== verification/Ledger_Laws.thy ===== *)
theory Ledger_Laws
  imports Ledger_Admin
begin

text \<open>
  What the ledger keeps. \<open>ledger_inv\<close> is the invariant of the store: the projections (the wallet's cash and every
  position's quantity, cost basis, fees and realized result) are exactly the sums of the immutable events, and are
  never negative. The lemmas of the first sections give the effect of each write on these sums; the last ones
  put them together per operation. All of them hold for every database, clock, codec and float conversion.
\<close>

section \<open>Sums over tables\<close>

definition exact :: "acc_decimal option \<Rightarrow> int" where
  "exact v = acc_integer (opt0 v)"

definition col_sum :: "(Position \<Rightarrow> acc_decimal option) \<Rightarrow> string \<Rightarrow> Position list \<Rightarrow> int" where
  "col_sum col s rows = (\<Sum>p\<leftarrow>rows. if p_Symbol p = s then exact (col p) else 0)"

definition event_sum :: "(LedgerEvent \<Rightarrow> acc_decimal) \<Rightarrow> string \<Rightarrow> LedgerEvent list \<Rightarrow> int" where
  "event_sum delta s rows = (\<Sum>e\<leftarrow>rows. if e_Symbol e = s then acc_integer (delta e) else 0)"

definition cash_sum :: "LedgerEvent list \<Rightarrow> int" where
  "cash_sum rows = (\<Sum>e\<leftarrow>rows. acc_integer (e_CashDelta e))"

lemma not_Valid: "\<not> acc_Valid d \<Longrightarrow> acc_integer d = 0"
  by (cases d) (auto simp: acc_Valid_def acc_integer_def split: option.splits)

lemma exact_simps [simp]:
  "exact None = 0" "exact (Some d) = acc_integer d" "acc_integer (opt0 v) = exact v" "exact (nullable v) = exact v"
  by (auto simp: exact_def opt0_def nullable_def not_Valid split: option.split)

lemma nullable_None [simp]: "nullable v = None \<longleftrightarrow> (\<forall>d. v = Some d \<longrightarrow> \<not> acc_Valid d)"
  by (auto simp: nullable_def split: option.splits)

lemma position_row_simps [simp]:
  "p_ID (position_row p) = p_ID p" "p_Symbol (position_row p) = p_Symbol p" "p_AccountID (position_row p) = p_AccountID p"
  "p_Status (position_row p) = p_Status p"
  "p_AmountExact (position_row p) = nullable (p_AmountExact p)"
  "p_CostBasisExact (position_row p) = nullable (p_CostBasisExact p)"
  "p_RealizedPnLExact (position_row p) = nullable (p_RealizedPnLExact p)"
  "p_FeesExact (position_row p) = nullable (p_FeesExact p)"
  by (simp_all add: position_row_def)

lemma sums_append [simp]:
  "col_sum col s (xs @ [p]) = col_sum col s xs + (if p_Symbol p = s then exact (col p) else 0)"
  "event_sum d s (es @ es') = event_sum d s es + event_sum d s es'"
  "cash_sum (es @ es') = cash_sum es + cash_sum es'"
  by (simp_all add: col_sum_def event_sum_def cash_sum_def)

lemma sums_Cons [simp]:
  "col_sum col s (p # ps) = (if p_Symbol p = s then exact (col p) else 0) + col_sum col s ps"
  "event_sum d s (e # es) = (if e_Symbol e = s then acc_integer (d e) else 0) + event_sum d s es"
  "cash_sum (e # es) = acc_integer (e_CashDelta e) + cash_sum es"
  "col_sum col s [] = 0" "event_sum d s [] = 0" "cash_sum [] = 0"
  by (simp_all add: col_sum_def event_sum_def cash_sum_def)

lemma replace_row_Cons [simp]:
  "replace_row key row [] = []"
  "replace_row key row (r # rs) = (if key r = key row then row else r) # replace_row key row rs"
  by (simp_all add: replace_row_def)

lemma replace_row_absent [simp]: "key row \<notin> key ` set rows \<Longrightarrow> replace_row key row rows = rows"
  by (induction rows) auto

text \<open>Saving a loaded position changes a column by the difference of the two rows.\<close>

lemma col_sum_replace:
  assumes "distinct (map p_ID rows)" and "p \<in> set rows" and "p_ID p' = p_ID p" and "p_Symbol p' = p_Symbol p"
  shows "col_sum col s (replace_row p_ID p' rows)
    = col_sum col s rows + (if p_Symbol p = s then exact (col p') - exact (col p) else 0)"
  using assms
proof (induction rows)
  case (Cons r rows)
  show ?case
  proof (cases "p = r")
    case True
    then have "p_ID p' \<notin> p_ID ` set rows" using Cons.prems by auto
    with True Cons.prems show ?thesis by simp
  next
    case False
    then have "p \<in> set rows" "p_ID r \<noteq> p_ID p'" using Cons.prems by auto
    with Cons show ?thesis by simp
  qed
qed simp

section \<open>The invariant\<close>

definition position_ok :: "Position \<Rightarrow> bool" where
  "position_ok p \<longleftrightarrow>
     p_AccountID p = DefaultAccountID \<and> 0 \<le> exact (p_AmountExact p) \<and> 0 \<le> exact (p_CostBasisExact p) \<and>
     (p_Status p \<noteq> ''open'' \<longrightarrow> exact (p_AmountExact p) = 0 \<and> exact (p_CostBasisExact p) = 0) \<and>
     (p_AmountExact p = None \<and> p_CostBasisExact p = None \<longrightarrow>
        exact (p_RealizedPnLExact p) = 0 \<and> exact (p_FeesExact p) = 0)"

definition positions_ok :: "uint \<Rightarrow> Position list \<Rightarrow> bool" where
  "positions_ok n rows \<longleftrightarrow>
     0 < n \<and> distinct (map p_ID rows) \<and> distinct (map p_Symbol rows) \<and>
     (\<forall>p \<in> set rows. 0 < p_ID p \<and> p_ID p < n \<and> position_ok p)"

definition orders_ok :: "uint \<Rightarrow> Order list \<Rightarrow> bool" where
  "orders_ok n rows \<longleftrightarrow> 0 < n \<and> distinct (map o_ID rows) \<and> (\<forall>r \<in> set rows. 0 < o_ID r \<and> o_ID r < n)"

text \<open>
  An event without a fill posts no result and no fee, and no cost basis without a quantity; an administrative
  correction never takes a quantity away.
\<close>

definition event_ok :: "LedgerEvent \<Rightarrow> bool" where
  "event_ok e \<longleftrightarrow>
     e_AccountID e = DefaultAccountID \<and>
     (e_FillID e = None \<longrightarrow> acc_integer (e_RealizedPnL e) = 0 \<and> acc_integer (e_FeeDelta e) = 0 \<and>
        (acc_integer (e_AssetDelta e) = 0 \<longrightarrow> acc_integer (e_CostBasisDelta e) = 0) \<and>
        (e_EventType e = EventAdminCorrection \<longrightarrow> 0 \<le> acc_integer (e_AssetDelta e)))"

definition cash_ok :: "store \<Rightarrow> bool" where
  "cash_ok st \<longleftrightarrow> (\<exists>w. st_wallets st = [w] \<and> w_AccountID w = DefaultAccountID \<and> 0 \<le> exact (w_BalanceExact w)
     \<and> exact (w_BalanceExact w) = cash_sum (st_events st))"

definition symbols_ok :: "Position list \<Rightarrow> LedgerEvent list \<Rightarrow> bool" where
  "symbols_ok rows es \<longleftrightarrow>
     (\<forall>s. col_sum p_AmountExact s rows = event_sum e_AssetDelta s es
        \<and> col_sum p_CostBasisExact s rows = event_sum e_CostBasisDelta s es
        \<and> col_sum p_FeesExact s rows = event_sum e_FeeDelta s es
        \<and> col_sum p_RealizedPnLExact s rows = event_sum e_RealizedPnL s es)"

definition ledger_inv :: "store \<Rightarrow> bool" where
  "ledger_inv st \<longleftrightarrow>
     cash_ok st \<and> positions_ok (st_next_position st) (st_positions st) \<and> orders_ok (st_next_order st) (st_orders st)
     \<and> (\<forall>e \<in> set (st_events st). event_ok e) \<and> symbols_ok (st_positions st) (st_events st)"

lemma first_wallet_ok: "cash_ok st \<Longrightarrow> first_wallet env st = Inr w \<Longrightarrow> st_wallets st = [w]"
  by (auto simp: cash_ok_def first_wallet_def dest: db_require_singleton)

text \<open>One symbol's four columns (quantity, basis, fees, result) move by the given amounts.\<close>

definition moved :: "Position list \<Rightarrow> Position list \<Rightarrow> string \<Rightarrow> int \<Rightarrow> int \<Rightarrow> int \<Rightarrow> int \<Rightarrow> bool" where
  "moved rows rows' symbol quantity basis fees pnl \<longleftrightarrow>
     (\<forall>s. col_sum p_AmountExact s rows' = col_sum p_AmountExact s rows + (if symbol = s then quantity else 0)
        \<and> col_sum p_CostBasisExact s rows' = col_sum p_CostBasisExact s rows + (if symbol = s then basis else 0)
        \<and> col_sum p_FeesExact s rows' = col_sum p_FeesExact s rows + (if symbol = s then fees else 0)
        \<and> col_sum p_RealizedPnLExact s rows' = col_sum p_RealizedPnLExact s rows + (if symbol = s then pnl else 0))"

text \<open>The events that are posted say the same.\<close>

definition posts :: "LedgerEvent list \<Rightarrow> string \<Rightarrow> int \<Rightarrow> int \<Rightarrow> int \<Rightarrow> int \<Rightarrow> bool" where
  "posts es symbol quantity basis fees pnl \<longleftrightarrow>
     (\<forall>s. event_sum e_AssetDelta s es = (if symbol = s then quantity else 0)
        \<and> event_sum e_CostBasisDelta s es = (if symbol = s then basis else 0)
        \<and> event_sum e_FeeDelta s es = (if symbol = s then fees else 0)
        \<and> event_sum e_RealizedPnL s es = (if symbol = s then pnl else 0))"

lemma symbols_ok_step:
  "symbols_ok rows es \<Longrightarrow> moved rows rows' symbol q b f r \<Longrightarrow> posts new symbol q b f r \<Longrightarrow> symbols_ok rows' (es @ new)"
  by (simp add: symbols_ok_def moved_def posts_def)

lemma moved_refl: "moved rows rows symbol 0 0 0 0"
  by (simp add: moved_def)

lemma positions_ok_replace:
  assumes ok: "positions_ok n rows" and p: "p \<in> set rows" "p_ID p' = p_ID p" "p_Symbol p' = p_Symbol p" and p': "position_ok p'"
  shows "positions_ok n (replace_row p_ID p' rows)"
proof -
  have "map p_Symbol (replace_row p_ID p' rows) = map p_Symbol rows"
    using ok p unfolding positions_ok_def replace_row_def
    by (auto simp: inj_on_eq_iff [where f = p_ID] distinct_map intro!: map_cong)
  moreover have "0 < p_ID q \<and> p_ID q < n \<and> position_ok q" if "q \<in> set (replace_row p_ID p' rows)" for q
    using replace_row_set [OF that] ok p p' by (auto simp: positions_ok_def)
  ultimately show ?thesis using ok unfolding positions_ok_def by simp
qed

lemma orders_ok_replace:
  assumes "orders_ok n rows" and "o_ID r \<in> o_ID ` set rows"
  shows "orders_ok n (replace_row o_ID r rows)"
  using assms by (auto simp: orders_ok_def dest!: replace_row_set)

section \<open>The position of a fill\<close>

definition fill_valid :: "FillCommand \<Rightarrow> bool" where
  "fill_valid c \<longleftrightarrow> (fc_Side c = ''buy'' \<or> fc_Side c = ''sell'') \<and> 0 < acc_integer (fc_Quantity c)
     \<and> 0 < acc_integer (fc_FillPrice c) \<and> 0 \<le> acc_integer (fc_Fee c) \<and> fc_AccountID c = DefaultAccountID"

abbreviation gross_of :: "FillCommand \<Rightarrow> acc_decimal" where
  "gross_of c \<equiv> acc_Mul (fc_Quantity c) (fc_FillPrice c)"

lemma gross_nonneg: "fill_valid c \<Longrightarrow> 0 \<le> acc_integer (gross_of c)"
  by (simp add: fill_valid_def accounting.rdiv_nonneg)

definition prior :: "(Position \<Rightarrow> acc_decimal option) \<Rightarrow> Position option \<Rightarrow> int" where
  "prior col found = (case found of None \<Rightarrow> 0 | Some p \<Rightarrow> exact (col p))"

lemma opt0_simps [simp]: "opt0 None = acc_Zero" "opt0 (Some d) = d"
  by (simp_all add: opt0_def)

lemma buy_position:
  fixes env :: ledger_env and cycle :: bool
  assumes c: "fill_valid c" and base: "buy_base c found = Inr base"
    and found: "\<And>p. found = Some p \<Longrightarrow> position_ok p \<and> p_Symbol p = fc_Symbol c \<and> 0 < p_ID p"
  defines "p' \<equiv> buy_update env c (gross_of c) cycle base"
  shows "position_ok (position_row p')" "p_Symbol p' = fc_Symbol c"
    "p_ID p' = (case found of None \<Rightarrow> 0 | Some p \<Rightarrow> p_ID p)"
    "exact (p_AmountExact p') = prior p_AmountExact found + acc_integer (fc_Quantity c)"
    "exact (p_CostBasisExact p') = prior p_CostBasisExact found + acc_integer (gross_of c)"
    "exact (p_FeesExact p') = prior p_FeesExact found + acc_integer (fc_Fee c)"
    "exact (p_RealizedPnLExact p') = prior p_RealizedPnLExact found - acc_integer (fc_Fee c)"
proof -
  have cols: "exact (p_AmountExact base) = prior p_AmountExact found"
    "exact (p_CostBasisExact base) = prior p_CostBasisExact found"
    "exact (p_FeesExact base) = prior p_FeesExact found"
    "exact (p_RealizedPnLExact base) = prior p_RealizedPnLExact found"
    "p_ID base = (case found of None \<Rightarrow> 0 | Some p \<Rightarrow> p_ID p)"
    and status: "p_Status base = ''open''" and id: "p_Symbol base = fc_Symbol c" "p_AccountID base = DefaultAccountID"
    and pos: "0 \<le> exact (p_AmountExact base)" "0 \<le> exact (p_CostBasisExact base)"
    using base found c
    by (auto simp: buy_base_def prior_def zero_Position_def fill_valid_def position_ok_def split: option.splits if_splits)
  have valid: "acc_Valid (acc_Add a b)" for a b by simp
  show "exact (p_AmountExact p') = prior p_AmountExact found + acc_integer (fc_Quantity c)"
    "exact (p_CostBasisExact p') = prior p_CostBasisExact found + acc_integer (gross_of c)"
    "exact (p_FeesExact p') = prior p_FeesExact found + acc_integer (fc_Fee c)"
    "exact (p_RealizedPnLExact p') = prior p_RealizedPnLExact found - acc_integer (fc_Fee c)"
    "p_ID p' = (case found of None \<Rightarrow> 0 | Some p \<Rightarrow> p_ID p)" "p_Symbol p' = fc_Symbol c"
    using cols id by (simp_all add: p'_def buy_update_def Let_def)
  show "position_ok (position_row p')"
    using pos status id gross_nonneg [OF c] c
    by (simp add: p'_def position_ok_def buy_update_def Let_def fill_valid_def)
qed

lemma sell_position:
  fixes env :: ledger_env
  assumes c: "fill_valid c" and p: "position_ok p" "p_Symbol p = fc_Symbol c" "p_Status p = ''open''"
    and amount: "acc_integer (fc_Quantity c) \<le> exact (p_AmountExact p)"
  defines "released \<equiv> the_ok (AccDecimal None) (acc_MulDiv (opt0 (p_CostBasisExact p)) (fc_Quantity c) (opt0 (p_AmountExact p)))"
  defines "p' \<equiv> sell_update env c (acc_Sub (gross_of c) released) released
                  (acc_Sub (opt0 (p_AmountExact p)) (fc_Quantity c)) p"
  shows "position_ok (position_row p')" "p_Symbol p' = fc_Symbol c" "p_ID p' = p_ID p"
    "exact (p_AmountExact p') = exact (p_AmountExact p) - acc_integer (fc_Quantity c)"
    "exact (p_CostBasisExact p') = exact (p_CostBasisExact p) - acc_integer released"
    "exact (p_FeesExact p') = exact (p_FeesExact p) + acc_integer (fc_Fee c)"
    "exact (p_RealizedPnLExact p') = exact (p_RealizedPnLExact p)
       + (acc_integer (gross_of c) - acc_integer released - acc_integer (fc_Fee c))"
    "acc_integer released = roundQuotient (exact (p_CostBasisExact p) * acc_integer (fc_Quantity c)) (exact (p_AmountExact p))"
    "0 \<le> acc_integer released" "acc_integer released \<le> exact (p_CostBasisExact p)"
proof -
  let ?b = "exact (p_CostBasisExact p)" and ?q = "acc_integer (fc_Quantity c)" and ?a = "exact (p_AmountExact p)"
  have q: "0 < ?q" "0 < ?a" "0 \<le> ?b" using c p amount by (auto simp: fill_valid_def position_ok_def)
  show rel: "acc_integer released = roundQuotient (?b * ?q) ?a"
    using q by (simp add: released_def acc_MulDiv_ok)
  show bounds: "0 \<le> acc_integer released" "acc_integer released \<le> ?b"
    using accounting.rdiv_share [of ?b ?q ?a] q amount by (simp_all add: rel)
  have whole: "acc_integer released = ?b" if "?a = ?q"
    using accounting.rdiv_exact [of ?a ?b] q that by (simp add: rel mult.commute)
  show cols: "exact (p_AmountExact p') = ?a - ?q" "exact (p_CostBasisExact p') = ?b - acc_integer released"
    "exact (p_FeesExact p') = exact (p_FeesExact p) + acc_integer (fc_Fee c)"
    "exact (p_RealizedPnLExact p') = exact (p_RealizedPnLExact p)
       + (acc_integer (gross_of c) - acc_integer released - acc_integer (fc_Fee c))"
    "p_ID p' = p_ID p" "p_Symbol p' = fc_Symbol c"
    using p(2) by (simp_all add: p'_def sell_update_def Let_def)
  have "p_AmountExact p' = Some (acc_Sub (opt0 (p_AmountExact p)) (fc_Quantity c))" "p_AccountID p' = p_AccountID p"
    "p_Status p' \<noteq> ''open'' \<Longrightarrow> ?a = ?q"
    using p(3) by (auto simp: p'_def sell_update_def Let_def sgn_0_0 split: if_splits)
  then show "position_ok (position_row p')"
    using p(1) amount bounds whole cols(1,2) by (auto simp: position_ok_def)
qed

text \<open>Saving a loaded row, inserting a fresh one.\<close>

lemma position_saved:
  assumes ok: "positions_ok n rows" and p: "p \<in> set rows" "p_ID p' = p_ID p" "p_Symbol p' = p_Symbol p"
    and p': "position_ok (position_row p')"
  shows "positions_ok n (replace_row p_ID (position_row p') rows)"
    and "moved rows (replace_row p_ID (position_row p') rows) (p_Symbol p)
      (exact (p_AmountExact p') - exact (p_AmountExact p)) (exact (p_CostBasisExact p') - exact (p_CostBasisExact p))
      (exact (p_FeesExact p') - exact (p_FeesExact p)) (exact (p_RealizedPnLExact p') - exact (p_RealizedPnLExact p))"
proof -
  show "positions_ok n (replace_row p_ID (position_row p') rows)"
    by (rule positions_ok_replace [OF ok p(1)]) (use p p' in simp_all)
  have "distinct (map p_ID rows)" using ok by (simp add: positions_ok_def)
  then show "moved rows (replace_row p_ID (position_row p') rows) (p_Symbol p)
      (exact (p_AmountExact p') - exact (p_AmountExact p)) (exact (p_CostBasisExact p') - exact (p_CostBasisExact p))
      (exact (p_FeesExact p') - exact (p_FeesExact p)) (exact (p_RealizedPnLExact p') - exact (p_RealizedPnLExact p))"
    using p by (simp add: moved_def col_sum_replace)
qed

lemma position_created:
  assumes "create_position env p st = Inr (row, st')" and "positions_ok (st_next_position st) (st_positions st)"
    and "position_ok (position_row p)"
  obtains rows where "st' = st\<lparr>st_positions := rows, st_next_position := Suc (st_next_position st)\<rparr>"
    "positions_ok (Suc (st_next_position st)) rows"
    "moved (st_positions st) rows (p_Symbol p) (exact (p_AmountExact p)) (exact (p_CostBasisExact p))
       (exact (p_FeesExact p)) (exact (p_RealizedPnLExact p))"
proof (rule that)
  define new where "new = position_row (p\<lparr>p_ID := st_next_position st, p_ExecutionMode := with_default (p_ExecutionMode p) ''paper'',
      p_EntrySource := with_default (p_EntrySource p) ''manual'',
      p_DecisionTimeframe := with_default (p_DecisionTimeframe p) ''15m''\<rparr>)"
  show "st' = st\<lparr>st_positions := st_positions st @ [new], st_next_position := Suc (st_next_position st)\<rparr>"
    using assms(1) by (auto simp: create_position_def Let_def result_simps new_def)
  have "p_Symbol p \<notin> p_Symbol ` set (st_positions st)"
    using assms(1) by (auto simp: create_position_def Let_def result_simps split: if_splits)
  moreover have "position_ok new" "p_Symbol new = p_Symbol p" "p_ID new = st_next_position st"
    using assms(3) by (simp_all add: new_def position_ok_def)
  ultimately show "positions_ok (Suc (st_next_position st)) (st_positions st @ [new])"
    using assms(2) by (auto simp: positions_ok_def)
  show "moved (st_positions st) (st_positions st @ [new]) (p_Symbol p) (exact (p_AmountExact p))
      (exact (p_CostBasisExact p)) (exact (p_FeesExact p)) (exact (p_RealizedPnLExact p))"
    by (simp add: moved_def new_def)
qed

section \<open>The effect of a fill on the positions\<close>

definition fill_moves :: "FillCommand \<Rightarrow> acc_decimal \<Rightarrow> acc_decimal \<Rightarrow> Position list \<Rightarrow> Position list \<Rightarrow> bool" where
  "fill_moves c realized basisDelta rows rows' \<longleftrightarrow>
     moved rows rows' (fc_Symbol c)
       (if fc_Side c = ''buy'' then acc_integer (fc_Quantity c) else - acc_integer (fc_Quantity c))
       (acc_integer basisDelta) (acc_integer (fc_Fee c)) (acc_integer realized - acc_integer (fc_Fee c))
     \<and> acc_integer (cash_delta c (gross_of c)) + acc_integer basisDelta = acc_integer realized
     \<and> acc_integer basisDelta =
         (if fc_Side c = ''buy'' then acc_integer (gross_of c)
          else - roundQuotient (col_sum p_CostBasisExact (fc_Symbol c) rows * acc_integer (fc_Quantity c))
                   (col_sum p_AmountExact (fc_Symbol c) rows))"

text \<open>There is one position per symbol, so a column's sum for its symbol is the position's value.\<close>

lemma col_sum_single:
  assumes "distinct (map p_Symbol rows)" and "p \<in> set rows"
  shows "col_sum col (p_Symbol p) rows = exact (col p)"
  using assms
proof (induction rows)
  case (Cons r rows)
  have none: "col_sum col s rows = 0" if "s \<notin> p_Symbol ` set rows" for s
    using that by (induction rows) auto
  show ?case
  proof (cases "p = r")
    case True
    then show ?thesis using none Cons.prems by simp
  next
    case False
    then have "p_Symbol r \<noteq> p_Symbol p" using Cons.prems by (auto simp: image_iff)
    then show ?thesis using Cons False by simp
  qed
qed simp

definition loaded :: "FillCommand \<Rightarrow> Position list \<Rightarrow> Position option \<Rightarrow> bool" where
  "loaded c rows found \<longleftrightarrow>
     (\<forall>p. found = Some p \<longrightarrow> p \<in> set rows \<and> p_Symbol p = fc_Symbol c \<and> position_ok p \<and> 0 < p_ID p)"

lemma applyBuy_effect:
  assumes pos: "positions_ok (st_next_position st) (st_positions st)" and c: "fill_valid c" "fc_Side c = ''buy''"
    and found: "loaded c (st_positions st) found"
    and run: "applyBuy env c (gross_of c) found st = Inr ((position, realized, basisDelta), st')"
  obtains rows n where "st' = st\<lparr>st_positions := rows, st_next_position := n\<rparr>" "positions_ok n rows"
    "fill_moves c realized basisDelta (st_positions st) rows"
proof -
  obtain base where base: "buy_base c found = Inr base" using run by (auto simp: applyBuy_def and_then_eq_Inr)
  define p' where "p' = buy_update env c (gross_of c) (case found of None \<Rightarrow> True | Some p \<Rightarrow> p_Status p \<noteq> ''open'') base"
  have new: "position_ok (position_row p')" "p_Symbol p' = fc_Symbol c"
    "p_ID p' = (case found of None \<Rightarrow> 0 | Some p \<Rightarrow> p_ID p)"
    "exact (p_AmountExact p') = prior p_AmountExact found + acc_integer (fc_Quantity c)"
    "exact (p_CostBasisExact p') = prior p_CostBasisExact found + acc_integer (gross_of c)"
    "exact (p_FeesExact p') = prior p_FeesExact found + acc_integer (fc_Fee c)"
    "exact (p_RealizedPnLExact p') = prior p_RealizedPnLExact found - acc_integer (fc_Fee c)"
    unfolding p'_def by (rule buy_position [OF c(1) base]; use found in \<open>simp add: loaded_def\<close>)+
  show thesis
  proof (cases found)
    case None
    then have fresh: "p' = buy_update env c (gross_of c) True base" by (simp add: p'_def)
    have "create_position env p' st = Inr (position, st')" and out: "realized = acc_Zero" "basisDelta = gross_of c"
      using run base new(3) None by (auto simp: applyBuy_def Let_def fresh [symmetric] and_then_eq_Inr)
    from position_created [OF this(1) pos new(1)] obtain rows where
      rows: "st' = st\<lparr>st_positions := rows, st_next_position := Suc (st_next_position st)\<rparr>"
        "positions_ok (Suc (st_next_position st)) rows"
        "moved (st_positions st) rows (p_Symbol p') (exact (p_AmountExact p')) (exact (p_CostBasisExact p'))
           (exact (p_FeesExact p')) (exact (p_RealizedPnLExact p'))" .
    then show thesis
      using new None out c(2) by (intro that [OF rows(1,2)]) (simp add: fill_moves_def prior_def cash_delta_def)
  next
    case (Some p)
    then have p: "p \<in> set (st_positions st)" "p_Symbol p = fc_Symbol c" "0 < p_ID p" using found by (auto simp: loaded_def)
    have again: "p' = buy_update env c (gross_of c) (p_Status p \<noteq> ''open'') base" using Some by (simp add: p'_def)
    have st': "st' = st\<lparr>st_positions := replace_row p_ID (position_row p') (st_positions st),
                             st_next_position := st_next_position st\<rparr>"
      and out: "realized = acc_Zero" "basisDelta = gross_of c"
      using run base new(3) Some p(3)
      by (auto simp: applyBuy_def Let_def again [symmetric] save_position_def result_simps)
    have "p_ID p' = p_ID p" "p_Symbol p' = p_Symbol p" using new(2,3) Some p by simp_all
    note saved = position_saved [OF pos p(1) this new(1)]
    show thesis
      using saved(2) new(2,4-7) Some out c(2) p
      by (intro that [OF st' saved(1)]) (simp add: fill_moves_def prior_def cash_delta_def)
  qed
qed

lemma applySell_effect:
  assumes pos: "positions_ok (st_next_position st) (st_positions st)" and c: "fill_valid c" "fc_Side c \<noteq> ''buy''"
    and found: "loaded c (st_positions st) found"
    and run: "applySell env c (gross_of c) found st = Inr ((position, realized, basisDelta), st')"
  obtains rows n where "st' = st\<lparr>st_positions := rows, st_next_position := n\<rparr>" "positions_ok n rows"
    "fill_moves c realized basisDelta (st_positions st) rows"
proof -
  obtain p where p: "found = Some p" using run by (auto simp: applySell_def split: option.splits)
  define released where
    "released = the_ok (AccDecimal None) (acc_MulDiv (opt0 (p_CostBasisExact p)) (fc_Quantity c) (opt0 (p_AmountExact p)))"
  define p' where "p' = sell_update env c (acc_Sub (gross_of c) released) released
                (acc_Sub (opt0 (p_AmountExact p)) (fc_Quantity c)) p"
  have row: "p \<in> set (st_positions st)" "p_Symbol p = fc_Symbol c" "position_ok p"
    using found p by (auto simp: loaded_def)
  have sold: "p_Status p = ''open''" "acc_integer (fc_Quantity c) \<le> exact (p_AmountExact p)"
    and st': "st' = st\<lparr>st_positions := replace_row p_ID (position_row p') (st_positions st),
                       st_next_position := st_next_position st\<rparr>"
    and out: "realized = acc_Sub (gross_of c) released" "basisDelta = acc_Neg released"
    using run p
    by (auto simp: applySell_def Let_def save_position_def result_simps released_def [symmetric] p'_def [symmetric]
             split: if_splits)
  note new = sell_position(1-7) [OF c(1) row(3,2) sold, of env, folded released_def, folded p'_def]
  note rel = sell_position(8) [OF c(1) row(3,2) sold, folded released_def]
  have "p_Symbol p' = p_Symbol p" using new(2) row(2) by simp
  note saved = position_saved [OF pos row(1) new(3) this new(1)]
  have "distinct (map p_Symbol (st_positions st))" using pos by (simp add: positions_ok_def)
  note single = col_sum_single [OF this row(1), unfolded row(2)]
  show thesis
    using saved(2) new(4-7) out c(2) row(2) rel
    by (intro that [OF st' saved(1)]) (simp add: fill_moves_def cash_delta_def single algebra_simps)
qed

lemma applyPosition_effect:
  assumes pos: "positions_ok (st_next_position st) (st_positions st)" and c: "fill_valid c"
    and run: "applyPosition env c (gross_of c) st = Inr ((position, realized, basisDelta), st')"
  obtains rows n where "st' = st\<lparr>st_positions := rows, st_next_position := n\<rparr>" "positions_ok n rows"
    "fill_moves c realized basisDelta (st_positions st) rows"
proof -
  obtain found where found: "found = find (\<lambda>p. p_AccountID p = fc_AccountID c \<and> p_Symbol p = fc_Symbol c)
      (sort_key p_ID (st_positions st))"
    and rest: "(if fc_Side c = ''buy'' then applyBuy env c (gross_of c) found st
                else applySell env c (gross_of c) found st) = Inr ((position, realized, basisDelta), st')"
    using run unfolding applyPosition_def by (auto simp only: and_then_eq_Inr dest!: db_first_Inr)
  have "loaded c (st_positions st) found"
    using find_Some_in [of _ "sort_key p_ID (st_positions st)"] found pos by (auto simp: loaded_def positions_ok_def)
  with rest show thesis
    using applyBuy_effect [OF pos c] applySell_effect [OF pos c] that by (metis (full_types))
qed

section \<open>The effect of a fill on the store\<close>

lemma update_order_ID: "update_order env c g r = Inr r' \<Longrightarrow> o_ID r' = o_ID r"
  unfolding update_order_def Let_def by (auto split: prod.splits if_splits)

lemma upsertFilledOrder_effect:
  assumes ok: "orders_ok (st_next_order st) (st_orders st)" and run: "upsertFilledOrder env c g st = Inr (r, st')"
  obtains rows n where "st' = st\<lparr>st_orders := rows, st_next_order := n\<rparr>" "orders_ok n rows"
proof -
  obtain r0 r1 where r0: "base_order env c st = Inr r0" and r1: "update_order env c g r0 = Inr r1"
    and rest: "(if o_ID r1 = 0 then create_order env r1 st
                else and_then (save_order env r1 st) (\<lambda>st'. Inr (r1, st'))) = Inr (r, st')"
    using run unfolding upsertFilledOrder_def by (auto simp only: and_then_eq_Inr)
  show thesis
  proof (cases "o_ID r1 = 0")
    case True
    then have "create_order env r1 st = Inr (r, st')" using rest by simp
    then obtain row where st': "st' = st\<lparr>st_orders := st_orders st @ [row], st_next_order := Suc (st_next_order st)\<rparr>"
      and row: "o_ID row = st_next_order st"
      unfolding create_order_def by (auto simp: Let_def result_simps)
    show thesis by (rule that [OF st']) (use ok row in \<open>auto simp: orders_ok_def\<close>)
  next
    case False
    then have "0 < fc_ExistingOrderID c" using r0 update_order_ID [OF r1]
      by (auto simp: base_order_def zero_Order_def split: if_splits)
    then have "r0 \<in> set (st_orders st)"
      using r0 by (auto simp: base_order_def and_then_eq_Inr dest: db_require_Inr split: if_splits)
    then have "o_ID r1 \<in> o_ID ` set (st_orders st)" using update_order_ID [OF r1] by simp
    moreover have "st' = st\<lparr>st_orders := replace_row o_ID r1 (st_orders st), st_next_order := st_next_order st\<rparr>"
      using rest False by (auto simp: save_order_def result_simps)
    ultimately show thesis using orders_ok_replace [OF ok] that by blast
  qed
qed

lemma save_wallet_effect:
  assumes "cash_ok st" and "first_wallet env st = Inr w"
    and "save_wallet env (w\<lparr>w_BalanceExact := b, w_Balance := x\<rparr>) st' = Inr (row, st'')"
    and "st_wallets st' = st_wallets st"
  shows "st'' = st'\<lparr>st_wallets := [row]\<rparr>" "w_AccountID row = DefaultAccountID" "w_BalanceExact row = b"
    "w_Currency row = w_Currency w" "exact (w_BalanceExact w) = cash_sum (st_events st)"
  using assms first_wallet_ok [OF assms(1,2)]
  by (auto simp: cash_ok_def save_wallet_def Let_def result_simps)

lemma create_events_Inr:
  "create_events env es st = Inr (rows, st') \<Longrightarrow>
   rows = map event_defaults es \<and> st' = st\<lparr>st_events := st_events st @ map event_defaults es\<rparr>"
  by (auto simp: create_events_def Let_def result_simps)

lemma create_event_Inr:
  "create_event env e st = Inr (row, st') \<Longrightarrow>
   row = event_defaults e \<and> st' = st\<lparr>st_events := st_events st @ [event_defaults e]\<rparr>"
  by (auto simp: create_event_def and_then_eq_Inr dest!: create_events_Inr)

lemma event_ok_defaults [simp]: "event_ok (event_defaults e) = event_ok e"
  by (simp add: event_ok_def)

text \<open>The events of a fill post exactly what the fill moves.\<close>

abbreviation events_of ::
  "ledger_env \<Rightarrow> FillCommand \<Rightarrow> acc_decimal \<Rightarrow> acc_decimal \<Rightarrow> string \<Rightarrow> time \<Rightarrow> Order \<Rightarrow> Position \<Rightarrow> LedgerEvent list" where
  "events_of env c realized basisDelta md rec order position \<equiv>
     fill_events env c (cash_delta c (gross_of c)) (asset_delta c) realized basisDelta md rec order position"

lemma fill_events_post:
  assumes "fill_valid c"
  shows "posts (map event_defaults (events_of env c realized basisDelta md rec order position)) (fc_Symbol c)
      (if fc_Side c = ''buy'' then acc_integer (fc_Quantity c) else - acc_integer (fc_Quantity c))
      (acc_integer basisDelta) (acc_integer (fc_Fee c)) (acc_integer realized - acc_integer (fc_Fee c))"
    and "cash_sum (map event_defaults (events_of env c realized basisDelta md rec order position))
      = acc_integer (cash_delta c (gross_of c)) - acc_integer (fc_Fee c)"
    and "\<forall>e \<in> set (events_of env c realized basisDelta md rec order position). event_ok e \<and> e_FillID e \<noteq> None"
  using assms
  by (auto simp: fill_events_def fill_event_def fee_event_def posts_def fill_valid_def event_ok_def sgn_if asset_delta_def)

lemma post_fill_shape:
  assumes inv: "ledger_inv st" and c: "fill_valid c" and run: "post_fill env c md rec st = Inr (res, st')"
  obtains w row position realized basisDelta order rows n orders m fills
  where "st_wallets st = [w]" "equal_fold (w_Currency w) (fc_Currency c)"
    "st' = st\<lparr>st_wallets := [row], st_positions := rows, st_next_position := n, st_orders := orders,
             st_next_order := m, st_fills := fills,
             st_events := st_events st @ map event_defaults (events_of env c realized basisDelta md rec order position)\<rparr>"
    "w_AccountID row = DefaultAccountID" "w_Currency row = w_Currency w" "0 \<le> exact (w_BalanceExact row)"
    "exact (w_BalanceExact row) = cash_sum (st_events st')" "positions_ok n rows" "orders_ok m orders"
    "fill_moves c realized basisDelta (st_positions st) rows"
proof -
  obtain w where w: "first_wallet env st = Inr w" using run by (auto simp: post_fill_def and_then_eq_Inr)
  define cash where "cash = acc_Sub (acc_Add (opt0 (w_BalanceExact w)) (cash_delta c (gross_of c))) (fc_Fee c)"
  have pos: "0 \<le> acc_integer cash" and cur: "equal_fold (w_Currency w) (fc_Currency c)"
    and written: "write_fill env c md rec w (gross_of c) cash st = Inr (res, st')"
    using run w by (auto simp: post_fill_def Let_def cash_def sgn_if split: if_splits)
  obtain position realized basisDelta st1 row st2 order st3 fill st4 es where
    1: "applyPosition env c (gross_of c) st = Inr ((position, realized, basisDelta), st1)"
    and 2: "save_wallet env (w\<lparr>w_BalanceExact := Some cash, w_Balance := acc_Float64 env cash\<rparr>) st1 = Inr (row, st2)"
    and 3: "upsertFilledOrder env c (gross_of c) st2 = Inr (order, st3)"
    and 4: "create_fill env (fill_row env c (gross_of c) rec order position) st3 = Inr (fill, st4)"
    and 5: "create_events env (events_of env c realized basisDelta md rec order position) st4 = Inr (es, st')"
    using written unfolding write_fill_def by (auto simp: and_then_eq_Inr)
  have ok: "cash_ok st" "positions_ok (st_next_position st) (st_positions st)" "orders_ok (st_next_order st) (st_orders st)"
    using inv by (simp_all add: ledger_inv_def)
  from applyPosition_effect [OF ok(2) c 1] obtain rows n where
    p: "st1 = st\<lparr>st_positions := rows, st_next_position := n\<rparr>" "positions_ok n rows"
      "fill_moves c realized basisDelta (st_positions st) rows" .
  have "st_wallets st1 = st_wallets st" using p(1) by simp
  note wal = save_wallet_effect [OF ok(1) w 2 this]
  have "orders_ok (st_next_order st2) (st_orders st2)" using ok(3) wal(1) p(1) by simp
  from upsertFilledOrder_effect [OF this 3] obtain orders m where
    o': "st3 = st2\<lparr>st_orders := orders, st_next_order := m\<rparr>" "orders_ok m orders" .
  from 4 obtain fills where f: "st4 = st3\<lparr>st_fills := fills\<rparr>"
    by (auto simp: create_fill_def Let_def result_simps)
  have st': "st' = st\<lparr>st_wallets := [row], st_positions := rows, st_next_position := n, st_orders := orders,
             st_next_order := m, st_fills := fills,
             st_events := st_events st @ map event_defaults (events_of env c realized basisDelta md rec order position)\<rparr>"
    using 5 f o'(1) wal(1) p(1) by (auto dest!: create_events_Inr)
  have "exact (w_BalanceExact row) = cash_sum (st_events st')"
    using wal(3,5) fill_events_post(2) [OF c, of env realized basisDelta md rec order position]
    by (simp add: st' cash_def)
  then show thesis
    using that [OF first_wallet_ok [OF ok(1) w] cur st' wal(2,4) _ _ p(2) o'(2) p(3)] pos wal(3) by simp
qed

lemma post_fill_inv:
  assumes inv: "ledger_inv st" and c: "fill_valid c" and run: "post_fill env c md rec st = Inr (res, st')"
  shows "ledger_inv st'"
proof -
  from post_fill_shape [OF assms] obtain w row position realized basisDelta order rows n orders m fills where
    st': "st' = st\<lparr>st_wallets := [row], st_positions := rows, st_next_position := n, st_orders := orders,
             st_next_order := m, st_fills := fills,
             st_events := st_events st @ map event_defaults (events_of env c realized basisDelta md rec order position)\<rparr>"
    and wal: "w_AccountID row = DefaultAccountID" "0 \<le> exact (w_BalanceExact row)"
      "exact (w_BalanceExact row) = cash_sum (st_events st')"
    and ok: "positions_ok n rows" "orders_ok m orders" and moves: "fill_moves c realized basisDelta (st_positions st) rows" .
  note post = fill_events_post [OF c, of env realized basisDelta md rec order position]
  have "symbols_ok rows (st_events st @ map event_defaults (events_of env c realized basisDelta md rec order position))"
    by (rule symbols_ok_step [OF _ moves [unfolded fill_moves_def, THEN conjunct1] post(1)]) (use inv in \<open>simp add: ledger_inv_def\<close>)
  moreover have "cash_ok st'" using wal by (simp add: cash_ok_def st')
  ultimately show ?thesis
    using inv ok post(3) by (auto simp: ledger_inv_def st')
qed

section \<open>Claiming a batch\<close>

definition claimed :: "string \<Rightarrow> store \<Rightarrow> bool" where
  "claimed key st \<longleftrightarrow> key \<in> b_ID ` set (st_batches st)"

text \<open>An account whose migration state is ready stays ready, and no wallet and no state row comes or goes.\<close>

definition is_ready :: "string \<Rightarrow> store \<Rightarrow> bool" where
  "is_ready a st \<longleftrightarrow> (\<exists>m \<in> set (st_states st). ms_AccountID m = a \<and> ms_Status m = ''ready'')"

definition accounts_kept :: "store \<Rightarrow> store \<Rightarrow> bool" where
  "accounts_kept st st' \<longleftrightarrow> map w_ID (st_wallets st') = map w_ID (st_wallets st)
     \<and> map ms_AccountID (st_states st') = map ms_AccountID (st_states st)
     \<and> (\<forall>a. is_ready a st \<longrightarrow> is_ready a st')"

lemma accounts_kept_same [simp]:
  "st_states st' = st_states st \<Longrightarrow> map w_ID (st_wallets st') = map w_ID (st_wallets st) \<Longrightarrow> accounts_kept st st'"
  by (simp add: accounts_kept_def is_ready_def)

lemma accounts_kept_trans: "accounts_kept st st1 \<Longrightarrow> accounts_kept st1 st2 \<Longrightarrow> accounts_kept st st2"
  by (simp add: accounts_kept_def)

lemma settle_state_kept:
  assumes "settle_state env account state st = Inr st'" and "state \<in> set (st_states st)"
  shows "accounts_kept st st'"
proof (cases "st' = st")
  case False
  obtain m where m: "save_state env m st = Inr st'" "ms_AccountID m = ms_AccountID state" "ms_Status m = ''ready''"
    using assms(1) False by (auto simp: settle_state_def and_then_eq_Inr split: if_splits)
  then have st': "st_states st' = replace_row ms_AccountID
      (m\<lparr>ms_UpdatedAt := env_now env ''save'' ''ledger_migration_states''\<rparr>) (st_states st)"
    "st_wallets st' = st_wallets st"
    by (simp_all add: save_state_def Let_def result_simps)
  have found: "\<exists>x \<in> set (replace_row ms_AccountID row rows). ms_AccountID x = a \<and> ms_Status x = ''ready''"
    if "ms_Status row = ''ready''" "y \<in> set rows" "ms_AccountID y = a" "ms_Status y = ''ready''" for row rows y a
    using that by (cases "a = ms_AccountID row") (auto simp: replace_row_def image_iff intro: bexI [of _ y])
  show ?thesis
    unfolding accounts_kept_def is_ready_def st'
  proof (intro conjI allI impI)
    fix a assume "\<exists>m \<in> set (st_states st). ms_AccountID m = a \<and> ms_Status m = ''ready''"
    then show "\<exists>m \<in> set (replace_row ms_AccountID (m\<lparr>ms_UpdatedAt := env_now env ''save'' ''ledger_migration_states''\<rparr>)
        (st_states st)). ms_AccountID m = a \<and> ms_Status m = ''ready''"
      by (elim bexE conjE) (rule found, simp add: m(3), assumption+)
  qed simp_all
qed simp

text \<open>What the posting part of an operation does to the rest of the store.\<close>

definition extends :: "store \<Rightarrow> store \<Rightarrow> bool" where
  "extends st st' \<longleftrightarrow> st_batches st' = st_batches st \<and> st_ingestions st' = st_ingestions st
     \<and> (\<exists>es. st_events st' = st_events st @ es) \<and> accounts_kept st st'"

lemma beginBatch_claimed:
  assumes "claimed key st" and "beginBatch env key account h t st = Inr (already, st')"
  shows "already" "st' = st"
proof -
  obtain r where r: "db_first env ''ledger_batches'' b_ID (\<lambda>b. b_ID b = key) (st_batches st) st = Inr r"
    using assms(2) by (auto simp: beginBatch_def and_then_eq_Inr)
  have "r \<noteq> None"
    using assms(1) db_first_Inr [OF r] by (auto simp: claimed_def find_None_iff)
  then show "already" "st' = st" using assms(2) r by (auto simp: beginBatch_def split: if_splits)
qed

lemma beginBatch_effect:
  assumes "beginBatch env key account h t st = Inr (already, st')"
  shows "already \<Longrightarrow> st' = st \<and> claimed key st"
    and "\<not> already \<Longrightarrow> st' = st\<lparr>st_batches := st_batches st @
      [\<lparr>b_ID = key, b_AccountID = account, b_PayloadHash = h, b_CreatedAt = t\<rparr>]\<rparr>"
proof -
  obtain r where r: "db_first env ''ledger_batches'' b_ID (\<lambda>b. b_ID b = key) (st_batches st) st = Inr r"
    using assms by (auto simp: beginBatch_def and_then_eq_Inr)
  have "claimed key st" if "r = Some b" for b
    using find_Some_in [of _ "sort_key b_ID (st_batches st)" b] db_first_Inr [OF r] that by (auto simp: claimed_def)
  then show "already \<Longrightarrow> st' = st \<and> claimed key st"
    and "\<not> already \<Longrightarrow> st' = st\<lparr>st_batches := st_batches st @
      [\<lparr>b_ID = key, b_AccountID = account, b_PayloadHash = h, b_CreatedAt = t\<rparr>]\<rparr>"
    using assms r by (auto simp: beginBatch_def create_batch_def result_simps split: option.splits if_splits)
qed

lemma claim_once:
  assumes "claimed key st" and "claim_or_replay env key account h t replay post st = Inr (r, st')"
  shows "st' = st"
proof -
  obtain already st0 where b: "beginBatch env key account h t st = Inr (already, st0)"
    and rest: "(if already then and_then (replay st0) (\<lambda>r. Inr (r, st0)) else post st0) = Inr (r, st')"
    using assms(2) by (auto simp: claim_or_replay_def and_then_eq_Inr)
  then show ?thesis using beginBatch_claimed [OF assms(1) b] by (auto simp: and_then_eq_Inr)
qed

lemma claim_conflict:
  assumes "find (\<lambda>b. b_ID b = key) (sort_key b_ID (st_batches st)) = Some b" and "b_PayloadHash b \<noteq> h"
  shows "\<not> (\<exists>r. claim_or_replay env key account h t replay post st = Inr r)"
  using assms by (auto simp: claim_or_replay_def beginBatch_def db_first_def result_simps)

text \<open>A batch that goes through either was there and changes nothing, or is new and is posted.\<close>

lemma claim_cases:
  assumes "claim_or_replay env key account h t replay post st = Inr (r, st')"
  obtains (replayed) "st' = st" "claimed key st" "replay st = Inr r"
  | (posted) st0 where "post st0 = Inr (r, st')" "claimed key st0"
      "st0 = st\<lparr>st_batches := st_batches st @ [\<lparr>b_ID = key, b_AccountID = account, b_PayloadHash = h, b_CreatedAt = t\<rparr>]\<rparr>"
proof -
  obtain already st0 where b: "beginBatch env key account h t st = Inr (already, st0)"
    and rest: "(if already then and_then (replay st0) (\<lambda>r. Inr (r, st0)) else post st0) = Inr (r, st')"
    using assms by (auto simp: claim_or_replay_def and_then_eq_Inr)
  show thesis
  proof (cases already)
    case True
    with beginBatch_effect(1) [OF b] rest show thesis by (intro replayed) (auto simp: and_then_eq_Inr)
  next
    case False
    note st0 = beginBatch_effect(2) [OF b False]
    show thesis by (rule posted [OF _ _ st0]) (use rest False in \<open>simp_all add: st0 claimed_def\<close>)
  qed
qed

lemma claim_extends:
  assumes "claim_or_replay env key account h t replay post st = Inr (r, st')"
    and "\<And>st0. post st0 = Inr (r, st') \<Longrightarrow> extends st0 st'"
  shows "claimed key st'" "\<exists>es. st_events st' = st_events st @ es"
    "\<exists>bs. st_batches st' = st_batches st @ bs" "st_ingestions st' = st_ingestions st" "accounts_kept st st'"
proof -
  have "claimed key st' \<and> (\<exists>es. st_events st' = st_events st @ es) \<and> (\<exists>bs. st_batches st' = st_batches st @ bs)
      \<and> st_ingestions st' = st_ingestions st \<and> accounts_kept st st'"
    using assms(1)
  proof (cases rule: claim_cases)
    case (posted st0)
    note ext = assms(2) [OF posted(1)]
    have "accounts_kept st st0" by (simp add: posted(3))
    moreover have "accounts_kept st0 st'" using ext by (simp only: extends_def)
    ultimately have "accounts_kept st st'" by (rule accounts_kept_trans)
    with ext show ?thesis by (auto simp: extends_def claimed_def posted(3))
  qed simp
  then show "claimed key st'" "\<exists>es. st_events st' = st_events st @ es" "\<exists>bs. st_batches st' = st_batches st @ bs"
    "st_ingestions st' = st_ingestions st" "accounts_kept st st'" by blast+
qed

lemma claim_inv:
  assumes "claim_or_replay env key account h t replay post st = Inr (r, st')" and "ledger_inv st"
    and "\<And>st0. ledger_inv st0 \<Longrightarrow> st_events st0 = st_events st \<Longrightarrow> post st0 = Inr (r, st') \<Longrightarrow> ledger_inv st'"
  shows "ledger_inv st'"
  using assms(1)
proof (cases rule: claim_cases)
  case (posted st0)
  have "ledger_inv st0" "st_events st0 = st_events st" using assms(2) posted(3) by (simp_all add: ledger_inv_def cash_ok_def)
  then show ?thesis using assms(3) posted(1) by blast
qed (use assms(2) in simp)

lemma normalized_simps [simp]:
  "snd (normalized r) = snd r" "(normalized r = (Inr x, st)) \<longleftrightarrow> r = (Inr x, st)"
  "(\<exists>e. normalized r = (Inl e, st)) \<longleftrightarrow> (\<exists>e. r = (Inl e, st))"
  by (auto simp: normalized_def split: prod.splits sum.splits)

lemma normalized_Inl: "normalized r = (Inl e, st) \<Longrightarrow> \<exists>e'. r = (Inl e', st)"
  by (auto simp: normalized_def split: prod.splits sum.splits)

section \<open>Preparation\<close>

lemma prepare_fill_Inr:
  assumes "prepare_fill env c = Inr (c', h, md, rec)"
  shows "fill_valid c'" "fc_IdempotencyKey c' = fc_IdempotencyKey c" "fc_OccurredAt c' \<le> rec"
    "fc_Currency c' = fc_Currency c" "fc_Symbol c' = fc_Symbol c" "fc_Side c' = fc_Side c"
    "fc_Quantity c' = fc_Quantity c" "fc_FillPrice c' = fc_FillPrice c" "fc_Fee c' = fc_Fee c"
proof -
  define c0 where "c0 = c\<lparr>fc_CostModelVersion := with_default (fc_CostModelVersion c) ''legacy-cost-v1''\<rparr>"
  define c1 where "c1 = c0\<lparr>fc_AccountID := with_default (fc_AccountID c0) DefaultAccountID,
      fc_VenueID := with_default (fc_VenueID c0) ''internal'',
      fc_FeeCurrency := with_default (fc_FeeCurrency c0) (fc_Currency c0)\<rparr>"
  have acc: "requirePrimaryAccount (fc_AccountID c) = None" and v: "validateFill c0 = None"
    using assms by (auto simp: prepare_fill_def Let_def c0_def split: option.splits)
  have c': "c' = (if fc_OccurredAt c1 = 0 then c1\<lparr>fc_OccurredAt := env_now env ''occurred_at'' (fc_IdempotencyKey c1)\<rparr> else c1)
      \<and> \<not> rec < fc_OccurredAt c'"
    using assms
    by (simp add: prepare_fill_def Let_def acc v c0_def [symmetric] result_simps) (auto simp: c1_def c0_def)
  have "with_default (fc_AccountID c0) DefaultAccountID = DefaultAccountID"
    using acc by (auto simp: requirePrimaryAccount_def with_default_def c0_def split: if_splits)
  then have "fill_valid c1"
    using v by (auto simp: validateFill_def fill_valid_def c1_def sgn_if split: if_splits)
  then show "fill_valid c'" "fc_IdempotencyKey c' = fc_IdempotencyKey c" "fc_OccurredAt c' \<le> rec"
    "fc_Currency c' = fc_Currency c" "fc_Symbol c' = fc_Symbol c" "fc_Side c' = fc_Side c"
    "fc_Quantity c' = fc_Quantity c" "fc_FillPrice c' = fc_FillPrice c" "fc_Fee c' = fc_Fee c"
    using c' by (auto simp: c1_def c0_def fill_valid_def)
qed

end
