(* ===== verification/Ledger_Ops.thy ===== *)
theory Ledger_Ops
  imports Ledger_Laws
begin

text \<open>
  The contract of everything that writes the ledger (\<open>ledger_writer\<close>): it is atomic, events and batches are only
  appended, and the invariant is preserved; an operation of the service (\<open>ledger_operation\<close>) also claims its
  idempotency key and never posts a claimed key again. \<open>prepared_operation\<close> is the shape the service's operations
  have, from which the contract follows; it is proved for the four of them, and what follows from the
  contract (retries, append-only history) is proved once. The one condition is on reversals: they may close a position whose cost basis is not used up
  (\<open>no_stranded_basis\<close> excludes it).
\<close>

section \<open>The contract\<close>

locale ledger_writer =
  fixes run :: "ledger_env \<Rightarrow> 'c \<Rightarrow> store \<Rightarrow> 'r lresult \<times> store"
    and clean :: "store \<Rightarrow> bool"
  assumes failed: "run env c st = (Inl e, st') \<Longrightarrow> st' = st"
    and appends: "run env c st = (Inr r, st') \<Longrightarrow>
      (\<exists>es. st_events st' = st_events st @ es) \<and> (\<exists>bs. st_batches st' = st_batches st @ bs)
      \<and> (\<exists>bs. st_ingestions st' = st_ingestions st @ bs)"
    and states: "run env c st = (Inr r, st') \<Longrightarrow> accounts_kept st st'"
    and keeps: "run env c st = (Inr r, st') \<Longrightarrow> ledger_inv st \<Longrightarrow> clean st' \<Longrightarrow> ledger_inv st'"
begin

lemma run_cases:
  obtains (error) e where "run env c st = (Inl e, st)" | (success) r st' where "run env c st = (Inr r, st')"
  using failed [of env c st] by (metis surj_pair sum.exhaust)

lemma run_keeps: "ledger_inv st \<Longrightarrow> clean (snd (run env c st)) \<Longrightarrow> ledger_inv (snd (run env c st))"
  by (cases rule: run_cases [of env c st]) (auto dest: keeps)

lemma history:
  "\<exists>es. st_events (snd (run env c st)) = st_events st @ es"
  "\<exists>bs. st_batches (snd (run env c st)) = st_batches st @ bs"
  "\<exists>bs. st_ingestions (snd (run env c st)) = st_ingestions st @ bs"
  by (cases rule: run_cases [of env c st]; auto dest: appends)+

lemma run_states: "accounts_kept st (snd (run env c st))"
  by (cases rule: run_cases [of env c st]) (auto dest: states)

lemma stays_claimed: "claimed k st \<Longrightarrow> claimed k (snd (run env c st))"
  by (cases rule: run_cases [of env c st]) (auto simp: claimed_def dest: appends)

end

text \<open>An operation with an idempotency key claims it, and never posts a claimed key again.\<close>

locale ledger_operation = ledger_writer run clean
  for run :: "ledger_env \<Rightarrow> 'c \<Rightarrow> store \<Rightarrow> 'r lresult \<times> store" and clean :: "store \<Rightarrow> bool" +
  fixes key :: "'c \<Rightarrow> string"
  assumes once: "claimed (key c) st \<Longrightarrow> snd (run env c st) = st"
    and claims: "run env c st = (Inr r, st') \<Longrightarrow> claimed (key c) st'"
begin

text \<open>A retry with the same key changes nothing, whatever else it says.\<close>

lemma retry: "run env c st = (Inr r, st') \<Longrightarrow> key c' = key c \<Longrightarrow> snd (run env' c' st') = st'"
  using claims once by metis

end

lemma transaction_unchanged:
  assumes "\<And>r st'. body st = Inr (r, st') \<Longrightarrow> st' = st"
  shows "snd (transaction env body st) = st"
  using transaction_cases [of env body st] assms by auto

text \<open>The operations have one shape: a prelude that validates, then a body that claims its batch, in a transaction.\<close>

locale prepared_operation =
  fixes prep :: "ledger_env \<Rightarrow> 'c \<Rightarrow> 'p lresult"
    and body :: "ledger_env \<Rightarrow> 'p \<Rightarrow> store \<Rightarrow> ('r \<times> store) lresult"
    and run :: "ledger_env \<Rightarrow> 'c \<Rightarrow> store \<Rightarrow> 'r lresult \<times> store"
    and key :: "'c \<Rightarrow> string"
    and clean :: "store \<Rightarrow> bool"
  assumes runs: "run env c st = (case prep env c of Inl e \<Rightarrow> (Inl e, st)
      | Inr p \<Rightarrow> normalized (transaction env (body env p) st))"
    and body_once: "prep env c = Inr p \<Longrightarrow> body env p st = Inr (r, st') \<Longrightarrow> claimed (key c) st \<Longrightarrow> st' = st"
    and body_succeeds: "prep env c = Inr p \<Longrightarrow> body env p st = Inr (r, st') \<Longrightarrow> claimed (key c) st' \<and>
      (\<exists>es. st_events st' = st_events st @ es) \<and> (\<exists>bs. st_batches st' = st_batches st @ bs)
      \<and> st_ingestions st' = st_ingestions st \<and> accounts_kept st st'"
    and body_keeps: "prep env c = Inr p \<Longrightarrow> body env p st = Inr (r, st') \<Longrightarrow> ledger_inv st \<Longrightarrow> clean st' \<Longrightarrow> ledger_inv st'"
begin

lemma run_Inr: "run env c st = (Inr r, st') \<Longrightarrow> \<exists>p. prep env c = Inr p \<and> body env p st = Inr (r, st')"
  by (auto simp: runs dest: transaction_Inr split: sum.splits)

lemma run_Inl: "run env c st = (Inl e, st') \<Longrightarrow> st' = st"
  by (auto simp: runs dest!: normalized_Inl dest: transaction_atomic split: sum.splits)

lemma run_once: "claimed (key c) st \<Longrightarrow> snd (run env c st) = st"
  by (cases "prep env c") (auto simp: runs intro!: transaction_unchanged dest: body_once)

end

sublocale prepared_operation \<subseteq> ledger_operation run clean key
proof unfold_locales
  fix env c st r st'
  assume "run env c st = (Inr r, st')"
  then obtain p where "prep env c = Inr p" "body env p st = Inr (r, st')" using run_Inr by blast
  then show "(\<exists>es. st_events st' = st_events st @ es) \<and> (\<exists>bs. st_batches st' = st_batches st @ bs)
      \<and> (\<exists>bs. st_ingestions st' = st_ingestions st @ bs)"
    "claimed (key c) st'" "accounts_kept st st'" "ledger_inv st \<Longrightarrow> clean st' \<Longrightarrow> ledger_inv st'"
    using body_succeeds body_keeps by (metis append_Nil2)+
qed (rule run_Inl, assumption, rule run_once)

section \<open>Fills\<close>

lemma fill_body_claim:
  "fill_body env c h md rec st = Inr (r, st') \<Longrightarrow>
   claim_or_replay env (fc_IdempotencyKey c) (fc_AccountID c) h (fc_OccurredAt c)
     (\<lambda>st. and_then (loadFillResult env (fc_IdempotencyKey c) st) (\<lambda>r. Inr (r\<lparr>fr_AlreadyApplied := True\<rparr>)))
     (\<lambda>st. and_then (requireReady env (fc_AccountID c) st) (\<lambda>_. post_fill env c md rec st)) st = Inr (r, st')"
  by (auto simp: fill_body_def and_then_eq_Inr)

lemma post_fill_extends: "post_fill env c md rec st = Inr (r, st') \<Longrightarrow> extends st st'"
proof -
  assume run: "post_fill env c md rec st = Inr (r, st')"
  have pos: "extends st0 st1 \<and> st_events st1 = st_events st0" if "applyPosition env c g st0 = Inr (x, st1)" for g st0 x st1
    using that unfolding applyPosition_def applyBuy_def applySell_def create_position_def save_position_def
    by (auto simp: Let_def result_simps extends_def split: option.splits if_splits)
  have ord: "extends st0 st1" if "upsertFilledOrder env c g st0 = Inr (x, st1)" for g st0 x st1
    using that unfolding upsertFilledOrder_def create_order_def save_order_def
    by (auto simp: Let_def result_simps extends_def split: if_splits)
  have wal: "extends st0 st1" if "save_wallet env w st0 = Inr (x, st1)" for w st0 x st1
    using that by (auto simp: save_wallet_def Let_def result_simps extends_def)
  have fil: "extends st0 st1" if "create_fill env f st0 = Inr (x, st1)" for f st0 x st1
    using that by (auto simp: create_fill_def Let_def result_simps extends_def)
  have eve: "extends st0 st1" if "create_events env es st0 = Inr (x, st1)" for es st0 x st1
    using that by (auto dest!: create_events_Inr simp: extends_def)
  have trans: "extends st0 st1 \<Longrightarrow> extends st1 st2 \<Longrightarrow> extends st0 st2" for st0 st1 st2
    by (auto simp: extends_def intro: accounts_kept_trans)
  obtain w cash where "write_fill env c md rec w (gross_of c) cash st = Inr (r, st')"
    using run by (auto simp: post_fill_def Let_def and_then_eq_Inr split: if_splits)
  then show "extends st st'"
    unfolding write_fill_def and_then_eq_Inr
    by (auto simp: and_then_eq_Inr dest!: pos ord wal fil eve dest: trans)
qed

lemma fill_body_laws:
  assumes "fill_body env c h md rec st = Inr (r, st')"
  shows "claimed (fc_IdempotencyKey c) st'" "\<exists>es. st_events st' = st_events st @ es"
    "\<exists>bs. st_batches st' = st_batches st @ bs" "claimed (fc_IdempotencyKey c) st \<Longrightarrow> st' = st"
    "ledger_inv st \<Longrightarrow> fill_valid c \<Longrightarrow> ledger_inv st'" "st_ingestions st' = st_ingestions st"
    "accounts_kept st st'"
proof -
  note claim = fill_body_claim [OF assms]
  have "extends st0 st'"
    if "and_then (requireReady env (fc_AccountID c) st0) (\<lambda>_. post_fill env c md rec st0) = Inr (r, st')" for st0
    using that post_fill_extends by (auto simp: and_then_eq_Inr)
  from claim_extends [OF claim this]
  show "claimed (fc_IdempotencyKey c) st'" "\<exists>es. st_events st' = st_events st @ es"
    "\<exists>bs. st_batches st' = st_batches st @ bs" "st_ingestions st' = st_ingestions st" "accounts_kept st st'" by blast+
  show "claimed (fc_IdempotencyKey c) st \<Longrightarrow> st' = st" by (rule claim_once [OF _ claim])
  show "ledger_inv st'" if "ledger_inv st" "fill_valid c"
    by (rule claim_inv [OF claim that(1)]) (use that(2) post_fill_inv in \<open>auto simp: and_then_eq_Inr\<close>)
qed

definition fill_prepared :: "ledger_env \<Rightarrow> FillCommand \<times> string \<times> string \<times> time \<Rightarrow> store \<Rightarrow> (FillResult \<times> store) lresult" where
  "fill_prepared env p = (case p of (c, h, md, rec) \<Rightarrow> fill_body env c h md rec)"

interpretation fill: prepared_operation prepare_fill fill_prepared ApplyFill fc_IdempotencyKey "\<lambda>_. True"
proof
  fix env c st and p :: "FillCommand \<times> string \<times> string \<times> time" and r st'
  show "ApplyFill env c st = (case prepare_fill env c of Inl e \<Rightarrow> (Inl e, st)
      | Inr p \<Rightarrow> normalized (transaction env (fill_prepared env p) st))"
    by (simp add: ApplyFill_def ApplyFill_with_def fill_prepared_def split: sum.split prod.split)
  assume "prepare_fill env c = Inr p" "fill_prepared env p st = Inr (r, st')"
  then obtain c' h md rec where prep: "prepare_fill env c = Inr (c', h, md, rec)"
    and run: "fill_body env c' h md rec st = Inr (r, st')"
    by (cases p) (auto simp: fill_prepared_def)
  note laws = fill_body_laws [OF run, unfolded prepare_fill_Inr(2) [OF prep]]
  show "claimed (fc_IdempotencyKey c) st \<Longrightarrow> st' = st"
    "claimed (fc_IdempotencyKey c) st' \<and> (\<exists>es. st_events st' = st_events st @ es) \<and> (\<exists>bs. st_batches st' = st_batches st @ bs)
      \<and> st_ingestions st' = st_ingestions st \<and> accounts_kept st st'"
    "ledger_inv st \<Longrightarrow> ledger_inv st'"
    using laws prepare_fill_Inr(1) [OF prep] by blast+
qed

section \<open>Adjustments\<close>

lemma prepare_adjustment_Inr:
  assumes "prepare_adjustment env c = Inr (c', h, rec)"
  shows "ac_IdempotencyKey c' = ac_IdempotencyKey c" "ac_AccountID c' = DefaultAccountID"
    "ac_OccurredAt c' \<le> rec" "ac_Type c' = EventCapitalDeposit \<or> ac_Type c' = EventCapitalWithdrawal \<longrightarrow>
      0 < acc_integer (ac_Amount c')" "ac_Amount c' = ac_Amount c" "ac_Type c' = ac_Type c"
proof -
  define c0 where "c0 = c\<lparr>ac_AccountID := with_default (ac_AccountID c) DefaultAccountID\<rparr>"
  have acc: "requirePrimaryAccount (ac_AccountID c) = None"
    using assms by (auto simp: prepare_adjustment_def split: option.splits)
  have c': "c' = (if ac_OccurredAt c0 = 0 then c0\<lparr>ac_OccurredAt := env_now env ''occurred_at'' (ac_IdempotencyKey c0)\<rparr> else c0)"
    "\<not> rec < ac_OccurredAt c'" "acc_Sign (ac_Amount c') \<noteq> 0"
    "\<not> ((ac_Type c' = EventCapitalDeposit \<or> ac_Type c' = EventCapitalWithdrawal) \<and> acc_Sign (ac_Amount c') < 0)"
    using assms
    by (simp_all add: prepare_adjustment_def Let_def acc c0_def [symmetric] result_simps del: acc_Sign_eq)
      (auto simp: c0_def)
  show "ac_AccountID c' = DefaultAccountID"
    using acc by (auto simp: c' c0_def requirePrimaryAccount_def with_default_def split: if_splits)
  show "ac_IdempotencyKey c' = ac_IdempotencyKey c" "ac_OccurredAt c' \<le> rec" "ac_Amount c' = ac_Amount c"
    "ac_Type c' = ac_Type c"
    using c'(2) by (auto simp: c'(1) c0_def)
  show "ac_Type c' = EventCapitalDeposit \<or> ac_Type c' = EventCapitalWithdrawal \<longrightarrow> 0 < acc_integer (ac_Amount c')"
    using c'(3,4) by (auto simp: sgn_if split: if_splits)
qed

definition adjustment_delta :: "AdjustmentCommand \<Rightarrow> acc_decimal" where
  "adjustment_delta c = (if ac_Type c = EventCapitalWithdrawal then acc_Neg (ac_Amount c) else ac_Amount c)"

lemma post_adjustment_shape:
  assumes ok: "cash_ok st" and run: "post_adjustment env c rec st = Inr (res, st')"
  obtains w row where "st_wallets st = [w]"
    "st' = st\<lparr>st_wallets := [row], st_events := st_events st @ [event_defaults (adjustment_event env c (adjustment_delta c) rec)]\<rparr>"
    "w_AccountID row = DefaultAccountID" "0 \<le> exact (w_BalanceExact row)"
    "exact (w_BalanceExact row) = cash_sum (st_events st) + acc_integer (adjustment_delta c)"
proof -
  obtain w where w: "first_wallet env st = Inr w" using run by (auto simp: post_adjustment_def and_then_eq_Inr)
  define balance where "balance = acc_Add (opt0 (w_BalanceExact w)) (adjustment_delta c)"
  obtain row st1 ev where pos: "0 \<le> acc_integer balance"
    and 1: "save_wallet env (w\<lparr>w_BalanceExact := Some balance, w_Balance := acc_Float64 env balance\<rparr>) st = Inr (row, st1)"
    and 2: "create_event env (adjustment_event env c (adjustment_delta c) rec) st1 = Inr (ev, st')"
    using run w unfolding post_adjustment_def Let_def adjustment_delta_def [symmetric]
    by (auto simp: and_then_eq_Inr balance_def sgn_if split: if_splits)
  note wal = save_wallet_effect [OF ok w 1 refl]
  show thesis
    by (rule that [OF first_wallet_ok [OF ok w] _ wal(2)])
      (use pos wal(1,3,5) create_event_Inr [OF 2] in \<open>simp_all add: balance_def\<close>)
qed

lemma post_adjustment_inv:
  assumes inv: "ledger_inv st" and c: "ac_AccountID c = DefaultAccountID"
    and run: "post_adjustment env c rec st = Inr (res, st')"
  shows "ledger_inv st'"
proof -
  have "cash_ok st" using inv by (simp add: ledger_inv_def)
  from post_adjustment_shape [OF this run] obtain row where
    st': "st' = st\<lparr>st_wallets := [row], st_events := st_events st @ [event_defaults (adjustment_event env c (adjustment_delta c) rec)]\<rparr>"
    and wal: "w_AccountID row = DefaultAccountID" "0 \<le> exact (w_BalanceExact row)"
      "exact (w_BalanceExact row) = cash_sum (st_events st) + acc_integer (adjustment_delta c)" .
  have ev: "event_ok (adjustment_event env c (adjustment_delta c) rec)"
    "posts [event_defaults (adjustment_event env c (adjustment_delta c) rec)] '''' 0 0 0 0"
    "e_CashDelta (adjustment_event env c (adjustment_delta c) rec) = adjustment_delta c"
    using c by (simp_all add: event_ok_def posts_def adjustment_event_def)
  show ?thesis
    using inv wal ev symbols_ok_step [OF _ moved_refl ev(2)]
    by (auto simp: ledger_inv_def cash_ok_def st')
qed

lemma post_adjustment_extends: "post_adjustment env c rec st = Inr (r, st') \<Longrightarrow> extends st st'"
  by (auto simp: post_adjustment_def Let_def and_then_eq_Inr save_wallet_def result_simps extends_def
      dest!: create_event_Inr split: if_splits)

definition adjustment_prepared ::
  "ledger_env \<Rightarrow> AdjustmentCommand \<times> string \<times> time \<Rightarrow> store \<Rightarrow> (AdjustmentResult \<times> store) lresult" where
  "adjustment_prepared env p = (case p of (c, h, rec) \<Rightarrow> adjustment_body env c h rec)"

interpretation adjustment:
  prepared_operation prepare_adjustment adjustment_prepared ApplyAdjustment ac_IdempotencyKey "\<lambda>_. True"
proof
  fix env c st and p :: "AdjustmentCommand \<times> string \<times> time" and r st'
  show "ApplyAdjustment env c st = (case prepare_adjustment env c of Inl e \<Rightarrow> (Inl e, st)
      | Inr p \<Rightarrow> normalized (transaction env (adjustment_prepared env p) st))"
    by (simp add: ApplyAdjustment_def adjustment_prepared_def split: sum.split prod.split)
  assume "prepare_adjustment env c = Inr p" "adjustment_prepared env p st = Inr (r, st')"
  then obtain c' h rec where prep: "prepare_adjustment env c = Inr (c', h, rec)"
    and run: "adjustment_body env c' h rec st = Inr (r, st')"
    by (cases p) (auto simp: adjustment_prepared_def)
  note c' = prepare_adjustment_Inr [OF prep]
  obtain replay where claim: "claim_or_replay env (ac_IdempotencyKey c) (ac_AccountID c') h (ac_OccurredAt c') replay
      (\<lambda>st. and_then (requireReady env (ac_AccountID c') st) (\<lambda>_. post_adjustment env c' rec st)) st = Inr (r, st')"
    using run c'(1) by (auto simp: adjustment_body_def and_then_eq_Inr)
  have posted: "post_adjustment env c' rec st0 = Inr (r, st')"
    if "and_then (requireReady env (ac_AccountID c') st0) (\<lambda>_. post_adjustment env c' rec st0) = Inr (r, st')" for st0
    using that by (auto simp: and_then_eq_Inr)
  show "claimed (ac_IdempotencyKey c) st \<Longrightarrow> st' = st" by (rule claim_once [OF _ claim])
  show "claimed (ac_IdempotencyKey c) st' \<and> (\<exists>es. st_events st' = st_events st @ es) \<and> (\<exists>bs. st_batches st' = st_batches st @ bs)
      \<and> st_ingestions st' = st_ingestions st \<and> accounts_kept st st'"
    using claim_extends [OF claim] post_adjustment_extends posted by blast
  show "ledger_inv st \<Longrightarrow> ledger_inv st'"
    by (rule claim_inv [OF claim]) (use post_adjustment_inv c'(2) posted in blast)+
qed

section \<open>Reversals\<close>

text \<open>No closed position still carries a cost basis.\<close>

definition no_stranded_basis :: "store \<Rightarrow> bool" where
  "no_stranded_basis st \<longleftrightarrow>
     (\<forall>p \<in> set (st_positions st). p_Status p \<noteq> ''open'' \<longrightarrow> exact (p_CostBasisExact p) = 0)"

definition reversible :: "LedgerEvent \<Rightarrow> bool" where
  "reversible e \<longleftrightarrow> e_FillID e = None \<and> (acc_integer (e_AssetDelta e) \<noteq> 0 \<longrightarrow> e_EventType e = EventAdminCorrection)"

lemma reverse_position_Inr:
  assumes "reverse_position env c e p = Inr p'" and "position_ok p"
    and "p_Status p' \<noteq> ''open'' \<longrightarrow> exact (p_CostBasisExact p') = 0" and "0 < acc_integer (e_AssetDelta e)"
  shows "position_ok (position_row p')" "p_ID p' = p_ID p" "p_Symbol p' = p_Symbol p"
    "exact (p_AmountExact p') = exact (p_AmountExact p) - acc_integer (e_AssetDelta e)"
    "exact (p_CostBasisExact p') = exact (p_CostBasisExact p) - acc_integer (e_CostBasisDelta e)"
    "p_FeesExact p' = p_FeesExact p" "p_RealizedPnLExact p' = p_RealizedPnLExact p"
proof -
  define quantity where "quantity = acc_Sub (opt0 (p_AmountExact p)) (e_AssetDelta e)"
  define basis where "basis = acc_Sub (opt0 (p_CostBasisExact p)) (e_CostBasisDelta e)"
  define base where "base = p\<lparr>p_AmountExact := Some quantity, p_CostBasisExact := Some basis, p_Amount := acc_Float64 env quantity\<rparr>"
  have signs: "0 \<le> acc_integer quantity" "0 \<le> acc_integer basis"
    and p': "p' = (if acc_Sign quantity = 0
        then base\<lparr>p_Status := ''closed'', p_ClosedAt := Some (rc_OccurredAt c), p_CloseReason := stringPtrOrNil ''administrative_reversal''\<rparr>
        else base\<lparr>p_AvgPrice := acc_Float64 env (div_or_zero basis quantity)\<rparr>)"
    using assms(1) unfolding reverse_position_def Let_def quantity_def [symmetric] basis_def [symmetric] base_def [symmetric]
    by (auto simp: sgn_if split: if_splits)
  have cols: "p_AmountExact p' = Some quantity" "p_CostBasisExact p' = Some basis" "p_AccountID p' = p_AccountID p"
    "p_ID p' = p_ID p" "p_Symbol p' = p_Symbol p" "p_FeesExact p' = p_FeesExact p" "p_RealizedPnLExact p' = p_RealizedPnLExact p"
    "p_Status p' = (if acc_integer quantity = 0 then ''closed'' else p_Status p)"
    by (simp_all add: p' base_def sgn_0_0)
  show "p_ID p' = p_ID p" "p_Symbol p' = p_Symbol p" "p_FeesExact p' = p_FeesExact p" "p_RealizedPnLExact p' = p_RealizedPnLExact p"
    "exact (p_AmountExact p') = exact (p_AmountExact p) - acc_integer (e_AssetDelta e)"
    "exact (p_CostBasisExact p') = exact (p_CostBasisExact p) - acc_integer (e_CostBasisDelta e)"
    using cols by (simp_all add: quantity_def basis_def)
  have "p_Status p = ''open'' \<or> acc_integer quantity = 0"
    using signs(1) assms(2,4) by (auto simp: position_ok_def quantity_def)
  then show "position_ok (position_row p')"
    using assms(2,3) signs cols(1-3,8) by (auto simp: position_ok_def quantity_def)
qed

lemma reverse_asset_effect:
  assumes run: "reverse_asset env c e st = Inr st'" and e: "event_ok e" "reversible e"
    and pos: "positions_ok n (st_positions st)" and clean: "no_stranded_basis st'"
  obtains rows where "st' = st\<lparr>st_positions := rows\<rparr>" "positions_ok n rows"
    "moved (st_positions st) rows (e_Symbol e) (- acc_integer (e_AssetDelta e)) (- acc_integer (e_CostBasisDelta e)) 0 0"
proof (cases "acc_integer (e_AssetDelta e) = 0")
  case True
  then have "st' = st" "acc_integer (e_CostBasisDelta e) = 0"
    using run e by (auto simp: reverse_asset_def event_ok_def reversible_def)
  with True pos show thesis by (intro that [of "st_positions st"]) (simp_all add: moved_def)
next
  case False
  then have asset: "0 < acc_integer (e_AssetDelta e)" using e by (auto simp: event_ok_def reversible_def)
  then obtain p p' where p: "p \<in> set (st_positions st)" "p_Symbol p = e_Symbol e"
    and p': "reverse_position env c e p = Inr p'"
    and st': "st' = st\<lparr>st_positions := replace_row p_ID (position_row p') (st_positions st)\<rparr>"
    using run by (auto simp: reverse_asset_def sgn_0_0 save_position_def result_simps dest!: db_require_Inr)
  have ids: "p_ID p' = p_ID p" "p_Symbol p' = p_Symbol p"
    using p' by (auto simp: reverse_position_def Let_def split: if_splits)
  have "position_row p' \<in> set (replace_row p_ID (position_row p') (st_positions st))"
    using p(1) ids by (force simp: replace_row_def image_iff)
  then have "p_Status p' \<noteq> ''open'' \<longrightarrow> exact (p_CostBasisExact p') = 0"
    using clean st' by (force simp: no_stranded_basis_def)
  moreover have "position_ok p" using pos p(1) by (simp add: positions_ok_def)
  ultimately have new: "position_ok (position_row p')"
    "exact (p_AmountExact p') = exact (p_AmountExact p) - acc_integer (e_AssetDelta e)"
    "exact (p_CostBasisExact p') = exact (p_CostBasisExact p) - acc_integer (e_CostBasisDelta e)"
    "p_FeesExact p' = p_FeesExact p" "p_RealizedPnLExact p' = p_RealizedPnLExact p"
    using reverse_position_Inr [OF p'] asset by blast+
  note saved = position_saved [OF pos p(1) ids new(1)]
  show thesis using saved(2) new(2-5) p(2) by (intro that [OF st' saved(1)]) simp
qed

lemma reversal_event_posts:
  assumes "event_ok e" and "reversible e"
  shows "event_ok (reversal_event env c e rec)"
    "posts [event_defaults (reversal_event env c e rec)] (e_Symbol e)
       (- acc_integer (e_AssetDelta e)) (- acc_integer (e_CostBasisDelta e)) 0 0"
    "cash_sum [event_defaults (reversal_event env c e rec)] = - acc_integer (e_CashDelta e)"
  using assms by (simp_all add: event_ok_def reversible_def reversal_event_def posts_def EventReversal_def EventAdminCorrection_def)

lemma post_reversal_inv:
  assumes inv: "ledger_inv st" and e: "event_ok e" "reversible e"
    and run: "post_reversal env c e rec st = Inr (res, st')" and clean: "no_stranded_basis st'"
  shows "ledger_inv st'"
proof -
  obtain w where w: "first_wallet env st = Inr w" using run by (auto simp: post_reversal_def and_then_eq_Inr)
  define balance where "balance = acc_Sub (opt0 (w_BalanceExact w)) (e_CashDelta e)"
  obtain row st1 st2 where pos: "0 \<le> acc_integer balance"
    and 1: "save_wallet env (w\<lparr>w_BalanceExact := Some balance, w_Balance := acc_Float64 env balance\<rparr>) st = Inr (row, st1)"
    and 2: "reverse_asset env c e st1 = Inr st2"
    and 3: "create_event env (reversal_event env c e rec) st2 = Inr (res, st')"
    using run w unfolding post_reversal_def Let_def
    by (auto simp: and_then_eq_Inr balance_def sgn_if split: if_splits)
  have ok: "cash_ok st" "positions_ok (st_next_position st) (st_positions st)" using inv by (simp_all add: ledger_inv_def)
  note wal = save_wallet_effect [OF ok(1) w 1 refl]
  have st': "st' = st2\<lparr>st_events := st_events st2 @ [event_defaults (reversal_event env c e rec)]\<rparr>"
    using create_event_Inr [OF 3] by simp
  have ok1: "positions_ok (st_next_position st) (st_positions st1)" and clean2: "no_stranded_basis st2"
    using ok(2) wal(1) clean st' by (simp_all add: no_stranded_basis_def)
  obtain rows where rows: "st2 = st1\<lparr>st_positions := rows\<rparr>" "positions_ok (st_next_position st) rows"
    "moved (st_positions st1) rows (e_Symbol e) (- acc_integer (e_AssetDelta e)) (- acc_integer (e_CostBasisDelta e)) 0 0"
    by (rule reverse_asset_effect [OF 2 e ok1 clean2])
  note post = reversal_event_posts [OF e, of env c rec]
  show ?thesis
    using inv wal pos rows post symbols_ok_step [OF _ rows(3) post(2), of "st_events st"]
    by (auto simp: ledger_inv_def cash_ok_def st' balance_def)
qed

lemma post_reversal_extends: "post_reversal env c e rec st = Inr (r, st') \<Longrightarrow> extends st st'"
  by (auto simp: post_reversal_def reverse_asset_def Let_def and_then_eq_Inr save_wallet_def save_position_def
      result_simps extends_def dest!: create_event_Inr split: if_splits)

definition reversal_prepared :: "ledger_env \<Rightarrow> ReversalCommand \<times> time \<Rightarrow> store \<Rightarrow> (LedgerEvent \<times> store) lresult" where
  "reversal_prepared env p = (case p of (c, rec) \<Rightarrow> reversal_body env c rec)"

lemma prepare_reversal_key: "prepare_reversal env c = Inr (c', rec) \<Longrightarrow> rc_IdempotencyKey c' = rc_IdempotencyKey c"
  by (auto simp: prepare_reversal_def Let_def split: if_splits)

lemma reversal_body_claim:
  assumes "reversal_body env c rec st = Inr (r, st')"
  obtains e replay where "e \<in> set (st_events st)" "reversible e"
    "claim_or_replay env (rc_IdempotencyKey c) (e_AccountID e) (hashPayload_reversal env c) (rc_OccurredAt c) replay
      (\<lambda>st. and_then (requireReady env (e_AccountID e) st) (\<lambda>_. post_reversal env c e rec st)) st = Inr (r, st')"
proof -
  obtain e where e: "db_require env ''ledger_events'' e_ID (\<lambda>e. e_ID e = rc_OriginalEventID c) (st_events st) st = Inr e"
    using assms by (auto simp: reversal_body_def and_then_eq_Inr)
  have guard: "\<not> (e_FillID e \<noteq> None \<or> acc_Sign (e_AssetDelta e) \<noteq> 0 \<and> e_EventType e \<noteq> EventAdminCorrection)"
    using assms e by (auto simp: reversal_body_def and_then_eq_Inr split: if_splits)
  then have "reversible e" by (auto simp: reversible_def sgn_0_0)
  moreover have "claim_or_replay env (rc_IdempotencyKey c) (e_AccountID e) (hashPayload_reversal env c) (rc_OccurredAt c)
      (batch_event env (rc_IdempotencyKey c))
      (\<lambda>st. and_then (requireReady env (e_AccountID e) st) (\<lambda>_. post_reversal env c e rec st)) st = Inr (r, st')"
    using assms unfolding reversal_body_def e and_then_simps if_not_P [OF guard]
    by (cases "allowLedgerProjectionWrites env st") (simp_all only: and_then_simps sum.simps)
  moreover have "e \<in> set (st_events st)" using db_require_Inr [OF e] by simp
  ultimately show thesis using that by blast
qed

interpretation reversal:
  prepared_operation prepare_reversal reversal_prepared ReverseCashEvent rc_IdempotencyKey no_stranded_basis
proof
  fix env c st and p :: "ReversalCommand \<times> time" and r st'
  show "ReverseCashEvent env c st = (case prepare_reversal env c of Inl e \<Rightarrow> (Inl e, st)
      | Inr p \<Rightarrow> normalized (transaction env (reversal_prepared env p) st))"
    by (simp add: ReverseCashEvent_def reversal_prepared_def split: sum.split prod.split)
  assume "prepare_reversal env c = Inr p" "reversal_prepared env p st = Inr (r, st')"
  then obtain c' rec where prep: "prepare_reversal env c = Inr (c', rec)"
    and run: "reversal_body env c' rec st = Inr (r, st')"
    by (cases p) (auto simp: reversal_prepared_def)
  obtain e replay where e: "e \<in> set (st_events st)" "reversible e"
    and claim: "claim_or_replay env (rc_IdempotencyKey c) (e_AccountID e) (hashPayload_reversal env c') (rc_OccurredAt c') replay
      (\<lambda>st. and_then (requireReady env (e_AccountID e) st) (\<lambda>_. post_reversal env c' e rec st)) st = Inr (r, st')"
    by (rule reversal_body_claim [OF run, unfolded prepare_reversal_key [OF prep]])
  have posted: "post_reversal env c' e rec st0 = Inr (r, st')"
    if "and_then (requireReady env (e_AccountID e) st0) (\<lambda>_. post_reversal env c' e rec st0) = Inr (r, st')" for st0
    using that by (auto simp: and_then_eq_Inr)
  show "claimed (rc_IdempotencyKey c) st \<Longrightarrow> st' = st" by (rule claim_once [OF _ claim])
  show "claimed (rc_IdempotencyKey c) st' \<and> (\<exists>es. st_events st' = st_events st @ es) \<and> (\<exists>bs. st_batches st' = st_batches st @ bs)
      \<and> st_ingestions st' = st_ingestions st \<and> accounts_kept st st'"
    using claim_extends [OF claim] post_reversal_extends posted by blast
  show "ledger_inv st'" if "ledger_inv st" "no_stranded_basis st'"
  proof (rule claim_inv [OF claim that(1)])
    have "event_ok e" using that(1) e(1) by (simp add: ledger_inv_def)
    then show "ledger_inv st0 \<Longrightarrow> and_then (requireReady env (e_AccountID e) st0)
        (\<lambda>_. post_reversal env c' e rec st0) = Inr (r, st') \<Longrightarrow> ledger_inv st'" for st0
      using post_reversal_inv e(2) posted that(2) by blast
  qed
qed

section \<open>Asset corrections\<close>

lemma prepare_correction_Inr:
  assumes "prepare_correction env c = Inr (c', h, md, rec)"
  shows "cc_IdempotencyKey c' = cc_IdempotencyKey c" "cc_AccountID c' = DefaultAccountID"
    "0 < acc_integer (cc_Quantity c')" "0 \<le> acc_integer (cc_CostBasis c')" "cc_OccurredAt c' \<le> rec"
proof -
  define c0 where "c0 = c\<lparr>cc_AccountID := with_default (cc_AccountID c) DefaultAccountID\<rparr>"
  have acc: "requirePrimaryAccount (cc_AccountID c) = None"
    using assms by (auto simp: prepare_correction_def split: option.splits)
  have amounts: "\<not> acc_Sign (cc_Quantity c0) \<le> 0 \<and> \<not> acc_Sign (cc_CostBasis c0) < 0"
    and c': "c' = (if cc_OccurredAt c0 = 0 then c0\<lparr>cc_OccurredAt := env_now env ''occurred_at'' (cc_IdempotencyKey c0)\<rparr> else c0)
      \<and> \<not> rec < cc_OccurredAt c'"
    using assms
    by (simp_all add: prepare_correction_def Let_def acc c0_def [symmetric] result_simps del: acc_Sign_eq)
      (auto simp: c0_def)
  show "cc_AccountID c' = DefaultAccountID"
    using acc by (auto simp: c' c0_def requirePrimaryAccount_def with_default_def split: if_splits)
  show "cc_IdempotencyKey c' = cc_IdempotencyKey c" "0 < acc_integer (cc_Quantity c')" "0 \<le> acc_integer (cc_CostBasis c')"
    "cc_OccurredAt c' \<le> rec"
    using c' amounts by (auto simp: c0_def sgn_if split: if_splits)
qed

lemma correct_position_Inr:
  assumes "correct_position env c p = Inr p'" and "position_ok p" and "p_Status p = ''open''"
    and "0 < acc_integer (cc_Quantity c)" and "0 \<le> acc_integer (cc_CostBasis c)"
  shows "position_ok (position_row p')" "p_ID p' = p_ID p" "p_Symbol p' = p_Symbol p"
    "exact (p_AmountExact p') - exact (p_AmountExact p) = acc_integer (cc_Quantity c)"
    "exact (p_CostBasisExact p') - exact (p_CostBasisExact p) = acc_integer (cc_CostBasis c)"
    "exact (p_FeesExact p') - exact (p_FeesExact p) = 0" "exact (p_RealizedPnLExact p') - exact (p_RealizedPnLExact p) = 0"
proof -
  have none: "p_AmountExact p = None" "p_CostBasisExact p = None"
    and p': "p' = p\<lparr>p_AmountExact := Some (cc_Quantity c), p_CostBasisExact := Some (cc_CostBasis c),
        p_RealizedPnLExact := Some acc_Zero, p_FeesExact := Some acc_Zero,
        p_AvgPrice := acc_Float64 env (div_or_zero (cc_CostBasis c) (cc_Quantity c))\<rparr>"
    using assms(1) by (auto simp: correct_position_def split: if_splits)
  have "acc_Valid (cc_Quantity c)" using assms(4) not_Valid by fastforce
  then show "position_ok (position_row p')"
    using assms(2-5) by (simp add: position_ok_def p')
  show "p_ID p' = p_ID p" "p_Symbol p' = p_Symbol p"
    "exact (p_AmountExact p') - exact (p_AmountExact p) = acc_integer (cc_Quantity c)"
    "exact (p_CostBasisExact p') - exact (p_CostBasisExact p) = acc_integer (cc_CostBasis c)"
    "exact (p_FeesExact p') - exact (p_FeesExact p) = 0" "exact (p_RealizedPnLExact p') - exact (p_RealizedPnLExact p) = 0"
    using assms(2) none by (auto simp: p' position_ok_def)
qed

lemma post_correction_shape:
  assumes "post_correction env c md rec st = Inr (res, st')"
  obtains p p' states where "accounts_kept st st'" "p \<in> set (st_positions st)" "p_Symbol p = cc_Symbol c" "p_Status p = ''open''"
    "correct_position env c p = Inr p'"
    "st' = st\<lparr>st_positions := replace_row p_ID (position_row p') (st_positions st),
              st_events := st_events st @ [event_defaults (correction_event env c md (p_ID p') rec)], st_states := states\<rparr>"
proof -
  obtain p state where
    p: "db_require env ''positions'' p_ID (\<lambda>p. p_AccountID p = cc_AccountID c \<and> p_Symbol p = cc_Symbol c \<and> p_Status p = ''open'')
        (st_positions st) st = Inr p"
    and written: "write_correction env c md rec state p st = Inr (res, st')"
    and m: "db_require env ''ledger_migration_states'' ms_AccountID (\<lambda>m. ms_AccountID m = cc_AccountID c)
        (st_states st) st = Inr state"
    using assms by (auto simp: post_correction_def and_then_eq_Inr split: if_splits)
  obtain p' st1 st2 where p': "correct_position env c p = Inr p'" and 1: "save_position env p' st = Inr st1"
    and 2: "create_event env (correction_event env c md (p_ID p') rec) st1 = Inr (res, st2)"
    and 3: "settle_state env (cc_AccountID c) state st2 = Inr st'"
    using written by (auto simp: write_correction_def and_then_eq_Inr)
  obtain states where states: "st' = st2\<lparr>st_states := states\<rparr>"
  proof (cases "st' = st2")
    case False
    then obtain m where "save_state env m st2 = Inr st'"
      using 3 by (auto simp: settle_state_def and_then_eq_Inr split: if_splits)
    then show thesis using that by (auto simp: save_state_def Let_def result_simps)
  qed (use that [of "st_states st2"] in simp)
  have "st_states st2 = st_states st" "st_wallets st2 = st_wallets st"
    using 1 create_event_Inr [OF 2] by (auto simp: save_position_def result_simps)
  moreover from this have "accounts_kept st2 st'" using settle_state_kept [OF 3] db_require_Inr [OF m] by simp
  ultimately have "accounts_kept st st'" using accounts_kept_trans [OF accounts_kept_same [of st2 st]] by simp
  then show thesis
    using that [OF _ _ _ _ p'] db_require_Inr [OF p] 1 create_event_Inr [OF 2] states
    by (auto simp: save_position_def result_simps)
qed

lemma post_correction_inv:
  assumes inv: "ledger_inv st" and c: "cc_AccountID c = DefaultAccountID" "0 < acc_integer (cc_Quantity c)"
      "0 \<le> acc_integer (cc_CostBasis c)"
    and run: "post_correction env c md rec st = Inr (res, st')"
  shows "ledger_inv st'"
proof -
  from post_correction_shape [OF run] obtain p p' states where
    p: "p \<in> set (st_positions st)" "p_Symbol p = cc_Symbol c" "p_Status p = ''open''"
    and p': "correct_position env c p = Inr p'"
    and st': "st' = st\<lparr>st_positions := replace_row p_ID (position_row p') (st_positions st),
              st_events := st_events st @ [event_defaults (correction_event env c md (p_ID p') rec)], st_states := states\<rparr>" .
  have ok: "positions_ok (st_next_position st) (st_positions st)" using inv by (simp add: ledger_inv_def)
  then have "position_ok p" using p(1) by (simp add: positions_ok_def)
  note new = correct_position_Inr [OF p' this p(3) c(2,3)]
  note saved = position_saved [OF ok p(1) new(2,3,1)]
  have ev: "event_ok (correction_event env c md (p_ID p') rec)"
    "posts [event_defaults (correction_event env c md (p_ID p') rec)] (p_Symbol p)
      (acc_integer (cc_Quantity c)) (acc_integer (cc_CostBasis c)) 0 0"
    "cash_sum [event_defaults (correction_event env c md (p_ID p') rec)] = 0"
    using c p(2) by (simp_all add: event_ok_def posts_def correction_event_def)
  show ?thesis
    using inv saved ev symbols_ok_step [OF _ saved(2) [unfolded new(4-7)] ev(2), of "st_events st"]
    by (auto simp: ledger_inv_def cash_ok_def st')
qed

lemma post_correction_extends: "post_correction env c md rec st = Inr (r, st') \<Longrightarrow> extends st st'"
  by (erule post_correction_shape) (simp add: extends_def)

definition correction_prepared ::
  "ledger_env \<Rightarrow> AssetCorrectionCommand \<times> string \<times> string \<times> time \<Rightarrow> store \<Rightarrow> (LedgerEvent \<times> store) lresult" where
  "correction_prepared env p = (case p of (c, h, md, rec) \<Rightarrow> correction_body env c h md rec)"

interpretation correction:
  prepared_operation prepare_correction correction_prepared ApplyAssetCorrection cc_IdempotencyKey "\<lambda>_. True"
proof
  fix env c st and p :: "AssetCorrectionCommand \<times> string \<times> string \<times> time" and r st'
  show "ApplyAssetCorrection env c st = (case prepare_correction env c of Inl e \<Rightarrow> (Inl e, st)
      | Inr p \<Rightarrow> normalized (transaction env (correction_prepared env p) st))"
    by (simp add: ApplyAssetCorrection_def correction_prepared_def split: sum.split prod.split)
  assume "prepare_correction env c = Inr p" "correction_prepared env p st = Inr (r, st')"
  then obtain c' h md rec where prep: "prepare_correction env c = Inr (c', h, md, rec)"
    and run: "correction_body env c' h md rec st = Inr (r, st')"
    by (cases p) (auto simp: correction_prepared_def)
  note c' = prepare_correction_Inr [OF prep]
  have claim: "claim_or_replay env (cc_IdempotencyKey c) (cc_AccountID c') h (cc_OccurredAt c')
      (batch_event env (cc_IdempotencyKey c)) (post_correction env c' md rec) st = Inr (r, st')"
    using run c'(1) by (auto simp: correction_body_def and_then_eq_Inr)
  show "claimed (cc_IdempotencyKey c) st \<Longrightarrow> st' = st" by (rule claim_once [OF _ claim])
  show "claimed (cc_IdempotencyKey c) st' \<and> (\<exists>es. st_events st' = st_events st @ es) \<and> (\<exists>bs. st_batches st' = st_batches st @ bs)
      \<and> st_ingestions st' = st_ingestions st \<and> accounts_kept st st'"
    using claim_extends [OF claim] post_correction_extends by blast
  show "ledger_inv st \<Longrightarrow> ledger_inv st'"
    by (rule claim_inv [OF claim]) (use post_correction_inv c'(2-4) in blast)+
qed

end
