(* ===== verification/Ledger_Adapter.thy ===== *)
theory Ledger_Adapter
  imports Ledger_Admin Contracts
begin

text \<open>
  \<^verbatim>\<open>internal/ledger/tradingcore_adapter.go\<close>: the trading core's ledger on top of the ledger service.
  \<open>validateBrokerOutcome\<close> turns an approved batch and the broker's outcome into a plan of orders and fill commands;
  \<open>RecordBrokerOutcome\<close> books the whole plan in one transaction, each fill through \<open>ApplyFill\<close> nested in it.
  \<open>AppendAtomic\<close>, \<open>ledger_Events\<close> and \<open>core_Reconcile\<close> are the other methods of the contract.
\<close>

section \<open>The plan of an outcome\<close>

record outcomePlan =
  op_intent :: OrderIntent
  op_accepted :: AcceptedOrder
  op_requested :: acc_decimal
  op_remaining :: acc_decimal
  op_symbol :: string
  op_commands :: "FillCommand list"

definition plain_error :: "string \<Rightarrow> string list \<Rightarrow> ledger_error" where
  "plain_error format args = PlainError (Errorf format args)"

definition parse_core :: "Decimal \<Rightarrow> acc_decimal" where
  "parse_core d = the_ok (AccDecimal None) (acc_Parse (dec_String d))"

definition metadata_get :: "(string, string) gomap option \<Rightarrow> string \<Rightarrow> string option" where
  "metadata_get m key = (case m of None \<Rightarrow> None | Some entries \<Rightarrow> map_of entries key)"

definition metadataFloat :: "ledger_env \<Rightarrow> (string, string) gomap option \<Rightarrow> string \<Rightarrow> float64 option" where
  "metadataFloat env m key =
     (case metadata_get m key of None \<Rightarrow> None
      | Some raw \<Rightarrow> (case env_ParseFloat env raw of (v, ok) \<Rightarrow> if ok then Some v else None))"

text \<open>\<^verbatim>\<open>strconv.Atoi\<close>: an optional sign, digits, and a value of 64 bits.\<close>

definition atoi :: "string \<Rightarrow> int option" where
  "atoi raw =
     (let negative = has_prefix raw ''-'';
          digits = (if negative \<or> has_prefix raw ''+'' then drop 1 raw else raw);
          v = (if negative then - int (nat_of_digits digits) else int (nat_of_digits digits))
      in if digits = '''' \<or> \<not> list_all is_digit digits \<or> v < - (2 ^ 63) \<or> v > 2 ^ 63 - 1 then None else Some v)"

definition metadataInt :: "(string, string) gomap option \<Rightarrow> string \<Rightarrow> int option" where
  "metadataInt m key = (case metadata_get m key of None \<Rightarrow> None | Some raw \<Rightarrow> atoi raw)"

definition economic_mode :: "ExecutionMode \<Rightarrow> bool" where
  "economic_mode mode \<longleftrightarrow> mode = ExecutionPaper \<or> mode = ExecutionLimitedLive \<or> mode = ExecutionFullLive"

text \<open>The first loop: the approved intents by order id, and their idempotency keys.\<close>

fun index_intents ::
  "OrderIntent list \<Rightarrow> (OrderID, OrderIntent) gomap \<Rightarrow> string list \<Rightarrow> ((OrderID, OrderIntent) gomap \<times> string list) lresult" where
  "index_intents [] intents keys = Inr (intents, keys)"
| "index_intents (intent # rest) intents keys =
     (case requirePrimaryAccount (oi_AccountID intent) of Some e \<Rightarrow> Inl e
      | None \<Rightarrow>
        if \<not> economic_mode (oi_ExecutionMode intent)
        then Inl (plain_error ''execution mode %s cannot produce an economic broker outcome'' [oi_ExecutionMode intent])
        else index_intents rest (AList.update (oi_ID intent) intent intents) (keys @ [oi_IdempotencyKey intent]))"

definition event_metadata :: "OrderIntent \<Rightarrow> CoreFill \<Rightarrow> (string, json) gomap" where
  "event_metadata intent fill =
     [(''horizon'', JString (oi_Horizon intent)), (''active_path'', JString (oi_ExecutionMode intent)),
      (''flag_schema_version'', JString (vc_FlagSchema (oi_Versions intent))),
      (''engine_version'', JString (vc_Engine (oi_Versions intent))),
      (''strategy_version'', JString (vc_Strategy (oi_Versions intent))),
      (''risk_policy_version'', JString (vc_Policy (oi_Versions intent))),
      (''model_version'', JString (vc_Model (oi_Versions intent))),
      (''dataset_version'', JString (vc_Dataset (oi_Versions intent))),
      (''universe_version'', JString (vc_Universe (oi_Versions intent))),
      (''cost_model_version'', JString (cf_CostModelVersion fill))]"

text \<open>The fill command of one fill of an accepted order.\<close>

definition fill_command ::
  "ledger_env \<Rightarrow> OrderIntent \<Rightarrow> AcceptedOrder \<Rightarrow> (string, string) gomap option \<Rightarrow> CoreFill \<Rightarrow> FillCommand" where
  "fill_command env intent accepted metadata fill =
     (let fillPrice = parse_core (price_Decimal (cf_Price fill));
          atr = metadataFloat env metadata ''atr_value'';
          mult = metadataFloat env metadata ''atr_trailing_mult'';
          trailing = (case (atr, mult) of
              (Some a, Some m) \<Rightarrow>
                let v = env_fsub_mul env (acc_Float64 env fillPrice) a m in if env_fpositive env v then Some v else None
            | _ \<Rightarrow> None)
      in \<lparr>fc_IdempotencyKey = oi_IdempotencyKey intent @ '':'' @ cf_ProviderFillID fill,
          fc_AccountID = oi_AccountID intent, fc_Symbol = inst_BaseAsset (oi_Instrument intent),
          fc_Side = oi_Side intent, fc_Quantity = parse_core (qty_Decimal (cf_Quantity fill)),
          fc_RequestedPrice = (case oi_ReferencePrice intent of None \<Rightarrow> fillPrice
                               | Some reference \<Rightarrow> parse_core (price_Decimal reference)),
          fc_FillPrice = fillPrice, fc_Fee = parse_core (amt_Decimal (cf_Fee fill)), fc_FeeType = EventTradingFee,
          fc_Currency = inst_QuoteAsset (oi_Instrument intent), fc_ExecutionMode = oi_ExecutionMode intent,
          fc_ProviderFillID = cf_ProviderFillID fill, fc_ProviderOrderID = ao_ProviderOrderID accepted,
          fc_VenueID = inst_Venue (oi_Instrument intent), fc_FeeCurrency = '''', fc_OrderStatus = ao_Status accepted,
          fc_ExistingOrderID = 0, fc_ClientOrderID = '''', fc_OccurredAt = cf_FilledAt fill,
          fc_Actor = pv_Source (cf_Provenance fill), fc_Reason = oi_Reason intent,
          fc_StrategyVersion = vc_Strategy (oi_Versions intent), fc_PolicyVersion = vc_Policy (oi_Versions intent),
          fc_CostModelVersion = cf_CostModelVersion fill, fc_Metadata = Some (event_metadata intent fill),
          fc_EntrySource = ''auto_trend'', fc_DecisionTimeframe = oi_Horizon intent,
          fc_ModelVersion = vc_Model (oi_Versions intent), fc_UniverseMode = '''',
          fc_RolloutState = meta_at metadata ''rollout_state'', fc_ExperimentID = None, fc_PredictionLogID = None,
          fc_DecisionContextJSON = '''', fc_StopPrice = metadataFloat env metadata ''stop_price'',
          fc_TakeProfitPrice = metadataFloat env metadata ''take_profit_price'', fc_TrailingStopPrice = trailing,
          fc_LastAtrValue = atr, fc_MaxBarsHeld = metadataInt metadata ''max_bars_held''\<rparr>)"

text \<open>The loop over the fills of an accepted order.\<close>

fun plan_fills ::
  "ledger_env \<Rightarrow> OrderIntent \<Rightarrow> AcceptedOrder \<Rightarrow> (string, string) gomap option \<Rightarrow> CoreFill list
   \<Rightarrow> string list \<Rightarrow> acc_decimal \<Rightarrow> FillCommand list \<Rightarrow> (string list \<times> acc_decimal \<times> FillCommand list) lresult" where
  "plan_fills env intent accepted metadata [] providerFills executed commands = Inr (providerFills, executed, commands)"
| "plan_fills env intent accepted metadata (fill # fills) providerFills executed commands =
     (if inst_ID (cf_Instrument fill) \<noteq> inst_ID (oi_Instrument intent) \<or> cf_Side fill \<noteq> oi_Side intent
         \<or> cf_FeeAsset fill \<noteq> inst_QuoteAsset (oi_Instrument intent)
      then Inl (plain_error ''fill %s dimensions do not match approved intent'' [cf_ID fill])
      else if cf_ProviderFillID fill \<in> set providerFills
      then Inl (plain_error ''duplicate provider fill id %s'' [cf_ProviderFillID fill])
      else if cf_CostModelVersion fill \<noteq> meta_at metadata ''cost_policy_version''
      then Inl (plain_error ''fill cost model version does not match approved reservation'' [])
      else
        plan_fills env intent accepted metadata fills (cf_ProviderFillID fill # providerFills)
          (acc_Add executed (parse_core (qty_Decimal (cf_Quantity fill))))
          (commands @ [fill_command env intent accepted metadata fill]))"

text \<open>One accepted order: its plan and its payload.\<close>

definition plan_order ::
  "ledger_env \<Rightarrow> OrderIntent \<Rightarrow> AcceptedOrder \<Rightarrow> string list \<Rightarrow> (string list \<times> outcomePlan \<times> outcome_payload) lresult" where
  "plan_order env intent accepted providerFills =
     (if oi_ExecutionMode intent = ExecutionLimitedLive \<or> oi_ExecutionMode intent = ExecutionFullLive
      then Inl ErrExchangeExecutionFenced
      else
        let requested = parse_core (qty_Decimal (oi_Quantity intent));
            metadata = oi_Metadata intent
        in if meta_at metadata ''cost_policy_version'' = ''''
           then Inl (plain_error ''approved intent %s lacks execution cost reservation version'' [oi_ID intent])
           else
        and_then (plan_fills env intent accepted metadata (ao_Fills accepted) providerFills acc_Zero [])
          (\<lambda>(providerFills, executed, commands).
           let remaining = (case ao_Remaining accepted of None \<Rightarrow> acc_Sub requested executed
                            | Some v \<Rightarrow> parse_core (qty_Decimal v))
           in if acc_Cmp (acc_Add executed remaining) requested \<noteq> 0 \<or> acc_Sign remaining < 0
              then Inl (plain_error ''accepted order %s quantities do not reconcile'' [ao_OrderID accepted])
              else if ao_Status accepted = BrokerFilled \<and> acc_Sign remaining \<noteq> 0
              then Inl (plain_error ''filled order has remaining quantity'' [])
              else Inr (providerFills,
                     \<lparr>op_intent = intent, op_accepted = accepted, op_requested = requested, op_remaining = remaining,
                      op_symbol = inst_BaseAsset (oi_Instrument intent), op_commands = commands\<rparr>,
                     AcceptedPayload (oi_IdempotencyKey intent) (ao_ProviderOrderID accepted) (ao_Status accepted)
                       (acc_String requested) (acc_String executed) (acc_String remaining) commands)))"

fun plan_accepted ::
  "ledger_env \<Rightarrow> (OrderID, OrderIntent) gomap \<Rightarrow> AcceptedOrder list \<Rightarrow> OrderID list \<Rightarrow> string list
   \<Rightarrow> outcomePlan list \<Rightarrow> outcome_payload list \<Rightarrow> (OrderID list \<times> outcomePlan list \<times> outcome_payload list) lresult" where
  "plan_accepted env intents [] seen providerFills plans payload = Inr (seen, plans, payload)"
| "plan_accepted env intents (accepted # rest) seen providerFills plans payload =
     (case map_of intents (ao_OrderID accepted) of
        None \<Rightarrow> Inl (plain_error ''accepted order %s is not a unique approved intent'' [ao_OrderID accepted])
      | Some intent \<Rightarrow>
          if ao_OrderID accepted \<in> set seen
          then Inl (plain_error ''accepted order %s is not a unique approved intent'' [ao_OrderID accepted])
          else
            and_then (plan_order env intent accepted providerFills) (\<lambda>(providerFills, plan, entry).
              plan_accepted env intents rest (ao_OrderID accepted # seen) providerFills (plans @ [plan]) (payload @ [entry])))"

fun plan_rejected ::
  "(OrderID, OrderIntent) gomap \<Rightarrow> OrderRejection list \<Rightarrow> OrderID list \<Rightarrow> outcome_payload list
   \<Rightarrow> (OrderID list \<times> outcome_payload list) lresult" where
  "plan_rejected intents [] seen payload = Inr (seen, payload)"
| "plan_rejected intents (rejected # rest) seen payload =
     (case map_of intents (or_OrderID rejected) of
        None \<Rightarrow> Inl (plain_error ''rejected order %s is not a unique approved intent'' [or_OrderID rejected])
      | Some intent \<Rightarrow>
          if or_OrderID rejected \<in> set seen
          then Inl (plain_error ''rejected order %s is not a unique approved intent'' [or_OrderID rejected])
          else plan_rejected intents rest (or_OrderID rejected # seen)
                 (payload @ [RejectedPayload (oi_IdempotencyKey intent) (or_Code rejected)]))"

definition validateBrokerOutcome ::
  "ledger_env \<Rightarrow> DecisionBatch \<Rightarrow> BrokerBatchOutcome \<Rightarrow> (outcomePlan list \<times> string \<times> string) lresult" where
  "validateBrokerOutcome env approved outcome =
     (if bo_Completeness outcome \<noteq> OutcomeComplete
      then Inl (newError KindIndeterminate ''broker_outcome_indeterminate''
             ''broker outcome must be recovered before ledger ingestion'' None)
      else
        and_then (index_intents (db_Intents approved) [] []) (\<lambda>(intents, keys).
        and_then (plan_accepted env intents (bo_Accepted outcome) [] [] [] []) (\<lambda>(seen, plans, payload).
        and_then (plan_rejected intents (bo_Rejected outcome) seen payload) (\<lambda>(seen, payload).
          if length seen \<noteq> length intents
          then Inl (plain_error ''complete broker outcome does not resolve every approved intent'' [])
          else
            let identityJSON = the_ok '''' (marshal env (JArray (map JString keys)))
            in Inr (plans, ''outcome-'' @ hex_sha256 env identityJSON, hex_sha256 env (env_MarshalOutcome env payload))))))"

section \<open>Booking the plan\<close>

definition observation_json :: "ledger_env \<Rightarrow> OrderIntent \<Rightarrow> string" where
  "observation_json env intent =
     the_ok '''' (marshal env (json_map
       [(''active_path'', JString (oi_ExecutionMode intent)),
        (''flag_schema_version'', JString (vc_FlagSchema (oi_Versions intent))),
        (''engine_version'', JString (vc_Engine (oi_Versions intent))),
        (''strategy_version'', JString (vc_Strategy (oi_Versions intent))),
        (''policy_version'', JString (vc_Policy (oi_Versions intent))),
        (''model_version'', JString (vc_Model (oi_Versions intent))),
        (''dataset_version'', JString (vc_Dataset (oi_Versions intent))),
        (''universe_version'', JString (vc_Universe (oi_Versions intent)))]))"

definition planned_order :: "ledger_env \<Rightarrow> outcomePlan \<Rightarrow> Order" where
  "planned_order env item =
     (let intent = op_intent item;
          accepted = op_accepted item;
          requestedPrice = (case oi_ReferencePrice intent of
              Some reference \<Rightarrow> dec_Float64 env (price_Decimal reference)
            | None \<Rightarrow> (case oi_LimitPrice intent of Some limit \<Rightarrow> dec_Float64 env (price_Decimal limit) | None \<Rightarrow> 0))
      in zero_Order\<lparr>o_AccountID := oi_AccountID intent, o_OrderType := oi_Side intent, o_Symbol := op_symbol item,
           o_Status := BrokerAccepted, o_ExecutionMode := oi_ExecutionMode intent,
           o_RequestedQuantityExact := Some (op_requested item), o_ExecutedQuantityExact := Some acc_Zero,
           o_RemainingQuantityExact := Some (op_requested item), o_AmountCryptoExact := Some acc_Zero,
           o_AmountUsdtExact := Some acc_Zero, o_FeeExact := Some acc_Zero, o_RequestedPrice := Some requestedPrice,
           o_ClientOrderID := Some (oi_IdempotencyKey intent),
           o_ExchangeOrderID := Some (ao_ProviderOrderID accepted), o_SubmittedAt := Some (ao_AcceptedAt accepted),
           o_ExecutedAt := ao_AcceptedAt accepted, o_PolicyVersion := vc_Policy (oi_Versions intent),
           o_ModelVersion := vc_Model (oi_Versions intent), o_Stage08ContextJSON := observation_json env intent\<rparr>)"

fun apply_commands :: "ledger_env \<Rightarrow> uint \<Rightarrow> FillCommand list \<Rightarrow> store \<Rightarrow> store lresult" where
  "apply_commands env orderID [] st = Inr st"
| "apply_commands env orderID (command # commands) st =
     (case ApplyFill_with nested env (command\<lparr>fc_ExistingOrderID := orderID\<rparr>) st of
        (Inl e, _) \<Rightarrow> Inl e
      | (Inr _, st') \<Rightarrow> apply_commands env orderID commands st')"

text \<open>The final status and quantities of the order.\<close>

definition settle_order :: "outcomePlan \<Rightarrow> Order \<Rightarrow> Order" where
  "settle_order item r =
     (let r = r\<lparr>o_Status := ao_Status (op_accepted item), o_RequestedQuantityExact := Some (op_requested item),
                o_ExecutedQuantityExact := Some (acc_Sub (op_requested item) (op_remaining item)),
                o_RemainingQuantityExact := Some (op_remaining item)\<rparr>
      in if ao_Status (op_accepted item) = BrokerFilled then r\<lparr>o_FilledAt := Some (ao_AcceptedAt (op_accepted item))\<rparr> else r)"

definition record_item :: "ledger_env \<Rightarrow> outcomePlan \<Rightarrow> store \<Rightarrow> store lresult" where
  "record_item env item st =
     and_then (create_order env (planned_order env item) st) (\<lambda>(order, st).
     and_then (apply_commands env (o_ID order) (op_commands item) st) (\<lambda>st.
       db_write env ''orders'' None
         (st\<lparr>st_orders := map (\<lambda>r. if o_ID r = o_ID order then settle_order item r else r) (st_orders st)\<rparr>) st))"

fun record_items :: "ledger_env \<Rightarrow> outcomePlan list \<Rightarrow> store \<Rightarrow> store lresult" where
  "record_items env [] st = Inr st"
| "record_items env (item # items) st = and_then (record_item env item st) (record_items env items)"

definition find_ingestion :: "ledger_env \<Rightarrow> string \<Rightarrow> store \<Rightarrow> BrokerOutcomeIngestion option lresult" where
  "find_ingestion env identity st =
     db_first env ''broker_outcome_ingestions'' bi_ID (\<lambda>b. bi_ID b = identity) (st_ingestions st) st"

definition record_body :: "ledger_env \<Rightarrow> outcomePlan list \<Rightarrow> string \<Rightarrow> string \<Rightarrow> store \<Rightarrow> (unit \<times> store) lresult" where
  "record_body env plan identity payloadHash st =
     and_then (find_ingestion env identity st) (\<lambda>existing.
       case existing of
         Some b \<Rightarrow> if bi_PayloadHash b \<noteq> payloadHash then Inl ErrIdempotencyConflict else Inr ((), st)
       | None \<Rightarrow>
           let account = (case plan of [] \<Rightarrow> ''primary'' | item # _ \<Rightarrow> oi_AccountID (op_intent item)) in
           and_then (create_ingestion env \<lparr>bi_ID = identity, bi_AccountID = account, bi_PayloadHash = payloadHash,
                       bi_CreatedAt = env_now env ''ingested_at'' identity\<rparr> st) (\<lambda>st.
           and_then (record_items env plan st) (\<lambda>st. Inr ((), st))))"

definition RecordBrokerOutcome ::
  "ledger_env \<Rightarrow> DecisionBatch \<times> BrokerBatchOutcome \<Rightarrow> store \<Rightarrow> unit lresult \<times> store" where
  "RecordBrokerOutcome env c st =
     (case validateBrokerOutcome env (fst c) (snd c) of
        Inl e \<Rightarrow> (Inl e, st)
      | Inr (plan, identity, payloadHash) \<Rightarrow>
          (case transaction env (record_body env plan identity payloadHash) st of
             (Inr x, st') \<Rightarrow> (Inr x, st')
           | (Inl e, st') \<Rightarrow>
               (case find_ingestion env identity st' of
                  Inr (Some existing) \<Rightarrow>
                    if bi_PayloadHash existing = payloadHash then (Inr (), st')
                    else (Inl (normalizePersistenceError e), st')
                | _ \<Rightarrow> (Inl (normalizePersistenceError e), st'))))"

section \<open>The other methods of the contract\<close>

text \<open>Only a batch of one cash event can be appended; asset events need typed commands.\<close>

definition AppendAtomic ::
  "ledger_env \<Rightarrow> CoreLedgerBatch \<Rightarrow> store \<Rightarrow> LedgerAppendOutcome result \<times> store" where
  "AppendAtomic env batch st =
     (case lb_Events batch of
        [event] \<Rightarrow>
          (case ce_postings event of
             [posting] \<Rightarrow>
               if lp_Dimension posting \<noteq> PostingCash
               then (NewLedgerAppendOutcome LedgerRejected (lb_IdempotencyKey batch) [] ''projection_data_required''
                       ''asset/trade events must use typed fill or correction commands'', st)
               else (case acc_Parse (dec_String (amt_Decimal (lp_Amount posting))) of
                  Inl err \<Rightarrow> (Inl err, st)
                | Inr amount \<Rightarrow>
                    let command = \<lparr>ac_EventID = ce_ID event, ac_IdempotencyKey = lb_IdempotencyKey batch,
                          ac_AccountID = ce_AccountID event, ac_Type = ce_Type event,
                          ac_Amount = (if ce_Type event = EventCapitalWithdrawal then acc_Neg amount else amount),
                          ac_Currency = lp_AssetID posting, ac_Actor = pv_Actor (ce_Provenance event),
                          ac_Reason = pv_Reason (ce_Provenance event), ac_OccurredAt = ce_OccurredAt event\<rparr>
                    in (case ApplyAdjustment env command st of
                          (Inl err, st) \<Rightarrow>
                            let (errorKind, code) = ErrorDetails err;
                                status = (if errorKind = KindIndeterminate then LedgerAppendIndeterminate else LedgerRejected)
                            in (NewLedgerAppendOutcome status (lb_IdempotencyKey batch) [] code (error_text env err), st)
                        | (Inr r, st) \<Rightarrow>
                            let status = (if ar_AlreadyApplied r then LedgerAlreadyApplied else LedgerAppended)
                            in (NewLedgerAppendOutcome status (lb_IdempotencyKey batch) [ce_ID event] '''' '''', st)))
           | _ \<Rightarrow> (NewLedgerAppendOutcome LedgerRejected (lb_IdempotencyKey batch) [] ''projection_data_required''
                       ''asset/trade events must use typed fill or correction commands'', st))
      | _ \<Rightarrow> (NewLedgerAppendOutcome LedgerRejected (lb_IdempotencyKey batch) [] ''unsupported_batch_shape''
               ''runtime adapter accepts one projection-safe cash event'', st))"

text \<open>\<^verbatim>\<open>mustCoreDecimal\<close> panics where the text of a stored decimal is not a core decimal.\<close>

definition mustCoreDecimal :: "acc_decimal \<Rightarrow> Decimal result" where
  "mustCoreDecimal v =
     (case ParseDecimal (acc_String v) of Inl _ \<Rightarrow> Inl (Panic ''mustCoreDecimal'') | Inr d \<Rightarrow> Inr d)"

definition core_amount :: "acc_decimal \<Rightarrow> SignedAmount result" where
  "core_amount v = and_then (mustCoreDecimal v) (\<lambda>d. Inr (the_ok (SignedAmount zero_Decimal) (NewSignedAmount d)))"

definition cash_posting :: "LedgerEvent \<Rightarrow> acc_decimal \<Rightarrow> LedgerPosting result" where
  "cash_posting row v =
     and_then (core_amount v) (\<lambda>amount.
       Inr \<lparr>lp_Dimension = PostingCash, lp_AssetID = the_ok '''' (NewAssetID (e_Currency row)), lp_InstrumentID = '''',
            lp_Amount = amount\<rparr>)"

definition asset_posting :: "LedgerEvent \<Rightarrow> LedgerPosting result" where
  "asset_posting row =
     and_then (core_amount (e_AssetDelta row)) (\<lambda>amount.
       Inr \<lparr>lp_Dimension = PostingAsset, lp_AssetID = the_ok '''' (NewAssetID (e_Symbol row)),
            lp_InstrumentID = the_ok '''' (NewInstrumentID (e_Symbol row)), lp_Amount = amount\<rparr>)"

definition core_postings :: "LedgerEvent \<Rightarrow> LedgerPosting list result" where
  "core_postings row =
     and_then (if acc_Sign (e_CashDelta row) \<noteq> 0
               then and_then (cash_posting row (e_CashDelta row)) (\<lambda>p. Inr [p]) else Inr []) (\<lambda>cash.
     and_then (if acc_Sign (e_AssetDelta row) \<noteq> 0
               then and_then (asset_posting row) (\<lambda>p. Inr (cash @ [p])) else Inr cash) (\<lambda>postings.
       if postings = [] then and_then (cash_posting row acc_Zero) (\<lambda>p. Inr [p]) else Inr postings))"

definition optional_id :: "('a \<Rightarrow> string result) \<Rightarrow> 'a option \<Rightarrow> string result" where
  "optional_id newID v = (case v of None \<Rightarrow> Inr '''' | Some x \<Rightarrow> newID x)"

definition core_event :: "LedgerEvent \<Rightarrow> CoreLedgerEvent result" where
  "core_event row =
     and_then (NewEventID (e_ID row)) (\<lambda>eventID.
     and_then (NewIdempotencyKey (e_IdempotencyKey row)) (\<lambda>key.
     and_then (NewAccountID (e_AccountID row)) (\<lambda>accountID.
     and_then (NewVenueID (e_VenueID row)) (\<lambda>venue.
     and_then (optional_id (\<lambda>n. NewOrderID (show_nat n)) (e_OrderID row)) (\<lambda>orderID.
     and_then (optional_id NewFillID (e_FillID row)) (\<lambda>fillID.
     and_then (optional_id (\<lambda>n. NewPositionID (show_nat n)) (e_PositionID row)) (\<lambda>positionID.
     and_then (optional_id NewEventID (e_ReversesEventID row)) (\<lambda>reverses.
     and_then (core_postings row) (\<lambda>postings.
       NewLedgerEvent
         \<lparr>ce_ID = eventID, ce_IdempotencyKey = key, ce_Type = e_EventType row, ce_AccountID = accountID,
          ce_OrderID = orderID, ce_FillID = fillID, ce_PositionID = positionID, ce_VenueID = venue,
          ce_OccurredAt = e_OccurredAt row, ce_RecordedAt = e_RecordedAt row,
          ce_Versions = zero_VersionContext\<lparr>vc_Strategy := e_StrategyVersion row, vc_Policy := e_PolicyVersion row\<rparr>,
          ce_Provenance = zero_Provenance\<lparr>pv_Actor := e_Actor row, pv_Reason := e_Reason row, pv_Source := ''postgres''\<rparr>,
          ce_ReversesEventID = reverses, ce_postings = []\<rparr> postings)))))))))"

fun core_events :: "LedgerEvent list \<Rightarrow> CoreLedgerEvent list result" where
  "core_events [] = Inr []"
| "core_events (row # rows) = and_then (core_event row) (\<lambda>e. and_then (core_events rows) (\<lambda>es. Inr (e # es)))"

definition event_order :: "LedgerEvent \<Rightarrow> time \<times> time \<times> string" where
  "event_order e = (e_OccurredAt e, e_RecordedAt e, e_ID e)"

definition ledger_Events :: "ledger_env \<Rightarrow> AccountID \<Rightarrow> time \<Rightarrow> store \<Rightarrow> CoreLedgerEvent list lresult" where
  "ledger_Events env account until st =
     (case requirePrimaryAccount account of Some e \<Rightarrow> Inl e
      | None \<Rightarrow>
        and_then (db_exec env (ReadCall ''ledger_events'') st) (\<lambda>_.
          let rows = sort_key event_order
                (filter (\<lambda>e. e_AccountID e = account \<and> (until = 0 \<or> e_OccurredAt e \<le> until)) (st_events st))
          in (case core_events rows of Inl err \<Rightarrow> Inl (PlainError err) | Inr es \<Rightarrow> Inr es)))"

text \<open>The sums per asset and per instrument the report compares the snapshot with.\<close>

definition post_sum ::
  "(AssetID, acc_decimal) gomap \<times> (InstrumentID, acc_decimal) gomap \<Rightarrow> LedgerPosting
   \<Rightarrow> (AssetID, acc_decimal) gomap \<times> (InstrumentID, acc_decimal) gomap" where
  "post_sum totals p =
     (case totals of (cash, assets) \<Rightarrow>
       let v = parse_core (amt_Decimal (lp_Amount p)) in
       if lp_Dimension p = PostingCash
       then (AList.update (lp_AssetID p) (acc_Add (acc_at cash (lp_AssetID p)) v) cash, assets)
       else (cash, AList.update (lp_InstrumentID p) (acc_Add (acc_at assets (lp_InstrumentID p)) v) assets))"

definition difference :: "'k \<Rightarrow> acc_decimal \<Rightarrow> ('k, SignedAmount) gomap \<Rightarrow> ('k, SignedAmount) gomap result" where
  "difference k v m =
     (if acc_Sign v = 0 then Inr m else and_then (core_amount v) (\<lambda>amount. Inr (AList.update k amount m)))"

fun differences :: "('k \<times> acc_decimal) list \<Rightarrow> ('k, SignedAmount) gomap \<Rightarrow> ('k, SignedAmount) gomap result" where
  "differences [] m = Inr m"
| "differences ((k, v) # rest) m = and_then (difference k v m) (differences rest)"

definition core_Reconcile :: "ledger_env \<Rightarrow> PortfolioSnapshot \<Rightarrow> store \<Rightarrow> ReconciliationReport lresult" where
  "core_Reconcile env snapshot st =
     and_then (ledger_Events env (ps_AccountID snapshot) (ps_AsOf snapshot) st) (\<lambda>events.
       let (cash, assets) = foldl post_sum ([], []) (concat (map ce_postings events));
           projected = ps_Cash snapshot;
           cashDiff = differences
             (map (\<lambda>(asset, amount). (asset, acc_Sub (parse_core (amt_Decimal amount)) (acc_at cash asset))) projected
              @ map (\<lambda>(asset, v). (asset, acc_Neg v)) (filter (\<lambda>(asset, v). \<not> map_has projected asset) cash)) [];
           held = map (\<lambda>p. inst_ID (cp_Instrument p)) (ps_Positions snapshot);
           positionDiff = differences
             (map (\<lambda>p. (inst_ID (cp_Instrument p),
                acc_Sub (parse_core (qty_Decimal (cp_Quantity p))) (acc_at assets (inst_ID (cp_Instrument p)))))
                (ps_Positions snapshot)
              @ map (\<lambda>(i, v). (i, acc_Neg v)) (filter (\<lambda>(i, v). i \<notin> set held) assets)) []
       in (case and_then cashDiff (\<lambda>c. and_then positionDiff (\<lambda>p. Inr (c, p))) of
             Inl err \<Rightarrow> Inl (PlainError err)
           | Inr (c, p) \<Rightarrow> Inr (NewReconciliationReport (ps_AsOf snapshot) (ps_AccountID snapshot) (c = [] \<and> p = []) c p [])))"

end
