(* ===== verification/Adapter_Laws.thy ===== *)
theory Adapter_Laws
  imports Ledger_Ops Ledger_Adapter
begin

text \<open>
  The laws of the trading core's ledger adapter: a validated outcome resolves every approved intent exactly once,
  \<open>RecordBrokerOutcome\<close> keeps the contract \<open>ledger_writer\<close> and books an outcome at most once, and the
  steps of the whole ledger (\<open>ledger_step\<close>) with the invariant of every state they reach.
\<close>

section \<open>Booking an outcome\<close>

lemma nested_Inr: "nested body st = (Inr x, st') \<Longrightarrow> body st = Inr (x, st')"
  by (auto simp: nested_def split: sum.splits prod.splits)

lemma ApplyFill_nested_Inr:
  assumes "ApplyFill_with nested env c st = (Inr r, st')"
  obtains c' h md rec where "prepare_fill env c = Inr (c', h, md, rec)" "fill_body env c' h md rec st = Inr (r, st')"
proof -
  obtain x where x: "prepare_fill env c = Inr x" using assms by (auto simp: ApplyFill_with_def split: sum.splits)
  obtain c' h md rec where "x = (c', h, md, rec)" by (cases x)
  with assms x show thesis by (intro that) (auto simp: ApplyFill_with_def dest: nested_Inr)
qed

text \<open>Invariant preserved, history extended.\<close>

definition advances :: "store \<Rightarrow> store \<Rightarrow> bool" where
  "advances st st' \<longleftrightarrow> (ledger_inv st \<longrightarrow> ledger_inv st') \<and> (\<exists>es. st_events st' = st_events st @ es)
     \<and> (\<exists>bs. st_batches st' = st_batches st @ bs) \<and> st_ingestions st' = st_ingestions st \<and> accounts_kept st st'"

lemma advances_trans: "advances st1 st2 \<Longrightarrow> advances st2 st3 \<Longrightarrow> advances st1 st3"
  unfolding advances_def by (metis append_assoc accounts_kept_trans)

lemma nested_fill_advances: "ApplyFill_with nested env c st = (Inr r, st') \<Longrightarrow> advances st st'"
  by (erule ApplyFill_nested_Inr)
    (auto simp: advances_def fill_body_laws(2,3,5,6,7) prepare_fill_Inr(1))

lemma apply_commands_advances: "apply_commands env n cs st = Inr st' \<Longrightarrow> advances st st'"
proof (induction cs arbitrary: st)
  case (Cons c cs)
  then obtain r st1 where "ApplyFill_with nested env (c\<lparr>fc_ExistingOrderID := n\<rparr>) st = (Inr r, st1)"
    and "apply_commands env n cs st1 = Inr st'"
    by (auto split: prod.splits sum.splits)
  then show ?case using Cons.IH nested_fill_advances advances_trans by blast
qed (simp add: advances_def)

lemma settle_order_ID [simp]: "o_ID (settle_order item r) = o_ID r"
  by (simp add: settle_order_def Let_def)

lemma orders_ok_advance:
  "orders_ok m rows \<Longrightarrow> advances st (st\<lparr>st_orders := rows, st_next_order := m\<rparr>)"
  by (auto simp: advances_def ledger_inv_def cash_ok_def)

lemma record_item_advances: "record_item env item st = Inr st' \<Longrightarrow> advances st st'"
proof -
  assume run: "record_item env item st = Inr st'"
  obtain order st1 st2 where 1: "create_order env (planned_order env item) st = Inr (order, st1)"
    and 2: "apply_commands env (o_ID order) (op_commands item) st1 = Inr st2"
    and st': "st' = st2\<lparr>st_orders := map (\<lambda>r. if o_ID r = o_ID order then settle_order item r else r) (st_orders st2)\<rparr>"
    using run by (auto simp: record_item_def result_simps)
  obtain row where row: "st1 = st\<lparr>st_orders := st_orders st @ [row], st_next_order := Suc (st_next_order st)\<rparr>"
    "o_ID row = st_next_order st"
    using 1 by (auto simp: create_order_def Let_def result_simps)
  have "advances st st1"
    unfolding advances_def row(1) using row(2)
    by (auto simp: ledger_inv_def cash_ok_def orders_ok_def)
  moreover have "advances st2 st'"
  proof -
    let ?f = "\<lambda>r. if o_ID r = o_ID order then settle_order item r else r"
    have ids: "map o_ID (map ?f (st_orders st2)) = map o_ID (st_orders st2)" by simp
    have "orders_ok n (st_orders st2) \<Longrightarrow> orders_ok n (map ?f (st_orders st2))" for n
      unfolding orders_ok_def ids by auto
    then show ?thesis by (auto simp: advances_def st' ledger_inv_def cash_ok_def)
  qed
  ultimately show ?thesis using apply_commands_advances [OF 2] advances_trans by blast
qed

lemma record_items_advances: "record_items env items st = Inr st' \<Longrightarrow> advances st st'"
proof (induction items arbitrary: st)
  case (Cons item items)
  then obtain st1 where "record_item env item st = Inr st1" "record_items env items st1 = Inr st'"
    by (auto simp: and_then_eq_Inr)
  then show ?case using Cons.IH record_item_advances advances_trans by blast
qed (simp add: advances_def)

lemma record_body_cases:
  assumes "record_body env plan identity h st = Inr (x, st')"
  obtains (replayed) "st' = st" "\<exists>b \<in> set (st_ingestions st). bi_ID b = identity \<and> bi_PayloadHash b = h"
  | (booked) b where "bi_ID b = identity" "bi_PayloadHash b = h" "identity \<notin> bi_ID ` set (st_ingestions st)"
      "advances (st\<lparr>st_ingestions := st_ingestions st @ [b]\<rparr>) st'"
proof -
  obtain found where f: "find_ingestion env identity st = Inr found"
    using assms by (auto simp: record_body_def and_then_eq_Inr)
  note first = db_first_Inr [OF f [unfolded find_ingestion_def]]
  show thesis
  proof (cases found)
    case (Some b)
    then have "b \<in> set (st_ingestions st) \<and> bi_ID b = identity"
      using find_Some_in [of _ "sort_key bi_ID (st_ingestions st)" b] first by auto
    with assms f Some replayed show thesis by (auto simp: record_body_def split: if_splits)
  next
    case None
    define b where "b = \<lparr>bi_ID = identity, bi_AccountID = (case plan of [] \<Rightarrow> ''primary'' | item # _ \<Rightarrow> oi_AccountID (op_intent item)),
        bi_PayloadHash = h, bi_CreatedAt = env_now env ''ingested_at'' identity\<rparr>"
    have "find (\<lambda>b. bi_ID b = identity) (sort_key bi_ID (st_ingestions st)) = None" using first None by simp
    then have "identity \<notin> bi_ID ` set (st_ingestions st)" by (auto simp: find_None_iff)
    moreover have "record_items env plan (st\<lparr>st_ingestions := st_ingestions st @ [b]\<rparr>) = Inr st'"
      using assms f None by (auto simp: record_body_def Let_def b_def create_ingestion_def result_simps)
    ultimately show thesis using booked [of b] record_items_advances by (simp add: b_def)
  qed
qed

definition ingested :: "string \<Rightarrow> store \<Rightarrow> bool" where
  "ingested identity st \<longleftrightarrow> identity \<in> bi_ID ` set (st_ingestions st)"

lemma record_body_laws:
  assumes "record_body env plan identity h st = Inr (x, st')"
  shows "ledger_inv st \<Longrightarrow> ledger_inv st'" "\<exists>es. st_events st' = st_events st @ es"
    "\<exists>bs. st_batches st' = st_batches st @ bs" "ingested identity st'" "ingested identity st \<Longrightarrow> st' = st"
    "\<exists>bs. st_ingestions st' = st_ingestions st @ bs" "accounts_kept st st'"
proof -
  have inv: "ledger_inv st \<Longrightarrow> ledger_inv (st\<lparr>st_ingestions := rows\<rparr>)" for rows
    by (simp add: ledger_inv_def cash_ok_def)
  have "(ledger_inv st \<longrightarrow> ledger_inv st') \<and> (\<exists>es. st_events st' = st_events st @ es)
      \<and> (\<exists>bs. st_batches st' = st_batches st @ bs) \<and> ingested identity st' \<and> (ingested identity st \<longrightarrow> st' = st)
      \<and> (\<exists>bs. st_ingestions st' = st_ingestions st @ bs) \<and> accounts_kept st st'"
    using assms
  proof (cases rule: record_body_cases)
    case replayed
    then show ?thesis by (auto simp: ingested_def)
  next
    case (booked b)
    have "accounts_kept st (st\<lparr>st_ingestions := st_ingestions st @ [b]\<rparr>)" by simp
    moreover have "accounts_kept (st\<lparr>st_ingestions := st_ingestions st @ [b]\<rparr>) st'" using booked(4) by (simp only: advances_def)
    ultimately have "accounts_kept st st'" by (rule accounts_kept_trans)
    with booked show ?thesis using inv by (auto simp: advances_def ingested_def)
  qed
  then show "ledger_inv st \<Longrightarrow> ledger_inv st'" "\<exists>es. st_events st' = st_events st @ es"
    "\<exists>bs. st_batches st' = st_batches st @ bs" "ingested identity st'" "ingested identity st \<Longrightarrow> st' = st"
    "\<exists>bs. st_ingestions st' = st_ingestions st @ bs" "accounts_kept st st'" by blast+
qed

lemma RecordBrokerOutcome_cases:
  obtains (error) e where "RecordBrokerOutcome env c st = (Inl e, st)"
  | (known) plan identity h where "validateBrokerOutcome env (fst c) (snd c) = Inr (plan, identity, h)"
      "RecordBrokerOutcome env c st = (Inr (), st)" "ingested identity st"
  | (booked) plan identity h st' where "validateBrokerOutcome env (fst c) (snd c) = Inr (plan, identity, h)"
      "RecordBrokerOutcome env c st = (Inr (), st')" "record_body env plan identity h st = Inr ((), st')"
proof (cases "validateBrokerOutcome env (fst c) (snd c)")
  case (Inl e)
  then show thesis using error by (simp add: RecordBrokerOutcome_def)
next
  case (Inr v)
  obtain plan identity h where v: "v = (plan, identity, h)" by (cases v)
  have found: "ingested identity st" if "find_ingestion env identity st = Inr (Some b)" for b
    using find_Some_in [of _ "sort_key bi_ID (st_ingestions st)" b] db_first_Inr [OF that [unfolded find_ingestion_def]]
    by (auto simp: ingested_def)
  consider e where "transaction env (record_body env plan identity h) st = (Inl e, st)"
    | st' where "transaction env (record_body env plan identity h) st = (Inr (), st')"
        "record_body env plan identity h st = Inr ((), st')"
    using transaction_cases [of env "record_body env plan identity h" st] by auto
  then show thesis
  proof cases
    case 1
    show thesis
    proof (cases "\<exists>b. find_ingestion env identity st = Inr (Some b) \<and> bi_PayloadHash b = h")
      case True
      then obtain b where b: "find_ingestion env identity st = Inr (Some b)" "bi_PayloadHash b = h" by blast
      have "RecordBrokerOutcome env c st = (Inr (), st)" using Inr v 1 b by (simp add: RecordBrokerOutcome_def)
      then show thesis using known Inr v found [OF b(1)] by simp
    next
      case False
      then have "RecordBrokerOutcome env c st = (Inl (normalizePersistenceError e), st)"
        using Inr v 1 by (simp add: RecordBrokerOutcome_def split: sum.split option.split)
      then show thesis by (rule error)
    qed
  next
    case 2
    then show thesis using Inr v booked by (simp add: RecordBrokerOutcome_def)
  qed
qed

interpretation outcome: ledger_writer RecordBrokerOutcome "\<lambda>_. True"
proof
  fix env c st and e :: ledger_error and r :: unit and st'
  show "RecordBrokerOutcome env c st = (Inl e, st') \<Longrightarrow> st' = st"
    by (rule RecordBrokerOutcome_cases [of env c st]) auto
  show "(\<exists>es. st_events st' = st_events st @ es) \<and> (\<exists>bs. st_batches st' = st_batches st @ bs)
      \<and> (\<exists>bs. st_ingestions st' = st_ingestions st @ bs)"
    if "RecordBrokerOutcome env c st = (Inr r, st')"
    by (rule RecordBrokerOutcome_cases [of env c st]) (use that in \<open>auto dest: record_body_laws\<close>)
  show "accounts_kept st st'" if "RecordBrokerOutcome env c st = (Inr r, st')"
    by (rule RecordBrokerOutcome_cases [of env c st]) (use that in \<open>auto dest: record_body_laws(7)\<close>)
  show "ledger_inv st'" if "RecordBrokerOutcome env c st = (Inr r, st')" "ledger_inv st"
    by (rule RecordBrokerOutcome_cases [of env c st]) (use that in \<open>auto dest: record_body_laws\<close>)
qed

end
