(* ===== verification/Ledger_Steps.thy ===== *)
theory Ledger_Steps
  imports Adapter_Laws
begin

text \<open>
  The ledger as a state machine: one step is one request of any kind, with any outcome, in any environment
  (\<open>ledger_step\<close>); \<open>ledger_reach\<close> is a sequence of steps, \<open>clean_reach\<close> one on which no reversal strands a cost basis.
\<close>

section \<open>Appending through the contract\<close>

lemma AppendAtomic_store: "snd (AppendAtomic env b st) = st \<or> (\<exists>c. snd (AppendAtomic env b st) = snd (ApplyAdjustment env c st))"
  unfolding AppendAtomic_def
  by (auto simp: Let_def split: list.split sum.split prod.split) (metis snd_conv)+

section \<open>Steps\<close>

inductive ledger_step :: "store \<Rightarrow> store \<Rightarrow> bool" where
  fill_step: "ledger_step st (snd (ApplyFill env fc st))"
| adjustment_step: "ledger_step st (snd (ApplyAdjustment env ac st))"
| reversal_step: "ledger_step st (snd (ReverseCashEvent env rc st))"
| correction_step: "ledger_step st (snd (ApplyAssetCorrection env cc st))"
| outcome_step: "ledger_step st (snd (RecordBrokerOutcome env (approved, outcome) st))"
| append_step: "ledger_step st (snd (AppendAtomic env batch st))"

inductive ledger_reach :: "store \<Rightarrow> store \<Rightarrow> bool" where
  start: "ledger_reach st st"
| next_step: "ledger_reach st st1 \<Longrightarrow> ledger_step st1 st2 \<Longrightarrow> ledger_reach st st2"

inductive clean_reach :: "store \<Rightarrow> store \<Rightarrow> bool" where
  clean_start: "clean_reach st st"
| clean_next: "clean_reach st st1 \<Longrightarrow> ledger_step st1 st2 \<Longrightarrow> no_stranded_basis st2 \<Longrightarrow> clean_reach st st2"

lemma ledger_step_history:
  "ledger_step st st' \<Longrightarrow> (\<exists>es. st_events st' = st_events st @ es) \<and> (\<exists>bs. st_batches st' = st_batches st @ bs)
     \<and> (\<exists>bs. st_ingestions st' = st_ingestions st @ bs)"
proof (induction rule: ledger_step.induct)
  case (fill_step st env c)
  show ?case using fill.history by blast
next
  case (adjustment_step st env c)
  show ?case using adjustment.history by blast
next
  case (reversal_step st env c)
  show ?case using reversal.history by blast
next
  case (correction_step st env c)
  show ?case using correction.history by blast
next
  case (outcome_step st env a b)
  show ?case using outcome.history by blast
next
  case (append_step st env b)
  show ?case using AppendAtomic_store [of env b st] adjustment.history by (metis append_Nil2)
qed

lemma ledger_step_states: "ledger_step st st' \<Longrightarrow> accounts_kept st st'"
  by (induction rule: ledger_step.induct)
    (use fill.run_states adjustment.run_states reversal.run_states correction.run_states outcome.run_states
       AppendAtomic_store adjustment.run_states accounts_kept_same in metis)+

lemma ledger_reach_history:
  "ledger_reach st st' \<Longrightarrow> (\<exists>es. st_events st' = st_events st @ es) \<and> (\<exists>bs. st_batches st' = st_batches st @ bs)
     \<and> (\<exists>bs. st_ingestions st' = st_ingestions st @ bs)"
proof (induction rule: ledger_reach.induct)
  case (next_step st st1 st2)
  then show ?case using ledger_step_history [OF next_step(2)] by (metis append_assoc)
qed simp

lemma reach_claimed: "ledger_reach st st' \<Longrightarrow> claimed k st \<Longrightarrow> claimed k st'"
  using ledger_reach_history [of st st'] by (auto simp: claimed_def)

lemma reach_ingested: "ledger_reach st st' \<Longrightarrow> ingested k st \<Longrightarrow> ingested k st'"
  using ledger_reach_history [of st st'] by (auto simp: ingested_def)

lemma ledger_step_inv: "ledger_step st st' \<Longrightarrow> no_stranded_basis st' \<Longrightarrow> ledger_inv st \<Longrightarrow> ledger_inv st'"
proof (induction rule: ledger_step.induct)
  case (fill_step st env c)
  then show ?case using fill.run_keeps by blast
next
  case (adjustment_step st env c)
  then show ?case using adjustment.run_keeps by blast
next
  case (reversal_step st env c)
  then show ?case using reversal.run_keeps by blast
next
  case (correction_step st env c)
  then show ?case using correction.run_keeps by blast
next
  case (outcome_step st env a b)
  then show ?case using outcome.run_keeps by blast
next
  case (append_step st env b)
  then show ?case using AppendAtomic_store [of env b st] adjustment.run_keeps by metis
qed

lemma clean_reach_inv: "clean_reach st st' \<Longrightarrow> ledger_inv st \<Longrightarrow> ledger_inv st'"
  by (induction rule: clean_reach.induct) (auto dest: ledger_step_inv)

lemma inv_no_stranded: "ledger_inv st \<Longrightarrow> no_stranded_basis st"
  by (auto simp: ledger_inv_def positions_ok_def position_ok_def no_stranded_basis_def)

lemma clean_fill: "ledger_inv st \<Longrightarrow> clean_reach st (snd (ApplyFill env c st))"
  using fill.run_keeps inv_no_stranded clean_next [OF clean_start fill_step] by blast

section \<open>Retries of an outcome\<close>

lemma RecordBrokerOutcome_once:
  assumes "ingested identity st" and "validateBrokerOutcome env a b = Inr (plan, identity, h)"
  shows "snd (RecordBrokerOutcome env (a, b) st) = st"
  by (rule RecordBrokerOutcome_cases [of env "(a, b)" st])
    (use assms in \<open>auto dest: record_body_laws(5)\<close>)

lemma RecordBrokerOutcome_ingests:
  assumes "RecordBrokerOutcome env (a, b) st = (Inr (), st')"
  shows "\<exists>plan identity h. validateBrokerOutcome env a b = Inr (plan, identity, h) \<and> ingested identity st'"
  by (rule RecordBrokerOutcome_cases [of env "(a, b)" st])
    (use assms in \<open>auto dest: record_body_laws(4)\<close>)

end
