(* ===== verification/Ledger_Live.thy ===== *)
theory Ledger_Live
  imports Ledger_Ops
begin

text \<open>
  When a fill goes through: with a working database, a ready account, enough cash or holding, and identities that are
  not taken (\<open>fresh_fill\<close>), \<open>ApplyFill\<close> books the fill. Each step of the transaction has its lemma.
\<close>

section \<open>A working database\<close>

definition db_up :: "ledger_env \<Rightarrow> bool" where
  "db_up env \<longleftrightarrow> (\<forall>call st. env_db env call st = None) \<and> (\<forall>stage. env_after_write env stage = None)"

lemma db_up_simps:
  assumes "db_up env"
  shows "db_exec env call st = Inr ()" "db_first env table key P rows st = Inr (find P (sort_key key rows))"
    "db_write env table v st' st = checked v st'" "fail env stage = Inr ()" "allowLedgerProjectionWrites env st = Inr ()"
    "lockAccount env account st = Inr ()"
    "transaction env body st = (case body st of Inl e \<Rightarrow> (Inl e, st) | Inr (x, st') \<Rightarrow> (Inr x, st'))"
  using assms by (simp_all add: db_up_def db_exec_def db_first_def db_write_def checked_def fail_def
      allowLedgerProjectionWrites_def lockAccount_def transaction_def split: sum.split prod.split)

lemma find_sort_None: "find P (sort_key key xs) = None \<longleftrightarrow> (\<forall>x \<in> set xs. \<not> P x)"
  by (auto simp: find_None_iff)

lemma find_unique:
  assumes "x \<in> set xs" and "P x" and "\<And>y. y \<in> set xs \<Longrightarrow> P y \<Longrightarrow> y = x"
  shows "find P (sort_key key xs) = Some x"
proof (cases "find P (sort_key key xs)")
  case None
  with assms(1,2) show ?thesis by (simp add: find_sort_None)
next
  case (Some y)
  from find_Some_in [OF Some] have "y \<in> set xs" "P y" by simp_all
  from assms(3) [OF this] show ?thesis using Some by simp
qed

section \<open>The position\<close>

text \<open>A buy needs an exact projection if there is a position; a sale needs an open, exact, large enough one.\<close>

definition position_fits :: "FillCommand \<Rightarrow> Position list \<Rightarrow> bool" where
  "position_fits c rows \<longleftrightarrow>
     (\<forall>p \<in> set rows. p_Symbol p = fc_Symbol c \<longrightarrow> p_AmountExact p \<noteq> None \<and> p_CostBasisExact p \<noteq> None) \<and>
     (fc_Side c \<noteq> ''buy'' \<longrightarrow> (\<exists>p \<in> set rows. p_Symbol p = fc_Symbol c \<and> p_Status p = ''open''
        \<and> acc_integer (fc_Quantity c) \<le> exact (p_AmountExact p)))"

definition frame :: "store \<Rightarrow> store \<Rightarrow> bool" where
  "frame st st' \<longleftrightarrow> st_wallets st' = st_wallets st \<and> st_orders st' = st_orders st \<and> st_fills st' = st_fills st
     \<and> st_events st' = st_events st"

lemma applyPosition_up:
  assumes up: "db_up env" and pos: "positions_ok (st_next_position st) (st_positions st)"
    and c: "fc_AccountID c = DefaultAccountID" and fits: "position_fits c (st_positions st)"
  shows "\<exists>x st'. applyPosition env c g st = Inr (x, st') \<and> frame st st'"
proof -
  let ?P = "\<lambda>p. p_AccountID p = fc_AccountID c \<and> p_Symbol p = fc_Symbol c"
  have acct: "p_AccountID p = fc_AccountID c" "0 < p_ID p" if "p \<in> set (st_positions st)" for p
    using pos that c by (auto simp: positions_ok_def position_ok_def)
  have uniq: "p = q" if "p \<in> set (st_positions st)" "q \<in> set (st_positions st)" "p_Symbol p = p_Symbol q" for p q
    using pos that by (auto simp: positions_ok_def distinct_map dest: inj_onD)
  show ?thesis
  proof (cases "\<exists>p \<in> set (st_positions st). p_Symbol p = fc_Symbol c")
    case True
    then obtain p where p: "p \<in> set (st_positions st)" "p_Symbol p = fc_Symbol c" by blast
    then have found: "find ?P (sort_key p_ID (st_positions st)) = Some p"
      by (intro find_unique) (auto simp: acct uniq)
    have exact: "p_AmountExact p \<noteq> None" "p_CostBasisExact p \<noteq> None" using fits p by (auto simp: position_fits_def)
    show ?thesis
    proof (cases "fc_Side c = ''buy''")
      case True
      then show ?thesis
        using found exact acct(2) [OF p(1)]
        by (auto simp: applyPosition_def applyBuy_def buy_base_def buy_update_def db_up_simps [OF up] save_position_def
            checked_def frame_def Let_def)
    next
      case False
      then obtain q where q: "q \<in> set (st_positions st)" "p_Symbol q = fc_Symbol c" "p_Status q = ''open''"
        "acc_integer (fc_Quantity c) \<le> exact (p_AmountExact q)"
        using fits by (auto simp: position_fits_def)
      then have "q = p" using uniq p by simp
      then have "p_Status p = ''open''" "acc_integer (fc_Quantity c) \<le> acc_integer (opt0 (p_AmountExact p))"
        using q by simp_all
      then show ?thesis
        using found exact False
        by (auto simp: applyPosition_def applySell_def db_up_simps [OF up] save_position_def checked_def frame_def
            Let_def sgn_if)
    qed
  next
    case False
    then have found: "find ?P (sort_key p_ID (st_positions st)) = None" by (auto simp: find_sort_None)
    have "fc_Side c = ''buy''" using fits False by (auto simp: position_fits_def)
    moreover have "fc_Symbol c \<notin> p_Symbol ` set (st_positions st)" using False by auto
    ultimately show ?thesis
      using found
      by (auto simp: applyPosition_def applyBuy_def buy_base_def buy_update_def zero_Position_def db_up_simps [OF up]
          create_position_def checked_def frame_def Let_def)
  qed
qed

section \<open>The order, the fill and the events\<close>

lemma upsertFilledOrder_up:
  assumes up: "db_up env" and c: "fc_ExistingOrderID c = 0"
  shows "\<exists>r st'. upsertFilledOrder env c g st = Inr (r, st') \<and> st_fills st' = st_fills st \<and> st_events st' = st_events st"
proof -
  obtain r where r: "base_order env c st = Inr r" "o_RequestedQuantityExact r = None" "o_ID r = 0"
    using c by (auto simp: base_order_def zero_Order_def)
  obtain r' where "update_order env c g r = Inr r'" "o_ID r' = 0"
    using r(2,3) by (cases "update_order env c g r") (auto simp: update_order_def Let_def order_totals_def split: option.splits if_splits prod.splits)
  then show ?thesis using r(1) by (auto simp: upsertFilledOrder_def create_order_def db_up_simps [OF up] checked_def Let_def)
qed

text \<open>Nothing of the fill's identity is taken.\<close>

definition fresh_fill :: "ledger_env \<Rightarrow> FillCommand \<Rightarrow> store \<Rightarrow> bool" where
  "fresh_fill env c st \<longleftrightarrow>
     (\<forall>f \<in> set (st_fills st). f_ID f \<noteq> stableID env ''fill'' (fc_IdempotencyKey c) \<and> f_LedgerBatchID f \<noteq> fc_IdempotencyKey c
        \<and> (f_ProviderFillID f = None \<or> f_ProviderFillID f \<noteq> stringPtrOrNil (fc_ProviderFillID c))) \<and>
     (\<forall>e \<in> set (st_events st). e_ID e \<noteq> stableID env ''event-fill'' (fc_IdempotencyKey c)
        \<and> e_ID e \<noteq> stableID env ''event-fee'' (fc_IdempotencyKey c) \<and> e_LedgerBatchID e \<noteq> fc_IdempotencyKey c
        \<and> e_IdempotencyKey e \<noteq> fc_IdempotencyKey c @ '':fill'' \<and> e_IdempotencyKey e \<noteq> fc_IdempotencyKey c @ '':fee'')"

lemma create_fill_up:
  assumes up: "db_up env" and fresh: "fresh_fill env c st" and fee: "acc_Valid (fc_Fee c)" and eq: "st_fills st' = st_fills st"
  shows "\<exists>f st''. create_fill env (fill_row env c g rec order position) st' = Inr (f, st'') \<and> st_events st'' = st_events st'"
proof -
  define row where "row = (fill_row env c g rec order position)
      \<lparr>f_VenueID := with_default (fc_VenueID c) ''internal'', f_CostModelVersion := with_default (fc_CostModelVersion c) ''unknown'',
       f_Stage08ContextJSON := with_default (metadataJSONForCommand env c) ''{}''\<rparr>"
  have keys: "f_ID row = stableID env ''fill'' (fc_IdempotencyKey c)" "f_LedgerBatchID row = fc_IdempotencyKey c"
    "f_ProviderFillID row = stringPtrOrNil (fc_ProviderFillID c)" "f_FeeAmount row = fc_Fee c"
    by (simp_all add: row_def fill_row_def)
  have "f_ID row \<notin> f_ID ` set (st_fills st)" "f_LedgerBatchID row \<notin> f_LedgerBatchID ` set (st_fills st)"
    using fresh by (auto simp: keys fresh_fill_def image_iff)
  moreover have "\<not> (f_ProviderFillID row \<noteq> None \<and> list_ex (\<lambda>g. f_ProviderFillID g = f_ProviderFillID row
        \<and> f_AccountID g = f_AccountID row \<and> f_VenueID g = f_VenueID row) (st_fills st))"
    using fresh unfolding keys fresh_fill_def list_ex_iff by metis
  ultimately
  have "fill_violation (st_fills st') row = None"
    using fee unfolding eq by (simp add: fill_violation_def keys(4))
  moreover have "create_fill env (fill_row env c g rec order position) st'
    = and_then (checked (fill_violation (st_fills st') row) (st'\<lparr>st_fills := st_fills st' @ [row]\<rparr>)) (\<lambda>st''. Inr (row, st''))"
    by (simp add: create_fill_def Let_def db_up_simps [OF up] row_def fill_row_def)
  ultimately show ?thesis by (auto simp: checked_def)
qed

lemma create_events_up:
  assumes up: "db_up env" and fresh: "fresh_fill env c st" and eq: "st_events st' = st_events st"
  shows "\<exists>es st''. create_events env (fill_events env c cd ad rl bd md rec order position) st' = Inr (es, st'')"
proof -
  have "events_violation (st_events st)
      (map event_defaults (fill_events env c cd ad rl bd md rec order position)) = None"
    using fresh
    by (auto simp: fill_events_def event_violation_def event_defaults_def fill_event_def fee_event_def fresh_fill_def
        list_ex_iff stableID_def)
  then show ?thesis by (auto simp: create_events_def Let_def db_up_simps [OF up] checked_def eq)
qed

section \<open>The fill\<close>

definition funded :: "FillCommand \<Rightarrow> store \<Rightarrow> bool" where
  "funded c st \<longleftrightarrow> (\<exists>w. st_wallets st = [w] \<and> w_BalanceExact w \<noteq> None \<and> equal_fold (w_Currency w) (fc_Currency c)
     \<and> acc_integer (fc_Fee c) \<le> exact (w_BalanceExact w) + acc_integer (cash_delta c (gross_of c)))"

lemma post_fill_up:
  assumes up: "db_up env" and inv: "ledger_inv st" and c: "fc_AccountID c = DefaultAccountID" "fc_ExistingOrderID c = 0"
    and fee: "acc_Valid (fc_Fee c)" and fits: "position_fits c (st_positions st)" and funded: "funded c st"
    and fresh: "fresh_fill env c st"
  shows "\<exists>r st'. post_fill env c md rec st = Inr (r, st')"
proof -
  obtain w where w: "st_wallets st = [w]" "w_BalanceExact w \<noteq> None" "equal_fold (w_Currency w) (fc_Currency c)"
    and cash: "acc_integer (fc_Fee c) \<le> exact (w_BalanceExact w) + acc_integer (cash_delta c (gross_of c))"
    using funded by (auto simp: funded_def)
  have first: "first_wallet env st = Inr w" by (simp add: first_wallet_def w(1) db_require_def db_up_simps [OF up])
  define newCash where "newCash = acc_Sub (acc_Add (opt0 (w_BalanceExact w)) (cash_delta c (gross_of c))) (fc_Fee c)"
  have "positions_ok (st_next_position st) (st_positions st)" using inv by (simp add: ledger_inv_def)
  from applyPosition_up [OF up this c(1) fits] obtain position realized basis st1 where
    1: "applyPosition env c (gross_of c) st = Inr ((position, realized, basis), st1)" "frame st st1"
    by (metis prod_cases3)
  obtain w' st2 where 2: "save_wallet env (w\<lparr>w_BalanceExact := Some newCash, w_Balance := acc_Float64 env newCash\<rparr>) st1 = Inr (w', st2)"
    "st_fills st2 = st_fills st1" "st_events st2 = st_events st1"
    by (auto simp: save_wallet_def Let_def db_up_simps [OF up] checked_def)
  obtain order st3 where 3: "upsertFilledOrder env c (gross_of c) st2 = Inr (order, st3)"
    "st_fills st3 = st_fills st2" "st_events st3 = st_events st2"
    using upsertFilledOrder_up [OF up c(2)] by metis
  have same: "st_fills st3 = st_fills st" "st_events st3 = st_events st"
    using 1(2) 2(2,3) 3(2,3) by (simp_all add: frame_def)
  obtain f st4 where 4: "create_fill env (fill_row env c (gross_of c) rec order position) st3 = Inr (f, st4)"
    "st_events st4 = st_events st3"
    using create_fill_up [OF up fresh fee same(1)] by metis
  obtain es st5 where 5: "create_events env (fill_events env c (cash_delta c (gross_of c)) (asset_delta c) realized basis md rec
      order position) st4 = Inr (es, st5)"
    using create_events_up [OF up fresh] 4(2) same(2) by metis
  have "\<exists>r. write_fill env c md rec w (gross_of c) newCash st = Inr (r, st5)"
    by (simp add: write_fill_def 1(1) 2(1) 3(1) 4(1) 5 db_up_simps [OF up])
  moreover have "post_fill env c md rec st = write_fill env c md rec w (gross_of c) newCash st"
    using w(2,3) cash by (auto simp: post_fill_def first Let_def newCash_def sgn_if)
  ultimately show ?thesis by metis
qed

lemma fill_body_up:
  assumes up: "db_up env" and inv: "ledger_inv st" and prep: "prepare_fill env c = Inr (c', h, md, rec)"
    and unclaimed: "\<not> claimed (fc_IdempotencyKey c) st" and ready: "requireReady env (fc_AccountID c') st = Inr ()"
    and c: "fc_ExistingOrderID c' = 0" "acc_Valid (fc_Fee c')"
    and fits: "position_fits c' (st_positions st)" and funded: "funded c' st" and fresh: "fresh_fill env c' st"
  shows "\<exists>r st'. fill_body env c' h md rec st = Inr (r, st')"
proof -
  note c' = prepare_fill_Inr [OF prep]
  have none: "find (\<lambda>b. b_ID b = fc_IdempotencyKey c') (sort_key b_ID (st_batches st)) = None"
    using unclaimed by (auto simp: find_sort_None claimed_def c'(2) image_iff)
  define st0 where "st0 = st\<lparr>st_batches := st_batches st @ [\<lparr>b_ID = fc_IdempotencyKey c', b_AccountID = fc_AccountID c',
      b_PayloadHash = h, b_CreatedAt = fc_OccurredAt c'\<rparr>]\<rparr>"
  have claim: "beginBatch env (fc_IdempotencyKey c') (fc_AccountID c') h (fc_OccurredAt c') st = Inr (False, st0)"
    using unclaimed
    by (simp add: beginBatch_def db_up_simps [OF up] none c'(2) [symmetric] create_batch_def batch_violation_def checked_def
        st0_def claimed_def)
  have ready0: "requireReady env (fc_AccountID c') st0 = Inr ()"
    using ready by (simp add: requireReady_def find_state_def db_up_simps [OF up] st0_def)
  have inv0: "ledger_inv st0" using inv by (simp add: ledger_inv_def cash_ok_def st0_def)
  have "\<exists>r st'. post_fill env c' md rec st0 = Inr (r, st')"
    by (rule post_fill_up [OF up inv0 _ c])
      (use c'(1) fits funded fresh in \<open>simp_all add: st0_def funded_def fresh_fill_def fill_valid_def\<close>)
  then obtain r st' where "post_fill env c' md rec st0 = Inr (r, st')" by blast
  then show ?thesis
    by (simp add: fill_body_def claim_or_replay_def db_up_simps [OF up] claim ready0)
qed

text \<open>In a transaction of its own, and in the caller's.\<close>

lemma ApplyFill_up:
  assumes up: "db_up env" and "ledger_inv st" and prep: "prepare_fill env c = Inr (c', h, md, rec)"
    and "\<not> claimed (fc_IdempotencyKey c) st" and "requireReady env (fc_AccountID c') st = Inr ()"
    and "fc_ExistingOrderID c' = 0" "acc_Valid (fc_Fee c')"
    and "position_fits c' (st_positions st)" and "funded c' st" and "fresh_fill env c' st"
  shows "\<exists>r st'. ApplyFill env c st = (Inr r, st')" "\<exists>r st'. ApplyFill_with nested env c st = (Inr r, st')"
  using fill_body_up [OF assms]
  by (auto simp: ApplyFill_def ApplyFill_with_def prep db_up_simps [OF up] normalized_def nested_def)

end
