(* ===== verification/Outcome_Laws.thy ===== *)
theory Outcome_Laws
  imports Adapter_Laws
begin

text \<open>
  What a validated broker outcome guarantees: every approved intent is resolved exactly once, by an accepted order or
  by a rejection, and the plan of an accepted order conserves its quantity.
\<close>

section \<open>The intents\<close>

lemma AList_update_keys: "fst ` set (AList.update k v m) = insert k (fst ` set m)"
  using dom_update [of k v m] by (simp add: dom_map_of_conv_image_fst)

lemma index_intents_Inr:
  assumes "index_intents is m ks = Inr (m', ks')" and "distinct (map fst m)"
  shows "distinct (map fst m') \<and> fst ` set m' = fst ` set m \<union> oi_ID ` set is \<and> ks' = ks @ map oi_IdempotencyKey is
    \<and> (\<forall>i \<in> set is. economic_mode (oi_ExecutionMode i) \<and> requirePrimaryAccount (oi_AccountID i) = None)"
  using assms
proof (induction "is" arbitrary: m ks)
  case (Cons i "is")
  then have acc: "requirePrimaryAccount (oi_AccountID i) = None" and mode: "economic_mode (oi_ExecutionMode i)"
    and rest: "index_intents is (AList.update (oi_ID i) i m) (ks @ [oi_IdempotencyKey i]) = Inr (m', ks')"
    by (auto split: option.splits if_splits)
  have "distinct (map fst (AList.update (oi_ID i) i m))" using Cons.prems(2) by (rule distinct_update)
  from Cons.IH [OF rest this] show ?case using acc mode by (auto simp: AList_update_keys)
qed simp

section \<open>Accepted orders\<close>

definition total :: "FillCommand list \<Rightarrow> int" where
  "total cs = (\<Sum>c\<leftarrow>cs. acc_integer (fc_Quantity c))"

lemma plan_fills_Inr:
  assumes "plan_fills env intent accepted md fills pf executed commands = Inr (pf', executed', commands')"
  shows "\<exists>cs. commands' = commands @ cs \<and> length cs = length fills
    \<and> acc_integer executed' = acc_integer executed + total cs
    \<and> pf' = rev (map cf_ProviderFillID fills) @ pf \<and> (distinct pf \<longrightarrow> distinct pf')"
  using assms
proof (induction fills arbitrary: pf executed commands)
  case (Cons f fills)
  let ?c = "fill_command env intent accepted md f"
  have new: "cf_ProviderFillID f \<notin> set pf" using Cons.prems by (auto split: if_splits)
  have rest: "plan_fills env intent accepted md fills (cf_ProviderFillID f # pf)
      (acc_Add executed (parse_core (qty_Decimal (cf_Quantity f)))) (commands @ [?c]) = Inr (pf', executed', commands')"
    using Cons.prems by (auto split: if_splits)
  from Cons.IH [OF rest] obtain cs where cs: "commands' = commands @ ?c # cs" "length cs = length fills"
    "acc_integer executed' = acc_integer (acc_Add executed (parse_core (qty_Decimal (cf_Quantity f)))) + total cs"
    "pf' = rev (map cf_ProviderFillID fills) @ cf_ProviderFillID f # pf"
    "distinct (cf_ProviderFillID f # pf) \<longrightarrow> distinct pf'"
    by auto
  have "fc_Quantity ?c = parse_core (qty_Decimal (cf_Quantity f))" by (simp add: fill_command_def Let_def)
  then show ?case using cs new by (intro exI [of _ "?c # cs"]) (simp add: total_def)
qed (simp add: total_def)

definition plan_conserves :: "outcomePlan \<Rightarrow> bool" where
  "plan_conserves item \<longleftrightarrow>
     acc_integer (op_requested item) = total (op_commands item) + acc_integer (op_remaining item)
     \<and> 0 \<le> acc_integer (op_remaining item) \<and> length (op_commands item) = length (ao_Fills (op_accepted item))
     \<and> (ao_Status (op_accepted item) = BrokerFilled \<longrightarrow> acc_integer (op_remaining item) = 0)"

lemma plan_order_Inr:
  assumes "plan_order env intent accepted pf = Inr (pf', item, entry)"
  shows "op_accepted item = accepted" "op_intent item = intent" "plan_conserves item"
    "oi_ExecutionMode intent \<noteq> ExecutionLimitedLive" "oi_ExecutionMode intent \<noteq> ExecutionFullLive"
proof -
  have mode: "\<not> (oi_ExecutionMode intent = ExecutionLimitedLive \<or> oi_ExecutionMode intent = ExecutionFullLive)"
    using assms unfolding plan_order_def by (metis sum.distinct(1))
  then show "oi_ExecutionMode intent \<noteq> ExecutionLimitedLive" "oi_ExecutionMode intent \<noteq> ExecutionFullLive" by blast+
  obtain executed commands where
    fills: "plan_fills env intent accepted (oi_Metadata intent) (ao_Fills accepted) pf acc_Zero [] = Inr (pf', executed, commands)"
    and rest: "(let requested = parse_core (qty_Decimal (oi_Quantity intent));
             remaining = (case ao_Remaining accepted of None \<Rightarrow> acc_Sub requested executed
                            | Some v \<Rightarrow> parse_core (qty_Decimal v))
           in \<not> (acc_Cmp (acc_Add executed remaining) requested \<noteq> 0 \<or> acc_Sign remaining < 0)
              \<and> \<not> (ao_Status accepted = BrokerFilled \<and> acc_Sign remaining \<noteq> 0)
              \<and> item = \<lparr>op_intent = intent, op_accepted = accepted, op_requested = requested, op_remaining = remaining,
                      op_symbol = inst_BaseAsset (oi_Instrument intent), op_commands = commands\<rparr>)"
    using assms mode unfolding plan_order_def
    by (auto simp: Let_def and_then_eq_Inr split: if_splits)
  show "op_accepted item = accepted" "op_intent item = intent" using rest by (simp_all add: Let_def)
  from plan_fills_Inr [OF fills] show "plan_conserves item"
    using rest by (auto simp: Let_def plan_conserves_def sgn_if split: if_splits)
qed

lemma plan_accepted_Inr:
  assumes "plan_accepted env m as seen pf plans payload = Inr (seen', plans', payload')"
  shows "seen' = rev (map ao_OrderID as) @ seen \<and> (distinct seen \<longrightarrow> distinct seen')
    \<and> ao_OrderID ` set as \<subseteq> fst ` set m
    \<and> (\<exists>new. plans' = plans @ new \<and> map op_accepted new = as \<and> (\<forall>item \<in> set new. plan_conserves item))"
  using assms
proof (induction "as" arbitrary: seen pf plans payload)
  case (Cons a "as")
  then obtain intent where i: "map_of m (ao_OrderID a) = Some intent" "ao_OrderID a \<notin> set seen"
    by (auto split: option.splits if_splits)
  with Cons.prems obtain pf' item entry where o: "plan_order env intent a pf = Inr (pf', item, entry)"
    and rest: "plan_accepted env m as (ao_OrderID a # seen) pf' (plans @ [item]) (payload @ [entry]) = Inr (seen', plans', payload')"
    by (auto simp: and_then_eq_Inr)
  note step = plan_order_Inr [OF o]
  note ih = Cons.IH [OF rest]
  obtain new where new: "plans' = plans @ item # new" "map op_accepted new = as" "\<forall>item \<in> set new. plan_conserves item"
    using ih by (elim conjE exE) (simp del: map_eq_conv)
  have "\<exists>new. plans' = plans @ new \<and> map op_accepted new = a # as \<and> (\<forall>item \<in> set new. plan_conserves item)"
    using new step(1,3) by (intro exI [of _ "item # new"]) simp
  moreover have "ao_OrderID a \<in> fst ` set m" using i(1) by (metis domI dom_map_of_conv_image_fst)
  moreover have "seen' = rev (map ao_OrderID (a # as)) @ seen" "distinct seen \<longrightarrow> distinct seen'"
    "ao_OrderID ` set as \<subseteq> fst ` set m"
    using ih i(2) by (elim conjE, simp)+
  ultimately show ?case by simp
qed simp

lemma plan_rejected_Inr:
  assumes "plan_rejected m rs seen payload = Inr (seen', payload')"
  shows "seen' = rev (map or_OrderID rs) @ seen \<and> (distinct seen \<longrightarrow> distinct seen') \<and> or_OrderID ` set rs \<subseteq> fst ` set m"
  using assms
proof (induction rs arbitrary: seen payload)
  case (Cons r rs)
  then obtain intent where i: "map_of m (or_OrderID r) = Some intent" "or_OrderID r \<notin> set seen"
    and rest: "plan_rejected m rs (or_OrderID r # seen)
      (payload @ [RejectedPayload (oi_IdempotencyKey intent) (or_Code r)]) = Inr (seen', payload')"
    by (auto split: option.splits if_splits)
  have "or_OrderID r \<in> fst ` set m" using i(1) by (metis domI dom_map_of_conv_image_fst)
  moreover have "seen' = rev (map or_OrderID (r # rs)) @ seen" "distinct seen \<longrightarrow> distinct seen'"
    "or_OrderID ` set rs \<subseteq> fst ` set m"
    using Cons.IH [OF rest] i(2) by (elim conjE, simp)+
  ultimately show ?case by simp
qed simp

section \<open>The whole outcome\<close>

lemma validateBrokerOutcome_Inr:
  assumes "validateBrokerOutcome env approved outcome = Inr (plan, identity, h)"
  shows "bo_Completeness outcome = OutcomeComplete"
    "distinct (map ao_OrderID (bo_Accepted outcome) @ map or_OrderID (bo_Rejected outcome))"
    "set (map ao_OrderID (bo_Accepted outcome) @ map or_OrderID (bo_Rejected outcome)) = oi_ID ` set (db_Intents approved)"
    "map op_accepted plan = bo_Accepted outcome" "\<forall>item \<in> set plan. plan_conserves item"
proof -
  show complete: "bo_Completeness outcome = OutcomeComplete"
    using assms by (auto simp: validateBrokerOutcome_def split: if_splits)
  obtain m ks seen payload seen' payload' where
    1: "index_intents (db_Intents approved) [] [] = Inr (m, ks)"
    and 2: "plan_accepted env m (bo_Accepted outcome) [] [] [] [] = Inr (seen, plan, payload)"
    and 3: "plan_rejected m (bo_Rejected outcome) seen payload = Inr (seen', payload')"
    and len: "length seen' = length m"
    using assms complete by (auto simp: validateBrokerOutcome_def and_then_eq_Inr Let_def split: if_splits)
  from index_intents_Inr [OF 1] have m: "distinct (map fst m)" "fst ` set m = oi_ID ` set (db_Intents approved)" by auto
  from plan_accepted_Inr [OF 2] have s: "seen = rev (map ao_OrderID (bo_Accepted outcome))" "distinct seen"
    "ao_OrderID ` set (bo_Accepted outcome) \<subseteq> fst ` set m"
    unfolding append_Nil2 by (elim conjE, simp only: distinct.simps simp_thms)+
  from plan_rejected_Inr [OF 3] s(2) have s': "seen' = rev (map or_OrderID (bo_Rejected outcome)) @ seen" "distinct seen'"
    "or_OrderID ` set (bo_Rejected outcome) \<subseteq> fst ` set m" by (elim conjE, blast)+
  have "set seen' = fst ` set m"
  proof (rule card_subset_eq)
    show "set seen' \<subseteq> fst ` set m" using s(3) s'(3) by (simp add: s'(1) s(1))
    have "card (fst ` set m) = length m" using m(1) distinct_card [of "map fst m"] by simp
    then show "card (set seen') = card (fst ` set m)" using len distinct_card [OF s'(2)] by simp
  qed simp
  then show "set (map ao_OrderID (bo_Accepted outcome) @ map or_OrderID (bo_Rejected outcome)) = oi_ID ` set (db_Intents approved)"
    using m(2) by (simp add: s'(1) s(1) Un_commute)
  show "distinct (map ao_OrderID (bo_Accepted outcome) @ map or_OrderID (bo_Rejected outcome))"
    using s'(2) distinct_rev [of seen'] by (simp add: s'(1) s(1))
  show "map op_accepted plan = bo_Accepted outcome" "\<forall>item \<in> set plan. plan_conserves item"
    using plan_accepted_Inr [OF 2] by (elim conjE exE, simp)+
qed

end
