(* ===== verification/Ledger_Samples.thy ===== *)
theory Ledger_Samples
  imports Ledger_Steps Ledger_Live Outcome_Laws Samples
begin

text \<open>
  A concrete ledger on which the witnesses evaluate the model: a database that never fails, a clock that stands at
  1000, JSON and digests that return a fixed text or their input, and an account that is ready with 1000 USDT in cash
  from one deposit. \<open>sample_fill\<close> buys 2 BTC at 100 for a fee of 1.
\<close>

definition ledger_codec :: codec where
  "ledger_codec = \<lparr>cd_Marshal = (\<lambda>_. Inr ''{}''), cd_sha256hex = (\<lambda>s. s)\<rparr>"

definition sample_env :: ledger_env where
  "sample_env = \<lparr>env_db = (\<lambda>_ _. None), env_connected = True, env_now = (\<lambda>_ _. 1000), env_after_write = (\<lambda>_. None),
     env_codec = ledger_codec,
     env_active = \<lparr>as_flags = zero_Flags, as_snapshotID = '''', as_authority = '''', as_initialized = False\<rparr>,
     env_MarshalFill = (\<lambda>c. Inr (fc_Symbol c @ fc_Side c)),
     env_MarshalAdjustment = (\<lambda>c. Inr (ac_Type c)), env_MarshalReversal = (\<lambda>c. Inr (rc_OriginalEventID c)),
     env_MarshalCorrection = (\<lambda>c. Inr (cc_Symbol c)), env_MarshalOutcome = (\<lambda>_. ''outcome''), env_Error = (\<lambda>_. ''error''),
     env_ParseFloat = (\<lambda>_. (0, True)), env_FormatFloat = (\<lambda>_. ''0''), env_fsub_mul = (\<lambda>_ _ _. 0),
     env_fpositive = (\<lambda>_. False), env_UnmarshalStrings = (\<lambda>_. None)\<rparr>"

definition sample_wallet :: Wallet where
  "sample_wallet = \<lparr>w_ID = 1, w_Balance = 0, w_BalanceExact = Some (AccDecimal (Some (1000 * acc_factor))),
     w_Currency = ''USDT'', w_AccountID = ''primary'', w_CreatedAt = 1, w_UpdatedAt = 1\<rparr>"

definition sample_deposit :: LedgerEvent where
  "sample_deposit = \<lparr>e_ID = ''e0'', e_LedgerBatchID = ''b0'', e_Sequence = 1, e_IdempotencyKey = ''b0:adjustment'',
     e_EventType = EventCapitalDeposit, e_AccountID = ''primary'', e_VenueID = ''internal'', e_Currency = ''USDT'',
     e_Symbol = '''', e_CashDelta = AccDecimal (Some (1000 * acc_factor)), e_AssetDelta = acc_Zero, e_OrderID = None,
     e_FillID = None, e_PositionID = None, e_ExecutionMode = ''administrative'', e_StrategyVersion = '''',
     e_PolicyVersion = '''', e_Actor = ''admin'', e_Reason = ''seed'', e_ReversesEventID = None, e_RealizedPnL = acc_Zero,
     e_CostBasisDelta = acc_Zero, e_FeeDelta = acc_Zero, e_MetadataJSON = ''{}'', e_Stage08ContextJSON = ''{}'',
     e_OccurredAt = 1, e_RecordedAt = 1\<rparr>"

definition sample_store :: store where
  "sample_store = \<lparr>st_wallets = [sample_wallet], st_positions = [], st_orders = [],
     st_batches = [\<lparr>b_ID = ''b0'', b_AccountID = ''primary'', b_PayloadHash = ''h0'', b_CreatedAt = 1\<rparr>],
     st_ingestions = [], st_fills = [], st_events = [sample_deposit],
     st_states = [\<lparr>ms_AccountID = ''primary'', ms_Status = ''ready'', ms_OpeningEventID = None, ms_UnresolvedJSON = '''',
                   ms_ApprovedBy = None, ms_ApprovedAt = None, ms_CreatedAt = 1, ms_UpdatedAt = 1\<rparr>],
     st_next_position = 1, st_next_order = 1\<rparr>"

definition sample_fill :: FillCommand where
  "sample_fill = \<lparr>fc_IdempotencyKey = ''k1'', fc_AccountID = ''primary'', fc_Symbol = ''BTC'', fc_Side = ''buy'',
     fc_Quantity = AccDecimal (Some (2 * acc_factor)), fc_RequestedPrice = AccDecimal (Some (100 * acc_factor)),
     fc_FillPrice = AccDecimal (Some (100 * acc_factor)), fc_Fee = AccDecimal (Some acc_factor),
     fc_FeeType = EventTradingFee, fc_Currency = ''USDT'', fc_ExecutionMode = ''paper'', fc_ProviderFillID = ''pf1'',
     fc_ProviderOrderID = ''po1'', fc_VenueID = ''binance'', fc_FeeCurrency = ''USDT'', fc_OrderStatus = ''filled'',
     fc_ExistingOrderID = 0, fc_ClientOrderID = '''', fc_OccurredAt = 10, fc_Actor = ''bot'', fc_Reason = ''signal'',
     fc_StrategyVersion = ''s1'', fc_PolicyVersion = ''p1'', fc_CostModelVersion = ''c1'', fc_Metadata = None,
     fc_EntrySource = ''auto_trend'', fc_DecisionTimeframe = ''15m'', fc_ModelVersion = '''', fc_UniverseMode = '''',
     fc_RolloutState = '''', fc_ExperimentID = None, fc_PredictionLogID = None, fc_DecisionContextJSON = '''',
     fc_StopPrice = None, fc_TakeProfitPrice = None, fc_TrailingStopPrice = None, fc_LastAtrValue = None,
     fc_MaxBarsHeld = None\<rparr>"

text \<open>An approved intent of the trading core, filled completely.\<close>

definition ledger_intent :: OrderIntent where
  "ledger_intent = (sample_intent ''a'' Buy 1)\<lparr>oi_AccountID := ''primary'',
     oi_metadata := Some [(''cost_policy_version'', ''costs-v1'')]\<rparr>"

definition ledger_order :: AcceptedOrder where
  "ledger_order = \<lparr>ao_OrderID = ''a'', ao_ProviderOrderID = ''po-a'', ao_Status = BrokerFilled, ao_AcceptedAt = 9,
     ao_Remaining = None, ao_fills =
       [\<lparr>cf_ID = ''f1'', cf_OrderID = ''a'', cf_ProviderFillID = ''pf-a'', cf_Instrument = sample_instrument, cf_Side = Buy,
         cf_Quantity = Quantity (mk_dec 25 1), cf_Price = Price (mk_dec 100 0), cf_Fee = SignedAmount (mk_dec 25 2),
         cf_FeeAsset = ''USDT'', cf_OrderedAt = 3, cf_SubmittedAt = 9, cf_AcceptedAt = 9, cf_FilledAt = 9,
         cf_Versions = zero_VersionContext, cf_Provenance = zero_Provenance, cf_CostModelVersion = ''costs-v1''\<rparr>]\<rparr>"

definition ledger_batch :: DecisionBatch where
  "ledger_batch = DecisionBatch [ledger_intent]"

definition ledger_outcome :: BrokerBatchOutcome where
  "ledger_outcome = \<lparr>bo_Completeness = OutcomeComplete, bo_Accepted = [ledger_order], bo_Rejected = []\<rparr>"

text \<open>The same batch, with the intent rejected.\<close>

definition ledger_rejection :: BrokerBatchOutcome where
  "ledger_rejection = \<lparr>bo_Completeness = OutcomeComplete, bo_Accepted = [], bo_Rejected =
     [\<lparr>or_OrderID = ''a'', or_Code = ''closed'', or_Message = ''closed'', or_EvaluatedAt = 9, or_PolicyVersion = ''p1''\<rparr>]\<rparr>"

section \<open>Facts about the samples\<close>

lemma sample_up: "db_up sample_env"
  by (simp add: db_up_def sample_env_def)

lemma sample_store_inv: "ledger_inv sample_store"
  by (auto simp: ledger_inv_def cash_ok_def positions_ok_def orders_ok_def symbols_ok_def event_ok_def
      sample_store_def sample_wallet_def sample_deposit_def DefaultAccountID_def acc_factor_def)

lemma sample_prepared:
  "prepare_fill sample_env sample_fill = Inr (sample_fill, ''BTCbuy'', ''{}'', 1000)"
  by code_simp

lemma sample_gross: "gross_of sample_fill = AccDecimal (Some (200 * acc_factor))"
  by code_simp

lemma sample_ready: "requireReady sample_env ''primary'' sample_store = Inr ()"
  by (simp add: requireReady_def find_state_def db_up_simps [OF sample_up] sample_store_def)

lemma sample_fits: "position_fits sample_fill (st_positions sample_store)"
  by (simp add: position_fits_def sample_fill_def sample_store_def)

lemma sample_funded: "funded sample_fill sample_store"
proof -
  have "acc_integer (cash_delta sample_fill (gross_of sample_fill)) = - (200 * acc_factor)"
    unfolding sample_gross by (simp add: cash_delta_def sample_fill_def)
  then show ?thesis by (simp add: funded_def sample_store_def sample_wallet_def sample_fill_def acc_factor_def)
qed

lemma sample_fresh: "fresh_fill sample_env sample_fill sample_store"
  by (simp add: fresh_fill_def sample_store_def sample_deposit_def sample_fill_def stableID_def)

lemma sample_unclaimed: "\<not> claimed (fc_IdempotencyKey sample_fill) sample_store"
  by (simp add: claimed_def sample_store_def sample_fill_def)

lemma sample_fill_fields:
  "fc_AccountID sample_fill = ''primary''" "fc_ExistingOrderID sample_fill = 0" "acc_Valid (fc_Fee sample_fill)"
  "fc_IdempotencyKey sample_fill = ''k1''"
  by (simp_all add: sample_fill_def)

lemma sample_fill_booked: "\<exists>r st'. ApplyFill sample_env sample_fill sample_store = (Inr r, st')"
  by (rule ApplyFill_up(1) [OF sample_up sample_store_inv sample_prepared sample_unclaimed _ sample_fill_fields(2,3)
        sample_fits sample_funded sample_fresh])
    (simp add: sample_fill_fields sample_ready)

lemma parse_core_mk: "s \<le> MaxDecimalScale \<Longrightarrow> parse_core (mk_dec i s) = AccDecimal (Some (i * 10 ^ (acc_Scale - s)))"
  by (simp add: parse_core_def acc_Parse_dec_String_mk)

lemma ledger_order_planned:
  "\<exists>item entry. plan_order sample_env ledger_intent ledger_order [] = Inr ([''pf-a''], item, entry)"
proof -
  have intent: "oi_ExecutionMode ledger_intent = ExecutionPaper" "oi_Side ledger_intent = Buy"
    "oi_Instrument ledger_intent = sample_instrument" "oi_Quantity ledger_intent = Quantity (mk_dec 25 1)"
    "meta_at (oi_Metadata ledger_intent) ''cost_policy_version'' = ''costs-v1''"
    by (simp_all add: ledger_intent_def sample_intent_def oi_Metadata_def meta_at_def str_at_def)
  obtain f where fills: "ao_Fills ledger_order = [f]" and f: "cf_Instrument f = sample_instrument" "cf_Side f = Buy"
    "cf_FeeAsset f = ''USDT''" "cf_ProviderFillID f = ''pf-a''" "cf_CostModelVersion f = ''costs-v1''"
    "cf_Quantity f = Quantity (mk_dec 25 1)"
    by (simp add: ledger_order_def ao_Fills_def)
  have asset: "inst_QuoteAsset sample_instrument = ''USDT''" by (simp add: sample_instrument_def)
  obtain cs where "plan_fills sample_env ledger_intent ledger_order (oi_Metadata ledger_intent) [f] [] acc_Zero []
      = Inr ([''pf-a''], acc_Add acc_Zero (parse_core (mk_dec 25 1)), cs)"
    by (simp add: intent f asset)
  then show ?thesis
    by (simp add: plan_order_def intent fills Let_def ExecutionPaper_def ExecutionLimitedLive_def ExecutionFullLive_def
        ledger_order_def [THEN arg_cong [of _ _ ao_Remaining]] ledger_order_def [THEN arg_cong [of _ _ ao_Status]])
qed

lemma ledger_ids:
  "oi_ID ledger_intent = ''a''" "oi_AccountID ledger_intent = ''primary''" "economic_mode (oi_ExecutionMode ledger_intent)"
  "ao_OrderID ledger_order = ''a''"
  by (simp_all add: ledger_intent_def sample_intent_def ledger_order_def economic_mode_def)

lemma sample_hash:
  "hex_sha256 sample_env x = x" "marshal sample_env v = Inr ''{}''" "env_MarshalOutcome sample_env p = ''outcome''"
  by (simp_all add: hex_sha256_def marshal_def sample_env_def ledger_codec_def)

lemma ledger_outcome_valid:
  "\<exists>plan h. validateBrokerOutcome sample_env ledger_batch ledger_outcome = Inr (plan, ''outcome-{}'', h)"
proof -
  obtain item entry where item: "plan_order sample_env ledger_intent ledger_order [] = Inr ([''pf-a''], item, entry)"
    using ledger_order_planned by blast
  show ?thesis
    by (simp add: validateBrokerOutcome_def ledger_batch_def ledger_outcome_def requirePrimaryAccount_def
        DefaultAccountID_def ledger_ids item Let_def sample_hash)
qed

lemma ledger_rejection_valid:
  "validateBrokerOutcome sample_env ledger_batch ledger_rejection = Inr ([], ''outcome-{}'', ''outcome'')"
  by (simp add: validateBrokerOutcome_def ledger_batch_def ledger_rejection_def requirePrimaryAccount_def
      DefaultAccountID_def ledger_ids Let_def sample_hash)

lemma ledger_rejection_recorded:
  "\<exists>st. RecordBrokerOutcome sample_env (ledger_batch, ledger_rejection) sample_store = (Inr (), st) \<and> ingested ''outcome-{}'' st"
proof -
  have "st_ingestions sample_store = []" by (simp add: sample_store_def)
  then show ?thesis
    by (simp add: RecordBrokerOutcome_def ledger_rejection_valid db_up_simps [OF sample_up] record_body_def find_ingestion_def
        create_ingestion_def ingestion_violation_def ingested_def Let_def)
qed

end
