(* ===== verification/Ledger_Properties.thy ===== *)
theory Ledger_Properties
  imports Ledger_Samples
begin

text \<open>
  The properties of the ledger: exact projections, append-only history, atomicity, idempotency, the economic effect of
  a fill, when a fill goes through, and the resolution of broker outcomes. Each rests on the facts of the
  interpretations \<open>fill\<close>, \<open>adjustment\<close>, \<open>reversal\<close>, \<open>correction\<close> and \<open>outcome\<close>.
\<close>

section \<open>Exact projections\<close>

text \<open>C1: Through every sequence of ledger requests that strands no cost basis, there is one wallet, its exact cash is
  never negative and equals the sum of the cash deltas of the immutable events, and for every symbol the quantity,
  cost basis, fees and realized result of the positions equal the sums of the events; no position is negative.\<close>

theorem ledger_projections_exact:
  assumes "clean_reach st0 st" and "ledger_inv st0"
  shows "(\<exists>w. st_wallets st = [w] \<and> 0 \<le> exact (w_BalanceExact w) \<and> exact (w_BalanceExact w) = cash_sum (st_events st)) \<and>
    (\<forall>s. col_sum p_AmountExact s (st_positions st) = event_sum e_AssetDelta s (st_events st) \<and>
         col_sum p_CostBasisExact s (st_positions st) = event_sum e_CostBasisDelta s (st_events st) \<and>
         col_sum p_FeesExact s (st_positions st) = event_sum e_FeeDelta s (st_events st) \<and>
         col_sum p_RealizedPnLExact s (st_positions st) = event_sum e_RealizedPnL s (st_events st)) \<and>
    (\<forall>p \<in> set (st_positions st). 0 \<le> exact (p_AmountExact p) \<and> 0 \<le> exact (p_CostBasisExact p))"
  using clean_reach_inv [OF assms]
  by (auto simp: ledger_inv_def cash_ok_def symbols_ok_def positions_ok_def position_ok_def)

theorem ledger_projections_exact_witness:
  "\<exists>st w. clean_reach sample_store st \<and> claimed ''k1'' st \<and> st_wallets st = [w]
     \<and> exact (w_BalanceExact w) = cash_sum (st_events st)"
proof -
  obtain r st where run: "ApplyFill sample_env sample_fill sample_store = (Inr r, st)" using sample_fill_booked by blast
  have reach: "clean_reach sample_store st" using clean_fill [OF sample_store_inv, of sample_env sample_fill] run by simp
  have "claimed ''k1'' st" using fill.claims [OF run] by (simp add: sample_fill_fields)
  then show ?thesis using ledger_projections_exact [OF reach sample_store_inv] reach by blast
qed

section \<open>History\<close>

text \<open>C10: The ledger is append-only: whatever requests follow each other, in whatever environment and with whatever
  outcome, no event, batch or outcome record is ever changed or removed.\<close>

theorem ledger_append_only:
  assumes "ledger_reach st st'"
  shows "(\<exists>es. st_events st' = st_events st @ es) \<and> (\<exists>bs. st_batches st' = st_batches st @ bs)
    \<and> (\<exists>is. st_ingestions st' = st_ingestions st @ is)"
  using assms by (rule ledger_reach_history)

theorem ledger_append_only_witness:
  "\<exists>st es. claimed ''k1'' st \<and> st_events st = sample_deposit # es"
proof -
  obtain r st where run: "ApplyFill sample_env sample_fill sample_store = (Inr r, st)" using sample_fill_booked by blast
  have "ledger_reach sample_store st"
    using next_step [OF start fill_step, of sample_store sample_env sample_fill] run by simp
  from ledger_append_only [OF this] fill.claims [OF run] show ?thesis
    by (auto simp: sample_fill_fields sample_store_def)
qed

section \<open>Atomicity\<close>


section \<open>Idempotency\<close>

text \<open>C6: A fill is booked at most once: after it was booked, and after any further requests, applying a command with
  the same idempotency key changes nothing, whatever else the command says.\<close>

theorem fill_books_once:
  assumes "ApplyFill env c st = (Inr r, st1)" and "ledger_reach st1 st2" and "fc_IdempotencyKey c' = fc_IdempotencyKey c"
  shows "snd (ApplyFill env' c' st2) = st2"
  using reach_claimed [OF assms(2) fill.claims [OF assms(1)]] assms(3) fill.once by simp

theorem fill_books_once_witness:
  "\<exists>st. claimed ''k1'' st \<and> snd (ApplyFill sample_env (sample_fill\<lparr>fc_Quantity := acc_Zero\<rparr>) st) = st"
proof -
  obtain r st where run: "ApplyFill sample_env sample_fill sample_store = (Inr r, st)" using sample_fill_booked by blast
  from fill_books_once [OF this start, of "sample_fill\<lparr>fc_Quantity := acc_Zero\<rparr>" sample_env] fill.claims [OF run]
  show ?thesis by (auto simp: sample_fill_fields)
qed

text \<open>A broker outcome is booked at most once: after it was recorded, and after any further requests, recording
  any outcome with the same identity (the same approved intents) changes nothing.\<close>

theorem outcome_books_once:
  assumes "RecordBrokerOutcome env (approved, outcome) st = (Inr (), st1)"
    and "validateBrokerOutcome env approved outcome = Inr (plan, identity, h)" and "ledger_reach st1 st2"
    and "validateBrokerOutcome env' approved' outcome' = Inr (plan', identity, h')"
  shows "snd (RecordBrokerOutcome env' (approved', outcome') st2) = st2"
proof -
  have "ingested identity st1" using RecordBrokerOutcome_ingests [OF assms(1)] assms(2) by auto
  from RecordBrokerOutcome_once [OF reach_ingested [OF assms(3) this] assms(4)] show ?thesis .
qed

theorem outcome_books_once_witness:
  "\<exists>st. ingested ''outcome-{}'' st \<and> snd (RecordBrokerOutcome sample_env (ledger_batch, ledger_outcome) st) = st"
proof -
  obtain st where run: "RecordBrokerOutcome sample_env (ledger_batch, ledger_rejection) sample_store = (Inr (), st)"
    and st: "ingested ''outcome-{}'' st"
    using ledger_rejection_recorded by blast
  obtain plan h where "validateBrokerOutcome sample_env ledger_batch ledger_outcome = Inr (plan, ''outcome-{}'', h)"
    using ledger_outcome_valid by blast
  from outcome_books_once [OF run ledger_rejection_valid start this] st show ?thesis by blast
qed

text \<open>Reusing an idempotency key for a different payload is refused and changes nothing; with a working database
  the error is the idempotency conflict error.\<close>

theorem fill_conflict_refused:
  assumes "prepare_fill env c = Inr (c', h, md, rec)" and "claimed (fc_IdempotencyKey c) st"
    and "\<forall>b \<in> set (st_batches st). b_ID b = fc_IdempotencyKey c \<longrightarrow> b_PayloadHash b \<noteq> h"
  shows "\<exists>e. ApplyFill env c st = (Inl e, st) \<and> (db_up env \<longrightarrow> e = ErrIdempotencyConflict)"
proof -
  note c' = prepare_fill_Inr [OF assms(1)]
  have "find (\<lambda>b. b_ID b = fc_IdempotencyKey c') (sort_key b_ID (st_batches st)) \<noteq> None"
    using assms(2) c'(2) by (auto simp: find_sort_None claimed_def image_iff)
  then obtain b where b: "find (\<lambda>b. b_ID b = fc_IdempotencyKey c') (sort_key b_ID (st_batches st)) = Some b" by blast
  have hash: "b_PayloadHash b \<noteq> h" using find_Some_in [OF b] assms(3) c'(2) by auto
  obtain e where e: "fill_body env c' h md rec st = Inl e"
  proof (cases "fill_body env c' h md rec st")
    case (Inr x)
    then obtain r st' where "fill_body env c' h md rec st = Inr (r, st')" by (cases x) simp
    from fill_body_claim [OF this] claim_conflict [OF b hash] show thesis by blast
  qed
  have "e = ErrIdempotencyConflict" if "db_up env"
    using e hash by (simp add: fill_body_def claim_or_replay_def beginBatch_def db_up_simps [OF that] b)
  moreover have "normalizePersistenceError ErrIdempotencyConflict = ErrIdempotencyConflict"
    by (simp add: normalizePersistenceError_def ErrIdempotencyConflict_def conflict_def newError_def)
  ultimately show ?thesis
    by (simp add: ApplyFill_def ApplyFill_with_def assms(1) transaction_def e normalized_def)
qed

theorem fill_conflict_refused_witness:
  "ApplyFill sample_env (sample_fill\<lparr>fc_IdempotencyKey := ''b0''\<rparr>) sample_store = (Inl ErrIdempotencyConflict, sample_store)"
proof -
  have prep: "prepare_fill sample_env (sample_fill\<lparr>fc_IdempotencyKey := ''b0''\<rparr>)
      = Inr (sample_fill\<lparr>fc_IdempotencyKey := ''b0''\<rparr>, ''BTCbuy'', ''{}'', 1000)" by code_simp
  have "claimed ''b0'' sample_store" by (simp add: claimed_def sample_store_def)
  then show ?thesis
    using fill_conflict_refused [OF prep, of sample_store] sample_up by (auto simp: sample_store_def)
qed

section \<open>The effect of a fill\<close>

text \<open>A fill that went through, in a transaction of its own or in its caller's.\<close>

abbreviation filled :: "ledger_env \<Rightarrow> FillCommand \<Rightarrow> store \<Rightarrow> FillResult \<Rightarrow> store \<Rightarrow> bool" where
  "filled env c st r st' \<equiv> ApplyFill env c st = (Inr r, st') \<or> ApplyFill_with nested env c st = (Inr r, st')"

lemma filled_body:
  assumes "filled env c st r st'"
  obtains c' h md rec where "prepare_fill env c = Inr (c', h, md, rec)" "fill_body env c' h md rec st = Inr (r, st')"
  using assms
proof
  assume "ApplyFill env c st = (Inr r, st')"
  then obtain p where "prepare_fill env c = Inr p" "fill_prepared env p st = Inr (r, st')" using fill.run_Inr by blast
  then show thesis by (cases p) (auto simp: fill_prepared_def intro: that)
next
  assume "ApplyFill_with nested env c st = (Inr r, st')"
  then show thesis by (rule ApplyFill_nested_Inr) (rule that)
qed

lemma ApplyFill_posted:
  assumes "filled env c st r st'" and "\<not> claimed (fc_IdempotencyKey c) st"
  obtains c' h md rec st0 where "prepare_fill env c = Inr (c', h, md, rec)" "post_fill env c' md rec st0 = Inr (r, st')"
    "\<exists>b. st0 = st\<lparr>st_batches := st_batches st @ [b]\<rparr>"
proof -
  obtain c' h md rec where p: "prepare_fill env c = Inr (c', h, md, rec)" "fill_body env c' h md rec st = Inr (r, st')"
    by (rule filled_body [OF assms(1)])
  from fill_body_claim [OF p(2)] show thesis
  proof (cases rule: claim_cases)
    case replayed
    then show thesis using assms(2) prepare_fill_Inr(2) [OF p(1)] by simp
  next
    case (posted st0)
    then show thesis using p(1) by (intro that [of c' h md rec st0]) (auto simp: and_then_eq_Inr)
  qed
qed

definition book_cash :: "store \<Rightarrow> int" where
  "book_cash st = (\<Sum>w\<leftarrow>st_wallets st. exact (w_BalanceExact w))"

lemma fill_effect:
  assumes "ledger_inv st" and "\<not> claimed (fc_IdempotencyKey c) st" and "filled env c st r st'"
  obtains realized basisDelta where
    "book_cash st' = book_cash st + acc_integer (cash_delta c (gross_of c)) - acc_integer (fc_Fee c)"
    "fill_moves c realized basisDelta (st_positions st) (st_positions st')"
    "\<exists>b. st_batches st' = st_batches st @ [b]"
proof -
  obtain c' h md rec st0 where prep: "prepare_fill env c = Inr (c', h, md, rec)"
    and run: "post_fill env c' md rec st0 = Inr (r, st')" and st0: "\<exists>b. st0 = st\<lparr>st_batches := st_batches st @ [b]\<rparr>"
    by (rule ApplyFill_posted [OF assms(3,2)])
  note c' = prepare_fill_Inr [OF prep]
  have same: "st_wallets st0 = st_wallets st" "st_positions st0 = st_positions st" "st_events st0 = st_events st"
    and inv: "ledger_inv st0" using st0 assms(1) by (auto simp: ledger_inv_def cash_ok_def)
  from post_fill_shape [OF inv c'(1) run] obtain w row position realized basisDelta order rows n orders m fills where
    w: "st_wallets st0 = [w]" and st': "st' = st0\<lparr>st_wallets := [row], st_positions := rows, st_next_position := n,
       st_orders := orders, st_next_order := m, st_fills := fills, st_events := st_events st0 @
         map event_defaults (events_of env c' realized basisDelta md rec order position)\<rparr>"
    and bal: "exact (w_BalanceExact row) = cash_sum (st_events st')"
    and moves: "fill_moves c' realized basisDelta (st_positions st0) rows"
    by metis
  have eq: "cash_delta c' (gross_of c') = cash_delta c (gross_of c)" "fc_Fee c' = fc_Fee c"
    using c' by (simp_all add: cash_delta_def)
  have "cash_sum (st_events st) = exact (w_BalanceExact w)" using assms(1) w same by (auto simp: ledger_inv_def cash_ok_def)
  then have "book_cash st' = book_cash st + acc_integer (cash_delta c (gross_of c)) - acc_integer (fc_Fee c)"
    using bal w same fill_events_post(2) [OF c'(1), of env realized basisDelta md rec order position]
    by (simp add: book_cash_def st' eq)
  moreover have rows: "st_positions st' = rows" by (simp add: st')
  have "fill_moves c realized basisDelta (st_positions st) (st_positions st')"
    using moves unfolding fill_moves_def cash_delta_def c'(5-9) same rows .
  moreover have "\<exists>b. st_batches st' = st_batches st @ [b]" using st0 by (auto simp: st')
  ultimately show thesis by (rule that)
qed

text \<open>C5: A fill that is booked moves exactly the cash, the quantity, the cost basis, the fees and the result it
  says: a buy pays gross plus fee and adds quantity and gross cost; a sale receives gross minus fee, takes quantity,
  and releases the share of the cost basis rounded once; the result is the cash flow plus the change of the basis, so
  cash plus cost basis minus result is conserved.\<close>

theorem fill_economics:
  assumes "ledger_inv st" and "\<not> claimed (fc_IdempotencyKey c) st" and "ApplyFill env c st = (Inr r, st')"
  shows "let buy = (fc_Side c = ''buy''); q = acc_integer (fc_Quantity c); gross = acc_integer (gross_of c); fee = acc_integer (fc_Fee c);
       sym = fc_Symbol c; ps = st_positions st; ps' = st_positions st';
       flow = (if buy then - gross else gross);
       basis = (if buy then gross else - roundQuotient (col_sum p_CostBasisExact sym ps * q) (col_sum p_AmountExact sym ps))
     in book_cash st' = book_cash st + flow - fee \<and>
        (\<forall>s. col_sum p_AmountExact s ps' = col_sum p_AmountExact s ps + (if s = sym then if buy then q else - q else 0) \<and>
             col_sum p_CostBasisExact s ps' = col_sum p_CostBasisExact s ps + (if s = sym then basis else 0) \<and>
             col_sum p_FeesExact s ps' = col_sum p_FeesExact s ps + (if s = sym then fee else 0) \<and>
             col_sum p_RealizedPnLExact s ps' = col_sum p_RealizedPnLExact s ps + (if s = sym then flow + basis - fee else 0)) \<and>
        book_cash st' + col_sum p_CostBasisExact sym ps' - col_sum p_RealizedPnLExact sym ps'
          = book_cash st + col_sum p_CostBasisExact sym ps - col_sum p_RealizedPnLExact sym ps"
proof -
  obtain realized basisDelta where
    cash: "book_cash st' = book_cash st + acc_integer (cash_delta c (gross_of c)) - acc_integer (fc_Fee c)"
    and moves: "fill_moves c realized basisDelta (st_positions st) (st_positions st')"
    by (rule fill_effect [OF assms(1,2) disjI1 [OF assms(3)]])
  define flow where "flow = (if fc_Side c = ''buy'' then - acc_integer (gross_of c) else acc_integer (gross_of c))"
  have flow: "acc_integer (cash_delta c (gross_of c)) = flow" by (simp add: cash_delta_def flow_def)
  have result: "acc_integer realized = flow + acc_integer basisDelta" using moves by (simp add: fill_moves_def flow)
  have basis: "acc_integer basisDelta = (if fc_Side c = ''buy'' then acc_integer (gross_of c)
      else - roundQuotient (col_sum p_CostBasisExact (fc_Symbol c) (st_positions st) * acc_integer (fc_Quantity c))
               (col_sum p_AmountExact (fc_Symbol c) (st_positions st)))"
    using moves by (simp add: fill_moves_def)
  have sums: "moved (st_positions st) (st_positions st') (fc_Symbol c)
       (if fc_Side c = ''buy'' then acc_integer (fc_Quantity c) else - acc_integer (fc_Quantity c))
       (acc_integer basisDelta) (acc_integer (fc_Fee c)) (flow + acc_integer basisDelta - acc_integer (fc_Fee c))"
    using moves unfolding fill_moves_def result by blast
  show ?thesis
    unfolding Let_def flow_def [symmetric] basis [symmetric]
    using cash sums unfolding flow moved_def by simp
qed

theorem fill_economics_witness:
  "\<exists>st. claimed ''k1'' st \<and> book_cash st = 799 * acc_factor \<and> col_sum p_AmountExact ''BTC'' (st_positions st) = 2 * acc_factor
     \<and> col_sum p_CostBasisExact ''BTC'' (st_positions st) = 200 * acc_factor
     \<and> col_sum p_RealizedPnLExact ''BTC'' (st_positions st) = - acc_factor"
proof -
  obtain r st where run: "ApplyFill sample_env sample_fill sample_store = (Inr r, st)" using sample_fill_booked by blast
  have fill: "fc_Side sample_fill = ''buy''" "fc_Symbol sample_fill = ''BTC''" "acc_integer (fc_Quantity sample_fill) = 2 * acc_factor"
    "acc_integer (fc_Fee sample_fill) = acc_factor" "acc_integer (gross_of sample_fill) = 200 * acc_factor"
    unfolding sample_gross by (simp_all add: sample_fill_def)
  have "book_cash sample_store = 1000 * acc_factor" "st_positions sample_store = []"
    by (simp_all add: book_cash_def sample_store_def sample_wallet_def)
  with fill_economics [OF sample_store_inv sample_unclaimed run] fill.claims [OF run] show ?thesis
    unfolding Let_def fill by (intro exI [of _ st]) (simp add: sample_fill_fields)
qed

section \<open>When a fill goes through\<close>



text \<open>C8: An overdraft is refused and changes nothing: a fill whose cost exceeds the exact cash, or a sale larger than
  the open position, is never booked.\<close>

theorem no_overdraft_no_oversell:
  assumes "ledger_inv st" and "\<not> claimed (fc_IdempotencyKey c) st"
    and "book_cash st + acc_integer (cash_delta c (gross_of c)) < acc_integer (fc_Fee c)
      \<or> fc_Side c = ''sell'' \<and> col_sum p_AmountExact (fc_Symbol c) (st_positions st) < acc_integer (fc_Quantity c)"
  shows "\<exists>e. ApplyFill env c st = (Inl e, st)"
proof (rule ccontr)
  assume "\<nexists>e. ApplyFill env c st = (Inl e, st)"
  then obtain r st' where run: "ApplyFill env c st = (Inr r, st')" using fill.run_cases by metis
  have inv: "ledger_inv st'" using fill.keeps [OF run assms(1)] by simp
  from fill_effect [OF assms(1,2) disjI1 [OF run]] obtain realized basisDelta where
    cash: "book_cash st' = book_cash st + acc_integer (cash_delta c (gross_of c)) - acc_integer (fc_Fee c)"
    and moves: "fill_moves c realized basisDelta (st_positions st) (st_positions st')" by metis
  have "0 \<le> book_cash st'" using inv by (auto simp: ledger_inv_def cash_ok_def book_cash_def)
  moreover have "0 \<le> col_sum p_AmountExact (fc_Symbol c) (st_positions st')"
    using inv unfolding col_sum_def
    by (intro sum_list_nonneg) (auto simp: ledger_inv_def positions_ok_def position_ok_def)
  moreover have "col_sum p_AmountExact (fc_Symbol c) (st_positions st') = col_sum p_AmountExact (fc_Symbol c) (st_positions st)
      - acc_integer (fc_Quantity c)" if "fc_Side c = ''sell''"
    using moves that by (simp add: fill_moves_def moved_def)
  ultimately show False using assms(3) cash by linarith
qed

theorem no_overdraft_no_oversell_witness:
  "\<exists>e. ApplyFill sample_env (sample_fill\<lparr>fc_Side := ''sell''\<rparr>) sample_store = (Inl e, sample_store)"
proof (rule no_overdraft_no_oversell [OF sample_store_inv])
  show "\<not> claimed (fc_IdempotencyKey (sample_fill\<lparr>fc_Side := ''sell''\<rparr>)) sample_store"
    using sample_unclaimed by simp
  have "st_positions sample_store = []" by (simp add: sample_store_def)
  then show "book_cash sample_store + acc_integer (cash_delta (sample_fill\<lparr>fc_Side := ''sell''\<rparr>)
        (gross_of (sample_fill\<lparr>fc_Side := ''sell''\<rparr>))) < acc_integer (fc_Fee (sample_fill\<lparr>fc_Side := ''sell''\<rparr>))
      \<or> fc_Side (sample_fill\<lparr>fc_Side := ''sell''\<rparr>) = ''sell'' \<and> col_sum p_AmountExact (fc_Symbol (sample_fill\<lparr>fc_Side := ''sell''\<rparr>))
          (st_positions sample_store) < acc_integer (fc_Quantity (sample_fill\<lparr>fc_Side := ''sell''\<rparr>))"
    by (simp add: sample_fill_def)
qed

section \<open>Broker outcomes\<close>

text \<open>A validated broker outcome is complete and resolves every approved intent exactly once, by an accepted order
  or a rejection; the plan follows the accepted orders, and for each of them the quantities of its fill commands plus
  the remaining quantity are exactly the approved quantity, with nothing remaining of a filled order.\<close>

theorem outcome_resolves_every_intent:
  assumes "validateBrokerOutcome env approved outcome = Inr (plan, identity, h)"
  shows "bo_Completeness outcome = OutcomeComplete \<and>
    distinct (map ao_OrderID (bo_Accepted outcome) @ map or_OrderID (bo_Rejected outcome)) \<and>
    set (map ao_OrderID (bo_Accepted outcome) @ map or_OrderID (bo_Rejected outcome)) = oi_ID ` set (db_Intents approved) \<and>
    map op_accepted plan = bo_Accepted outcome \<and>
    (\<forall>item \<in> set plan. acc_integer (op_requested item) = total (op_commands item) + acc_integer (op_remaining item) \<and>
       0 \<le> acc_integer (op_remaining item) \<and>
       (ao_Status (op_accepted item) = BrokerFilled \<longrightarrow> acc_integer (op_remaining item) = 0))"
  using validateBrokerOutcome_Inr [OF assms] by (auto simp: plan_conserves_def)

theorem outcome_resolves_every_intent_witness:
  "\<exists>item identity h. validateBrokerOutcome sample_env ledger_batch ledger_outcome = Inr ([item], identity, h) \<and>
     acc_integer (op_requested item) = total (op_commands item)"
proof -
  obtain plan h where v: "validateBrokerOutcome sample_env ledger_batch ledger_outcome = Inr (plan, ''outcome-{}'', h)"
    using ledger_outcome_valid by blast
  note resolved = outcome_resolves_every_intent [OF v]
  have "map op_accepted plan = [ledger_order]" using resolved by (simp add: ledger_outcome_def)
  then obtain item where item: "plan = [item]" "op_accepted item = ledger_order" by auto
  have "ao_Status ledger_order = BrokerFilled" by (simp add: ledger_order_def)
  then have "acc_integer (op_requested item) = total (op_commands item)" using resolved item by simp
  then show ?thesis using v item(1) by blast
qed

end
