(* ===== verification/Ledger_Book.thy ===== *)
theory Ledger_Book
  imports Ledger_Properties
begin

text \<open>
  The abstract specification of the ledger's fills: a book that holds the cash, per symbol the quantity, the cost basis,
  the fees and the realized result, and the set of used idempotency keys. \<open>abs_book\<close> reads the book off the store; the
  detailed fill of \<open>Ledger\<close>, with its rows, orders, events, replays and failures, refines the step of the book.
\<close>

section \<open>The abstract book\<close>

record book =
  bk_cash :: int
  bk_quantity :: "string \<Rightarrow> int"
  bk_basis :: "string \<Rightarrow> int"
  bk_fees :: "string \<Rightarrow> int"
  bk_result :: "string \<Rightarrow> int"
  bk_keys :: "string set"

text \<open>What a booked fill does, in units of the eighteenth place.\<close>

definition post_to_book :: "FillCommand \<Rightarrow> book \<Rightarrow> book" where
  "post_to_book c bk =
     (let s = fc_Symbol c; q = acc_integer (fc_Quantity c); gross = acc_integer (gross_of c); fee = acc_integer (fc_Fee c)
      in if fc_Side c = ''buy''
         then bk\<lparr>bk_cash := bk_cash bk - gross - fee, bk_quantity := (bk_quantity bk)(s := bk_quantity bk s + q),
                 bk_basis := (bk_basis bk)(s := bk_basis bk s + gross), bk_fees := (bk_fees bk)(s := bk_fees bk s + fee),
                 bk_result := (bk_result bk)(s := bk_result bk s - fee), bk_keys := insert (fc_IdempotencyKey c) (bk_keys bk)\<rparr>
         else
           let released = roundQuotient (bk_basis bk s * q) (bk_quantity bk s)
           in bk\<lparr>bk_cash := bk_cash bk + gross - fee, bk_quantity := (bk_quantity bk)(s := bk_quantity bk s - q),
                 bk_basis := (bk_basis bk)(s := bk_basis bk s - released), bk_fees := (bk_fees bk)(s := bk_fees bk s + fee),
                 bk_result := (bk_result bk)(s := bk_result bk s + gross - released - fee),
                 bk_keys := insert (fc_IdempotencyKey c) (bk_keys bk)\<rparr>)"

text \<open>One request: refused, replayed, or booked.\<close>

definition book_step :: "FillCommand \<Rightarrow> bool \<Rightarrow> book \<Rightarrow> book" where
  "book_step c ok bk = (if \<not> ok \<or> fc_IdempotencyKey c \<in> bk_keys bk then bk else post_to_book c bk)"

definition abs_book :: "store \<Rightarrow> book" where
  "abs_book st = \<lparr>bk_cash = book_cash st, bk_quantity = (\<lambda>s. col_sum p_AmountExact s (st_positions st)),
     bk_basis = (\<lambda>s. col_sum p_CostBasisExact s (st_positions st)),
     bk_fees = (\<lambda>s. col_sum p_FeesExact s (st_positions st)),
     bk_result = (\<lambda>s. col_sum p_RealizedPnLExact s (st_positions st)), bk_keys = b_ID ` set (st_batches st)\<rparr>"

section \<open>The refinement\<close>

lemma booked_refines:
  assumes inv: "ledger_inv st" and new: "\<not> claimed (fc_IdempotencyKey c) st" and run: "ApplyFill env c st = (Inr r, st')"
  shows "abs_book st' = post_to_book c (abs_book st)"
proof -
  obtain realized delta b where
    cash: "book_cash st' = book_cash st + acc_integer (cash_delta c (gross_of c)) - acc_integer (fc_Fee c)"
    and moves: "fill_moves c realized delta (st_positions st) (st_positions st')"
    and b: "st_batches st' = st_batches st @ [b]"
    by (rule fill_effect [OF inv new disjI1 [OF run]]) metis
  have keys: "b_ID ` set (st_batches st') = insert (fc_IdempotencyKey c) (b_ID ` set (st_batches st))"
    using fill.claims [OF run] new b by (auto simp: claimed_def)
  show ?thesis
    using cash moves keys
    by (auto simp: abs_book_def post_to_book_def fill_moves_def moved_def cash_delta_def Let_def fun_eq_iff)
qed

lemma fill_refines:
  assumes inv: "ledger_inv st" and run: "ApplyFill env c st = (r, st')"
  shows "abs_book st' = book_step c ((\<not> isl r)) (abs_book st) \<and> ledger_inv st'"
proof (cases r)
  case (Inl e)
  then have "st' = st" using fill.run_Inl run by blast
  then show ?thesis using Inl inv by (simp add: book_step_def)
next
  case (Inr x)
  have inv': "ledger_inv st'" using fill.keeps run inv Inr by simp
  show ?thesis
  proof (cases "claimed (fc_IdempotencyKey c) st")
    case True
    then have "st' = st" using fill.once run by (metis snd_conv)
    then show ?thesis using True inv Inr by (simp add: book_step_def abs_book_def claimed_def)
  next
    case False
    then show ?thesis
      using booked_refines [OF inv False] run Inr inv'
      by (simp add: book_step_def abs_book_def claimed_def)
  qed
qed

text \<open>A sequence of requests, each in its own environment, and whether each was answered without an error.\<close>

fun apply_fills :: "(ledger_env \<times> FillCommand) list \<Rightarrow> store \<Rightarrow> bool list \<times> store" where
  "apply_fills [] st = ([], st)"
| "apply_fills ((env, c) # rest) st =
     (let (r, st1) = ApplyFill env c st; (oks, st2) = apply_fills rest st1 in ((\<not> isl r) # oks, st2))"



end
