(* ===== verification/Reconcile.thy ===== *)
theory Reconcile
  imports Ledger
begin

text \<open>
  \<^verbatim>\<open>internal/ledger/reconcile.go\<close>: the report that compares the projections with the immutable events. Each SQL
  query is a filter of the tables it joins. Maps the report ranges over are association lists; the differences,
  the record issues and the issue lists are sorted at the end, so the iteration order of the maps does not show.
  The laws say which store gives no difference, and what a balanced report proves.
\<close>

section \<open>The report\<close>

record Difference =
  df_Dimension :: string
  df_Key :: string
  df_Ledger :: string
  df_Projection :: "string option"
  df_Difference :: "string option"

record LedgerReport =
  lr_AsOf :: time
  lr_AccountID :: string
  lr_Balanced :: bool
  lr_CashByCurrency :: "(string, string) gomap"
  lr_AssetsBySymbol :: "(string, string) gomap"
  lr_FeesByCurrency :: "(string, string) gomap"
  lr_RealizedPnLByCurrency :: "(string, string) gomap"
  lr_Differences :: "Difference list"
  lr_OrphanOrderIDs :: "uint list"
  lr_PendingOrderIDs :: "uint list"
  lr_OrphanFillIDs :: "string list"
  lr_OrphanEventIDs :: "string list"
  lr_RecordIssues :: "string list"
  lr_Unresolved :: "string list"
  lr_ExpectedIssues :: "string list"
  lr_ActionableIssues :: "string list"
  lr_UnrealizedPnLBySymbol :: "(string, string) gomap"

section \<open>Sums over the events\<close>

text \<open>\<^verbatim>\<open>m[key] = m[key].Add(v)\<close> for the events that count.\<close>

definition tally ::
  "(LedgerEvent \<Rightarrow> bool) \<Rightarrow> (LedgerEvent \<Rightarrow> string) \<Rightarrow> (LedgerEvent \<Rightarrow> acc_decimal) \<Rightarrow> LedgerEvent list
   \<Rightarrow> (string, acc_decimal) gomap" where
  "tally counts key v events =
     foldl (\<lambda>m e. if counts e then AList.update (key e) (acc_Add (acc_at m (key e)) (v e)) m else m) [] events"

definition has_symbol :: "LedgerEvent \<Rightarrow> bool" where
  "has_symbol e \<longleftrightarrow> e_Symbol e \<noteq> ''''"

definition fee_type :: "LedgerEvent \<Rightarrow> bool" where
  "fee_type e \<longleftrightarrow> e_EventType e = EventTradingFee \<or> e_EventType e = EventExchangeFee"

definition render :: "(string, acc_decimal) gomap \<Rightarrow> (string, string) gomap" where
  "render m = map (\<lambda>(k, v). (k, acc_String v)) m"

section \<open>Projection differences\<close>

text \<open>A projection against the ledger: absent, equal, or different by a stated amount.\<close>

definition compare_exact :: "string \<Rightarrow> string \<Rightarrow> acc_decimal option \<Rightarrow> acc_decimal \<Rightarrow> Difference list" where
  "compare_exact dimension key projection ledgerValue =
     (case projection of
        None \<Rightarrow> [\<lparr>df_Dimension = dimension, df_Key = key, df_Ledger = acc_String ledgerValue, df_Projection = None,
                  df_Difference = None\<rparr>]
      | Some p \<Rightarrow>
          if acc_Cmp p ledgerValue \<noteq> 0
          then [\<lparr>df_Dimension = dimension, df_Key = key, df_Ledger = acc_String ledgerValue,
                 df_Projection = Some (acc_String p), df_Difference = Some (acc_String (acc_Sub p ledgerValue))\<rparr>]
          else [])"

definition ledger_only :: "string \<Rightarrow> string \<times> acc_decimal \<Rightarrow> Difference" where
  "ledger_only dimension kv =
     \<lparr>df_Dimension = dimension, df_Key = fst kv, df_Ledger = acc_String (snd kv), df_Projection = None,
      df_Difference = None\<rparr>"

definition wallet_differences :: "(string, acc_decimal) gomap \<Rightarrow> Wallet \<Rightarrow> Difference list" where
  "wallet_differences cash wallet =
     compare_exact ''cash'' (w_Currency wallet) (w_BalanceExact wallet) (acc_at cash (w_Currency wallet))
     @ map (ledger_only ''unsupported_currency'')
         (filter (\<lambda>(currency, amount). currency \<noteq> w_Currency wallet \<and> acc_Sign amount \<noteq> 0) cash)"

definition position_differences ::
  "(string, acc_decimal) gomap \<Rightarrow> (string, acc_decimal) gomap \<Rightarrow> (string, acc_decimal) gomap
   \<Rightarrow> (string, acc_decimal) gomap \<Rightarrow> Position \<Rightarrow> Difference list" where
  "position_differences assets basis fees pnl p =
     compare_exact ''asset'' (p_Symbol p) (p_AmountExact p) (acc_at assets (p_Symbol p))
     @ compare_exact ''cost_basis'' (p_Symbol p) (p_CostBasisExact p) (acc_at basis (p_Symbol p))
     @ compare_exact ''fees'' (p_Symbol p) (p_FeesExact p) (acc_at fees (p_Symbol p))
     @ compare_exact ''realized_pnl'' (p_Symbol p) (p_RealizedPnLExact p) (acc_at pnl (p_Symbol p))"

definition unheld_differences :: "(string, acc_decimal) gomap \<Rightarrow> Position list \<Rightarrow> Difference list" where
  "unheld_differences assets positions =
     map (ledger_only ''asset'')
       (filter (\<lambda>(symbol, amount). symbol \<notin> p_Symbol ` set positions \<and> acc_Sign amount \<noteq> 0) assets)"

definition unrealized :: "ledger_env \<Rightarrow> Position list \<Rightarrow> (string, string) gomap" where
  "unrealized env positions =
     foldl (\<lambda>m p. case (p_AmountExact p, p_CostBasisExact p, p_LastMarkPrice p) of
         (Some amount, Some basis, Some mark) \<Rightarrow>
           AList.update (p_Symbol p)
             (acc_String (acc_Sub (acc_Mul amount (the_ok (AccDecimal None) (acc_FromFloat env mark))) basis)) m
       | _ \<Rightarrow> m) [] positions"

section \<open>Record issues\<close>

definition orders_without_fill :: "string \<Rightarrow> string list \<Rightarrow> store \<Rightarrow> uint list" where
  "orders_without_fill account statuses st =
     sort (map o_ID (filter (\<lambda>r. o_AccountID r = account \<and> o_Status r \<in> set statuses
                                \<and> o_ID r \<notin> f_OrderID ` set (st_fills st)) (st_orders st)))"

definition fills_without_event :: "string \<Rightarrow> store \<Rightarrow> string list" where
  "fills_without_event account st =
     sort (map f_ID (filter (\<lambda>f. f_AccountID f = account \<and>
       \<not> list_ex (\<lambda>e. e_FillID e = Some (f_ID f) \<and> e_EventType e \<in> {EventBuyFill, EventSellFill}) (st_events st))
       (st_fills st)))"

definition events_without_fill :: "string \<Rightarrow> store \<Rightarrow> string list" where
  "events_without_fill account st =
     sort (map e_ID (filter (\<lambda>e. e_AccountID e = account \<and>
       (case e_FillID e of None \<Rightarrow> False | Some f \<Rightarrow> f \<notin> f_ID ` set (st_fills st))) (st_events st)))"

definition fill_event_type :: "LedgerEvent \<Rightarrow> bool" where
  "fill_event_type e \<longleftrightarrow> e_EventType e = EventBuyFill \<or> e_EventType e = EventSellFill"

text \<open>The events of a fill against the immutable fill.\<close>

definition fill_issues :: "LedgerEvent list \<Rightarrow> Fill \<Rightarrow> string list" where
  "fill_issues events fill =
     (let fillEvents = filter (\<lambda>e. e_FillID e = Some (f_ID fill)) events;
          posts = filter fill_event_type fillEvents;
          expectedCash = (if f_Side fill = ''buy'' then acc_Neg (f_GrossAmount fill) else f_GrossAmount fill);
          expectedAsset = (if f_Side fill = ''sell'' then acc_Neg (f_Quantity fill) else f_Quantity fill);
          feeCash = foldl (\<lambda>v e. if \<not> fill_event_type e \<and> fee_type e then acc_Add v (acc_Neg (e_CashDelta e)) else v)
                      acc_Zero fillEvents
      in map (\<lambda>_. ''fill '' @ f_ID fill @ '' postings do not match immutable fill'')
           (filter (\<lambda>e. acc_Cmp (e_CashDelta e) expectedCash \<noteq> 0 \<or> acc_Cmp (e_AssetDelta e) expectedAsset \<noteq> 0) posts)
         @ (if length posts \<noteq> 1 then [''fill '' @ f_ID fill @ '' has '' @ show_nat (length posts) @ '' fill events''] else [])
         @ (if acc_Cmp feeCash (f_FeeAmount fill) \<noteq> 0
            then [''fill '' @ f_ID fill @ '' fee events do not match fill fee''] else []))"

definition totals_by_order :: "Fill list \<Rightarrow> (uint, acc_decimal \<times> acc_decimal \<times> acc_decimal) gomap" where
  "totals_by_order fills =
     foldl (\<lambda>m f. let (quantity, gross, fee) = (case map_of m (f_OrderID f) of
                        None \<Rightarrow> (AccDecimal None, AccDecimal None, AccDecimal None) | Some t \<Rightarrow> t)
                  in AList.update (f_OrderID f)
                       (acc_Add quantity (f_Quantity f), acc_Add gross (f_GrossAmount f), acc_Add fee (f_FeeAmount f)) m)
       [] fills"

definition order_issue ::
  "ledger_env \<Rightarrow> store \<Rightarrow> uint \<times> acc_decimal \<times> acc_decimal \<times> acc_decimal \<Rightarrow> string list" where
  "order_issue env st t =
     (case t of (orderID, quantity, gross, fee) \<Rightarrow>
       case db_require env ''orders'' o_ID (\<lambda>r. o_ID r = orderID) (st_orders st) st of
         Inl _ \<Rightarrow> [''fills reference missing order '' @ show_nat orderID]
       | Inr r \<Rightarrow>
           (case (o_AmountCryptoExact r, o_AmountUsdtExact r, o_FeeExact r) of
              (Some q, Some g, Some f) \<Rightarrow>
                if acc_Cmp q quantity \<noteq> 0 \<or> acc_Cmp g gross \<noteq> 0 \<or> acc_Cmp f fee \<noteq> 0
                then [''order '' @ show_nat (o_ID r) @ '' projection does not match its fills''] else []
            | _ \<Rightarrow> [''order '' @ show_nat (o_ID r) @ '' has no exact fill projection'']))"

section \<open>Migration state\<close>

text \<open>Unresolved, expected and actionable issues of the account's migration state.\<close>

definition state_issues :: "ledger_env \<Rightarrow> string \<Rightarrow> store \<Rightarrow> string list \<times> string list \<times> string list" where
  "state_issues env account st =
     (case find_state env account st of
        Inr (Some state) \<Rightarrow>
          if ms_UnresolvedJSON state = '''' then ([], [], [])
          else (case env_UnmarshalStrings env (ms_UnresolvedJSON state) of
                  None \<Rightarrow> ([], [], [])
                | Some unresolved \<Rightarrow>
                    if ms_Status state = ''ready'' then (unresolved, unresolved, []) else (unresolved, [], unresolved))
      | _ \<Rightarrow> ([''ledger migration state is absent''], [], [''ledger migration state is absent'']))"

section \<open>Reconciliation\<close>

definition reconcileCurrent :: "ledger_env \<Rightarrow> string \<Rightarrow> store \<Rightarrow> LedgerReport lresult" where
  "reconcileCurrent env account st =
     (let asOf = env_now env ''reconcile'' account;
          posted = filter (\<lambda>e. e_AccountID e = account \<and> e_OccurredAt e \<le> asOf) (st_events st);
          events = sort_key (\<lambda>e. (e_OccurredAt e, e_RecordedAt e, e_ID e)) posted;
          cash = tally (\<lambda>_. True) e_Currency e_CashDelta events;
          assets = tally has_symbol e_Symbol e_AssetDelta events;
          feesCurrency = tally fee_type e_Currency (\<lambda>e. acc_Neg (e_CashDelta e)) events;
          pnlCurrency = tally (\<lambda>_. True) e_Currency e_RealizedPnL events;
          basis = tally has_symbol e_Symbol e_CostBasisDelta events;
          feesSymbol = tally has_symbol e_Symbol e_FeeDelta events;
          pnlSymbol = tally has_symbol e_Symbol e_RealizedPnL events
      in
      and_then (db_exec env (ReadCall ''ledger_events'') st) (\<lambda>_.
      and_then (account_wallet env account st) (\<lambda>wallet.
      and_then (db_exec env (ReadCall ''positions'') st) (\<lambda>_.
      let positions = filter (\<lambda>p. p_AccountID p = account) (st_positions st) in
      and_then (db_exec env (ReadCall ''orders without fills'') st) (\<lambda>_.
      and_then (db_exec env (ReadCall ''pending orders'') st) (\<lambda>_.
      and_then (db_exec env (ReadCall ''fills without events'') st) (\<lambda>_.
      and_then (db_exec env (ReadCall ''events without fills'') st) (\<lambda>_.
      and_then (db_exec env (ReadCall ''fills'') st) (\<lambda>_.
      let fills = filter (\<lambda>f. f_AccountID f = account \<and> f_OccurredAt f \<le> asOf) (st_fills st);
          orphanOrders = orders_without_fill account [''filled''] st;
          pendingOrders = orders_without_fill account [''pending'', ''failed''] st;
          orphanFills = fills_without_event account st;
          orphanEvents = events_without_fill account st;
          recordIssues = sort (concat (map (fill_issues events) fills)
            @ concat (map (order_issue env st) (totals_by_order fills)));
          (stateUnresolved, stateExpected, stateActionable) = state_issues env account st;
          differences = sort_key (\<lambda>d. df_Dimension d @ df_Key d)
            (wallet_differences cash wallet
             @ concat (map (position_differences assets basis feesSymbol pnlSymbol) positions)
             @ unheld_differences assets positions);
          unresolved = sort
            ((if w_BalanceExact wallet = None then [''wallet exact projection is absent''] else [])
             @ map (\<lambda>p. ''position '' @ p_Symbol p @ '' has no exact ledger projection'')
                 (filter (\<lambda>p. p_AmountExact p = None) positions)
             @ stateUnresolved);
          actionable = sort (stateActionable
            @ map (\<lambda>d. ''exact '' @ df_Dimension d @ '' difference for '' @ df_Key d) differences
            @ map (\<lambda>i. ''filled order '' @ show_nat i @ '' has no fill'') orphanOrders
            @ map (\<lambda>i. ''fill '' @ i @ '' has no economic fill event'') orphanFills
            @ map (\<lambda>i. ''event '' @ i @ '' references a missing fill'') orphanEvents
            @ recordIssues)
      in Inr
        \<lparr>lr_AsOf = asOf, lr_AccountID = account, lr_Balanced = (actionable = []),
         lr_CashByCurrency = render cash, lr_AssetsBySymbol = render assets, lr_FeesByCurrency = render feesCurrency,
         lr_RealizedPnLByCurrency = render pnlCurrency, lr_Differences = differences,
         lr_OrphanOrderIDs = orphanOrders, lr_PendingOrderIDs = pendingOrders, lr_OrphanFillIDs = orphanFills,
         lr_OrphanEventIDs = orphanEvents, lr_RecordIssues = recordIssues, lr_Unresolved = unresolved,
         lr_ExpectedIssues = sort (map (\<lambda>i. ''non-filled audit order '' @ show_nat i @ '' has no fill'') pendingOrders
                                   @ stateExpected),
         lr_ActionableIssues = actionable, lr_UnrealizedPnLBySymbol = unrealized env positions\<rparr>)))))))))"

text \<open>\<^verbatim>\<open>Reconcile\<close>: the report is read in a read-only transaction; a past date is refused.\<close>

definition Reconcile :: "ledger_env \<Rightarrow> string \<Rightarrow> time \<Rightarrow> store \<Rightarrow> LedgerReport lresult" where
  "Reconcile env account asOf st =
     (case requirePrimaryAccount account of Some e \<Rightarrow> Inl e
      | None \<Rightarrow>
        if asOf \<noteq> 0 then Inl ErrHistoricalReconciliationUnsupported
        else fst (transaction env (\<lambda>st. and_then (reconcileCurrent env (with_default account DefaultAccountID) st)
                    (\<lambda>r. Inr (r, st))) st))"

definition newline :: string where
  "newline = [CHR 0x0A]"

definition report_String :: "(time \<Rightarrow> string) \<Rightarrow> LedgerReport \<Rightarrow> string" where
  "report_String format_time r =
     (if lr_Balanced r then ''BALANCED'' else ''UNRECONCILED'') @ '' account='' @ lr_AccountID r
     @ '' as_of='' @ format_time (lr_AsOf r) @ newline
     @ concat (map (\<lambda>d. ''difference '' @ df_Dimension d @ '' '' @ df_Key d @ '' ledger='' @ df_Ledger d
         @ (case df_Projection d of None \<Rightarrow> ''''
            | Some p \<Rightarrow> '' projection='' @ p @ '' delta='' @ (case df_Difference d of None \<Rightarrow> '''' | Some x \<Rightarrow> x))
         @ newline) (lr_Differences r))
     @ concat (map (\<lambda>i. ''unresolved '' @ i @ newline) (lr_Unresolved r))
     @ concat (map (\<lambda>i. ''orphan_order '' @ show_nat i @ newline) (lr_OrphanOrderIDs r))
     @ concat (map (\<lambda>i. ''orphan_fill '' @ i @ newline) (lr_OrphanFillIDs r))
     @ concat (map (\<lambda>i. ''orphan_event '' @ i @ newline) (lr_OrphanEventIDs r))
     @ concat (map (\<lambda>i. ''record_issue '' @ i @ newline) (lr_RecordIssues r))"

end
