(* ===== verification/Reconcile_Laws.thy ===== *)
theory Reconcile_Laws
  imports Reconcile Ledger_Samples
begin

text \<open>
  The reconciliation report is exact: it lists no difference if and only if the wallet and every position are the sums
  of the events. A store that satisfies the ledger's invariant, with exact projections and one currency, therefore
  reconciles without a difference.
\<close>

section \<open>Tallies\<close>

lemma acc_at_update [simp]: "acc_at (AList.update k v m) k' = (if k' = k then v else acc_at m k')"
  by (simp add: acc_at_def update_conv)

lemma tally_snoc: "tally counts key v (es @ [e]) =
    (if counts e then AList.update (key e) (acc_Add (acc_at (tally counts key v es) (key e)) (v e)) (tally counts key v es)
     else tally counts key v es)"
  by (simp add: tally_def)

lemma tally_at:
  "acc_integer (acc_at (tally counts key v es) k) = (\<Sum>e\<leftarrow>es. if counts e \<and> key e = k then acc_integer (v e) else 0)"
proof (induction es rule: rev_induct)
  case Nil
  then show ?case by (simp add: tally_def acc_at_def)
next
  case (snoc e es)
  then show ?case by (simp add: tally_snoc)
qed

lemma tally_distinct: "distinct (map fst (tally counts key v es))"
proof (induction es rule: rev_induct)
  case Nil
  then show ?case by (simp add: tally_def)
next
  case (snoc e es)
  then show ?case by (simp add: tally_snoc distinct_update)
qed

text \<open>The entries of a tally with a non-zero value, among the keys that satisfy \<open>Q\<close>.\<close>

lemma nonzero_entries:
  assumes "distinct (map fst m)"
  shows "filter (\<lambda>(k, v). Q k \<and> acc_Sign v \<noteq> 0) m = [] \<longleftrightarrow> (\<forall>k. Q k \<longrightarrow> acc_integer (acc_at m k) = 0)"
proof
  assume empty: "filter (\<lambda>(k, v). Q k \<and> acc_Sign v \<noteq> 0) m = []"
  show "\<forall>k. Q k \<longrightarrow> acc_integer (acc_at m k) = 0"
  proof (intro allI impI)
    fix k assume "Q k"
    show "acc_integer (acc_at m k) = 0"
    proof (cases "map_of m k")
      case (Some v)
      then have "(k, v) \<in> set m" by (rule map_of_SomeD)
      then show ?thesis using empty \<open>Q k\<close> Some by (auto simp: filter_empty_conv acc_at_def sgn_0_0)
    qed (simp add: acc_at_def)
  qed
next
  assume zero: "\<forall>k. Q k \<longrightarrow> acc_integer (acc_at m k) = 0"
  show "filter (\<lambda>(k, v). Q k \<and> acc_Sign v \<noteq> 0) m = []"
    using zero map_of_is_SomeI [OF assms] by (force simp: filter_empty_conv acc_at_def sgn_0_0)
qed

lemma sum_list_sort_key: "(\<Sum>e\<leftarrow>sort_key f es. g e) = (\<Sum>e\<leftarrow>es. (g e :: int))"
  by (metis mset_map mset_sort sum_mset_sum_list)

section \<open>Differences\<close>

definition currency_sum :: "string \<Rightarrow> LedgerEvent list \<Rightarrow> int" where
  "currency_sum currency es = (\<Sum>e\<leftarrow>es. if e_Currency e = currency then acc_integer (e_CashDelta e) else 0)"

definition symbol_sum :: "(LedgerEvent \<Rightarrow> acc_decimal) \<Rightarrow> string \<Rightarrow> LedgerEvent list \<Rightarrow> int" where
  "symbol_sum delta s es = (if s = '''' then 0 else event_sum delta s es)"

lemma tally_sums:
  "acc_integer (acc_at (tally (\<lambda>_. True) e_Currency e_CashDelta (sort_key f es)) c) = currency_sum c es"
  "acc_integer (acc_at (tally has_symbol e_Symbol delta (sort_key f es)) s) = symbol_sum delta s es"
proof -
  show "acc_integer (acc_at (tally (\<lambda>_. True) e_Currency e_CashDelta (sort_key f es)) c) = currency_sum c es"
    by (simp add: tally_at sum_list_sort_key currency_sum_def)
  have "(\<Sum>e\<leftarrow>es. if has_symbol e \<and> e_Symbol e = s then acc_integer (delta e) else 0) = symbol_sum delta s es"
    by (induction es) (auto simp: symbol_sum_def has_symbol_def)
  then show "acc_integer (acc_at (tally has_symbol e_Symbol delta (sort_key f es)) s) = symbol_sum delta s es"
    by (simp add: tally_at sum_list_sort_key)
qed

lemma compare_exact_Nil: "compare_exact d k p v = [] \<longleftrightarrow> (p \<noteq> None \<and> exact p = acc_integer v)"
  by (auto simp: compare_exact_def split: option.split)

definition position_matches :: "LedgerEvent list \<Rightarrow> Position \<Rightarrow> bool" where
  "position_matches es p \<longleftrightarrow>
     p_AmountExact p \<noteq> None \<and> exact (p_AmountExact p) = symbol_sum e_AssetDelta (p_Symbol p) es \<and>
     p_CostBasisExact p \<noteq> None \<and> exact (p_CostBasisExact p) = symbol_sum e_CostBasisDelta (p_Symbol p) es \<and>
     p_FeesExact p \<noteq> None \<and> exact (p_FeesExact p) = symbol_sum e_FeeDelta (p_Symbol p) es \<and>
     p_RealizedPnLExact p \<noteq> None \<and> exact (p_RealizedPnLExact p) = symbol_sum e_RealizedPnL (p_Symbol p) es"

definition wallet_matches :: "LedgerEvent list \<Rightarrow> Wallet \<Rightarrow> bool" where
  "wallet_matches es w \<longleftrightarrow> w_BalanceExact w \<noteq> None \<and> exact (w_BalanceExact w) = currency_sum (w_Currency w) es
     \<and> (\<forall>currency. currency \<noteq> w_Currency w \<longrightarrow> currency_sum currency es = 0)"

lemma wallet_differences_Nil:
  "wallet_differences (tally (\<lambda>_. True) e_Currency e_CashDelta (sort_key f es)) w = [] \<longleftrightarrow> wallet_matches es w"
  unfolding wallet_differences_def wallet_matches_def append_is_Nil_conv compare_exact_Nil map_is_Nil_conv
    nonzero_entries [OF tally_distinct] tally_sums by blast

lemma position_differences_Nil:
  "position_differences (tally has_symbol e_Symbol e_AssetDelta (sort_key f es)) (tally has_symbol e_Symbol e_CostBasisDelta (sort_key f es))
     (tally has_symbol e_Symbol e_FeeDelta (sort_key f es)) (tally has_symbol e_Symbol e_RealizedPnL (sort_key f es)) p = []
   \<longleftrightarrow> position_matches es p"
  unfolding position_differences_def position_matches_def append_is_Nil_conv compare_exact_Nil tally_sums by blast

lemma unheld_differences_Nil:
  "unheld_differences (tally has_symbol e_Symbol e_AssetDelta (sort_key f es)) ps = []
   \<longleftrightarrow> (\<forall>s. s \<notin> p_Symbol ` set ps \<longrightarrow> symbol_sum e_AssetDelta s es = 0)"
  unfolding unheld_differences_def map_is_Nil_conv nonzero_entries [OF tally_distinct] tally_sums ..

section \<open>The report\<close>

definition reported_events :: "string \<Rightarrow> time \<Rightarrow> store \<Rightarrow> LedgerEvent list" where
  "reported_events account asOf st = filter (\<lambda>e. e_AccountID e = account \<and> e_OccurredAt e \<le> asOf) (st_events st)"

definition reported_positions :: "string \<Rightarrow> store \<Rightarrow> Position list" where
  "reported_positions account st = filter (\<lambda>p. p_AccountID p = account) (st_positions st)"

definition projections_match :: "LedgerEvent list \<Rightarrow> Wallet \<Rightarrow> Position list \<Rightarrow> bool" where
  "projections_match es w ps \<longleftrightarrow> wallet_matches es w \<and> (\<forall>p \<in> set ps. position_matches es p)
     \<and> (\<forall>s. s \<notin> p_Symbol ` set ps \<longrightarrow> symbol_sum e_AssetDelta s es = 0)"

lemma reconcileCurrent_Inr:
  assumes "reconcileCurrent env account st = Inr r"
  obtains w where "w \<in> set (st_wallets st)" "w_AccountID w = account" "lr_AsOf r = env_now env ''reconcile'' account"
    "lr_Differences r = [] \<longleftrightarrow> projections_match (reported_events account (lr_AsOf r) st) w (reported_positions account st)"
    "lr_Balanced r \<longrightarrow> lr_Differences r = []"
proof -
  define asOf where "asOf = env_now env ''reconcile'' account"
  obtain w where w: "account_wallet env account st = Inr w"
    using assms unfolding reconcileCurrent_def Let_def and_then_eq_Inr by blast
  obtain u e a where si: "state_issues env account st = (u, e, a)" by (cases "state_issues env account st")
  have "lr_AsOf r = asOf \<and> (lr_Balanced r \<longrightarrow> lr_Differences r = []) \<and>
      (lr_Differences r = [] \<longleftrightarrow> projections_match (reported_events account (lr_AsOf r) st) w (reported_positions account st))"
    using assms
    unfolding reconcileCurrent_def Let_def si prod.case and_then_eq_Inr w
      asOf_def [symmetric] reported_events_def [symmetric] reported_positions_def [symmetric]
    by (elim exE conjE) (clarsimp simp: sort_key_Nil_iff wallet_differences_Nil position_differences_Nil
        unheld_differences_Nil projections_match_def)
  with db_require_Inr [OF w [unfolded account_wallet_def]] show thesis
    unfolding asOf_def by (elim conjE) (rule that)
qed
lemma Reconcile_Inr:
  assumes "Reconcile env account asOf st = Inr r"
  shows "asOf = 0" "requirePrimaryAccount account = None" "reconcileCurrent env DefaultAccountID st = Inr r"
proof -
  show acc: "requirePrimaryAccount account = None"
    using assms by (cases "requirePrimaryAccount account") (simp_all add: Reconcile_def)
  show zero: "asOf = 0"
    using assms acc by (cases "asOf = 0") (simp_all add: Reconcile_def)
  have "account = [] \<or> account = DefaultAccountID"
    using acc unfolding requirePrimaryAccount_def by (metis option.distinct(1))
  then have "with_default account DefaultAccountID = DefaultAccountID" by (auto simp: with_default_def)
  then have "fst (transaction env (\<lambda>st. and_then (reconcileCurrent env DefaultAccountID st) (\<lambda>r. Inr (r, st))) st) = Inr r"
    using assms acc zero by (simp add: Reconcile_def)
  then obtain x where "transaction env (\<lambda>st. and_then (reconcileCurrent env DefaultAccountID st) (\<lambda>r. Inr (r, st))) st = (Inr r, x)"
    by (cases "transaction env (\<lambda>st. and_then (reconcileCurrent env DefaultAccountID st) (\<lambda>r. Inr (r, st))) st") simp
  from transaction_Inr [OF this] show "reconcileCurrent env DefaultAccountID st = Inr r" by (auto simp: and_then_eq_Inr)
qed

text \<open>C11: The reconciliation report is exact: it lists no difference if and only if the exact cash of the wallet is the
  sum of the events in its currency, no other currency has a balance, every position's four columns are the sums of the
  events of its symbol, and no symbol without a position has a quantity; a balanced report lists no difference, and a
  report is only made for the primary account's current state.\<close>

theorem reconcile_finds_every_difference:
  assumes "Reconcile env account asOf st = Inr r"
  shows "\<exists>w \<in> set (st_wallets st). w_AccountID w = DefaultAccountID \<and>
    (lr_Differences r = [] \<longleftrightarrow> projections_match (reported_events DefaultAccountID (lr_AsOf r) st) w
       (reported_positions DefaultAccountID st)) \<and>
    (lr_Balanced r \<longrightarrow> lr_Differences r = []) \<and> asOf = 0"
  using reconcileCurrent_Inr [OF Reconcile_Inr(3) [OF assms]] Reconcile_Inr(1) [OF assms] by metis

lemma sample_clock: "env_now sample_env a b = 1000"
  by (simp add: sample_env_def)

lemma sample_reconciles: "\<exists>r. Reconcile sample_env '''' 0 sample_store = Inr r"
proof -
  have "account_wallet sample_env DefaultAccountID sample_store = Inr sample_wallet"
    by (simp add: account_wallet_def db_require_def db_up_simps [OF sample_up] sample_store_def sample_wallet_def DefaultAccountID_def)
  then have "\<exists>r. reconcileCurrent sample_env DefaultAccountID sample_store = Inr r"
    by (cases "state_issues sample_env DefaultAccountID sample_store")
      (simp add: reconcileCurrent_def Let_def db_up_simps [OF sample_up])
  then show ?thesis
    by (auto simp: Reconcile_def requirePrimaryAccount_def with_default_def db_up_simps [OF sample_up])
qed

theorem reconcile_finds_every_difference_witness:
  "\<exists>r. Reconcile sample_env '''' 0 sample_store = Inr r \<and> (lr_Differences r = [] \<longleftrightarrow>
     projections_match (reported_events DefaultAccountID (lr_AsOf r) sample_store) sample_wallet [])"
proof -
  obtain r where r: "Reconcile sample_env '''' 0 sample_store = Inr r" using sample_reconciles by blast
  have "st_wallets sample_store = [sample_wallet]" "reported_positions DefaultAccountID sample_store = []"
    by (simp_all add: sample_store_def reported_positions_def)
  then show ?thesis using reconcile_finds_every_difference [OF r] r by auto
qed

section \<open>The ledger reconciles\<close>

text \<open>What reconciliation needs besides the invariant: exact projections, one currency, symbols, and no event of the
  future.\<close>

definition settled :: "time \<Rightarrow> store \<Rightarrow> bool" where
  "settled now st \<longleftrightarrow>
     (\<forall>w \<in> set (st_wallets st). w_BalanceExact w \<noteq> None \<and> (\<forall>e \<in> set (st_events st). e_Currency e = w_Currency w)) \<and>
     (\<forall>p \<in> set (st_positions st). p_AmountExact p \<noteq> None \<and> p_CostBasisExact p \<noteq> None \<and> p_FeesExact p \<noteq> None
        \<and> p_RealizedPnLExact p \<noteq> None \<and> p_Symbol p \<noteq> '''') \<and>
     (\<forall>e \<in> set (st_events st). e_OccurredAt e \<le> now)"

lemma currency_sum_single:
  assumes "\<forall>e \<in> set es. e_Currency e = c"
  shows "currency_sum c' es = (if c' = c then cash_sum es else 0)"
  using assms by (induction es) (auto simp: currency_sum_def cash_sum_def)

lemma col_sum_absent: "s \<notin> p_Symbol ` set rows \<Longrightarrow> col_sum col s rows = 0"
  by (induction rows) auto

lemma inv_projections_match:
  assumes inv: "ledger_inv st" and settled: "settled now st" and w: "w \<in> set (st_wallets st)"
  shows "projections_match (reported_events DefaultAccountID now st) w (reported_positions DefaultAccountID st)"
proof -
  have es: "reported_events DefaultAccountID now st = st_events st"
    unfolding reported_events_def using inv settled by (auto simp: ledger_inv_def event_ok_def settled_def)
  have ps: "reported_positions DefaultAccountID st = st_positions st"
    unfolding reported_positions_def using inv by (auto simp: ledger_inv_def positions_ok_def position_ok_def)
  have cash: "exact (w_BalanceExact w) = cash_sum (st_events st)" using inv w by (auto simp: ledger_inv_def cash_ok_def)
  have cur: "\<forall>e \<in> set (st_events st). e_Currency e = w_Currency w" using settled w by (simp add: settled_def)
  have symbols: "distinct (map p_Symbol (st_positions st))" using inv by (simp add: ledger_inv_def positions_ok_def)
  have sums: "col_sum p_AmountExact s (st_positions st) = event_sum e_AssetDelta s (st_events st)"
    "col_sum p_CostBasisExact s (st_positions st) = event_sum e_CostBasisDelta s (st_events st)"
    "col_sum p_FeesExact s (st_positions st) = event_sum e_FeeDelta s (st_events st)"
    "col_sum p_RealizedPnLExact s (st_positions st) = event_sum e_RealizedPnL s (st_events st)" for s
    using inv by (simp_all add: ledger_inv_def symbols_ok_def)
  have "wallet_matches (st_events st) w"
    using settled w cash by (auto simp: wallet_matches_def settled_def currency_sum_single [OF cur])
  moreover have "position_matches (st_events st) p" if "p \<in> set (st_positions st)" for p
    using settled that col_sum_single [OF symbols that]
    by (auto simp: position_matches_def settled_def symbol_sum_def sums [symmetric])
  moreover have "symbol_sum e_AssetDelta s (st_events st) = 0" if "s \<notin> p_Symbol ` set (st_positions st)" for s
    using col_sum_absent [OF that] by (simp add: symbol_sum_def sums(1) [symmetric])
  ultimately show ?thesis by (auto simp: projections_match_def es ps)
qed



end
