(* ===== verification/Ledger_Findings.thy ===== *)
theory Ledger_Findings
  imports Reconcile_Laws
begin

text \<open>
  Where the ledger's code does less than it means to: reversing an asset correction closes a position at quantity zero
  whatever cost basis is left (\<^verbatim>\<open>ReverseCashEvent\<close>), and the next buy starts from a zero basis (\<^verbatim>\<open>applyPosition\<close>), so the
  projection and the events disagree from then on.
\<close>

section \<open>A history that strands a cost basis\<close>

text \<open>A legacy position of 1 BTC was accepted at a basis of 50; 1 BTC was bought at 100 and 1 sold at 100.\<close>

definition units :: "int \<Rightarrow> acc_decimal" where
  "units n = AccDecimal (Some (n * acc_factor))"

definition strand_event :: "string \<Rightarrow> string \<Rightarrow> string option \<Rightarrow> int \<Rightarrow> int \<Rightarrow> int \<Rightarrow> int \<Rightarrow> LedgerEvent" where
  "strand_event n event_type fill cash asset basis pnl = sample_deposit\<lparr>e_ID := ''e'' @ n, e_LedgerBatchID := ''b'' @ n,
     e_IdempotencyKey := ''i'' @ n, e_EventType := event_type, e_Symbol := ''BTC'', e_FillID := fill,
     e_CashDelta := units cash, e_AssetDelta := units asset, e_CostBasisDelta := units basis, e_RealizedPnL := units pnl\<rparr>"

definition strand_correction :: LedgerEvent where
  "strand_correction = strand_event ''x'' EventAdminCorrection None 0 1 50 0"

definition strand_position :: Position where
  "strand_position = zero_Position\<lparr>p_ID := 1, p_Symbol := ''BTC'', p_AccountID := ''primary'', p_Status := ''open'',
     p_AmountExact := Some (units 1), p_CostBasisExact := Some (units 75), p_RealizedPnLExact := Some (units 25),
     p_FeesExact := Some (units 0)\<rparr>"

definition strand_store :: store where
  "strand_store = sample_store\<lparr>st_positions := [strand_position], st_next_position := 2,
     st_events := [sample_deposit, strand_correction, strand_event ''y'' EventBuyFill (Some ''f1'') (-100) 1 100 0,
                   strand_event ''z'' EventSellFill (Some ''f2'') 100 (-1) (-75) 25]\<rparr>"

definition strand_command :: ReversalCommand where
  "strand_command = \<lparr>rc_IdempotencyKey = ''undo'', rc_OriginalEventID = ''ex'', rc_Actor = ''admin'', rc_Reason = ''wrong'',
     rc_OccurredAt = 20\<rparr>"

lemma strand_store_inv: "ledger_inv strand_store"
  by (auto simp: ledger_inv_def cash_ok_def positions_ok_def orders_ok_def symbols_ok_def event_ok_def position_ok_def
      strand_store_def sample_store_def sample_wallet_def sample_deposit_def DefaultAccountID_def acc_factor_def
      strand_position_def strand_event_def strand_correction_def units_def zero_Position_def)

lemma strand_reversal_posted:
  assumes "st_wallets st = [sample_wallet]" and "st_positions st = [strand_position]" and "st_events st = st_events strand_store"
  shows "\<exists>e st'. post_reversal sample_env strand_command strand_correction 1000 st = Inr (e, st')
    \<and> (\<exists>p. st_positions st' = [p] \<and> p_Status p = ''closed'' \<and> exact (p_AmountExact p) = 0
         \<and> exact (p_CostBasisExact p) = 25 * acc_factor)"
proof -
  note up = db_up_simps [OF sample_up]
  obtain p where p: "reverse_position sample_env strand_command strand_correction strand_position = Inr p"
    "p_Status p = ''closed''" "exact (p_AmountExact p) = 0" "exact (p_CostBasisExact p) = 25 * acc_factor" "p_ID p = 1"
    by (auto simp: reverse_position_def strand_position_def strand_correction_def strand_event_def units_def Let_def
        acc_factor_def)
  have asset: "reverse_asset sample_env strand_command strand_correction st'
      = Inr (st'\<lparr>st_positions := [position_row p]\<rparr>)" if "st_positions st' = [strand_position]" for st'
    using p(1,5)
    by (simp add: reverse_asset_def that db_require_def up save_position_def)
      (simp add: strand_correction_def strand_event_def strand_position_def sample_deposit_def units_def acc_factor_def)
  have wallet: "first_wallet sample_env st = Inr sample_wallet"
    by (simp add: first_wallet_def db_require_def up assms(1))
  have event: "event_violation (st_events st) (event_defaults (reversal_event sample_env strand_command strand_correction 1000)) = None"
    unfolding assms(3)
    by (simp add: event_violation_def event_defaults_def reversal_event_def strand_store_def strand_event_def
        strand_correction_def sample_deposit_def strand_command_def stableID_def)
  show ?thesis
    using p(2-4) event
    by (simp add: post_reversal_def wallet Let_def save_wallet_def up asset assms(2) create_event_def create_events_def)
      (simp add: sample_wallet_def strand_correction_def strand_event_def units_def acc_factor_def)
qed

text \<open>C20: From a ledger whose projections are exact, reversing the asset correction succeeds and closes the position at
  quantity zero with a cost basis of 25 left on it: the shipped code does not refuse to strand the basis.\<close>

theorem reversal_strands_basis:
  "ledger_inv strand_store \<and>
   (\<exists>e st' p. ReverseCashEvent sample_env strand_command strand_store = (Inr e, st') \<and> st_positions st' = [p]
      \<and> p_Status p = ''closed'' \<and> exact (p_AmountExact p) = 0 \<and> exact (p_CostBasisExact p) = 25 * acc_factor
      \<and> \<not> no_stranded_basis st')"
proof -
  note up = db_up_simps [OF sample_up]
  have prep: "prepare_reversal sample_env strand_command = Inr (strand_command, 1000)"
    by (simp add: prepare_reversal_def strand_command_def sample_env_def Let_def)
  have "find (\<lambda>e. e_ID e = rc_OriginalEventID strand_command) (sort_key e_ID (st_events strand_store)) = Some strand_correction"
    by (rule find_unique)
      (auto simp: strand_store_def strand_command_def strand_correction_def strand_event_def sample_deposit_def)
  then have original: "db_require sample_env ''ledger_events'' e_ID (\<lambda>e. e_ID e = rc_OriginalEventID strand_command)
      (st_events strand_store) strand_store = Inr strand_correction"
    by (simp add: db_require_def up)
  have plain: "e_FillID strand_correction = None" "e_EventType strand_correction = EventAdminCorrection"
    "e_AccountID strand_correction = ''primary''"
    by (simp_all add: strand_correction_def strand_event_def sample_deposit_def)
  define h where "h = hashPayload_reversal sample_env strand_command"
  define st1 where "st1 = strand_store\<lparr>st_batches := st_batches strand_store
      @ [\<lparr>b_ID = ''undo'', b_AccountID = ''primary'', b_PayloadHash = h, b_CreatedAt = 20\<rparr>]\<rparr>"
  have keys: "rc_IdempotencyKey strand_command = ''undo''" "rc_OccurredAt strand_command = 20" by (simp_all add: strand_command_def)
  have none: "find (\<lambda>b. b_ID b = ''undo'') (sort_key b_ID (st_batches strand_store)) = None"
    by (simp add: strand_store_def sample_store_def)
  have claim: "beginBatch sample_env ''undo'' ''primary'' h 20 strand_store = Inr (False, st1)"
    using none
    by (simp add: beginBatch_def up create_batch_def batch_violation_def checked_def st1_def)
      (simp add: strand_store_def sample_store_def)
  have ready: "requireReady sample_env ''primary'' st1 = Inr ()"
    by (simp add: requireReady_def find_state_def up st1_def strand_store_def sample_store_def)
  obtain e st' p where post: "post_reversal sample_env strand_command strand_correction 1000 st1 = Inr (e, st')"
    and p: "st_positions st' = [p]" "p_Status p = ''closed''" "exact (p_AmountExact p) = 0"
      "exact (p_CostBasisExact p) = 25 * acc_factor"
    using strand_reversal_posted [of st1] by (auto simp: st1_def strand_store_def sample_store_def)
  have "reversal_body sample_env strand_command 1000 strand_store = Inr (e, st')"
    by (simp add: reversal_body_def up original plain claim_or_replay_def keys h_def [symmetric] claim ready post)
  then have "ReverseCashEvent sample_env strand_command strand_store = (Inr e, st')"
    by (simp add: ReverseCashEvent_def prep up normalized_def)
  moreover have "\<not> no_stranded_basis st'" using p by (simp add: no_stranded_basis_def acc_factor_def)
  ultimately show ?thesis using strand_store_inv p by blast
qed

text \<open>A buy that reopens a closed position starts from a zero basis whatever the position had: the event posts the
  gross amount, so a basis stranded on the closed position is dropped and the projection moves by that much less.\<close>

theorem reopening_drops_basis:
  assumes "applyBuy env command gross (Some p) st = Inr ((p', realized, delta), st')" and "p_Status p \<noteq> ''open''"
  shows "exact (p_CostBasisExact p') = acc_integer gross \<and> acc_integer delta = acc_integer gross"
  using assms
  by (auto simp: applyBuy_def buy_base_def buy_update_def create_position_def and_then_eq_Inr Let_def
      split: if_splits)

definition stranded_position :: Position where
  "stranded_position = strand_position\<lparr>p_Status := ''closed'', p_AmountExact := Some (units 0), p_CostBasisExact := Some (units 25)\<rparr>"

theorem reopening_drops_basis_witness:
  "\<exists>p' realized delta st'. applyBuy sample_env sample_fill (units 200) (Some stranded_position) strand_store
       = Inr ((p', realized, delta), st')
     \<and> exact (p_CostBasisExact stranded_position) = 25 * acc_factor \<and> exact (p_CostBasisExact p') = 200 * acc_factor
     \<and> acc_integer delta = 200 * acc_factor"
proof -
  have "p_ID stranded_position = 1" "p_Status stranded_position = ''closed''"
    "p_AmountExact stranded_position = Some (units 0)" "p_CostBasisExact stranded_position = Some (units 25)"
    by (simp_all add: stranded_position_def strand_position_def)
  moreover from this obtain p' realized delta st' where
    run: "applyBuy sample_env sample_fill (units 200) (Some stranded_position) strand_store = Inr ((p', realized, delta), st')"
    by (simp add: applyBuy_def buy_base_def buy_update_def Let_def save_position_def db_up_simps [OF sample_up])
  moreover have "p_Status stranded_position \<noteq> ''open''" by (simp add: stranded_position_def)
  ultimately show ?thesis using reopening_drops_basis [OF run] by (simp add: units_def)
qed

end
