(* ===== verification/Number_Properties.thy ===== *)
theory Number_Properties
  imports Ledger_Samples
begin

text \<open>
  The properties of the numbers and collections everything else computes with: both decimal types print and parse back
  without loss, into themselves and into each other, products and quotients are rounded once and by at most half a unit,
  the risk engine's exact notional and the ledger's gross amount are the same number, lots round down, identities are
  canonical, and a decision batch does not depend on the order it was given in.
\<close>

section \<open>Decimals as text\<close>

text \<open>C17: Stored money survives the database: every decimal of the ledger prints to a text that parses to the same
  exact number, the column value of a decimal scans back to it (NULL for the invalid one), two decimals print alike only
  if they are the same number, and the trading core reads the text without a panic and as the same number.\<close>

theorem accounting_roundtrip:
  "acc_Parse (acc_String d) = Inr (AccDecimal (Some (acc_integer d))) \<and> acc_Scan (acc_Value d) = Inr d \<and>
   (acc_String d = acc_String e \<longleftrightarrow> acc_Cmp d e = 0) \<and>
   (\<exists>c. mustCoreDecimal d = Inr c \<and> dec_wf c \<and> dec_units c = acc_integer d)"
proof (intro conjI)
  show parse: "acc_Parse (acc_String d) = Inr (AccDecimal (Some (acc_integer d)))" for d by (rule acc_Parse_String_aux)
  show "acc_Scan (acc_Value d) = Inr d"
    using parse [of d] acc_Valid_cases [of d]
    by (cases d rule: acc_decimal.exhaust) (auto simp: acc_Scan_def acc_Value_def acc_Valid_def split: option.split)
  have "acc_String d = acc_String e" if "acc_integer d = acc_integer e"
    using that by (simp add: acc_String_def)
  moreover have "acc_integer d = acc_integer e" if "acc_String d = acc_String e"
    using parse [of d] parse [of e] that by simp
  ultimately show "acc_String d = acc_String e \<longleftrightarrow> acc_Cmp d e = 0" by auto
  show "\<exists>c. mustCoreDecimal d = Inr c \<and> dec_wf c \<and> dec_units c = acc_integer d"
    using ParseDecimal_acc_String_aux [of d] by (auto simp: mustCoreDecimal_def)
qed

text \<open>A decimal of the trading core that was parsed from any text has at most 18 places and a canonical form: its
  own text parses back to it, and the ledger reads that text exactly, without rounding.\<close>

theorem core_decimal_roundtrip:
  assumes "ParseDecimal raw = Inr d"
  shows "dec_scale d \<le> MaxDecimalScale \<and> ParseDecimal (dec_String d) = Inr d \<and>
    parse_core d = AccDecimal (Some (dec_units d)) \<and> (of_int (dec_units d) :: rat) = decimalRat d * 10 ^ 18"
proof -
  have wf: "dec_wf d" using assms by (rule ParseDecimal_canonical)
  then have d: "d = mk_dec (dec_int d) (dec_scale d)" "dec_scale d \<le> MaxDecimalScale" by (simp_all add: dec_wf_iff)
  have "ParseDecimal (dec_String d) = Inr d" using d ParseDecimal_String_mk by metis
  moreover have "parse_core d = AccDecimal (Some (dec_units d))"
    using d parse_core_mk dec_units_mk by metis
  moreover have "of_int (dec_units d) = decimalRat d * 10 ^ 18"
    using decimalRat_grid [OF wf] by (simp add: ulps_def MaxDecimalScale_def)
  ultimately show ?thesis using d(2) by blast
qed

theorem core_decimal_roundtrip_witness:
  "\<exists>d. ParseDecimal ''1.50'' = Inr d \<and> ParseDecimal (dec_String d) = Inr d \<and> dec_units d = 15 * 10 ^ 17"
proof -
  have parse: "ParseDecimal ''1.50'' = Inr (mk_dec 150 2)" by code_simp
  moreover have "dec_units (mk_dec 150 2) = 15 * 10 ^ 17" by (simp add: acc_Scale_def)
  ultimately show ?thesis using core_decimal_roundtrip [OF parse] by blast
qed

section \<open>Rounding\<close>

text \<open>The number an accounting decimal stands for.\<close>

definition acc_rat :: "acc_decimal \<Rightarrow> rat" where
  "acc_rat d = of_int (acc_integer d) / of_int acc_factor"

lemma acc_factor_simps [simp]: "acc_factor \<noteq> 0" "0 \<le> acc_factor"
  using acc_factor_pos by linarith+

lemma roundQuotient_both_uminus: "roundQuotient (- a) (- b) = roundQuotient a b"
proof -
  have q: "quo (- a) (- b) = quo a b" by (simp add: quo_def sgn_if)
  have r: "remt (- a) (- b) = - remt a b" by (simp add: remt_def q)
  have s: "sgn (- a) * sgn (- b) = sgn a * sgn b" by (simp add: sgn_if)
  show ?thesis unfolding roundQuotient_def q r s by simp
qed

lemma roundQuotient_error: "b \<noteq> 0 \<Longrightarrow> \<bar>of_int (roundQuotient a b) - of_int a / of_int b\<bar> \<le> (1/2 :: rat)"
  using accounting.rdiv_error [of b a] accounting.rdiv_error [of "- b" "- a"]
  by (cases "0 < b") (simp_all add: roundQuotient_both_uminus)

lemma rdiv_units:
  assumes "b \<noteq> 0"
  shows "\<bar>of_int (roundQuotient a b) / of_int acc_factor - of_int a / (of_int b * of_int acc_factor)\<bar> \<le> (1 :: rat) / (2 * of_int acc_factor)"
proof -
  have e: "of_int (roundQuotient a b) / of_int acc_factor - of_int a / (of_int b * of_int acc_factor)
      = ((of_int (roundQuotient a b) - of_int a / of_int b) / of_int acc_factor :: rat)"
    by (simp add: diff_divide_distrib)
  have "\<bar>of_int (roundQuotient a b) - of_int a / of_int b\<bar> / of_int acc_factor \<le> (1/2 :: rat) / of_int acc_factor"
    using roundQuotient_error [OF assms, of a] by (intro divide_right_mono) simp_all
  then show ?thesis unfolding e by (simp only: abs_divide) simp
qed

text \<open>C18: Ledger arithmetic is exact up to one rounding: sums and differences are exact, a product, a quotient and a
  proportional share (multiply, then divide) differ from the exact rational by at most half a unit of the eighteenth
  place, whatever the signs, and dividing by zero is an error.\<close>

theorem accounting_rounds_once:
  "acc_rat (acc_Add d e) = acc_rat d + acc_rat e \<and> acc_rat (acc_Sub d e) = acc_rat d - acc_rat e \<and>
   \<bar>acc_rat (acc_Mul d e) - acc_rat d * acc_rat e\<bar> \<le> 1 / (2 * 10 ^ 18) \<and>
   (if acc_Sign e = 0 then \<exists>x. acc_Div d e = Inl x
    else \<exists>q. acc_Div d e = Inr q \<and> \<bar>acc_rat q - acc_rat d / acc_rat e\<bar> \<le> 1 / (2 * 10 ^ 18)) \<and>
   (if acc_Sign e = 0 then \<exists>x. acc_MulDiv d m e = Inl x
    else \<exists>q. acc_MulDiv d m e = Inr q \<and> \<bar>acc_rat q - acc_rat d * acc_rat m / acc_rat e\<bar> \<le> 1 / (2 * 10 ^ 18))"
proof -
  let ?f = "of_int acc_factor :: rat"
  have f: "?f = 10 ^ 18" by (simp add: acc_factor_def acc_Scale_def)
  have mul: "\<bar>acc_rat (acc_Mul d e) - acc_rat d * acc_rat e\<bar> \<le> 1 / (2 * ?f)"
    using rdiv_units [of acc_factor "acc_integer d * acc_integer e"] by (simp add: acc_rat_def acc_Mul_def)
  have div: "\<bar>acc_rat (AccDecimal (Some (roundQuotient (a * acc_factor) b))) - (of_int a / ?f) / (of_int b / ?f)\<bar> \<le> 1 / (2 * ?f)"
    if "b \<noteq> 0" for a b
    using rdiv_units [OF that, of "a * acc_factor"] by (simp add: acc_rat_def)
  have share: "\<bar>acc_rat (AccDecimal (Some (roundQuotient (a * c) b))) - (of_int a / ?f) * (of_int c / ?f) / (of_int b / ?f)\<bar> \<le> 1 / (2 * ?f)"
    if "b \<noteq> 0" for a b c
    using rdiv_units [OF that, of "a * c"] by (simp add: acc_rat_def field_simps)
  show ?thesis
    unfolding f [symmetric] using mul div [of "acc_integer e" "acc_integer d"] share [of "acc_integer e" "acc_integer d" "acc_integer m"]
    by (auto simp: acc_rat_def acc_Add_def acc_Sub_def acc_Div_def acc_MulDiv_def add_divide_distrib diff_divide_distrib sgn_0_0)
qed

text \<open>The risk engine and the ledger agree on money: the exact notional of a quantity and a price in the trading
  core, rounded to its decimal, is digit for digit the gross amount the ledger computes from the two decimals' texts,
  although the two packages round with different code.\<close>

theorem notional_is_gross:
  assumes "qty_wf q" and "price_wf p"
  shows "\<exists>g. ratDecimal (notional q p) = Inr g \<and>
    acc_Mul (parse_core (qty_Decimal q)) (parse_core (price_Decimal p)) = parse_core g"
proof -
  let ?a = "dec_units (qty_Decimal q)" and ?b = "dec_units (price_Decimal p)"
  have wf: "dec_wf (qty_Decimal q)" "dec_wf (price_Decimal p)" using assms by (simp_all add: qty_wf_def price_wf_def)
  have parse: "parse_core d = AccDecimal (Some (dec_units d))" if "dec_wf d" for d
    using that parse_core_mk dec_units_mk unfolding dec_wf_iff by metis
  have "ulps = of_int acc_factor" by (simp add: ulps_def acc_factor_def acc_Scale_def MaxDecimalScale_def)
  then have "notional q p * ulps = of_int (?a * ?b) / of_int acc_factor"
    by (simp add: notional_def decimalRat_units [OF wf(1)] decimalRat_units [OF wf(2)])
  then have r: "ratDecimal (notional q p) = Inr (mk_dec (roundQuotient (?a * ?b) acc_factor) MaxDecimalScale)"
    by (simp add: ratDecimal_eq accounting.rdiv_half_away)
  then show ?thesis
    by (simp add: parse wf acc_Mul_def) (simp add: acc_Scale_def MaxDecimalScale_def)
qed

theorem notional_is_gross_witness:
  "\<exists>g. ratDecimal (notional (Quantity (mk_dec 15 1)) (Price (mk_dec 2005 1))) = Inr g \<and>
    acc_Mul (parse_core (mk_dec 15 1)) (parse_core (mk_dec 2005 1)) = parse_core g"
proof -
  have "qty_wf (Quantity (mk_dec 15 1))" "price_wf (Price (mk_dec 2005 1))" by code_simp+
  from notional_is_gross [OF this] show ?thesis by simp
qed

section \<open>Lots\<close>

text \<open>Lots round down: a positive size is normalised to the largest whole number of lots that does not exceed it,
  or refused when it is smaller than one lot; it is never increased and loses less than one lot.\<close>

theorem lots_round_down:
  assumes "qty_wf lot" and "0 < v"
  shows "if v < qty_rat lot then normalizedQuantity v lot = Inl (Errorf ''quantity_below_lot_size'' [])
    else \<exists>r k. normalizedQuantity v lot = Inr r \<and> 0 < k \<and> r = of_int k * qty_rat lot \<and> r \<le> v \<and> v < r + qty_rat lot"
  using normalizedQuantity_lot [OF assms] normalizedQuantity_bounds [OF assms] by auto

theorem lots_round_down_witness:
  "\<exists>r. normalizedQuantity 7 (Quantity (mk_dec 2 0)) = Inr r \<and> 5 < r \<and> r \<le> 7"
proof -
  have "qty_wf (Quantity (mk_dec 2 0))" by code_simp
  moreover have "qty_rat (Quantity (mk_dec 2 0)) = 2" by (simp add: decimalRat_mk)
  ultimately show ?thesis using lots_round_down [of "Quantity (mk_dec 2 0)" 7] by auto
qed

section \<open>Batches and identities\<close>

text \<open>C19: A decision batch is a canonical value: it holds exactly the given intents, all of them valid, sorted by
  priority, instrument, side and identity; building a batch again from it changes nothing; and intents with distinct
  identities give the same batch in whatever order they are given.\<close>

theorem decision_batch_canonical:
  assumes "NewDecisionBatch is = Inr b"
  shows "mset (db_Intents b) = mset is \<and> sorted (map intent_key (db_Intents b)) \<and>
    (\<forall>i \<in> set (db_Intents b). oi_Validate i = None) \<and> NewDecisionBatch (db_Intents b) = Inr b \<and>
    (distinct (map oi_ID is) \<longrightarrow> (\<forall>js. mset js = mset is \<longrightarrow> NewDecisionBatch js = Inr b))"
proof -
  have "NewDecisionBatch js = Inr b" if "distinct (map oi_ID is)" "mset js = mset is" for js
  proof (rule decision_batch.build_order_independent [OF that(2) [symmetric] _ assms])
    show "inj_on intent_key (set is)"
      using that(1) by (auto simp: distinct_map inj_on_def intent_key_def)
  qed
  moreover have "\<forall>i \<in> set (db_Intents b). oi_Validate i = None"
    using assms decision_batch.build_iff decision_batch.set_items by blast
  ultimately show ?thesis
    using decision_batch.mset_items [OF assms] decision_batch.sorted_items [OF assms] decision_batch.rebuild [OF assms] by blast
qed

theorem decision_batch_canonical_witness:
  "NewDecisionBatch (rev (db_Intents sample_batch)) = Inr sample_batch"
proof -
  have built: "NewDecisionBatch (db_Intents sample_batch) = Inr sample_batch" by code_simp
  have "distinct (map oi_ID (db_Intents sample_batch))" by code_simp
  then show ?thesis using decision_batch_canonical [OF built] by simp
qed

text \<open>An accepted identity is canonical: it is not empty, at most 200 bytes of printable ASCII without blanks, and
  every constructor of an identity accepts it unchanged.\<close>

theorem identity_canonical:
  assumes "NewOrderID raw = Inr v"
  shows "v \<noteq> [] \<and> length v \<le> 200 \<and> list_all printable v \<and> trim_space v = v \<and>
    NewOrderID v = Inr v \<and> NewFillID v = Inr v \<and> NewIdempotencyKey v = Inr v"
  using assms validateIdentity_stable [OF assms [unfolded NewOrderID_def]]
  by (auto simp: NewOrderID_def NewFillID_def NewIdempotencyKey_def validateIdentity_def Let_def trim_space_printable
      split: if_splits)

theorem identity_canonical_witness: "NewOrderID '' a-1 '' = Inr ''a-1'' \<and> NewFillID ''a-1'' = Inr ''a-1''"
proof -
  have raw: "NewOrderID '' a-1 '' = Inr ''a-1''" by code_simp
  with identity_canonical [OF raw] show ?thesis by blast
qed

end
