(* ===== verification/Pipeline.thy ===== *)
theory Pipeline
  imports Orchestrator_Laws Risk_Liveness Ledger_Samples
begin

text \<open>
  The broker and the ledger together: what the simulation broker returns for a batch is what the ledger's adapter
  requires of an outcome. \<open>accepted_for\<close> says how an accepted order relates to its intent; the simulation establishes it,
  and the plan of the ledger needs nothing else.
\<close>

section \<open>What the simulation returns\<close>

definition accepted_for :: "CostModel \<Rightarrow> OrderIntent \<Rightarrow> AcceptedOrder \<Rightarrow> bool" where
  "accepted_for costs i a \<longleftrightarrow> ao_OrderID a = oi_ID i \<and> \<not> cost_mismatch costs i \<and>
     (\<exists>f. ao_fills a = [f] \<and> cf_Instrument f = oi_Instrument i \<and> cf_Side f = oi_Side i \<and>
        cf_FeeAsset f = inst_QuoteAsset (oi_Instrument i) \<and> cf_CostModelVersion f = cm_Version costs \<and> qty_wf (cf_Quantity f) \<and>
        (case ao_Remaining a of None \<Rightarrow> cf_Quantity f = oi_Quantity i
         | Some r \<Rightarrow> qty_wf r \<and> qty_rat (cf_Quantity f) + qty_rat r = qty_rat (oi_Quantity i) \<and> ao_Status a \<noteq> BrokerFilled))"

lemma book_fill_for:
  assumes bf: "book_fill costs name i q p raw at0 = Inr a" and q: "fill_quantity costs i = Inr q"
    and wf: "qty_wf (oi_Quantity i)" and c: "\<not> cost_mismatch costs i"
  shows "accepted_for costs i a"
proof -
  have conserves: "\<exists>f. ao_fills a = [f] \<and> cf_Quantity f = q \<and> cf_Price f = p \<and> cf_Side f = oi_Side i \<and>
    qty_rat q + (case ao_Remaining a of None \<Rightarrow> 0 | Some r \<Rightarrow> qty_rat r) = qty_rat (oi_Quantity i)"
    by (rule book_fill_conserves [OF bf q wf])
  have oid: "ao_OrderID a = oi_ID i" using book_fill_ok [OF bf] by simp
  have qwf: "qty_wf q" by (rule fill_quantity_wf [OF q wf])
  have fill: "\<exists>f. ao_fills a = [f] \<and> cf_Instrument f = oi_Instrument i \<and> cf_Side f = oi_Side i \<and> cf_Quantity f = q
      \<and> cf_FeeAsset f = inst_QuoteAsset (oi_Instrument i) \<and> cf_CostModelVersion f = cm_Version costs"
    using bf by (fastforce simp: book_fill_def Let_def result_simps split: if_splits dest!: NewAcceptedOrder_Inr)
  show ?thesis
  proof (cases "sint (fill_bps costs) < 10000")
    case True
    then obtain rem where "quantityFromRat (qty_rat (oi_Quantity i) - qty_rat q) = Inr rem"
      "ao_Remaining a = Some rem" "ao_Status a = BrokerPartiallyFilled"
      using bf by (fastforce simp: book_fill_def Let_def result_simps SomeQuantity_def split: if_splits dest!: NewAcceptedOrder_Inr)
    then show ?thesis
      using quantityFromRat_Inr(1,2) conserves oid c fill qwf
      by (auto simp: accepted_for_def qty_wf_def BrokerFilled_def BrokerPartiallyFilled_def)
  next
    case False
    then have "q = oi_Quantity i" using q by (auto simp: fill_quantity_def split: if_splits)
    moreover have "ao_Remaining a = None"
      using bf False by (fastforce simp: book_fill_def Let_def result_simps split: if_splits dest!: NewAcceptedOrder_Inr)
    ultimately show ?thesis using oid c fill qwf by (auto simp: accepted_for_def)
  qed
qed

lemma simulate_intent_for:
  assumes "simulate_intent now newID costs name i s = (Inr (Inl a), s')" and "qty_wf (oi_Quantity i)"
  shows "accepted_for costs i a"
proof -
  obtain p q raw t where "book_fill costs name i q p raw t = Inr a" "fill_quantity costs i = Inr q" "\<not> cost_mismatch costs i"
    using assms(1) unfolding simulate_intent_def
    by (auto simp: result_simps Let_def split: if_splits sum.splits option.splits prod.splits)
  then show ?thesis using book_fill_for assms(2) by blast
qed

lemma simulate_all_for:
  assumes "simulate_all now newID costs name is acc rej s = (Inr (acc', rej'), s')"
    and "\<forall>i \<in> set is. qty_wf (oi_Quantity i)" and "a \<in> set acc'"
  shows "a \<in> set acc \<or> (\<exists>i \<in> set is. accepted_for costs i a)"
  using assms
proof (induction now newID costs name "is" acc rej s rule: simulate_all.induct)
  case (2 now newID costs name i "is" acc rej s)
  obtain r s1 where r: "simulate_intent now newID costs name i s = (Inr r, s1)"
    using "2.prems"(1) by (auto split: prod.splits sum.splits)
  show ?case
  proof (cases r)
    case (Inl b)
    have "accepted_for costs i b" using simulate_intent_for [OF r [unfolded Inl]] "2.prems"(2) by simp
    then show ?thesis using "2.IH"(1) [OF r [symmetric, unfolded Inl]] "2.prems" r Inl by auto
  next
    case (Inr x)
    then show ?thesis using "2.IH"(2) [OF r [symmetric, unfolded Inr]] "2.prems" r by auto
  qed
qed simp

lemma Simulation_Submit_for:
  assumes "Simulation_Submit br b s = (Inr out, s')" and "\<forall>i \<in> set (db_Intents b). qty_wf (oi_Quantity i)"
  shows "\<forall>a \<in> set (bo_Accepted out). \<exists>i \<in> set (db_Intents b). accepted_for (sb_Costs br) i a"
proof -
  from assms(1) obtain now newID acc rej where
    sim: "simulate_all now newID (sb_Costs br) (sb_Name br) (db_Intents b) [] [] s = (Inr (acc, rej), s')"
    and out: "NewBrokerBatchOutcome OutcomeComplete acc rej = Inr out"
    by (auto simp: Simulation_Submit_def split: option.splits prod.splits sum.splits)
  show ?thesis using simulate_all_for [OF sim assms(2)] out by (auto simp: NewBrokerBatchOutcome_Inr)
qed

section \<open>What the ledger needs\<close>

text \<open>An intent the paper path may book.\<close>

definition bookable :: "OrderIntent \<Rightarrow> bool" where
  "bookable i \<longleftrightarrow> oi_ExecutionMode i = ExecutionPaper \<and> requirePrimaryAccount (oi_AccountID i) = None \<and> qty_wf (oi_Quantity i)"

definition provider_ids :: "AcceptedOrder list \<Rightarrow> string list" where
  "provider_ids as = concat (map (\<lambda>a. map cf_ProviderFillID (ao_fills a)) as)"

lemma parse_core_units: "dec_wf d \<Longrightarrow> acc_integer (parse_core d) = dec_units d"
  using parse_core_mk [of "dec_scale d" "dec_int d"] by (simp add: dec_wf_iff dec_units_def)

lemma qty_units: "qty_wf q \<Longrightarrow> qty_rat q = of_int (acc_integer (parse_core (qty_Decimal q))) / ulps"
  by (simp add: qty_wf_def parse_core_units decimalRat_units)

lemma plan_order_for:
  assumes a: "accepted_for costs i a" and i: "bookable i" and v: "cm_Version costs \<noteq> ''''"
    and fresh: "set (provider_ids [a]) \<inter> set pf = {}"
  shows "\<exists>item entry. plan_order env i a pf = Inr (provider_ids [a] @ pf, item, entry)"
proof -
  obtain f where f: "ao_fills a = [f]" "cf_Instrument f = oi_Instrument i" "cf_Side f = oi_Side i"
    "cf_FeeAsset f = inst_QuoteAsset (oi_Instrument i)" "cf_CostModelVersion f = cm_Version costs" "qty_wf (cf_Quantity f)"
    and rem: "case ao_Remaining a of None \<Rightarrow> cf_Quantity f = oi_Quantity i
       | Some r \<Rightarrow> qty_wf r \<and> qty_rat (cf_Quantity f) + qty_rat r = qty_rat (oi_Quantity i) \<and> ao_Status a \<noteq> BrokerFilled"
    using a by (auto simp: accepted_for_def)
  have meta: "meta_at (oi_Metadata i) ''cost_policy_version'' = cm_Version costs"
    using a by (auto simp: accepted_for_def cost_mismatch_def Let_def)
  have wf: "qty_wf (oi_Quantity i)" and mode: "oi_ExecutionMode i = ExecutionPaper" using i by (simp_all add: bookable_def)
  let ?q = "acc_integer (parse_core (qty_Decimal (cf_Quantity f)))" and ?Q = "acc_integer (parse_core (qty_Decimal (oi_Quantity i)))"
  have sum: "?q + acc_integer (parse_core (qty_Decimal r)) = ?Q \<and> 0 \<le> acc_integer (parse_core (qty_Decimal r))
      \<and> ao_Status a \<noteq> BrokerFilled" if "ao_Remaining a = Some r" for r
  proof -
    have r: "qty_wf r" "qty_rat (cf_Quantity f) + qty_rat r = qty_rat (oi_Quantity i)" "ao_Status a \<noteq> BrokerFilled"
      using rem that by simp_all
    have "(of_int ?q + of_int (acc_integer (parse_core (qty_Decimal r)))) / ulps = of_int ?Q / ulps"
      using r(2) by (simp only: qty_units [OF f(6)] qty_units [OF r(1)] qty_units [OF wf] add_divide_distrib)
    then have "?q + acc_integer (parse_core (qty_Decimal r)) = ?Q" by (simp flip: of_int_add)
    moreover have "0 \<le> acc_integer (parse_core (qty_Decimal r))"
      using qty_wf_pos [OF r(1)] ulps_pos(1) by (auto simp: qty_units [OF r(1)] zero_less_divide_iff)
    ultimately show ?thesis using r(3) by simp
  qed
  have none: "?q = ?Q" if "ao_Remaining a = None" using rem that by simp
  have pf: "cf_ProviderFillID f \<notin> set pf" using fresh by (simp add: provider_ids_def f)
  show ?thesis
    using v pf sum none
    by (cases "ao_Remaining a")
      (auto simp: plan_order_def mode execution_modes ExecutionPaper_def ExecutionLimitedLive_def ExecutionFullLive_def Let_def meta ao_Fills_def f
        provider_ids_def sgn_if)
qed

lemma plan_accepted_for:
  assumes "\<forall>a \<in> set as. \<exists>i. map_of m (ao_OrderID a) = Some i \<and> bookable i \<and> accepted_for costs i a"
    and "cm_Version costs \<noteq> ''''" and "distinct (map ao_OrderID as)" and "set (map ao_OrderID as) \<inter> set seen = {}"
    and "distinct (provider_ids as)" and "set (provider_ids as) \<inter> set pf = {}"
  shows "\<exists>plans' payload'. plan_accepted env m as seen pf plans payload = Inr (rev (map ao_OrderID as) @ seen, plans', payload')"
  using assms(1,3-6)
proof (induction "as" arbitrary: seen pf plans payload)
  case (Cons a "as")
  obtain i where i: "map_of m (ao_OrderID a) = Some i" "bookable i" "accepted_for costs i a" using Cons.prems(1) by auto
  have split: "provider_ids (a # as) = provider_ids [a] @ provider_ids as" by (simp add: provider_ids_def)
  obtain item entry where one: "plan_order env i a pf = Inr (provider_ids [a] @ pf, item, entry)"
    using plan_order_for [OF i(3,2) assms(2), of pf env] Cons.prems(5) unfolding split by auto
  have "\<exists>plans' payload'. plan_accepted env m as (ao_OrderID a # seen) (provider_ids [a] @ pf) (plans @ [item]) (payload @ [entry])
      = Inr (rev (map ao_OrderID as) @ ao_OrderID a # seen, plans', payload')"
  proof (rule Cons.IH)
    show "set (map ao_OrderID as) \<inter> set (ao_OrderID a # seen) = {}" using Cons.prems(2,3) by auto
    show "set (provider_ids as) \<inter> set (provider_ids [a] @ pf) = {}" using Cons.prems(4,5) unfolding split by auto
  qed (use Cons.prems in \<open>auto simp: split\<close>)
  then show ?case using i(1) one Cons.prems(3) by auto
qed simp

lemma plan_rejected_for:
  assumes "\<forall>r \<in> set rs. map_of m (or_OrderID r) \<noteq> None" and "distinct (map or_OrderID rs)"
    and "set (map or_OrderID rs) \<inter> set seen = {}"
  shows "\<exists>payload'. plan_rejected m rs seen payload = Inr (rev (map or_OrderID rs) @ seen, payload')"
  using assms by (induction rs arbitrary: seen payload) auto

lemma index_intents_for:
  assumes "\<forall>i \<in> set is. bookable i" and "distinct (map oi_ID is)" and "oi_ID ` set is \<inter> fst ` set m = {}"
  shows "\<exists>m' ks'. index_intents is m ks = Inr (m', ks') \<and> length m' = length m + length is
    \<and> (\<forall>i \<in> set is. map_of m' (oi_ID i) = Some i) \<and> (\<forall>k \<in> fst ` set m. map_of m' k = map_of m k)"
  using assms
proof (induction "is" arbitrary: m ks)
  case (Cons i "is")
  have new: "oi_ID i \<notin> fst ` set m" using Cons.prems(3) by auto
  have upd: "AList.update (oi_ID i) i m = m @ [(oi_ID i, i)]"
    using new by (induction m) auto
  have "\<exists>m' ks'. index_intents is (m @ [(oi_ID i, i)]) (ks @ [oi_IdempotencyKey i]) = Inr (m', ks')
    \<and> length m' = length (m @ [(oi_ID i, i)]) + length is
    \<and> (\<forall>j \<in> set is. map_of m' (oi_ID j) = Some j)
    \<and> (\<forall>k \<in> fst ` set (m @ [(oi_ID i, i)]). map_of m' k = map_of (m @ [(oi_ID i, i)]) k)"
    by (rule Cons.IH) (use Cons.prems in auto)
  then obtain m' ks' where m': "index_intents is (m @ [(oi_ID i, i)]) (ks @ [oi_IdempotencyKey i]) = Inr (m', ks')"
    "length m' = length m + Suc (length is)" "\<forall>j \<in> set is. map_of m' (oi_ID j) = Some j"
    "\<And>k. k \<in> insert (oi_ID i) (fst ` set m) \<Longrightarrow> map_of m' k = map_of (m @ [(oi_ID i, i)]) k"
    by auto
  have "map_of m (oi_ID i) = None" using new by (simp add: map_of_eq_None_iff)
  then have "map_of m' (oi_ID i) = Some i" using m'(4) [of "oi_ID i"] by (simp add: map_add_def)
  moreover have "map_of m' k = map_of m k" if "k \<in> fst ` set m" for k
  proof -
    have "k \<noteq> oi_ID i" using that new by blast
    then show ?thesis using m'(4) [of k] that by (simp add: map_add_def split: option.splits)
  qed
  moreover have "index_intents (i # is) m ks = Inr (m', ks')"
    using Cons.prems(1) m'(1) by (simp add: upd bookable_def economic_mode_def)
  ultimately show ?case using m'(2,3) by auto
qed simp

section \<open>The composition\<close>

lemma outcome_bookable:
  assumes sub: "Simulation_Submit br b s = (Inr out, s')" and ids: "distinct (map oi_ID (db_Intents b))"
    and ok: "\<forall>i \<in> set (db_Intents b). bookable i" and v: "cm_Version (sb_Costs br) \<noteq> ''''"
    and pids: "distinct (provider_ids (bo_Accepted out))"
  shows "\<exists>plan identity h. validateBrokerOutcome env b out = Inr (plan, identity, h)"
proof -
  let ?as = "bo_Accepted out" and ?rs = "bo_Rejected out"
  obtain m ks where m: "index_intents (db_Intents b) [] [] = Inr (m, ks)" "length m = length (db_Intents b)"
    "\<forall>i \<in> set (db_Intents b). map_of m (oi_ID i) = Some i"
    using index_intents_for [OF ok ids, of "[]" "[]"] by auto
  have wf: "\<forall>i \<in> set (db_Intents b). qty_wf (oi_Quantity i)" using ok by (simp add: bookable_def)
  have acc: "\<forall>a \<in> set ?as. \<exists>i. map_of m (ao_OrderID a) = Some i \<and> bookable i \<and> accepted_for (sb_Costs br) i a"
    using Simulation_Submit_for [OF sub wf] m(3) ok by (force simp: accepted_for_def)
  note once = simulation.exclusive [OF sub ids]
  have all: "set (map ao_OrderID ?as) \<union> set (map or_OrderID ?rs) = set (map oi_ID (db_Intents b))"
    by (rule simulation.outcome_ids [OF sub])
  obtain plans payload where 1: "plan_accepted env m ?as [] [] [] [] = Inr (rev (map ao_OrderID ?as), plans, payload)"
    using plan_accepted_for [OF acc v once(1), of "[]" "[]" env "[]" "[]"] pids by auto
  have rej: "\<forall>r \<in> set ?rs. map_of m (or_OrderID r) \<noteq> None"
  proof
    fix r assume "r \<in> set ?rs"
    then have "or_OrderID r \<in> set (map oi_ID (db_Intents b))" using all by auto
    then show "map_of m (or_OrderID r) \<noteq> None" using m(3) by auto
  qed
  have "set (map or_OrderID ?rs) \<inter> set (rev (map ao_OrderID ?as)) = {}" using once(3) by auto
  then obtain payload' where 2: "plan_rejected m ?rs (rev (map ao_OrderID ?as)) payload
      = Inr (rev (map or_OrderID ?rs) @ rev (map ao_OrderID ?as), payload')"
    using plan_rejected_for [OF rej once(2), of "rev (map ao_OrderID ?as)" payload] by blast
  have "length ?rs + length ?as = length m"
    using arg_cong [OF simulation.resolves [OF sub], of size] m(2) by simp
  then show ?thesis
    using simulation.complete [OF sub] m(1) 1 2 by (simp add: validateBrokerOutcome_def Let_def)
qed

text \<open>The simulated broker's outcomes can be booked: whatever the paper broker returns for a batch of paper intents of
  the primary account with distinct identities and exact quantities passes the ledger's validation (complete, every
  intent resolved once, dimensions and cost version as reserved, quantities reconciling to the last digit), as long
  as the identifiers it drew for the fills are distinct and its cost model has a version.\<close>

theorem paper_outcome_is_bookable:
  assumes "Paper_Submit (PaperBroker br) b s = (Inr out, s')" and "distinct (map oi_ID (db_Intents b))"
    and "\<forall>i \<in> set (db_Intents b). bookable i" and "cm_Version (sb_Costs br) \<noteq> ''''"
    and "distinct (provider_ids (bo_Accepted out))"
  shows "\<exists>plan identity h. validateBrokerOutcome env b out = Inr (plan, identity, h) \<and> map op_accepted plan = bo_Accepted out"
proof -
  have "Simulation_Submit br b s = (Inr out, s')" using assms(1) by (simp add: Paper_Submit_def)
  from outcome_bookable [OF this assms(2-5)] show ?thesis using validateBrokerOutcome_Inr(4) by blast
qed

definition paper_intent :: OrderIntent where
  "paper_intent = (sample_reserved_intent ''a'' Buy)\<lparr>oi_AccountID := ''primary''\<rparr>"

lemma paper_intent_facts:
  "oi_Validate paper_intent = None" "oi_Side paper_intent = Buy" "inst_Validate (oi_Instrument paper_intent) = None"
  "\<not> cost_mismatch sample_cost_model paper_intent" "cm_RejectCode sample_cost_model = ''''"
  "execution_reference sample_cost_model paper_intent = Some (Price (mk_dec 100 0))"
  "price_wf (Price (mk_dec 100 0))" "0 \<le> sint (cm_SlippageBPS sample_cost_model)"
  "sint (cm_SlippageBPS sample_cost_model) < 2 ^ 62" "cm_PriceTick sample_cost_model = ''''"
  "cm_FillBPS sample_cost_model = 0" "cm_MinQuantity sample_cost_model = ''''" "cm_MinNotional sample_cost_model = ''''"
  "cm_SubmittedAt sample_cost_model = 0" "cm_Version sample_cost_model \<noteq> ''''"
  "SequenceIDGenerator_NewID ''s'' 1 = (Inr ''s-1'', 2)" "NewFillID (''fill-'' @ ''s-1'') = Inr ''fill-s-1''"
  "NewFixedClock_Now (FixedClock 9) (2 :: 64 word) = (9, 2)" "0 < oi_CreatedAt paper_intent" "oi_CreatedAt paper_intent \<le> 9"
  by code_simp+

theorem paper_outcome_is_bookable_witness:
  "\<exists>out plan identity h a. Paper_Submit (PaperBroker (bb_SimulationBroker sample_backtest)) (DecisionBatch [paper_intent]) 1 = (Inr out, 2)
     \<and> validateBrokerOutcome sample_env (DecisionBatch [paper_intent]) out = Inr (plan, identity, h) \<and> map op_accepted plan = [a]"
proof -
  let ?br = "bb_SimulationBroker sample_backtest" and ?b = "DecisionBatch [paper_intent]"
  have facts: "bookable paper_intent" "cm_Version (sb_Costs ?br) \<noteq> ''''" "qty_wf (oi_Quantity paper_intent)" by code_simp+
  obtain a where a: "simulate_intent (NewFixedClock_Now (FixedClock 9)) (SequenceIDGenerator_NewID ''s'') sample_cost_model
      ''backtest'' paper_intent 1 = (Inr (Inl a), 2)"
    using simulate_buy_returns
      [where newID = "SequenceIDGenerator_NewID ''s''" and s = 1 and now = "NewFixedClock_Now (FixedClock 9)" and ?s1.0 = 2 and ?s2.0 = 2 and i = paper_intent and costs = sample_cost_model, OF paper_intent_facts] by blast
  have "ao_Validate a = None" using simulate_intent_ok [OF a] by (simp add: order_ok_def)
  with a have r: "Paper_Submit (PaperBroker ?br) ?b 1
      = (Inr \<lparr>bo_Completeness = OutcomeComplete, bo_Accepted = [a], bo_Rejected = []\<rparr>, 2)"
    by (simp add: Paper_Submit_def Simulation_Submit_def sample_backtest_def NewBacktestBroker_def NewBrokerBatchOutcome_def)
  have "distinct (provider_ids [a])"
    using simulate_intent_for [OF a facts(3)] by (auto simp: accepted_for_def provider_ids_def)
  from paper_outcome_is_bookable [OF r _ _ facts(2), of sample_env] this facts(1) r show ?thesis by auto
qed

section \<open>The risk engine's approvals\<close>

definition same_costs :: "ExecutionCostPolicy \<Rightarrow> CostModel \<Rightarrow> bool" where
  "same_costs policy costs \<longleftrightarrow> ecp_Version policy = cm_Version costs \<and> ecp_FeeBPS policy = cm_FeeBPS costs
     \<and> ecp_AdverseSlippageBPS policy = cm_SlippageBPS costs"

lemma approved_origin:
  assumes b: "NewDecisionBatch is = Inr batch" and d: "Evaluate batch portfolio policy = Inr d"
    and a: "a \<in> set (db_Intents (rd_Approved d))"
  obtains i aq where "i \<in> set is" "a = approved_intent i aq policy" "oi_Validate i = None" "qty_wf aq"
proof -
  from d obtain acc where acc: "evaluate_all portfolio policy (db_Intents batch) (initial_acc portfolio policy) = Inr acc"
    and ap: "NewDecisionBatch (ra_approved acc) = Inr (rd_approved d)" by (rule Evaluate_Inr)
  have valid: "\<forall>i \<in> set (db_Intents batch). oi_Validate i = None" using batch_valid [OF b] .
  have "a \<in> set (ra_approved acc)" using a decision_batch.set_items [OF ap] rd_Approved_id [OF ap] by simp
  then obtain i aq where i: "i \<in> set (db_Intents batch)" "a = approved_intent i aq policy" "qty_Valid aq" "dec_wf (qty_Decimal aq)"
    using evaluate_all_origin [OF acc valid, of a] by (auto simp: initial_acc_def Let_def)
  then show thesis
    using that [of i aq] valid decision_batch.set_items [OF b] by (simp add: qty_wf_def)
qed

lemma approved_bookable:
  assumes "NewDecisionBatch is = Inr batch" and "Evaluate batch portfolio policy = Inr d"
    and "a \<in> set (db_Intents (rd_Approved d))"
    and "\<forall>i \<in> set is. oi_ExecutionMode i = ExecutionPaper \<and> requirePrimaryAccount (oi_AccountID i) = None"
  shows "bookable a"
proof -
  obtain i aq where i: "i \<in> set is" "a = approved_intent i aq policy" "oi_Validate i = None" "qty_wf aq"
    by (rule approved_origin [OF assms(1-3)])
  have "qty_Valid aq" using i(4) by (simp add: qty_wf_def)
  then show ?thesis
    using assms(4) i(1,4) approved_intent_fields [OF i(3), of aq policy] by (simp add: bookable_def i(2))
qed

lemma approved_ids:
  assumes "NewDecisionBatch is = Inr batch" and "Evaluate batch portfolio policy = Inr d"
  shows "mset (map oi_ID is) = mset (map oi_ID (db_Intents (rd_Approved d))) + mset (map or_OrderID (rd_Rejected d))"
proof -
  have "mset (map oi_ID is) = mset (map oi_ID (db_Intents batch))" using decision_batch.mset_items [OF assms(1)] by simp
  then show ?thesis using Evaluate_decides_once [OF assms] by simp
qed

text \<open>What risk approved, the broker does not refuse for its costs: when the broker's cost model has the version, the fee
  and the slippage of the policy's execution costs, every approved intent carries exactly the reservation the broker
  compares, so the cost mismatch error of the simulation cannot occur.\<close>

theorem approved_costs_match:
  assumes "NewDecisionBatch is = Inr batch" and "Evaluate batch portfolio policy = Inr d"
    and "same_costs (rp_ExecutionCosts policy) costs"
  shows "\<forall>a \<in> set (db_Intents (rd_Approved d)). \<not> cost_mismatch costs a"
proof
  fix a assume "a \<in> set (db_Intents (rd_Approved d))"
  then obtain i aq where i: "a = approved_intent i aq policy" "oi_Validate i = None" "qty_wf aq"
    using approved_origin [OF assms(1,2)] by metis
  have "qty_Valid aq" using i(3) by (simp add: qty_wf_def)
  note f = approved_intent_fields [OF i(2) this, of policy]
  show "\<not> cost_mismatch costs a"
    using assms(3) unfolding cost_mismatch_def Let_def i(1) oi_Metadata_def cloneStrings_id f same_costs_def by simp
qed

text \<open>The approval of \<open>small_intent\<close>, filled by the sample broker.\<close>

definition small_broker :: "64 word SimulationBroker" where
  "small_broker = bb_SimulationBroker sample_backtest"

lemma small_costs: "same_costs (rp_ExecutionCosts sample_policy) sample_cost_model" "NewDecisionBatch [small_intent] = Inr (DecisionBatch [small_intent])"
  by code_simp+

lemma small_run:
  obtains d a out where "Evaluate (DecisionBatch [small_intent]) sample_portfolio sample_policy = Inr d"
    "db_Intents (rd_Approved d) = [a]" "rd_Rejected d = []" "oi_ID a = ''a''"
    "Paper_Submit (PaperBroker small_broker) (rd_Approved d) 1 = (Inr out, 2)"
    "bo_Rejected out = []" "distinct (provider_ids (bo_Accepted out))"
proof -
  obtain d aq where d: "Evaluate (DecisionBatch [small_intent]) sample_portfolio sample_policy = Inr d"
    "db_Intents (rd_Approved d) = [approved_intent small_intent aq sample_policy]" "rd_Rejected d = []"
    and aq: "qty_wf aq" "oi_Validate small_intent = None" "qty_Valid aq"
    by (rule Evaluate_room [OF sample_risk(1) small_intent_room])
  define a where "a = approved_intent small_intent aq sample_policy"
  have rd: "rd_Approved d = DecisionBatch [a]" using d(2) by (cases "rd_Approved d") (simp add: a_def)
  note f = approved_intent_fields [OF aq(2,3), of sample_policy, folded a_def]
  obtain m sem where eq: "a = small_intent\<lparr>oi_Quantity := aq, oi_Versions := (oi_Versions small_intent)\<lparr>vc_Policy := rp_Version sample_policy\<rparr>,
      oi_metadata := Some m, oi_QuantitySemantics := sem\<rparr>"
    using approved_intent_eq [OF aq(2,3), of sample_policy] unfolding a_def by blast
  have facts: "oi_Side a = Buy" "inst_Validate (oi_Instrument a) = None" "0 < oi_CreatedAt a" "oi_CreatedAt a \<le> 9" "oi_ID a = ''a''"
    "oi_ReferencePrice a = Some (Price (mk_dec 100 0))"
    using paper_intent_facts(3)
    by (simp_all add: eq small_intent_def sample_intent_def paper_intent_def sample_reserved_intent_def)
  have ref: "execution_reference sample_cost_model a = Some (Price (mk_dec 100 0))"
    by (simp add: execution_reference_def sample_cost_model_def facts)
  have cost: "\<not> cost_mismatch sample_cost_model a"
    using small_costs(1) unfolding cost_mismatch_def Let_def oi_Metadata_def cloneStrings_id f same_costs_def by simp
  obtain x where x: "simulate_intent (NewFixedClock_Now (FixedClock 9)) (SequenceIDGenerator_NewID ''s'') sample_cost_model
      ''backtest'' a 1 = (Inr (Inl x), 2)"
    using simulate_buy_returns
      [where newID = "SequenceIDGenerator_NewID ''s''" and s = 1 and now = "NewFixedClock_Now (FixedClock 9)" and ?s1.0 = 2 and ?s2.0 = 2 and i = a and costs = sample_cost_model,
       OF f(1) facts(1,2) cost paper_intent_facts(5) ref paper_intent_facts(7-18) facts(3,4)] by blast
  have "ao_Validate x = None" using simulate_intent_ok [OF x] by (simp add: order_ok_def)
  with x have r: "Paper_Submit (PaperBroker small_broker) (rd_Approved d) 1
      = (Inr \<lparr>bo_Completeness = OutcomeComplete, bo_Accepted = [x], bo_Rejected = []\<rparr>, 2)"
    by (simp add: rd small_broker_def Paper_Submit_def Simulation_Submit_def sample_backtest_def NewBacktestBroker_def NewBrokerBatchOutcome_def)
  have "distinct (provider_ids [x])"
    using simulate_intent_for [OF x] aq(1) f(5) by (auto simp: accepted_for_def provider_ids_def)
  then show thesis using that [of d a] d(1,3) rd facts(5) r by simp
qed

theorem approved_costs_match_witness:
  "\<exists>d a. Evaluate (DecisionBatch [small_intent]) sample_portfolio sample_policy = Inr d \<and> db_Intents (rd_Approved d) = [a]
     \<and> \<not> cost_mismatch sample_cost_model a"
proof -
  obtain d a where "Evaluate (DecisionBatch [small_intent]) sample_portfolio sample_policy = Inr d" "db_Intents (rd_Approved d) = [a]"
    by (rule small_run)
  then show ?thesis using approved_costs_match [OF small_costs(2) _ small_costs(1)] by auto
qed

end
