(* ===== verification/Close.thy ===== *)
theory Close
  imports Ledger_Adapter
begin

text \<open>
  \<^verbatim>\<open>internal/services/execution_coordinator.go\<close>: closing a position. \<open>RequestClose\<close> first persists a reservation (a row
  of \<^verbatim>\<open>close_requests\<close>) and then \<open>applyClose\<close> books the whole position through the ledger's fill and marks the reservation
  applied in the same transaction; \<open>RecoverPendingCloses\<close> retries, at start-up, what is neither applied nor rejected.
  The state \<open>runtime\<close> is the ledger's store and the reservations. The coordinator's own statements fail as \<open>ce_db\<close> says,
  those of the nested fill as the ledger's environment does. A commit (\<open>ce_commit\<close>) may be refused, or may be
  durable while the client sees an error (\<open>Unacknowledged\<close>), the case \<^verbatim>\<open>recordCloseFailure\<close> is written for.
  Settings are read as a map (\<^verbatim>\<open>GetAllSettings\<close>), \<^verbatim>\<open>strconv.FormatFloat(v, 'f', 18, 64)\<close> is a function of the environment,
  and the comparisons of prices with zero are those of IEEE doubles. Websocket broadcasts are left out.
\<close>

section \<open>Requests, reservations, results\<close>

record ClosePosition =
  rq_PositionID :: uint
  rq_Symbol :: string
  rq_Reason :: string
  rq_RequestedPrice :: float64
  rq_TriggeredAt :: time
  rq_Source :: string

record CloseRequest =
  cr_ID :: string
  cr_PositionID :: uint
  cr_CycleID :: string
  cr_AccountID :: string
  cr_Currency :: string
  cr_Symbol :: string
  cr_Reason :: string
  cr_Source :: string
  cr_Price :: float64
  cr_FeeBPS :: int64
  cr_SlippageBPS :: int64
  cr_Status :: string
  cr_Attempts :: int
  cr_LastError :: string
  cr_TriggeredAt :: time
  cr_AppliedAt :: "time option"
  cr_CreatedAt :: time
  cr_UpdatedAt :: time

record CloseResult =
  cs_Closed :: bool
  cs_Duplicate :: bool
  cs_Position :: Position
  cs_Order :: Order
  cs_Wallet :: Wallet
  cs_Reason :: string
  cs_Price :: float64

record runtime =
  rn_store :: store
  rn_closes :: "CloseRequest list"

definition closeRequestPending :: string where "closeRequestPending = ''pending''"
definition closeRequestRetryable :: string where "closeRequestRetryable = ''retryable''"
definition closeRequestApplied :: string where "closeRequestApplied = ''applied''"
definition closeRequestRejected :: string where "closeRequestRejected = ''rejected''"

definition ExecutionModePaper :: string where "ExecutionModePaper = ''paper''"
definition ExecutionModeExchange :: string where "ExecutionModeExchange = ''exchange''"
definition ExecutionModeShadow :: string where "ExecutionModeShadow = ''shadow''"
definition OrderStatusFilled :: string where "OrderStatusFilled = ''filled''"

section \<open>The environment\<close>

datatype commit_outcome = Committed | Refused ledger_error | Unacknowledged ledger_error

record close_env =
  ce_ledger :: ledger_env
  ce_db :: "db_call \<Rightarrow> runtime \<Rightarrow> ledger_error option"
  ce_commit :: "runtime \<Rightarrow> commit_outcome"
  ce_now :: "string \<Rightarrow> string \<Rightarrow> time"
  ce_settings :: "(string, string) gomap"
  ce_FormatFloat18 :: "float64 \<Rightarrow> string"

definition rt_exec :: "close_env \<Rightarrow> db_call \<Rightarrow> runtime \<Rightarrow> unit lresult" where
  "rt_exec env call rt = checked (ce_db env call rt) ()"

definition rt_first ::
  "close_env \<Rightarrow> string \<Rightarrow> ('r \<Rightarrow> 'k::linorder) \<Rightarrow> ('r \<Rightarrow> bool) \<Rightarrow> 'r list \<Rightarrow> runtime \<Rightarrow> 'r option lresult" where
  "rt_first env table key P rows rt =
     and_then (rt_exec env (ReadCall table) rt) (\<lambda>_. Inr (find P (sort_key key rows)))"

definition rt_require ::
  "close_env \<Rightarrow> string \<Rightarrow> ('r \<Rightarrow> 'k::linorder) \<Rightarrow> ('r \<Rightarrow> bool) \<Rightarrow> 'r list \<Rightarrow> runtime \<Rightarrow> 'r lresult" where
  "rt_require env table key P rows rt =
     and_then (rt_first env table key P rows rt) (\<lambda>r. case r of None \<Rightarrow> Inl RecordNotFound | Some row \<Rightarrow> Inr row)"

definition rt_write :: "close_env \<Rightarrow> string \<Rightarrow> ledger_error option \<Rightarrow> runtime \<Rightarrow> runtime \<Rightarrow> runtime lresult" where
  "rt_write env table violation rt' rt =
     and_then (rt_exec env (WriteCall table) rt) (\<lambda>_. checked violation rt')"

text \<open>A transaction of the coordinator: refused, committed, or committed with the acknowledgement lost.\<close>

definition rt_transaction ::
  "close_env \<Rightarrow> (runtime \<Rightarrow> ('a \<times> runtime) lresult) \<Rightarrow> runtime \<Rightarrow> 'a lresult \<times> runtime" where
  "rt_transaction env body rt =
     (case body rt of
        Inl e \<Rightarrow> (Inl e, rt)
      | Inr (x, rt') \<Rightarrow>
          (case ce_commit env rt' of
             Committed \<Rightarrow> (Inr x, rt')
           | Refused e \<Rightarrow> (Inl e, rt)
           | Unacknowledged e \<Rightarrow> (Inl e, rt')))"

definition find_close :: "close_env \<Rightarrow> string \<Rightarrow> runtime \<Rightarrow> CloseRequest option lresult" where
  "find_close env rid rt = rt_first env ''close_requests'' cr_ID (\<lambda>r. cr_ID r = rid) (rn_closes rt) rt"

definition require_close :: "close_env \<Rightarrow> string \<Rightarrow> runtime \<Rightarrow> CloseRequest lresult" where
  "require_close env rid rt = rt_require env ''close_requests'' cr_ID (\<lambda>r. cr_ID r = rid) (rn_closes rt) rt"

definition position_by_id :: "close_env \<Rightarrow> uint \<Rightarrow> runtime \<Rightarrow> Position lresult" where
  "position_by_id env n rt =
     rt_require env ''positions'' p_ID (\<lambda>p. p_ID p = n) (st_positions (rn_store rt)) rt"

text \<open>\<^verbatim>\<open>tx.Model(...).Where(id).Updates(...)\<close> of one reservation or of the positions that match.\<close>

definition update_close :: "string \<Rightarrow> (CloseRequest \<Rightarrow> CloseRequest) \<Rightarrow> runtime \<Rightarrow> runtime" where
  "update_close rid f rt = rt\<lparr>rn_closes := map (\<lambda>r. if cr_ID r = rid then f r else r) (rn_closes rt)\<rparr>"

definition update_positions :: "(Position \<Rightarrow> bool) \<Rightarrow> (Position \<Rightarrow> Position) \<Rightarrow> runtime \<Rightarrow> runtime" where
  "update_positions P f rt = rt\<lparr>rn_store := (rn_store rt)
     \<lparr>st_positions := map (\<lambda>p. if P p then f p else p) (st_positions (rn_store rt))\<rparr>\<rparr>"

section \<open>Numbers and text\<close>

text \<open>\<^verbatim>\<open>v <= 0\<close> and \<^verbatim>\<open>v > 0\<close> on IEEE doubles; both are false for a NaN.\<close>

definition float_positive :: "float64 \<Rightarrow> bool" where
  "float_positive v \<longleftrightarrow> 0 < v \<and> v \<le> 0x7FF0000000000000"

definition float_nonpositive :: "float64 \<Rightarrow> bool" where
  "float_nonpositive v \<longleftrightarrow> v = 0 \<or> (0x8000000000000000 \<le> v \<and> v \<le> 0xFFF0000000000000)"

text \<open>\<^verbatim>\<open>UnixNano\<close>: nanoseconds since 1970 in a 64-bit integer; \<open>time\<close> counts from year 1.\<close>

definition UnixNano :: "time \<Rightarrow> int64" where
  "UnixNano t = word_of_int (t - 62135596800 * 10 ^ 9)"

definition closeCycleID :: "Position \<Rightarrow> string" where
  "closeCycleID position = big_string (sint (UnixNano (p_OpenedAt position)))"

definition closeRequestID :: "Position \<Rightarrow> string" where
  "closeRequestID position = ''close:'' @ show_nat (p_ID position) @ '':'' @ closeCycleID position"

definition normalizeExecutionMode :: "string \<Rightarrow> string" where
  "normalizeExecutionMode mode =
     (let m = to_lower (trim_space mode) in
      if m = ExecutionModeExchange then ExecutionModeExchange
      else if m = ExecutionModeShadow then ExecutionModeShadow
      else ExecutionModePaper)"

definition nonemptySource :: "string \<Rightarrow> string" where
  "nonemptySource source = (if trim_space source = '''' then ''execution_coordinator'' else source)"

definition marked :: "float64 option \<Rightarrow> float64 \<Rightarrow> float64" where
  "marked mark rest = (case mark of Some v \<Rightarrow> if float_positive v then v else rest | None \<Rightarrow> rest)"

definition positionPriceForExecution :: "Position \<Rightarrow> float64" where
  "positionPriceForExecution position =
     marked (p_LastMarkPrice position) (marked (p_CurrentPrice position)
       (marked (p_EntryPrice position) (p_AvgPrice position)))"

definition getSettingInt :: "(string, string) gomap \<Rightarrow> string \<Rightarrow> int \<Rightarrow> int" where
  "getSettingInt settings key defaultVal =
     (case map_of settings key of None \<Rightarrow> defaultVal
      | Some val \<Rightarrow> (case atoi val of None \<Rightarrow> defaultVal | Some v \<Rightarrow> v))"

section \<open>Reserving a close\<close>

definition zero_CloseRequest :: CloseRequest where
  "zero_CloseRequest = \<lparr>cr_ID = [], cr_PositionID = 0, cr_CycleID = [], cr_AccountID = [], cr_Currency = [], cr_Symbol = [],
     cr_Reason = [], cr_Source = [], cr_Price = 0, cr_FeeBPS = 0, cr_SlippageBPS = 0, cr_Status = [], cr_Attempts = 0,
     cr_LastError = [], cr_TriggeredAt = 0, cr_AppliedAt = None, cr_CreatedAt = 0, cr_UpdatedAt = 0\<rparr>"

definition requested_position :: "close_env \<Rightarrow> ClosePosition \<Rightarrow> runtime \<Rightarrow> Position lresult" where
  "requested_position env req rt =
     (if 0 < rq_PositionID req then position_by_id env (rq_PositionID req) rt
      else if trim_space (rq_Symbol req) \<noteq> []
      then rt_require env ''positions'' p_ID (\<lambda>p. p_Symbol p = rq_Symbol req) (st_positions (rn_store rt)) rt
      else Inl (plain_error ''missing position identifier'' []))"

definition close_violation :: "CloseRequest list \<Rightarrow> CloseRequest \<Rightarrow> ledger_error option" where
  "close_violation rows r =
     (if cr_ID r \<in> cr_ID ` set rows then Some (unique_violation ''close_requests_pkey'')
      else if list_ex (\<lambda>x. cr_PositionID x = cr_PositionID r \<and> cr_CycleID x = cr_CycleID r) rows
      then Some (unique_violation ''idx_close_requests_position_cycle'')
      else None)"

definition create_close :: "close_env \<Rightarrow> CloseRequest \<Rightarrow> runtime \<Rightarrow> (CloseRequest \<times> runtime) lresult" where
  "create_close env r rt =
     and_then (rt_write env ''close_requests'' (close_violation (rn_closes rt) r)
                 (rt\<lparr>rn_closes := rn_closes rt @ [r]\<rparr>) rt) (\<lambda>rt'. Inr (r, rt'))"

definition new_reservation :: "close_env \<Rightarrow> ClosePosition \<Rightarrow> Position \<Rightarrow> Wallet \<Rightarrow> float64 \<Rightarrow> CloseRequest" where
  "new_reservation env req position wallet price =
     (let now = ce_now env ''created_at'' (closeRequestID position) in
      \<lparr>cr_ID = closeRequestID position, cr_PositionID = p_ID position, cr_CycleID = closeCycleID position,
       cr_AccountID = p_AccountID position, cr_Currency = w_Currency wallet, cr_Symbol = p_Symbol position,
       cr_Reason = nonemptySource (rq_Reason req), cr_Source = nonemptySource (rq_Source req), cr_Price = price,
       cr_FeeBPS = word_of_int (getSettingInt (ce_settings env) ''paper_fee_bps'' 10),
       cr_SlippageBPS = word_of_int (getSettingInt (ce_settings env) ''paper_slippage_bps'' 5),
       cr_Status = closeRequestPending, cr_Attempts = 0, cr_LastError = [], cr_TriggeredAt = rq_TriggeredAt req,
       cr_AppliedAt = None, cr_CreatedAt = now, cr_UpdatedAt = now\<rparr>)"

definition create_reservation ::
  "close_env \<Rightarrow> ClosePosition \<Rightarrow> Position \<Rightarrow> runtime \<Rightarrow> (CloseRequest \<times> runtime) lresult" where
  "create_reservation env req position rt =
     and_then (rt_require env ''wallets'' w_ID (\<lambda>w. w_AccountID w = p_AccountID position) (st_wallets (rn_store rt)) rt)
       (\<lambda>wallet.
        if trim_space (w_Currency wallet) = [] then Inl ErrProjectionUnavailable
        else
          let price = (if float_nonpositive (rq_RequestedPrice req) then positionPriceForExecution position
                       else rq_RequestedPrice req)
          in if float_nonpositive price
             then Inl (plain_error ''close request requires a positive executable mark'' [])
             else create_close env (new_reservation env req position wallet price) rt)"

text \<open>The transaction of \<^verbatim>\<open>reserveClose\<close>: the reservation and whether it was there.\<close>

definition reserve_body ::
  "close_env \<Rightarrow> ClosePosition \<Rightarrow> runtime \<Rightarrow> ((CloseRequest \<times> bool) \<times> runtime) lresult" where
  "reserve_body env req rt =
     and_then (requested_position env req rt) (\<lambda>position.
     and_then (find_close env (closeRequestID position) rt) (\<lambda>found.
       if p_Status position \<noteq> ''open''
       then Inr ((case found of None \<Rightarrow> zero_CloseRequest\<lparr>cr_PositionID := p_ID position\<rparr> | Some r \<Rightarrow> r, True), rt)
       else
         and_then (case found of
             Some r \<Rightarrow> if cr_Status r = closeRequestRejected then Inl ErrExchangeExecutionFenced else Inr ((r, True), rt)
           | None \<Rightarrow> and_then (create_reservation env req position rt) (\<lambda>(r, rt). Inr ((r, False), rt)))
           (\<lambda>(res, rt).
            and_then (rt_write env ''positions'' None
                (update_positions (\<lambda>p. p_ID p = p_ID position \<and> p_Status p = ''open'')
                   (\<lambda>p. p\<lparr>p_ExitPending := True, p_LastMarkAt := Some (rq_TriggeredAt req)\<rparr>) rt) rt)
              (\<lambda>rt. Inr (res, rt)))))"

definition reserveClose ::
  "close_env \<Rightarrow> ClosePosition \<Rightarrow> runtime \<Rightarrow> (CloseRequest \<times> bool) lresult \<times> runtime" where
  "reserveClose env req rt = rt_transaction env (reserve_body env req) rt"

section \<open>Booking a close\<close>

definition closeRequestPrice :: "close_env \<Rightarrow> float64 \<Rightarrow> acc_decimal lresult" where
  "closeRequestPrice env v =
     (case acc_Parse (ce_FormatFloat18 env v) of Inl e \<Rightarrow> Inl (PlainError e) | Inr d \<Rightarrow> Inr d)"

definition close_metadata :: "CloseRequest \<Rightarrow> (string, json) gomap" where
  "close_metadata request =
     [(''fee_bps'', JNumber (big_string (sint (cr_FeeBPS request)))),
      (''slippage_bps'', JNumber (big_string (sint (cr_SlippageBPS request)))),
      (''close_request_id'', JString (cr_ID request)), (''close_source'', JString (cr_Source request))]"

definition closeFillCommand :: "close_env \<Rightarrow> Position \<Rightarrow> CloseRequest \<Rightarrow> FillCommand lresult" where
  "closeFillCommand env position request =
     (case p_AmountExact position of
        None \<Rightarrow> Inl ErrProjectionUnavailable
      | Some amount \<Rightarrow>
          if acc_Sign amount \<le> 0 then Inl ErrProjectionUnavailable
          else
            and_then (closeRequestPrice env (cr_Price request)) (\<lambda>price.
            and_then (CostedPaperFill ''sell'' amount price (cr_FeeBPS request) (cr_SlippageBPS request)) (\<lambda>(fillPrice, fee).
              Inr \<lparr>fc_IdempotencyKey = cr_ID request, fc_AccountID = p_AccountID position,
                fc_Symbol = p_Symbol position, fc_Side = ''sell'', fc_Quantity = amount, fc_RequestedPrice = price,
                fc_FillPrice = fillPrice, fc_Fee = fee, fc_FeeType = EventTradingFee, fc_Currency = cr_Currency request,
                fc_ExecutionMode = normalizeExecutionMode (p_ExecutionMode position), fc_ProviderFillID = [],
                fc_ProviderOrderID = [], fc_VenueID = [], fc_FeeCurrency = [], fc_OrderStatus = OrderStatusFilled,
                fc_ExistingOrderID = 0, fc_ClientOrderID = cr_ID request, fc_OccurredAt = cr_TriggeredAt request,
                fc_Actor = cr_Source request, fc_Reason = cr_Reason request,
                fc_StrategyVersion = p_StrategyVersion position, fc_PolicyVersion = p_PolicyVersion position,
                fc_CostModelVersion = ''paper-cost-v1'', fc_Metadata = Some (close_metadata request),
                fc_EntrySource = [], fc_DecisionTimeframe = [], fc_ModelVersion = [], fc_UniverseMode = [],
                fc_RolloutState = [], fc_ExperimentID = None, fc_PredictionLogID = None, fc_DecisionContextJSON = [],
                fc_StopPrice = None, fc_TakeProfitPrice = None, fc_TrailingStopPrice = None, fc_LastAtrValue = None,
                fc_MaxBarsHeld = None\<rparr>)))"

definition loadAppliedCloseWith :: "close_env \<Rightarrow> CloseRequest \<Rightarrow> runtime \<Rightarrow> CloseResult lresult" where
  "loadAppliedCloseWith env request rt =
     and_then (rt_require env ''orders'' o_ID (\<lambda>r. o_ClientOrderID r = Some (cr_ID request)) (st_orders (rn_store rt)) rt)
       (\<lambda>order.
     and_then (position_by_id env (cr_PositionID request) rt) (\<lambda>position.
     and_then (rt_require env ''wallets'' w_ID (\<lambda>w. w_AccountID w = cr_AccountID request) (st_wallets (rn_store rt)) rt)
       (\<lambda>wallet.
        Inr \<lparr>cs_Closed = (p_Status position = ''closed''), cs_Duplicate = False, cs_Position = position, cs_Order = order,
             cs_Wallet = wallet, cs_Reason = cr_Reason request,
             cs_Price = (case o_FillPrice order of None \<Rightarrow> cr_Price request | Some v \<Rightarrow> v)\<rparr>)))"

definition mark_applied :: "close_env \<Rightarrow> CloseRequest \<Rightarrow> CloseRequest \<Rightarrow> CloseRequest" where
  "mark_applied env request r =
     r\<lparr>cr_Status := closeRequestApplied, cr_Attempts := cr_Attempts request + 1, cr_LastError := [],
       cr_AppliedAt := Some (ce_now env ''applied_at'' (cr_ID request)),
       cr_UpdatedAt := ce_now env ''updated_at'' (cr_ID request)\<rparr>"

text \<open>The fill of the position and the completion of its reservation.\<close>

definition book_close :: "close_env \<Rightarrow> CloseRequest \<Rightarrow> FillCommand \<Rightarrow> runtime \<Rightarrow> (CloseResult \<times> runtime) lresult" where
  "book_close env request command rt =
     (case ApplyFill_with nested (ce_ledger env) command (rn_store rt) of
        (Inl e, _) \<Rightarrow> Inl e
      | (Inr fill, st) \<Rightarrow>
          (let rt = rt\<lparr>rn_store := st\<rparr> in
           and_then (rt_write env ''close_requests'' None (update_close (cr_ID request) (mark_applied env request) rt) rt)
             (\<lambda>rt. Inr (\<lparr>cs_Closed = (p_Status (fr_Position fill) = ''closed''), cs_Duplicate = False,
                cs_Position = fr_Position fill, cs_Order = fr_Order fill, cs_Wallet = fr_Wallet fill,
                cs_Reason = cr_Reason request,
                cs_Price = acc_Float64 (ce_ledger env) (fc_FillPrice command)\<rparr>, rt))))"

definition apply_body :: "close_env \<Rightarrow> string \<Rightarrow> runtime \<Rightarrow> (CloseResult \<times> runtime) lresult" where
  "apply_body env rid rt =
     and_then (rt_exec env (ExecCall ''SET LOCAL ROLE trading_bot_ledger_writer'') rt) (\<lambda>_.
     and_then (require_close env rid rt) (\<lambda>request.
       if cr_Status request = closeRequestApplied
       then and_then (loadAppliedCloseWith env request rt) (\<lambda>r. Inr (r, rt))
       else if cr_Status request = closeRequestRejected then Inl ErrExchangeExecutionFenced
       else
         and_then (position_by_id env (cr_PositionID request) rt) (\<lambda>position.
           if p_Status position \<noteq> ''open'' \<or> closeCycleID position \<noteq> cr_CycleID request
           then Inl (plain_error ''close request %s no longer matches an open position lifecycle'' [cr_ID request])
           else if normalizeExecutionMode (p_ExecutionMode position) = ExecutionModeExchange
           then Inl ErrExchangeExecutionFenced
           else and_then (closeFillCommand env position request) (\<lambda>command. book_close env request command rt))))"

section \<open>Failures\<close>

text \<open>\<^verbatim>\<open>errors.Is\<close> along the chain of causes.\<close>

fun error_Is :: "ledger_error \<Rightarrow> ledger_error \<Rightarrow> bool" where
  "error_Is (LedgerError kind code message (Some cause)) target =
     (LedgerError kind code message (Some cause) = target \<or> error_Is cause target)"
| "error_Is e target = (e = target)"

definition mark_failed :: "close_env \<Rightarrow> string \<Rightarrow> string \<Rightarrow> CloseRequest \<Rightarrow> CloseRequest" where
  "mark_failed env status message r =
     r\<lparr>cr_Status := status, cr_LastError := message, cr_Attempts := cr_Attempts r + 1,
       cr_UpdatedAt := ce_now env ''updated_at'' (cr_ID r)\<rparr>"

definition failure_body :: "close_env \<Rightarrow> string \<Rightarrow> string \<Rightarrow> string \<Rightarrow> runtime \<Rightarrow> (unit \<times> runtime) lresult" where
  "failure_body env rid status message rt =
     and_then (require_close env rid rt) (\<lambda>request.
       if cr_Status request = closeRequestApplied then Inr ((), rt)
       else
         and_then (rt_write env ''close_requests'' None (update_close rid (mark_failed env status message) rt) rt) (\<lambda>rt.
           if status = closeRequestRejected
           then and_then (rt_write env ''positions'' None
                    (update_positions (\<lambda>p. p_ID p = cr_PositionID request) (\<lambda>p. p\<lparr>p_ExitPending := False\<rparr>) rt) rt)
                  (\<lambda>rt. Inr ((), rt))
           else Inr ((), rt)))"

definition recordCloseFailure :: "close_env \<Rightarrow> string \<Rightarrow> string \<Rightarrow> ledger_error \<Rightarrow> runtime \<Rightarrow> unit lresult \<times> runtime" where
  "recordCloseFailure env rid status closeErr rt =
     rt_transaction env (failure_body env rid status (take 2000 (error_text (ce_ledger env) closeErr))) rt"

definition failure_status :: "ledger_error \<Rightarrow> string" where
  "failure_status e = (if error_Is e ErrExchangeExecutionFenced then closeRequestRejected else closeRequestRetryable)"

definition applyClose :: "close_env \<Rightarrow> string \<Rightarrow> runtime \<Rightarrow> CloseResult lresult \<times> runtime" where
  "applyClose env rid rt =
     (case rt_transaction env (apply_body env rid) rt of
        (Inr r, rt) \<Rightarrow> (Inr r, rt)
      | (Inl e, rt) \<Rightarrow>
          (case recordCloseFailure env rid (failure_status e) e rt of
             (Inr _, rt) \<Rightarrow> (Inl e, rt)
           | (Inl e', rt) \<Rightarrow>
               (Inl (plain_error ''close failed: %w (could not persist recovery state: %v)''
                  [error_text (ce_ledger env) e, error_text (ce_ledger env) e']), rt)))"

section \<open>The operations\<close>

definition zero_Wallet :: Wallet where
  "zero_Wallet = \<lparr>w_ID = 0, w_Balance = 0, w_BalanceExact = None, w_Currency = [], w_AccountID = [], w_CreatedAt = 0,
     w_UpdatedAt = 0\<rparr>"

definition RequestClose :: "close_env \<Rightarrow> ClosePosition \<Rightarrow> runtime \<Rightarrow> CloseResult lresult \<times> runtime" where
  "RequestClose env req rt =
     (let req = (if rq_TriggeredAt req = 0 then req\<lparr>rq_TriggeredAt := ce_now env ''triggered_at'' (rq_Symbol req)\<rparr> else req) in
      case CheckReady (ce_ledger env) [] (rn_store rt) of
        (Inl e, _) \<Rightarrow> (Inl e, rt)
      | (Inr _, _) \<Rightarrow>
          (case reserveClose env req rt of
             (Inl e, rt) \<Rightarrow> (Inl e, rt)
           | (Inr (reservation, duplicate), rt) \<Rightarrow>
               if duplicate \<and> cr_ID reservation = []
               then (case position_by_id env (cr_PositionID reservation) rt of
                       Inl e \<Rightarrow> (Inl e, rt)
                     | Inr position \<Rightarrow>
                         (Inr \<lparr>cs_Closed = (p_Status position = ''closed''), cs_Duplicate = True, cs_Position = position,
                               cs_Order = zero_Order, cs_Wallet = zero_Wallet, cs_Reason = [], cs_Price = 0\<rparr>, rt))
               else if duplicate \<and> cr_Status reservation = closeRequestApplied
               then (case loadAppliedCloseWith env reservation rt of
                       Inl e \<Rightarrow> (Inl e, rt)
                     | Inr r \<Rightarrow> (Inr (r\<lparr>cs_Duplicate := True\<rparr>), rt))
               else (case applyClose env (cr_ID reservation) rt of
                       (Inl e, rt) \<Rightarrow> (Inl e, rt)
                     | (Inr r, rt) \<Rightarrow> (Inr (r\<lparr>cs_Duplicate := duplicate\<rparr>), rt))))"

text \<open>The loop of \<^verbatim>\<open>RecoverPendingCloses\<close>: how many were applied, and the error that stopped it.\<close>

fun recover_all :: "close_env \<Rightarrow> nat \<Rightarrow> string list \<Rightarrow> runtime \<Rightarrow> (nat \<times> ledger_error option) \<times> runtime" where
  "recover_all env index [] rt = ((index, None), rt)"
| "recover_all env index (rid # ids) rt =
     (case applyClose env rid rt of
        (Inl e, rt) \<Rightarrow> ((index, Some e), rt)
      | (Inr _, rt) \<Rightarrow> recover_all env (Suc index) ids rt)"

definition unresolved :: "CloseRequest \<Rightarrow> bool" where
  "unresolved r \<longleftrightarrow> cr_Status r = closeRequestPending \<or> cr_Status r = closeRequestRetryable"

definition RecoverPendingCloses :: "close_env \<Rightarrow> runtime \<Rightarrow> (nat \<times> ledger_error option) \<times> runtime" where
  "RecoverPendingCloses env rt =
     (case CheckReady (ce_ledger env) [] (rn_store rt) of
        (Inl e, _) \<Rightarrow> ((0, Some e), rt)
      | (Inr _, _) \<Rightarrow>
          (case rt_exec env (ReadCall ''close_requests'') rt of
             Inl e \<Rightarrow> ((0, Some e), rt)
           | Inr _ \<Rightarrow>
               recover_all env 0
                 (map cr_ID (sort_key (\<lambda>r. (cr_CreatedAt r, cr_ID r)) (filter unresolved (rn_closes rt)))) rt))"

end
