(* ===== verification/Close_Laws.thy ===== *)
theory Close_Laws
  imports Close Ledger_Live Adapter_Laws
begin

text \<open>
  The laws of the execution coordinator. \<open>close_inv\<close> is its invariant: the ledger's invariant, one reservation per position
  lifecycle with a known status, and every applied reservation claimed in the ledger. \<open>evolves\<close> says what any operation
  may do: keep the invariant, append to the ledger's history, and move reservations along the state machine of
  \<open>row_step\<close> without touching their payload. The locale \<open>closing\<close> is this contract with what follows from it; the four
  operations are its interpretations.
\<close>

section \<open>The state machine of a reservation\<close>

definition close_payload :: "CloseRequest \<Rightarrow> CloseRequest" where
  "close_payload r = r\<lparr>cr_Status := [], cr_Attempts := 0, cr_LastError := [], cr_AppliedAt := None, cr_UpdatedAt := 0\<rparr>"

text \<open>One row's step: the payload is fixed, applied is final, attempts only grow.\<close>

definition row_step :: "CloseRequest \<Rightarrow> CloseRequest \<Rightarrow> bool" where
  "row_step r r' \<longleftrightarrow> close_payload r' = close_payload r \<and> (cr_Status r = closeRequestApplied \<longrightarrow> r' = r)
     \<and> cr_Attempts r \<le> cr_Attempts r'"

definition rows_step :: "CloseRequest list \<Rightarrow> CloseRequest list \<Rightarrow> bool" where
  "rows_step rs rs' \<longleftrightarrow> (\<exists>old new. rs' = old @ new \<and> list_all2 row_step rs old)"

lemma row_step_refl [simp]: "row_step r r"
  by (simp add: row_step_def)

lemma row_step_trans: "row_step r1 r2 \<Longrightarrow> row_step r2 r3 \<Longrightarrow> row_step r1 r3"
  by (auto simp: row_step_def)

lemma payload_fields:
  "cr_ID (close_payload r) = cr_ID r" "cr_PositionID (close_payload r) = cr_PositionID r"
  "cr_CycleID (close_payload r) = cr_CycleID r"
  by (simp_all add: close_payload_def)

lemma payload_same:
  assumes "close_payload r' = close_payload r"
  shows "cr_ID r' = cr_ID r" "cr_PositionID r' = cr_PositionID r" "cr_CycleID r' = cr_CycleID r"
  using arg_cong [OF assms, of cr_ID] arg_cong [OF assms, of cr_PositionID] arg_cong [OF assms, of cr_CycleID]
  unfolding payload_fields .

lemma row_step_ID: "row_step r r' \<Longrightarrow> cr_ID r' = cr_ID r"
  unfolding row_step_def by (blast intro: payload_same(1))

lemma rows_step_refl [simp]: "rows_step rs rs"
  unfolding rows_step_def by (metis append_Nil2 list.rel_refl row_step_refl)

lemma rows_step_trans: "rows_step rs1 rs2 \<Longrightarrow> rows_step rs2 rs3 \<Longrightarrow> rows_step rs1 rs3"
proof -
  assume "rows_step rs1 rs2" "rows_step rs2 rs3"
  then obtain old new old' new' where 1: "rs2 = old @ new" "list_all2 row_step rs1 old"
    and 2: "rs3 = old' @ new'" "list_all2 row_step (old @ new) old'"
    by (auto simp: rows_step_def)
  from 2(2) obtain us vs where "old' = us @ vs" "list_all2 row_step old us"
    by (auto simp: list_all2_append1)
  then have "rs3 = us @ (vs @ new')" "list_all2 row_step rs1 us"
    using 2(1) list_all2_trans [OF row_step_trans 1(2)] by auto
  then show "rows_step rs1 rs3" unfolding rows_step_def by blast
qed

lemma rows_step_append: "rows_step rs (rs @ new)"
  unfolding rows_step_def by (metis list.rel_refl row_step_refl)

lemma rows_step_map: "(\<And>r. r \<in> set rs \<Longrightarrow> row_step r (f r)) \<Longrightarrow> rows_step rs (map f rs)"
  unfolding rows_step_def by (rule exI [of _ "map f rs"]) (auto simp: list_all2_conv_all_nth)

lemma rows_step_row: "rows_step rs rs' \<Longrightarrow> r \<in> set rs \<Longrightarrow> \<exists>r' \<in> set rs'. row_step r r'"
proof -
  assume "rows_step rs rs'" and r: "r \<in> set rs"
  then obtain old new where "rs' = old @ new" "list_all2 row_step rs old" by (auto simp: rows_step_def)
  moreover from this(2) r have "\<exists>r' \<in> set old. row_step r r'"
    by (induction rule: list_all2_induct) auto
  ultimately show ?thesis by auto
qed

section \<open>The invariant\<close>

definition close_status :: "string \<Rightarrow> bool" where
  "close_status s \<longleftrightarrow> s = closeRequestPending \<or> s = closeRequestRetryable \<or> s = closeRequestApplied \<or> s = closeRequestRejected"

lemma close_status_simps [simp]:
  "close_status closeRequestPending" "close_status closeRequestRetryable" "close_status closeRequestApplied"
  "close_status closeRequestRejected" "closeRequestApplied \<noteq> closeRequestRejected" "closeRequestRejected \<noteq> closeRequestApplied"
  "closeRequestApplied \<noteq> closeRequestRetryable" "closeRequestRetryable \<noteq> closeRequestApplied"
  "closeRequestPending \<noteq> closeRequestApplied" "closeRequestPending \<noteq> closeRequestRejected"
  "closeRequestApplied \<noteq> closeRequestPending" "closeRequestRejected \<noteq> closeRequestPending"
  "closeRequestRejected \<noteq> closeRequestRetryable" "closeRequestRetryable \<noteq> closeRequestRejected"
  by (simp_all add: close_status_def closeRequestPending_def closeRequestRetryable_def closeRequestApplied_def
      closeRequestRejected_def)

definition close_key :: "uint \<Rightarrow> string \<Rightarrow> string" where
  "close_key n cycle = ''close:'' @ show_nat n @ '':'' @ cycle"

lemma closeRequestID_key: "closeRequestID p = close_key (p_ID p) (closeCycleID p)"
  by (simp add: closeRequestID_def close_key_def)

definition reservation_ok :: "store \<Rightarrow> CloseRequest \<Rightarrow> bool" where
  "reservation_ok st r \<longleftrightarrow> close_status (cr_Status r)
     \<and> cr_ID r = close_key (cr_PositionID r) (cr_CycleID r)
     \<and> (cr_Status r = closeRequestApplied \<longrightarrow> claimed (cr_ID r) st)"

lemma reservation_ok_mono:
  "reservation_ok st r \<Longrightarrow> st_batches st' = st_batches st @ bs \<Longrightarrow> reservation_ok st' r"
  unfolding reservation_ok_def claimed_def by (metis UnI1 image_Un set_append)

lemma reservation_ok_positions [simp]: "reservation_ok (st\<lparr>st_positions := rows\<rparr>) = reservation_ok st"
  by (simp add: reservation_ok_def claimed_def fun_eq_iff)

definition close_inv :: "runtime \<Rightarrow> bool" where
  "close_inv rt \<longleftrightarrow> ledger_inv (rn_store rt) \<and> distinct (map cr_ID (rn_closes rt))
     \<and> (\<forall>r \<in> set (rn_closes rt). reservation_ok (rn_store rt) r)"

definition evolves :: "runtime \<Rightarrow> runtime \<Rightarrow> bool" where
  "evolves rt rt' \<longleftrightarrow> (close_inv rt \<longrightarrow> close_inv rt' \<and> rows_step (rn_closes rt) (rn_closes rt')
     \<and> (\<exists>es. st_events (rn_store rt') = st_events (rn_store rt) @ es)
     \<and> (\<exists>bs. st_batches (rn_store rt') = st_batches (rn_store rt) @ bs))"

lemma evolves_refl [simp]: "evolves rt rt"
  by (simp add: evolves_def)

lemma evolves_trans: "evolves rt1 rt2 \<Longrightarrow> evolves rt2 rt3 \<Longrightarrow> evolves rt1 rt3"
  using rows_step_trans unfolding evolves_def by (metis append_assoc)

lemma rt_transaction_cases:
  obtains (aborted) e where "rt_transaction env body rt = (Inl e, rt)"
  | (committed) x rt' where "body rt = Inr (x, rt')" "rt_transaction env body rt = (Inr x, rt')"
  | (unacknowledged) x rt' e where "body rt = Inr (x, rt')" "rt_transaction env body rt = (Inl e, rt')"
      "ce_commit env rt' = Unacknowledged e"
proof (cases "body rt")
  case (Inl e)
  then show thesis using aborted by (simp add: rt_transaction_def)
next
  case (Inr y)
  obtain x rt' where "y = (x, rt')" by (cases y)
  with Inr show thesis
    using aborted committed unacknowledged by (cases "ce_commit env rt'") (auto simp: rt_transaction_def)
qed

lemma rt_transaction_evolves:
  "(\<And>x rt'. body rt = Inr (x, rt') \<Longrightarrow> evolves rt rt') \<Longrightarrow> evolves rt (snd (rt_transaction env body rt))"
  by (rule rt_transaction_cases [of env body rt]) auto

text \<open>What the body leaves alone, the transaction leaves alone.\<close>

lemma rt_transaction_frame:
  assumes "\<And>x rt'. body rt = Inr (x, rt') \<Longrightarrow> f rt' = f rt"
  shows "f (snd (rt_transaction env body rt)) = f rt"
  by (rule rt_transaction_cases [of env body rt]) (simp, metis assms snd_conv, metis assms snd_conv)

lemma rt_transaction_unchanged:
  "(\<And>x rt'. body rt = Inr (x, rt') \<Longrightarrow> rt' = rt) \<Longrightarrow> snd (rt_transaction env body rt) = rt"
  by (rule rt_transaction_frame [where f = "\<lambda>rt. rt"])

lemma rt_require_Inr: "rt_require env table key P rows rt = Inr r \<Longrightarrow> r \<in> set rows \<and> P r"
  using find_Some_in [of P "sort_key key rows" r]
  by (auto simp: rt_require_def rt_first_def result_simps split: option.splits)

lemma rt_write_Inr: "rt_write env table v rt' rt = Inr x \<Longrightarrow> x = rt' \<and> v = None"
  by (auto simp: rt_write_def result_simps)

lemma require_close_Inr: "require_close env rid rt = Inr r \<Longrightarrow> r \<in> set (rn_closes rt) \<and> cr_ID r = rid"
  unfolding require_close_def by (rule rt_require_Inr)

lemma unique_close:
  "close_inv rt \<Longrightarrow> r \<in> set (rn_closes rt) \<Longrightarrow> r' \<in> set (rn_closes rt) \<Longrightarrow> cr_ID r' = cr_ID r \<Longrightarrow> r' = r"
  by (auto simp: close_inv_def distinct_map inj_on_eq_iff)

section \<open>Position flags\<close>

text \<open>An update of positions that leaves what the ledger counts alone.\<close>

definition keeps_economics :: "(Position \<Rightarrow> Position) \<Rightarrow> bool" where
  "keeps_economics f \<longleftrightarrow> (\<forall>p. p_ID (f p) = p_ID p \<and> p_Symbol (f p) = p_Symbol p \<and> p_AccountID (f p) = p_AccountID p
     \<and> p_Status (f p) = p_Status p \<and> p_AmountExact (f p) = p_AmountExact p \<and> p_CostBasisExact (f p) = p_CostBasisExact p
     \<and> p_FeesExact (f p) = p_FeesExact p \<and> p_RealizedPnLExact (f p) = p_RealizedPnLExact p)"

lemma flags_keep_economics [simp]:
  "keeps_economics (\<lambda>p. p\<lparr>p_ExitPending := b\<rparr>)" "keeps_economics (\<lambda>p. p\<lparr>p_ExitPending := b, p_LastMarkAt := t\<rparr>)"
  by (simp_all add: keeps_economics_def)

lemma ledger_inv_flags:
  assumes "keeps_economics f" and inv: "ledger_inv st"
  shows "ledger_inv (st\<lparr>st_positions := map (\<lambda>p. if P p then f p else p) (st_positions st)\<rparr>)"
proof -
  let ?g = "\<lambda>p. if P p then f p else p"
  have f: "position_ok (f p) = position_ok p" "p_ID (f p) = p_ID p" "p_Symbol (f p) = p_Symbol p" for p
    using assms(1) by (simp_all add: keeps_economics_def position_ok_def)
  then have g: "p_ID (?g p) = p_ID p" "p_Symbol (?g p) = p_Symbol p" "position_ok (?g p) = position_ok p" for p
    by simp_all
  have maps: "map p_ID (map ?g rows) = map p_ID rows" "map p_Symbol (map ?g rows) = map p_Symbol rows" for rows
    using g(1,2) by (induction rows) auto
  have cols: "col_sum p_AmountExact s (map ?g rows) = col_sum p_AmountExact s rows"
    "col_sum p_CostBasisExact s (map ?g rows) = col_sum p_CostBasisExact s rows"
    "col_sum p_FeesExact s (map ?g rows) = col_sum p_FeesExact s rows"
    "col_sum p_RealizedPnLExact s (map ?g rows) = col_sum p_RealizedPnLExact s rows" for s rows
    using assms(1) by (induction rows; simp add: keeps_economics_def)+
  have "(\<forall>p \<in> set (map ?g rows). 0 < p_ID p \<and> p_ID p < n \<and> position_ok p) =
      (\<forall>p \<in> set rows. 0 < p_ID p \<and> p_ID p < n \<and> position_ok p)" for n rows
    using g by (induction rows) auto
  then have "positions_ok n (map ?g rows) = positions_ok n rows" for n rows
    unfolding positions_ok_def maps by simp
  then show ?thesis
    using inv by (simp add: ledger_inv_def cash_ok_def symbols_ok_def cols)
qed

lemma update_positions_evolves: "keeps_economics f \<Longrightarrow> evolves rt (update_positions P f rt)"
  by (auto simp: evolves_def close_inv_def update_positions_def ledger_inv_flags)

section \<open>Reservations\<close>

lemma update_close_evolves:
  assumes "\<And>r. close_inv rt \<Longrightarrow> r \<in> set (rn_closes rt) \<Longrightarrow> cr_ID r = rid \<Longrightarrow> row_step r (f r)
      \<and> close_status (cr_Status (f r)) \<and> (cr_Status (f r) = closeRequestApplied \<longrightarrow> claimed rid (rn_store rt))"
  shows "evolves rt (update_close rid f rt)"
proof (cases "close_inv rt")
  case True
  let ?g = "\<lambda>r. if cr_ID r = rid then f r else r"
  have step: "row_step r (?g r)" if "r \<in> set (rn_closes rt)" for r using assms True that by simp
  have ids: "map cr_ID (map ?g (rn_closes rt)) = map cr_ID (rn_closes rt)"
    using row_step_ID [OF step] by (auto cong: map_cong)
  have ok: "reservation_ok (rn_store rt) (?g r)" if "r \<in> set (rn_closes rt)" "reservation_ok (rn_store rt) r" for r
  proof -
    have "close_payload (?g r) = close_payload r" using step [OF that(1)] by (simp add: row_step_def)
    note same = payload_same [OF this]
    show ?thesis
      using that(2) assms [OF True that(1)] unfolding reservation_ok_def same by (cases "cr_ID r = rid") auto
  qed
  have "Ball (set (rn_closes rt)) (reservation_ok (rn_store rt)) \<longrightarrow>
      Ball (set (map ?g (rn_closes rt))) (reservation_ok (rn_store rt))"
    unfolding set_map using ok by blast
  then show ?thesis
    using rows_step_map [of "rn_closes rt" ?g] step
    unfolding evolves_def close_inv_def update_close_def by (simp add: ids del: map_map set_map)
qed (simp add: evolves_def)

lemma create_close_evolves:
  assumes "create_close env r rt = Inr (r', rt')" and "close_status (cr_Status r)" "cr_Status r \<noteq> closeRequestApplied"
    and "cr_ID r = close_key (cr_PositionID r) (cr_CycleID r)"
  shows "evolves rt rt'"
  using assms rows_step_append [of "rn_closes rt" "[r]"]
  by (auto simp: create_close_def result_simps close_violation_def evolves_def close_inv_def reservation_ok_def
      dest!: rt_write_Inr split: if_splits)

lemma reserve_body_evolves:
  assumes "reserve_body env req rt = Inr (x, rt')"
  shows "evolves rt rt'"
proof -
  obtain position where p: "requested_position env req rt = Inr position"
    using assms by (auto simp: reserve_body_def and_then_eq_Inr)
  obtain found where f: "find_close env (closeRequestID position) rt = Inr found"
    using assms p by (auto simp: reserve_body_def and_then_eq_Inr)
  show ?thesis
  proof (cases "p_Status position = ''open''")
    case False
    then show ?thesis using assms p f by (simp add: reserve_body_def)
  next
    case True
    obtain res rt1 where 1: "(case found of
             Some r \<Rightarrow> if cr_Status r = closeRequestRejected then Inl ErrExchangeExecutionFenced else Inr ((r, True), rt)
           | None \<Rightarrow> and_then (create_reservation env req position rt) (\<lambda>(r, rt). Inr ((r, False), rt))) = Inr (res, rt1)"
      and 2: "and_then (rt_write env ''positions'' None
                (update_positions (\<lambda>p. p_ID p = p_ID position \<and> p_Status p = ''open'')
                   (\<lambda>p. p\<lparr>p_ExitPending := True, p_LastMarkAt := Some (rq_TriggeredAt req)\<rparr>) rt1) rt1)
              (\<lambda>rt. Inr (res, rt)) = Inr (x, rt')"
      using assms True by (auto simp: reserve_body_def p f and_then_eq_Inr)
    have "evolves rt rt1"
    proof (cases found)
      case (Some r)
      then show ?thesis using 1 by (auto split: if_splits)
    next
      case None
      then obtain r where "create_reservation env req position rt = Inr (r, rt1)"
        using 1 by (auto simp: and_then_eq_Inr)
      then obtain w price where "create_close env (new_reservation env req position w price) rt = Inr (r, rt1)"
        by (auto simp: create_reservation_def and_then_eq_Inr Let_def split: if_splits)
      then show ?thesis
        by (rule create_close_evolves) (simp_all add: new_reservation_def Let_def closeRequestID_key)
    qed
    moreover have "rt' = update_positions (\<lambda>p. p_ID p = p_ID position \<and> p_Status p = ''open'')
        (\<lambda>p. p\<lparr>p_ExitPending := True, p_LastMarkAt := Some (rq_TriggeredAt req)\<rparr>) rt1"
      using 2 by (auto simp: and_then_eq_Inr dest: rt_write_Inr)
    ultimately show ?thesis using evolves_trans [OF _ update_positions_evolves [OF flags_keep_economics(2)]] by simp
  qed
qed
section \<open>Booking\<close>

lemma nested_fill_claims:
  "ApplyFill_with nested env c st = (Inr r, st') \<Longrightarrow> claimed (fc_IdempotencyKey c) st'"
  by (erule ApplyFill_nested_Inr) (metis fill_body_laws(1) prepare_fill_Inr(2))

lemma store_advances: "advances (rn_store rt) st \<Longrightarrow> evolves rt (rt\<lparr>rn_store := st\<rparr>)"
  by (auto simp: advances_def evolves_def close_inv_def intro: reservation_ok_mono)

lemma closeFillCommand_Inr:
  assumes "closeFillCommand env p r = Inr c"
  obtains amount price where "p_AmountExact p = Some amount" "0 < acc_integer amount"
    "closeRequestPrice env (cr_Price r) = Inr price"
    "CostedPaperFill ''sell'' amount price (cr_FeeBPS r) (cr_SlippageBPS r) = Inr (fc_FillPrice c, fc_Fee c)"
    "fc_Quantity c = amount" "fc_IdempotencyKey c = cr_ID r" "fc_Side c = ''sell''" "fc_Symbol c = p_Symbol p"
    "fc_Currency c = cr_Currency r" "fc_AccountID c = p_AccountID p" "fc_ExistingOrderID c = 0"
    "fc_RequestedPrice c = price" "fc_CostModelVersion c = ''paper-cost-v1''" "fc_FeeType c = EventTradingFee"
    "fc_ExecutionMode c = normalizeExecutionMode (p_ExecutionMode p)" "fc_VenueID c = []" "fc_FeeCurrency c = []"
    "fc_OccurredAt c = cr_TriggeredAt r" "fc_Metadata c = Some (close_metadata r)" "fc_ProviderFillID c = []"
    "fc_Reason c = cr_Reason r"
proof (cases "p_AmountExact p")
  case None
  then show thesis using assms by (simp add: closeFillCommand_def)
next
  case (Some amount)
  then have "0 < acc_integer amount"
    using assms by (auto simp: closeFillCommand_def sgn_if split: if_splits)
  then show thesis
    using assms Some by (intro that [of amount]) (auto simp: closeFillCommand_def and_then_eq_Inr split: if_splits)
qed

lemma apply_body_cases:
  assumes "apply_body env rid rt = Inr (res, rt')"
  obtains (replayed) r where "require_close env rid rt = Inr r" "cr_Status r = closeRequestApplied" "rt' = rt"
      "loadAppliedCloseWith env r rt = Inr res"
  | (booked) r p c fill st where "require_close env rid rt = Inr r" "cr_Status r \<noteq> closeRequestApplied"
      "cr_Status r \<noteq> closeRequestRejected" "position_by_id env (cr_PositionID r) rt = Inr p" "p_Status p = ''open''"
      "closeCycleID p = cr_CycleID r" "normalizeExecutionMode (p_ExecutionMode p) \<noteq> ExecutionModeExchange"
      "closeFillCommand env p r = Inr c" "ApplyFill_with nested (ce_ledger env) c (rn_store rt) = (Inr fill, st)"
      "rt' = update_close rid (mark_applied env r) (rt\<lparr>rn_store := st\<rparr>)"
      "res = \<lparr>cs_Closed = (p_Status (fr_Position fill) = ''closed''), cs_Duplicate = False,
         cs_Position = fr_Position fill, cs_Order = fr_Order fill, cs_Wallet = fr_Wallet fill,
         cs_Reason = cr_Reason r, cs_Price = acc_Float64 (ce_ledger env) (fc_FillPrice c)\<rparr>"
proof -
  obtain r where r: "require_close env rid rt = Inr r"
    using assms by (auto simp: apply_body_def and_then_eq_Inr)
  have rid: "cr_ID r = rid" using require_close_Inr [OF r] by simp
  show thesis
  proof (cases "cr_Status r = closeRequestApplied")
    case True
    then have "rt' = rt \<and> loadAppliedCloseWith env r rt = Inr res"
      using assms r by (auto simp: apply_body_def and_then_eq_Inr)
    then show thesis using replayed [OF r True] by simp
  next
    case False
    then obtain p c where p: "cr_Status r \<noteq> closeRequestRejected" "position_by_id env (cr_PositionID r) rt = Inr p"
      "p_Status p = ''open''" "closeCycleID p = cr_CycleID r"
      "normalizeExecutionMode (p_ExecutionMode p) \<noteq> ExecutionModeExchange" "closeFillCommand env p r = Inr c"
      and book: "book_close env r c rt = Inr (res, rt')"
      using assms r by (auto simp: apply_body_def and_then_eq_Inr split: if_splits)
    obtain x st where x: "ApplyFill_with nested (ce_ledger env) c (rn_store rt) = (x, st)" by (cases "ApplyFill_with nested (ce_ledger env) c (rn_store rt)")
    with book obtain fill where "x = Inr fill" by (cases x) (auto simp: book_close_def)
    with x have fill: "ApplyFill_with nested (ce_ledger env) c (rn_store rt) = (Inr fill, st)" by simp
    from book have "rt' = update_close rid (mark_applied env r) (rt\<lparr>rn_store := st\<rparr>)"
      "res = \<lparr>cs_Closed = (p_Status (fr_Position fill) = ''closed''), cs_Duplicate = False,
         cs_Position = fr_Position fill, cs_Order = fr_Order fill, cs_Wallet = fr_Wallet fill,
         cs_Reason = cr_Reason r, cs_Price = acc_Float64 (ce_ledger env) (fc_FillPrice c)\<rparr>"
      by (auto simp: book_close_def fill and_then_eq_Inr rid Let_def dest!: rt_write_Inr)
    then show thesis by (rule booked [OF r False p fill])
  qed
qed

lemma apply_body_evolves:
  assumes "apply_body env rid rt = Inr (res, rt')"
  shows "evolves rt rt'"
  using assms
proof (cases rule: apply_body_cases)
  case (booked r p c fill st)
  note r = require_close_Inr [OF booked(1)]
  have key: "fc_IdempotencyKey c = rid" by (rule closeFillCommand_Inr [OF booked(8)]) (use r in simp)
  have "claimed rid st" using nested_fill_claims [OF booked(9)] by (simp add: key)
  have unique: "x = r" if "close_inv rt" "x \<in> set (rn_closes rt)" "cr_ID x = rid" for x
    using unique_close [OF that(1), of r x] that r by simp
  have "evolves (rt\<lparr>rn_store := st\<rparr>) (update_close rid (mark_applied env r) (rt\<lparr>rn_store := st\<rparr>))"
  proof (rule update_close_evolves)
    fix x assume "close_inv (rt\<lparr>rn_store := st\<rparr>)" "x \<in> set (rn_closes (rt\<lparr>rn_store := st\<rparr>))" "cr_ID x = rid"
    then have x: "x = r" using unique_close [of "rt\<lparr>rn_store := st\<rparr>" r x] r by simp
    show "row_step x (mark_applied env r x) \<and> close_status (cr_Status (mark_applied env r x))
        \<and> (cr_Status (mark_applied env r x) = closeRequestApplied \<longrightarrow> claimed rid (rn_store (rt\<lparr>rn_store := st\<rparr>)))"
      using booked(2,3) \<open>claimed rid st\<close> by (simp add: x row_step_def mark_applied_def close_payload_def)
  qed
  then show ?thesis
    using evolves_trans [OF store_advances [OF nested_fill_advances [OF booked(9)]]] booked(10) by simp
qed simp

section \<open>Failures and the operations\<close>

lemma failure_body_Inr:
  assumes "failure_body env rid status message rt = Inr (x, rt')"
  obtains r where "require_close env rid rt = Inr r"
    "rt' = (if cr_Status r = closeRequestApplied then rt
      else if status = closeRequestRejected
      then update_positions (\<lambda>p. p_ID p = cr_PositionID r) (\<lambda>p. p\<lparr>p_ExitPending := False\<rparr>)
             (update_close rid (mark_failed env status message) rt)
      else update_close rid (mark_failed env status message) rt)"
proof -
  obtain r where r: "require_close env rid rt = Inr r" using assms by (auto simp: failure_body_def and_then_eq_Inr)
  then show thesis
    using assms that [OF r] by (auto simp: failure_body_def and_then_eq_Inr dest!: rt_write_Inr split: if_splits)
qed

lemma failure_body_evolves:
  assumes "failure_body env rid status message rt = Inr (x, rt')"
    and "status = closeRequestRejected \<or> status = closeRequestRetryable"
  shows "evolves rt rt'"
proof -
  obtain r where r: "require_close env rid rt = Inr r" and rt': "rt' = (if cr_Status r = closeRequestApplied then rt
      else if status = closeRequestRejected
      then update_positions (\<lambda>p. p_ID p = cr_PositionID r) (\<lambda>p. p\<lparr>p_ExitPending := False\<rparr>)
             (update_close rid (mark_failed env status message) rt)
      else update_close rid (mark_failed env status message) rt)"
    by (rule failure_body_Inr [OF assms(1)])
  note in_r = require_close_Inr [OF r]
  show ?thesis
  proof (cases "cr_Status r = closeRequestApplied")
    case False
    have "evolves rt (update_close rid (mark_failed env status message) rt)"
    proof (rule update_close_evolves)
      fix x assume "close_inv rt" "x \<in> set (rn_closes rt)" "cr_ID x = rid"
      then have "x = r" using unique_close [of rt r x] in_r by simp
      then show "row_step x (mark_failed env status message x) \<and> close_status (cr_Status (mark_failed env status message x))
          \<and> (cr_Status (mark_failed env status message x) = closeRequestApplied \<longrightarrow> claimed rid (rn_store rt))"
        using False assms(2) by (auto simp: row_step_def mark_failed_def close_payload_def)
    qed
    from this evolves_trans [OF this update_positions_evolves [OF flags_keep_economics(1)]] show ?thesis
      unfolding rt' by (auto split: if_split)
  qed (use rt' in simp)
qed

lemma failure_status_cases: "failure_status e = closeRequestRejected \<or> failure_status e = closeRequestRetryable"
  by (simp add: failure_status_def)

lemma recordCloseFailure_evolves: "evolves rt (snd (recordCloseFailure env rid (failure_status e) err rt))"
  unfolding recordCloseFailure_def
  by (rule rt_transaction_evolves) (rule failure_body_evolves [OF _ failure_status_cases])

text \<open>How \<open>applyClose\<close> ends: with its transaction's success, or with a recorded failure.\<close>

lemma applyClose_cases:
  obtains (ok) res rt' where "apply_body env rid rt = Inr (res, rt')" "applyClose env rid rt = (Inr res, rt')"
  | (failed) e e' rt' where "fst (applyClose env rid rt) = Inl e'"
      "snd (applyClose env rid rt) = snd (recordCloseFailure env rid (failure_status e) e rt')"
      "rt' = rt \<or> (\<exists>res. apply_body env rid rt = Inr (res, rt'))"
proof -
  have fail: thesis if "rt_transaction env (apply_body env rid) rt = (Inl e, rt')"
    "rt' = rt \<or> (\<exists>res. apply_body env rid rt = Inr (res, rt'))" for e rt'
  proof -
    obtain x rt2 where x: "recordCloseFailure env rid (failure_status e) e rt' = (x, rt2)"
      by (cases "recordCloseFailure env rid (failure_status e) e rt'")
    have "\<exists>e'. applyClose env rid rt = (Inl e', rt2)"
      using that(1) x by (cases x) (simp_all add: applyClose_def)
    then obtain e' where "applyClose env rid rt = (Inl e', rt2)" by blast
    then show thesis using failed [of e' e rt'] x that(2) by simp
  qed
  show thesis
  proof (rule rt_transaction_cases [of env "apply_body env rid" rt])
    fix x rt' assume "apply_body env rid rt = Inr (x, rt')" "rt_transaction env (apply_body env rid) rt = (Inr x, rt')"
    then show thesis by (intro ok) (auto simp: applyClose_def)
  qed (use fail in blast)+
qed

section \<open>The contract of the coordinator's operations\<close>

locale closing =
  fixes run :: "close_env \<Rightarrow> 'c \<Rightarrow> runtime \<Rightarrow> 'r \<times> runtime"
  assumes run_evolves: "evolves rt (snd (run env c rt))"
begin

lemma keeps_inv: "close_inv rt \<Longrightarrow> close_inv (snd (run env c rt))"
  using run_evolves [of rt env c] by (simp add: evolves_def)

lemma keeps_rows: "close_inv rt \<Longrightarrow> rows_step (rn_closes rt) (rn_closes (snd (run env c rt)))"
  using run_evolves [of rt env c] by (simp add: evolves_def)

text \<open>An applied reservation stays as it is.\<close>

lemma keeps_applied:
  "close_inv rt \<Longrightarrow> r \<in> set (rn_closes rt) \<Longrightarrow> cr_Status r = closeRequestApplied \<Longrightarrow> r \<in> set (rn_closes (snd (run env c rt)))"
  using rows_step_row [OF keeps_rows] by (auto simp: row_step_def)

end

interpretation reserve: closing reserveClose
proof
  fix rt env req
  show "evolves rt (snd (reserveClose env req rt))"
    unfolding reserveClose_def by (rule rt_transaction_evolves) (rule reserve_body_evolves)
qed

interpretation applying: closing applyClose
proof
  fix rt env rid
  show "evolves rt (snd (applyClose env rid rt))"
  proof (rule applyClose_cases [of env rid rt])
    fix e e' rt'
    assume eq: "snd (applyClose env rid rt) = snd (recordCloseFailure env rid (failure_status e) e rt')"
      and "rt' = rt \<or> (\<exists>res. apply_body env rid rt = Inr (res, rt'))"
    then have "evolves rt rt'" using apply_body_evolves by auto
    then show ?thesis unfolding eq by (rule evolves_trans) (rule recordCloseFailure_evolves)
  qed (auto dest: apply_body_evolves)
qed

lemma RequestClose_cases:
  obtains (unchanged) "snd (RequestClose env req rt) = rt"
  | (reserved) req' where "snd (RequestClose env req rt) = snd (reserveClose env req' rt)"
  | (applied) req' reservation duplicate rt1 where "reserveClose env req' rt = (Inr (reservation, duplicate), rt1)"
      "snd (RequestClose env req rt) = snd (applyClose env (cr_ID reservation) rt1)"
proof -
  define req' where "req' = (if rq_TriggeredAt req = 0
      then req\<lparr>rq_TriggeredAt := ce_now env ''triggered_at'' (rq_Symbol req)\<rparr> else req)"
  obtain ready st where ready: "CheckReady (ce_ledger env) [] (rn_store rt) = (ready, st)"
    by (cases "CheckReady (ce_ledger env) [] (rn_store rt)")
  obtain res rt1 where res: "reserveClose env req' rt = (res, rt1)" by (cases "reserveClose env req' rt")
  show thesis
  proof (cases ready)
    case (Inl e)
    then show thesis using unchanged by (simp add: RequestClose_def ready)
  next
    case ready_ok: (Inr u)
    show thesis
    proof (cases res)
      case (Inl e)
      then show thesis using reserved [of req'] by (simp add: RequestClose_def ready ready_ok res flip: req'_def)
    next
      case (Inr y)
      obtain reservation duplicate where y: "y = (reservation, duplicate)" by (cases y)
      have run: "RequestClose env req rt =
          (if duplicate \<and> cr_ID reservation = []
               then (case position_by_id env (cr_PositionID reservation) rt1 of
                       Inl e \<Rightarrow> (Inl e, rt1)
                     | Inr position \<Rightarrow>
                         (Inr \<lparr>cs_Closed = (p_Status position = ''closed''), cs_Duplicate = True, cs_Position = position,
                               cs_Order = zero_Order, cs_Wallet = zero_Wallet, cs_Reason = [], cs_Price = 0\<rparr>, rt1))
               else if duplicate \<and> cr_Status reservation = closeRequestApplied
               then (case loadAppliedCloseWith env reservation rt1 of
                       Inl e \<Rightarrow> (Inl e, rt1)
                     | Inr r \<Rightarrow> (Inr (r\<lparr>cs_Duplicate := True\<rparr>), rt1))
               else (case applyClose env (cr_ID reservation) rt1 of
                       (Inl e, rt) \<Rightarrow> (Inl e, rt)
                     | (Inr r, rt) \<Rightarrow> (Inr (r\<lparr>cs_Duplicate := duplicate\<rparr>), rt)))"
        unfolding RequestClose_def Let_def req'_def [symmetric] by (simp add: ready ready_ok res Inr y)
      have "snd (RequestClose env req rt) = rt1 \<or>
          snd (RequestClose env req rt) = snd (applyClose env (cr_ID reservation) rt1)"
        unfolding run by (simp split: sum.split prod.split)
      then consider "snd (RequestClose env req rt) = rt1"
        | "snd (RequestClose env req rt) = snd (applyClose env (cr_ID reservation) rt1)"
        by blast
      then show thesis using reserved [of req'] applied [of req' reservation duplicate rt1] res Inr y by cases auto
    qed
  qed
qed

interpretation request: closing RequestClose
proof
  fix rt env req
  show "evolves rt (snd (RequestClose env req rt))"
  proof (rule RequestClose_cases [of env req rt])
    fix req' reservation duplicate rt1
    assume "reserveClose env req' rt = (Inr (reservation, duplicate), rt1)"
      and "snd (RequestClose env req rt) = snd (applyClose env (cr_ID reservation) rt1)"
    then show ?thesis
      using reserve.run_evolves [of rt env req'] applying.run_evolves [of rt1 env "cr_ID reservation"] evolves_trans by simp
  qed (simp_all add: reserve.run_evolves)
qed

lemma recover_all_evolves: "evolves rt (snd (recover_all env n ids rt))"
proof (induction env n ids rt rule: recover_all.induct)
  case (2 env n rid ids rt)
  obtain x rt' where x: "applyClose env rid rt = (x, rt')" by (cases "applyClose env rid rt")
  have "evolves rt rt'" using applying.run_evolves [of rt env rid] by (simp add: x)
  then show ?case using 2 x evolves_trans by (cases x) fastforce+
qed simp

definition run_recovery :: "close_env \<Rightarrow> unit \<Rightarrow> runtime \<Rightarrow> (nat \<times> ledger_error option) \<times> runtime" where
  "run_recovery env u rt = RecoverPendingCloses env rt"

interpretation recovery: closing run_recovery
proof
  fix rt env u
  show "evolves rt (snd (run_recovery env u rt))"
    using recover_all_evolves
    by (auto simp: run_recovery_def RecoverPendingCloses_def split: prod.split sum.split)
qed


end
