(* ===== verification/Close_Samples.thy ===== *)
theory Close_Samples
  imports Close_Laws Ledger_Samples
begin

text \<open>
  A concrete runtime for the witnesses of the execution coordinator: an open position of 2 BTC bought for 200 USDT, 800 USDT in
  cash, and a pending reservation to close it at 100 with 10 basis points of fee and 5 of slippage.
\<close>

definition sample_close_env :: close_env where
  "sample_close_env = \<lparr>ce_ledger = sample_env, ce_db = (\<lambda>_ _. None), ce_commit = (\<lambda>_. Committed), ce_now = (\<lambda>_ _. 1000),
     ce_settings = [], ce_FormatFloat18 = (\<lambda>_. acc_String (AccDecimal (Some 100000000000000000000)))\<rparr>"

text \<open>The same, with a commit that goes through but is not acknowledged.\<close>

definition lossy_env :: close_env where
  "lossy_env = sample_close_env\<lparr>ce_commit := (\<lambda>_. Unacknowledged (PgError ''08006'' []))\<rparr>"

definition held_position :: Position where
  "held_position = zero_Position\<lparr>p_ID := 1, p_Symbol := ''BTC'', p_AccountID := ''primary'', p_Status := ''open'',
     p_AmountExact := Some (AccDecimal (Some (2 * acc_factor))), p_CostBasisExact := Some (AccDecimal (Some (200 * acc_factor))),
     p_RealizedPnLExact := Some acc_Zero, p_FeesExact := Some acc_Zero, p_ExecutionMode := ''paper'',
     p_OpenedAt := 62135596800000000007\<rparr>"

definition held_event :: LedgerEvent where
  "held_event = sample_deposit\<lparr>e_ID := ''e1'', e_LedgerBatchID := ''b1'', e_IdempotencyKey := ''b1:fill'',
     e_EventType := EventBuyFill, e_Symbol := ''BTC'', e_CashDelta := AccDecimal (Some (- 200 * acc_factor)),
     e_AssetDelta := AccDecimal (Some (2 * acc_factor)), e_CostBasisDelta := AccDecimal (Some (200 * acc_factor)),
     e_FillID := Some ''f1''\<rparr>"

definition held_store :: store where
  "held_store = sample_store\<lparr>st_wallets := [sample_wallet\<lparr>w_BalanceExact := Some (AccDecimal (Some (800 * acc_factor)))\<rparr>],
     st_positions := [held_position], st_events := [sample_deposit, held_event], st_next_position := 2\<rparr>"

definition sample_reservation :: CloseRequest where
  "sample_reservation = \<lparr>cr_ID = ''close:1:7'', cr_PositionID = 1, cr_CycleID = ''7'', cr_AccountID = ''primary'',
     cr_Currency = ''USDT'', cr_Symbol = ''BTC'', cr_Reason = ''stop'', cr_Source = ''monitor'', cr_Price = 0x4059000000000000,
     cr_FeeBPS = 10, cr_SlippageBPS = 5, cr_Status = closeRequestPending, cr_Attempts = 0, cr_LastError = [],
     cr_TriggeredAt = 10, cr_AppliedAt = None, cr_CreatedAt = 10, cr_UpdatedAt = 10\<rparr>"

definition held_runtime :: runtime where
  "held_runtime = \<lparr>rn_store = held_store, rn_closes = [sample_reservation]\<rparr>"

text \<open>The command of the close: 2 BTC sold at 99.95 for a fee of 0.1999.\<close>

definition held_command :: FillCommand where
  "held_command = \<lparr>fc_IdempotencyKey = ''close:1:7'', fc_AccountID = ''primary'', fc_Symbol = ''BTC'', fc_Side = ''sell'',
     fc_Quantity = AccDecimal (Some (2 * acc_factor)), fc_RequestedPrice = AccDecimal (Some 100000000000000000000),
     fc_FillPrice = AccDecimal (Some 99950000000000000000), fc_Fee = AccDecimal (Some 199900000000000000),
     fc_FeeType = EventTradingFee, fc_Currency = ''USDT'', fc_ExecutionMode = ''paper'', fc_ProviderFillID = [],
     fc_ProviderOrderID = [], fc_VenueID = [], fc_FeeCurrency = [], fc_OrderStatus = OrderStatusFilled,
     fc_ExistingOrderID = 0, fc_ClientOrderID = ''close:1:7'', fc_OccurredAt = 10, fc_Actor = ''monitor'', fc_Reason = ''stop'',
     fc_StrategyVersion = [], fc_PolicyVersion = [], fc_CostModelVersion = ''paper-cost-v1'',
     fc_Metadata = Some (close_metadata sample_reservation),
     fc_EntrySource = [], fc_DecisionTimeframe = [], fc_ModelVersion = [], fc_UniverseMode = [],
     fc_RolloutState = [], fc_ExperimentID = None, fc_PredictionLogID = None, fc_DecisionContextJSON = [],
     fc_StopPrice = None, fc_TakeProfitPrice = None, fc_TrailingStopPrice = None, fc_LastAtrValue = None,
     fc_MaxBarsHeld = None\<rparr>"

section \<open>Facts\<close>

lemma held_store_inv: "ledger_inv held_store"
  by (auto simp: ledger_inv_def cash_ok_def positions_ok_def orders_ok_def symbols_ok_def event_ok_def position_ok_def
      held_store_def held_position_def held_event_def sample_store_def sample_wallet_def sample_deposit_def
      DefaultAccountID_def acc_factor_def zero_Position_def)

lemma held_numerals: "show_nat 1 = ''1''" "big_string (sint (10 :: int64)) = ''10''" "big_string (sint (5 :: int64)) = ''5''"
  by code_simp+

lemma held_runtime_inv: "close_inv held_runtime"
  using held_store_inv
  by (simp add: close_inv_def held_runtime_def reservation_ok_def sample_reservation_def close_key_def
      held_numerals(1) [unfolded One_nat_def])

lemma must_parse_digits:
  "list_all is_digit s \<Longrightarrow> s \<noteq> [] \<Longrightarrow> must_parse s = AccDecimal (Some (int (nat_of_digits s) * 10 ^ acc_Scale))"
  using acc_Parse_plain [of s "[]" _ False] by (simp add: must_parse_def acc_MustParse_def nat_of_digits_append)

lemma held_rates:
  "must_parse ''10000'' = AccDecimal (Some 10000000000000000000000)" "must_parse ''10'' = AccDecimal (Some 10000000000000000000)"
  "must_parse ''5'' = AccDecimal (Some 5000000000000000000)" "must_parse ''1'' = AccDecimal (Some 1000000000000000000)"
proof -
  have digits: "nat_of_digits ''10000'' = 10000" "nat_of_digits ''10'' = 10" "nat_of_digits ''5'' = 5" "nat_of_digits ''1'' = 1"
    "list_all is_digit ''10000''" "list_all is_digit ''10''" "list_all is_digit ''5''" "list_all is_digit ''1''"
    by code_simp+
  show "must_parse ''10000'' = AccDecimal (Some 10000000000000000000000)" "must_parse ''10'' = AccDecimal (Some 10000000000000000000)"
    "must_parse ''5'' = AccDecimal (Some 5000000000000000000)" "must_parse ''1'' = AccDecimal (Some 1000000000000000000)"
    by (simp_all only: must_parse_digits digits list.distinct not_False_eq_True) (simp_all add: acc_Scale_def)
qed

lemma held_costs:
  "CostedPaperFill ''sell'' (AccDecimal (Some (2 * acc_factor))) (AccDecimal (Some 100000000000000000000)) 10 5
     = Inr (AccDecimal (Some 99950000000000000000), AccDecimal (Some 199900000000000000))"
proof -
  have ops: "div_or_zero (AccDecimal (Some 5000000000000000000)) (AccDecimal (Some 10000000000000000000000))
      = AccDecimal (Some 500000000000000)"
    "div_or_zero (AccDecimal (Some 10000000000000000000)) (AccDecimal (Some 10000000000000000000000))
      = AccDecimal (Some 1000000000000000)"
    "acc_Sub (AccDecimal (Some 1000000000000000000)) (AccDecimal (Some 500000000000000)) = AccDecimal (Some 999500000000000000)"
    "acc_Mul (AccDecimal (Some 100000000000000000000)) (AccDecimal (Some 999500000000000000)) = AccDecimal (Some 99950000000000000000)"
    "acc_Mul (AccDecimal (Some (2 * acc_factor))) (AccDecimal (Some 99950000000000000000)) = AccDecimal (Some 199900000000000000000)"
    "acc_Mul (AccDecimal (Some 199900000000000000000)) (AccDecimal (Some 1000000000000000)) = AccDecimal (Some 199900000000000000)"
    "\<not> ((10 :: int64) <s 0 \<or> (5 :: int64) <s 0)"
    by code_simp+
  show ?thesis
    unfolding CostedPaperFill_def if_not_P [OF ops(7)] held_numerals held_rates Let_def ops(1,2)
    by (simp add: ops)
qed

lemma held_command: "closeFillCommand sample_close_env held_position sample_reservation = Inr held_command"
proof -
  have pos: "p_AmountExact held_position = Some (AccDecimal (Some (2 * acc_factor)))" "p_AccountID held_position = ''primary''"
    "p_Symbol held_position = ''BTC''" "normalizeExecutionMode (p_ExecutionMode held_position) = ''paper''"
    "p_StrategyVersion held_position = []" "p_PolicyVersion held_position = []"
    by code_simp+
  have res: "cr_ID sample_reservation = ''close:1:7''" "cr_FeeBPS sample_reservation = 10" "cr_SlippageBPS sample_reservation = 5"
    "cr_Currency sample_reservation = ''USDT''" "cr_TriggeredAt sample_reservation = 10" "cr_Source sample_reservation = ''monitor''"
    "cr_Reason sample_reservation = ''stop''"
    by (simp_all add: sample_reservation_def)
  have price: "closeRequestPrice sample_close_env v = Inr (AccDecimal (Some 100000000000000000000))" for v
    by (simp add: closeRequestPrice_def sample_close_env_def acc_Parse_String_aux)
  have sign: "\<not> acc_Sign (AccDecimal (Some (2 * acc_factor))) \<le> 0" by (simp add: acc_factor_def)
  show ?thesis
    unfolding closeFillCommand_def pos option.case if_not_P [OF sign] price and_then_simps res held_costs prod.case
    by (simp add: held_command_def)
qed

lemma held_prepared:
  "prepare_fill sample_env held_command
     = Inr (held_command\<lparr>fc_VenueID := ''internal'', fc_FeeCurrency := ''USDT''\<rparr>, ''BTCsell'', ''{}'', 1000)"
  by code_simp

lemma held_cycle: "closeCycleID held_position = ''7''"
  by code_simp

lemma held_amounts:
  "acc_integer (cash_delta held_command (gross_of held_command)) = 199900000000000000000"
  by code_simp

end
