(* ===== verification/Close_Properties.thy ===== *)
theory Close_Properties
  imports Close_Samples Ledger_Properties
begin

text \<open>
  The properties of the execution coordinator: the steps of the coordinator interleaved with the other writers of the ledger
  (\<open>close_step\<close>), on which every reservation follows its state machine; a close is booked at most once, sells the whole
  position, and survives a lost acknowledgement; what recovery leaves behind, and when a close goes through.
\<close>

section \<open>Steps\<close>

definition bookClose :: "close_env \<Rightarrow> string \<Rightarrow> runtime \<Rightarrow> CloseResult lresult \<times> runtime" where
  "bookClose env rid rt = rt_transaction env (apply_body env rid) rt"

interpretation booking: closing bookClose
proof
  fix rt env rid
  show "evolves rt (snd (bookClose env rid rt))"
    unfolding bookClose_def by (rule rt_transaction_evolves) (rule apply_body_evolves)
qed

text \<open>
  A step is an operation of the coordinator; an operation that stops after one of its transactions (the process ends);
  or a request of any kind to the ledger that strands no cost basis.
\<close>

inductive close_step :: "runtime \<Rightarrow> runtime \<Rightarrow> bool" where
  request_step: "close_step rt (snd (RequestClose env req rt))"
| recovery_step: "close_step rt (snd (RecoverPendingCloses env rt))"
| reserved_step: "close_step rt (snd (reserveClose env req rt))"
| booked_step: "close_step rt (snd (bookClose env rid rt))"
| writer_step: "ledger_step (rn_store rt) st \<Longrightarrow> no_stranded_basis st \<Longrightarrow> close_step rt (rt\<lparr>rn_store := st\<rparr>)"

lemma close_step_evolves: "close_step rt rt' \<Longrightarrow> evolves rt rt'"
proof (induction rule: close_step.induct)
  case (recovery_step rt env)
  then show ?case using recovery.run_evolves [of rt env "()"] by (simp add: run_recovery_def)
next
  case (writer_step rt st)
  then obtain bs where "st_batches st = st_batches (rn_store rt) @ bs" "\<exists>es. st_events st = st_events (rn_store rt) @ es"
    using ledger_step_history by blast
  moreover have "close_inv rt \<Longrightarrow> ledger_inv st"
    using ledger_step_inv [OF writer_step(1,2)] by (simp add: close_inv_def)
  ultimately show ?case by (auto simp: evolves_def close_inv_def intro: reservation_ok_mono)
qed (rule request.run_evolves reserve.run_evolves booking.run_evolves)+

lemma close_reach_evolves: "rtranclp close_step rt rt' \<Longrightarrow> evolves rt rt'"
  by (induction rule: rtranclp_induct) (auto dest: close_step_evolves intro: evolves_trans)

lemma reach_applied:
  assumes "rtranclp close_step rt rt'" and "close_inv rt" and "r \<in> set (rn_closes rt)" and "cr_Status r = closeRequestApplied"
  shows "close_inv rt'" "r \<in> set (rn_closes rt')"
proof -
  have ev: "close_inv rt' \<and> rows_step (rn_closes rt) (rn_closes rt')"
    using close_reach_evolves [OF assms(1)] assms(2) by (simp add: evolves_def)
  then show "close_inv rt'" by simp
  from rows_step_row [OF conjunct2 [OF ev] assms(3)] show "r \<in> set (rn_closes rt')"
    using assms(4) by (auto simp: row_step_def)
qed

text \<open>C21: Whatever the coordinator, a crash between its transactions, a lost acknowledgement and the other writers of the
  ledger do: the ledger stays exact, there is one reservation per position lifecycle, an applied reservation has its fill
  claimed in the ledger and is never touched again, and a retry keeps the whole payload: position, price, costs, time.\<close>

theorem close_state_machine:
  assumes "rtranclp close_step rt rt'" and "close_inv rt"
  shows "ledger_inv (rn_store rt') \<and> distinct (map cr_ID (rn_closes rt')) \<and>
    (\<forall>r \<in> set (rn_closes rt'). cr_ID r = close_key (cr_PositionID r) (cr_CycleID r) \<and>
       (cr_Status r = closeRequestApplied \<longrightarrow> claimed (cr_ID r) (rn_store rt'))) \<and>
    (\<forall>r \<in> set (rn_closes rt). \<exists>r' \<in> set (rn_closes rt'). close_payload r' = close_payload r \<and> cr_Attempts r \<le> cr_Attempts r' \<and>
       (cr_Status r = closeRequestApplied \<longrightarrow> r' = r))"
proof -
  have ev: "close_inv rt' \<and> rows_step (rn_closes rt) (rn_closes rt')"
    using close_reach_evolves [OF assms(1)] assms(2) by (simp add: evolves_def)
  then have rows: "\<exists>r' \<in> set (rn_closes rt'). row_step r r'" if "r \<in> set (rn_closes rt)" for r
    using rows_step_row that by blast
  have "\<forall>r \<in> set (rn_closes rt'). reservation_ok (rn_store rt') r"
    and inv: "ledger_inv (rn_store rt')" "distinct (map cr_ID (rn_closes rt'))"
    using ev by (simp_all add: close_inv_def)
  then have "\<forall>r \<in> set (rn_closes rt'). cr_ID r = close_key (cr_PositionID r) (cr_CycleID r) \<and>
       (cr_Status r = closeRequestApplied \<longrightarrow> claimed (cr_ID r) (rn_store rt'))"
    unfolding reservation_ok_def by blast
  then show ?thesis using rows inv unfolding row_step_def by blast
qed

section \<open>At most once\<close>

lemma require_applied:
  assumes "close_inv rt" and "r \<in> set (rn_closes rt)" and "require_close env (cr_ID r) rt = Inr x"
  shows "x = r"
  using unique_close [OF assms(1,2)] require_close_Inr [OF assms(3)] by simp

lemma failure_keeps_applied:
  assumes inv: "close_inv rt" and r: "r \<in> set (rn_closes rt)" "cr_Status r = closeRequestApplied"
  shows "snd (recordCloseFailure env (cr_ID r) status e rt) = rt"
proof -
  have "rt' = rt" if "failure_body env (cr_ID r) status message rt = Inr (x, rt')" for message x rt'
  proof -
    from failure_body_Inr [OF that] obtain y where "require_close env (cr_ID r) rt = Inr y"
      and rt': "cr_Status y = closeRequestApplied \<longrightarrow> rt' = rt" by metis
    then show ?thesis using require_applied [OF inv r(1)] r(2) by blast
  qed
  then show ?thesis unfolding recordCloseFailure_def by (rule rt_transaction_unchanged)
qed

lemma applied_is_final:
  assumes inv: "close_inv rt" and r: "r \<in> set (rn_closes rt)" "cr_Status r = closeRequestApplied"
  shows "snd (applyClose env (cr_ID r) rt) = rt"
proof -
  have body: "rt' = rt" if "apply_body env (cr_ID r) rt = Inr (res, rt')" for res rt'
    using that
  proof (cases rule: apply_body_cases)
    case (booked x p c fill st)
    then show ?thesis using require_applied [OF inv r(1) booked(1)] r(2) by simp
  qed simp
  show ?thesis
    by (rule applyClose_cases [of env "cr_ID r" rt]) (use body failure_keeps_applied [OF assms] in auto)
qed

text \<open>A position is closed at most once per request: after a reservation was applied, and after any further steps of the
  coordinator and of the ledger, applying it again changes neither the ledger nor the reservations, in any environment.\<close>

theorem close_books_once:
  assumes "close_inv rt" and "r \<in> set (rn_closes rt)" and "cr_Status r = closeRequestApplied" and "rtranclp close_step rt rt'"
  shows "snd (applyClose env (cr_ID r) rt') = rt'"
  using reach_applied [OF assms(4,1-3)] assms(3) applied_is_final by blast

section \<open>Failures\<close>

lemma apply_body_applied:
  assumes "apply_body env rid rt = Inr (res, rt')" and "close_inv rt"
  shows "\<exists>r \<in> set (rn_closes rt'). cr_ID r = rid \<and> cr_Status r = closeRequestApplied"
  using assms(1)
proof (cases rule: apply_body_cases)
  case (replayed r)
  then show ?thesis using require_close_Inr [OF replayed(1)] by auto
next
  case (booked r p c fill st)
  note r = require_close_Inr [OF booked(1)]
  have "mark_applied env r r \<in> set (rn_closes rt')"
    using r by (auto simp: booked(10) update_close_def image_iff intro!: bexI [of _ r])
  then show ?thesis
    by (rule rev_bexI) (use r in \<open>simp add: mark_applied_def\<close>)
qed

text \<open>The store up to the flag that a close is under way.\<close>

definition economic :: "store \<Rightarrow> store" where
  "economic st = st\<lparr>st_positions := map (\<lambda>p. p\<lparr>p_ExitPending := False\<rparr>) (st_positions st)\<rparr>"

lemma economic_updates [simp]:
  "economic (rn_store (update_positions P (\<lambda>p. p\<lparr>p_ExitPending := b\<rparr>) rt)) = economic (rn_store rt)"
  "rn_store (update_close rid f rt) = rn_store rt"
proof -
  have eq: "(\<lambda>p. p\<lparr>p_ExitPending := False\<rparr>) \<circ> (\<lambda>p. if P p then p\<lparr>p_ExitPending := b\<rparr> else p) = (\<lambda>p. p\<lparr>p_ExitPending := False\<rparr>)"
    by (rule ext) simp
  show "economic (rn_store (update_positions P (\<lambda>p. p\<lparr>p_ExitPending := b\<rparr>) rt)) = economic (rn_store rt)"
    by (simp add: economic_def update_positions_def eq)
qed (simp add: update_close_def)

lemma failure_economic: "economic (rn_store (snd (recordCloseFailure env rid status e rt))) = economic (rn_store rt)"
proof -
  have "economic (rn_store rt') = economic (rn_store rt)" if "failure_body env rid status message rt = Inr (x, rt')" for message x rt'
    by (rule failure_body_Inr [OF that]) simp
  then show ?thesis unfolding recordCloseFailure_def by (rule rt_transaction_frame [where f = "\<lambda>rt. economic (rn_store rt)"])
qed

text \<open>C22: A close that reports an error has either changed nothing of the ledger but the exit flag, or its acknowledgement was
  lost: then the reservation is applied and its fill booked, and the failure record has not overwritten that.\<close>

theorem close_failure_safe:
  assumes "close_inv rt" and "applyClose env rid rt = (Inl e, rt')"
  shows "economic (rn_store rt') = economic (rn_store rt) \<or>
    (\<exists>r \<in> set (rn_closes rt'). cr_ID r = rid \<and> cr_Status r = closeRequestApplied \<and> claimed rid (rn_store rt'))"
proof (rule applyClose_cases [of env rid rt])
  fix e1 e2 rt1
  assume rec: "snd (applyClose env rid rt) = snd (recordCloseFailure env rid (failure_status e1) e1 rt1)"
    and rt1: "rt1 = rt \<or> (\<exists>res. apply_body env rid rt = Inr (res, rt1))"
  from rt1 show ?thesis
  proof
    assume "rt1 = rt"
    then show ?thesis using failure_economic [of env rid "failure_status e1" e1 rt] rec assms(2) by simp
  next
    assume "\<exists>res. apply_body env rid rt = Inr (res, rt1)"
    then obtain res where body: "apply_body env rid rt = Inr (res, rt1)" by blast
    have inv: "close_inv rt1" using apply_body_evolves [OF body] assms(1) by (simp add: evolves_def)
    obtain r where r: "r \<in> set (rn_closes rt1)" "cr_ID r = rid" "cr_Status r = closeRequestApplied"
      using apply_body_applied [OF body assms(1)] by blast
    then have "rt' = rt1" using failure_keeps_applied [OF inv r(1,3)] rec assms(2) by simp
    moreover have "claimed rid (rn_store rt1)" using inv r by (auto simp: close_inv_def reservation_ok_def)
    ultimately show ?thesis using r by blast
  qed
qed (use assms(2) in simp)

section \<open>Selling everything\<close>

lemma whole_sale:
  assumes inv: "ledger_inv st" and new: "\<not> claimed (fc_IdempotencyKey c) st" and run: "filled env c st r st'"
    and c: "fc_Side c = ''sell''" and p: "p \<in> set (st_positions st)" "p_Symbol p = fc_Symbol c" "p_AmountExact p = Some (fc_Quantity c)"
  shows "p_Status (fr_Position r) = ''closed''" "p_ID (fr_Position r) = p_ID p"
    "position_row (fr_Position r) \<in> set (st_positions st')"
    "exact (p_RealizedPnLExact (fr_Position r)) = exact (p_RealizedPnLExact p) + acc_integer (gross_of c)
       - exact (p_CostBasisExact p) - acc_integer (fc_Fee c)"
proof -
  obtain c' h md rec st0 where prep: "prepare_fill env c = Inr (c', h, md, rec)"
    and post: "post_fill env c' md rec st0 = Inr (r, st')" and st0: "\<exists>b. st0 = st\<lparr>st_batches := st_batches st @ [b]\<rparr>"
    by (rule ApplyFill_posted [OF run new])
  note c' = prepare_fill_Inr [OF prep]
  have rows: "st_positions st0 = st_positions st" using st0 by auto
  have ok: "positions_ok (st_next_position st) (st_positions st)" using inv by (simp add: ledger_inv_def)
  obtain w cash where "write_fill env c' md rec w (gross_of c') cash st0 = Inr (r, st')"
    using post by (auto simp: post_fill_def Let_def and_then_eq_Inr split: if_splits)
  then obtain position realized basis st1 row st2 order st3 fill st4 es where
    1: "applyPosition env c' (gross_of c') st0 = Inr ((position, realized, basis), st1)"
    and 2: "save_wallet env (w\<lparr>w_BalanceExact := Some cash, w_Balance := acc_Float64 env cash\<rparr>) st1 = Inr (row, st2)"
    and 3: "upsertFilledOrder env c' (gross_of c') st2 = Inr (order, st3)"
    and 4: "create_fill env (fill_row env c' (gross_of c') rec order position) st3 = Inr (fill, st4)"
    and 5: "create_events env (events_of env c' realized basis md rec order position) st4 = Inr (es, st')"
    and r: "fr_Position r = position"
    unfolding write_fill_def by (auto simp: and_then_eq_Inr)
  have "st_positions st2 = st_positions st1" using 2 by (auto simp: save_wallet_def Let_def result_simps)
  moreover have "st_positions st3 = st_positions st2"
    using 3 by (auto simp: upsertFilledOrder_def create_order_def save_order_def Let_def result_simps split: if_splits)
  moreover have "st_positions st4 = st_positions st3" using 4 by (auto simp: create_fill_def Let_def result_simps)
  moreover have "st_positions st' = st_positions st4" using 5 by (auto dest!: create_events_Inr)
  ultimately have st': "st_positions st' = st_positions st1" by simp
  have sell: "fc_Side c' \<noteq> ''buy''" "fc_Quantity c' = fc_Quantity c" "fc_Symbol c' = fc_Symbol c"
    using c c' by simp_all
  obtain found where f: "db_first env ''positions'' p_ID
      (\<lambda>p. p_AccountID p = fc_AccountID c' \<and> p_Symbol p = fc_Symbol c') (st_positions st0) st0 = Inr found"
    and s: "applySell env c' (gross_of c') found st0 = Inr ((position, realized, basis), st1)"
    using 1 sell(1) by (auto simp: applyPosition_def and_then_eq_Inr)
  obtain q where q: "found = Some q" using s by (auto simp: applySell_def split: option.splits)
  have "q \<in> set (st_positions st) \<and> p_Symbol q = fc_Symbol c"
    using db_first_Inr [OF f] find_Some_in [of _ "sort_key p_ID (st_positions st0)" q] q rows sell by auto
  moreover have "inj_on p_Symbol (set (st_positions st))" using ok by (simp add: positions_ok_def distinct_map)
  ultimately have "q = p" using p(1,2) inj_onD [of p_Symbol "set (st_positions st)" q p] by simp
  with q have found: "found = Some p" by simp
  have pok: "position_ok p" "p_Status p = ''open''" using ok p(1) s found by (auto simp: positions_ok_def applySell_def split: if_splits)
  define released where
    "released = the_ok (AccDecimal None) (acc_MulDiv (opt0 (p_CostBasisExact p)) (fc_Quantity c') (opt0 (p_AmountExact p)))"
  define p' where "p' = sell_update env c' (acc_Sub (gross_of c') released) released
                (acc_Sub (opt0 (p_AmountExact p)) (fc_Quantity c')) p"
  have pos: "position = p'" "st1 = st0\<lparr>st_positions := replace_row p_ID (position_row p') (st_positions st0)\<rparr>"
    using s found
    by (auto simp: applySell_def Let_def save_position_def result_simps released_def [symmetric] p'_def [symmetric]
             split: if_splits)
  have le: "acc_integer (fc_Quantity c') \<le> exact (p_AmountExact p)" using p(3) sell(2) by simp
  note new' = sell_position(1-7) [OF c'(1) pok(1) _ pok(2) le, of env, folded released_def, folded p'_def]
  note rel = sell_position(8) [OF c'(1) pok(1) _ pok(2) le, folded released_def]
  have sym: "p_Symbol p = fc_Symbol c'" using p(2) sell(3) by simp
  show "p_Status (fr_Position r) = ''closed''"
    using p(3) sell(2) by (simp add: r pos(1) p'_def sell_update_def Let_def sgn_0_0)
  show "p_ID (fr_Position r) = p_ID p" using new'(3) [OF sym] by (simp add: r pos(1))
  then show "position_row (fr_Position r) \<in> set (st_positions st')"
    using p(1) rows by (auto simp: st' pos r replace_row_def image_iff intro!: bexI [of _ p])
  have q0: "0 < acc_integer (fc_Quantity c')" using c'(1) by (simp add: fill_valid_def)
  have "acc_integer released = exact (p_CostBasisExact p)"
    using rel [OF sym] accounting.rdiv_exact [of "acc_integer (fc_Quantity c')" "exact (p_CostBasisExact p)"] q0 p(3) sell(2)
    by (simp add: mult.commute)
  then show "exact (p_RealizedPnLExact (fr_Position r)) = exact (p_RealizedPnLExact p) + acc_integer (gross_of c)
       - exact (p_CostBasisExact p) - acc_integer (fc_Fee c)"
    using new'(7) [OF sym] c' by (simp add: r pos(1))
qed

lemma require_unique:
  assumes "rt_require env table key P rows rt = Inr x" and "y \<in> set rows" "P y" and "\<And>z. z \<in> set rows \<Longrightarrow> P z \<Longrightarrow> z = y"
  shows "x = y"
  using rt_require_Inr [OF assms(1)] assms(4) by blast

lemma booked_close:
  assumes "close_inv rt" and "r \<in> set (rn_closes rt)" and "cr_Status r \<noteq> closeRequestApplied" and "\<not> claimed (cr_ID r) (rn_store rt)"
    and "apply_body env (cr_ID r) rt = Inr (res, rt')"
  shows "\<exists>p \<in> set (st_positions (rn_store rt)). \<exists>c. \<exists>q \<in> set (st_positions (rn_store rt')).
    closeFillCommand env p r = Inr c \<and> p_ID p = cr_PositionID r \<and> p_ID q = p_ID p \<and> cs_Closed res \<and>
    p_Status q = ''closed'' \<and> exact (p_AmountExact q) = 0 \<and> exact (p_CostBasisExact q) = 0 \<and>
    exact (p_RealizedPnLExact q) = exact (p_RealizedPnLExact p) + acc_integer (gross_of c)
      - exact (p_CostBasisExact p) - acc_integer (fc_Fee c) \<and>
    book_cash (rn_store rt') = book_cash (rn_store rt) + acc_integer (gross_of c) - acc_integer (fc_Fee c) \<and>
    (\<exists>r' \<in> set (rn_closes rt'). cr_ID r' = cr_ID r \<and> cr_Status r' = closeRequestApplied)"
proof -
  note body = assms(5)
  have inv: "close_inv rt'" using apply_body_evolves [OF body] assms(1) by (simp add: evolves_def)
  from body show ?thesis
  proof (cases rule: apply_body_cases)
    case (replayed x)
    then show ?thesis using require_applied [OF assms(1,2) replayed(1)] assms(3) by simp
  next
    case (booked x p c fill st)
    have x: "x = r" by (rule require_applied [OF assms(1,2) booked(1)])
    have p: "p \<in> set (st_positions (rn_store rt))" "p_ID p = cr_PositionID r"
      using rt_require_Inr [OF booked(4) [unfolded position_by_id_def]] by (simp_all add: x)
    obtain amount where c: "p_AmountExact p = Some amount" "fc_Quantity c = amount" "fc_IdempotencyKey c = cr_ID r"
      "fc_Side c = ''sell''" "fc_Symbol c = p_Symbol p"
      by (rule closeFillCommand_Inr [OF booked(8)]) (simp add: x)
    have linv: "ledger_inv (rn_store rt)" using assms(1) by (simp add: close_inv_def)
    have new: "\<not> claimed (fc_IdempotencyKey c) (rn_store rt)" using assms(4) c(3) by simp
    have run: "filled (ce_ledger env) c (rn_store rt) fill st" using booked(9) by simp
    note sale = whole_sale [OF linv new run c(4) p(1)]
    obtain realized delta where "book_cash st = book_cash (rn_store rt) + acc_integer (cash_delta c (gross_of c)) - acc_integer (fc_Fee c)"
      by (rule fill_effect [OF linv new run])
    then have cash: "book_cash (rn_store rt') = book_cash (rn_store rt) + acc_integer (gross_of c) - acc_integer (fc_Fee c)"
      using c(4) by (simp add: booked(10) cash_delta_def)
    define q where "q = position_row (fr_Position fill)"
    have q: "q \<in> set (st_positions (rn_store rt'))" "p_ID q = p_ID p" "p_Status q = ''closed''"
      "exact (p_RealizedPnLExact q) = exact (p_RealizedPnLExact p) + acc_integer (gross_of c)
         - exact (p_CostBasisExact p) - acc_integer (fc_Fee c)"
      using sale c by (simp_all add: q_def booked(10))
    have "position_ok q"
      using inv q(1) by (auto simp: close_inv_def ledger_inv_def positions_ok_def)
    then have "exact (p_AmountExact q) = 0 \<and> exact (p_CostBasisExact q) = 0" using q(3) by (simp add: position_ok_def)
    moreover have "cs_Closed res" using sale(1) c by (simp add: booked(11))
    ultimately show ?thesis
      using p q cash booked(8) x apply_body_applied [OF body assms(1)] by blast
  qed
qed

text \<open>C23: A close that is booked sells the whole position exactly: the position it returns is closed, with no quantity and no cost
  basis left; the cash grows by the proceeds minus the fee, and the position's result by the proceeds minus its whole
  cost basis minus the fee; the reservation is applied in the same transaction.\<close>

theorem close_sells_everything:
  assumes "close_inv rt" and "r \<in> set (rn_closes rt)" and "cr_Status r \<noteq> closeRequestApplied" and "\<not> claimed (cr_ID r) (rn_store rt)"
    and "applyClose env (cr_ID r) rt = (Inr res, rt')"
  shows "\<exists>p \<in> set (st_positions (rn_store rt)). \<exists>c. \<exists>q \<in> set (st_positions (rn_store rt')).
    closeFillCommand env p r = Inr c \<and> p_ID p = cr_PositionID r \<and> p_ID q = p_ID p \<and> cs_Closed res \<and>
    p_Status q = ''closed'' \<and> exact (p_AmountExact q) = 0 \<and> exact (p_CostBasisExact q) = 0 \<and>
    exact (p_RealizedPnLExact q) = exact (p_RealizedPnLExact p) + acc_integer (gross_of c)
      - exact (p_CostBasisExact p) - acc_integer (fc_Fee c) \<and>
    book_cash (rn_store rt') = book_cash (rn_store rt) + acc_integer (gross_of c) - acc_integer (fc_Fee c) \<and>
    (\<exists>r' \<in> set (rn_closes rt'). cr_ID r' = cr_ID r \<and> cr_Status r' = closeRequestApplied)"
  by (rule booked_close [OF assms(1-4)], rule applyClose_cases [of env "cr_ID r" rt]) (use assms(5) in simp_all)

section \<open>When a close goes through\<close>

definition rt_up :: "close_env \<Rightarrow> bool" where
  "rt_up env \<longleftrightarrow> db_up (ce_ledger env) \<and> (\<forall>call rt. ce_db env call rt = None) \<and> (\<forall>rt. ce_commit env rt = Committed)"

lemma rt_up_simps:
  assumes "rt_up env"
  shows "rt_exec env call rt = Inr ()" "rt_first env table key P rows rt = Inr (find P (sort_key key rows))"
    "rt_write env table v rt' rt = checked v rt'" "db_up (ce_ledger env)"
    "rt_transaction env body rt = (case body rt of Inl e \<Rightarrow> (Inl e, rt) | Inr (x, rt') \<Rightarrow> (Inr x, rt'))"
  using assms by (simp_all add: rt_up_def rt_exec_def rt_first_def rt_write_def checked_def rt_transaction_def
      split: sum.split prod.split)

lemma rt_require_up:
  assumes "rt_up env" and "y \<in> set rows" "P y" and "\<And>z. z \<in> set rows \<Longrightarrow> P z \<Longrightarrow> z = y"
  shows "rt_require env table key P rows rt = Inr y"
proof -
  have "find P (sort_key key rows) = Some y" using assms(2-4) by (rule find_unique)
  then show ?thesis by (simp add: rt_require_def rt_up_simps [OF assms(1)])
qed

text \<open>What the booking of a reservation needs of the ledger.\<close>

definition bookable_close :: "close_env \<Rightarrow> CloseRequest \<Rightarrow> Position \<Rightarrow> runtime \<Rightarrow> bool" where
  "bookable_close env r p rt \<longleftrightarrow>
     r \<in> set (rn_closes rt) \<and> unresolved r \<and> p \<in> set (st_positions (rn_store rt)) \<and> p_ID p = cr_PositionID r \<and>
     p_Status p = ''open'' \<and> p_CostBasisExact p \<noteq> None \<and> closeCycleID p = cr_CycleID r \<and>
     normalizeExecutionMode (p_ExecutionMode p) \<noteq> ExecutionModeExchange \<and> \<not> claimed (cr_ID r) (rn_store rt) \<and>
     requireReady (ce_ledger env) DefaultAccountID (rn_store rt) = Inr () \<and>
     (\<exists>c c' h md rec. closeFillCommand env p r = Inr c \<and> prepare_fill (ce_ledger env) c = Inr (c', h, md, rec) \<and>
        acc_Valid (fc_Fee c') \<and> fc_ExistingOrderID c' = 0 \<and> funded c' (rn_store rt) \<and> fresh_fill (ce_ledger env) c' (rn_store rt))"

lemma apply_body_up:
  assumes up: "rt_up env" and inv: "close_inv rt" and b: "bookable_close env r p rt"
  shows "\<exists>res rt'. apply_body env (cr_ID r) rt = Inr (res, rt')"
proof -
  obtain c c' h md rec where c: "closeFillCommand env p r = Inr c"
    and prep: "prepare_fill (ce_ledger env) c = Inr (c', h, md, rec)" "acc_Valid (fc_Fee c')" "fc_ExistingOrderID c' = 0"
    and go: "funded c' (rn_store rt)" "fresh_fill (ce_ledger env) c' (rn_store rt)"
    using b by (auto simp: bookable_close_def)
  have r: "r \<in> set (rn_closes rt)" "cr_Status r \<noteq> closeRequestApplied" "cr_Status r \<noteq> closeRequestRejected"
    and p: "p \<in> set (st_positions (rn_store rt))" "p_ID p = cr_PositionID r" "p_Status p = ''open''" "p_CostBasisExact p \<noteq> None"
      "closeCycleID p = cr_CycleID r" "normalizeExecutionMode (p_ExecutionMode p) \<noteq> ExecutionModeExchange"
    and new: "\<not> claimed (cr_ID r) (rn_store rt)" and ready: "requireReady (ce_ledger env) DefaultAccountID (rn_store rt) = Inr ()"
    using b by (auto simp: bookable_close_def unresolved_def)
  have ok: "positions_ok (st_next_position (rn_store rt)) (st_positions (rn_store rt))" and linv: "ledger_inv (rn_store rt)"
    using inv by (simp_all add: close_inv_def ledger_inv_def)
  have req: "require_close env (cr_ID r) rt = Inr r"
    unfolding require_close_def by (rule rt_require_up [OF up r(1)]) (use unique_close [OF inv r(1)] in auto)
  have pos: "position_by_id env (cr_PositionID r) rt = Inr p"
    unfolding position_by_id_def
  proof (rule rt_require_up [OF up p(1)])
    show "p_ID p = cr_PositionID r" by (rule p(2))
    fix z assume "z \<in> set (st_positions (rn_store rt))" "p_ID z = cr_PositionID r"
    moreover have "inj_on p_ID (set (st_positions (rn_store rt)))" using ok by (simp add: positions_ok_def distinct_map)
    ultimately show "z = p" using p(1,2) inj_onD [of p_ID "set (st_positions (rn_store rt))" z p] by simp
  qed
  obtain amount where q: "p_AmountExact p = Some amount" "fc_Quantity c = amount" "fc_IdempotencyKey c = cr_ID r"
      "fc_Side c = ''sell''" "fc_Symbol c = p_Symbol p"
    by (rule closeFillCommand_Inr [OF c]) simp
  note c' = prepare_fill_Inr [OF prep(1)]
  have same: "z = p" if "z \<in> set (st_positions (rn_store rt))" "p_Symbol z = p_Symbol p" for z
    using that p(1) ok inj_onD [of p_Symbol "set (st_positions (rn_store rt))" z p] by (simp add: positions_ok_def distinct_map)
  have fits: "position_fits c' (st_positions (rn_store rt))"
    using q p c' same unfolding position_fits_def by auto
  have "fc_AccountID c' = DefaultAccountID" using c'(1) by (simp add: fill_valid_def)
  then have "\<exists>fill st. ApplyFill_with nested (ce_ledger env) c (rn_store rt) = (Inr fill, st)"
    using ApplyFill_up(2) [OF rt_up_simps(4) [OF up] linv prep(1) _ _ prep(3,2) fits go] new ready q(3) by simp
  then obtain fill st where "ApplyFill_with nested (ce_ledger env) c (rn_store rt) = (Inr fill, st)" by blast
  then show ?thesis
    using r p c by (simp add: apply_body_def rt_up_simps [OF up] req pos book_close_def Let_def)
qed

text \<open>With a working database, a pending close of an open paper position whose command is valid and funded goes through: it
  returns a result and the reservation is applied; repeating the request afterwards returns without touching anything.\<close>

theorem close_goes_through:
  assumes "rt_up env" and "close_inv rt" and "bookable_close env r p rt"
  shows "\<exists>res rt'. applyClose env (cr_ID r) rt = (Inr res, rt') \<and> cs_Closed res \<and> close_inv rt' \<and>
    (\<exists>r' \<in> set (rn_closes rt'). cr_ID r' = cr_ID r \<and> cr_Status r' = closeRequestApplied)"
proof -
  obtain res rt' where body: "apply_body env (cr_ID r) rt = Inr (res, rt')" using apply_body_up [OF assms] by blast
  then have run: "applyClose env (cr_ID r) rt = (Inr res, rt')" by (simp add: applyClose_def rt_up_simps [OF assms(1)])
  have "close_inv rt'" using apply_body_evolves [OF body] assms(2) by (simp add: evolves_def)
  moreover have "r \<in> set (rn_closes rt)" "cr_Status r \<noteq> closeRequestApplied" "\<not> claimed (cr_ID r) (rn_store rt)"
    using assms(3) by (auto simp: bookable_close_def unresolved_def)
  ultimately show ?thesis using run booked_close [OF assms(2) _ _ _ body] by blast
qed

section \<open>Recovery\<close>

lemma apply_body_rows:
  assumes "apply_body env rid rt = Inr (res, rt')" and "r \<in> set (rn_closes rt')" and "cr_ID r \<noteq> rid"
  shows "r \<in> set (rn_closes rt)"
  using assms(1)
proof (cases rule: apply_body_cases)
  case (booked x p c fill st)
  note x = require_close_Inr [OF booked(1)]
  show ?thesis using assms(2,3) x by (auto simp: booked(10) update_close_def mark_applied_def split: if_splits)
qed (use assms(2) in simp)

lemma recover_all_complete:
  assumes "recover_all env k ids rt = ((n, None), rt')" and "close_inv rt"
  shows "n = k + length ids \<and> close_inv rt' \<and>
    (\<forall>rid \<in> set ids. \<exists>r \<in> set (rn_closes rt'). cr_ID r = rid \<and> cr_Status r = closeRequestApplied) \<and>
    (\<forall>r \<in> set (rn_closes rt'). cr_ID r \<in> set ids \<or> r \<in> set (rn_closes rt))"
  using assms
proof (induction ids arbitrary: k rt)
  case (Cons rid ids)
  obtain x rt1 where x: "applyClose env rid rt = (x, rt1)" by (cases "applyClose env rid rt")
  with Cons.prems(1) obtain res where res: "x = Inr res" by (cases x) auto
  have body: "apply_body env rid rt = Inr (res, rt1)"
    by (rule applyClose_cases [of env rid rt]) (use x res in simp_all)
  have inv: "close_inv rt1" using apply_body_evolves [OF body] Cons.prems(2) by (simp add: evolves_def)
  have rest: "recover_all env (Suc k) ids rt1 = ((n, None), rt')" using Cons.prems(1) by (simp add: x res)
  note ih = Cons.IH [OF rest inv]
  obtain r where r: "r \<in> set (rn_closes rt1)" "cr_ID r = rid" "cr_Status r = closeRequestApplied"
    using apply_body_applied [OF body Cons.prems(2)] by blast
  have "rows_step (rn_closes rt1) (rn_closes rt')"
    using recover_all_evolves [of rt1 env "Suc k" ids] rest inv by (simp add: evolves_def)
  from rows_step_row [OF this r(1)] have "r \<in> set (rn_closes rt')" using r(3) by (auto simp: row_step_def)
  then show ?case using ih r apply_body_rows [OF body] by auto
qed simp

text \<open>C24: When recovery reports success, nothing is left to recover: every reservation that was pending or retryable is applied,
  the count is exactly their number, and no reservation is pending or retryable any more.\<close>

theorem recovery_complete:
  assumes "close_inv rt" and "RecoverPendingCloses env rt = ((n, None), rt')"
  shows "n = length (filter unresolved (rn_closes rt)) \<and> (\<forall>r \<in> set (rn_closes rt'). \<not> unresolved r) \<and>
    (\<forall>r \<in> set (rn_closes rt). unresolved r \<longrightarrow>
       (\<exists>r' \<in> set (rn_closes rt'). cr_ID r' = cr_ID r \<and> cr_Status r' = closeRequestApplied))"
proof -
  define ids where "ids = map cr_ID (sort_key (\<lambda>r. (cr_CreatedAt r, cr_ID r)) (filter unresolved (rn_closes rt)))"
  have run: "recover_all env 0 ids rt = ((n, None), rt')"
    using assms(2) by (simp add: RecoverPendingCloses_def ids_def split: prod.splits sum.splits)
  note done' = recover_all_complete [OF run assms(1)]
  have ids: "set ids = cr_ID ` {r \<in> set (rn_closes rt). unresolved r}" by (simp add: ids_def)
  have "\<not> unresolved r" if r: "r \<in> set (rn_closes rt')" for r
  proof (cases "cr_ID r \<in> set ids")
    case True
    then obtain r' where "r' \<in> set (rn_closes rt')" "cr_ID r' = cr_ID r" "cr_Status r' = closeRequestApplied"
      using done' by blast
    then have "cr_Status r = closeRequestApplied" using unique_close [of rt' r r'] done' r by simp
    then show ?thesis by (simp add: unresolved_def)
  next
    case False
    then show ?thesis using done' r ids by blast
  qed
  moreover have "length ids = length (filter unresolved (rn_closes rt))" by (simp add: ids_def)
  ultimately show ?thesis using done' ids by auto
qed

section \<open>A reservation whose lifecycle is over\<close>

lemma sort_key_map_same: "(\<And>x. x \<in> set xs \<Longrightarrow> k (f x) = k x) \<Longrightarrow> sort_key k (map f xs) = map f (sort_key k xs)"
proof (induction xs)
  case (Cons x xs)
  have "insort_key k (f x) (map f ys) = map f (insort_key k x ys)" if "\<forall>y \<in> set (x # ys). k (f y) = k y" for ys
    using that by (induction ys) auto
  then show ?case using Cons by simp
qed simp

definition pending_closes :: "runtime \<Rightarrow> CloseRequest list" where
  "pending_closes rt = sort_key (\<lambda>r. (cr_CreatedAt r, cr_ID r)) (filter unresolved (rn_closes rt))"

text \<open>The first reservation to recover belongs to a position that is not open, or that is open again in another lifecycle.\<close>

definition stale_first :: "runtime \<Rightarrow> bool" where
  "stale_first rt \<longleftrightarrow> (\<exists>r rest p. pending_closes rt = r # rest \<and> p \<in> set (st_positions (rn_store rt)) \<and>
     p_ID p = cr_PositionID r \<and> (p_Status p \<noteq> ''open'' \<or> closeCycleID p \<noteq> cr_CycleID r))"

lemma stale_apply:
  assumes up: "rt_up env" and inv: "close_inv rt" and stale: "stale_first rt"
  shows "\<exists>rid e rt'. map cr_ID (pending_closes rt) = rid # map cr_ID (tl (pending_closes rt)) \<and>
    applyClose env rid rt = (Inl e, rt') \<and> rn_store rt' = rn_store rt \<and> close_inv rt' \<and> stale_first rt'"
proof -
  obtain r rest p where r: "pending_closes rt = r # rest" and p: "p \<in> set (st_positions (rn_store rt))"
    "p_ID p = cr_PositionID r" "p_Status p \<noteq> ''open'' \<or> closeCycleID p \<noteq> cr_CycleID r"
    using stale by (auto simp: stale_first_def)
  have "r \<in> set (pending_closes rt)" by (simp add: r)
  then have rin: "r \<in> set (rn_closes rt)" "unresolved r" by (simp_all add: pending_closes_def)
  then have st: "cr_Status r \<noteq> closeRequestApplied" "cr_Status r \<noteq> closeRequestRejected" by (auto simp: unresolved_def)
  have req: "require_close env (cr_ID r) rt = Inr r"
    unfolding require_close_def by (rule rt_require_up [OF up rin(1)]) (use unique_close [OF inv rin(1)] in auto)
  have pos: "position_by_id env (cr_PositionID r) rt = Inr p"
    unfolding position_by_id_def
  proof (rule rt_require_up [OF up p(1)])
    show "p_ID p = cr_PositionID r" by (rule p(2))
    fix z assume "z \<in> set (st_positions (rn_store rt))" "p_ID z = cr_PositionID r"
    moreover have "inj_on p_ID (set (st_positions (rn_store rt)))"
      using inv by (simp add: close_inv_def ledger_inv_def positions_ok_def distinct_map)
    ultimately show "z = p" using p(1,2) inj_onD [of p_ID "set (st_positions (rn_store rt))" z p] by simp
  qed
  define e where "e = plain_error ''close request %s no longer matches an open position lifecycle'' [cr_ID r]"
  have body: "apply_body env (cr_ID r) rt = Inl e"
    using st p(3) by (simp add: apply_body_def rt_up_simps [OF up] req pos e_def)
  define m where "m = mark_failed env closeRequestRetryable (take 2000 (error_text (ce_ledger env) e))"
  define rt' where "rt' = update_close (cr_ID r) m rt"
  have status: "failure_status e = closeRequestRetryable"
    by (simp add: failure_status_def e_def plain_error_def ErrExchangeExecutionFenced_def unavailable_def newError_def)
  have run: "applyClose env (cr_ID r) rt = (Inl e, rt')"
    using st
    by (simp add: applyClose_def rt_up_simps [OF up] body recordCloseFailure_def status failure_body_def req checked_def
        rt'_def m_def)
  have inv': "close_inv rt'"
    using applying.keeps_inv [OF inv, of env "cr_ID r"] run by simp
  let ?g = "\<lambda>x. if cr_ID x = cr_ID r then m x else x"
  have un: "unresolved (?g x) = unresolved x" if "x \<in> set (rn_closes rt)" for x
    using unique_close [OF inv rin(1) that] rin(2) by (auto simp: m_def mark_failed_def unresolved_def)
  have "filter unresolved (map ?g xs) = map ?g (filter unresolved xs)" if "set xs \<subseteq> set (rn_closes rt)" for xs
    using that un by (induction xs) auto
  then have "filter unresolved (rn_closes rt') = map ?g (filter unresolved (rn_closes rt))"
    by (simp add: rt'_def update_close_def)
  then have "pending_closes rt' = map ?g (pending_closes rt)"
    unfolding pending_closes_def by (simp add: sort_key_map_same m_def mark_failed_def)
  then have "pending_closes rt' = m r # map ?g rest" using r by simp
  then have "stale_first rt'"
    using p unfolding stale_first_def by (auto simp: m_def mark_failed_def rt'_def update_close_def)
  then show ?thesis using run inv' r by (auto simp: rt'_def)
qed

text \<open>A pending or retryable reservation whose position has been closed otherwise, or opened again, never leaves that status
  and, where it is the oldest one, recovery stops at it: at every start, however often, nothing at all is recovered.\<close>

theorem stale_close_blocks_recovery:
  assumes "rt_up env" and "close_inv rt" and "stale_first rt" and "fst (CheckReady (ce_ledger env) [] (rn_store rt)) = Inr ()"
  shows "\<exists>e. fst (RecoverPendingCloses env (((\<lambda>rt. snd (RecoverPendingCloses env rt)) ^^ k) rt)) = (0, Some e)"
proof -
  have step: "\<exists>e rt'. RecoverPendingCloses env rt = ((0, Some e), rt') \<and> rn_store rt' = rn_store rt \<and> close_inv rt' \<and> stale_first rt'"
    if h: "close_inv rt" "stale_first rt" "fst (CheckReady (ce_ledger env) [] (rn_store rt)) = Inr ()" for rt
  proof -
    obtain rid e rt' where "map cr_ID (pending_closes rt) = rid # map cr_ID (tl (pending_closes rt))"
      "applyClose env rid rt = (Inl e, rt')" "rn_store rt' = rn_store rt" "close_inv rt'" "stale_first rt'"
      using stale_apply [OF assms(1) h(1,2)] by (elim exE conjE) (rule that)
    moreover obtain st where "CheckReady (ce_ledger env) [] (rn_store rt) = (Inr (), st)"
      using h(3) by (cases "CheckReady (ce_ledger env) [] (rn_store rt)") simp
    ultimately show ?thesis
      by (simp add: RecoverPendingCloses_def rt_up_simps [OF assms(1)] pending_closes_def)
  qed
  define after where "after = (\<lambda>k. ((\<lambda>rt. snd (RecoverPendingCloses env rt)) ^^ k) rt)"
  have "close_inv (after k) \<and> stale_first (after k) \<and> fst (CheckReady (ce_ledger env) [] (rn_store (after k))) = Inr ()"
  proof (induction k)
    case (Suc k)
    then obtain e rt' where "RecoverPendingCloses env (after k) = ((0, Some e), rt')" "rn_store rt' = rn_store (after k)"
      "close_inv rt'" "stale_first rt'"
      using step by blast
    then show ?case using Suc by (simp add: after_def)
  qed (use assms in \<open>simp add: after_def\<close>)
  then show ?thesis using step [of "after k"] by (auto simp: after_def)
qed

section \<open>Witnesses\<close>

lemma held_up: "rt_up sample_close_env"
  using sample_up by (simp add: rt_up_def sample_close_env_def)

lemma held_ready: "requireReady sample_env DefaultAccountID held_store = Inr ()"
  by (simp add: requireReady_def find_state_def db_up_simps [OF sample_up] held_store_def sample_store_def DefaultAccountID_def)

lemma held_reservation:
  "sample_reservation \<in> set (rn_closes held_runtime)" "unresolved sample_reservation" "cr_ID sample_reservation = ''close:1:7''"
  "cr_Status sample_reservation \<noteq> closeRequestApplied" "\<not> claimed (cr_ID sample_reservation) (rn_store held_runtime)"
  by (simp_all add: held_runtime_def sample_reservation_def unresolved_def claimed_def held_store_def sample_store_def)

lemma held_check: "CheckReady (ce_ledger sample_close_env) [] held_store = (Inr (), held_store)"
  using held_ready
  by (simp add: CheckReady_def requirePrimaryAccount_def db_up_simps [OF sample_up] account_wallet_def db_require_def
      sample_close_env_def held_store_def sample_wallet_def DefaultAccountID_def Let_def)
    (simp add: sample_env_def)

lemma held_bookable: "bookable_close sample_close_env sample_reservation held_position held_runtime"
proof -
  define c' where "c' = held_command\<lparr>fc_VenueID := ''internal'', fc_FeeCurrency := ''USDT''\<rparr>"
  have env: "ce_ledger sample_close_env = sample_env" by (simp add: sample_close_env_def)
  have gross: "acc_integer (cash_delta c' (gross_of c')) = 199900000000000000000"
    using held_amounts by (simp add: c'_def cash_delta_def)
  have fee: "fc_Fee c' = AccDecimal (Some 199900000000000000)" "fc_Currency c' = ''USDT''" "fc_ExistingOrderID c' = 0"
    "fc_IdempotencyKey c' = ''close:1:7''" "fc_ProviderFillID c' = []"
    by (simp_all add: c'_def held_command_def)
  have "funded c' held_store"
    using gross unfolding funded_def by (simp add: fee held_store_def sample_wallet_def acc_factor_def)
  moreover have "fresh_fill sample_env c' held_store"
    by (simp add: fresh_fill_def fee held_store_def sample_store_def held_event_def sample_deposit_def stableID_def)
  moreover have "acc_Valid (fc_Fee c')" by (simp add: fee acc_Valid_def)
  moreover have "normalizeExecutionMode (p_ExecutionMode held_position) \<noteq> ExecutionModeExchange" by code_simp
  moreover have "p_ID held_position = 1" "p_Status held_position = ''open''" "p_CostBasisExact held_position \<noteq> None"
    "held_position \<in> set (st_positions held_store)" "cr_PositionID sample_reservation = 1" "cr_CycleID sample_reservation = ''7''"
    by (simp_all add: held_position_def held_store_def sample_reservation_def)
  ultimately show ?thesis
    unfolding bookable_close_def env
    using held_reservation held_ready held_cycle held_command held_prepared [folded c'_def] fee(3)
    by (simp add: held_runtime_def)
qed

theorem close_goes_through_witness:
  "\<exists>res rt'. applyClose sample_close_env ''close:1:7'' held_runtime = (Inr res, rt') \<and> cs_Closed res"
  using close_goes_through [OF held_up held_runtime_inv held_bookable] held_reservation(3) by auto

lemma held_applied:
  obtains res rt' where "apply_body sample_close_env ''close:1:7'' held_runtime = Inr (res, rt')"
    "applyClose sample_close_env ''close:1:7'' held_runtime = (Inr res, rt')"
    "bookClose sample_close_env ''close:1:7'' held_runtime = (Inr res, rt')" "close_inv rt'"
proof -
  obtain res rt' where body: "apply_body sample_close_env ''close:1:7'' held_runtime = Inr (res, rt')"
    using apply_body_up [OF held_up held_runtime_inv held_bookable] held_reservation(3) by auto
  have "close_inv rt'" using apply_body_evolves [OF body] held_runtime_inv by (simp add: evolves_def)
  then show thesis using that body by (simp add: applyClose_def bookClose_def rt_up_simps [OF held_up])
qed

theorem close_sells_everything_witness:
  "\<exists>res rt'. applyClose sample_close_env ''close:1:7'' held_runtime = (Inr res, rt') \<and> cs_Closed res
     \<and> book_cash (rn_store rt') = 999700100000000000000"
proof -
  obtain res rt' where run: "applyClose sample_close_env ''close:1:7'' held_runtime = (Inr res, rt')" by (rule held_applied)
  have rows: "st_positions (rn_store held_runtime) = [held_position]" "book_cash (rn_store held_runtime) = 800 * acc_factor"
    by (simp_all add: held_runtime_def held_store_def book_cash_def)
  have gross: "acc_integer (gross_of held_command) = 199900000000000000000" "acc_integer (fc_Fee held_command) = 199900000000000000"
    using held_amounts by (simp_all add: cash_delta_def held_command_def)
  from close_sells_everything [OF held_runtime_inv held_reservation(1,4,5) run [folded held_reservation(3)]] obtain c where
    "closeFillCommand sample_close_env held_position sample_reservation = Inr c" "cs_Closed res"
    "book_cash (rn_store rt') = 800 * acc_factor + acc_integer (gross_of c) - acc_integer (fc_Fee c)"
    unfolding rows by auto
  then have "cs_Closed res" "book_cash (rn_store rt') = 800 * acc_factor + 199900000000000000000 - 199900000000000000"
    using held_command gross by simp_all
  then show ?thesis using run by (auto simp: acc_factor_def acc_Scale_def)
qed

theorem close_state_machine_witness:
  "\<exists>rt. rtranclp close_step held_runtime rt \<and> claimed ''close:1:7'' (rn_store rt)
     \<and> (\<exists>r \<in> set (rn_closes rt). close_payload r = close_payload sample_reservation)"
proof -
  obtain res rt where run: "apply_body sample_close_env ''close:1:7'' held_runtime = Inr (res, rt)"
    "bookClose sample_close_env ''close:1:7'' held_runtime = (Inr res, rt)" by (rule held_applied)
  have reach: "rtranclp close_step held_runtime rt"
    using booked_step [of held_runtime sample_close_env "''close:1:7''"] run(2) by auto
  obtain r where "r \<in> set (rn_closes rt)" "cr_ID r = ''close:1:7''" "cr_Status r = closeRequestApplied"
    using apply_body_applied [OF run(1) held_runtime_inv] by blast
  then show ?thesis
    using close_state_machine [OF reach held_runtime_inv] reach held_reservation(1) by metis
qed

theorem close_books_once_witness:
  "\<exists>rt. claimed ''close:1:7'' (rn_store rt) \<and> snd (applyClose lossy_env ''close:1:7'' rt) = rt"
proof -
  obtain res rt where run: "apply_body sample_close_env ''close:1:7'' held_runtime = Inr (res, rt)" "close_inv rt"
    by (rule held_applied)
  obtain r where r: "r \<in> set (rn_closes rt)" "cr_ID r = ''close:1:7''" "cr_Status r = closeRequestApplied"
    using apply_body_applied [OF run(1) held_runtime_inv] by blast
  then have "claimed ''close:1:7'' (rn_store rt)" using run(2) by (auto simp: close_inv_def reservation_ok_def)
  then show ?thesis using close_books_once [OF run(2) r(1,3) rtranclp.rtrancl_refl, of lossy_env] r(2) by auto
qed

theorem close_failure_safe_witness:
  "\<exists>e rt. applyClose lossy_env ''close:1:7'' held_runtime = (Inl e, rt) \<and>
     (economic (rn_store rt) = economic (rn_store held_runtime) \<or> claimed ''close:1:7'' (rn_store rt))"
proof -
  have "\<exists>e rt. rt_transaction lossy_env (apply_body lossy_env ''close:1:7'') held_runtime = (Inl e, rt)"
    by (auto simp: rt_transaction_def lossy_env_def split: sum.split prod.split)
  then have "\<exists>e rt. applyClose lossy_env ''close:1:7'' held_runtime = (Inl e, rt)"
    by (auto simp: applyClose_def split: prod.split sum.split)
  then obtain e rt where run: "applyClose lossy_env ''close:1:7'' held_runtime = (Inl e, rt)" by blast
  from close_failure_safe [OF held_runtime_inv run] show ?thesis using run by blast
qed

theorem recovery_complete_witness:
  "\<exists>rt. RecoverPendingCloses sample_close_env held_runtime = ((1, None), rt) \<and> (\<forall>r \<in> set (rn_closes rt). \<not> unresolved r)"
proof -
  obtain res rt where run: "applyClose sample_close_env ''close:1:7'' held_runtime = (Inr res, rt)" by (rule held_applied)
  have ready: "CheckReady (ce_ledger sample_close_env) [] (rn_store held_runtime) = (Inr (), rn_store held_runtime)"
    using held_check by (simp add: held_runtime_def)
  have "map cr_ID (sort_key (\<lambda>r. (cr_CreatedAt r, cr_ID r)) (filter unresolved (rn_closes held_runtime))) = [''close:1:7'']"
    using held_reservation(2,3) by (simp add: held_runtime_def)
  then have "RecoverPendingCloses sample_close_env held_runtime = ((1, None), rt)"
    using run by (simp add: RecoverPendingCloses_def ready rt_up_simps [OF held_up])
  with recovery_complete [OF held_runtime_inv this] show ?thesis by blast
qed

text \<open>The same runtime where the reservation belongs to an earlier lifecycle of the position.\<close>

definition stale_runtime :: runtime where
  "stale_runtime = held_runtime\<lparr>rn_closes := [sample_reservation\<lparr>cr_ID := ''close:1:8'', cr_CycleID := ''8''\<rparr>]\<rparr>"

theorem stale_close_blocks_recovery_witness:
  "\<exists>e. fst (RecoverPendingCloses sample_close_env (snd (RecoverPendingCloses sample_close_env stale_runtime))) = (0, Some e)"
proof -
  have inv: "close_inv stale_runtime"
    using held_store_inv
    by (simp add: close_inv_def stale_runtime_def held_runtime_def reservation_ok_def sample_reservation_def close_key_def
        held_numerals(1) [unfolded One_nat_def])
  have "held_position \<in> set (st_positions held_store)" "p_ID held_position = 1"
    by (simp_all add: held_store_def held_position_def)
  then have stale: "stale_first stale_runtime"
    using held_cycle
    by (auto simp: stale_first_def pending_closes_def stale_runtime_def held_runtime_def sample_reservation_def unresolved_def)
  have "fst (CheckReady (ce_ledger sample_close_env) [] (rn_store stale_runtime)) = Inr ()"
    using held_check by (simp add: stale_runtime_def held_runtime_def)
  from stale_close_blocks_recovery [OF held_up inv stale this, of 1] show ?thesis by simp
qed

section \<open>Exchange positions\<close>

text \<open>A position of the exchange mode is never closed by the coordinator, in any environment.\<close>

theorem exchange_position_never_closed:
  assumes "close_inv rt" and "r \<in> set (rn_closes rt)" and "cr_Status r \<noteq> closeRequestApplied"
    and p: "p \<in> set (st_positions (rn_store rt))" "p_ID p = cr_PositionID r"
      "normalizeExecutionMode (p_ExecutionMode p) = ExecutionModeExchange"
  shows "economic (rn_store (snd (applyClose env (cr_ID r) rt))) = economic (rn_store rt)"
proof -
  have none: "apply_body env (cr_ID r) rt \<noteq> Inr (res, rt')" for res rt'
  proof
    assume "apply_body env (cr_ID r) rt = Inr (res, rt')"
    then show False
    proof (cases rule: apply_body_cases)
      case (replayed x)
      then show ?thesis using require_applied [OF assms(1,2) replayed(1)] assms(3) by simp
    next
      case (booked x q c fill st)
      have "x = r" by (rule require_applied [OF assms(1,2) booked(1)])
      then have "q \<in> set (st_positions (rn_store rt)) \<and> p_ID q = p_ID p"
        using rt_require_Inr [OF booked(4) [unfolded position_by_id_def]] p(2) by simp
      moreover have "inj_on p_ID (set (st_positions (rn_store rt)))"
        using assms(1) by (simp add: close_inv_def ledger_inv_def positions_ok_def distinct_map)
      ultimately have "q = p" using p(1) inj_onD [of p_ID "set (st_positions (rn_store rt))" q p] by simp
      then show ?thesis using booked(7) p(3) by simp
    qed
  qed
  show ?thesis
    by (rule applyClose_cases [of env "cr_ID r" rt]) (use none failure_economic in auto)
qed

end
