(* ===== verification/Opening.thy ===== *)
theory Opening
  imports Ledger_Adapter
begin

text \<open>
  How a ledger begins. \<^verbatim>\<open>database/ledger_seed.go\<close> gives a new database its wallet and its opening event, and marks the wallet
  of an upgraded one as awaiting approval; \<^verbatim>\<open>ledger/backfill.go\<close> then records, with an explicit approval, the observed cash of
  the legacy wallet as the one opening event. A survey (\<open>survey\<close>) reads what would be done outside the transaction; the
  transaction reads the cash again under its lock. The counts of rows fit in 64 bits. GORM gives a row its column defaults
  where a field has the zero value: a wallet of balance zero gets 400, one without currency gets USDT.
\<close>

section \<open>Shared inserts\<close>

text \<open>The check constraint \<^verbatim>\<open>ledger_events_sign_check\<close> on a deposit (\<^verbatim>\<open>database/migrations.go\<close>).\<close>

definition deposit_violation :: "LedgerEvent \<Rightarrow> ledger_error option" where
  "deposit_violation e =
     (if acc_Sign (e_CashDelta e) < 0 \<or> acc_Sign (e_AssetDelta e) \<noteq> 0
      then Some (PgError ''23514'' ''ledger_events_sign_check'') else None)"

definition create_deposit :: "ledger_env \<Rightarrow> LedgerEvent \<Rightarrow> store \<Rightarrow> store lresult" where
  "create_deposit env e st =
     and_then (checked (deposit_violation (event_defaults e)) ()) (\<lambda>_.
     and_then (create_event env e st) (\<lambda>(_, st). Inr st))"

definition opening_event :: "string \<Rightarrow> string \<Rightarrow> string \<Rightarrow> string \<Rightarrow> acc_decimal \<Rightarrow> time \<Rightarrow> LedgerEvent" where
  "opening_event eventID batchID account currency balance now =
     \<lparr>e_ID = eventID, e_LedgerBatchID = batchID, e_Sequence = 1, e_IdempotencyKey = batchID @ '':capital'',
      e_EventType = EventCapitalDeposit, e_AccountID = account, e_VenueID = ''internal'', e_Currency = currency,
      e_Symbol = [], e_CashDelta = balance, e_AssetDelta = acc_Zero, e_OrderID = None, e_FillID = None, e_PositionID = None,
      e_ExecutionMode = ''administrative'', e_StrategyVersion = [], e_PolicyVersion = [], e_Actor = [], e_Reason = [],
      e_ReversesEventID = None, e_RealizedPnL = acc_Zero, e_CostBasisDelta = acc_Zero, e_FeeDelta = acc_Zero,
      e_MetadataJSON = [], e_Stage08ContextJSON = [], e_OccurredAt = now, e_RecordedAt = now\<rparr>"

definition stage08Context :: "ledger_env \<Rightarrow> string \<Rightarrow> string" where
  "stage08Context env path =
     (let (flags, active) = Active (env_active env) in
      if active
      then ObservationContext (env_codec env) (env_active env) flags path [(''ledger_contract'', ''stage01'')]
      else ''{}'')"

definition state_row :: "string \<Rightarrow> string \<Rightarrow> string option \<Rightarrow> string \<Rightarrow> time \<Rightarrow> LedgerMigrationState" where
  "state_row account status opening unresolved now =
     \<lparr>ms_AccountID = account, ms_Status = status, ms_OpeningEventID = opening,
      ms_UnresolvedJSON = with_default unresolved ''[]'', ms_ApprovedBy = None, ms_ApprovedAt = None, ms_CreatedAt = now,
      ms_UpdatedAt = now\<rparr>"

definition create_state :: "ledger_env \<Rightarrow> LedgerMigrationState \<Rightarrow> store \<Rightarrow> store lresult" where
  "create_state env m st =
     db_write env ''ledger_migration_states''
       (if ms_AccountID m \<in> ms_AccountID ` set (st_states st)
        then Some (unique_violation ''ledger_migration_states_pkey'') else None)
       (st\<lparr>st_states := st_states st @ [m]\<rparr>) st"

section \<open>Seeding\<close>

definition primaryLedgerAccount :: string where
  "primaryLedgerAccount = ''primary''"

definition stableSeedID :: "ledger_env \<Rightarrow> string \<Rightarrow> string \<Rightarrow> string" where
  "stableSeedID env kind value = kind @ ''_'' @ take 32 (hex_sha256 env (kind @ '':'' @ value))"

definition seed_fresh :: "ledger_env \<Rightarrow> Wallet \<Rightarrow> store \<Rightarrow> store lresult" where
  "seed_fresh env wallet st =
     (case acc_FromFloat env (w_Balance wallet) of
        Inl e \<Rightarrow> Inl (PlainError e)
      | Inr balance \<Rightarrow>
          let now = env_now env ''seed'' primaryLedgerAccount;
              batchID = ''fresh-install-opening-balance'';
              eventID = stableSeedID env ''opening'' batchID
          in and_then (save_wallet env (wallet\<lparr>w_BalanceExact := Some balance\<rparr>) st) (\<lambda>(wallet, st).
             and_then (create_batch env \<lparr>b_ID = batchID, b_AccountID = primaryLedgerAccount,
                         b_PayloadHash = stableSeedID env ''payload'' (acc_String balance), b_CreatedAt = now\<rparr> st) (\<lambda>st.
             and_then (create_deposit env
                         ((opening_event eventID batchID primaryLedgerAccount (w_Currency wallet) balance now)
                            \<lparr>e_Actor := ''system_seed'', e_Reason := ''fresh install opening balance'',
                             e_MetadataJSON := ''{'' @ quoted ''source'' @ '':'' @ quoted ''configured_default_balance'' @ ''}'',
                             e_Stage08ContextJSON := stage08Context env ''fresh_install_seed''\<rparr>) st) (\<lambda>st.
               create_state env (state_row primaryLedgerAccount ''ready'' (Some eventID) ''[]'' now) st))))"

text \<open>The wallet of an upgraded database waits for approval; the errors of the two counts are ignored.\<close>

definition counted :: "ledger_env \<Rightarrow> string \<Rightarrow> 'r list \<Rightarrow> store \<Rightarrow> nat" where
  "counted env table rows st = (case db_exec env (ReadCall table) st of Inl _ \<Rightarrow> 0 | Inr _ \<Rightarrow> length rows)"

definition seed_legacy :: "ledger_env \<Rightarrow> store \<Rightarrow> store lresult" where
  "seed_legacy env st =
     (let issues = [''legacy wallet balance has no immutable capital provenance'']
            @ (if 0 < counted env ''positions'' (st_positions st) st
               then [''legacy positions require evidence or explicit administrative correction''] else [])
            @ (if 0 < counted env ''orders'' (st_orders st) st then [''legacy orders are not assumed to be fills''] else []);
          unresolved = the_ok '''' (marshal env (JArray (map JString issues)));
          m = state_row primaryLedgerAccount ''pending_approval'' None unresolved (env_now env ''seed'' primaryLedgerAccount)
      in db_write env ''ledger_migration_states'' None
           (if primaryLedgerAccount \<in> ms_AccountID ` set (st_states st) then st else st\<lparr>st_states := st_states st @ [m]\<rparr>) st)"

definition opening_missing :: "Wallet \<Rightarrow> LedgerMigrationState \<Rightarrow> bool" where
  "opening_missing wallet existing \<longleftrightarrow>
     w_BalanceExact wallet = None \<or> ms_OpeningEventID existing = None \<or> ms_OpeningEventID existing = Some []"

definition seedLedgerBoundary :: "ledger_env \<Rightarrow> Wallet \<Rightarrow> bool \<Rightarrow> store \<Rightarrow> store lresult" where
  "seedLedgerBoundary env wallet walletCreated st =
     and_then (allowLedgerProjectionWrites env st) (\<lambda>_.
       case find_state env primaryLedgerAccount st of
         Inr (Some existing) \<Rightarrow>
           if walletCreated
           then Inl (plain_error ''ledger seed state is inconsistent: account %s is %s but its wallet projection was missing''
                       [primaryLedgerAccount, ms_Status existing])
           else if ms_Status existing \<noteq> ''ready'' then Inr st
           else if opening_missing wallet existing
           then Inl (plain_error ''ledger seed state is inconsistent: ready account %s lacks wallet or opening-event projection identity''
                       [primaryLedgerAccount])
           else
             (case db_require env ''ledger_events'' e_ID
                     (\<lambda>e. Some (e_ID e) = ms_OpeningEventID existing \<and> e_AccountID e = primaryLedgerAccount) (st_events st) st of
                Inl _ \<Rightarrow> Inl (plain_error ''ledger seed state is inconsistent: ready account %s opening event is missing: %w''
                                [primaryLedgerAccount])
              | Inr _ \<Rightarrow> Inr st)
       | _ \<Rightarrow> if walletCreated then seed_fresh env wallet st else seed_legacy env st)"

text \<open>\<^verbatim>\<open>SeedDataWithDefaults\<close>: wallet 1 is created unless it is there, then the ledger's boundary is seeded.\<close>

definition seeded_wallet :: "ledger_env \<Rightarrow> float64 \<Rightarrow> string \<Rightarrow> Wallet" where
  "seeded_wallet env balance currency =
     \<lparr>w_ID = 1, w_Balance = (if balance = 0 then 0x4079000000000000 else balance), w_BalanceExact = None,
      w_Currency = with_default currency ''USDT'', w_AccountID = primaryLedgerAccount,
      w_CreatedAt = env_now env ''created_at'' ''wallets'', w_UpdatedAt = env_now env ''created_at'' ''wallets''\<rparr>"

definition seed_body :: "ledger_env \<Rightarrow> float64 \<Rightarrow> string \<Rightarrow> store \<Rightarrow> (unit \<times> store) lresult" where
  "seed_body env balance currency st =
     and_then (allowLedgerProjectionWrites env st) (\<lambda>_.
     and_then (db_exec env (WriteCall ''wallets'') st) (\<lambda>_.
     and_then
       (if 1 \<in> w_ID ` set (st_wallets st)
        then and_then (db_require env ''wallets'' w_ID (\<lambda>w. w_ID w = 1) (st_wallets st) st)
               (\<lambda>wallet. seedLedgerBoundary env wallet False st)
        else let wallet = seeded_wallet env balance currency
             in seedLedgerBoundary env wallet True (st\<lparr>st_wallets := st_wallets st @ [wallet]\<rparr>))
       (\<lambda>st. Inr ((), st))))"

definition SeedData :: "ledger_env \<Rightarrow> float64 \<Rightarrow> string \<Rightarrow> store \<Rightarrow> unit lresult \<times> store" where
  "SeedData env balance currency st = transaction env (seed_body env balance currency) st"

section \<open>Backfill\<close>

definition BackfillApproval :: string where
  "BackfillApproval = ''APPROVE_LEDGER_OPENING_BALANCE''"

record BackfillOptions =
  bo_Apply :: bool
  bo_Approval :: string
  bo_ApprovedBy :: string
  bo_AccountID :: string
  bo_PlanID :: string
  bo_ReportDigest :: string
  bo_ApprovalDigest :: string

record BackfillReport =
  br_DryRun :: bool
  br_WouldOpenCash :: string
  br_Currency :: string
  br_LegacyPositionIDs :: "uint list"
  br_LegacyOrderIDs :: "uint list"
  br_LegacyPositionCount :: int
  br_LegacyOrderCount :: int
  br_SampleTruncated :: bool
  br_Unresolved :: "string list"
  br_Applied :: bool

definition zero_BackfillReport :: BackfillReport where
  "zero_BackfillReport = \<lparr>br_DryRun = False, br_WouldOpenCash = [], br_Currency = [], br_LegacyPositionIDs = [],
     br_LegacyOrderIDs = [], br_LegacyPositionCount = 0, br_LegacyOrderCount = 0, br_SampleTruncated = False,
     br_Unresolved = [], br_Applied = False\<rparr>"

text \<open>Count the rows, then pluck at most a hundred ids; an error leaves the report as far as it got.\<close>

definition sampled ::
  "ledger_env \<Rightarrow> string \<Rightarrow> uint list \<Rightarrow> (int \<Rightarrow> BackfillReport \<Rightarrow> BackfillReport) \<Rightarrow> (uint list \<Rightarrow> BackfillReport \<Rightarrow> BackfillReport)
   \<Rightarrow> store \<Rightarrow> BackfillReport \<Rightarrow> (BackfillReport \<times> ledger_error) + BackfillReport" where
  "sampled env table ids set_count set_ids st report =
     (case db_exec env (ReadCall table) st of
        Inl e \<Rightarrow> Inl (report, e)
      | Inr _ \<Rightarrow>
          let report = set_count (int (length ids)) report in
          case db_exec env (ReadCall (table @ '' pluck'')) st of
            Inl e \<Rightarrow> Inl (report, e)
          | Inr _ \<Rightarrow> Inr (set_ids (take 100 (sort ids)) report))"

definition legacy_positions :: "string \<Rightarrow> store \<Rightarrow> Position list" where
  "legacy_positions account st = filter (\<lambda>p. p_AccountID p = account \<and> p_Status p = ''open'') (st_positions st)"

definition unresolved_notes :: "BackfillReport \<Rightarrow> string list" where
  "unresolved_notes report =
     (if 0 < br_LegacyPositionCount report
      then [''legacy positions were not converted into asset events or cost basis''] else [])
   @ (if 0 < br_LegacyOrderCount report then [''legacy orders were not assumed to be executed fills''] else [])"

definition survey ::
  "ledger_env \<Rightarrow> bool \<Rightarrow> string \<Rightarrow> store \<Rightarrow> (BackfillReport \<times> ledger_error) + (BackfillReport \<times> Wallet)" where
  "survey env apply_it account st =
     (case account_wallet env account st of Inl e \<Rightarrow> Inl (zero_BackfillReport, e)
      | Inr wallet \<Rightarrow>
      (case acc_FromFloat env (w_Balance wallet) of Inl e \<Rightarrow> Inl (zero_BackfillReport, PlainError e)
      | Inr balance \<Rightarrow>
          let report = zero_BackfillReport\<lparr>br_DryRun := \<not> apply_it, br_WouldOpenCash := acc_String balance,
                         br_Currency := w_Currency wallet\<rparr>
          in and_then (sampled env ''positions'' (map p_ID (legacy_positions account st))
                 (\<lambda>n r. r\<lparr>br_LegacyPositionCount := n\<rparr>) (\<lambda>ids r. r\<lparr>br_LegacyPositionIDs := ids\<rparr>) st report) (\<lambda>report.
             and_then (sampled env ''orders'' (map o_ID (filter (\<lambda>r. o_AccountID r = account) (st_orders st)))
                 (\<lambda>n r. r\<lparr>br_LegacyOrderCount := n\<rparr>) (\<lambda>ids r. r\<lparr>br_LegacyOrderIDs := ids\<rparr>) st report) (\<lambda>report.
               Inr (report\<lparr>br_SampleTruncated :=
                        int (length (br_LegacyPositionIDs report)) < br_LegacyPositionCount report \<or>
                        int (length (br_LegacyOrderIDs report)) < br_LegacyOrderCount report,
                      br_Unresolved := unresolved_notes report\<rparr>, wallet)))))"

text \<open>The first half of the transaction: role, lock, state, and the cash read again.\<close>

definition locked_balance :: "ledger_env \<Rightarrow> string \<Rightarrow> Wallet \<Rightarrow> store \<Rightarrow> (Wallet \<times> acc_decimal) lresult" where
  "locked_balance env account wallet st =
     and_then (allowLedgerProjectionWrites env st) (\<lambda>_.
     and_then (lockAccount env account st) (\<lambda>_.
     and_then (find_state env account st) (\<lambda>found.
       if (case found of None \<Rightarrow> False | Some state \<Rightarrow> ms_Status state = ''ready'')
       then Inl (conflict ''backfill_already_applied'' ''ledger backfill already applied'' None)
       else
         and_then (db_require env ''wallets'' w_ID (\<lambda>w. w_AccountID w = account \<and> w_ID w = w_ID wallet) (st_wallets st) st)
           (\<lambda>wallet. case acc_FromFloat env (w_Balance wallet) of Inl e \<Rightarrow> Inl (PlainError e)
                     | Inr balance \<Rightarrow> Inr (wallet, balance)))))"

definition zeroed :: "string \<Rightarrow> Position \<Rightarrow> Position" where
  "zeroed account p =
     (if p_AccountID p = account \<and> p_Status p \<noteq> ''open''
      then p\<lparr>p_AmountExact := Some acc_Zero, p_CostBasisExact := Some acc_Zero,
             p_RealizedPnLExact := Some acc_Zero, p_FeesExact := Some acc_Zero\<rparr>
      else p)"

definition zero_closed :: "ledger_env \<Rightarrow> string \<Rightarrow> store \<Rightarrow> store lresult" where
  "zero_closed env account st =
     db_write env ''positions'' None (st\<lparr>st_positions := map (zeroed account) (st_positions st)\<rparr>) st"

definition json_strings :: "ledger_env \<Rightarrow> string list \<Rightarrow> string" where
  "json_strings env xs = the_ok '''' (marshal env (JArray (map JString xs)))"

definition backfill_metadata :: "ledger_env \<Rightarrow> BackfillOptions \<Rightarrow> BackfillReport \<Rightarrow> string" where
  "backfill_metadata env options report =
     the_ok '''' (marshal env (json_map
       [(''legacy_cutover'', JBool True), (''unresolved'', JArray (map JString (br_Unresolved report))),
        (''backfill_plan_id'', JString (bo_PlanID options)), (''report_digest'', JString (bo_ReportDigest options)),
        (''approval_digest'', JString (bo_ApprovalDigest options))]))"

text \<open>The migration state is inserted, or updated in the columns the conflict clause names.\<close>

definition upserted :: "LedgerMigrationState \<Rightarrow> LedgerMigrationState list \<Rightarrow> LedgerMigrationState list" where
  "upserted m rows =
     (if ms_AccountID m \<in> ms_AccountID ` set rows
      then map (\<lambda>x. if ms_AccountID x = ms_AccountID m
             then x\<lparr>ms_Status := ms_Status m, ms_OpeningEventID := ms_OpeningEventID m,
                    ms_UnresolvedJSON := ms_UnresolvedJSON m, ms_ApprovedBy := ms_ApprovedBy m,
                    ms_ApprovedAt := ms_ApprovedAt m, ms_UpdatedAt := ms_UpdatedAt m\<rparr>
             else x) rows
      else rows @ [m])"

definition upsert_state :: "ledger_env \<Rightarrow> LedgerMigrationState \<Rightarrow> store \<Rightarrow> store lresult" where
  "upsert_state env m st =
     db_write env ''ledger_migration_states'' None (st\<lparr>st_states := upserted m (st_states st)\<rparr>) st"

definition open_account ::
  "ledger_env \<Rightarrow> BackfillOptions \<Rightarrow> string \<Rightarrow> BackfillReport \<Rightarrow> time \<Rightarrow> Wallet \<Rightarrow> acc_decimal \<Rightarrow> store \<Rightarrow> store lresult" where
  "open_account env options account report now wallet balance st =
     (let batchID = ''legacy-opening-'' @ account;
          eventID = stableID env ''event-opening'' batchID;
          status = (if 0 < br_LegacyPositionCount report then ''pending_resolution'' else ''ready'')
      in and_then (save_wallet env (wallet\<lparr>w_BalanceExact := Some balance\<rparr>) st) (\<lambda>(wallet, st).
         and_then (zero_closed env account st) (\<lambda>st.
         and_then (create_batch env \<lparr>b_ID = batchID, b_AccountID = account,
                     b_PayloadHash = stableID env ''payload'' (account @ acc_String balance), b_CreatedAt = now\<rparr> st) (\<lambda>st.
         and_then (create_deposit env
                     ((opening_event eventID batchID account (w_Currency wallet) balance now)
                        \<lparr>e_Actor := bo_ApprovedBy options, e_Reason := ''approved legacy cutover opening cash balance'',
                         e_MetadataJSON := backfill_metadata env options report,
                         e_Stage08ContextJSON := stage08Context env ''administrative_backfill''\<rparr>) st) (\<lambda>st.
           upsert_state env ((state_row account status (Some eventID) (json_strings env (br_Unresolved report)) now)
             \<lparr>ms_ApprovedBy := Some (bo_ApprovedBy options), ms_ApprovedAt := Some now\<rparr>) st)))))"

definition backfill_body ::
  "ledger_env \<Rightarrow> BackfillOptions \<Rightarrow> string \<Rightarrow> BackfillReport \<Rightarrow> time \<Rightarrow> Wallet \<Rightarrow> store \<Rightarrow> (unit \<times> store) lresult" where
  "backfill_body env options account report now wallet st =
     and_then (locked_balance env account wallet st) (\<lambda>(wallet, balance).
     and_then (open_account env options account report now wallet balance st) (\<lambda>st. Inr ((), st)))"

text \<open>The report after the transaction: the cash read under the lock replaces the surveyed one, also when a later write fails.\<close>

definition settled_report :: "ledger_env \<Rightarrow> string \<Rightarrow> Wallet \<Rightarrow> store \<Rightarrow> BackfillReport \<Rightarrow> BackfillReport" where
  "settled_report env account wallet st report =
     (case locked_balance env account wallet st of
        Inl _ \<Rightarrow> report
      | Inr (wallet, balance) \<Rightarrow> report\<lparr>br_WouldOpenCash := acc_String balance, br_Currency := w_Currency wallet\<rparr>)"

definition backfill_apply ::
  "((store \<Rightarrow> (unit \<times> store) lresult) \<Rightarrow> store \<Rightarrow> unit lresult \<times> store) \<Rightarrow> ledger_env \<Rightarrow> BackfillOptions \<Rightarrow> string
   \<Rightarrow> BackfillReport \<Rightarrow> Wallet \<Rightarrow> store \<Rightarrow> (BackfillReport \<times> ledger_error option) \<times> store" where
  "backfill_apply run env options account report wallet st =
     (if bo_Approval options \<noteq> BackfillApproval \<or> bo_ApprovedBy options = ''''
      then ((report, Some (validation_error ''backfill_approval_required''
              (''explicit approval '' @ quoted BackfillApproval @ '' and approved-by are required''))), st)
      else
        let now = env_now env ''now'' account;
            settled = settled_report env account wallet st report
        in case run (backfill_body env options account report now wallet) st of
             (Inl e, st) \<Rightarrow> ((settled, Some (normalizePersistenceError e)), st)
           | (Inr _, st) \<Rightarrow> ((settled\<lparr>br_Applied := True, br_DryRun := False\<rparr>, None), st))"

text \<open>In a transaction of its own (\<open>run = transaction env\<close>) or in its caller's (\<open>run = nested\<close>).\<close>

definition Backfill_with ::
  "((store \<Rightarrow> (unit \<times> store) lresult) \<Rightarrow> store \<Rightarrow> unit lresult \<times> store) \<Rightarrow> ledger_env \<Rightarrow> BackfillOptions \<Rightarrow> store
   \<Rightarrow> (BackfillReport \<times> ledger_error option) \<times> store" where
  "Backfill_with run env options st =
     (case requirePrimaryAccount (bo_AccountID options) of
        Some e \<Rightarrow> ((zero_BackfillReport, Some e), st)
      | None \<Rightarrow>
          let account = with_default (bo_AccountID options) DefaultAccountID in
          case survey env (bo_Apply options) account st of
            Inl (report, e) \<Rightarrow> ((report, Some e), st)
          | Inr (report, wallet) \<Rightarrow>
              if \<not> bo_Apply options then ((report, None), st)
              else backfill_apply run env options account report wallet st)"

definition Backfill :: "ledger_env \<Rightarrow> BackfillOptions \<Rightarrow> store \<Rightarrow> (BackfillReport \<times> ledger_error option) \<times> store" where
  "Backfill env = Backfill_with (transaction env) env"

end
