(* ===== verification/Plans.thy ===== *)
theory Plans
  imports Opening
begin

text \<open>
  \<^verbatim>\<open>internal/operations/backfill.go\<close>: the controlled backfill. A plan records the digest of a dry run's report; a human approves
  the plan with that digest, and the approval is refused when the source has changed; applying needs the digest of the approval,
  runs the dry run once more, then the backfill itself, in one transaction. The state \<open>desk\<close> is the ledger's store and
  the plans. \<^verbatim>\<open>finalize_applied_backfill_plan\<close> and the constraints of \<^verbatim>\<open>backfill_plans\<close> are those of \<^verbatim>\<open>database/migrations.go\<close>; its
  reading of the event's JSON column is a function of the environment, as is the text of a time.
\<close>

section \<open>Plans\<close>

record BackfillPlan =
  bp_ID :: string
  bp_AccountID :: string
  bp_SchemaVersion :: string
  bp_ReportJSON :: string
  bp_ReportDigest :: string
  bp_Status :: string
  bp_CreatedAt :: time
  bp_ApprovedAt :: "time option"
  bp_ApprovedBy :: "string option"
  bp_ApprovalDigest :: "string option"
  bp_AppliedAt :: "time option"

record desk =
  dk_store :: store
  dk_plans :: "BackfillPlan list"

record desk_env =
  de_ledger :: ledger_env
  de_writer :: bool
  de_db :: "db_call \<Rightarrow> desk \<Rightarrow> ledger_error option"
  de_now :: "string \<Rightarrow> time"
  de_time_text :: "time \<Rightarrow> string"
  de_json_field :: "string \<Rightarrow> string \<Rightarrow> string option"

definition BackfillPlanSchemaVersion :: string where
  "BackfillPlanSchemaVersion = ''stage08-backfill-plan-v1''"

definition zero_BackfillPlan :: BackfillPlan where
  "zero_BackfillPlan = \<lparr>bp_ID = [], bp_AccountID = [], bp_SchemaVersion = [], bp_ReportJSON = [], bp_ReportDigest = [],
     bp_Status = [], bp_CreatedAt = 0, bp_ApprovedAt = None, bp_ApprovedBy = None, bp_ApprovalDigest = None,
     bp_AppliedAt = None\<rparr>"

definition dk_exec :: "desk_env \<Rightarrow> db_call \<Rightarrow> desk \<Rightarrow> unit lresult" where
  "dk_exec env call dk = checked (de_db env call dk) ()"

definition dk_transaction :: "desk_env \<Rightarrow> (desk \<Rightarrow> ('a \<times> desk) lresult) \<Rightarrow> desk \<Rightarrow> 'a lresult \<times> desk" where
  "dk_transaction env body dk =
     (case body dk of
        Inl e \<Rightarrow> (Inl e, dk)
      | Inr (x, dk') \<Rightarrow> (case de_db env CommitCall dk' of Some e \<Rightarrow> (Inl e, dk) | None \<Rightarrow> (Inr x, dk')))"

definition find_plan :: "desk_env \<Rightarrow> string \<Rightarrow> desk \<Rightarrow> BackfillPlan lresult" where
  "find_plan env planID dk =
     and_then (dk_exec env (ReadCall ''backfill_plans'') dk) (\<lambda>_.
       case find (\<lambda>p. bp_ID p = planID) (dk_plans dk) of None \<Rightarrow> Inl RecordNotFound | Some p \<Rightarrow> Inr p)"

section \<open>Digests\<close>

text \<open>\<^verbatim>\<open>hash\<close>: the digest of a value's JSON, and the JSON.\<close>

definition op_hash :: "desk_env \<Rightarrow> json \<Rightarrow> (string \<times> string) lresult" where
  "op_hash env v =
     and_then (marshal (de_ledger env) v) (\<lambda>payload. Inr (hex_sha256 (de_ledger env) payload, payload))"

definition digest_of :: "desk_env \<Rightarrow> json \<Rightarrow> string" where
  "digest_of env v = fst (the_ok ('''', '''') (op_hash env v))"

definition report_json :: "BackfillReport \<Rightarrow> json" where
  "report_json r = JObject
     [(''dry_run'', JBool (br_DryRun r)), (''would_open_cash'', JString (br_WouldOpenCash r)),
      (''currency'', JString (br_Currency r)),
      (''legacy_position_ids'', JArray (map (\<lambda>n. JNumber (show_nat n)) (br_LegacyPositionIDs r))),
      (''legacy_order_ids'', JArray (map (\<lambda>n. JNumber (show_nat n)) (br_LegacyOrderIDs r))),
      (''legacy_position_count'', JNumber (big_string (br_LegacyPositionCount r))),
      (''legacy_order_count'', JNumber (big_string (br_LegacyOrderCount r))),
      (''sample_truncated'', JBool (br_SampleTruncated r)),
      (''unresolved'', JArray (map JString (br_Unresolved r))), (''applied'', JBool (br_Applied r))]"

definition dry_run :: "string \<Rightarrow> BackfillOptions" where
  "dry_run account = \<lparr>bo_Apply = False, bo_Approval = [], bo_ApprovedBy = [], bo_AccountID = account, bo_PlanID = [],
     bo_ReportDigest = [], bo_ApprovalDigest = []\<rparr>"

text \<open>The report of a dry run on the present store.\<close>

definition current_report :: "desk_env \<Rightarrow> string \<Rightarrow> desk \<Rightarrow> BackfillReport lresult" where
  "current_report env account dk =
     (case fst (Backfill (de_ledger env) (dry_run account) (dk_store dk)) of
        (report, Some e) \<Rightarrow> Inl e | (report, None) \<Rightarrow> Inr report)"

section \<open>Planning\<close>

definition plan_row :: "desk_env \<Rightarrow> string \<Rightarrow> string \<Rightarrow> string \<Rightarrow> BackfillPlan" where
  "plan_row env account digest payload = zero_BackfillPlan\<lparr>
     bp_ID := digest_of env (JObject [(''Schema'', JString BackfillPlanSchemaVersion), (''Account'', JString account),
                                      (''Digest'', JString digest)]),
     bp_AccountID := account, bp_SchemaVersion := BackfillPlanSchemaVersion, bp_ReportJSON := payload,
     bp_ReportDigest := digest, bp_Status := ''planned'', bp_CreatedAt := de_now env ''plan''\<rparr>"

definition PlanBackfill :: "desk_env \<Rightarrow> string \<Rightarrow> desk \<Rightarrow> (BackfillPlan \<times> ledger_error option) \<times> desk" where
  "PlanBackfill env account dk =
     (case current_report env account dk of
        Inl e \<Rightarrow> ((zero_BackfillPlan, Some e), dk)
      | Inr report \<Rightarrow>
          (case op_hash env (report_json report) of
             Inl e \<Rightarrow> ((zero_BackfillPlan, Some e), dk)
           | Inr (digest, payload) \<Rightarrow>
               let row = plan_row env account digest payload in
               case dk_exec env (WriteCall ''backfill_plans'') dk of
                 Inl e \<Rightarrow> ((row, Some e), dk)
               | Inr _ \<Rightarrow>
                   ((row, None),
                    if bp_ID row \<in> bp_ID ` set (dk_plans dk) then dk
                    else dk\<lparr>dk_plans := dk_plans dk @ [row]\<rparr>)))"

section \<open>Approving\<close>

definition approval_digest :: "desk_env \<Rightarrow> BackfillPlan \<Rightarrow> string \<Rightarrow> time \<Rightarrow> string" where
  "approval_digest env plan human now =
     digest_of env (JObject [(''Plan'', JString (bp_ID plan)), (''Digest'', JString (bp_ReportDigest plan)),
       (''Principal'', JString human), (''At'', JString (de_time_text env now))])"

definition approved_plan :: "desk_env \<Rightarrow> BackfillPlan \<Rightarrow> string \<Rightarrow> BackfillPlan" where
  "approved_plan env plan human =
     (let now = de_now env ''approve''
      in plan\<lparr>bp_Status := ''approved'', bp_ApprovedAt := Some now, bp_ApprovedBy := Some human,
              bp_ApprovalDigest := Some (approval_digest env plan human now)\<rparr>)"

definition save_plan :: "desk_env \<Rightarrow> BackfillPlan \<Rightarrow> desk \<Rightarrow> desk lresult" where
  "save_plan env plan dk =
     and_then (dk_exec env (WriteCall ''backfill_plans'') dk) (\<lambda>_.
       Inr (dk\<lparr>dk_plans := replace_row bp_ID plan (dk_plans dk)\<rparr>))"

definition approve_body :: "desk_env \<Rightarrow> string \<Rightarrow> string \<Rightarrow> string \<Rightarrow> desk \<Rightarrow> (BackfillPlan \<times> desk) lresult" where
  "approve_body env planID observedDigest human dk =
     and_then (find_plan env planID dk) (\<lambda>plan.
       if bp_Status plan \<noteq> ''planned'' then Inl (plain_error ''backfill plan is not awaiting approval'' [])
       else if observedDigest = '''' \<or> observedDigest \<noteq> bp_ReportDigest plan
       then Inl (plain_error ''stale or wrong backfill report digest'' [])
       else
         and_then (current_report env (bp_AccountID plan) dk) (\<lambda>current.
           if digest_of env (report_json current) \<noteq> bp_ReportDigest plan
           then Inl (plain_error ''backfill source changed since plan'' [])
           else
             and_then (save_plan env (approved_plan env plan human) dk) (\<lambda>dk.
               Inr (approved_plan env plan human, dk))))"

definition ApproveBackfill :: "desk_env \<Rightarrow> string \<Rightarrow> string \<Rightarrow> string \<Rightarrow> desk \<Rightarrow> BackfillPlan lresult \<times> desk" where
  "ApproveBackfill env planID observedDigest human dk =
     (if human = '''' then (Inl (plain_error ''trusted human principal required'' []), dk)
      else dk_transaction env (approve_body env planID observedDigest human) dk)"

section \<open>Applying\<close>

text \<open>
  The database function that marks the plan applied: the opening event, its batch and the account's state must be of this
  transaction (rows that the store did not have), by the plan's approver and with the plan's digests in its metadata.
\<close>

definition coupled :: "desk_env \<Rightarrow> store \<Rightarrow> store \<Rightarrow> BackfillPlan \<Rightarrow> bool" where
  "coupled env before after plan \<longleftrightarrow>
     list_ex (\<lambda>state. ms_AccountID state = bp_AccountID plan \<and> \<not> List.member (st_states before) state \<and>
       list_ex (\<lambda>event. Some (e_ID event) = ms_OpeningEventID state \<and> e_AccountID event = ms_AccountID state \<and>
         \<not> List.member (st_events before) event \<and>
         list_ex (\<lambda>batch. b_ID batch = e_LedgerBatchID event \<and> b_AccountID batch = e_AccountID event \<and>
           \<not> List.member (st_batches before) batch) (st_batches after) \<and>
         e_EventType event = ''capital_deposit'' \<and> Some (e_Actor event) = bp_ApprovedBy plan \<and>
         de_json_field env (e_MetadataJSON event) ''backfill_plan_id'' = Some (bp_ID plan) \<and>
         de_json_field env (e_MetadataJSON event) ''report_digest'' = Some (bp_ReportDigest plan) \<and>
         de_json_field env (e_MetadataJSON event) ''approval_digest'' = bp_ApprovalDigest plan \<and>
         bp_ApprovalDigest plan \<noteq> None) (st_events after)) (st_states after)"

definition finalize_plan :: "desk_env \<Rightarrow> store \<Rightarrow> string \<Rightarrow> string \<Rightarrow> time \<Rightarrow> desk \<Rightarrow> desk lresult" where
  "finalize_plan env before planID approval applied dk =
     and_then (dk_exec env (ExecCall ''SELECT finalize_applied_backfill_plan(?,?,?)'') dk) (\<lambda>_.
       if length (filter (\<lambda>p. bp_ID p = planID \<and> bp_Status p = ''approved'' \<and> bp_ApprovalDigest p = Some approval \<and>
              coupled env before (dk_store dk) p) (dk_plans dk)) = 1
       then Inr (dk\<lparr>dk_plans := map (\<lambda>p. if bp_ID p = planID then p\<lparr>bp_Status := ''applied'', bp_AppliedAt := Some applied\<rparr>
                                       else p) (dk_plans dk)\<rparr>)
       else Inl (plain_error ''valid approved backfill plan required'' []))"

definition apply_options :: "BackfillPlan \<Rightarrow> string \<Rightarrow> BackfillOptions" where
  "apply_options plan approvalDigest =
     \<lparr>bo_Apply = True, bo_Approval = BackfillApproval,
      bo_ApprovedBy = (case bp_ApprovedBy plan of None \<Rightarrow> [] | Some by' \<Rightarrow> by'), bo_AccountID = bp_AccountID plan,
      bo_PlanID = bp_ID plan, bo_ReportDigest = bp_ReportDigest plan, bo_ApprovalDigest = approvalDigest\<rparr>"

definition run_plan :: "desk_env \<Rightarrow> BackfillPlan \<Rightarrow> string \<Rightarrow> desk \<Rightarrow> (BackfillPlan \<times> desk) lresult" where
  "run_plan env plan approvalDigest dk =
     (case Backfill_with nested (de_ledger env) (apply_options plan approvalDigest) (dk_store dk) of
        ((_, Some e), _) \<Rightarrow> Inl e
      | ((_, None), st) \<Rightarrow>
          and_then (finalize_plan env (dk_store dk) (bp_ID plan) approvalDigest (de_now env ''apply'') (dk\<lparr>dk_store := st\<rparr>))
            (\<lambda>dk. and_then (find_plan env (bp_ID plan) dk) (\<lambda>plan. Inr (plan, dk))))"

definition apply_plan_body :: "desk_env \<Rightarrow> string \<Rightarrow> string \<Rightarrow> desk \<Rightarrow> (BackfillPlan \<times> desk) lresult" where
  "apply_plan_body env planID approvalDigest dk =
     (case dk_exec env (ExecCall ''SET LOCAL ROLE trading_bot_ledger_writer'') dk of
        Inl e \<Rightarrow> Inl (plain_error ''assume ledger writer role for approved backfill: %w'' [])
      | Inr _ \<Rightarrow>
     and_then (find_plan env planID dk) (\<lambda>plan.
       if bp_Status plan = ''applied''
       then if bp_ApprovalDigest plan = Some approvalDigest then Inr (plan, dk)
            else Inl (plain_error ''backfill idempotency payload conflict'' [])
       else if bp_Status plan \<noteq> ''approved'' \<or> bp_ApprovedBy plan = None \<or> bp_ApprovalDigest plan \<noteq> Some approvalDigest
       then Inl (plain_error ''valid approved backfill plan required'' [])
       else
         and_then (current_report env (bp_AccountID plan) dk) (\<lambda>current.
           if digest_of env (report_json current) \<noteq> bp_ReportDigest plan
           then Inl (plain_error ''approved backfill plan became stale'' [])
           else run_plan env plan approvalDigest dk)))"

definition ApplyBackfill :: "desk_env \<Rightarrow> string \<Rightarrow> string \<Rightarrow> desk \<Rightarrow> BackfillPlan lresult \<times> desk" where
  "ApplyBackfill env planID approvalDigest dk =
     (if \<not> de_writer env then (Inl (plain_error ''isolated ledger writer is unavailable'' []), dk)
      else dk_transaction env (apply_plan_body env planID approvalDigest) dk)"

end
