(* ===== verification/Opening_Laws.thy ===== *)
theory Opening_Laws
  imports Opening Ledger_Live Ledger_Steps
begin

text \<open>
  What the opening of a ledger establishes. A new database (\<open>empty_database\<close>) is opened by seeding, a legacy one
  (\<open>legacy_database\<close>: rows without any exact column, no events) by the backfill; both give a store that is \<open>opened\<close>: the
  ledger's invariant holds and the one opening is recorded. The operations of the ledger keep a store opened, and on an
  opened store seeding and backfill change nothing. The locale \<open>ledger_opening\<close> is this contract of an opening operation.
\<close>

section \<open>Stores before and after the opening\<close>

definition empty_database :: "store \<Rightarrow> bool" where
  "empty_database st \<longleftrightarrow> st_wallets st = [] \<and> st_positions st = [] \<and> st_orders st = [] \<and> st_events st = [] \<and>
     st_states st = [] \<and> 0 < st_next_position st \<and> 0 < st_next_order st"

definition unreconstructed :: "Position \<Rightarrow> bool" where
  "unreconstructed p \<longleftrightarrow> p_AmountExact p = None \<and> p_CostBasisExact p = None \<and> p_RealizedPnLExact p = None \<and> p_FeesExact p = None"

definition legacy_database :: "store \<Rightarrow> bool" where
  "legacy_database st \<longleftrightarrow> (\<exists>w. st_wallets st = [w] \<and> w_ID w = 1 \<and> w_AccountID w = DefaultAccountID) \<and> st_events st = [] \<and>
     distinct (map ms_AccountID (st_states st)) \<and> orders_ok (st_next_order st) (st_orders st) \<and>
     positions_ok (st_next_position st) (st_positions st) \<and> (\<forall>p \<in> set (st_positions st). unreconstructed p)"

definition legacy_batch :: string where
  "legacy_batch = ''legacy-opening-'' @ DefaultAccountID"

definition opened :: "store \<Rightarrow> bool" where
  "opened st \<longleftrightarrow> ledger_inv st \<and> map w_ID (st_wallets st) = [1] \<and> distinct (map ms_AccountID (st_states st)) \<and>
     DefaultAccountID \<in> ms_AccountID ` set (st_states st) \<and> (is_ready DefaultAccountID st \<or> claimed legacy_batch st)"

lemma opened_ledger_step: "ledger_step st st' \<Longrightarrow> no_stranded_basis st' \<Longrightarrow> opened st \<Longrightarrow> opened st'"
proof -
  assume step: "ledger_step st st'" and clean: "no_stranded_basis st'" and op: "opened st"
  have kept: "accounts_kept st st'" by (rule ledger_step_states [OF step])
  have "claimed legacy_batch st \<Longrightarrow> claimed legacy_batch st'"
    using ledger_step_history [OF step] by (auto simp: claimed_def)
  moreover have "ms_AccountID ` set (st_states st') = ms_AccountID ` set (st_states st)"
    using kept unfolding accounts_kept_def by (metis set_map)
  ultimately show ?thesis
    using ledger_step_inv [OF step clean] op kept by (auto simp: opened_def accounts_kept_def)
qed

section \<open>An opened store is not opened again\<close>

lemma find_state_ready:
  assumes "is_ready a st" and "distinct (map ms_AccountID (st_states st))" and "find_state env a st = Inr found"
  shows "\<exists>m. found = Some m \<and> ms_Status m = ''ready''"
proof -
  obtain m where m: "m \<in> set (st_states st)" "ms_AccountID m = a" "ms_Status m = ''ready''"
    using assms(1) by (auto simp: is_ready_def)
  have "find (\<lambda>m. ms_AccountID m = a) (sort_key ms_AccountID (st_states st)) = Some m"
    by (rule find_unique) (use m assms(2) in \<open>auto simp: distinct_map inj_on_def\<close>)
  then show ?thesis using db_first_Inr [OF assms(3) [unfolded find_state_def]] m(3) by simp
qed

text \<open>An opening writes a wallet row, a batch, a deposit and a state; \<open>opens\<close> collects what is used of them.\<close>

definition opens :: "string \<Rightarrow> acc_decimal \<Rightarrow> LedgerEvent \<Rightarrow> bool" where
  "opens account balance e \<longleftrightarrow> 0 \<le> acc_integer balance \<and> e_CashDelta e = balance \<and> e_AccountID e = account \<and> e_FillID e = None \<and>
     e_EventType e = EventCapitalDeposit \<and> e_Symbol e = [] \<and> acc_integer (e_AssetDelta e) = 0 \<and>
     acc_integer (e_CostBasisDelta e) = 0 \<and> acc_integer (e_FeeDelta e) = 0 \<and> acc_integer (e_RealizedPnL e) = 0"

lemma zero_integer [simp]: "acc_Valid acc_Zero" "acc_integer acc_Zero = 0"
  by code_simp+

lemma create_deposit_Inr:
  assumes "create_deposit env (opening_event eid bid account currency balance now
      \<lparr>e_Actor := actor, e_Reason := reason, e_MetadataJSON := md, e_Stage08ContextJSON := ctx\<rparr>) st = Inr st'"
  obtains e where "opens account balance e" "e_Actor e = actor" "e_MetadataJSON e = with_default md ''{}''"
    "e_LedgerBatchID e = bid" "e_ID e = eid" "st' = st\<lparr>st_events := st_events st @ [e]\<rparr>"
proof -
  define e where "e = event_defaults (opening_event eid bid account currency balance now
      \<lparr>e_Actor := actor, e_Reason := reason, e_MetadataJSON := md, e_Stage08ContextJSON := ctx\<rparr>)"
  have e: "deposit_violation e = None" "st' = st\<lparr>st_events := st_events st @ [e]\<rparr>"
    using assms by (auto simp: create_deposit_def result_simps e_def dest!: create_event_Inr)
  have "e_CashDelta e = balance" by (simp add: e_def opening_event_def event_defaults_def)
  then have "0 \<le> acc_integer balance"
    using e(1) by (auto simp: deposit_violation_def acc_Sign_def sgn_if split: if_splits)
  then have "opens account balance e" by (simp add: opens_def e_def opening_event_def event_defaults_def)
  then show thesis by (rule that) (simp_all add: e_def opening_event_def event_defaults_def e(2) [unfolded e_def])
qed

lemma open_account_Inr:
  assumes "open_account env options account report now w balance st = Inr st'"
  obtains row e m b where "b_AccountID b = account" "e_LedgerBatchID e = b_ID b" "ms_OpeningEventID m = Some (e_ID e)"
    "w_ID row = w_ID w" "w_AccountID row = w_AccountID w" "w_BalanceExact row = Some balance"
    "b_ID b = ''legacy-opening-'' @ account" "\<not> claimed (''legacy-opening-'' @ account) st" "opens account balance e"
    "e_Actor e = bo_ApprovedBy options" "e_MetadataJSON e = with_default (backfill_metadata env options report) ''{}''"
    "ms_AccountID m = account" "ms_Status m = (if 0 < br_LegacyPositionCount report then ''pending_resolution'' else ''ready'')"
    "st' = st\<lparr>st_wallets := replace_row w_ID row (st_wallets st), st_positions := map (zeroed account) (st_positions st),
       st_batches := st_batches st @ [b], st_events := st_events st @ [e], st_states := upserted m (st_states st)\<rparr>"
proof -
  define batchID where "batchID = ''legacy-opening-'' @ account"
  define row where "row = w\<lparr>w_BalanceExact := Some balance, w_UpdatedAt := env_now env ''save'' ''wallets''\<rparr>"
  define b where "b = \<lparr>b_ID = batchID, b_AccountID = account,
    b_PayloadHash = stableID env ''payload'' (account @ acc_String balance), b_CreatedAt = now\<rparr>"
  define m where "m = (state_row account (if 0 < br_LegacyPositionCount report then ''pending_resolution'' else ''ready'')
     (Some (stableID env ''event-opening'' batchID)) (json_strings env (br_Unresolved report)) now)
     \<lparr>ms_ApprovedBy := Some (bo_ApprovedBy options), ms_ApprovedAt := Some now\<rparr>"
  note run = assms [unfolded open_account_def Let_def batchID_def [symmetric]]
  obtain w1 st1 st2 st3 st4 where
    1: "save_wallet env (w\<lparr>w_BalanceExact := Some balance\<rparr>) st = Inr (w1, st1)" and 2: "zero_closed env account st1 = Inr st2"
    and 3: "create_batch env b st2 = Inr st3"
    and 4: "create_deposit env (opening_event (stableID env ''event-opening'' batchID) batchID account (w_Currency w1) balance now
      \<lparr>e_Actor := bo_ApprovedBy options, e_Reason := ''approved legacy cutover opening cash balance'',
       e_MetadataJSON := backfill_metadata env options report,
       e_Stage08ContextJSON := stage08Context env ''administrative_backfill''\<rparr>) st3 = Inr st4"
    and 5: "upsert_state env m st4 = Inr st'"
    using run by (auto simp: and_then_eq_Inr b_def m_def)
  have st1: "st1 = st\<lparr>st_wallets := replace_row w_ID row (st_wallets st)\<rparr>"
    using 1 by (auto simp: save_wallet_def Let_def result_simps row_def)
  have st2: "st2 = st1\<lparr>st_positions := map (zeroed account) (st_positions st)\<rparr>"
    using 2 by (auto simp: zero_closed_def result_simps st1)
  have st3: "st3 = st2\<lparr>st_batches := st_batches st @ [b]\<rparr>" "batchID \<notin> b_ID ` set (st_batches st)"
    using 3 by (auto simp: create_batch_def batch_violation_def result_simps st1 st2 b_def split: if_splits)
  obtain e where e: "opens account balance e" "e_Actor e = bo_ApprovedBy options"
    "e_MetadataJSON e = with_default (backfill_metadata env options report) ''{}''" "st4 = st3\<lparr>st_events := st_events st3 @ [e]\<rparr>"
    "e_LedgerBatchID e = batchID" "e_ID e = stableID env ''event-opening'' batchID"
    by (rule create_deposit_Inr [OF 4])
  have "st' = st4\<lparr>st_states := upserted m (st_states st4)\<rparr>" using 5 by (auto simp: upsert_state_def result_simps)
  then show thesis
    using st3(2) by (intro that [of b e m row])
      (simp_all add: e st1 st2 st3(1) row_def b_def m_def state_row_def claimed_def batchID_def)
qed

section \<open>When an opening goes through\<close>

lemma open_account_up:
  assumes up: "db_up env" and "st_events st = []" and "\<not> claimed (''legacy-opening-'' @ account) st" and "0 \<le> acc_integer balance"
  shows "\<exists>st'. open_account env options account report now w balance st = Inr st'"
proof -
  have d: "deposit_violation (event_defaults ((opening_event eid bid account cur balance now)
      \<lparr>e_Actor := a, e_Reason := r, e_MetadataJSON := md, e_Stage08ContextJSON := ctx\<rparr>)) = None" for eid bid cur a r md ctx
    using assms(4) by (simp add: deposit_violation_def event_defaults_def opening_event_def acc_Sign_def sgn_if)
  show ?thesis
    using assms(2,3)
    by (simp add: open_account_def Let_def save_wallet_def zero_closed_def create_batch_def create_deposit_def create_event_def
        create_events_def upsert_state_def db_up_simps [OF up] batch_violation_def d event_violation_def claimed_def checked_def)
qed

section \<open>The backfill of a legacy database\<close>

lemma zeroed_simps [simp]:
  "p_ID (zeroed a p) = p_ID p" "p_Symbol (zeroed a p) = p_Symbol p" "p_AccountID (zeroed a p) = p_AccountID p"
  "p_Status (zeroed a p) = p_Status p"
  by (simp_all add: zeroed_def)

lemma zeroed_unreconstructed:
  assumes "unreconstructed p"
  shows "exact (p_AmountExact (zeroed a p)) = 0" "exact (p_CostBasisExact (zeroed a p)) = 0"
    "exact (p_RealizedPnLExact (zeroed a p)) = 0" "exact (p_FeesExact (zeroed a p)) = 0"
  using assms by (simp_all add: unreconstructed_def zeroed_def)

lemma col_sum_zero: "\<forall>p \<in> set rows. exact (col p) = 0 \<Longrightarrow> col_sum col s rows = 0"
  by (induction rows) auto

lemma upserted_ids: "distinct (map ms_AccountID rows) \<Longrightarrow> distinct (map ms_AccountID (upserted m rows))"
  "ms_AccountID ` set (upserted m rows) = insert (ms_AccountID m) (ms_AccountID ` set rows)"
proof -
  define f where "f = (\<lambda>x :: LedgerMigrationState. if ms_AccountID x = ms_AccountID m
     then x\<lparr>ms_Status := ms_Status m, ms_OpeningEventID := ms_OpeningEventID m,
            ms_UnresolvedJSON := ms_UnresolvedJSON m, ms_ApprovedBy := ms_ApprovedBy m,
            ms_ApprovedAt := ms_ApprovedAt m, ms_UpdatedAt := ms_UpdatedAt m\<rparr> else x)"
  have up: "upserted m rows = (if ms_AccountID m \<in> ms_AccountID ` set rows then map f rows else rows @ [m])"
    by (simp only: upserted_def f_def)
  have "ms_AccountID \<circ> f = ms_AccountID" by (rule ext) (simp add: f_def)
  then show "distinct (map ms_AccountID rows) \<Longrightarrow> distinct (map ms_AccountID (upserted m rows))"
    "ms_AccountID ` set (upserted m rows) = insert (ms_AccountID m) (ms_AccountID ` set rows)"
    by (auto simp: up image_comp)
qed

text \<open>The state of the account after the opening: what the upsert wrote.\<close>

lemma upserted_status:
  assumes "distinct (map ms_AccountID rows)" and "x \<in> set (upserted m rows)" and "ms_AccountID x = ms_AccountID m"
  shows "ms_Status x = ms_Status m"
  using assms by (auto simp: upserted_def image_iff split: if_splits)

lemma legacy_opened:
  assumes legacy: "legacy_database st" and w: "w \<in> set (st_wallets st)"
    and run: "open_account env options DefaultAccountID report now w balance st = Inr st'"
  shows "opened st'" "cash_sum (st_events st') = acc_integer balance"
    "\<exists>e. st_events st' = [e] \<and> opens DefaultAccountID balance e \<and> e_Actor e = bo_ApprovedBy options \<and>
      e_MetadataJSON e = with_default (backfill_metadata env options report) ''{}''"
    "is_ready DefaultAccountID st' \<longleftrightarrow> br_LegacyPositionCount report \<le> 0"
proof -
  obtain row e m b where row: "w_ID row = w_ID w" "w_AccountID row = w_AccountID w" "w_BalanceExact row = Some balance"
    and b: "b_ID b = legacy_batch" and e: "opens DefaultAccountID balance e" "e_Actor e = bo_ApprovedBy options"
      "e_MetadataJSON e = with_default (backfill_metadata env options report) ''{}''"
    and m: "ms_AccountID m = DefaultAccountID"
      "ms_Status m = (if 0 < br_LegacyPositionCount report then ''pending_resolution'' else ''ready'')"
    and st': "st' = st\<lparr>st_wallets := replace_row w_ID row (st_wallets st),
       st_positions := map (zeroed DefaultAccountID) (st_positions st),
       st_batches := st_batches st @ [b], st_events := st_events st @ [e], st_states := upserted m (st_states st)\<rparr>"
    by (rule open_account_Inr [OF run]) (auto simp: legacy_batch_def)
  have st: "st_wallets st = [w]" "w_ID w = 1" "w_AccountID w = DefaultAccountID" "st_events st = []"
    "distinct (map ms_AccountID (st_states st))" "orders_ok (st_next_order st) (st_orders st)"
    "positions_ok (st_next_position st) (st_positions st)" "\<forall>p \<in> set (st_positions st). unreconstructed p"
    using legacy w by (auto simp: legacy_database_def)
  have cash: "cash_ok st'"
    using e(1) st row by (auto simp: cash_ok_def st' opens_def)
  have "position_ok (zeroed DefaultAccountID p)" if "p \<in> set (st_positions st)" for p
  proof -
    have "unreconstructed p" "position_ok p" using st(7,8) that by (auto simp: positions_ok_def)
    then show ?thesis by (simp add: position_ok_def zeroed_unreconstructed)
  qed
  moreover have "p_ID \<circ> zeroed DefaultAccountID = p_ID" "p_Symbol \<circ> zeroed DefaultAccountID = p_Symbol"
    by (rule ext, simp)+
  ultimately have pos: "positions_ok (st_next_position st') (st_positions st')"
    using st(7) unfolding positions_ok_def by (simp add: st')
  have "symbols_ok (st_positions st') (st_events st')"
    using st(4,8) e(1) by (simp add: symbols_ok_def st' col_sum_zero zeroed_unreconstructed opens_def)
  moreover have "\<forall>x \<in> set (st_events st'). event_ok x" using e(1) st(4) by (simp add: st' opens_def event_ok_def
        EventCapitalDeposit_def EventAdminCorrection_def)
  ultimately have inv: "ledger_inv st'" using cash pos st(6) by (simp add: ledger_inv_def st')
  show "opened st'"
    using inv st(1,2) row(1) upserted_ids(1) [OF st(5)] m(1) b by (simp add: opened_def st' claimed_def upserted_ids)
  show "cash_sum (st_events st') = acc_integer balance" using st(4) e(1) by (simp add: st' opens_def)
  show "\<exists>e. st_events st' = [e] \<and> opens DefaultAccountID balance e \<and> e_Actor e = bo_ApprovedBy options \<and>
      e_MetadataJSON e = with_default (backfill_metadata env options report) ''{}''"
    using st(4) e by (simp add: st')
  obtain x where "x \<in> set (upserted m (st_states st))" "ms_AccountID x = DefaultAccountID"
    using upserted_ids(2) [of m "st_states st"] m(1) by (metis imageE insertI1)
  then show "is_ready DefaultAccountID st' \<longleftrightarrow> br_LegacyPositionCount report \<le> 0"
    using upserted_status [OF st(5)] m by (auto simp: is_ready_def st' split: if_splits)
qed

text \<open>A way to run a body that is all or nothing: a transaction, or the caller's.\<close>

definition atomic_run :: "((store \<Rightarrow> (unit \<times> store) lresult) \<Rightarrow> store \<Rightarrow> unit lresult \<times> store) \<Rightarrow> bool" where
  "atomic_run run \<longleftrightarrow> (\<forall>body st. (\<exists>e. run body st = (Inl e, st)) \<or> (\<exists>st'. body st = Inr ((), st') \<and> run body st = (Inr (), st')))"

lemma atomic_runs: "atomic_run (transaction env)" "atomic_run nested"
proof -
  have "(\<exists>e. transaction env body st = (Inl e, st)) \<or> (\<exists>st'. body st = Inr ((), st') \<and> transaction env body st = (Inr (), st'))"
    for body st
    using transaction_cases [of env body st] by auto
  then show "atomic_run (transaction env)" by (simp add: atomic_run_def)
  show "atomic_run nested"
    by (simp add: atomic_run_def nested_def split: sum.split)
qed

lemma survey_Inr:
  assumes "survey env b account st = Inr (report, w)"
  shows "w \<in> set (st_wallets st)" "w_AccountID w = account" "\<exists>d. acc_FromFloat env (w_Balance w) = Inr d"
    "br_LegacyPositionCount report = int (length (legacy_positions account st))" "br_DryRun report = (\<not> b)" "\<not> br_Applied report"
proof -
  obtain balance where w: "account_wallet env account st = Inr w" "acc_FromFloat env (w_Balance w) = Inr balance"
    and rest: "and_then (sampled env ''positions'' (map p_ID (legacy_positions account st))
                 (\<lambda>n r. r\<lparr>br_LegacyPositionCount := n\<rparr>) (\<lambda>ids r. r\<lparr>br_LegacyPositionIDs := ids\<rparr>) st
                 (zero_BackfillReport\<lparr>br_DryRun := \<not> b, br_WouldOpenCash := acc_String balance,
                         br_Currency := w_Currency w\<rparr>)) (\<lambda>report.
             and_then (sampled env ''orders'' (map o_ID (filter (\<lambda>r. o_AccountID r = account) (st_orders st)))
                 (\<lambda>n r. r\<lparr>br_LegacyOrderCount := n\<rparr>) (\<lambda>ids r. r\<lparr>br_LegacyOrderIDs := ids\<rparr>) st report) (\<lambda>report.
               Inr (report\<lparr>br_SampleTruncated :=
                        int (length (br_LegacyPositionIDs report)) < br_LegacyPositionCount report \<or>
                        int (length (br_LegacyOrderIDs report)) < br_LegacyOrderCount report,
                      br_Unresolved := unresolved_notes report\<rparr>, w))) = Inr (report, w)"
    using assms by (auto simp: survey_def Let_def and_then_eq_Inr split: sum.splits)
  show "w \<in> set (st_wallets st)" "w_AccountID w = account"
    using db_require_Inr [OF w(1) [unfolded account_wallet_def]] by simp_all
  show "\<exists>d. acc_FromFloat env (w_Balance w) = Inr d" using w(2) by blast
  show "br_LegacyPositionCount report = int (length (legacy_positions account st))" "br_DryRun report = (\<not> b)"
    "\<not> br_Applied report"
    using rest by (auto simp: and_then_eq_Inr sampled_def Let_def zero_BackfillReport_def split: sum.splits)
qed

lemma locked_balance_Inr:
  assumes "locked_balance env account w0 st = Inr (w, balance)"
  shows "w \<in> set (st_wallets st)" "acc_FromFloat env (w_Balance w) = Inr balance"
    "distinct (map ms_AccountID (st_states st)) \<Longrightarrow> \<not> is_ready account st"
proof -
  obtain found x where f: "find_state env account st = Inr found"
      "\<not> (case found of None \<Rightarrow> False | Some m \<Rightarrow> ms_Status m = ''ready'')"
    and x: "db_require env ''wallets'' w_ID (\<lambda>w. w_AccountID w = account \<and> w_ID w = w_ID w0) (st_wallets st) st = Inr x"
      "(case acc_FromFloat env (w_Balance x) of Inl e \<Rightarrow> Inl (PlainError e) | Inr b \<Rightarrow> Inr (x, b)) = Inr (w, balance)"
    using assms unfolding locked_balance_def and_then_eq_Inr
    by (elim exE conjE) (auto simp: and_then_eq_Inr split: if_splits)
  have w: "db_require env ''wallets'' w_ID (\<lambda>w. w_AccountID w = account \<and> w_ID w = w_ID w0) (st_wallets st) st = Inr w"
    "acc_FromFloat env (w_Balance w) = Inr balance"
    using x by (auto split: sum.splits)
  show "w \<in> set (st_wallets st)" using db_require_Inr [OF w(1)] by simp
  show "acc_FromFloat env (w_Balance w) = Inr balance" by (rule w(2))
  show "distinct (map ms_AccountID (st_states st)) \<Longrightarrow> \<not> is_ready account st"
    using find_state_ready [OF _ _ f(1)] f(2) by fastforce
qed

lemma Backfill_cases:
  assumes "atomic_run run"
  obtains (unchanged) r e where "Backfill_with run env options st = ((r, e), st)" "\<not> br_Applied r"
      "bo_Apply options \<longrightarrow> e \<noteq> None" "br_DryRun r \<longrightarrow> \<not> bo_Apply options"
  | (applied) report w0 w balance st' where "bo_Apply options" "bo_Approval options = BackfillApproval"
      "bo_ApprovedBy options \<noteq> []" "survey env True DefaultAccountID st = Inr (report, w0)"
      "locked_balance env DefaultAccountID w0 st = Inr (w, balance)"
      "open_account env options DefaultAccountID report (env_now env ''now'' DefaultAccountID) w balance st = Inr st'"
      "Backfill_with run env options st =
        ((report\<lparr>br_WouldOpenCash := acc_String balance, br_Currency := w_Currency w, br_Applied := True, br_DryRun := False\<rparr>,
          None), st')"
proof (cases "requirePrimaryAccount (bo_AccountID options)")
  case (Some e)
  then show thesis
    by (intro unchanged [of zero_BackfillReport "Some e"]) (simp_all add: Backfill_with_def zero_BackfillReport_def)
next
  case None
  then have account: "with_default (bo_AccountID options) DefaultAccountID = DefaultAccountID"
    by (auto simp: requirePrimaryAccount_def with_default_def split: if_splits)
  note bf = Backfill_with_def [of run env options st, unfolded account None Let_def option.case]
  show thesis
  proof (cases "survey env (bo_Apply options) DefaultAccountID st")
    case (Inl x)
    obtain report e where x: "x = (report, e)" by (cases x)
    have "\<not> br_Applied report" "br_DryRun report \<longrightarrow> \<not> bo_Apply options"
      using Inl unfolding x by (auto simp: survey_def sampled_def Let_def and_then_def zero_BackfillReport_def split: sum.splits)
    then show thesis using Inl x by (intro unchanged [of report "Some e"]) (simp_all add: bf)
  next
    case (Inr x)
    obtain report w0 where x: "x = (report, w0)" by (cases x)
    note survey = Inr [unfolded x] and facts = survey_Inr [OF Inr [unfolded x]]
    show thesis
    proof (cases "bo_Apply options \<and> bo_Approval options = BackfillApproval \<and> bo_ApprovedBy options \<noteq> []")
      case False
      define e where "e = (if bo_Apply options then Some (validation_error ''backfill_approval_required''
        (''explicit approval '' @ quoted BackfillApproval @ '' and approved-by are required'')) else None)"
      have "Backfill_with run env options st = ((report, e), st)"
        unfolding bf survey sum.case prod.case using False by (cases "bo_Apply options") (auto simp: e_def backfill_apply_def)
      then show thesis using facts(5,6) by (intro unchanged [of report e]) (simp_all add: e_def)
    next
      case True
      then have s: "survey env True DefaultAccountID st = Inr (report, w0)" using survey by simp
      define now where "now = env_now env ''now'' DefaultAccountID"
      define body where "body = backfill_body env options DefaultAccountID report now w0"
      have settled: "\<not> br_Applied (settled_report env DefaultAccountID w0 st report)"
        "br_DryRun (settled_report env DefaultAccountID w0 st report) = br_DryRun report"
        using facts(6) by (auto simp: settled_report_def split: sum.split)
      consider e where "run body st = (Inl e, st)" | st' where "body st = Inr ((), st')" "run body st = (Inr (), st')"
        using assms unfolding atomic_run_def by blast
      then show thesis
      proof cases
        case 1
        then show thesis
          using True settled facts(5) by (intro unchanged [of "settled_report env DefaultAccountID w0 st report"
                "Some (normalizePersistenceError e)"])
            (simp_all add: bf s backfill_apply_def Let_def now_def [symmetric] body_def [symmetric])
      next
        case 2
        obtain w balance where lb: "locked_balance env DefaultAccountID w0 st = Inr (w, balance)"
          and oa: "open_account env options DefaultAccountID report now w balance st = Inr st'"
          using 2(1) by (auto simp: body_def backfill_body_def and_then_eq_Inr)
        show thesis
          by (rule applied [of report w0 w balance st'])
            (use True s lb oa 2(2) in \<open>simp_all add: bf backfill_apply_def Let_def now_def [symmetric]
               body_def [symmetric] settled_report_def\<close>)
      qed
    qed
  qed
qed

section \<open>Seeding\<close>

lemma claimed_open_account: "claimed legacy_batch st \<Longrightarrow> open_account env options DefaultAccountID report now w balance st \<noteq> Inr st'"
  by (auto elim!: open_account_Inr simp: legacy_batch_def)

text \<open>On a store with wallet 1 and a state of the account, seeding only checks.\<close>

lemma seed_body_known:
  assumes "map w_ID (st_wallets st) = [1]" and "DefaultAccountID \<in> ms_AccountID ` set (st_states st)"
    and "seed_body env balance currency st = Inr (x, st')"
  shows "st' = st"
proof -
  have acc: "primaryLedgerAccount = DefaultAccountID" by (simp add: primaryLedgerAccount_def DefaultAccountID_def)
  have "w_ID ` set (st_wallets st) = {1}" using assms(1) by (metis list.simps(15) set_empty list.set_map set_map)
  then obtain wallet where "seedLedgerBoundary env wallet False st = Inr st'"
    using assms(3) by (auto simp: seed_body_def and_then_eq_Inr)
  then show ?thesis
    using assms(2)
    by (auto simp: seedLedgerBoundary_def seed_legacy_def and_then_eq_Inr acc Let_def result_simps
        split: sum.splits option.splits if_splits)
qed

lemma seed_fresh_Inr:
  assumes "seed_fresh env w st = Inr st'"
  obtains balance row e m b where "acc_FromFloat env (w_Balance w) = Inr balance" "w_ID row = w_ID w"
    "w_AccountID row = w_AccountID w" "w_BalanceExact row = Some balance" "opens DefaultAccountID balance e"
    "ms_AccountID m = DefaultAccountID" "ms_Status m = ''ready''" "e_Actor e = ''system_seed''"
    "st' = st\<lparr>st_wallets := replace_row w_ID row (st_wallets st), st_batches := st_batches st @ [b],
       st_events := st_events st @ [e], st_states := st_states st @ [m]\<rparr>"
proof -
  have acc: "primaryLedgerAccount = DefaultAccountID" by (simp add: primaryLedgerAccount_def DefaultAccountID_def)
  obtain balance where bal: "acc_FromFloat env (w_Balance w) = Inr balance"
    using assms by (auto simp: seed_fresh_def split: sum.splits)
  define bid where "bid = ''fresh-install-opening-balance''"
  define eid where "eid = stableSeedID env ''opening'' bid"
  define now where "now = env_now env ''seed'' DefaultAccountID"
  define b where "b = \<lparr>b_ID = bid, b_AccountID = DefaultAccountID,
    b_PayloadHash = stableSeedID env ''payload'' (acc_String balance), b_CreatedAt = now\<rparr>"
  define m where "m = state_row DefaultAccountID ''ready'' (Some eid) ''[]'' now"
  define row where "row = w\<lparr>w_BalanceExact := Some balance, w_UpdatedAt := env_now env ''save'' ''wallets''\<rparr>"
  obtain w1 st1 st2 st3 where 1: "save_wallet env (w\<lparr>w_BalanceExact := Some balance\<rparr>) st = Inr (w1, st1)"
    and 2: "create_batch env b st1 = Inr st2"
    and 3: "create_deposit env (opening_event eid bid DefaultAccountID (w_Currency w1) balance now
      \<lparr>e_Actor := ''system_seed'', e_Reason := ''fresh install opening balance'',
       e_MetadataJSON := ''{'' @ quoted ''source'' @ '':'' @ quoted ''configured_default_balance'' @ ''}'',
       e_Stage08ContextJSON := stage08Context env ''fresh_install_seed''\<rparr>) st2 = Inr st3"
    and 4: "create_state env m st3 = Inr st'"
    using assms unfolding seed_fresh_def bal Let_def sum.case acc bid_def [symmetric] eid_def [symmetric] now_def [symmetric]
      b_def [symmetric] m_def [symmetric] and_then_eq_Inr
    by (elim exE conjE) (auto simp: and_then_eq_Inr)
  obtain e where e: "opens DefaultAccountID balance e" "e_Actor e = ''system_seed''" "st3 = st2\<lparr>st_events := st_events st2 @ [e]\<rparr>"
    by (rule create_deposit_Inr [OF 3])
  have st1: "st1 = st\<lparr>st_wallets := replace_row w_ID row (st_wallets st)\<rparr>"
    using 1 by (auto simp: save_wallet_def Let_def result_simps row_def)
  have st2: "st2 = st1\<lparr>st_batches := st_batches st @ [b]\<rparr>"
    using 2 by (auto simp: create_batch_def result_simps st1)
  have "st' = st3\<lparr>st_states := st_states st @ [m]\<rparr>"
    using 4 by (auto simp: create_state_def result_simps e(3) st2 st1)
  then show thesis
    by (intro that [of balance row e m b]) (simp_all add: e st1 st2 row_def m_def state_row_def bal)
qed

lemma empty_seeded:
  assumes empty: "empty_database st" and run: "seed_body env balance currency st = Inr (x, st')"
  shows "opened st'" "is_ready DefaultAccountID st'" "\<exists>d e. acc_FromFloat env (w_Balance (seeded_wallet env balance currency)) = Inr d \<and>
    st_events st' = [e] \<and> opens DefaultAccountID d e"
proof -
  define w where "w = seeded_wallet env balance currency"
  have w: "w_ID w = 1" "w_AccountID w = DefaultAccountID"
    by (simp_all add: w_def seeded_wallet_def primaryLedgerAccount_def DefaultAccountID_def)
  have st: "st_wallets st = []" "st_positions st = []" "st_orders st = []" "st_events st = []" "st_states st = []"
    "0 < st_next_position st" "0 < st_next_order st"
    using empty by (simp_all add: empty_database_def)
  have "seedLedgerBoundary env w True (st\<lparr>st_wallets := [w]\<rparr>) = Inr st'"
    using run by (auto simp: seed_body_def and_then_eq_Inr st(1) w_def Let_def)
  then have "seed_fresh env w (st\<lparr>st_wallets := [w]\<rparr>) = Inr st'"
    using st(5) by (auto simp: seedLedgerBoundary_def and_then_eq_Inr find_state_def db_first_def
        split: sum.splits option.splits if_splits)
  then obtain d row e m b where d: "acc_FromFloat env (w_Balance w) = Inr d" and row: "w_ID row = w_ID w"
    "w_AccountID row = w_AccountID w" "w_BalanceExact row = Some d" and e: "opens DefaultAccountID d e"
    and m: "ms_AccountID m = DefaultAccountID" "ms_Status m = ''ready''"
    and st': "st' = st\<lparr>st_wallets := [row], st_batches := st_batches st @ [b], st_events := [e], st_states := [m]\<rparr>"
    by (rule seed_fresh_Inr) (auto simp: st w)
  have "event_ok e" using e by (simp add: opens_def event_ok_def EventCapitalDeposit_def EventAdminCorrection_def)
  then have "ledger_inv st'"
    using st e row w by (simp add: ledger_inv_def st' cash_ok_def opens_def positions_ok_def orders_ok_def symbols_ok_def)
  then show "opened st'" "is_ready DefaultAccountID st'"
    using row(1) w(1) m by (simp_all add: opened_def st' is_ready_def)
  show "\<exists>d e. acc_FromFloat env (w_Balance (seeded_wallet env balance currency)) = Inr d \<and>
    st_events st' = [e] \<and> opens DefaultAccountID d e"
    using d e by (auto simp: w_def st')
qed

section \<open>When a backfill goes through\<close>

text \<open>A legacy database that waits for its backfill, with a wallet whose float reads as \<open>d\<close>.\<close>

definition awaiting :: "ledger_env \<Rightarrow> acc_decimal \<Rightarrow> store \<Rightarrow> bool" where
  "awaiting env d st \<longleftrightarrow> legacy_database st \<and> (\<forall>w \<in> set (st_wallets st). acc_FromFloat env (w_Balance w) = Inr d) \<and>
     0 \<le> acc_integer d \<and> \<not> claimed legacy_batch st \<and>
     (\<forall>m \<in> set (st_states st). ms_AccountID m = DefaultAccountID \<longrightarrow> ms_Status m \<noteq> ''ready'' \<and> ms_OpeningEventID m = None)"

definition approves :: "BackfillOptions \<Rightarrow> bool" where
  "approves options \<longleftrightarrow> bo_Apply options \<and> bo_Approval options = BackfillApproval \<and> bo_ApprovedBy options \<noteq> [] \<and>
     (bo_AccountID options = [] \<or> bo_AccountID options = DefaultAccountID)"

lemma survey_up:
  assumes "db_up env" and "awaiting env d st"
  obtains report w where "\<And>b. survey env b DefaultAccountID st = Inr (report\<lparr>br_DryRun := \<not> b\<rparr>, w)" "w \<in> set (st_wallets st)"
    "w_AccountID w = DefaultAccountID"
proof -
  obtain w where w: "st_wallets st = [w]" "w_AccountID w = DefaultAccountID" "acc_FromFloat env (w_Balance w) = Inr d"
    using assms(2) by (auto simp: awaiting_def legacy_database_def)
  then have aw: "account_wallet env DefaultAccountID st = Inr w"
    by (simp add: account_wallet_def db_require_def db_up_simps [OF assms(1)])
  obtain report where "survey env True DefaultAccountID st = Inr (report, w)"
    by (simp add: survey_def aw w(3) sampled_def db_up_simps [OF assms(1)] Let_def)
  have "survey env b DefaultAccountID st = Inr (report\<lparr>br_DryRun := \<not> b\<rparr>, w)" for b
    using \<open>survey env True DefaultAccountID st = Inr (report, w)\<close>
    by (auto simp: survey_def aw w(3) sampled_def db_up_simps [OF assms(1)] Let_def unresolved_notes_def)
  then show thesis using w by (intro that [of report w]) simp_all
qed

lemma Backfill_up:
  assumes up: "db_up env" and aw: "awaiting env d st" and opts: "approves options"
    and run: "\<And>body st st'. body st = Inr ((), st') \<Longrightarrow> run body st = (Inr (), st')"
  obtains report w st' r where "w \<in> set (st_wallets st)"
    "open_account env options DefaultAccountID report (env_now env ''now'' DefaultAccountID) w d st = Inr st'"
    "Backfill_with run env options st = ((r, None), st')" "br_Applied r"
proof -
  obtain report0 w where s: "\<And>b. survey env b DefaultAccountID st = Inr (report0\<lparr>br_DryRun := \<not> b\<rparr>, w)"
    and w: "w \<in> set (st_wallets st)" "w_AccountID w = DefaultAccountID"
    by (rule survey_up [OF up aw]) blast
  define report where "report = report0\<lparr>br_DryRun := False\<rparr>"
  have wallets: "st_wallets st = [w]" using aw w(1) by (auto simp: awaiting_def legacy_database_def)
  have guard: "\<not> (case find (\<lambda>m. ms_AccountID m = DefaultAccountID) (sort_key ms_AccountID (st_states st)) of
      None \<Rightarrow> False | Some state \<Rightarrow> ms_Status state = ''ready'')"
  proof (cases "find (\<lambda>m. ms_AccountID m = DefaultAccountID) (sort_key ms_AccountID (st_states st))")
    case (Some m)
    have "m \<in> set (st_states st)" "ms_AccountID m = DefaultAccountID"
      using find_Some_in [OF Some] by simp_all
    then have "ms_Status m \<noteq> ''ready''" using aw unfolding awaiting_def by blast
    then show ?thesis using Some by simp
  qed simp
  have wallet: "db_require env ''wallets'' w_ID (\<lambda>x. w_AccountID x = DefaultAccountID \<and> w_ID x = w_ID w) (st_wallets st) st = Inr w"
    by (simp add: db_require_def db_up_simps [OF up] wallets w(2))
  have balance: "acc_FromFloat env (w_Balance w) = Inr d" using aw w(1) by (simp add: awaiting_def)
  have lb: "locked_balance env DefaultAccountID w st = Inr (w, d)"
    unfolding locked_balance_def find_state_def db_up_simps [OF up] and_then_simps if_not_P [OF guard] wallet balance by simp
  obtain st' where oa: "open_account env options DefaultAccountID report (env_now env ''now'' DefaultAccountID) w d st = Inr st'"
    using open_account_up [OF up, of st DefaultAccountID d options report "env_now env ''now'' DefaultAccountID" w] aw
    unfolding awaiting_def legacy_database_def legacy_batch_def by blast
  have body: "run (backfill_body env options DefaultAccountID report (env_now env ''now'' DefaultAccountID) w) st = (Inr (), st')"
    by (rule run) (simp add: backfill_body_def lb oa)
  have account: "requirePrimaryAccount (bo_AccountID options) = None"
    "with_default (bo_AccountID options) DefaultAccountID = DefaultAccountID"
    using opts by (auto simp: approves_def requirePrimaryAccount_def with_default_def)
  have "Backfill_with run env options st =
    (((settled_report env DefaultAccountID w st report)\<lparr>br_Applied := True, br_DryRun := False\<rparr>, None), st')"
    using opts by (simp add: Backfill_with_def account s [of True, folded report_def, simplified] backfill_apply_def body Let_def
        approves_def report_def [symmetric])
  then show thesis by (rule that [OF w(1) oa]) simp
qed

end
