(* ===== verification/Opening_Properties.thy ===== *)
theory Opening_Properties
  imports Opening_Laws Ledger_Samples
begin

text \<open>
  The properties of the opening: the locale \<open>ledger_opening\<close> is the contract of an opening operation, interpreted by the
  backfill, alone or in its caller's transaction, and by seeding; steps of both and of the ledger interleave (\<open>opening_step\<close>).
\<close>

section \<open>The contract of an opening operation\<close>

locale ledger_opening =
  fixes run :: "ledger_env \<Rightarrow> 'c \<Rightarrow> store \<Rightarrow> 'r \<times> store"
    and before :: "store \<Rightarrow> bool"
  assumes opens_or_not: "before st \<Longrightarrow> snd (run env c st) = st \<or> opened (snd (run env c st))"
    and not_again: "opened st \<Longrightarrow> snd (run env c st) = st"
begin

lemma keeps: "before st \<or> opened st \<Longrightarrow> before (snd (run env c st)) \<or> opened (snd (run env c st))"
  using opens_or_not [of st env c] not_again [of st env c] by auto

end

lemma Backfill_again:
  assumes "atomic_run run" and "opened st"
  shows "snd (Backfill_with run env options st) = st"
  using assms(1)
proof (cases rule: Backfill_cases [of run env options st])
  case (applied report w0 w balance st')
  have "distinct (map ms_AccountID (st_states st))" using assms(2) by (simp add: opened_def)
  then have "\<not> is_ready DefaultAccountID st" using locked_balance_Inr(3) [OF applied(5)] by simp
  then have "claimed legacy_batch st" using assms(2) by (simp add: opened_def)
  then show ?thesis using claimed_open_account applied(6) by blast
qed simp

lemma Backfill_opens:
  assumes "atomic_run run" and "legacy_database st"
  shows "snd (Backfill_with run env options st) = st \<or> opened (snd (Backfill_with run env options st))"
  using assms(1)
proof (cases rule: Backfill_cases [of run env options st])
  case (applied report w0 w balance st')
  then show ?thesis using legacy_opened(1) [OF assms(2) locked_balance_Inr(1) [OF applied(5)] applied(6)] by simp
qed simp

interpretation backfill: ledger_opening Backfill legacy_database
  unfolding Backfill_def
  by unfold_locales (rule Backfill_opens [OF atomic_runs(1)], assumption, rule Backfill_again [OF atomic_runs(1)])

interpretation nested_backfill: ledger_opening "Backfill_with nested" legacy_database
  by unfold_locales (rule Backfill_opens [OF atomic_runs(2)], assumption, rule Backfill_again [OF atomic_runs(2)])

definition seeding :: "ledger_env \<Rightarrow> float64 \<times> string \<Rightarrow> store \<Rightarrow> unit lresult \<times> store" where
  "seeding env c st = SeedData env (fst c) (snd c) st"

lemma SeedData_cases:
  obtains e where "SeedData env b c st = (Inl e, st)"
  | st' where "SeedData env b c st = (Inr (), st')" "seed_body env b c st = Inr ((), st')"
  using transaction_cases [of env "seed_body env b c" st] by (auto simp: SeedData_def)

interpretation seeding: ledger_opening seeding empty_database
proof
  fix st env c
  show "snd (seeding env c st) = st \<or> opened (snd (seeding env c st))" if "empty_database st"
    by (rule SeedData_cases [of env "fst c" "snd c" st]) (use empty_seeded(1) [OF that] in \<open>auto simp: seeding_def\<close>)
  show "snd (seeding env c st) = st" if "opened st"
    by (rule SeedData_cases [of env "fst c" "snd c" st])
      (use seed_body_known that in \<open>auto simp: seeding_def opened_def\<close>)
qed

section \<open>Opening a ledger\<close>

inductive opening_step :: "store \<Rightarrow> store \<Rightarrow> bool" where
  seed_step: "opening_step st (snd (SeedData env balance currency st))"
| backfill_step: "opening_step st (snd (Backfill env options st))"
| request_step: "ledger_step st st' \<Longrightarrow> no_stranded_basis st' \<Longrightarrow> opening_step st st'"

lemma opened_step: "opening_step st st' \<Longrightarrow> opened st \<Longrightarrow> opened st'"
proof (induction rule: opening_step.induct)
  case (seed_step st env balance currency)
  then show ?case using seeding.not_again [of st env "(balance, currency)"] by (simp add: seeding_def)
next
  case (backfill_step st env options)
  then show ?case using backfill.not_again by simp
qed (rule opened_ledger_step)

lemma opened_steps: "rtranclp opening_step st st' \<Longrightarrow> opened st \<Longrightarrow> opened st'"
  by (induction rule: rtranclp_induct) (auto intro: opened_step)

text \<open>C25: An applied backfill gives a legacy account an exact ledger: the wallet's observed cash, read under the lock, is the one
  deposit of the approver, every projection equals the events, and the account is ready exactly when no open legacy position is
  left to be reconciled.\<close>

theorem backfill_opens_exactly:
  assumes "legacy_database st" and "Backfill env options st = ((r, None), st')" and "br_Applied r"
  shows "ledger_inv st' \<and> (\<exists>w d e. st_wallets st = [w] \<and> acc_FromFloat env (w_Balance w) = Inr d \<and> br_WouldOpenCash r = acc_String d \<and>
      st_events st' = [e] \<and> e_CashDelta e = d \<and> e_Actor e = bo_ApprovedBy options \<and>
      (\<exists>w'. st_wallets st' = [w'] \<and> exact (w_BalanceExact w') = acc_integer d)) \<and>
    (is_ready DefaultAccountID st' \<longleftrightarrow> legacy_positions DefaultAccountID st = [])"
  using atomic_runs(1)
proof (cases rule: Backfill_cases [of "transaction env" env options st])
  case (unchanged r' e)
  then show ?thesis using assms(2,3) by (simp add: Backfill_def)
next
  case (applied report w0 w balance st1)
  have r: "r = report\<lparr>br_WouldOpenCash := acc_String balance, br_Currency := w_Currency w, br_Applied := True, br_DryRun := False\<rparr>"
    and st1: "st1 = st'"
    using applied(7) assms(2) by (simp_all add: Backfill_def)
  note w = locked_balance_Inr(1,2) [OF applied(5)]
  note op = legacy_opened [OF assms(1) w(1) applied(6) [unfolded st1]]
  have wallets: "st_wallets st = [w]" using assms(1) w(1) by (auto simp: legacy_database_def)
  have inv: "ledger_inv st'" using op(1) by (simp add: opened_def)
  then have "\<exists>w'. st_wallets st' = [w'] \<and> exact (w_BalanceExact w') = acc_integer balance"
    using op(2) by (auto simp: ledger_inv_def cash_ok_def)
  moreover have "is_ready DefaultAccountID st' \<longleftrightarrow> legacy_positions DefaultAccountID st = []"
    using op(4) survey_Inr(4) [OF applied(4)] by simp
  ultimately show ?thesis using inv op(3) wallets w(2) r by (auto simp: opens_def)
qed

text \<open>A ledger is opened once, and stays exact from then on: after a new database was seeded or a legacy one backfilled,
  through any sequence of start-ups, backfills and ledger requests that strand no cost basis, the ledger's invariant holds, and a
  further start-up or backfill, with any options, changes nothing.\<close>

theorem opening_happens_once:
  assumes "empty_database st \<and> SeedData env balance currency st = (Inr (), st1) \<or>
      legacy_database st \<and> Backfill env options st = ((r, None), st1) \<and> br_Applied r"
    and "rtranclp opening_step st1 st2"
  shows "ledger_inv st2 \<and> snd (Backfill env' options' st2) = st2 \<and> snd (SeedData env' balance' currency' st2) = st2"
proof -
  have "opened st1"
    using assms(1)
  proof
    assume a: "empty_database st \<and> SeedData env balance currency st = (Inr (), st1)"
    show ?thesis
      by (rule SeedData_cases [of env balance currency st]) (use a empty_seeded(1) in auto)
  next
    assume a: "legacy_database st \<and> Backfill env options st = ((r, None), st1) \<and> br_Applied r"
    show ?thesis
      using atomic_runs(1)
    proof (cases rule: Backfill_cases [of "transaction env" env options st])
      case (applied report w0 w bal st')
      then show ?thesis
        using a legacy_opened(1) [OF _ locked_balance_Inr(1) [OF applied(5)] applied(6)] by (simp add: Backfill_def)
    qed (use a in \<open>simp add: Backfill_def\<close>)
  qed
  then have op: "opened st2" by (rule opened_steps [OF assms(2)])
  then show ?thesis
    using backfill.not_again [OF op] seeding.not_again [OF op, of env' "(balance', currency')"]
    by (simp add: opened_def seeding_def)
qed

text \<open>The backfill writes only what was asked for and approved: a dry run, a missing approval text or approver, an account other
  than the primary one, a ready account and every error leave the store as it was, and the report says so.\<close>

theorem backfill_needs_approval:
  shows "(snd (Backfill env options st) \<noteq> st \<or> br_Applied (fst (fst (Backfill env options st))) \<longrightarrow>
      bo_Apply options \<and> bo_Approval options = BackfillApproval \<and> bo_ApprovedBy options \<noteq> [] \<and>
      snd (fst (Backfill env options st)) = None \<and> br_Applied (fst (fst (Backfill env options st)))) \<and>
    (br_DryRun (fst (fst (Backfill env options st))) \<longrightarrow> snd (Backfill env options st) = st)"
  using atomic_runs(1)
proof (cases rule: Backfill_cases [of "transaction env" env options st])
  case (unchanged r e)
  then show ?thesis by (simp add: Backfill_def)
next
  case (applied report w0 w balance st')
  then show ?thesis by (simp add: Backfill_def)
qed

section \<open>Witnesses\<close>

text \<open>A legacy database: 25 in cash, an open and a closed position that were never reconstructed. The wallet's float prints as 25.\<close>

definition opening_env :: ledger_env where
  "opening_env = sample_env\<lparr>env_FormatFloat := (\<lambda>_. acc_String (AccDecimal (Some (25 * acc_factor))))\<rparr>"

definition legacy_store :: store where
  "legacy_store = sample_store\<lparr>
     st_wallets := [sample_wallet\<lparr>w_BalanceExact := None\<rparr>], st_batches := [], st_events := [],
     st_positions := [zero_Position\<lparr>p_ID := 1, p_Symbol := ''BTC'', p_AccountID := ''primary'', p_Status := ''open''\<rparr>,
                      zero_Position\<lparr>p_ID := 2, p_Symbol := ''ETH'', p_AccountID := ''primary'', p_Status := ''closed''\<rparr>],
     st_states := [], st_next_position := 3\<rparr>"

definition approved_options :: BackfillOptions where
  "approved_options = \<lparr>bo_Apply = True, bo_Approval = BackfillApproval, bo_ApprovedBy = ''alice'', bo_AccountID = [],
     bo_PlanID = ''plan'', bo_ReportDigest = ''digest'', bo_ApprovalDigest = ''approval''\<rparr>"

lemma opening_up: "db_up opening_env"
  using sample_up by (simp add: db_up_def opening_env_def)

lemma opening_float: "acc_FromFloat opening_env v = Inr (AccDecimal (Some (25 * acc_factor)))"
  by (simp add: acc_FromFloat_def opening_env_def acc_Parse_String_aux acc_integer_def)

lemma legacy_sample: "legacy_database legacy_store"
  by (auto simp: legacy_database_def legacy_store_def sample_wallet_def DefaultAccountID_def sample_store_def orders_ok_def
      positions_ok_def position_ok_def unreconstructed_def zero_Position_def)

lemma legacy_awaits: "awaiting opening_env (AccDecimal (Some (25 * acc_factor))) legacy_store"
  using legacy_sample opening_float
  by (auto simp: awaiting_def claimed_def) (simp_all add: legacy_store_def acc_integer_def acc_factor_def)

lemma legacy_sample_runs:
  obtains r st where "Backfill opening_env approved_options legacy_store = ((r, None), st)" "br_Applied r"
proof (rule Backfill_up [OF opening_up legacy_awaits])
  show "approves approved_options" by (simp add: approves_def approved_options_def)
  show "body st = Inr ((), st') \<Longrightarrow> transaction opening_env body st = (Inr (), st')" for body st st'
    by (simp add: db_up_simps [OF opening_up])
qed (use that in \<open>simp add: Backfill_def\<close>)

theorem backfill_opens_exactly_witness:
  "\<exists>r st. Backfill opening_env approved_options legacy_store = ((r, None), st) \<and> ledger_inv st \<and>
     \<not> is_ready DefaultAccountID st \<and> (\<exists>e. st_events st = [e] \<and> acc_integer (e_CashDelta e) = 25 * acc_factor)"
proof -
  obtain r st where run: "Backfill opening_env approved_options legacy_store = ((r, None), st)" "br_Applied r"
    by (rule legacy_sample_runs)
  have "legacy_positions DefaultAccountID legacy_store \<noteq> []"
    by (simp add: legacy_positions_def legacy_store_def DefaultAccountID_def zero_Position_def)
  then show ?thesis
    using backfill_opens_exactly [OF legacy_sample run] run(1) by (auto simp: opening_float acc_integer_def)
qed

theorem opening_happens_once_witness:
  "\<exists>r st. Backfill opening_env approved_options legacy_store = ((r, None), st) \<and>
     snd (Backfill opening_env approved_options st) = st \<and> snd (SeedData opening_env 0 ''USDT'' st) = st"
proof -
  obtain r st where run: "Backfill opening_env approved_options legacy_store = ((r, None), st)" "br_Applied r"
    by (rule legacy_sample_runs)
  then show ?thesis
    using opening_happens_once [OF disjI2 rtranclp.rtrancl_refl] legacy_sample by blast
qed

theorem backfill_needs_approval_witness:
  "\<exists>st. snd (Backfill opening_env approved_options st) \<noteq> st \<and> bo_Approval approved_options = BackfillApproval"
proof -
  obtain r st where run: "Backfill opening_env approved_options legacy_store = ((r, None), st)" "br_Applied r"
    by (rule legacy_sample_runs)
  have "st_events legacy_store = []" by (simp add: legacy_store_def)
  moreover have "st_events st \<noteq> []" using backfill_opens_exactly [OF legacy_sample run] by auto
  ultimately have "snd (Backfill opening_env approved_options legacy_store) \<noteq> legacy_store" using run(1) by auto
  then show ?thesis using backfill_needs_approval [of opening_env approved_options legacy_store] by blast
qed

end
