(* ===== verification/Plan_Properties.thy ===== *)
theory Plan_Properties
  imports Plans Opening_Properties
begin

text \<open>
  The controlled backfill end to end: every plan moves from planned to approved to applied without its evidence changing,
  whatever else happens (\<open>desk_step\<close>), and the ledger of a legacy database is opened only under an approved, current plan.
\<close>

section \<open>Cases of the operations\<close>

lemma dk_transaction_cases:
  obtains e where "dk_transaction env body dk = (Inl e, dk)"
  | x dk' where "dk_transaction env body dk = (Inr x, dk')" "body dk = Inr (x, dk')"
proof (cases "body dk")
  case (Inr r)
  obtain x dk' where r: "r = (x, dk')" by (cases r)
  show thesis
  proof (cases "de_db env CommitCall dk'")
    case None
    then show thesis using that(2) [of x dk'] Inr r by (simp add: dk_transaction_def)
  next
    case (Some e)
    then show thesis using that(1) [of e] Inr r by (simp add: dk_transaction_def)
  qed
qed (use that(1) in \<open>simp add: dk_transaction_def\<close>)

lemma find_plan_Inr: "find_plan env planID dk = Inr p \<Longrightarrow> p \<in> set (dk_plans dk) \<and> bp_ID p = planID"
  using find_Some_iff [of "\<lambda>p. bp_ID p = planID" "dk_plans dk" p]
  by (auto simp: find_plan_def and_then_eq_Inr split: option.splits)

lemma Approve_cases:
  obtains (refused) e where "ApproveBackfill env planID digest human dk = (Inl e, dk)"
  | (approved) plan current where "human \<noteq> []" "plan \<in> set (dk_plans dk)" "bp_ID plan = planID" "bp_Status plan = ''planned''"
      "digest = bp_ReportDigest plan" "digest \<noteq> []" "current_report env (bp_AccountID plan) dk = Inr current"
      "digest_of env (report_json current) = bp_ReportDigest plan"
      "ApproveBackfill env planID digest human dk =
        (Inr (approved_plan env plan human), dk\<lparr>dk_plans := replace_row bp_ID (approved_plan env plan human) (dk_plans dk)\<rparr>)"
proof (cases "human = []")
  case True
  then show thesis using refused by (simp add: ApproveBackfill_def)
next
  case False
  consider e where "dk_transaction env (approve_body env planID digest human) dk = (Inl e, dk)"
    | x dk' where "dk_transaction env (approve_body env planID digest human) dk = (Inr x, dk')"
        "approve_body env planID digest human dk = Inr (x, dk')"
    by (rule dk_transaction_cases)
  then show thesis
  proof cases
    case 1
    then show thesis using refused False by (simp add: ApproveBackfill_def)
  next
    case 2
    from 2(2) obtain plan where p: "find_plan env planID dk = Inr plan" by (auto simp: approve_body_def and_then_eq_Inr)
    have st: "bp_Status plan = ''planned''" "digest \<noteq> []" "digest = bp_ReportDigest plan"
      using 2(2) p by (auto simp: approve_body_def split: if_splits)
    obtain current where c: "current_report env (bp_AccountID plan) dk = Inr current"
      using 2(2) p st by (auto simp: approve_body_def and_then_eq_Inr)
    have d: "digest_of env (report_json current) = bp_ReportDigest plan"
      using 2(2) p st c by (auto simp: approve_body_def split: if_splits)
    have x: "x = approved_plan env plan human"
      "dk' = dk\<lparr>dk_plans := replace_row bp_ID (approved_plan env plan human) (dk_plans dk)\<rparr>"
      using 2(2) p st c d by (auto simp: approve_body_def save_plan_def and_then_eq_Inr)
    show thesis
      using approved [OF False _ _ st(1,3,2) c d] find_plan_Inr [OF p] 2(1) x False
      by (simp add: ApproveBackfill_def)
  qed
qed

definition applied_at :: "time \<Rightarrow> string \<Rightarrow> BackfillPlan list \<Rightarrow> BackfillPlan list" where
  "applied_at t planID rows =
     map (\<lambda>p. if bp_ID p = planID then p\<lparr>bp_Status := ''applied'', bp_AppliedAt := Some t\<rparr> else p) rows"

lemma Apply_cases:
  obtains (refused) e where "ApplyBackfill env planID approval dk = (Inl e, dk)"
  | (replayed) plan where "ApplyBackfill env planID approval dk = (Inr plan, dk)" "plan \<in> set (dk_plans dk)"
      "bp_ID plan = planID" "bp_Status plan = ''applied''" "bp_ApprovalDigest plan = Some approval"
  | (ran) plan current r st p where "plan \<in> set (dk_plans dk)" "bp_ID plan = planID" "bp_Status plan = ''approved''"
      "bp_ApprovedBy plan \<noteq> None" "bp_ApprovalDigest plan = Some approval"
      "current_report env (bp_AccountID plan) dk = Inr current" "digest_of env (report_json current) = bp_ReportDigest plan"
      "Backfill_with nested (de_ledger env) (apply_options plan approval) (dk_store dk) = ((r, None), st)"
      "length (filter (\<lambda>p. bp_ID p = planID \<and> bp_Status p = ''approved'' \<and> bp_ApprovalDigest p = Some approval \<and>
              coupled env (dk_store dk) st p) (dk_plans dk)) = 1"
      "ApplyBackfill env planID approval dk =
        (Inr p, dk\<lparr>dk_store := st, dk_plans := applied_at (de_now env ''apply'') planID (dk_plans dk)\<rparr>)"
proof (cases "de_writer env")
  case False
  then show thesis using refused by (simp add: ApplyBackfill_def)
next
  case True
  consider e where "dk_transaction env (apply_plan_body env planID approval) dk = (Inl e, dk)"
    | x dk' where "dk_transaction env (apply_plan_body env planID approval) dk = (Inr x, dk')"
        "apply_plan_body env planID approval dk = Inr (x, dk')"
    by (rule dk_transaction_cases)
  then show thesis
  proof cases
    case 1
    then show thesis using refused True by (simp add: ApplyBackfill_def)
  next
    case 2
    have run: "ApplyBackfill env planID approval dk = (Inr x, dk')" using 2(1) True by (simp add: ApplyBackfill_def)
    from 2(2) obtain plan where p: "find_plan env planID dk = Inr plan"
      by (auto simp: apply_plan_body_def and_then_eq_Inr split: sum.splits)
    note plan = find_plan_Inr [OF p]
    show thesis
    proof (cases "bp_Status plan = ''applied''")
      case True
      then have "bp_ApprovalDigest plan = Some approval \<and> x = plan \<and> dk' = dk"
        using 2(2) p by (auto simp: apply_plan_body_def split: sum.splits if_splits)
      then show thesis using replayed run plan True by simp
    next
      case False
      have st: "bp_Status plan = ''approved''" "bp_ApprovedBy plan \<noteq> None" "bp_ApprovalDigest plan = Some approval"
        using 2(2) p False by (auto simp: apply_plan_body_def split: sum.splits if_splits)
      obtain current where c: "current_report env (bp_AccountID plan) dk = Inr current"
        using 2(2) p st by (auto simp: apply_plan_body_def and_then_eq_Inr split: sum.splits)
      have d: "digest_of env (report_json current) = bp_ReportDigest plan"
        using 2(2) p st c by (auto simp: apply_plan_body_def split: sum.splits if_splits)
      have "run_plan env plan approval dk = Inr (x, dk')"
        using 2(2) p st c d by (auto simp: apply_plan_body_def split: sum.splits)
      then obtain r st' where b: "Backfill_with nested (de_ledger env) (apply_options plan approval) (dk_store dk) = ((r, None), st')"
        and f: "finalize_plan env (dk_store dk) planID approval (de_now env ''apply'') (dk\<lparr>dk_store := st'\<rparr>) = Inr dk'"
        using plan by (auto simp: run_plan_def and_then_eq_Inr split: prod.splits option.splits)
      show thesis
        by (rule ran [OF _ _ st c d b]) (use plan f run in \<open>auto simp: finalize_plan_def and_then_eq_Inr applied_at_def split: if_splits\<close>)
    qed
  qed
qed

section \<open>The life of a plan\<close>

text \<open>How a plan may change: not at all, approved once, applied once; the evidence stays.\<close>

definition plan_evidence :: "BackfillPlan \<Rightarrow> string \<times> string \<times> string \<times> string \<times> string \<times> time" where
  "plan_evidence p = (bp_ID p, bp_AccountID p, bp_SchemaVersion p, bp_ReportJSON p, bp_ReportDigest p, bp_CreatedAt p)"

definition plan_ok :: "BackfillPlan \<Rightarrow> bool" where
  "plan_ok p \<longleftrightarrow>
     bp_Status p = ''planned'' \<and> bp_ApprovedBy p = None \<and> bp_ApprovalDigest p = None \<and> bp_AppliedAt p = None \<or>
     (bp_Status p = ''approved'' \<and> bp_AppliedAt p = None \<or> bp_Status p = ''applied'' \<and> bp_AppliedAt p \<noteq> None) \<and>
       (\<exists>human. bp_ApprovedBy p = Some human \<and> human \<noteq> []) \<and> bp_ApprovalDigest p \<noteq> None \<and> bp_ApprovedAt p \<noteq> None"

definition plan_rank :: "BackfillPlan \<Rightarrow> nat" where
  "plan_rank p = (if bp_Status p = ''planned'' then 0 else if bp_Status p = ''approved'' then 1 else 2)"

definition plan_moves :: "BackfillPlan \<Rightarrow> BackfillPlan \<Rightarrow> bool" where
  "plan_moves p q \<longleftrightarrow> plan_evidence q = plan_evidence p \<and> plan_rank p \<le> plan_rank q \<and>
     (plan_rank p = plan_rank q \<longrightarrow> q = p) \<and>
     (0 < plan_rank p \<longrightarrow> bp_ApprovedBy q = bp_ApprovedBy p \<and> bp_ApprovalDigest q = bp_ApprovalDigest p \<and>
        bp_ApprovedAt q = bp_ApprovedAt p)"

lemma plan_moves_refl [simp]: "plan_moves p p"
  by (simp add: plan_moves_def)

lemma plan_moves_trans: "plan_moves p q \<Longrightarrow> plan_moves q r \<Longrightarrow> plan_moves p r"
  by (auto simp: plan_moves_def)

definition desk_ok :: "desk \<Rightarrow> bool" where
  "desk_ok dk \<longleftrightarrow> distinct (map bp_ID (dk_plans dk)) \<and> (\<forall>p \<in> set (dk_plans dk). plan_ok p)"

inductive desk_step :: "desk \<Rightarrow> desk \<Rightarrow> bool" where
  plan_step: "desk_step dk (snd (PlanBackfill env account dk))"
| approve_step: "desk_step dk (snd (ApproveBackfill env planID digest human dk))"
| apply_step: "desk_step dk (snd (ApplyBackfill env planID approval dk))"
| ledger_step: "opening_step (dk_store dk) st \<Longrightarrow> desk_step dk (dk\<lparr>dk_store := st\<rparr>)"

text \<open>The rows keep their order; each moves, and new ones come at the end.\<close>

definition plans_move :: "desk \<Rightarrow> desk \<Rightarrow> bool" where
  "plans_move dk dk' \<longleftrightarrow> (desk_ok dk \<longrightarrow> desk_ok dk' \<and> (\<forall>p \<in> set (dk_plans dk). \<exists>q \<in> set (dk_plans dk'). plan_moves p q))"

lemma plans_move_map:
  assumes "dk_plans dk' = map f (dk_plans dk)"
    and "\<And>p. desk_ok dk \<Longrightarrow> p \<in> set (dk_plans dk) \<Longrightarrow> plan_ok (f p) \<and> plan_moves p (f p)"
  shows "plans_move dk dk'"
  unfolding plans_move_def
proof (intro impI conjI)
  assume ok: "desk_ok dk"
  have "map bp_ID (dk_plans dk') = map bp_ID (dk_plans dk)"
    using assms(2) [OF ok] by (auto simp: assms(1) plan_moves_def plan_evidence_def)
  moreover have "\<forall>p \<in> set (dk_plans dk'). plan_ok p" using assms(2) [OF ok] by (auto simp: assms(1))
  ultimately show "desk_ok dk'" using ok by (simp add: desk_ok_def)
  show "\<forall>p \<in> set (dk_plans dk). \<exists>q \<in> set (dk_plans dk'). plan_moves p q"
    using assms(2) [OF ok] by (auto simp: assms(1))
qed

lemma plans_move_refl: "dk_plans dk' = dk_plans dk \<Longrightarrow> plans_move dk dk'"
  unfolding plans_move_def desk_ok_def using plan_moves_refl by metis

lemma plans_move_new:
  assumes "bp_ID row \<notin> bp_ID ` set (dk_plans dk)" and "plan_ok row"
  shows "plans_move dk (dk\<lparr>dk_plans := dk_plans dk @ [row]\<rparr>)"
  using assms by (auto simp: plans_move_def desk_ok_def intro: plan_moves_refl)

lemma replace_row_map: "replace_row key row rows = map (\<lambda>r. if key r = key row then row else r) rows"
  by (simp add: replace_row_def)

lemma desk_step_moves: "desk_step dk dk' \<Longrightarrow> plans_move dk dk'"
proof (induction rule: desk_step.induct)
  case (plan_step dk env account)
  have "plan_ok (plan_row env account digest payload)" for digest payload
    by (simp add: plan_ok_def plan_row_def zero_BackfillPlan_def)
  then have "snd (PlanBackfill env account dk) = dk \<or>
    (\<exists>row. bp_ID row \<notin> bp_ID ` set (dk_plans dk) \<and> plan_ok row \<and>
       snd (PlanBackfill env account dk) = dk\<lparr>dk_plans := dk_plans dk @ [row]\<rparr>)"
    by (auto simp: PlanBackfill_def Let_def split: sum.split)
  then show ?case by (elim disjE exE conjE) (simp_all add: plans_move_refl plans_move_new)
next
  case (approve_step dk env planID digest human)
  show ?case
  proof (cases rule: Approve_cases [of env planID digest human dk])
    case (refused e)
    then show ?thesis by (simp add: plans_move_refl)
  next
    case (approved plan current)
    show ?thesis
    proof (rule plans_move_map)
      show "dk_plans (snd (ApproveBackfill env planID digest human dk)) =
        map (\<lambda>r. if bp_ID r = bp_ID (approved_plan env plan human) then approved_plan env plan human else r) (dk_plans dk)"
        by (simp add: approved(9) replace_row_map)
      fix p assume ok: "desk_ok dk" and p: "p \<in> set (dk_plans dk)"
      have same: "p = plan" if "bp_ID p = bp_ID plan"
        using ok p approved(2) that by (auto simp: desk_ok_def distinct_map dest: inj_onD)
      have "plan_ok plan" using ok approved(2) by (simp add: desk_ok_def)
      then have "plan_ok (approved_plan env plan human)" "plan_moves plan (approved_plan env plan human)"
        "bp_ID (approved_plan env plan human) = bp_ID plan"
        using approved(1,4) by (simp_all add: plan_ok_def plan_moves_def approved_plan_def Let_def plan_evidence_def plan_rank_def)
      then show "plan_ok (if bp_ID p = bp_ID (approved_plan env plan human) then approved_plan env plan human else p) \<and>
          plan_moves p (if bp_ID p = bp_ID (approved_plan env plan human) then approved_plan env plan human else p)"
        using same ok p by (auto simp: desk_ok_def)
    qed
  qed
next
  case (apply_step dk env planID approval)
  show ?case
  proof (cases rule: Apply_cases [of env planID approval dk])
    case (ran plan current r st q)
    show ?thesis
    proof (rule plans_move_map)
      show "dk_plans (snd (ApplyBackfill env planID approval dk)) =
        map (\<lambda>p. if bp_ID p = planID then p\<lparr>bp_Status := ''applied'', bp_AppliedAt := Some (de_now env ''apply'')\<rparr> else p) (dk_plans dk)"
        by (simp add: ran(10) applied_at_def)
      fix p assume ok: "desk_ok dk" and p: "p \<in> set (dk_plans dk)"
      have same: "p = plan" if "bp_ID p = planID"
        using ok p ran(1,2) that by (auto simp: desk_ok_def distinct_map dest: inj_onD)
      have "plan_ok plan" using ok ran(1) by (simp add: desk_ok_def)
      then have "plan_ok (plan\<lparr>bp_Status := ''applied'', bp_AppliedAt := Some (de_now env ''apply'')\<rparr>) \<and>
          plan_moves plan (plan\<lparr>bp_Status := ''applied'', bp_AppliedAt := Some (de_now env ''apply'')\<rparr>)"
        using ran(3) by (simp add: plan_ok_def plan_moves_def plan_evidence_def plan_rank_def)
      then show "plan_ok (if bp_ID p = planID then p\<lparr>bp_Status := ''applied'', bp_AppliedAt := Some (de_now env ''apply'')\<rparr> else p) \<and>
          plan_moves p (if bp_ID p = planID then p\<lparr>bp_Status := ''applied'', bp_AppliedAt := Some (de_now env ''apply'')\<rparr> else p)"
        using same ok p by (auto simp: desk_ok_def)
    qed
  qed (simp_all add: plans_move_refl)
next
  case (ledger_step dk st)
  show ?case by (rule plans_move_refl) simp
qed

lemma desk_steps_move: "rtranclp desk_step dk dk' \<Longrightarrow> plans_move dk dk'"
proof (induction rule: rtranclp_induct)
  case (step dk1 dk2)
  then show ?case using desk_step_moves [OF step(2)] unfolding plans_move_def by (meson plan_moves_trans)
qed (rule plans_move_refl, simp)

text \<open>C26: A backfill plan only moves forward, from planned to approved to applied, through every interleaving of planning, approving,
  applying, start-ups and ledger requests: its account, report and digests never change, the approver and the approval digest
  stay what the approval recorded, no plan disappears, and an approved or applied plan has a named approver.\<close>

theorem plan_life_cycle:
  assumes "rtranclp desk_step dk dk'" and "desk_ok dk"
  shows "(\<forall>p \<in> set (dk_plans dk). \<exists>q \<in> set (dk_plans dk'). plan_moves p q) \<and>
    (\<forall>q \<in> set (dk_plans dk'). bp_Status q \<noteq> ''planned'' \<longrightarrow>
       (\<exists>human. bp_ApprovedBy q = Some human \<and> human \<noteq> []) \<and> bp_ApprovalDigest q \<noteq> None)"
proof -
  have "desk_ok dk'" and moves: "\<forall>p \<in> set (dk_plans dk). \<exists>q \<in> set (dk_plans dk'). plan_moves p q"
    using desk_steps_move [OF assms(1)] assms(2) by (simp_all add: plans_move_def)
  then have "\<forall>q \<in> set (dk_plans dk'). bp_Status q \<noteq> ''planned'' \<longrightarrow>
       (\<exists>human. bp_ApprovedBy q = Some human \<and> human \<noteq> []) \<and> bp_ApprovalDigest q \<noteq> None"
    unfolding desk_ok_def plan_ok_def by blast
  with moves show ?thesis by blast
qed

section \<open>Applying a plan\<close>

text \<open>The ledger changes under a plan only when that plan was approved: the plan applied had the approval digest that was given and a
  named approver, a dry run on the very store that is changed still has the report digest that was approved, and the opening
  deposit that is written names the approver; the plan is applied in the same step.\<close>

theorem plan_opens_ledger:
  assumes "desk_ok dk" and "legacy_database (dk_store dk)" and "dk_store (snd (ApplyBackfill env planID approval dk)) \<noteq> dk_store dk"
  shows "\<exists>p human current. p \<in> set (dk_plans dk) \<and> bp_ID p = planID \<and> bp_Status p = ''approved'' \<and>
    bp_ApprovedBy p = Some human \<and> human \<noteq> [] \<and> bp_ApprovalDigest p = Some approval \<and>
    current_report env (bp_AccountID p) dk = Inr current \<and> digest_of env (report_json current) = bp_ReportDigest p \<and>
    (\<exists>e. st_events (dk_store (snd (ApplyBackfill env planID approval dk))) = [e] \<and> e_Actor e = human \<and>
       ledger_inv (dk_store (snd (ApplyBackfill env planID approval dk)))) \<and>
    (\<forall>q \<in> set (dk_plans (snd (ApplyBackfill env planID approval dk))). bp_ID q = planID \<longrightarrow> bp_Status q = ''applied'')"
proof (cases rule: Apply_cases [of env planID approval dk])
  case (ran p current r st q)
  have st: "dk_store (snd (ApplyBackfill env planID approval dk)) = st"
    "dk_plans (snd (ApplyBackfill env planID approval dk)) = applied_at (de_now env ''apply'') planID (dk_plans dk)"
    by (simp_all add: ran(10))
  have "plan_ok p" using assms(1) ran(1) by (simp add: desk_ok_def)
  then obtain human where human: "bp_ApprovedBy p = Some human" "human \<noteq> []" using ran(3) by (auto simp: plan_ok_def)
  have books: "\<exists>e. st_events st = [e] \<and> e_Actor e = human \<and> ledger_inv st"
    using atomic_runs(2)
  proof (cases rule: Backfill_cases [of nested "de_ledger env" "apply_options p approval" "dk_store dk"])
    case (unchanged r' e)
    then show ?thesis using ran(8) assms(3) st by simp
  next
    case (applied report w0 w balance st1)
    then have "st1 = st" using ran(8) by simp
    with legacy_opened [OF assms(2) locked_balance_Inr(1) [OF applied(5)] applied(6)] show ?thesis
      using human by (auto simp: opened_def apply_options_def)
  qed
  have marked: "\<forall>q \<in> set (applied_at (de_now env ''apply'') planID (dk_plans dk)). bp_ID q = planID \<longrightarrow> bp_Status q = ''applied''"
    unfolding applied_at_def set_map by (rule ballI, erule imageE) simp
  show ?thesis
    unfolding st
    by (rule exI [of _ p], rule exI [of _ human], rule exI [of _ current])
      (intro conjI ran(1-3) human ran(5-7) books marked)
qed (use assms(3) in simp_all)

lemma apply_store:
  "dk_store (snd (ApplyBackfill env i a dk)) = dk_store dk \<or>
   (\<exists>options. dk_store (snd (ApplyBackfill env i a dk)) = snd (Backfill_with nested (de_ledger env) options (dk_store dk)))"
proof (cases rule: Apply_cases [of env i a dk])
  case (ran p current r st q)
  then have "dk_store (snd (ApplyBackfill env i a dk)) = snd (Backfill_with nested (de_ledger env) (apply_options p a) (dk_store dk))"
    by simp
  then show ?thesis by blast
qed simp_all

text \<open>An approved plan is applied once: when applying it opened the ledger, then after any further steps applying any plan, with any
  digest, changes the ledger no more, and the ledger stays exact.\<close>

theorem plan_applied_once:
  assumes "legacy_database (dk_store dk)" and "dk_store (snd (ApplyBackfill env planID approval dk)) \<noteq> dk_store dk"
    and "rtranclp desk_step (snd (ApplyBackfill env planID approval dk)) dk'"
  shows "ledger_inv (dk_store dk') \<and> dk_store (snd (ApplyBackfill env' planID' approval' dk')) = dk_store dk'"
proof -
  have step: "opened (dk_store d')" if "desk_step d d'" "opened (dk_store d)" for d d'
    using that
  proof (induction rule: desk_step.induct)
    case (plan_step dk env account)
    then show ?case by (auto simp: PlanBackfill_def Let_def split: sum.split)
  next
    case (approve_step dk env planID digest human)
    then show ?case by (cases rule: Approve_cases [of env planID digest human dk]) simp_all
  next
    case (apply_step dk env planID approval)
    then show ?case using apply_store [of env planID approval dk] nested_backfill.not_again by metis
  next
    case (ledger_step dk st)
    then show ?case using opened_step by simp
  qed
  have "opened (dk_store (snd (ApplyBackfill env planID approval dk)))"
    using apply_store [of env planID approval dk] nested_backfill.opens_or_not [OF assms(1)] assms(2) by metis
  with assms(3) have op: "opened (dk_store dk')"
    by (induction rule: rtranclp_induct) (auto dest: step)
  then show ?thesis
    using apply_store [of env' planID' approval' dk'] nested_backfill.not_again [OF op] by (metis opened_def)
qed

section \<open>When a plan goes through\<close>

text \<open>The database reads back from the event's metadata what the backfill wrote into it.\<close>

definition metadata_reads_back :: "desk_env \<Rightarrow> BackfillPlan \<Rightarrow> string \<Rightarrow> bool" where
  "metadata_reads_back env p approval \<longleftrightarrow>
     (\<forall>report. let text = with_default (backfill_metadata (de_ledger env) (apply_options p approval) report) ''{}'' in
        de_json_field env text ''backfill_plan_id'' = Some (bp_ID p) \<and>
        de_json_field env text ''report_digest'' = Some (bp_ReportDigest p) \<and>
        de_json_field env text ''approval_digest'' = Some approval)"

definition desk_up :: "desk_env \<Rightarrow> bool" where
  "desk_up env \<longleftrightarrow> db_up (de_ledger env) \<and> de_writer env \<and> (\<forall>call dk. de_db env call dk = None)"

lemma desk_up_simps:
  assumes "desk_up env"
  shows "dk_exec env call dk = Inr ()" "de_writer env" "db_up (de_ledger env)"
    "dk_transaction env body dk = (case body dk of Inl e \<Rightarrow> (Inl e, dk) | Inr (x, dk') \<Rightarrow> (Inr x, dk'))"
  using assms by (simp_all add: desk_up_def dk_exec_def checked_def dk_transaction_def split: sum.split prod.split)

lemma find_plan_up:
  assumes "desk_up env" and "distinct (map bp_ID (dk_plans dk))" and "p \<in> set (dk_plans dk)"
  shows "find_plan env (bp_ID p) dk = Inr p"
proof -
  have "find (\<lambda>q. bp_ID q = bp_ID p) rows = Some p" if "distinct (map bp_ID rows)" "p \<in> set rows" for rows
    using that by (induction rows) (auto simp: image_iff)
  then show ?thesis using assms by (simp add: find_plan_def desk_up_simps)
qed

lemma upserted_row: "\<exists>x \<in> set (upserted m rows). ms_AccountID x = ms_AccountID m \<and> ms_OpeningEventID x = ms_OpeningEventID m"
proof (cases "ms_AccountID m \<in> ms_AccountID ` set rows")
  case True
  define f where "f = (\<lambda>x :: LedgerMigrationState. if ms_AccountID x = ms_AccountID m
     then x\<lparr>ms_Status := ms_Status m, ms_OpeningEventID := ms_OpeningEventID m,
            ms_UnresolvedJSON := ms_UnresolvedJSON m, ms_ApprovedBy := ms_ApprovedBy m,
            ms_ApprovedAt := ms_ApprovedAt m, ms_UpdatedAt := ms_UpdatedAt m\<rparr> else x)"
  obtain y where y: "y \<in> set rows" "ms_AccountID y = ms_AccountID m" using True by auto
  have "upserted m rows = map f rows" using True by (simp only: upserted_def f_def if_True)
  then have "f y \<in> set (upserted m rows)" using y(1) by simp
  then show ?thesis by (rule rev_bexI) (simp add: f_def y(2))
qed (simp add: upserted_def)

lemma open_account_coupled:
  assumes oa: "open_account (de_ledger env) (apply_options p approval) DefaultAccountID report now w d st = Inr st'"
    and aw: "awaiting (de_ledger env) d st" and md: "metadata_reads_back env p approval"
    and p: "bp_AccountID p = DefaultAccountID" "bp_ApprovedBy p = Some human" "bp_ApprovalDigest p = Some approval"
  shows "coupled env st st' p"
proof -
  obtain row e m b where b: "b_AccountID b = DefaultAccountID" "e_LedgerBatchID e = b_ID b" "ms_OpeningEventID m = Some (e_ID e)"
    "b_ID b = legacy_batch" "\<not> claimed legacy_batch st" and e: "opens DefaultAccountID d e"
    "e_Actor e = bo_ApprovedBy (apply_options p approval)"
    "e_MetadataJSON e = with_default (backfill_metadata (de_ledger env) (apply_options p approval) report) ''{}''"
    and m: "ms_AccountID m = DefaultAccountID"
    and st': "st' = st\<lparr>st_wallets := replace_row w_ID row (st_wallets st), st_positions := map (zeroed DefaultAccountID) (st_positions st),
       st_batches := st_batches st @ [b], st_events := st_events st @ [e], st_states := upserted m (st_states st)\<rparr>"
    by (rule open_account_Inr [OF oa]) (auto simp: legacy_batch_def)
  obtain x where x: "x \<in> set (upserted m (st_states st))" "ms_AccountID x = DefaultAccountID" "ms_OpeningEventID x = Some (e_ID e)"
    using upserted_row [of m "st_states st"] m b(3) by auto
  have "x \<notin> set (st_states st)" using aw x(2,3) by (auto simp: awaiting_def)
  moreover have "b \<notin> set (st_batches st)" using b(4,5) unfolding claimed_def by (metis imageI)
  moreover have "st_events st = []" using aw by (simp add: awaiting_def legacy_database_def)
  moreover have "e_EventType e = ''capital_deposit''" "e_AccountID e = DefaultAccountID"
    using e(1) by (simp_all add: opens_def EventCapitalDeposit_def)
  ultimately show ?thesis
    using x b e md p m
    by (auto simp: coupled_def st' list_ex_iff metadata_reads_back_def Let_def apply_options_def intro!: bexI [of _ x])
qed

lemma apply_plan_up:
  assumes "desk_up env" and "desk_ok dk" and "awaiting (de_ledger env) d (dk_store dk)" and "metadata_reads_back env p approval"
    and p: "p \<in> set (dk_plans dk)" "bp_Status p = ''approved''" "bp_AccountID p = DefaultAccountID" "bp_ApprovalDigest p = Some approval"
    and current: "current_report env DefaultAccountID dk = Inr current" "digest_of env (report_json current) = bp_ReportDigest p"
  shows "\<exists>q dk'. ApplyBackfill env (bp_ID p) approval dk = (Inr q, dk') \<and> bp_ID q = bp_ID p \<and> bp_Status q = ''applied'' \<and>
    opened (dk_store dk')"
proof -
  note up = desk_up_simps [OF assms(1)]
  have distinct: "distinct (map bp_ID (dk_plans dk))" using assms(2) by (simp add: desk_ok_def)
  have "plan_ok p" using assms(2) p(1) by (simp add: desk_ok_def)
  then obtain human where human: "bp_ApprovedBy p = Some human" "human \<noteq> []" using p(2) by (auto simp: plan_ok_def)
  have "approves (apply_options p approval)" using human p(3) by (simp add: approves_def apply_options_def)
  then obtain report w st r where w: "w \<in> set (st_wallets (dk_store dk))" and oa: "open_account (de_ledger env) (apply_options p approval) DefaultAccountID report
      (env_now (de_ledger env) ''now'' DefaultAccountID) w d (dk_store dk) = Inr st"
    and run: "Backfill_with nested (de_ledger env) (apply_options p approval) (dk_store dk) = ((r, None), st)" "br_Applied r"
    by (rule Backfill_up [OF up(3) assms(3), where run = nested]) (simp add: nested_def)
  have "coupled env (dk_store dk) st p" by (rule open_account_coupled [OF oa assms(3,4) p(3) human(1) p(4)])
  then have "filter (\<lambda>q. bp_ID q = bp_ID p \<and> bp_Status q = ''approved'' \<and> bp_ApprovalDigest q = Some approval \<and>
      coupled env (dk_store dk) st q) rows = [p]" if "distinct (map bp_ID rows)" "p \<in> set rows" for rows
    using that p(2,4) by (induction rows) (auto simp: filter_empty_conv image_iff)
  then have one: "filter (\<lambda>q. bp_ID q = bp_ID p \<and> bp_Status q = ''approved'' \<and> bp_ApprovalDigest q = Some approval \<and>
      coupled env (dk_store dk) st q) (dk_plans dk) = [p]"
    using distinct p(1) by blast
  define dk' where "dk' = dk\<lparr>dk_store := st, dk_plans := applied_at (de_now env ''apply'') (bp_ID p) (dk_plans dk)\<rparr>"
  define q where "q = p\<lparr>bp_Status := ''applied'', bp_AppliedAt := Some (de_now env ''apply'')\<rparr>"
  have fin: "finalize_plan env (dk_store dk) (bp_ID p) approval (de_now env ''apply'') (dk\<lparr>dk_store := st\<rparr>) = Inr dk'"
    by (simp add: finalize_plan_def up one dk'_def applied_at_def)
  have "bp_ID \<circ> (\<lambda>x :: BackfillPlan. if bp_ID x = bp_ID p then x\<lparr>bp_Status := ''applied'', bp_AppliedAt := Some t\<rparr> else x) = bp_ID" for t
    by (rule ext) simp
  then have "distinct (map bp_ID (dk_plans dk'))" using distinct by (simp add: dk'_def applied_at_def)
  moreover have "q \<in> set (dk_plans dk')" using p(1) by (auto simp: dk'_def applied_at_def q_def image_iff intro!: bexI [of _ p])
  ultimately have "find_plan env (bp_ID q) dk' = Inr q" by (rule find_plan_up [OF assms(1)])
  then have found: "find_plan env (bp_ID p) dk' = Inr q" by (simp add: q_def)
  have plan: "run_plan env p approval dk = Inr (q, dk')" by (simp add: run_plan_def run fin found)
  have "apply_plan_body env (bp_ID p) approval dk = Inr (q, dk')"
    using p(2-4) human(1)
    by (simp add: apply_plan_body_def up find_plan_up [OF assms(1) distinct p(1)] current plan)
  then have "ApplyBackfill env (bp_ID p) approval dk = (Inr q, dk')" by (simp add: ApplyBackfill_def up)
  moreover have "opened st" by (rule legacy_opened(1) [OF _ w oa]) (use assms(3) in \<open>simp add: awaiting_def\<close>)
  ultimately show ?thesis by (auto simp: q_def dk'_def)
qed


section \<open>Witnesses\<close>

text \<open>The legacy database with a plan of its own dry run, approved by alice; every digest is the fixed text the sample codec gives.\<close>

definition sample_desk_env :: desk_env where
  "sample_desk_env = \<lparr>de_ledger = opening_env, de_writer = True, de_db = (\<lambda>_ _. None), de_now = (\<lambda>_. 7),
     de_time_text = (\<lambda>_. ''t''), de_json_field = (\<lambda>_ field. Some (if field = ''backfill_plan_id'' then ''plan'' else ''{}''))\<rparr>"

definition sample_plan :: BackfillPlan where
  "sample_plan = zero_BackfillPlan\<lparr>bp_ID := ''plan'', bp_AccountID := ''primary'', bp_ReportDigest := ''{}'', bp_Status := ''approved'',
     bp_ApprovedAt := Some 6, bp_ApprovedBy := Some ''alice'', bp_ApprovalDigest := Some ''{}''\<rparr>"

definition sample_desk :: desk where
  "sample_desk = \<lparr>dk_store = legacy_store, dk_plans = [sample_plan]\<rparr>"

lemma sample_desk_ok: "desk_ok sample_desk" "legacy_database (dk_store sample_desk)"
  using legacy_sample by (simp_all add: desk_ok_def sample_desk_def plan_ok_def sample_plan_def zero_BackfillPlan_def)

lemma sample_desk_up: "desk_up sample_desk_env"
  using opening_up by (simp add: desk_up_def sample_desk_env_def)

lemma sample_report: obtains current where "current_report sample_desk_env DefaultAccountID sample_desk = Inr current"
proof -
  have account: "requirePrimaryAccount DefaultAccountID = None" "with_default DefaultAccountID DefaultAccountID = DefaultAccountID"
    by (simp_all add: requirePrimaryAccount_def DefaultAccountID_def with_default_def)
  obtain report w where "\<And>b. survey opening_env b DefaultAccountID legacy_store = Inr (report\<lparr>br_DryRun := \<not> b\<rparr>, w)"
    by (rule survey_up [OF opening_up legacy_awaits]) blast
  then show thesis
    using that
    by (simp add: current_report_def Backfill_def Backfill_with_def dry_run_def account sample_desk_env_def sample_desk_def)
qed

lemma sample_digest: "digest_of sample_desk_env v = ''{}''"
  by (simp add: digest_of_def op_hash_def marshal_def hex_sha256_def sample_desk_env_def opening_env_def sample_env_def
      ledger_codec_def)

lemma sample_plan_facts:
  "metadata_reads_back sample_desk_env sample_plan ''{}''" "sample_plan \<in> set (dk_plans sample_desk)"
  "bp_Status sample_plan = ''approved''" "bp_AccountID sample_plan = DefaultAccountID" "bp_ApprovalDigest sample_plan = Some ''{}''"
  "awaiting (de_ledger sample_desk_env) (AccDecimal (Some (25 * acc_factor))) (dk_store sample_desk)"
  "bp_ID sample_plan = ''plan''"
  using legacy_awaits
  by (simp_all add: metadata_reads_back_def sample_desk_env_def sample_plan_def sample_desk_def DefaultAccountID_def
      zero_BackfillPlan_def)

lemma sample_plan_runs:
  obtains q dk where "ApplyBackfill sample_desk_env ''plan'' ''{}'' sample_desk = (Inr q, dk)"
    "dk_store (snd (ApplyBackfill sample_desk_env ''plan'' ''{}'' sample_desk)) \<noteq> dk_store sample_desk"
proof -
  obtain current where c: "current_report sample_desk_env DefaultAccountID sample_desk = Inr current" by (rule sample_report)
  have d: "digest_of sample_desk_env (report_json current) = bp_ReportDigest sample_plan"
    by (simp add: sample_digest sample_plan_def)
  obtain q dk where run: "ApplyBackfill sample_desk_env ''plan'' ''{}'' sample_desk = (Inr q, dk)" "opened (dk_store dk)"
    using apply_plan_up [OF sample_desk_up sample_desk_ok(1) sample_plan_facts(6,1-5) c d] sample_plan_facts(7) by auto
  have "\<not> opened legacy_store" by (simp add: opened_def legacy_store_def)
  then have "dk_store dk \<noteq> dk_store sample_desk" using run(2) by (auto simp: sample_desk_def)
  then show thesis using that [OF run(1)] run(1) by simp
qed


theorem plan_opens_ledger_witness:
  "\<exists>e. st_events (dk_store (snd (ApplyBackfill sample_desk_env ''plan'' ''{}'' sample_desk))) = [e] \<and> e_Actor e = ''alice''"
proof -
  obtain q dk where "dk_store (snd (ApplyBackfill sample_desk_env ''plan'' ''{}'' sample_desk)) \<noteq> dk_store sample_desk"
    by (rule sample_plan_runs)
  from plan_opens_ledger [OF sample_desk_ok this] show ?thesis by (auto simp: sample_desk_def sample_plan_def)
qed

theorem plan_life_cycle_witness:
  "\<exists>dk q. rtranclp desk_step sample_desk dk \<and> q \<in> set (dk_plans dk) \<and> plan_moves sample_plan q \<and>
     dk_store dk \<noteq> dk_store sample_desk"
proof -
  obtain q dk where run: "ApplyBackfill sample_desk_env ''plan'' ''{}'' sample_desk = (Inr q, dk)"
    "dk_store (snd (ApplyBackfill sample_desk_env ''plan'' ''{}'' sample_desk)) \<noteq> dk_store sample_desk"
    by (rule sample_plan_runs)
  have reach: "rtranclp desk_step sample_desk dk"
    using apply_step [of sample_desk sample_desk_env "''plan''" "''{}''"] run(1) by auto
  then show ?thesis using plan_life_cycle [OF reach sample_desk_ok(1)] sample_plan_facts(2) run by fastforce
qed

theorem plan_applied_once_witness:
  "\<exists>dk. dk_store dk \<noteq> dk_store sample_desk \<and> ledger_inv (dk_store dk) \<and>
     dk_store (snd (ApplyBackfill sample_desk_env ''plan'' ''{}'' dk)) = dk_store dk"
proof -
  obtain q dk where run: "dk_store (snd (ApplyBackfill sample_desk_env ''plan'' ''{}'' sample_desk)) \<noteq> dk_store sample_desk"
    by (rule sample_plan_runs)
  show ?thesis
    using plan_applied_once [OF sample_desk_ok(2) run rtranclp.rtrancl_refl] run by blast
qed

end
