(* ===== verification/Floats.thy ===== *)
theory Floats
  imports Store
begin

text \<open>
  Comparing binary64 values. A \<^verbatim>\<open>float64\<close> is its bit pattern; the sources compare such values, test them for NaN and
  infinity and replace a negative zero, which the pattern decides: without its sign bit a pattern is the magnitude, so
  \<open>fl_key\<close> orders all values that are not NaN, with both zeros equal. No arithmetic on floats is modelled.
\<close>

definition fl_abs :: "float64 \<Rightarrow> float64" where
  "fl_abs v = and v 0x7FFFFFFFFFFFFFFF"

definition fl_IsNaN :: "float64 \<Rightarrow> bool" where
  "fl_IsNaN v \<longleftrightarrow> 0x7FF0000000000000 < fl_abs v"

definition fl_IsInf :: "float64 \<Rightarrow> bool" where
  "fl_IsInf v \<longleftrightarrow> fl_abs v = 0x7FF0000000000000"

definition finite_float :: "float64 \<Rightarrow> bool" where
  "finite_float v \<longleftrightarrow> \<not> fl_IsNaN v \<and> \<not> fl_IsInf v"

definition fl_key :: "float64 \<Rightarrow> int" where
  "fl_key v = (if v < 0x8000000000000000 then uint v else - uint (fl_abs v))"

definition fl_less :: "float64 \<Rightarrow> float64 \<Rightarrow> bool" where
  "fl_less a b \<longleftrightarrow> \<not> fl_IsNaN a \<and> \<not> fl_IsNaN b \<and> fl_key a < fl_key b"

definition fl_le :: "float64 \<Rightarrow> float64 \<Rightarrow> bool" where
  "fl_le a b \<longleftrightarrow> \<not> fl_IsNaN a \<and> \<not> fl_IsNaN b \<and> fl_key a \<le> fl_key b"

definition fl_eq :: "float64 \<Rightarrow> float64 \<Rightarrow> bool" where
  "fl_eq a b \<longleftrightarrow> \<not> fl_IsNaN a \<and> \<not> fl_IsNaN b \<and> fl_key a = fl_key b"

text \<open>Both packages have the comparison a threshold names.\<close>

definition compare_float :: "float64 \<Rightarrow> string \<Rightarrow> float64 \<Rightarrow> bool" where
  "compare_float v cmp t =
     (if cmp = ''>'' then fl_less t v
      else if cmp = ''>='' then fl_le t v
      else if cmp = ''<'' then fl_less v t
      else if cmp = ''<='' then fl_le v t
      else False)"

text \<open>Writing the constant zero over a value that equals it: a negative zero becomes zero.\<close>

definition plain_zero :: "float64 \<Rightarrow> float64" where
  "plain_zero v = (if fl_eq v 0 then 0 else v)"

definition float_1 :: float64 where
  "float_1 = 0x3FF0000000000000"

lemma fl_key_0 [simp]: "fl_key 0 = 0"
  by (simp add: fl_key_def)

lemma fl_not_nan_0 [simp]: "\<not> fl_IsNaN 0"
  by (simp add: fl_IsNaN_def fl_abs_def)

lemma fl_eq_zero: "fl_eq v 0 \<longleftrightarrow> v = 0 \<or> v = 0x8000000000000000"
proof
  assume e: "fl_eq v 0"
  show "v = 0 \<or> v = 0x8000000000000000"
  proof (cases "v < 0x8000000000000000")
    case True
    then show ?thesis using e by (simp add: fl_eq_def fl_key_def unsigned_eq_0_iff)
  next
    case False
    have abs: "fl_abs v = take_bit 63 v" by (simp add: fl_abs_def take_bit_eq_mask mask_eq_decr_exp)
    have "fl_abs v = 0" using e False by (simp add: fl_eq_def fl_key_def unsigned_eq_0_iff)
    then have "uint v mod 2 ^ 63 = 0" unfolding abs by (metis take_bit_eq_mod unsigned_0 unsigned_take_bit_eq)
    then obtain k where "uint v = 2 ^ 63 * k" by (auto simp: mod_eq_0_iff_dvd)
    moreover have "2 ^ 63 \<le> uint v" using False by (simp add: word_less_def)
    moreover have "uint v < 2 ^ 64" using uint_lt2p [of v] by simp
    ultimately have "uint v = 2 ^ 63" by simp
    then have "uint v = uint (0x8000000000000000 :: float64)" by simp
    then show ?thesis using word_uint_eqI by blast
  qed
qed (auto simp: fl_eq_def fl_key_def fl_IsNaN_def fl_abs_def)

lemma plain_zero_idem [simp]: "plain_zero (plain_zero v) = plain_zero v"
  by (simp add: plain_zero_def fl_eq_zero)

lemma plain_zero_key [simp]: "fl_key (plain_zero v) = fl_key v" "fl_IsNaN (plain_zero v) = fl_IsNaN v"
  by (auto simp: plain_zero_def fl_eq_zero fl_key_def fl_IsNaN_def fl_abs_def)

end
