(* ===== verification/Experiments.thy ===== *)
theory Experiments
  imports Floats
begin

text \<open>
  The immutable definition of a validation experiment: the types of \<^verbatim>\<open>validation/types.go\<close>, the authority policy of
  \<^verbatim>\<open>policy.go\<close> and the canonical manifest of \<^verbatim>\<open>manifest.go\<close>. A manifest is identified by the digest of its canonical
  content; \<open>CanonicalManifestSpec\<close> validates a specification and brings it into that form, \<open>NewManifest\<close> seals it and
  \<open>manifest_Verify\<close> checks a stored one. A map is an association list in the order Go would range over it, where that
  order can be seen at all. JSON text, SHA-256, \<^verbatim>\<open>strconv\<close>, the text of a float and of a time are functions of \<open>study_env\<close>.
\<close>

section \<open>Types\<close>

record Interval =
  iv_Start :: time
  iv_End :: time

record Fold =
  fo_Index :: int
  fo_Train :: Interval
  fo_Validation :: Interval
  fo_Test :: Interval

record VersionRef =
  vr_ID :: string
  vr_Version :: string
  vr_ImplementationDigest :: string
  vr_ConfigDigest :: string

record PolicyBundle =
  pb_Composite :: string
  pb_Execution :: string
  pb_Universe :: string
  pb_ModelSelection :: string
  pb_EntrySelection :: string
  pb_PortfolioRisk :: string
  pb_Rollout :: string
  pb_Cost :: string

record SampleRequirements =
  sq_MinFolds :: int
  sq_MinIndependentUnits :: int
  sq_MinObservationsPerFold :: int
  sq_MinTradesPerFold :: int
  sq_MinRegimes :: int

record Threshold =
  th_Metric :: string
  th_Op :: string
  th_Value :: float64

record ArtifactLinks =
  al_Metrics :: string
  al_Trades :: string
  al_Curves :: string
  al_Cohorts :: string
  al_Factors :: string
  al_Coverage :: string
  al_Comparison :: string

record ReproductionInvocation =
  ri_Command :: string
  ri_Args :: "string list"
  ri_Env :: "(string, string) gomap"

record ConfirmatoryHoldoutContract =
  ch_ID :: string
  ch_DatasetDigest :: string
  ch_Interval :: Interval

record CapacityStressPolicy =
  kp_MaxParticipation :: float64
  kp_ImpactBpsAtMax :: float64
  kp_StressMultiplier :: float64

record BaselineComparabilityPolicy =
  bc_MaxGrossExposureDifference :: float64
  bc_MaxTurnoverRelativeDiff :: float64

record AuthorityPolicyEnvelope =
  ap_SchemaVersion :: string
  ap_Payload :: "(string, string) gomap"
  ap_Digest :: string

record ResearchOverride =
  ro_Mode :: string
  ro_BoundedTo :: Interval
  ro_Reason :: string

record FeatureField =
  ff_Name :: string
  ff_Type :: string

record ModelAuthority =
  mo_Version :: string
  mo_Class :: string
  mo_ModelDigest :: string
  mo_FeatureSpec :: string
  mo_Features :: "FeatureField list"
  mo_LabelSpec :: string
  mo_LabelHorizon :: duration
  mo_CodeRevision :: string
  mo_DatasetManifest :: string
  mo_TrainingManifest :: string
  mo_PolicyVersion :: string
  mo_Seed :: int

record MLRequirements =
  mr_MinLabels :: int
  mr_MinIndependentWindows :: int
  mr_Buckets :: int
  mr_MinBucketSupport :: int
  mr_ClipEpsilon :: float64
  mr_MinAUC :: float64
  mr_MaxLogLoss :: float64
  mr_MaxBrier :: float64
  mr_MaxCalibrationError :: float64

record ManifestSpec =
  sp_SchemaVersion :: string
  sp_StudyType :: string
  sp_Exploratory :: bool
  sp_FamilyID :: string
  sp_ConfirmatoryHoldout :: "ConfirmatoryHoldoutContract option"
  sp_CodeRevision :: string
  sp_Candidate :: VersionRef
  sp_Baseline :: VersionRef
  sp_Model :: "ModelAuthority option"
  sp_MLRequirements :: "MLRequirements option"
  sp_Policies :: PolicyBundle
  sp_GovernancePolicy :: string
  sp_AuthorityPolicy :: AuthorityPolicyEnvelope
  sp_DatasetManifestID :: string
  sp_DatasetManifestHash :: string
  sp_DatasetDigest :: string
  sp_UniversePolicy :: string
  sp_Interval :: Interval
  sp_DecisionClock :: string
  sp_ExecutionClock :: string
  sp_Seed :: int
  sp_ExecutionSemantics :: "(string, string) gomap"
  sp_CapacityStress :: CapacityStressPolicy
  sp_BaselineComparability :: "BaselineComparabilityPolicy option"
  sp_Folds :: "Fold list"
  sp_FoldSourceJobIDs :: "uint list"
  sp_FeatureHorizon :: duration
  sp_LabelHorizon :: duration
  sp_Purge :: duration
  sp_Embargo :: duration
  sp_AllowedTuning :: "(string, string list) gomap"
  sp_Metrics :: "string list"
  sp_StatisticalUnit :: string
  sp_BootstrapIterations :: int
  sp_Samples :: SampleRequirements
  sp_PromotionThresholds :: "Threshold list"
  sp_RollbackThresholds :: "Threshold list"
  sp_RequiredElapsed :: "(string, duration) gomap"
  sp_Artifacts :: ArtifactLinks
  sp_Reproduce :: ReproductionInvocation
  sp_ResearchOverride :: "ResearchOverride option"

record ExperimentManifest =
  em_ID :: string
  em_ContentID :: string
  em_ContentDigest :: string
  em_CreatedAt :: time
  em_Spec :: ManifestSpec

text \<open>A \<^verbatim>\<open>DiagnosticError\<close> with its code, field and details, or an error of the database or of another package.\<close>

datatype study_error =
    DiagnosticError string string string
  | StudyError ledger_error

type_synonym 'a sresult = "study_error + 'a"

record study_env =
  se_codec :: codec
  se_ParseFloat :: "string \<Rightarrow> float64 option"
  se_FormatG :: "float64 \<Rightarrow> string"
  se_RFC3339Nano :: "time \<Rightarrow> string"
  se_MarshalSpec :: "ManifestSpec \<Rightarrow> string result"

definition digest :: "study_env \<Rightarrow> string \<Rightarrow> string" where
  "digest env payload = cd_sha256hex (se_codec env) payload"

text \<open>\<^verbatim>\<open>encoded, _ := json.Marshal(v)\<close>: the text, empty on an error.\<close>

definition encoded :: "study_env \<Rightarrow> json \<Rightarrow> string" where
  "encoded env v = the_ok '''' (cd_Marshal (se_codec env) v)"

fun first_failure :: "'e option list \<Rightarrow> 'e option" where
  "first_failure [] = None"
| "first_failure (Some e # cs) = Some e"
| "first_failure (None # cs) = first_failure cs"

lemma first_failure_None [simp]: "first_failure cs = None \<longleftrightarrow> set cs \<subseteq> {None}"
  by (induction cs rule: first_failure.induct) auto

definition failure :: "bool \<Rightarrow> 'e \<Rightarrow> 'e option" where
  "failure bad e = (if bad then Some e else None)"

lemma failure_None [simp]: "failure bad e = None \<longleftrightarrow> \<not> bad"
  by (simp add: failure_def)

definition iv_Valid :: "Interval \<Rightarrow> bool" where
  "iv_Valid v \<longleftrightarrow> iv_Start v \<noteq> 0 \<and> iv_Start v < iv_End v"

definition CanHoldAuthority :: "ModelAuthority \<Rightarrow> bool" where
  "CanHoldAuthority m \<longleftrightarrow> mo_Class m = ''promotable_candidate''"

section \<open>The authority policy\<close>

definition AuthorityPolicySchemaVersion :: string where
  "AuthorityPolicySchemaVersion = ''authority-policy-envelope-v1''"

definition canonicalPolicyScalar :: "study_env \<Rightarrow> string \<Rightarrow> string" where
  "canonicalPolicyScalar env v =
     (case se_ParseFloat env v of
        Some parsed \<Rightarrow>
          if finite_float parsed then if fl_eq parsed 0 then ''0'' else se_FormatG env parsed
          else if to_lower v = ''true'' then ''true'' else if to_lower v = ''false'' then ''false'' else v
      | None \<Rightarrow> if to_lower v = ''true'' then ''true'' else if to_lower v = ''false'' then ''false'' else v)"

fun normalized_payload ::
  "study_env \<Rightarrow> (string, string) gomap \<Rightarrow> (string, string) gomap \<Rightarrow> (string, string) gomap sresult" where
  "normalized_payload env [] normalized = Inr normalized"
| "normalized_payload env ((k, v) # rest) normalized =
     (let key = trim_space k; v' = trim_space v in
      if key = '''' \<or> v' = ''''
      then Inl (DiagnosticError ''invalid_manifest'' ''authority_policy'' ''empty policy key/value'')
      else normalized_payload env rest (AList.update key (canonicalPolicyScalar env v') normalized))"

definition policy_digest :: "study_env \<Rightarrow> (string, string) gomap \<Rightarrow> string" where
  "policy_digest env payload =
     digest env (encoded env (JObject [(''schema_version'', JString AuthorityPolicySchemaVersion),
       (''payload'', json_map (map (\<lambda>(k, v). (k, JString v)) payload))]))"

definition NewAuthorityPolicyEnvelope :: "study_env \<Rightarrow> (string, string) gomap \<Rightarrow> AuthorityPolicyEnvelope sresult" where
  "NewAuthorityPolicyEnvelope env payload =
     (if payload = [] \<or> 256 < length payload
      then Inl (DiagnosticError ''invalid_manifest'' ''authority_policy'' ''complete bounded policy payload is required'')
      else and_then (normalized_payload env payload []) (\<lambda>normalized.
        Inr \<lparr>ap_SchemaVersion = AuthorityPolicySchemaVersion, ap_Payload = normalized,
             ap_Digest = policy_digest env normalized\<rparr>))"

definition policy_Verify :: "study_env \<Rightarrow> AuthorityPolicyEnvelope \<Rightarrow> study_error option" where
  "policy_Verify env e =
     (case NewAuthorityPolicyEnvelope env (ap_Payload e) of
        Inl err \<Rightarrow> Some err
      | Inr expected \<Rightarrow>
          failure (ap_SchemaVersion e \<noteq> ap_SchemaVersion expected \<or> ap_Digest e \<noteq> ap_Digest expected)
            (DiagnosticError ''manifest_integrity_failure'' ''authority_policy'' ''policy envelope digest mismatch''))"

definition WithRolloutState :: "study_env \<Rightarrow> AuthorityPolicyEnvelope \<Rightarrow> string \<Rightarrow> AuthorityPolicyEnvelope sresult" where
  "WithRolloutState env e state =
     NewAuthorityPolicyEnvelope env (AList.update ''rollout_state'' (trim_space state) (ap_Payload e))"

text \<open>\<^verbatim>\<open>sortedUnique\<close>: the values in order, unless one is blank or comes twice.\<close>

definition sortedUnique :: "string list \<Rightarrow> string list option" where
  "sortedUnique vals =
     (let result = sort vals in
      if list_ex (\<lambda>v. trim_space v = '''') result \<or> \<not> distinct_adj result then None else Some result)"

end
