(* ===== verification/Manifests.thy ===== *)
theory Manifests
  imports Experiments
begin

text \<open>
  \<^verbatim>\<open>validation/manifest.go\<close> and the requirements of \<^verbatim>\<open>ml.go\<close>: a specification is checked and normalised field by field, in
  the order of the code: schema, identities, policies and labels; family, holdout and design; metrics, gates and folds;
  model and override; sorted collections; canonical text. The stages are the definitions below.
\<close>

section \<open>Parts\<close>

definition ManifestSchemaVersion :: string where
  "ManifestSchemaVersion = ''validation-experiment-manifest-v2''"

definition GovernancePolicyVersion :: string where
  "GovernancePolicyVersion = ''stage07-governance-policy-v1''"

definition MaxFolds :: int where "MaxFolds = 64"

definition MaxBootstrapIterations :: int where "MaxBootstrapIterations = 10000"

definition MaxManifestBytes :: nat where "MaxManifestBytes = 1048576"

definition RequiredConfirmatoryMetrics :: "string list" where
  "RequiredConfirmatoryMetrics =
     [''after_cost_expectancy'', ''after_cost_return'', ''benchmark_relative_return'', ''coverage'', ''gross_exposure'',
      ''max_drawdown'', ''net_exposure'', ''turnover'', ''downside_deviation'', ''expected_shortfall_95'',
      ''max_liquidity_participation'', ''stressed_after_cost_return'', ''deflated_sharpe'']"

definition invalid :: "string \<Rightarrow> string \<Rightarrow> study_error" where
  "invalid field details = DiagnosticError ''invalid_manifest'' field details"

definition exactDigest :: "string \<Rightarrow> bool" where
  "exactDigest v \<longleftrightarrow> length v = 64 \<and> list_all (\<lambda>c. CHR ''0'' \<le> c \<and> c \<le> CHR ''9'' \<or> CHR ''a'' \<le> c \<and> c \<le> CHR ''f'') v"

definition completePolicies :: "PolicyBundle \<Rightarrow> bool" where
  "completePolicies p \<longleftrightarrow> pb_Composite p \<noteq> '''' \<and> pb_Execution p \<noteq> '''' \<and> pb_Universe p \<noteq> '''' \<and> pb_ModelSelection p \<noteq> ''''
     \<and> pb_EntrySelection p \<noteq> '''' \<and> pb_PortfolioRisk p \<noteq> '''' \<and> pb_Rollout p \<noteq> '''' \<and> pb_Cost p \<noteq> ''''"

definition interval_json :: "study_env \<Rightarrow> Interval \<Rightarrow> json" where
  "interval_json env v = JObject [(''start'', JString (se_RFC3339Nano env (iv_Start v))),
                                  (''end'', JString (se_RFC3339Nano env (iv_End v)))]"

definition holdout_digest :: "study_env \<Rightarrow> string \<Rightarrow> string \<Rightarrow> Interval \<Rightarrow> string" where
  "holdout_digest env familyID dataset interval =
     digest env (encoded env (JObject [(''family_id'', JString familyID), (''dataset_digest'', JString dataset),
                                       (''interval'', interval_json env interval)]))"

definition NewConfirmatoryHoldoutContract ::
  "study_env \<Rightarrow> string \<Rightarrow> string \<Rightarrow> Interval \<Rightarrow> ConfirmatoryHoldoutContract sresult" where
  "NewConfirmatoryHoldoutContract env familyID dataset interval =
     (if \<not> exactDigest familyID \<or> \<not> exactDigest dataset \<or> \<not> iv_Valid interval
      then Inl (invalid ''confirmatory_holdout'' '''')
      else Inr \<lparr>ch_ID = holdout_digest env familyID dataset interval, ch_DatasetDigest = dataset, ch_Interval = interval\<rparr>)"

definition validateConfirmatoryHoldout :: "study_env \<Rightarrow> ManifestSpec \<Rightarrow> study_error option" where
  "validateConfirmatoryHoldout env spec =
     (let unbound = invalid ''confirmatory_holdout'' ''locked holdout must exactly bind family dataset and confirmatory interval''
      in case sp_ConfirmatoryHoldout spec of
        None \<Rightarrow> Some unbound
      | Some h \<Rightarrow>
          first_failure
            [failure (\<not> exactDigest (ch_ID h) \<or> \<not> iv_Valid (ch_Interval h) \<or> ch_DatasetDigest h \<noteq> sp_DatasetDigest spec
                \<or> iv_Start (ch_Interval h) \<noteq> iv_Start (sp_Interval spec)
                \<or> iv_End (ch_Interval h) \<noteq> iv_End (sp_Interval spec)) unbound,
             failure (ch_ID h \<noteq> holdout_digest env (sp_FamilyID spec) (ch_DatasetDigest h) (ch_Interval h))
               (DiagnosticError ''manifest_integrity_failure'' ''confirmatory_holdout.id''
                  ''holdout identity does not bind its declared scope'')])"

fun fold_errors :: "Interval \<Rightarrow> nat \<Rightarrow> time \<Rightarrow> Fold list \<Rightarrow> study_error option" where
  "fold_errors interval i priorTestEnd [] = None"
| "fold_errors interval i priorTestEnd (w # ws) =
     (if fo_Index w \<noteq> int i \<or> \<not> iv_Valid (fo_Train w) \<or> \<not> iv_Valid (fo_Validation w) \<or> \<not> iv_Valid (fo_Test w)
         \<or> iv_Start (fo_Train w) < iv_Start interval \<or> iv_End interval < iv_End (fo_Test w)
         \<or> iv_Start (fo_Validation w) < iv_End (fo_Train w) \<or> iv_Start (fo_Test w) < iv_End (fo_Validation w)
      then Some (DiagnosticError ''invalid_window_order'' (''folds['' @ show_nat i @ '']'')
        ''folds must be indexed, half-open, chronological train/validation/test intervals inside the manifest interval'')
      else if priorTestEnd \<noteq> 0 \<and> iv_Start (fo_Test w) < priorTestEnd
      then Some (DiagnosticError ''invalid_window_order'' (''folds['' @ show_nat i @ ''].test'')
        ''untouched test windows overlap or are out of order'')
      else fold_errors interval (Suc i) (iv_End (fo_Test w)) ws)"

definition ValidateFolds :: "Fold list \<Rightarrow> Interval \<Rightarrow> int \<Rightarrow> study_error option" where
  "ValidateFolds folds interval minimum0 =
     (let minimum = max 2 minimum0 in
      if int (length folds) < minimum \<or> MaxFolds < int (length folds)
      then Some (DiagnosticError ''insufficient_independent_windows'' '''' (''need '' @ big_string minimum @ ''..'' @
             big_string MaxFolds @ '' folds, got '' @ show_nat (length folds)))
      else fold_errors interval 0 0 folds)"

fun feature_errors :: "string list \<Rightarrow> FeatureField list \<Rightarrow> study_error option" where
  "feature_errors seen [] = None"
| "feature_errors seen (f # fs) =
     (if ff_Name f = '''' \<or> ff_Type f \<notin> {''float64'', ''int64'', ''bool''} \<or> ff_Name f \<in> set seen
      then Some (invalid ''model.features'' ''ordered feature names/types must be unique and supported'')
      else feature_errors (ff_Name f # seen) fs)"

definition ValidateModelAuthority :: "ModelAuthority \<Rightarrow> ManifestSpec \<Rightarrow> study_error option" where
  "ValidateModelAuthority model spec = first_failure
     [failure (mo_Version model = '''' \<or> \<not> exactDigest (mo_ModelDigest model) \<or> mo_FeatureSpec model = '''' \<or> mo_Features model = []
         \<or> mo_LabelSpec model = '''' \<or> mo_LabelHorizon model \<le> 0 \<or> mo_CodeRevision model = ''''
         \<or> \<not> exactDigest (mo_DatasetManifest model) \<or> \<not> exactDigest (mo_TrainingManifest model) \<or> mo_PolicyVersion model = '''')
        (invalid ''model'' ''complete model training provenance and ordered feature schema are required''),
      failure (mo_CodeRevision model \<noteq> sp_CodeRevision spec \<or> mo_DatasetManifest model \<noteq> sp_DatasetManifestID spec
         \<or> mo_PolicyVersion model \<noteq> pb_Composite (sp_Policies spec) \<or> mo_LabelHorizon model \<noteq> sp_LabelHorizon spec)
        (invalid ''model'' ''model provenance is incompatible with experiment code, data, label horizon, or policy''),
      feature_errors [] (mo_Features model),
      failure (mo_Class model \<notin> {''bootstrap'', ''contract_fixture'', ''research'', ''shadow_candidate'', ''promotable_candidate''})
        (invalid ''model.class'' ''unknown artifact class'')]"

text \<open>The constants .55, .8, .25, .3 and .1 as binary64.\<close>

definition ml_defaults :: "MLRequirements \<Rightarrow> MLRequirements" where
  "ml_defaults r =
     (let dflt = (\<lambda>v c. if fl_eq v 0 then c else v)
      in r\<lparr>mr_MinAUC := dflt (mr_MinAUC r) 0x3FE199999999999A, mr_MaxLogLoss := dflt (mr_MaxLogLoss r) 0x3FE999999999999A,
           mr_MaxBrier := dflt (mr_MaxBrier r) 0x3FD0000000000000,
           mr_MaxCalibrationError := dflt (mr_MaxCalibrationError r) 0x3FD3333333333333\<rparr>)"

definition NormalizeMLRequirements :: "MLRequirements \<Rightarrow> MLRequirements sresult" where
  "NormalizeMLRequirements r0 =
     (let r = ml_defaults r0 in
      if mr_MinIndependentWindows r < 2 \<or> mr_Buckets r < 2 \<or> 20 < mr_Buckets r \<or> mr_MinBucketSupport r < 1
         \<or> fl_le (mr_ClipEpsilon r) 0 \<or> fl_le 0x3FB999999999999A (mr_ClipEpsilon r)
         \<or> \<not> finite_float (mr_MinAUC r) \<or> \<not> finite_float (mr_MaxLogLoss r) \<or> \<not> finite_float (mr_MaxBrier r)
         \<or> \<not> finite_float (mr_MaxCalibrationError r) \<or> fl_less (mr_MinAUC r) 0x3FE199999999999A
         \<or> fl_less 0x3FE999999999999A (mr_MaxLogLoss r) \<or> fl_less 0x3FD0000000000000 (mr_MaxBrier r)
         \<or> fl_less 0x3FD3333333333333 (mr_MaxCalibrationError r)
      then Inl (invalid ''ml_requirements'' '''') else Inr r)"

section \<open>Identities, policies and labels\<close>

definition default_schema :: "ManifestSpec \<Rightarrow> ManifestSpec" where
  "default_schema spec =
     (let v = trim_space (sp_SchemaVersion spec)
      in spec\<lparr>sp_SchemaVersion := (if v = '''' then ManifestSchemaVersion else v)\<rparr>)"

definition blank_ref :: "VersionRef \<Rightarrow> bool" where
  "blank_ref r \<longleftrightarrow> trim_space (vr_ID r) = '''' \<or> trim_space (vr_Version r) = '''' \<or> \<not> exactDigest (vr_ImplementationDigest r)
     \<or> \<not> exactDigest (vr_ConfigDigest r)"

definition required_component :: "(string, string) gomap \<Rightarrow> string \<Rightarrow> string \<Rightarrow> string \<Rightarrow> study_error option" where
  "required_component m field details key =
     failure (trim_space (str_at m key) = '''') (invalid (field @ key) details)"

definition policy_keys :: "string list" where
  "policy_keys = [''selection_top_k'', ''selection_min_probability'', ''selection_min_ev'', ''fallback_mode'',
     ''strategy_parameters'', ''risk_policy'', ''turnover_policy'', ''cash_policy'', ''universe_policy'', ''execution_policy'',
     ''cost_policy'', ''model_version'', ''feature_schema'', ''rollout_state'']"

definition identity_checks :: "study_env \<Rightarrow> ManifestSpec \<Rightarrow> study_error option" where
  "identity_checks env spec = first_failure
     [failure (sp_SchemaVersion spec \<noteq> ManifestSchemaVersion \<or> trim_space (sp_CodeRevision spec) = ''''
         \<or> blank_ref (sp_Candidate spec) \<or> blank_ref (sp_Baseline spec) \<or> \<not> exactDigest (sp_DatasetManifestID spec)
         \<or> sp_DatasetManifestID spec \<noteq> sp_DatasetManifestHash spec \<or> \<not> exactDigest (sp_DatasetDigest spec)
         \<or> sp_DatasetDigest spec \<noteq> sp_DatasetManifestHash spec \<or> \<not> completePolicies (sp_Policies spec)
         \<or> \<not> iv_Valid (sp_Interval spec))
        (invalid '''' (''schema, revision, candidate/baseline implementation and configuration identities, '' @
           ''exact dataset digest, policy bundle, and interval are required'')),
      failure (sp_GovernancePolicy spec \<noteq> GovernancePolicyVersion)
        (invalid ''governance_policy'' ''non-weakenable governance policy version is required''),
      policy_Verify env (sp_AuthorityPolicy spec),
      first_error (required_component (ap_Payload (sp_AuthorityPolicy spec)) ''authority_policy.''
        ''authority-affecting policy component is required'') policy_keys,
      failure (trim_space (sp_UniversePolicy spec) = '''' \<or> trim_space (sp_DecisionClock spec) = ''''
         \<or> trim_space (sp_ExecutionClock spec) = '''')
        (invalid '''' ''universe and UTC decision/execution clocks are required''),
      first_error (required_component (sp_ExecutionSemantics spec) ''execution_semantics.''
        ''complete cost/fill semantics required'') [''fee_bps'', ''slippage_bps'', ''timing'', ''liquidity''],
      (let a = sp_Artifacts spec
       in failure (al_Metrics a = '''' \<or> al_Trades a = '''' \<or> al_Curves a = '''' \<or> al_Cohorts a = '''' \<or> al_Factors a = ''''
            \<or> al_Coverage a = '''' \<or> al_Comparison a = '''' \<or> ri_Command (sp_Reproduce spec) = '''' \<or> ri_Args (sp_Reproduce spec) = [])
            (invalid '''' ''complete bounded artifact links and reproduction arguments required'')),
      failure (sp_StudyType spec \<noteq> ''exploratory'' \<and> sp_StudyType spec \<noteq> ''confirmatory'')
        (invalid ''study_type'' ''must be exploratory or confirmatory''),
      failure (sp_Exploratory spec \<noteq> (sp_StudyType spec = ''exploratory''))
        (invalid ''exploratory'' ''study label is inconsistent'')]"

section \<open>Family, holdout and design\<close>

definition default_family :: "study_env \<Rightarrow> ManifestSpec \<Rightarrow> ManifestSpec" where
  "default_family env spec =
     (if sp_FamilyID spec = ''''
      then spec\<lparr>sp_FamilyID := digest env (encoded env (JObject
             [(''candidate'', JString (vr_ID (sp_Candidate spec))),
              (''implementation'', JString (vr_ImplementationDigest (sp_Candidate spec))),
              (''dataset'', JString (sp_DatasetDigest spec)), (''policy'', JString (pb_Composite (sp_Policies spec)))]))\<rparr>
      else spec)"

definition comparability_error :: "BaselineComparabilityPolicy \<Rightarrow> study_error option" where
  "comparability_error p =
     (let outside = (\<lambda>v. \<not> finite_float v \<or> fl_less v 0 \<or> fl_less float_1 v)
      in failure (outside (bc_MaxGrossExposureDifference p) \<or> outside (bc_MaxTurnoverRelativeDiff p))
           (invalid ''baseline_comparability'' ''comparability tolerances must be finite fractions in [0,1]''))"

definition design_checks :: "study_env \<Rightarrow> ManifestSpec \<Rightarrow> study_error option" where
  "design_checks env spec = first_failure
     [failure (\<not> exactDigest (sp_FamilyID spec)) (invalid ''family_id'' ''immutable research family identity is required''),
      (if sp_StudyType spec = ''confirmatory'' then validateConfirmatoryHoldout env spec
       else failure (sp_ConfirmatoryHoldout spec \<noteq> None)
              (invalid ''confirmatory_holdout'' ''exploratory attempts cannot consume a confirmatory holdout'')),
      (let k = sp_CapacityStress spec
       in failure (\<not> finite_float (kp_MaxParticipation k) \<or> \<not> finite_float (kp_ImpactBpsAtMax k)
            \<or> \<not> finite_float (kp_StressMultiplier k) \<or> fl_le (kp_MaxParticipation k) 0
            \<or> fl_less float_1 (kp_MaxParticipation k) \<or> fl_less (kp_ImpactBpsAtMax k) 0 \<or> fl_less (kp_StressMultiplier k) float_1)
            (invalid ''capacity_stress'' ''bounded participation, nonnegative impact, and conservative multiplier are required'')),
      (case sp_BaselineComparability spec of None \<Rightarrow> None | Some p \<Rightarrow> comparability_error p),
      failure (sp_FeatureHorizon spec < 0 \<or> sp_LabelHorizon spec \<le> 0 \<or> sp_Purge spec < 0 \<or> sp_Embargo spec < 0)
        (invalid ''horizons'' ''label horizon must be positive and purge/embargo cannot be negative''),
      failure (sp_BootstrapIterations spec \<le> 0 \<or> MaxBootstrapIterations < sp_BootstrapIterations spec)
        (invalid ''bootstrap_iterations'' ''iterations are outside bounded limits''),
      failure (sp_StatisticalUnit spec \<noteq> ''chronological_test_window'' \<and> sp_StatisticalUnit spec \<noteq> ''declared_block'')
        (DiagnosticError ''unsupported_statistical_unit'' ''statistical_unit'' ''per-bar IID bootstrap is prohibited''),
      failure (sp_Metrics spec = [] \<or> sp_PromotionThresholds spec = [] \<or> sp_RollbackThresholds spec = []
         \<or> ri_Command (sp_Reproduce spec) = '''')
        (invalid '''' ''metrics, gates, rollback thresholds, and reproduction invocation must be predeclared'')]"

section \<open>Metrics, gates and folds\<close>

definition sorted_metrics :: "ManifestSpec \<Rightarrow> ManifestSpec sresult" where
  "sorted_metrics spec =
     (case sortedUnique (sp_Metrics spec) of
        None \<Rightarrow> Inl (invalid ''metrics'' ''values must be non-empty and unique'')
      | Some metrics \<Rightarrow> Inr (spec\<lparr>sp_Metrics := metrics\<rparr>))"

definition elapsed_of :: "ManifestSpec \<Rightarrow> string \<Rightarrow> duration" where
  "elapsed_of spec target = (case map_of (sp_RequiredElapsed spec) target of None \<Rightarrow> 0 | Some d \<Rightarrow> d)"

definition confirmatory_checks :: "ManifestSpec \<Rightarrow> study_error option" where
  "confirmatory_checks spec =
     (if sp_StudyType spec \<noteq> ''confirmatory'' then None
      else first_failure
        [first_error (\<lambda>required. failure (required \<notin> set (sp_Metrics spec))
           (invalid ''metrics'' (''missing required confirmatory metric '' @ required))) RequiredConfirmatoryMetrics,
         (let s = sp_Samples spec
          in failure (sq_MinFolds s < 3 \<or> sq_MinIndependentUnits s < 3 \<or> sq_MinObservationsPerFold s < 10
               \<or> sq_MinTradesPerFold s < 1 \<or> sq_MinRegimes s < 2)
               (invalid ''sample_requirements'' ''client requirements weaken governance minima'')),
         first_error (\<lambda>target. failure (elapsed_of spec target \<le> 0)
           (invalid (''required_elapsed.'' @ target) ''target-specific elapsed evidence must be predeclared''))
           [''paper'', ''limited_live'', ''full_live'']])"

definition zeroed_threshold :: "Threshold \<Rightarrow> Threshold" where
  "zeroed_threshold t = t\<lparr>th_Value := plain_zero (th_Value t)\<rparr>"

definition zero_thresholds :: "ManifestSpec \<Rightarrow> ManifestSpec" where
  "zero_thresholds spec = spec\<lparr>sp_PromotionThresholds := map zeroed_threshold (sp_PromotionThresholds spec),
     sp_RollbackThresholds := map zeroed_threshold (sp_RollbackThresholds spec)\<rparr>"

definition gate_key :: "study_env \<Rightarrow> Threshold \<Rightarrow> string" where
  "gate_key env t = th_Metric t @ ''|'' @ th_Op t @ ''|'' @ se_FormatG env (th_Value t)"

fun gate_errors :: "study_env \<Rightarrow> string list \<Rightarrow> string list \<Rightarrow> Threshold list \<Rightarrow> study_error option" where
  "gate_errors env declared seen [] = None"
| "gate_errors env declared seen (t # ts) =
     (if th_Metric t \<notin> set declared
      then Some (invalid ''thresholds'' (''threshold metric is not declared: '' @ th_Metric t))
      else if gate_key env t \<in> set seen then Some (invalid ''thresholds'' ''duplicate gate'')
      else gate_errors env declared (gate_key env t # seen) ts)"

fun job_errors :: "uint list \<Rightarrow> uint list \<Rightarrow> study_error option" where
  "job_errors seen [] = None"
| "job_errors seen (n # ns) =
     (if n = 0 \<or> n \<in> set seen then Some (invalid ''fold_source_job_ids'' ''source jobs must be nonzero and unique'')
      else job_errors (n # seen) ns)"

definition gate_checks :: "study_env \<Rightarrow> ManifestSpec \<Rightarrow> study_error option" where
  "gate_checks env spec = first_failure
     [gate_errors env (sp_Metrics spec) [] (sp_PromotionThresholds spec @ sp_RollbackThresholds spec),
      failure (128 < length (sp_Metrics spec) \<or> 128 < length (sp_PromotionThresholds spec)
         \<or> 128 < length (sp_RollbackThresholds spec) \<or> 64 < length (sp_AllowedTuning spec)
         \<or> 64 < length (ri_Args (sp_Reproduce spec)) \<or> 128 < length (sp_ExecutionSemantics spec)
         \<or> 16 < length (sp_RequiredElapsed spec))
        (invalid '''' ''manifest collection exceeds bounded limits''),
      failure (sp_AllowedTuning spec = []) (invalid ''allowed_tuning'' ''complete tuning search space is required''),
      first_error (\<lambda>(key, choices). failure (trim_space key = '''' \<or> choices = [] \<or> 64 < length choices)
        (invalid ''allowed_tuning'' ''tuning keys and choices must be non-empty and bounded'')) (sp_AllowedTuning spec),
      ValidateFolds (sp_Folds spec) (sp_Interval spec) (sq_MinFolds (sp_Samples spec)),
      (if sp_StudyType spec \<noteq> ''confirmatory'' then None
       else first_failure
         [failure (length (sp_FoldSourceJobIDs spec) \<noteq> length (sp_Folds spec))
            (invalid ''fold_source_job_ids'' ''one trusted Stage 05/06 source job is required per fold''),
          job_errors [] (sp_FoldSourceJobIDs spec)])]"

section \<open>Model and override\<close>

definition model_stage :: "ManifestSpec \<Rightarrow> ManifestSpec sresult" where
  "model_stage spec =
     (case (sp_Model spec, sp_MLRequirements spec) of
        (None, None) \<Rightarrow> Inr spec
      | (None, Some _) \<Rightarrow> Inl (invalid ''ml_requirements'' ''ML gates require a model manifest'')
      | (Some model, ml) \<Rightarrow>
          and_then (checked (ValidateModelAuthority model spec) ()) (\<lambda>_.
            case ml of
              None \<Rightarrow> Inl (invalid ''ml_requirements'' ''predeclared non-weakenable ML gates are required'')
            | Some r \<Rightarrow>
                and_then (NormalizeMLRequirements r) (\<lambda>normalized.
                  let payload = ap_Payload (sp_AuthorityPolicy spec) in
                  if str_at payload ''model_version'' \<noteq> mo_Version model \<or> str_at payload ''feature_schema'' \<noteq> mo_FeatureSpec model
                  then Inl (invalid ''authority_policy'' ''model/version schema authority mismatch'')
                  else Inr (spec\<lparr>sp_MLRequirements := Some normalized\<rparr>))))"

definition override_error :: "ManifestSpec \<Rightarrow> study_error option" where
  "override_error spec =
     (case sp_ResearchOverride spec of
        None \<Rightarrow> None
      | Some r \<Rightarrow>
          failure (trim_space (ro_Mode r) = '''' \<or> trim_space (ro_Reason r) = '''' \<or> \<not> iv_Valid (ro_BoundedTo r)
             \<or> iv_Start (ro_BoundedTo r) < iv_Start (sp_Interval spec) \<or> iv_End (sp_Interval spec) < iv_End (ro_BoundedTo r))
            (invalid ''research_override''
               ''override must declare a reason, mode, and bounded interval inside the experiment''))"

section \<open>Canonical form\<close>

fun sorted_choices :: "(string, string list) gomap \<Rightarrow> (string, string list) gomap sresult" where
  "sorted_choices [] = Inr []"
| "sorted_choices ((key, choices) # rest) =
     (case sortedUnique choices of
        None \<Rightarrow> Inl (invalid (''allowed_tuning.'' @ key) ''values must be non-empty and unique'')
      | Some unique \<Rightarrow> and_then (sorted_choices rest) (\<lambda>m. Inr ((key, unique) # m)))"

text \<open>\<^verbatim>\<open>thresholdLess\<close> orders by metric, operator and value.\<close>

definition threshold_key :: "Threshold \<Rightarrow> string \<times> string \<times> int" where
  "threshold_key t = (th_Metric t, th_Op t, fl_key (th_Value t))"

definition sort_thresholds :: "ManifestSpec \<Rightarrow> ManifestSpec" where
  "sort_thresholds spec =
     spec\<lparr>sp_PromotionThresholds := sort_key threshold_key (sp_PromotionThresholds spec),
          sp_RollbackThresholds := sort_key threshold_key (sp_RollbackThresholds spec)\<rparr>"

definition operator_error :: "Threshold \<Rightarrow> study_error option" where
  "operator_error t = failure (\<not> finite_float (th_Value t) \<or> th_Op t \<notin> {''>'', ''>='', ''<'', ''<=''})
     (invalid ''thresholds'' ''threshold values and operators must be finite and supported'')"

definition canonical_text :: "study_env \<Rightarrow> ManifestSpec \<Rightarrow> (string \<times> ManifestSpec) sresult" where
  "canonical_text env spec =
     (case se_MarshalSpec env spec of
        Inl e \<Rightarrow> Inl (StudyError (PlainError (Wrapf ''canonical manifest: %w'' [] e)))
      | Inr text \<Rightarrow>
          if MaxManifestBytes < length text then Inl (invalid '''' ''manifest exceeds 1 MiB canonical limit'')
          else Inr (text, spec))"

definition CanonicalManifestSpec :: "study_env \<Rightarrow> ManifestSpec \<Rightarrow> (string \<times> ManifestSpec) sresult" where
  "CanonicalManifestSpec env spec0 =
     (let spec = default_schema spec0 in
      and_then (checked (identity_checks env spec) (default_family env spec)) (\<lambda>spec.
      and_then (checked (design_checks env spec) spec) (\<lambda>spec.
      and_then (sorted_metrics spec) (\<lambda>spec.
      and_then (checked (confirmatory_checks spec) (zero_thresholds spec)) (\<lambda>spec.
      and_then (checked (gate_checks env spec) spec) (\<lambda>spec.
      and_then (model_stage spec) (\<lambda>spec.
      and_then (checked (override_error spec) spec) (\<lambda>spec.
      and_then (sorted_choices (sp_AllowedTuning spec)) (\<lambda>tuning.
      (let spec = sort_thresholds (spec\<lparr>sp_AllowedTuning := tuning\<rparr>) in
       and_then (checked (first_error operator_error (sp_PromotionThresholds spec @ sp_RollbackThresholds spec)) spec)
         (canonical_text env)))))))))))"

definition record_id :: "study_env \<Rightarrow> string \<Rightarrow> time \<Rightarrow> string" where
  "record_id env contentID createdAt = digest env (contentID @ [CHR 0x0A] @ se_RFC3339Nano env createdAt)"

definition NewManifest :: "study_env \<Rightarrow> ManifestSpec \<Rightarrow> time \<Rightarrow> ExperimentManifest sresult" where
  "NewManifest env spec createdAt0 =
     and_then (CanonicalManifestSpec env spec) (\<lambda>(canonical, normalized).
       let createdAt = createdAt0 div 1000 * 1000 in
       if createdAt = 0 then Inl (invalid ''created_at'' ''immutable creation time is required'')
       else
         let contentID = digest env canonical
         in Inr \<lparr>em_ID = record_id env contentID createdAt, em_ContentID = contentID, em_ContentDigest = contentID,
                 em_CreatedAt = createdAt, em_Spec = normalized\<rparr>)"

definition manifest_Verify :: "study_env \<Rightarrow> ExperimentManifest \<Rightarrow> study_error option" where
  "manifest_Verify env m =
     (case CanonicalManifestSpec env (em_Spec m) of
        Inl e \<Rightarrow> Some e
      | Inr (canonical, _) \<Rightarrow>
          let expected = digest env canonical in
          if expected \<noteq> em_ContentID m \<or> expected \<noteq> em_ContentDigest m
          then Some (DiagnosticError ''manifest_integrity_failure'' ''content_digest''
                 ''stored semantic content differs from immutable identity'')
          else failure (record_id env expected (em_CreatedAt m) \<noteq> em_ID m)
                 (DiagnosticError ''manifest_integrity_failure'' ''id'' ''record identity or creation time was mutated''))"

end
