(* ===== verification/Folds.thy ===== *)
theory Folds
  imports Manifests
begin

text \<open>
  The chronological split of \<^verbatim>\<open>validation/walkforward.go\<close>: \<open>SplitFold\<close> assigns every sample to the train, validation
  or test set of a fold, purges what reaches into the next window and embargoes what follows one too closely;
  \<open>validateSamples\<close> checks the causal horizons before, \<open>validateSplit\<close> the size and coverage after, \<open>validateFit\<close> that
  a fold's choice stays in the predeclared search space.
\<close>

section \<open>Samples\<close>

record Sample =
  sm_ID :: string
  sm_ObservedAt :: time
  sm_FeatureStart :: time
  sm_FeatureEnd :: time
  sm_LabelEnd :: time
  sm_Symbol :: string
  sm_Regime :: string
  sm_BenchmarkSeen :: bool
  sm_CoverageOK :: bool
  sm_Values :: "(string, float64) gomap"

record Split =
  sl_Train :: "Sample list"
  sl_Validation :: "Sample list"
  sl_Test :: "Sample list"
  sl_Purged :: "string list"
  sl_Embargoed :: "string list"

definition empty_split :: Split where
  "empty_split = \<lparr>sl_Train = [], sl_Validation = [], sl_Test = [], sl_Purged = [], sl_Embargoed = []\<rparr>"

definition interval_contains :: "Interval \<Rightarrow> time \<Rightarrow> bool" where
  "interval_contains interval t \<longleftrightarrow> \<not> t < iv_Start interval \<and> t < iv_End interval"

definition nonfinite_value :: "string \<times> float64 \<Rightarrow> bool" where
  "nonfinite_value e \<longleftrightarrow> fst e = '''' \<or> \<not> finite_float (snd e)"

definition sample_error :: "duration \<Rightarrow> duration \<Rightarrow> Sample \<Rightarrow> study_error option" where
  "sample_error featureHorizon labelHorizon s = first_failure
     [failure (sm_ID s = '''' \<or> sm_ObservedAt s = 0 \<or> sm_FeatureStart s = 0 \<or> sm_FeatureEnd s = 0 \<or> sm_LabelEnd s = 0)
        (invalid ''sample'' ''complete sample timestamps are required''),
      failure (sm_ObservedAt s < sm_FeatureEnd s)
        (DiagnosticError ''test_data_leakage'' ''sample.feature_end'' (sm_ID s @ '' contains future features'')),
      failure (sm_FeatureEnd s \<noteq> sm_ObservedAt s \<or> sm_FeatureStart s \<noteq> sm_ObservedAt s - featureHorizon)
        (invalid ''sample.feature_horizon'' (sm_ID s)),
      failure (sm_LabelEnd s \<noteq> sm_ObservedAt s + labelHorizon) (invalid ''sample.label_horizon'' (sm_ID s)),
      failure (list_ex nonfinite_value (sm_Values s)) (DiagnosticError ''non_finite_metric'' ''sample.values'' (sm_ID s))]"

fun samples_error :: "duration \<Rightarrow> duration \<Rightarrow> string list \<Rightarrow> Sample list \<Rightarrow> study_error option" where
  "samples_error featureHorizon labelHorizon seen [] = None"
| "samples_error featureHorizon labelHorizon seen (s # ss) =
     (if sm_ID s \<in> set seen then Some (invalid ''sample.id'' (''duplicate sample: '' @ sm_ID s))
      else case sample_error featureHorizon labelHorizon s of
        Some e \<Rightarrow> Some e
      | None \<Rightarrow> samples_error featureHorizon labelHorizon (sm_ID s # seen) ss)"

definition validateSamples :: "Sample list \<Rightarrow> duration \<Rightarrow> duration \<Rightarrow> study_error option" where
  "validateSamples samples featureHorizon labelHorizon = samples_error featureHorizon labelHorizon [] samples"

section \<open>The split of a fold\<close>

definition reaches :: "Sample \<Rightarrow> time \<Rightarrow> bool" where
  "reaches s boundary \<longleftrightarrow> boundary < sm_FeatureEnd s \<or> boundary < sm_LabelEnd s"

definition place_sample :: "Fold \<Rightarrow> duration \<Rightarrow> duration \<Rightarrow> Sample \<Rightarrow> Split \<Rightarrow> Split" where
  "place_sample w purge embargo s r =
     (if interval_contains (fo_Train w) (sm_ObservedAt s)
      then if reaches s (iv_Start (fo_Validation w) - purge) then r\<lparr>sl_Purged := sl_Purged r @ [sm_ID s]\<rparr>
           else r\<lparr>sl_Train := sl_Train r @ [s]\<rparr>
      else if interval_contains (fo_Validation w) (sm_ObservedAt s)
      then if sm_ObservedAt s < iv_End (fo_Train w) + embargo then r\<lparr>sl_Embargoed := sl_Embargoed r @ [sm_ID s]\<rparr>
           else if reaches s (iv_Start (fo_Test w) - purge) then r\<lparr>sl_Purged := sl_Purged r @ [sm_ID s]\<rparr>
           else r\<lparr>sl_Validation := sl_Validation r @ [s]\<rparr>
      else if interval_contains (fo_Test w) (sm_ObservedAt s)
      then if sm_ObservedAt s < iv_End (fo_Validation w) + embargo then r\<lparr>sl_Embargoed := sl_Embargoed r @ [sm_ID s]\<rparr>
           else r\<lparr>sl_Test := sl_Test r @ [s]\<rparr>
      else r)"

fun split_samples :: "Fold \<Rightarrow> duration \<Rightarrow> duration \<Rightarrow> Sample list \<Rightarrow> Split \<Rightarrow> Split sresult" where
  "split_samples w purge embargo [] r = Inr r"
| "split_samples w purge embargo (s # ss) r =
     (if sm_ID s = '''' \<or> sm_ObservedAt s = 0 \<or> sm_FeatureStart s = 0 \<or> sm_FeatureEnd s < sm_FeatureStart s
         \<or> sm_LabelEnd s < sm_ObservedAt s
      then Inl (invalid ''sample'' ''sample identity and causal feature/label horizon are invalid'')
      else split_samples w purge embargo ss (place_sample w purge embargo s r))"

definition SplitFold :: "Sample list \<Rightarrow> Fold \<Rightarrow> duration \<Rightarrow> duration \<Rightarrow> Split sresult" where
  "SplitFold samples w purge embargo =
     split_samples w purge embargo (sort_key (\<lambda>s. (sm_ObservedAt s, sm_ID s)) samples) empty_split"

definition coverage_error :: "Sample \<Rightarrow> study_error option" where
  "coverage_error s = first_failure
     [failure (\<not> sm_BenchmarkSeen s) (DiagnosticError ''missing_benchmark'' '''' (sm_ID s)),
      failure (\<not> sm_CoverageOK s) (DiagnosticError ''incomplete_coverage'' '''' (sm_ID s))]"

definition validateSplit :: "Split \<Rightarrow> SampleRequirements \<Rightarrow> study_error option" where
  "validateSplit r requirements =
     (let minimum = sq_MinObservationsPerFold requirements in
      if int (length (sl_Train r)) < minimum \<or> int (length (sl_Validation r)) < minimum \<or> int (length (sl_Test r)) < minimum
      then Some (DiagnosticError ''insufficient_observations'' '''' (''train='' @ show_nat (length (sl_Train r)) @ '' validation='' @
             show_nat (length (sl_Validation r)) @ '' test='' @ show_nat (length (sl_Test r)) @ '' minimum='' @ big_string minimum))
      else first_error coverage_error (sl_Train r @ sl_Validation r @ sl_Test r))"

section \<open>The choice of a fold\<close>

record FoldFit =
  ft_Choice :: string
  ft_Parameters :: "(string, string) gomap"
  ft_Artifact :: string
  ft_TrainDigest :: string
  ft_ValidationDigest :: string
  ft_DataDigest :: string
  ft_SelectionRationale :: string

fun join :: "string \<Rightarrow> string list \<Rightarrow> string" where
  "join sep [] = ''''"
| "join sep [x] = x"
| "join sep (x # xs) = x @ sep @ join sep xs"

definition parameterChoiceKey :: "(string, string) gomap \<Rightarrow> string" where
  "parameterChoiceKey parameters =
     join '';'' (map (\<lambda>key. key @ ''='' @ str_at parameters key) (sort (map fst parameters)))"

definition parameter_error :: "(string, string list) gomap \<Rightarrow> string \<times> string \<Rightarrow> study_error option" where
  "parameter_error allowed p =
     (case map_of allowed (fst p) of
        None \<Rightarrow> Some (invalid ''fold_fit.parameters'' (''undeclared parameter: '' @ fst p))
      | Some choices \<Rightarrow> failure (snd p \<notin> set choices)
          (invalid ''fold_fit.parameters'' (''out-of-list value: '' @ fst p @ ''='' @ snd p)))"

definition MaxFoldArtifactBytes :: nat where "MaxFoldArtifactBytes = 4194304"

definition validateFit :: "FoldFit \<Rightarrow> (string, string list) gomap \<Rightarrow> study_error option" where
  "validateFit fit allowed = first_failure
     [failure (ft_Choice fit = '''' \<or> ft_Artifact fit = '''' \<or> MaxFoldArtifactBytes < length (ft_Artifact fit)
         \<or> ft_Parameters fit = [])
        (invalid ''fold_fit'' ''choice, bounded artifact, and parameters are required''),
      failure (length (ft_Parameters fit) \<noteq> length allowed)
        (invalid ''fold_fit.parameters'' ''complete predeclared parameter set is required''),
      first_error (parameter_error allowed) (ft_Parameters fit),
      failure (ft_Choice fit \<noteq> parameterChoiceKey (ft_Parameters fit))
        (invalid ''fold_fit.choice'' ''choice does not bind the complete predeclared parameter set'')]"

end
