(* ===== verification/Study_Samples.thy ===== *)
theory Study_Samples
  imports Folds
begin

text \<open>
  A concrete confirmatory experiment with three folds and the samples of a fold, on which the witnesses of the study and
  of the governance properties evaluate the definitions.
\<close>

definition hex64 :: string where
  "hex64 = replicate 64 (CHR ''a'')"

text \<open>The sample hash tells apart what ends in the digit 7.\<close>

definition sample_hash :: "string \<Rightarrow> string" where
  "sample_hash s = (if s \<noteq> [] \<and> last s = CHR ''7'' then replicate 64 (CHR ''7'') else hex64)"

definition sample_clock :: "time \<Rightarrow> string" where
  "sample_clock t = (if t = 7000 then ''7'' else ''0'')"

definition study_sample_env :: study_env where
  "study_sample_env = \<lparr>se_codec = \<lparr>cd_Marshal = (\<lambda>_. Inr ''{}''), cd_sha256hex = sample_hash\<rparr>,
     se_ParseFloat = (\<lambda>_. None), se_FormatG = (\<lambda>_. ''0''), se_RFC3339Nano = sample_clock, se_MarshalSpec = (\<lambda>_. Inr ''spec'')\<rparr>"

definition sample_ref :: VersionRef where
  "sample_ref = \<lparr>vr_ID = ''trend'', vr_Version = ''v1'', vr_ImplementationDigest = hex64, vr_ConfigDigest = hex64\<rparr>"

definition sample_interval :: "time \<Rightarrow> Interval" where
  "sample_interval t = \<lparr>iv_Start = t, iv_End = t + 10\<rparr>"

definition sample_fold :: "nat \<Rightarrow> Fold" where
  "sample_fold i = (let t = 1000 + 10 * int i
     in \<lparr>fo_Index = int i, fo_Train = sample_interval t, fo_Validation = sample_interval (t + 10),
         fo_Test = sample_interval (t + 20)\<rparr>)"

definition sample_payload :: "(string, string) gomap" where
  "sample_payload = map (\<lambda>k. (k, ''x'')) policy_keys"

definition sample_policy_envelope :: AuthorityPolicyEnvelope where
  "sample_policy_envelope = \<lparr>ap_SchemaVersion = AuthorityPolicySchemaVersion, ap_Payload = sample_payload, ap_Digest = hex64\<rparr>"

definition sample_spec :: ManifestSpec where
  "sample_spec = \<lparr>sp_SchemaVersion = ManifestSchemaVersion, sp_StudyType = ''confirmatory'', sp_Exploratory = False, sp_FamilyID = hex64,
     sp_ConfirmatoryHoldout = Some \<lparr>ch_ID = hex64, ch_DatasetDigest = hex64,
       ch_Interval = \<lparr>iv_Start = 1000, iv_End = 2000\<rparr>\<rparr>,
     sp_CodeRevision = ''r1'', sp_Candidate = sample_ref, sp_Baseline = sample_ref, sp_Model = None, sp_MLRequirements = None,
     sp_Policies = \<lparr>pb_Composite = ''p1'', pb_Execution = ''e'', pb_Universe = ''u'', pb_ModelSelection = ''m'',
       pb_EntrySelection = ''s'', pb_PortfolioRisk = ''r'', pb_Rollout = ''o'', pb_Cost = ''c''\<rparr>,
     sp_GovernancePolicy = GovernancePolicyVersion, sp_AuthorityPolicy = sample_policy_envelope,
     sp_DatasetManifestID = hex64, sp_DatasetManifestHash = hex64, sp_DatasetDigest = hex64, sp_UniversePolicy = ''u'',
     sp_Interval = \<lparr>iv_Start = 1000, iv_End = 2000\<rparr>, sp_DecisionClock = ''utc'', sp_ExecutionClock = ''utc'', sp_Seed = 1,
     sp_ExecutionSemantics = [(''fee_bps'', ''10''), (''slippage_bps'', ''5''), (''timing'', ''next''), (''liquidity'', ''cap'')],
     sp_CapacityStress = \<lparr>kp_MaxParticipation = float_1, kp_ImpactBpsAtMax = 0, kp_StressMultiplier = float_1\<rparr>,
     sp_BaselineComparability = None, sp_Folds = map sample_fold [0, 1, 2], sp_FoldSourceJobIDs = [1, 2, 3],
     sp_FeatureHorizon = 2, sp_LabelHorizon = 2, sp_Purge = 1, sp_Embargo = 2,
     sp_AllowedTuning = [(''window'', [''20'', ''10''])], sp_Metrics = RequiredConfirmatoryMetrics,
     sp_StatisticalUnit = ''declared_block'', sp_BootstrapIterations = 100,
     sp_Samples = \<lparr>sq_MinFolds = 3, sq_MinIndependentUnits = 3, sq_MinObservationsPerFold = 10, sq_MinTradesPerFold = 1,
       sq_MinRegimes = 2\<rparr>,
     sp_PromotionThresholds = [\<lparr>th_Metric = ''after_cost_return'', th_Op = ''>'', th_Value = 0\<rparr>],
     sp_RollbackThresholds = [\<lparr>th_Metric = ''max_drawdown'', th_Op = ''>'', th_Value = float_1\<rparr>],
     sp_RequiredElapsed = [(''paper'', 1000), (''limited_live'', 1000), (''full_live'', 1000)],
     sp_Artifacts = \<lparr>al_Metrics = ''m'', al_Trades = ''t'', al_Curves = ''c'', al_Cohorts = ''h'', al_Factors = ''f'',
       al_Coverage = ''v'', al_Comparison = ''p''\<rparr>,
     sp_Reproduce = \<lparr>ri_Command = ''run'', ri_Args = [''all''], ri_Env = []\<rparr>, sp_ResearchOverride = None\<rparr>"

definition sealed_spec :: ManifestSpec where
  "sealed_spec = sample_spec\<lparr>
     sp_Metrics := [''after_cost_expectancy'', ''after_cost_return'', ''benchmark_relative_return'', ''coverage'', ''deflated_sharpe'',
       ''downside_deviation'', ''expected_shortfall_95'', ''gross_exposure'', ''max_drawdown'', ''max_liquidity_participation'',
       ''net_exposure'', ''stressed_after_cost_return'', ''turnover''],
     sp_AllowedTuning := [(''window'', [''10'', ''20''])]\<rparr>"

definition sealed_sample :: ExperimentManifest where
  "sealed_sample = \<lparr>em_ID = hex64, em_ContentID = hex64, em_ContentDigest = hex64, em_CreatedAt = 5000, em_Spec = sealed_spec\<rparr>"

lemma sample_stages:
  "default_schema sample_spec = sample_spec"
  "identity_checks study_sample_env sample_spec = None"
  "default_family study_sample_env sample_spec = sample_spec"
  "design_checks study_sample_env sample_spec = None"
  "sortedUnique (sp_Metrics sample_spec) = Some (sp_Metrics sealed_spec)"
  "confirmatory_checks (sealed_spec\<lparr>sp_AllowedTuning := sp_AllowedTuning sample_spec\<rparr>) = None"
  "gate_checks study_sample_env (sealed_spec\<lparr>sp_AllowedTuning := sp_AllowedTuning sample_spec\<rparr>) = None"
  "sorted_choices (sp_AllowedTuning sample_spec) = Inr (sp_AllowedTuning sealed_spec)"
  "first_error operator_error (sp_PromotionThresholds sealed_spec @ sp_RollbackThresholds sealed_spec) = None"
  by code_simp+

lemma sample_canonical: "CanonicalManifestSpec study_sample_env sample_spec = Inr (''spec'', sealed_spec)"
proof -
  let ?spec = "sealed_spec\<lparr>sp_AllowedTuning := sp_AllowedTuning sample_spec\<rparr>"
  have metrics: "sorted_metrics sample_spec = Inr ?spec"
    using sample_stages(5) by (simp add: sorted_metrics_def) (simp add: sealed_spec_def)
  have zero: "zero_thresholds ?spec = ?spec"
    by (simp add: zero_thresholds_def sealed_spec_def sample_spec_def zeroed_threshold_def plain_zero_def fl_eq_zero float_1_def)
  have model: "model_stage ?spec = Inr ?spec" by (simp add: model_stage_def sealed_spec_def sample_spec_def)
  have override: "override_error ?spec = None" by (simp add: override_error_def sealed_spec_def sample_spec_def)
  have sorted: "sort_thresholds sealed_spec = sealed_spec" by (simp add: sort_thresholds_def sealed_spec_def sample_spec_def)
  have final: "canonical_text study_sample_env sealed_spec = Inr (''spec'', sealed_spec)"
    by (simp add: canonical_text_def study_sample_env_def MaxManifestBytes_def)
  have tuning: "sorted_choices (sp_AllowedTuning ?spec) = Inr (sp_AllowedTuning sealed_spec)" using sample_stages(8) by simp
  have same: "?spec\<lparr>sp_AllowedTuning := sp_AllowedTuning sealed_spec\<rparr> = sealed_spec" by simp
  show ?thesis
    unfolding CanonicalManifestSpec_def Let_def sample_stages(1) sample_stages(2) sample_stages(3) checked_simps and_then_simps
      sample_stages(4) metrics sample_stages(6) zero sample_stages(7) model override tuning same sorted sample_stages(9) final
    by (rule refl)
qed

text \<open>The same specification, sealed at two moments.\<close>

definition later_sample :: ExperimentManifest where
  "later_sample = sealed_sample\<lparr>em_ID := replicate 64 (CHR ''7''), em_CreatedAt := 7000\<rparr>"

lemma sample_hashes:
  "sample_hash ''spec'' = hex64" "sample_hash (s @ [c, CHR ''0'']) = hex64" "sample_hash (s @ [c, CHR ''7'']) = replicate 64 (CHR ''7'')"
  by (simp_all add: sample_hash_def)

lemma sample_is_sealed: "NewManifest study_sample_env sample_spec 5000 = Inr sealed_sample"
  unfolding NewManifest_def sample_canonical
  by (simp add: sealed_sample_def digest_def record_id_def study_sample_env_def sample_clock_def sample_hashes Let_def)

lemma later_is_sealed: "NewManifest study_sample_env sample_spec 7000 = Inr later_sample"
  unfolding NewManifest_def sample_canonical
  by (simp add: sealed_sample_def later_sample_def digest_def record_id_def study_sample_env_def sample_clock_def sample_hashes Let_def)

section \<open>Samples\<close>

definition sample_at :: "time \<Rightarrow> Sample" where
  "sample_at t = \<lparr>sm_ID = big_string t, sm_ObservedAt = t, sm_FeatureStart = t - 2, sm_FeatureEnd = t, sm_LabelEnd = t + 2,
     sm_Symbol = ''BTC'', sm_Regime = ''up'', sm_BenchmarkSeen = True, sm_CoverageOK = True, sm_Values = []\<rparr>"

definition observed :: "Sample list" where
  "observed = map sample_at [1035, 1003, 1008, 1011, 1015, 1025]"

definition first_split :: Split where
  "first_split = \<lparr>sl_Train = [sample_at 1003], sl_Validation = [sample_at 1015], sl_Test = [sample_at 1025],
     sl_Purged = [''1008''], sl_Embargoed = [''1011'']\<rparr>"

definition second_split :: Split where
  "second_split = \<lparr>sl_Train = [sample_at 1011, sample_at 1015], sl_Validation = [sample_at 1025], sl_Test = [sample_at 1035],
     sl_Purged = [], sl_Embargoed = []\<rparr>"

lemma observed_valid: "validateSamples observed 2 2 = None"
  by code_simp

lemma first_split_done: "SplitFold observed (sample_fold 0) 1 2 = Inr first_split"
  by code_simp

lemma second_split_done: "SplitFold observed (sample_fold 1) 1 2 = Inr second_split"
  by code_simp

end
