(* ===== verification/Manifest_Laws.thy ===== *)
theory Manifest_Laws
  imports Manifests
begin

text \<open>
  The canonical form of a manifest is stable: the checks look only at what normalisation keeps (\<open>*_stable\<close>), and each
  normalising stage leaves its own result alone (\<open>*_again\<close>). Hence a manifest that was sealed verifies.
\<close>

section \<open>Collections\<close>

lemma distinct_adj_sorted: "sorted xs \<Longrightarrow> distinct_adj xs \<longleftrightarrow> distinct xs" for xs :: "'a::linorder list"
proof (induction xs rule: induct_list012)
  case (3 x y zs)
  then have "x \<le> y" "\<forall>z \<in> set zs. y \<le> z" by auto
  then show ?case using 3 by auto
qed auto

lemma sortedUnique_Some:
  "sortedUnique vals = Some r \<longleftrightarrow> r = sort vals \<and> distinct vals \<and> (\<forall>v \<in> set vals. trim_space v \<noteq> '''')"
  by (auto simp: sortedUnique_def Let_def distinct_adj_sorted list_ex_iff)

lemma sortedUnique_again: "sortedUnique vals = Some r \<Longrightarrow> sortedUnique r = Some r"
  by (auto simp: sortedUnique_Some)

lemma sorted_choices_keys: "sorted_choices m = Inr m' \<Longrightarrow> map fst m' = map fst m"
  by (induction m arbitrary: m') (auto simp: result_simps split: option.splits)

lemma sorted_choices_again: "sorted_choices m = Inr m' \<Longrightarrow> sorted_choices m' = Inr m'"
  by (induction m arbitrary: m') (auto simp: result_simps sortedUnique_again split: option.splits)

definition choices_ok :: "string \<times> string list \<Rightarrow> bool" where
  "choices_ok e \<longleftrightarrow> trim_space (fst e) \<noteq> '''' \<and> snd e \<noteq> [] \<and> length (snd e) \<le> 64"

lemma choices_ok_sorted: "sortedUnique c = Some u \<Longrightarrow> choices_ok (k, u) = choices_ok (k, c)"
  by (auto simp: sortedUnique_Some choices_ok_def sort_key_Nil_iff)

lemma sorted_choices_ok:
  "sorted_choices m = Inr m' \<Longrightarrow> (\<forall>e \<in> set m'. choices_ok e) = (\<forall>e \<in> set m. choices_ok e)"
  by (induction m arbitrary: m') (auto simp: result_simps choices_ok_sorted split: option.splits)

lemma gate_errors_None:
  "gate_errors env declared seen ts = None \<longleftrightarrow>
     (\<forall>t \<in> set ts. th_Metric t \<in> set declared) \<and> distinct (map (gate_key env) ts) \<and> set seen \<inter> gate_key env ` set ts = {}"
  by (induction ts arbitrary: seen) auto

lemma ml_defaults_again [simp]: "ml_defaults (ml_defaults r) = ml_defaults r"
  by (simp add: ml_defaults_def Let_def fl_eq_def fl_key_def fl_IsNaN_def fl_abs_def)

lemma NormalizeMLRequirements_again:
  "NormalizeMLRequirements r = Inr r' \<Longrightarrow> NormalizeMLRequirements r' = Inr r'"
  by (auto simp: NormalizeMLRequirements_def Let_def split: if_splits)

lemma exactDigest_nonempty [simp]: "\<not> exactDigest ''''"
  by (simp add: exactDigest_def)

section \<open>Stages\<close>

lemma identity_checks_stable [simp]:
  "identity_checks env (spec\<lparr>sp_FamilyID := f\<rparr>) = identity_checks env spec"
  "identity_checks env (spec\<lparr>sp_Metrics := m\<rparr>) = identity_checks env spec"
  "identity_checks env (spec\<lparr>sp_PromotionThresholds := p\<rparr>) = identity_checks env spec"
  "identity_checks env (spec\<lparr>sp_RollbackThresholds := p\<rparr>) = identity_checks env spec"
  "identity_checks env (spec\<lparr>sp_MLRequirements := l\<rparr>) = identity_checks env spec"
  "identity_checks env (spec\<lparr>sp_AllowedTuning := t\<rparr>) = identity_checks env spec"
  by (simp_all add: identity_checks_def)

lemma holdout_stable [simp]:
  "validateConfirmatoryHoldout env (spec\<lparr>sp_Metrics := m\<rparr>) = validateConfirmatoryHoldout env spec"
  "validateConfirmatoryHoldout env (spec\<lparr>sp_PromotionThresholds := p\<rparr>) = validateConfirmatoryHoldout env spec"
  "validateConfirmatoryHoldout env (spec\<lparr>sp_RollbackThresholds := p\<rparr>) = validateConfirmatoryHoldout env spec"
  "validateConfirmatoryHoldout env (spec\<lparr>sp_MLRequirements := l\<rparr>) = validateConfirmatoryHoldout env spec"
  "validateConfirmatoryHoldout env (spec\<lparr>sp_AllowedTuning := t\<rparr>) = validateConfirmatoryHoldout env spec"
  by (simp_all add: validateConfirmatoryHoldout_def cong: option.case_cong)

lemma design_checks_stable [simp]:
  "(m = []) = (sp_Metrics spec = []) \<Longrightarrow> design_checks env (spec\<lparr>sp_Metrics := m\<rparr>) = design_checks env spec"
  "(p = []) = (sp_PromotionThresholds spec = []) \<Longrightarrow>
     design_checks env (spec\<lparr>sp_PromotionThresholds := p\<rparr>) = design_checks env spec"
  "(p = []) = (sp_RollbackThresholds spec = []) \<Longrightarrow>
     design_checks env (spec\<lparr>sp_RollbackThresholds := p\<rparr>) = design_checks env spec"
  "design_checks env (spec\<lparr>sp_MLRequirements := l\<rparr>) = design_checks env spec"
  "design_checks env (spec\<lparr>sp_AllowedTuning := t\<rparr>) = design_checks env spec"
  by (simp_all add: design_checks_def)

lemma confirmatory_checks_stable [simp]:
  "confirmatory_checks (spec\<lparr>sp_PromotionThresholds := p\<rparr>) = confirmatory_checks spec"
  "confirmatory_checks (spec\<lparr>sp_RollbackThresholds := p\<rparr>) = confirmatory_checks spec"
  "confirmatory_checks (spec\<lparr>sp_MLRequirements := l\<rparr>) = confirmatory_checks spec"
  "confirmatory_checks (spec\<lparr>sp_AllowedTuning := t\<rparr>) = confirmatory_checks spec"
  by (simp_all add: confirmatory_checks_def elapsed_of_def)

lemma model_authority_stable [simp]:
  "ValidateModelAuthority a (spec\<lparr>sp_PromotionThresholds := p\<rparr>) = ValidateModelAuthority a spec"
  "ValidateModelAuthority a (spec\<lparr>sp_RollbackThresholds := p\<rparr>) = ValidateModelAuthority a spec"
  "ValidateModelAuthority a (spec\<lparr>sp_MLRequirements := l\<rparr>) = ValidateModelAuthority a spec"
  "ValidateModelAuthority a (spec\<lparr>sp_AllowedTuning := t\<rparr>) = ValidateModelAuthority a spec"
  by (simp_all add: ValidateModelAuthority_def)

lemma override_stable [simp]:
  "override_error (spec\<lparr>sp_PromotionThresholds := p\<rparr>) = override_error spec"
  "override_error (spec\<lparr>sp_RollbackThresholds := p\<rparr>) = override_error spec"
  "override_error (spec\<lparr>sp_MLRequirements := l\<rparr>) = override_error spec"
  "override_error (spec\<lparr>sp_AllowedTuning := t\<rparr>) = override_error spec"
  by (simp_all add: override_error_def cong: option.case_cong)

lemma CanonicalManifestSpec_Inr:
  assumes "CanonicalManifestSpec env spec0 = Inr (c, n)"
  obtains s1 s2 s3 s4 tuning where
    "identity_checks env (default_schema spec0) = None" and "s1 = default_family env (default_schema spec0)"
    and "design_checks env s1 = None" and "sorted_metrics s1 = Inr s2" and "confirmatory_checks s2 = None"
    and "s3 = zero_thresholds s2" and "gate_checks env s3 = None" and "model_stage s3 = Inr s4"
    and "override_error s4 = None" and "sorted_choices (sp_AllowedTuning s4) = Inr tuning"
    and "n = sort_thresholds (s4\<lparr>sp_AllowedTuning := tuning\<rparr>)"
    and "first_error operator_error (sp_PromotionThresholds n @ sp_RollbackThresholds n) = None"
    and "canonical_text env n = Inr (c, n)"
proof -
  have same: "t = (c, n) \<Longrightarrow> canonical_text env s = Inr t \<Longrightarrow> s = n" for s t
    by (auto simp: canonical_text_def split: sum.splits if_splits)
  show thesis
    using assms that same unfolding CanonicalManifestSpec_def Let_def and_then_eq_Inr checked_eq_Inr
    by (elim exE conjE) metis
qed

lemma sorted_metrics_Inr:
  "sorted_metrics spec = Inr r \<longleftrightarrow> (\<exists>m. sortedUnique (sp_Metrics spec) = Some m \<and> r = spec\<lparr>sp_Metrics := m\<rparr>)"
  by (auto simp: sorted_metrics_def split: option.splits)

lemma model_stage_Inr:
  assumes "model_stage spec = Inr r"
  obtains l where "r = spec\<lparr>sp_MLRequirements := l\<rparr>"
    and "\<And>p q t. model_stage (r\<lparr>sp_PromotionThresholds := p, sp_RollbackThresholds := q, sp_AllowedTuning := t\<rparr>) =
           Inr (r\<lparr>sp_PromotionThresholds := p, sp_RollbackThresholds := q, sp_AllowedTuning := t\<rparr>)"
proof (cases "sp_Model spec")
  case None
  then have "r = spec" "sp_MLRequirements spec = None" using assms by (auto simp: model_stage_def split: option.splits)
  then show thesis using that [of None] None by (simp add: model_stage_def)
next
  case (Some model)
  then obtain l where l: "sp_MLRequirements spec = Some l" using assms by (auto simp: model_stage_def result_simps split: option.splits)
  then obtain l' where "NormalizeMLRequirements l = Inr l'" "r = spec\<lparr>sp_MLRequirements := Some l'\<rparr>"
    "ValidateModelAuthority model spec = None"
    "str_at (ap_Payload (sp_AuthorityPolicy spec)) ''model_version'' = mo_Version model"
    "str_at (ap_Payload (sp_AuthorityPolicy spec)) ''feature_schema'' = mo_FeatureSpec model"
    using assms Some by (auto simp: model_stage_def result_simps Let_def split: if_splits)
  then show thesis using that [of "Some l'"] Some NormalizeMLRequirements_again [of l l'] by (simp add: model_stage_def)
qed

section \<open>The canonical form again\<close>

lemma zeroed_sorted [simp]:
  "map zeroed_threshold (sort_key threshold_key (map zeroed_threshold ts)) = sort_key threshold_key (map zeroed_threshold ts)"
  by (rule map_idI) (auto simp: zeroed_threshold_def)

lemma default_family_eq: "default_family env spec = spec\<lparr>sp_FamilyID := sp_FamilyID (default_family env spec)\<rparr>"
  by (simp add: default_family_def)

lemma default_schema_known:
  assumes "sp_SchemaVersion spec = ManifestSchemaVersion"
  shows "default_schema spec = spec"
proof -
  have "trim_space ManifestSchemaVersion = ManifestSchemaVersion" "ManifestSchemaVersion \<noteq> ''''" by code_simp+
  then show ?thesis using assms by (simp add: default_schema_def)
qed

lemma choices_error_None:
  "(case e of (key, choices) \<Rightarrow> failure (trim_space key = '''' \<or> choices = [] \<or> 64 < length choices) x) = None \<longleftrightarrow> choices_ok e"
  by (cases e) (auto simp: choices_ok_def)

definition bounded_collections :: "ManifestSpec \<Rightarrow> bool" where
  "bounded_collections spec \<longleftrightarrow> length (sp_Metrics spec) \<le> 128 \<and> length (sp_PromotionThresholds spec) \<le> 128
     \<and> length (sp_RollbackThresholds spec) \<le> 128 \<and> length (sp_AllowedTuning spec) \<le> 64
     \<and> length (ri_Args (sp_Reproduce spec)) \<le> 64 \<and> length (sp_ExecutionSemantics spec) \<le> 128
     \<and> length (sp_RequiredElapsed spec) \<le> 16"

lemma gate_checks_None:
  "gate_checks env spec = None \<longleftrightarrow>
     gate_errors env (sp_Metrics spec) [] (sp_PromotionThresholds spec @ sp_RollbackThresholds spec) = None \<and>
     bounded_collections spec \<and> sp_AllowedTuning spec \<noteq> [] \<and> (\<forall>e \<in> set (sp_AllowedTuning spec). choices_ok e) \<and>
     ValidateFolds (sp_Folds spec) (sp_Interval spec) (sq_MinFolds (sp_Samples spec)) = None \<and>
     (sp_StudyType spec = ''confirmatory'' \<longrightarrow> length (sp_FoldSourceJobIDs spec) = length (sp_Folds spec) \<and>
        job_errors [] (sp_FoldSourceJobIDs spec) = None)"
  unfolding gate_checks_def first_failure_None choices_error_None bounded_collections_def
  by (simp add: choices_error_None not_less del: gate_errors.simps job_errors.simps)

lemma gate_errors_sorted:
  assumes "gate_errors env ms [] (ps @ rs) = None"
  shows "gate_errors env ms [] (sort_key k ps @ sort_key k' rs) = None"
proof -
  have "mset (map (gate_key env) (sort_key k ps @ sort_key k' rs)) = mset (map (gate_key env) (ps @ rs))" by simp
  then have "distinct (map (gate_key env) (sort_key k ps @ sort_key k' rs)) = distinct (map (gate_key env) (ps @ rs))"
    by (rule mset_eq_imp_distinct_iff)
  then show ?thesis using assms unfolding gate_errors_None by simp
qed

lemma gate_checks_stable:
  assumes "gate_checks env spec = None" and "sorted_choices (sp_AllowedTuning spec) = Inr t"
  shows "gate_checks env (spec\<lparr>sp_PromotionThresholds := sort_key k (sp_PromotionThresholds spec),
    sp_RollbackThresholds := sort_key k' (sp_RollbackThresholds spec), sp_MLRequirements := l, sp_AllowedTuning := t\<rparr>) = None"
proof -
  have tuning: "(\<forall>e \<in> set t. choices_ok e) = (\<forall>e \<in> set (sp_AllowedTuning spec). choices_ok e)"
    using sorted_choices_ok [OF assms(2)] .
  have keys: "map fst t = map fst (sp_AllowedTuning spec)" by (rule sorted_choices_keys [OF assms(2)])
  then have len: "length t = length (sp_AllowedTuning spec)" by (rule map_eq_imp_length_eq)
  then have "(t = []) = (sp_AllowedTuning spec = [])" by (simp flip: length_0_conv)
  then show ?thesis
    using assms(1) tuning len unfolding gate_checks_None bounded_collections_def by (simp add: gate_errors_sorted)
qed

lemma canonical_again:
  assumes "CanonicalManifestSpec env spec0 = Inr (c, n)"
  shows "CanonicalManifestSpec env n = Inr (c, n)"
proof -
  obtain s1 s2 s3 s4 tuning where stages: "identity_checks env (default_schema spec0) = None"
    "s1 = default_family env (default_schema spec0)" "design_checks env s1 = None" "sorted_metrics s1 = Inr s2"
    "confirmatory_checks s2 = None" "s3 = zero_thresholds s2" "gate_checks env s3 = None" "model_stage s3 = Inr s4"
    "override_error s4 = None" "sorted_choices (sp_AllowedTuning s4) = Inr tuning"
    "n = sort_thresholds (s4\<lparr>sp_AllowedTuning := tuning\<rparr>)"
    "first_error operator_error (sp_PromotionThresholds n @ sp_RollbackThresholds n) = None"
    "canonical_text env n = Inr (c, n)"
    by (rule CanonicalManifestSpec_Inr [OF assms])
  obtain m where m: "sortedUnique (sp_Metrics s1) = Some m" "s2 = s1\<lparr>sp_Metrics := m\<rparr>" using stages(4) sorted_metrics_Inr by blast
  obtain l where l: "s4 = s3\<lparr>sp_MLRequirements := l\<rparr>"
    and model: "\<And>p q t. model_stage (s4\<lparr>sp_PromotionThresholds := p, sp_RollbackThresholds := q, sp_AllowedTuning := t\<rparr>) =
      Inr (s4\<lparr>sp_PromotionThresholds := p, sp_RollbackThresholds := q, sp_AllowedTuning := t\<rparr>)"
    using model_stage_Inr [OF stages(8)] by metis
  define P where "P = sort_key threshold_key (map zeroed_threshold (sp_PromotionThresholds s1))"
  define R where "R = sort_key threshold_key (map zeroed_threshold (sp_RollbackThresholds s1))"
  have n: "n = s1\<lparr>sp_Metrics := m, sp_PromotionThresholds := P, sp_RollbackThresholds := R, sp_MLRequirements := l,
    sp_AllowedTuning := tuning\<rparr>"
    by (simp add: stages(11) l stages(6) zero_thresholds_def m(2) sort_thresholds_def P_def R_def)
  have s1: "s1 = (default_schema spec0)\<lparr>sp_FamilyID := sp_FamilyID s1\<rparr>" using default_family_eq stages(2) by simp
  have identity: "identity_checks env n = None" unfolding n by (subst s1) (simp add: stages(1))
  have schema: "default_schema n = n" using identity by (simp add: default_schema_known identity_checks_def)
  have "sp_FamilyID n \<noteq> ''''" using stages(3) by (auto simp: n design_checks_def)
  then have family: "default_family env n = n" by (simp add: default_family_def)
  have "sp_Metrics s1 \<noteq> []" "sp_PromotionThresholds s1 \<noteq> []" "sp_RollbackThresholds s1 \<noteq> []"
    using stages(3) by (simp_all add: design_checks_def)
  then have design: "design_checks env n = None"
    using stages(3) m(1) by (simp add: n P_def R_def sortedUnique_Some sort_key_Nil_iff)
  have metrics: "sorted_metrics n = Inr n" using sortedUnique_again [OF m(1)] by (simp add: n sorted_metrics_Inr)
  have confirm: "confirmatory_checks n = None" using stages(5) by (simp add: n m(2))
  have zero: "zero_thresholds n = n" by (simp add: n zero_thresholds_def P_def R_def)
  have tuning: "sorted_choices (sp_AllowedTuning s3) = Inr tuning" using stages(10) by (simp add: l)
  have gate: "gate_checks env n = None"
    using gate_checks_stable [OF stages(7) tuning, of l threshold_key threshold_key]
    by (simp add: n stages(6) zero_thresholds_def m(2) P_def R_def)
  have "s4\<lparr>sp_PromotionThresholds := P, sp_RollbackThresholds := R, sp_AllowedTuning := tuning\<rparr> = n"
    by (rule ManifestSpec.equality) (simp_all add: n l stages(6) zero_thresholds_def m(2))
  then have model: "model_stage n = Inr n" using model [where p = P and q = R and t = tuning] by simp
  have "override_error n = override_error s4" by (simp add: n l stages(6) zero_thresholds_def m(2))
  then have override: "override_error n = None" by (simp add: stages(9))
  have choices: "sorted_choices (sp_AllowedTuning n) = Inr tuning" using sorted_choices_again [OF tuning] by (simp add: n)
  have sorted: "sort_thresholds (n\<lparr>sp_AllowedTuning := tuning\<rparr>) = n" by (simp add: n sort_thresholds_def P_def R_def)
  show ?thesis
    by (simp add: CanonicalManifestSpec_def Let_def schema identity family design metrics confirm zero gate model override
      choices sorted stages(12,13) del: first_error_None)
qed

end
