(* ===== verification/Fold_Properties.thy ===== *)
theory Fold_Properties
  imports Study_Samples Manifest_Laws
begin

text \<open>
  What a sealed manifest and the split of its folds guarantee: \<open>split_samples_Inr\<close> computes the five parts of a split as
  filters of the ordered samples, \<open>fold_errors_None\<close> what validated folds satisfy; together no information of a training
  or validation sample reaches into what is evaluated after it.
\<close>

section \<open>Sealed manifests\<close>

lemma NewManifest_Inr:
  assumes "NewManifest env spec t = Inr m"
  obtains c where "CanonicalManifestSpec env spec = Inr (c, em_Spec m)" and "em_ContentID m = digest env c"
    and "em_ContentDigest m = digest env c" and "em_CreatedAt m = t div 1000 * 1000"
    and "em_ID m = record_id env (digest env c) (em_CreatedAt m)"
  using assms by (auto simp: NewManifest_def result_simps Let_def split: if_splits)

lemma sealed_folds:
  assumes "CanonicalManifestSpec env spec0 = Inr (c, n)"
  shows "ValidateFolds (sp_Folds n) (sp_Interval n) (sq_MinFolds (sp_Samples n)) = None" and "0 \<le> sp_Purge n" and "0 \<le> sp_Embargo n"
    and "0 \<le> sp_FeatureHorizon n" and "0 < sp_LabelHorizon n"
proof -
  obtain s1 s2 s3 s4 tuning where stages: "design_checks env s1 = None" "sorted_metrics s1 = Inr s2"
    "s3 = zero_thresholds s2" "gate_checks env s3 = None" "model_stage s3 = Inr s4"
    "n = sort_thresholds (s4\<lparr>sp_AllowedTuning := tuning\<rparr>)"
    using CanonicalManifestSpec_Inr [OF assms] by metis
  obtain m where s2: "s2 = s1\<lparr>sp_Metrics := m\<rparr>" using stages(2) sorted_metrics_Inr by blast
  obtain l where l: "s4 = s3\<lparr>sp_MLRequirements := l\<rparr>" using model_stage_Inr [OF stages(5)] by metis
  have same: "sp_Folds n = sp_Folds s3" "sp_Interval n = sp_Interval s3" "sp_Samples n = sp_Samples s3" "sp_Purge n = sp_Purge s1"
    "sp_Embargo n = sp_Embargo s1" "sp_FeatureHorizon n = sp_FeatureHorizon s1" "sp_LabelHorizon n = sp_LabelHorizon s1"
    by (simp_all add: stages(6) sort_thresholds_def l stages(3) zero_thresholds_def s2)
  show "ValidateFolds (sp_Folds n) (sp_Interval n) (sq_MinFolds (sp_Samples n)) = None"
    using stages(4) unfolding same gate_checks_None by blast
  show "0 \<le> sp_Purge n" "0 \<le> sp_Embargo n" "0 \<le> sp_FeatureHorizon n" "0 < sp_LabelHorizon n"
    using stages(1) unfolding same design_checks_def by simp_all
qed

text \<open>C28: A sealed manifest verifies: its canonical form is a fixed point, so recomputing the content digest and the record
  identity of what NewManifest returned, as every load from the database does, finds them unchanged.\<close>

theorem sealed_manifest_verifies:
  assumes "NewManifest env spec t = Inr m"
  shows "manifest_Verify env m = None \<and> CanonicalManifestSpec env (em_Spec m) = CanonicalManifestSpec env spec"
proof -
  obtain c where c: "CanonicalManifestSpec env spec = Inr (c, em_Spec m)" "em_ContentID m = digest env c"
    "em_ContentDigest m = digest env c" "em_ID m = record_id env (digest env c) (em_CreatedAt m)"
    by (rule NewManifest_Inr [OF assms])
  note again = canonical_again [OF c(1)]
  show ?thesis using c by (simp add: manifest_Verify_def again Let_def)
qed

theorem sealed_manifest_verifies_witness: "manifest_Verify study_sample_env sealed_sample = None"
  using sealed_manifest_verifies [OF sample_is_sealed] by simp

section \<open>Validated folds\<close>

definition fold_ok :: "Interval \<Rightarrow> Fold \<Rightarrow> bool" where
  "fold_ok interval w \<longleftrightarrow> iv_Valid (fo_Train w) \<and> iv_Valid (fo_Validation w) \<and> iv_Valid (fo_Test w)
     \<and> iv_Start interval \<le> iv_Start (fo_Train w) \<and> iv_End (fo_Train w) \<le> iv_Start (fo_Validation w)
     \<and> iv_End (fo_Validation w) \<le> iv_Start (fo_Test w) \<and> iv_End (fo_Test w) \<le> iv_End interval"

lemma fold_errors_None:
  assumes "fold_errors interval i prior ws = None"
  shows "\<forall>w \<in> set ws. fold_ok interval w"
    and "0 < iv_Start interval \<Longrightarrow> sorted_wrt (\<lambda>v w. iv_End (fo_Test v) \<le> iv_Start (fo_Test w)) ws"
    and "0 < iv_Start interval \<Longrightarrow> prior \<noteq> 0 \<Longrightarrow> \<forall>w \<in> set ws. prior \<le> iv_Start (fo_Test w)"
proof -
  show "\<forall>w \<in> set ws. fold_ok interval w"
    using assms by (induction ws arbitrary: i prior) (auto simp: fold_ok_def not_less split: if_splits)
  have "0 < iv_Start interval \<Longrightarrow> sorted_wrt (\<lambda>v w. iv_End (fo_Test v) \<le> iv_Start (fo_Test w)) ws
      \<and> (prior \<noteq> 0 \<longrightarrow> (\<forall>w \<in> set ws. prior \<le> iv_Start (fo_Test w)))"
    using assms
  proof (induction ws arbitrary: i prior)
    case (Cons w ws)
    have w: "fold_ok interval w" and rest: "fold_errors interval (Suc i) (iv_End (fo_Test w)) ws = None"
      and prior: "prior \<noteq> 0 \<longrightarrow> prior \<le> iv_Start (fo_Test w)"
      using Cons.prems(2) by (auto simp: fold_ok_def not_less split: if_splits)
    have "iv_Start (fo_Test w) < iv_End (fo_Test w)" "0 < iv_End (fo_Test w)"
      using w Cons.prems(1) by (auto simp: fold_ok_def iv_Valid_def)
    then show ?case using Cons.IH [OF Cons.prems(1) rest] prior by fastforce
  qed simp
  then show "0 < iv_Start interval \<Longrightarrow> sorted_wrt (\<lambda>v w. iv_End (fo_Test v) \<le> iv_Start (fo_Test w)) ws"
    "0 < iv_Start interval \<Longrightarrow> prior \<noteq> 0 \<Longrightarrow> \<forall>w \<in> set ws. prior \<le> iv_Start (fo_Test w)" by blast+
qed

section \<open>The parts of a split\<close>

definition in_train :: "Fold \<Rightarrow> Sample \<Rightarrow> bool" where
  "in_train w s \<longleftrightarrow> interval_contains (fo_Train w) (sm_ObservedAt s)"

definition in_validation :: "Fold \<Rightarrow> Sample \<Rightarrow> bool" where
  "in_validation w s \<longleftrightarrow> \<not> in_train w s \<and> interval_contains (fo_Validation w) (sm_ObservedAt s)"

definition in_test :: "Fold \<Rightarrow> Sample \<Rightarrow> bool" where
  "in_test w s \<longleftrightarrow> \<not> in_train w s \<and> \<not> in_validation w s \<and> interval_contains (fo_Test w) (sm_ObservedAt s)"

definition early :: "Fold \<Rightarrow> duration \<Rightarrow> Sample \<Rightarrow> bool" where
  "early w embargo s \<longleftrightarrow> in_validation w s \<and> sm_ObservedAt s < iv_End (fo_Train w) + embargo
     \<or> in_test w s \<and> sm_ObservedAt s < iv_End (fo_Validation w) + embargo"

definition late :: "Fold \<Rightarrow> duration \<Rightarrow> duration \<Rightarrow> Sample \<Rightarrow> bool" where
  "late w purge embargo s \<longleftrightarrow> in_train w s \<and> reaches s (iv_Start (fo_Validation w) - purge)
     \<or> in_validation w s \<and> \<not> early w embargo s \<and> reaches s (iv_Start (fo_Test w) - purge)"

lemma split_samples_Inr:
  assumes "split_samples w purge embargo ss r = Inr r'"
  shows "sl_Train r' = sl_Train r @ filter (\<lambda>s. in_train w s \<and> \<not> late w purge embargo s) ss"
    and "sl_Validation r' = sl_Validation r @ filter (\<lambda>s. in_validation w s \<and> \<not> early w embargo s \<and> \<not> late w purge embargo s) ss"
    and "sl_Test r' = sl_Test r @ filter (\<lambda>s. in_test w s \<and> \<not> early w embargo s) ss"
    and "sl_Purged r' = sl_Purged r @ map sm_ID (filter (late w purge embargo) ss)"
    and "sl_Embargoed r' = sl_Embargoed r @ map sm_ID (filter (early w embargo) ss)"
  using assms
  by (induction ss arbitrary: r)
    (auto simp: place_sample_def in_train_def in_validation_def in_test_def early_def late_def split: if_splits)

lemma SplitFold_Inr:
  assumes "SplitFold samples w purge embargo = Inr r"
  shows "set (sl_Train r) = {s \<in> set samples. in_train w s \<and> \<not> late w purge embargo s}"
    and "set (sl_Validation r) = {s \<in> set samples. in_validation w s \<and> \<not> early w embargo s \<and> \<not> late w purge embargo s}"
    and "set (sl_Test r) = {s \<in> set samples. in_test w s \<and> \<not> early w embargo s}"
    and "set (sl_Purged r) = sm_ID ` {s \<in> set samples. late w purge embargo s}"
    and "set (sl_Embargoed r) = sm_ID ` {s \<in> set samples. early w embargo s}"
  using split_samples_Inr [OF assms [unfolded SplitFold_def]] by (auto simp: empty_split_def)

lemma train_bounds:
  assumes "SplitFold samples w purge embargo = Inr r" and "s \<in> set (sl_Train r)"
  shows "sm_FeatureEnd s + purge \<le> iv_Start (fo_Validation w)" and "sm_LabelEnd s + purge \<le> iv_Start (fo_Validation w)"
  using assms(2) unfolding SplitFold_Inr(1) [OF assms(1)] late_def reaches_def by auto

lemma validation_bounds:
  assumes "SplitFold samples w purge embargo = Inr r" and "s \<in> set (sl_Validation r)"
  shows "sm_FeatureEnd s + purge \<le> iv_Start (fo_Test w)" and "sm_LabelEnd s + purge \<le> iv_Start (fo_Test w)"
    and "iv_Start (fo_Validation w) \<le> sm_ObservedAt s" and "iv_End (fo_Train w) + embargo \<le> sm_ObservedAt s"
  using assms(2) unfolding SplitFold_Inr(2) [OF assms(1)] late_def early_def reaches_def in_validation_def interval_contains_def
  by auto

lemma test_bounds:
  assumes "SplitFold samples w purge embargo = Inr r" and "t \<in> set (sl_Test r)"
  shows "iv_Start (fo_Test w) \<le> sm_ObservedAt t" and "sm_ObservedAt t < iv_End (fo_Test w)"
    and "iv_End (fo_Validation w) + embargo \<le> sm_ObservedAt t"
  using assms(2) unfolding SplitFold_Inr(3) [OF assms(1)] early_def in_test_def interval_contains_def by auto


lemma sealed_sample_fields:
  "sp_Folds (em_Spec sealed_sample) = [sample_fold 0, sample_fold 1, sample_fold 2]" "sp_Purge (em_Spec sealed_sample) = 1"
  "sp_Embargo (em_Spec sealed_sample) = 2" "iv_Start (sp_Interval (em_Spec sealed_sample)) = 1000"
  by (simp_all add: sealed_sample_def sealed_spec_def sample_spec_def)


text \<open>A split loses nothing and uses nothing twice: of the samples observed in a fold's windows, each is in exactly one of
  training, validation and test set, purged, or embargoed, and the three sets are in the order of observation.\<close>

theorem split_partitions:
  assumes "SplitFold samples w purge embargo = Inr r"
  shows "mset (map sm_ID (filter (\<lambda>s. in_train w s \<or> in_validation w s \<or> in_test w s) samples)) =
      mset (map sm_ID (sl_Train r @ sl_Validation r @ sl_Test r)) + mset (sl_Purged r @ sl_Embargoed r) \<and>
    sorted (map sm_ObservedAt (sl_Train r)) \<and> sorted (map sm_ObservedAt (sl_Validation r)) \<and>
    sorted (map sm_ObservedAt (sl_Test r))"
proof -
  let ?ss = "sort_key (\<lambda>s. (sm_ObservedAt s, sm_ID s)) samples"
  note r = split_samples_Inr [OF assms [unfolded SplitFold_def], unfolded empty_split_def, simplified]
  have parts: "mset (map sm_ID (filter (\<lambda>s. in_train w s \<or> in_validation w s \<or> in_test w s) ss)) =
      mset (map sm_ID (filter (\<lambda>s. in_train w s \<and> \<not> late w purge embargo s) ss @
        filter (\<lambda>s. in_validation w s \<and> \<not> early w embargo s \<and> \<not> late w purge embargo s) ss @
        filter (\<lambda>s. in_test w s \<and> \<not> early w embargo s) ss)) +
      mset (map sm_ID (filter (late w purge embargo) ss) @ map sm_ID (filter (early w embargo) ss))" for ss
    by (induction ss) (auto simp: late_def early_def in_validation_def in_test_def)
  have "mset (filter P ?ss) = mset (filter P samples)" for P by (simp add: mset_filter)
  then have "mset (map sm_ID (filter P ?ss)) = mset (map sm_ID (filter P samples))" for P by (metis mset_map)
  moreover have "sorted (map sm_ObservedAt (filter P ?ss))" for P
  proof -
    have "sorted (map (\<lambda>s. (sm_ObservedAt s, sm_ID s)) (filter P ?ss))" by (rule sorted_filter) simp
    then show ?thesis by (auto simp: sorted_map elim!: sorted_wrt_mono_rel [rotated])
  qed
  ultimately show ?thesis using parts [of ?ss] unfolding r by simp
qed

theorem split_partitions_witness:
  "mset (map sm_ID (filter (\<lambda>s. in_train (sample_fold 0) s \<or> in_validation (sample_fold 0) s \<or> in_test (sample_fold 0) s) observed)) =
   {#''1003'', ''1015'', ''1025'', ''1008'', ''1011''#}"
proof -
  have ids: "map sm_ID (sl_Train first_split @ sl_Validation first_split @ sl_Test first_split) = [''1003'', ''1015'', ''1025'']"
    "sl_Purged first_split @ sl_Embargoed first_split = [''1008'', ''1011'']" by code_simp+
  show ?thesis using split_partitions [OF first_split_done] unfolding ids by simp
qed

text \<open>The test windows of an experiment stay untouched: no sample is tested in two folds, and the test samples of an earlier
  fold are all observed before those of a later one.\<close>

theorem tests_stay_apart:
  assumes "NewManifest env spec t0 = Inr m" and "0 < iv_Start (sp_Interval (em_Spec m))"
    and "i < j" and "j < length (sp_Folds (em_Spec m))"
    and "SplitFold samples (sp_Folds (em_Spec m) ! i) purge embargo = Inr r"
    and "SplitFold samples' (sp_Folds (em_Spec m) ! j) purge' embargo' = Inr r'"
  shows "\<forall>s \<in> set (sl_Test r). \<forall>t \<in> set (sl_Test r'). sm_ObservedAt s < sm_ObservedAt t"
proof -
  obtain c where c: "CanonicalManifestSpec env spec = Inr (c, em_Spec m)" by (rule NewManifest_Inr [OF assms(1)])
  have "fold_errors (sp_Interval (em_Spec m)) 0 0 (sp_Folds (em_Spec m)) = None"
    using sealed_folds(1) [OF c] by (auto simp: ValidateFolds_def Let_def split: if_splits)
  then have "sorted_wrt (\<lambda>v w. iv_End (fo_Test v) \<le> iv_Start (fo_Test w)) (sp_Folds (em_Spec m))"
    using fold_errors_None(2) assms(2) by blast
  then have "iv_End (fo_Test (sp_Folds (em_Spec m) ! i)) \<le> iv_Start (fo_Test (sp_Folds (em_Spec m) ! j))"
    using assms(3,4) by (simp add: sorted_wrt_iff_nth_less)
  then show ?thesis using test_bounds(2) [OF assms(5)] test_bounds(1) [OF assms(6)] by force
qed

theorem tests_stay_apart_witness:
  "sl_Test first_split = [sample_at 1025] \<and> sl_Test second_split = [sample_at 1035] \<and>
   sm_ObservedAt (sample_at 1025) < sm_ObservedAt (sample_at 1035)"
  using tests_stay_apart [OF sample_is_sealed, of 0 1 observed 1 2 first_split observed 1 2 second_split]
    first_split_done second_split_done
  by (simp add: sealed_sample_fields first_split_def second_split_def)

end
