(* ===== verification/Governance.thy ===== *)
theory Governance
  imports Manifests
begin

text \<open>
  \<^verbatim>\<open>internal/governance/service.go\<close>: which rollout state a strategy or model may hold. An approval binds an experiment, its
  evidence, a target state and the source deployment; a transition moves the deployment of a context one step up the
  ladder, on a matching approval; monitoring evidence feeds the elapsed-time gates and the rollback. The state \<open>governance\<close>
  holds the four tables of \<^verbatim>\<open>database/models.go\<close> and the settings the model authority is projected to.
  The unique keys, checks, foreign keys and the deployment trigger are those of \<^verbatim>\<open>database/migrations.go\<close>. PostgreSQL's
  failures, the clock, the validation repository's answers, JSON and time columns as the database returns them are functions
  of \<open>gov_env\<close>. A service call reads the clock once.
\<close>

section \<open>Rows\<close>

record GovernanceApproval =
  ga_ID :: string
  ga_IdempotencyKey :: string
  ga_ExperimentID :: string
  ga_EvidenceID :: string
  ga_TargetState :: string
  ga_ArtifactVersion :: string
  ga_PolicyVersion :: string
  ga_Approver :: string
  ga_Reason :: string
  ga_ApprovedAt :: time
  ga_ContentDigest :: string
  ga_SourceState :: string
  ga_SourceActivatedAt :: time
  ga_AuthorityPolicyDigest :: string
  ga_EvidenceDigest :: string
  ga_ExpiresAt :: time

record GovernanceDeployment =
  gd_ContextKey :: string
  gd_ExperimentID :: string
  gd_EvidenceID :: string
  gd_State :: string
  gd_ArtifactVersion :: string
  gd_PolicyVersion :: string
  gd_FallbackVersion :: string
  gd_ActivatedAt :: time
  gd_UpdatedAt :: time
  gd_AuthorityPolicyJSON :: string
  gd_AuthorityPolicyDigest :: string
  gd_TransitionID :: string

record GovernanceTransition =
  gt_ID :: string
  gt_IdempotencyKey :: string
  gt_ContextKey :: string
  gt_ExperimentID :: string
  gt_EvidenceID :: string
  gt_ApprovalID :: "string option"
  gt_FromState :: string
  gt_ToState :: string
  gt_ArtifactVersion :: string
  gt_FallbackVersion :: string
  gt_Reason :: string
  gt_ContentDigest :: string
  gt_CreatedAt :: time
  gt_PolicyVersion :: string
  gt_AuthorityPolicyDigest :: string
  gt_ApprovalDigest :: string
  gt_EvidenceDigest :: string
  gt_MonitoringEvidenceID :: "string option"
  gt_MonitoringEvidenceDigest :: string
  gt_Actor :: string

record GovernanceMonitoringEvidence =
  gm_ID :: string
  gm_ContextKey :: string
  gm_ExperimentID :: string
  gm_DeploymentTransitionID :: string
  gm_AuthorityPolicyDigest :: string
  gm_ArtifactVersion :: string
  gm_WindowStart :: time
  gm_WindowEnd :: time
  gm_ExpectedObservations :: int
  gm_ObservedObservations :: int
  gm_MetricsJSON :: string
  gm_ContentDigest :: string
  gm_CreatedAt :: time

record governance =
  gv_approvals :: "GovernanceApproval list"
  gv_deployments :: "GovernanceDeployment list"
  gv_transitions :: "GovernanceTransition list"
  gv_monitors :: "GovernanceMonitoringEvidence list"
  gv_settings :: "(string, string) gomap"

section \<open>What validation answers\<close>

text \<open>The evidence records as far as governance reads them; the folds are the JSON value they are digested as.\<close>

record WalkForwardResult =
  wf_SchemaVersion :: string
  wf_ExperimentID :: string
  wf_Folds :: json
  wf_Passed :: bool

record PersistedEvidence =
  pe_ID :: string
  pe_ExperimentID :: string
  pe_Status :: string
  pe_Result :: "WalkForwardResult option"
  pe_CreatedAt :: time

record MLProvenance =
  mp_ArtifactDigest :: string
  mp_TrainingManifestDigest :: string
  mp_BaselineStrategy :: VersionRef
  mp_BaselinePolicyDigest :: string
  mp_DatasetManifestDigest :: string

record ImmutableMLEvidence =
  me_ID :: string
  me_ExperimentID :: string
  me_FoldEvidenceDigest :: string
  me_Provenance :: MLProvenance
  me_Passed :: bool

section \<open>The environment\<close>

text \<open>A typed error of the package with its code and details, or an error of another package.\<close>

datatype gov_error =
    GovernanceError string string
  | GovernanceCause study_error

type_synonym 'a gresult = "gov_error + 'a"

record gov_env =
  ge_study :: study_env
  ge_connected :: bool
  ge_db :: "db_call \<Rightarrow> governance \<Rightarrow> ledger_error option"
  ge_clock :: time
  ge_LoadManifest :: "string \<Rightarrow> ExperimentManifest sresult"
  ge_LoadEvidence :: "string \<Rightarrow> PersistedEvidence sresult"
  ge_LoadMLEvidence :: "string \<Rightarrow> ImmutableMLEvidence sresult"
  ge_EvidenceDigest :: "string \<Rightarrow> string sresult"
  ge_timestamp :: "time \<Rightarrow> time"
  ge_jsonb :: "string \<Rightarrow> string"
  ge_UnmarshalPolicy :: "string \<Rightarrow> AuthorityPolicyEnvelope option"
  ge_MarshalMetrics :: "(string, float64) gomap option \<Rightarrow> string"
  ge_UnmarshalMetrics :: "string \<Rightarrow> (string, float64) gomap option"
  ge_Unmarshal :: "string \<Rightarrow> json option"

definition cause :: "'a sresult \<Rightarrow> 'a gresult" where
  "cause m = (case m of Inl e \<Rightarrow> Inl (GovernanceCause e) | Inr x \<Rightarrow> Inr x)"

definition db_cause :: "ledger_error \<Rightarrow> gov_error" where
  "db_cause e = GovernanceCause (StudyError e)"

definition gov_exec :: "gov_env \<Rightarrow> db_call \<Rightarrow> governance \<Rightarrow> unit gresult" where
  "gov_exec env call st = checked (map_option db_cause (ge_db env call st)) ()"

definition gov_first ::
  "gov_env \<Rightarrow> string \<Rightarrow> ('r \<Rightarrow> string) \<Rightarrow> ('r \<Rightarrow> bool) \<Rightarrow> 'r list \<Rightarrow> governance \<Rightarrow> 'r option gresult" where
  "gov_first env table key P rows st =
     and_then (gov_exec env (ReadCall table) st) (\<lambda>_. Inr (find P (sort_key key rows)))"

definition gov_write :: "gov_env \<Rightarrow> string \<Rightarrow> ledger_error option \<Rightarrow> governance \<Rightarrow> governance \<Rightarrow> governance gresult" where
  "gov_write env table violation st' st =
     and_then (gov_exec env (WriteCall table) st) (\<lambda>_. checked (map_option db_cause violation) st')"

definition gov_transaction ::
  "gov_env \<Rightarrow> (governance \<Rightarrow> ('a \<times> governance) gresult) \<Rightarrow> governance \<Rightarrow> 'a gresult \<times> governance" where
  "gov_transaction env body st =
     (case body st of
        Inl e \<Rightarrow> (Inl e, st)
      | Inr (x, st') \<Rightarrow> (case ge_db env CommitCall st' of Some e \<Rightarrow> (Inl (db_cause e), st) | None \<Rightarrow> (Inr x, st')))"

definition service_now :: "gov_env \<Rightarrow> time" where
  "service_now env = ge_clock env div 1000 * 1000"

definition string_or_null :: "string option \<Rightarrow> json" where
  "string_or_null v = (case v of None \<Rightarrow> JNull | Some s \<Rightarrow> JString s)"

definition stringValue :: "string option \<Rightarrow> string" where
  "stringValue v = (case v of None \<Rightarrow> '''' | Some s \<Rightarrow> s)"

section \<open>Principals\<close>

record Principal =
  pc_id :: string
  pc_capabilities :: "string list"
  pc_trusted :: bool

definition NewTrustedPrincipal :: "string \<Rightarrow> string list \<Rightarrow> Principal" where
  "NewTrustedPrincipal pid capabilities = \<lparr>pc_id = trim_space pid, pc_capabilities = capabilities, pc_trusted = True\<rparr>"

definition zero_Principal :: Principal where
  "zero_Principal = \<lparr>pc_id = '''', pc_capabilities = [], pc_trusted = False\<rparr>"

definition principal_Has :: "Principal \<Rightarrow> string \<Rightarrow> bool" where
  "principal_Has p capability \<longleftrightarrow> pc_trusted p \<and> capability \<in> set (pc_capabilities p)"

definition require_capability :: "Principal \<Rightarrow> string \<Rightarrow> gov_error option" where
  "require_capability p capability =
     (if \<not> pc_trusted p \<or> pc_id p = '''' then Some (GovernanceError ''governance_unauthorized'' ''trusted principal is required'')
      else if capability \<notin> set (pc_capabilities p)
      then Some (GovernanceError ''governance_unauthorized'' (''missing capability: '' @ capability))
      else None)"

section \<open>States\<close>

definition knownState :: "string \<Rightarrow> bool" where
  "knownState s \<longleftrightarrow> s \<in> {''research'', ''shadow'', ''paper'', ''limited_live'', ''full_live'', ''rollback''}"

definition next_state :: "string \<Rightarrow> string" where
  "next_state s = str_at [(''research'', ''shadow''), (''shadow'', ''paper''), (''paper'', ''limited_live''),
     (''limited_live'', ''full_live'')] s"

definition legal :: "string \<Rightarrow> string \<Rightarrow> bool" where
  "legal from target \<longleftrightarrow> (if from = '''' then target = ''research'' else next_state from = target)"

section \<open>Digests\<close>

definition approvalDigest :: "study_env \<Rightarrow> GovernanceApproval \<Rightarrow> string" where
  "approvalDigest w row = digest w (encoded w (JObject
     [(''idempotency_key'', JString (ga_IdempotencyKey row)), (''experiment_id'', JString (ga_ExperimentID row)),
      (''evidence_id'', JString (ga_EvidenceID row)), (''target_state'', JString (ga_TargetState row)),
      (''artifact_version'', JString (ga_ArtifactVersion row)), (''policy_version'', JString (ga_PolicyVersion row)),
      (''approver'', JString (ga_Approver row)), (''reason'', JString (ga_Reason row)),
      (''approved_at'', JString (se_RFC3339Nano w (ga_ApprovedAt row))), (''source_state'', JString (ga_SourceState row)),
      (''source_activated_at'', JString (se_RFC3339Nano w (ga_SourceActivatedAt row))),
      (''authority_policy_digest'', JString (ga_AuthorityPolicyDigest row)),
      (''evidence_digest'', JString (ga_EvidenceDigest row)),
      (''expires_at'', JString (se_RFC3339Nano w (ga_ExpiresAt row)))]))"

definition transitionDigest :: "study_env \<Rightarrow> GovernanceTransition \<Rightarrow> string" where
  "transitionDigest w row = digest w (encoded w (JObject
     [(''IdempotencyKey'', JString (gt_IdempotencyKey row)), (''ContextKey'', JString (gt_ContextKey row)),
      (''ExperimentID'', JString (gt_ExperimentID row)), (''EvidenceID'', JString (gt_EvidenceID row)),
      (''FromState'', JString (gt_FromState row)), (''ToState'', JString (gt_ToState row)),
      (''ArtifactVersion'', JString (gt_ArtifactVersion row)), (''PolicyVersion'', JString (gt_PolicyVersion row)),
      (''FallbackVersion'', JString (gt_FallbackVersion row)), (''Reason'', JString (gt_Reason row)),
      (''AuthorityPolicyDigest'', JString (gt_AuthorityPolicyDigest row)), (''ApprovalDigest'', JString (gt_ApprovalDigest row)),
      (''EvidenceDigest'', JString (gt_EvidenceDigest row)),
      (''MonitoringEvidenceDigest'', JString (gt_MonitoringEvidenceDigest row)), (''Actor'', JString (gt_Actor row)),
      (''ApprovalID'', string_or_null (gt_ApprovalID row)), (''MonitoringEvidenceID'', string_or_null (gt_MonitoringEvidenceID row)),
      (''CreatedAt'', JString (se_RFC3339Nano w (gt_CreatedAt row)))]))"

text \<open>\<^verbatim>\<open>monitoringDigest\<close> reads the metrics column as JSON, so the database's own spelling of it does not matter.\<close>

definition canonical_metrics :: "gov_env \<Rightarrow> string \<Rightarrow> string" where
  "canonical_metrics env metricsJSON =
     (case ge_Unmarshal env metricsJSON of
        None \<Rightarrow> metricsJSON
      | Some metrics \<Rightarrow>
          (case cd_Marshal (se_codec (ge_study env)) metrics of Inl _ \<Rightarrow> metricsJSON | Inr canonical \<Rightarrow> canonical))"

definition monitoringDigest :: "gov_env \<Rightarrow> GovernanceMonitoringEvidence \<Rightarrow> string" where
  "monitoringDigest env row = (let w = ge_study env in digest w (encoded w (JObject
     [(''ContextKey'', JString (gm_ContextKey row)), (''ExperimentID'', JString (gm_ExperimentID row)),
      (''DeploymentTransitionID'', JString (gm_DeploymentTransitionID row)),
      (''AuthorityPolicyDigest'', JString (gm_AuthorityPolicyDigest row)), (''ArtifactVersion'', JString (gm_ArtifactVersion row)),
      (''MetricsJSON'', JString (canonical_metrics env (gm_MetricsJSON row))),
      (''WindowStart'', JString (se_RFC3339Nano w (gm_WindowStart row))),
      (''WindowEnd'', JString (se_RFC3339Nano w (gm_WindowEnd row))),
      (''ExpectedObservations'', JNumber (big_string (gm_ExpectedObservations row))),
      (''ObservedObservations'', JNumber (big_string (gm_ObservedObservations row)))])))"

text \<open>\<^verbatim>\<open>row.ContentDigest = d; row.ID = hash([]byte(row.ContentDigest))\<close>, and the check of a stored row.\<close>

definition seal_approval :: "study_env \<Rightarrow> GovernanceApproval \<Rightarrow> GovernanceApproval" where
  "seal_approval w row =
     (let d = approvalDigest w row in row\<lparr>ga_ContentDigest := d, ga_ID := digest w d\<rparr>)"

definition seal_transition :: "study_env \<Rightarrow> GovernanceTransition \<Rightarrow> GovernanceTransition" where
  "seal_transition w row =
     (let d = transitionDigest w row in row\<lparr>gt_ContentDigest := d, gt_ID := digest w d\<rparr>)"

definition seal_monitor :: "gov_env \<Rightarrow> GovernanceMonitoringEvidence \<Rightarrow> GovernanceMonitoringEvidence" where
  "seal_monitor env row =
     (let d = monitoringDigest env row in row\<lparr>gm_ContentDigest := d, gm_ID := digest (ge_study env) d\<rparr>)"

definition approval_intact :: "study_env \<Rightarrow> GovernanceApproval \<Rightarrow> bool" where
  "approval_intact w row \<longleftrightarrow> ga_ContentDigest row = approvalDigest w row \<and> ga_ID row = digest w (ga_ContentDigest row)"

definition transition_intact :: "study_env \<Rightarrow> GovernanceTransition \<Rightarrow> bool" where
  "transition_intact w row \<longleftrightarrow> gt_ContentDigest row = transitionDigest w row \<and> gt_ID row = digest w (gt_ContentDigest row)"

definition monitor_intact :: "gov_env \<Rightarrow> GovernanceMonitoringEvidence \<Rightarrow> bool" where
  "monitor_intact env row \<longleftrightarrow>
     gm_ContentDigest row = monitoringDigest env row \<and> gm_ID row = digest (ge_study env) (gm_ContentDigest row)"

definition VerifyApproval :: "study_env \<Rightarrow> GovernanceApproval \<Rightarrow> gov_error option" where
  "VerifyApproval w row =
     failure (\<not> approval_intact w row) (GovernanceError ''governance_integrity_failure'' ''approval digest mismatch'')"

definition VerifyTransition :: "study_env \<Rightarrow> GovernanceTransition \<Rightarrow> gov_error option" where
  "VerifyTransition w row =
     failure (\<not> transition_intact w row) (GovernanceError ''governance_integrity_failure'' ''transition digest mismatch'')"

end
