(* ===== verification/Governance_Service.thy ===== *)
theory Governance_Service
  imports Governance
begin

text \<open>
  The operations of the governance service: \<open>Approve\<close>, \<open>Transition\<close>, \<open>Rollback\<close>, \<open>RecordMonitoringEvidence\<close> and the checks
  of stored rows. The constraints and defaults of the tables come first. A transition is one transaction under the context's
  advisory lock: replay, legality, approval, quarantine, elapsed evidence, the immutable row, the deployment, the model's
  projection; the definitions below are these parts in the order of the code.
\<close>

section \<open>Constraints\<close>

definition zero_digest :: string where
  "zero_digest = replicate 64 (CHR ''0'')"

text \<open>1970-01-01, the default of the time columns.\<close>

definition unix_epoch :: time where
  "unix_epoch = 62135596800 * 10 ^ 9"

text \<open>An insert: zero values take the column's default, which the row gets back; times are rounded by the database.\<close>

definition approval_defaults :: "GovernanceApproval \<Rightarrow> GovernanceApproval" where
  "approval_defaults row = row\<lparr>ga_SourceState := with_default (ga_SourceState row) ''research'',
     ga_SourceActivatedAt := (if ga_SourceActivatedAt row = 0 then unix_epoch else ga_SourceActivatedAt row),
     ga_AuthorityPolicyDigest := with_default (ga_AuthorityPolicyDigest row) zero_digest,
     ga_EvidenceDigest := with_default (ga_EvidenceDigest row) zero_digest,
     ga_ExpiresAt := (if ga_ExpiresAt row = 0 then unix_epoch else ga_ExpiresAt row)\<rparr>"

definition stored_approval :: "gov_env \<Rightarrow> GovernanceApproval \<Rightarrow> GovernanceApproval" where
  "stored_approval env row = row\<lparr>ga_ApprovedAt := ge_timestamp env (ga_ApprovedAt row),
     ga_SourceActivatedAt := ge_timestamp env (ga_SourceActivatedAt row), ga_ExpiresAt := ge_timestamp env (ga_ExpiresAt row)\<rparr>"

definition approval_violation :: "GovernanceApproval list \<Rightarrow> GovernanceApproval \<Rightarrow> ledger_error option" where
  "approval_violation rows r =
     (if ga_ID r \<in> ga_ID ` set rows then Some (unique_violation ''governance_approvals_pkey'')
      else if \<not> knownState (ga_TargetState r) \<or> length (ga_ID r) \<noteq> 64 \<or> length (ga_ContentDigest r) \<noteq> 64
      then Some (PgError ''23514'' ''governance_approval_state_check'')
      else None)"

definition transition_defaults :: "GovernanceTransition \<Rightarrow> GovernanceTransition" where
  "transition_defaults row = row\<lparr>gt_PolicyVersion := with_default (gt_PolicyVersion row) ''legacy-unverified'',
     gt_AuthorityPolicyDigest := with_default (gt_AuthorityPolicyDigest row) zero_digest,
     gt_EvidenceDigest := with_default (gt_EvidenceDigest row) zero_digest, gt_Actor := with_default (gt_Actor row) ''system''\<rparr>"

definition stored_transition :: "gov_env \<Rightarrow> GovernanceTransition \<Rightarrow> GovernanceTransition" where
  "stored_transition env row = row\<lparr>gt_CreatedAt := ge_timestamp env (gt_CreatedAt row)\<rparr>"

definition transition_violation :: "governance \<Rightarrow> GovernanceTransition \<Rightarrow> ledger_error option" where
  "transition_violation st r =
     (if gt_ID r \<in> gt_ID ` set (gv_transitions st) then Some (unique_violation ''governance_transitions_pkey'')
      else if gt_IdempotencyKey r \<in> gt_IdempotencyKey ` set (gv_transitions st)
      then Some (unique_violation ''idx_governance_transitions_idempotency_key'')
      else if gt_FromState r \<notin> {'''', ''research'', ''shadow'', ''paper'', ''limited_live'', ''full_live''}
           \<or> \<not> knownState (gt_ToState r) \<or> length (gt_ID r) \<noteq> 64 \<or> length (gt_ContentDigest r) \<noteq> 64
      then Some (PgError ''23514'' ''governance_transition_state_check'')
      else case gt_ApprovalID r of
        Some a \<Rightarrow> if a \<in> ga_ID ` set (gv_approvals st) then None
                 else Some (PgError ''23503'' ''fk_governance_transition_approval'')
      | None \<Rightarrow> None)"

text \<open>\<^verbatim>\<open>guard_governance_deployment_write\<close>, with the transaction's setting, and the checks of the deployment.\<close>

definition deployment_violation :: "governance \<Rightarrow> string \<Rightarrow> GovernanceDeployment \<Rightarrow> ledger_error option" where
  "deployment_violation st setting d =
     (if setting = '''' \<or> setting \<noteq> gd_TransitionID d
         \<or> \<not> list_ex (\<lambda>t. gt_ID t = gd_TransitionID d \<and> gt_ContextKey t = gd_ContextKey d \<and> gt_ToState t = gd_State d)
              (gv_transitions st)
      then Some (PgError ''P0001'' ''governance deployment write requires matching immutable transition'')
      else if \<not> knownState (gd_State d) then Some (PgError ''23514'' ''governance_deployment_state_check'')
      else None)"

definition stored_monitor :: "gov_env \<Rightarrow> GovernanceMonitoringEvidence \<Rightarrow> GovernanceMonitoringEvidence" where
  "stored_monitor env row = row\<lparr>gm_WindowStart := ge_timestamp env (gm_WindowStart row),
     gm_WindowEnd := ge_timestamp env (gm_WindowEnd row), gm_MetricsJSON := ge_jsonb env (gm_MetricsJSON row),
     gm_CreatedAt := ge_timestamp env (gm_CreatedAt row)\<rparr>"

definition monitor_violation :: "governance \<Rightarrow> GovernanceMonitoringEvidence \<Rightarrow> ledger_error option" where
  "monitor_violation st r =
     (if gm_ExpectedObservations r \<le> 0 \<or> gm_ObservedObservations r < 0
         \<or> gm_ExpectedObservations r < gm_ObservedObservations r \<or> gm_WindowEnd r \<le> gm_WindowStart r
         \<or> length (gm_ContentDigest r) \<noteq> 64
      then Some (PgError ''23514'' ''governance_monitoring_coverage_check'')
      else if gm_DeploymentTransitionID r \<notin> gt_ID ` set (gv_transitions st)
      then Some (PgError ''23503'' ''fk_monitoring_transition'')
      else None)"

section \<open>Evidence\<close>

definition boundEvidence :: "gov_env \<Rightarrow> string \<Rightarrow> string \<Rightarrow> (ExperimentManifest \<times> PersistedEvidence) gresult" where
  "boundEvidence env manifestID evidenceID =
     and_then (cause (ge_LoadManifest env manifestID)) (\<lambda>m.
     and_then (cause (ge_LoadEvidence env evidenceID)) (\<lambda>v.
       if pe_ExperimentID v \<noteq> em_ID m
       then Inl (GovernanceError ''experiment_version_mismatch'' ''evidence is not bound to experiment'')
       else Inr (m, v)))"

text \<open>\<^verbatim>\<open>validation.FoldResultsDigest\<close>\<close>

definition FoldResultsDigest :: "study_env \<Rightarrow> json \<Rightarrow> string result" where
  "FoldResultsDigest w folds =
     (case cd_Marshal (se_codec w) folds of Inl e \<Rightarrow> Inl e | Inr text \<Rightarrow> Inr (digest w text))"

definition ml_bound :: "study_env \<Rightarrow> ManifestSpec \<Rightarrow> ModelAuthority \<Rightarrow> WalkForwardResult \<Rightarrow> ImmutableMLEvidence \<Rightarrow> bool" where
  "ml_bound w spec model r ml \<longleftrightarrow>
     FoldResultsDigest w (wf_Folds r) = Inr (me_FoldEvidenceDigest ml) \<and>
     mp_ArtifactDigest (me_Provenance ml) = mo_ModelDigest model \<and>
     mp_TrainingManifestDigest (me_Provenance ml) = mo_TrainingManifest model \<and>
     mp_BaselineStrategy (me_Provenance ml) = sp_Baseline spec \<and>
     mp_BaselinePolicyDigest (me_Provenance ml) = pb_Composite (sp_Policies spec) \<and>
     mp_DatasetManifestDigest (me_Provenance ml) = sp_DatasetManifestHash spec \<and> me_Passed ml"

definition verifyMLEvidence :: "gov_env \<Rightarrow> ExperimentManifest \<Rightarrow> PersistedEvidence \<Rightarrow> gov_error option" where
  "verifyMLEvidence env m v =
     (case sp_Model (em_Spec m) of
        None \<Rightarrow> None
      | Some model \<Rightarrow>
          (case ge_LoadMLEvidence env (em_ID m) of
             Inl _ \<Rightarrow> Some (GovernanceError ''validation_evidence_failed'' ''immutable passing ML evidence is required'')
           | Inr ml \<Rightarrow>
               (case pe_Result v of
                  None \<Rightarrow> Some (GovernanceError ''validation_evidence_failed'' ''walk-forward result missing'')
                | Some r \<Rightarrow>
                    failure (\<not> ml_bound (ge_study env) (em_Spec m) model r ml)
                      (GovernanceError ''validation_evidence_failed'' ''ML evidence binding or gates failed''))))"

definition evidence_passed :: "PersistedEvidence \<Rightarrow> bool" where
  "evidence_passed v \<longleftrightarrow> pe_Status v = ''passed'' \<and> (case pe_Result v of None \<Rightarrow> False | Some r \<Rightarrow> wf_Passed r)"

definition expected_artifact :: "ExperimentManifest \<Rightarrow> string" where
  "expected_artifact m =
     (case sp_Model (em_Spec m) of None \<Rightarrow> vr_Version (sp_Candidate (em_Spec m)) | Some model \<Rightarrow> mo_Version model)"

definition matchVersions :: "ExperimentManifest \<Rightarrow> string \<Rightarrow> string \<Rightarrow> gov_error option" where
  "matchVersions m artifact policy =
     failure (artifact \<noteq> expected_artifact m \<or> policy \<noteq> pb_Composite (sp_Policies (em_Spec m)))
       (GovernanceError ''experiment_version_mismatch'' ''artifact or policy differs from immutable experiment'')"

definition authorityContext :: "ExperimentManifest \<Rightarrow> string" where
  "authorityContext m =
     (case sp_Model (em_Spec m) of
        Some model \<Rightarrow> ''model:'' @ mo_Version model
      | None \<Rightarrow> ''strategy:'' @ vr_ID (sp_Candidate (em_Spec m)) @ ''@'' @ vr_Version (sp_Candidate (em_Spec m)))"

definition evidenceDigest :: "gov_env \<Rightarrow> string \<Rightarrow> string gresult" where
  "evidenceDigest env eid = cause (ge_EvidenceDigest env eid)"

definition target_policy :: "gov_env \<Rightarrow> ExperimentManifest \<Rightarrow> string \<Rightarrow> AuthorityPolicyEnvelope gresult" where
  "target_policy env m target = cause (WithRolloutState (ge_study env) (sp_AuthorityPolicy (em_Spec m)) target)"

definition find_deployment :: "gov_env \<Rightarrow> string \<Rightarrow> governance \<Rightarrow> GovernanceDeployment option gresult" where
  "find_deployment env key st =
     gov_first env ''governance_deployments'' gd_ContextKey (\<lambda>d. gd_ContextKey d = key) (gv_deployments st) st"

section \<open>Approving\<close>

record ApprovalRequest =
  aq_IdempotencyKey :: string
  aq_ExperimentID :: string
  aq_EvidenceID :: string
  aq_TargetState :: string
  aq_ArtifactVersion :: string
  aq_PolicyVersion :: string
  aq_Approver :: string
  aq_Reason :: string
  aq_ExpiresAt :: time

definition mismatch :: "string \<Rightarrow> gov_error" where
  "mismatch details = GovernanceError ''approval_mismatch_or_stale'' details"

definition complete_approval :: "ApprovalRequest \<Rightarrow> bool" where
  "complete_approval q \<longleftrightarrow> aq_IdempotencyKey q \<noteq> '''' \<and> aq_ExperimentID q \<noteq> '''' \<and> aq_EvidenceID q \<noteq> ''''
     \<and> aq_ArtifactVersion q \<noteq> '''' \<and> aq_PolicyVersion q \<noteq> '''' \<and> trim_space (aq_Reason q) \<noteq> '''' \<and> knownState (aq_TargetState q)"

text \<open>The evidence an approval may rest on: passed, with its model evidence, and confirmatory.\<close>

definition approvable :: "gov_env \<Rightarrow> ApprovalRequest \<Rightarrow> ExperimentManifest \<Rightarrow> PersistedEvidence \<Rightarrow> gov_error option" where
  "approvable env q m v =
     (if \<not> evidence_passed v then Some (GovernanceError ''validation_evidence_failed'' '''')
      else case verifyMLEvidence env m v of
        Some e \<Rightarrow> Some e
      | None \<Rightarrow>
          if sp_Exploratory (em_Spec m) \<or> sp_StudyType (em_Spec m) \<noteq> ''confirmatory''
          then Some (GovernanceError ''validation_evidence_failed'' ''exploratory evidence cannot promote'')
          else matchVersions m (aq_ArtifactVersion q) (aq_PolicyVersion q))"

definition week :: duration where "week = 7 * 24 * 3600 * 10 ^ 9"

definition approval_source :: "gov_env \<Rightarrow> ApprovalRequest \<Rightarrow> ExperimentManifest \<Rightarrow> governance \<Rightarrow> GovernanceDeployment gresult" where
  "approval_source env q m st =
     (let now = service_now env in
      if aq_ExpiresAt q = 0 \<or> aq_ExpiresAt q \<le> now \<or> now + week < aq_ExpiresAt q
      then Inl (mismatch ''bounded future approval expiry is required'')
      else case find_deployment env (authorityContext m) st of
        Inr (Some source) \<Rightarrow>
          if now < gd_ActivatedAt source then Inl (mismatch ''approval predates source activation'') else Inr source
      | _ \<Rightarrow> Inl (mismatch ''source deployment does not exist''))"

definition new_approval ::
  "gov_env \<Rightarrow> Principal \<Rightarrow> ApprovalRequest \<Rightarrow> GovernanceDeployment \<Rightarrow> string \<Rightarrow> AuthorityPolicyEnvelope \<Rightarrow> GovernanceApproval" where
  "new_approval env who q source evidence policy = seal_approval (ge_study env)
     \<lparr>ga_ID = '''', ga_IdempotencyKey = aq_IdempotencyKey q, ga_ExperimentID = aq_ExperimentID q, ga_EvidenceID = aq_EvidenceID q,
      ga_TargetState = aq_TargetState q, ga_ArtifactVersion = aq_ArtifactVersion q, ga_PolicyVersion = aq_PolicyVersion q,
      ga_Approver = pc_id who, ga_Reason = trim_space (aq_Reason q), ga_ApprovedAt = service_now env, ga_ContentDigest = '''',
      ga_SourceState = gd_State source, ga_SourceActivatedAt = gd_ActivatedAt source,
      ga_AuthorityPolicyDigest = ap_Digest policy, ga_EvidenceDigest = evidence, ga_ExpiresAt = aq_ExpiresAt q\<rparr>"

definition same_approval ::
  "Principal \<Rightarrow> ApprovalRequest \<Rightarrow> GovernanceDeployment \<Rightarrow> string \<Rightarrow> AuthorityPolicyEnvelope \<Rightarrow> GovernanceApproval \<Rightarrow> bool" where
  "same_approval who q source evidence policy a \<longleftrightarrow>
     ga_ExperimentID a = aq_ExperimentID q \<and> ga_EvidenceID a = aq_EvidenceID q \<and> ga_TargetState a = aq_TargetState q \<and>
     ga_ArtifactVersion a = aq_ArtifactVersion q \<and> ga_PolicyVersion a = aq_PolicyVersion q \<and> ga_Approver a = pc_id who \<and>
     ga_Reason a = trim_space (aq_Reason q) \<and> ga_ExpiresAt a = aq_ExpiresAt q \<and> ga_SourceState a = gd_State source \<and>
     ga_SourceActivatedAt a = gd_ActivatedAt source \<and> ga_EvidenceDigest a = evidence \<and>
     ga_AuthorityPolicyDigest a = ap_Digest policy"

text \<open>The insert: the row that holds the key already, or nothing and the new row.\<close>

definition insert_approval ::
  "gov_env \<Rightarrow> GovernanceApproval \<Rightarrow> governance \<Rightarrow> (bool \<times> governance) gresult" where
  "insert_approval env row st =
     (if ga_IdempotencyKey row \<in> ga_IdempotencyKey ` set (gv_approvals st)
      then and_then (gov_exec env (WriteCall ''governance_approvals'') st) (\<lambda>_. Inr (False, st))
      else and_then (gov_write env ''governance_approvals'' (approval_violation (gv_approvals st) row)
             (st\<lparr>gv_approvals := gv_approvals st @ [stored_approval env row]\<rparr>) st) (\<lambda>st'. Inr (True, st')))"

definition replayed_approval ::
  "gov_env \<Rightarrow> Principal \<Rightarrow> ApprovalRequest \<Rightarrow> GovernanceDeployment \<Rightarrow> string \<Rightarrow> AuthorityPolicyEnvelope \<Rightarrow> governance \<Rightarrow>
   GovernanceApproval gresult" where
  "replayed_approval env who q source evidence policy st =
     and_then (gov_first env ''governance_approvals'' ga_ID (\<lambda>a. ga_IdempotencyKey a = aq_IdempotencyKey q) (gv_approvals st) st)
       (\<lambda>found. case found of
          None \<Rightarrow> Inl (db_cause RecordNotFound)
        | Some existing \<Rightarrow>
            if \<not> same_approval who q source evidence policy existing
            then Inl (GovernanceError ''governance_integrity_failure'' ''idempotency key replayed with different approval'')
            else if \<not> approval_intact (ge_study env) existing
            then Inl (GovernanceError ''governance_integrity_failure'' ''stored approval integrity check failed'')
            else Inr existing)"

definition approve :: "gov_env \<Rightarrow> Principal \<Rightarrow> ApprovalRequest \<Rightarrow> governance \<Rightarrow> (GovernanceApproval \<times> governance) gresult" where
  "approve env who q st =
     and_then (checked (require_capability who ''approve'') ()) (\<lambda>_.
      if \<not> ge_connected env
      then Inl (db_cause (PlainError (Errorf ''governance database is required'' [])))
      else if \<not> complete_approval q
      then Inl (mismatch ''complete approval identity, target, versions, actor, and reason are required'')
      else
     and_then (boundEvidence env (aq_ExperimentID q) (aq_EvidenceID q)) (\<lambda>(m, v).
     and_then (checked (approvable env q m v) ()) (\<lambda>_.
     and_then (approval_source env q m st) (\<lambda>source.
     and_then (evidenceDigest env (aq_EvidenceID q)) (\<lambda>evidence.
     and_then (target_policy env m (aq_TargetState q)) (\<lambda>policy.
       let row = approval_defaults (new_approval env who q source evidence policy) in
     and_then (insert_approval env row st) (\<lambda>(created, st').
       if created then Inr (row, st')
       else and_then (replayed_approval env who q source evidence policy st') (\<lambda>a. Inr (a, st')))))))))"

text \<open>\<^verbatim>\<open>Approve\<close> runs without a transaction of its own: its only write is its last statement.\<close>

definition Approve :: "gov_env \<Rightarrow> Principal \<Rightarrow> ApprovalRequest \<Rightarrow> governance \<Rightarrow> GovernanceApproval gresult \<times> governance" where
  "Approve env who q st =
     (case approve env who q st of Inl e \<Rightarrow> (Inl e, st) | Inr (a, st') \<Rightarrow> (Inr a, st'))"

section \<open>Transitions\<close>

record TransitionRequest =
  tq_IdempotencyKey :: string
  tq_ContextKey :: string
  tq_ExperimentID :: string
  tq_EvidenceID :: string
  tq_ApprovalID :: string
  tq_TargetState :: string
  tq_ArtifactVersion :: string
  tq_PolicyVersion :: string
  tq_FallbackVersion :: string
  tq_Reason :: string
  tq_ElapsedEvidenceID :: string

definition complete_transition :: "TransitionRequest \<Rightarrow> bool" where
  "complete_transition q \<longleftrightarrow> tq_IdempotencyKey q \<noteq> '''' \<and> tq_ContextKey q \<noteq> '''' \<and> tq_ExperimentID q \<noteq> '''' \<and> tq_EvidenceID q \<noteq> ''''
     \<and> tq_ArtifactVersion q \<noteq> '''' \<and> tq_PolicyVersion q \<noteq> '''' \<and> tq_Reason q \<noteq> '''' \<and> knownState (tq_TargetState q)"

text \<open>What is checked before the transaction.\<close>

definition promotable ::
  "gov_env \<Rightarrow> TransitionRequest \<Rightarrow> ExperimentManifest \<Rightarrow> PersistedEvidence \<Rightarrow> gov_error option" where
  "promotable env q m v = first_failure
     [failure (tq_TargetState q \<noteq> ''research'' \<and> \<not> evidence_passed v) (GovernanceError ''validation_evidence_failed'' ''''),
      (if tq_TargetState q \<noteq> ''research'' then verifyMLEvidence env m v else None),
      matchVersions m (tq_ArtifactVersion q) (tq_PolicyVersion q),
      failure (tq_ContextKey q \<noteq> authorityContext m)
        (GovernanceError ''experiment_version_mismatch'' ''context key does not match immutable experiment authority'')]"

definition same_transition :: "TransitionRequest \<Rightarrow> GovernanceTransition \<Rightarrow> bool" where
  "same_transition q t \<longleftrightarrow> gt_ContextKey t = tq_ContextKey q \<and> gt_ExperimentID t = tq_ExperimentID q \<and>
     gt_EvidenceID t = tq_EvidenceID q \<and> gt_ToState t = tq_TargetState q \<and> gt_ArtifactVersion t = tq_ArtifactVersion q \<and>
     gt_FallbackVersion t = tq_FallbackVersion q \<and> gt_Reason t = tq_Reason q \<and> stringValue (gt_ApprovalID t) = tq_ApprovalID q \<and>
     stringValue (gt_MonitoringEvidenceID t) = tq_ElapsedEvidenceID q"

definition find_replay :: "gov_env \<Rightarrow> string \<Rightarrow> governance \<Rightarrow> GovernanceTransition option gresult" where
  "find_replay env key st =
     gov_first env ''governance_transitions'' gt_ID (\<lambda>t. gt_IdempotencyKey t = key) (gv_transitions st) st"

text \<open>Go's zero value of the deployment that was not found.\<close>

definition zero_deployment :: GovernanceDeployment where
  "zero_deployment = \<lparr>gd_ContextKey = '''', gd_ExperimentID = '''', gd_EvidenceID = '''', gd_State = '''', gd_ArtifactVersion = '''',
     gd_PolicyVersion = '''', gd_FallbackVersion = '''', gd_ActivatedAt = 0, gd_UpdatedAt = 0, gd_AuthorityPolicyJSON = '''',
     gd_AuthorityPolicyDigest = '''', gd_TransitionID = ''''\<rparr>"

text \<open>An approval binds the request, the evidence, the source deployment and the target policy, and has not expired.\<close>

definition approval_binds ::
  "gov_env \<Rightarrow> TransitionRequest \<Rightarrow> PersistedEvidence \<Rightarrow> GovernanceDeployment \<Rightarrow> string \<Rightarrow> AuthorityPolicyEnvelope \<Rightarrow>
   GovernanceApproval \<Rightarrow> bool" where
  "approval_binds env q v current evidence policy a \<longleftrightarrow>
     ga_ExperimentID a = tq_ExperimentID q \<and> ga_EvidenceID a = tq_EvidenceID q \<and> ga_TargetState a = tq_TargetState q \<and>
     ga_ArtifactVersion a = tq_ArtifactVersion q \<and> ga_PolicyVersion a = tq_PolicyVersion q \<and>
     \<not> ga_ApprovedAt a < pe_CreatedAt v \<and> service_now env < ga_ExpiresAt a \<and> ga_SourceState a = gd_State current \<and>
     ga_SourceActivatedAt a = gd_ActivatedAt current \<and> ga_EvidenceDigest a = evidence \<and>
     ga_AuthorityPolicyDigest a = ap_Digest policy"

definition bound_approval ::
  "gov_env \<Rightarrow> TransitionRequest \<Rightarrow> ExperimentManifest \<Rightarrow> PersistedEvidence \<Rightarrow> GovernanceDeployment \<Rightarrow> governance \<Rightarrow>
   GovernanceApproval gresult" where
  "bound_approval env q m v current st =
     (if tq_ApprovalID q = '''' then Inl (GovernanceError ''human_approval_required'' '''')
      else case gov_first env ''governance_approvals'' ga_ID (\<lambda>a. ga_ID a = tq_ApprovalID q) (gv_approvals st) st of
        Inr (Some a) \<Rightarrow>
          and_then (evidenceDigest env (tq_EvidenceID q)) (\<lambda>evidence.
          and_then (target_policy env m (tq_TargetState q)) (\<lambda>policy.
            if \<not> approval_binds env q v current evidence policy a
            then Inl (mismatch ''approval is stale or bound to different evidence/target/versions'')
            else if \<not> approval_intact (ge_study env) a then Inl (mismatch ''approval integrity check failed'')
            else Inr a))
      | _ \<Rightarrow> Inl (mismatch ''approval not found''))"

definition capital_state :: "string \<Rightarrow> bool" where
  "capital_state s \<longleftrightarrow> s = ''paper'' \<or> s = ''limited_live'' \<or> s = ''full_live''"

definition quarantine :: "ExperimentManifest \<Rightarrow> string \<Rightarrow> gov_error option" where
  "quarantine m target =
     (case sp_Model (em_Spec m) of
        None \<Rightarrow> None
      | Some model \<Rightarrow> failure (capital_state target \<and> \<not> CanHoldAuthority model)
                       (GovernanceError ''artifact_class_quarantined'' (mo_Class model)))"

definition loadMonitoringEvidence :: "gov_env \<Rightarrow> string \<Rightarrow> governance \<Rightarrow> GovernanceMonitoringEvidence gresult" where
  "loadMonitoringEvidence env mid st =
     (case gov_first env ''governance_monitoring_evidences'' gm_ID (\<lambda>r. gm_ID r = mid) (gv_monitors st) st of
        Inr (Some row) \<Rightarrow>
          if monitor_intact env row then Inr row
          else Inl (GovernanceError ''governance_integrity_failure'' ''monitoring evidence integrity failed'')
      | _ \<Rightarrow> Inl (GovernanceError ''rollback_threshold_not_met'' ''monitoring evidence not found''))"

text \<open>Monitoring of the source deployment for at least the elapsed time, over a window that ended, without a gap.\<close>

definition elapsed_ok ::
  "gov_env \<Rightarrow> TransitionRequest \<Rightarrow> GovernanceDeployment \<Rightarrow> duration \<Rightarrow> GovernanceMonitoringEvidence \<Rightarrow> bool" where
  "elapsed_ok env q current elapsed monitor \<longleftrightarrow>
     gm_ContextKey monitor = tq_ContextKey q \<and> gm_ExperimentID monitor = tq_ExperimentID q \<and>
     gm_DeploymentTransitionID monitor = gd_TransitionID current \<and>
     gm_AuthorityPolicyDigest monitor = gd_AuthorityPolicyDigest current \<and>
     \<not> gm_WindowStart monitor < gd_ActivatedAt current \<and> \<not> service_now env < gm_WindowEnd monitor \<and>
     \<not> time_sub (gm_WindowEnd monitor) (gm_WindowStart monitor) < elapsed \<and>
     \<not> gm_ObservedObservations monitor < gm_ExpectedObservations monitor"

definition elapsed_evidence ::
  "gov_env \<Rightarrow> TransitionRequest \<Rightarrow> ExperimentManifest \<Rightarrow> GovernanceDeployment \<Rightarrow> governance \<Rightarrow> (string option \<times> string) gresult" where
  "elapsed_evidence env q m current st =
     (let elapsed = elapsed_of (em_Spec m) (tq_TargetState q) in
      if elapsed \<le> 0 then Inr (None, '''')
      else if tq_ElapsedEvidenceID q = ''''
      then Inl (GovernanceError ''elapsed_evidence_insufficient'' ''immutable elapsed monitoring evidence is required'')
      else and_then (loadMonitoringEvidence env (tq_ElapsedEvidenceID q) st) (\<lambda>monitor.
        if elapsed_ok env q current elapsed monitor then Inr (Some (gm_ID monitor), gm_ContentDigest monitor)
        else Inl (GovernanceError ''elapsed_evidence_insufficient''
               ''elapsed evidence is stale, incomplete, or bound to another source deployment'')))"

definition new_transition ::
  "gov_env \<Rightarrow> Principal \<Rightarrow> TransitionRequest \<Rightarrow> string \<Rightarrow> GovernanceApproval option \<Rightarrow> string option \<times> string \<Rightarrow> string \<Rightarrow>
   AuthorityPolicyEnvelope \<Rightarrow> GovernanceTransition" where
  "new_transition env who q from approval elapsed evidence policy = seal_transition (ge_study env)
     \<lparr>gt_ID = '''', gt_IdempotencyKey = tq_IdempotencyKey q, gt_ContextKey = tq_ContextKey q, gt_ExperimentID = tq_ExperimentID q,
      gt_EvidenceID = tq_EvidenceID q, gt_ApprovalID = (if tq_ApprovalID q = '''' then None else Some (tq_ApprovalID q)),
      gt_FromState = from, gt_ToState = tq_TargetState q, gt_ArtifactVersion = tq_ArtifactVersion q,
      gt_FallbackVersion = tq_FallbackVersion q, gt_Reason = tq_Reason q, gt_ContentDigest = '''', gt_CreatedAt = service_now env,
      gt_PolicyVersion = tq_PolicyVersion q, gt_AuthorityPolicyDigest = ap_Digest policy,
      gt_ApprovalDigest = (case approval of None \<Rightarrow> '''' | Some a \<Rightarrow> ga_ContentDigest a), gt_EvidenceDigest = evidence,
      gt_MonitoringEvidenceID = fst elapsed, gt_MonitoringEvidenceDigest = snd elapsed, gt_Actor = pc_id who\<rparr>"

definition insert_transition :: "gov_env \<Rightarrow> GovernanceTransition \<Rightarrow> governance \<Rightarrow> governance gresult" where
  "insert_transition env row st =
     gov_write env ''governance_transitions'' (transition_violation st row)
       (st\<lparr>gv_transitions := gv_transitions st @ [stored_transition env row]\<rparr>) st"

definition policy_text :: "study_env \<Rightarrow> AuthorityPolicyEnvelope \<Rightarrow> string" where
  "policy_text w policy = encoded w (JObject
     [(''schema_version'', JString (ap_SchemaVersion policy)),
      (''payload'', json_map (map (\<lambda>(k, v). (k, JString v)) (ap_Payload policy))), (''digest'', JString (ap_Digest policy))])"

text \<open>The upsert replaces every column of the context's deployment.\<close>

definition upsert_deployment :: "gov_env \<Rightarrow> string \<Rightarrow> GovernanceDeployment \<Rightarrow> governance \<Rightarrow> governance gresult" where
  "upsert_deployment env setting d st =
     gov_write env ''governance_deployments'' (deployment_violation st setting d)
       (if gd_ContextKey d \<in> gd_ContextKey ` set (gv_deployments st)
        then st\<lparr>gv_deployments := replace_row gd_ContextKey d (gv_deployments st)\<rparr>
        else st\<lparr>gv_deployments := gv_deployments st @ [d]\<rparr>) st"

definition new_deployment ::
  "gov_env \<Rightarrow> TransitionRequest \<Rightarrow> AuthorityPolicyEnvelope \<Rightarrow> string \<Rightarrow> GovernanceDeployment" where
  "new_deployment env q policy tid =
     (let now = ge_timestamp env (service_now env) in
      \<lparr>gd_ContextKey = tq_ContextKey q, gd_ExperimentID = tq_ExperimentID q, gd_EvidenceID = tq_EvidenceID q,
       gd_State = tq_TargetState q, gd_ArtifactVersion = tq_ArtifactVersion q, gd_PolicyVersion = tq_PolicyVersion q,
       gd_FallbackVersion = tq_FallbackVersion q, gd_ActivatedAt = now, gd_UpdatedAt = now,
       gd_AuthorityPolicyJSON = ge_jsonb env (policy_text (ge_study env) policy),
       gd_AuthorityPolicyDigest = with_default (ap_Digest policy) zero_digest, gd_TransitionID = with_default tid zero_digest\<rparr>)"

fun write_settings :: "gov_env \<Rightarrow> (string \<times> string) list \<Rightarrow> governance \<Rightarrow> governance gresult" where
  "write_settings env [] st = Inr st"
| "write_settings env ((key, v) # rest) st =
     and_then (gov_write env ''settings'' None (st\<lparr>gv_settings := AList.update key v (gv_settings st)\<rparr>) st) (write_settings env rest)"

definition writeModelAuthorityProjection :: "gov_env \<Rightarrow> string \<Rightarrow> string \<Rightarrow> governance \<Rightarrow> governance gresult" where
  "writeModelAuthorityProjection env version state st =
     write_settings env [(''active_model_version'', version), (''model_rollout_state'', state)] st"

definition set_guard :: "gov_env \<Rightarrow> governance \<Rightarrow> unit gresult" where
  "set_guard env st = gov_exec env (ExecCall ''SELECT set_config(trading_bot.governance_transition_id, ?, true)'') st"

text \<open>The writes of a decided transition.\<close>

definition record_transition ::
  "gov_env \<Rightarrow> Principal \<Rightarrow> TransitionRequest \<Rightarrow> ExperimentManifest \<Rightarrow> string \<Rightarrow> GovernanceApproval option \<Rightarrow>
   string option \<times> string \<Rightarrow> governance \<Rightarrow> (GovernanceTransition \<times> governance) gresult" where
  "record_transition env who q m from approval elapsed st =
     and_then (evidenceDigest env (tq_EvidenceID q)) (\<lambda>evidence.
     and_then (target_policy env m (tq_TargetState q)) (\<lambda>policy.
     (let row = transition_defaults (new_transition env who q from approval elapsed evidence policy) in
     and_then (insert_transition env row st) (\<lambda>st.
     and_then (set_guard env st) (\<lambda>_.
     and_then (upsert_deployment env (gt_ID row) (new_deployment env q policy (gt_ID row)) st) (\<lambda>st.
     and_then (if sp_Model (em_Spec m) \<noteq> None \<and> tq_TargetState q \<noteq> ''research''
               then writeModelAuthorityProjection env (tq_ArtifactVersion q) (tq_TargetState q) st else Inr st) (\<lambda>st.
       Inr (row, st))))))))"

definition transition_body ::
  "gov_env \<Rightarrow> Principal \<Rightarrow> TransitionRequest \<Rightarrow> ExperimentManifest \<Rightarrow> PersistedEvidence \<Rightarrow> governance \<Rightarrow>
   (GovernanceTransition \<times> governance) gresult" where
  "transition_body env who q m v st =
     and_then (gov_exec env (ExecCall ''SELECT pg_advisory_xact_lock(hashtextextended(?, 0))'') st) (\<lambda>_.
     and_then (find_replay env (tq_IdempotencyKey q) st) (\<lambda>replay.
       case replay of
         Some t \<Rightarrow>
           if \<not> transition_intact (ge_study env) t \<or> \<not> same_transition q t
           then Inl (GovernanceError ''governance_integrity_failure'' ''idempotency key replayed with different transition'')
           else Inr (t, st)
       | None \<Rightarrow>
     and_then (find_deployment env (tq_ContextKey q) st) (\<lambda>found.
       let from = (case found of None \<Rightarrow> '''' | Some d \<Rightarrow> gd_State d);
           current = (case found of None \<Rightarrow> zero_deployment | Some d \<Rightarrow> d) in
       if \<not> legal from (tq_TargetState q)
       then Inl (GovernanceError ''illegal_transition'' (from @ '' -> '' @ tq_TargetState q))
       else
     and_then (if from \<noteq> '''' \<or> tq_TargetState q \<noteq> ''research''
               then and_then (bound_approval env q m v current st) (\<lambda>a. Inr (Some a)) else Inr None) (\<lambda>approval.
     and_then (checked (quarantine m (tq_TargetState q)) ()) (\<lambda>_.
     and_then (elapsed_evidence env q m current st) (\<lambda>elapsed.
       record_transition env who q m from approval elapsed st))))))"

definition Transition ::
  "gov_env \<Rightarrow> Principal \<Rightarrow> TransitionRequest \<Rightarrow> governance \<Rightarrow> GovernanceTransition gresult \<times> governance" where
  "Transition env who q st =
     (case require_capability who ''transition'' of Some e \<Rightarrow> (Inl e, st)
      | None \<Rightarrow>
     if tq_TargetState q = ''rollback'' then (Inl (GovernanceError ''illegal_transition'' ''use the rollback operation''), st)
     else if \<not> complete_transition q
     then (Inl (GovernanceError ''illegal_transition'' ''complete immutable transition context is required''), st)
     else case boundEvidence env (tq_ExperimentID q) (tq_EvidenceID q) of Inl e \<Rightarrow> (Inl e, st)
      | Inr (m, v) \<Rightarrow>
     case promotable env q m v of Some e \<Rightarrow> (Inl e, st)
      | None \<Rightarrow> gov_transaction env (transition_body env who q m v) st)"

section \<open>Monitoring evidence\<close>

record MonitoringEvidenceRequest =
  mq_ContextKey :: string
  mq_ExperimentID :: string
  mq_WindowStart :: time
  mq_WindowEnd :: time
  mq_ExpectedObservations :: int
  mq_ObservedObservations :: int
  mq_Metrics :: "(string, float64) gomap option"

definition monitor_refused :: "gov_env \<Rightarrow> MonitoringEvidenceRequest \<Rightarrow> GovernanceDeployment \<Rightarrow> gov_error option" where
  "monitor_refused env q d = first_failure
     [failure (gd_ExperimentID d \<noteq> mq_ExperimentID q \<or> mq_WindowStart q < gd_ActivatedAt d \<or> \<not> mq_WindowStart q < mq_WindowEnd q
         \<or> service_now env < mq_WindowEnd q \<or> mq_ExpectedObservations q \<le> 0 \<or> mq_ObservedObservations q < 0
         \<or> mq_ExpectedObservations q < mq_ObservedObservations q)
        (GovernanceError ''governance_integrity_failure'' ''invalid monitoring evidence envelope''),
      failure (list_ex (\<lambda>(key, v). key = '''' \<or> \<not> finite_float v) (case mq_Metrics q of None \<Rightarrow> [] | Some metrics \<Rightarrow> metrics))
        (GovernanceError ''governance_integrity_failure'' ''non-finite monitoring metric'')]"

definition new_monitor :: "gov_env \<Rightarrow> MonitoringEvidenceRequest \<Rightarrow> GovernanceDeployment \<Rightarrow> GovernanceMonitoringEvidence" where
  "new_monitor env q d = seal_monitor env
     \<lparr>gm_ID = '''', gm_ContextKey = mq_ContextKey q, gm_ExperimentID = mq_ExperimentID q,
      gm_DeploymentTransitionID = gd_TransitionID d, gm_AuthorityPolicyDigest = gd_AuthorityPolicyDigest d,
      gm_ArtifactVersion = gd_ArtifactVersion d, gm_WindowStart = mq_WindowStart q, gm_WindowEnd = mq_WindowEnd q,
      gm_ExpectedObservations = mq_ExpectedObservations q, gm_ObservedObservations = mq_ObservedObservations q,
      gm_MetricsJSON = ge_MarshalMetrics env (mq_Metrics q), gm_ContentDigest = '''', gm_CreatedAt = service_now env\<rparr>"

definition insert_monitor :: "gov_env \<Rightarrow> GovernanceMonitoringEvidence \<Rightarrow> governance \<Rightarrow> governance gresult" where
  "insert_monitor env row st =
     (if gm_ID row \<in> gm_ID ` set (gv_monitors st)
      then and_then (gov_exec env (WriteCall ''governance_monitoring_evidences'') st) (\<lambda>_. Inr st)
      else gov_write env ''governance_monitoring_evidences'' (monitor_violation st row)
             (st\<lparr>gv_monitors := gv_monitors st @ [stored_monitor env row]\<rparr>) st)"

text \<open>Without a transaction: the row stays even when reading it back fails.\<close>

definition RecordMonitoringEvidence ::
  "gov_env \<Rightarrow> Principal \<Rightarrow> MonitoringEvidenceRequest \<Rightarrow> governance \<Rightarrow> GovernanceMonitoringEvidence gresult \<times> governance" where
  "RecordMonitoringEvidence env who q st =
     (case require_capability who ''rollback'' of Some e \<Rightarrow> (Inl e, st)
      | None \<Rightarrow>
     case find_deployment env (mq_ContextKey q) st of
        Inl e \<Rightarrow> (Inl e, st)
      | Inr None \<Rightarrow> (Inl (db_cause RecordNotFound), st)
      | Inr (Some d) \<Rightarrow>
     case monitor_refused env q d of Some e \<Rightarrow> (Inl e, st)
      | None \<Rightarrow>
          let row = new_monitor env q d in
          case insert_monitor env row st of
            Inl e \<Rightarrow> (Inl e, st)
          | Inr st' \<Rightarrow> (loadMonitoringEvidence env (gm_ID row) st', st'))"

section \<open>Rollback\<close>

record RollbackRequest =
  bq_IdempotencyKey :: string
  bq_ContextKey :: string
  bq_ExperimentID :: string
  bq_EvidenceID :: string
  bq_FallbackVersion :: string
  bq_Reason :: string
  bq_MonitoringEvidenceID :: string

definition complete_rollback :: "RollbackRequest \<Rightarrow> bool" where
  "complete_rollback q \<longleftrightarrow> bq_IdempotencyKey q \<noteq> '''' \<and> bq_ContextKey q \<noteq> '''' \<and> bq_ExperimentID q \<noteq> '''' \<and> bq_EvidenceID q \<noteq> ''''
     \<and> bq_FallbackVersion q \<noteq> '''' \<and> bq_Reason q \<noteq> '''' \<and> bq_MonitoringEvidenceID q \<noteq> ''''"

definition same_rollback :: "RollbackRequest \<Rightarrow> GovernanceTransition \<Rightarrow> bool" where
  "same_rollback q t \<longleftrightarrow> gt_ContextKey t = bq_ContextKey q \<and> gt_ExperimentID t = bq_ExperimentID q \<and>
     gt_EvidenceID t = bq_EvidenceID q \<and> gt_ToState t = ''rollback'' \<and> gt_FallbackVersion t = bq_FallbackVersion q \<and>
     gt_Reason t = bq_Reason q \<and> stringValue (gt_MonitoringEvidenceID t) = bq_MonitoringEvidenceID q"

definition one_day :: duration where "one_day = 24 * 3600 * 10 ^ 9"

definition monitor_fresh :: "gov_env \<Rightarrow> RollbackRequest \<Rightarrow> GovernanceDeployment \<Rightarrow> GovernanceMonitoringEvidence \<Rightarrow> bool" where
  "monitor_fresh env q current monitor \<longleftrightarrow>
     gm_ContextKey monitor = bq_ContextKey q \<and> gm_ExperimentID monitor = bq_ExperimentID q \<and>
     gm_DeploymentTransitionID monitor = gd_TransitionID current \<and>
     gm_AuthorityPolicyDigest monitor = gd_AuthorityPolicyDigest current \<and>
     gm_ArtifactVersion monitor = gd_ArtifactVersion current \<and> \<not> gm_WindowStart monitor < gd_ActivatedAt current \<and>
     \<not> service_now env < gm_WindowEnd monitor \<and> \<not> one_day < time_sub (service_now env) (gm_WindowEnd monitor) \<and>
     0 < gm_ExpectedObservations monitor \<and> \<not> gm_ObservedObservations monitor < gm_ExpectedObservations monitor"

definition threshold_met :: "(string, float64) gomap \<Rightarrow> Threshold \<Rightarrow> bool" where
  "threshold_met metrics t =
     (case map_of metrics (th_Metric t) of
        None \<Rightarrow> False | Some v \<Rightarrow> finite_float v \<and> compare_float v (th_Op t) (th_Value t))"

definition triggered :: "ManifestSpec \<Rightarrow> (string, float64) gomap \<Rightarrow> bool" where
  "triggered spec metrics \<longleftrightarrow> list_ex (threshold_met metrics) (sp_RollbackThresholds spec)"

definition rollback_source ::
  "gov_env \<Rightarrow> RollbackRequest \<Rightarrow> ExperimentManifest \<Rightarrow> governance \<Rightarrow>
   (GovernanceDeployment \<times> GovernanceMonitoringEvidence) gresult" where
  "rollback_source env q m st =
     and_then (find_deployment env (bq_ContextKey q) st) (\<lambda>found.
       case found of
         None \<Rightarrow> Inl (db_cause RecordNotFound)
       | Some current \<Rightarrow>
           if gd_ExperimentID current \<noteq> bq_ExperimentID q \<or> gd_EvidenceID current \<noteq> bq_EvidenceID q
           then Inl (GovernanceError ''experiment_version_mismatch'' '''')
           else if bq_FallbackVersion q \<noteq> gd_FallbackVersion current
           then Inl (GovernanceError ''fallback_required'' ''requested fallback differs from preconfigured fallback'')
           else
     and_then (loadMonitoringEvidence env (bq_MonitoringEvidenceID q) st) (\<lambda>monitor.
       if \<not> monitor_fresh env q current monitor
       then Inl (GovernanceError ''rollback_threshold_not_met''
              ''monitoring evidence is stale, incomplete, or bound to another deployment'')
       else case ge_UnmarshalMetrics env (gm_MetricsJSON monitor) of
         None \<Rightarrow> Inl (GovernanceError ''governance_integrity_failure'' ''monitoring metrics malformed'')
       | Some metrics \<Rightarrow>
           if \<not> triggered (em_Spec m) metrics then Inl (GovernanceError ''rollback_threshold_not_met'' '''')
           else Inr (current, monitor)))"

definition new_rollback ::
  "gov_env \<Rightarrow> Principal \<Rightarrow> RollbackRequest \<Rightarrow> GovernanceDeployment \<Rightarrow> GovernanceMonitoringEvidence \<Rightarrow> string \<Rightarrow>
   AuthorityPolicyEnvelope \<Rightarrow> GovernanceTransition" where
  "new_rollback env who q current monitor evidence policy = seal_transition (ge_study env)
     \<lparr>gt_ID = '''', gt_IdempotencyKey = bq_IdempotencyKey q, gt_ContextKey = bq_ContextKey q, gt_ExperimentID = bq_ExperimentID q,
      gt_EvidenceID = bq_EvidenceID q, gt_ApprovalID = None, gt_FromState = gd_State current, gt_ToState = ''rollback'',
      gt_ArtifactVersion = gd_ArtifactVersion current, gt_FallbackVersion = bq_FallbackVersion q, gt_Reason = bq_Reason q,
      gt_ContentDigest = '''', gt_CreatedAt = service_now env, gt_PolicyVersion = gd_PolicyVersion current,
      gt_AuthorityPolicyDigest = ap_Digest policy, gt_ApprovalDigest = '''', gt_EvidenceDigest = evidence,
      gt_MonitoringEvidenceID = Some (gm_ID monitor), gt_MonitoringEvidenceDigest = gm_ContentDigest monitor,
      gt_Actor = pc_id who\<rparr>"

definition rolled_back ::
  "gov_env \<Rightarrow> RollbackRequest \<Rightarrow> AuthorityPolicyEnvelope \<Rightarrow> string \<Rightarrow> GovernanceDeployment \<Rightarrow> GovernanceDeployment" where
  "rolled_back env q policy tid d =
     (let now = ge_timestamp env (service_now env) in
      d\<lparr>gd_State := ''rollback'', gd_ArtifactVersion := bq_FallbackVersion q, gd_ActivatedAt := now, gd_UpdatedAt := now,
        gd_AuthorityPolicyJSON := ge_jsonb env (policy_text (ge_study env) policy), gd_AuthorityPolicyDigest := ap_Digest policy,
        gd_TransitionID := tid\<rparr>)"

text \<open>The update of the deployment; the trigger looks at the row it becomes.\<close>

definition update_deployment :: "gov_env \<Rightarrow> string \<Rightarrow> GovernanceDeployment \<Rightarrow> governance \<Rightarrow> governance gresult" where
  "update_deployment env setting d st =
     gov_write env ''governance_deployments'' (deployment_violation st setting d)
       (st\<lparr>gv_deployments := replace_row gd_ContextKey d (gv_deployments st)\<rparr>) st"

definition record_rollback ::
  "gov_env \<Rightarrow> Principal \<Rightarrow> RollbackRequest \<Rightarrow> ExperimentManifest \<Rightarrow> GovernanceDeployment \<Rightarrow> GovernanceMonitoringEvidence \<Rightarrow>
   governance \<Rightarrow> (GovernanceTransition \<times> governance) gresult" where
  "record_rollback env who q m current monitor st =
     and_then (evidenceDigest env (bq_EvidenceID q)) (\<lambda>evidence.
     and_then (target_policy env m ''rollback'') (\<lambda>policy.
     (let row = transition_defaults (new_rollback env who q current monitor evidence policy) in
     and_then (insert_transition env row st) (\<lambda>st.
     and_then (set_guard env st) (\<lambda>_.
     and_then (update_deployment env (gt_ID row) (rolled_back env q policy (gt_ID row) current) st) (\<lambda>st.
     and_then (if sp_Model (em_Spec m) \<noteq> None then writeModelAuthorityProjection env (bq_FallbackVersion q) ''rollback'' st
               else Inr st) (\<lambda>st.
       Inr (row, st))))))))"

text \<open>A failing read of the replay is not distinguished from an absent one.\<close>

definition rollback_body ::
  "gov_env \<Rightarrow> Principal \<Rightarrow> RollbackRequest \<Rightarrow> ExperimentManifest \<Rightarrow> governance \<Rightarrow> (GovernanceTransition \<times> governance) gresult" where
  "rollback_body env who q m st =
     (case find_replay env (bq_IdempotencyKey q) st of
        Inr (Some t) \<Rightarrow>
          if \<not> transition_intact (ge_study env) t \<or> \<not> same_rollback q t
          then Inl (GovernanceError ''governance_integrity_failure'' '''') else Inr (t, st)
      | _ \<Rightarrow>
          and_then (rollback_source env q m st) (\<lambda>(current, monitor). record_rollback env who q m current monitor st))"

definition Rollback ::
  "gov_env \<Rightarrow> Principal \<Rightarrow> RollbackRequest \<Rightarrow> governance \<Rightarrow> GovernanceTransition gresult \<times> governance" where
  "Rollback env who q st =
     (case require_capability who ''rollback'' of Some e \<Rightarrow> (Inl e, st)
      | None \<Rightarrow>
     if \<not> complete_rollback q then (Inl (GovernanceError ''fallback_required'' ''''), st)
     else case boundEvidence env (bq_ExperimentID q) (bq_EvidenceID q) of Inl e \<Rightarrow> (Inl e, st)
      | Inr (m, _) \<Rightarrow> gov_transaction env (rollback_body env who q m) st)"

section \<open>Checking a deployment\<close>

definition VerifyDeployment :: "gov_env \<Rightarrow> GovernanceDeployment \<Rightarrow> governance \<Rightarrow> gov_error option" where
  "VerifyDeployment env d st =
     (let w = ge_study env in
      case ge_UnmarshalPolicy env (gd_AuthorityPolicyJSON d) of
        None \<Rightarrow> Some (GovernanceError ''governance_integrity_failure'' ''deployment policy digest mismatch'')
      | Some policy \<Rightarrow>
          if policy_Verify w policy \<noteq> None \<or> ap_Digest policy \<noteq> gd_AuthorityPolicyDigest d
          then Some (GovernanceError ''governance_integrity_failure'' ''deployment policy digest mismatch'')
          else case gov_first env ''governance_transitions'' gt_ID (\<lambda>t. gt_ID t = gd_TransitionID d) (gv_transitions st) st of
            Inr (Some t) \<Rightarrow>
              failure (\<not> transition_intact w t \<or> gt_ContextKey t \<noteq> gd_ContextKey d \<or> gt_ToState t \<noteq> gd_State d
                  \<or> gt_AuthorityPolicyDigest t \<noteq> gd_AuthorityPolicyDigest d)
                (GovernanceError ''governance_integrity_failure'' ''deployment transition mismatch'')
          | _ \<Rightarrow> Some (GovernanceError ''governance_integrity_failure'' ''deployment transition mismatch''))"

end
