(* ===== verification/Governance_Laws.thy ===== *)
theory Governance_Laws
  imports Governance_Service
begin

text \<open>
  The laws of the governance operations. \<open>gov_world\<close> is what does not change between calls: codec and digests, the sealed
  manifests and evidence a load returns when it succeeds, the reading of stored metrics; \<open>conforms\<close> says an environment
  answers within it. \<open>gov_inv\<close> is the invariant: per context the transitions climb the ladder, the deployment mirrors the last
  of them, and every promotion and withdrawal has its evidence on file.
\<close>

record gov_world =
  gw_study :: study_env
  gw_manifest :: "string \<Rightarrow> ExperimentManifest option"
  gw_evidence :: "string \<Rightarrow> PersistedEvidence option"
  gw_metrics :: "string \<Rightarrow> (string, float64) gomap option"

definition conforms :: "gov_world \<Rightarrow> gov_env \<Rightarrow> bool" where
  "conforms W env \<longleftrightarrow> ge_study env = gw_study W \<and>
     (\<forall>i m. ge_LoadManifest env i = Inr m \<longrightarrow> gw_manifest W i = Some m) \<and>
     (\<forall>i v. ge_LoadEvidence env i = Inr v \<longrightarrow> gw_evidence W i = Some v) \<and>
     ge_UnmarshalMetrics env = gw_metrics W \<and> (\<forall>k. ge_timestamp env (k * 1000) = k * 1000) \<and>
     (\<forall>i d. ge_EvidenceDigest env i = Inr d \<longrightarrow> d \<noteq> '''') \<and> (\<forall>x. length (digest (gw_study W) x) = 64)"

section \<open>Statements\<close>

lemma gov_exec_Inr: "gov_exec env call st = Inr u \<longleftrightarrow> ge_db env call st = None"
  by (auto simp: gov_exec_def checked_def split: option.splits)

lemma gov_first_Inr:
  assumes "gov_first env table key P rows st = Inr r"
  shows "r = None \<Longrightarrow> \<forall>x \<in> set rows. \<not> P x" and "r = Some x \<Longrightarrow> x \<in> set rows \<and> P x"
  using assms by (auto simp: gov_first_def result_simps find_None_iff find_Some_iff in_set_conv_nth)
    (metis in_set_conv_nth length_sort set_sort)+

lemma gov_first_keyed:
  assumes "gov_first env table key (\<lambda>x. key x = k) rows st = Inr r" and "distinct (map key rows)"
  shows "r = find (\<lambda>x. key x = k) rows"
proof (cases r)
  case None
  then show ?thesis using gov_first_Inr(1) [OF assms(1)] by (simp add: find_None_iff2)
next
  case (Some x)
  then have x: "x \<in> set rows" "key x = k" using gov_first_Inr(2) [OF assms(1)] by simp_all
  obtain y where y: "find (\<lambda>x. key x = k) rows = Some y" using x find_None_iff [of "\<lambda>x. key x = k" rows] by fastforce
  then have "y \<in> set rows" "key y = k" by (auto simp: find_Some_iff)
  then have "y = x" using x assms(2) by (metis distinct_map inj_onD)
  then show ?thesis using y Some by simp
qed

lemma gov_write_Inr:
  "gov_write env table violation st' st = Inr r \<longleftrightarrow> ge_db env (WriteCall table) st = None \<and> violation = None \<and> r = st'"
  by (cases violation) (auto simp: gov_write_def result_simps gov_exec_Inr)

lemma gov_transaction_cases:
  obtains e where "gov_transaction env body st = (Inl e, st)"
  | x st' where "gov_transaction env body st = (Inr x, st')" "body st = Inr (x, st')"
proof (cases "body st")
  case (Inl e)
  then show thesis using that(1) by (simp add: gov_transaction_def)
next
  case (Inr r)
  obtain x st' where r: "r = (x, st')" by (cases r)
  show thesis using that Inr r by (cases "ge_db env CommitCall st'") (simp_all add: gov_transaction_def)
qed

lemma cause_Inr [simp]: "cause m = Inr x \<longleftrightarrow> m = Inr x"
  by (cases m) (simp_all add: cause_def)

lemma service_now_stored: "conforms W env \<Longrightarrow> ge_timestamp env (service_now env) = service_now env"
  by (simp add: conforms_def service_now_def)

lemma require_capability_None:
  "require_capability p c = None \<longleftrightarrow> principal_Has p c \<and> pc_id p \<noteq> ''''"
  by (auto simp: require_capability_def principal_Has_def)

lemma boundEvidence_Inr:
  "boundEvidence env i j = Inr (m, v) \<longleftrightarrow> ge_LoadManifest env i = Inr m \<and> ge_LoadEvidence env j = Inr v \<and> pe_ExperimentID v = em_ID m"
  by (auto simp: boundEvidence_def result_simps split: if_splits)

section \<open>Digests\<close>

lemma transition_digest_seal [simp]:
  "transitionDigest w (row\<lparr>gt_ContentDigest := d, gt_ID := i\<rparr>) = transitionDigest w row"
  by (simp add: transitionDigest_def)

lemma sealed_intact [simp]: "transition_intact w (seal_transition w row)"
  by (simp add: transition_intact_def seal_transition_def Let_def)

lemma approval_digest_seal [simp]:
  "approvalDigest w (row\<lparr>ga_ContentDigest := d, ga_ID := i\<rparr>) = approvalDigest w row"
  by (simp add: approvalDigest_def)

lemma sealed_approval_intact [simp]: "approval_intact w (seal_approval w row)"
  by (simp add: approval_intact_def seal_approval_def Let_def)

lemma policy_digest_nonempty:
  assumes "conforms W env" and "target_policy env m s = Inr policy"
  shows "ap_Digest policy \<noteq> ''''"
proof -
  obtain payload where "ap_Digest policy = policy_digest (gw_study W) payload"
    using assms by (auto simp: target_policy_def WithRolloutState_def NewAuthorityPolicyEnvelope_def result_simps conforms_def
        split: if_splits)
  then have "length (ap_Digest policy) = 64" using assms(1) by (simp add: policy_digest_def conforms_def)
  then show ?thesis by auto
qed

lemma seal_transition_simps [simp]:
  "gt_IdempotencyKey (seal_transition w r) = gt_IdempotencyKey r" "gt_ContextKey (seal_transition w r) = gt_ContextKey r"
  "gt_ExperimentID (seal_transition w r) = gt_ExperimentID r" "gt_EvidenceID (seal_transition w r) = gt_EvidenceID r"
  "gt_ApprovalID (seal_transition w r) = gt_ApprovalID r" "gt_FromState (seal_transition w r) = gt_FromState r"
  "gt_ToState (seal_transition w r) = gt_ToState r" "gt_ArtifactVersion (seal_transition w r) = gt_ArtifactVersion r"
  "gt_FallbackVersion (seal_transition w r) = gt_FallbackVersion r" "gt_Reason (seal_transition w r) = gt_Reason r"
  "gt_CreatedAt (seal_transition w r) = gt_CreatedAt r" "gt_PolicyVersion (seal_transition w r) = gt_PolicyVersion r"
  "gt_AuthorityPolicyDigest (seal_transition w r) = gt_AuthorityPolicyDigest r"
  "gt_ApprovalDigest (seal_transition w r) = gt_ApprovalDigest r" "gt_EvidenceDigest (seal_transition w r) = gt_EvidenceDigest r"
  "gt_MonitoringEvidenceID (seal_transition w r) = gt_MonitoringEvidenceID r"
  "gt_MonitoringEvidenceDigest (seal_transition w r) = gt_MonitoringEvidenceDigest r" "gt_Actor (seal_transition w r) = gt_Actor r"
  by (simp_all add: seal_transition_def Let_def)

lemma transition_defaults_same:
  assumes "gt_PolicyVersion r \<noteq> ''''" and "gt_AuthorityPolicyDigest r \<noteq> ''''" and "gt_EvidenceDigest r \<noteq> ''''" and "gt_Actor r \<noteq> ''''"
  shows "transition_defaults r = r"
  using assms by (simp add: transition_defaults_def with_default_def)

section \<open>The outcomes of a transition\<close>

abbreviation from_of :: "GovernanceDeployment option \<Rightarrow> string" where
  "from_of found \<equiv> (case found of None \<Rightarrow> '''' | Some d \<Rightarrow> gd_State d)"

abbreviation row_of :: "GovernanceDeployment option \<Rightarrow> GovernanceDeployment" where
  "row_of found \<equiv> (case found of None \<Rightarrow> zero_deployment | Some d \<Rightarrow> d)"

definition approval_step ::
  "gov_env \<Rightarrow> TransitionRequest \<Rightarrow> ExperimentManifest \<Rightarrow> PersistedEvidence \<Rightarrow> GovernanceDeployment option \<Rightarrow> governance \<Rightarrow>
   GovernanceApproval option \<Rightarrow> bool" where
  "approval_step env q m v found st approval \<longleftrightarrow>
     (if from_of found \<noteq> '''' \<or> tq_TargetState q \<noteq> ''research''
      then \<exists>a. bound_approval env q m v (row_of found) st = Inr a \<and> approval = Some a else approval = None)"

lemma transition_body_cases:
  assumes "transition_body env who q m v st = Inr (t, st')"
  obtains (replayed) "st' = st" and "t \<in> set (gv_transitions st)" and "gt_IdempotencyKey t = tq_IdempotencyKey q"
    and "transition_intact (ge_study env) t" and "same_transition q t"
  | (moved) found approval elapsed where "find_replay env (tq_IdempotencyKey q) st = Inr None"
    and "find_deployment env (tq_ContextKey q) st = Inr found" and "legal (from_of found) (tq_TargetState q)"
    and "approval_step env q m v found st approval" and "quarantine m (tq_TargetState q) = None"
    and "elapsed_evidence env q m (row_of found) st = Inr elapsed"
    and "record_transition env who q m (from_of found) approval elapsed st = Inr (t, st')"
proof -
  obtain replay where replay: "find_replay env (tq_IdempotencyKey q) st = Inr replay"
    using assms by (auto simp: transition_body_def result_simps)
  show thesis
  proof (cases replay)
    case (Some t0)
    then have "t0 = t" "st' = st" "transition_intact (ge_study env) t" "same_transition q t"
      using assms replay by (auto simp: transition_body_def result_simps split: if_splits)
    moreover have "t0 \<in> set (gv_transitions st)" "gt_IdempotencyKey t0 = tq_IdempotencyKey q"
      using gov_first_Inr(2) [OF replay [unfolded find_replay_def] Some] by simp_all
    ultimately show thesis using replayed by simp
  next
    case None
    obtain found where found: "find_deployment env (tq_ContextKey q) st = Inr found"
      using assms replay None by (auto simp: transition_body_def result_simps)
    have "legal (from_of found) (tq_TargetState q)" and
      "\<exists>approval elapsed. approval_step env q m v found st approval \<and> quarantine m (tq_TargetState q) = None \<and>
        elapsed_evidence env q m (row_of found) st = Inr elapsed \<and>
        record_transition env who q m (from_of found) approval elapsed st = Inr (t, st')"
      using assms replay None found
      by (auto simp: transition_body_def approval_step_def Let_def result_simps split: if_splits)
    then show thesis using moved replay None found by blast
  qed
qed

lemma Transition_cases:
  obtains (refused) e where "Transition env who q st = (Inl e, st)"
  | (replayed) t where "Transition env who q st = (Inr t, st)" and "t \<in> set (gv_transitions st)"
    and "gt_IdempotencyKey t = tq_IdempotencyKey q" and "transition_intact (ge_study env) t" and "same_transition q t"
    and "principal_Has who ''transition''"
  | (moved) m v found approval elapsed t st' where "Transition env who q st = (Inr t, st')"
    and "principal_Has who ''transition''" and "pc_id who \<noteq> ''''" and "complete_transition q" and "tq_TargetState q \<noteq> ''rollback''"
    and "boundEvidence env (tq_ExperimentID q) (tq_EvidenceID q) = Inr (m, v)" and "promotable env q m v = None"
    and "find_replay env (tq_IdempotencyKey q) st = Inr None"
    and "find_deployment env (tq_ContextKey q) st = Inr found" and "legal (from_of found) (tq_TargetState q)"
    and "approval_step env q m v found st approval" and "quarantine m (tq_TargetState q) = None"
    and "elapsed_evidence env q m (row_of found) st = Inr elapsed"
    and "record_transition env who q m (from_of found) approval elapsed st = Inr (t, st')"
proof (cases "\<exists>e. Transition env who q st = (Inl e, st)")
  case True
  then show thesis using refused by blast
next
  case False
  then have allowed: "require_capability who ''transition'' = None" "tq_TargetState q \<noteq> ''rollback''" "complete_transition q"
    by (auto simp: Transition_def split: option.splits if_splits)
  obtain m v where bound: "boundEvidence env (tq_ExperimentID q) (tq_EvidenceID q) = Inr (m, v)" "promotable env q m v = None"
    using False allowed
    by (cases "boundEvidence env (tq_ExperimentID q) (tq_EvidenceID q)") (fastforce simp: Transition_def split: option.splits)+
  have run: "Transition env who q st = gov_transaction env (transition_body env who q m v) st"
    using allowed bound by (simp add: Transition_def)
  obtain t st' where ran: "Transition env who q st = (Inr t, st')" "transition_body env who q m v st = Inr (t, st')"
    using gov_transaction_cases [of env "transition_body env who q m v" st] False run by metis
  from ran(2) show thesis
  proof (cases rule: transition_body_cases)
    case replayed
    then show thesis using that(2) [of t] ran(1) allowed(1) by (simp add: require_capability_None)
  next
    case (moved found approval elapsed)
    then show thesis using that(3) [of t st' m v found approval elapsed] ran(1) allowed bound by (simp add: require_capability_None)
  qed
qed

lemma write_settings_Inr:
  assumes "write_settings env kvs st = Inr st'"
  shows "gv_approvals st' = gv_approvals st" "gv_deployments st' = gv_deployments st" "gv_transitions st' = gv_transitions st"
    "gv_monitors st' = gv_monitors st"
  using assms by (induction env kvs st rule: write_settings.induct) (auto simp: result_simps gov_write_Inr)

lemma projection_Inr:
  assumes "writeModelAuthorityProjection env version state st = Inr st'"
  shows "gv_approvals st' = gv_approvals st \<and> gv_deployments st' = gv_deployments st \<and> gv_transitions st' = gv_transitions st \<and>
    gv_monitors st' = gv_monitors st"
  using write_settings_Inr [OF assms [unfolded writeModelAuthorityProjection_def]] by simp

definition put_deployment :: "GovernanceDeployment \<Rightarrow> GovernanceDeployment list \<Rightarrow> GovernanceDeployment list" where
  "put_deployment d ds =
     (if gd_ContextKey d \<in> gd_ContextKey ` set ds then replace_row gd_ContextKey d ds else ds @ [d])"

definition the_deployment :: "string \<Rightarrow> governance \<Rightarrow> GovernanceDeployment option" where
  "the_deployment c st = find (\<lambda>d. gd_ContextKey d = c) (gv_deployments st)"

lemma find_replaced:
  "find (\<lambda>r. key r = c) (replace_row key d ds) =
     (if c = key d then if c \<in> key ` set ds then Some d else None else find (\<lambda>r. key r = c) ds)"
  by (induction ds) (auto simp: replace_row_def)

lemma find_appended: "find P (xs @ [x]) = (case find P xs of None \<Rightarrow> if P x then Some x else None | Some y \<Rightarrow> Some y)"
  by (induction xs) auto

lemma put_deployment_find:
  "find (\<lambda>r. gd_ContextKey r = c) (put_deployment d ds) =
     (if c = gd_ContextKey d then Some d else find (\<lambda>r. gd_ContextKey r = c) ds)"
proof (cases "gd_ContextKey d \<in> gd_ContextKey ` set ds")
  case True
  then show ?thesis by (auto simp: put_deployment_def find_replaced)
next
  case False
  then have "find (\<lambda>r. gd_ContextKey r = gd_ContextKey d) ds = None" by (simp add: find_None_iff image_iff) metis
  then show ?thesis using False by (cases "c = gd_ContextKey d") (simp_all add: put_deployment_def find_appended split: option.split)
qed

lemma put_deployment_distinct:
  "distinct (map gd_ContextKey ds) \<Longrightarrow> distinct (map gd_ContextKey (put_deployment d ds))"
  by (simp add: put_deployment_def replace_row_keys)

lemma stored_transition_same:
  assumes "conforms W env" and "gt_CreatedAt t = service_now env"
  shows "stored_transition env t = t"
  using service_now_stored [OF assms(1)] assms(2) by (simp add: stored_transition_def)

lemma record_transition_Inr:
  assumes "conforms W env" and "record_transition env who q m from approval elapsed st = Inr (t, st')"
    and "pc_id who \<noteq> ''''" and "complete_transition q"
  obtains evidence policy where "target_policy env m (tq_TargetState q) = Inr policy"
    and "evidenceDigest env (tq_EvidenceID q) = Inr evidence"
    and "t = new_transition env who q from approval elapsed evidence policy" and "transition_violation st t = None"
    and "gv_transitions st' = gv_transitions st @ [t]" and "gv_approvals st' = gv_approvals st"
    and "gv_monitors st' = gv_monitors st"
    and "gv_deployments st' = put_deployment (new_deployment env q policy (gt_ID t)) (gv_deployments st)"
proof -
  obtain evidence policy st1 st2 where run: "evidenceDigest env (tq_EvidenceID q) = Inr evidence"
    "target_policy env m (tq_TargetState q) = Inr policy"
    "t = transition_defaults (new_transition env who q from approval elapsed evidence policy)"
    "insert_transition env t st = Inr st1"
    "upsert_deployment env (gt_ID t) (new_deployment env q policy (gt_ID t)) st1 = Inr st2"
    "(if sp_Model (em_Spec m) \<noteq> None \<and> tq_TargetState q \<noteq> ''research''
      then writeModelAuthorityProjection env (tq_ArtifactVersion q) (tq_TargetState q) st2 else Inr st2) = Inr st'"
    using assms(2) unfolding record_transition_def Let_def and_then_eq_Inr by (elim exE conjE) fastforce
  have evidence: "evidence \<noteq> ''''" using run(1) assms(1) by (auto simp: evidenceDigest_def conforms_def)
  have t: "t = new_transition env who q from approval elapsed evidence policy"
    unfolding run(3) by (rule transition_defaults_same)
      (use assms(3,4) policy_digest_nonempty [OF assms(1) run(2)] evidence in \<open>simp_all add: new_transition_def complete_transition_def\<close>)
  have now: "gt_CreatedAt t = service_now env" by (simp add: t new_transition_def)
  have st1: "transition_violation st t = None" "st1 = st\<lparr>gv_transitions := gv_transitions st @ [t]\<rparr>"
    using run(4) stored_transition_same [OF assms(1) now] by (simp_all add: insert_transition_def gov_write_Inr)
  have st2: "gv_transitions st2 = gv_transitions st1" "gv_approvals st2 = gv_approvals st1" "gv_monitors st2 = gv_monitors st1"
    "gv_deployments st2 = put_deployment (new_deployment env q policy (gt_ID t)) (gv_deployments st1)"
    using run(5) by (simp_all add: upsert_deployment_def gov_write_Inr put_deployment_def)
  have "gv_transitions st' = gv_transitions st2" "gv_approvals st' = gv_approvals st2" "gv_monitors st' = gv_monitors st2"
    "gv_deployments st' = gv_deployments st2"
    using run(6) by (auto split: if_splits dest: projection_Inr)
  with that run(1,2) t st1 st2 show thesis by simp
qed

section \<open>The outcomes of a rollback\<close>

lemma rollback_source_Inr:
  assumes "rollback_source env q m st = Inr (current, monitor)"
  obtains metrics where "find_deployment env (bq_ContextKey q) st = Inr (Some current)"
    and "gd_ExperimentID current = bq_ExperimentID q" and "gd_EvidenceID current = bq_EvidenceID q"
    and "bq_FallbackVersion q = gd_FallbackVersion current"
    and "loadMonitoringEvidence env (bq_MonitoringEvidenceID q) st = Inr monitor" and "monitor_fresh env q current monitor"
    and "ge_UnmarshalMetrics env (gm_MetricsJSON monitor) = Some metrics" and "triggered (em_Spec m) metrics"
  using assms by (auto simp: rollback_source_def result_simps split: option.splits if_splits)

lemma loadMonitoringEvidence_Inr:
  assumes "loadMonitoringEvidence env mid st = Inr r"
  shows "r \<in> set (gv_monitors st)" and "gm_ID r = mid" and "monitor_intact env r"
proof -
  obtain x where x: "gov_first env ''governance_monitoring_evidences'' gm_ID (\<lambda>r. gm_ID r = mid) (gv_monitors st) st = Inr (Some x)"
    "monitor_intact env x" "x = r"
    using assms by (auto simp: loadMonitoringEvidence_def split: sum.splits option.splits if_splits)
  then show "r \<in> set (gv_monitors st)" "gm_ID r = mid" "monitor_intact env r" using gov_first_Inr(2) [OF x(1)] by auto
qed

lemma record_rollback_Inr:
  assumes "conforms W env" and "record_rollback env who q m current monitor st = Inr (t, st')"
    and "pc_id who \<noteq> ''''" and "gd_PolicyVersion current \<noteq> ''''"
    and "gd_ContextKey current \<in> gd_ContextKey ` set (gv_deployments st)"
  obtains evidence policy where "target_policy env m ''rollback'' = Inr policy"
    and "t = new_rollback env who q current monitor evidence policy" and "transition_violation st t = None"
    and "gv_transitions st' = gv_transitions st @ [t]" and "gv_approvals st' = gv_approvals st"
    and "gv_monitors st' = gv_monitors st"
    and "gv_deployments st' = put_deployment (rolled_back env q policy (gt_ID t) current) (gv_deployments st)"
proof -
  obtain evidence policy st1 st2 where run: "evidenceDigest env (bq_EvidenceID q) = Inr evidence"
    "target_policy env m ''rollback'' = Inr policy"
    "t = transition_defaults (new_rollback env who q current monitor evidence policy)" "insert_transition env t st = Inr st1"
    "update_deployment env (gt_ID t) (rolled_back env q policy (gt_ID t) current) st1 = Inr st2"
    "(if sp_Model (em_Spec m) \<noteq> None then writeModelAuthorityProjection env (bq_FallbackVersion q) ''rollback'' st2
      else Inr st2) = Inr st'"
    using assms(2) unfolding record_rollback_def Let_def and_then_eq_Inr by (elim exE conjE) fastforce
  have evidence: "evidence \<noteq> ''''" using run(1) assms(1) by (auto simp: evidenceDigest_def conforms_def)
  have t: "t = new_rollback env who q current monitor evidence policy"
    unfolding run(3) by (rule transition_defaults_same)
      (use assms(3,4) policy_digest_nonempty [OF assms(1) run(2)] evidence in \<open>simp_all add: new_rollback_def\<close>)
  have now: "gt_CreatedAt t = service_now env" by (simp add: t new_rollback_def)
  have st1: "transition_violation st t = None" "st1 = st\<lparr>gv_transitions := gv_transitions st @ [t]\<rparr>"
    using run(4) stored_transition_same [OF assms(1) now] by (simp_all add: insert_transition_def gov_write_Inr)
  have key: "gd_ContextKey (rolled_back env q policy (gt_ID t) current) = gd_ContextKey current"
    by (simp add: rolled_back_def Let_def)
  have st2: "gv_transitions st2 = gv_transitions st1" "gv_approvals st2 = gv_approvals st1" "gv_monitors st2 = gv_monitors st1"
    "gv_deployments st2 = put_deployment (rolled_back env q policy (gt_ID t) current) (gv_deployments st1)"
    using run(5) assms(5) by (simp_all add: update_deployment_def gov_write_Inr put_deployment_def key st1(2))
  have "gv_transitions st' = gv_transitions st2" "gv_approvals st' = gv_approvals st2" "gv_monitors st' = gv_monitors st2"
    "gv_deployments st' = gv_deployments st2"
    using run(6) by (auto split: if_splits dest: projection_Inr)
  with that run(2) t st1 st2 show thesis by simp
qed

lemma Rollback_cases:
  obtains (refused) e where "Rollback env who q st = (Inl e, st)"
  | (replayed) t where "Rollback env who q st = (Inr t, st)" and "t \<in> set (gv_transitions st)"
    and "gt_IdempotencyKey t = bq_IdempotencyKey q" and "transition_intact (ge_study env) t" and "same_rollback q t"
    and "principal_Has who ''rollback''"
  | (moved) m v current monitor t st' where "Rollback env who q st = (Inr t, st')"
    and "principal_Has who ''rollback''" and "pc_id who \<noteq> ''''" and "complete_rollback q"
    and "boundEvidence env (bq_ExperimentID q) (bq_EvidenceID q) = Inr (m, v)"
    and "rollback_source env q m st = Inr (current, monitor)"
    and "record_rollback env who q m current monitor st = Inr (t, st')"
proof (cases "\<exists>e. Rollback env who q st = (Inl e, st)")
  case True
  then show thesis using refused by blast
next
  case False
  then have allowed: "require_capability who ''rollback'' = None" "complete_rollback q"
    by (auto simp: Rollback_def split: option.splits if_splits)
  obtain m v where bound: "boundEvidence env (bq_ExperimentID q) (bq_EvidenceID q) = Inr (m, v)"
    using False allowed
    by (cases "boundEvidence env (bq_ExperimentID q) (bq_EvidenceID q)") (fastforce simp: Rollback_def)+
  have run: "Rollback env who q st = gov_transaction env (rollback_body env who q m) st"
    using allowed bound by (simp add: Rollback_def)
  obtain t st' where ran: "Rollback env who q st = (Inr t, st')" "rollback_body env who q m st = Inr (t, st')"
    using gov_transaction_cases [of env "rollback_body env who q m" st] False run by metis
  show thesis
  proof (cases "\<exists>t0. find_replay env (bq_IdempotencyKey q) st = Inr (Some t0)")
    case True
    then obtain t0 where t0: "find_replay env (bq_IdempotencyKey q) st = Inr (Some t0)" by blast
    then have "t0 = t" "st' = st" "transition_intact (ge_study env) t" "same_rollback q t"
      using ran(2) by (auto simp: rollback_body_def split: if_splits)
    then show thesis
      using replayed [of t] ran(1) allowed(1) gov_first_Inr(2) [OF t0 [unfolded find_replay_def] refl]
      by (simp add: require_capability_None)
  next
    case False
    then have "and_then (rollback_source env q m st) (\<lambda>(current, monitor). record_rollback env who q m current monitor st) = Inr (t, st')"
      using ran(2) by (auto simp: rollback_body_def split: sum.splits option.splits)
    then show thesis using moved ran(1) allowed bound by (auto simp: result_simps require_capability_None)
  qed
qed

section \<open>The outcomes of an approval and of monitoring evidence\<close>

lemma seal_approval_simps [simp]:
  "ga_IdempotencyKey (seal_approval w r) = ga_IdempotencyKey r" "ga_ExperimentID (seal_approval w r) = ga_ExperimentID r"
  "ga_EvidenceID (seal_approval w r) = ga_EvidenceID r" "ga_TargetState (seal_approval w r) = ga_TargetState r"
  "ga_ArtifactVersion (seal_approval w r) = ga_ArtifactVersion r" "ga_PolicyVersion (seal_approval w r) = ga_PolicyVersion r"
  "ga_Approver (seal_approval w r) = ga_Approver r" "ga_Reason (seal_approval w r) = ga_Reason r"
  "ga_ApprovedAt (seal_approval w r) = ga_ApprovedAt r" "ga_SourceState (seal_approval w r) = ga_SourceState r"
  "ga_SourceActivatedAt (seal_approval w r) = ga_SourceActivatedAt r"
  "ga_AuthorityPolicyDigest (seal_approval w r) = ga_AuthorityPolicyDigest r"
  "ga_EvidenceDigest (seal_approval w r) = ga_EvidenceDigest r" "ga_ExpiresAt (seal_approval w r) = ga_ExpiresAt r"
  by (simp_all add: seal_approval_def Let_def)

lemma Approving_cases:
  obtains (refused) e where "Approve env who q st = (Inl e, st)"
  | (replayed) a where "Approve env who q st = (Inr a, st)" and "principal_Has who ''approve''" and "a \<in> set (gv_approvals st)"
    and "approval_intact (ge_study env) a" and "ga_IdempotencyKey a = aq_IdempotencyKey q" and "ga_Approver a = pc_id who"
  | (approved) m v source evidence policy row st' where "Approve env who q st = (Inr row, st')"
    and "principal_Has who ''approve''" and "pc_id who \<noteq> ''''" and "complete_approval q"
    and "boundEvidence env (aq_ExperimentID q) (aq_EvidenceID q) = Inr (m, v)" and "approvable env q m v = None"
    and "approval_source env q m st = Inr source" and "evidenceDigest env (aq_EvidenceID q) = Inr evidence"
    and "target_policy env m (aq_TargetState q) = Inr policy"
    and "row = approval_defaults (new_approval env who q source evidence policy)"
    and "ga_IdempotencyKey row \<notin> ga_IdempotencyKey ` set (gv_approvals st)" and "approval_violation (gv_approvals st) row = None"
    and "st' = st\<lparr>gv_approvals := gv_approvals st @ [stored_approval env row]\<rparr>"
proof (cases "approve env who q st")
  case (Inl e)
  then show thesis using refused by (simp add: Approve_def)
next
  case (Inr r)
  obtain a st' where r: "r = (a, st')" by (cases r)
  have run: "Approve env who q st = (Inr a, st')" using Inr r by (simp add: Approve_def)
  have allowed: "principal_Has who ''approve''" "pc_id who \<noteq> ''''" "complete_approval q"
    using Inr by (auto simp: approve_def result_simps require_capability_None)
  obtain m v source evidence policy created where facts:
    "boundEvidence env (aq_ExperimentID q) (aq_EvidenceID q) = Inr (m, v)" "approvable env q m v = None"
    "approval_source env q m st = Inr source" "evidenceDigest env (aq_EvidenceID q) = Inr evidence"
    "target_policy env m (aq_TargetState q) = Inr policy"
    "insert_approval env (approval_defaults (new_approval env who q source evidence policy)) st = Inr (created, st')"
    "if created then a = approval_defaults (new_approval env who q source evidence policy)
     else replayed_approval env who q source evidence policy st' = Inr a"
    using Inr r by (fastforce simp: approve_def result_simps Let_def split: if_splits)
  show thesis
  proof (cases created)
    case True
    then show thesis using approved [OF run allowed facts(1-5)] facts(6,7)
      by (auto simp: insert_approval_def result_simps gov_write_Inr split: if_splits)
  next
    case False
    then have st': "st' = st" using facts(6) by (auto simp: insert_approval_def result_simps split: if_splits)
    obtain x where x: "gov_first env ''governance_approvals'' ga_ID (\<lambda>a. ga_IdempotencyKey a = aq_IdempotencyKey q)
        (gv_approvals st) st = Inr (Some x)" "approval_intact (ge_study env) x" "x = a" "same_approval who q source evidence policy x"
      using facts(7) False st' by (auto simp: replayed_approval_def result_simps split: option.splits if_splits)
    then show thesis using replayed [of a] run st' allowed(1) gov_first_Inr(2) [OF x(1) refl] by (simp add: same_approval_def)
  qed
qed

lemma Monitor_cases:
  obtains (same) r where "RecordMonitoringEvidence env who q st = (r, st)"
    and "\<And>row. r = Inr row \<Longrightarrow> principal_Has who ''rollback'' \<and> row \<in> set (gv_monitors st)"
  | (recorded) d row r where "RecordMonitoringEvidence env who q st =
        (r, st\<lparr>gv_monitors := gv_monitors st @ [stored_monitor env row]\<rparr>)" and "principal_Has who ''rollback''"
    and "find_deployment env (mq_ContextKey q) st = Inr (Some d)" and "monitor_refused env q d = None"
    and "row = new_monitor env q d" and "monitor_violation st row = None"
proof (cases "require_capability who ''rollback''")
  case (Some e)
  then show thesis using same by (simp add: RecordMonitoringEvidence_def)
next
  case None
  then have has: "principal_Has who ''rollback''" by (simp add: require_capability_None)
  show thesis
  proof (cases "\<exists>d. find_deployment env (mq_ContextKey q) st = Inr (Some d) \<and> monitor_refused env q d = None \<and>
      insert_monitor env (new_monitor env q d) st \<noteq> Inr st \<and> (\<exists>st'. insert_monitor env (new_monitor env q d) st = Inr st')")
    case True
    then obtain d st' where d: "find_deployment env (mq_ContextKey q) st = Inr (Some d)" "monitor_refused env q d = None"
      "insert_monitor env (new_monitor env q d) st = Inr st'" "st' \<noteq> st" by blast
    then have "monitor_violation st (new_monitor env q d) = None"
      "st' = st\<lparr>gv_monitors := gv_monitors st @ [stored_monitor env (new_monitor env q d)]\<rparr>"
      by (auto simp: insert_monitor_def result_simps gov_write_Inr split: if_splits)
    then show thesis using recorded [OF _ has d(1,2) refl] d None by (simp add: RecordMonitoringEvidence_def Let_def)
  next
    case False
    have "snd (RecordMonitoringEvidence env who q st) = st"
      using False None by (auto simp: RecordMonitoringEvidence_def Let_def split: sum.splits option.splits)
    moreover have "row \<in> set (gv_monitors st)" if "fst (RecordMonitoringEvidence env who q st) = Inr row" for row
    proof -
      have "\<exists>mid st'. loadMonitoringEvidence env mid st' = Inr row \<and> st' = snd (RecordMonitoringEvidence env who q st)"
        using that None by (auto simp: RecordMonitoringEvidence_def Let_def split: sum.splits option.splits)
      then show ?thesis using calculation loadMonitoringEvidence_Inr(1) by metis
    qed
    ultimately show thesis using same [of "fst (RecordMonitoringEvidence env who q st)"] has by (metis prod.collapse)
  qed
qed

section \<open>The invariant\<close>

definition path :: "string \<Rightarrow> governance \<Rightarrow> GovernanceTransition list" where
  "path c st = filter (\<lambda>t. gt_ContextKey t = c) (gv_transitions st)"

text \<open>From a state, each transition starts where the one before ended and is one step of the ladder, or withdraws.\<close>

fun climbs :: "string \<Rightarrow> GovernanceTransition list \<Rightarrow> bool" where
  "climbs s [] = True"
| "climbs s (t # ts) \<longleftrightarrow> gt_FromState t = s
     \<and> (legal s (gt_ToState t) \<and> gt_ToState t \<noteq> ''rollback'' \<or> gt_ToState t = ''rollback'' \<and> s \<noteq> '''' \<and> s \<noteq> ''rollback'')
     \<and> climbs (gt_ToState t) ts"

definition mirrors :: "GovernanceDeployment \<Rightarrow> GovernanceTransition \<Rightarrow> bool" where
  "mirrors d t \<longleftrightarrow> gd_ContextKey d = gt_ContextKey t \<and> gd_TransitionID d = gt_ID t \<and> gd_State d = gt_ToState t
     \<and> gd_AuthorityPolicyDigest d = gt_AuthorityPolicyDigest t \<and> gd_ActivatedAt d = gt_CreatedAt t
     \<and> gd_PolicyVersion d = gt_PolicyVersion t \<and> gd_FallbackVersion d = gt_FallbackVersion t
     \<and> gd_ExperimentID d = gt_ExperimentID t \<and> gd_EvidenceID d = gt_EvidenceID t"

text \<open>The human approval of a promotion out of the transition \<open>s\<close>: intact, unexpired, bound to both.\<close>

definition approves_move :: "gov_world \<Rightarrow> GovernanceApproval \<Rightarrow> GovernanceTransition \<Rightarrow> GovernanceTransition \<Rightarrow> bool" where
  "approves_move W a s t \<longleftrightarrow> approval_intact (gw_study W) a \<and> gt_ApprovalID t = Some (ga_ID a)
     \<and> gt_ApprovalDigest t = ga_ContentDigest a \<and> ga_ExperimentID a = gt_ExperimentID t \<and> ga_EvidenceID a = gt_EvidenceID t
     \<and> ga_TargetState a = gt_ToState t \<and> ga_ArtifactVersion a = gt_ArtifactVersion t \<and> ga_PolicyVersion a = gt_PolicyVersion t
     \<and> ga_SourceState a = gt_FromState t \<and> ga_SourceActivatedAt a = gt_CreatedAt s
     \<and> ga_AuthorityPolicyDigest a = gt_AuthorityPolicyDigest t \<and> ga_EvidenceDigest a = gt_EvidenceDigest t
     \<and> gt_CreatedAt t < ga_ExpiresAt a"

text \<open>Monitoring of \<open>s\<close> up to the transition \<open>t\<close> over a complete window.\<close>

definition monitored :: "GovernanceMonitoringEvidence \<Rightarrow> GovernanceTransition \<Rightarrow> GovernanceTransition \<Rightarrow> bool" where
  "monitored r s t \<longleftrightarrow> gt_MonitoringEvidenceID t = Some (gm_ID r) \<and> gm_ContextKey r = gt_ContextKey t
     \<and> gm_ExperimentID r = gt_ExperimentID t \<and> gm_DeploymentTransitionID r = gt_ID s \<and> gt_CreatedAt s \<le> gm_WindowStart r
     \<and> gm_WindowEnd r \<le> gt_CreatedAt t \<and> gm_ExpectedObservations r \<le> gm_ObservedObservations r"

definition promoted :: "gov_world \<Rightarrow> governance \<Rightarrow> GovernanceTransition \<Rightarrow> bool" where
  "promoted W st t \<longleftrightarrow> (\<exists>m v s. gw_manifest W (gt_ExperimentID t) = Some m \<and> gw_evidence W (gt_EvidenceID t) = Some v
     \<and> authorityContext m = gt_ContextKey t \<and> pe_ExperimentID v = em_ID m \<and> evidence_passed v \<and> quarantine m (gt_ToState t) = None
     \<and> gt_ArtifactVersion t = expected_artifact m \<and> s \<in> set (gv_transitions st) \<and> gt_ContextKey s = gt_ContextKey t
     \<and> gt_ToState s = gt_FromState t
     \<and> (\<exists>a \<in> set (gv_approvals st). approves_move W a s t \<and> pe_CreatedAt v \<le> ga_ApprovedAt a)
     \<and> (0 < elapsed_of (em_Spec m) (gt_ToState t) \<longrightarrow> (\<exists>r \<in> set (gv_monitors st). monitored r s t
          \<and> elapsed_of (em_Spec m) (gt_ToState t) \<le> time_sub (gm_WindowEnd r) (gm_WindowStart r))))"

definition withdrawn :: "gov_world \<Rightarrow> governance \<Rightarrow> GovernanceTransition \<Rightarrow> bool" where
  "withdrawn W st t \<longleftrightarrow> (\<exists>m s metrics. gw_manifest W (gt_ExperimentID t) = Some m \<and> s \<in> set (gv_transitions st)
     \<and> gt_ContextKey s = gt_ContextKey t \<and> gt_ToState s = gt_FromState t \<and> gt_FallbackVersion s = gt_FallbackVersion t
     \<and> (\<exists>r \<in> set (gv_monitors st). monitored r s t \<and> 0 < gm_ExpectedObservations r
          \<and> time_sub (gt_CreatedAt t) (gm_WindowEnd r) \<le> one_day \<and> gw_metrics W (gm_MetricsJSON r) = Some metrics
          \<and> triggered (em_Spec m) metrics))"

definition on_file :: "gov_world \<Rightarrow> governance \<Rightarrow> GovernanceTransition \<Rightarrow> bool" where
  "on_file W st t \<longleftrightarrow> transition_intact (gw_study W) t \<and> gt_PolicyVersion t \<noteq> '''' \<and> knownState (gt_ToState t)
     \<and> (gt_ToState t = ''rollback'' \<longrightarrow> withdrawn W st t)
     \<and> (gt_FromState t \<noteq> '''' \<and> gt_ToState t \<noteq> ''rollback'' \<longrightarrow> promoted W st t)"

definition mirrored :: "string \<Rightarrow> governance \<Rightarrow> bool" where
  "mirrored c st \<longleftrightarrow> (case the_deployment c st of
     None \<Rightarrow> path c st = [] | Some d \<Rightarrow> path c st \<noteq> [] \<and> mirrors d (last (path c st)))"

definition gov_inv :: "gov_world \<Rightarrow> governance \<Rightarrow> bool" where
  "gov_inv W st \<longleftrightarrow> distinct (map gd_ContextKey (gv_deployments st)) \<and> distinct (map gt_ID (gv_transitions st))
     \<and> distinct (map gt_IdempotencyKey (gv_transitions st)) \<and> (\<forall>c. climbs '''' (path c st)) \<and> (\<forall>c. mirrored c st)
     \<and> (\<forall>t \<in> set (gv_transitions st). on_file W st t) \<and> distinct (map ga_ID (gv_approvals st))"

text \<open>Nothing on file is lost when the tables grow.\<close>

definition grows :: "governance \<Rightarrow> governance \<Rightarrow> bool" where
  "grows st st' \<longleftrightarrow> (\<exists>as. gv_approvals st' = gv_approvals st @ as) \<and> (\<exists>ts. gv_transitions st' = gv_transitions st @ ts)
     \<and> (\<exists>ms. gv_monitors st' = gv_monitors st @ ms)"

lemma grows_refl [simp, intro]: "grows st st"
  by (simp add: grows_def)

lemma grows_trans: "grows st1 st2 \<Longrightarrow> grows st2 st3 \<Longrightarrow> grows st1 st3"
  by (auto simp: grows_def)

lemma grows_sets:
  assumes "grows st st'"
  shows "set (gv_approvals st) \<subseteq> set (gv_approvals st')" "set (gv_transitions st) \<subseteq> set (gv_transitions st')"
    "set (gv_monitors st) \<subseteq> set (gv_monitors st')"
  using assms by (auto simp: grows_def)

lemma promoted_grows:
  assumes "promoted W st t" and "grows st st'"
  shows "promoted W st' t"
proof -
  note sets = grows_sets [OF assms(2)]
  obtain m v s a where facts: "gw_manifest W (gt_ExperimentID t) = Some m" "gw_evidence W (gt_EvidenceID t) = Some v"
    "authorityContext m = gt_ContextKey t" "pe_ExperimentID v = em_ID m" "evidence_passed v" "quarantine m (gt_ToState t) = None"
    "gt_ArtifactVersion t = expected_artifact m" "s \<in> set (gv_transitions st)" "gt_ContextKey s = gt_ContextKey t"
    "gt_ToState s = gt_FromState t" "a \<in> set (gv_approvals st)" "approves_move W a s t" "pe_CreatedAt v \<le> ga_ApprovedAt a"
    and watch: "0 < elapsed_of (em_Spec m) (gt_ToState t) \<longrightarrow> (\<exists>r \<in> set (gv_monitors st). monitored r s t
      \<and> elapsed_of (em_Spec m) (gt_ToState t) \<le> time_sub (gm_WindowEnd r) (gm_WindowStart r))"
    using assms(1) unfolding promoted_def by blast
  have "s \<in> set (gv_transitions st')" "a \<in> set (gv_approvals st')" using facts sets by blast+
  moreover have "0 < elapsed_of (em_Spec m) (gt_ToState t) \<longrightarrow> (\<exists>r \<in> set (gv_monitors st'). monitored r s t
      \<and> elapsed_of (em_Spec m) (gt_ToState t) \<le> time_sub (gm_WindowEnd r) (gm_WindowStart r))"
    using watch sets(3) by blast
  ultimately show ?thesis unfolding promoted_def using facts by blast
qed

lemma withdrawn_grows:
  assumes "withdrawn W st t" and "grows st st'"
  shows "withdrawn W st' t"
proof -
  note sets = grows_sets [OF assms(2)]
  obtain m s metrics r where facts: "gw_manifest W (gt_ExperimentID t) = Some m" "s \<in> set (gv_transitions st)"
    "gt_ContextKey s = gt_ContextKey t" "gt_ToState s = gt_FromState t" "gt_FallbackVersion s = gt_FallbackVersion t"
    "r \<in> set (gv_monitors st)" "monitored r s t" "0 < gm_ExpectedObservations r"
    "time_sub (gt_CreatedAt t) (gm_WindowEnd r) \<le> one_day" "gw_metrics W (gm_MetricsJSON r) = Some metrics"
    "triggered (em_Spec m) metrics"
    using assms(1) unfolding withdrawn_def by blast
  have "s \<in> set (gv_transitions st')" "r \<in> set (gv_monitors st')" using facts sets by blast+
  then show ?thesis unfolding withdrawn_def using facts by blast
qed

lemma on_file_grows: "on_file W st t \<Longrightarrow> grows st st' \<Longrightarrow> on_file W st' t"
  unfolding on_file_def using promoted_grows withdrawn_grows by blast

lemma climbs_append:
  "climbs s (ts @ us) \<longleftrightarrow> climbs s ts \<and> climbs (if ts = [] then s else gt_ToState (last ts)) us"
  by (induction ts arbitrary: s) auto

lemma path_appended: "gv_transitions st' = gv_transitions st @ [t] \<Longrightarrow>
    path c st' = (if gt_ContextKey t = c then path c st @ [t] else path c st)"
  by (simp add: path_def)

lemma append_transition:
  assumes inv: "gov_inv W st" and transitions: "gv_transitions st' = gv_transitions st @ [t]"
    and deployments: "gv_deployments st' = put_deployment d (gv_deployments st)"
    and grown: "grows st st'" and approvals: "gv_approvals st' = gv_approvals st" and mirror: "mirrors d t" and free: "transition_violation st t = None"
    and step: "climbs (from_of (the_deployment (gt_ContextKey t) st)) [t]" and filed: "on_file W st' t"
  shows "gov_inv W st'"
proof -
  have key: "gd_ContextKey d = gt_ContextKey t" using mirror by (simp add: mirrors_def)
  have the: "the_deployment c st' = (if c = gt_ContextKey t then Some d else the_deployment c st)" for c
    by (simp add: the_deployment_def deployments put_deployment_find key)
  have old: "mirrored c st" "climbs '''' (path c st)" for c using inv by (simp_all add: gov_inv_def)
  have "climbs '''' (path c st')" for c
    using old [of c] step by (auto simp: path_appended [OF transitions] climbs_append mirrored_def mirrors_def split: option.splits)
  moreover have "mirrored c st'" for c
    using old(1) [of c] mirror by (auto simp: mirrored_def the path_appended [OF transitions] cong: option.case_cong)
  moreover have "distinct (map gt_ID (gv_transitions st'))" "distinct (map gt_IdempotencyKey (gv_transitions st'))"
    using inv free by (auto simp: gov_inv_def transitions transition_violation_def split: if_splits)
  moreover have "\<forall>u \<in> set (gv_transitions st'). on_file W st' u"
    using inv filed on_file_grows [OF _ grown] by (auto simp: gov_inv_def transitions)
  moreover have "distinct (map gd_ContextKey (gv_deployments st'))"
    using inv by (simp add: gov_inv_def deployments put_deployment_distinct)
  moreover have "distinct (map ga_ID (gv_approvals st'))" using inv by (simp add: gov_inv_def approvals)
  ultimately show ?thesis by (simp add: gov_inv_def)
qed

lemma inv_same_moves:
  assumes "gov_inv W st" and "gv_transitions st' = gv_transitions st" and "gv_deployments st' = gv_deployments st" and "grows st st'"
    and "distinct (map ga_ID (gv_approvals st'))"
  shows "gov_inv W st'"
  using assms on_file_grows [OF _ assms(4)]
  by (simp add: gov_inv_def path_def mirrored_def the_deployment_def cong: option.case_cong)

section \<open>Each operation keeps the invariant\<close>

lemma bound_approval_Inr:
  assumes "bound_approval env q m v current st = Inr a"
  obtains evidence policy where "a \<in> set (gv_approvals st)" and "ga_ID a = tq_ApprovalID q" and "tq_ApprovalID q \<noteq> ''''"
    and "evidenceDigest env (tq_EvidenceID q) = Inr evidence" and "target_policy env m (tq_TargetState q) = Inr policy"
    and "approval_binds env q v current evidence policy a" and "approval_intact (ge_study env) a"
proof -
  have key: "tq_ApprovalID q \<noteq> ''''" using assms by (auto simp: bound_approval_def)
  obtain x where x: "gov_first env ''governance_approvals'' ga_ID (\<lambda>a. ga_ID a = tq_ApprovalID q) (gv_approvals st) st = Inr (Some x)"
    using assms by (auto simp: bound_approval_def split: if_splits sum.splits option.splits)
  then have "\<exists>evidence policy. evidenceDigest env (tq_EvidenceID q) = Inr evidence \<and> target_policy env m (tq_TargetState q) = Inr policy \<and>
      approval_binds env q v current evidence policy x \<and> approval_intact (ge_study env) x \<and> x = a"
    using assms key by (auto simp: bound_approval_def result_simps split: if_splits)
  then show thesis using that key gov_first_Inr(2) [OF x refl] by blast
qed

lemma found_deployment:
  assumes "gov_inv W st" and "find_deployment env c st = Inr found"
  shows "found = the_deployment c st"
  unfolding the_deployment_def
  by (rule gov_first_keyed [OF assms(2) [unfolded find_deployment_def]]) (use assms(1) in \<open>simp add: gov_inv_def\<close>)

lemma mirrored_source:
  assumes "gov_inv W st" and "the_deployment c st = Some d"
  obtains s where "s \<in> set (gv_transitions st)" and "gt_ContextKey s = c" and "mirrors d s" and "path c st \<noteq> []"
    and "s = last (path c st)" and "gd_ContextKey d = c"
proof -
  have "mirrored c st" using assms(1) by (simp add: gov_inv_def)
  then have p: "path c st \<noteq> []" "mirrors d (last (path c st))" using assms(2) by (simp_all add: mirrored_def)
  then have "last (path c st) \<in> set (path c st)" by simp
  then show thesis using that p by (auto simp: path_def mirrors_def)
qed

lemma monitored_elapsed:
  assumes "elapsed_ok env q d e r" and "mirrors d s" and "gt_MonitoringEvidenceID t = Some (gm_ID r)"
    and "gt_ContextKey t = tq_ContextKey q" and "gt_ExperimentID t = tq_ExperimentID q" and "gt_CreatedAt t = service_now env"
  shows "monitored r s t \<and> e \<le> time_sub (gm_WindowEnd r) (gm_WindowStart r)"
  using assms by (simp add: elapsed_ok_def monitored_def mirrors_def not_less)

lemma moved_promoted:
  assumes "conforms W env" and "gov_inv W st" and "boundEvidence env (tq_ExperimentID q) (tq_EvidenceID q) = Inr (m, v)"
    and "promotable env q m v = None" and "the_deployment (tq_ContextKey q) st = Some d" and "legal (gd_State d) (tq_TargetState q)"
    and "gd_State d \<noteq> ''''" and "approval_step env q m v (Some d) st approval" and "quarantine m (tq_TargetState q) = None"
    and "elapsed_evidence env q m d st = Inr elapsed" and "grows st st'"
    and "target_policy env m (tq_TargetState q) = Inr policy" and "evidenceDigest env (tq_EvidenceID q) = Inr evidence"
    and t: "t = new_transition env who q (gd_State d) approval elapsed evidence policy"
  shows "promoted W st' t"
proof -
  obtain s where s: "s \<in> set (gv_transitions st)" "gt_ContextKey s = tq_ContextKey q" "mirrors d s"
    by (rule mirrored_source [OF assms(2,5)])
  obtain a where a: "bound_approval env q m v d st = Inr a" "approval = Some a"
    using assms(7,8) by (auto simp: approval_step_def)
  obtain evidence' policy' where b: "a \<in> set (gv_approvals st)" "ga_ID a = tq_ApprovalID q" "tq_ApprovalID q \<noteq> ''''"
    "evidenceDigest env (tq_EvidenceID q) = Inr evidence'" "target_policy env m (tq_TargetState q) = Inr policy'"
    "approval_binds env q v d evidence' policy' a" "approval_intact (ge_study env) a"
    by (rule bound_approval_Inr [OF a(1)])
  have same: "evidence' = evidence" "policy' = policy" using b(4,5) assms(12,13) by simp_all
  have study: "ge_study env = gw_study W" using assms(1) by (simp add: conforms_def)
  have fields: "gt_ContextKey t = tq_ContextKey q" "gt_ExperimentID t = tq_ExperimentID q" "gt_EvidenceID t = tq_EvidenceID q"
    "gt_ToState t = tq_TargetState q" "gt_FromState t = gd_State d" "gt_CreatedAt t = service_now env"
    "gt_ArtifactVersion t = tq_ArtifactVersion q" "gt_PolicyVersion t = tq_PolicyVersion q"
    "gt_ApprovalID t = Some (ga_ID a)" "gt_ApprovalDigest t = ga_ContentDigest a" "gt_EvidenceDigest t = evidence"
    "gt_AuthorityPolicyDigest t = ap_Digest policy" "gt_MonitoringEvidenceID t = fst elapsed"
    using b(2,3) a(2) by (simp_all add: t new_transition_def)
  have approved: "approves_move W a s t" "pe_CreatedAt v \<le> ga_ApprovedAt a"
    using b(6,7) s(3) by (simp_all add: approves_move_def approval_binds_def fields same study mirrors_def not_less)
  have "tq_TargetState q \<noteq> ''research''"
    using assms(6,7) by (auto simp: legal_def next_state_def str_at_def split: if_splits)
  then have passed: "evidence_passed v" "authorityContext m = tq_ContextKey q" "tq_ArtifactVersion q = expected_artifact m"
    using assms(4) by (simp_all add: promotable_def matchVersions_def)
  have watch: "\<exists>r \<in> set (gv_monitors st). monitored r s t \<and>
      elapsed_of (em_Spec m) (gt_ToState t) \<le> time_sub (gm_WindowEnd r) (gm_WindowStart r)"
    if pos: "0 < elapsed_of (em_Spec m) (gt_ToState t)"
  proof -
    obtain r where r: "loadMonitoringEvidence env (tq_ElapsedEvidenceID q) st = Inr r"
      "elapsed_ok env q d (elapsed_of (em_Spec m) (gt_ToState t)) r" "fst elapsed = Some (gm_ID r)"
      using assms(10) pos by (auto simp: elapsed_evidence_def fields result_simps Let_def split: if_splits)
    have "gt_MonitoringEvidenceID t = Some (gm_ID r)" by (simp add: fields r(3))
    then show ?thesis
      using loadMonitoringEvidence_Inr(1) [OF r(1)] monitored_elapsed [OF r(2) s(3) _ fields(1,2,6)] by blast
  qed
  have known: "gw_manifest W (tq_ExperimentID q) = Some m" "gw_evidence W (tq_EvidenceID q) = Some v" "pe_ExperimentID v = em_ID m"
    using assms(1,3) by (auto simp: boundEvidence_Inr conforms_def)
  have "promoted W st t"
    unfolding promoted_def
    by (rule exI [of _ m], rule exI [of _ v], rule exI [of _ s])
      (use s known passed approved b(1) assms(9) watch in \<open>auto simp: fields mirrors_def\<close>)
  then show ?thesis using promoted_grows assms(11) by blast
qed

lemma climbs_single:
  "climbs s [t] \<longleftrightarrow> gt_FromState t = s \<and>
     (legal s (gt_ToState t) \<and> gt_ToState t \<noteq> ''rollback'' \<or> gt_ToState t = ''rollback'' \<and> s \<noteq> '''' \<and> s \<noteq> ''rollback'')"
  by auto

lemma Transition_keeps:
  assumes "conforms W env" and "gov_inv W st"
  shows "gov_inv W (snd (Transition env who q st)) \<and> grows st (snd (Transition env who q st))"
proof (cases rule: Transition_cases [of env who q st])
  case (moved m v found approval elapsed t st')
  obtain evidence policy where rec: "target_policy env m (tq_TargetState q) = Inr policy"
    "evidenceDigest env (tq_EvidenceID q) = Inr evidence"
    "t = new_transition env who q (from_of found) approval elapsed evidence policy" "transition_violation st t = None"
    "gv_transitions st' = gv_transitions st @ [t]" "gv_approvals st' = gv_approvals st" "gv_monitors st' = gv_monitors st"
    "gv_deployments st' = put_deployment (new_deployment env q policy (gt_ID t)) (gv_deployments st)"
    by (rule record_transition_Inr [OF assms(1) moved(14,3,4)])
  have grown: "grows st st'" by (simp add: grows_def rec(5-7))
  have found: "found = the_deployment (tq_ContextKey q) st" by (rule found_deployment [OF assms(2) moved(9)])
  have study: "ge_study env = gw_study W" using assms(1) by (simp add: conforms_def)
  have intact: "transition_intact (gw_study W) t" by (simp add: rec(3) new_transition_def study)
  have fields: "gt_ContextKey t = tq_ContextKey q" "gt_ToState t = tq_TargetState q" "gt_FromState t = from_of found"
    "gt_PolicyVersion t = tq_PolicyVersion q" by (simp_all add: rec(3) new_transition_def)
  have "gt_ID t \<noteq> ''''" using rec(4) by (auto simp: transition_violation_def split: if_splits)
  then have mirror: "mirrors (new_deployment env q policy (gt_ID t)) t"
    using policy_digest_nonempty [OF assms(1) rec(1)] service_now_stored [OF assms(1)]
    by (simp add: mirrors_def new_deployment_def Let_def rec(3) new_transition_def with_default_def)
  have step: "climbs (from_of (the_deployment (gt_ContextKey t) st)) [t]"
    using moved(4,5,10) by (simp add: climbs_single fields found complete_transition_def)
  have filed: "on_file W st' t"
    unfolding on_file_def
  proof (intro conjI impI)
    show "transition_intact (gw_study W) t" by (rule intact)
    show "gt_PolicyVersion t \<noteq> ''''" using moved(4) by (simp add: fields complete_transition_def)
    show "knownState (gt_ToState t)" using moved(4) by (simp add: fields complete_transition_def)
    show "withdrawn W st' t" if "gt_ToState t = ''rollback''" using that moved(5) by (simp add: fields)
    assume "gt_FromState t \<noteq> '''' \<and> gt_ToState t \<noteq> ''rollback''"
    then obtain d where d: "found = Some d" "gd_State d \<noteq> ''''" by (auto simp: fields split: option.splits)
    show "promoted W st' t"
      by (rule moved_promoted [OF assms moved(6,7) _ _ d(2) _ moved(12) _ grown rec(1,2)])
        (use d(1) found moved(10,11,13) rec(3) in simp_all)
  qed
  have "gov_inv W st'" by (rule append_transition [OF assms(2) rec(5,8) grown rec(6) mirror rec(4) step filed])
  then show ?thesis using moved(1) grown by simp
qed (use assms in simp_all)

lemma Rollback_keeps:
  assumes "conforms W env" and "gov_inv W st"
  shows "gov_inv W (snd (Rollback env who q st)) \<and> grows st (snd (Rollback env who q st))"
proof (cases rule: Rollback_cases [of env who q st])
  case (moved m v current monitor t st')
  obtain metrics where src: "find_deployment env (bq_ContextKey q) st = Inr (Some current)"
    "gd_ExperimentID current = bq_ExperimentID q" "bq_FallbackVersion q = gd_FallbackVersion current"
    "loadMonitoringEvidence env (bq_MonitoringEvidenceID q) st = Inr monitor" "monitor_fresh env q current monitor"
    "ge_UnmarshalMetrics env (gm_MetricsJSON monitor) = Some metrics" "triggered (em_Spec m) metrics"
    "gd_EvidenceID current = bq_EvidenceID q"
    by (rule rollback_source_Inr [OF moved(6)])
  have d: "the_deployment (bq_ContextKey q) st = Some current" using found_deployment [OF assms(2) src(1)] by simp
  obtain s where s: "s \<in> set (gv_transitions st)" "gt_ContextKey s = bq_ContextKey q" "mirrors current s"
    "gd_ContextKey current = bq_ContextKey q" by (rule mirrored_source [OF assms(2) d])
  have "on_file W st s" using assms(2) s(1) by (simp add: gov_inv_def)
  then have version: "gd_PolicyVersion current \<noteq> ''''" using s(3) by (simp add: on_file_def mirrors_def)
  have key: "gd_ContextKey current \<in> gd_ContextKey ` set (gv_deployments st)"
    using d by (auto simp: the_deployment_def find_Some_iff)
  obtain evidence policy where rec: "target_policy env m ''rollback'' = Inr policy"
    "t = new_rollback env who q current monitor evidence policy" "transition_violation st t = None"
    "gv_transitions st' = gv_transitions st @ [t]" "gv_approvals st' = gv_approvals st" "gv_monitors st' = gv_monitors st"
    "gv_deployments st' = put_deployment (rolled_back env q policy (gt_ID t) current) (gv_deployments st)"
    by (rule record_rollback_Inr [OF assms(1) moved(7,3) version key])
  have grown: "grows st st'" by (simp add: grows_def rec(4-6))
  have study: "ge_study env = gw_study W" using assms(1) by (simp add: conforms_def)
  have fields: "gt_ContextKey t = bq_ContextKey q" "gt_ExperimentID t = bq_ExperimentID q" "gt_ToState t = ''rollback''"
    "gt_FromState t = gd_State current" "gt_CreatedAt t = service_now env" "gt_FallbackVersion t = gd_FallbackVersion current"
    "gt_PolicyVersion t = gd_PolicyVersion current" "gt_MonitoringEvidenceID t = Some (gm_ID monitor)"
    "transition_intact (gw_study W) t"
    by (simp_all add: rec(2) new_rollback_def study src(3))
  have mirror: "mirrors (rolled_back env q policy (gt_ID t) current) t"
    using service_now_stored [OF assms(1)] s(4) src(2,3,8)
    by (simp add: mirrors_def rolled_back_def Let_def rec(2) new_rollback_def)
  have "gt_FromState t \<in> {'''', ''research'', ''shadow'', ''paper'', ''limited_live'', ''full_live''}"
    using rec(3) by (auto simp: transition_violation_def split: if_splits)
  moreover have "knownState (gt_ToState s)" using assms(2) s(1) by (simp add: gov_inv_def on_file_def)
  ultimately have step: "climbs (from_of (the_deployment (gt_ContextKey t) st)) [t]"
    using s(3) by (auto simp: climbs_single fields d knownState_def mirrors_def)
  have fresh: "monitored monitor s t" "0 < gm_ExpectedObservations monitor"
    "time_sub (gt_CreatedAt t) (gm_WindowEnd monitor) \<le> one_day"
    using src(5) s(3) by (simp_all add: monitored_def monitor_fresh_def fields mirrors_def not_less)
  have m: "gw_manifest W (gt_ExperimentID t) = Some m" using moved(5) assms(1) by (simp add: boundEvidence_Inr conforms_def fields)
  have metrics: "gw_metrics W (gm_MetricsJSON monitor) = Some metrics" using src(6) assms(1) by (simp add: conforms_def)
  have "withdrawn W st t"
    unfolding withdrawn_def using m s fresh metrics src(7) loadMonitoringEvidence_Inr(1) [OF src(4)]
    by (intro exI [of _ m] exI [of _ s] exI [of _ metrics]) (auto simp: fields mirrors_def)
  then have filed: "on_file W st' t" using fields version withdrawn_grows grown by (auto simp: on_file_def knownState_def)
  have "gov_inv W st'" by (rule append_transition [OF assms(2) rec(4,7) grown rec(5) mirror rec(3) step filed])
  then show ?thesis using moved(1) grown by simp
qed (use assms in simp_all)

lemma Approve_keeps:
  assumes "gov_inv W st"
  shows "gov_inv W (snd (Approve env who q st)) \<and> grows st (snd (Approve env who q st))"
proof (cases rule: Approving_cases [of env who q st])
  case (approved m v source evidence policy row st')
  then have "grows st st'" by (simp add: grows_def)
  moreover have "distinct (map ga_ID (gv_approvals st'))"
    using assms approved(12,13) by (auto simp: gov_inv_def approval_violation_def stored_approval_def split: if_splits)
  ultimately show ?thesis using approved inv_same_moves [OF assms, of st'] by simp
qed (use assms in simp_all)

lemma Monitor_keeps:
  assumes "gov_inv W st"
  shows "gov_inv W (snd (RecordMonitoringEvidence env who q st)) \<and> grows st (snd (RecordMonitoringEvidence env who q st))"
proof (cases rule: Monitor_cases [of env who q st])
  case (recorded d row r)
  let ?st' = "st\<lparr>gv_monitors := gv_monitors st @ [stored_monitor env row]\<rparr>"
  have "grows st ?st'" by (simp add: grows_def)
  then show ?thesis using recorded inv_same_moves [OF assms, of ?st'] assms by (simp add: gov_inv_def)
qed (use assms in simp_all)

section \<open>A database that does not fail\<close>

definition db_up :: "gov_env \<Rightarrow> bool" where
  "db_up env \<longleftrightarrow> (\<forall>call st. ge_db env call st = None)"

lemma up_simps:
  assumes "db_up env"
  shows "gov_exec env call st = Inr ()" "gov_write env table None st' st = Inr st'"
    "gov_first env table key P rows st = Inr (find P (sort_key key rows))"
    "gov_transaction env body st = (case body st of Inl e \<Rightarrow> (Inl e, st) | Inr (x, st') \<Rightarrow> (Inr x, st'))"
  using assms by (simp_all add: db_up_def gov_exec_def gov_write_def gov_first_def gov_transaction_def split: sum.split)

end
