(* ===== verification/Governance_Samples.thy ===== *)
theory Governance_Samples
  imports Governance_Laws Study_Samples
begin

text \<open>
  A strategy that is taken from research to shadow and paper and then withdrawn, on a database that does not fail: the requests,
  the clock of each call and the states in between, evaluated by the definitions. The witnesses of the governance properties
  rest on this run. The codec's text is a string of the object (the idempotency key, or the
  transition a monitoring window belongs to) and its hash the padded text, so that different rows have different ids.
\<close>

definition first_string :: "json \<Rightarrow> string result" where
  "first_string x = (case x of
     JObject ((k, JString s) # rest) \<Rightarrow>
       if k = ''ContextKey'' then (case rest of _ # (_, JString t) # _ \<Rightarrow> Inr t | _ \<Rightarrow> Inr s) else Inr s
   | _ \<Rightarrow> Inr ''{}'')"

definition padded :: "string \<Rightarrow> string" where
  "padded s = take 64 (s @ hex64)"

definition govern_study :: study_env where
  "govern_study = study_sample_env\<lparr>se_codec := \<lparr>cd_Marshal = first_string, cd_sha256hex = padded\<rparr>\<rparr>"

definition passed_sample :: PersistedEvidence where
  "passed_sample = \<lparr>pe_ID = ''e1'', pe_ExperimentID = hex64, pe_Status = ''passed'',
     pe_Result = Some \<lparr>wf_SchemaVersion = ''s'', wf_ExperimentID = hex64, wf_Folds = JNull, wf_Passed = True\<rparr>, pe_CreatedAt = 6000\<rparr>"

text \<open>The drawdown of the monitoring is the double 2.0.\<close>

definition drawdown_sample :: "(string, float64) gomap" where
  "drawdown_sample = [(''max_drawdown'', 0x4000000000000000)]"

definition govern_env :: "time \<Rightarrow> gov_env" where
  "govern_env now = \<lparr>ge_study = govern_study, ge_connected = True, ge_db = (\<lambda>_ _. None), ge_clock = now,
     ge_LoadManifest = (\<lambda>i. if i = hex64 then Inr sealed_sample else Inl (StudyError RecordNotFound)),
     ge_LoadEvidence = (\<lambda>i. if i = ''e1'' then Inr passed_sample else Inl (StudyError RecordNotFound)),
     ge_LoadMLEvidence = (\<lambda>_. Inl (StudyError RecordNotFound)), ge_EvidenceDigest = (\<lambda>_. Inr hex64),
     ge_timestamp = (\<lambda>t. t div 1000 * 1000), ge_jsonb = (\<lambda>s. s), ge_UnmarshalPolicy = (\<lambda>_. None),
     ge_MarshalMetrics = (\<lambda>_. ''{}''), ge_UnmarshalMetrics = (\<lambda>_. Some drawdown_sample), ge_Unmarshal = (\<lambda>_. None)\<rparr>"

definition govern_world :: gov_world where
  "govern_world = \<lparr>gw_study = govern_study, gw_manifest = (\<lambda>i. if i = hex64 then Some sealed_sample else None),
     gw_evidence = (\<lambda>i. if i = ''e1'' then Some passed_sample else None), gw_metrics = (\<lambda>_. Some drawdown_sample)\<rparr>"

definition operator_sample :: Principal where
  "operator_sample = NewTrustedPrincipal ''ops'' [''approve'', ''transition'', ''rollback'']"

definition context_sample :: string where
  "context_sample = ''strategy:trend@v1''"

definition request_sample :: "string \<Rightarrow> string \<Rightarrow> string \<Rightarrow> string \<Rightarrow> TransitionRequest" where
  "request_sample key target approval monitor = \<lparr>tq_IdempotencyKey = key, tq_ContextKey = context_sample, tq_ExperimentID = hex64,
     tq_EvidenceID = ''e1'', tq_ApprovalID = approval, tq_TargetState = target, tq_ArtifactVersion = ''v1'', tq_PolicyVersion = ''p1'',
     tq_FallbackVersion = ''v0'', tq_Reason = ''due'', tq_ElapsedEvidenceID = monitor\<rparr>"

definition approval_sample :: "string \<Rightarrow> string \<Rightarrow> ApprovalRequest" where
  "approval_sample key target = \<lparr>aq_IdempotencyKey = key, aq_ExperimentID = hex64, aq_EvidenceID = ''e1'', aq_TargetState = target,
     aq_ArtifactVersion = ''v1'', aq_PolicyVersion = ''p1'', aq_Approver = '''', aq_Reason = ''reviewed'', aq_ExpiresAt = 900000\<rparr>"

definition monitor_sample :: "time \<Rightarrow> time \<Rightarrow> MonitoringEvidenceRequest" where
  "monitor_sample start stop = \<lparr>mq_ContextKey = context_sample, mq_ExperimentID = hex64, mq_WindowStart = start, mq_WindowEnd = stop,
     mq_ExpectedObservations = 5, mq_ObservedObservations = 5, mq_Metrics = Some drawdown_sample\<rparr>"

definition rollback_sample :: "string \<Rightarrow> RollbackRequest" where
  "rollback_sample monitor = \<lparr>bq_IdempotencyKey = ''back'', bq_ContextKey = context_sample, bq_ExperimentID = hex64,
     bq_EvidenceID = ''e1'', bq_FallbackVersion = ''v0'', bq_Reason = ''drawdown'', bq_MonitoringEvidenceID = monitor\<rparr>"

section \<open>The pieces of the run\<close>

lemma padded_facts: "length (padded s) = 64" "padded (padded s) = padded s" "padded s \<noteq> []" "padded (c # s) = padded (d # u) \<longrightarrow> c = d"
proof -
  show len: "length (padded s) = 64" for s by (simp add: padded_def hex64_def)
  show "padded (padded s) = padded s" using len [of s] by (simp add: padded_def [of "padded s"])
  show "padded s \<noteq> []" using len [of s] by auto
  show "padded (c # s) = padded (d # u) \<longrightarrow> c = d" by (simp add: padded_def)
qed

lemma govern_conforms: "conforms govern_world (govern_env now)"
  by (auto simp: conforms_def govern_world_def govern_env_def digest_def govern_study_def padded_facts hex64_def split: if_splits)

lemma digest_padded [simp]: "digest govern_study x = padded x"
  by (simp add: digest_def govern_study_def)

lemma encoded_first: "encoded govern_study x = (case first_string x of Inr s \<Rightarrow> s | Inl _ \<Rightarrow> '''')"
  by (simp add: encoded_def govern_study_def the_ok_def)

lemma sealed_rows:
  "seal_transition govern_study t =
     t\<lparr>gt_ContentDigest := padded (gt_IdempotencyKey t), gt_ID := padded (gt_IdempotencyKey t)\<rparr>"
  "seal_approval govern_study a = a\<lparr>ga_ContentDigest := padded (ga_IdempotencyKey a), ga_ID := padded (ga_IdempotencyKey a)\<rparr>"
  "seal_monitor (govern_env now) r =
     r\<lparr>gm_ContentDigest := padded (gm_DeploymentTransitionID r), gm_ID := padded (gm_DeploymentTransitionID r)\<rparr>"
  by (simp_all add: seal_transition_def transitionDigest_def seal_approval_def approvalDigest_def seal_monitor_def
    monitoringDigest_def govern_env_def encoded_first first_string_def padded_facts Let_def)

lemma intact_rows:
  "transition_intact govern_study t \<longleftrightarrow> gt_ContentDigest t = padded (gt_IdempotencyKey t) \<and> gt_ID t = padded (gt_ContentDigest t)"
  "approval_intact govern_study a \<longleftrightarrow> ga_ContentDigest a = padded (ga_IdempotencyKey a) \<and> ga_ID a = padded (ga_ContentDigest a)"
  "monitor_intact (govern_env now) r \<longleftrightarrow>
     gm_ContentDigest r = padded (gm_DeploymentTransitionID r) \<and> gm_ID r = padded (gm_ContentDigest r)"
  by (simp_all add: transition_intact_def transitionDigest_def approval_intact_def approvalDigest_def monitor_intact_def
    monitoringDigest_def govern_env_def encoded_first first_string_def Let_def)

definition policy_sample :: "string \<Rightarrow> AuthorityPolicyEnvelope" where
  "policy_sample s = (case target_policy (govern_env 0) sealed_sample s of Inr p \<Rightarrow> p | Inl _ \<Rightarrow> sample_policy_envelope)"

lemma policy_evaluates:
  "(case normalized_payload govern_study (AList.update ''rollout_state'' s sample_payload) [] of Inl _ \<Rightarrow> False | Inr _ \<Rightarrow> True)"
  if "s \<in> {''research'', ''shadow'', ''paper'', ''rollback''}"
  using that by (elim insertE emptyE; simp only:; code_simp)

lemma trimmed_states: "trim_space ''research'' = ''research''" "trim_space ''shadow'' = ''shadow''" "trim_space ''paper'' = ''paper''"
  "trim_space ''rollback'' = ''rollback''"
  by code_simp+

lemma payload_size: "AList.update ''rollout_state'' s sample_payload \<noteq> []" "length (AList.update ''rollout_state'' s sample_payload) < 256"
proof -
  have "length (AList.update k v m) \<le> Suc (length m)" for k v :: string and m by (induction m) auto
  moreover have "Suc (length sample_payload) < 256" by (simp add: sample_payload_def policy_keys_def)
  ultimately show "length (AList.update ''rollout_state'' s sample_payload) < 256" using le_less_trans by blast
  show "AList.update ''rollout_state'' s sample_payload \<noteq> []" by (cases sample_payload) auto
qed

lemma policy_answers:
  assumes "s \<in> {''research'', ''shadow'', ''paper'', ''rollback''}"
  shows "target_policy (govern_env now) sealed_sample s = Inr (policy_sample s)"
    and "ap_Digest (policy_sample s) = padded AuthorityPolicySchemaVersion"
proof -
  have "trim_space s = s" using assms by (elim insertE emptyE) (simp_all only: trimmed_states)
  moreover have "sp_AuthorityPolicy (em_Spec sealed_sample) = sample_policy_envelope"
    by (simp add: sealed_sample_def sealed_spec_def sample_spec_def)
  moreover have "AList.update ''rollout_state'' s sample_payload \<noteq> []"
    "\<not> 256 < length (AList.update ''rollout_state'' s sample_payload)" using payload_size [of s] by simp_all
  moreover obtain n where "normalized_payload govern_study (AList.update ''rollout_state'' s sample_payload) [] = Inr n"
    using policy_evaluates [OF assms] by (auto split: sum.splits)
  ultimately have "target_policy (govern_env now) sealed_sample s =
      Inr \<lparr>ap_SchemaVersion = AuthorityPolicySchemaVersion, ap_Payload = n, ap_Digest = policy_digest govern_study n\<rparr>" for now
    by (simp add: target_policy_def WithRolloutState_def NewAuthorityPolicyEnvelope_def cause_def and_then_def govern_env_def
      sample_policy_envelope_def)
  then show "target_policy (govern_env now) sealed_sample s = Inr (policy_sample s)"
    "ap_Digest (policy_sample s) = padded AuthorityPolicySchemaVersion"
    by (simp_all add: policy_sample_def policy_digest_def encoded_first first_string_def)
qed

section \<open>The run\<close>

text \<open>The rows of the run in their stored form.\<close>

definition moved_row :: "time \<Rightarrow> string \<Rightarrow> string \<Rightarrow> string \<Rightarrow> string option \<Rightarrow> string option \<Rightarrow> GovernanceTransition" where
  "moved_row now key from target approval monitor =
     \<lparr>gt_ID = padded key, gt_IdempotencyKey = key, gt_ContextKey = context_sample, gt_ExperimentID = hex64, gt_EvidenceID = ''e1'',
      gt_ApprovalID = approval, gt_FromState = from, gt_ToState = target, gt_ArtifactVersion = ''v1'', gt_FallbackVersion = ''v0'',
      gt_Reason = ''due'', gt_ContentDigest = padded key, gt_CreatedAt = now, gt_PolicyVersion = ''p1'',
      gt_AuthorityPolicyDigest = padded AuthorityPolicySchemaVersion,
      gt_ApprovalDigest = (case approval of None \<Rightarrow> '''' | Some a \<Rightarrow> a), gt_EvidenceDigest = hex64, gt_MonitoringEvidenceID = monitor,
      gt_MonitoringEvidenceDigest = (case monitor of None \<Rightarrow> '''' | Some d \<Rightarrow> d), gt_Actor = ''ops''\<rparr>"

definition deployed_row :: "time \<Rightarrow> string \<Rightarrow> string \<Rightarrow> GovernanceDeployment" where
  "deployed_row now key target =
     \<lparr>gd_ContextKey = context_sample, gd_ExperimentID = hex64, gd_EvidenceID = ''e1'', gd_State = target, gd_ArtifactVersion = ''v1'',
      gd_PolicyVersion = ''p1'', gd_FallbackVersion = ''v0'', gd_ActivatedAt = now, gd_UpdatedAt = now,
      gd_AuthorityPolicyJSON = policy_text govern_study (policy_sample target),
      gd_AuthorityPolicyDigest = padded AuthorityPolicySchemaVersion, gd_TransitionID = padded key\<rparr>"

definition approved_row :: "time \<Rightarrow> string \<Rightarrow> string \<Rightarrow> string \<Rightarrow> time \<Rightarrow> GovernanceApproval" where
  "approved_row now key target source since =
     \<lparr>ga_ID = padded key, ga_IdempotencyKey = key, ga_ExperimentID = hex64, ga_EvidenceID = ''e1'', ga_TargetState = target,
      ga_ArtifactVersion = ''v1'', ga_PolicyVersion = ''p1'', ga_Approver = ''ops'', ga_Reason = ''reviewed'', ga_ApprovedAt = now,
      ga_ContentDigest = padded key, ga_SourceState = source, ga_SourceActivatedAt = since,
      ga_AuthorityPolicyDigest = padded AuthorityPolicySchemaVersion, ga_EvidenceDigest = hex64, ga_ExpiresAt = 900000\<rparr>"

definition watched_row :: "time \<Rightarrow> string \<Rightarrow> time \<Rightarrow> time \<Rightarrow> GovernanceMonitoringEvidence" where
  "watched_row now source start stop =
     \<lparr>gm_ID = padded source, gm_ContextKey = context_sample, gm_ExperimentID = hex64, gm_DeploymentTransitionID = padded source,
      gm_AuthorityPolicyDigest = padded AuthorityPolicySchemaVersion, gm_ArtifactVersion = ''v1'', gm_WindowStart = start,
      gm_WindowEnd = stop, gm_ExpectedObservations = 5, gm_ObservedObservations = 5, gm_MetricsJSON = ''{}'',
      gm_ContentDigest = padded source, gm_CreatedAt = now\<rparr>"

lemma sample_checks:
  "complete_transition (request_sample ''r'' ''research'' '''' '''')"
  "promotable (govern_env 10000) (request_sample ''r'' ''research'' '''' '''') sealed_sample passed_sample = None"
  "promotable (govern_env 10000) (request_sample ''s'' ''shadow'' '''' '''') sealed_sample passed_sample = None"
  "promotable (govern_env 10000) (request_sample ''p'' ''paper'' '''' '''') sealed_sample passed_sample = None"
  "authorityContext sealed_sample = context_sample"
  "map (elapsed_of sealed_spec) [''research'', ''shadow'', ''paper''] = [0, 0, 1000]"
  "legal '''' ''research''" "legal ''research'' ''shadow''" "legal ''shadow'' ''paper''"
  "approvable (govern_env 10000) (approval_sample ''a'' ''shadow'') sealed_sample passed_sample = None"
  "approvable (govern_env 10000) (approval_sample ''b'' ''paper'') sealed_sample passed_sample = None"
  "sp_Model sealed_spec = None"
  "triggered sealed_spec drawdown_sample"
  "trim_space ''reviewed'' = ''reviewed''"
  by code_simp+

lemma govern_fields [simp]:
  "ge_study (govern_env now) = govern_study" "ge_connected (govern_env now)" "ge_clock (govern_env now) = now"
  "ge_timestamp (govern_env now) t = t div 1000 * 1000" "ge_jsonb (govern_env now) s = s"
  "ge_MarshalMetrics (govern_env now) x = ''{}''" "ge_UnmarshalMetrics (govern_env now) s = Some drawdown_sample"
  "evidenceDigest (govern_env now) i = Inr hex64" "boundEvidence (govern_env now) hex64 ''e1'' = Inr (sealed_sample, passed_sample)"
  "em_Spec sealed_sample = sealed_spec" "verifyMLEvidence (govern_env now) sealed_sample v = None"
  by (simp_all add: govern_env_def evidenceDigest_def cause_def boundEvidence_def and_then_def sealed_sample_def passed_sample_def
    verifyMLEvidence_def sealed_spec_def sample_spec_def)

lemma govern_up: "db_up (govern_env now)"
  by (simp add: db_up_def govern_env_def)

lemma operator_fields [simp]: "pc_id operator_sample = ''ops''" "require_capability operator_sample ''approve'' = None"
  "require_capability operator_sample ''transition'' = None" "require_capability operator_sample ''rollback'' = None"
  "principal_Has operator_sample ''transition''"
  by code_simp+

lemma sample_transition:
  assumes now: "now mod 1000 = 0" and approval: "approval = None \<or> approval = Some a \<and> ga_ContentDigest a = ga_ID a \<and> ga_ID a \<noteq> ''''"
    and monitor: "elapsed = (case monitor of None \<Rightarrow> (None, '''') | Some d \<Rightarrow> (Some d, d))"
    and target: "target \<in> {''research'', ''shadow'', ''paper''}"
  shows "transition_defaults (new_transition (govern_env now) operator_sample
      (request_sample key target (case approval of None \<Rightarrow> '''' | Some a \<Rightarrow> ga_ID a) extra) from approval elapsed hex64 (policy_sample target)) =
    moved_row now key from target (map_option ga_ID approval) monitor"
  using approval target policy_answers(2) [of target] monitor now
  by (auto simp: new_transition_def sealed_rows transition_defaults_def with_default_def moved_row_def request_sample_def
    service_now_def padded_facts padded_facts(3) [THEN not_sym] hex64_def split: option.splits)

lemma sample_deployment:
  assumes "now mod 1000 = 0" and "target \<in> {''research'', ''shadow'', ''paper''}"
  shows "new_deployment (govern_env now) (request_sample key target approval extra) (policy_sample target) (padded key) = deployed_row now key target"
  using assms policy_answers(2) [of target]
  by (auto simp: new_deployment_def Let_def request_sample_def deployed_row_def with_default_def padded_facts padded_facts(3) [THEN not_sym] service_now_def)

text \<open>The states: no deployment, research, an approval of shadow, shadow, monitoring and an approval of paper, paper, withdrawn.\<close>

definition ungoverned_sample :: governance where
  "ungoverned_sample = \<lparr>gv_approvals = [], gv_deployments = [], gv_transitions = [], gv_monitors = [], gv_settings = []\<rparr>"

definition research_sample :: governance where
  "research_sample = ungoverned_sample\<lparr>gv_transitions := [moved_row 10000 ''r'' '''' ''research'' None None],
     gv_deployments := [deployed_row 10000 ''r'' ''research'']\<rparr>"

definition shadow_approved :: governance where
  "shadow_approved = research_sample\<lparr>gv_approvals := [approved_row 20000 ''a'' ''shadow'' ''research'' 10000]\<rparr>"

definition shadow_sample :: governance where
  "shadow_sample = shadow_approved\<lparr>
     gv_transitions := gv_transitions shadow_approved @ [moved_row 30000 ''s'' ''research'' ''shadow'' (Some (padded ''a'')) None],
     gv_deployments := [deployed_row 30000 ''s'' ''shadow'']\<rparr>"

definition shadow_watched :: governance where
  "shadow_watched = shadow_sample\<lparr>gv_monitors := [watched_row 50000 ''s'' 30000 40000]\<rparr>"

definition paper_approved :: governance where
  "paper_approved = shadow_watched\<lparr>gv_approvals := gv_approvals shadow_watched @ [approved_row 60000 ''b'' ''paper'' ''shadow'' 30000]\<rparr>"

definition paper_sample :: governance where
  "paper_sample = paper_approved\<lparr>
     gv_transitions := gv_transitions paper_approved @
       [moved_row 70000 ''p'' ''shadow'' ''paper'' (Some (padded ''b'')) (Some (padded ''s''))],
     gv_deployments := [deployed_row 70000 ''p'' ''paper'']\<rparr>"

lemmas sample_states = ungoverned_sample_def research_sample_def shadow_approved_def shadow_sample_def shadow_watched_def
  paper_approved_def paper_sample_def

lemmas sample_rows = moved_row_def deployed_row_def approved_row_def watched_row_def

lemmas sample_requests = request_sample_def approval_sample_def monitor_sample_def rollback_sample_def

lemma sample_keys [simp]: "padded ''r'' \<noteq> padded ''s''" "padded ''r'' \<noteq> padded ''p''" "padded ''s'' \<noteq> padded ''p''"
  "padded ''s'' \<noteq> padded ''r''" "padded ''p'' \<noteq> padded ''r''" "padded ''p'' \<noteq> padded ''s''"
  "padded ''a'' \<noteq> padded ''b''" "padded ''b'' \<noteq> padded ''a''"
  using padded_facts(4) by fastforce+

lemma sample_record:
  assumes "now mod 1000 = 0" and "approval = None \<or> approval = Some a \<and> ga_ContentDigest a = ga_ID a \<and> ga_ID a \<noteq> ''''"
    and "elapsed = (case monitor of None \<Rightarrow> (None, '''') | Some d \<Rightarrow> (Some d, d))"
    and target: "target \<in> {''research'', ''shadow'', ''paper''}"
    and q: "q = request_sample key target (case approval of None \<Rightarrow> '''' | Some a \<Rightarrow> ga_ID a) extra"
    and t: "t = moved_row now key from target (map_option ga_ID approval) monitor" and free: "transition_violation st t = None"
  shows "record_transition (govern_env now) operator_sample q sealed_sample from approval elapsed st =
    Inr (t, st\<lparr>gv_transitions := gv_transitions st @ [t],
      gv_deployments := put_deployment (deployed_row now key target) (gv_deployments st)\<rparr>)"
proof -
  have row: "transition_defaults (new_transition (govern_env now) operator_sample q from approval elapsed hex64 (policy_sample target)) = t"
    unfolding q t by (rule sample_transition [OF assms(1-4)])
  have fields: "tq_TargetState q = target" "gt_ID t = padded key" "gt_ContextKey t = context_sample" "gt_ToState t = target"
    "gd_TransitionID (deployed_row now key target) = padded key" "gd_ContextKey (deployed_row now key target) = context_sample"
    "gd_State (deployed_row now key target) = target" "stored_transition (govern_env now) t = t"
    using assms(1) by (auto simp: q t request_sample_def moved_row_def deployed_row_def stored_transition_def)
  have policy: "target_policy (govern_env now) sealed_sample target = Inr (policy_sample target)"
    using target by (intro policy_answers(1)) blast
  have known: "knownState target" using target by (auto simp: knownState_def)
  let ?st = "st\<lparr>gv_transitions := gv_transitions st @ [t]\<rparr>"
  have insert: "insert_transition (govern_env now) t st = Inr ?st"
    by (simp add: insert_transition_def up_simps [OF govern_up] free fields(8))
  have guard: "set_guard (govern_env now) ?st = Inr ()" by (simp add: set_guard_def up_simps [OF govern_up])
  have "deployment_violation ?st (padded key) (deployed_row now key target) = None"
    by (simp add: deployment_violation_def fields padded_facts known)
  then have upsert: "upsert_deployment (govern_env now) (padded key) (deployed_row now key target) ?st =
      Inr (?st\<lparr>gv_deployments := put_deployment (deployed_row now key target) (gv_deployments st)\<rparr>)"
    by (simp add: upsert_deployment_def put_deployment_def up_simps [OF govern_up])
  have deployment: "new_deployment (govern_env now) q (policy_sample target) (padded key) = deployed_row now key target"
    unfolding q by (rule sample_deployment [OF assms(1) target])
  show ?thesis
    unfolding record_transition_def govern_fields and_then_simps fields(1) policy row Let_def insert guard fields(2) deployment upsert
      sample_checks(12) by simp
qed

lemma sample_move:
  assumes q: "q = request_sample key target (case approval of None \<Rightarrow> '''' | Some a \<Rightarrow> ga_ID a) extra"
    and allowed: "complete_transition q" "tq_TargetState q \<noteq> ''rollback''" "promotable (govern_env now) q sealed_sample passed_sample = None"
    and fresh: "find_replay (govern_env now) key st = Inr None"
    and source: "find_deployment (govern_env now) context_sample st = Inr found" "legal (from_of found) target"
    and approval: "approval_step (govern_env now) q sealed_sample passed_sample found st approval"
    and elapsed: "elapsed_evidence (govern_env now) q sealed_sample (row_of found) st = Inr elapsed"
    and written: "record_transition (govern_env now) operator_sample q sealed_sample (from_of found) approval elapsed st = Inr (t, st')"
  shows "Transition (govern_env now) operator_sample q st = (Inr t, st')"
proof -
  have fields: "tq_IdempotencyKey q = key" "tq_ContextKey q = context_sample" "tq_ExperimentID q = hex64" "tq_EvidenceID q = ''e1''"
    "tq_TargetState q = target" by (simp_all add: q request_sample_def)
  have free: "quarantine sealed_sample target = None" by (simp add: quarantine_def sample_checks(12))
  have "transition_body (govern_env now) operator_sample q sealed_sample passed_sample st = Inr (t, st')"
    unfolding transition_body_def Let_def fields
    using approval written by (auto simp: fresh source up_simps [OF govern_up] approval_step_def fields free elapsed)
  then show ?thesis using allowed by (simp add: Transition_def fields up_simps [OF govern_up])
qed

lemma research_reached:
  "Transition (govern_env 10000) operator_sample (request_sample ''r'' ''research'' '''' '''') ungoverned_sample =
     (Inr (moved_row 10000 ''r'' '''' ''research'' None None), research_sample)"
proof (rule sample_move [where key = "''r''" and found = None and approval = None and elapsed = "(None, '''')"])
  show "record_transition (govern_env 10000) operator_sample (request_sample ''r'' ''research'' '''' '''') sealed_sample (from_of None) None
      (None, '''') ungoverned_sample = Inr (moved_row 10000 ''r'' '''' ''research'' None None, research_sample)"
    using sample_record [of 10000 None undefined "(None, '''')" None "''research''" _ "''r''" "''''" _ "''''" ungoverned_sample]
    by (simp add: transition_violation_def ungoverned_sample_def research_sample_def put_deployment_def moved_row_def knownState_def
      padded_facts)
qed (use sample_checks in \<open>simp_all add: find_replay_def find_deployment_def up_simps [OF govern_up] ungoverned_sample_def
  approval_step_def elapsed_evidence_def request_sample_def\<close>)

lemma sample_approve:
  assumes now: "now mod 1000 = 0" "now < 900000" "gd_ActivatedAt d \<le> now" and target: "target \<in> {''shadow'', ''paper''}"
    and checked: "approvable (govern_env now) (approval_sample key target) sealed_sample passed_sample = None"
      "complete_approval (approval_sample key target)"
    and source: "find_deployment (govern_env now) context_sample st = Inr (Some d)" "gd_State d \<noteq> ''''" "gd_ActivatedAt d mod 1000 = 0"
      "0 < gd_ActivatedAt d"
    and a: "a = approved_row now key target (gd_State d) (gd_ActivatedAt d)"
    and free: "key \<notin> ga_IdempotencyKey ` set (gv_approvals st)" "approval_violation (gv_approvals st) a = None"
  shows "Approve (govern_env now) operator_sample (approval_sample key target) st =
    (Inr a, st\<lparr>gv_approvals := gv_approvals st @ [a]\<rparr>)"
proof -
  have fields: "aq_ExperimentID (approval_sample key target) = hex64" "aq_EvidenceID (approval_sample key target) = ''e1''"
    "aq_TargetState (approval_sample key target) = target" by (simp_all add: approval_sample_def)
  have clock: "service_now (govern_env now) = now" using now(1) div_mult_mod_eq [of now 1000] unfolding service_now_def govern_fields by linarith
  have approved: "approval_source (govern_env now) (approval_sample key target) sealed_sample st = Inr d"
    using now source(4) sample_checks(5) source(1) by (simp add: approval_source_def Let_def approval_sample_def clock week_def)
  have policy: "target_policy (govern_env now) sealed_sample target = Inr (policy_sample target)"
    "ap_Digest (policy_sample target) = padded AuthorityPolicySchemaVersion"
    using target by (auto intro!: policy_answers)
  have row: "approval_defaults (new_approval (govern_env now) operator_sample (approval_sample key target) d hex64 (policy_sample target)) = a"
    using now source(2,4) sample_checks(14)
    by (simp add: new_approval_def sealed_rows approval_defaults_def approval_sample_def a approved_row_def with_default_def policy(2)
      padded_facts padded_facts(3) [THEN not_sym] hex64_def clock)
  have stored: "stored_approval (govern_env now) a = a" using now source(3)
    by (auto simp: a approved_row_def stored_approval_def)
  have "ga_IdempotencyKey a = key" by (simp add: a approved_row_def)
  then show ?thesis
    using checked free
    by (simp add: Approve_def approve_def fields approved policy(1) row insert_approval_def up_simps [OF govern_up] stored Let_def)
qed

lemma approval_checks: "complete_approval (approval_sample ''a'' ''shadow'')" "complete_approval (approval_sample ''b'' ''paper'')"
  by code_simp+

lemma approvable_any: "approvable (govern_env now) q sealed_sample passed_sample = approvable (govern_env 10000) q sealed_sample passed_sample"
  "promotable (govern_env now) q' sealed_sample passed_sample = promotable (govern_env 10000) q' sealed_sample passed_sample"
  by (simp_all add: approvable_def promotable_def)

lemma shadow_approval:
  "Approve (govern_env 20000) operator_sample (approval_sample ''a'' ''shadow'') research_sample =
     (Inr (approved_row 20000 ''a'' ''shadow'' ''research'' 10000), shadow_approved)"
  using sample_approve [of 20000 "deployed_row 10000 ''r'' ''research''" "''shadow''" "''a''" research_sample] sample_checks(10)
    approval_checks(1)
  by (simp add: approvable_any(1) [of 20000] find_deployment_def up_simps [OF govern_up] research_sample_def ungoverned_sample_def
    deployed_row_def approval_violation_def approved_row_def knownState_def padded_facts shadow_approved_def)

lemma shadow_reached:
  "Transition (govern_env 30000) operator_sample (request_sample ''s'' ''shadow'' (padded ''a'') '''') shadow_approved =
     (Inr (moved_row 30000 ''s'' ''research'' ''shadow'' (Some (padded ''a'')) None), shadow_sample)"
proof (rule sample_move [where key = "''s''" and found = "Some (deployed_row 10000 ''r'' ''research'')" and elapsed = "(None, '''')"
      and approval = "Some (approved_row 20000 ''a'' ''shadow'' ''research'' 10000)"])
  let ?q = "request_sample ''s'' ''shadow'' (padded ''a'') ''''"
  let ?a = "approved_row 20000 ''a'' ''shadow'' ''research'' 10000"
  show "record_transition (govern_env 30000) operator_sample ?q sealed_sample (from_of (Some (deployed_row 10000 ''r'' ''research'')))
      (Some ?a) (None, '''') shadow_approved =
    Inr (moved_row 30000 ''s'' ''research'' ''shadow'' (Some (padded ''a'')) None, shadow_sample)"
    using sample_record [of 30000 "Some ?a" ?a "(None, '''')" None "''shadow''" ?q "''s''" "''''" _ "''research''" shadow_approved]
    by (simp add: transition_violation_def sample_states sample_rows put_deployment_def knownState_def padded_facts replace_row_def)
  have "bound_approval (govern_env 30000) ?q sealed_sample passed_sample (deployed_row 10000 ''r'' ''research'') shadow_approved = Inr ?a"
    using policy_answers [of "''shadow''"]
    by (simp add: bound_approval_def request_sample_def up_simps [OF govern_up] sample_states sample_rows padded_facts
      approval_binds_def passed_sample_def service_now_def intact_rows)
  then show "approval_step (govern_env 30000) ?q sealed_sample passed_sample (Some (deployed_row 10000 ''r'' ''research''))
      shadow_approved (Some ?a)"
    by (simp add: approval_step_def deployed_row_def)
qed (use sample_checks in \<open>simp_all add: find_replay_def find_deployment_def up_simps [OF govern_up] sample_states sample_rows
  elapsed_evidence_def request_sample_def promotable_def complete_transition_def knownState_def\<close>)

lemma drawdown_finite: "list_ex (\<lambda>(key, v). key = '''' \<or> \<not> finite_float v) drawdown_sample = False"
  by code_simp

lemma sample_watch:
  assumes source: "find_deployment (govern_env now) context_sample st = Inr (Some d)" "d = deployed_row since key target"
    and window: "now mod 1000 = 0" "start mod 1000 = 0" "stop mod 1000 = 0" "since \<le> start" "start < stop" "stop \<le> now"
    and r: "r = watched_row now key start stop"
    and free: "gm_ID r \<notin> gm_ID ` set (gv_monitors st)" "padded key \<in> gt_ID ` set (gv_transitions st)"
    and st': "st' = st\<lparr>gv_monitors := gv_monitors st @ [r]\<rparr>"
    and first: "find (\<lambda>x. gm_ID x = gm_ID r) (sort_key gm_ID (gv_monitors st')) = Some r"
  shows "RecordMonitoringEvidence (govern_env now) operator_sample (monitor_sample start stop) st = (Inr r, st')"
proof -
  have clock: "service_now (govern_env now) = now"
    using window(1) div_mult_mod_eq [of now 1000] unfolding service_now_def govern_fields by linarith
  have fields: "mq_ContextKey (monitor_sample start stop) = context_sample" by (simp add: monitor_sample_def)
  have fine: "monitor_refused (govern_env now) (monitor_sample start stop) d = None"
    using window drawdown_finite by (simp add: monitor_refused_def monitor_sample_def source(2) deployed_row_def clock failure_def)
  have row: "new_monitor (govern_env now) (monitor_sample start stop) d = r"
    by (simp add: new_monitor_def sealed_rows monitor_sample_def r watched_row_def source(2) deployed_row_def clock padded_facts)
  have "stored_monitor (govern_env now) r = r" using window by (auto simp: stored_monitor_def r watched_row_def)
  moreover have "monitor_violation st r = None"
    using free(2) window(5) by (auto simp: monitor_violation_def r watched_row_def padded_facts)
  ultimately have "insert_monitor (govern_env now) r st = Inr st'" using free(1) by (simp add: insert_monitor_def up_simps [OF govern_up] st')
  moreover have "loadMonitoringEvidence (govern_env now) (gm_ID r) st' = Inr r"
    using first by (simp add: loadMonitoringEvidence_def up_simps [OF govern_up] intact_rows) (simp add: r watched_row_def padded_facts)
  ultimately show ?thesis by (simp add: RecordMonitoringEvidence_def fields source(1) fine row Let_def)
qed

lemma watch_reached:
  "RecordMonitoringEvidence (govern_env 50000) operator_sample (monitor_sample 30000 40000) shadow_sample =
     (Inr (watched_row 50000 ''s'' 30000 40000), shadow_watched)"
  by (rule sample_watch [where d = "deployed_row 30000 ''s'' ''shadow''" and since = 30000 and key = "''s''"
      and target = "''shadow''"])
    (simp_all add: find_deployment_def up_simps [OF govern_up] sample_states sample_rows)

lemma paper_approval:
  "Approve (govern_env 60000) operator_sample (approval_sample ''b'' ''paper'') shadow_watched =
     (Inr (approved_row 60000 ''b'' ''paper'' ''shadow'' 30000), paper_approved)"
  using sample_approve [of 60000 "deployed_row 30000 ''s'' ''shadow''" "''paper''" "''b''" shadow_watched] sample_checks(11)
    approval_checks(2)
  by (simp add: approvable_any(1) [of 60000] find_deployment_def up_simps [OF govern_up] sample_states deployed_row_def
    approval_violation_def approved_row_def knownState_def padded_facts)

lemma paper_reached:
  "Transition (govern_env 70000) operator_sample (request_sample ''p'' ''paper'' (padded ''b'') (padded ''s'')) paper_approved =
     (Inr (moved_row 70000 ''p'' ''shadow'' ''paper'' (Some (padded ''b'')) (Some (padded ''s''))), paper_sample)"
proof (rule sample_move [where key = "''p''" and found = "Some (deployed_row 30000 ''s'' ''shadow'')"
      and elapsed = "(Some (padded ''s''), padded ''s'')" and approval = "Some (approved_row 60000 ''b'' ''paper'' ''shadow'' 30000)"])
  let ?q = "request_sample ''p'' ''paper'' (padded ''b'') (padded ''s'')"
  let ?a = "approved_row 60000 ''b'' ''paper'' ''shadow'' 30000"
  show "record_transition (govern_env 70000) operator_sample ?q sealed_sample (from_of (Some (deployed_row 30000 ''s'' ''shadow'')))
      (Some ?a) (Some (padded ''s''), padded ''s'') paper_approved =
    Inr (moved_row 70000 ''p'' ''shadow'' ''paper'' (Some (padded ''b'')) (Some (padded ''s'')), paper_sample)"
    using sample_record [of 70000 "Some ?a" ?a "(Some (padded ''s''), padded ''s'')" "Some (padded ''s'')" "''paper''" ?q "''p''"
        "padded ''s''" _ "''shadow''" paper_approved]
    by (simp add: transition_violation_def sample_states sample_rows put_deployment_def knownState_def padded_facts replace_row_def)
  have "bound_approval (govern_env 70000) ?q sealed_sample passed_sample (deployed_row 30000 ''s'' ''shadow'') paper_approved = Inr ?a"
    using policy_answers [of "''paper''"]
    by (simp add: bound_approval_def request_sample_def up_simps [OF govern_up] sample_states sample_rows padded_facts
      approval_binds_def passed_sample_def service_now_def intact_rows)
  then show "approval_step (govern_env 70000) ?q sealed_sample passed_sample (Some (deployed_row 30000 ''s'' ''shadow''))
      paper_approved (Some ?a)"
    by (simp add: approval_step_def deployed_row_def)
  show "elapsed_evidence (govern_env 70000) ?q sealed_sample (row_of (Some (deployed_row 30000 ''s'' ''shadow''))) paper_approved =
      Inr (Some (padded ''s''), padded ''s'')"
    using sample_checks(6)
    by (simp add: elapsed_evidence_def request_sample_def loadMonitoringEvidence_def up_simps [OF govern_up] sample_states sample_rows
      padded_facts intact_rows elapsed_ok_def service_now_def time_sub_def)
qed (use sample_checks in \<open>simp_all add: find_replay_def find_deployment_def up_simps [OF govern_up] sample_states sample_rows
  request_sample_def promotable_def complete_transition_def knownState_def\<close>)

section \<open>The withdrawal\<close>

definition paper_watched :: governance where
  "paper_watched = paper_sample\<lparr>gv_monitors := gv_monitors paper_sample @ [watched_row 90000 ''p'' 70000 80000]\<rparr>"

definition withdrawn_row :: GovernanceTransition where
  "withdrawn_row = \<lparr>gt_ID = padded ''back'', gt_IdempotencyKey = ''back'', gt_ContextKey = context_sample, gt_ExperimentID = hex64,
     gt_EvidenceID = ''e1'', gt_ApprovalID = None, gt_FromState = ''paper'', gt_ToState = ''rollback'', gt_ArtifactVersion = ''v1'',
     gt_FallbackVersion = ''v0'', gt_Reason = ''drawdown'', gt_ContentDigest = padded ''back'', gt_CreatedAt = 95000,
     gt_PolicyVersion = ''p1'', gt_AuthorityPolicyDigest = padded AuthorityPolicySchemaVersion, gt_ApprovalDigest = '''',
     gt_EvidenceDigest = hex64, gt_MonitoringEvidenceID = Some (padded ''p''), gt_MonitoringEvidenceDigest = padded ''p'',
     gt_Actor = ''ops''\<rparr>"

definition withdrawn_deployment :: GovernanceDeployment where
  "withdrawn_deployment = (deployed_row 70000 ''p'' ''paper'')\<lparr>gd_State := ''rollback'', gd_ArtifactVersion := ''v0'',
     gd_ActivatedAt := 95000, gd_UpdatedAt := 95000, gd_AuthorityPolicyJSON := policy_text govern_study (policy_sample ''rollback''),
     gd_TransitionID := padded ''back''\<rparr>"

definition withdrawn_sample :: governance where
  "withdrawn_sample = paper_watched\<lparr>gv_transitions := gv_transitions paper_watched @ [withdrawn_row],
     gv_deployments := [withdrawn_deployment]\<rparr>"

lemma back_keys [simp]: "padded ''back'' \<noteq> padded ''r''" "padded ''back'' \<noteq> padded ''s''" "padded ''back'' \<noteq> padded ''p''"
  using padded_facts(4) by fastforce+

lemma paper_watch:
  "RecordMonitoringEvidence (govern_env 90000) operator_sample (monitor_sample 70000 80000) paper_sample =
     (Inr (watched_row 90000 ''p'' 70000 80000), paper_watched)"
  by (rule sample_watch [where d = "deployed_row 70000 ''p'' ''paper''" and since = 70000 and key = "''p''" and target = "''paper''"])
    (simp_all add: find_deployment_def up_simps [OF govern_up] paper_watched_def sample_states sample_rows)

lemma withdrawal_recorded:
  "record_rollback (govern_env 95000) operator_sample (rollback_sample (padded ''p'')) sealed_sample (deployed_row 70000 ''p'' ''paper'')
     (watched_row 90000 ''p'' 70000 80000) paper_watched = Inr (withdrawn_row, withdrawn_sample)"
proof -
  have policy: "target_policy (govern_env 95000) sealed_sample ''rollback'' = Inr (policy_sample ''rollback'')"
    "ap_Digest (policy_sample ''rollback'') = padded AuthorityPolicySchemaVersion"
    using policy_answers [of "''rollback''"] by simp_all
  have row: "transition_defaults (new_rollback (govern_env 95000) operator_sample (rollback_sample (padded ''p''))
      (deployed_row 70000 ''p'' ''paper'') (watched_row 90000 ''p'' 70000 80000) hex64 (policy_sample ''rollback'')) = withdrawn_row"
    by (simp add: new_rollback_def sealed_rows rollback_sample_def sample_rows withdrawn_row_def service_now_def transition_defaults_def
      with_default_def padded_facts padded_facts(3) [THEN not_sym] policy(2) hex64_def)
  have evidence: "bq_EvidenceID (rollback_sample (padded ''p'')) = ''e1''" by (simp add: rollback_sample_def)
  let ?st = "paper_watched\<lparr>gv_transitions := gv_transitions paper_watched @ [withdrawn_row]\<rparr>"
  have "transition_violation paper_watched withdrawn_row = None"
    by (simp add: transition_violation_def withdrawn_row_def paper_watched_def sample_states sample_rows knownState_def padded_facts)
  then have insert: "insert_transition (govern_env 95000) withdrawn_row paper_watched = Inr ?st"
    by (simp add: insert_transition_def up_simps [OF govern_up] stored_transition_def) (simp add: withdrawn_row_def)
  have deployed: "rolled_back (govern_env 95000) (rollback_sample (padded ''p'')) (policy_sample ''rollback'') (padded ''back'')
      (deployed_row 70000 ''p'' ''paper'') = withdrawn_deployment"
    by (simp add: rolled_back_def Let_def rollback_sample_def withdrawn_deployment_def deployed_row_def service_now_def policy(2))
  have "deployment_violation ?st (padded ''back'') withdrawn_deployment = None"
    by (simp add: deployment_violation_def withdrawn_deployment_def withdrawn_row_def deployed_row_def padded_facts knownState_def)
  then have update: "update_deployment (govern_env 95000) (padded ''back'') withdrawn_deployment ?st = Inr withdrawn_sample"
    by (simp add: update_deployment_def up_simps [OF govern_up])
      (simp add: withdrawn_sample_def paper_watched_def paper_sample_def replace_row_def withdrawn_deployment_def deployed_row_def)
  have "gt_ID withdrawn_row = padded ''back''" by (simp add: withdrawn_row_def)
  then show ?thesis
    by (simp add: record_rollback_def evidence policy(1) row insert set_guard_def up_simps [OF govern_up] deployed update sample_checks(12)
      Let_def)
qed

lemma withdrawn_reached:
  "Rollback (govern_env 95000) operator_sample (rollback_sample (padded ''p'')) paper_watched = (Inr withdrawn_row, withdrawn_sample)"
proof -
  let ?q = "rollback_sample (padded ''p'')" and ?d = "deployed_row 70000 ''p'' ''paper''" and ?r = "watched_row 90000 ''p'' 70000 80000"
  have fields: "bq_IdempotencyKey ?q = ''back''" "bq_ContextKey ?q = context_sample" "bq_ExperimentID ?q = hex64"
    "bq_EvidenceID ?q = ''e1''" "bq_FallbackVersion ?q = ''v0''" "bq_MonitoringEvidenceID ?q = padded ''p''" "complete_rollback ?q"
    using sample_checks(1) by (simp_all add: rollback_sample_def complete_rollback_def padded_facts complete_transition_def
      request_sample_def)
  have found: "find_deployment (govern_env 95000) context_sample paper_watched = Inr (Some ?d)"
    by (simp add: find_deployment_def up_simps [OF govern_up] paper_watched_def sample_states sample_rows)
  have loaded: "loadMonitoringEvidence (govern_env 95000) (padded ''p'') paper_watched = Inr ?r"
  proof (cases "padded ''s'' \<le> padded ''p''")
    case True
    then show ?thesis by (simp add: loadMonitoringEvidence_def up_simps [OF govern_up] paper_watched_def sample_states sample_rows
      intact_rows padded_facts)
  next
    case False
    then show ?thesis by (simp add: loadMonitoringEvidence_def up_simps [OF govern_up] paper_watched_def sample_states sample_rows
      intact_rows padded_facts)
  qed
  have fresh: "monitor_fresh (govern_env 95000) ?q ?d ?r"
    by (simp add: monitor_fresh_def fields sample_rows service_now_def time_sub_def one_day_def)
  have source: "rollback_source (govern_env 95000) ?q sealed_sample paper_watched = Inr (?d, ?r)"
    using sample_checks(13)
    by (simp add: rollback_source_def fields found loaded fresh) (simp add: deployed_row_def)
  have "find_replay (govern_env 95000) ''back'' paper_watched = Inr None"
    by (simp add: find_replay_def up_simps [OF govern_up] paper_watched_def sample_states sample_rows)
  then have "rollback_body (govern_env 95000) operator_sample ?q sealed_sample paper_watched = Inr (withdrawn_row, withdrawn_sample)"
    by (simp add: rollback_body_def fields source withdrawal_recorded)
  then show ?thesis by (simp add: Rollback_def fields up_simps [OF govern_up])
qed

text \<open>The promotion to paper, asked again after the withdrawal: the answer is the first call's row.\<close>

lemma find_only: "x \<in> set xs \<Longrightarrow> P x \<Longrightarrow> (\<And>y. y \<in> set xs \<Longrightarrow> P y \<Longrightarrow> y = x) \<Longrightarrow> find P xs = Some x"
proof (induction xs)
  case (Cons a xs)
  show ?case
  proof (cases "P a")
    case True
    then have "a = x" using Cons.prems(3) by simp
    then show ?thesis using True by simp
  next
    case False
    then have "x \<in> set xs" using Cons.prems(1,2) by auto
    then have "find P xs = Some x" by (rule Cons.IH [OF _ Cons.prems(2)]) (rule Cons.prems(3), simp_all)
    then show ?thesis using False by simp
  qed
qed simp

lemma paper_replayed:
  "Transition (govern_env 99000) operator_sample (request_sample ''p'' ''paper'' (padded ''b'') (padded ''s'')) withdrawn_sample =
     (Inr (moved_row 70000 ''p'' ''shadow'' ''paper'' (Some (padded ''b'')) (Some (padded ''s''))), withdrawn_sample)"
proof -
  let ?q = "request_sample ''p'' ''paper'' (padded ''b'') (padded ''s'')"
  let ?t = "moved_row 70000 ''p'' ''shadow'' ''paper'' (Some (padded ''b'')) (Some (padded ''s''))"
  have rows: "gv_transitions withdrawn_sample = [moved_row 10000 ''r'' '''' ''research'' None None,
      moved_row 30000 ''s'' ''research'' ''shadow'' (Some (padded ''a'')) None, ?t, withdrawn_row]"
    by (simp add: withdrawn_sample_def paper_watched_def sample_states)
  have keys: "gt_IdempotencyKey withdrawn_row = ''back''" "gt_IdempotencyKey (moved_row n k f g a m) = k" for n k f g a m
    by (simp_all add: withdrawn_row_def moved_row_def)
  have only: "y = ?t" if y: "y \<in> set (gv_transitions withdrawn_sample)" "gt_IdempotencyKey y = ''p''" for y
    using y(1)[unfolded rows] y(2) by (simp only: list.set insert_iff empty_iff) (elim disjE; simp add: keys)
  have in_rows: "?t \<in> set (gv_transitions withdrawn_sample)" "gt_IdempotencyKey ?t = ''p''" by (simp_all add: rows keys)
  have "find (\<lambda>t. gt_IdempotencyKey t = ''p'') (sort_key gt_ID (gv_transitions withdrawn_sample)) = Some ?t"
    by (rule find_only, unfold set_sort) (rule in_rows, rule in_rows, rule only)
  then have "find_replay (govern_env 99000) ''p'' withdrawn_sample = Inr (Some ?t)"
    by (simp add: find_replay_def up_simps [OF govern_up])
  then have "transition_body (govern_env 99000) operator_sample ?q sealed_sample passed_sample withdrawn_sample = Inr (?t, withdrawn_sample)"
    by (simp add: transition_body_def request_sample_def up_simps [OF govern_up] intact_rows same_transition_def sample_rows padded_facts stringValue_def)
  moreover have "complete_transition ?q" "promotable (govern_env 99000) ?q sealed_sample passed_sample = None"
    using sample_checks(1,3) by (simp_all add: complete_transition_def request_sample_def knownState_def padded_facts promotable_def)
  moreover have "tq_ExperimentID ?q = hex64" "tq_EvidenceID ?q = ''e1''" "tq_TargetState ?q \<noteq> ''rollback''"
    by (simp_all add: request_sample_def)
  ultimately show ?thesis by (simp add: Transition_def up_simps [OF govern_up])
qed

end
