(* ===== verification/Governance_Properties.thy ===== *)
theory Governance_Properties
  imports Governance_Samples
begin

text \<open>
  The properties of the governance service. The locale \<open>governed\<close> is the contract of its four operations: nothing without the
  capability, the invariant kept, the files only added to; its interpretations carry the step relation \<open>gov_step\<close>.
\<close>

section \<open>The contract of a governed operation\<close>

locale governed =
  fixes run :: "gov_env \<Rightarrow> Principal \<Rightarrow> 'q \<Rightarrow> governance \<Rightarrow> 'r gresult \<times> governance" and capability :: string
  assumes authorized: "fst (run env who q st) = Inr x \<Longrightarrow> principal_Has who capability"
    and unauthorized: "\<not> principal_Has who capability \<Longrightarrow> snd (run env who q st) = st"
    and keeps: "conforms W env \<Longrightarrow> gov_inv W st \<Longrightarrow> gov_inv W (snd (run env who q st)) \<and> grows st (snd (run env who q st))"
begin

lemma refused: "\<not> principal_Has who capability \<Longrightarrow> \<exists>e. run env who q st = (Inl e, st)"
  using authorized [of env who q st] unauthorized [of who env q st] by (cases "run env who q st", cases "fst (run env who q st)") auto

end

interpretation approving: governed Approve "''approve''"
proof
  fix env who q st x W
  show "principal_Has who ''approve''" if "fst (Approve env who q st) = Inr x"
    using that by (cases rule: Approving_cases [of env who q st]) simp_all
  show "snd (Approve env who q st) = st" if "\<not> principal_Has who ''approve''"
    using that by (cases rule: Approving_cases [of env who q st]) simp_all
qed (rule Approve_keeps)

interpretation moving: governed Transition "''transition''"
proof
  fix env who q st x W
  show "principal_Has who ''transition''" if "fst (Transition env who q st) = Inr x"
    using that by (cases rule: Transition_cases [of env who q st]) simp_all
  show "snd (Transition env who q st) = st" if "\<not> principal_Has who ''transition''"
    using that by (cases rule: Transition_cases [of env who q st]) simp_all
qed (rule Transition_keeps)

interpretation withdrawing: governed Rollback "''rollback''"
proof
  fix env who q st x W
  show "principal_Has who ''rollback''" if "fst (Rollback env who q st) = Inr x"
    using that by (cases rule: Rollback_cases [of env who q st]) simp_all
  show "snd (Rollback env who q st) = st" if "\<not> principal_Has who ''rollback''"
    using that by (cases rule: Rollback_cases [of env who q st]) simp_all
qed (rule Rollback_keeps)

interpretation watching: governed RecordMonitoringEvidence "''rollback''"
proof
  fix env who q st x W
  show "principal_Has who ''rollback''" if "fst (RecordMonitoringEvidence env who q st) = Inr x"
    using that by (cases rule: Monitor_cases [of env who q st]) auto
  show "snd (RecordMonitoringEvidence env who q st) = st" if "\<not> principal_Has who ''rollback''"
    using that by (cases rule: Monitor_cases [of env who q st]) auto
qed (rule Monitor_keeps)

section \<open>Steps\<close>

inductive gov_step :: "gov_world \<Rightarrow> governance \<Rightarrow> governance \<Rightarrow> bool" for W where
  approve_step: "conforms W env \<Longrightarrow> gov_step W st (snd (Approve env who q st))"
| transition_step: "conforms W env \<Longrightarrow> gov_step W st (snd (Transition env who q' st))"
| rollback_step: "conforms W env \<Longrightarrow> gov_step W st (snd (Rollback env who q'' st))"
| monitor_step: "conforms W env \<Longrightarrow> gov_step W st (snd (RecordMonitoringEvidence env who q''' st))"

definition ungoverned :: "governance \<Rightarrow> bool" where
  "ungoverned st \<longleftrightarrow> gv_approvals st = [] \<and> gv_deployments st = [] \<and> gv_transitions st = [] \<and> gv_monitors st = []"

lemma ungoverned_inv: "ungoverned st \<Longrightarrow> gov_inv W st"
  by (simp add: ungoverned_def gov_inv_def path_def mirrored_def the_deployment_def)

lemma gov_step_keeps: "gov_step W st st' \<Longrightarrow> gov_inv W st \<Longrightarrow> gov_inv W st' \<and> grows st st'"
  by (induction rule: gov_step.induct) (blast dest: approving.keeps moving.keeps withdrawing.keeps watching.keeps)+

lemma gov_steps_keep: "rtranclp (gov_step W) st st' \<Longrightarrow> gov_inv W st \<Longrightarrow> gov_inv W st' \<and> grows st st'"
proof (induction rule: rtranclp_induct)
  case (step y z)
  then show ?case using gov_step_keeps [OF step(2)] grows_trans by blast
qed simp

section \<open>The ladder\<close>

definition ladder :: "string list" where
  "ladder = [''research'', ''shadow'', ''paper'', ''limited_live'', ''full_live'']"

definition rung :: "nat \<Rightarrow> string" where
  "rung n = (if n = 0 then '''' else ladder ! (n - 1))"

lemma ladder_table:
  "\<forall>n \<in> set [0..<6]. \<forall>x \<in> set (ladder @ [''rollback'']). legal (rung n) x = (n < 5 \<and> x = rung (Suc n))"
  "\<forall>x \<in> set (ladder @ [''rollback'']). \<not> legal ''rollback'' x"
  "\<forall>n \<in> set [0..<5]. rung (Suc n) \<noteq> ''rollback'' \<and> drop n ladder = rung (Suc n) # drop (Suc n) ladder"
  by code_simp+

lemma known_states: "knownState x \<Longrightarrow> x \<in> set (ladder @ [''rollback''])"
  unfolding knownState_def ladder_def by (elim insertE emptyE) simp_all

lemma legal_rung: "n \<le> 5 \<Longrightarrow> knownState x \<Longrightarrow> legal (rung n) x \<longleftrightarrow> n < 5 \<and> x = rung (Suc n)"
  using bspec [OF bspec [OF ladder_table(1)] known_states, of n x] by simp

lemma legal_rollback: "knownState x \<Longrightarrow> \<not> legal ''rollback'' x"
  using ladder_table(2) known_states by blast

lemma climbs_rollback: "climbs ''rollback'' ts \<Longrightarrow> \<forall>t \<in> set ts. knownState (gt_ToState t) \<Longrightarrow> ts = []"
  using legal_rollback by (cases ts) auto

lemma climbs_ladder:
  assumes "climbs (rung n) ts" and "n \<le> 5" and "\<forall>t \<in> set ts. knownState (gt_ToState t)"
  shows "\<exists>k. n + k \<le> 5 \<and> (map gt_ToState ts = take k (drop n ladder) \<or>
    0 < n + k \<and> map gt_ToState ts = take k (drop n ladder) @ [''rollback''])"
  using assms
proof (induction ts arbitrary: n)
  case (Cons t ts)
  show ?case
  proof (cases "gt_ToState t = ''rollback''")
    case True
    then have "climbs ''rollback'' ts" "rung n \<noteq> ''''" using Cons.prems(1) by simp_all
    then have "ts = []" "0 < n" using Cons.prems(3) climbs_rollback by (simp_all add: rung_def split: if_splits)
    then show ?thesis using True Cons.prems(2) by (intro exI [of _ 0]) simp
  next
    case False
    then have n: "n < 5" "gt_ToState t = rung (Suc n)"
      using Cons.prems legal_rung [of n "gt_ToState t"] by auto
    then have rest: "climbs (rung (Suc n)) ts" using Cons.prems(1) by simp
    obtain k where k: "Suc n + k \<le> 5" "map gt_ToState ts = take k (drop (Suc n) ladder) \<or>
        0 < Suc n + k \<and> map gt_ToState ts = take k (drop (Suc n) ladder) @ [''rollback'']"
      using Cons.IH [OF rest] n(1) Cons.prems(3) by auto
    have "drop n ladder = rung (Suc n) # drop (Suc n) ladder" using n(1) ladder_table(3) by simp
    then show ?thesis using k n(2) by (intro exI [of _ "Suc k"]) auto
  qed
qed (auto intro: exI [of _ 0])

text \<open>C30: Rollout follows the ladder: however approvals, transitions, rollbacks and monitoring are called, by whom and with which
  failures, the states a context has held are an initial part of research, shadow, paper, limited live, full live, possibly ended
  by one rollback, and the deployment is in the last of them, bound to that intact transition.\<close>

theorem rollout_follows_ladder:
  assumes "ungoverned st0" and "rtranclp (gov_step W) st0 st"
  shows "\<exists>n \<le> 5. (map gt_ToState (path c st) = take n ladder \<or> 0 < n \<and> map gt_ToState (path c st) = take n ladder @ [''rollback'']) \<and>
    (case the_deployment c st of None \<Rightarrow> path c st = []
     | Some d \<Rightarrow> path c st \<noteq> [] \<and> mirrors d (last (path c st)) \<and> VerifyTransition (gw_study W) (last (path c st)) = None)"
proof -
  have inv: "gov_inv W st" using gov_steps_keep [OF assms(2)] ungoverned_inv [OF assms(1)] by blast
  have c: "climbs (rung 0) (path c st)" "mirrored c st" using inv by (simp_all add: gov_inv_def rung_def)
  have filed: "on_file W st t" if "t \<in> set (path c st)" for t using inv that by (simp add: gov_inv_def path_def)
  then have "\<forall>t \<in> set (path c st). knownState (gt_ToState t)" by (simp add: on_file_def)
  from climbs_ladder [OF c(1) _ this] have "\<exists>n \<le> 5. map gt_ToState (path c st) = take n ladder \<or>
      0 < n \<and> map gt_ToState (path c st) = take n ladder @ [''rollback'']" by simp
  moreover have "case the_deployment c st of None \<Rightarrow> path c st = []
     | Some d \<Rightarrow> path c st \<noteq> [] \<and> mirrors d (last (path c st)) \<and> VerifyTransition (gw_study W) (last (path c st)) = None"
    using c(2) filed [of "last (path c st)"]
    by (cases "the_deployment c st") (simp_all add: mirrored_def on_file_def VerifyTransition_def)
  ultimately show ?thesis by blast
qed

section \<open>What a rollout state rests on\<close>

lemma reached_inv: "ungoverned st0 \<Longrightarrow> rtranclp (gov_step W) st0 st \<Longrightarrow> gov_inv W st"
  using gov_steps_keep ungoverned_inv by blast

lemma path_filed:
  assumes "gov_inv W st" and "t \<in> set (path c st)"
  shows "on_file W st t" and "gt_ContextKey t = c" and "t \<in> set (gv_transitions st)"
  using assms by (auto simp: gov_inv_def path_def)

lemma path_states:
  assumes "gov_inv W st"
  shows "\<exists>n \<le> 5. map gt_ToState (path c st) = take n ladder \<or>
    0 < n \<and> map gt_ToState (path c st) = take n ladder @ [''rollback'']"
proof -
  have "climbs (rung 0) (path c st)" using assms by (simp add: gov_inv_def rung_def)
  moreover have "\<forall>t \<in> set (path c st). knownState (gt_ToState t)" using path_filed(1) [OF assms] by (simp add: on_file_def)
  ultimately show ?thesis using climbs_ladder [of 0 "path c st"] by simp
qed

lemma ladder_distinct: "distinct (ladder @ [''rollback''])" "\<not> capital_state ''rollback''" "length ladder = 5"
  "\<forall>n \<in> set [0..<3]. \<forall>s \<in> set (take n ladder). \<not> capital_state s" "''rollback'' \<notin> set ladder"
  by code_simp+

lemma path_distinct:
  assumes "gov_inv W st"
  shows "distinct (map gt_ToState (path c st))"
proof -
  obtain n where "map gt_ToState (path c st) = take n ladder \<or> map gt_ToState (path c st) = take n ladder @ [''rollback'']"
    using path_states [OF assms] by blast
  then show ?thesis using ladder_distinct(1,5) by (auto dest: in_set_takeD)
qed

lemma promotion_filed:
  assumes "gov_inv W st" and "t \<in> set (gv_transitions st)" and "gt_ToState t \<noteq> ''research''" and "gt_ToState t \<noteq> ''rollback''"
  shows "promoted W st t"
proof -
  have t: "t \<in> set (path (gt_ContextKey t) st)" using assms(2) by (simp add: path_def)
  have "climbs '''' (path (gt_ContextKey t) st)" using assms(1) by (simp add: gov_inv_def)
  moreover have "climbs s ts \<Longrightarrow> t \<in> set ts \<Longrightarrow> gt_FromState t \<noteq> ''''" for s ts
    using assms(3,4) by (induction ts arbitrary: s) (auto simp: legal_def)
  ultimately have "gt_FromState t \<noteq> ''''" using t by blast
  then show ?thesis using path_filed(1) [OF assms(1) t] assms(4) by (simp add: on_file_def)
qed

text \<open>C31: Capital is earned step by step: a context whose deployment may move capital (paper, limited or full live) has gone through
  research and shadow, each of its promotions has a passed evidence, an intact and unexpired approval of exactly that step, and
  complete monitoring for the time its manifest requires; and a model in such a state is of the promotable class.\<close>

theorem capital_state_is_earned:
  assumes "ungoverned st0" and "rtranclp (gov_step W) st0 st" and "the_deployment c st = Some d" and "capital_state (gd_State d)"
  shows "\<exists>n m. 3 \<le> n \<and> n \<le> 5 \<and> map gt_ToState (path c st) = take n ladder \<and> (\<forall>t \<in> set (tl (path c st)). promoted W st t) \<and>
    gw_manifest W (gd_ExperimentID d) = Some m \<and> authorityContext m = c \<and>
    (\<forall>model. sp_Model (em_Spec m) = Some model \<longrightarrow> CanHoldAuthority model)"
proof -
  note inv = reached_inv [OF assms(1,2)]
  obtain s where s: "mirrors d s" "path c st \<noteq> []" "s = last (path c st)" by (rule mirrored_source [OF inv assms(3)])
  have last: "gd_State d = last (map gt_ToState (path c st))" using s by (simp add: mirrors_def last_map)
  obtain n where n: "n \<le> 5" "map gt_ToState (path c st) = take n ladder"
    using path_states [OF inv, of c] assms(4) ladder_distinct(2) unfolding last by auto
  have "gd_State d \<in> set (map gt_ToState (path c st))" unfolding last by (rule last_in_set) (simp add: s(2))
  then have "gd_State d \<in> set (take n ladder)" by (simp only: n(2))
  then have n3: "3 \<le> n" using assms(4) ladder_distinct(4) by (metis atLeastLessThan_iff not_less set_upt zero_le)
  have above: "gt_ToState t \<noteq> ''research'' \<and> gt_ToState t \<noteq> ''rollback''" if "t \<in> set (tl (path c st))" for t
  proof -
    have "gt_ToState t \<in> set (map gt_ToState (tl (path c st)))" using that by simp
    also have "map gt_ToState (tl (path c st)) = tl (take n ladder)" by (simp add: map_tl n(2))
    finally have "gt_ToState t \<in> set (tl ladder)" by (auto dest: in_set_takeD simp: tl_take)
    moreover have "''research'' \<notin> set (tl ladder)" "''rollback'' \<notin> set (tl ladder)" by code_simp+
    ultimately show ?thesis by auto
  qed
  have promoted: "promoted W st t" if "t \<in> set (tl (path c st))" for t
    using promotion_filed [OF inv path_filed(3) [OF inv]] above that list.set_sel(2) s(2) by metis
  have "length (path c st) = n" using arg_cong [OF n(2), of length] n(1) ladder_distinct(3) by simp
  then have "0 < length (tl (path c st))" using n3 by simp
  then have "tl (path c st) \<noteq> []" by (rule length_greater_0_conv [THEN iffD1])
  then have "s \<in> set (tl (path c st))" unfolding s(3) by (metis last_in_set last_tl)
  then obtain m where m: "gw_manifest W (gt_ExperimentID s) = Some m" "authorityContext m = gt_ContextKey s"
    "quarantine m (gt_ToState s) = None" using promoted unfolding promoted_def by blast
  have "\<forall>model. sp_Model (em_Spec m) = Some model \<longrightarrow> CanHoldAuthority model"
    using m(3) assms(4) s(1) by (auto simp: quarantine_def mirrors_def)
  moreover have "gt_ContextKey s = c" using path_filed(2) [OF inv, of s] s(2,3) by simp
  ultimately show ?thesis using n n3 promoted m(1,2) s(1) by (auto simp: mirrors_def)
qed

text \<open>C32: A rollback is never arbitrary: every transition to the rollback state has on file a complete monitoring window of the
  deployment it withdraws, at most a day old, whose metrics meet a rollback threshold the manifest declared beforehand, and falls
  back to the version configured when the deployment was made.\<close>

theorem rollback_is_triggered:
  assumes "ungoverned st0" and "rtranclp (gov_step W) st0 st" and "t \<in> set (gv_transitions st)" and "gt_ToState t = ''rollback''"
  shows "withdrawn W st t"
  using reached_inv [OF assms(1,2)] assms(3,4) by (simp add: gov_inv_def on_file_def)

text \<open>One approval promotes once: two promotions on record that name the same approval are the same transition.\<close>

theorem approval_promotes_once:
  assumes "ungoverned st0" and "rtranclp (gov_step W) st0 st" and "t \<in> set (gv_transitions st)" and "u \<in> set (gv_transitions st)"
    and "gt_ToState t \<notin> {''research'', ''rollback''}" and "gt_ToState u \<notin> {''research'', ''rollback''}"
    and "gt_ApprovalID t = gt_ApprovalID u"
  shows "t = u"
proof -
  note inv = reached_inv [OF assms(1,2)]
  have pt: "promoted W st t" and pu: "promoted W st u" using promotion_filed [OF inv] assms(3-6) by simp_all
  obtain m s a where a: "gw_manifest W (gt_ExperimentID t) = Some m" "authorityContext m = gt_ContextKey t"
    "a \<in> set (gv_approvals st)" "approves_move W a s t" using pt unfolding promoted_def by blast
  obtain m' s' b where b: "gw_manifest W (gt_ExperimentID u) = Some m'" "authorityContext m' = gt_ContextKey u"
    "b \<in> set (gv_approvals st)" "approves_move W b s' u" using pu unfolding promoted_def by blast
  have "ga_ID a = ga_ID b" using a(4) b(4) assms(7) by (simp add: approves_move_def)
  moreover have "distinct (map ga_ID (gv_approvals st))" using inv by (simp add: gov_inv_def)
  ultimately have "a = b" using a(3) b(3) by (metis distinct_map inj_onD)
  then have same: "gt_ContextKey t = gt_ContextKey u" "gt_ToState t = gt_ToState u"
    using a b by (simp_all add: approves_move_def)
  have "t \<in> set (path (gt_ContextKey u) st)" "u \<in> set (path (gt_ContextKey u) st)" using assms(3,4) same(1) by (simp_all add: path_def)
  then show ?thesis using path_distinct [OF inv, of "gt_ContextKey u"] same(2) by (metis distinct_map inj_onD)
qed

text \<open>A transition happens once: whoever repeats a request whose key was answered before, however much later, gets the same
  row and changes nothing; and no record is ever changed or dropped in between.\<close>

theorem transition_happens_once:
  assumes "gov_inv W st" and "conforms W env" and "Transition env who q st = (Inr t, st')"
    and "rtranclp (gov_step W) st' st2" and "conforms W env'" and "Transition env' who' q st2 = (Inr t', st3)"
  shows "t' = t \<and> st3 = st2 \<and> grows st st2"
proof -
  have first: "gov_inv W st'" "grows st st'" using Transition_keeps [OF assms(2,1), of who q] assms(3) by simp_all
  have later: "gov_inv W st2" "grows st' st2" using gov_steps_keep [OF assms(4) first(1)] by blast+
  have t: "t \<in> set (gv_transitions st') \<and> gt_IdempotencyKey t = tq_IdempotencyKey q"
  proof (cases rule: Transition_cases [of env who q st])
    case (moved m v found approval elapsed t0 st0)
    have t0: "t0 = t" "st0 = st'" using moved(1) assms(3) by simp_all
    show ?thesis
      by (rule record_transition_Inr [OF assms(2) moved(14,3,4)]) (simp add: new_transition_def t0)
  qed (use assms(3) in auto)
  then have t2: "t \<in> set (gv_transitions st2)" using grows_sets(2) [OF later(2)] by blast
  have once: "distinct (map gt_IdempotencyKey (gv_transitions st2))" using later(1) by (simp add: gov_inv_def)
  have "t' = t \<and> st3 = st2"
  proof (cases rule: Transition_cases [of env' who' q st2])
    case (replayed t0)
    then have "t0 \<in> set (gv_transitions st2)" "gt_IdempotencyKey t0 = gt_IdempotencyKey t" "t' = t0" "st3 = st2"
      using t assms(6) by simp_all
    then show ?thesis using once t2 by (metis distinct_map inj_onD)
  next
    case (moved m v found approval elapsed t0 st0)
    then show ?thesis using gov_first_Inr(1) [OF moved(8) [unfolded find_replay_def] refl] t t2 by simp
  qed (use assms(6) in simp)
  then show ?thesis using grows_trans [OF first(2) later(2)] by blast
qed

text \<open>Nobody acts without the capability: for a principal that was not constructed by the authentication seam, or lacks the
  capability of the operation, approving, transitioning, rolling back and recording evidence all fail and change nothing.\<close>

theorem unauthorized_changes_nothing:
  "(\<not> principal_Has who ''approve'' \<longrightarrow> (\<exists>e. Approve env who q st = (Inl e, st))) \<and>
   (\<not> principal_Has who ''transition'' \<longrightarrow> (\<exists>e. Transition env who q' st = (Inl e, st))) \<and>
   (\<not> principal_Has who ''rollback'' \<longrightarrow> (\<exists>e. Rollback env who q'' st = (Inl e, st)) \<and>
      (\<exists>e. RecordMonitoringEvidence env who q''' st = (Inl e, st)))"
  using approving.refused moving.refused withdrawing.refused watching.refused by blast

section \<open>A transition that is due goes through\<close>

definition watched :: "gov_env \<Rightarrow> TransitionRequest \<Rightarrow> ExperimentManifest \<Rightarrow> GovernanceDeployment \<Rightarrow> governance \<Rightarrow> bool" where
  "watched env q m d st \<longleftrightarrow> (0 < elapsed_of (em_Spec m) (tq_TargetState q) \<longrightarrow> tq_ElapsedEvidenceID q \<noteq> '''' \<and>
     tq_ElapsedEvidenceID q \<in> gm_ID ` set (gv_monitors st) \<and>
     (\<forall>r \<in> set (gv_monitors st). gm_ID r = tq_ElapsedEvidenceID q \<longrightarrow>
        monitor_intact env r \<and> elapsed_ok env q d (elapsed_of (em_Spec m) (tq_TargetState q)) r))"

text \<open>Everything a promotion needs: the capability, the request, its evidence and versions, the source, the approval.\<close>

definition entitled ::
  "gov_env \<Rightarrow> Principal \<Rightarrow> TransitionRequest \<Rightarrow> ExperimentManifest \<Rightarrow> PersistedEvidence \<Rightarrow> GovernanceDeployment \<Rightarrow>
   GovernanceApproval \<Rightarrow> string \<Rightarrow> AuthorityPolicyEnvelope \<Rightarrow> governance \<Rightarrow> bool" where
  "entitled env who q m v d a evidence policy st \<longleftrightarrow>
     principal_Has who ''transition'' \<and> pc_id who \<noteq> '''' \<and> complete_transition q \<and> tq_TargetState q \<noteq> ''rollback'' \<and>
     boundEvidence env (tq_ExperimentID q) (tq_EvidenceID q) = Inr (m, v) \<and> evidence_passed v \<and> verifyMLEvidence env m v = None \<and>
     tq_ArtifactVersion q = expected_artifact m \<and> tq_PolicyVersion q = pb_Composite (sp_Policies (em_Spec m)) \<and>
     tq_ContextKey q = authorityContext m \<and> the_deployment (tq_ContextKey q) st = Some d \<and>
     legal (gd_State d) (tq_TargetState q) \<and> gd_State d \<noteq> '''' \<and> a \<in> set (gv_approvals st) \<and> ga_ID a = tq_ApprovalID q \<and>
     tq_ApprovalID q \<noteq> '''' \<and> approval_intact (ge_study env) a \<and> evidenceDigest env (tq_EvidenceID q) = Inr evidence \<and>
     target_policy env m (tq_TargetState q) = Inr policy \<and> approval_binds env q v d evidence policy a \<and>
     quarantine m (tq_TargetState q) = None \<and> watched env q m d st"

lemma find_keyed:
  assumes "x \<in> set rows" and "distinct (map key rows)"
  shows "find (\<lambda>y. key y = key x) (sort_key f rows) = Some x"
proof -
  obtain y where y: "find (\<lambda>y. key y = key x) (sort_key f rows) = Some y"
    using assms(1) find_None_iff [of "\<lambda>y. key y = key x" "sort_key f rows"] by fastforce
  then have "y \<in> set rows" "key y = key x"
    by (auto simp: find_Some_iff) (metis length_sort nth_mem set_sort)
  then show ?thesis using y assms by (metis distinct_map inj_onD)
qed

lemma watched_elapsed:
  assumes "db_up env" and "watched env q m d st"
  shows "\<exists>elapsed. elapsed_evidence env q m d st = Inr elapsed"
proof (cases "0 < elapsed_of (em_Spec m) (tq_TargetState q)")
  case True
  have w: "tq_ElapsedEvidenceID q \<noteq> ''''" "tq_ElapsedEvidenceID q \<in> gm_ID ` set (gv_monitors st)"
    using assms(2) True by (simp_all add: watched_def)
  obtain r where r: "find (\<lambda>r. gm_ID r = tq_ElapsedEvidenceID q) (sort_key gm_ID (gv_monitors st)) = Some r"
    using w(2) find_None_iff [of "\<lambda>r. gm_ID r = tq_ElapsedEvidenceID q" "sort_key gm_ID (gv_monitors st)"] by fastforce
  then have "r \<in> set (gv_monitors st)" "gm_ID r = tq_ElapsedEvidenceID q"
    by (auto simp: find_Some_iff) (metis length_sort nth_mem set_sort)
  then show ?thesis using assms(2) True w(1) r
    by (simp add: elapsed_evidence_def loadMonitoringEvidence_def up_simps [OF assms(1)] watched_def)
qed (simp add: elapsed_evidence_def)

lemma entitled_body:
  assumes "gov_inv W st" and "db_up env" and "entitled env who q m v d a evidence policy st"
    and "tq_IdempotencyKey q \<notin> gt_IdempotencyKey ` set (gv_transitions st)"
  obtains elapsed where "transition_body env who q m v st = record_transition env who q m (gd_State d) (Some a) elapsed st"
proof -
  note up = up_simps [OF assms(2)]
  have e: "the_deployment (tq_ContextKey q) st = Some d" "legal (gd_State d) (tq_TargetState q)" "gd_State d \<noteq> ''''"
    "a \<in> set (gv_approvals st)" "ga_ID a = tq_ApprovalID q" "tq_ApprovalID q \<noteq> ''''" "approval_intact (ge_study env) a"
    "evidenceDigest env (tq_EvidenceID q) = Inr evidence" "target_policy env m (tq_TargetState q) = Inr policy"
    "approval_binds env q v d evidence policy a" "quarantine m (tq_TargetState q) = None" "watched env q m d st"
    using assms(3) unfolding entitled_def by blast+
  have replay: "find_replay env (tq_IdempotencyKey q) st = Inr None"
    using assms(4) by (simp add: find_replay_def up find_None_iff image_iff) metis
  have "d \<in> set (gv_deployments st)" "gd_ContextKey d = tq_ContextKey q"
    using e(1) by (auto simp: the_deployment_def find_Some_iff)
  then have found: "find_deployment env (tq_ContextKey q) st = Inr (Some d)"
    using find_keyed [of d "gv_deployments st" gd_ContextKey] assms(1) by (simp add: find_deployment_def up gov_inv_def)
  have approval: "bound_approval env q m v d st = Inr a"
    using find_keyed [OF e(4), of ga_ID ga_ID] assms(1) e by (simp add: bound_approval_def up gov_inv_def)
  obtain elapsed where "elapsed_evidence env q m d st = Inr elapsed" using watched_elapsed [OF assms(2) e(12)] by blast
  then have "transition_body env who q m v st = record_transition env who q m (gd_State d) (Some a) elapsed st"
    by (simp add: transition_body_def up replay found approval e(2,3,11) Let_def)
  then show thesis by (rule that)
qed

lemma write_settings_up:
  assumes "db_up env"
  shows "\<exists>st'. write_settings env kvs st = Inr st' \<and> gv_settings st' = foldl (\<lambda>m (k, v). AList.update k v m) (gv_settings st) kvs"
proof (induction kvs arbitrary: st)
  case (Cons kv kvs)
  obtain k v where kv: "kv = (k, v)" by (cases kv)
  show ?case using Cons.IH [of "st\<lparr>gv_settings := AList.update k v (gv_settings st)\<rparr>"] by (simp add: kv up_simps [OF assms])
qed simp

lemma record_transition_up:
  assumes "conforms W env" and "db_up env" and "pc_id who \<noteq> ''''" and "complete_transition q"
    and "evidenceDigest env (tq_EvidenceID q) = Inr evidence" and "target_policy env m (tq_TargetState q) = Inr policy"
    and t: "t = new_transition env who q from approval elapsed evidence policy" and free: "transition_violation st t = None"
  obtains st' where "record_transition env who q m from approval elapsed st = Inr (t, st')"
    and "sp_Model (em_Spec m) \<noteq> None \<Longrightarrow> tq_TargetState q \<noteq> ''research'' \<Longrightarrow>
           map_of (gv_settings st') ''model_rollout_state'' = Some (tq_TargetState q)"
proof -
  note up = up_simps [OF assms(2)]
  have "evidence \<noteq> ''''" using assms(1,5) by (auto simp: evidenceDigest_def conforms_def)
  then have defaults: "transition_defaults t = t"
    by (intro transition_defaults_same)
      (use assms(3,4) policy_digest_nonempty [OF assms(1,6)] in \<open>simp_all add: t new_transition_def complete_transition_def\<close>)
  have stored: "stored_transition env t = t" by (rule stored_transition_same [OF assms(1)]) (simp add: t new_transition_def)
  let ?st1 = "st\<lparr>gv_transitions := gv_transitions st @ [t]\<rparr>"
  let ?d = "new_deployment env q policy (gt_ID t)"
  have tid: "gt_ID t \<noteq> ''''" using free by (auto simp: transition_violation_def split: if_splits)
  then have guard: "deployment_violation ?st1 (gt_ID t) ?d = None"
    using assms(4) by (simp add: deployment_violation_def new_deployment_def Let_def with_default_def t new_transition_def
      complete_transition_def)
  obtain st2 where st2: "upsert_deployment env (gt_ID t) ?d ?st1 = Inr st2" by (simp add: upsert_deployment_def guard up)
  obtain st3 where st3: "writeModelAuthorityProjection env (tq_ArtifactVersion q) (tq_TargetState q) st2 = Inr st3"
    "gv_settings st3 = foldl (\<lambda>m (k, v). AList.update k v m) (gv_settings st2)
       [(''active_model_version'', tq_ArtifactVersion q), (''model_rollout_state'', tq_TargetState q)]"
    using write_settings_up [OF assms(2)] unfolding writeModelAuthorityProjection_def by blast
  let ?st' = "if sp_Model (em_Spec m) \<noteq> None \<and> tq_TargetState q \<noteq> ''research'' then st3 else st2"
  have "record_transition env who q m from approval elapsed st = Inr (t, ?st')"
    unfolding record_transition_def assms(5,6) t [symmetric] and_then_simps Let_def defaults insert_transition_def free stored
    by (simp add: up set_guard_def st2 st3(1))
  then show thesis by (rule that) (simp add: st3(2) update_conv)
qed

text \<open>C33: A promotion that is due goes through: with the database up, an authorised and complete request for the next rung, on passed
  evidence, with an intact approval bound to it and the monitoring its manifest asks for, moves the deployment to the target state
  under the caller's name, and a model's projected rollout state with it.\<close>

theorem due_promotion_goes_through:
  assumes "gov_inv W st" and "conforms W env" and "db_up env" and "entitled env who q m v d a evidence policy st"
    and "tq_IdempotencyKey q \<notin> gt_IdempotencyKey ` set (gv_transitions st)"
    and "\<And>elapsed. transition_violation st (new_transition env who q (gd_State d) (Some a) elapsed evidence policy) = None"
  shows "\<exists>t st' d'. Transition env who q st = (Inr t, st') \<and> gt_FromState t = gd_State d \<and> gt_ToState t = tq_TargetState q \<and>
    gt_Actor t = pc_id who \<and> the_deployment (tq_ContextKey q) st' = Some d' \<and> gd_State d' = tq_TargetState q \<and>
    (sp_Model (em_Spec m) \<noteq> None \<longrightarrow> map_of (gv_settings st') ''model_rollout_state'' = Some (tq_TargetState q))"
proof -
  have e: "principal_Has who ''transition''" "pc_id who \<noteq> ''''" "complete_transition q" "tq_TargetState q \<noteq> ''rollback''"
    "boundEvidence env (tq_ExperimentID q) (tq_EvidenceID q) = Inr (m, v)" "evidence_passed v" "verifyMLEvidence env m v = None"
    "tq_ArtifactVersion q = expected_artifact m" "tq_PolicyVersion q = pb_Composite (sp_Policies (em_Spec m))"
    "tq_ContextKey q = authorityContext m" "evidenceDigest env (tq_EvidenceID q) = Inr evidence"
    "target_policy env m (tq_TargetState q) = Inr policy" "legal (gd_State d) (tq_TargetState q)" "gd_State d \<noteq> ''''"
    using assms(4) unfolding entitled_def by blast+
  obtain elapsed where body: "transition_body env who q m v st = record_transition env who q m (gd_State d) (Some a) elapsed st"
    by (rule entitled_body [OF assms(1,3,4,5)])
  let ?t = "new_transition env who q (gd_State d) (Some a) elapsed evidence policy"
  have target: "tq_TargetState q \<noteq> ''research''"
    using e(13,14) by (auto simp: legal_def next_state_def str_at_def split: if_splits)
  obtain st' where run: "record_transition env who q m (gd_State d) (Some a) elapsed st = Inr (?t, st')"
    and projected: "sp_Model (em_Spec m) \<noteq> None \<longrightarrow> map_of (gv_settings st') ''model_rollout_state'' = Some (tq_TargetState q)"
    by (rule record_transition_up [OF assms(2,3) e(2,3,11,12) refl assms(6)]) (use target in blast)
  have "promotable env q m v = None" by (simp add: promotable_def matchVersions_def e(6-10))
  then have "Transition env who q st = (Inr ?t, st')"
    using e(1-5) by (simp add: Transition_def require_capability_None [THEN iffD2] up_simps [OF assms(3)] body run)
  moreover obtain policy' where "gv_deployments st' = put_deployment (new_deployment env q policy' (gt_ID ?t)) (gv_deployments st)"
    by (rule record_transition_Inr [OF assms(2) run e(2,3)])
  then have "the_deployment (tq_ContextKey q) st' = Some (new_deployment env q policy' (gt_ID ?t))"
    unfolding the_deployment_def by (simp only: put_deployment_find) (simp add: new_deployment_def Let_def)
  moreover have "gd_State (new_deployment env q policy' (gt_ID ?t)) = tq_TargetState q" by (simp add: new_deployment_def Let_def)
  moreover have "gt_FromState ?t = gd_State d" "gt_ToState ?t = tq_TargetState q" "gt_Actor ?t = pc_id who"
    by (simp_all add: new_transition_def)
  ultimately show ?thesis using projected by blast
qed

section \<open>The sample run\<close>

lemma run_steps:
  "Transition (govern_env now) who q1 st = (r1, st') \<Longrightarrow> gov_step govern_world st st'"
  "Approve (govern_env now) who q2 st = (r2, st') \<Longrightarrow> gov_step govern_world st st'"
  "Rollback (govern_env now) who q3 st = (r1, st') \<Longrightarrow> gov_step govern_world st st'"
  "RecordMonitoringEvidence (govern_env now) who q4 st = (r4, st') \<Longrightarrow> gov_step govern_world st st'"
  using gov_step.intros [OF govern_conforms] by (metis snd_conv)+

lemma sample_run:
  "rtranclp (gov_step govern_world) ungoverned_sample paper_approved" "gov_step govern_world paper_approved paper_sample"
  "rtranclp (gov_step govern_world) paper_sample withdrawn_sample"
  using run_steps(1) [OF research_reached] run_steps(2) [OF shadow_approval] run_steps(1) [OF shadow_reached]
    run_steps(4) [OF watch_reached] run_steps(2) [OF paper_approval] run_steps(1) [OF paper_reached] run_steps(4) [OF paper_watch]
    run_steps(3) [OF withdrawn_reached]
  by (meson converse_rtranclp_into_rtranclp rtranclp.rtrancl_refl)+

lemma sample_runs:
  "rtranclp (gov_step govern_world) ungoverned_sample paper_sample" "rtranclp (gov_step govern_world) ungoverned_sample withdrawn_sample"
  using sample_run by (meson rtranclp.rtrancl_into_rtrancl rtranclp_trans)+

lemma sample_start: "ungoverned ungoverned_sample"
  by (simp add: ungoverned_def ungoverned_sample_def)

lemma paper_inv: "gov_inv govern_world paper_approved"
  by (rule reached_inv [OF sample_start sample_run(1)])

lemma sample_rows_filed:
  "moved_row 70000 ''p'' ''shadow'' ''paper'' (Some (padded ''b'')) (Some (padded ''s'')) \<in> set (gv_transitions paper_sample)"
  "withdrawn_row \<in> set (gv_transitions withdrawn_sample)" "gt_ToState withdrawn_row = ''rollback''"
  "the_deployment context_sample paper_sample = Some (deployed_row 70000 ''p'' ''paper'')"
  "gd_State (deployed_row 70000 ''p'' ''paper'') = ''paper''"
  by (simp_all add: paper_sample_def withdrawn_sample_def withdrawn_row_def the_deployment_def deployed_row_def)

lemma rollout_follows_ladder_witness:
  "\<exists>n \<le> 5. map gt_ToState (path context_sample withdrawn_sample) = take n ladder \<or>
     0 < n \<and> map gt_ToState (path context_sample withdrawn_sample) = take n ladder @ [''rollback'']"
  using rollout_follows_ladder [OF sample_start sample_runs(2), of context_sample] by blast

lemma capital_state_is_earned_witness:
  "\<exists>n m. 3 \<le> n \<and> n \<le> 5 \<and> map gt_ToState (path context_sample paper_sample) = take n ladder \<and>
     gw_manifest govern_world (gd_ExperimentID (deployed_row 70000 ''p'' ''paper'')) = Some m"
  using capital_state_is_earned [OF sample_start sample_runs(1) sample_rows_filed(4)] sample_rows_filed(5)
  by (auto simp: capital_state_def)

lemma rollback_is_triggered_witness: "withdrawn govern_world withdrawn_sample withdrawn_row"
  by (rule rollback_is_triggered [OF sample_start sample_runs(2) sample_rows_filed(2,3)])

lemma approval_promotes_once_witness:
  "moved_row 70000 ''p'' ''shadow'' ''paper'' (Some (padded ''b'')) (Some (padded ''s'')) = last (gv_transitions paper_sample)"
proof (rule approval_promotes_once [OF sample_start sample_runs(1) sample_rows_filed(1)])
qed (simp_all add: paper_sample_def moved_row_def)

lemma transition_happens_once_witness:
  "snd (Transition (govern_env 99000) operator_sample (request_sample ''p'' ''paper'' (padded ''b'') (padded ''s'')) withdrawn_sample) =
     withdrawn_sample \<and> grows paper_approved withdrawn_sample"
  using transition_happens_once [OF paper_inv govern_conforms paper_reached sample_run(3) govern_conforms paper_replayed]
  by (simp add: paper_replayed)

lemma unauthorized_changes_nothing_witness:
  "\<exists>e. Transition (govern_env 10000) zero_Principal (request_sample ''r'' ''research'' '''' '''') ungoverned_sample = (Inl e, ungoverned_sample)"
proof -
  have "\<not> principal_Has zero_Principal ''transition''" by (simp add: principal_Has_def zero_Principal_def)
  then show ?thesis using unauthorized_changes_nothing by blast
qed

lemma paper_entitled:
  "entitled (govern_env 70000) operator_sample (request_sample ''p'' ''paper'' (padded ''b'') (padded ''s'')) sealed_sample passed_sample
     (deployed_row 30000 ''s'' ''shadow'') (approved_row 60000 ''b'' ''paper'' ''shadow'' 30000) hex64 (policy_sample ''paper'') paper_approved"
proof -
  have watched: "watched (govern_env 70000) (request_sample ''p'' ''paper'' (padded ''b'') (padded ''s'')) sealed_sample
      (deployed_row 30000 ''s'' ''shadow'') paper_approved"
    using sample_checks(6)
    by (simp add: watched_def request_sample_def sample_states sample_rows padded_facts intact_rows elapsed_ok_def service_now_def
      time_sub_def)
  show ?thesis
    using sample_checks policy_answers [of "''paper''"] watched
    by (simp add: entitled_def request_sample_def complete_transition_def promotable_def knownState_def sample_states sample_rows
      padded_facts intact_rows approval_binds_def passed_sample_def service_now_def quarantine_def the_deployment_def
      evidence_passed_def matchVersions_def failure_def split: if_splits)
qed

lemma due_promotion_goes_through_witness:
  "\<exists>t st' d'. Transition (govern_env 70000) operator_sample (request_sample ''p'' ''paper'' (padded ''b'') (padded ''s'')) paper_approved =
     (Inr t, st') \<and> the_deployment context_sample st' = Some d' \<and> gd_State d' = ''paper''"
proof -
  have "transition_violation paper_approved (new_transition (govern_env 70000) operator_sample
      (request_sample ''p'' ''paper'' (padded ''b'') (padded ''s'')) (gd_State (deployed_row 30000 ''s'' ''shadow''))
      (Some (approved_row 60000 ''b'' ''paper'' ''shadow'' 30000)) elapsed hex64 (policy_sample ''paper'')) = None" for elapsed
    by (simp add: transition_violation_def new_transition_def sealed_rows request_sample_def sample_states sample_rows knownState_def
      padded_facts)
  moreover have "tq_IdempotencyKey (request_sample ''p'' ''paper'' (padded ''b'') (padded ''s'')) \<notin>
      gt_IdempotencyKey ` set (gv_transitions paper_approved)"
    by (simp add: request_sample_def sample_states sample_rows)
  ultimately show ?thesis
    using due_promotion_goes_through [OF paper_inv govern_conforms govern_up paper_entitled] by (fastforce simp: request_sample_def)
qed

end
