(* ===== verification/Registry.thy ===== *)
theory Registry
  imports Governance Cutover
begin

text \<open>
  \<^verbatim>\<open>internal/validation/repository.go\<close>, registering: the immutable experiments and the research controls around them. An
  experiment is registered together with its attempt in the family of its hypothesis, and a confirmatory one locks the
  family's holdout and uses it up. \<open>research\<close> holds the tables; the checks, unique keys and foreign keys are those of
  \<^verbatim>\<open>database/models.go\<close> and \<^verbatim>\<open>migrations.go\<close>. PostgreSQL's failures, JSON, time columns and the Stage 08 flags are
  functions of \<open>repo_env\<close>.
\<close>

section \<open>Rows\<close>

record ValidationExperiment =
  ex_ID :: string
  ex_ContentID :: string
  ex_SchemaVersion :: string
  ex_ContentJSON :: string
  ex_ContentDigest :: string
  ex_CreatedAt :: time
  ex_BacktestJobID :: "uint option"
  ex_ComparisonDigest :: "string option"
  ex_AuthorityPolicyDigest :: string
  ex_Stage08ContextJSON :: string
  ex_CreatedBy :: string
  ex_IdempotencyKey :: "string option"

record ResearchExperimentFamily =
  rf_ID :: string
  rf_ContentJSON :: string
  rf_ContentDigest :: string
  rf_CreatedAt :: time

record ResearchExperimentAttempt =
  at_ID :: string
  at_FamilyID :: string
  at_ExperimentID :: string
  at_CandidateDigest :: string
  at_ContentDigest :: string
  at_CreatedAt :: time

record ResearchAttemptOutcome =
  oc_ID :: string
  oc_AttemptID :: string
  oc_ExperimentID :: string
  oc_EvidenceID :: string
  oc_Status :: string
  oc_ContentDigest :: string
  oc_CreatedAt :: time

record ResearchConfirmatoryHoldout =
  ho_ID :: string
  ho_FamilyID :: string
  ho_DatasetDigest :: string
  ho_StartAt :: time
  ho_EndAt :: time
  ho_ContentDigest :: string
  ho_LockedAt :: time

record ResearchConfirmatoryHoldoutUse =
  hu_ID :: string
  hu_HoldoutID :: string
  hu_ExperimentID :: string
  hu_CreatedAt :: time

record ValidationFoldEvidence =
  fe_ExperimentID :: string
  fe_FoldIndex :: int
  fe_SchemaVersion :: string
  fe_Status :: string
  fe_FrozenDigest :: string
  fe_EvidenceJSON :: string
  fe_EvidenceDigest :: string
  fe_CreatedAt :: time

record ValidationEvidence =
  ve_ID :: string
  ve_ExperimentID :: string
  ve_SchemaVersion :: string
  ve_Status :: string
  ve_EvidenceJSON :: string
  ve_EvidenceDigest :: string
  ve_CreatedAt :: time

record research =
  rs_experiments :: "ValidationExperiment list"
  rs_families :: "ResearchExperimentFamily list"
  rs_attempts :: "ResearchExperimentAttempt list"
  rs_holdouts :: "ResearchConfirmatoryHoldout list"
  rs_uses :: "ResearchConfirmatoryHoldoutUse list"
  rs_folds :: "ValidationFoldEvidence list"
  rs_evidences :: "ValidationEvidence list"
  rs_outcomes :: "ResearchAttemptOutcome list"

section \<open>Statements\<close>

record repo_env =
  re_study :: study_env
  re_connected :: bool
  re_db :: "db_call \<Rightarrow> research \<Rightarrow> ledger_error option"
  re_active :: active_state
  re_timestamp :: "time \<Rightarrow> time"
  re_jsonb :: "string \<Rightarrow> string"
  re_UnmarshalSpec :: "string \<Rightarrow> string + ManifestSpec"

definition rp_exec :: "repo_env \<Rightarrow> db_call \<Rightarrow> research \<Rightarrow> unit sresult" where
  "rp_exec env call st = checked (map_option StudyError (re_db env call st)) ()"

definition rp_first ::
  "repo_env \<Rightarrow> string \<Rightarrow> ('r \<Rightarrow> string) \<Rightarrow> ('r \<Rightarrow> bool) \<Rightarrow> 'r list \<Rightarrow> research \<Rightarrow> 'r option sresult" where
  "rp_first env table key P rows st = and_then (rp_exec env (ReadCall table) st) (\<lambda>_. Inr (find P (sort_key key rows)))"

text \<open>\<^verbatim>\<open>First\<close> with a missing row as an error.\<close>

definition rp_require ::
  "repo_env \<Rightarrow> string \<Rightarrow> ('r \<Rightarrow> string) \<Rightarrow> ('r \<Rightarrow> bool) \<Rightarrow> 'r list \<Rightarrow> research \<Rightarrow> 'r sresult" where
  "rp_require env table key P rows st =
     and_then (rp_first env table key P rows st)
       (\<lambda>found. case found of None \<Rightarrow> Inl (StudyError RecordNotFound) | Some r \<Rightarrow> Inr r)"

text \<open>An insert with \<^verbatim>\<open>ON CONFLICT DO NOTHING\<close>: whether a row was written. Checks come before the conflict, other unique
  keys and foreign keys after it.\<close>

definition rp_insert ::
  "repo_env \<Rightarrow> string \<Rightarrow> bool \<Rightarrow> bool \<Rightarrow> ledger_error option \<Rightarrow> research \<Rightarrow> research \<Rightarrow> (bool \<times> research) sresult" where
  "rp_insert env table invalid_row conflict violation st' st =
     and_then (rp_exec env (WriteCall table) st) (\<lambda>_.
       if invalid_row then Inl (StudyError (PgError ''23514'' (table @ ''_check'')))
       else if conflict then Inr (False, st)
       else checked (map_option StudyError violation) (True, st'))"

definition foreign_key :: "string \<Rightarrow> bool \<Rightarrow> ledger_error option" where
  "foreign_key name present = (if present then None else Some (PgError ''23503'' name))"

definition rp_transaction ::
  "repo_env \<Rightarrow> (research \<Rightarrow> ('a \<times> research) sresult) \<Rightarrow> research \<Rightarrow> 'a sresult \<times> research" where
  "rp_transaction env body st =
     (case body st of
        Inl e \<Rightarrow> (Inl e, st)
      | Inr (x, st') \<Rightarrow> (case re_db env CommitCall st' of Some e \<Rightarrow> (Inl (StudyError e), st) | None \<Rightarrow> (Inr x, st')))"

definition MaxEvidenceBytes :: nat where "MaxEvidenceBytes = 2097152"

definition integrity :: "string \<Rightarrow> string \<Rightarrow> study_error" where
  "integrity fieldName details = DiagnosticError ''manifest_integrity_failure'' fieldName details"

section \<open>Loading\<close>

text \<open>Verifying sorts the gates and the tuning choices in place: a specification is passed by value, its slices and maps are shared.\<close>

definition verified_in_place :: "study_env \<Rightarrow> ManifestSpec \<Rightarrow> ManifestSpec" where
  "verified_in_place w spec =
     (case CanonicalManifestSpec w spec of
        Inl _ \<Rightarrow> spec
      | Inr (_, canonical) \<Rightarrow> spec\<lparr>sp_PromotionThresholds := sp_PromotionThresholds canonical,
          sp_RollbackThresholds := sp_RollbackThresholds canonical, sp_AllowedTuning := sp_AllowedTuning canonical\<rparr>)"

definition decoded_manifest :: "repo_env \<Rightarrow> ValidationExperiment \<Rightarrow> ExperimentManifest sresult" where
  "decoded_manifest env row =
     (if MaxEvidenceBytes < length (ex_ContentJSON row) then Inl (integrity '''' ''manifest exceeds bounded load size'')
      else case re_UnmarshalSpec env (ex_ContentJSON row) of
        Inl details \<Rightarrow> Inl (integrity '''' details)
      | Inr spec \<Rightarrow>
          let m = \<lparr>em_ID = ex_ID row, em_ContentID = ex_ContentID row, em_ContentDigest = ex_ContentDigest row,
                   em_CreatedAt = ex_CreatedAt row, em_Spec = spec\<rparr>
          in and_then (checked (manifest_Verify (re_study env) m) ()) (\<lambda>_.
             if ex_AuthorityPolicyDigest row \<noteq> ap_Digest (sp_AuthorityPolicy spec)
             then Inl (integrity '''' ''stored authority policy digest mismatch'')
             else Inr (m\<lparr>em_Spec := verified_in_place (re_study env) spec\<rparr>)))"

definition LoadManifest :: "repo_env \<Rightarrow> string \<Rightarrow> research \<Rightarrow> ExperimentManifest sresult" where
  "LoadManifest env i st =
     and_then (rp_require env ''validation_experiments'' ex_ID (\<lambda>x. ex_ID x = i) (rs_experiments st) st) (decoded_manifest env)"

section \<open>Attempts and holdouts\<close>

definition family_scope :: "study_env \<Rightarrow> ManifestSpec \<Rightarrow> string result" where
  "family_scope w spec = cd_Marshal (se_codec w) (JObject
     [(''candidate'', JString (vr_ID (sp_Candidate spec))),
      (''implementation'', JString (vr_ImplementationDigest (sp_Candidate spec))),
      (''dataset'', JString (sp_DatasetDigest spec)), (''policy'', JString (pb_Composite (sp_Policies spec)))])"

definition newline :: string where "newline = [CHR 0x0A]"

definition register_family :: "repo_env \<Rightarrow> ExperimentManifest \<Rightarrow> research \<Rightarrow> research sresult" where
  "register_family env m st =
     (let w = re_study env; spec = em_Spec m in
      and_then (case family_scope w spec of Inl e \<Rightarrow> Inl (StudyError (PlainError e)) | Inr scope \<Rightarrow> Inr scope) (\<lambda>scope.
      let family = \<lparr>rf_ID = sp_FamilyID spec, rf_ContentJSON = re_jsonb env scope, rf_ContentDigest = digest w scope,
                    rf_CreatedAt = re_timestamp env (em_CreatedAt m)\<rparr> in
      and_then (rp_insert env ''research_experiment_families'' False (rf_ID family \<in> rf_ID ` set (rs_families st)) None
                 (st\<lparr>rs_families := rs_families st @ [family]\<rparr>) st) (\<lambda>(created, st').
        if created then Inr st'
        else and_then (rp_require env ''research_experiment_families'' rf_ID (\<lambda>f. rf_ID f = rf_ID family) (rs_families st') st')
          (\<lambda>existing. if rf_ContentDigest existing \<noteq> digest w scope then Inl (integrity '''' ''research family scope differs'')
                      else Inr st'))))"

definition version_json :: "VersionRef \<Rightarrow> json" where
  "version_json v = JObject [(''id'', JString (vr_ID v)), (''version'', JString (vr_Version v)),
     (''implementation_digest'', JString (vr_ImplementationDigest v)), (''config_digest'', JString (vr_ConfigDigest v))]"

definition new_attempt :: "repo_env \<Rightarrow> ExperimentManifest \<Rightarrow> ResearchExperimentAttempt" where
  "new_attempt env m =
     (let w = re_study env; spec = em_Spec m in
      \<lparr>at_ID = digest w (sp_FamilyID spec @ newline @ em_ID m), at_FamilyID = sp_FamilyID spec, at_ExperimentID = em_ID m,
       at_CandidateDigest = digest w (encoded w (version_json (sp_Candidate spec))), at_ContentDigest = em_ContentDigest m,
       at_CreatedAt = re_timestamp env (em_CreatedAt m)\<rparr>)"

definition register_attempt :: "repo_env \<Rightarrow> ExperimentManifest \<Rightarrow> research \<Rightarrow> research sresult" where
  "register_attempt env m st =
     (let a = new_attempt env m in
      and_then (rp_insert env ''research_experiment_attempts'' False
                 (list_ex (\<lambda>b. at_ID b = at_ID a \<or> at_FamilyID b = at_FamilyID a \<and> at_ExperimentID b = at_ExperimentID a)
                   (rs_attempts st))
                 (first_failure [foreign_key ''fk_research_attempt_family'' (at_FamilyID a \<in> rf_ID ` set (rs_families st)),
                    foreign_key ''fk_research_attempt_experiment'' (at_ExperimentID a \<in> ex_ID ` set (rs_experiments st))])
                 (st\<lparr>rs_attempts := rs_attempts st @ [a]\<rparr>) st) (\<lambda>(created, st').
        if created then Inr st'
        else and_then (rp_require env ''research_experiment_attempts'' at_ID (\<lambda>b. at_ExperimentID b = em_ID m) (rs_attempts st') st')
          (\<lambda>existing. if at_ID existing \<noteq> at_ID a \<or> at_FamilyID existing \<noteq> at_FamilyID a
                         \<or> at_ContentDigest existing \<noteq> at_ContentDigest a
                      then Inl (integrity '''' ''attempt identity differs on retry'') else Inr st')))"

definition new_holdout :: "repo_env \<Rightarrow> ExperimentManifest \<Rightarrow> ConfirmatoryHoldoutContract \<Rightarrow> ResearchConfirmatoryHoldout" where
  "new_holdout env m h =
     \<lparr>ho_ID = ch_ID h, ho_FamilyID = sp_FamilyID (em_Spec m), ho_DatasetDigest = ch_DatasetDigest h,
      ho_StartAt = re_timestamp env (iv_Start (ch_Interval h)), ho_EndAt = re_timestamp env (iv_End (ch_Interval h)),
      ho_ContentDigest = ch_ID h, ho_LockedAt = re_timestamp env (em_CreatedAt m)\<rparr>"

definition reuse :: "string \<Rightarrow> study_error" where
  "reuse details = DiagnosticError ''confirmatory_holdout_reused'' '''' details"

definition lock_holdout :: "repo_env \<Rightarrow> ExperimentManifest \<Rightarrow> ConfirmatoryHoldoutContract \<Rightarrow> research \<Rightarrow> research sresult" where
  "lock_holdout env m h st =
     (let x = new_holdout env m h in
      and_then (rp_insert env ''research_confirmatory_holdouts''
                 (\<not> ho_StartAt x < ho_EndAt x \<or> length (ho_ID x) \<noteq> 64 \<or> length (ho_ContentDigest x) \<noteq> 64)
                 (list_ex (\<lambda>y. ho_ID y = ho_ID x \<or> ho_FamilyID y = ho_FamilyID x) (rs_holdouts st))
                 (foreign_key ''fk_research_holdout_family'' (ho_FamilyID x \<in> rf_ID ` set (rs_families st)))
                 (st\<lparr>rs_holdouts := rs_holdouts st @ [x]\<rparr>) st) (\<lambda>(created, st').
        if created then Inr st'
        else and_then (rp_require env ''research_confirmatory_holdouts'' ho_ID (\<lambda>y. ho_FamilyID y = ho_FamilyID x) (rs_holdouts st') st')
          (\<lambda>existing. if ho_ID existing \<noteq> ho_ID x \<or> ho_DatasetDigest existing \<noteq> ho_DatasetDigest x
                         \<or> ho_StartAt existing \<noteq> iv_Start (ch_Interval h) \<or> ho_EndAt existing \<noteq> iv_End (ch_Interval h)
                      then Inl (reuse ''family has a different locked confirmatory holdout'') else Inr st')))"

definition new_use :: "repo_env \<Rightarrow> ExperimentManifest \<Rightarrow> ConfirmatoryHoldoutContract \<Rightarrow> ResearchConfirmatoryHoldoutUse" where
  "new_use env m h =
     \<lparr>hu_ID = digest (re_study env) (ch_ID h @ newline @ em_ID m), hu_HoldoutID = ch_ID h, hu_ExperimentID = em_ID m,
      hu_CreatedAt = re_timestamp env (em_CreatedAt m)\<rparr>"

definition use_holdout :: "repo_env \<Rightarrow> ExperimentManifest \<Rightarrow> ConfirmatoryHoldoutContract \<Rightarrow> research \<Rightarrow> research sresult" where
  "use_holdout env m h st =
     (let u = new_use env m h in
      and_then (rp_insert env ''research_confirmatory_holdout_uses'' False
                 (list_ex (\<lambda>v. hu_ID v = hu_ID u \<or> hu_HoldoutID v = hu_HoldoutID u \<or> hu_ExperimentID v = hu_ExperimentID u) (rs_uses st))
                 (first_failure [foreign_key ''fk_research_holdout_use_holdout'' (hu_HoldoutID u \<in> ho_ID ` set (rs_holdouts st)),
                    foreign_key ''fk_research_holdout_use_experiment'' (hu_ExperimentID u \<in> ex_ID ` set (rs_experiments st))])
                 (st\<lparr>rs_uses := rs_uses st @ [u]\<rparr>) st) (\<lambda>(created, st').
        if created then Inr st'
        else and_then (rp_require env ''research_confirmatory_holdout_uses'' hu_ID (\<lambda>v. hu_HoldoutID v = ch_ID h) (rs_uses st') st')
          (\<lambda>existing. if hu_ExperimentID existing \<noteq> em_ID m
                      then Inl (reuse ''locked confirmatory holdout has already been consumed'') else Inr st')))"

text \<open>A confirmatory specification has a holdout: the manifest was verified. Without one the code would panic.\<close>

definition registerResearchAttempt :: "repo_env \<Rightarrow> ExperimentManifest \<Rightarrow> research \<Rightarrow> research sresult" where
  "registerResearchAttempt env m st =
     and_then (register_family env m st) (\<lambda>st.
     and_then (register_attempt env m st) (\<lambda>st.
       if sp_StudyType (em_Spec m) \<noteq> ''confirmatory'' then Inr st
       else case sp_ConfirmatoryHoldout (em_Spec m) of
         None \<Rightarrow> Inl (StudyError (PlainError (Panic ''nil pointer dereference'')))
       | Some h \<Rightarrow> and_then (lock_holdout env m h st) (use_holdout env m h)))"

section \<open>Registering\<close>

definition Stage08ObservationContext :: "repo_env \<Rightarrow> Flags \<Rightarrow> ExperimentManifest \<Rightarrow> string" where
  "Stage08ObservationContext env flags m =
     (let spec = em_Spec m in
      ObservationContext (se_codec (re_study env)) (re_active env) flags ''stage07_validation''
        [(''strategy'', vr_ID (sp_Candidate spec) @ ''@'' @ vr_Version (sp_Candidate spec)),
         (''model'', case sp_Model spec of None \<Rightarrow> ''none'' | Some model \<Rightarrow> mo_Version model),
         (''policy'', pb_Composite (sp_Policies spec)), (''dataset'', sp_DatasetManifestID spec),
         (''universe'', sp_UniversePolicy spec)])"

definition new_experiment ::
  "repo_env \<Rightarrow> ExperimentManifest \<Rightarrow> string \<Rightarrow> uint option \<Rightarrow> string option \<Rightarrow> string \<Rightarrow> string option \<Rightarrow> ValidationExperiment" where
  "new_experiment env m content jobID comparison creator key =
     (let (flags, active) = Active (re_active env) in
     \<lparr>ex_ID = em_ID m, ex_ContentID = em_ContentID m, ex_SchemaVersion = sp_SchemaVersion (em_Spec m),
      ex_ContentJSON = re_jsonb env content, ex_ContentDigest = em_ContentDigest m, ex_CreatedAt = re_timestamp env (em_CreatedAt m),
      ex_BacktestJobID = jobID, ex_ComparisonDigest = comparison, ex_AuthorityPolicyDigest = with_default (ap_Digest (sp_AuthorityPolicy (em_Spec m))) (replicate 64 zero_char),
      ex_Stage08ContextJSON = re_jsonb env (if active then Stage08ObservationContext env flags m else ''{}''),
      ex_CreatedBy = creator, ex_IdempotencyKey = key\<rparr>)"

text \<open>The row, unless the identity is there; then the attempt, in the same transaction.\<close>

definition insert_experiment ::
  "repo_env \<Rightarrow> ExperimentManifest \<Rightarrow> ValidationExperiment \<Rightarrow> research \<Rightarrow> (string \<times> research) sresult" where
  "insert_experiment env m row st =
     and_then (rp_insert env ''validation_experiments''
                (length (ex_ID row) \<noteq> 64 \<or> length (ex_ContentID row) \<noteq> 64 \<or> length (ex_ContentDigest row) \<noteq> 64
                  \<or> ex_ContentID row \<noteq> ex_ContentDigest row)
                (ex_ID row \<in> ex_ID ` set (rs_experiments st))
                (if ex_IdempotencyKey row \<noteq> None \<and> ex_IdempotencyKey row \<in> ex_IdempotencyKey ` set (rs_experiments st)
                 then Some (unique_violation ''idx_validation_experiments_idempotency_key'') else None)
                (st\<lparr>rs_experiments := rs_experiments st @ [row]\<rparr>) st) (\<lambda>(created, st').
       if created then and_then (registerResearchAttempt env m st') (\<lambda>st''. Inr (ex_ID row, st'')) else Inr (ex_ID row, st'))"

definition create_body ::
  "repo_env \<Rightarrow> ExperimentManifest \<Rightarrow> ValidationExperiment \<Rightarrow> research \<Rightarrow> (string \<times> research) sresult" where
  "create_body env m row st =
     (case ex_IdempotencyKey row of
        None \<Rightarrow> insert_experiment env m row st
      | Some key \<Rightarrow>
          and_then (rp_exec env (ExecCall ''SELECT pg_advisory_xact_lock(hashtextextended(?,0))'') st) (\<lambda>_.
          and_then (rp_first env ''validation_experiments'' ex_ID (\<lambda>x. ex_IdempotencyKey x = Some key) (rs_experiments st) st) (\<lambda>found.
            case found of
              Some existing \<Rightarrow>
                if ex_ContentID existing \<noteq> em_ContentID m
                then Inl (integrity ''idempotency_key'' ''key reused for different semantic content'')
                else Inr (ex_ID existing, st)
            | None \<Rightarrow> insert_experiment env m row st)))"

definition CreateManifestAuthenticated ::
  "repo_env \<Rightarrow> ExperimentManifest \<Rightarrow> uint option \<Rightarrow> string option \<Rightarrow> string \<Rightarrow> string \<Rightarrow> research \<Rightarrow>
   ExperimentManifest sresult \<times> research" where
  "CreateManifestAuthenticated env m0 jobID comparison creator0 key0 st =
     (if \<not> re_connected env
      then (Inl (StudyError (PlainError (Errorf ''validation repository database is required'' []))), st)
      else case manifest_Verify (re_study env) m0 of Some e \<Rightarrow> (Inl e, st)
      | None \<Rightarrow>
     let m = m0\<lparr>em_Spec := verified_in_place (re_study env) (em_Spec m0)\<rparr> in
     case se_MarshalSpec (re_study env) (em_Spec m) of Inl e \<Rightarrow> (Inl (StudyError (PlainError e)), st)
      | Inr content \<Rightarrow>
     let creator = trim_space creator0; key = trim_space key0 in
     if creator = '''' then (Inl (DiagnosticError ''invalid_manifest'' ''creator'' ''''), st)
     else if key \<noteq> '''' \<and> (length key < 8 \<or> 120 < length key)
     then (Inl (DiagnosticError ''invalid_manifest'' ''idempotency_key'' ''''), st)
     else
       (case rp_transaction env (create_body env m
               (new_experiment env m content jobID comparison creator (if key = '''' then None else Some key))) st of
          (Inl e, st') \<Rightarrow> (Inl e, st')
        | (Inr i, st') \<Rightarrow> (LoadManifest env i st', st')))"

definition CreateManifest ::
  "repo_env \<Rightarrow> ExperimentManifest \<Rightarrow> uint option \<Rightarrow> string option \<Rightarrow> research \<Rightarrow> ExperimentManifest sresult \<times> research" where
  "CreateManifest env m jobID comparison st = CreateManifestAuthenticated env m jobID comparison ''system'' '''' st"

end
