(* ===== verification/Evidence.thy ===== *)
theory Evidence
  imports Registry
begin

text \<open>
  \<^verbatim>\<open>internal/validation/evidence_envelope.go\<close> and the rest of \<^verbatim>\<open>repository.go\<close>: the result of an experiment is checked
  against its manifest, cut into a compact root and one row per fold, written once with the outcome of the attempt, and
  hydrated again on loading. The numbers of a fold (\<^verbatim>\<open>primitives.go\<close>, \<^verbatim>\<open>evaluation.go\<close>) are JSON values here: the functions
  that derive and test them are fields of \<open>evidence_env\<close>, as are \<^verbatim>\<open>json.Unmarshal\<close> and the text of an error.
\<close>

section \<open>Results\<close>

record FrozenDecision =
  fd_FoldIndex :: int
  fd_Choice :: string
  fd_Parameters :: "(string, string) gomap"
  fd_FitDigest :: string
  fd_SelectionDigest :: string
  fd_ArtifactDigest :: string
  fd_TrainDigest :: string
  fd_ValidationDigest :: string
  fd_TestDigest :: string
  fd_DataDigest :: string
  fd_SelectionRationale :: string

text \<open>The primitives and the metrics of a fold as the values they are marshalled to.\<close>

record FoldResult =
  fr_Fold :: Fold
  fr_Frozen :: FrozenDecision
  fr_Primitives :: json
  fr_Metrics :: json
  fr_WorstRegime :: string
  fr_WorstSymbol :: string

text \<open>The members of the evaluation before its last, and the last: whether its gates passed.\<close>

record Evaluation =
  ea_Members :: "(string \<times> json) list"
  ea_Passed :: bool

record ResearchResult =
  rr_SchemaVersion :: string
  rr_ExperimentID :: string
  rr_Folds :: "FoldResult list"
  rr_Aggregate :: Evaluation

definition some_member :: "string \<Rightarrow> string \<Rightarrow> (string \<times> json) list" where
  "some_member name v = (if v = '''' then [] else [(name, JString v)])"

definition frozen_json :: "FrozenDecision \<Rightarrow> json" where
  "frozen_json f = JObject
     ([(''fold_index'', JNumber (big_string (fd_FoldIndex f))), (''choice'', JString (fd_Choice f)),
       (''parameters'', string_map (fd_Parameters f)), (''fit_digest'', JString (fd_FitDigest f)),
       (''selection_digest'', JString (fd_SelectionDigest f)), (''artifact_digest'', JString (fd_ArtifactDigest f))]
      @ some_member ''train_digest'' (fd_TrainDigest f) @ some_member ''validation_digest'' (fd_ValidationDigest f)
      @ some_member ''test_digest'' (fd_TestDigest f) @ some_member ''data_digest'' (fd_DataDigest f)
      @ some_member ''selection_rationale'' (fd_SelectionRationale f))"

definition frozen_Digest :: "study_env \<Rightarrow> FrozenDecision \<Rightarrow> string result" where
  "frozen_Digest w f = (case cd_Marshal (se_codec w) (frozen_json f) of Inl e \<Rightarrow> Inl e | Inr b \<Rightarrow> Inr (digest w b))"

definition fold_json :: "study_env \<Rightarrow> Fold \<Rightarrow> json" where
  "fold_json w f = JObject
     [(''index'', JNumber (big_string (fo_Index f))), (''train'', interval_json w (fo_Train f)),
      (''validation'', interval_json w (fo_Validation f)), (''test'', interval_json w (fo_Test f))]"

definition fold_result_json :: "study_env \<Rightarrow> FoldResult \<Rightarrow> json" where
  "fold_result_json w f = JObject
     ([(''fold'', fold_json w (fr_Fold f)), (''frozen'', frozen_json (fr_Frozen f)), (''primitives'', fr_Primitives f),
       (''metrics'', fr_Metrics f)]
      @ some_member ''worst_regime'' (fr_WorstRegime f) @ some_member ''worst_symbol'' (fr_WorstSymbol f))"

definition evaluation_json :: "Evaluation \<Rightarrow> json" where
  "evaluation_json a = JObject (ea_Members a @ [(''passed'', JBool (ea_Passed a))])"

section \<open>The compact root\<close>

definition CompactEvidenceRootSchemaVersion :: string where
  "CompactEvidenceRootSchemaVersion = ''validation-evidence-root-v3''"

definition EvidenceSchemaVersion :: string where "EvidenceSchemaVersion = ''validation-evidence-v2''"

definition MaxFoldEvidenceBytes :: nat where "MaxFoldEvidenceBytes = 16777216"

definition MaxTotalFoldEvidenceBytes :: nat where "MaxTotalFoldEvidenceBytes = 67108864"

record foldEvidenceRef =
  er_FoldIndex :: int
  er_EvidenceDigest :: string
  er_FrozenDigest :: string

record compactEvidenceResult =
  cx_SchemaVersion :: string
  cx_ExperimentID :: string
  cx_Folds :: "foldEvidenceRef list"
  cx_Aggregate :: Evaluation

text \<open>The failure of a root is a diagnostic: its code, field and details.\<close>

record compactEvidenceRoot =
  co_SchemaVersion :: string
  co_ExperimentID :: string
  co_Status :: string
  co_Result :: "compactEvidenceResult option"
  co_Failure :: "(string \<times> string \<times> string) option"

record preparedFoldEvidence =
  pf_Ref :: foldEvidenceRef
  pf_Bytes :: string

record preparedEvidence =
  pp_RootBytes :: string
  pp_RootDigest :: string
  pp_ID :: string
  pp_Status :: string
  pp_Folds :: "preparedFoldEvidence list"

definition ref_json :: "foldEvidenceRef \<Rightarrow> json" where
  "ref_json r = JObject [(''fold_index'', JNumber (big_string (er_FoldIndex r))), (''evidence_digest'', JString (er_EvidenceDigest r)),
     (''frozen_digest'', JString (er_FrozenDigest r))]"

definition compact_json :: "compactEvidenceResult \<Rightarrow> json" where
  "compact_json r = JObject [(''schema_version'', JString (cx_SchemaVersion r)), (''experiment_id'', JString (cx_ExperimentID r)),
     (''folds'', JArray (map ref_json (cx_Folds r))), (''aggregate'', evaluation_json (cx_Aggregate r))]"

definition failure_json :: "string \<times> string \<times> string \<Rightarrow> json" where
  "failure_json f = (case f of (code, fieldName, details) \<Rightarrow>
     JObject ([(''code'', JString code)] @ some_member ''field'' fieldName @ some_member ''details'' details))"

definition optional_member :: "string \<Rightarrow> ('a \<Rightarrow> json) \<Rightarrow> 'a option \<Rightarrow> (string \<times> json) list" where
  "optional_member name f v = (case v of None \<Rightarrow> [] | Some x \<Rightarrow> [(name, f x)])"

definition root_json :: "compactEvidenceRoot \<Rightarrow> json" where
  "root_json r = JObject ([(''schema_version'', JString (co_SchemaVersion r)), (''experiment_id'', JString (co_ExperimentID r)),
       (''status'', JString (co_Status r))]
     @ optional_member ''result'' compact_json (co_Result r) @ optional_member ''failure'' failure_json (co_Failure r))"

text \<open>The envelope of the rows older than the compact root.\<close>

record legacyEvidence =
  le_SchemaVersion :: string
  le_ExperimentID :: string
  le_Status :: string
  le_Result :: "ResearchResult option"
  le_Failure :: "(string \<times> string \<times> string) option"

definition result_json :: "study_env \<Rightarrow> ResearchResult \<Rightarrow> json" where
  "result_json w r = JObject [(''schema_version'', JString (rr_SchemaVersion r)), (''experiment_id'', JString (rr_ExperimentID r)),
     (''folds'', JArray (map (fold_result_json w) (rr_Folds r))), (''aggregate'', evaluation_json (rr_Aggregate r))]"

definition legacy_json :: "study_env \<Rightarrow> legacyEvidence \<Rightarrow> json" where
  "legacy_json w r = JObject ([(''schema_version'', JString (le_SchemaVersion r)), (''experiment_id'', JString (le_ExperimentID r)),
       (''status'', JString (le_Status r))]
     @ optional_member ''result'' (result_json w) (le_Result r) @ optional_member ''failure'' failure_json (le_Failure r))"

section \<open>The environment\<close>

record evidence_env =
  ee_repo :: repo_env
  ee_DeriveFoldMetrics :: "json \<Rightarrow> json sresult"
  ee_ValidateFoldMetrics :: "json \<Rightarrow> SampleRequirements \<Rightarrow> study_error option"
  ee_Evaluate :: "FoldResult list \<Rightarrow> ManifestSpec \<Rightarrow> Evaluation sresult"
  ee_UnmarshalRoot :: "string \<Rightarrow> string + compactEvidenceRoot"
  ee_UnmarshalFold :: "string \<Rightarrow> string + FoldResult"
  ee_UnmarshalLegacy :: "string \<Rightarrow> string + legacyEvidence"
  ee_Error :: "study_error \<Rightarrow> string"

abbreviation ee_study :: "evidence_env \<Rightarrow> study_env" where
  "ee_study env \<equiv> re_study (ee_repo env)"

abbreviation marshal :: "evidence_env \<Rightarrow> json \<Rightarrow> string sresult" where
  "marshal env x \<equiv> (case cd_Marshal (se_codec (ee_study env)) x of Inl e \<Rightarrow> Inl (StudyError (PlainError e)) | Inr s \<Rightarrow> Inr s)"

text \<open>An error, or a rejected result: \<^verbatim>\<open>prewriteResultValidationError\<close> wraps the cause.\<close>

datatype evidence_error =
    EvidenceError study_error
  | ResultValidation study_error

type_synonym 'a eresult = "evidence_error + 'a"

definition plain :: "'a sresult \<Rightarrow> 'a eresult" where
  "plain m = (case m of Inl e \<Rightarrow> Inl (EvidenceError e) | Inr x \<Rightarrow> Inr x)"

definition prewrite :: "'a sresult \<Rightarrow> 'a eresult" where
  "prewrite m = (case m of Inl e \<Rightarrow> Inl (ResultValidation e) | Inr x \<Rightarrow> Inr x)"

definition error_cause :: "evidence_error \<Rightarrow> study_error" where
  "error_cause e = (case e of EvidenceError c \<Rightarrow> c | ResultValidation c \<Rightarrow> c)"

section \<open>Validation\<close>

definition fold_rejected :: "evidence_env \<Rightarrow> SampleRequirements \<Rightarrow> FoldResult \<times> Fold \<Rightarrow> study_error option" where
  "fold_rejected env samples x =
     (case x of (f, declared) \<Rightarrow>
        if fr_Fold f \<noteq> declared \<or> fd_FoldIndex (fr_Frozen f) \<noteq> fo_Index (fr_Fold f)
        then Some (integrity '''' ''fold identity or frozen decision mismatch'')
        else case ee_DeriveFoldMetrics env (fr_Primitives f) of Inl e \<Rightarrow> Some e
      | Inr derived \<Rightarrow> (case marshal env (fr_Metrics f) of Inl e \<Rightarrow> Some e
      | Inr stored \<Rightarrow> (case marshal env derived of Inl e \<Rightarrow> Some e
      | Inr again \<Rightarrow>
          if stored \<noteq> again then Some (integrity '''' ''fold metrics do not reproduce from immutable primitives'')
          else ee_ValidateFoldMetrics env derived samples)))"

definition aggregate_rejected :: "evidence_env \<Rightarrow> ManifestSpec \<Rightarrow> ResearchResult \<Rightarrow> study_error option" where
  "aggregate_rejected env spec r =
     (case ee_Evaluate env (rr_Folds r) spec of Inl e \<Rightarrow> Some e
      | Inr again \<Rightarrow> (case marshal env (evaluation_json (rr_Aggregate r)) of Inl e \<Rightarrow> Some e
      | Inr stored \<Rightarrow> (case marshal env (evaluation_json again) of Inl e \<Rightarrow> Some e
      | Inr recomputed \<Rightarrow>
          failure (stored \<noteq> recomputed) (integrity '''' ''aggregate metrics do not reproduce from immutable folds''))))"

text \<open>The error before it is wrapped. The result is there: the callers ask for it.\<close>

definition validateResultForPersistence :: "evidence_env \<Rightarrow> ExperimentManifest \<Rightarrow> ResearchResult \<Rightarrow> study_error option" where
  "validateResultForPersistence env m r =
     (if rr_ExperimentID r \<noteq> em_ID m \<or> rr_SchemaVersion r \<noteq> EvidenceSchemaVersion
      then Some (integrity '''' ''result is not bound to experiment'')
      else if length (rr_Folds r) \<noteq> length (sp_Folds (em_Spec m))
      then Some (integrity '''' ''fold evidence does not cover the immutable manifest'')
      else case first_error (fold_rejected env (sp_Samples (em_Spec m))) (zip (rr_Folds r) (sp_Folds (em_Spec m))) of
        Some e \<Rightarrow> Some e
      | None \<Rightarrow> aggregate_rejected env (em_Spec m) r)"

section \<open>Preparing\<close>

definition size_error :: "string \<Rightarrow> study_error" where
  "size_error details = StudyError (PlainError (Errorf details []))"

definition checkFoldEvidenceSize :: "nat \<Rightarrow> nat \<Rightarrow> study_error option" where
  "checkFoldEvidenceSize bytes preceding = first_failure
     [failure (MaxFoldEvidenceBytes < bytes) (size_error ''validation fold evidence exceeds 16 MiB limit''),
      failure (int MaxTotalFoldEvidenceBytes - int bytes < int preceding)
        (size_error ''validation fold evidence total exceeds 64 MiB limit'')]"

definition checkRootEvidenceSize :: "nat \<Rightarrow> study_error option" where
  "checkRootEvidenceSize bytes = failure (MaxEvidenceBytes < bytes) (size_error ''validation evidence exceeds 2 MiB limit'')"

definition prepare_fold :: "evidence_env \<Rightarrow> nat \<Rightarrow> FoldResult \<Rightarrow> preparedFoldEvidence sresult" where
  "prepare_fold env preceding f =
     and_then (marshal env (fold_result_json (ee_study env) f)) (\<lambda>b.
     and_then (checked (checkFoldEvidenceSize (length b) preceding) ()) (\<lambda>_.
       case frozen_Digest (ee_study env) (fr_Frozen f) of Inl e \<Rightarrow> Inl (StudyError (PlainError e))
     | Inr frozen \<Rightarrow> Inr \<lparr>pf_Ref = \<lparr>er_FoldIndex = fo_Index (fr_Fold f), er_EvidenceDigest = digest (ee_study env) b, er_FrozenDigest = frozen\<rparr>,
                         pf_Bytes = b\<rparr>))"

fun prepare_folds :: "evidence_env \<Rightarrow> nat \<Rightarrow> FoldResult list \<Rightarrow> preparedFoldEvidence list sresult" where
  "prepare_folds env preceding [] = Inr []"
| "prepare_folds env preceding (f # fs) =
     and_then (prepare_fold env preceding f) (\<lambda>p.
     and_then (prepare_folds env (preceding + length (pf_Bytes p)) fs) (\<lambda>ps. Inr (p # ps)))"

definition diagnostic_of :: "evidence_env \<Rightarrow> evidence_error \<Rightarrow> string \<times> string \<times> string" where
  "diagnostic_of env e =
     (case error_cause e of DiagnosticError code fieldName details \<Rightarrow> (code, fieldName, details)
      | StudyError c \<Rightarrow> (''invalid_manifest'', '''', ee_Error env (StudyError c)))"

definition root_of ::
  "evidence_env \<Rightarrow> ExperimentManifest \<Rightarrow> ResearchResult option \<Rightarrow> evidence_error option \<Rightarrow>
   (compactEvidenceRoot \<times> preparedFoldEvidence list) eresult" where
  "root_of env m result failed =
     (let envelope = \<lparr>co_SchemaVersion = CompactEvidenceRootSchemaVersion, co_ExperimentID = em_ID m, co_Status = ''failed'',
                  co_Result = None, co_Failure = None\<rparr> in
      case result of
        Some r \<Rightarrow>
          and_then (prewrite (checked (validateResultForPersistence env m r) ())) (\<lambda>_.
          and_then (prewrite (prepare_folds env 0 (rr_Folds r))) (\<lambda>folds.
            Inr (envelope\<lparr>co_Status := ''passed'',
                      co_Result := Some \<lparr>cx_SchemaVersion = rr_SchemaVersion r, cx_ExperimentID = rr_ExperimentID r,
                                         cx_Folds = map pf_Ref folds, cx_Aggregate = rr_Aggregate r\<rparr>\<rparr>, folds)))
      | None \<Rightarrow> Inr (envelope\<lparr>co_Failure := map_option (diagnostic_of env) failed\<rparr>, []))"

definition prepareEvidenceForPersistence ::
  "evidence_env \<Rightarrow> ExperimentManifest \<Rightarrow> ResearchResult option \<Rightarrow> evidence_error option \<Rightarrow> preparedEvidence eresult" where
  "prepareEvidenceForPersistence env m result failed =
     (let w = ee_study env; wrap = (if result = None then plain else prewrite) in
      and_then (plain (checked (manifest_Verify w m) ())) (\<lambda>_.
      if (result = None) = (failed = None)
      then Inl (EvidenceError (DiagnosticError ''invalid_manifest'' '''' ''exactly one of result or failure is required''))
      else
      and_then (root_of env m result failed) (\<lambda>(envelope, folds).
      and_then (wrap (and_then (marshal env (root_json envelope)) (\<lambda>b. checked (checkRootEvidenceSize (length b)) b))) (\<lambda>b.
        Inr \<lparr>pp_RootBytes = b, pp_RootDigest = digest w b, pp_ID = digest w (em_ID m @ newline @ digest w b),
             pp_Status = co_Status envelope, pp_Folds = folds\<rparr>))))"

section \<open>Persisting\<close>

definition new_fold_row :: "evidence_env \<Rightarrow> ExperimentManifest \<Rightarrow> string \<Rightarrow> time \<Rightarrow> preparedFoldEvidence \<Rightarrow> ValidationFoldEvidence" where
  "new_fold_row env m status createdAt p =
     \<lparr>fe_ExperimentID = em_ID m, fe_FoldIndex = er_FoldIndex (pf_Ref p), fe_SchemaVersion = EvidenceSchemaVersion, fe_Status = status,
      fe_FrozenDigest = er_FrozenDigest (pf_Ref p), fe_EvidenceJSON = re_jsonb (ee_repo env) (pf_Bytes p),
      fe_EvidenceDigest = er_EvidenceDigest (pf_Ref p), fe_CreatedAt = re_timestamp (ee_repo env) createdAt\<rparr>"

definition same_fold_row :: "ValidationFoldEvidence \<Rightarrow> ValidationFoldEvidence \<Rightarrow> bool" where
  "same_fold_row x y \<longleftrightarrow> fe_EvidenceDigest x = fe_EvidenceDigest y \<and> fe_FrozenDigest x = fe_FrozenDigest y \<and>
     fe_SchemaVersion x = fe_SchemaVersion y \<and> fe_Status x = fe_Status y"

definition fold_at :: "string \<Rightarrow> int \<Rightarrow> ValidationFoldEvidence \<Rightarrow> bool" where
  "fold_at i n x \<longleftrightarrow> fe_ExperimentID x = i \<and> fe_FoldIndex x = n"

text \<open>The rows are kept in the order of their generated ids, which is the order of \<^verbatim>\<open>First\<close>.\<close>

definition insert_fold :: "evidence_env \<Rightarrow> ValidationFoldEvidence \<Rightarrow> research \<Rightarrow> research sresult" where
  "insert_fold env row st =
     (let here = fold_at (fe_ExperimentID row) (fe_FoldIndex row) in
      and_then (rp_insert (ee_repo env) ''validation_fold_evidences''
                 (fe_Status row \<notin> {''passed'', ''failed''} \<or> fe_FoldIndex row < 0 \<or> length (fe_FrozenDigest row) \<noteq> 64
                   \<or> length (fe_EvidenceDigest row) \<noteq> 64)
                 (list_ex here (rs_folds st))
                 (foreign_key ''fk_validation_fold_experiment'' (fe_ExperimentID row \<in> ex_ID ` set (rs_experiments st)))
                 (st\<lparr>rs_folds := rs_folds st @ [row]\<rparr>) st) (\<lambda>(created, st').
        if created then Inr st'
        else and_then (rp_exec (ee_repo env) (ReadCall ''validation_fold_evidences'') st') (\<lambda>_.
          case find here (rs_folds st') of
            None \<Rightarrow> Inl (StudyError RecordNotFound)
          | Some existing \<Rightarrow>
              if same_fold_row existing row then Inr st'
              else Inl (integrity '''' ''idempotent fold retry has different content''))))"

fun insert_folds :: "evidence_env \<Rightarrow> ValidationFoldEvidence list \<Rightarrow> research \<Rightarrow> research sresult" where
  "insert_folds env [] st = Inr st"
| "insert_folds env (row # rows) st = and_then (insert_fold env row st) (insert_folds env rows)"

definition new_evidence_row :: "evidence_env \<Rightarrow> ExperimentManifest \<Rightarrow> preparedEvidence \<Rightarrow> time \<Rightarrow> ValidationEvidence" where
  "new_evidence_row env m p createdAt =
     \<lparr>ve_ID = pp_ID p, ve_ExperimentID = em_ID m, ve_SchemaVersion = CompactEvidenceRootSchemaVersion, ve_Status = pp_Status p,
      ve_EvidenceJSON = re_jsonb (ee_repo env) (pp_RootBytes p), ve_EvidenceDigest = pp_RootDigest p,
      ve_CreatedAt = re_timestamp (ee_repo env) createdAt\<rparr>"

definition same_evidence_row :: "ValidationEvidence \<Rightarrow> ValidationEvidence \<Rightarrow> bool" where
  "same_evidence_row x y \<longleftrightarrow> ve_ID x = ve_ID y \<and> ve_EvidenceDigest x = ve_EvidenceDigest y \<and>
     ve_SchemaVersion x = ve_SchemaVersion y \<and> ve_Status x = ve_Status y"

text \<open>The conflict target is the experiment: the same id under another experiment violates the primary key.\<close>

definition insert_root :: "evidence_env \<Rightarrow> ValidationEvidence \<Rightarrow> research \<Rightarrow> research sresult" where
  "insert_root env row st =
     and_then (rp_insert (ee_repo env) ''validation_evidences''
                (ve_Status row \<notin> {''passed'', ''failed''} \<or> length (ve_ID row) \<noteq> 64 \<or> length (ve_EvidenceDigest row) \<noteq> 64)
                (ve_ExperimentID row \<in> ve_ExperimentID ` set (rs_evidences st))
                (first_failure
                  [failure (ve_ID row \<in> ve_ID ` set (rs_evidences st)) (unique_violation ''validation_evidences_pkey''),
                   foreign_key ''fk_validation_evidence_experiment'' (ve_ExperimentID row \<in> ex_ID ` set (rs_experiments st))])
                (st\<lparr>rs_evidences := rs_evidences st @ [row]\<rparr>) st) (\<lambda>(created, st').
       if created then Inr st'
       else and_then (rp_require (ee_repo env) ''validation_evidences'' ve_ID (\<lambda>x. ve_ExperimentID x = ve_ExperimentID row)
                       (rs_evidences st') st') (\<lambda>existing.
         if same_evidence_row existing row then Inr st'
         else Inl (integrity '''' ''experiment already has different immutable evidence'')))"

definition new_outcome ::
  "evidence_env \<Rightarrow> ResearchExperimentAttempt \<Rightarrow> ExperimentManifest \<Rightarrow> preparedEvidence \<Rightarrow> time \<Rightarrow> string \<Rightarrow> ResearchAttemptOutcome" where
  "new_outcome env a m p createdAt payload =
     \<lparr>oc_ID = digest (ee_study env) (at_ID a @ newline @ pp_ID p), oc_AttemptID = at_ID a, oc_ExperimentID = em_ID m,
      oc_EvidenceID = pp_ID p, oc_Status = pp_Status p, oc_ContentDigest = digest (ee_study env) payload,
      oc_CreatedAt = re_timestamp (ee_repo env) createdAt\<rparr>"

definition insert_outcome :: "evidence_env \<Rightarrow> ResearchAttemptOutcome \<Rightarrow> research \<Rightarrow> research sresult" where
  "insert_outcome env row st =
     and_then (rp_insert (ee_repo env) ''research_attempt_outcomes'' (oc_Status row \<notin> {''passed'', ''failed''})
                (oc_AttemptID row \<in> oc_AttemptID ` set (rs_outcomes st))
                (first_failure
                  [failure (oc_ID row \<in> oc_ID ` set (rs_outcomes st)) (unique_violation ''research_attempt_outcomes_pkey''),
                   failure (oc_EvidenceID row \<in> oc_EvidenceID ` set (rs_outcomes st))
                     (unique_violation ''idx_research_attempt_outcomes_evidence_id''),
                   foreign_key ''fk_research_outcome_attempt'' (oc_AttemptID row \<in> at_ID ` set (rs_attempts st)),
                   foreign_key ''fk_research_outcome_evidence'' (oc_EvidenceID row \<in> ve_ID ` set (rs_evidences st))])
                (st\<lparr>rs_outcomes := rs_outcomes st @ [row]\<rparr>) st) (\<lambda>(created, st').
       if created then Inr st'
       else and_then (rp_require (ee_repo env) ''research_attempt_outcomes'' oc_ID (\<lambda>x. oc_AttemptID x = oc_AttemptID row)
                       (rs_outcomes st') st') (\<lambda>existing.
         if oc_EvidenceID existing = oc_EvidenceID row \<and> oc_Status existing = oc_Status row then Inr st'
         else Inl (integrity '''' ''attempt outcome was replaced'')))"

definition record_outcome ::
  "evidence_env \<Rightarrow> ExperimentManifest \<Rightarrow> preparedEvidence \<Rightarrow> time \<Rightarrow> research \<Rightarrow> research sresult" where
  "record_outcome env m p createdAt st =
     and_then (rp_require (ee_repo env) ''research_experiment_attempts'' at_ID (\<lambda>a. at_ExperimentID a = em_ID m) (rs_attempts st) st)
       (\<lambda>a.
     and_then (marshal env (JObject [(''attempt_id'', JString (at_ID a)), (''evidence_id'', JString (pp_ID p)),
                                     (''status'', JString (pp_Status p))])) (\<lambda>payload.
       insert_outcome env (new_outcome env a m p createdAt payload) st))"

definition persist_body ::
  "evidence_env \<Rightarrow> ExperimentManifest \<Rightarrow> preparedEvidence \<Rightarrow> time \<Rightarrow> research \<Rightarrow> (unit \<times> research) sresult" where
  "persist_body env m p createdAt st =
     and_then (insert_folds env (map (new_fold_row env m (pp_Status p) createdAt) (pp_Folds p)) st) (\<lambda>st.
     and_then (insert_root env (new_evidence_row env m p createdAt) st) (\<lambda>st.
     and_then (record_outcome env m p createdAt st) (\<lambda>st. Inr ((), st))))"

section \<open>Loading\<close>

text \<open>Evidence as it is returned: a result or a diagnostic.\<close>

record LoadedEvidence =
  ld_ID :: string
  ld_ExperimentID :: string
  ld_Status :: string
  ld_Result :: "ResearchResult option"
  ld_Failure :: "(string \<times> string \<times> string) option"
  ld_CreatedAt :: time

definition hydrate_fold ::
  "evidence_env \<Rightarrow> ExperimentManifest \<Rightarrow> nat \<Rightarrow> foldEvidenceRef \<times> ValidationFoldEvidence \<times> Fold \<Rightarrow> (nat \<times> FoldResult) sresult" where
  "hydrate_fold env m preceding x =
     (let w = ee_study env in
      case x of (ref, row, declared) \<Rightarrow>
      if er_FoldIndex ref \<noteq> fo_Index declared \<or> fe_FoldIndex row \<noteq> er_FoldIndex ref \<or> fe_ExperimentID row \<noteq> em_ID m
        \<or> fe_SchemaVersion row \<noteq> EvidenceSchemaVersion \<or> fe_Status row \<noteq> ''passed''
        \<or> fe_EvidenceDigest row \<noteq> er_EvidenceDigest ref \<or> fe_FrozenDigest row \<noteq> er_FrozenDigest ref
      then Inl (integrity '''' ''compact evidence fold reference mismatch'')
      else if 2 * MaxFoldEvidenceBytes < length (fe_EvidenceJSON row)
      then Inl (integrity '''' ''compact fold row exceeds bounded load size'')
      else case ee_UnmarshalFold env (fe_EvidenceJSON row) of Inl details \<Rightarrow> Inl (integrity '''' details)
      | Inr f \<Rightarrow>
      case cd_Marshal (se_codec w) (fold_result_json w f) of Inl _ \<Rightarrow> Inl (integrity '''' ''compact evidence fold digest mismatch'')
      | Inr b \<Rightarrow>
      if digest w b \<noteq> er_EvidenceDigest ref then Inl (integrity '''' ''compact evidence fold digest mismatch'')
      else case checkFoldEvidenceSize (length b) preceding of Some e \<Rightarrow> Inl (integrity '''' (ee_Error env e))
      | None \<Rightarrow>
      if frozen_Digest w (fr_Frozen f) \<noteq> Inr (er_FrozenDigest ref) \<or> fr_Fold f \<noteq> declared \<or> fd_FoldIndex (fr_Frozen f) \<noteq> er_FoldIndex ref
      then Inl (integrity '''' ''compact evidence frozen or fold identity mismatch'')
      else Inr (preceding + length b, f))"

fun hydrate_folds ::
  "evidence_env \<Rightarrow> ExperimentManifest \<Rightarrow> nat \<Rightarrow> (foldEvidenceRef \<times> ValidationFoldEvidence \<times> Fold) list \<Rightarrow> FoldResult list sresult" where
  "hydrate_folds env m preceding [] = Inr []"
| "hydrate_folds env m preceding (x # xs) =
     and_then (hydrate_fold env m preceding x) (\<lambda>(next_preceding, f).
     and_then (hydrate_folds env m next_preceding xs) (\<lambda>fs. Inr (f # fs)))"

definition loaded_result ::
  "evidence_env \<Rightarrow> ExperimentManifest \<Rightarrow> compactEvidenceResult \<Rightarrow> ValidationFoldEvidence list \<Rightarrow> ResearchResult sresult" where
  "loaded_result env m r rows =
     (let declared = sp_Folds (em_Spec m) in
      if cx_SchemaVersion r \<noteq> EvidenceSchemaVersion \<or> cx_ExperimentID r \<noteq> em_ID m \<or> length (cx_Folds r) \<noteq> length declared
        \<or> length rows \<noteq> length (cx_Folds r)
      then Inl (integrity '''' ''compact evidence fold set mismatch'')
      else and_then (hydrate_folds env m 0 (zip (cx_Folds r) (zip rows declared))) (\<lambda>folds.
        let result = \<lparr>rr_SchemaVersion = cx_SchemaVersion r, rr_ExperimentID = cx_ExperimentID r, rr_Folds = folds,
                      rr_Aggregate = cx_Aggregate r\<rparr> in
        case validateResultForPersistence env m result of Some e \<Rightarrow> Inl (integrity '''' (ee_Error env e))
        | None \<Rightarrow> Inr result))"

definition hydratePreparedEvidence ::
  "evidence_env \<Rightarrow> ExperimentManifest \<Rightarrow> string \<Rightarrow> ValidationFoldEvidence list \<Rightarrow> LoadedEvidence sresult" where
  "hydratePreparedEvidence env m rootBytes rows =
     (let evidence = \<lparr>ld_ID = '''', ld_ExperimentID = em_ID m, ld_Status = ''failed'', ld_Result = None, ld_Failure = None,
                      ld_CreatedAt = 0\<rparr> in
      case checkRootEvidenceSize (length rootBytes) of Some e \<Rightarrow> Inl (integrity '''' (ee_Error env e))
      | None \<Rightarrow>
      case ee_UnmarshalRoot env rootBytes of Inl details \<Rightarrow> Inl (integrity '''' details)
      | Inr envelope \<Rightarrow>
      case cd_Marshal (se_codec (ee_study env)) (root_json envelope) of Inl _ \<Rightarrow> Inl (integrity '''' ''invalid compact evidence root'')
      | Inr _ \<Rightarrow>
      if co_SchemaVersion envelope \<noteq> CompactEvidenceRootSchemaVersion \<or> co_ExperimentID envelope \<noteq> em_ID m
      then Inl (integrity '''' ''compact evidence root identity mismatch'')
      else if co_Status envelope = ''failed''
      then (if co_Result envelope \<noteq> None \<or> co_Failure envelope = None \<or> rows \<noteq> []
            then Inl (integrity '''' ''failed evidence has result or fold rows'')
            else Inr (evidence\<lparr>ld_Failure := co_Failure envelope\<rparr>))
      else case co_Result envelope of None \<Rightarrow> Inl (integrity '''' ''invalid compact evidence status'')
      | Some r \<Rightarrow>
      if co_Status envelope \<noteq> ''passed'' \<or> co_Failure envelope \<noteq> None then Inl (integrity '''' ''invalid compact evidence status'')
      else and_then (loaded_result env m r rows) (\<lambda>result.
        Inr (evidence\<lparr>ld_Status := co_Status envelope, ld_Result := Some result\<rparr>)))"

text \<open>The fold rows of an experiment in the order of their index, one more than the manifest declares at most.\<close>

definition fold_rows :: "string \<Rightarrow> research \<Rightarrow> ValidationFoldEvidence list" where
  "fold_rows i st = sort_key fe_FoldIndex (filter (\<lambda>x. fe_ExperimentID x = i) (rs_folds st))"

fun fold_sizes_fit :: "int \<Rightarrow> ValidationFoldEvidence list \<Rightarrow> bool" where
  "fold_sizes_fit textTotal [] = True"
| "fold_sizes_fit textTotal (x # xs) =
     (length (fe_EvidenceJSON x) \<le> 2 * MaxFoldEvidenceBytes \<and>
      textTotal \<le> 2 * int MaxTotalFoldEvidenceBytes - int (length (fe_EvidenceJSON x)) \<and>
      fold_sizes_fit (textTotal + int (length (fe_EvidenceJSON x))) xs)"

text \<open>One row, read by its index; the size was tested above and is part of the query.\<close>

definition load_fold :: "evidence_env \<Rightarrow> ValidationEvidence \<Rightarrow> research \<Rightarrow> int \<Rightarrow> ValidationFoldEvidence sresult" where
  "load_fold env row st n =
     and_then (rp_exec (ee_repo env) (ReadCall ''validation_fold_evidences'') st) (\<lambda>_.
       case find (\<lambda>x. fold_at (ve_ExperimentID row) n x \<and> length (fe_EvidenceJSON x) \<le> 2 * MaxFoldEvidenceBytes) (rs_folds st) of
         None \<Rightarrow> Inl (StudyError RecordNotFound)
       | Some f \<Rightarrow> checked (failure (fe_CreatedAt f \<noteq> ve_CreatedAt row) (integrity '''' ''compact fold creation time mismatch'')) f)"

fun load_folds :: "evidence_env \<Rightarrow> ValidationEvidence \<Rightarrow> research \<Rightarrow> int list \<Rightarrow> ValidationFoldEvidence list sresult" where
  "load_folds env row st [] = Inr []"
| "load_folds env row st (n # ns) =
     and_then (load_fold env row st n) (\<lambda>f. and_then (load_folds env row st ns) (\<lambda>fs. Inr (f # fs)))"

definition loadCompactEvidenceSnapshot :: "evidence_env \<Rightarrow> ValidationEvidence \<Rightarrow> research \<Rightarrow> LoadedEvidence sresult" where
  "loadCompactEvidenceSnapshot env row st =
     (let w = ee_study env; mismatch = integrity '''' ''stored compact evidence digest or identity mismatch'' in
      case ee_UnmarshalRoot env (ve_EvidenceJSON row) of Inl details \<Rightarrow> Inl (integrity '''' details)
      | Inr envelope \<Rightarrow>
      case cd_Marshal (se_codec w) (root_json envelope) of Inl _ \<Rightarrow> Inl mismatch
      | Inr canonical \<Rightarrow>
      if digest w canonical \<noteq> ve_EvidenceDigest row \<or> digest w (ve_ExperimentID row @ newline @ ve_EvidenceDigest row) \<noteq> ve_ID row
        \<or> co_ExperimentID envelope \<noteq> ve_ExperimentID row \<or> co_Status envelope \<noteq> ve_Status row \<or> co_SchemaVersion envelope \<noteq> ve_SchemaVersion row
      then Inl mismatch
      else
      and_then (LoadManifest (ee_repo env) (ve_ExperimentID row) st) (\<lambda>m.
      and_then (rp_exec (ee_repo env) (ReadCall ''validation_fold_evidences'') st) (\<lambda>_.
      let declared = length (sp_Folds (em_Spec m)); sizes = take (declared + 1) (fold_rows (ve_ExperimentID row) st) in
      if declared < length sizes then Inl (integrity '''' ''extra compact fold rows'')
      else if \<not> fold_sizes_fit 0 sizes then Inl (integrity '''' ''compact fold row exceeds bounded load size'')
      else if (case co_Result envelope of Some r \<Rightarrow> length sizes \<noteq> length (cx_Folds r) | None \<Rightarrow> False)
      then Inl (integrity '''' ''missing compact fold rows'')
      else if co_Result envelope = None \<and> sizes \<noteq> [] then Inl (integrity '''' ''failed compact evidence has fold rows'')
      else
      and_then (load_folds env row st (map fe_FoldIndex sizes)) (\<lambda>rows.
      and_then (hydratePreparedEvidence env m (ve_EvidenceJSON row) rows) (\<lambda>evidence.
        Inr (evidence\<lparr>ld_ID := ve_ID row, ld_CreatedAt := ve_CreatedAt row\<rparr>))))))"

text \<open>A read-only transaction: its commit may fail.\<close>

definition loadCompactEvidence :: "evidence_env \<Rightarrow> ValidationEvidence \<Rightarrow> research \<Rightarrow> LoadedEvidence sresult" where
  "loadCompactEvidence env row st =
     and_then (loadCompactEvidenceSnapshot env row st) (\<lambda>evidence.
     and_then (rp_exec (ee_repo env) CommitCall st) (\<lambda>_. Inr evidence))"

definition load_legacy :: "evidence_env \<Rightarrow> ValidationEvidence \<Rightarrow> LoadedEvidence sresult" where
  "load_legacy env row =
     (let w = ee_study env; mismatch = integrity '''' ''stored evidence digest mismatch'' in
      case ee_UnmarshalLegacy env (ve_EvidenceJSON row) of Inl details \<Rightarrow> Inl (integrity '''' details)
      | Inr payload \<Rightarrow>
      case cd_Marshal (se_codec w) (legacy_json w payload) of Inl _ \<Rightarrow> Inl mismatch
      | Inr canonical \<Rightarrow>
      if digest w canonical \<noteq> ve_EvidenceDigest row \<or> digest w (ve_ExperimentID row @ newline @ ve_EvidenceDigest row) \<noteq> ve_ID row
      then Inl mismatch
      else if le_SchemaVersion payload \<noteq> EvidenceSchemaVersion \<or> le_ExperimentID payload \<noteq> ve_ExperimentID row
        \<or> le_Status payload \<noteq> ve_Status row
      then Inl (integrity '''' ''evidence envelope mismatch'')
      else Inr \<lparr>ld_ID = ve_ID row, ld_ExperimentID = ve_ExperimentID row, ld_Status = ve_Status row, ld_Result = le_Result payload,
                ld_Failure = le_Failure payload, ld_CreatedAt = ve_CreatedAt row\<rparr>)"

definition LoadEvidence :: "evidence_env \<Rightarrow> string \<Rightarrow> research \<Rightarrow> LoadedEvidence sresult" where
  "LoadEvidence env i st =
     (let here = rp_require (ee_repo env) ''validation_evidences'' ve_ID (\<lambda>x. ve_ID x = i) (rs_evidences st) st;
          large = integrity '''' ''evidence exceeds bounded load size'' in
      and_then here (\<lambda>sized.
      if 2 * MaxEvidenceBytes < length (ve_EvidenceJSON sized) then Inl large
      else and_then here (\<lambda>row.
      if MaxEvidenceBytes < length (ve_EvidenceJSON row) then Inl large
      else if ve_SchemaVersion row = CompactEvidenceRootSchemaVersion then loadCompactEvidence env row st
      else load_legacy env row)))"

section \<open>Recording\<close>

definition HasCompletedOutcome :: "repo_env \<Rightarrow> string \<Rightarrow> research \<Rightarrow> bool sresult" where
  "HasCompletedOutcome env i st =
     (if \<not> re_connected env then Inl (StudyError (PlainError (Errorf ''validation repository database is required'' [])))
      else and_then (rp_exec env (ReadCall ''research_attempt_outcomes'') st) (\<lambda>_.
        Inr (list_ex (\<lambda>x. oc_ExperimentID x = i) (rs_outcomes st))))"

definition PersistEvidence ::
  "evidence_env \<Rightarrow> string \<Rightarrow> ResearchResult option \<Rightarrow> evidence_error option \<Rightarrow> time \<Rightarrow> research \<Rightarrow>
   LoadedEvidence eresult \<times> research" where
  "PersistEvidence env i result failed createdAt st =
     (if (result = None) = (failed = None)
      then (Inl (EvidenceError (DiagnosticError ''invalid_manifest'' '''' ''exactly one of result or failure is required'')), st)
      else case LoadManifest (ee_repo env) i st of Inl e \<Rightarrow> (Inl (EvidenceError e), st)
      | Inr m \<Rightarrow>
      if createdAt = 0 then (Inl (EvidenceError (StudyError (PlainError (Errorf ''evidence creation time is required'' [])))), st)
      else case prepareEvidenceForPersistence env m result failed of Inl e \<Rightarrow> (Inl e, st)
      | Inr p \<Rightarrow>
      (case rp_transaction (ee_repo env) (persist_body env m p createdAt) st of
         (Inl e, st') \<Rightarrow> (Inl (EvidenceError e), st')
       | (Inr _, st') \<Rightarrow> (plain (LoadEvidence env (pp_ID p) st'), st')))"

end
