(* ===== verification/Registry_Laws.thy ===== *)
theory Registry_Laws
  imports Evidence "HOL-Library.Sublist"
begin

text \<open>
  The research tables under the operations of the repository. \<open>accrues\<close>: no table loses or rewrites a row. \<open>research_inv\<close>:
  the rows of a committed state fit together, each experiment with exactly one attempt and each evidence with exactly one
  outcome. The effect of each statement is a lemma; the operations keep the invariant by them.
\<close>

section \<open>Statements\<close>

lemma rp_exec_Inr: "rp_exec env call st = Inr u \<longleftrightarrow> re_db env call st = None"
  by (auto simp: rp_exec_def checked_def split: option.splits)

lemma rp_first_Inr:
  assumes "rp_first env table key P rows st = Inr r"
  shows "r = None \<Longrightarrow> \<forall>x \<in> set rows. \<not> P x" and "r = Some x \<Longrightarrow> x \<in> set rows \<and> P x"
  using assms by (auto simp: rp_first_def result_simps find_None_iff find_Some_iff in_set_conv_nth)
    (metis in_set_conv_nth length_sort set_sort)+

lemma rp_require_Inr: "rp_require env table key P rows st = Inr r \<Longrightarrow> r \<in> set rows \<and> P r"
  using rp_first_Inr(2) [of env table key P rows st "Some r" r]
  by (auto simp: rp_require_def result_simps split: option.splits)

lemma foreign_key_None [simp]: "foreign_key name present = None \<longleftrightarrow> present"
  by (simp add: foreign_key_def)

text \<open>The shape of every registering statement: insert, or look at the row that was there.\<close>

lemma insert_or_keepE:
  assumes "and_then (rp_insert env table bad conflict violation st1 st) (\<lambda>(created, st'). if created then Inr st' else keep st') = Inr st2"
  obtains (kept) "conflict" "keep st = Inr st2" | (created) "\<not> conflict" "violation = None" "\<not> bad" "st2 = st1"
  using assms by (auto simp: rp_insert_def result_simps rp_exec_Inr split: if_splits)

text \<open>Keeping: a row that satisfies the query was there.\<close>

lemma kept_rowE:
  assumes "and_then (rp_require env table key P rows st) (\<lambda>x. if bad x then Inl (e x) else Inr st') = Inr st2"
  obtains x where "x \<in> set rows" "P x" "\<not> bad x" "st2 = st'"
  using assms by (auto simp: result_simps dest!: rp_require_Inr split: if_splits)

lemma rp_transaction_cases:
  assumes "rp_transaction env body st = (r, st')"
  obtains e where "r = Inl e" "st' = st" | x where "r = Inr x" "body st = Inr (x, st')"
  using assms by (auto simp: rp_transaction_def split: sum.splits prod.splits option.splits)

section \<open>Accruing\<close>

definition accrues :: "research \<Rightarrow> research \<Rightarrow> bool" where
  "accrues st st' \<longleftrightarrow> prefix (rs_experiments st) (rs_experiments st') \<and> prefix (rs_families st) (rs_families st') \<and>
     prefix (rs_attempts st) (rs_attempts st') \<and> prefix (rs_holdouts st) (rs_holdouts st') \<and> prefix (rs_uses st) (rs_uses st') \<and>
     prefix (rs_folds st) (rs_folds st') \<and> prefix (rs_evidences st) (rs_evidences st') \<and> prefix (rs_outcomes st) (rs_outcomes st')"

lemma accrues_refl [simp]: "accrues st st"
  by (simp add: accrues_def)

lemma accrues_trans: "accrues st1 st2 \<Longrightarrow> accrues st2 st3 \<Longrightarrow> accrues st1 st3"
  unfolding accrues_def by (meson prefix_order.trans)

lemma prefix_set: "prefix xs ys \<Longrightarrow> set xs \<subseteq> set ys"
  by (auto simp: prefix_def)

lemma accrued_rows:
  assumes "accrues st st'"
  shows "set (rs_experiments st) \<subseteq> set (rs_experiments st')" "set (rs_families st) \<subseteq> set (rs_families st')"
    "set (rs_attempts st) \<subseteq> set (rs_attempts st')" "set (rs_holdouts st) \<subseteq> set (rs_holdouts st')"
    "set (rs_uses st) \<subseteq> set (rs_uses st')" "set (rs_folds st) \<subseteq> set (rs_folds st')"
    "set (rs_evidences st) \<subseteq> set (rs_evidences st')" "set (rs_outcomes st) \<subseteq> set (rs_outcomes st')"
  using assms by (simp_all add: accrues_def prefix_set)

section \<open>The invariant\<close>

definition outcome_of :: "ValidationEvidence \<Rightarrow> ResearchAttemptOutcome \<Rightarrow> bool" where
  "outcome_of v oc \<longleftrightarrow> oc_EvidenceID oc = ve_ID v \<and> oc_ExperimentID oc = ve_ExperimentID v \<and> oc_Status oc = ve_Status v"

definition attempts_inv :: "research \<Rightarrow> bool" where
  "attempts_inv st \<longleftrightarrow> distinct (map ex_ID (rs_experiments st)) \<and> map at_ExperimentID (rs_attempts st) = map ex_ID (rs_experiments st) \<and>
     distinct (map at_ID (rs_attempts st)) \<and> distinct (map rf_ID (rs_families st)) \<and>
     at_FamilyID ` set (rs_attempts st) \<subseteq> rf_ID ` set (rs_families st)"

definition holdouts_inv :: "research \<Rightarrow> bool" where
  "holdouts_inv st \<longleftrightarrow> distinct (map ho_ID (rs_holdouts st)) \<and> distinct (map ho_FamilyID (rs_holdouts st)) \<and>
     distinct (map hu_HoldoutID (rs_uses st)) \<and> distinct (map hu_ExperimentID (rs_uses st)) \<and>
     hu_HoldoutID ` set (rs_uses st) \<subseteq> ho_ID ` set (rs_holdouts st) \<and>
     hu_ExperimentID ` set (rs_uses st) \<subseteq> ex_ID ` set (rs_experiments st)"

definition outcomes_inv :: "research \<Rightarrow> bool" where
  "outcomes_inv st \<longleftrightarrow> distinct (map ve_ExperimentID (rs_evidences st)) \<and> distinct (map ve_ID (rs_evidences st)) \<and>
     ve_ExperimentID ` set (rs_evidences st) \<subseteq> ex_ID ` set (rs_experiments st) \<and>
     ve_SchemaVersion ` set (rs_evidences st) \<subseteq> {CompactEvidenceRootSchemaVersion} \<and>
     list_all2 outcome_of (rs_evidences st) (rs_outcomes st) \<and>
     (\<forall>oc \<in> set (rs_outcomes st). \<exists>a \<in> set (rs_attempts st). at_ID a = oc_AttemptID oc \<and> at_ExperimentID a = oc_ExperimentID oc)"

text \<open>A fold row stands under the evidence of its experiment and has its status.\<close>

definition folds_inv :: "research \<Rightarrow> bool" where
  "folds_inv st \<longleftrightarrow> distinct (map (\<lambda>f. (fe_ExperimentID f, fe_FoldIndex f)) (rs_folds st)) \<and>
     (\<forall>f \<in> set (rs_folds st). \<exists>v \<in> set (rs_evidences st). ve_ExperimentID v = fe_ExperimentID f \<and> ve_Status v = fe_Status f)"

definition research_inv :: "research \<Rightarrow> bool" where
  "research_inv st \<longleftrightarrow> attempts_inv st \<and> holdouts_inv st \<and> outcomes_inv st \<and> folds_inv st"

definition unresearched :: "research \<Rightarrow> bool" where
  "unresearched st \<longleftrightarrow> rs_experiments st = [] \<and> rs_families st = [] \<and> rs_attempts st = [] \<and> rs_holdouts st = [] \<and>
     rs_uses st = [] \<and> rs_folds st = [] \<and> rs_evidences st = [] \<and> rs_outcomes st = []"

lemma unresearched_inv: "unresearched st \<Longrightarrow> research_inv st"
  by (simp add: unresearched_def research_inv_def attempts_inv_def holdouts_inv_def outcomes_inv_def folds_inv_def)

section \<open>Registering\<close>

lemma register_family_Inr:
  assumes "register_family env m st = Inr st'"
  shows "st' = st \<and> sp_FamilyID (em_Spec m) \<in> rf_ID ` set (rs_families st) \<or>
    (\<exists>f. rf_ID f = sp_FamilyID (em_Spec m) \<and> rf_ID f \<notin> rf_ID ` set (rs_families st) \<and> st' = st\<lparr>rs_families := rs_families st @ [f]\<rparr>)"
proof -
  obtain scope where scope: "family_scope (re_study env) (em_Spec m) = Inr scope"
    using assms by (auto simp: register_family_def Let_def result_simps split: sum.splits)
  show ?thesis
    using assms [unfolded register_family_def Let_def scope sum.case and_then_simps]
  proof (cases rule: insert_or_keepE)
    case kept
    then show ?thesis by (elim kept_rowE) auto
  next
    case created
    then show ?thesis by (metis ResearchExperimentFamily.select_convs(1))
  qed
qed

lemma register_attempt_Inr:
  assumes "register_attempt env m st = Inr st'" and "em_ID m \<notin> at_ExperimentID ` set (rs_attempts st)"
  shows "st' = st\<lparr>rs_attempts := rs_attempts st @ [new_attempt env m]\<rparr> \<and> at_ID (new_attempt env m) \<notin> at_ID ` set (rs_attempts st) \<and>
    sp_FamilyID (em_Spec m) \<in> rf_ID ` set (rs_families st)"
  using assms(1) [unfolded register_attempt_def Let_def]
proof (cases rule: insert_or_keepE)
  case kept
  then show ?thesis using assms(2) by (elim kept_rowE) (metis image_eqI)
next
  case created
  then show ?thesis by (auto simp: list_ex_iff new_attempt_def Let_def)
qed

lemma lock_holdout_Inr:
  assumes "lock_holdout env m h st = Inr st'"
  shows "st' = st \<and> (\<exists>x \<in> set (rs_holdouts st). ho_FamilyID x = sp_FamilyID (em_Spec m) \<and> ho_ID x = ch_ID h) \<or>
    st' = st\<lparr>rs_holdouts := rs_holdouts st @ [new_holdout env m h]\<rparr> \<and> ch_ID h \<notin> ho_ID ` set (rs_holdouts st) \<and>
    sp_FamilyID (em_Spec m) \<notin> ho_FamilyID ` set (rs_holdouts st)"
  using assms [unfolded lock_holdout_def Let_def]
proof (cases rule: insert_or_keepE)
  case kept
  then show ?thesis by (elim kept_rowE) (auto simp: new_holdout_def)
next
  case created
  then show ?thesis by (auto simp: list_ex_iff new_holdout_def)
qed

lemma use_holdout_Inr:
  assumes "use_holdout env m h st = Inr st'" and "em_ID m \<notin> hu_ExperimentID ` set (rs_uses st)"
  shows "st' = st\<lparr>rs_uses := rs_uses st @ [new_use env m h]\<rparr> \<and> ch_ID h \<notin> hu_HoldoutID ` set (rs_uses st) \<and>
    ch_ID h \<in> ho_ID ` set (rs_holdouts st) \<and> em_ID m \<in> ex_ID ` set (rs_experiments st)"
  using assms(1) [unfolded use_holdout_def Let_def]
proof (cases rule: insert_or_keepE)
  case kept
  then show ?thesis using assms(2) by (elim kept_rowE) (metis image_eqI)
next
  case created
  then show ?thesis by (auto simp: list_ex_iff new_use_def)
qed

text \<open>What a registration leaves of the holdouts: the family's contract, used up by this experiment for the first time.\<close>

definition consumes :: "ExperimentManifest \<Rightarrow> ConfirmatoryHoldoutContract \<Rightarrow> research \<Rightarrow> research \<Rightarrow> bool" where
  "consumes m h st st' \<longleftrightarrow> ch_ID h \<notin> hu_HoldoutID ` set (rs_uses st) \<and>
     (\<exists>u \<in> set (rs_uses st'). hu_HoldoutID u = ch_ID h \<and> hu_ExperimentID u = em_ID m) \<and>
     (\<exists>x \<in> set (rs_holdouts st'). ho_ID x = ch_ID h \<and> ho_FamilyID x = sp_FamilyID (em_Spec m))"

definition confirms :: "ExperimentManifest \<Rightarrow> ConfirmatoryHoldoutContract \<Rightarrow> bool" where
  "confirms m h \<longleftrightarrow> sp_StudyType (em_Spec m) = ''confirmatory'' \<and> sp_ConfirmatoryHoldout (em_Spec m) = Some h"

definition joins :: "ExperimentManifest \<Rightarrow> ValidationExperiment \<Rightarrow> research \<Rightarrow> research \<Rightarrow> bool" where
  "joins m row st st' \<longleftrightarrow> ex_ID row = em_ID m \<and> em_ID m \<notin> ex_ID ` set (rs_experiments st) \<and>
     rs_experiments st' = rs_experiments st @ [row] \<and> rs_folds st' = rs_folds st \<and> rs_evidences st' = rs_evidences st \<and>
     rs_outcomes st' = rs_outcomes st \<and> (\<forall>h. confirms m h \<longrightarrow> consumes m h st st') \<and>
     (\<exists>a. rs_attempts st' = rs_attempts st @ [a] \<and> at_ExperimentID a = em_ID m \<and> at_FamilyID a = sp_FamilyID (em_Spec m))"

lemma holdout_steps:
  assumes "lock_holdout env m h st = Inr st1" and "use_holdout env m h st1 = Inr st2" and "holdouts_inv st"
    and "em_ID m \<notin> hu_ExperimentID ` set (rs_uses st)"
  shows "holdouts_inv st2 \<and> accrues st st2 \<and> consumes m h st st2 \<and>
    st2 = st\<lparr>rs_holdouts := rs_holdouts st2, rs_uses := rs_uses st2\<rparr>"
proof -
  have uses: "rs_uses st1 = rs_uses st" using lock_holdout_Inr [OF assms(1)] by auto
  note used = use_holdout_Inr [OF assms(2), unfolded uses, OF assms(4)]
  have locked: "holdouts_inv st1 \<and> accrues st st1 \<and> (\<exists>x \<in> set (rs_holdouts st1). ho_ID x = ch_ID h \<and> ho_FamilyID x = sp_FamilyID (em_Spec m))"
    using lock_holdout_Inr [OF assms(1)] assms(3)
    by (elim disjE) (auto simp: holdouts_inv_def accrues_def new_holdout_def)
  have st1: "st1 = st\<lparr>rs_holdouts := rs_holdouts st1\<rparr>" using lock_holdout_Inr [OF assms(1)] by auto
  have names: "hu_HoldoutID (new_use env m h) = ch_ID h" "hu_ExperimentID (new_use env m h) = em_ID m"
    by (simp_all add: new_use_def)
  have "holdouts_inv st2" using locked used assms(4) by (auto simp: holdouts_inv_def names uses)
  moreover have "accrues st1 st2" using used by (simp add: accrues_def uses)
  ultimately show ?thesis
    using locked used st1 accrues_trans [of st st1 st2] by (auto simp: consumes_def names uses)
qed

lemma attempt_steps:
  assumes "register_family env m st = Inr st1" and "register_attempt env m st1 = Inr st2"
    and start: "st = st0\<lparr>rs_experiments := rs_experiments st0 @ [row]\<rparr>" and "attempts_inv st0"
    and fresh: "ex_ID row = em_ID m" "em_ID m \<notin> ex_ID ` set (rs_experiments st0)"
  shows "attempts_inv st2 \<and> accrues st0 st2 \<and> rs_attempts st2 = rs_attempts st0 @ [new_attempt env m] \<and>
    st2 = st\<lparr>rs_families := rs_families st2, rs_attempts := rs_attempts st2\<rparr>"
proof -
  have st1: "rs_attempts st1 = rs_attempts st0" "rs_experiments st1 = rs_experiments st0 @ [row]"
    "st1 = st\<lparr>rs_families := rs_families st1\<rparr>"
    using register_family_Inr [OF assms(1)] by (auto simp: start)
  have same: "at_ExperimentID ` set (rs_attempts st0) = ex_ID ` set (rs_experiments st0)"
    using assms(4) unfolding attempts_inv_def by (metis list.set_map)
  note at = register_attempt_Inr [OF assms(2), unfolded st1(1) same, OF fresh(2)]
  have families: "distinct (map rf_ID (rs_families st1))" "prefix (rs_families st0) (rs_families st1)"
    using register_family_Inr [OF assms(1)] assms(4) by (auto simp: start attempts_inv_def)
  then have grown: "at_FamilyID ` set (rs_attempts st0) \<subseteq> rf_ID ` set (rs_families st1)"
    using assms(4) by (auto simp: prefix_def attempts_inv_def)
  have names: "at_ExperimentID (new_attempt env m) = em_ID m" "at_FamilyID (new_attempt env m) = sp_FamilyID (em_Spec m)"
    by (simp_all add: new_attempt_def Let_def)
  have "attempts_inv st2"
    using assms(4) at families grown fresh by (auto simp: attempts_inv_def st1(2) names image_subset_iff)
  moreover have st2: "st2 = st\<lparr>rs_families := rs_families st1, rs_attempts := rs_attempts st0 @ [new_attempt env m]\<rparr>"
    using at st1(3) by metis
  then have "accrues st0 st2" using families(2) by (simp add: accrues_def start)
  ultimately show ?thesis by (simp add: st2)
qed

text \<open>The rows of the evidence are not touched by registering: their invariants only look at rows that stay.\<close>

lemma outcomes_inv_mono:
  assumes "outcomes_inv st" and "set (rs_experiments st) \<subseteq> set (rs_experiments st')" "set (rs_attempts st) \<subseteq> set (rs_attempts st')"
    and "rs_evidences st' = rs_evidences st" "rs_outcomes st' = rs_outcomes st"
  shows "outcomes_inv st'"
  using assms unfolding outcomes_inv_def by (metis (no_types, opaque_lifting) image_mono subset_iff)

lemma only_attempts:
  assumes "st2 = st\<lparr>rs_experiments := xs, rs_families := rs_families st2, rs_attempts := rs_attempts st2\<rparr>"
  shows "rs_holdouts st2 = rs_holdouts st" "rs_uses st2 = rs_uses st" "rs_folds st2 = rs_folds st" "rs_evidences st2 = rs_evidences st"
    "rs_outcomes st2 = rs_outcomes st" "rs_experiments st2 = xs"
  by (subst assms, simp)+

lemma only_holdouts:
  assumes "st2 = st\<lparr>rs_holdouts := rs_holdouts st2, rs_uses := rs_uses st2\<rparr>"
  shows "rs_experiments st2 = rs_experiments st" "rs_attempts st2 = rs_attempts st" "rs_families st2 = rs_families st"
    "rs_folds st2 = rs_folds st" "rs_evidences st2 = rs_evidences st" "rs_outcomes st2 = rs_outcomes st"
  by (subst assms, simp)+

lemma register_joins:
  assumes "registerResearchAttempt env m (st\<lparr>rs_experiments := rs_experiments st @ [row]\<rparr>) = Inr st'" and inv: "research_inv st"
    and fresh: "ex_ID row = em_ID m" "em_ID m \<notin> ex_ID ` set (rs_experiments st)"
  shows "research_inv st' \<and> accrues st st' \<and> joins m row st st'"
proof -
  let ?st0 = "st\<lparr>rs_experiments := rs_experiments st @ [row]\<rparr>"
  obtain st1 st2 where steps: "register_family env m ?st0 = Inr st1" "register_attempt env m st1 = Inr st2"
    using assms(1) by (auto simp: registerResearchAttempt_def result_simps)
  have parts: "attempts_inv st" "holdouts_inv st" "outcomes_inv st" "folds_inv st" using inv by (simp_all add: research_inv_def)
  note tried = attempt_steps [OF steps refl parts(1) fresh]
  have names: "at_ExperimentID (new_attempt env m) = em_ID m" "at_FamilyID (new_attempt env m) = sp_FamilyID (em_Spec m)"
    by (simp_all add: new_attempt_def Let_def)
  have st2: "rs_holdouts st2 = rs_holdouts st" "rs_uses st2 = rs_uses st" "rs_folds st2 = rs_folds st" "rs_evidences st2 = rs_evidences st"
    "rs_outcomes st2 = rs_outcomes st" "rs_experiments st2 = rs_experiments st @ [row]"
    using only_attempts [OF tried [THEN conjunct2, THEN conjunct2, THEN conjunct2]] by blast+
  have locks: "holdouts_inv st2" using parts(2) by (auto simp: holdouts_inv_def st2)
  have unused: "em_ID m \<notin> hu_ExperimentID ` set (rs_uses st2)" using parts(2) fresh(2) by (auto simp: holdouts_inv_def st2)
  have last: "holdouts_inv st' \<and> accrues st2 st' \<and> (\<forall>h. confirms m h \<longrightarrow> consumes m h st2 st') \<and>
      st' = st2\<lparr>rs_holdouts := rs_holdouts st', rs_uses := rs_uses st'\<rparr>"
  proof (cases "sp_StudyType (em_Spec m) = ''confirmatory''")
    case False
    then have "st' = st2" using assms(1) steps by (simp add: registerResearchAttempt_def)
    then show ?thesis using locks False by (simp add: confirms_def)
  next
    case True
    then obtain h st3 where h: "sp_ConfirmatoryHoldout (em_Spec m) = Some h" "lock_holdout env m h st2 = Inr st3" "use_holdout env m h st3 = Inr st'"
      using assms(1) steps by (auto simp: registerResearchAttempt_def result_simps split: option.splits)
    show ?thesis using holdout_steps [OF h(2,3) locks unused] h(1) by (simp add: confirms_def)
  qed
  then have last_rows: "holdouts_inv st'" "accrues st2 st'" "\<And>h. confirms m h \<Longrightarrow> consumes m h st2 st'"
    and shape: "st' = st2\<lparr>rs_holdouts := rs_holdouts st', rs_uses := rs_uses st'\<rparr>" by blast+
  have tried_rows: "attempts_inv st2" "accrues st st2" "rs_attempts st2 = rs_attempts st @ [new_attempt env m]" using tried by blast+
  have rows: "rs_experiments st' = rs_experiments st2" "rs_attempts st' = rs_attempts st2" "rs_families st' = rs_families st2"
    "rs_folds st' = rs_folds st2" "rs_evidences st' = rs_evidences st2" "rs_outcomes st' = rs_outcomes st2"
    using only_holdouts [OF shape] by blast+
  have "attempts_inv st'" using tried_rows(1) by (simp add: attempts_inv_def rows)
  moreover have "outcomes_inv st'"
    by (rule outcomes_inv_mono [OF parts(3)]) (auto simp: rows st2 tried_rows(3))
  moreover have "folds_inv st'" using parts(4) by (simp add: folds_inv_def rows st2)
  moreover have "joins m row st st'"
    using last_rows(3) fresh tried_rows(3) by (auto simp: joins_def rows st2 consumes_def names)
  ultimately show ?thesis using last_rows tried_rows accrues_trans [of st st2 st'] by (simp add: research_inv_def)
qed

lemma same_commitments:
  "sp_StudyType (verified_in_place w spec) = sp_StudyType spec" "sp_FamilyID (verified_in_place w spec) = sp_FamilyID spec"
  "sp_ConfirmatoryHoldout (verified_in_place w spec) = sp_ConfirmatoryHoldout spec" "sp_Folds (verified_in_place w spec) = sp_Folds spec"
  by (simp_all add: verified_in_place_def split: sum.split prod.split)

text \<open>A call of \<^verbatim>\<open>CreateManifest\<close> leaves the tables as they are or adds one experiment.\<close>

lemma insert_experiment_Inr:
  assumes "insert_experiment env m row st = Inr (i, st')" and "research_inv st" and "ex_ID row = em_ID m"
  shows "i = em_ID m \<and> (st' = st \<and> em_ID m \<in> ex_ID ` set (rs_experiments st) \<or>
    research_inv st' \<and> accrues st st' \<and> joins m row st st')"
proof -
  have "st' = st \<and> em_ID m \<in> ex_ID ` set (rs_experiments st) \<or> em_ID m \<notin> ex_ID ` set (rs_experiments st) \<and>
      registerResearchAttempt env m (st\<lparr>rs_experiments := rs_experiments st @ [row]\<rparr>) = Inr st'" and "i = em_ID m"
    using assms(1,3) by (auto simp: insert_experiment_def rp_insert_def result_simps split: if_splits)
  then show ?thesis using register_joins [OF _ assms(2,3)] by blast
qed

lemma create_body_Inr:
  assumes "create_body env m row st = Inr (i, st')" and "research_inv st" and "ex_ID row = em_ID m"
  shows "st' = st \<and> i \<in> ex_ID ` set (rs_experiments st) \<or> i = em_ID m \<and> research_inv st' \<and> accrues st st' \<and> joins m row st st'"
proof (cases "insert_experiment env m row st = Inr (i, st')")
  case True
  show ?thesis using insert_experiment_Inr [OF True assms(2,3)] by auto
next
  case False
  then show ?thesis using assms(1)
    by (auto simp: create_body_def result_simps dest!: rp_first_Inr(2) split: option.splits if_splits)
qed

lemma CreateManifest_cases:
  assumes "research_inv st"
  obtains (unchanged) "snd (CreateManifestAuthenticated env m job comparison creator key st) = st"
  | (joined) row st' where "snd (CreateManifestAuthenticated env m job comparison creator key st) = st'" "research_inv st'" "accrues st st'"
      "joins m row st st'" "fst (CreateManifestAuthenticated env m job comparison creator key st) = LoadManifest env (em_ID m) st'"
      "manifest_Verify (re_study env) m = None"
proof -
  let ?run = "CreateManifestAuthenticated env m job comparison creator key st"
  show thesis
  proof (cases "snd ?run = st")
    case False
    let ?m = "m\<lparr>em_Spec := verified_in_place (re_study env) (em_Spec m)\<rparr>"
    obtain row i st' where body: "create_body env ?m row st = Inr (i, st')" "ex_ID row = em_ID m" "?run = (LoadManifest env i st', st')"
      "manifest_Verify (re_study env) m = None"
      using False
      by (auto simp: CreateManifestAuthenticated_def Let_def rp_transaction_def new_experiment_def Active_def
        split: if_splits option.splits sum.splits prod.splits)
    have names: "em_ID ?m = em_ID m" by simp
    have "i = em_ID m \<and> research_inv st' \<and> accrues st st' \<and> joins ?m row st st'"
      using create_body_Inr [OF body(1) assms, unfolded names, OF body(2)] False body(3) by auto
    moreover have "joins m row st st'" if "joins ?m row st st'"
      using that same_commitments [of "re_study env" "em_Spec m"] by (simp add: joins_def confirms_def consumes_def)
    ultimately show thesis using joined body by auto
  qed (rule unchanged)
qed

end
