(* ===== verification/Evidence_Laws.thy ===== *)
theory Evidence_Laws
  imports Registry_Laws
begin

text \<open>Recording evidence keeps the research tables consistent, and each experiment has at most one evidence and outcome.\<close>

section \<open>The statements\<close>

lemma insert_fold_Inr:
  assumes "insert_fold env row st = Inr st'"
  shows "st' = st \<or> st' = st\<lparr>rs_folds := rs_folds st @ [row]\<rparr> \<and>
    (fe_ExperimentID row, fe_FoldIndex row) \<notin> (\<lambda>f. (fe_ExperimentID f, fe_FoldIndex f)) ` set (rs_folds st)"
  using assms [unfolded insert_fold_def Let_def]
proof (cases rule: insert_or_keepE)
  case kept
  then show ?thesis by (auto simp: result_simps split: option.splits if_splits)
next
  case created
  then show ?thesis by (auto simp: list_ex_iff fold_at_def)
qed

lemma insert_folds_Inr:
  assumes "insert_folds env rows st = Inr st'" and "distinct (map (\<lambda>f. (fe_ExperimentID f, fe_FoldIndex f)) (rs_folds st))"
  shows "\<exists>fs. set fs \<subseteq> set rows \<and> st' = st\<lparr>rs_folds := rs_folds st @ fs\<rparr> \<and>
    distinct (map (\<lambda>f. (fe_ExperimentID f, fe_FoldIndex f)) (rs_folds st'))"
  using assms
proof (induction env rows st rule: insert_folds.induct)
  case (1 env st)
  then show ?case by (intro exI [where x = "[]"]) simp
next
  case (2 env row rows st)
  obtain st1 where st1: "insert_fold env row st = Inr st1" "insert_folds env rows st1 = Inr st'"
    using "2.prems"(1) by (auto simp: result_simps)
  obtain new where new: "set new \<subseteq> {row}" "st1 = st\<lparr>rs_folds := rs_folds st @ new\<rparr>"
      "distinct (map (\<lambda>f. (fe_ExperimentID f, fe_FoldIndex f)) (rs_folds st1))"
  proof (cases "st1 = st")
    case True
    then show thesis using that [of "[]"] "2.prems"(2) by simp
  next
    case False
    then show thesis using that [of "[row]"] insert_fold_Inr [OF st1(1)] "2.prems"(2) by auto
  qed
  then obtain fs where "set fs \<subseteq> set rows" "st' = st1\<lparr>rs_folds := rs_folds st1 @ fs\<rparr>"
      "distinct (map (\<lambda>f. (fe_ExperimentID f, fe_FoldIndex f)) (rs_folds st'))"
    using "2.IH" [OF st1(1) st1(2)] by blast
  then show ?case using new by (intro exI [where x = "new @ fs"]) auto
qed

lemma insert_root_Inr:
  assumes "insert_root env row st = Inr st'"
  shows "st' = st \<and> (\<exists>x \<in> set (rs_evidences st). ve_ExperimentID x = ve_ExperimentID row \<and> same_evidence_row x row) \<or>
    st' = st\<lparr>rs_evidences := rs_evidences st @ [row]\<rparr> \<and> ve_ExperimentID row \<notin> ve_ExperimentID ` set (rs_evidences st) \<and>
    ve_ID row \<notin> ve_ID ` set (rs_evidences st) \<and> ve_ExperimentID row \<in> ex_ID ` set (rs_experiments st)"
  using assms [unfolded insert_root_def]
proof (cases rule: insert_or_keepE)
  case kept
  then show ?thesis by (auto simp: result_simps dest!: rp_require_Inr split: if_splits)
next
  case created
  then show ?thesis by auto
qed

lemma record_outcome_Inr:
  assumes "record_outcome env m p now st = Inr st'"
  obtains a row where "a \<in> set (rs_attempts st)" "at_ExperimentID a = em_ID m" "oc_AttemptID row = at_ID a"
    "oc_ExperimentID row = em_ID m" "oc_EvidenceID row = pp_ID p" "oc_Status row = pp_Status p"
    "st' = st \<and> (\<exists>x \<in> set (rs_outcomes st). oc_AttemptID x = at_ID a \<and> oc_EvidenceID x = pp_ID p \<and> oc_Status x = pp_Status p) \<or>
     st' = st\<lparr>rs_outcomes := rs_outcomes st @ [row]\<rparr> \<and> at_ID a \<notin> oc_AttemptID ` set (rs_outcomes st)"
proof -
  obtain a payload where a: "a \<in> set (rs_attempts st)" "at_ExperimentID a = em_ID m"
      "insert_outcome env (new_outcome env a m p now payload) st = Inr st'"
    using assms unfolding record_outcome_def and_then_eq_Inr by (blast dest: rp_require_Inr)
  let ?row = "new_outcome env a m p now payload"
  have names: "oc_AttemptID ?row = at_ID a" "oc_ExperimentID ?row = em_ID m" "oc_EvidenceID ?row = pp_ID p" "oc_Status ?row = pp_Status p"
    by (simp_all add: new_outcome_def)
  have "st' = st \<and> (\<exists>x \<in> set (rs_outcomes st). oc_AttemptID x = at_ID a \<and> oc_EvidenceID x = pp_ID p \<and> oc_Status x = pp_Status p) \<or>
      st' = st\<lparr>rs_outcomes := rs_outcomes st @ [?row]\<rparr> \<and> at_ID a \<notin> oc_AttemptID ` set (rs_outcomes st)"
    using a(3) [unfolded insert_outcome_def]
  proof (cases rule: insert_or_keepE)
    case kept
    then show ?thesis by (auto simp: result_simps names dest!: rp_require_Inr split: if_splits)
  next
    case created
    then show ?thesis by (simp add: names)
  qed
  then show thesis using that a(1,2) names by blast
qed

section \<open>Recording keeps the tables\<close>

text \<open>The evidence of an experiment is the prepared one.\<close>

definition settled :: "ExperimentManifest \<Rightarrow> preparedEvidence \<Rightarrow> research \<Rightarrow> bool" where
  "settled m p st \<longleftrightarrow> (\<exists>v \<in> set (rs_evidences st). ve_ExperimentID v = em_ID m \<and> ve_ID v = pp_ID p \<and> ve_Status v = pp_Status p)"

lemma attempt_has_outcome:
  assumes "outcomes_inv st" and "distinct (map at_ID (rs_attempts st))" "distinct (map at_ExperimentID (rs_attempts st))"
    and "a \<in> set (rs_attempts st)" "at_ExperimentID a = i"
  shows "(\<exists>v \<in> set (rs_evidences st). ve_ExperimentID v = i) \<longleftrightarrow> at_ID a \<in> oc_AttemptID ` set (rs_outcomes st)"
proof
  assume "\<exists>v \<in> set (rs_evidences st). ve_ExperimentID v = i"
  then obtain oc where oc: "oc \<in> set (rs_outcomes st)" "oc_ExperimentID oc = i"
    using assms(1) unfolding outcomes_inv_def list_all2_conv_all_nth outcome_of_def by (metis in_set_conv_nth)
  then obtain b where "b \<in> set (rs_attempts st)" "at_ID b = oc_AttemptID oc" "at_ExperimentID b = i"
    using assms(1) unfolding outcomes_inv_def by metis
  moreover have "b = a" using calculation assms(3-5) by (auto simp: distinct_map dest: inj_onD)
  ultimately show "at_ID a \<in> oc_AttemptID ` set (rs_outcomes st)" using oc(1) by (metis image_eqI)
next
  assume "at_ID a \<in> oc_AttemptID ` set (rs_outcomes st)"
  then obtain oc where oc: "oc \<in> set (rs_outcomes st)" "oc_AttemptID oc = at_ID a" by auto
  then obtain b where "b \<in> set (rs_attempts st)" "at_ID b = at_ID a" "at_ExperimentID b = oc_ExperimentID oc"
    using assms(1) unfolding outcomes_inv_def by metis
  moreover have "b = a" using calculation assms(2,4) by (auto simp: distinct_map dest: inj_onD)
  ultimately have "oc_ExperimentID oc = i" using assms(5) by simp
  then show "\<exists>v \<in> set (rs_evidences st). ve_ExperimentID v = i"
    using assms(1) oc(1) unfolding outcomes_inv_def list_all2_conv_all_nth outcome_of_def by (metis in_set_conv_nth)
qed

lemma root_steps:
  assumes "outcomes_inv st" and "insert_root env (new_evidence_row env m p now) st = Inr st1" and "record_outcome env m p now st1 = Inr st2"
    and attempts: "distinct (map at_ID (rs_attempts st))" "distinct (map at_ExperimentID (rs_attempts st))"
  shows "outcomes_inv st2 \<and> accrues st st2 \<and> settled m p st2 \<and>
    (\<exists>vs os. st2 = st\<lparr>rs_evidences := rs_evidences st @ vs, rs_outcomes := rs_outcomes st @ os\<rparr>)"
proof -
  let ?v = "new_evidence_row env m p now"
  have v: "ve_ID ?v = pp_ID p" "ve_ExperimentID ?v = em_ID m" "ve_Status ?v = pp_Status p"
    "ve_SchemaVersion ?v = CompactEvidenceRootSchemaVersion"
    by (simp_all add: new_evidence_row_def)
  note root = insert_root_Inr [OF assms(2), unfolded v]
  have same: "rs_attempts st1 = rs_attempts st" "rs_outcomes st1 = rs_outcomes st" using root by auto
  obtain a row where a: "a \<in> set (rs_attempts st)" "at_ExperimentID a = em_ID m" "oc_AttemptID row = at_ID a"
      "oc_ExperimentID row = em_ID m" "oc_EvidenceID row = pp_ID p" "oc_Status row = pp_Status p"
    and st2: "st2 = st1 \<and> (\<exists>x \<in> set (rs_outcomes st). oc_AttemptID x = at_ID a \<and> oc_EvidenceID x = pp_ID p \<and> oc_Status x = pp_Status p) \<or>
      st2 = st1\<lparr>rs_outcomes := rs_outcomes st @ [row]\<rparr> \<and> at_ID a \<notin> oc_AttemptID ` set (rs_outcomes st)"
    using record_outcome_Inr [OF assms(3), unfolded same] by metis
  have paired: "(\<exists>v \<in> set (rs_evidences st). ve_ExperimentID v = em_ID m) \<longleftrightarrow> at_ID a \<in> oc_AttemptID ` set (rs_outcomes st)"
    using assms(1) attempts a(1,2) by (rule attempt_has_outcome)
  have outcome: "outcome_of ?v row" using a by (simp add: outcome_of_def v)
  from root show ?thesis
  proof (elim disjE conjE)
    assume kept: "st1 = st" "\<exists>x \<in> set (rs_evidences st). ve_ExperimentID x = em_ID m \<and> same_evidence_row x ?v"
    then have "st2 = st" using st2 paired by auto
    moreover have "settled m p st" using kept(2) by (auto simp: settled_def same_evidence_row_def v)
    ultimately show ?thesis using assms(1) by (intro conjI exI [where x = "[]"]) auto
  next
    assume new: "st1 = st\<lparr>rs_evidences := rs_evidences st @ [?v]\<rparr>" "em_ID m \<notin> ve_ExperimentID ` set (rs_evidences st)"
      "pp_ID p \<notin> ve_ID ` set (rs_evidences st)" "em_ID m \<in> ex_ID ` set (rs_experiments st)"
    then have "at_ID a \<notin> oc_AttemptID ` set (rs_outcomes st)" using paired by (metis image_eqI)
    then have "\<not> (\<exists>x \<in> set (rs_outcomes st). oc_AttemptID x = at_ID a \<and> oc_EvidenceID x = pp_ID p \<and> oc_Status x = pp_Status p)"
      by (metis image_eqI)
    then have st2': "st2 = st\<lparr>rs_evidences := rs_evidences st @ [?v], rs_outcomes := rs_outcomes st @ [row]\<rparr>"
      using st2 new(1) by auto
    have "outcomes_inv st2"
      using assms(1) new outcome a by (auto simp: outcomes_inv_def st2' v list_all2_appendI)
    then show ?thesis by (auto simp: st2' accrues_def settled_def v)
  qed
qed

lemma persist_body_Inr:
  assumes "persist_body env m p now st = Inr (u, st')" and inv: "research_inv st"
  shows "research_inv st' \<and> accrues st st' \<and> settled m p st' \<and> rs_experiments st' = rs_experiments st \<and> rs_attempts st' = rs_attempts st
    \<and> rs_holdouts st' = rs_holdouts st \<and> rs_uses st' = rs_uses st"
proof -
  have parts: "attempts_inv st" "holdouts_inv st" "outcomes_inv st" "folds_inv st" using inv by (simp_all add: research_inv_def)
  obtain st1 st2 where steps: "insert_folds env (map (new_fold_row env m (pp_Status p) now) (pp_Folds p)) st = Inr st1"
      "insert_root env (new_evidence_row env m p now) st1 = Inr st2" "record_outcome env m p now st2 = Inr st'"
    using assms(1) by (auto simp: persist_body_def and_then_eq_Inr)
  have attempts: "distinct (map at_ID (rs_attempts st))" "distinct (map at_ExperimentID (rs_attempts st))"
    using parts(1) by (simp_all add: attempts_inv_def)
  obtain fs where fs: "set fs \<subseteq> set (map (new_fold_row env m (pp_Status p) now) (pp_Folds p))"
      "st1 = st\<lparr>rs_folds := rs_folds st @ fs\<rparr>" "distinct (map (\<lambda>f. (fe_ExperimentID f, fe_FoldIndex f)) (rs_folds st1))"
    using insert_folds_Inr [OF steps(1)] parts(4) unfolding folds_inv_def by blast
  have "outcomes_inv st1" using parts(3) by (simp add: outcomes_inv_def fs(2))
  then obtain vs os where last: "outcomes_inv st'" "accrues st1 st'" "settled m p st'"
      and st': "st' = st1\<lparr>rs_evidences := rs_evidences st1 @ vs, rs_outcomes := rs_outcomes st1 @ os\<rparr>"
    using root_steps [OF _ steps(2,3)] attempts by (auto simp: fs(2))
  have "\<exists>v \<in> set (rs_evidences st'). ve_ExperimentID v = fe_ExperimentID f \<and> ve_Status v = fe_Status f" if "f \<in> set fs" for f
    using that fs(1) last(3) by (fastforce simp: settled_def new_fold_row_def)
  then have "folds_inv st'" using parts(4) fs(3) unfolding folds_inv_def by (auto simp: st' fs(2))
  moreover have "attempts_inv st'" "holdouts_inv st'" using parts by (simp_all add: attempts_inv_def holdouts_inv_def st' fs(2))
  ultimately show ?thesis using last(1,3) by (simp add: research_inv_def) (simp add: accrues_def st' fs(2))
qed

lemma decoded_manifest_ID: "decoded_manifest env row = Inr m \<Longrightarrow> em_ID m = ex_ID row"
  by (cases "re_UnmarshalSpec env (ex_ContentJSON row)") (auto simp: decoded_manifest_def result_simps Let_def split: if_splits)

lemma LoadManifest_Inr:
  assumes "LoadManifest env i st = Inr m"
  obtains row where "row \<in> set (rs_experiments st)" "ex_ID row = i" "em_ID m = i" "decoded_manifest env row = Inr m"
  using assms unfolding LoadManifest_def and_then_eq_Inr by (blast dest: rp_require_Inr decoded_manifest_ID)

lemma PersistEvidence_cases:
  assumes "research_inv st"
  obtains (unchanged) "snd (PersistEvidence env i result failed now st) = st"
  | (settled) m p where "LoadManifest (ee_repo env) i st = Inr m" "em_ID m = i"
      "prepareEvidenceForPersistence env m result failed = Inr p"
      "settled m p (snd (PersistEvidence env i result failed now st))"
      "fst (PersistEvidence env i result failed now st) = plain (LoadEvidence env (pp_ID p) (snd (PersistEvidence env i result failed now st)))"
      "research_inv (snd (PersistEvidence env i result failed now st))" "accrues st (snd (PersistEvidence env i result failed now st))"
      "rs_experiments (snd (PersistEvidence env i result failed now st)) = rs_experiments st"
      "rs_uses (snd (PersistEvidence env i result failed now st)) = rs_uses st"
proof (cases "snd (PersistEvidence env i result failed now st) = st")
  case False
  let ?run = "PersistEvidence env i result failed now st"
  obtain m p st' where run: "LoadManifest (ee_repo env) i st = Inr m" "prepareEvidenceForPersistence env m result failed = Inr p"
      "persist_body env m p now st = Inr ((), st')" "?run = (plain (LoadEvidence env (pp_ID p) st'), st')"
    using False by (auto simp: PersistEvidence_def rp_transaction_def split: if_splits sum.splits prod.splits option.splits)
  then have "em_ID m = i" by (blast elim: LoadManifest_Inr)
  then show thesis using settled [OF run(1) _ run(2)] persist_body_Inr [OF run(3) assms] run(4) by simp
qed (rule unchanged)

lemma CreateManifest_keeps:
  assumes "research_inv st"
  shows "research_inv (snd (CreateManifestAuthenticated env m job comparison creator key st)) \<and>
    accrues st (snd (CreateManifestAuthenticated env m job comparison creator key st))"
  by (cases rule: CreateManifest_cases [OF assms, of env m job comparison creator key]) (simp_all add: assms)

lemma PersistEvidence_keeps:
  assumes "research_inv st"
  shows "research_inv (snd (PersistEvidence env i result failed now st)) \<and> accrues st (snd (PersistEvidence env i result failed now st))"
  by (cases rule: PersistEvidence_cases [OF assms, of env i result failed now]) (simp_all add: assms)

section \<open>Runs\<close>

text \<open>What a run of the repository does to its tables. Every call may see another database and another clock.\<close>

inductive research_step :: "research \<Rightarrow> research \<Rightarrow> bool" where
  creating: "st' = snd (CreateManifestAuthenticated env m job comparison creator key st) \<Longrightarrow> research_step st st'"
| recording: "st' = snd (PersistEvidence eenv i result failed now st) \<Longrightarrow> research_step st st'"

locale research_operation =
  fixes run :: "'env \<Rightarrow> 'c \<Rightarrow> research \<Rightarrow> 'r \<times> research"
  assumes keeps: "research_inv st \<Longrightarrow> research_inv (snd (run env c st)) \<and> accrues st (snd (run env c st))"
begin

lemma keeps_inv: "research_inv st \<Longrightarrow> research_inv (snd (run env c st))"
  using keeps by blast

lemma keeps_rows: "research_inv st \<Longrightarrow> accrues st (snd (run env c st))"
  using keeps by blast

end

definition creating_run :: "repo_env \<Rightarrow> ExperimentManifest \<times> uint option \<times> string option \<times> string \<times> string \<Rightarrow> research \<Rightarrow>
   ExperimentManifest sresult \<times> research" where
  "creating_run env c st = (case c of (m, job, comparison, creator, key) \<Rightarrow>
     CreateManifestAuthenticated env m job comparison creator key st)"

definition recording_run :: "evidence_env \<Rightarrow> string \<times> ResearchResult option \<times> evidence_error option \<times> time \<Rightarrow> research \<Rightarrow>
   LoadedEvidence eresult \<times> research" where
  "recording_run env c st = (case c of (i, result, failed, now) \<Rightarrow> PersistEvidence env i result failed now st)"

interpretation creating: research_operation creating_run
  using CreateManifest_keeps by unfold_locales (auto simp: creating_run_def split: prod.splits)

interpretation recording: research_operation recording_run
  using PersistEvidence_keeps by unfold_locales (auto simp: recording_run_def split: prod.splits)

lemma research_step_keeps: "research_step st st' \<Longrightarrow> research_inv st \<Longrightarrow> research_inv st' \<and> accrues st st'"
proof (induction rule: research_step.induct)
  case (creating st' env m job comparison creator key st)
  then show ?case
    using creating.keeps [of st env "(m, job, comparison, creator, key)"] by (simp add: creating_run_def)
next
  case (recording st' eenv i result failed now st)
  then show ?case using recording.keeps [of st eenv "(i, result, failed, now)"] by (simp add: recording_run_def)
qed

lemma research_steps_keep: "rtranclp research_step st st' \<Longrightarrow> research_inv st \<Longrightarrow> research_inv st' \<and> accrues st st'"
  by (induction rule: rtranclp_induct) (auto dest: research_step_keeps accrues_trans)

end
