(* ===== verification/Registry_Samples.thy ===== *)
theory Registry_Samples
  imports Evidence_Laws Manifest_Laws Study_Samples
begin

text \<open>
  A confirmatory experiment registered on an empty database, its failed run recorded, and the same study sealed a second
  time: the states of that run, on which the properties of the registry are applied.
\<close>

definition registry_env :: repo_env where
  "registry_env = \<lparr>re_study = study_sample_env, re_connected = True, re_db = (\<lambda>_ _. None),
     re_active = \<lparr>as_flags = zero_Flags, as_snapshotID = '''', as_authority = '''', as_initialized = False\<rparr>,
     re_timestamp = (\<lambda>t. t div 1000 * 1000), re_jsonb = (\<lambda>s. s), re_UnmarshalSpec = (\<lambda>_. Inr sealed_spec)\<rparr>"

definition empty_registry :: research where
  "empty_registry = \<lparr>rs_experiments = [], rs_families = [], rs_attempts = [], rs_holdouts = [], rs_uses = [], rs_folds = [],
     rs_evidences = [], rs_outcomes = []\<rparr>"

definition sample_holdout :: ConfirmatoryHoldoutContract where
  "sample_holdout = \<lparr>ch_ID = hex64, ch_DatasetDigest = hex64, ch_Interval = \<lparr>iv_Start = 1000, iv_End = 2000\<rparr>\<rparr>"

definition experiment_row :: ValidationExperiment where
  "experiment_row = new_experiment registry_env sealed_sample ''spec'' None None ''system'' None"

definition registered_sample :: research where
  "registered_sample = empty_registry\<lparr>rs_experiments := [experiment_row],
     rs_families := [\<lparr>rf_ID = hex64, rf_ContentJSON = ''{}'', rf_ContentDigest = hex64, rf_CreatedAt = 5000\<rparr>],
     rs_attempts := [new_attempt registry_env sealed_sample],
     rs_holdouts := [\<lparr>ho_ID = hex64, ho_FamilyID = hex64, ho_DatasetDigest = hex64, ho_StartAt = 1000, ho_EndAt = 2000,
       ho_ContentDigest = hex64, ho_LockedAt = 5000\<rparr>],
     rs_uses := [\<lparr>hu_ID = hex64, hu_HoldoutID = hex64, hu_ExperimentID = hex64, hu_CreatedAt = 5000\<rparr>]\<rparr>"

lemma registry_fields [simp]:
  "re_study registry_env = study_sample_env" "re_connected registry_env" "re_db registry_env call st = None"
  "re_timestamp registry_env t = t div 1000 * 1000" "re_jsonb registry_env s = s" "re_UnmarshalSpec registry_env s = Inr sealed_spec"
  by (simp_all add: registry_env_def)

lemma sealed_fields [simp]:
  "em_ID sealed_sample = hex64" "em_ContentID sealed_sample = hex64" "em_ContentDigest sealed_sample = hex64"
  "em_CreatedAt sealed_sample = 5000" "em_Spec sealed_sample = sealed_spec" "em_Spec later_sample = sealed_spec"
  "sp_FamilyID sealed_spec = hex64" "sp_StudyType sealed_spec = ''confirmatory''" "sp_ConfirmatoryHoldout sealed_spec = Some sample_holdout"
  "ap_Digest (sp_AuthorityPolicy sealed_spec) = hex64"
  by (simp_all add: sealed_sample_def later_sample_def sealed_spec_def sample_spec_def sample_holdout_def sample_policy_envelope_def)

lemma hex64_facts [simp]: "length hex64 = 64" "hex64 \<noteq> []" "last hex64 = CHR ''a''"
  by (simp_all add: hex64_def)

lemma sample_digests [simp]: "digest study_sample_env ''{}'' = hex64" "digest study_sample_env (s @ hex64) = hex64"
  "digest study_sample_env (s @ c # hex64) = hex64" "encoded study_sample_env x = ''{}''" "cd_Marshal (se_codec study_sample_env) x = Inr ''{}''"
  "se_MarshalSpec study_sample_env y = Inr ''spec''"
  by (simp_all add: digest_def study_sample_env_def sample_hash_def encoded_def the_ok_def)

lemma sealed_again: "CanonicalManifestSpec study_sample_env sealed_spec = Inr (''spec'', sealed_spec)"
  using canonical_again [OF sample_canonical] sample_canonical by simp

lemma sealed_digests: "digest study_sample_env ''spec'' = hex64" "record_id study_sample_env hex64 5000 = hex64"
  "record_id study_sample_env hex64 7000 = replicate 64 (CHR ''7'')"
  by (simp_all add: digest_def record_id_def study_sample_env_def sample_clock_def sample_hashes)

lemma sealed_verifies: "manifest_Verify study_sample_env sealed_sample = None" "manifest_Verify study_sample_env later_sample = None"
  "verified_in_place study_sample_env sealed_spec = sealed_spec"
  by (simp_all add: manifest_Verify_def sealed_again Let_def sealed_digests verified_in_place_def)
    (simp_all add: later_sample_def sealed_digests)

lemma registered: "CreateManifest registry_env sealed_sample None None empty_registry = (LoadManifest registry_env hex64 registered_sample, registered_sample)"
proof -
  have row: "ex_ID experiment_row = hex64" "ex_ContentID experiment_row = hex64" "ex_ContentDigest experiment_row = hex64"
    "ex_IdempotencyKey experiment_row = None"
    by (simp_all add: experiment_row_def new_experiment_def Active_def)
  have family: "register_family registry_env sealed_sample (empty_registry\<lparr>rs_experiments := [experiment_row]\<rparr>) =
      Inr (empty_registry\<lparr>rs_experiments := [experiment_row],
        rs_families := [\<lparr>rf_ID = hex64, rf_ContentJSON = ''{}'', rf_ContentDigest = hex64, rf_CreatedAt = 5000\<rparr>]\<rparr>)" (is "_ = Inr ?st1")
    by (simp add: register_family_def family_scope_def rp_insert_def rp_exec_def empty_registry_def Let_def)
  have attempt: "register_attempt registry_env sealed_sample ?st1 =
      Inr (?st1\<lparr>rs_attempts := [new_attempt registry_env sealed_sample]\<rparr>)" (is "_ = Inr ?st2")
    by (simp add: register_attempt_def rp_insert_def rp_exec_def empty_registry_def Let_def foreign_key_def row) (simp add: new_attempt_def Let_def)
  have lock: "lock_holdout registry_env sealed_sample sample_holdout ?st2 =
      Inr (?st2\<lparr>rs_holdouts := rs_holdouts registered_sample\<rparr>)" (is "_ = Inr ?st3")
    by (simp add: lock_holdout_def new_holdout_def rp_insert_def rp_exec_def empty_registry_def registered_sample_def Let_def
      foreign_key_def sample_holdout_def)
  have use_it: "use_holdout registry_env sealed_sample sample_holdout ?st3 = Inr registered_sample"
    by (simp add: use_holdout_def new_use_def rp_insert_def rp_exec_def empty_registry_def registered_sample_def Let_def
      foreign_key_def sample_holdout_def newline_def row)
  have "registerResearchAttempt registry_env sealed_sample (empty_registry\<lparr>rs_experiments := [experiment_row]\<rparr>) = Inr registered_sample"
    by (simp add: registerResearchAttempt_def family attempt lock use_it)
  then have "insert_experiment registry_env sealed_sample experiment_row empty_registry = Inr (hex64, registered_sample)"
    by (simp add: insert_experiment_def rp_insert_def rp_exec_def row) (simp add: empty_registry_def)
  then have "create_body registry_env sealed_sample experiment_row empty_registry = Inr (hex64, registered_sample)"
    by (simp add: create_body_def row)
  moreover have "trim_space ''system'' = ''system''" "trim_space '''' = ''''" by code_simp+
  moreover have same: "sealed_sample\<lparr>em_Spec := sealed_spec\<rparr> = sealed_sample" by (simp add: sealed_sample_def)
  ultimately show ?thesis
    by (simp add: CreateManifest_def CreateManifestAuthenticated_def sealed_verifies rp_transaction_def Let_def same experiment_row_def [symmetric])
qed

lemma registered_loads: "LoadManifest registry_env hex64 registered_sample = Inr sealed_sample"
proof -
  have row: "ex_ID experiment_row = hex64" "ex_ContentID experiment_row = hex64" "ex_ContentDigest experiment_row = hex64"
    "ex_ContentJSON experiment_row = ''spec''" "ex_CreatedAt experiment_row = 5000" "ex_AuthorityPolicyDigest experiment_row = hex64"
    by (simp_all add: experiment_row_def new_experiment_def Active_def with_default_def)
  have m: "\<lparr>em_ID = hex64, em_ContentID = hex64, em_ContentDigest = hex64, em_CreatedAt = 5000, em_Spec = sealed_spec\<rparr> = sealed_sample"
    by (simp add: sealed_sample_def)
  have "decoded_manifest registry_env experiment_row = Inr sealed_sample"
    by (simp add: decoded_manifest_def row MaxEvidenceBytes_def m sealed_verifies Let_def)
  then show ?thesis
    by (simp add: LoadManifest_def rp_require_def rp_first_def rp_exec_def registered_sample_def row)
qed

lemma registry_start: "unresearched empty_registry"
  by (simp add: unresearched_def empty_registry_def)

lemma registered_step: "research_step empty_registry registered_sample"
  by (rule research_step.creating [of _ registry_env sealed_sample None None "''system''" "''''"])
    (simp add: registered [unfolded CreateManifest_def])

section \<open>The failed run\<close>

text \<open>The source of the samples failed; the diagnostic is written as the outcome of the attempt.\<close>

definition failed_run :: evidence_error where
  "failed_run = EvidenceError (DiagnosticError ''incomplete_coverage'' '''' ''gap'')"

definition failed_root :: compactEvidenceRoot where
  "failed_root = \<lparr>co_SchemaVersion = CompactEvidenceRootSchemaVersion, co_ExperimentID = hex64, co_Status = ''failed'', co_Result = None,
     co_Failure = Some (''incomplete_coverage'', '''', ''gap'')\<rparr>"

definition sample_evidence_env :: evidence_env where
  "sample_evidence_env = \<lparr>ee_repo = registry_env, ee_DeriveFoldMetrics = Inr, ee_ValidateFoldMetrics = (\<lambda>_ _. None),
     ee_Evaluate = (\<lambda>_ _. Inr \<lparr>ea_Members = [], ea_Passed = True\<rparr>), ee_UnmarshalRoot = (\<lambda>_. Inr failed_root),
     ee_UnmarshalFold = (\<lambda>_. Inl ''none''), ee_UnmarshalLegacy = (\<lambda>_. Inl ''none''), ee_Error = (\<lambda>_. ''error'')\<rparr>"

definition failed_row :: "time \<Rightarrow> ValidationEvidence" where
  "failed_row t = \<lparr>ve_ID = hex64, ve_ExperimentID = hex64, ve_SchemaVersion = CompactEvidenceRootSchemaVersion, ve_Status = ''failed'',
     ve_EvidenceJSON = ''{}'', ve_EvidenceDigest = hex64, ve_CreatedAt = t\<rparr>"

definition failed_outcome :: "time \<Rightarrow> ResearchAttemptOutcome" where
  "failed_outcome t = \<lparr>oc_ID = hex64, oc_AttemptID = at_ID (new_attempt registry_env sealed_sample), oc_ExperimentID = hex64,
     oc_EvidenceID = hex64, oc_Status = ''failed'', oc_ContentDigest = hex64, oc_CreatedAt = t\<rparr>"

definition concluded_sample :: research where
  "concluded_sample = registered_sample\<lparr>rs_evidences := [failed_row 9000], rs_outcomes := [failed_outcome 9000]\<rparr>"

definition failed_evidence :: LoadedEvidence where
  "failed_evidence = \<lparr>ld_ID = hex64, ld_ExperimentID = hex64, ld_Status = ''failed'', ld_Result = None,
     ld_Failure = Some (''incomplete_coverage'', '''', ''gap''), ld_CreatedAt = 9000\<rparr>"

definition failed_prepared :: preparedEvidence where
  "failed_prepared = \<lparr>pp_RootBytes = ''{}'', pp_RootDigest = hex64, pp_ID = hex64, pp_Status = ''failed'', pp_Folds = []\<rparr>"

lemma evidence_fields [simp]:
  "ee_repo sample_evidence_env = registry_env" "ee_UnmarshalRoot sample_evidence_env s = Inr failed_root"
  by (simp_all add: sample_evidence_env_def)

lemma failed_prepares:
  "prepareEvidenceForPersistence sample_evidence_env sealed_sample None (Some failed_run) = Inr failed_prepared"
  by (simp add: prepareEvidenceForPersistence_def sealed_verifies root_of_def plain_def checkRootEvidenceSize_def MaxEvidenceBytes_def
    failure_def newline_def Let_def failed_prepared_def)

lemma sample_attempt: "rs_attempts registered_sample = [new_attempt registry_env sealed_sample]"
  "at_ExperimentID (new_attempt registry_env sealed_sample) = hex64"
  by (simp_all add: registered_sample_def new_attempt_def Let_def)

definition rooted_sample :: research where
  "rooted_sample = registered_sample\<lparr>rs_evidences := [failed_row 9000]\<rparr>"

lemma sample_rows_stored [simp]:
  "rs_experiments registered_sample = [experiment_row]" "rs_evidences registered_sample = []" "rs_outcomes registered_sample = []"
  "rs_experiments concluded_sample = [experiment_row]" "rs_attempts concluded_sample = rs_attempts registered_sample"
  "ex_ID experiment_row = hex64" "rs_folds concluded_sample = []" "rs_evidences concluded_sample = [failed_row 9000]"
  "rs_outcomes concluded_sample = [failed_outcome 9000]"
  by (simp_all add: registered_sample_def concluded_sample_def empty_registry_def experiment_row_def new_experiment_def Active_def)

lemma failed_rows [simp]:
  "ve_ID (failed_row t) = hex64" "ve_ExperimentID (failed_row t) = hex64" "ve_SchemaVersion (failed_row t) = CompactEvidenceRootSchemaVersion"
  "ve_Status (failed_row t) = ''failed''" "ve_EvidenceJSON (failed_row t) = ''{}''" "ve_EvidenceDigest (failed_row t) = hex64"
  "ve_CreatedAt (failed_row t) = t" "oc_ID (failed_outcome t) = hex64" "oc_EvidenceID (failed_outcome t) = hex64"
  "oc_AttemptID (failed_outcome t) = at_ID (new_attempt registry_env sealed_sample)" "oc_Status (failed_outcome t) = ''failed''"
  by (simp_all add: failed_row_def failed_outcome_def)

lemma new_rows:
  "new_evidence_row sample_evidence_env sealed_sample failed_prepared t = failed_row (t div 1000 * 1000)"
  "new_outcome sample_evidence_env (new_attempt registry_env sealed_sample) sealed_sample failed_prepared t ''{}'' =
     failed_outcome (t div 1000 * 1000)"
  by (simp_all add: new_evidence_row_def new_outcome_def failed_row_def failed_outcome_def failed_prepared_def newline_def)

lemma root_written:
  "insert_root sample_evidence_env (new_evidence_row sample_evidence_env sealed_sample failed_prepared 9000) registered_sample = Inr rooted_sample"
  "insert_root sample_evidence_env (new_evidence_row sample_evidence_env sealed_sample failed_prepared 9500) concluded_sample = Inr concluded_sample"
  by (simp_all add: insert_root_def new_rows rp_insert_def rp_require_def rp_first_def rp_exec_def same_evidence_row_def rooted_sample_def
    failure_def foreign_key_def)

lemma outcome_written:
  "record_outcome sample_evidence_env sealed_sample failed_prepared 9000 rooted_sample = Inr concluded_sample"
  "record_outcome sample_evidence_env sealed_sample failed_prepared 9500 concluded_sample = Inr concluded_sample"
  by (simp_all add: record_outcome_def insert_outcome_def new_rows rp_insert_def rp_require_def rp_first_def rp_exec_def rooted_sample_def
    sample_attempt failure_def foreign_key_def) (simp add: concluded_sample_def)

lemma failed_written:
  "persist_body sample_evidence_env sealed_sample failed_prepared 9000 registered_sample = Inr ((), concluded_sample)"
  "persist_body sample_evidence_env sealed_sample failed_prepared 9500 concluded_sample = Inr ((), concluded_sample)"
proof -
  have "pp_Folds failed_prepared = []" by (simp add: failed_prepared_def)
  then show "persist_body sample_evidence_env sealed_sample failed_prepared 9000 registered_sample = Inr ((), concluded_sample)"
    "persist_body sample_evidence_env sealed_sample failed_prepared 9500 concluded_sample = Inr ((), concluded_sample)"
    by (simp_all add: persist_body_def root_written outcome_written)
qed

lemma concluded_loads: "LoadManifest registry_env hex64 concluded_sample = Inr sealed_sample"
  using registered_loads by (simp add: LoadManifest_def rp_require_def rp_first_def rp_exec_def)

lemma failed_loads: "LoadEvidence sample_evidence_env hex64 concluded_sample = Inr failed_evidence"
proof -
  note loads = concluded_loads
  have "hydratePreparedEvidence sample_evidence_env sealed_sample ''{}'' [] =
      Inr (failed_evidence\<lparr>ld_ID := '''', ld_CreatedAt := 0\<rparr>)"
    by (simp add: hydratePreparedEvidence_def checkRootEvidenceSize_def MaxEvidenceBytes_def failure_def Let_def)
      (simp add: failed_root_def failed_evidence_def)
  moreover have "co_ExperimentID failed_root = hex64" "co_Status failed_root = ''failed''" "co_Result failed_root = None"
    "co_SchemaVersion failed_root = CompactEvidenceRootSchemaVersion"
    by (simp_all add: failed_root_def)
  ultimately have "loadCompactEvidenceSnapshot sample_evidence_env (failed_row 9000) concluded_sample = Inr failed_evidence"
    by (simp add: loadCompactEvidenceSnapshot_def loads rp_exec_def fold_rows_def newline_def Let_def) (simp add: failed_evidence_def)
  then show ?thesis
    by (simp add: LoadEvidence_def rp_require_def rp_first_def rp_exec_def loadCompactEvidence_def MaxEvidenceBytes_def Let_def)
qed

lemma concluded:
  "PersistEvidence sample_evidence_env hex64 None (Some failed_run) 9000 registered_sample = (Inr failed_evidence, concluded_sample)"
  "PersistEvidence sample_evidence_env hex64 None (Some failed_run) 9500 concluded_sample = (Inr failed_evidence, concluded_sample)"
proof -
  have "pp_ID failed_prepared = hex64" by (simp add: failed_prepared_def)
  then show
    "PersistEvidence sample_evidence_env hex64 None (Some failed_run) 9000 registered_sample = (Inr failed_evidence, concluded_sample)"
    "PersistEvidence sample_evidence_env hex64 None (Some failed_run) 9500 concluded_sample = (Inr failed_evidence, concluded_sample)"
    by (simp_all add: PersistEvidence_def registered_loads concluded_loads failed_prepares failed_written failed_loads rp_transaction_def plain_def)
qed

lemma concluded_step: "rtranclp research_step registered_sample concluded_sample"
  by (rule r_into_rtranclp, rule research_step.recording [of _ sample_evidence_env hex64 None "Some failed_run" 9000])
    (simp add: concluded)

lemma concluded_steps: "rtranclp research_step empty_registry concluded_sample"
  using registered_step concluded_step by (rule converse_rtranclp_into_rtranclp)

lemma registered_steps: "rtranclp research_step empty_registry registered_sample"
  by (rule r_into_rtranclp, rule registered_step)

end
