(* ===== verification/Registry_Properties.thy ===== *)
theory Registry_Properties
  imports Registry_Samples
begin

text \<open>
  What the research controls guarantee over every run of the repository: each experiment counts once, a confirmatory
  holdout is used once, and neither a manifest nor an outcome changes after it was recorded.
\<close>

section \<open>Reading\<close>

lemma find_by_key:
  assumes "distinct (map key rows)" and "x \<in> set rows"
  shows "find (\<lambda>y. key y = key x) (sort_key key rows) = Some x"
proof -
  obtain y where y: "find (\<lambda>y. key y = key x) (sort_key key rows) = Some y"
    using assms(2) find_None_iff [of "\<lambda>y. key y = key x" "sort_key key rows"] by fastforce
  then obtain i where i: "i < length (sort_key key rows)" "key (sort_key key rows ! i) = key x" "y = sort_key key rows ! i"
    unfolding find_Some_iff by blast
  then have "y \<in> set (sort_key key rows)" by (metis nth_mem)
  then have "y = x" using assms i(2,3) inj_onD [of key "set rows" y x] by (simp add: distinct_map)
  then show ?thesis using y by simp
qed

lemma LoadManifest_row:
  assumes "attempts_inv st" and "row \<in> set (rs_experiments st)" and "re_db env (ReadCall ''validation_experiments'') st = None"
  shows "LoadManifest env (ex_ID row) st = decoded_manifest env row"
proof -
  have "find (\<lambda>x. ex_ID x = ex_ID row) (sort_key ex_ID (rs_experiments st)) = Some row"
    using assms(1,2) by (intro find_by_key) (simp_all add: attempts_inv_def)
  then show ?thesis using assms(3) by (simp add: LoadManifest_def rp_require_def rp_first_def rp_exec_def)
qed

section \<open>Experiments\<close>

text \<open>C34: No run is forgotten: on a database that only the repository wrote to, every experiment has exactly one attempt in its
  family, registered in the same transaction, and every evidence, failed runs included, has exactly one outcome with the
  status of that evidence; no experiment has two outcomes. The number of attempts of a family is thus the number of the
  candidates that were tried.\<close>

theorem every_run_counts:
  assumes "unresearched st0" and "rtranclp research_step st0 st"
  shows "map at_ExperimentID (rs_attempts st) = map ex_ID (rs_experiments st) \<and> distinct (map ex_ID (rs_experiments st)) \<and>
    map oc_EvidenceID (rs_outcomes st) = map ve_ID (rs_evidences st) \<and>
    map oc_Status (rs_outcomes st) = map ve_Status (rs_evidences st) \<and> distinct (map oc_ExperimentID (rs_outcomes st))"
proof -
  have inv: "attempts_inv st" "outcomes_inv st"
    using research_steps_keep [OF assms(2) unresearched_inv [OF assms(1)]] by (simp_all add: research_inv_def)
  have "map oc_EvidenceID (rs_outcomes st) = map ve_ID (rs_evidences st)" "map oc_Status (rs_outcomes st) = map ve_Status (rs_evidences st)"
    "map oc_ExperimentID (rs_outcomes st) = map ve_ExperimentID (rs_evidences st)"
    using inv(2) by (auto simp: outcomes_inv_def list_all2_conv_all_nth outcome_of_def intro: nth_equalityI)
  then show ?thesis using inv by (auto simp: attempts_inv_def outcomes_inv_def)
qed

theorem every_run_counts_witness:
  "map at_ExperimentID (rs_attempts concluded_sample) = [hex64] \<and> map oc_Status (rs_outcomes concluded_sample) = [''failed'']"
  using every_run_counts [OF registry_start concluded_steps] by simp

text \<open>C35: A confirmatory holdout is used up by the first experiment registered on it: a later confirmatory experiment on the
  same holdout, or in the same family with any other holdout, is not registered and changes nothing, whatever ran in
  between, also when the first experiment failed.\<close>

theorem holdout_is_single_use:
  assumes "unresearched st0" and "rtranclp research_step st0 st"
    and "snd (CreateManifestAuthenticated env m job comparison creator key st) = st1"
    and "em_ID m \<notin> ex_ID ` set (rs_experiments st)" "em_ID m \<in> ex_ID ` set (rs_experiments st1)" "confirms m h"
    and "rtranclp research_step st1 st2"
    and "confirms m' h'" "ch_ID h' = ch_ID h \<or> sp_FamilyID (em_Spec m') = sp_FamilyID (em_Spec m)"
  shows "snd (CreateManifestAuthenticated env' m' job' comparison' creator' key' st2) = st2"
proof (rule ccontr)
  let ?st3 = "snd (CreateManifestAuthenticated env' m' job' comparison' creator' key' st2)"
  assume "?st3 \<noteq> st2"
  have inv: "research_inv st" using research_steps_keep [OF assms(2) unresearched_inv [OF assms(1)]] by blast
  obtain row where joined: "joins m row st st1" "research_inv st1"
    using CreateManifest_cases [OF inv, of env m job comparison creator key] assms(3-5) by metis
  have later: "research_inv st2" "accrues st1 st2" using research_steps_keep [OF assms(7) joined(2)] by blast+
  obtain row' where second: "joins m' row' st2 ?st3" "research_inv ?st3" "accrues st2 ?st3"
    using CreateManifest_cases [OF later(1), of env' m' job' comparison' creator' key'] \<open>?st3 \<noteq> st2\<close> by metis
  have used: "consumes m h st st1" "consumes m' h' st2 ?st3" using joined(1) second(1) assms(6,8) by (simp_all add: joins_def)
  have gone: "ch_ID h \<in> hu_HoldoutID ` set (rs_uses st2)"
    using used(1) accrued_rows(5) [OF later(2)] unfolding consumes_def by (metis image_eqI subsetD)
  then have other: "ch_ID h' \<noteq> ch_ID h" using used(2) by (auto simp: consumes_def)
  obtain x x' where x: "x \<in> set (rs_holdouts ?st3)" "ho_ID x = ch_ID h" "ho_FamilyID x = sp_FamilyID (em_Spec m)"
      and x': "x' \<in> set (rs_holdouts ?st3)" "ho_ID x' = ch_ID h'" "ho_FamilyID x' = sp_FamilyID (em_Spec m')"
    using used accrued_rows(4) [OF later(2)] accrued_rows(4) [OF second(3)] unfolding consumes_def by (metis subsetD)
  have "distinct (map ho_FamilyID (rs_holdouts ?st3))" using second(2) by (simp add: research_inv_def holdouts_inv_def)
  then have "x = x'" if "sp_FamilyID (em_Spec m') = sp_FamilyID (em_Spec m)"
    using x x' that inj_onD [of ho_FamilyID "set (rs_holdouts ?st3)" x x'] by (simp add: distinct_map)
  then show False using x(2) x'(2) other assms(9) by auto
qed

theorem holdout_is_single_use_witness:
  "snd (CreateManifest registry_env later_sample None None concluded_sample) = concluded_sample"
proof -
  have created: "snd (CreateManifestAuthenticated registry_env sealed_sample None None ''system'' '''' empty_registry) = registered_sample"
    using registered by (simp add: CreateManifest_def)
  have fresh: "em_ID sealed_sample \<notin> ex_ID ` set (rs_experiments empty_registry)" "em_ID sealed_sample \<in> ex_ID ` set (rs_experiments registered_sample)"
    by (simp_all add: empty_registry_def)
  have both: "confirms sealed_sample sample_holdout" "confirms later_sample sample_holdout" by (simp_all add: confirms_def)
  show ?thesis
    unfolding CreateManifest_def
    by (rule holdout_is_single_use [OF registry_start rtranclp.rtrancl_refl created fresh both(1) concluded_step both(2)]) simp
qed

text \<open>A registered manifest never changes: once an experiment has been loaded, every later load of the same id, after any
  registrations and recordings, returns the same manifest, as long as the database answers.\<close>

theorem manifest_is_final:
  assumes "unresearched st0" and "rtranclp research_step st0 st" and "LoadManifest env i st = Inr m" and "rtranclp research_step st st'"
    and "re_db env (ReadCall ''validation_experiments'') st' = None"
  shows "LoadManifest env i st' = Inr m"
proof -
  have inv: "research_inv st" using research_steps_keep [OF assms(2) unresearched_inv [OF assms(1)]] by blast
  have later: "research_inv st'" "accrues st st'" using research_steps_keep [OF assms(4) inv] by blast+
  obtain row where "row \<in> set (rs_experiments st)" "ex_ID row = i" "decoded_manifest env row = Inr m"
    using LoadManifest_Inr [OF assms(3)] by metis
  then show ?thesis
    using LoadManifest_row [OF _ _ assms(5)] later(1) accrued_rows(1) [OF later(2)] by (auto simp: research_inv_def)
qed

theorem manifest_is_final_witness: "LoadManifest registry_env hex64 concluded_sample = Inr sealed_sample"
  by (rule manifest_is_final [OF registry_start registered_steps registered_loads concluded_step]) simp

section \<open>Loaded evidence\<close>

text \<open>The result of loaded evidence: its folds are the declared ones and it passes the validation it was persisted under.\<close>

definition reproduced :: "evidence_env \<Rightarrow> ExperimentManifest \<Rightarrow> ResearchResult \<Rightarrow> bool" where
  "reproduced env m r \<longleftrightarrow> map fr_Fold (rr_Folds r) = sp_Folds (em_Spec m) \<and> validateResultForPersistence env m r = None"

definition conclusive :: "evidence_env \<Rightarrow> ExperimentManifest \<Rightarrow> LoadedEvidence \<Rightarrow> bool" where
  "conclusive env m e \<longleftrightarrow> ld_Status e = ''failed'' \<and> ld_Result e = None \<and> ld_Failure e \<noteq> None \<or>
     ld_Status e = ''passed'' \<and> ld_Failure e = None \<and> (\<exists>r. ld_Result e = Some r \<and> reproduced env m r)"

lemma hydrate_fold_Inr:
  assumes "hydrate_fold env m n (ref, row, declared) = Inr (k, f)"
  shows "fr_Fold f = declared"
  using assms unfolding hydrate_fold_def Let_def prod.case guard_Inr
  by (cases "ee_UnmarshalFold env (fe_EvidenceJSON row)"; simp; cases "cd_Marshal (se_codec (ee_study env)) (fold_result_json (ee_study env) (projr (ee_UnmarshalFold env (fe_EvidenceJSON row))))")
    (auto split: if_splits option.splits)

lemma hydrate_folds_Inr: "hydrate_folds env m n xs = Inr fs \<Longrightarrow> map fr_Fold fs = map (snd \<circ> snd) xs"
proof (induction env m n xs arbitrary: fs rule: hydrate_folds.induct)
  case (2 env m n x xs)
  obtain ref row declared where x: "x = (ref, row, declared)" by (cases x) auto
  obtain k f gs where "hydrate_fold env m n x = Inr (k, f)" "hydrate_folds env m k xs = Inr gs" "fs = f # gs"
    using "2.prems" by (auto simp: and_then_eq_Inr)
  then show ?case using "2.IH" hydrate_fold_Inr [of env m n ref row declared k f] by (auto simp: x)
qed simp

lemma loaded_result_Inr:
  assumes "loaded_result env m r rows = Inr result"
  shows "reproduced env m result"
proof -
  let ?declared = "sp_Folds (em_Spec m)"
  obtain folds where folds: "hydrate_folds env m 0 (zip (cx_Folds r) (zip rows ?declared)) = Inr folds"
      "rr_Folds result = folds" "validateResultForPersistence env m result = None"
      "length (cx_Folds r) = length ?declared" "length rows = length ?declared"
    using assms by (auto simp: loaded_result_def Let_def and_then_eq_Inr split: if_splits option.splits)
  have "map (snd \<circ> snd) (zip (cx_Folds r) (zip rows ?declared)) = ?declared"
    using folds(4,5) by (simp flip: map_map add: map_snd_zip)
  then show ?thesis using hydrate_folds_Inr [OF folds(1)] folds(2,3) by (simp add: reproduced_def)
qed

lemma hydrate_Inr:
  assumes "hydratePreparedEvidence env m json rows = Inr e"
  obtains envelope where "ee_UnmarshalRoot env json = Inr envelope" "ld_Status e = co_Status envelope" "conclusive env m e"
    "ld_ExperimentID e = em_ID m"
proof -
  obtain envelope where root: "ee_UnmarshalRoot env json = Inr envelope"
    using assms by (cases "ee_UnmarshalRoot env json") (auto simp: hydratePreparedEvidence_def Let_def split: option.splits)
  show thesis
  proof (cases "co_Status envelope = ''failed''")
    case True
    then show thesis
      using that [OF root] assms root
      by (auto simp: hydratePreparedEvidence_def Let_def conclusive_def split: option.splits sum.splits if_splits)
  next
    case False
    then obtain r result where r: "loaded_result env m r rows = Inr result" "ld_Result e = Some result" "ld_Failure e = None"
        "ld_Status e = co_Status envelope" "co_Status envelope = ''passed''" "ld_ExperimentID e = em_ID m"
      using assms root
      by (auto simp: hydratePreparedEvidence_def Let_def and_then_eq_Inr split: option.splits sum.splits if_splits)
    then show thesis using that [OF root] loaded_result_Inr [OF r(1)] by (simp add: conclusive_def)
  qed
qed

lemma snapshot_Inr:
  assumes "loadCompactEvidenceSnapshot env row st = Inr e"
  obtains m where "LoadManifest (ee_repo env) (ve_ExperimentID row) st = Inr m" "conclusive env m e"
    "ld_ID e = ve_ID row" "ld_Status e = ve_Status row" "ld_ExperimentID e = ve_ExperimentID row"
proof -
  obtain envelope where root: "ee_UnmarshalRoot env (ve_EvidenceJSON row) = Inr envelope"
    using assms by (cases "ee_UnmarshalRoot env (ve_EvidenceJSON row)") (auto simp: loadCompactEvidenceSnapshot_def Let_def)
  obtain m rows ev where parts: "LoadManifest (ee_repo env) (ve_ExperimentID row) st = Inr m"
      "hydratePreparedEvidence env m (ve_EvidenceJSON row) rows = Inr ev" "co_Status envelope = ve_Status row"
      "e = ev\<lparr>ld_ID := ve_ID row, ld_CreatedAt := ve_CreatedAt row\<rparr>"
    using assms root by (auto simp: loadCompactEvidenceSnapshot_def Let_def and_then_eq_Inr split: sum.splits if_splits option.splits)
  have "em_ID m = ve_ExperimentID row" by (rule LoadManifest_Inr [OF parts(1)])
  moreover obtain envelope' where "ee_UnmarshalRoot env (ve_EvidenceJSON row) = Inr envelope'" "ld_Status ev = co_Status envelope'"
      "conclusive env m ev" "ld_ExperimentID ev = em_ID m" by (rule hydrate_Inr [OF parts(2)])
  ultimately show thesis using that [OF parts(1)] parts(3,4) root by (simp add: conclusive_def)
qed

lemma LoadEvidence_Inr:
  assumes "LoadEvidence env i st = Inr e" and "outcomes_inv st"
  obtains row m where "row \<in> set (rs_evidences st)" "ve_ID row = i" "ld_ID e = i" "ld_Status e = ve_Status row"
    "ld_ExperimentID e = ve_ExperimentID row" "LoadManifest (ee_repo env) (ve_ExperimentID row) st = Inr m" "conclusive env m e"
proof -
  obtain row where row: "row \<in> set (rs_evidences st)" "ve_ID row = i" and
      rest: "(if ve_SchemaVersion row = CompactEvidenceRootSchemaVersion then loadCompactEvidence env row st else load_legacy env row) = Inr e"
    using assms(1) unfolding LoadEvidence_def Let_def and_then_eq_Inr guard_Inr by (blast dest: rp_require_Inr)
  have "ve_SchemaVersion row = CompactEvidenceRootSchemaVersion" using assms(2) row(1) by (auto simp: outcomes_inv_def)
  then have "loadCompactEvidenceSnapshot env row st = Inr e" using rest by (auto simp: loadCompactEvidence_def and_then_eq_Inr)
  then show thesis using that row by (blast elim: snapshot_Inr)
qed

lemma prepared_status:
  assumes "prepareEvidenceForPersistence env m result failed = Inr p"
  shows "pp_Status p = (if result = None then ''failed'' else ''passed'')"
proof -
  obtain envelope folds where "root_of env m result failed = Inr (envelope, folds)" "pp_Status p = co_Status envelope"
    using assms by (auto simp: prepareEvidenceForPersistence_def Let_def and_then_eq_Inr split: if_splits)
  then show ?thesis by (auto simp: root_of_def Let_def and_then_eq_Inr split: option.splits)
qed

text \<open>A successful call answers with the evidence of its experiment.\<close>

lemma PersistEvidence_stored:
  assumes "PersistEvidence env i result failed now st = (Inr e, st')" and "research_inv st"
  obtains row where "row \<in> set (rs_evidences st')" "ve_ExperimentID row = i" "ld_ID e = ve_ID row" "ld_Status e = ve_Status row"
    "ve_Status row = (if result = None then ''failed'' else ''passed'')" "research_inv st'"
proof -
  obtain m p where run: "LoadManifest (ee_repo env) i st = Inr m" "persist_body env m p now st = Inr ((), st')"
      "LoadEvidence env (pp_ID p) st' = Inr e" and prepared: "prepareEvidenceForPersistence env m result failed = Inr p"
    using assms(1)
    by (auto simp: PersistEvidence_def rp_transaction_def plain_def split: if_splits sum.splits prod.splits option.splits)
  have m: "em_ID m = i" by (rule LoadManifest_Inr [OF run(1)])
  have after: "research_inv st'" "settled m p st'" using persist_body_Inr [OF run(2) assms(2)] by blast+
  then obtain v where v: "v \<in> set (rs_evidences st')" "ve_ExperimentID v = i" "ve_ID v = pp_ID p" "ve_Status v = pp_Status p"
    by (auto simp: settled_def m)
  have parts: "outcomes_inv st'" using after(1) by (simp add: research_inv_def)
  obtain row where row: "row \<in> set (rs_evidences st')" "ve_ID row = pp_ID p" "ld_ID e = pp_ID p" "ld_Status e = ve_Status row"
    using LoadEvidence_Inr [OF run(3) parts] by metis
  then have "row = v" using v parts inj_onD [of ve_ID "set (rs_evidences st')" row v] by (simp add: outcomes_inv_def distinct_map)
  then show thesis using that v(2,4) row after(1) prepared_status [OF prepared] by simp
qed



text \<open>C36: The outcome of an experiment is final: once evidence was persisted, a second call for the same experiment that
  succeeds, with another result, failure, clock or database, returns the identity and the status of the first, and every
  outcome stored for the experiment names that evidence. A failed run is never turned into a pass: a call with a result
  succeeds after a call with a result only, and a failure after a failure.\<close>

theorem outcome_is_final:
  assumes "unresearched st0" and "rtranclp research_step st0 st"
    and "PersistEvidence env i result failed now st = (Inr e, st1)" and "rtranclp research_step st1 st2"
    and "PersistEvidence env' i result' failed' now' st2 = (Inr e', st3)"
  shows "ld_ID e' = ld_ID e \<and> ld_Status e' = ld_Status e \<and> (result' = None \<longleftrightarrow> result = None) \<and>
    (\<forall>oc \<in> set (rs_outcomes st3). oc_ExperimentID oc = i \<longrightarrow> oc_EvidenceID oc = ld_ID e \<and> oc_Status oc = ld_Status e)"
proof -
  have inv: "research_inv st" using research_steps_keep [OF assms(2) unresearched_inv [OF assms(1)]] by blast
  have inv1: "research_inv st1" using PersistEvidence_keeps [OF inv, of env i result failed now] assms(3) by simp
  have inv2: "research_inv st2" "accrues st1 st2" using research_steps_keep [OF assms(4) inv1] by blast+
  have inv3: "research_inv st3" "accrues st2 st3"
    using PersistEvidence_keeps [OF inv2(1), of env' i result' failed' now'] assms(5) by simp_all
  obtain row where row: "row \<in> set (rs_evidences st1)" "ve_ExperimentID row = i" "ld_ID e = ve_ID row" "ld_Status e = ve_Status row"
      "ve_Status row = (if result = None then ''failed'' else ''passed'')"
    by (rule PersistEvidence_stored [OF assms(3) inv])
  obtain row' where row': "row' \<in> set (rs_evidences st3)" "ve_ExperimentID row' = i" "ld_ID e' = ve_ID row'" "ld_Status e' = ve_Status row'"
      "ve_Status row' = (if result' = None then ''failed'' else ''passed'')"
    by (rule PersistEvidence_stored [OF assms(5) inv2(1)])
  have "row \<in> set (rs_evidences st3)"
    using row(1) accrued_rows(7) [OF inv2(2)] accrued_rows(7) [OF inv3(2)] by blast
  moreover have parts: "outcomes_inv st3" using inv3(1) by (simp add: research_inv_def)
  moreover have inj: "inj_on ve_ExperimentID (set (rs_evidences st3))" using parts by (simp add: outcomes_inv_def distinct_map)
  ultimately have same: "row' = row" using row(2) row'(1,2) by (metis inj_onD)
  have "oc_EvidenceID oc = ld_ID e \<and> oc_Status oc = ld_Status e" if oc: "oc \<in> set (rs_outcomes st3)" "oc_ExperimentID oc = i" for oc
  proof -
    obtain v where v: "v \<in> set (rs_evidences st3)" "outcome_of v oc"
      using parts oc(1) unfolding outcomes_inv_def list_all2_conv_all_nth by (metis in_set_conv_nth)
    have "ve_ExperimentID v = ve_ExperimentID row'" using v(2) oc(2) row'(2) by (simp add: outcome_of_def)
    then have "v = row" using inj_onD [OF inj _ v(1) row'(1)] same by blast
    then show ?thesis using v(2) row(3,4) by (simp add: outcome_of_def)
  qed
  then show ?thesis using same row row' by (simp split: if_splits)
qed

theorem outcome_is_final_witness: "oc_Status (failed_outcome 9000) = ''failed'' \<and> oc_EvidenceID (failed_outcome 9000) = hex64"
proof -
  have ids: "ld_ID failed_evidence = hex64" "ld_Status failed_evidence = ''failed''" "oc_ExperimentID (failed_outcome 9000) = hex64"
    by (simp_all add: failed_evidence_def failed_outcome_def)
  show ?thesis
    using outcome_is_final [OF registry_start registered_steps concluded(1) rtranclp.rtrancl_refl concluded(2)]
    by (simp only: ids sample_rows_stored list.set ball_simps)
qed

end
