(* ===== verification/Walkforward.thy ===== *)
theory Walkforward
  imports Evidence Folds
begin

text \<open>
  \<^verbatim>\<open>RunWalkForward\<close> of \<^verbatim>\<open>internal/validation/walkforward.go\<close>: every fold is split, fitted and frozen before the first test
  sample is handed out. The \<^verbatim>\<open>FoldRunnerFactory\<close> and its runners are an interface of the code: functions on a memory
  \<open>'w\<close> they share; the factory is there. A runner is a pointer, which must not be reused by another fold, or a value.
\<close>

datatype runner_ref =
    RunnerPointer nat
  | RunnerValue nat

record 'w study_runner =
  sr_evidence :: evidence_env
  sr_Number :: "float64 \<Rightarrow> string"
  sr_NewFoldRunner :: "Fold \<Rightarrow> 'w \<Rightarrow> runner_ref option \<times> 'w"
  sr_FitAndSelect :: "runner_ref \<Rightarrow> Fold \<Rightarrow> Sample list \<Rightarrow> Sample list \<Rightarrow> (string, string list) gomap \<Rightarrow> 'w \<Rightarrow> FoldFit sresult \<times> 'w"
  sr_Test :: "runner_ref \<Rightarrow> Fold \<Rightarrow> string \<Rightarrow> Sample list \<Rightarrow> 'w \<Rightarrow> json sresult \<times> 'w"
  sr_RegimeContributions :: "json \<Rightarrow> (string, float64) gomap"
  sr_SymbolContributions :: "json \<Rightarrow> (string, float64) gomap"

abbreviation sr_study :: "'w study_runner \<Rightarrow> study_env" where
  "sr_study E \<equiv> ee_study (sr_evidence E)"

section \<open>Digests\<close>

definition cloneSamples :: "Sample list \<Rightarrow> Sample list" where
  "cloneSamples ss = map (\<lambda>s. s\<lparr>sm_Values := map (\<lambda>(k, v). (k, plain_zero v)) (sm_Values s)\<rparr>) ss"

definition sample_json :: "'w study_runner \<Rightarrow> Sample \<Rightarrow> json" where
  "sample_json E s =
     (let stamp = (\<lambda>t. JString (se_RFC3339Nano (sr_study E) t)) in
      JObject ([(''id'', JString (sm_ID s)), (''observed_at'', stamp (sm_ObservedAt s)), (''feature_start'', stamp (sm_FeatureStart s)),
          (''feature_end'', stamp (sm_FeatureEnd s)), (''label_end'', stamp (sm_LabelEnd s)), (''symbol'', JString (sm_Symbol s)),
          (''regime'', JString (sm_Regime s)), (''benchmark_seen'', JBool (sm_BenchmarkSeen s)),
          (''coverage_ok'', JBool (sm_CoverageOK s))]
        @ (if sm_Values s = [] then [] else
            [(''values'', json_map (map (\<lambda>(k, v). (k, JNumber (sr_Number E v))) (sm_Values s)))])))"

definition canonicalDigest :: "study_env \<Rightarrow> json \<Rightarrow> string sresult" where
  "canonicalDigest w x = (case cd_Marshal (se_codec w) x of Inl e \<Rightarrow> Inl (StudyError (PlainError e)) | Inr b \<Rightarrow> Inr (digest w b))"

definition ignoring :: "string sresult \<Rightarrow> string" where
  "ignoring r = (case r of Inl _ \<Rightarrow> '''' | Inr s \<Rightarrow> s)"

definition sampleDigest :: "'w study_runner \<Rightarrow> Sample list \<Rightarrow> string sresult" where
  "sampleDigest E ss = canonicalDigest (sr_study E) (JArray (map (sample_json E) (cloneSamples ss)))"

definition choices_json :: "(string, string list) gomap \<Rightarrow> json" where
  "choices_json allowed = json_map (map (\<lambda>(k, vs). (k, JArray (map JString vs))) allowed)"

definition fit_json :: "ManifestSpec \<Rightarrow> Fold \<Rightarrow> string \<Rightarrow> string \<Rightarrow> json" where
  "fit_json spec w trainDigest artifactDigest = JObject
     [(''fold'', JNumber (big_string (fo_Index w))), (''Train'', JString trainDigest),
      (''Policy'', JString (ap_Digest (sp_AuthorityPolicy spec))), (''Artifact'', JString artifactDigest),
      (''Seed'', JNumber (big_string (sp_Seed spec)))]"

definition selection_json :: "ManifestSpec \<Rightarrow> Fold \<Rightarrow> string \<Rightarrow> FoldFit \<Rightarrow> json" where
  "selection_json spec w validationDigest fit = JObject
     [(''fold'', JNumber (big_string (fo_Index w))), (''Validation'', JString validationDigest), (''Choice'', JString (ft_Choice fit)),
      (''Parameters'', string_map (ft_Parameters fit)), (''Allowed'', choices_json (sp_AllowedTuning spec))]"

section \<open>Freezing\<close>

definition frozen_decision ::
  "'w study_runner \<Rightarrow> ManifestSpec \<Rightarrow> Fold \<Rightarrow> Split \<Rightarrow> FoldFit \<Rightarrow> FrozenDecision sresult" where
  "frozen_decision E spec w split fit =
     and_then (checked (validateFit fit (sp_AllowedTuning spec)) ()) (\<lambda>_.
     and_then (sampleDigest E (sl_Train split)) (\<lambda>trainDigest.
     and_then (sampleDigest E (sl_Validation split)) (\<lambda>validationDigest.
     let artifactDigest = digest (sr_study E) (ft_Artifact fit);
         fitDigest = ignoring (canonicalDigest (sr_study E) (fit_json spec w trainDigest artifactDigest));
         selectionDigest = ignoring (canonicalDigest (sr_study E) (selection_json spec w validationDigest fit)) in
     and_then (sampleDigest E (sl_Test split)) (\<lambda>testDigest.
       if ft_Choice fit = '''' \<or> fitDigest = '''' \<or> selectionDigest = ''''
       then Inl (DiagnosticError ''test_data_leakage'' (''folds['' @ big_string (fo_Index w) @ ''].frozen'')
              ''trusted frozen decision is incomplete'')
       else Inr \<lparr>fd_FoldIndex = fo_Index w, fd_Choice = ft_Choice fit, fd_Parameters = ft_Parameters fit, fd_FitDigest = fitDigest,
              fd_SelectionDigest = selectionDigest, fd_ArtifactDigest = artifactDigest, fd_TrainDigest = ft_TrainDigest fit,
              fd_ValidationDigest = ft_ValidationDigest fit, fd_TestDigest = testDigest, fd_DataDigest = ft_DataDigest fit,
              fd_SelectionRationale = ft_SelectionRationale fit\<rparr>))))"

text \<open>What the first pass keeps of a fold.\<close>

record frozen_fold =
  zf_Decision :: FrozenDecision
  zf_Split :: Split
  zf_Runner :: runner_ref
  zf_Artifact :: string

definition reused :: "runner_ref list \<Rightarrow> runner_ref \<Rightarrow> bool" where
  "reused seen r = (case r of RunnerPointer _ \<Rightarrow> r \<in> set seen | RunnerValue _ \<Rightarrow> False)"

definition freeze_fold ::
  "'w study_runner \<Rightarrow> ManifestSpec \<Rightarrow> Sample list \<Rightarrow> runner_ref list \<Rightarrow> Fold \<Rightarrow> 'w \<Rightarrow> frozen_fold sresult \<times> 'w" where
  "freeze_fold E spec samples seen w m =
     (case SplitFold samples w (sp_Purge spec) (sp_Embargo spec) of Inl e \<Rightarrow> (Inl e, m)
      | Inr split \<Rightarrow>
     case validateSplit split (sp_Samples spec) of Some e \<Rightarrow> (Inl e, m)
      | None \<Rightarrow>
     case sr_NewFoldRunner E w m of
        (None, m) \<Rightarrow>
          (Inl (invalid (''folds['' @ big_string (fo_Index w) @ ''].runner'') ''fresh fold runner is required''), m)
      | (Some r, m) \<Rightarrow>
     if reused seen r then (Inl (DiagnosticError ''test_data_leakage'' ''fold_runner'' ''runner instance reused across folds''), m)
     else case sr_FitAndSelect E r w (cloneSamples (sl_Train split)) (cloneSamples (sl_Validation split)) (sp_AllowedTuning spec) m of
        (Inl e, m) \<Rightarrow> (Inl e, m)
      | (Inr fit, m) \<Rightarrow>
     case frozen_decision E spec w split fit of Inl e \<Rightarrow> (Inl e, m)
      | Inr d \<Rightarrow> (Inr \<lparr>zf_Decision = d, zf_Split = split, zf_Runner = r, zf_Artifact = ft_Artifact fit\<rparr>, m))"

fun freeze_folds ::
  "'w study_runner \<Rightarrow> ManifestSpec \<Rightarrow> Sample list \<Rightarrow> runner_ref list \<Rightarrow> Fold list \<Rightarrow> 'w \<Rightarrow> frozen_fold list sresult \<times> 'w" where
  "freeze_folds E spec samples seen [] m = (Inr [], m)"
| "freeze_folds E spec samples seen (w # ws) m =
     (case freeze_fold E spec samples seen w m of (Inl e, m) \<Rightarrow> (Inl e, m)
      | (Inr z, m) \<Rightarrow>
          (case freeze_folds E spec samples (zf_Runner z # seen) ws m of (Inl e, m) \<Rightarrow> (Inl e, m) | (Inr zs, m) \<Rightarrow> (Inr (z # zs), m)))"

section \<open>Testing\<close>

definition float_at :: "(string, float64) gomap \<Rightarrow> string \<Rightarrow> float64" where
  "float_at values k = (case map_of values k of None \<Rightarrow> 0 | Some v \<Rightarrow> v)"

fun lowest_key :: "(string, float64) gomap \<Rightarrow> string \<Rightarrow> string list \<Rightarrow> string" where
  "lowest_key values best [] = best"
| "lowest_key values best (k # ks) =
     lowest_key values (if fl_less (float_at values k) (float_at values best) then k else best) ks"

definition minimumFloatKey :: "(string, float64) gomap \<Rightarrow> string" where
  "minimumFloatKey values = (case sort (map fst values) of [] \<Rightarrow> '''' | k # ks \<Rightarrow> lowest_key values k ks)"

definition scored_fold :: "'w study_runner \<Rightarrow> ManifestSpec \<Rightarrow> Fold \<Rightarrow> FrozenDecision \<Rightarrow> json \<Rightarrow> FoldResult sresult" where
  "scored_fold E spec w d primitives =
     and_then (ee_DeriveFoldMetrics (sr_evidence E) primitives) (\<lambda>metrics.
     and_then (checked (ee_ValidateFoldMetrics (sr_evidence E) metrics (sp_Samples spec)) ()) (\<lambda>_.
       Inr \<lparr>fr_Fold = w, fr_Frozen = d, fr_Primitives = primitives, fr_Metrics = metrics,
            fr_WorstRegime = minimumFloatKey (sr_RegimeContributions E metrics),
            fr_WorstSymbol = minimumFloatKey (sr_SymbolContributions E metrics)\<rparr>))"

fun test_folds ::
  "'w study_runner \<Rightarrow> ManifestSpec \<Rightarrow> (frozen_fold \<times> Fold) list \<Rightarrow> 'w \<Rightarrow> FoldResult list sresult \<times> 'w" where
  "test_folds E spec [] m = (Inr [], m)"
| "test_folds E spec ((z, w) # zs) m =
     (case sr_Test E (zf_Runner z) w (zf_Artifact z) (cloneSamples (sl_Test (zf_Split z))) m of (Inl e, m) \<Rightarrow> (Inl e, m)
      | (Inr primitives, m) \<Rightarrow>
     case scored_fold E spec w (zf_Decision z) primitives of Inl e \<Rightarrow> (Inl e, m)
      | Inr f \<Rightarrow> (case test_folds E spec zs m of (Inl e, m) \<Rightarrow> (Inl e, m) | (Inr fs, m) \<Rightarrow> (Inr (f # fs), m)))"

definition RunWalkForward ::
  "'w study_runner \<Rightarrow> ExperimentManifest \<Rightarrow> Sample list \<Rightarrow> 'w \<Rightarrow> ResearchResult sresult \<times> 'w" where
  "RunWalkForward E m samples world =
     (case manifest_Verify (sr_study E) m of Some e \<Rightarrow> (Inl e, world)
      | None \<Rightarrow>
     let spec = verified_in_place (sr_study E) (em_Spec m) in
     case validateSamples samples (sp_FeatureHorizon spec) (sp_LabelHorizon spec) of Some e \<Rightarrow> (Inl e, world)
      | None \<Rightarrow>
     case freeze_folds E spec samples [] (sp_Folds spec) world of (Inl e, world) \<Rightarrow> (Inl e, world)
      | (Inr frozen, world) \<Rightarrow>
     case test_folds E spec (zip frozen (sp_Folds spec)) world of (Inl e, world) \<Rightarrow> (Inl e, world)
      | (Inr results, world) \<Rightarrow>
     case ee_Evaluate (sr_evidence E) results spec of Inl e \<Rightarrow> (Inl e, world)
      | Inr evaluation \<Rightarrow>
          (Inr \<lparr>rr_SchemaVersion = EvidenceSchemaVersion, rr_ExperimentID = em_ID m, rr_Folds = results, rr_Aggregate = evaluation\<rparr>, world))"

end
