(* ===== verification/Walkforward_Laws.thy ===== *)
theory Walkforward_Laws
  imports Walkforward Registry_Properties
begin

text \<open>
  What a walk-forward run guarantees: the frozen decisions cannot depend on test samples, every fold has a runner of its own,
  and the result of a run is the one its persistence asks for.
\<close>

section \<open>Freezing\<close>

text \<open>The samples a fold may fit on, and a decision without the digest that commits to its test samples.\<close>

definition trained_on :: "ManifestSpec \<Rightarrow> Sample list \<Rightarrow> Fold \<Rightarrow> (Sample list \<times> Sample list) sresult" where
  "trained_on spec samples w =
     (case SplitFold samples w (sp_Purge spec) (sp_Embargo spec) of Inl e \<Rightarrow> Inl e | Inr r \<Rightarrow> Inr (sl_Train r, sl_Validation r))"

definition untested :: "FrozenDecision \<Rightarrow> FrozenDecision" where
  "untested d = d\<lparr>fd_TestDigest := ''''\<rparr>"

lemma freeze_fold_Inr:
  assumes "freeze_fold E spec samples seen w m = (Inr z, m2)"
  obtains split r m1 fit d where "SplitFold samples w (sp_Purge spec) (sp_Embargo spec) = Inr split"
    "sr_NewFoldRunner E w m = (Some r, m1)" "\<not> reused seen r"
    "sr_FitAndSelect E r w (cloneSamples (sl_Train split)) (cloneSamples (sl_Validation split)) (sp_AllowedTuning spec) m1 = (Inr fit, m2)"
    "frozen_decision E spec w split fit = Inr d" "z = \<lparr>zf_Decision = d, zf_Split = split, zf_Runner = r, zf_Artifact = ft_Artifact fit\<rparr>"
  using assms unfolding freeze_fold_def by (auto split: sum.splits option.splits prod.splits if_splits)

lemma frozen_decision_Inr:
  assumes "frozen_decision E spec w split fit = Inr d" and "frozen_decision E spec w split' fit = Inr d'"
    and "sl_Train split' = sl_Train split" "sl_Validation split' = sl_Validation split"
  shows "untested d' = untested d" "fd_FoldIndex d = fo_Index w"
  using assms by (auto simp: frozen_decision_def Let_def and_then_eq_Inr untested_def split: if_splits)

text \<open>What of a frozen fold is fixed before its test samples are known.\<close>

definition committed :: "frozen_fold \<Rightarrow> FrozenDecision \<times> runner_ref \<times> string" where
  "committed z = (untested (zf_Decision z), zf_Runner z, zf_Artifact z)"

lemma freeze_fold_blind:
  assumes "freeze_fold E spec samples seen w m = (Inr z, m2)" and "freeze_fold E spec samples' seen w m = (Inr z', m2')"
    and "trained_on spec samples' w = trained_on spec samples w"
  shows "committed z' = committed z \<and> m2' = m2"
proof -
  obtain split r m1 fit d where z: "SplitFold samples w (sp_Purge spec) (sp_Embargo spec) = Inr split"
      "sr_NewFoldRunner E w m = (Some r, m1)"
      "sr_FitAndSelect E r w (cloneSamples (sl_Train split)) (cloneSamples (sl_Validation split)) (sp_AllowedTuning spec) m1 = (Inr fit, m2)"
      "frozen_decision E spec w split fit = Inr d" "z = \<lparr>zf_Decision = d, zf_Split = split, zf_Runner = r, zf_Artifact = ft_Artifact fit\<rparr>"
    by (rule freeze_fold_Inr [OF assms(1)])
  obtain split' r' m1' fit' d' where z': "SplitFold samples' w (sp_Purge spec) (sp_Embargo spec) = Inr split'"
      "sr_NewFoldRunner E w m = (Some r', m1')"
      "sr_FitAndSelect E r' w (cloneSamples (sl_Train split')) (cloneSamples (sl_Validation split')) (sp_AllowedTuning spec) m1' = (Inr fit', m2')"
      "frozen_decision E spec w split' fit' = Inr d'"
      "z' = \<lparr>zf_Decision = d', zf_Split = split', zf_Runner = r', zf_Artifact = ft_Artifact fit'\<rparr>"
    by (rule freeze_fold_Inr [OF assms(2)])
  have same: "sl_Train split' = sl_Train split" "sl_Validation split' = sl_Validation split" "r' = r" "m1' = m1"
    using assms(3) z(1,2) z'(1,2) by (simp_all add: trained_on_def)
  then have "fit' = fit" "m2' = m2" using z(3) z'(3) by simp_all
  then show ?thesis using frozen_decision_Inr(1) [OF z(4), of split' d'] z(5) z'(4,5) same by (simp add: committed_def)
qed

lemma freeze_folds_blind:
  assumes "freeze_folds E spec samples seen ws m = (Inr zs, m1)" and "freeze_folds E spec samples' seen ws m = (Inr zs', m1')"
    and "\<And>w. w \<in> set ws \<Longrightarrow> trained_on spec samples' w = trained_on spec samples w"
  shows "map committed zs' = map committed zs \<and> m1' = m1"
  using assms
proof (induction E spec samples seen ws m arbitrary: zs zs' rule: freeze_folds.induct)
  case (2 E spec samples seen w ws m)
  obtain z m2 us where z: "freeze_fold E spec samples seen w m = (Inr z, m2)"
      "freeze_folds E spec samples (zf_Runner z # seen) ws m2 = (Inr us, m1)" "zs = z # us"
    using "2.prems"(1) by (auto split: prod.splits sum.splits)
  obtain z' m2' us' where z': "freeze_fold E spec samples' seen w m = (Inr z', m2')"
      "freeze_folds E spec samples' (zf_Runner z' # seen) ws m2' = (Inr us', m1')" "zs' = z' # us'"
    using "2.prems"(2) by (auto split: prod.splits sum.splits)
  have head: "committed z' = committed z" "m2' = m2" using freeze_fold_blind [OF z(1) z'(1)] "2.prems"(3) by simp_all
  then have "zf_Runner z' = zf_Runner z" by (simp add: committed_def)
  then have "map committed us' = map committed us \<and> m1' = m1"
    using "2.IH" [OF z(1) [symmetric] refl z(2)] z'(2) head(2) "2.prems"(3) by simp
  then show ?case using head z(3) z'(3) by simp
qed simp

lemma freeze_folds_shape:
  "freeze_folds E spec samples seen ws m = (Inr zs, m1) \<Longrightarrow>
     length zs = length ws \<and> map (fd_FoldIndex \<circ> zf_Decision) zs = map fo_Index ws"
proof (induction E spec samples seen ws m arbitrary: zs rule: freeze_folds.induct)
  case (2 E spec samples seen w ws m)
  obtain z m2 us where z: "freeze_fold E spec samples seen w m = (Inr z, m2)"
      "freeze_folds E spec samples (zf_Runner z # seen) ws m2 = (Inr us, m1)" "zs = z # us"
    using "2.prems"(1) by (auto split: prod.splits sum.splits)
  have "fd_FoldIndex (zf_Decision z) = fo_Index w"
    by (rule freeze_fold_Inr [OF z(1)]) (auto dest: frozen_decision_Inr(2))
  then show ?case using "2.IH" [OF z(1) [symmetric] refl z(2)] z(3) by simp
qed simp

section \<open>Testing\<close>

lemma test_folds_Inr:
  "test_folds E spec zs m = (Inr fs, m1) \<Longrightarrow> map fr_Fold fs = map snd zs \<and> map fr_Frozen fs = map (zf_Decision \<circ> fst) zs \<and>
     list_all (\<lambda>f. ee_DeriveFoldMetrics (sr_evidence E) (fr_Primitives f) = Inr (fr_Metrics f) \<and>
       ee_ValidateFoldMetrics (sr_evidence E) (fr_Metrics f) (sp_Samples spec) = None) fs"
proof (induction E spec zs m arbitrary: fs rule: test_folds.induct)
  case (2 E spec z w zs m)
  obtain primitives m2 f gs where f: "scored_fold E spec w (zf_Decision z) primitives = Inr f" "test_folds E spec zs m2 = (Inr gs, m1)"
      "fs = f # gs" and run: "sr_Test E (zf_Runner z) w (zf_Artifact z) (cloneSamples (sl_Test (zf_Split z))) m = (Inr primitives, m2)"
    using "2.prems" by (auto split: prod.splits sum.splits)
  have "map fr_Fold gs = map snd zs \<and> map fr_Frozen gs = map (zf_Decision \<circ> fst) zs \<and>
     list_all (\<lambda>f. ee_DeriveFoldMetrics (sr_evidence E) (fr_Primitives f) = Inr (fr_Metrics f) \<and>
       ee_ValidateFoldMetrics (sr_evidence E) (fr_Metrics f) (sp_Samples spec) = None) gs"
    using "2.IH" [OF run [symmetric]] f(1,2) by simp
  then show ?case using f(1,3) by (auto simp: scored_fold_def and_then_eq_Inr checked_eq_Inr)
qed simp

lemma RunWalkForward_Inr:
  assumes "RunWalkForward E m samples w0 = (Inr r, w1)"
  obtains zs w2 where "freeze_folds E (verified_in_place (sr_study E) (em_Spec m)) samples [] (sp_Folds (em_Spec m)) w0 = (Inr zs, w2)"
    "test_folds E (verified_in_place (sr_study E) (em_Spec m)) (zip zs (sp_Folds (em_Spec m))) w2 = (Inr (rr_Folds r), w1)"
    "ee_Evaluate (sr_evidence E) (rr_Folds r) (verified_in_place (sr_study E) (em_Spec m)) = Inr (rr_Aggregate r)"
    "rr_ExperimentID r = em_ID m" "rr_SchemaVersion r = EvidenceSchemaVersion" "manifest_Verify (sr_study E) m = None"
  using assms by (auto simp: RunWalkForward_def Let_def same_commitments split: option.splits prod.splits sum.splits)

end
