(* ===== verification/Jobs.thy ===== *)
theory Jobs
  imports Walkforward
begin

text \<open>
  \<^verbatim>\<open>internal/validation/job.go\<close>: running an experiment and recording how it ended. The source of samples is an interface
  of the code, as is the recording of model evidence (\<^verbatim>\<open>ml_evidence.go\<close>) here; both may read and change the memory of the
  runners.
\<close>

text \<open>The ML step: recorded, a failed experiment, or an error of the database.\<close>

datatype ml_answer =
    MLRecorded
  | MLFailed study_error
  | MLUnrecorded study_error

record 'w job_service =
  jb_runner :: "'w study_runner"
  jb_has_source :: bool
  jb_Load :: "ExperimentManifest \<Rightarrow> 'w \<Rightarrow> Sample list sresult \<times> 'w"
  jb_RecordML :: "ExperimentManifest \<Rightarrow> ResearchResult \<Rightarrow> time \<Rightarrow> research \<Rightarrow> 'w \<Rightarrow> ml_answer \<times> 'w"
  jb_Now :: time

abbreviation jb_evidence :: "'w job_service \<Rightarrow> evidence_env" where
  "jb_evidence S \<equiv> sr_evidence (jb_runner S)"

text \<open>The error of a job: one error, or the original joined with the one of recording it.\<close>

datatype job_error =
    JobError evidence_error
  | JoinedError evidence_error evidence_error

text \<open>Go's pair of a value and an error: a failed experiment returns its evidence and the original error.\<close>

type_synonym job_answer = "LoadedEvidence option \<times> job_error option"

definition persistFailure :: "'w job_service \<Rightarrow> string \<Rightarrow> evidence_error \<Rightarrow> time \<Rightarrow> research \<Rightarrow> job_answer \<times> research" where
  "persistFailure S i original createdAt st =
     (case PersistEvidence (jb_evidence S) i None (Some original) createdAt st of
        (Inl e, st) \<Rightarrow> ((None, Some (JoinedError original e)), st)
      | (Inr evidence, st) \<Rightarrow> ((Some evidence, Some (JobError original)), st))"

definition persistResult ::
  "'w job_service \<Rightarrow> ExperimentManifest \<Rightarrow> ResearchResult \<Rightarrow> time \<Rightarrow> research \<Rightarrow> job_answer \<times> research" where
  "persistResult S m result createdAt st =
     (case PersistEvidence (jb_evidence S) (em_ID m) (Some result) None createdAt st of
        (Inr evidence, st) \<Rightarrow> ((Some evidence, None), st)
      | (Inl (ResultValidation e), st) \<Rightarrow> persistFailure S (em_ID m) (ResultValidation e) createdAt st
      | (Inl (EvidenceError e), st) \<Rightarrow> ((None, Some (JobError (EvidenceError e))), st))"

definition record_run ::
  "'w job_service \<Rightarrow> ExperimentManifest \<Rightarrow> ResearchResult \<Rightarrow> research \<Rightarrow> 'w \<Rightarrow> job_answer \<times> research \<times> 'w" where
  "record_run S m result st world =
     (let now = jb_Now S;
          finish = (\<lambda>world. case persistResult S m result now st of (answer, st) \<Rightarrow> (answer, st, world)) in
      if sp_Model (em_Spec m) = None then finish world
      else case jb_RecordML S m result now st world of
        (MLRecorded, world) \<Rightarrow> finish world
      | (MLUnrecorded e, world) \<Rightarrow> ((None, Some (JobError (EvidenceError e))), st, world)
      | (MLFailed e, world) \<Rightarrow>
          (case persistFailure S (em_ID m) (EvidenceError e) now st of (answer, st) \<Rightarrow> (answer, st, world)))"

definition job_Run :: "'w job_service \<Rightarrow> string \<Rightarrow> research \<Rightarrow> 'w \<Rightarrow> job_answer \<times> research \<times> 'w" where
  "job_Run S i st world =
     (let env = ee_repo (jb_evidence S);
          stop = (\<lambda>e. ((None, Some (JobError (EvidenceError e))), st, world));
          give_up = (\<lambda>m e world. case persistFailure S (em_ID m) (EvidenceError e) (jb_Now S) st of (answer, st) \<Rightarrow> (answer, st, world)) in
      if \<not> jb_has_source S then stop (StudyError (PlainError (Errorf ''validation experiment source is required'' [])))
      else case LoadManifest env i st of Inl e \<Rightarrow> stop e
      | Inr m \<Rightarrow>
      case HasCompletedOutcome env (em_ID m) st of Inl e \<Rightarrow> stop e
      | Inr True \<Rightarrow> stop (integrity '''' ''experiment already has an immutable outcome'')
      | Inr False \<Rightarrow>
      case jb_Load S m world of (Inl e, world) \<Rightarrow> give_up m e world
      | (Inr samples, world) \<Rightarrow>
      case RunWalkForward (jb_runner S) m samples world of (Inl e, world) \<Rightarrow> give_up m e world
      | (Inr result, world) \<Rightarrow> record_run S m result st world)"

end
