(* ===== verification/Walkforward_Samples.thy ===== *)
theory Walkforward_Samples
  imports Registry_Samples Jobs
begin

text \<open>
  A run over the sealed sample manifest: five windows of ten samples each, and a factory that counts its runners. Only the
  last window is never fitted on; the two data sets differ there.
\<close>

definition window_sample :: "string \<Rightarrow> char \<Rightarrow> time \<Rightarrow> char \<Rightarrow> Sample" where
  "window_sample regime w t c = \<lparr>sm_ID = [w, c], sm_ObservedAt = t, sm_FeatureStart = t - 2, sm_FeatureEnd = t, sm_LabelEnd = t + 2,
     sm_Symbol = ''BTC'', sm_Regime = regime, sm_BenchmarkSeen = True, sm_CoverageOK = True, sm_Values = []\<rparr>"

definition window :: "string \<Rightarrow> char \<Rightarrow> time \<Rightarrow> Sample list" where
  "window regime w t = map (window_sample regime w t) ''abcdefghij''"

definition windows :: "string \<Rightarrow> Sample list" where
  "windows last_regime = window ''up'' CHR ''a'' 1004 @ window ''up'' CHR ''b'' 1014 @ window ''up'' CHR ''c'' 1024 @
     window ''up'' CHR ''d'' 1034 @ window last_regime CHR ''e'' 1044"

lemma windows_valid: "validateSamples (windows ''up'') 2 2 = None" "validateSamples (windows ''down'') 2 2 = None"
  by code_simp+

definition window_split :: "Sample list \<Rightarrow> Sample list \<Rightarrow> Sample list \<Rightarrow> Split" where
  "window_split train validation test = \<lparr>sl_Train = train, sl_Validation = validation, sl_Test = test, sl_Purged = [], sl_Embargoed = []\<rparr>"

lemma windows_split:
  "SplitFold (windows ''up'') (sample_fold 0) 1 2 =
     Inr (window_split (window ''up'' CHR ''a'' 1004) (window ''up'' CHR ''b'' 1014) (window ''up'' CHR ''c'' 1024))"
  "SplitFold (windows ''up'') (sample_fold 1) 1 2 =
     Inr (window_split (window ''up'' CHR ''b'' 1014) (window ''up'' CHR ''c'' 1024) (window ''up'' CHR ''d'' 1034))"
  "SplitFold (windows ''up'') (sample_fold 2) 1 2 =
     Inr (window_split (window ''up'' CHR ''c'' 1024) (window ''up'' CHR ''d'' 1034) (window ''up'' CHR ''e'' 1044))"
  "SplitFold (windows ''down'') (sample_fold 0) 1 2 =
     Inr (window_split (window ''up'' CHR ''a'' 1004) (window ''up'' CHR ''b'' 1014) (window ''up'' CHR ''c'' 1024))"
  "SplitFold (windows ''down'') (sample_fold 1) 1 2 =
     Inr (window_split (window ''up'' CHR ''b'' 1014) (window ''up'' CHR ''c'' 1024) (window ''up'' CHR ''d'' 1034))"
  "SplitFold (windows ''down'') (sample_fold 2) 1 2 =
     Inr (window_split (window ''up'' CHR ''c'' 1024) (window ''up'' CHR ''d'' 1034) (window ''down'' CHR ''e'' 1044))"
  by code_simp+

lemma windows_fit: "validateSplit (window_split (window r a s) (window r' b t) (window r'' c u)) (sp_Samples sealed_spec) = None"
proof -
  have fine: "\<forall>s \<in> set (window r w t). coverage_error s = None" "length (window r w t) = 10" for r w t
    by (auto simp: window_def window_sample_def coverage_error_def)
  have q: "sq_MinObservationsPerFold (sp_Samples sealed_spec) = 10" by (simp add: sealed_spec_def sample_spec_def)
  have "first_error coverage_error (window r a s @ window r' b t @ window r'' c u) = None" using fine(1) by auto
  moreover have "\<not> int 10 < 10" by simp
  ultimately show ?thesis
    unfolding validateSplit_def window_split_def Let_def q Split.select_convs fine(2) by (simp only: if_False disj_not1 simp_thms)
qed

definition sample_fit :: FoldFit where
  "sample_fit = \<lparr>ft_Choice = ''window=10'', ft_Parameters = [(''window'', ''10'')], ft_Artifact = ''a'', ft_TrainDigest = '''',
     ft_ValidationDigest = '''', ft_DataDigest = '''', ft_SelectionRationale = ''''\<rparr>"

lemma sample_fit_valid: "validateFit sample_fit (sp_AllowedTuning sealed_spec) = None"
proof -
  have "parameterChoiceKey [(''window'', ''10'')] = ''window=10''" by code_simp
  then show ?thesis
    by (simp add: validateFit_def sample_fit_def sealed_spec_def MaxFoldArtifactBytes_def parameter_error_def failure_def)
qed

definition counting_runner :: "nat study_runner" where
  "counting_runner = \<lparr>sr_evidence = sample_evidence_env, sr_Number = (\<lambda>_. ''0''),
     sr_NewFoldRunner = (\<lambda>_ n. (Some (RunnerPointer n), Suc n)), sr_FitAndSelect = (\<lambda>_ _ _ _ _ n. (Inr sample_fit, n)),
     sr_Test = (\<lambda>_ _ _ _ n. (Inr JNull, n)), sr_RegimeContributions = (\<lambda>_. []), sr_SymbolContributions = (\<lambda>_. [])\<rparr>"

definition sample_decision :: "nat \<Rightarrow> FrozenDecision" where
  "sample_decision i = \<lparr>fd_FoldIndex = int i, fd_Choice = ''window=10'', fd_Parameters = [(''window'', ''10'')], fd_FitDigest = hex64,
     fd_SelectionDigest = hex64, fd_ArtifactDigest = hex64, fd_TrainDigest = '''', fd_ValidationDigest = '''', fd_TestDigest = hex64,
     fd_DataDigest = '''', fd_SelectionRationale = ''''\<rparr>"

definition sample_result :: ResearchResult where
  "sample_result = \<lparr>rr_SchemaVersion = EvidenceSchemaVersion, rr_ExperimentID = hex64,
     rr_Folds = map (\<lambda>i. \<lparr>fr_Fold = sample_fold i, fr_Frozen = sample_decision i, fr_Primitives = JNull, fr_Metrics = JNull,
       fr_WorstRegime = '''', fr_WorstSymbol = ''''\<rparr>) [0, 1, 2],
     rr_Aggregate = \<lparr>ea_Members = [], ea_Passed = True\<rparr>\<rparr>"

lemma counting_fields [simp]: "sr_evidence counting_runner = sample_evidence_env"
  "sr_NewFoldRunner counting_runner w n = (Some (RunnerPointer n), Suc n)"
  "sr_FitAndSelect counting_runner r w train validation allowed n = (Inr sample_fit, n)"
  "sr_Test counting_runner r w a test n = (Inr JNull, n)" "minimumFloatKey (sr_RegimeContributions counting_runner x) = ''''"
  "minimumFloatKey (sr_SymbolContributions counting_runner x) = ''''" "ee_DeriveFoldMetrics sample_evidence_env x = Inr x"
  "ee_ValidateFoldMetrics sample_evidence_env x q = None" "ee_Evaluate sample_evidence_env fs spec = Inr \<lparr>ea_Members = [], ea_Passed = True\<rparr>"
  by (simp_all add: counting_runner_def minimumFloatKey_def sample_evidence_env_def)

lemma sample_decided: "frozen_decision counting_runner sealed_spec (sample_fold i) split sample_fit = Inr (sample_decision i)"
proof -
  have "digest study_sample_env ''a'' = hex64" by (simp add: digest_def study_sample_env_def sample_hash_def)
  then show ?thesis
    by (simp add: frozen_decision_def sample_fit_valid sampleDigest_def canonicalDigest_def ignoring_def Let_def)
      (simp add: sample_fit_def sample_decision_def sample_fold_def Let_def)
qed

lemma sample_frozen:
  assumes "SplitFold samples (sample_fold i) 1 2 = Inr split" and "validateSplit split (sp_Samples sealed_spec) = None"
    and "RunnerPointer n \<notin> set seen"
  shows "freeze_fold counting_runner sealed_spec samples seen (sample_fold i) n =
    (Inr \<lparr>zf_Decision = sample_decision i, zf_Split = split, zf_Runner = RunnerPointer n, zf_Artifact = ''a''\<rparr>, Suc n)"
proof -
  have "sp_Purge sealed_spec = 1" "sp_Embargo sealed_spec = 2" by (simp_all add: sealed_spec_def sample_spec_def)
  then show ?thesis using assms by (simp add: freeze_fold_def reused_def sample_decided) (simp add: sample_fit_def)
qed

lemma walk_run:
  assumes "validateSamples samples 2 2 = None"
    and "SplitFold samples (sample_fold 0) 1 2 = Inr s0" "validateSplit s0 (sp_Samples sealed_spec) = None"
    and "SplitFold samples (sample_fold 1) 1 2 = Inr s1" "validateSplit s1 (sp_Samples sealed_spec) = None"
    and "SplitFold samples (sample_fold 2) 1 2 = Inr s2" "validateSplit s2 (sp_Samples sealed_spec) = None"
  shows "RunWalkForward counting_runner sealed_sample samples 0 = (Inr sample_result, 3)"
proof -
  have spec: "sp_Folds sealed_spec = [sample_fold 0, sample_fold 1, sample_fold 2]" "sp_FeatureHorizon sealed_spec = 2"
    "sp_LabelHorizon sealed_spec = 2"
    by (simp_all add: sealed_spec_def sample_spec_def)
  show ?thesis
    using assms(1)
    by (simp add: RunWalkForward_def sealed_verifies spec sample_frozen [OF assms(2,3)] sample_frozen [OF assms(4,5)]
      sample_frozen [OF assms(6,7)] scored_fold_def Let_def del: One_nat_def) (simp add: sample_result_def)
qed

lemma sample_runs_done:
  "RunWalkForward counting_runner sealed_sample (windows ''up'') 0 = (Inr sample_result, 3)"
  "RunWalkForward counting_runner sealed_sample (windows ''down'') 0 = (Inr sample_result, 3)"
  by (rule walk_run [OF windows_valid(1) windows_split(1) windows_fit windows_split(2) windows_fit windows_split(3) windows_fit],
      rule walk_run [OF windows_valid(2) windows_split(4) windows_fit windows_split(5) windows_fit windows_split(6) windows_fit])

section \<open>A job whose source fails\<close>

definition failing_job :: "nat job_service" where
  "failing_job = \<lparr>jb_runner = counting_runner, jb_has_source = True,
     jb_Load = (\<lambda>_ n. (Inl (DiagnosticError ''incomplete_coverage'' '''' ''gap''), Suc n)),
     jb_RecordML = (\<lambda>_ _ _ _ n. (MLRecorded, n)), jb_Now = 9000\<rparr>"

lemma job_failed:
  "job_Run failing_job hex64 registered_sample 0 = ((Some failed_evidence, Some (JobError failed_run)), concluded_sample, 1)"
proof -
  have run: "jb_has_source failing_job" "jb_runner failing_job = counting_runner" "jb_Now failing_job = 9000"
    "jb_Load failing_job m n = (Inl (DiagnosticError ''incomplete_coverage'' '''' ''gap''), Suc n)" for m n
    by (simp_all add: failing_job_def)
  have "HasCompletedOutcome registry_env hex64 registered_sample = Inr False" by (simp add: HasCompletedOutcome_def rp_exec_def)
  then show ?thesis
    using concluded(1)
    by (simp add: job_Run_def run registered_loads persistFailure_def failed_run_def [symmetric] Let_def)
qed

end
