(* ===== verification/Walkforward_Properties.thy ===== *)
theory Walkforward_Properties
  imports Walkforward_Laws Walkforward_Samples
begin

text \<open>Runs of an experiment: what they freeze, what they record and how they answer.\<close>

section \<open>Decisions\<close>

lemma frozen_of_run:
  assumes "freeze_folds E spec samples [] ws m = (Inr zs, m1)" and "test_folds E spec (zip zs ws) m1 = (Inr fs, m2)"
  shows "map fr_Frozen fs = map zf_Decision zs" "map fr_Fold fs = ws" "map (fd_FoldIndex \<circ> fr_Frozen) fs = map fo_Index ws"
proof -
  note shape = freeze_folds_shape [OF assms(1)]
  show "map fr_Frozen fs = map zf_Decision zs" "map fr_Fold fs = ws"
    using test_folds_Inr [OF assms(2)] shape by (simp_all flip: map_map)
  then show "map (fd_FoldIndex \<circ> fr_Frozen) fs = map fo_Index ws" using shape by (simp flip: map_map)
qed

lemma same_study: "trained_on (verified_in_place w spec) samples = trained_on spec samples"
  by (simp add: fun_eq_iff trained_on_def verified_in_place_def split: sum.split prod.split)

text \<open>C38: No decision can depend on test samples: two runs of the same manifest on data that agree on what each fold may
  train and validate on freeze the same decisions, fold by fold, whatever the test samples are; only the digest that
  commits to the test samples may differ.\<close>

theorem decisions_ignore_tests:
  assumes "RunWalkForward E m samples world = (Inr r, w1)" and "RunWalkForward E m samples' world = (Inr r', w1')"
    and "\<And>w. w \<in> set (sp_Folds (em_Spec m)) \<Longrightarrow> trained_on (em_Spec m) samples' w = trained_on (em_Spec m) samples w"
  shows "map (untested \<circ> fr_Frozen) (rr_Folds r') = map (untested \<circ> fr_Frozen) (rr_Folds r)"
proof -
  let ?spec = "verified_in_place (sr_study E) (em_Spec m)"
  obtain zs w2 where z: "freeze_folds E ?spec samples [] (sp_Folds (em_Spec m)) world = (Inr zs, w2)"
      "test_folds E ?spec (zip zs (sp_Folds (em_Spec m))) w2 = (Inr (rr_Folds r), w1)"
    by (rule RunWalkForward_Inr [OF assms(1)])
  obtain zs' w2' where z': "freeze_folds E ?spec samples' [] (sp_Folds (em_Spec m)) world = (Inr zs', w2')"
      "test_folds E ?spec (zip zs' (sp_Folds (em_Spec m))) w2' = (Inr (rr_Folds r'), w1')"
    by (rule RunWalkForward_Inr [OF assms(2)])
  have "map committed zs' = map committed zs"
    using freeze_folds_blind [OF z(1) z'(1)] assms(3) by (simp add: same_study)
  then have "map (fst \<circ> committed) zs' = map (fst \<circ> committed) zs" by (metis map_map)
  then have "map (untested \<circ> zf_Decision) zs' = map (untested \<circ> zf_Decision) zs" by (simp add: committed_def comp_def)
  then show ?thesis
    using frozen_of_run(1) [OF z] frozen_of_run(1) [OF z'] by (metis map_map)
qed

theorem decisions_ignore_tests_witness:
  "map (untested \<circ> fr_Frozen) (rr_Folds (projr (fst (RunWalkForward counting_runner sealed_sample (windows ''down'') 0)))) =
     map (untested \<circ> fr_Frozen) (rr_Folds (projr (fst (RunWalkForward counting_runner sealed_sample (windows ''up'') 0))))"
proof -
  have spec: "sp_Folds sealed_spec = [sample_fold 0, sample_fold 1, sample_fold 2]" "sp_Purge sealed_spec = 1" "sp_Embargo sealed_spec = 2"
    by (simp_all add: sealed_spec_def sample_spec_def)
  have "trained_on sealed_spec (windows ''down'') (sample_fold 0) = trained_on sealed_spec (windows ''up'') (sample_fold 0)"
    "trained_on sealed_spec (windows ''down'') (sample_fold 1) = trained_on sealed_spec (windows ''up'') (sample_fold 1)"
    "trained_on sealed_spec (windows ''down'') (sample_fold 2) = trained_on sealed_spec (windows ''up'') (sample_fold 2)"
    unfolding trained_on_def spec windows_split window_split_def by simp_all
  then have "trained_on (em_Spec sealed_sample) (windows ''down'') w = trained_on (em_Spec sealed_sample) (windows ''up'') w"
    if "w \<in> set (sp_Folds (em_Spec sealed_sample))" for w
    using that unfolding sealed_fields spec by (metis empty_iff insertE list.set)
  then show ?thesis
    unfolding sample_runs_done fst_conv sum.sel by (rule decisions_ignore_tests [OF sample_runs_done])
qed

section \<open>Results\<close>



section \<open>Jobs\<close>

text \<open>An experiment with an outcome is not run again: the job answers an error, and neither the database nor the memory of
  the source and the runners is touched.\<close>

theorem finished_experiment_stays_finished:
  assumes "oc \<in> set (rs_outcomes st)" and "oc_ExperimentID oc = i"
  shows "\<exists>e. job_Run S i st world = ((None, Some e), st, world)"
proof -
  have "list_ex (\<lambda>x. oc_ExperimentID x = i) (rs_outcomes st)" using assms by (auto simp: list_ex_iff)
  then show ?thesis
    by (auto simp: job_Run_def Let_def HasCompletedOutcome_def and_then_def elim!: LoadManifest_Inr split: sum.splits bool.splits)
qed

theorem finished_experiment_stays_finished_witness:
  "snd (job_Run failing_job hex64 concluded_sample (0 :: nat)) = (concluded_sample, 0)"
proof -
  have "failed_outcome 9000 \<in> set (rs_outcomes concluded_sample)" "oc_ExperimentID (failed_outcome 9000) = hex64"
    by (simp_all add: failed_outcome_def)
  from finished_experiment_stays_finished [OF this, of failing_job 0] show ?thesis by (elim exE) simp
qed

lemma persistFailure_cases:
  assumes "persistFailure S i original now st = ((answer, err), st')" and "research_inv st"
  shows "research_inv st' \<and> accrues st st' \<and> err \<noteq> None \<and> (\<forall>e. answer = Some e \<longrightarrow> ld_Status e = ''failed'' \<and>
    (\<exists>v \<in> set (rs_evidences st'). ve_ExperimentID v = i \<and> ve_ID v = ld_ID e \<and> ve_Status v = ''failed''))"
proof (cases "PersistEvidence (jb_evidence S) i None (Some original) now st")
  case (Pair r st2)
  have kept: "research_inv st2 \<and> accrues st st2" using PersistEvidence_keeps [OF assms(2), of "jb_evidence S" i None "Some original" now] Pair by simp
  show ?thesis
  proof (cases r)
    case (Inr e)
    obtain row where "row \<in> set (rs_evidences st2)" "ve_ExperimentID row = i" "ld_ID e = ve_ID row" "ld_Status e = ve_Status row"
        "ve_Status row = ''failed''"
      using PersistEvidence_stored [OF Pair [unfolded Inr] assms(2)] by auto
    then show ?thesis using assms(1) Pair Inr kept by (auto simp: persistFailure_def)
  qed (use assms(1) Pair kept in \<open>auto simp: persistFailure_def\<close>)
qed

text \<open>What the answer of a job says of the state it leaves.\<close>

definition honest :: "string \<Rightarrow> job_answer \<Rightarrow> research \<Rightarrow> bool" where
  "honest i answer st \<longleftrightarrow> (case answer of
     (Some e, err) \<Rightarrow> ld_Status e = (if err = None then ''passed'' else ''failed'') \<and>
       (\<exists>v \<in> set (rs_evidences st). ve_ExperimentID v = i \<and> ve_ID v = ld_ID e \<and> ve_Status v = ld_Status e)
   | (None, err) \<Rightarrow> err \<noteq> None)"

lemma persistFailure_honest:
  assumes "persistFailure S i original now st = (answer, st')" and "research_inv st"
  shows "research_inv st' \<and> accrues st st' \<and> honest i answer st'"
  using persistFailure_cases [of S i original now st "fst answer" "snd answer" st'] assms
  by (auto simp: honest_def split: option.splits prod.splits)

lemma persistResult_honest:
  assumes "persistResult S m result now st = (answer, st')" and "research_inv st"
  shows "research_inv st' \<and> accrues st st' \<and> honest (em_ID m) answer st'"
proof (cases "PersistEvidence (jb_evidence S) (em_ID m) (Some result) None now st")
  case (Pair r st2)
  have kept: "research_inv st2 \<and> accrues st st2" using PersistEvidence_keeps [OF assms(2), of "jb_evidence S" "em_ID m" "Some result" None now] Pair by simp
  show ?thesis
  proof (cases r)
    case (Inr e)
    obtain row where "row \<in> set (rs_evidences st2)" "ve_ExperimentID row = em_ID m" "ld_ID e = ve_ID row" "ld_Status e = ve_Status row"
        "ve_Status row = ''passed''"
      using PersistEvidence_stored [OF Pair [unfolded Inr] assms(2)] by auto
    then show ?thesis using assms(1) Pair Inr kept by (auto simp: persistResult_def honest_def)
  next
    case (Inl e)
    show ?thesis
    proof (cases e)
      case (ResultValidation c)
      then have "persistFailure S (em_ID m) e now st2 = (answer, st')" using assms(1) Pair Inl by (simp add: persistResult_def)
      then show ?thesis using persistFailure_honest kept accrues_trans by blast
    qed (use assms(1) Pair kept Inl in \<open>auto simp: persistResult_def honest_def\<close>)
  qed
qed

lemma record_run_honest:
  assumes "record_run S m result st world = (answer, st', world')" and "research_inv st"
  shows "research_inv st' \<and> accrues st st' \<and> honest (em_ID m) answer st'"
proof -
  obtain a s where finish: "persistResult S m result (jb_Now S) st = (a, s)" by fastforce
  note finished = persistResult_honest [OF finish assms(2)]
  show ?thesis
  proof (cases "sp_Model (em_Spec m) = None")
    case True
    then show ?thesis using assms(1) finish finished by (simp add: record_run_def)
  next
    case False
    obtain ml w where ml: "jb_RecordML S m result (jb_Now S) st world = (ml, w)" by fastforce
    show ?thesis
    proof (cases ml)
      case (MLFailed e)
      obtain b t where failed: "persistFailure S (em_ID m) (EvidenceError e) (jb_Now S) st = (b, t)" by fastforce
      then show ?thesis
        using assms(1) False ml MLFailed persistFailure_honest [OF failed assms(2)] by (simp add: record_run_def)
    qed (use assms False ml finish finished in \<open>auto simp: record_run_def honest_def\<close>)
  qed
qed

text \<open>The ways a job ends: refused before anything runs, given up with its error, or recorded.\<close>

lemma job_Run_cases:
  obtains (refused) e where "job_Run S i st world = ((None, Some e), st, world)"
    | (gave_up) e w where "job_Run S i st world =
        (case persistFailure S i e (jb_Now S) st of (answer, st) \<Rightarrow> (answer, st, w))"
    | (recorded) m result w where "em_ID m = i" "job_Run S i st world = record_run S m result st w"
proof (cases "LoadManifest (ee_repo (jb_evidence S)) i st")
  case (Inl e)
  show thesis
  proof (cases "jb_has_source S")
    case True
    show thesis by (rule refused) (simp add: job_Run_def Inl True)
  next
    case False
    show thesis by (rule refused) (simp add: job_Run_def False)
  qed
next
  case (Inr m)
  have m: "em_ID m = i" by (rule LoadManifest_Inr [OF Inr])
  note run = job_Run_def Let_def Inr m
  show thesis
  proof (cases "jb_has_source S \<and> HasCompletedOutcome (ee_repo (jb_evidence S)) i st = Inr False")
    case False
    have "\<exists>e. job_Run S i st world = ((None, Some e), st, world)"
      using False by (auto simp: run split: sum.splits bool.splits)
    then show thesis using refused by blast
  next
    case True
    obtain loaded w where load: "jb_Load S m world = (loaded, w)" by fastforce
    show thesis
    proof (cases loaded)
      case (Inl e)
      show thesis by (rule gave_up) (simp add: run True load Inl)
    next
      case (Inr samples)
      obtain ran w2 where ran: "RunWalkForward (jb_runner S) m samples w = (ran, w2)" by fastforce
      note runs = run True load \<open>loaded = Inr samples\<close> ran
      show thesis
      proof (cases ran)
        case (Inl e)
        show thesis by (rule gave_up) (simp add: runs Inl)
      next
        case (Inr result)
        show thesis by (rule recorded [OF m]) (simp add: runs Inr)
      qed
    qed
  qed
qed

text \<open>C40: A job answers what it recorded: when it returns evidence without an error, a pass is stored for the experiment under
  that identity; with an error, a failure is stored; without evidence there is an error. The tables stay consistent and
  keep every row.\<close>

theorem job_answer_is_honest:
  assumes "unresearched st0" and "rtranclp research_step st0 st" and "job_Run S i st world = (answer, st', world')"
  shows "honest i answer st' \<and> accrues st st' \<and> research_inv st'"
proof -
  have inv: "research_inv st" using research_steps_keep [OF assms(2) unresearched_inv [OF assms(1)]] by blast
  show ?thesis
  proof (cases rule: job_Run_cases [of S i st world])
    case (refused e)
    then show ?thesis using assms(3) inv by (auto simp: honest_def)
  next
    case (gave_up e w)
    then have "persistFailure S i e (jb_Now S) st = (answer, st')" using assms(3) by (auto split: prod.splits)
    then show ?thesis using persistFailure_honest inv by blast
  next
    case (recorded m result w)
    then show ?thesis using record_run_honest [OF _ inv] assms(3) by metis
  qed
qed

theorem job_answer_is_honest_witness:
  "honest hex64 (Some failed_evidence, Some (JobError failed_run)) concluded_sample \<and> accrues registered_sample concluded_sample"
  using job_answer_is_honest [OF registry_start registered_steps job_failed] by blast

end
