(* ===== verification/Spec2Isabelle.thy ===== *)
theory Spec2Isabelle
  imports Risk_Properties Risk_Liveness Exits Broker_Laws Orchestrator_Laws Cutover Ledger_Properties Ledger_Book
    Ledger_Findings Reconcile_Laws Number_Properties Pipeline Close_Properties Plan_Properties Fold_Properties Governance_Properties
    Registry_Properties Walkforward_Properties
begin

text \<open>
  A verification library for the money path of a trading platform written in Go: how a strategy's decisions become
  approved orders, how orders become fills, and how fills become cash, positions and an immutable history; and of the path
  to capital: how an experiment is sealed, registered, run and recorded, and its strategy promoted step by step. The modelled code is
  \<^verbatim>\<open>internal/accounting\<close>, \<^verbatim>\<open>internal/tradingcore\<close>, \<^verbatim>\<open>internal/ledger\<close>, \<^verbatim>\<open>internal/cutover/flags.go\<close>,
  \<^verbatim>\<open>internal/services/execution_coordinator.go\<close>, \<^verbatim>\<open>internal/database/ledger_seed.go\<close>, \<^verbatim>\<open>internal/operations/backfill.go\<close>,
  \<^verbatim>\<open>internal/validation\<close> (manifests, folds, runs, evidence and jobs) and \<^verbatim>\<open>internal/governance/service.go\<close>.

  \<^bold>\<open>How the parts interact.\<close> The orchestrator (\<^verbatim>\<open>orchestrator.go\<close>, theory \<open>Orchestrator\<close>) reads a decision context, asks the
  strategy for order intents, the portfolio risk engine (\<^verbatim>\<open>risk.go\<close>, \<open>Risk\<close>) to approve, shrink or reject them, a broker
  (\<^verbatim>\<open>brokers.go\<close>, \<open>Brokers\<close>) to execute the approved batch, and the ledger to record the outcome. The ledger's adapter
  (\<^verbatim>\<open>ledger/tradingcore_adapter.go\<close>, \<open>Ledger_Adapter\<close>) validates the outcome against the approved batch and books it in one
  transaction of fills (\<^verbatim>\<open>ledger/service.go\<close>, \<open>Ledger\<close>). Administrative operations (\<^verbatim>\<open>adjustment.go\<close>, \<^verbatim>\<open>correction.go\<close>,
  \<open>Ledger_Admin\<close>) change the same store; \<^verbatim>\<open>reconcile.go\<close> (\<open>Reconcile\<close>) compares the projections with the events. The
  execution coordinator (\<^verbatim>\<open>services/execution_coordinator.go\<close>, \<open>Close\<close>) closes open positions through the same ledger. The
  rollout flags (\<open>Cutover\<close>) say which of these paths may touch capital. The strategy, clocks, identifier generators, the
  JSON encoder and the database's answers are parameters.

  \<^bold>\<open>Numbers and values.\<close> \<open>Accounting\<close> models \<^verbatim>\<open>accounting/decimal.go\<close> (integers in units of the eighteenth place), \<open>Values\<close> and
  \<open>Exact\<close> model \<^verbatim>\<open>tradingcore/values.go\<close> and \<^verbatim>\<open>exact.go\<close> (coefficient text and scale; big.Rat as rationals), \<open>Snapshots\<close> and
  \<open>Contracts\<close> the records of \<^verbatim>\<open>snapshots.go\<close> and \<^verbatim>\<open>contracts.go\<close> with their validating constructors. Both rounding routines
  interpret the locale \<open>rounding_division\<close> of \<open>Rounding\<close>. Go's int64 and uint64 are words, so the wrap-around of a sum is
  in the model; a nil pointer or map is None; errors are the left values of a sum and a panic is an error of its own.
  Maps Go ranges over are association lists, and the results are sorted where the code sorts them. \<open>Prelude\<close> and
  \<open>Go_Strings\<close> hold what these share, with the locale \<open>ordered_collection\<close> for the constructors that validate and sort.

  \<^bold>\<open>The store.\<close> \<open>Store\<close> models the rows of \<^verbatim>\<open>database/models.go\<close> the ledger uses as one record of tables, with the unique and
  check constraints on writes. A statement asks the environment whether the database fails it (\<open>env_db\<close>), a transaction
  keeps the store on an error, a row lock is the transaction itself: each operation is one atomic step, which is what
  the serialising account lock gives. A command is prepared (defaults, validation, clock, digest) and then runs in a
  transaction that claims its idempotency key, replays it or posts it (\<open>claim_or_replay\<close>).

  \<^bold>\<open>Opening.\<close> A store begins with a seed (\<^verbatim>\<open>ledger_seed.go\<close>) or, when it is older than the ledger, with a backfill
  (\<^verbatim>\<open>ledger/backfill.go\<close>; both in \<open>Opening\<close>): one deposit of the observed cash. An operator's backfill is planned, approved with
  its digest and applied (\<^verbatim>\<open>operations/backfill.go\<close> with the database function that finalizes it, \<open>Plans\<close>). \<open>Opening_Laws\<close>,
  \<open>Opening_Properties\<close> and \<open>Plan_Properties\<close> show that an account is opened exactly once, with exact projections, and only with
  an approval of the very report.

  \<^bold>\<open>Experiments and promotion.\<close> \<open>Experiments\<close> and \<open>Manifests\<close> model \<^verbatim>\<open>validation/types.go\<close>, \<^verbatim>\<open>policy.go\<close> and \<^verbatim>\<open>manifest.go\<close>: a
  specification is validated, brought into a canonical form and sealed by its digest; \<open>Floats\<close> is the comparison of binary64
  values on bit patterns, which is all of floating point this needs. \<open>Folds\<close> models the splitting of samples in
  \<^verbatim>\<open>walkforward.go\<close>. \<open>Manifest_Laws\<close> shows the canonical form to be a fixed point, \<open>Fold_Properties\<close> that a sealed manifest
  verifies and that its folds leak nothing from a later window into an earlier one. \<open>Governance\<close> and \<open>Governance_Service\<close> model
  \<^verbatim>\<open>governance/service.go\<close> over its four tables, with their constraints and the trigger on deployments; \<open>Governance_Laws\<close> has the
  invariant, and \<open>Governance_Properties\<close> the locale \<open>governed\<close>, the contract of its four operations, and over steps of all of
  them that rollout climbs the ladder one approved step at a time. \<open>Study_Samples\<close> and \<open>Governance_Samples\<close> are a concrete
  experiment and its way from research to paper and back.

  \<^bold>\<open>Running an experiment.\<close> \<open>Registry\<close> models the registering half of \<^verbatim>\<open>validation/repository.go\<close> over the eight research
  tables: an experiment, its attempt in the family of its hypothesis, and for a confirmatory one the lock on the family's
  holdout and its use, in one transaction. \<open>Evidence\<close> models \<^verbatim>\<open>evidence_envelope.go\<close> and the other half: a result is validated
  against the manifest, cut into a root and one row per fold, written once with the outcome, and verified again on loading.
  \<open>Walkforward\<close> is \<^verbatim>\<open>RunWalkForward\<close>, which freezes every fold before it tests any, over runners that share a memory; \<open>Jobs\<close> is
  \<^verbatim>\<open>job.go\<close>, which loads, runs and records. \<open>Registry_Laws\<close> and \<open>Evidence_Laws\<close> have the invariant of the tables, that rows are only
  added, and the locale \<open>research_operation\<close>, the contract of both writers; \<open>Walkforward_Laws\<close> what a run depends on.
  \<open>Registry_Properties\<close> shows, over every interleaving of the writers, that each run counts once, that a holdout is used once, that
  an outcome is final and that loaded evidence was derived again; \<open>Walkforward_Properties\<close> that decisions cannot see test
  samples, that a run's result is accepted and that a job answers what it stored. \<open>Registry_Samples\<close> and
  \<open>Walkforward_Samples\<close> register, run and conclude the concrete experiment.

  \<^bold>\<open>What is shown.\<close> Numbers (\<open>Number_Properties\<close>): round trips, one rounding per operation, and that the risk engine's
  notional is the ledger's gross amount. Risk (\<open>Risk_Laws\<close>, \<open>Risk_Properties\<close>, \<open>Risk_Liveness\<close>): approvals together
  respect every limit, and an order is refused or shrunk only when it must be. Brokers (\<open>Broker_Laws\<close>): the locale \<open>broker\<close> is the contract of the
  interface, interpreted by all five brokers; prices are adverse, quantities conserved. Orchestrator (\<open>Orchestrator_Laws\<close>):
  which failures are safe to retry, and conservation of intents. Ledger (\<open>Ledger_Laws\<close>, \<open>Ledger_Ops\<close>, \<open>Adapter_Laws\<close>): the
  locales \<open>ledger_writer\<close> and its extensions are the contract of a transactional, idempotent writer, interpreted by the
  four operations and the recording of outcomes. On top, \<open>Ledger_Steps\<close> makes the ledger a state machine with the invariant
  that every projection is the sum of the events, \<open>Ledger_Live\<close> proves when a fill goes through, \<open>Outcome_Laws\<close> what a validated outcome
  guarantees, \<open>Ledger_Properties\<close> states the results and \<open>Ledger_Book\<close> that fills refine an abstract book. \<open>Reconcile_Laws\<close>
  shows the report exact and the ledger balanced. Closing a position is two transactions that a crash or a lost
  acknowledgement can separate: \<open>Close_Laws\<close> has the invariant of the reservations and the locale \<open>closing\<close>, the contract of
  every operation of the coordinator, and \<open>Close_Properties\<close> the results, over steps of the coordinator interleaved with
  those of the ledger. \<open>Pipeline\<close> and the theorem below put risk engine, broker and ledger
  together. \<open>Exits\<close> and \<open>Cutover\<close> hold their component with its properties. \<open>Samples\<close>, \<open>Ledger_Samples\<close> and
  \<open>Close_Samples\<close> are the concrete situations the witnesses evaluate.

  \<^bold>\<open>Bounds.\<close> There is no fuel: every loop of the modelled code runs over a list, so all functions are total. The
  hypotheses on basis points (\<open>sane_costs\<close>, slippage below 2 to the 62) keep the sums the code forms from wrapping. The
  exact limits of the risk engine need a lot size; without one the last rounding may exceed a cap by half a unit of the
  eighteenth place. The exactness of the ledger excludes reversals that strand a cost basis (\<open>no_stranded_basis\<close>);
  \<open>Ledger_Findings\<close> shows that the shipped code lets one through.

  \<^bold>\<open>Not modelled.\<close> The strategies and the backtest engine compute on binary floating point and are parameters or out of scope;
  the mirrors of exact amounts in float64 columns are uninterpreted functions of the exact value. SQL text, migrations,
  connection pools, HTTP handlers, schedulers, exchange clients and AI providers are input and output. The strings are
  bytes; case folds as in ASCII, with the two non-ASCII letters that fold into it. Of \<^verbatim>\<open>internal/validation\<close> the statistics
  (\<^verbatim>\<open>primitives.go\<close>, \<^verbatim>\<open>evaluation.go\<close>) are functions on the JSON of a fold for the same reason, and so is the recording of model
  evidence (\<^verbatim>\<open>ml_evidence.go\<close>); governance sees evidence as what the repository answers. A time is its instant, without
  its zone, and the column widths of the database are among its failures. \<^verbatim>\<open>cutover/parity.go\<close>, the rest of
  \<^verbatim>\<open>internal/operations\<close>, and the universes under \<^verbatim>\<open>services\<close> and \<^verbatim>\<open>pointintime\<close> are not modelled.
\<close>

section \<open>From the decision to the ledger\<close>

text \<open>C4: A decision reaches the ledger whole: when the risk engine decides a batch of paper intents of the primary
  account and the paper broker answers for what was approved, the ledger accepts the broker's outcome, and every intent
  of the batch is, exactly once, rejected by the risk engine, rejected by the broker, or planned for booking.\<close>

theorem decision_reaches_ledger:
  assumes "NewDecisionBatch is = Inr batch" and "Evaluate batch portfolio policy = Inr d"
    and "Paper_Submit (PaperBroker br) (rd_Approved d) s = (Inr out, s')" and "distinct (map oi_ID is)"
    and "\<forall>i \<in> set is. oi_ExecutionMode i = ExecutionPaper \<and> requirePrimaryAccount (oi_AccountID i) = None"
    and "cm_Version (sb_Costs br) \<noteq> ''''" and "distinct (provider_ids (bo_Accepted out))"
  shows "\<exists>plan identity h. validateBrokerOutcome env (rd_Approved d) out = Inr (plan, identity, h) \<and>
    map op_accepted plan = bo_Accepted out \<and>
    mset (map oi_ID is) = mset (map or_OrderID (rd_Rejected d)) + mset (map or_OrderID (bo_Rejected out)) +
      mset (map (ao_OrderID \<circ> op_accepted) plan)"
proof -
  have ids: "mset (map oi_ID is) = mset (map oi_ID (db_Intents (rd_Approved d))) + mset (map or_OrderID (rd_Rejected d))"
    by (rule approved_ids [OF assms(1,2)])
  then have "mset (map oi_ID is) = mset (map oi_ID (db_Intents (rd_Approved d)) @ map or_OrderID (rd_Rejected d))" by simp
  then have "distinct (map oi_ID (db_Intents (rd_Approved d)) @ map or_OrderID (rd_Rejected d))"
    using assms(4) mset_eq_imp_distinct_iff by blast
  then have distinct: "distinct (map oi_ID (db_Intents (rd_Approved d)))" by simp
  have ok: "\<forall>a \<in> set (db_Intents (rd_Approved d)). bookable a" using approved_bookable [OF assms(1,2) _ assms(5)] by blast
  have sub: "Simulation_Submit br (rd_Approved d) s = (Inr out, s')" using assms(3) by (simp add: Paper_Submit_def)
  from outcome_bookable [OF sub distinct ok assms(6,7), of env] obtain plan identity h where
    v: "validateBrokerOutcome env (rd_Approved d) out = Inr (plan, identity, h)" by blast
  have plan: "map op_accepted plan = bo_Accepted out" by (rule validateBrokerOutcome_Inr(4) [OF v])
  have "map (ao_OrderID \<circ> op_accepted) plan = map ao_OrderID (bo_Accepted out)" unfolding plan [symmetric] by simp
  then have booked: "mset (map (ao_OrderID \<circ> op_accepted) plan) = mset (map ao_OrderID (bo_Accepted out))" by (simp only:)
  have "mset (map oi_ID is) = mset (map or_OrderID (rd_Rejected d)) + mset (map or_OrderID (bo_Rejected out)) +
      mset (map (ao_OrderID \<circ> op_accepted) plan)"
    unfolding booked ids simulation.resolves [OF sub, symmetric] by (simp only: ac_simps)
  with v plan show ?thesis by blast
qed

theorem decision_reaches_ledger_witness:
  "\<exists>d out plan identity h. Evaluate (DecisionBatch [small_intent]) sample_portfolio sample_policy = Inr d
     \<and> validateBrokerOutcome sample_env (rd_Approved d) out = Inr (plan, identity, h)
     \<and> map (ao_OrderID \<circ> op_accepted) plan = [''a'']"
proof -
  obtain d a out where run: "Evaluate (DecisionBatch [small_intent]) sample_portfolio sample_policy = Inr d"
    "db_Intents (rd_Approved d) = [a]" "rd_Rejected d = []" "oi_ID a = ''a''"
    "Paper_Submit (PaperBroker small_broker) (rd_Approved d) 1 = (Inr out, 2)"
    "bo_Rejected out = []" "distinct (provider_ids (bo_Accepted out))"
    by (rule small_run)
  have facts: "distinct (map oi_ID [small_intent])" "cm_Version (sb_Costs small_broker) \<noteq> ''''"
    "\<forall>i \<in> set [small_intent]. oi_ExecutionMode i = ExecutionPaper \<and> requirePrimaryAccount (oi_AccountID i) = None"
    by code_simp+
  obtain plan identity h where v: "validateBrokerOutcome sample_env (rd_Approved d) out = Inr (plan, identity, h)"
    and ids: "{#''a''#} = mset (map (ao_OrderID \<circ> op_accepted) plan)"
    using decision_reaches_ledger [OF small_costs(2) run(1,5) facts(1,3,2) run(7), of sample_env] run(3,6)
    by (auto simp: small_intent_def sample_intent_def)
  have "map (ao_OrderID \<circ> op_accepted) plan = [''a'']" using ids by (metis mset_single_iff)
  then show ?thesis by (intro exI conjI) (rule run(1), rule v)
qed

end
